(* ===== verification/Prelude.thy ===== *)
theory Prelude
  imports Main "HOL-Library.Word" "HOL-Library.Monad_Syntax"
begin

text \<open>
  The shared vocabulary of the development: names for the machine types the C++ code uses,
  the bounds-checked span operations every byte-level component is written with, and the
  generic list lemmas their proofs share.

  Conventions. A \<^verbatim>\<open>size_t\<close> is a \<^typ>\<open>nat\<close>; where an operation of the source can
  wrap around, the model writes the reduction modulo \<^term>\<open>(2::nat) ^ 64\<close> out. A pointer or
  span access outside its buffer is undefined behaviour in C++; the model returns
  \<^term>\<open>None\<close> there, so that "the code never reads or writes out of bounds" is the
  statement that a function returns \<^term>\<open>Some y\<close> for some \<open>y\<close>.
\<close>

unbundle bit_operations_syntax

type_synonym u8 = "8 word"
type_synonym u16 = "16 word"
type_synonym u32 = "32 word"
type_synonym u64 = "64 word"
type_synonym bytes = "8 word list"
type_synonym size_t = nat

named_theorems span_simps "bounds-checked span operations that succeed"
named_theorems model_defs "definitions of the model that proofs unfold"

definition SIZE_MAX :: nat where
  "SIZE_MAX = 2 ^ 64 - 1"

definition wrap64 :: "nat \<Rightarrow> nat" where
  "wrap64 n = n mod 2 ^ 64"

definition size_sub :: "nat \<Rightarrow> nat \<Rightarrow> nat" where
  "size_sub a b = (if b \<le> a then a - b else wrap64 (a + 2 ^ 64 - b))"

lemma wrap64_id [simp]: "n < 2 ^ 64 \<Longrightarrow> wrap64 n = n"
  by (simp add: wrap64_def)

lemma wrap64_less: "wrap64 n < 2 ^ 64"
  by (simp add: wrap64_def)

lemma size_sub_id [simp]: "b \<le> a \<Longrightarrow> size_sub a b = a - b"
  by (simp add: size_sub_def)

section \<open>Spans\<close>

text \<open>
  \<^verbatim>\<open>boost::span\<close> and raw pointer accesses: reading an element, taking a sub-range and
  storing a run of elements. Each is \<^term>\<open>None\<close> when it leaves the buffer.
\<close>

definition elem_at :: "'a list \<Rightarrow> nat \<Rightarrow> 'a option" where
  "elem_at xs i = (if i < length xs then Some (xs ! i) else None)"

definition subspan :: "'a list \<Rightarrow> nat \<Rightarrow> nat \<Rightarrow> 'a list option" where
  "subspan xs off n = (if off + n \<le> length xs then Some (take n (drop off xs)) else None)"

definition store :: "'a list \<Rightarrow> nat \<Rightarrow> 'a list \<Rightarrow> 'a list option" where
  "store buf off src =
     (if off + length src \<le> length buf
      then Some (take off buf @ src @ drop (off + length src) buf) else None)"

lemma elem_at_Some [span_simps]: "i < length xs \<Longrightarrow> elem_at xs i = Some (xs ! i)"
  by (simp add: elem_at_def)

lemma elem_at_eq_Some_iff: "elem_at xs i = Some y \<longleftrightarrow> i < length xs \<and> xs ! i = y"
  by (auto simp: elem_at_def)

lemma elem_at_None_iff: "elem_at xs i = None \<longleftrightarrow> length xs \<le> i"
  by (auto simp: elem_at_def)

lemma subspan_Some [span_simps]:
  "off + n \<le> length xs \<Longrightarrow> subspan xs off n = Some (take n (drop off xs))"
  by (simp add: subspan_def)

lemma subspan_eq_Some_iff:
  "subspan xs off n = Some ys \<longleftrightarrow> off + n \<le> length xs \<and> ys = take n (drop off xs)"
  by (auto simp: subspan_def)

lemma subspan_length: "subspan xs off n = Some ys \<Longrightarrow> length ys = n"
  by (auto simp: subspan_def split: if_splits)

lemma store_Some [span_simps]:
  "off + length src \<le> length buf \<Longrightarrow>
   store buf off src = Some (take off buf @ src @ drop (off + length src) buf)"
  by (simp add: store_def)

lemma store_length: "store buf off src = Some buf' \<Longrightarrow> length buf' = length buf"
  by (auto simp: store_def split: if_splits)

lemma store_take:
  "store buf off src = Some buf' \<Longrightarrow> take (off + length src) buf' = take off buf @ src"
  by (auto simp: store_def split: if_splits)

lemma store_prefix:
  "store buf off src = Some buf' \<Longrightarrow> k \<le> off \<Longrightarrow> take k buf' = take k buf"
  by (auto simp: store_def split: if_splits)

text \<open>
  Buffers are filled from the front: if the first \<open>off\<close> bytes are already known, storing at
  \<open>off\<close> extends the known prefix.
\<close>

lemma store_extend:
  assumes "take off buf = pre" "off \<le> length buf" "store buf off src = Some buf'"
  shows "take (off + length src) buf' = pre @ src"
  using assms by (auto simp: store_def split: if_splits)

text \<open>Two adjacent stores are one store, also when they fail.\<close>

lemma store_Cons:
  assumes "store buf off [x] = Some buf'"
  shows "store buf' (Suc off) xs = store buf off (x # xs)"
proof -
  have fits: "off < length buf" and buf': "buf' = take off buf @ x # drop (Suc off) buf"
    using assms by (auto simp: store_def split: if_splits)
  have len: "length buf' = length buf"
    using assms by (rule store_length)
  have "drop (Suc off + length xs) buf' = drop (Suc off + length xs) buf"
    using fits by (simp add: buf' ac_simps)
  moreover have "take (Suc off) buf' = take off buf @ [x]"
    using fits by (simp add: buf')
  ultimately show ?thesis
    by (simp add: store_def len)
qed

lemma store_Cons_None: "store buf off [x] = None \<Longrightarrow> store buf off (x # xs) = None"
  by (auto simp: store_def split: if_splits)

lemma store_fits: "off + length src \<le> length buf \<Longrightarrow> \<exists>buf'. store buf off src = Some buf'"
  by (simp add: store_def)

lemma store_append:
  assumes "take n buf = pre" "n + length src \<le> length buf"
  obtains buf' where "store buf n src = Some buf'" "length buf' = length buf"
    "take (n + length src) buf' = pre @ src"
  using assms store_fits [of n src buf] store_length [of buf n src] store_take [of buf n src] by blast

section \<open>Lists\<close>

lemma take_drop_split: "n \<le> m \<Longrightarrow> take n xs @ take (m - n) (drop n xs) = take m xs"
  by (metis add_diff_cancel_left' le_Suc_ex take_add)

lemma take_append_le [simp]: "n \<le> length xs \<Longrightarrow> take n (xs @ ys) = take n xs"
  by simp

lemma drop_append_le [simp]: "n \<le> length xs \<Longrightarrow> drop n (xs @ ys) = drop n xs @ ys"
  by simp

lemma length_drop_take: "a + b \<le> length xs \<Longrightarrow> length (take b (drop a xs)) = b"
  by simp

section \<open>Options\<close>

lemma bind_Some_iff: "Option.bind x f = Some y \<longleftrightarrow> (\<exists>z. x = Some z \<and> f z = Some y)"
  by (cases x) auto

lemma bind_SomeE:
  assumes "Option.bind x f = Some y"
  obtains z where "x = Some z" "f z = Some y"
  using assms by (cases x) auto

section \<open>Words\<close>

lemma unat_ucast_u8 [simp]: "unat (ucast (b :: u8) :: u64) = unat b"
  by (simp add: unsigned_ucast_eq take_bit_nat_eq_self_iff
      order.strict_trans [OF unsigned_less])

lemma unat_u64: "unat (v :: u64) < 2 ^ 64"
proof -
  have "unat v < 2 ^ LENGTH(64)" by (rule unsigned_less)
  then show ?thesis by simp
qed

lemma unat_u32: "unat (v :: u32) < 2 ^ 32"
proof -
  have "unat v < 2 ^ LENGTH(32)" by (rule unsigned_less)
  then show ?thesis by simp
qed

lemma unat_of_nat_u64: "n \<le> SIZE_MAX \<Longrightarrow> unat (of_nat n :: u64) = n"
  by (simp add: SIZE_MAX_def unsigned_of_nat take_bit_nat_eq_self_iff)

lemma unat_of_nat_u8: "n < 256 \<Longrightarrow> unat (of_nat n :: u8) = n"
  by (simp add: unsigned_of_nat take_bit_nat_eq_self_iff)

lemma unat_u8: "unat (v :: u8) < 256"
proof -
  have "unat v < 2 ^ LENGTH(8)" by (rule unsigned_less)
  then show ?thesis by simp
qed

lemma unat_le_SIZE_MAX: "unat (v :: u64) \<le> SIZE_MAX"
  using unat_u64 [of v] by (simp add: SIZE_MAX_def)

lemma unat_ucast_u32_u64 [simp]: "unat (ucast (n :: u32) :: u64) = unat n"
  using unat_u32 [of n] by (simp add: unsigned_ucast_eq take_bit_nat_eq_self_iff)

text \<open>The constants the bit-level code masks with, bit by bit.\<close>

named_theorems bit_consts "bits of mask constants"

lemma bit_127_int [bit_consts]: "bit (127 :: int) m \<longleftrightarrow> m < 7"
proof -
  have "bit (mask 7 :: int) m \<longleftrightarrow> m < 7"
    by (simp add: bit_mask_iff)
  then show ?thesis
    by (simp add: mask_eq_exp_minus_1)
qed

lemma bit_128_int [bit_consts]: "bit (128 :: int) m \<longleftrightarrow> m = 7"
proof -
  have "bit (2 ^ 7 :: int) m \<longleftrightarrow> m = 7"
    using bit_exp_iff [where 'a = int, of 7 m] by fastforce
  then show ?thesis by simp
qed

lemma bit_FFFFFF_int [bit_consts]: "bit (16777215 :: int) m \<longleftrightarrow> m < 24"
proof -
  have "bit (mask 24 :: int) m \<longleftrightarrow> m < 24"
    by (simp add: bit_mask_iff)
  then show ?thesis
    by (simp add: mask_eq_exp_minus_1)
qed

end
