(* ===== verification/Dave_Types.thy ===== *)
theory Dave_Types
  imports Prelude
begin

text \<open>
  \<^verbatim>\<open>src/dave/types.hpp\<close>, \<^verbatim>\<open>src/dave/error.hpp\<close> and the constants of
  \<^verbatim>\<open>src/dave/common.hpp\<close>: the enumerations of the end-to-end encryption layer, its error
  codes with their messages, and the sizes of the encrypted frame format. Times are
  \<^typ>\<open>int\<close> nanoseconds of the steady clock.
\<close>

datatype media_type = Audio | Video

datatype codec = Unknown | Opus | Vp8 | Vp9 | H264 | H265 | Av1

datatype dave_error =
    Success | FrameTooSmall | InvalidMagicMarker | InvalidSupplementalBytes | InvalidNonce
  | InvalidUnencryptedRanges | InvalidNalUnit | InvalidObuHeader | UnsupportedCodec
  | EncryptionFailed | DecryptionFailed | RatchetNotReady | InvalidGeneration | ReplayedPacket
  | MlsError | InvalidWelcome | InvalidCommit | InvalidProposal | InvalidKeyPackage

text \<open>The error codes that come from \<^verbatim>\<open>boost::system::errc\<close>.\<close>

datatype errc =
    bad_message | io_error | message_size | not_supported | operation_not_permitted
  | permission_denied | not_connected | operation_canceled | invalid_argument

datatype dave_failure = Dave dave_error | Errc errc

definition max_protocol_version :: u16 where
  "max_protocol_version = 1"

definition dave_error_code :: "dave_error \<Rightarrow> nat" where
  "dave_error_code e =
     (case e of Success \<Rightarrow> 0 | FrameTooSmall \<Rightarrow> 1 | InvalidMagicMarker \<Rightarrow> 2
      | InvalidSupplementalBytes \<Rightarrow> 3 | InvalidNonce \<Rightarrow> 4 | InvalidUnencryptedRanges \<Rightarrow> 5
      | InvalidNalUnit \<Rightarrow> 6 | InvalidObuHeader \<Rightarrow> 7 | UnsupportedCodec \<Rightarrow> 8
      | EncryptionFailed \<Rightarrow> 9 | DecryptionFailed \<Rightarrow> 10 | RatchetNotReady \<Rightarrow> 11
      | InvalidGeneration \<Rightarrow> 12 | ReplayedPacket \<Rightarrow> 13 | MlsError \<Rightarrow> 14 | InvalidWelcome \<Rightarrow> 15
      | InvalidCommit \<Rightarrow> 16 | InvalidProposal \<Rightarrow> 17 | InvalidKeyPackage \<Rightarrow> 18)"

definition dave_error_message :: "nat \<Rightarrow> string" where
  "dave_error_message ev =
     (if ev = 0 then ''Success'' else if ev = 1 then ''Frame too small''
      else if ev = 2 then ''Invalid magic marker'' else if ev = 3 then ''Invalid supplemental bytes''
      else if ev = 4 then ''Invalid nonce'' else if ev = 5 then ''Invalid unencrypted ranges''
      else if ev = 6 then ''Invalid NAL unit'' else if ev = 7 then ''Invalid OBU header''
      else if ev = 8 then ''Unsupported codec'' else if ev = 9 then ''Encryption failed''
      else if ev = 10 then ''Decryption failed'' else if ev = 11 then ''Key ratchet not ready''
      else if ev = 12 then ''Invalid key generation'' else if ev = 13 then ''Replayed packet detected''
      else if ev = 14 then ''MLS protocol error'' else if ev = 15 then ''Invalid MLS welcome''
      else if ev = 16 then ''Invalid MLS commit'' else if ev = 17 then ''Invalid MLS proposal''
      else if ev = 18 then ''Invalid MLS key package'' else ''Unknown DAVE error'')"

section \<open>Constants of common.hpp\<close>

definition AES_GCM_128_KEY_BYTES :: nat where "AES_GCM_128_KEY_BYTES = 16"
definition AES_GCM_128_NONCE_BYTES :: nat where "AES_GCM_128_NONCE_BYTES = 12"
definition AES_GCM_128_TRUNCATED_SYNC_NONCE_BYTES :: nat where
  "AES_GCM_128_TRUNCATED_SYNC_NONCE_BYTES = 4"
definition AES_GCM_128_TRUNCATED_SYNC_NONCE_OFFSET :: nat where
  "AES_GCM_128_TRUNCATED_SYNC_NONCE_OFFSET =
     AES_GCM_128_NONCE_BYTES - AES_GCM_128_TRUNCATED_SYNC_NONCE_BYTES"
definition AES_GCM_128_TRUNCATED_TAG_BYTES :: nat where "AES_GCM_128_TRUNCATED_TAG_BYTES = 8"
definition RATCHET_GENERATION_BYTES :: nat where "RATCHET_GENERATION_BYTES = 1"
definition RATCHET_GENERATION_SHIFT_BITS :: nat where
  "RATCHET_GENERATION_SHIFT_BITS =
     8 * (AES_GCM_128_TRUNCATED_SYNC_NONCE_BYTES - RATCHET_GENERATION_BYTES)"
definition MARKER_BYTES :: u16 where "MARKER_BYTES = 0xFAFA"
definition CIPHER_EXPIRY :: int where "CIPHER_EXPIRY = 10 * 1000000000"
definition MAX_GENERATION_GAP :: nat where "MAX_GENERATION_GAP = 250"
definition MAX_MISSING_NONCES :: nat where "MAX_MISSING_NONCES = 1000"
definition GENERATION_WRAP :: nat where "GENERATION_WRAP = 2 ^ (8 * RATCHET_GENERATION_BYTES)"
definition MAX_FRAMES_PER_SECOND :: int where "MAX_FRAMES_PER_SECOND = 50 + 2 * 60"
definition SUPPLEMENTAL_BYTES :: nat where
  "SUPPLEMENTAL_BYTES = AES_GCM_128_TRUNCATED_TAG_BYTES + 1 + 2"
definition TRANSFORM_PADDING_BYTES :: nat where "TRANSFORM_PADDING_BYTES = 64"
definition OPUS_SILENCE_PACKET :: bytes where "OPUS_SILENCE_PACKET = [0xF8, 0xFF, 0xFE]"

text \<open>\<^verbatim>\<open>TimePoint::max()\<close> and \<^verbatim>\<open>TimePoint::min()\<close>: a 64-bit count of nanoseconds.\<close>

definition TIME_MAX :: int where "TIME_MAX = 2 ^ 63 - 1"
definition TIME_MIN :: int where "TIME_MIN = - (2 ^ 63)"

lemmas dave_consts = AES_GCM_128_KEY_BYTES_def AES_GCM_128_NONCE_BYTES_def
  AES_GCM_128_TRUNCATED_SYNC_NONCE_BYTES_def AES_GCM_128_TRUNCATED_SYNC_NONCE_OFFSET_def
  AES_GCM_128_TRUNCATED_TAG_BYTES_def RATCHET_GENERATION_BYTES_def
  RATCHET_GENERATION_SHIFT_BITS_def GENERATION_WRAP_def SUPPLEMENTAL_BYTES_def
  TRANSFORM_PADDING_BYTES_def MAX_GENERATION_GAP_def MAX_MISSING_NONCES_def
  MAX_FRAMES_PER_SECOND_def

end
