(* ===== verification/Buffer_Utils.thy ===== *)
theory Buffer_Utils
  imports Prelude
begin

text \<open>
  \<^verbatim>\<open>src/dave/buffer_utils.hpp\<close> and the byte-order helpers of \<^verbatim>\<open>src/dave/common.hpp\<close>:
  unaligned reads and writes of integers in byte buffers, suffix comparison, and overflow-checked
  size arithmetic. \<^verbatim>\<open>std::memcpy\<close> of an integer moves its object representation, which is
  little-endian on every platform the library supports: \<open>le_bytes\<close>. An
  \<^verbatim>\<open>assert\<close> of the source that fails is \<^term>\<open>None\<close>.
\<close>

section \<open>Object representation of integers\<close>

definition le_bytes :: "'a::len word \<Rightarrow> bytes" where
  "le_bytes w = map (\<lambda>i. ucast (drop_bit (8 * i) w)) [0..<LENGTH('a) div 8]"

fun le_value :: "bytes \<Rightarrow> 'a::len word" where
  "le_value [] = 0"
| "le_value (b # bs) = ucast b OR push_bit 8 (le_value bs)"

lemma length_le_bytes [simp]: "length (le_bytes (w :: 'a::len word)) = LENGTH('a) div 8"
  by (simp add: le_bytes_def)

section \<open>The helpers of buffer_utils.hpp\<close>

definition copy_bytes :: "bytes \<Rightarrow> bytes \<Rightarrow> bytes option" where
  "copy_bytes dst src = store dst 0 src"

definition copy_at :: "bytes \<Rightarrow> nat \<Rightarrow> bytes \<Rightarrow> bytes option" where
  "copy_at dst off src = store dst off src"

definition bytes_equal :: "bytes \<Rightarrow> bytes \<Rightarrow> bool" where
  "bytes_equal a b = (if length a \<noteq> length b then False else a = b)"

definition ends_with :: "bytes \<Rightarrow> bytes \<Rightarrow> bool" where
  "ends_with buf suffix =
     (if length buf < length suffix then False
      else drop (length buf - length suffix) buf = suffix)"

definition ends_with_value :: "bytes \<Rightarrow> 'a::len word \<Rightarrow> bool" where
  "ends_with_value buf v = ends_with buf (le_bytes v)"

definition read_value :: "bytes \<Rightarrow> 'a::len word option" where
  "read_value buf =
     (if LENGTH('a) div 8 \<le> length buf then Some (le_value (take (LENGTH('a) div 8) buf)) else None)"

definition read_value_at :: "bytes \<Rightarrow> nat \<Rightarrow> 'a::len word option" where
  "read_value_at buf off = do {
     s \<leftarrow> subspan buf off (LENGTH('a) div 8);
     read_value s
   }"

definition write_value :: "bytes \<Rightarrow> 'a::len word \<Rightarrow> bytes option" where
  "write_value buf v = store buf 0 (le_bytes v)"

definition write_value_at :: "bytes \<Rightarrow> nat \<Rightarrow> 'a::len word \<Rightarrow> bytes option" where
  "write_value_at buf off v = store buf off (le_bytes v)"

definition checked_add :: "nat \<Rightarrow> nat \<Rightarrow> nat option" where
  "checked_add a b = (if a > SIZE_MAX - b then None else Some (a + b))"

definition checked_mul :: "nat \<Rightarrow> nat \<Rightarrow> nat option" where
  "checked_mul a b = (if b \<noteq> 0 \<and> a > SIZE_MAX div b then None else Some (a * b))"

definition last_bytes :: "bytes \<Rightarrow> nat \<Rightarrow> bytes option" where
  "last_bytes buf n = (if n \<le> length buf then Some (drop (length buf - n) buf) else None)"

section \<open>Big-endian identifiers of common.hpp\<close>

definition big_endian_bytes_from :: "u64 \<Rightarrow> bytes" where
  "big_endian_bytes_from value =
     foldl (\<lambda>vec i. vec[8 - 1 - i := ucast (drop_bit (8 * i) value)]) (replicate 8 0) [0..<8]"

definition from_big_endian_bytes :: "bytes \<Rightarrow> u64" where
  "from_big_endian_bytes bs = foldl (\<lambda>value b. push_bit 8 value OR ucast b) 0 (take 8 bs)"

section \<open>Round trips\<close>

lemma split_low_8:
  "(ucast (ucast w :: u8) :: 'a::len word) OR push_bit 8 (drop_bit 8 w) = (w :: 'a word)"
proof (rule bit_eqI)
  fix n
  assume "possible_bit TYPE('a word) n"
  then have n: "n < LENGTH('a)" by simp
  show "bit ((ucast (ucast w :: u8) :: 'a word) OR push_bit 8 (drop_bit 8 w)) n = bit w n"
    using n by (cases "n < 8") (auto simp: bit_simps)
qed

lemma le_value_le_bytes_upt:
  "le_value (map (\<lambda>i. ucast (drop_bit (8 * i) (w :: 'a::len word))) [k..<k + n])
   = take_bit (8 * n) (drop_bit (8 * k) w)"
proof (induction n arbitrary: k)
  case 0
  then show ?case by simp
next
  case (Suc n)
  have upt: "[k..<k + Suc n] = k # [Suc k..<Suc k + n]"
    by (simp add: upt_rec)
  have IH: "le_value (map (\<lambda>i. ucast (drop_bit (8 * i) w)) [Suc k..<Suc k + n])
      = take_bit (8 * n) (drop_bit 8 (drop_bit (8 * k) w))"
    using Suc.IH [of "Suc k"] by (simp add: drop_bit_drop_bit add.commute)
  have "(ucast (ucast v :: u8) :: 'a word) OR push_bit 8 (take_bit (8 * n) (drop_bit 8 v))
      = take_bit (8 * Suc n) v" for v :: "'a word"
  proof (rule bit_eqI)
    fix m
    assume "possible_bit TYPE('a word) m"
    then show "bit ((ucast (ucast v :: u8) :: 'a word) OR push_bit 8 (take_bit (8 * n) (drop_bit 8 v))) m
        = bit (take_bit (8 * Suc n) v) m"
      by (cases "m < 8") (auto simp: bit_simps)
  qed
  from this [of "drop_bit (8 * k) w"] show ?case
    unfolding upt list.map le_value.simps IH .
qed

lemma le_value_le_bytes:
  assumes "8 dvd LENGTH('a)"
  shows "le_value (le_bytes w) = (w :: 'a::len word)"
proof -
  have "le_value (le_bytes w) = take_bit (8 * (LENGTH('a) div 8)) w"
    using le_value_le_bytes_upt [of w 0 "LENGTH('a) div 8"] by (simp add: le_bytes_def)
  with assms show ?thesis by (simp add: take_bit_word_eq_self)
qed

lemma le_bytes_inj:
  assumes "8 dvd LENGTH('a)" "le_bytes v = le_bytes w"
  shows "v = (w :: 'a::len word)"
  using assms by (metis le_value_le_bytes)

lemma read_write_value:
  assumes "8 dvd LENGTH('a)" "write_value buf (v :: 'a::len word) = Some buf'"
  shows "read_value buf' = Some v"
  using assms by (auto simp: write_value_def read_value_def store_def le_value_le_bytes
      split: if_splits)

lemma ends_with_append [simp]: "ends_with (xs @ ys) ys"
  by (simp add: ends_with_def)

lemma ends_with_iff: "ends_with buf suffix \<longleftrightarrow> (\<exists>pre. buf = pre @ suffix)"
  by (auto simp: ends_with_def intro: exI [of _ "take (length buf - length suffix) buf"])
    (metis append_take_drop_id)

lemma checked_add_spec:
  assumes "a \<le> SIZE_MAX" "b \<le> SIZE_MAX"
  shows "checked_add a b = (if a + b \<le> SIZE_MAX then Some (a + b) else None)"
  using assms by (auto simp: checked_add_def)

lemma checked_mul_spec:
  "checked_mul a b = (if a * b \<le> SIZE_MAX then Some (a * b) else None)"
proof (cases "b = 0")
  case True
  then show ?thesis by (simp add: checked_mul_def)
next
  case False
  then have "a \<le> SIZE_MAX div b \<longleftrightarrow> a * b \<le> SIZE_MAX"
    by (simp add: less_eq_div_iff_mult_less_eq)
  with False show ?thesis
    by (auto simp: checked_mul_def)
qed

lemma foldl_be_bytes:
  "foldl (\<lambda>v b. push_bit 8 v OR ucast b) acc
     (map (\<lambda>i. ucast (drop_bit (8 * i) (w :: 'a::len word)) :: u8) (rev [0..<n]))
   = push_bit (8 * n) acc OR take_bit (8 * n) w"
proof (induction n arbitrary: acc)
  case 0
  then show ?case by simp
next
  case (Suc n)
  have "push_bit (8 * n) (push_bit 8 acc OR ucast (ucast (drop_bit (8 * n) w) :: u8)) OR take_bit (8 * n) w
     = push_bit (8 * Suc n) acc OR take_bit (8 * Suc n) w"
  proof (rule bit_eqI)
    fix m
    assume "possible_bit TYPE('a word) m"
    then show "bit (push_bit (8 * n) (push_bit 8 acc OR ucast (ucast (drop_bit (8 * n) w) :: u8))
          OR take_bit (8 * n) w) m
      = bit (push_bit (8 * Suc n) acc OR take_bit (8 * Suc n) w) m"
      by (cases "m < 8 * n"; cases "m < 8 * Suc n") (auto simp: bit_simps add.commute)
  qed
  with Suc.IH show ?case by simp
qed

lemma big_endian_bytes_from_eq:
  "big_endian_bytes_from v = map (\<lambda>i. ucast (drop_bit (8 * i) v)) (rev [0..<8])"
  by (simp add: big_endian_bytes_from_def upt_rec numeral_eq_Suc)

lemma length_big_endian_bytes_from [simp]: "length (big_endian_bytes_from v) = 8"
  by (simp add: big_endian_bytes_from_eq)

lemma from_big_endian_bytes_from: "from_big_endian_bytes (big_endian_bytes_from v) = v"
proof -
  have "from_big_endian_bytes (big_endian_bytes_from v) = take_bit (8 * 8) v"
    using foldl_be_bytes [of 0 v 8]
    by (simp add: from_big_endian_bytes_def big_endian_bytes_from_eq)
  then show ?thesis by (simp add: take_bit_word_eq_self)
qed

end
