(* ===== verification/Leb128.thy ===== *)
theory Leb128
  imports Prelude
begin

text \<open>
  \<^verbatim>\<open>src/dave/leb128.cpp\<close>: the variable-length integers that carry the truncated nonce and the
  unencrypted ranges of an encrypted frame. \<open>leb128_size\<close>, \<open>read_leb128\<close> and
  \<open>write_leb128\<close> are the three functions of the file, on 64-bit words. The pointer
  \<^verbatim>\<open>read_at\<close> of the reader is an index into the buffer and the position \<^verbatim>\<open>end\<close>;
  a reader that sets the pointer to \<^verbatim>\<open>nullptr\<close> returns \<^term>\<open>None\<close> as its position.
\<close>

definition LEB128_MAX_SIZE :: nat where
  "LEB128_MAX_SIZE = 10"

section \<open>The three functions\<close>

function leb128_size_loop :: "u64 \<Rightarrow> nat \<Rightarrow> nat" where
  "leb128_size_loop value sz =
     (if 0x80 \<le> value then leb128_size_loop (drop_bit 7 value) (sz + 1) else sz + 1)"
  by pat_completeness auto

lemma drop_bit_7_less: "0x80 \<le> (v :: u64) \<Longrightarrow> unat (drop_bit 7 v) < unat v"
proof -
  assume "0x80 \<le> v"
  then have "unat v \<noteq> 0"
    by (auto simp: word_le_nat_alt)
  then have "unat v div 2 ^ 7 < unat v"
    by simp
  then show ?thesis
    by (simp add: drop_bit_eq_div unat_div)
qed

termination leb128_size_loop
  by (relation "measure (\<lambda>(v, _). unat v)") (auto simp: drop_bit_7_less)

definition leb128_size :: "u64 \<Rightarrow> nat" where
  "leb128_size value = leb128_size_loop value 0"

text \<open>
  The reader's first loop: at most nine bytes (\<open>fill_bits < 64 - 7\<close>). It either returns the value
  with the advanced position, or falls through with the accumulator.
\<close>

datatype leb128_scan =
    Terminated u64 nat
  | Unterminated u64 nat nat

function read_leb128_loop :: "bytes \<Rightarrow> nat \<Rightarrow> nat \<Rightarrow> u64 \<Rightarrow> nat \<Rightarrow> leb128_scan" where
  "read_leb128_loop buf pos end value fill_bits =
     (if pos < end \<and> fill_bits < 64 - 7 then
        let leb_128_byte = buf ! pos;
            value' = value OR push_bit fill_bits (ucast (leb_128_byte AND 0x7F))
        in if leb_128_byte AND 0x80 = 0 then Terminated value' (pos + 1)
           else read_leb128_loop buf (pos + 1) end value' (fill_bits + 7)
      else Unterminated value pos fill_bits)"
  by pat_completeness auto

termination read_leb128_loop
  by (relation "measure (\<lambda>(_, pos, end, _, _). end - pos)") auto

definition read_leb128 :: "bytes \<Rightarrow> nat \<Rightarrow> nat \<Rightarrow> u64 \<times> nat option" where
  "read_leb128 buf pos end =
     (case read_leb128_loop buf pos end 0 0 of
        Terminated value pos' \<Rightarrow> (value, Some pos')
      | Unterminated value pos' fill_bits \<Rightarrow>
          if pos' \<noteq> end \<and> buf ! pos' \<le> 1
          then (value OR push_bit fill_bits (ucast (buf ! pos')), Some (pos' + 1))
          else (0, None))"

text \<open>
  The writer stores into the caller's buffer at \<open>at\<close> and returns the buffer with the number of
  bytes written; \<^term>\<open>None\<close> is a store outside the buffer.
\<close>

function write_leb128_loop :: "u64 \<Rightarrow> bytes \<Rightarrow> nat \<Rightarrow> nat \<Rightarrow> (bytes \<times> nat) option" where
  "write_leb128_loop value buffer at sz =
     (if 0x80 \<le> value then do {
        buffer' \<leftarrow> store buffer (at + sz) [0x80 OR ucast (value AND 0x7F)];
        write_leb128_loop (drop_bit 7 value) buffer' at (sz + 1)
      } else do {
        buffer' \<leftarrow> store buffer (at + sz) [ucast value];
        Some (buffer', sz + 1)
      })"
  by pat_completeness auto

termination write_leb128_loop
  by (relation "measure (\<lambda>(v, _). unat v)") (auto simp: drop_bit_7_less)

definition write_leb128 :: "u64 \<Rightarrow> bytes \<Rightarrow> nat \<Rightarrow> (bytes \<times> nat) option" where
  "write_leb128 value buffer at = write_leb128_loop value buffer at 0"

declare leb128_size_loop.simps [simp del] read_leb128_loop.simps [simp del]
  write_leb128_loop.simps [simp del]

section \<open>The encoding as a list of bytes\<close>

text \<open>The bytes the writer emits, independent of any buffer.\<close>

function leb128_bytes :: "u64 \<Rightarrow> bytes" where
  "leb128_bytes value =
     (if 0x80 \<le> value then (0x80 OR ucast (value AND 0x7F)) # leb128_bytes (drop_bit 7 value)
      else [ucast value])"
  by pat_completeness auto

termination leb128_bytes
  by (relation "measure unat") (auto simp: drop_bit_7_less)

declare leb128_bytes.simps [simp del]

lemma leb128_size_loop_eq: "leb128_size_loop v k = k + length (leb128_bytes v)"
proof (induction v k rule: leb128_size_loop.induct)
  case (1 v k)
  then show ?case
    by (auto simp: leb128_size_loop.simps [of v k] leb128_bytes.simps [of v])
qed

lemma leb128_size_length: "leb128_size v = length (leb128_bytes v)"
  by (simp add: leb128_size_def leb128_size_loop_eq)

lemma leb128_bytes_nonempty [simp]: "leb128_bytes v \<noteq> []"
  by (subst leb128_bytes.simps) simp

section \<open>Reading what was written\<close>

lemma split_low_7: "push_bit k (v AND 0x7F) OR push_bit (k + 7) (drop_bit 7 v) = push_bit k (v :: u64)"
proof (rule bit_eqI)
  fix n
  show "bit (push_bit k (v AND 0x7F) OR push_bit (k + 7) (drop_bit 7 v)) n = bit (push_bit k v) n"
  proof (cases "n < k + 7")
    case True
    then show ?thesis
      by (auto simp: bit_simps bit_consts)
  next
    case False
    then have "7 + (n - (k + 7)) = n - k" by simp
    with False show ?thesis
      by (auto simp: bit_simps bit_consts)
  qed
qed

lemma ucast_low_7:
  "(ucast ((0x80 OR ucast ((v :: u64) AND 0x7F) :: u8) AND 0x7F) :: u64) = v AND 0x7F"
  by (rule bit_eqI) (auto simp: bit_simps bit_consts)

lemma cont_bit_set: "(0x80 OR x :: u8) AND 0x80 \<noteq> 0"
proof -
  have "bit ((0x80 OR x :: u8) AND 0x80) 7"
    by (simp add: bit_simps bit_consts)
  then show ?thesis by auto
qed

lemma small_u64:
  assumes "\<not> 0x80 \<le> (v :: u64)"
  shows "(ucast v :: u8) AND 0x80 = 0" "(ucast ((ucast v :: u8) AND 0x7F) :: u64) = v"
    "unat (ucast v :: u8) = unat v"
proof -
  have lt: "unat v < 128"
    using assms by (simp add: word_le_nat_alt)
  then show u: "unat (ucast v :: u8) = unat v"
    by (simp add: unsigned_ucast_eq take_bit_eq_mod)
  have v7: "v AND 0x7F = v"
  proof -
    have "v AND mask 7 = take_bit 7 v"
      by (simp add: take_bit_eq_mask)
    also have "\<dots> = v"
      using lt by (simp add: word_unat_eq_iff unsigned_take_bit_eq take_bit_nat_eq_self_iff)
    finally show ?thesis
      by (simp add: mask_eq_exp_minus_1)
  qed
  have nb: "n < 7" if "bit v n" for n
  proof -
    have "bit (v AND 0x7F) n"
      using that by (simp add: v7)
    then show ?thesis by (simp add: bit_simps bit_consts)
  qed
  show "(ucast v :: u8) AND 0x80 = 0"
    by (rule bit_eqI) (auto simp: bit_simps bit_consts dest: nb)
  show "(ucast ((ucast v :: u8) AND 0x7F) :: u64) = v"
    by (rule bit_eqI) (fastforce simp: bit_simps bit_consts dest: nb)
qed

text \<open>The reader after its first loop, as a function of the loop's result.\<close>

definition read_finish :: "bytes \<Rightarrow> nat \<Rightarrow> leb128_scan \<Rightarrow> u64 \<times> nat option" where
  "read_finish buf end scan =
     (case scan of
        Terminated value pos' \<Rightarrow> (value, Some pos')
      | Unterminated value pos' fill_bits \<Rightarrow>
          if pos' \<noteq> end \<and> buf ! pos' \<le> 1
          then (value OR push_bit fill_bits (ucast (buf ! pos')), Some (pos' + 1))
          else (0, None))"

lemma read_leb128_finish: "read_leb128 buf pos end = read_finish buf end (read_leb128_loop buf pos end 0 0)"
  by (simp add: read_leb128_def read_finish_def)

lemma unat_drop_bit_7: "unat (drop_bit 7 (v :: u64)) = unat v div 128"
  by (simp add: drop_bit_eq_div unat_div)

lemma fill_cases:
  assumes "(k :: nat) = 7 * j" "k \<le> 63"
  shows "k < 57 \<or> k = 63"
  using assms by presburger

lemma drop_eq_ConsD: "drop n xs = y # ys \<Longrightarrow> n < length xs \<and> xs ! n = y \<and> drop (Suc n) xs = ys"
  by (metis Cons_nth_drop_Suc drop_all linorder_not_le list.inject list.simps(3))

text \<open>One continuation byte, and the last byte, of an encoding being read.\<close>

lemma read_loop_cont:
  assumes "0x80 \<le> (v :: u64)" "pos < end" "k < 57" "buf ! pos = 0x80 OR ucast (v AND 0x7F)"
  shows "read_leb128_loop buf pos end acc k
         = read_leb128_loop buf (Suc pos) end (acc OR push_bit k (v AND 0x7F)) (k + 7)"
  using assms cont_bit_set [of "ucast (v AND 0x7F)"]
  by (simp add: read_leb128_loop.simps [of buf pos] ucast_low_7 Let_def)

lemma read_loop_last:
  assumes small: "\<not> 0x80 \<le> (v :: u64)" and "pos < end" and at: "buf ! pos = ucast v"
    and k: "k < 57 \<or> k = 63 \<and> unat v \<le> 1"
  shows "read_finish buf end (read_leb128_loop buf pos end acc k)
         = (acc OR push_bit k v, Some (Suc pos))"
proof (cases "k < 57")
  case True
  with \<open>pos < end\<close> small_u64 [OF small] show ?thesis
    by (simp add: read_leb128_loop.simps [of buf pos] at Let_def read_finish_def)
next
  case False
  with k have "k = 63" "unat v \<le> 1" by auto
  then have "(ucast v :: u8) \<le> 1"
    using small_u64(3) [OF small] by (simp add: word_le_nat_alt)
  moreover have "(ucast (ucast v :: u8) :: u64) = v"
    using small_u64(3) [OF small] by (simp add: word_unat_eq_iff)
  ultimately show ?thesis
    using \<open>k = 63\<close> \<open>pos < end\<close>
    by (simp add: read_leb128_loop.simps [of buf pos] at read_finish_def)
qed

lemma shift_bound:
  assumes "unat (v :: u64) < 2 ^ (64 - k)" "k < 57"
  shows "unat (drop_bit 7 v) < 2 ^ (64 - (k + 7))"
proof -
  have "64 - k = (64 - (k + 7)) + 7"
    using assms(2) by simp
  then have "(2 :: nat) ^ (64 - k) = 2 ^ (64 - (k + 7)) * 2 ^ 7"
    by (metis power_add)
  with assms(1) show ?thesis
    by (simp add: unat_drop_bit_7 less_mult_imp_div_less)
qed

lemma read_loop_written:
  assumes "drop pos buf = leb128_bytes v @ rest" "pos + length (leb128_bytes v) \<le> end"
    and "k = 7 * j" "k \<le> 63" "unat v < 2 ^ (64 - k)"
  shows "read_finish buf end (read_leb128_loop buf pos end acc k)
         = (acc OR push_bit k v, Some (pos + length (leb128_bytes v)))"
  using assms
proof (induction v arbitrary: pos k j acc rule: leb128_bytes.induct)
  case (1 v)
  note k = fill_cases [OF "1.prems"(3,4)]
  show ?case
  proof (cases "0x80 \<le> v")
    case True
    let ?v' = "drop_bit 7 v"
    have lb: "leb128_bytes v = (0x80 OR ucast (v AND 0x7F)) # leb128_bytes ?v'"
      using True by (simp add: leb128_bytes.simps [of v])
    from "1.prems"(1) lb have at: "buf ! pos = 0x80 OR ucast (v AND 0x7F)"
      and rest: "drop (Suc pos) buf = leb128_bytes ?v' @ rest"
      by (auto dest!: drop_eq_ConsD)
    have k57: "k < 57"
      using k "1.prems"(5) True by (auto simp: word_le_nat_alt)
    have sb: "unat ?v' < 2 ^ (64 - (k + 7))"
      using "1.prems"(5) k57 by (rule shift_bound)
    have IH: "read_finish buf end (read_leb128_loop buf (Suc pos) end acc' (k + 7))
        = (acc' OR push_bit (k + 7) ?v', Some (Suc pos + length (leb128_bytes ?v')))" for acc'
      using "1.IH" [OF True rest, of "k + 7" "j + 1"] "1.prems"(2,3) k57 lb sb
      by simp
    have "pos < end"
      using "1.prems"(2) lb by simp
    with True k57 at show ?thesis
      by (simp add: read_loop_cont IH lb or.assoc split_low_7 del: push_bit_and)
  next
    case False
    have lb: "leb128_bytes v = [ucast v]"
      using False by (simp add: leb128_bytes.simps [of v])
    from "1.prems"(1) lb have "buf ! pos = ucast v"
      by (auto dest!: drop_eq_ConsD)
    with False "1.prems"(2,5) k lb show ?thesis
      by (auto simp: read_loop_last)
  qed
qed

lemma read_leb128_written:
  assumes "drop pos buf = leb128_bytes v @ rest" "pos + length (leb128_bytes v) \<le> end"
  shows "read_leb128 buf pos end = (v, Some (pos + length (leb128_bytes v)))"
proof -
  have "unat v < 2 ^ (64 - 0)"
    using unat_u64 [of v] by simp
  from read_loop_written [OF assms, of 0 0 0, OF _ _ this] show ?thesis
    by (simp add: read_leb128_finish)
qed

section \<open>Bounds of the reader and the writer\<close>

text \<open>
  The reader never moves backwards, never passes \<open>end\<close> and consumes at most ten bytes. Its
  first loop stops after at most nine.
\<close>

fun scan_pos :: "leb128_scan \<Rightarrow> nat" where
  "scan_pos (Terminated _ p) = p"
| "scan_pos (Unterminated _ p _) = p"

lemma read_loop_bounds:
  "pos \<le> end \<Longrightarrow> k = 7 * j \<Longrightarrow> j \<le> 9 \<Longrightarrow>
   pos \<le> scan_pos (read_leb128_loop buf pos end acc k) \<and>
   scan_pos (read_leb128_loop buf pos end acc k) \<le> end \<and>
   scan_pos (read_leb128_loop buf pos end acc k) + j \<le> pos + 9 \<and>
   (\<forall>a p. read_leb128_loop buf pos end acc k = Terminated a p \<longrightarrow> pos < p)"
proof (induction buf pos "end" acc k arbitrary: j rule: read_leb128_loop.induct)
  case (1 buf pos "end" acc k)
  consider (cont) "pos < end \<and> k < 57 \<and> buf ! pos AND 0x80 \<noteq> 0"
    | (last) "pos < end \<and> k < 57 \<and> buf ! pos AND 0x80 = 0" | (stop) "\<not> (pos < end \<and> k < 57)"
    by blast
  then show ?case
  proof cases
    case cont
    let ?acc = "acc OR push_bit k (ucast (buf ! pos AND 0x7F))"
    have step: "read_leb128_loop buf pos end acc k = read_leb128_loop buf (pos + 1) end ?acc (k + 7)"
      using cont by (simp add: read_leb128_loop.simps [of buf pos])
    from cont have g: "pos < end \<and> k < 64 - 7" and c: "\<not> buf ! pos AND 0x80 = 0"
      by simp_all
    from g "1.prems"(2) have "pos + 1 \<le> end" "k + 7 = 7 * (j + 1)" "j + 1 \<le> 9"
      by simp_all
    from "1.IH" [OF g refl refl c this] show ?thesis
      unfolding step by auto
  next
    case last
    then have eq: "\<exists>v. read_leb128_loop buf pos end acc k = Terminated v (pos + 1)"
      by (simp add: read_leb128_loop.simps [of buf pos "end" acc k])
    from last have "pos < end" "k < 57" by simp_all
    with eq "1.prems"(2) show ?thesis by auto
  next
    case stop
    then have "read_leb128_loop buf pos end acc k = Unterminated acc pos k"
      by (subst read_leb128_loop.simps) auto
    with "1.prems" show ?thesis by simp
  qed
qed

lemma read_leb128_bounds:
  assumes "read_leb128 buf pos end = (v, Some pos')" "pos \<le> end"
  shows "pos < pos'" "pos' \<le> end" "pos' \<le> pos + LEB128_MAX_SIZE"
  using assms read_loop_bounds [OF assms(2), of 0 0 buf 0]
  by (auto simp: read_leb128_def LEB128_MAX_SIZE_def split: leb128_scan.splits if_splits)

lemma leb128_bytes_bound: "unat v < 2 ^ (7 * n) \<Longrightarrow> 0 < n \<Longrightarrow> length (leb128_bytes v) \<le> n"
proof (induction n arbitrary: v)
  case 0
  then show ?case by simp
next
  case (Suc n)
  show ?case
  proof (cases "0x80 \<le> v")
    case True
    then have big: "128 \<le> unat v"
      by (simp add: word_le_nat_alt)
    have "(2 :: nat) ^ (7 * Suc n) = 2 ^ (7 * n) * 128"
      by (simp add: power_add)
    with Suc.prems(1) have "unat (drop_bit 7 v) < 2 ^ (7 * n)"
      by (simp add: unat_drop_bit_7 less_mult_imp_div_less)
    moreover have "0 < n"
      using Suc.prems(1) big by (cases n) auto
    ultimately show ?thesis
      using Suc.IH True by (simp add: leb128_bytes.simps [of v])
  next
    case False
    then show ?thesis
      by (simp add: leb128_bytes.simps [of v])
  qed
qed

lemma leb128_size_max: "leb128_size v \<le> LEB128_MAX_SIZE"
proof -
  have "unat v < 2 ^ (7 * 10)"
    using unat_u64 [of v] by simp
  then show ?thesis
    by (simp add: leb128_size_length LEB128_MAX_SIZE_def leb128_bytes_bound)
qed

lemma leb128_size_pos: "0 < leb128_size v"
  by (simp add: leb128_size_length)

text \<open>A 32-bit nonce takes at most five bytes.\<close>

lemma leb128_size_u32: "leb128_size (ucast (n :: u32)) \<le> 5"
proof -
  have "unat (ucast n :: u64) < 2 ^ (7 * 5)"
    using unat_u32 [of n] by simp
  then show ?thesis
    by (simp add: leb128_size_length leb128_bytes_bound)
qed

text \<open>The writer stores exactly the encoding, and stays inside a buffer with enough room.\<close>

lemma write_leb128_loop_eq:
  "write_leb128_loop v buffer at k =
     map_option (\<lambda>b. (b, k + length (leb128_bytes v))) (store buffer (at + k) (leb128_bytes v))"
proof (induction v buffer at k rule: write_leb128_loop.induct)
  case (1 v buffer at k)
  show ?case
  proof (cases "0x80 \<le> v")
    case True
    let ?b = "0x80 OR ucast (v AND 0x7F) :: u8"
    have lb: "leb128_bytes v = ?b # leb128_bytes (drop_bit 7 v)"
      using True by (simp add: leb128_bytes.simps [of v])
    show ?thesis
    proof (cases "store buffer (at + k) [?b]")
      case None
      then show ?thesis
        using True by (simp add: write_leb128_loop.simps [of v] lb store_Cons_None)
    next
      case (Some buffer')
      from "1.IH" [OF True Some] store_Cons [OF Some] Some True show ?thesis
        by (simp add: write_leb128_loop.simps [of v] lb)
    qed
  next
    case False
    then show ?thesis
      by (cases "store buffer (at + k) [ucast v]")
        (simp_all add: write_leb128_loop.simps [of v] leb128_bytes.simps [of v])
  qed
qed

lemma write_leb128_eq:
  "write_leb128 v buffer at = map_option (\<lambda>b. (b, leb128_size v)) (store buffer at (leb128_bytes v))"
  by (simp add: write_leb128_def write_leb128_loop_eq leb128_size_length)

section \<open>LEB128 as a self-delimiting code\<close>

text \<open>
  What the frame format needs from an encoding of its fields: a decoder that, started where
  an encoding begins, returns the value and the position behind it, whatever follows; and
  that always moves forward and stays before \<open>end\<close>. Everything a sequence of fields needs
  (encodings are prefix-free, a run of fields decodes field by field) follows once.
\<close>

locale field_code =
  fixes enc :: "'a \<Rightarrow> bytes"
    and dec :: "bytes \<Rightarrow> nat \<Rightarrow> nat \<Rightarrow> ('a \<times> nat) option"
  assumes dec_enc: "drop pos buf = enc x @ rest \<Longrightarrow> pos + length (enc x) \<le> stop \<Longrightarrow>
      dec buf pos stop = Some (x, pos + length (enc x))"
    and dec_forward: "dec buf pos stop = Some (x, pos') \<Longrightarrow> pos \<le> stop \<Longrightarrow> pos < pos' \<and> pos' \<le> stop"
begin

lemma enc_nonempty: "enc x \<noteq> []"
proof
  assume "enc x = []"
  with dec_enc [of 0 "[]" x "[]" 0] dec_forward [of "[]" 0 0 x 0] show False
    by simp
qed

lemma prefix_free:
  assumes "enc x @ r = enc y @ s"
  shows "x = y \<and> r = s"
proof -
  let ?stop = "length (enc x) + length (enc y)"
  have "dec (enc x @ r) 0 ?stop = Some (x, length (enc x))"
    by (simp add: dec_enc [of 0 _ x r])
  moreover have "dec (enc x @ r) 0 ?stop = Some (y, length (enc y))"
    by (simp add: assms dec_enc [of 0 _ y s])
  ultimately have "x = y" by simp
  with assms show ?thesis by simp
qed

lemma enc_inj: "enc x = enc y \<Longrightarrow> x = y"
  using prefix_free [of x "[]" y "[]"] by simp

lemma drop_behind:
  assumes "drop pos buf = enc x @ rest"
  shows "drop (pos + length (enc x)) buf = rest"
  using assms by (metis add.commute append_eq_conv_conj drop_drop)

end

text \<open>Two fields one behind the other are a field again.\<close>

locale field_pair = fst_code: field_code enc1 dec1 + snd_code: field_code enc2 dec2
  for enc1 :: "'a \<Rightarrow> bytes" and dec1 :: "bytes \<Rightarrow> nat \<Rightarrow> nat \<Rightarrow> ('a \<times> nat) option"
    and enc2 :: "'b \<Rightarrow> bytes" and dec2 :: "bytes \<Rightarrow> nat \<Rightarrow> nat \<Rightarrow> ('b \<times> nat) option"
begin

definition enc_pair :: "'a \<times> 'b \<Rightarrow> bytes" where
  "enc_pair xy = enc1 (fst xy) @ enc2 (snd xy)"

definition dec_pair :: "bytes \<Rightarrow> nat \<Rightarrow> nat \<Rightarrow> (('a \<times> 'b) \<times> nat) option" where
  "dec_pair buf pos stop = do {
     (x, pos1) \<leftarrow> dec1 buf pos stop;
     (y, pos2) \<leftarrow> dec2 buf pos1 stop;
     Some ((x, y), pos2)
   }"

lemma dec_pair_enc:
  assumes "drop pos buf = enc_pair xy @ rest" "pos + length (enc_pair xy) \<le> stop"
  shows "dec_pair buf pos stop = Some (xy, pos + length (enc_pair xy))"
proof -
  from assms(1) have d1: "drop pos buf = enc1 (fst xy) @ enc2 (snd xy) @ rest"
    by (simp add: enc_pair_def)
  note d2 = fst_code.drop_behind [OF d1]
  have "dec1 buf pos stop = Some (fst xy, pos + length (enc1 (fst xy)))"
    using fst_code.dec_enc [OF d1] assms(2) by (simp add: enc_pair_def)
  moreover have "dec2 buf (pos + length (enc1 (fst xy))) stop
      = Some (snd xy, pos + length (enc1 (fst xy)) + length (enc2 (snd xy)))"
    using snd_code.dec_enc [OF d2] assms(2) by (simp add: enc_pair_def)
  ultimately show ?thesis
    by (simp add: dec_pair_def enc_pair_def add.assoc)
qed

lemma dec_pair_forward:
  assumes "dec_pair buf pos stop = Some (xy, pos')" "pos \<le> stop"
  shows "pos < pos' \<and> pos' \<le> stop"
proof -
  from assms(1) obtain x pos1 y where d: "dec1 buf pos stop = Some (x, pos1)"
      "dec2 buf pos1 stop = Some (y, pos')"
    by (auto simp: dec_pair_def bind_Some_iff)
  with assms(2) fst_code.dec_forward [OF d(1)] snd_code.dec_forward [OF d(2)] show ?thesis
    by simp
qed

end

sublocale field_pair \<subseteq> pair_code: field_code enc_pair dec_pair
  by unfold_locales (blast intro: dec_pair_enc dest: dec_pair_forward)+

definition leb128_decode :: "bytes \<Rightarrow> nat \<Rightarrow> nat \<Rightarrow> (u64 \<times> nat) option" where
  "leb128_decode buf pos stop =
     (case read_leb128 buf pos stop of (v, Some pos') \<Rightarrow> Some (v, pos') | (_, None) \<Rightarrow> None)"

lemma leb128_decode_iff:
  "leb128_decode buf pos stop = Some (v, pos') \<longleftrightarrow> read_leb128 buf pos stop = (v, Some pos')"
  by (auto simp: leb128_decode_def split: prod.splits option.splits)

interpretation leb128: field_code leb128_bytes leb128_decode
proof unfold_locales
  fix pos buf x rest stop
  assume "drop pos buf = leb128_bytes x @ rest" "pos + length (leb128_bytes x) \<le> stop"
  then show "leb128_decode buf pos stop = Some (x, pos + length (leb128_bytes x))"
    by (simp add: leb128_decode_iff read_leb128_written)
next
  fix buf pos stop x pos'
  assume "leb128_decode buf pos stop = Some (x, pos')" "pos \<le> stop"
  then show "pos < pos' \<and> pos' \<le> stop"
    by (auto simp: leb128_decode_iff dest: read_leb128_bounds)
qed

interpretation leb128_pair: field_pair leb128_bytes leb128_decode leb128_bytes leb128_decode
  by unfold_locales

section \<open>Properties\<close>

text \<open>
  Every 64-bit value survives the round trip through a buffer: writing it at any offset
  where it fits, then reading from that offset with any end behind it, returns the value,
  leaves the read position right behind the bytes written, and writes exactly
  \<open>leb128_size\<close> bytes.
\<close>

theorem leb128_roundtrip:
  assumes "write_leb128 v buffer at = Some (buffer', n)" "at + n \<le> stop"
  shows "read_leb128 buffer' at stop = (v, Some (at + n)) \<and> n = leb128_size v
         \<and> length buffer' = length buffer"
proof -
  from assms(1) have st: "store buffer at (leb128_bytes v) = Some buffer'" and n: "n = leb128_size v"
    by (auto simp: write_leb128_eq)
  then have "drop at buffer' = leb128_bytes v @ drop (at + n) buffer"
    by (auto simp: store_def leb128_size_length split: if_splits)
  with assms(2) n st show ?thesis
    by (simp add: leb128_size_length read_leb128_written store_length)
qed

theorem leb128_roundtrip_witness:
  "write_leb128 300 [0, 0, 0, 0] 1 = Some ([0, 0xAC, 2, 0], 2)
   \<and> read_leb128 [0, 0xAC, 2, 0] 1 4 = (300, Some 3)"
proof -
  have w: "write_leb128 300 [0, 0, 0, 0] 1 = Some ([0, 0xAC, 2, 0], 2)"
    by (simp add: write_leb128_def write_leb128_loop.simps store_def)
  show ?thesis
    using w leb128_roundtrip [OF w, of 4] by simp
qed

text \<open>
  The reader stays within its input and within ten bytes for every input, also a
  malformed one: when it succeeds, the position has moved forward by at most
  \<open>LEB128_MAX_SIZE\<close> and not past the end; the writer never needs more than
  \<open>LEB128_MAX_SIZE\<close> bytes and fits whenever that much room is left.
\<close>

theorem leb128_bounds:
  "(\<forall>buf pos stop v pos'. pos \<le> stop \<longrightarrow> read_leb128 buf pos stop = (v, Some pos') \<longrightarrow>
      pos < pos' \<and> pos' \<le> stop \<and> pos' \<le> pos + LEB128_MAX_SIZE)
   \<and> 0 < leb128_size v \<and> leb128_size v \<le> LEB128_MAX_SIZE
   \<and> (at + LEB128_MAX_SIZE \<le> length buffer \<longrightarrow> (\<exists>r. write_leb128 v buffer at = Some r))"
proof -
  have "\<exists>r. write_leb128 v buffer at = Some r" if "at + LEB128_MAX_SIZE \<le> length buffer"
  proof -
    have "at + length (leb128_bytes v) \<le> length buffer"
      using that leb128_size_max [of v] by (simp add: leb128_size_length)
    then show ?thesis
      by (auto simp: write_leb128_eq dest: store_fits)
  qed
  then show ?thesis
    by (auto simp: leb128_size_pos leb128_size_max dest: read_leb128_bounds)
qed

theorem leb128_bounds_witness:
  "(\<exists>r. write_leb128 5 (replicate 12 0) 2 = Some r) \<and> leb128_size 5 \<le> 10
   \<and> read_leb128 [5] 0 1 = (5, Some 1) \<and> (1 :: nat) \<le> 0 + LEB128_MAX_SIZE"
proof -
  have r: "read_leb128 [5] 0 1 = (5, Some 1)"
    by (simp add: read_leb128_def read_leb128_loop.simps Let_def)
  show ?thesis
    using leb128_bounds [of 5 2 "replicate 12 0"] r by (auto simp: LEB128_MAX_SIZE_def)
qed

end
