(* ===== verification/Frame_Processors.thy ===== *)
theory Frame_Processors
  imports Dave_Types Buffer_Utils Leb128
begin

text \<open>
  \<^verbatim>\<open>src/dave/frame_processors.cpp\<close> and \<^verbatim>\<open>.hpp\<close>: how a media frame is taken apart
  before encryption and put together again, and how an encrypted frame is parsed. The codec
  specific part of \<^verbatim>\<open>OutboundFrameProcessor::process_frame\<close> is in theory
  \<open>Codec_Utils\<close>.
\<close>

section \<open>Ranges\<close>

record range =
  rg_offset :: nat
  rg_size :: nat

definition mk_range :: "nat \<Rightarrow> nat \<Rightarrow> range" where
  "mk_range off sz = \<lparr>rg_offset = off, rg_size = sz\<rparr>"

lemma mk_range_sel [simp]: "rg_offset (mk_range a b) = a" "rg_size (mk_range a b) = b"
  by (simp_all add: mk_range_def)

lemma mk_range_eta [simp]: "mk_range (rg_offset r) (rg_size r) = r"
  by (simp add: mk_range_def)

definition overflow_add :: "nat \<Rightarrow> nat \<Rightarrow> bool \<times> nat" where
  "overflow_add a b = (case checked_add a b of None \<Rightarrow> (True, 0) | Some r \<Rightarrow> (False, r))"

definition range_size :: "range \<Rightarrow> nat" where
  "range_size r = leb128_size (of_nat (rg_offset r)) + leb128_size (of_nat (rg_size r))"

definition unencrypted_ranges_size :: "range list \<Rightarrow> u8" where
  "unencrypted_ranges_size ranges = of_nat (foldl (\<lambda>sz r. sz + range_size r) 0 ranges)"

fun serialize_loop :: "range list \<Rightarrow> bytes \<Rightarrow> nat \<Rightarrow> nat \<Rightarrow> (bytes \<times> nat) option" where
  "serialize_loop [] buffer write_at stop = Some (buffer, write_at)"
| "serialize_loop (r # rs) buffer write_at stop =
     (if range_size r > stop - write_at then Some (buffer, write_at)
      else do {
        (buffer1, n1) \<leftarrow> write_leb128 (of_nat (rg_offset r)) buffer write_at;
        (buffer2, n2) \<leftarrow> write_leb128 (of_nat (rg_size r)) buffer1 (write_at + n1);
        serialize_loop rs buffer2 (write_at + n1 + n2) stop
      })"

definition serialize_unencrypted_ranges ::
    "range list \<Rightarrow> bytes \<Rightarrow> nat \<Rightarrow> nat \<Rightarrow> (bytes \<times> u8) option" where
  "serialize_unencrypted_ranges ranges buffer at buffer_size =
     map_option (\<lambda>(b, w). (b, of_nat (w - at))) (serialize_loop ranges buffer at (at + buffer_size))"

function deserialize_loop :: "bytes \<Rightarrow> nat \<Rightarrow> nat \<Rightarrow> range list \<Rightarrow> nat option \<times> range list" where
  "deserialize_loop buf pos stop acc =
     (if pos < stop then
        (case read_leb128 buf pos stop of
           (_, None) \<Rightarrow> (None, acc)
         | (off, Some pos1) \<Rightarrow>
             (case read_leb128 buf pos1 stop of
                (_, None) \<Rightarrow> (None, acc)
              | (sz, Some pos2) \<Rightarrow>
                  deserialize_loop buf pos2 stop (acc @ [mk_range (unat off) (unat sz)])))
      else (Some pos, acc))"
  by pat_completeness auto

lemma two_reads_forward:
  assumes "(a, Some p1) = read_leb128 buf pos stop" "(b, Some p2) = read_leb128 buf p1 stop" "pos < stop"
  shows "pos < p2 \<and> p2 \<le> stop"
  using read_leb128_bounds [OF assms(1) [symmetric]] read_leb128_bounds [OF assms(2) [symmetric]] assms(3)
  by simp

termination deserialize_loop
  by (relation "measure (\<lambda>(_, pos, stop, _). stop - pos)") (auto dest: two_reads_forward)

declare deserialize_loop.simps [simp del]

text \<open>The reader's position, the ranges pushed, and the number of bytes consumed.\<close>

definition deserialize_unencrypted_ranges ::
    "bytes \<Rightarrow> nat \<Rightarrow> u8 \<Rightarrow> range list \<Rightarrow> nat option \<times> range list \<times> u8" where
  "deserialize_unencrypted_ranges buf read_at buffer_size ranges =
     (let stop = read_at + unat buffer_size;
          (pos, rs) = deserialize_loop buf read_at stop ranges
      in case pos of
           Some p \<Rightarrow> if p = stop then (Some p, rs, of_nat (p - read_at)) else (None, [], 0)
         | None \<Rightarrow> (None, [], 0))"

fun validate_loop :: "range list \<Rightarrow> nat \<Rightarrow> bool" where
  "validate_loop [] frame_size = True"
| "validate_loop (current # rest) frame_size =
     (let max_end = (case rest of [] \<Rightarrow> frame_size | next # _ \<Rightarrow> rg_offset next);
          (did_overflow, current_end) = overflow_add (rg_offset current) (rg_size current)
      in if did_overflow \<or> current_end > max_end then False else validate_loop rest frame_size)"

definition validate_unencrypted_ranges :: "range list \<Rightarrow> nat \<Rightarrow> bool" where
  "validate_unencrypted_ranges ranges frame_size =
     (if ranges = [] then True else validate_loop ranges frame_size)"

section \<open>do_reconstruct\<close>

text \<open>
  The two lambdas of the source copy the next \<open>n\<close> bytes of one source to the output; the
  state is the output, the frame index and the two read indices.
\<close>

record recon =
  rc_output :: bytes
  rc_frame_index :: nat
  rc_range_bytes_index :: nat
  rc_other_bytes_index :: nat

definition copy_range_bytes :: "bytes \<Rightarrow> nat \<Rightarrow> recon \<Rightarrow> recon option" where
  "copy_range_bytes range_bytes n s = do {
     src \<leftarrow> subspan range_bytes (rc_range_bytes_index s) n;
     out \<leftarrow> store (rc_output s) (rc_frame_index s) src;
     Some (s\<lparr>rc_output := out, rc_range_bytes_index := rc_range_bytes_index s + n,
            rc_frame_index := rc_frame_index s + n\<rparr>)
   }"

definition copy_other_bytes :: "bytes \<Rightarrow> nat \<Rightarrow> recon \<Rightarrow> recon option" where
  "copy_other_bytes other_bytes n s = do {
     src \<leftarrow> subspan other_bytes (rc_other_bytes_index s) n;
     out \<leftarrow> store (rc_output s) (rc_frame_index s) src;
     Some (s\<lparr>rc_output := out, rc_other_bytes_index := rc_other_bytes_index s + n,
            rc_frame_index := rc_frame_index s + n\<rparr>)
   }"

fun reconstruct_loop :: "range list \<Rightarrow> bytes \<Rightarrow> bytes \<Rightarrow> recon \<Rightarrow> recon option" where
  "reconstruct_loop [] range_bytes other_bytes s = Some s"
| "reconstruct_loop (r # rs) range_bytes other_bytes s = do {
     s1 \<leftarrow> (if rg_offset r > rc_frame_index s
            then copy_other_bytes other_bytes (rg_offset r - rc_frame_index s) s else Some s);
     s2 \<leftarrow> copy_range_bytes range_bytes (rg_size r) s1;
     reconstruct_loop rs range_bytes other_bytes s2
   }"

definition do_reconstruct ::
    "range list \<Rightarrow> bytes \<Rightarrow> bytes \<Rightarrow> bytes \<Rightarrow> (bytes \<times> nat) option" where
  "do_reconstruct ranges range_bytes other_bytes output = do {
     s \<leftarrow> reconstruct_loop ranges range_bytes other_bytes
           \<lparr>rc_output = output, rc_frame_index = 0, rc_range_bytes_index = 0,
            rc_other_bytes_index = 0\<rparr>;
     s' \<leftarrow> (if rc_other_bytes_index s < length other_bytes
            then copy_other_bytes other_bytes (length other_bytes - rc_other_bytes_index s) s
            else Some s);
     Some (rc_output s', rc_frame_index s')
   }"

section \<open>InboundFrameProcessor\<close>

record inbound =
  ib_encrypted :: bool
  ib_original_size :: nat
  ib_tag :: bytes
  ib_truncated_nonce :: u32
  ib_unencrypted_ranges :: "range list"
  ib_authenticated :: bytes
  ib_ciphertext :: bytes
  ib_plaintext :: bytes

definition inbound_init :: inbound where
  "inbound_init = \<lparr>ib_encrypted = False, ib_original_size = 0, ib_tag = [], ib_truncated_nonce = 0,
     ib_unencrypted_ranges = [], ib_authenticated = [], ib_ciphertext = [], ib_plaintext = []\<rparr>"

definition inbound_clear :: "inbound \<Rightarrow> inbound" where
  "inbound_clear p = p\<lparr>ib_encrypted := False, ib_original_size := 0, ib_truncated_nonce := - 1,
     ib_unencrypted_ranges := [], ib_authenticated := [], ib_ciphertext := [], ib_plaintext := []\<rparr>"

definition add_authenticated_bytes :: "inbound \<Rightarrow> bytes \<Rightarrow> inbound" where
  "add_authenticated_bytes p data = p\<lparr>ib_authenticated := ib_authenticated p @ data\<rparr>"

definition add_ciphertext_bytes :: "inbound \<Rightarrow> bytes \<Rightarrow> inbound" where
  "add_ciphertext_bytes p data = p\<lparr>ib_ciphertext := ib_ciphertext p @ data\<rparr>"

text \<open>The loop of \<^verbatim>\<open>parse_frame\<close> that splits the frame along its ranges.\<close>

fun split_loop :: "range list \<Rightarrow> bytes \<Rightarrow> nat \<Rightarrow> inbound \<Rightarrow> (nat \<times> inbound) option" where
  "split_loop [] frame frame_index p = Some (frame_index, p)"
| "split_loop (r # rs) frame frame_index p = do {
     let encrypted_bytes = size_sub (rg_offset r) frame_index;
     p1 \<leftarrow> (if encrypted_bytes > 0
            then map_option (add_ciphertext_bytes p) (subspan frame frame_index encrypted_bytes)
            else Some p);
     p2 \<leftarrow> map_option (add_authenticated_bytes p1) (subspan frame (rg_offset r) (rg_size r));
     split_loop rs frame (wrap64 (rg_offset r + rg_size r)) p2
   }"

definition resize_bytes :: "bytes \<Rightarrow> nat \<Rightarrow> bytes" where
  "resize_bytes xs n = take n xs @ replicate (n - length xs) 0"

lemma length_resize_bytes [simp]: "length (resize_bytes xs n) = n"
  by (simp add: resize_bytes_def)

definition parse_ranges :: "bytes \<Rightarrow> nat \<Rightarrow> inbound \<Rightarrow> inbound option" where
  "parse_ranges frame bytes_size p =
     (if \<not> validate_unencrypted_ranges (ib_unencrypted_ranges p) (length frame) then Some p
      else do {
        (frame_index, p1) \<leftarrow> split_loop (ib_unencrypted_ranges p) frame 0
                              (p\<lparr>ib_original_size := length frame\<rparr>);
        let actual_frame_size = length frame - bytes_size;
        p2 \<leftarrow> (if frame_index < actual_frame_size
               then map_option (add_ciphertext_bytes p1)
                      (subspan frame frame_index (actual_frame_size - frame_index))
               else Some p1);
        Some (p2\<lparr>ib_plaintext := resize_bytes (ib_plaintext p2) (length (ib_ciphertext p2)),
                 ib_encrypted := True\<rparr>)
      })"

definition parse_supplemental :: "bytes \<Rightarrow> nat \<Rightarrow> inbound \<Rightarrow> inbound option" where
  "parse_supplemental frame bytes_size p = do {
     supplemental \<leftarrow> last_bytes frame bytes_size;
     tag \<leftarrow> subspan supplemental 0 AES_GCM_128_TRUNCATED_TAG_BYTES;
     nonce_and_ranges \<leftarrow> subspan supplemental AES_GCM_128_TRUNCATED_TAG_BYTES
                          (bytes_size - AES_GCM_128_TRUNCATED_TAG_BYTES - 1 - 2);
     let stop = length nonce_and_ranges;
     let (nonce, read_at) = read_leb128 nonce_and_ranges 0 stop;
     let p1 = p\<lparr>ib_tag := tag, ib_truncated_nonce := ucast nonce\<rparr>;
     (case read_at of
        None \<Rightarrow> Some p1
      | Some pos \<Rightarrow>
          (case deserialize_unencrypted_ranges nonce_and_ranges pos (of_nat (stop - pos))
                  (ib_unencrypted_ranges p1) of
             (None, ranges, _) \<Rightarrow> Some (p1\<lparr>ib_unencrypted_ranges := ranges\<rparr>)
           | (Some _, ranges, _) \<Rightarrow>
               parse_ranges frame bytes_size (p1\<lparr>ib_unencrypted_ranges := ranges\<rparr>)))
   }"

definition parse_frame :: "inbound \<Rightarrow> bytes \<Rightarrow> inbound option" where
  "parse_frame p0 frame =
     (let p = inbound_clear p0 in
      if length frame < SUPPLEMENTAL_BYTES then Some p
      else if \<not> ends_with_value frame MARKER_BYTES then Some p
      else do {
        size_byte_span \<leftarrow> last_bytes frame 3;
        bytes_size \<leftarrow> (read_value (take 1 size_byte_span) :: u8 option);
        if length frame < unat bytes_size then Some p
        else if unat bytes_size < SUPPLEMENTAL_BYTES then Some p
        else parse_supplemental frame (unat bytes_size) p
      })"

definition inbound_reconstruct_frame :: "inbound \<Rightarrow> bytes \<Rightarrow> (bytes \<times> nat) option" where
  "inbound_reconstruct_frame p frame =
     (if \<not> ib_encrypted p then Some (frame, 0)
      else if length (ib_authenticated p) + length (ib_plaintext p) > length frame then Some (frame, 0)
      else do_reconstruct (ib_unencrypted_ranges p) (ib_authenticated p) (ib_plaintext p) frame)"

section \<open>OutboundFrameProcessor\<close>

record outbound =
  ob_frame_codec :: codec
  ob_frame_index :: nat
  ob_unencrypted_bytes :: bytes
  ob_encrypted_bytes :: bytes
  ob_ciphertext_bytes :: bytes
  ob_unencrypted_ranges :: "range list"

definition outbound_init :: outbound where
  "outbound_init = \<lparr>ob_frame_codec = Unknown, ob_frame_index = 0, ob_unencrypted_bytes = [],
     ob_encrypted_bytes = [], ob_ciphertext_bytes = [], ob_unencrypted_ranges = []\<rparr>"

definition outbound_reset :: "outbound \<Rightarrow> outbound" where
  "outbound_reset p = p\<lparr>ob_frame_codec := Unknown, ob_frame_index := 0, ob_unencrypted_bytes := [],
     ob_encrypted_bytes := [], ob_unencrypted_ranges := []\<rparr>"

definition add_unencrypted_bytes :: "outbound \<Rightarrow> bytes \<Rightarrow> outbound" where
  "add_unencrypted_bytes p data =
     (let rs = ob_unencrypted_ranges p;
          rs' = (if rs \<noteq> [] \<and> rg_offset (last rs) + rg_size (last rs) = ob_frame_index p
                 then butlast rs @ [mk_range (rg_offset (last rs)) (rg_size (last rs) + length data)]
                 else rs @ [mk_range (ob_frame_index p) (length data)])
      in p\<lparr>ob_unencrypted_ranges := rs', ob_unencrypted_bytes := ob_unencrypted_bytes p @ data,
           ob_frame_index := ob_frame_index p + length data\<rparr>)"

definition add_encrypted_bytes :: "outbound \<Rightarrow> bytes \<Rightarrow> outbound" where
  "add_encrypted_bytes p data =
     p\<lparr>ob_encrypted_bytes := ob_encrypted_bytes p @ data,
       ob_frame_index := ob_frame_index p + length data\<rparr>"

definition outbound_reconstruct_frame :: "outbound \<Rightarrow> bytes \<Rightarrow> (bytes \<times> nat) option" where
  "outbound_reconstruct_frame p frame =
     (if length (ob_unencrypted_bytes p) + length (ob_ciphertext_bytes p) > length frame
      then Some (frame, 0)
      else do_reconstruct (ob_unencrypted_ranges p) (ob_unencrypted_bytes p)
             (ob_ciphertext_bytes p) frame)"

end
