(* ===== verification/Frame_Format.thy ===== *)
theory Frame_Format
  imports Frame_Processors
begin

text \<open>
  What the frame processors compute, stated without indices: a frame is the interleaving
  (\<open>weave\<close>) of the bytes inside its ranges with the bytes outside them.
  \<open>do_reconstruct\<close> computes \<open>weave\<close>, the splitting loop of \<open>parse_frame\<close> inverts it,
  the serialized ranges read back as they were written, and a parse never leaves its input.
\<close>

section \<open>Ranges in order and the interleaving they describe\<close>

fun in_order :: "nat \<Rightarrow> range list \<Rightarrow> bool" where
  "in_order i [] = True"
| "in_order i (r # rs) = (i \<le> rg_offset r \<and> in_order (rg_offset r + rg_size r) rs)"

fun covered :: "range list \<Rightarrow> nat" where
  "covered [] = 0"
| "covered (r # rs) = rg_size r + covered rs"

fun gaps :: "nat \<Rightarrow> range list \<Rightarrow> nat" where
  "gaps i [] = 0"
| "gaps i (r # rs) = (rg_offset r - i) + gaps (rg_offset r + rg_size r) rs"

fun ranges_end :: "nat \<Rightarrow> range list \<Rightarrow> nat" where
  "ranges_end i [] = i"
| "ranges_end i (r # rs) = ranges_end (rg_offset r + rg_size r) rs"

lemma ranges_end_eq: "in_order i rs \<Longrightarrow> ranges_end i rs = i + covered rs + gaps i rs"
  by (induction rs arbitrary: i) auto

lemma ranges_end_mono: "in_order i rs \<Longrightarrow> i \<le> ranges_end i rs"
  by (simp add: ranges_end_eq)

fun weave_ranges :: "range list \<Rightarrow> nat \<Rightarrow> 'a list \<Rightarrow> 'a list \<Rightarrow> 'a list" where
  "weave_ranges [] i rb ob = []"
| "weave_ranges (r # rs) i rb ob =
     take (rg_offset r - i) ob @ take (rg_size r) rb @
     weave_ranges rs (rg_offset r + rg_size r) (drop (rg_size r) rb) (drop (rg_offset r - i) ob)"

definition weave :: "range list \<Rightarrow> 'a list \<Rightarrow> 'a list \<Rightarrow> 'a list" where
  "weave rs rb ob = weave_ranges rs 0 rb ob @ drop (gaps 0 rs) ob"

lemma length_weave_ranges:
  "in_order i rs \<Longrightarrow> covered rs \<le> length rb \<Longrightarrow> gaps i rs \<le> length ob \<Longrightarrow>
   length (weave_ranges rs i rb ob) = covered rs + gaps i rs"
  by (induction rs i rb ob rule: weave_ranges.induct) auto

lemma length_weave:
  assumes "in_order 0 rs" "covered rs = length rb" "gaps 0 rs \<le> length ob"
  shows "length (weave rs rb ob) = length rb + length ob"
  using assms by (simp add: weave_def length_weave_ranges)

section \<open>do_reconstruct is weave\<close>

lemma copy_range_bytes_Some:
  assumes "rc_range_bytes_index s + n \<le> length rb" "rc_frame_index s + n \<le> length (rc_output s)"
  obtains s' where "copy_range_bytes rb n s = Some s'"
    and "rc_frame_index s' = rc_frame_index s + n"
    and "rc_range_bytes_index s' = rc_range_bytes_index s + n"
    and "rc_other_bytes_index s' = rc_other_bytes_index s"
    and "length (rc_output s') = length (rc_output s)"
    and "take (rc_frame_index s + n) (rc_output s')
         = take (rc_frame_index s) (rc_output s) @ take n (drop (rc_range_bytes_index s) rb)"
proof -
  let ?src = "take n (drop (rc_range_bytes_index s) rb)"
  have len: "length ?src = n" using assms(1) by simp
  then obtain out where out: "store (rc_output s) (rc_frame_index s) ?src = Some out"
    using assms(2) store_fits [of "rc_frame_index s" ?src "rc_output s"] by auto
  then have "length out = length (rc_output s)"
      "take (rc_frame_index s + n) out = take (rc_frame_index s) (rc_output s) @ ?src"
    using store_take [OF out] len by (simp_all add: store_length)
  with out show thesis
    by (intro that [of "s\<lparr>rc_output := out, rc_range_bytes_index := rc_range_bytes_index s + n,
            rc_frame_index := rc_frame_index s + n\<rparr>"])
      (simp_all add: copy_range_bytes_def subspan_Some [OF assms(1)])
qed

lemma copy_other_bytes_Some:
  assumes "rc_other_bytes_index s + n \<le> length ob" "rc_frame_index s + n \<le> length (rc_output s)"
  obtains s' where "copy_other_bytes ob n s = Some s'"
    and "rc_frame_index s' = rc_frame_index s + n"
    and "rc_range_bytes_index s' = rc_range_bytes_index s"
    and "rc_other_bytes_index s' = rc_other_bytes_index s + n"
    and "length (rc_output s') = length (rc_output s)"
    and "take (rc_frame_index s + n) (rc_output s')
         = take (rc_frame_index s) (rc_output s) @ take n (drop (rc_other_bytes_index s) ob)"
proof -
  let ?src = "take n (drop (rc_other_bytes_index s) ob)"
  have len: "length ?src = n" using assms(1) by simp
  then obtain out where out: "store (rc_output s) (rc_frame_index s) ?src = Some out"
    using assms(2) store_fits [of "rc_frame_index s" ?src "rc_output s"] by auto
  then have "length out = length (rc_output s)"
      "take (rc_frame_index s + n) out = take (rc_frame_index s) (rc_output s) @ ?src"
    using store_take [OF out] len by (simp_all add: store_length)
  with out show thesis
    by (intro that [of "s\<lparr>rc_output := out, rc_other_bytes_index := rc_other_bytes_index s + n,
            rc_frame_index := rc_frame_index s + n\<rparr>"])
      (simp_all add: copy_other_bytes_def subspan_Some [OF assms(1)])
qed

text \<open>The optional copy before a range: a copy of no bytes changes nothing.\<close>

lemma gap_copy_Some:
  assumes "rc_frame_index s \<le> off" "rc_other_bytes_index s + (off - rc_frame_index s) \<le> length ob"
    and "off \<le> length (rc_output s)"
  obtains s' where "(if off > rc_frame_index s
         then copy_other_bytes ob (off - rc_frame_index s) s else Some s) = Some s'"
    and "rc_frame_index s' = off"
    and "rc_range_bytes_index s' = rc_range_bytes_index s"
    and "rc_other_bytes_index s' = rc_other_bytes_index s + (off - rc_frame_index s)"
    and "length (rc_output s') = length (rc_output s)"
    and "take off (rc_output s') = take (rc_frame_index s) (rc_output s)
         @ take (off - rc_frame_index s) (drop (rc_other_bytes_index s) ob)"
proof (cases "off > rc_frame_index s")
  case True
  show thesis
    by (rule copy_other_bytes_Some [of s "off - rc_frame_index s" ob])
      (use assms True that in auto)
next
  case False
  with assms show thesis
    by (intro that [of s]) auto
qed

lemma reconstruct_loop_Some:
  assumes "in_order (rc_frame_index s) rs"
    and "rc_range_bytes_index s + covered rs \<le> length rb"
    and "rc_other_bytes_index s + gaps (rc_frame_index s) rs \<le> length ob"
    and "rc_frame_index s + covered rs + gaps (rc_frame_index s) rs \<le> length (rc_output s)"
  shows "\<exists>s'. reconstruct_loop rs rb ob s = Some s'
     \<and> rc_frame_index s' = rc_frame_index s + covered rs + gaps (rc_frame_index s) rs
     \<and> rc_other_bytes_index s' = rc_other_bytes_index s + gaps (rc_frame_index s) rs
     \<and> length (rc_output s') = length (rc_output s)
     \<and> take (rc_frame_index s') (rc_output s') = take (rc_frame_index s) (rc_output s) @
         weave_ranges rs (rc_frame_index s) (drop (rc_range_bytes_index s) rb)
           (drop (rc_other_bytes_index s) ob)"
  using assms
proof (induction rs arbitrary: s)
  case Nil
  then show ?case by simp
next
  case (Cons r rs)
  let ?off = "rg_offset r" and ?n = "rg_size r"
  have pre: "rc_frame_index s \<le> ?off"
    "rc_other_bytes_index s + (?off - rc_frame_index s) \<le> length ob" "?off \<le> length (rc_output s)"
    using Cons.prems by auto
  obtain s1 where s1: "(if ?off > rc_frame_index s
         then copy_other_bytes ob (?off - rc_frame_index s) s else Some s) = Some s1"
    "rc_frame_index s1 = ?off" "rc_range_bytes_index s1 = rc_range_bytes_index s"
    "rc_other_bytes_index s1 = rc_other_bytes_index s + (?off - rc_frame_index s)"
    "length (rc_output s1) = length (rc_output s)"
    "take ?off (rc_output s1) = take (rc_frame_index s) (rc_output s)
         @ take (?off - rc_frame_index s) (drop (rc_other_bytes_index s) ob)"
    by (rule gap_copy_Some [OF pre])
  obtain s2 where s2: "copy_range_bytes rb ?n s1 = Some s2" "rc_frame_index s2 = ?off + ?n"
    "rc_range_bytes_index s2 = rc_range_bytes_index s + ?n"
    "rc_other_bytes_index s2 = rc_other_bytes_index s1"
    "length (rc_output s2) = length (rc_output s)"
    "take (?off + ?n) (rc_output s2)
         = take ?off (rc_output s1) @ take ?n (drop (rc_range_bytes_index s) rb)"
    by (rule copy_range_bytes_Some [of s1 ?n rb]) (use Cons.prems s1 in auto)
  have "\<exists>s'. reconstruct_loop rs rb ob s2 = Some s'
     \<and> rc_frame_index s' = rc_frame_index s2 + covered rs + gaps (rc_frame_index s2) rs
     \<and> rc_other_bytes_index s' = rc_other_bytes_index s2 + gaps (rc_frame_index s2) rs
     \<and> length (rc_output s') = length (rc_output s2)
     \<and> take (rc_frame_index s') (rc_output s') = take (rc_frame_index s2) (rc_output s2) @
         weave_ranges rs (rc_frame_index s2) (drop (rc_range_bytes_index s2) rb)
           (drop (rc_other_bytes_index s2) ob)"
    by (rule Cons.IH) (use Cons.prems s1 s2 in auto)
  then show ?case
    using Cons.prems s1 s2 by (auto simp: add.commute)
qed

theorem do_reconstruct_weave:
  assumes "in_order 0 rs" "covered rs = length rb" "gaps 0 rs \<le> length ob"
    and "length rb + length ob \<le> length out"
  shows "\<exists>out'. do_reconstruct rs rb ob out = Some (out', length rb + length ob)
           \<and> length out' = length out \<and> take (length rb + length ob) out' = weave rs rb ob"
proof -
  let ?s0 = "\<lparr>rc_output = out, rc_frame_index = 0, rc_range_bytes_index = 0, rc_other_bytes_index = 0\<rparr>"
  obtain s where s: "reconstruct_loop rs rb ob ?s0 = Some s"
    "rc_frame_index s = covered rs + gaps 0 rs" "rc_other_bytes_index s = gaps 0 rs"
    "length (rc_output s) = length out"
    "take (rc_frame_index s) (rc_output s) = weave_ranges rs 0 rb ob"
    using reconstruct_loop_Some [of ?s0 rs rb ob] assms by auto
  show ?thesis
  proof (cases "gaps 0 rs < length ob")
    case True
    have pre: "rc_other_bytes_index s + (length ob - gaps 0 rs) \<le> length ob"
      "rc_frame_index s + (length ob - gaps 0 rs) \<le> length (rc_output s)"
      using True s assms by auto
    obtain s' where "copy_other_bytes ob (length ob - gaps 0 rs) s = Some s'"
      "rc_frame_index s' = rc_frame_index s + (length ob - gaps 0 rs)"
      "length (rc_output s') = length (rc_output s)"
      "take (rc_frame_index s + (length ob - gaps 0 rs)) (rc_output s')
         = take (rc_frame_index s) (rc_output s) @ take (length ob - gaps 0 rs) (drop (gaps 0 rs) ob)"
      using copy_other_bytes_Some [OF pre] s(3) by metis
    with s True assms(2,3) show ?thesis
      by (auto simp: do_reconstruct_def weave_def)
  next
    case False
    with s assms show ?thesis
      by (auto simp: do_reconstruct_def weave_def)
  qed
qed

section \<open>Splitting inverts weaving\<close>

fun inside :: "range list \<Rightarrow> 'a list \<Rightarrow> 'a list" where
  "inside [] f = []"
| "inside (r # rs) f = take (rg_size r) (drop (rg_offset r) f) @ inside rs f"

fun outside :: "nat \<Rightarrow> range list \<Rightarrow> 'a list \<Rightarrow> 'a list" where
  "outside i [] f = []"
| "outside i (r # rs) f =
     take (rg_offset r - i) (drop i f) @ outside (rg_offset r + rg_size r) rs f"

lemma length_inside: "in_order i rs \<Longrightarrow> ranges_end i rs \<le> length f \<Longrightarrow> length (inside rs f) = covered rs"
proof (induction rs arbitrary: i)
  case Nil
  then show ?case by simp
next
  case (Cons r rs)
  then have "rg_offset r + rg_size r \<le> length f"
    using ranges_end_mono [of "rg_offset r + rg_size r" rs] by simp
  with Cons.IH [of "rg_offset r + rg_size r"] Cons.prems show ?case by simp
qed

lemma length_outside: "in_order i rs \<Longrightarrow> ranges_end i rs \<le> length f \<Longrightarrow> length (outside i rs f) = gaps i rs"
proof (induction rs arbitrary: i)
  case Nil
  then show ?case by simp
next
  case (Cons r rs)
  then have "rg_offset r + rg_size r \<le> length f"
    using ranges_end_mono [of "rg_offset r + rg_size r" rs] by simp
  with Cons show ?case by simp
qed

text \<open>The splitting loop never leaves the frame and computes \<open>inside\<close> and \<open>outside\<close>.\<close>

lemma split_loop_eq:
  assumes "in_order i rs" "ranges_end i rs \<le> length frame" "length frame \<le> SIZE_MAX"
  shows "split_loop rs frame i p = Some (ranges_end i rs,
     p\<lparr>ib_authenticated := ib_authenticated p @ inside rs frame,
       ib_ciphertext := ib_ciphertext p @ outside i rs frame\<rparr>)"
  using assms
proof (induction rs arbitrary: i p)
  case Nil
  then show ?case by simp
next
  case (Cons r rs)
  let ?e = "rg_offset r + rg_size r"
  have le: "?e \<le> length frame"
    using Cons.prems ranges_end_mono [of ?e rs] by simp
  have w: "wrap64 ?e = ?e"
    using le Cons.prems(3) by (simp add: SIZE_MAX_def)
  have "i + (rg_offset r - i) \<le> length frame"
    using Cons.prems(1) le by simp
  with Cons le w show ?case
    by (cases "i < rg_offset r")
      (auto simp: span_simps add_ciphertext_bytes_def add_authenticated_bytes_def)
qed

text \<open>Weaving and splitting again gives both sources back.\<close>

lemma inside_outside_weave_ranges:
  assumes "in_order (length pre) rs" "covered rs \<le> length rb" "gaps (length pre) rs \<le> length ob"
    and "f = pre @ weave_ranges rs (length pre) rb ob @ post"
  shows "inside rs f = take (covered rs) rb \<and> outside (length pre) rs f = take (gaps (length pre) rs) ob"
  using assms
proof (induction rs arbitrary: pre rb ob)
  case Nil
  then show ?case by simp
next
  case (Cons r rs)
  let ?g = "rg_offset r - length pre" and ?n = "rg_size r"
  let ?pre' = "pre @ take ?g ob @ take ?n rb"
  have len: "length ?pre' = rg_offset r + ?n"
    using Cons.prems by simp
  have f: "f = ?pre' @ weave_ranges rs (length ?pre') (drop ?n rb) (drop ?g ob) @ post"
    unfolding len using Cons.prems(4) by simp
  have IH: "inside rs f = take (covered rs) (drop ?n rb)"
    "outside (rg_offset r + ?n) rs f = take (gaps (rg_offset r + ?n) rs) (drop ?g ob)"
    using Cons.IH [of ?pre' "drop ?n rb" "drop ?g ob", OF _ _ _ f] Cons.prems
    by (auto simp: len)
  have "take ?n (drop (rg_offset r) f) = take ?n rb" "take ?g (drop (length pre) f) = take ?g ob"
    using Cons.prems by (auto simp: f)
  with IH show ?case
    by (simp add: take_add)
qed

lemma split_weave:
  assumes "in_order 0 rs" "covered rs = length rb" "gaps 0 rs \<le> length ob"
    and f: "f = weave rs rb ob @ post"
  shows "inside rs f = rb"
    and "outside 0 rs f @ take (length rb + length ob - ranges_end 0 rs) (drop (ranges_end 0 rs) f) = ob"
proof -
  let ?tail = "drop (gaps 0 rs) ob @ post"
  have f': "f = weave_ranges rs 0 rb ob @ ?tail"
    by (simp add: f weave_def)
  then have "f = [] @ weave_ranges rs (length []) rb ob @ ?tail"
    by simp
  from inside_outside_weave_ranges [of "[]", OF _ _ _ this] assms(1-3)
  have io: "inside rs f = rb" "outside 0 rs f = take (gaps 0 rs) ob" by auto
  then show "inside rs f = rb" by simp
  have "length (weave_ranges rs 0 rb ob) = ranges_end 0 rs"
    using assms(1-3) by (simp add: length_weave_ranges ranges_end_eq)
  then have "drop (ranges_end 0 rs) f = ?tail"
    unfolding f' by simp
  with io assms(1-3) show
    "outside 0 rs f @ take (length rb + length ob - ranges_end 0 rs) (drop (ranges_end 0 rs) f) = ob"
    by (simp add: ranges_end_eq)
qed

section \<open>Validation\<close>

definition sized :: "range list \<Rightarrow> bool" where
  "sized rs = (\<forall>r \<in> set rs. rg_offset r \<le> SIZE_MAX \<and> rg_size r \<le> SIZE_MAX)"

lemma overflow_add_eq:
  assumes "a \<le> SIZE_MAX" "b \<le> SIZE_MAX"
  shows "overflow_add a b = (if a + b \<le> SIZE_MAX then (False, a + b) else (True, 0))"
  using assms by (simp add: overflow_add_def checked_add_spec)

lemma validate_loop_iff:
  assumes "sized (r # rs)" "n \<le> SIZE_MAX"
  shows "validate_loop (r # rs) n \<longleftrightarrow> in_order (rg_offset r) (r # rs) \<and> ranges_end 0 (r # rs) \<le> n"
  using assms(1)
proof (induction rs arbitrary: r)
  case Nil
  with assms(2) show ?case
    by (auto simp: sized_def overflow_add_eq)
next
  case (Cons r' rs)
  have s: "sized (r' # rs)" and b: "rg_offset r \<le> SIZE_MAX" "rg_size r \<le> SIZE_MAX" "rg_offset r' \<le> SIZE_MAX"
    using Cons.prems by (auto simp: sized_def)
  show ?case
    using Cons.IH [OF s] b by (auto simp: overflow_add_eq)
qed

lemma validate_iff:
  assumes "sized rs" "n \<le> SIZE_MAX"
  shows "validate_unencrypted_ranges rs n \<longleftrightarrow> in_order 0 rs \<and> ranges_end 0 rs \<le> n"
  using assms validate_loop_iff
  by (cases rs) (auto simp: validate_unencrypted_ranges_def)

section \<open>Serialized ranges read back\<close>

definition range_bytes :: "range \<Rightarrow> bytes" where
  "range_bytes r = leb128_bytes (of_nat (rg_offset r)) @ leb128_bytes (of_nat (rg_size r))"

definition ranges_bytes :: "range list \<Rightarrow> bytes" where
  "ranges_bytes rs = concat (map range_bytes rs)"

lemma ranges_bytes_simps [simp]:
  "ranges_bytes [] = []" "ranges_bytes (r # rs) = range_bytes r @ ranges_bytes rs"
  by (simp_all add: ranges_bytes_def)

lemma length_range_bytes: "length (range_bytes r) = range_size r"
  by (simp add: range_bytes_def range_size_def leb128_size_length)

lemma range_bytes_pair:
  "range_bytes r = leb128_pair.enc_pair (of_nat (rg_offset r), of_nat (rg_size r))"
  by (simp add: range_bytes_def leb128_pair.enc_pair_def)

lemma deserialize_step:
  assumes "leb128_pair.dec_pair buf pos stop = Some ((off, sz), pos2)" "pos < stop"
  shows "deserialize_loop buf pos stop acc
         = deserialize_loop buf pos2 stop (acc @ [mk_range (unat off) (unat sz)])"
  using assms
  by (auto simp: deserialize_loop.simps [of buf pos] leb128_pair.dec_pair_def bind_Some_iff
      leb128_decode_iff split: prod.splits)

lemma deserialize_loop_written:
  assumes "drop pos buf = ranges_bytes rs @ rest" "sized rs" "stop = pos + length (ranges_bytes rs)"
  shows "deserialize_loop buf pos stop acc = (Some stop, acc @ rs)"
  using assms
proof (induction rs arbitrary: pos acc)
  case Nil
  then show ?case by (simp add: deserialize_loop.simps [of buf pos])
next
  case (Cons r rs)
  let ?x = "(of_nat (rg_offset r), of_nat (rg_size r)) :: u64 \<times> u64"
  have d: "drop pos buf = leb128_pair.enc_pair ?x @ ranges_bytes rs @ rest"
    using Cons.prems(1) by (simp add: range_bytes_pair)
  have dec: "leb128_pair.dec_pair buf pos stop = Some (?x, pos + length (range_bytes r))"
    using leb128_pair.dec_pair_enc [OF d] Cons.prems(3) by (simp add: range_bytes_pair)
  have lt: "pos < stop"
    using leb128_pair.pair_code.dec_forward [OF dec] Cons.prems(3) by simp
  have "deserialize_loop buf (pos + length (range_bytes r)) stop (acc @ [r]) = (Some stop, (acc @ [r]) @ rs)"
    by (rule Cons.IH)
      (use leb128_pair.pair_code.drop_behind [OF d] Cons.prems in \<open>auto simp: range_bytes_pair sized_def\<close>)
  moreover have "mk_range (unat (of_nat (rg_offset r) :: u64)) (unat (of_nat (rg_size r) :: u64)) = r"
    using Cons.prems(2) by (simp add: sized_def unat_of_nat_u64)
  ultimately show ?case
    using deserialize_step [OF dec lt] by simp
qed

lemma deserialize_sized:
  "sized acc \<Longrightarrow> deserialize_loop buf pos stop acc = (q, rs) \<Longrightarrow> sized rs"
proof (induction buf pos stop acc rule: deserialize_loop.induct)
  case (1 buf pos stop acc)
  have s: "sized (acc @ [mk_range (unat (a :: u64)) (unat (b :: u64))])" for a b
    using "1.prems"(1) by (auto simp: sized_def unat_le_SIZE_MAX)
  note IH = "1.IH" [OF _ _ refl _ refl s]
  show ?case
    using IH "1.prems"
    by (auto simp: deserialize_loop.simps [of buf pos] split: if_splits prod.splits option.splits)
qed

lemma serialize_loop_eq:
  assumes "at + length (ranges_bytes rs) \<le> stop" "stop \<le> length buffer"
  shows "\<exists>buffer'. serialize_loop rs buffer at stop = Some (buffer', at + length (ranges_bytes rs))
           \<and> length buffer' = length buffer
           \<and> take (at + length (ranges_bytes rs)) buffer' = take at buffer @ ranges_bytes rs"
  using assms
proof (induction rs arbitrary: buffer at)
  case Nil
  then show ?case by simp
next
  case (Cons r rs)
  let ?a = "leb128_bytes (of_nat (rg_offset r))" and ?b = "leb128_bytes (of_nat (rg_size r))"
  have len: "length (range_bytes r) = length ?a + length ?b"
    by (simp add: range_bytes_def)
  obtain b1 where b1: "store buffer at ?a = Some b1" "length b1 = length buffer"
    "take (at + length ?a) b1 = take at buffer @ ?a"
    using store_fits [of at ?a buffer] Cons.prems len store_length store_take by fastforce
  obtain b2 where b2: "store b1 (at + length ?a) ?b = Some b2" "length b2 = length buffer"
    "take (at + length ?a + length ?b) b2 = take at buffer @ ?a @ ?b"
    using store_fits [of "at + length ?a" ?b b1] Cons.prems len b1 store_length store_take by fastforce
  have "serialize_loop (r # rs) buffer at stop = serialize_loop rs b2 (at + length ?a + length ?b) stop"
  proof -
    have "\<not> range_size r > stop - at"
      using Cons.prems(1) by (simp add: length_range_bytes)
    with b1(1) b2(1) show ?thesis
      by (simp add: write_leb128_eq leb128_size_length)
  qed
  moreover have "\<exists>buffer'. serialize_loop rs b2 (at + length ?a + length ?b) stop
        = Some (buffer', at + length ?a + length ?b + length (ranges_bytes rs))
      \<and> length buffer' = length b2
      \<and> take (at + length ?a + length ?b + length (ranges_bytes rs)) buffer'
        = take (at + length ?a + length ?b) b2 @ ranges_bytes rs"
    by (rule Cons.IH) (use Cons.prems len b2(2) in simp_all)
  ultimately show ?case
    using b2 len by (auto simp: range_bytes_def add.assoc)
qed

section \<open>Parsing\<close>

text \<open>
  What a parsed frame guarantees: the ranges are in order, the authenticated bytes are
  exactly those inside them, the rest is ciphertext, and the plaintext buffer has the size of the
  ciphertext. \<open>reconstruct_frame\<close> relies on all of it.
\<close>

definition inbound_inv :: "inbound \<Rightarrow> bool" where
  "inbound_inv p = (ib_encrypted p \<longrightarrow>
     in_order 0 (ib_unencrypted_ranges p)
     \<and> covered (ib_unencrypted_ranges p) = length (ib_authenticated p)
     \<and> gaps 0 (ib_unencrypted_ranges p) \<le> length (ib_ciphertext p)
     \<and> length (ib_plaintext p) = length (ib_ciphertext p)
     \<and> length (ib_tag p) = AES_GCM_128_TRUNCATED_TAG_BYTES)"

lemma parse_ranges_eq:
  assumes "sized (ib_unencrypted_ranges p)" "length frame \<le> SIZE_MAX" "bytes_size \<le> length frame"
  shows "parse_ranges frame bytes_size p =
    (let rs = ib_unencrypted_ranges p;
         rest = take (length frame - bytes_size - ranges_end 0 rs) (drop (ranges_end 0 rs) frame);
         ciphertext = ib_ciphertext p @ outside 0 rs frame @ rest
     in if in_order 0 rs \<and> ranges_end 0 rs \<le> length frame
        then Some (p\<lparr>ib_encrypted := True, ib_original_size := length frame,
                     ib_authenticated := ib_authenticated p @ inside rs frame,
                     ib_ciphertext := ciphertext,
                     ib_plaintext := resize_bytes (ib_plaintext p) (length ciphertext)\<rparr>)
        else Some p)"
proof (cases "in_order 0 (ib_unencrypted_ranges p) \<and> ranges_end 0 (ib_unencrypted_ranges p) \<le> length frame")
  case True
  let ?rs = "ib_unencrypted_ranges p"
  let ?e = "ranges_end 0 ?rs"
  have sl: "split_loop ?rs frame 0 q = Some (?e, q\<lparr>ib_authenticated := ib_authenticated q @ inside ?rs frame,
       ib_ciphertext := ib_ciphertext q @ outside 0 ?rs frame\<rparr>)" for q
    using True assms(2) by (simp add: split_loop_eq)
  have "?e < length frame - bytes_size \<Longrightarrow> ?e + (length frame - bytes_size - ?e) \<le> length frame"
    by simp
  with True show ?thesis
    by (simp add: parse_ranges_def validate_iff assms sl Let_def subspan_Some add_ciphertext_bytes_def)
next
  case False
  then show ?thesis
    by (auto simp: parse_ranges_def validate_iff assms Let_def)
qed

lemma parse_ranges_inv:
  assumes "sized (ib_unencrypted_ranges p)" "length frame \<le> SIZE_MAX" "bytes_size \<le> length frame"
    and "\<not> ib_encrypted p" "ib_authenticated p = []" "ib_ciphertext p = []"
    and "length (ib_tag p) = AES_GCM_128_TRUNCATED_TAG_BYTES"
  shows "\<exists>p'. parse_ranges frame bytes_size p = Some p' \<and> inbound_inv p'"
  using assms
  by (auto simp: parse_ranges_eq Let_def inbound_inv_def length_inside length_outside)

lemma deserialize_unencrypted_ranges_sized:
  "sized acc \<Longrightarrow> deserialize_unencrypted_ranges buf pos n acc = (q, rs, k) \<Longrightarrow> sized rs"
  by (auto simp: deserialize_unencrypted_ranges_def Let_def sized_def [of "[]"]
      dest: deserialize_sized split: prod.splits option.splits if_splits)

text \<open>The parse of the supplemental bytes, with its three spans computed.\<close>

definition supplemental_span :: "bytes \<Rightarrow> nat \<Rightarrow> bytes" where
  "supplemental_span frame bytes_size = drop (length frame - bytes_size) frame"

definition nonce_and_ranges_span :: "bytes \<Rightarrow> nat \<Rightarrow> bytes" where
  "nonce_and_ranges_span frame bytes_size =
     take (bytes_size - 11) (drop 8 (supplemental_span frame bytes_size))"

lemma parse_supplemental_eq:
  assumes "bytes_size \<le> length frame" "11 \<le> bytes_size"
    and nr: "nr = nonce_and_ranges_span frame bytes_size"
    and rd: "read_leb128 nr 0 (length nr) = (nonce, read_at)"
    and p1: "p1 = p\<lparr>ib_tag := take 8 (supplemental_span frame bytes_size), ib_truncated_nonce := ucast nonce\<rparr>"
  shows "parse_supplemental frame bytes_size p =
    (case read_at of
        None \<Rightarrow> Some p1
      | Some pos \<Rightarrow>
          (case deserialize_unencrypted_ranges nr pos (of_nat (length nr - pos)) (ib_unencrypted_ranges p) of
             (None, ranges, _) \<Rightarrow> Some (p1\<lparr>ib_unencrypted_ranges := ranges\<rparr>)
           | (Some _, ranges, _) \<Rightarrow> parse_ranges frame bytes_size (p1\<lparr>ib_unencrypted_ranges := ranges\<rparr>)))"
proof -
  let ?s = "supplemental_span frame bytes_size"
  have "length ?s = bytes_size"
    using assms(1) by (simp add: supplemental_span_def)
  then have "last_bytes frame bytes_size = Some ?s" "subspan ?s 0 8 = Some (take 8 ?s)"
    "subspan ?s 8 (bytes_size - 8 - 1 - 2) = Some nr"
    using assms(1,2)
    by (simp_all add: last_bytes_def subspan_def nr nonce_and_ranges_span_def supplemental_span_def)
  then show ?thesis
    unfolding p1 by (simp add: parse_supplemental_def dave_consts rd Let_def)
qed

lemma parse_supplemental_inv:
  assumes "bytes_size \<le> length frame" "SUPPLEMENTAL_BYTES \<le> bytes_size" "length frame \<le> SIZE_MAX"
    and p: "p = inbound_clear q"
  shows "\<exists>p'. parse_supplemental frame bytes_size p = Some p' \<and> inbound_inv p'"
proof -
  let ?nr = "nonce_and_ranges_span frame bytes_size" and ?tag = "take 8 (supplemental_span frame bytes_size)"
  obtain nonce read_at where rd: "read_leb128 ?nr 0 (length ?nr) = (nonce, read_at)"
    by force
  let ?p1 = "p\<lparr>ib_tag := ?tag, ib_truncated_nonce := ucast nonce\<rparr>"
  have b: "11 \<le> bytes_size"
    using assms(2) by (simp add: dave_consts)
  have tag: "length ?tag = AES_GCM_128_TRUNCATED_TAG_BYTES"
    using assms(1) b by (simp add: dave_consts supplemental_span_def)
  have pr: "\<exists>p'. parse_ranges frame bytes_size (?p1\<lparr>ib_unencrypted_ranges := rs\<rparr>) = Some p' \<and> inbound_inv p'"
    if "sized rs" for rs
    using parse_ranges_inv [OF _ assms(3,1), of "?p1\<lparr>ib_unencrypted_ranges := rs\<rparr>"] tag that
    by (simp add: p inbound_clear_def)
  have ni: "inbound_inv ?p1" "inbound_inv (?p1\<lparr>ib_unencrypted_ranges := rs\<rparr>)" for rs
    by (simp_all add: inbound_inv_def p inbound_clear_def)
  note eq = parse_supplemental_eq [OF assms(1) b refl rd refl]
  show ?thesis
  proof (cases read_at)
    case None
    with ni show ?thesis by (simp add: eq)
  next
    case (Some pos)
    obtain r rs k where d: "deserialize_unencrypted_ranges ?nr pos (of_nat (length ?nr - pos)) [] = (r, rs, k)"
      by (metis prod_cases3)
    have "sized rs"
      by (rule deserialize_unencrypted_ranges_sized [OF _ d]) (simp add: sized_def)
    moreover have "ib_unencrypted_ranges p = []"
      by (simp add: p inbound_clear_def)
    ultimately show ?thesis
      using pr ni d Some by (cases r) (simp_all add: eq)
  qed
qed

lemma parse_frame_inv:
  assumes "length frame \<le> SIZE_MAX"
  shows "\<exists>p'. parse_frame p frame = Some p' \<and> inbound_inv p'"
proof (cases "length frame < SUPPLEMENTAL_BYTES")
  case True
  then show ?thesis
    by (simp add: parse_frame_def inbound_inv_def inbound_clear_def)
next
  case False
  then have l3: "3 \<le> length frame" by (simp add: dave_consts)
  obtain b :: u8 where b: "read_value (take 1 (drop (length frame - 3) frame)) = Some b"
    using l3 by (simp add: read_value_def)
  have ni: "inbound_inv (inbound_clear p)"
    by (simp add: inbound_inv_def inbound_clear_def)
  show ?thesis
    using False l3 b ni assms parse_supplemental_inv [of "unat b" frame _ p]
    by (simp add: parse_frame_def last_bytes_def Let_def)
qed

lemma inbound_reconstruct_frame_eq:
  assumes "inbound_inv p" "ib_encrypted p"
    and "length (ib_authenticated p) + length (ib_plaintext p) \<le> length frame"
  shows "\<exists>out. inbound_reconstruct_frame p frame
           = Some (out, length (ib_authenticated p) + length (ib_plaintext p))
      \<and> length out = length frame
      \<and> take (length (ib_authenticated p) + length (ib_plaintext p)) out
        = weave (ib_unencrypted_ranges p) (ib_authenticated p) (ib_plaintext p)"
  using do_reconstruct_weave [of "ib_unencrypted_ranges p" "ib_authenticated p" "ib_plaintext p" frame] assms
  by (simp add: inbound_reconstruct_frame_def inbound_inv_def)

lemma inbound_reconstruct_frame_safe:
  assumes "inbound_inv p"
  shows "\<exists>out n. inbound_reconstruct_frame p frame = Some (out, n) \<and> n \<le> length frame
           \<and> length out = length frame"
  using inbound_reconstruct_frame_eq [OF assms, of frame]
  by (cases "ib_encrypted p \<and> length (ib_authenticated p) + length (ib_plaintext p) \<le> length frame")
    (auto simp: inbound_reconstruct_frame_def)

section \<open>The frame format\<close>

text \<open>
  The bytes of an encrypted frame: the woven body, the truncated tag, the nonce and the ranges as
  LEB128, the size of everything behind the body, and the marker.
\<close>

definition supplemental_size :: "range list \<Rightarrow> u32 \<Rightarrow> nat" where
  "supplemental_size rs nonce =
     8 + length (leb128_bytes (ucast nonce)) + length (ranges_bytes rs) + 3"

definition supplemental_bytes :: "range list \<Rightarrow> bytes \<Rightarrow> u32 \<Rightarrow> bytes" where
  "supplemental_bytes rs tag nonce =
     tag @ leb128_bytes (ucast nonce) @ ranges_bytes rs @
     [of_nat (supplemental_size rs nonce)] @ le_bytes MARKER_BYTES"

definition frame_layout :: "range list \<Rightarrow> bytes \<Rightarrow> bytes \<Rightarrow> bytes \<Rightarrow> u32 \<Rightarrow> bytes" where
  "frame_layout rs rb ob tag nonce = weave rs rb ob @ supplemental_bytes rs tag nonce"

lemma length_supplemental_bytes:
  "length tag = 8 \<Longrightarrow> length (supplemental_bytes rs tag nonce) = supplemental_size rs nonce"
  by (simp add: supplemental_bytes_def supplemental_size_def)

lemma supplemental_span_layout:
  assumes "length tag = 8"
  shows "supplemental_span (frame_layout rs rb ob tag nonce) (supplemental_size rs nonce)
         = supplemental_bytes rs tag nonce"
  using assms by (simp add: supplemental_span_def frame_layout_def length_supplemental_bytes)

lemma nonce_and_ranges_layout:
  assumes "length tag = 8"
  shows "nonce_and_ranges_span (frame_layout rs rb ob tag nonce) (supplemental_size rs nonce)
         = leb128_bytes (ucast nonce) @ ranges_bytes rs"
  using assms
  by (simp add: nonce_and_ranges_span_def supplemental_span_layout)
    (simp add: supplemental_bytes_def supplemental_size_def)

lemma read_nonce_layout:
  "read_leb128 (leb128_bytes v @ rest) 0 (length (leb128_bytes v @ rest)) = (v, Some (length (leb128_bytes v)))"
  using read_leb128_written [of 0 "leb128_bytes v @ rest" v rest] by simp

lemma deserialize_layout:
  assumes "sized rs" "length (ranges_bytes rs) < 256"
  shows "deserialize_unencrypted_ranges (pre @ ranges_bytes rs) (length pre)
           (of_nat (length (ranges_bytes rs))) []
         = (Some (length pre + length (ranges_bytes rs)), rs, of_nat (length (ranges_bytes rs)))"
  using deserialize_loop_written [of "length pre" "pre @ ranges_bytes rs" rs "[]"] assms
  by (simp add: deserialize_unencrypted_ranges_def unat_of_nat_u8 Let_def)

lemma parse_supplemental_layout:
  fixes nonce :: u32
  assumes rs: "in_order 0 rs" "covered rs = length rb" "gaps 0 rs \<le> length ob" "sized rs"
    and len: "length tag = 8" "supplemental_size rs nonce \<le> 255"
    and f: "f = frame_layout rs rb ob tag nonce" "length f \<le> SIZE_MAX"
    and p: "ib_unencrypted_ranges p = []" "ib_authenticated p = []" "ib_ciphertext p = []" "ib_plaintext p = []"
  shows "parse_supplemental f (supplemental_size rs nonce) p = Some (p\<lparr>ib_encrypted := True,
     ib_original_size := length f, ib_tag := tag, ib_truncated_nonce := nonce,
     ib_unencrypted_ranges := rs, ib_authenticated := rb, ib_ciphertext := ob,
     ib_plaintext := replicate (length ob) 0\<rparr>)"
proof -
  let ?sup = "supplemental_size rs nonce"
  let ?body = "length rb + length ob"
  let ?nr = "leb128_bytes (ucast nonce) @ ranges_bytes rs"
  have lenf: "length f = ?body + ?sup"
    using rs len by (simp add: f frame_layout_def length_weave length_supplemental_bytes)
  have "ranges_end 0 rs \<le> ?body"
    using rs by (simp add: ranges_end_eq)
  moreover have "tag = take 8 (supplemental_span f ?sup)"
    using len(1) by (simp add: f supplemental_span_layout supplemental_bytes_def)
  moreover have "ucast (ucast nonce :: u64) = nonce"
    by (rule bit_eqI) (simp add: bit_simps)
  moreover note split_weave [OF rs(1-3), of f "supplemental_bytes rs tag nonce"]
  ultimately show ?thesis
    using rs len p lenf f(2)
      parse_supplemental_eq [OF _ _ nonce_and_ranges_layout [OF len(1), symmetric] read_nonce_layout refl,
        of rs nonce rb ob p]
      deserialize_layout [of rs "leb128_bytes (ucast nonce)"]
    by (simp add: f parse_ranges_eq Let_def resize_bytes_def supplemental_size_def frame_layout_def)
qed

text \<open>
  Parsing a frame that was laid out gives exactly its parts: the parts of the frame need no
  escaping because the parser works backwards from the marker.
\<close>

lemma parse_frame_layout:
  fixes nonce :: u32
  assumes rs: "in_order 0 rs" "covered rs = length rb" "gaps 0 rs \<le> length ob" "sized rs"
    and len: "length tag = 8" "supplemental_size rs nonce \<le> 255"
    and f: "f = frame_layout rs rb ob tag nonce" "length f \<le> SIZE_MAX"
  shows "parse_frame p f = Some (p\<lparr>ib_encrypted := True,
     ib_original_size := length f, ib_tag := tag, ib_truncated_nonce := nonce,
     ib_unencrypted_ranges := rs, ib_authenticated := rb, ib_ciphertext := ob,
     ib_plaintext := replicate (length ob) 0\<rparr>)"
proof -
  let ?sup = "supplemental_size rs nonce"
  let ?pre = "weave rs rb ob @ tag @ leb128_bytes (ucast nonce) @ ranges_bytes rs"
  have split: "f = ?pre @ [of_nat ?sup] @ le_bytes MARKER_BYTES"
    by (simp add: f frame_layout_def supplemental_bytes_def)
  have lenf: "length f = length rb + length ob + ?sup"
    using rs len by (simp add: f frame_layout_def length_weave length_supplemental_bytes)
  have sup: "11 \<le> ?sup" "?sup \<le> length f"
    using lenf by (auto simp: supplemental_size_def)
  have marker: "ends_with_value f MARKER_BYTES"
    unfolding ends_with_value_def split by (metis append_assoc ends_with_append)
  have size_byte: "last_bytes f 3 = Some (of_nat ?sup # le_bytes MARKER_BYTES)"
    using sup by (simp add: last_bytes_def split)
  have rv: "read_value [of_nat ?sup] = Some (of_nat ?sup :: u8)"
    by (simp add: read_value_def)
  have un: "unat (of_nat ?sup :: u8) = ?sup"
    using len(2) by (simp add: unat_of_nat_u8)
  have "parse_frame p f = parse_supplemental f ?sup (inbound_clear p)"
    using sup by (simp add: parse_frame_def marker size_byte rv un Let_def dave_consts)
  also have "\<dots> = Some ((inbound_clear p)\<lparr>ib_encrypted := True,
     ib_original_size := length f, ib_tag := tag, ib_truncated_nonce := nonce,
     ib_unencrypted_ranges := rs, ib_authenticated := rb, ib_ciphertext := ob,
     ib_plaintext := replicate (length ob) 0\<rparr>)"
    by (rule parse_supplemental_layout [OF rs len f]) (simp_all add: inbound_clear_def)
  finally show ?thesis
    by (simp add: inbound_clear_def)
qed

end
