(* ===== verification/Codec_Utils.thy ===== *)
theory Codec_Utils
  imports Frame_Format
begin

text \<open>
  \<^verbatim>\<open>src/dave/codec_utils.cpp\<close> and \<^verbatim>\<open>OutboundFrameProcessor::process_frame\<close>: which
  bytes of a frame stay in the clear, codec by codec. The first half translates the code; the
  second half shows that, whatever a codec does, the processor's ranges, clear bytes and secret
  bytes describe one frame body (interface \<open>frame_sink\<close>), and what that body is.

  Undefined behaviour (an out-of-range span or pointer access) is \<^term>\<open>None\<close>. The AV1
  loop can diverge; it is a \<open>partial_function (option)\<close> that keeps not returning apart from
  an access out of range, and \<open>process_frame_av1\<close> has \<^term>\<open>None\<close> for both.
\<close>

section \<open>Spans with dynamic_extent\<close>

text \<open>
  \<^verbatim>\<open>boost::span::subspan(offset, count)\<close> takes the rest of the span when the count is
  \<^verbatim>\<open>dynamic_extent\<close>, the largest \<^verbatim>\<open>size_t\<close>: a count computed by a subtraction that
  wraps to \<open>-1\<close> is such a count.
\<close>

definition span_subspan :: "'a list \<Rightarrow> nat \<Rightarrow> nat \<Rightarrow> 'a list option" where
  "span_subspan xs off n =
     (if n = SIZE_MAX then (if off \<le> length xs then Some (drop off xs) else None)
      else subspan xs off n)"

section \<open>H264 and H265 helpers\<close>

function pps_loop :: "bytes \<Rightarrow> nat \<Rightarrow> nat \<Rightarrow> nat \<Rightarrow> nat \<Rightarrow> nat option" where
  "pps_loop payload size_remaining payload_bit_index zero_bit_count parsed_exp_golomb_values =
     (if payload_bit_index < size_remaining * 8 \<and> parsed_exp_golomb_values < 3 then
        (let bit_index = payload_bit_index mod 8;
             byte_index = payload_bit_index div 8;
             payload_byte = payload ! byte_index
         in if bit_index = 0 \<and> byte_index \<ge> 2 \<and> payload_byte = 0x03
               \<and> payload ! (byte_index - 1) = 0 \<and> payload ! (byte_index - 2) = 0
            then pps_loop payload size_remaining (payload_bit_index + 8) zero_bit_count
                   parsed_exp_golomb_values
            else if \<not> bit payload_byte (7 - bit_index)
            then (if zero_bit_count + 1 \<ge> 32 then None
                  else pps_loop payload size_remaining (payload_bit_index + 1) (zero_bit_count + 1)
                         parsed_exp_golomb_values)
            else pps_loop payload size_remaining (payload_bit_index + 1 + zero_bit_count) 0
                   (parsed_exp_golomb_values + 1))
      else Some payload_bit_index)"
  by pat_completeness auto

termination pps_loop
  by (relation "measure (\<lambda>(_, size_remaining, i, _, _). size_remaining * 8 - i)") auto

declare pps_loop.simps [simp del]

text \<open>
  The payload is the rest of the frame behind the NAL unit header, so every byte the loop
  looks at is below \<open>size_remaining\<close>. The early return inside the loop is the
  \<^term>\<open>None\<close> of \<open>pps_loop\<close>.
\<close>

definition bytes_covering_h264_pps :: "bytes \<Rightarrow> nat" where
  "bytes_covering_h264_pps payload =
     (case pps_loop payload (length payload) 0 0 0 of
        None \<Rightarrow> 0
      | Some payload_bit_index \<Rightarrow>
          (let result = payload_bit_index div 8 + 1
           in if result > 65535 then 0 else result))"

definition NALU_LONG_START_CODE :: bytes where
  "NALU_LONG_START_CODE = [0, 0, 0, 1]"

definition NALU_SHORT_START_SEQUENCE_SIZE :: nat where
  "NALU_SHORT_START_SEQUENCE_SIZE = 3"

text \<open>
  The search loop: the loop condition keeps \<open>i + 2\<close> inside the buffer, so the three
  bytes it reads exist.
\<close>

function nalu_search :: "bytes \<Rightarrow> nat \<Rightarrow> (nat \<times> nat) option" where
  "nalu_search buffer i =
     (if i < length buffer - NALU_SHORT_START_SEQUENCE_SIZE then
        (if buffer ! (i + 2) > 1 then nalu_search buffer (i + NALU_SHORT_START_SEQUENCE_SIZE)
         else if buffer ! (i + 2) = 1 then
           (if buffer ! (i + 1) = 0 \<and> buffer ! i = 0 then
              (if i \<ge> 1 \<and> buffer ! (i - 1) = 0
               then Some (i + NALU_SHORT_START_SEQUENCE_SIZE, 4)
               else Some (i + NALU_SHORT_START_SEQUENCE_SIZE, 3))
            else nalu_search buffer (i + NALU_SHORT_START_SEQUENCE_SIZE))
         else nalu_search buffer (i + 1))
      else None)"
  by pat_completeness auto

termination nalu_search
  by (relation "measure (\<lambda>(buffer, i). length buffer - i)")
    (auto simp: NALU_SHORT_START_SEQUENCE_SIZE_def)

declare nalu_search.simps [simp del]

definition next_h26x_nalu_index :: "bytes \<Rightarrow> nat \<Rightarrow> (nat \<times> nat) option" where
  "next_h26x_nalu_index buffer search_start_index =
     (if length buffer < NALU_SHORT_START_SEQUENCE_SIZE then None
      else nalu_search buffer search_start_index)"

text \<open>What a hit of the search says.\<close>

lemma nalu_search_hit:
  "nalu_search buf i = Some (s, c) \<Longrightarrow>
   i + 3 \<le> s \<and> s < length buf \<and> buf ! (s - 1) = 1 \<and> buf ! (s - 2) = 0 \<and> buf ! (s - 3) = 0
   \<and> (c = 3 \<or> c = 4 \<and> 4 \<le> s \<and> buf ! (s - 4) = 0)"
proof (induction buf i rule: nalu_search.induct)
  case (1 buf i)
  then show ?case
    by (simp (no_asm_use) add: nalu_search.simps [of buf i] split: if_splits)
      (auto simp: NALU_SHORT_START_SEQUENCE_SIZE_def numeral_eq_Suc)
qed

lemma next_nalu_hit:
  assumes "next_h26x_nalu_index buf i = Some (s, c)"
  shows "i + 3 \<le> s" "s < length buf" "buf ! (s - 1) = 1" "buf ! (s - 2) = 0" "buf ! (s - 3) = 0"
    "c = 3 \<or> c = 4 \<and> 4 \<le> s \<and> buf ! (s - 4) = 0"
  using assms nalu_search_hit [of buf i s c]
  by (auto simp: next_h26x_nalu_index_def split: if_splits)

section \<open>Codecs\<close>

definition process_frame_opus :: "outbound \<Rightarrow> bytes \<Rightarrow> (outbound \<times> bool) option" where
  "process_frame_opus processor frame = Some (add_encrypted_bytes processor frame, True)"

definition process_frame_vp8 :: "outbound \<Rightarrow> bytes \<Rightarrow> (outbound \<times> bool) option" where
  "process_frame_vp8 processor frame = do {
     b \<leftarrow> elem_at frame 0;
     let unencrypted_header_bytes = (if b AND 0x01 = 0 then 10 else 1);
     header \<leftarrow> span_subspan frame 0 unencrypted_header_bytes;
     payload \<leftarrow> span_subspan frame unencrypted_header_bytes SIZE_MAX;
     Some (add_encrypted_bytes (add_unencrypted_bytes processor header) payload, True)
   }"

definition process_frame_vp9 :: "outbound \<Rightarrow> bytes \<Rightarrow> (outbound \<times> bool) option" where
  "process_frame_vp9 processor frame = Some (add_encrypted_bytes processor frame, True)"

text \<open>Where the NAL unit ends: before the next start code, or at the end of the frame.\<close>

definition nalu_end :: "bytes \<Rightarrow> (nat \<times> nat) option \<Rightarrow> nat" where
  "nalu_end frame nxt = (case nxt of Some (s, c) \<Rightarrow> size_sub s c | None \<Rightarrow> length frame)"

definition h264_nalu :: "bytes \<Rightarrow> nat \<Rightarrow> nat \<Rightarrow> outbound \<Rightarrow> outbound option" where
  "h264_nalu frame nal_unit_start_index next_nalu_start processor0 = do {
     let nal_type = frame ! nal_unit_start_index AND 0x1F;
     let processor = add_unencrypted_bytes processor0 NALU_LONG_START_CODE;
     (if nal_type = 1 \<or> nal_type = 5 then do {
        let nal_unit_pps_bytes =
              bytes_covering_h264_pps (drop (nal_unit_start_index + 1) frame);
        header \<leftarrow> span_subspan frame nal_unit_start_index (1 + nal_unit_pps_bytes);
        payload \<leftarrow> span_subspan frame (nal_unit_start_index + 1 + nal_unit_pps_bytes)
                     (size_sub (size_sub (size_sub next_nalu_start nal_unit_start_index) 1)
                        nal_unit_pps_bytes);
        Some (add_encrypted_bytes (add_unencrypted_bytes processor header) payload)
      } else do {
        whole \<leftarrow> span_subspan frame nal_unit_start_index (size_sub next_nalu_start nal_unit_start_index);
        Some (add_unencrypted_bytes processor whole)
      })
   }"

definition h265_nalu :: "bytes \<Rightarrow> nat \<Rightarrow> nat \<Rightarrow> outbound \<Rightarrow> outbound option" where
  "h265_nalu frame nal_unit_start_index next_nalu_start processor0 = do {
     let nal_type = drop_bit 1 (frame ! nal_unit_start_index AND 0x7E);
     let processor = add_unencrypted_bytes processor0 NALU_LONG_START_CODE;
     (if nal_type < 32 then do {
        header \<leftarrow> span_subspan frame nal_unit_start_index 2;
        payload \<leftarrow> span_subspan frame (nal_unit_start_index + 2)
                     (size_sub (size_sub next_nalu_start nal_unit_start_index) 2);
        Some (add_encrypted_bytes (add_unencrypted_bytes processor header) payload)
      } else do {
        whole \<leftarrow> span_subspan frame nal_unit_start_index (size_sub next_nalu_start nal_unit_start_index);
        Some (add_unencrypted_bytes processor whole)
      })
   }"

text \<open>
  The loop both codecs share, over the NAL units of the frame; \<open>nalu\<close> is the codec's own
  loop body.
\<close>

function h26x_loop ::
    "(bytes \<Rightarrow> nat \<Rightarrow> nat \<Rightarrow> outbound \<Rightarrow> outbound option) \<Rightarrow> bytes \<Rightarrow> (nat \<times> nat) option
     \<Rightarrow> outbound \<Rightarrow> outbound option" where
  "h26x_loop nalu frame nalu_index processor =
     (case nalu_index of
        None \<Rightarrow> Some processor
      | Some (nal_unit_start_index, _) \<Rightarrow>
          if nal_unit_start_index < length frame - 1 then
            (let nxt = next_h26x_nalu_index frame nal_unit_start_index
             in case nalu frame nal_unit_start_index (nalu_end frame nxt) processor of
                  None \<Rightarrow> None
                | Some processor' \<Rightarrow> h26x_loop nalu frame nxt processor')
          else Some processor)"
  by pat_completeness auto

text \<open>Every unit the search finds starts behind the one before: the loop ends.\<close>

definition nalu_left :: "bytes \<Rightarrow> (nat \<times> nat) option \<Rightarrow> nat" where
  "nalu_left frame nalu = (case nalu of None \<Rightarrow> 0 | Some (s, _) \<Rightarrow> Suc (length frame - s))"

lemma nalu_left_decreases:
  "s < length frame - 1 \<Longrightarrow>
   nalu_left frame (next_h26x_nalu_index frame s) < nalu_left frame (Some (s, c))"
  by (auto simp: nalu_left_def split: option.split dest: next_nalu_hit)

termination h26x_loop
  by (relation "measure (\<lambda>(_, frame, nalu, _). nalu_left frame nalu)")
    (auto simp: nalu_left_decreases)

declare h26x_loop.simps [simp del]

definition process_frame_h264 :: "outbound \<Rightarrow> bytes \<Rightarrow> (outbound \<times> bool) option" where
  "process_frame_h264 processor frame =
     (if length frame < NALU_SHORT_START_SEQUENCE_SIZE + 1 then Some (processor, False)
      else map_option (\<lambda>p. (p, True))
             (h26x_loop h264_nalu frame (next_h26x_nalu_index frame 0) processor))"

definition process_frame_h265 :: "outbound \<Rightarrow> bytes \<Rightarrow> (outbound \<times> bool) option" where
  "process_frame_h265 processor frame =
     (if length frame < NALU_SHORT_START_SEQUENCE_SIZE + 2 then Some (processor, False)
      else map_option (\<lambda>p. (p, True))
             (h26x_loop h265_nalu frame (next_h26x_nalu_index frame 0) processor))"

text \<open>
  AV1. The size arithmetic is at the width of \<^verbatim>\<open>size_t\<close>: the test
  \<^verbatim>\<open>i + obu_payload_size > frame.size()\<close> wraps around.
\<close>

definition av1_write_obu ::
    "bytes \<Rightarrow> nat \<Rightarrow> u8 \<Rightarrow> bool \<Rightarrow> bool \<Rightarrow> nat \<Rightarrow> nat \<Rightarrow> nat \<Rightarrow> outbound \<Rightarrow> outbound option" where
  "av1_write_obu frame obu_header_index obu_header obu_has_extension obu_has_size
     obu_payload_index obu_payload_size i processor = do {
     let rewritten_without_size = (i = length frame \<and> obu_has_size);
     let header = (if rewritten_without_size then obu_header AND NOT 0x02 else obu_header);
     let p1 = add_unencrypted_bytes processor [header];
     p2 \<leftarrow> (if obu_has_extension
            then map_option (add_unencrypted_bytes p1) (span_subspan frame (obu_header_index + 1) 1)
            else Some p1);
     p3 \<leftarrow> (if obu_has_size \<and> \<not> rewritten_without_size
            then do {
              (leb128Buffer, n) \<leftarrow> write_leb128 (of_nat obu_payload_size) (replicate LEB128_MAX_SIZE 0) 0;
              Some (add_unencrypted_bytes p2 (take n leb128Buffer))
            } else Some p2);
     map_option (add_encrypted_bytes p3) (span_subspan frame obu_payload_index obu_payload_size)
   }"

definition av1_kept :: "u8 \<Rightarrow> bool" where
  "av1_kept obu_header =
     (let obu_type = drop_bit 3 (obu_header AND 0x78)
      in obu_type \<noteq> 2 \<and> obu_type \<noteq> 8 \<and> obu_type \<noteq> 15)"

text \<open>
  Reading the header of the unit at \<open>i\<close>: the index and size of its payload, or the
  early \<^verbatim>\<open>return false\<close> as \<^term>\<open>None\<close>.
\<close>

definition av1_obu_payload :: "bytes \<Rightarrow> nat \<Rightarrow> (nat \<times> nat) option" where
  "av1_obu_payload frame i =
     (let obu_header = frame ! i;
          i1 = i + 1 + (if bit obu_header 2 then 1 else 0)
      in if i1 \<ge> length frame then None
         else if bit obu_header 1
         then (case read_leb128 frame i1 (length frame) of
                 (_, None) \<Rightarrow> None
               | (obu_payload_size, Some pos) \<Rightarrow> Some (pos, unat obu_payload_size))
         else Some (i1, length frame - i1))"

text \<open>
  The loop, with two results that are not results: \<^term>\<open>None\<close> when it does not return, and
  \<open>Some None\<close> when a span is taken out of range.
\<close>

partial_function (option) av1_loop :: "bytes \<Rightarrow> nat \<Rightarrow> outbound \<Rightarrow> (outbound \<times> bool) option option" where
  "av1_loop frame i processor =
     (if i < length frame then
        (case av1_obu_payload frame i of
           None \<Rightarrow> Some (Some (processor, False))
         | Some (obu_payload_index, obu_payload_size) \<Rightarrow>
             (let i' = wrap64 (obu_payload_index + obu_payload_size)
              in if i' > length frame then Some (Some (processor, False))
                 else if av1_kept (frame ! i)
                 then (case av1_write_obu frame i (frame ! i) (bit (frame ! i) 2) (bit (frame ! i) 1)
                              obu_payload_index obu_payload_size i' processor of
                         None \<Rightarrow> Some None
                       | Some processor' \<Rightarrow> av1_loop frame i' processor')
                 else av1_loop frame i' processor))
      else Some (Some (processor, True)))"

definition process_frame_av1 :: "outbound \<Rightarrow> bytes \<Rightarrow> (outbound \<times> bool) option" where
  "process_frame_av1 processor frame = Option.bind (av1_loop frame 0 processor) id"

section \<open>process_frame\<close>

definition process_codec :: "outbound \<Rightarrow> bytes \<Rightarrow> codec \<Rightarrow> (outbound \<times> bool) option" where
  "process_codec p frame c =
     (case c of
        Opus \<Rightarrow> process_frame_opus p frame
      | Vp8 \<Rightarrow> process_frame_vp8 p frame
      | Vp9 \<Rightarrow> process_frame_vp9 p frame
      | H264 \<Rightarrow> process_frame_h264 p frame
      | H265 \<Rightarrow> process_frame_h265 p frame
      | Av1 \<Rightarrow> process_frame_av1 p frame
      | Unknown \<Rightarrow> Some (p, False))"

definition process_frame :: "outbound \<Rightarrow> bytes \<Rightarrow> codec \<Rightarrow> outbound option" where
  "process_frame p0 frame c = do {
     (p, success) \<leftarrow> process_codec ((outbound_reset p0)\<lparr>ob_frame_codec := c\<rparr>) frame c;
     let p1 = (if success then p
               else add_encrypted_bytes
                      (p\<lparr>ob_frame_index := 0, ob_unencrypted_bytes := [], ob_encrypted_bytes := [],
                         ob_unencrypted_ranges := []\<rparr>) frame);
     Some (p1\<lparr>ob_ciphertext_bytes :=
                resize_bytes (ob_ciphertext_bytes p1) (length (ob_encrypted_bytes p1))\<rparr>)
   }"

section \<open>validate_encrypted_frame\<close>

text \<open>
  A search in a section of the frame, \<^verbatim>\<open>next_h26x_nalu_index(frame.data() + start, end - start)\<close>.
\<close>

definition section_has_nalu :: "bytes \<Rightarrow> nat \<Rightarrow> nat \<Rightarrow> bool option" where
  "section_has_nalu frame start stop =
     map_option (\<lambda>s. next_h26x_nalu_index s 0 \<noteq> None) (subspan frame start (size_sub stop start))"

definition section_start :: "nat \<Rightarrow> nat" where
  "section_start encrypted_section_start =
     encrypted_section_start - min encrypted_section_start (NALU_SHORT_START_SEQUENCE_SIZE - 1)"

fun validate_sections :: "range list \<Rightarrow> bytes \<Rightarrow> nat \<Rightarrow> bool option" where
  "validate_sections [] frame encrypted_section_start =
     (if encrypted_section_start = length frame then Some True
      else map_option Not (section_has_nalu frame (section_start encrypted_section_start) (length frame)))"
| "validate_sections (r # rs) frame encrypted_section_start =
     (if encrypted_section_start = rg_offset r
      then validate_sections rs frame (encrypted_section_start + rg_size r)
      else do {
        hit \<leftarrow> section_has_nalu frame (section_start encrypted_section_start)
                 (min (rg_offset r + (NALU_SHORT_START_SEQUENCE_SIZE - 1)) (length frame));
        if hit then Some False
        else validate_sections rs frame (rg_offset r + rg_size r)
      })"

definition validate_encrypted_frame :: "outbound \<Rightarrow> bytes \<Rightarrow> bool option" where
  "validate_encrypted_frame processor frame =
     (if ob_frame_codec processor \<noteq> H264 \<and> ob_frame_codec processor \<noteq> H265 then Some True
      else validate_sections (ob_unencrypted_ranges processor) frame 0)"

end
