(* ===== verification/Outbound_Body.thy ===== *)
theory Outbound_Body
  imports Codec_Utils
begin

text \<open>
  What \<^verbatim>\<open>OutboundFrameProcessor\<close> promises the encryptor. The codecs only ever append
  clear or secret bytes to the processor; the interface \<open>frame_sink\<close> states what such an
  append does to the body the processor describes, and its lemmas give the body of any sequence
  of appends. The codecs are then shown to be such sequences.
\<close>

section \<open>A sink of clear and secret bytes\<close>

datatype chunk = Clear bytes | Secret bytes

fun chunk_bytes :: "chunk \<Rightarrow> bytes" where
  "chunk_bytes (Clear bs) = bs"
| "chunk_bytes (Secret bs) = bs"

fun secret_bytes :: "chunk \<Rightarrow> bytes" where
  "secret_bytes (Clear bs) = []"
| "secret_bytes (Secret bs) = bs"

fun clear_bytes :: "chunk \<Rightarrow> bytes" where
  "clear_bytes (Clear bs) = bs"
| "clear_bytes (Secret bs) = []"

locale frame_sink =
  fixes add_clear :: "'s \<Rightarrow> bytes \<Rightarrow> 's"
    and add_secret :: "'s \<Rightarrow> bytes \<Rightarrow> 's"
    and inv :: "'s \<Rightarrow> bool"
    and body :: "'s \<Rightarrow> bytes"
    and clear :: "'s \<Rightarrow> bytes"
    and secret :: "'s \<Rightarrow> bytes"
  assumes inv_clear: "inv s \<Longrightarrow> inv (add_clear s bs)"
    and inv_secret: "inv s \<Longrightarrow> inv (add_secret s bs)"
    and body_clear: "inv s \<Longrightarrow> body (add_clear s bs) = body s @ bs"
    and body_secret: "inv s \<Longrightarrow> body (add_secret s bs) = body s @ bs"
    and clear_clear: "clear (add_clear s bs) = clear s @ bs"
    and clear_secret: "clear (add_secret s bs) = clear s"
    and secret_clear: "secret (add_clear s bs) = secret s"
    and secret_secret: "secret (add_secret s bs) = secret s @ bs"
begin

fun feed :: "'s \<Rightarrow> chunk \<Rightarrow> 's" where
  "feed s (Clear bs) = add_clear s bs"
| "feed s (Secret bs) = add_secret s bs"

lemma feed_inv: "inv s \<Longrightarrow> inv (feed s c)"
  by (cases c) (simp_all add: inv_clear inv_secret)

lemma feeds_inv: "inv s \<Longrightarrow> inv (foldl feed s cs)"
  by (induction cs arbitrary: s) (simp_all add: feed_inv)

lemma feed_body: "inv s \<Longrightarrow> body (feed s c) = body s @ chunk_bytes c"
  by (cases c) (simp_all add: body_clear body_secret)

lemma feeds_body: "inv s \<Longrightarrow> body (foldl feed s cs) = body s @ concat (map chunk_bytes cs)"
  by (induction cs arbitrary: s) (simp_all add: feed_inv feed_body)

lemma feed_secret: "secret (feed s c) = secret s @ secret_bytes c"
  by (cases c) (simp_all add: secret_clear secret_secret)

lemma feeds_secret: "secret (foldl feed s cs) = secret s @ concat (map secret_bytes cs)"
  by (induction cs arbitrary: s) (simp_all add: feed_secret)

lemma feed_clear: "clear (feed s c) = clear s @ clear_bytes c"
  by (cases c) (simp_all add: clear_clear clear_secret)

lemma feeds_clear: "clear (foldl feed s cs) = clear s @ concat (map clear_bytes cs)"
  by (induction cs arbitrary: s) (simp_all add: feed_clear)

end

section \<open>The processor is such a sink\<close>

definition outbound_inv :: "outbound \<Rightarrow> bool" where
  "outbound_inv p =
     (in_order 0 (ob_unencrypted_ranges p)
      \<and> covered (ob_unencrypted_ranges p) = length (ob_unencrypted_bytes p)
      \<and> gaps 0 (ob_unencrypted_ranges p) \<le> length (ob_encrypted_bytes p)
      \<and> ob_frame_index p = length (ob_unencrypted_bytes p) + length (ob_encrypted_bytes p))"

definition outbound_body :: "outbound \<Rightarrow> bytes" where
  "outbound_body p = weave (ob_unencrypted_ranges p) (ob_unencrypted_bytes p) (ob_encrypted_bytes p)"

lemma in_order_snoc: "in_order i (rs @ [r]) \<longleftrightarrow> in_order i rs \<and> ranges_end i rs \<le> rg_offset r"
  by (induction rs arbitrary: i) auto

lemma covered_snoc [simp]: "covered (rs @ [r]) = covered rs + rg_size r"
  by (induction rs) auto

lemma gaps_snoc [simp]: "gaps i (rs @ [r]) = gaps i rs + (rg_offset r - ranges_end i rs)"
  by (induction rs arbitrary: i) auto

lemma ranges_end_snoc [simp]: "ranges_end i (rs @ [r]) = rg_offset r + rg_size r"
  by (induction rs arbitrary: i) auto

lemma weave_ranges_snoc:
  "weave_ranges (rs @ [r]) i rb ob = weave_ranges rs i rb ob
     @ take (rg_offset r - ranges_end i rs) (drop (gaps i rs) ob) @ take (rg_size r) (drop (covered rs) rb)"
  by (induction rs i rb ob rule: weave_ranges.induct) (simp_all add: add.commute)

lemma weave_ranges_append:
  "covered rs \<le> length rb \<Longrightarrow> gaps i rs \<le> length ob \<Longrightarrow>
   weave_ranges rs i (rb @ rb') (ob @ ob') = weave_ranges rs i rb ob"
  by (induction rs i rb ob rule: weave_ranges.induct) auto

lemma weave_ranges_append_left:
  "covered rs \<le> length rb \<Longrightarrow> gaps i rs \<le> length ob \<Longrightarrow>
   weave_ranges rs i (rb @ rb') ob = weave_ranges rs i rb ob"
  using weave_ranges_append [where ob' = "[]"] by fastforce

lemma weave_ranges_append_right:
  "covered rs \<le> length rb \<Longrightarrow> gaps i rs \<le> length ob \<Longrightarrow>
   weave_ranges rs i rb (ob @ ob') = weave_ranges rs i rb ob"
  using weave_ranges_append [where rb' = "[]"] by fastforce

lemma add_encrypted_inv: "outbound_inv p \<Longrightarrow> outbound_inv (add_encrypted_bytes p bs)"
  by (simp add: outbound_inv_def add_encrypted_bytes_def)

lemma add_encrypted_body:
  "outbound_inv p \<Longrightarrow> outbound_body (add_encrypted_bytes p bs) = outbound_body p @ bs"
  by (simp add: outbound_inv_def outbound_body_def add_encrypted_bytes_def weave_def weave_ranges_append_right)

text \<open>
  Clear bytes extend the last range when it reaches to the end of the body, and open a new one
  behind the secret bytes otherwise.
\<close>

lemma add_unencrypted_extend:
  assumes "outbound_inv p" "ob_unencrypted_ranges p = rs @ [r]" "rg_offset r + rg_size r = ob_frame_index p"
  shows "outbound_inv (add_unencrypted_bytes p bs)
    \<and> outbound_body (add_unencrypted_bytes p bs) = outbound_body p @ bs"
  using assms
  by (auto simp: outbound_inv_def outbound_body_def add_unencrypted_bytes_def weave_def in_order_snoc
      weave_ranges_snoc weave_ranges_append_left ranges_end_eq take_add)

lemma add_unencrypted_new:
  assumes "outbound_inv p"
    and "ob_unencrypted_ranges p = [] \<or> ranges_end 0 (ob_unencrypted_ranges p) \<noteq> ob_frame_index p"
  shows "outbound_inv (add_unencrypted_bytes p bs)
    \<and> outbound_body (add_unencrypted_bytes p bs) = outbound_body p @ bs"
proof -
  let ?rs = "ob_unencrypted_ranges p"
  have new: "\<not> (?rs \<noteq> [] \<and> rg_offset (last ?rs) + rg_size (last ?rs) = ob_frame_index p)"
    using assms(2) by (cases ?rs rule: rev_cases) auto
  have "ranges_end 0 ?rs = covered ?rs + gaps 0 ?rs"
    using assms(1) by (simp add: outbound_inv_def ranges_end_eq)
  with assms(1) new show ?thesis
    by (auto simp: outbound_inv_def outbound_body_def add_unencrypted_bytes_def weave_def in_order_snoc
        weave_ranges_snoc weave_ranges_append_left)
qed

lemma add_unencrypted_ok:
  assumes "outbound_inv p"
  shows "outbound_inv (add_unencrypted_bytes p bs)
    \<and> outbound_body (add_unencrypted_bytes p bs) = outbound_body p @ bs"
proof (cases "ob_unencrypted_ranges p" rule: rev_cases)
  case Nil
  with add_unencrypted_new [OF assms] show ?thesis by simp
next
  case (snoc rs r)
  with add_unencrypted_new [OF assms] add_unencrypted_extend [OF assms snoc] show ?thesis
    by (cases "rg_offset r + rg_size r = ob_frame_index p") auto
qed

interpretation sink: frame_sink add_unencrypted_bytes add_encrypted_bytes outbound_inv outbound_body
  ob_unencrypted_bytes ob_encrypted_bytes
  by unfold_locales
    (simp_all add: add_unencrypted_ok add_encrypted_inv add_encrypted_body,
     simp_all add: add_unencrypted_bytes_def add_encrypted_bytes_def Let_def)

section \<open>Every codec feeds the sink\<close>

definition fed :: "outbound \<Rightarrow> outbound \<Rightarrow> bool" where
  "fed p p' = (\<exists>cs. p' = foldl sink.feed p cs)"

lemma fed_refl [simp]: "fed p p"
  unfolding fed_def by (rule exI [of _ "[]"]) simp

lemma fed_trans: "fed p q \<Longrightarrow> fed q r \<Longrightarrow> fed p r"
  unfolding fed_def by (metis foldl_append)

lemma fed_unencrypted: "fed p (add_unencrypted_bytes p bs)"
  unfolding fed_def by (rule exI [of _ "[Clear bs]"]) simp

lemma fed_encrypted: "fed p (add_encrypted_bytes p bs)"
  unfolding fed_def by (rule exI [of _ "[Secret bs]"]) simp

lemma fed_inv: "fed p p' \<Longrightarrow> outbound_inv p \<Longrightarrow> outbound_inv p'"
  by (auto simp: fed_def sink.feeds_inv)

lemmas fed_intros = fed_refl fed_unencrypted fed_encrypted
  fed_trans [OF _ fed_unencrypted] fed_trans [OF _ fed_encrypted]

lemma h264_nalu_fed: "h264_nalu frame s e p = Some p' \<Longrightarrow> fed p p'"
  by (auto simp: h264_nalu_def Let_def bind_Some_iff intro!: fed_intros split: if_splits)

lemma h265_nalu_fed: "h265_nalu frame s e p = Some p' \<Longrightarrow> fed p p'"
  by (auto simp: h265_nalu_def Let_def bind_Some_iff intro!: fed_intros split: if_splits)

lemma h26x_loop_fed:
  assumes "\<And>s e p p'. nalu frame s e p = Some p' \<Longrightarrow> fed p p'"
  shows "h26x_loop nalu frame n p = Some p' \<Longrightarrow> fed p p'"
  using assms
proof (induction nalu frame n p rule: h26x_loop.induct)
  case (1 nalu frame n p)
  show ?case
  proof (cases "\<exists>s c q. n = Some (s, c) \<and> s < length frame - 1
      \<and> nalu frame s (nalu_end frame (next_h26x_nalu_index frame s)) p = Some q")
    case True
    then obtain s c q where n: "n = Some (s, c)" "s < length frame - 1"
      and q: "nalu frame s (nalu_end frame (next_h26x_nalu_index frame s)) p = Some q" by blast
    then have "h26x_loop nalu frame (next_h26x_nalu_index frame s) q = Some p'"
      using "1.prems"(1) unfolding h26x_loop.simps [of nalu frame n] by simp
    with "1.IH" [OF n(1) refl n(2) refl q] "1.prems"(2) q show ?thesis
      by (blast intro: fed_trans)
  next
    case False
    with "1.prems"(1) show ?thesis
      by (auto simp: h26x_loop.simps [of nalu frame n] Let_def split: option.splits if_splits)
  qed
qed

lemma av1_write_obu_fed: "av1_write_obu frame h b x sz pi ps i p = Some p' \<Longrightarrow> fed p p'"
  by (auto simp: av1_write_obu_def Let_def bind_Some_iff split: if_splits
      intro!: fed_trans [OF _ fed_encrypted] fed_trans [OF _ fed_unencrypted] fed_refl)

lemma av1_loop_fed: "av1_loop frame i p = Some (Some q) \<Longrightarrow> fed p (fst q)"
proof -
  have "av1_loop frame i p = Some r \<Longrightarrow> \<forall>q. r = Some q \<longrightarrow> fed p (fst q)" for r
  proof (rule av1_loop.raw_induct [of "\<lambda>frame i p r. \<forall>q. r = Some q \<longrightarrow> fed p (fst q)"], goal_cases)
    case (1 loop f j x y)
    note ih = "1"(2) and eq = "1"(3)
    show ?case
      using eq ih
      by (auto simp: Let_def split: if_splits option.splits dest!: av1_write_obu_fed intro: fed_refl)
        (metis fed_trans fst_conv)+
  qed
  then show "av1_loop frame i p = Some (Some q) \<Longrightarrow> fed p (fst q)" by blast
qed

lemma process_codec_fed: "process_codec p frame c = Some (p', ok) \<Longrightarrow> fed p p'"
  by (cases c)
    (auto simp: process_codec_def process_frame_opus_def process_frame_vp8_def process_frame_vp9_def
      process_frame_h264_def process_frame_h265_def process_frame_av1_def bind_Some_iff Let_def
      split: if_splits intro!: fed_intros
      dest!: av1_loop_fed intro: h26x_loop_fed h264_nalu_fed h265_nalu_fed)

lemma outbound_reset_inv [simp]: "outbound_inv ((outbound_reset p)\<lparr>ob_frame_codec := c\<rparr>)"
  by (simp add: outbound_inv_def outbound_reset_def)

lemma process_frame_inv:
  assumes "process_frame p frame c = Some p'"
  shows "outbound_inv p'" "length (ob_ciphertext_bytes p') = length (ob_encrypted_bytes p')"
proof -
  let ?p0 = "(outbound_reset p)\<lparr>ob_frame_codec := c\<rparr>"
  obtain q ok where q: "process_codec ?p0 frame c = Some (q, ok)"
    using assms by (auto simp: process_frame_def bind_Some_iff)
  have "outbound_inv q"
    using fed_inv [OF process_codec_fed [OF q]] by simp
  with assms q show "outbound_inv p'"
    by (auto simp: process_frame_def Let_def outbound_inv_def add_encrypted_bytes_def)
  show "length (ob_ciphertext_bytes p') = length (ob_encrypted_bytes p')"
    using assms q by (auto simp: process_frame_def Let_def)
qed

end
