(* ===== verification/Codec_Bodies.thy ===== *)
theory Codec_Bodies
  imports Outbound_Body
begin

text \<open>
  What each codec does with a well-formed frame: which bytes it leaves in the clear and which
  frame body results. H264 and H265 share one loop, so their common contract is the interface
  \<open>nalu_codec\<close>. Also here: the inputs on which the code misbehaves.
\<close>

section \<open>Opus, VP9, unknown codecs and VP8\<close>

lemma process_frame_whole:
  assumes "c = Opus \<or> c = Vp9 \<or> c = Unknown"
  shows "\<exists>p'. process_frame p frame c = Some p' \<and> ob_unencrypted_ranges p' = []
     \<and> ob_unencrypted_bytes p' = [] \<and> ob_encrypted_bytes p' = frame"
  using assms
  by (auto simp: process_frame_def process_codec_def process_frame_opus_def process_frame_vp9_def
      add_encrypted_bytes_def outbound_reset_def Let_def)

lemma span_subspan_Some:
  "off + n \<le> length xs \<Longrightarrow> length xs < SIZE_MAX \<Longrightarrow> span_subspan xs off n = Some (take n (drop off xs))"
  by (simp add: span_subspan_def subspan_Some)

definition vp8_header_size :: "bytes \<Rightarrow> nat" where
  "vp8_header_size frame = (if hd frame AND 0x01 = 0 then 10 else 1)"

lemma process_frame_vp8_eq:
  assumes "frame \<noteq> []" "vp8_header_size frame \<le> length frame" "length frame < SIZE_MAX"
  shows "process_frame_vp8 p frame =
    Some (foldl sink.feed p [Clear (take (vp8_header_size frame) frame),
                             Secret (drop (vp8_header_size frame) frame)], True)"
proof -
  let ?h = "vp8_header_size frame"
  have "frame ! 0 = hd frame" using assms(1) by (simp add: hd_conv_nth)
  then have "elem_at frame 0 = Some (hd frame)"
    using assms(1) by (simp add: elem_at_def)
  moreover have "span_subspan frame 0 ?h = Some (take ?h frame)"
    using assms(2,3) by (simp add: span_subspan_Some)
  moreover have "span_subspan frame ?h SIZE_MAX = Some (drop ?h frame)"
    using assms(2) by (simp add: span_subspan_def)
  ultimately show ?thesis
    by (simp add: process_frame_vp8_def vp8_header_size_def Let_def)
qed

section \<open>NAL units\<close>

text \<open>The units the loop visits, as pairs of start and end.\<close>

function nal_units :: "bytes \<Rightarrow> (nat \<times> nat) option \<Rightarrow> (nat \<times> nat) list" where
  "nal_units frame n =
     (case n of
        None \<Rightarrow> []
      | Some (s, _) \<Rightarrow>
          if s < length frame - 1
          then (s, nalu_end frame (next_h26x_nalu_index frame s))
               # nal_units frame (next_h26x_nalu_index frame s)
          else [])"
  by pat_completeness auto

termination nal_units
  by (relation "measure (\<lambda>(frame, n). nalu_left frame n)") (auto simp: nalu_left_decreases)

declare nal_units.simps [simp del]

lemma nalu_end_bounds:
  assumes "frame ! (s - 1) = 1" "0 < s" "s \<le> length frame"
  shows "s \<le> nalu_end frame (next_h26x_nalu_index frame s)
       \<and> nalu_end frame (next_h26x_nalu_index frame s) \<le> length frame"
proof (cases "next_h26x_nalu_index frame s")
  case None
  with assms(3) show ?thesis by (simp add: nalu_end_def)
next
  case (Some n)
  obtain s' c where n: "n = (s', c)" by (cases n)
  note hit = next_nalu_hit [OF Some [unfolded n]]
  have "s \<le> s' - c"
  proof (cases "c = 3")
    case True
    with hit(1) show ?thesis by simp
  next
    case False
    with hit(6) have c: "c = 4" "frame ! (s' - 4) = 0" "4 \<le> s'" by auto
    then have "s' - 4 \<noteq> s - 1" using assms(1) by auto
    with hit(1) c assms(2) show ?thesis by auto
  qed
  moreover have "c \<le> s'" using hit(1,6) by auto
  ultimately show ?thesis
    using hit(2) by (simp add: nalu_end_def Some n)
qed

definition nalu_bytes :: "bytes \<Rightarrow> nat \<times> nat \<Rightarrow> bytes" where
  "nalu_bytes frame u = NALU_LONG_START_CODE @ take (snd u - fst u) (drop (fst u) frame)"

locale nalu_codec =
  fixes nalu :: "bytes \<Rightarrow> nat \<Rightarrow> nat \<Rightarrow> outbound \<Rightarrow> outbound option"
    and unit_ok :: "bytes \<Rightarrow> nat \<times> nat \<Rightarrow> bool"
    and chunks :: "bytes \<Rightarrow> nat \<times> nat \<Rightarrow> chunk list"
  assumes nalu_eq: "s \<le> e \<Longrightarrow> e \<le> length frame \<Longrightarrow> length frame < SIZE_MAX \<Longrightarrow> s < length frame - 1 \<Longrightarrow>
      unit_ok frame (s, e) \<Longrightarrow> nalu frame s e p = Some (foldl sink.feed p (chunks frame (s, e)))"
    and chunks_bytes: "s \<le> e \<Longrightarrow> e \<le> length frame \<Longrightarrow> unit_ok frame (s, e) \<Longrightarrow>
      concat (map chunk_bytes (chunks frame (s, e))) = nalu_bytes frame (s, e)"
begin

text \<open>The loop feeds the chunks of the units in order.\<close>

lemma loop_eq:
  assumes "\<forall>u \<in> set (nal_units frame n). unit_ok frame u" "length frame < SIZE_MAX"
    and "\<forall>s c. n = Some (s, c) \<longrightarrow> 0 < s \<and> s < length frame \<and> frame ! (s - 1) = 1"
  shows "h26x_loop nalu frame n p
       = Some (foldl sink.feed p (concat (map (chunks frame) (nal_units frame n))))
    \<and> concat (map chunk_bytes (concat (map (chunks frame) (nal_units frame n))))
       = concat (map (nalu_bytes frame) (nal_units frame n))"
  using assms
proof (induction frame n arbitrary: p rule: nal_units.induct)
  case (1 frame n)
  show ?case
  proof (cases "\<exists>s c. n = Some (s, c) \<and> s < length frame - 1")
    case False
    then show ?thesis
      by (auto simp: nal_units.simps [of frame n] h26x_loop.simps [of nalu frame n] split: option.split)
  next
    case True
    then obtain s c where n: "n = Some (s, c)" "s < length frame - 1" by blast
    let ?nxt = "next_h26x_nalu_index frame s"
    let ?e = "nalu_end frame ?nxt"
    have units: "nal_units frame n = (s, ?e) # nal_units frame ?nxt"
      using n nal_units.simps [of frame "Some (s, c)"] by simp
    have e: "s \<le> ?e" "?e \<le> length frame"
      using nalu_end_bounds [of frame s] "1.prems"(3) n by auto
    have ok: "unit_ok frame (s, ?e)"
      using "1.prems"(1) units by simp
    have nxt: "\<forall>s' c'. ?nxt = Some (s', c') \<longrightarrow> 0 < s' \<and> s' < length frame \<and> frame ! (s' - 1) = 1"
      by (auto dest: next_nalu_hit)
    have rest: "\<forall>u \<in> set (nal_units frame ?nxt). unit_ok frame u"
      using "1.prems"(1) units by simp
    have "h26x_loop nalu frame n p = h26x_loop nalu frame ?nxt (foldl sink.feed p (chunks frame (s, ?e)))"
      using n(2) nalu_eq [OF e "1.prems"(2) n(2) ok]
      unfolding h26x_loop.simps [of nalu frame n] by (simp add: n Let_def)
    with "1.IH" [OF n(1) refl n(2) rest "1.prems"(2) nxt] chunks_bytes [OF e ok] show ?thesis
      by (simp add: units)
  qed
qed

end

section \<open>H264 and H265\<close>

definition h264_chunks :: "bytes \<Rightarrow> nat \<times> nat \<Rightarrow> chunk list" where
  "h264_chunks frame u =
     (let (s, e) = u;
          nal_type = frame ! s AND 0x1F;
          header = (if nal_type = 1 \<or> nal_type = 5
                    then 1 + bytes_covering_h264_pps (drop (s + 1) frame) else e - s)
      in if nal_type = 1 \<or> nal_type = 5
         then [Clear NALU_LONG_START_CODE, Clear (take header (drop s frame)),
               Secret (take (e - s - header) (drop (s + header) frame))]
         else [Clear NALU_LONG_START_CODE, Clear (take (e - s) (drop s frame))])"

definition h264_unit_ok :: "bytes \<Rightarrow> nat \<times> nat \<Rightarrow> bool" where
  "h264_unit_ok frame u =
     (let (s, e) = u; nal_type = frame ! s AND 0x1F
      in nal_type = 1 \<or> nal_type = 5 \<longrightarrow> 1 + bytes_covering_h264_pps (drop (s + 1) frame) \<le> e - s)"

definition h265_chunks :: "bytes \<Rightarrow> nat \<times> nat \<Rightarrow> chunk list" where
  "h265_chunks frame u =
     (let (s, e) = u
      in if drop_bit 1 (frame ! s AND 0x7E) < 32
         then [Clear NALU_LONG_START_CODE, Clear (take 2 (drop s frame)),
               Secret (take (e - s - 2) (drop (s + 2) frame))]
         else [Clear NALU_LONG_START_CODE, Clear (take (e - s) (drop s frame))])"

definition h265_unit_ok :: "bytes \<Rightarrow> nat \<times> nat \<Rightarrow> bool" where
  "h265_unit_ok frame u =
     (let (s, e) = u in drop_bit 1 (frame ! s AND 0x7E) < 32 \<longrightarrow> 2 \<le> e - s)"

lemma take_take_drop:
  "h \<le> n \<Longrightarrow> take h (drop s xs) @ take (n - h) (drop (s + h) xs) = take n (drop s xs)"
  by (metis add.commute drop_drop take_drop_split)

interpretation h264: nalu_codec h264_nalu h264_unit_ok h264_chunks
proof unfold_locales
  fix s e :: nat and frame :: bytes and p
  assume b: "s \<le> e" "e \<le> length frame" "length frame < SIZE_MAX" "s < length frame - 1"
    and ok: "h264_unit_ok frame (s, e)"
  let ?h = "bytes_covering_h264_pps (drop (s + 1) frame)"
  have "1 + ?h \<le> e - s \<Longrightarrow> span_subspan frame s (1 + ?h) = Some (take (1 + ?h) (drop s frame))
      \<and> span_subspan frame (s + 1 + ?h) (e - s - 1 - ?h)
        = Some (take (e - s - 1 - ?h) (drop (s + 1 + ?h) frame))"
    using b by (simp add: span_subspan_Some)
  moreover have "span_subspan frame s (e - s) = Some (take (e - s) (drop s frame))"
    using b by (simp add: span_subspan_Some)
  ultimately show "h264_nalu frame s e p = Some (foldl sink.feed p (h264_chunks frame (s, e)))"
    using ok b by (auto simp: h264_nalu_def h264_chunks_def h264_unit_ok_def Let_def)
next
  fix s e :: nat and frame :: bytes
  assume "s \<le> e" "e \<le> length frame" "h264_unit_ok frame (s, e)"
  then show "concat (map chunk_bytes (h264_chunks frame (s, e))) = nalu_bytes frame (s, e)"
    by (auto simp: h264_chunks_def h264_unit_ok_def nalu_bytes_def Let_def simp flip: take_take_drop)
qed

interpretation h265: nalu_codec h265_nalu h265_unit_ok h265_chunks
proof unfold_locales
  fix s e :: nat and frame :: bytes and p
  assume b: "s \<le> e" "e \<le> length frame" "length frame < SIZE_MAX" "s < length frame - 1"
    and ok: "h265_unit_ok frame (s, e)"
  have "2 \<le> e - s \<Longrightarrow> span_subspan frame s 2 = Some (take 2 (drop s frame))
      \<and> span_subspan frame (s + 2) (e - s - 2) = Some (take (e - s - 2) (drop (s + 2) frame))"
    using b by (simp add: span_subspan_Some)
  moreover have "span_subspan frame s (e - s) = Some (take (e - s) (drop s frame))"
    using b by (simp add: span_subspan_Some)
  ultimately show "h265_nalu frame s e p = Some (foldl sink.feed p (h265_chunks frame (s, e)))"
    using ok b by (auto simp: h265_nalu_def h265_chunks_def h265_unit_ok_def Let_def)
next
  fix s e :: nat and frame :: bytes
  assume "s \<le> e" "e \<le> length frame" "h265_unit_ok frame (s, e)"
  then show "concat (map chunk_bytes (h265_chunks frame (s, e))) = nalu_bytes frame (s, e)"
    by (auto simp: h265_chunks_def h265_unit_ok_def nalu_bytes_def Let_def simp flip: take_take_drop)
qed

lemma process_frame_h264_eq:
  assumes "4 \<le> length frame" "length frame < SIZE_MAX"
    and "\<forall>u \<in> set (nal_units frame (next_h26x_nalu_index frame 0)). h264_unit_ok frame u"
  shows "process_frame_h264 p frame = Some (foldl sink.feed p
      (concat (map (h264_chunks frame) (nal_units frame (next_h26x_nalu_index frame 0)))), True)"
proof -
  have "\<forall>s c. next_h26x_nalu_index frame 0 = Some (s, c) \<longrightarrow> 0 < s \<and> s < length frame \<and> frame ! (s - 1) = 1"
    by (auto dest: next_nalu_hit)
  with h264.loop_eq assms show ?thesis
    by (simp add: process_frame_h264_def NALU_SHORT_START_SEQUENCE_SIZE_def)
qed

lemma process_frame_h265_eq:
  assumes "5 \<le> length frame" "length frame < SIZE_MAX"
    and "\<forall>u \<in> set (nal_units frame (next_h26x_nalu_index frame 0)). h265_unit_ok frame u"
  shows "process_frame_h265 p frame = Some (foldl sink.feed p
      (concat (map (h265_chunks frame) (nal_units frame (next_h26x_nalu_index frame 0)))), True)"
proof -
  have "\<forall>s c. next_h26x_nalu_index frame 0 = Some (s, c) \<longrightarrow> 0 < s \<and> s < length frame \<and> frame ! (s - 1) = 1"
    by (auto dest: next_nalu_hit)
  with h265.loop_eq assms show ?thesis
    by (simp add: process_frame_h265_def NALU_SHORT_START_SEQUENCE_SIZE_def)
qed

text \<open>A codec that feeds the chunks \<open>cs\<close> leaves their bytes as the body.\<close>

lemma process_frame_fed:
  assumes "\<And>q. process_codec q frame c = Some (foldl sink.feed q cs, True)"
  shows "\<exists>p'. process_frame p frame c = Some p' \<and> outbound_body p' = concat (map chunk_bytes cs)
     \<and> ob_unencrypted_bytes p' = concat (map clear_bytes cs)
     \<and> ob_encrypted_bytes p' = concat (map secret_bytes cs)"
proof -
  let ?p0 = "(outbound_reset p)\<lparr>ob_frame_codec := c\<rparr>"
  let ?q = "foldl sink.feed ?p0 cs"
  let ?p' = "?q\<lparr>ob_ciphertext_bytes := resize_bytes (ob_ciphertext_bytes ?q) (length (ob_encrypted_bytes ?q))\<rparr>"
  have "process_frame p frame c = Some ?p'"
    using assms [of ?p0] by (simp add: process_frame_def Let_def)
  moreover have "outbound_body ?p0 = []" "ob_unencrypted_bytes ?p0 = []" "ob_encrypted_bytes ?p0 = []"
    by (simp_all add: outbound_body_def outbound_reset_def weave_def)
  moreover have "outbound_body ?p' = outbound_body ?q"
    by (simp add: outbound_body_def)
  ultimately show ?thesis
    using sink.feeds_body [of ?p0 cs] sink.feeds_clear [of ?p0 cs] sink.feeds_secret [of ?p0 cs] by simp
qed

section \<open>AV1\<close>

definition av1_no_wrap :: "bytes \<Rightarrow> bool" where
  "av1_no_wrap frame =
     list_all (\<lambda>i. case av1_obu_payload frame i of None \<Rightarrow> True
                    | Some (idx, sz) \<Rightarrow> idx + sz \<le> SIZE_MAX) [0..<length frame]"

lemma av1_no_wrapD:
  assumes "av1_no_wrap frame" "i < length frame" "av1_obu_payload frame i = Some (idx, sz)"
  shows "idx + sz \<le> SIZE_MAX"
proof -
  have "i \<in> set [0..<length frame]" using assms(2) by simp
  with assms(1,3) show ?thesis
    unfolding av1_no_wrap_def list_all_iff by fastforce
qed

lemma av1_payload_forward:
  assumes "av1_obu_payload frame i = Some (idx, sz)"
  shows "i < idx \<and> idx \<le> length frame \<and> (bit (frame ! i) 2 \<longrightarrow> i + 1 < length frame)"
  using assms
  using read_leb128_bounds (1,2) [of frame "i + 1" "length frame" "of_nat sz" idx]
    read_leb128_bounds (1,2) [of frame "i + 2" "length frame" "of_nat sz" idx]
  by (auto simp: av1_obu_payload_def Let_def split: if_splits prod.splits option.splits)

lemma av1_size_written:
  assumes "sz \<le> SIZE_MAX"
  shows "\<exists>buf. write_leb128 (of_nat sz) (replicate LEB128_MAX_SIZE 0) 0 = Some (buf, leb128_size (of_nat sz))"
proof -
  have "length (leb128_bytes (of_nat sz)) \<le> length (replicate LEB128_MAX_SIZE (0 :: u8))"
    using leb128_size_max [of "of_nat sz"] by (simp add: leb128_size_length)
  then obtain buf where "store (replicate LEB128_MAX_SIZE 0) 0 (leb128_bytes (of_nat sz)) = Some buf"
    using store_fits [of 0 "leb128_bytes (of_nat sz)" "replicate LEB128_MAX_SIZE 0"] by auto
  then show ?thesis
    by (simp add: write_leb128_eq leb128_size_length)
qed

lemma av1_write_obu_safe:
  assumes "idx + sz \<le> length frame" "length frame < SIZE_MAX" "x \<longrightarrow> i + 1 < length frame"
  shows "\<exists>p'. av1_write_obu frame i h x s idx sz j p = Some p'"
proof -
  have "x \<Longrightarrow> span_subspan frame (i + 1) 1 = Some (take 1 (drop (i + 1) frame))"
    using assms by (intro span_subspan_Some) auto
  moreover have "span_subspan frame idx sz = Some (take sz (drop idx frame))"
    using assms by (intro span_subspan_Some) auto
  moreover obtain buf n where "write_leb128 (of_nat sz) (replicate LEB128_MAX_SIZE 0) 0 = Some (buf, n)"
    using av1_size_written [of sz] assms by auto
  ultimately show ?thesis
    by (auto simp: av1_write_obu_def Let_def)
qed

lemma av1_loop_safe:
  assumes "av1_no_wrap frame" "length frame < SIZE_MAX"
  shows "\<exists>p' ok. av1_loop frame i p = Some (Some (p', ok))"
proof (induction "length frame - i" arbitrary: i p rule: less_induct)
  case less
  show ?case
  proof (cases "i < length frame \<and> av1_obu_payload frame i \<noteq> None")
    case False
    then show ?thesis
      by (cases "av1_obu_payload frame i") (auto simp: av1_loop.simps [of frame i])
  next
    case True
    then obtain idx sz where pl: "av1_obu_payload frame i = Some (idx, sz)" by force
    note fw = av1_payload_forward [OF pl]
    have w: "wrap64 (idx + sz) = idx + sz"
      using av1_no_wrapD [OF assms(1) _ pl] True by (simp add: SIZE_MAX_def)
    have next_ok: "\<exists>p' ok. av1_loop frame (idx + sz) q = Some (Some (p', ok))" if "idx + sz \<le> length frame" for q
      using less [of "idx + sz" q] fw that by auto
    have wr: "\<exists>q. av1_write_obu frame i (frame ! i) (bit (frame ! i) 2) (bit (frame ! i) 1) idx sz
        (idx + sz) p = Some q" if "idx + sz \<le> length frame"
      using av1_write_obu_safe [OF that assms(2)] fw by blast
    show ?thesis
      using True pl next_ok wr unfolding av1_loop.simps [of frame i p]
      by (auto simp: w Let_def)
  qed
qed

text \<open>
  Frames on which the loop does not end: the first unit is of a type that is dropped, and its size
  field, 2^64 - 11 in ten bytes, wraps the index back to the start of the frame.
\<close>

definition av1_trap :: "u8 \<Rightarrow> bytes \<Rightarrow> bytes" where
  "av1_trap h rest = [h, 0xF5, 0xFF, 0xFF, 0xFF, 0xFF, 0xFF, 0xFF, 0xFF, 0xFF, 0x01] @ rest"

text \<open>Type temporal delimiter, tile list or padding, with a size field and without an extension.\<close>

definition av1_dropped_sized :: "u8 \<Rightarrow> bool" where
  "av1_dropped_sized h \<longleftrightarrow> h AND 0x7E \<in> {0x12, 0x42, 0x7A}"

lemma av1_dropped_bits:
  assumes "av1_dropped_sized h"
  shows "bit h 1" "\<not> bit h 2" "\<not> av1_kept h"
proof -
  have m: "bit (h AND 0x7E) 1 = bit h 1" "bit (h AND 0x7E) 2 = bit h 2"
    by (simp_all add: bit_and_iff)
  show "bit h 1" "\<not> bit h 2"
    using assms unfolding m [symmetric] av1_dropped_sized_def by auto
  have "h AND 0x78 = (h AND 0x7E) AND 0x78" by (simp add: and.assoc)
  then have "h AND 0x78 \<in> {0x10, 0x40, 0x78}"
    using assms by (auto simp: av1_dropped_sized_def)
  then have "drop_bit 3 (h AND 0x78) \<in> drop_bit 3 ` {0x10, 0x40, 0x78}" by (rule imageI)
  moreover have "drop_bit 3 ` {0x10, 0x40, 0x78 :: u8} = {2, 8, 15}" by simp
  ultimately show "\<not> av1_kept h"
    unfolding av1_kept_def Let_def by blast
qed

lemma av1_trap_payload:
  assumes "av1_dropped_sized h"
  shows "av1_obu_payload (av1_trap h rest) 0 = Some (11, 2 ^ 64 - 11)"
proof -
  have "read_leb128 (av1_trap h rest) (Suc 0) (length (av1_trap h rest)) = (0xFFFFFFFFFFFFFFF5, Some 11)"
    by (simp add: read_leb128_def read_leb128_loop.simps av1_trap_def)
  with av1_dropped_bits [OF assms] show ?thesis
    by (simp add: av1_obu_payload_def) (simp add: av1_trap_def)
qed

lemma av1_loop_trap:
  assumes "av1_dropped_sized h"
  shows "av1_loop (av1_trap h rest) 0 p = None"
proof -
  let ?f = "av1_trap h rest"
  have "av1_loop f i q = Some r \<Longrightarrow> f = ?f \<longrightarrow> i \<noteq> 0" for f i q r
  proof (rule av1_loop.raw_induct [of "\<lambda>f i q r. f = ?f \<longrightarrow> i \<noteq> 0"], goal_cases)
    case (1 av1_loop f i q r)
    have "wrap64 (11 + (2 ^ 64 - 11)) = 0" by (simp add: wrap64_def)
    moreover have "0 < length ?f" "\<not> av1_kept (?f ! 0)"
      using av1_dropped_bits [OF assms] by (simp_all add: av1_trap_def)
    ultimately show ?case
      using 1 av1_trap_payload [OF assms]
      by (cases "i = 0"; cases r) (auto dest!: "1"(2))
  qed
  from this [of ?f 0 p] show ?thesis
    by (cases "av1_loop ?f 0 p") blast+
qed

end
