(* ===== verification/H264_Stream.thy ===== *)
theory H264_Stream
  imports Codec_Bodies "HOL-Library.Sublist"
begin

text \<open>
  What an H264 frame is, said without the code: NAL units in the byte stream format of the standard
  (each behind a start code of three or four bytes), and slice units whose payload begins with three
  Exp-Golomb coded numbers. The lemmas connect this to what \<open>next_h26x_nalu_index\<close> and
  \<open>bytes_covering_h264_pps\<close> compute.
\<close>

section \<open>Exp-Golomb codes\<close>

text \<open>The bits of a positive number, the most significant first, and the bits of a list of bytes.\<close>

fun number_bits :: "nat \<Rightarrow> bool list" where
  "number_bits n = (if n < 2 then [odd n] else number_bits (n div 2) @ [odd n])"

declare number_bits.simps [simp del]

definition exp_golomb :: "nat \<Rightarrow> bool list" where
  "exp_golomb k = replicate (length (number_bits (k + 1)) - 1) False @ number_bits (k + 1)"

definition byte_bits :: "u8 \<Rightarrow> bool list" where
  "byte_bits b = map (\<lambda>i. bit b (7 - i)) [0..<8]"

definition payload_bits :: "bytes \<Rightarrow> bool list" where
  "payload_bits bs = concat (map byte_bits bs)"

lemma length_byte_bits [simp]: "length (byte_bits b) = 8"
  by (simp add: byte_bits_def)

lemma nth_byte_bits: "i < 8 \<Longrightarrow> byte_bits b ! i = bit b (7 - i)"
  unfolding byte_bits_def by (subst nth_map) simp_all

lemma payload_bits_Nil: "payload_bits [] = []"
  by (simp add: payload_bits_def)

lemma payload_bits_Cons: "payload_bits (b # bs) = byte_bits b @ payload_bits bs"
  by (simp add: payload_bits_def)

lemma length_payload_bits [simp]: "length (payload_bits bs) = 8 * length bs"
  by (induction bs) (simp_all add: payload_bits_Cons payload_bits_Nil)

lemma payload_bits_append [simp]: "payload_bits (xs @ ys) = payload_bits xs @ payload_bits ys"
  by (simp add: payload_bits_def)

lemma nth_payload_bits:
  "i < 8 * length bs \<Longrightarrow> payload_bits bs ! i = bit (bs ! (i div 8)) (7 - i mod 8)"
proof (induction bs arbitrary: i)
  case (Cons b bs)
  show ?case
  proof (cases "i < 8")
    case True
    then show ?thesis by (simp add: payload_bits_Cons nth_append nth_byte_bits)
  next
    case False
    then obtain j where i: "i = j + 8" by (metis add.commute le_add_diff_inverse not_less)
    have "payload_bits bs ! j = bit (bs ! (j div 8)) (7 - j mod 8)"
      using Cons.prems i by (intro Cons.IH) simp
    moreover have "(j + 8) div 8 = Suc (j div 8)" by simp
    ultimately show ?thesis by (simp add: payload_bits_Cons nth_append i del: div_add_self2)
  qed
qed simp

lemma number_bits_pos: "0 < n \<Longrightarrow> \<exists>xs. number_bits n = True # xs"
proof (induction n rule: number_bits.induct)
  case (1 n)
  show ?case
  proof (cases "n < 2")
    case True
    with 1 have "n = 1" by simp
    then show ?thesis by (simp add: number_bits.simps)
  next
    case False
    with 1 obtain xs where "number_bits (n div 2) = True # xs" by force
    with False show ?thesis by (simp add: number_bits.simps [of n])
  qed
qed

lemma number_bits_length: "0 < n \<Longrightarrow> n < 2 ^ k \<Longrightarrow> length (number_bits n) \<le> k"
proof (induction n arbitrary: k rule: number_bits.induct)
  case (1 n)
  show ?case
  proof (cases "n < 2")
    case True
    with 1 show ?thesis by (cases k) (simp_all add: number_bits.simps [of n])
  next
    case False
    then obtain k' where k: "k = Suc k'" using 1 by (cases k) auto
    with 1 False have "length (number_bits (n div 2)) \<le> k'" by auto
    with False k show ?thesis by (simp add: number_bits.simps [of n])
  qed
qed

text \<open>A code word: some zeros, a one, and as many further bits.\<close>

lemma exp_golomb_shape:
  assumes "k + 1 < 2 ^ 32"
  shows "\<exists>z xs. exp_golomb k = replicate z False @ True # xs \<and> length xs = z \<and> z < 32"
proof -
  obtain xs where xs: "number_bits (k + 1) = True # xs" using number_bits_pos [of "k + 1"] by auto
  moreover have "length (number_bits (k + 1)) \<le> 32"
    using assms by (intro number_bits_length) simp_all
  ultimately show ?thesis
    by (intro exI [of _ "length xs"] exI [of _ xs]) (simp add: exp_golomb_def)
qed

section \<open>Scanning code words\<close>

text \<open>No emulation prevention byte (03 behind two zeros) in the first \<open>n\<close> bytes.\<close>

definition unescaped :: "bytes \<Rightarrow> nat \<Rightarrow> bool" where
  "unescaped bs n = list_all (\<lambda>i. \<not> (bs ! i = 0 \<and> bs ! (i + 1) = 0 \<and> bs ! (i + 2) = 3)) [0..<n - 2]"

lemma unescapedD:
  assumes "unescaped bs n" "2 \<le> i" "i < n"
  shows "\<not> (bs ! i = 0x03 \<and> bs ! (i - 1) = 0 \<and> bs ! (i - 2) = 0)"
proof -
  have "i - 2 \<in> set [0..<n - 2]" "i - 2 + 1 = i - 1" "i - 2 + 2 = i" using assms by auto
  with assms(1) show ?thesis unfolding unescaped_def list_all_iff by metis
qed

lemma pps_loop_bit:
  assumes "P < sz * 8" "n < 3" "sz \<le> length bs" "unescaped bs N" "P < 8 * N"
  shows "pps_loop bs sz P c n =
    (if \<not> payload_bits bs ! P then (if c + 1 \<ge> 32 then None else pps_loop bs sz (P + 1) (c + 1) n)
     else pps_loop bs sz (P + 1 + c) 0 (n + 1))"
proof -
  have "P div 8 < N" using assms(5) by auto
  then have "\<not> (P mod 8 = 0 \<and> P div 8 \<ge> 2 \<and> bs ! (P div 8) = 0x03 \<and> bs ! (P div 8 - 1) = 0 \<and> bs ! (P div 8 - 2) = 0)"
    using unescapedD [OF assms(4), of "P div 8"] by blast
  moreover have "payload_bits bs ! P = bit (bs ! (P div 8)) (7 - P mod 8)"
    using assms(1,3) by (intro nth_payload_bits) simp
  ultimately show ?thesis
    using assms(1,2) by (subst pps_loop.simps) (auto simp: Let_def)
qed

lemma pps_loop_zeros:
  assumes "n < 3" "sz \<le> length bs" "unescaped bs N" "N \<le> sz"
    and "\<forall>i < k. \<not> payload_bits bs ! (P + i)" "payload_bits bs ! (P + k)" "P + k < 8 * N" "c + k < 32"
  shows "pps_loop bs sz P c n = pps_loop bs sz (P + k + 1 + (c + k)) 0 (n + 1)"
  using assms(5-)
proof (induction k arbitrary: P c)
  case 0
  then show ?case
    using pps_loop_bit [OF _ assms(1-3), of P c] assms(4) by simp
next
  case (Suc k)
  have "pps_loop bs sz P c n = pps_loop bs sz (P + 1) (c + 1) n"
    using pps_loop_bit [OF _ assms(1-3), of P c] Suc.prems assms(4) by force
  also have "\<dots> = pps_loop bs sz (P + 1 + k + 1 + (c + 1 + k)) 0 (n + 1)"
    using Suc.prems by (intro Suc.IH) auto
  finally show ?case by (simp add: ac_simps)
qed

lemma pps_loop_codeword:
  assumes "payload_bits bs = pre @ exp_golomb k @ post" "k + 1 < 2 ^ 32" "n < 3"
    and "unescaped bs N" "N \<le> length bs" "length pre + length (exp_golomb k) \<le> 8 * N"
  shows "pps_loop bs (length bs) (length pre) 0 n
       = pps_loop bs (length bs) (length (pre @ exp_golomb k)) 0 (n + 1)"
proof -
  obtain z xs where w: "exp_golomb k = replicate z False @ True # xs" "length xs = z" "z < 32"
    using exp_golomb_shape [OF assms(2)] by blast
  have "pps_loop bs (length bs) (length pre) 0 n = pps_loop bs (length bs) (length pre + z + 1 + (0 + z)) 0 (n + 1)"
    using assms(3-) w by (intro pps_loop_zeros [where N = N]) (auto simp: assms(1) nth_append)
  then show ?thesis by (simp add: w ac_simps)
qed

text \<open>The header of a slice: first macroblock, slice type and picture parameter set.\<close>

definition slice_header :: "nat \<Rightarrow> nat \<Rightarrow> nat \<Rightarrow> bool list" where
  "slice_header first_mb slice_type pps_id = exp_golomb first_mb @ exp_golomb slice_type @ exp_golomb pps_id"

lemma exp_golomb_length: "k + 1 < 2 ^ 32 \<Longrightarrow> length (exp_golomb k) \<le> 63"
  using exp_golomb_shape [of k] by force

lemma slice_header_scanned:
  assumes "payload_bits bs = slice_header a b c @ post" "a + 1 < 2 ^ 32" "b + 1 < 2 ^ 32" "c + 1 < 2 ^ 32"
    and "unescaped bs N" "N \<le> length bs" "N = length (slice_header a b c) div 8 + 1"
  shows "bytes_covering_h264_pps bs = N"
proof -
  have fit: "length (slice_header a b c) \<le> 8 * N" using assms(7) by simp
  have "pps_loop bs (length bs) (length ([] :: bool list)) 0 0
      = pps_loop bs (length bs) (length ([] @ exp_golomb a)) 0 (0 + 1)"
    by (rule pps_loop_codeword [where N = N]) (use assms fit in \<open>simp_all add: slice_header_def\<close>)
  also have "\<dots> = pps_loop bs (length bs) (length (([] @ exp_golomb a) @ exp_golomb b)) 0 (0 + 1 + 1)"
    by (rule pps_loop_codeword [where N = N]) (use assms fit in \<open>simp_all add: slice_header_def\<close>)
  also have "\<dots> = pps_loop bs (length bs) (length ((([] @ exp_golomb a) @ exp_golomb b) @ exp_golomb c)) 0 (0 + 1 + 1 + 1)"
    by (rule pps_loop_codeword [where N = N]) (use assms fit in \<open>simp_all add: slice_header_def\<close>)
  also have "\<dots> = Some (length (slice_header a b c))"
    by (simp add: pps_loop.simps slice_header_def)
  finally have "pps_loop bs (length bs) 0 0 0 = Some (length (slice_header a b c))" by simp
  moreover have "N \<le> 65535"
    using exp_golomb_length [OF assms(2)] exp_golomb_length [OF assms(3)] exp_golomb_length [OF assms(4)] assms(7)
    by (simp add: slice_header_def)
  ultimately show ?thesis
    using assms(7) by (simp add: bytes_covering_h264_pps_def)
qed

section \<open>The byte stream\<close>

text \<open>
  A unit of a frame: its start code, its bytes and, for a slice, the three numbers its payload
  begins with.
\<close>

record h264_unit =
  hu_long :: bool
  hu_bytes :: bytes
  hu_first_mb :: nat
  hu_slice_type :: nat
  hu_pps_id :: nat

definition start_code :: "h264_unit \<Rightarrow> bytes" where
  "start_code u = (if hu_long u then [0, 0, 0, 1] else [0, 0, 1])"

definition h264_stream :: "h264_unit list \<Rightarrow> bytes" where
  "h264_stream us = concat (map (\<lambda>u. start_code u @ hu_bytes u) us)"

fun no_start_code :: "bytes \<Rightarrow> bool" where
  "no_start_code (a # b # c # xs) \<longleftrightarrow> \<not> (a = 0 \<and> b = 0 \<and> c = 1) \<and> no_start_code (b # c # xs)"
| "no_start_code xs \<longleftrightarrow> True"

definition slice_unit :: "bytes \<Rightarrow> bool" where
  "slice_unit bs \<longleftrightarrow> hd bs AND 0x1F = 1 \<or> hd bs AND 0x1F = 5"

text \<open>The bytes of the payload up to the one that holds the first bit behind the three numbers.\<close>

definition header_bytes :: "h264_unit \<Rightarrow> nat" where
  "header_bytes u = length (slice_header (hu_first_mb u) (hu_slice_type u) (hu_pps_id u)) div 8 + 1"

definition slice_ok :: "h264_unit \<Rightarrow> bool" where
  "slice_ok u \<longleftrightarrow>
     prefix (slice_header (hu_first_mb u) (hu_slice_type u) (hu_pps_id u)) (payload_bits (tl (hu_bytes u)))
     \<and> hu_first_mb u + 1 < 2 ^ 32 \<and> hu_slice_type u + 1 < 2 ^ 32 \<and> hu_pps_id u + 1 < 2 ^ 32
     \<and> header_bytes u < length (hu_bytes u) \<and> unescaped (tl (hu_bytes u)) (header_bytes u)"

definition h264_unit_wf :: "h264_unit \<Rightarrow> bool" where
  "h264_unit_wf u \<longleftrightarrow> 2 \<le> length (hu_bytes u) \<and> last (hu_bytes u) \<noteq> 0 \<and> no_start_code (hu_bytes u)
     \<and> (slice_unit (hu_bytes u) \<longrightarrow> slice_ok u)"

definition h264_secret :: "h264_unit \<Rightarrow> bytes" where
  "h264_secret u = (if slice_unit (hu_bytes u) then drop (1 + header_bytes u) (hu_bytes u) else [])"

definition h264_clear :: "h264_unit \<Rightarrow> bytes" where
  "h264_clear u = [0, 0, 0, 1]
     @ (if slice_unit (hu_bytes u) then take (1 + header_bytes u) (hu_bytes u) else hu_bytes u)"

section \<open>The search finds the start codes\<close>

definition code_at :: "bytes \<Rightarrow> nat \<Rightarrow> bool" where
  "code_at buf i \<longleftrightarrow> i + 3 < length buf \<and> buf ! i = 0 \<and> buf ! (i + 1) = 0 \<and> buf ! (i + 2) = 1"

lemma u8_above_1: "x \<noteq> 0 \<Longrightarrow> x \<noteq> 1 \<Longrightarrow> 1 < (x :: u8)"
  by (metis One_nat_def less_one linorder_neqE_nat unat_0 unat_1 word_less_nat_alt word_unat_eq_iff)

lemma nalu_search_skip:
  assumes "i < length buf - 3" "buf ! (i + 2) \<noteq> 0" "\<not> code_at buf i"
  shows "nalu_search buf i = nalu_search buf (i + 3)"
proof (cases "buf ! (i + 2) = 1")
  case True
  have "\<not> (buf ! (i + 1) = 0 \<and> buf ! i = 0)"
    using assms(1,3) True by (auto simp: code_at_def)
  with assms(1) True show ?thesis
    by (subst nalu_search.simps) (auto simp: NALU_SHORT_START_SEQUENCE_SIZE_def)
next
  case False
  then have "1 < buf ! (i + 2)" using assms(2) u8_above_1 by blast
  with assms(1) show ?thesis
    by (subst nalu_search.simps) (simp add: NALU_SHORT_START_SEQUENCE_SIZE_def)
qed

lemma nalu_search_least:
  assumes "i \<le> j" "code_at buf j" "\<forall>k. i \<le> k \<and> k < j \<longrightarrow> \<not> code_at buf k"
  shows "nalu_search buf i = Some (j + 3, if 1 \<le> j \<and> buf ! (j - 1) = 0 then 4 else 3)"
  using assms(1,3)
proof (induction "j - i" arbitrary: i rule: less_induct)
  case less
  have lt: "i < length buf - 3" using less.prems(1) assms(2) by (auto simp: code_at_def)
  show ?case
  proof (cases "i = j")
    case True
    with assms(2) lt show ?thesis
      by (subst nalu_search.simps) (simp add: NALU_SHORT_START_SEQUENCE_SIZE_def code_at_def)
  next
    case False
    with less.prems have ij: "i < j" "\<not> code_at buf i" by auto
    show ?thesis
    proof (cases "buf ! (i + 2) = 0")
      case True
      then have "nalu_search buf i = nalu_search buf (i + 1)"
        using lt by (simp add: nalu_search.simps [of buf i] NALU_SHORT_START_SEQUENCE_SIZE_def)
      with less.hyps [of "i + 1"] less.prems ij show ?thesis by simp
    next
      case nz: False
      have "j \<noteq> i + 1" "j \<noteq> i + 2" using nz assms(2) by (auto simp: code_at_def)
      with ij have j: "i + 3 \<le> j" by linarith
      have "nalu_search buf i = nalu_search buf (i + 3)"
        using nalu_search_skip [OF lt nz ij(2)] .
      with less.hyps [of "i + 3"] less.prems j show ?thesis by simp
    qed
  qed
qed

lemma nalu_search_none: "\<forall>k \<ge> i. \<not> code_at buf k \<Longrightarrow> nalu_search buf i = None"
  using nalu_search_hit [of buf i]
proof (cases "nalu_search buf i")
  case (Some sc)
  obtain s c where sc: "sc = (s, c)" by (cases sc)
  note hit = nalu_search_hit [OF Some [unfolded sc]]
  then obtain k where "s = k + 3" "i \<le> k" by (metis add.commute add_le_imp_le_right le_Suc_ex le_add1 le_trans)
  with hit have "code_at buf k" by (simp add: code_at_def)
  moreover assume "\<forall>k \<ge> i. \<not> code_at buf k"
  ultimately show ?thesis using \<open>i \<le> k\<close> by blast
qed simp

lemma no_start_codeD:
  "no_start_code u \<Longrightarrow> i + 2 < length u \<Longrightarrow> \<not> (u ! i = 0 \<and> u ! (i + 1) = 0 \<and> u ! (i + 2) = 1)"
proof (induction u arbitrary: i rule: no_start_code.induct)
  case (1 a b c xs)
  then show ?case by (cases i) auto
qed auto

text \<open>A unit that is followed by something contains no start code, also none that only begins in it.\<close>

definition unit_bytes_ok :: "bytes \<Rightarrow> bool" where
  "unit_bytes_ok u \<longleftrightarrow> u \<noteq> [] \<and> last u \<noteq> 0 \<and> no_start_code u"

lemma unit_no_code:
  assumes "unit_bytes_ok u" "k < length u"
  shows "\<not> code_at (u @ ys) k"
proof
  assume code: "code_at (u @ ys) k"
  have l: "u ! (length u - 1) \<noteq> 0" using assms(1) by (auto simp: unit_bytes_ok_def last_conv_nth)
  consider "k + 2 < length u" | "k + 1 = length u - 1" | "k = length u - 1" using assms(2) by linarith
  then show False
  proof cases
    case 1
    with code assms(1) no_start_codeD [of u k] show ?thesis
      by (auto simp: code_at_def nth_append unit_bytes_ok_def)
  next
    case 2
    then have "k + 1 < length u" using assms(2) by linarith
    with code 2 l show ?thesis by (simp add: code_at_def nth_append)
  next
    case 3
    with code assms(2) l show ?thesis by (simp add: code_at_def nth_append)
  qed
qed

lemma code_at_prefix: "code_at (p @ xs) (length p + k) = code_at xs k"
  by (simp add: code_at_def nth_append)

lemma code_before: "length p \<le> k \<Longrightarrow> code_at (p @ xs) k = code_at xs (k - length p)"
  using code_at_prefix [of p xs "k - length p"] by simp

lemma start_code_at:
  assumes "w \<noteq> []"
  shows "code_at (start_code v @ w) (length (start_code v) - 3)"
    and "k < length (start_code v) - 3 \<Longrightarrow> \<not> code_at (start_code v @ w) k"
  using assms by (auto simp: code_at_def start_code_def)

lemma next_start_code:
  assumes u: "u = [] \<and> p = [] \<or> unit_bytes_ok u" and w: "w \<noteq> []"
  shows "next_h26x_nalu_index (p @ u @ start_code v @ w) (length p)
    = Some (length p + length u + length (start_code v), length (start_code v))"
proof -
  let ?xs = "u @ start_code v @ w" and ?d = "length (start_code v) - 3"
  let ?j = "length p + (length u + ?d)"
  have len: "3 \<le> length (start_code v)" by (simp add: start_code_def)
  have at: "code_at (p @ ?xs) ?j"
    unfolding code_at_prefix using start_code_at(1) [OF w, of v] by (simp only: code_at_prefix)
  have before: "\<not> code_at (p @ ?xs) k" if "length p \<le> k" "k < ?j" for k
  proof (cases "k - length p < length u")
    case True
    then show ?thesis
      using u that unit_no_code [of u "k - length p" "start_code v @ w"] by (auto simp: code_before)
  next
    case False
    then show ?thesis
      using that start_code_at(2) [OF w, of "k - length p - length u" v] by (simp add: code_before)
  qed
  have "(if 1 \<le> ?j \<and> (p @ ?xs) ! (?j - 1) = 0 then 4 else 3) = length (start_code v)"
    using u by (auto simp: start_code_def nth_append unit_bytes_ok_def last_conv_nth)
  moreover have "\<not> length (p @ ?xs) < 3" using len by simp
  ultimately show ?thesis
    using nalu_search_least [OF _ at, of "length p"] before len
    by (simp add: next_h26x_nalu_index_def NALU_SHORT_START_SEQUENCE_SIZE_def)
qed

lemma no_next_start_code:
  assumes "u = [] \<and> p = [] \<or> unit_bytes_ok u"
  shows "next_h26x_nalu_index (p @ u) (length p) = None"
proof -
  have "\<not> code_at (p @ u) k" if "length p \<le> k" for k
    using assms that unit_no_code [of u "k - length p" "[]"]
    by (cases "k - length p < length u") (auto simp: code_before, auto simp: code_at_def)
  then show ?thesis
    by (simp add: next_h26x_nalu_index_def nalu_search_none)
qed

section \<open>The units of a stream\<close>

lemma unescaped_append: "n \<le> length bs \<Longrightarrow> unescaped (bs @ xs) n = unescaped bs n"
  by (auto simp: unescaped_def list_all_iff nth_append)

definition unit_chunks :: "h264_unit \<Rightarrow> chunk list" where
  "unit_chunks v =
     (if slice_unit (hu_bytes v)
      then [Clear [0, 0, 0, 1], Clear (take (1 + header_bytes v) (hu_bytes v)),
            Secret (drop (1 + header_bytes v) (hu_bytes v))]
      else [Clear [0, 0, 0, 1], Clear (hu_bytes v)])"

lemma slice_covered:
  assumes "slice_ok v"
  shows "bytes_covering_h264_pps (tl (hu_bytes v) @ rest) = header_bytes v"
proof -
  obtain post where "payload_bits (tl (hu_bytes v))
      = slice_header (hu_first_mb v) (hu_slice_type v) (hu_pps_id v) @ post"
    using assms by (auto simp: slice_ok_def prefix_def)
  then show ?thesis
    using assms unescaped_append [of "header_bytes v" "tl (hu_bytes v)" rest]
    by (intro slice_header_scanned [where post = "post @ payload_bits rest"])
      (auto simp: slice_ok_def header_bytes_def)
qed

lemma unit_in_frame:
  assumes "h264_unit_wf v" "F = q @ hu_bytes v @ rest" "s = (length q, length q + length (hu_bytes v))"
  shows "nalu_bytes F s = [0, 0, 0, 1] @ hu_bytes v" "h264_chunks F s = unit_chunks v" "h264_unit_ok F s"
proof -
  obtain h t where b: "hu_bytes v = h # t" using assms(1) by (cases "hu_bytes v") (auto simp: h264_unit_wf_def)
  have F: "F ! length q = h" "drop (length q + 1) F = t @ rest" by (simp_all add: assms(2) b)
  have pps: "bytes_covering_h264_pps (t @ rest) = header_bytes v \<and> header_bytes v < length (h # t)"
    if "h AND 0x1F = 1 \<or> h AND 0x1F = 5"
    using that assms(1) slice_covered [of v rest] b by (auto simp: h264_unit_wf_def slice_unit_def slice_ok_def)
  show "nalu_bytes F s = [0, 0, 0, 1] @ hu_bytes v"
    by (simp add: nalu_bytes_def assms(2,3) NALU_LONG_START_CODE_def)
  show "h264_unit_ok F s"
    using pps F(2) by (auto simp: h264_unit_ok_def assms(3) F(1) b Let_def)
  have take: "take n (drop (length q) F) = take n (hu_bytes v)" if "n \<le> length (hu_bytes v)" for n
    using that by (simp add: assms(2))
  have drop: "take (length (hu_bytes v) - n) (drop (length q + n) F) = drop n (hu_bytes v)"
    if "n \<le> length (hu_bytes v)" for n
    using that by (simp add: assms(2))
  show "h264_chunks F s = unit_chunks v"
  proof (cases "slice_unit (hu_bytes v)")
    case True
    then have "h AND 0x1F = 1 \<or> h AND 0x1F = 5" by (simp add: slice_unit_def b)
    with pps [OF this] True take [of "1 + header_bytes v"] drop [of "1 + header_bytes v"] F(2) b show ?thesis
      by (simp add: h264_chunks_def unit_chunks_def assms(3) F(1) NALU_LONG_START_CODE_def)
  next
    case False
    then have "\<not> (h AND 0x1F = 1 \<or> h AND 0x1F = 5)" by (simp add: slice_unit_def b)
    with False take [of "length (hu_bytes v)"] show ?thesis
      by (simp add: h264_chunks_def unit_chunks_def assms(3) F(1) NALU_LONG_START_CODE_def)
  qed
qed

lemma h264_stream_Cons: "h264_stream (v # us) = start_code v @ hu_bytes v @ h264_stream us"
  by (simp add: h264_stream_def)

lemma units_of_stream:
  assumes "\<forall>v \<in> set us. h264_unit_wf v" "u = [] \<and> p = [] \<or> unit_bytes_ok u" "F = p @ u @ h264_stream us"
  shows "map (\<lambda>s. (nalu_bytes F s, h264_chunks F s, h264_unit_ok F s)) (nal_units F (next_h26x_nalu_index F (length p)))
    = map (\<lambda>v. ([0, 0, 0, 1] @ hu_bytes v, unit_chunks v, True)) us"
  using assms
proof (induction us arbitrary: u p)
  case Nil
  then show ?case by (simp add: h264_stream_def no_next_start_code nal_units.simps)
next
  case (Cons v us)
  let ?q = "p @ u @ start_code v"
  have F: "F = ?q @ hu_bytes v @ h264_stream us" using Cons.prems(3) by (simp add: h264_stream_Cons)
  have wf: "h264_unit_wf v" "2 \<le> length (hu_bytes v)" "hu_bytes v \<noteq> []" "unit_bytes_ok (hu_bytes v)"
    using Cons.prems(1) by (auto simp: h264_unit_wf_def unit_bytes_ok_def)
  have nxt: "next_h26x_nalu_index F (length p) = Some (length ?q, length (start_code v))"
    using next_start_code [OF Cons.prems(2), of "hu_bytes v @ h264_stream us" v] wf(3) by (simp add: F)
  have e: "nalu_end F (next_h26x_nalu_index F (length ?q)) = length ?q + length (hu_bytes v)"
  proof (cases us)
    case Nil
    then show ?thesis
      using no_next_start_code [of "hu_bytes v" ?q] wf(4) by (simp add: F h264_stream_def nalu_end_def)
  next
    case (Cons v' us')
    then have "hu_bytes v' @ h264_stream us' \<noteq> []"
      using \<open>\<forall>v \<in> set (v # us). h264_unit_wf v\<close> by (auto simp: h264_unit_wf_def)
    then show ?thesis
      using next_start_code [of "hu_bytes v" ?q "hu_bytes v' @ h264_stream us'" v'] wf(4) Cons
      by (simp add: F h264_stream_Cons nalu_end_def)
  qed
  have units: "nal_units F (next_h26x_nalu_index F (length p))
      = (length ?q, length ?q + length (hu_bytes v)) # nal_units F (next_h26x_nalu_index F (length ?q))"
  proof -
    have "length ?q < length F - 1" using wf(2) by (simp add: F)
    then show ?thesis
      using nal_units.simps [of F "Some (length ?q, length (start_code v))"] e by (simp add: nxt)
  qed
  have "map (\<lambda>s. (nalu_bytes F s, h264_chunks F s, h264_unit_ok F s)) (nal_units F (next_h26x_nalu_index F (length ?q)))
      = map (\<lambda>v. ([0, 0, 0, 1] @ hu_bytes v, unit_chunks v, True)) us"
    using Cons.IH [of "hu_bytes v" ?q] Cons.prems(1) wf(4) F by simp
  with unit_in_frame [OF wf(1) F refl] show ?case
    by (simp only: units list.map)
qed

text \<open>What the processor makes of a stream of well-formed units.\<close>

lemma chunks_of_unit:
  "concat (map chunk_bytes (unit_chunks v)) = [0, 0, 0, 1] @ hu_bytes v"
  "concat (map clear_bytes (unit_chunks v)) = h264_clear v"
  "concat (map secret_bytes (unit_chunks v)) = h264_secret v"
  by (simp_all add: unit_chunks_def h264_clear_def h264_secret_def del: take_Suc drop_Suc)

lemma process_h264_stream:
  assumes "us \<noteq> []" "\<forall>v \<in> set us. h264_unit_wf v" "length (h264_stream us) < SIZE_MAX"
  shows "process_codec q (h264_stream us) H264
    = Some (foldl sink.feed q (concat (map unit_chunks us)), True)"
proof -
  let ?F = "h264_stream us"
  let ?ns = "nal_units ?F (next_h26x_nalu_index ?F 0)"
  have m: "map (\<lambda>s. (nalu_bytes ?F s, h264_chunks ?F s, h264_unit_ok ?F s)) ?ns
      = map (\<lambda>v. ([0, 0, 0, 1] @ hu_bytes v, unit_chunks v, True)) us"
    using units_of_stream [OF assms(2), of "[]" "[]" ?F] by simp
  have chunks: "map (h264_chunks ?F) ?ns = map unit_chunks us"
    using arg_cong [OF m, of "map (fst \<circ> snd)"] by (simp add: comp_def)
  have "map (h264_unit_ok ?F) ?ns = map (\<lambda>_. True) us"
    using arg_cong [OF m, of "map (snd \<circ> snd)"] by (simp add: comp_def)
  then have "set (map (h264_unit_ok ?F) ?ns) \<subseteq> {True}" by (simp only:) auto
  then have ok: "\<forall>s \<in> set ?ns. h264_unit_ok ?F s" by auto
  obtain v us' where us: "us = v # us'" using assms(1) by (cases us) auto
  have "2 \<le> length (hu_bytes v)" "3 \<le> length (start_code v)"
    using assms(2) by (simp_all add: us h264_unit_wf_def start_code_def)
  then have "4 \<le> length ?F" by (simp add: us h264_stream_Cons)
  from process_frame_h264_eq [OF this assms(3) ok] show ?thesis
    by (simp add: process_codec_def chunks)
qed

end
