(* ===== verification/Aead_Cipher.thy ===== *)
theory Aead_Cipher
  imports Dave_Types Buffer_Utils
begin

text \<open>
  \<^verbatim>\<open>src/dave/key_ratchet.cpp\<close> and \<^verbatim>\<open>src/dave/aead_cipher.cpp\<close>. OpenSSL and the MLS
  library are parameters: the record \<open>evp\<close> has one field per EVP call the code makes, a
  function of what the context was given so far, and \<open>mls_ratchet\<close> has the two operations of
  \<^verbatim>\<open>mlspp::HashRatchet\<close>. What the code relies on from OpenSSL is the predicate
  \<open>evp_gcm\<close>.
\<close>

section \<open>Key ratchets\<close>

record 'h mls_ratchet =
  hr_get :: "'h \<Rightarrow> nat \<Rightarrow> ('h \<times> bytes) option"
  hr_erase :: "'h \<Rightarrow> nat \<Rightarrow> 'h"

datatype 'h key_ratchet = MlsKeyRatchet 'h | SimpleKeyRatchet bytes

text \<open>An exception of \<^verbatim>\<open>HashRatchet::get\<close> (\<^term>\<open>None\<close>) becomes the empty key.\<close>

fun get_key :: "'h mls_ratchet \<Rightarrow> 'h key_ratchet \<Rightarrow> u8 \<Rightarrow> 'h key_ratchet \<times> bytes" where
  "get_key mls (MlsKeyRatchet h) generation =
     (case hr_get mls h (unat generation) of
        Some (h', key) \<Rightarrow> (MlsKeyRatchet h', key)
      | None \<Rightarrow> (MlsKeyRatchet h, []))"
| "get_key mls (SimpleKeyRatchet base_key) generation = (SimpleKeyRatchet base_key, base_key)"

fun delete_key :: "'h mls_ratchet \<Rightarrow> 'h key_ratchet \<Rightarrow> u8 \<Rightarrow> 'h key_ratchet" where
  "delete_key mls (MlsKeyRatchet h) generation = MlsKeyRatchet (hr_erase mls h (unat generation))"
| "delete_key mls (SimpleKeyRatchet base_key) generation = SimpleKeyRatchet base_key"

text \<open>A ratchet library with no keys, for runs that only use \<^const>\<open>SimpleKeyRatchet\<close>.\<close>

definition no_mls :: "unit mls_ratchet" where
  "no_mls = \<lparr>hr_get = (\<lambda>_ _. None), hr_erase = (\<lambda>h _. h)\<rparr>"

section \<open>OpenSSL\<close>

record evp =
  evp_ctx_new :: bool
  evp_init :: bool
  evp_set_ivlen :: "nat \<Rightarrow> bool"
  evp_set_key :: "bytes \<Rightarrow> bytes \<Rightarrow> bool"
  evp_set_aad :: "bytes \<Rightarrow> bytes \<Rightarrow> bytes \<Rightarrow> bool"
  evp_encrypt_update :: "bytes \<Rightarrow> bytes \<Rightarrow> bytes \<Rightarrow> bytes \<Rightarrow> bytes option"
  evp_encrypt_final :: "bytes \<Rightarrow> bytes \<Rightarrow> bytes \<Rightarrow> bytes \<Rightarrow> bytes option"
  evp_get_tag :: "bytes \<Rightarrow> bytes \<Rightarrow> bytes \<Rightarrow> bytes \<Rightarrow> nat \<Rightarrow> bytes option"
  evp_decrypt_update :: "bytes \<Rightarrow> bytes \<Rightarrow> bytes \<Rightarrow> bytes \<Rightarrow> bytes option"
  evp_set_tag :: "bytes \<Rightarrow> bool"
  evp_decrypt_final :: "bytes \<Rightarrow> bytes \<Rightarrow> bytes \<Rightarrow> bytes \<Rightarrow> bytes \<Rightarrow> bytes option"

text \<open>
  EVP takes a pointer and a length of type \<^verbatim>\<open>int\<close>, to which the code converts a size: what EVP gets
  is the first bytes, as many as the low 32 bits of the size say, and \<^term>\<open>None\<close> when these
  are a negative number, which EVP refuses.
\<close>

definition evp_data :: "bytes \<Rightarrow> bytes option" where
  "evp_data bs =
     (let n = sint (of_nat (length bs) :: 32 word)
      in if n < 0 then None else Some (take (nat n) bs))"

definition evp_aad :: "bytes \<Rightarrow> bytes" where
  "evp_aad additional_data = (case evp_data additional_data of Some aad \<Rightarrow> aad | None \<Rightarrow> [])"

definition evp_aad_set :: "evp \<Rightarrow> bytes \<Rightarrow> bytes \<Rightarrow> bytes \<Rightarrow> bool" where
  "evp_aad_set evp key nonce additional_data \<longleftrightarrow> additional_data = []
     \<or> (case evp_data additional_data of Some aad \<Rightarrow> evp_set_aad evp key nonce aad | None \<Rightarrow> False)"

section \<open>AeadCipher\<close>

record aead_cipher =
  ac_ctx :: bool
  ac_key :: bytes

definition AeadCipher :: "evp \<Rightarrow> bytes \<Rightarrow> aead_cipher" where
  "AeadCipher evp key = \<lparr>ac_ctx = evp_ctx_new evp, ac_key = key\<rparr>"

definition is_valid :: "aead_cipher \<Rightarrow> bool" where
  "is_valid c = ac_ctx c"

text \<open>
  Both operations return the output buffer with the result, an error code or the number of bytes
  written; \<^term>\<open>None\<close> is an access outside a buffer. EVP reads sixteen bytes at
  \<^verbatim>\<open>m_key.data()\<close>, whatever the length of the key.
\<close>

definition aead_encrypt ::
    "evp \<Rightarrow> aead_cipher \<Rightarrow> bytes \<Rightarrow> bytes \<Rightarrow> bytes \<Rightarrow> bytes \<Rightarrow> (bytes \<times> (errc + nat)) option" where
  "aead_encrypt evp c plaintext additional_data nonce out =
     (if \<not> ac_ctx c then Some (out, Inl operation_not_permitted)
      else if \<not> evp_init evp then Some (out, Inl io_error)
      else if \<not> evp_set_ivlen evp (length nonce) then Some (out, Inl io_error)
      else do {
        key \<leftarrow> subspan (ac_key c) 0 AES_GCM_128_KEY_BYTES;
        if \<not> evp_set_key evp key nonce then Some (out, Inl io_error)
        else if \<not> evp_aad_set evp key nonce additional_data then Some (out, Inl io_error)
        else (case Option.bind (evp_data plaintext) (evp_encrypt_update evp key nonce (evp_aad additional_data)) of
            None \<Rightarrow> Some (out, Inl io_error)
          | Some ct \<Rightarrow> do {
              out1 \<leftarrow> store out 0 ct;
              let pt = the (evp_data plaintext);
              (case evp_encrypt_final evp key nonce (evp_aad additional_data) pt of
                 None \<Rightarrow> Some (out1, Inl io_error)
               | Some ct' \<Rightarrow> do {
                   out2 \<leftarrow> store out1 (length ct) ct';
                   let written = length ct + length ct';
                   (case evp_get_tag evp key nonce (evp_aad additional_data) pt
                           AES_GCM_128_TRUNCATED_TAG_BYTES of
                      None \<Rightarrow> Some (out2, Inl io_error)
                    | Some tag \<Rightarrow>
                        if length out2 \<ge> written + AES_GCM_128_TRUNCATED_TAG_BYTES
                        then do {
                          out3 \<leftarrow> store out2 written tag;
                          Some (out3, Inr (written + AES_GCM_128_TRUNCATED_TAG_BYTES))
                        } else Some (out2, Inr written))
                 })
            })
      })"

definition aead_decrypt ::
    "evp \<Rightarrow> aead_cipher \<Rightarrow> bytes \<Rightarrow> bytes \<Rightarrow> bytes \<Rightarrow> bytes \<Rightarrow> (bytes \<times> (errc + nat)) option" where
  "aead_decrypt evp c ciphertext additional_data nonce out =
     (if \<not> ac_ctx c then Some (out, Inl operation_not_permitted)
      else if length ciphertext < AES_GCM_128_TRUNCATED_TAG_BYTES then Some (out, Inl message_size)
      else (let actual_ciphertext_len = length ciphertext - AES_GCM_128_TRUNCATED_TAG_BYTES;
                ct = take actual_ciphertext_len ciphertext;
                tag_data = drop actual_ciphertext_len ciphertext
        in if \<not> evp_init evp then Some (out, Inl io_error)
        else if \<not> evp_set_ivlen evp (length nonce) then Some (out, Inl io_error)
        else do {
          key \<leftarrow> subspan (ac_key c) 0 AES_GCM_128_KEY_BYTES;
          if \<not> evp_set_key evp key nonce then Some (out, Inl io_error)
          else if \<not> evp_aad_set evp key nonce additional_data then Some (out, Inl io_error)
          else (case Option.bind (evp_data ct) (evp_decrypt_update evp key nonce (evp_aad additional_data)) of
              None \<Rightarrow> Some (out, Inl io_error)
            | Some pt \<Rightarrow> do {
                out1 \<leftarrow> store out 0 pt;
                if \<not> evp_set_tag evp tag_data then Some (out1, Inl io_error)
                else (case evp_decrypt_final evp key nonce (evp_aad additional_data) (the (evp_data ct)) tag_data of
                    None \<Rightarrow> Some (out1, Inl permission_denied)
                  | Some pt' \<Rightarrow> do {
                      out2 \<leftarrow> store out1 (length pt) pt';
                      Some (out2, Inr (length pt + length pt'))
                    })
              })
        }))"

section \<open>What the code relies on\<close>

text \<open>
  AES-128-GCM as OpenSSL documents it: with a sixteen byte key, a nonce of at most sixteen bytes and a tag of
  eight every setup call succeeds, the
  ciphertext is as long as the plaintext and the final call adds nothing, a tag has the length
  asked for, and decryption under the same key, nonce and additional data with the tag that
  encryption produced gives the plaintext back. Decrypting any ciphertext writes as many bytes as
  it reads, and the final call writes nothing.
\<close>

definition evp_ready :: "evp \<Rightarrow> bool" where
  "evp_ready evp \<longleftrightarrow> evp_ctx_new evp \<and> evp_init evp \<and> (\<forall>n. 0 < n \<and> n \<le> 16 \<longrightarrow> evp_set_ivlen evp n)
     \<and> (\<forall>key nonce. evp_set_key evp key nonce)
     \<and> (\<forall>key nonce aad. evp_set_aad evp key nonce aad) \<and> (\<forall>tag. length tag = 8 \<longrightarrow> evp_set_tag evp tag)"

definition evp_seals :: "evp \<Rightarrow> bool" where
  "evp_seals evp \<longleftrightarrow> (\<forall>key nonce aad pt. \<exists>ct tag.
     evp_encrypt_update evp key nonce aad pt = Some ct \<and> length ct = length pt
     \<and> evp_encrypt_final evp key nonce aad pt = Some []
     \<and> evp_get_tag evp key nonce aad pt 8 = Some tag \<and> length tag = 8
     \<and> evp_decrypt_update evp key nonce aad ct = Some pt
     \<and> evp_decrypt_final evp key nonce aad ct tag = Some [])"

definition evp_opens :: "evp \<Rightarrow> bool" where
  "evp_opens evp \<longleftrightarrow> (\<forall>key nonce aad ct tag.
     (\<exists>pt. evp_decrypt_update evp key nonce aad ct = Some pt \<and> length pt = length ct)
     \<and> (evp_decrypt_final evp key nonce aad ct tag = None
         \<or> evp_decrypt_final evp key nonce aad ct tag = Some []))"

definition evp_gcm :: "evp \<Rightarrow> bool" where
  "evp_gcm evp \<longleftrightarrow> evp_ready evp \<and> evp_seals evp \<and> evp_opens evp"

text \<open>The two outputs of encryption, named.\<close>

definition gcm_ct :: "evp \<Rightarrow> bytes \<Rightarrow> bytes \<Rightarrow> bytes \<Rightarrow> bytes \<Rightarrow> bytes" where
  "gcm_ct evp key nonce aad pt = the (evp_encrypt_update evp key nonce aad pt)"

definition gcm_tag :: "evp \<Rightarrow> bytes \<Rightarrow> bytes \<Rightarrow> bytes \<Rightarrow> bytes \<Rightarrow> bytes" where
  "gcm_tag evp key nonce aad pt = the (evp_get_tag evp key nonce aad pt 8)"

lemma evp_gcm_setup:
  assumes "evp_gcm evp"
  shows "evp_ctx_new evp" "evp_init evp" "0 < n \<Longrightarrow> n \<le> 16 \<Longrightarrow> evp_set_ivlen evp n" "evp_set_key evp key nonce"
    "evp_set_aad evp key nonce aad" "length tag = 8 \<Longrightarrow> evp_set_tag evp tag"
  using assms by (simp_all add: evp_gcm_def evp_ready_def)

lemma evp_gcm_seal:
  assumes "evp_gcm evp"
  shows "evp_encrypt_update evp key nonce aad pt = Some (gcm_ct evp key nonce aad pt)"
    "length (gcm_ct evp key nonce aad pt) = length pt"
    "evp_encrypt_final evp key nonce aad pt = Some []"
    "evp_get_tag evp key nonce aad pt 8 = Some (gcm_tag evp key nonce aad pt)"
    "length (gcm_tag evp key nonce aad pt) = 8"
    "evp_decrypt_update evp key nonce aad (gcm_ct evp key nonce aad pt) = Some pt"
    "evp_decrypt_final evp key nonce aad (gcm_ct evp key nonce aad pt) (gcm_tag evp key nonce aad pt) = Some []"
proof -
  obtain ct tag where
    "evp_encrypt_update evp key nonce aad pt = Some ct \<and> length ct = length pt
          \<and> evp_encrypt_final evp key nonce aad pt = Some []
          \<and> evp_get_tag evp key nonce aad pt 8 = Some tag \<and> length tag = 8
          \<and> evp_decrypt_update evp key nonce aad ct = Some pt
          \<and> evp_decrypt_final evp key nonce aad ct tag = Some []"
    using assms unfolding evp_gcm_def evp_seals_def by blast
  then show "evp_encrypt_update evp key nonce aad pt = Some (gcm_ct evp key nonce aad pt)"
    "length (gcm_ct evp key nonce aad pt) = length pt"
    "evp_encrypt_final evp key nonce aad pt = Some []"
    "evp_get_tag evp key nonce aad pt 8 = Some (gcm_tag evp key nonce aad pt)"
    "length (gcm_tag evp key nonce aad pt) = 8"
    "evp_decrypt_update evp key nonce aad (gcm_ct evp key nonce aad pt) = Some pt"
    "evp_decrypt_final evp key nonce aad (gcm_ct evp key nonce aad pt) (gcm_tag evp key nonce aad pt) = Some []"
    by (simp_all add: gcm_ct_def gcm_tag_def)
qed

lemma evp_data_small: "length bs < 2 ^ 31 \<Longrightarrow> evp_data bs = Some bs"
proof -
  assume small: "length bs < 2 ^ 31"
  then have "sint (of_nat (length bs) :: 32 word) = int (length bs)"
    by (simp add: signed_of_nat signed_take_bit_int_eq_self)
  then show ?thesis by (simp add: evp_data_def)
qed

lemma evp_data_length: "evp_data bs = Some x \<Longrightarrow> length x \<le> length bs"
  by (auto simp: evp_data_def Let_def split: if_splits)

lemma evp_aad_small:
  assumes "length bs < 2 ^ 31"
  shows "evp_aad bs = bs" "(\<And>aad. evp_set_aad evp key nonce aad) \<Longrightarrow> evp_aad_set evp key nonce bs"
  using assms by (simp_all add: evp_aad_def evp_aad_set_def evp_data_small)

lemma aead_encrypt_eq:
  assumes "evp_gcm evp" "ac_ctx c" "16 \<le> length (ac_key c)" "length out = length pt + 8"
    and "length pt < 2 ^ 31" "length aad < 2 ^ 31" "length nonce = 12"
  shows "aead_encrypt evp c pt aad nonce out =
    Some (gcm_ct evp (take 16 (ac_key c)) nonce aad pt @ gcm_tag evp (take 16 (ac_key c)) nonce aad pt,
          Inr (length pt + 8))"
  using assms evp_gcm_seal [OF assms(1), of "take 16 (ac_key c)" nonce aad pt]
  by (simp add: aead_encrypt_def evp_gcm_setup subspan_Some store_def dave_consts evp_data_small evp_aad_small)

lemma aead_decrypt_eq:
  assumes "evp_gcm evp" "ac_ctx c" "16 \<le> length (ac_key c)" "length out = length pt"
    and "length pt < 2 ^ 31" "length aad < 2 ^ 31" "length nonce = 12"
  shows "aead_decrypt evp c
      (gcm_ct evp (take 16 (ac_key c)) nonce aad pt @ gcm_tag evp (take 16 (ac_key c)) nonce aad pt)
      aad nonce out = Some (pt, Inr (length pt))"
  using assms evp_gcm_seal [OF assms(1), of "take 16 (ac_key c)" nonce aad pt]
  by (simp add: aead_decrypt_def evp_gcm_setup subspan_Some store_def dave_consts evp_data_small evp_aad_small)

text \<open>Whatever it is given, decryption stays within its buffers, also when a size is cut to an \<^verbatim>\<open>int\<close>.\<close>

lemma aead_decrypt_safe:
  assumes "evp_gcm evp" "16 \<le> length (ac_key c)" "length ct = length out + 8"
  shows "\<exists>out' res. aead_decrypt evp c ct aad nonce out = Some (out', res) \<and> length out' = length out"
proof -
  let ?key = "take 16 (ac_key c)" and ?ct = "take (length ct - 8) ct" and ?tag = "drop (length ct - 8) ct"
  let ?aad = "evp_aad aad"
  have opens: "evp_opens evp"
    using assms(1) by (simp add: evp_gcm_def)
  have tag: "evp_set_tag evp ?tag"
    using assms(3) evp_gcm_setup(6) [OF assms(1)] by simp
  have key: "subspan (ac_key c) 0 16 = Some ?key" using assms(2) by (simp add: subspan_Some)
  show ?thesis
  proof (cases "evp_data ?ct")
    case None
    then show ?thesis
      using assms(3) key by (auto simp: aead_decrypt_def dave_consts Let_def)
  next
    case (Some d)
    have d: "length d \<le> length out"
      using evp_data_length [OF Some] assms(3) by simp
    obtain pt where pt: "evp_decrypt_update evp ?key nonce ?aad d = Some pt" "length pt = length d"
      using opens unfolding evp_opens_def by metis
    have fin: "evp_decrypt_final evp ?key nonce ?aad d ?tag = None \<or> evp_decrypt_final evp ?key nonce ?aad d ?tag = Some []"
      using opens unfolding evp_opens_def by blast
    show ?thesis
      using assms(3) key pt fin tag d Some
      by (auto simp: aead_decrypt_def store_def dave_consts Let_def)
  qed
qed

text \<open>
  An instance of \<open>evp_gcm\<close> to run the model on concrete inputs: a one-byte pad from key and
  nonce, and a checksum of the authenticated and the plain bytes as the tag.
\<close>

definition xor_all :: "bytes \<Rightarrow> u8" where
  "xor_all bs = foldr (XOR) bs 0"

definition pad_evp :: evp where
  "pad_evp = \<lparr>evp_ctx_new = True, evp_init = True, evp_set_ivlen = (\<lambda>_. True),
     evp_set_key = (\<lambda>_ _. True), evp_set_aad = (\<lambda>_ _ _. True),
     evp_encrypt_update = (\<lambda>key nonce _ pt. Some (map ((XOR) (xor_all (key @ nonce))) pt)),
     evp_encrypt_final = (\<lambda>_ _ _ _. Some []),
     evp_get_tag = (\<lambda>key nonce aad pt n. Some (replicate n (xor_all (key @ nonce @ aad @ pt)))),
     evp_decrypt_update = (\<lambda>key nonce _ ct. Some (map ((XOR) (xor_all (key @ nonce))) ct)),
     evp_set_tag = (\<lambda>_. True),
     evp_decrypt_final = (\<lambda>key nonce aad ct tag.
       if tag = replicate (length tag)
            (xor_all (key @ nonce @ aad @ map ((XOR) (xor_all (key @ nonce))) ct))
       then Some [] else None)\<rparr>"

lemma pad_twice [simp]: "map ((XOR) k) (map ((XOR) k) xs) = (xs :: bytes)"
  by (induction xs) (simp_all flip: xor.assoc)

lemma pad_evp_gcm: "evp_gcm pad_evp"
  by (simp add: evp_gcm_def evp_ready_def evp_seals_def evp_opens_def pad_evp_def del: map_map)

end
