(* ===== verification/Cipher_Manager.thy ===== *)
theory Cipher_Manager
  imports Aead_Cipher
begin

text \<open>
  \<^verbatim>\<open>src/dave/cipher_manager.hpp\<close>: one cipher per key generation, the window of nonces that
  were not seen yet, and the expiry of old ciphers. The clock is an argument: one reading per
  call. The last sections state what the nonce window promises, as the interface
  \<open>replay_window\<close> and as a refinement of a specification with the set of nonces seen.
\<close>

definition compute_wrapped_generation :: "u32 \<Rightarrow> u32 \<Rightarrow> u32" where
  "compute_wrapped_generation oldest generation =
     (let remainder = oldest mod of_nat GENERATION_WRAP;
          factor = oldest div of_nat GENERATION_WRAP + (if generation < remainder then 1 else 0)
      in factor * of_nat GENERATION_WRAP + generation)"

text \<open>A \<^verbatim>\<open>big_nonce\<close>, below 2^56; as a number.\<close>

definition compute_wrapped_big_nonce :: "u32 \<Rightarrow> u32 \<Rightarrow> nat" where
  "compute_wrapped_big_nonce generation nonce =
     unat (push_bit RATCHET_GENERATION_SHIFT_BITS (ucast generation :: u64)
           OR ucast (nonce AND (push_bit RATCHET_GENERATION_SHIFT_BITS 1 - 1)))"

record cipher_entry =
  ce_cipher :: aead_cipher
  ce_expiry :: int

record 'h cipher_manager =
  cm_ratchet :: "'h key_ratchet"
  cm_ciphers :: "u32 \<rightharpoonup> cipher_entry"
  cm_missing_nonces :: "nat list"
  cm_newest_processed_nonce :: "nat option"
  cm_oldest_generation :: u32
  cm_newest_generation :: u32
  cm_creation_time :: int
  cm_expiry_time :: int

definition CipherManager :: "'h key_ratchet \<Rightarrow> int \<Rightarrow> 'h cipher_manager" where
  "CipherManager ratchet now =
     \<lparr>cm_ratchet = ratchet, cm_ciphers = Map.empty, cm_missing_nonces = [],
      cm_newest_processed_nonce = None, cm_oldest_generation = 0, cm_newest_generation = 0,
      cm_creation_time = now, cm_expiry_time = TIME_MAX\<rparr>"

definition can_process_nonce :: "'h cipher_manager \<Rightarrow> u32 \<Rightarrow> u32 \<Rightarrow> bool" where
  "can_process_nonce m generation nonce =
     (case cm_newest_processed_nonce m of
        None \<Rightarrow> True
      | Some newest \<Rightarrow>
          (let wrapped = compute_wrapped_big_nonce generation nonce
           in if wrapped > newest then True
              else list_ex (\<lambda>n. n = wrapped) (rev (cm_missing_nonces m))))"

definition track_nonce :: "nat \<Rightarrow> 'h cipher_manager \<Rightarrow> 'h cipher_manager" where
  "track_nonce wrapped m =
     (case cm_newest_processed_nonce m of
        None \<Rightarrow> m\<lparr>cm_newest_processed_nonce := Some wrapped\<rparr>
      | Some newest \<Rightarrow>
          if wrapped > newest then
            (let oldest_missing =
                   (if wrapped > MAX_MISSING_NONCES then wrapped - MAX_MISSING_NONCES else 0);
                 trimmed = dropWhile (\<lambda>n. n < oldest_missing) (cm_missing_nonces m);
                 range_start = max oldest_missing (newest + 1)
             in m\<lparr>cm_missing_nonces := trimmed @ [range_start..<wrapped],
                  cm_newest_processed_nonce := Some wrapped\<rparr>)
          else m\<lparr>cm_missing_nonces := remove1 wrapped (cm_missing_nonces m)\<rparr>)"

definition track_generation :: "u32 \<Rightarrow> int \<Rightarrow> 'h cipher_manager \<Rightarrow> 'h cipher_manager" where
  "track_generation generation now m =
     (if generation > cm_newest_generation m then
        m\<lparr>cm_newest_generation := generation,
          cm_ciphers := (\<lambda>gen. map_option
             (\<lambda>e. if gen < generation \<and> ce_expiry e = TIME_MAX
                  then e\<lparr>ce_expiry := now + CIPHER_EXPIRY\<rparr> else e) (cm_ciphers m gen))\<rparr>
      else m)"

definition report_cipher_success ::
    "u32 \<Rightarrow> u32 \<Rightarrow> int \<Rightarrow> 'h cipher_manager \<Rightarrow> 'h cipher_manager" where
  "report_cipher_success generation nonce now m =
     track_generation generation now (track_nonce (compute_wrapped_big_nonce generation nonce) m)"

text \<open>
  \<^verbatim>\<open>cleanup_expired_ciphers\<close>: drop expired ciphers, then delete the ratchet's keys below the
  oldest generation that still has one. The ratchet takes the generation as \<^verbatim>\<open>uint8_t\<close>.
\<close>

definition drop_expired :: "int \<Rightarrow> (u32 \<rightharpoonup> cipher_entry) \<Rightarrow> (u32 \<rightharpoonup> cipher_entry)" where
  "drop_expired now ciphers =
     (\<lambda>gen. case ciphers gen of Some e \<Rightarrow> if ce_expiry e < now then None else Some e | None \<Rightarrow> None)"

lemma unat_Suc_less:
  assumes "a < (b :: u32)"
  shows "unat (a + 1) = Suc (unat a)"
proof -
  have "unat a < unat b" using assms by (simp add: word_less_nat_alt)
  with unat_u32 [of b] have "Suc (unat a) < 2 ^ 32" by simp
  then show ?thesis by (simp add: unat_word_ariths)
qed

function delete_old_keys :: "'h mls_ratchet \<Rightarrow> 'h cipher_manager \<Rightarrow> 'h cipher_manager" where
  "delete_old_keys mls m =
     (if cm_oldest_generation m < cm_newest_generation m
         \<and> cm_ciphers m (cm_oldest_generation m) = None
      then delete_old_keys mls
             (m\<lparr>cm_ratchet := delete_key mls (cm_ratchet m) (ucast (cm_oldest_generation m)),
                cm_oldest_generation := cm_oldest_generation m + 1\<rparr>)
      else m)"
  by pat_completeness auto

termination delete_old_keys
  by (relation "measure (\<lambda>(_, m). unat (cm_newest_generation m) - unat (cm_oldest_generation m))")
    (auto simp: unat_Suc_less word_less_nat_alt)

declare delete_old_keys.simps [simp del]

definition cleanup_expired_ciphers :: "'h mls_ratchet \<Rightarrow> int \<Rightarrow> 'h cipher_manager \<Rightarrow> 'h cipher_manager" where
  "cleanup_expired_ciphers mls now m =
     delete_old_keys mls (m\<lparr>cm_ciphers := drop_expired now (cm_ciphers m)\<rparr>)"

text \<open>The generations the ratchet can have reached in its lifetime, at most 170 frames a second.\<close>

definition max_generation :: "int \<Rightarrow> 'h cipher_manager \<Rightarrow> u32" where
  "max_generation now m =
     of_int (drop_bit RATCHET_GENERATION_SHIFT_BITS
       (MAX_FRAMES_PER_SECOND * ((now - cm_creation_time m) div 1000000000)))"

definition get_cipher ::
    "evp \<Rightarrow> 'h mls_ratchet \<Rightarrow> u32 \<Rightarrow> int \<Rightarrow> 'h cipher_manager \<Rightarrow> 'h cipher_manager \<times> aead_cipher option" where
  "get_cipher evp mls generation now m0 =
     (let m = cleanup_expired_ciphers mls now m0 in
      if generation < cm_oldest_generation m then (m, None)
      else if generation > cm_newest_generation m + of_nat MAX_GENERATION_GAP then (m, None)
      else if generation > max_generation now m then (m, None)
      else (case cm_ciphers m generation of
              Some e \<Rightarrow> (m, Some (ce_cipher e))
            | None \<Rightarrow>
                (let (ratchet, key) = get_key mls (cm_ratchet m) (ucast generation);
                     m1 = m\<lparr>cm_ratchet := ratchet\<rparr>
                 in if key = [] then (m1, None)
                    else (let expiry = (if generation < cm_newest_generation m
                                        then now + CIPHER_EXPIRY else TIME_MAX);
                              entry = \<lparr>ce_cipher = AeadCipher evp key, ce_expiry = expiry\<rparr>
                          in (m1\<lparr>cm_ciphers := (cm_ciphers m1)(generation \<mapsto> entry)\<rparr>,
                              Some (AeadCipher evp key))))))"

definition cm_compute_wrapped_generation :: "'h cipher_manager \<Rightarrow> u32 \<Rightarrow> u32" where
  "cm_compute_wrapped_generation m generation =
     compute_wrapped_generation (cm_oldest_generation m) generation"

definition update_expiry :: "int \<Rightarrow> 'h cipher_manager \<Rightarrow> 'h cipher_manager" where
  "update_expiry expiry m = m\<lparr>cm_expiry_time := min (cm_expiry_time m) expiry\<rparr>"

definition is_expired :: "int \<Rightarrow> 'h cipher_manager \<Rightarrow> bool" where
  "is_expired now m = (cm_expiry_time m < now)"

section \<open>The nonce window\<close>

lemma unat_masked_nonce: "unat (n AND 0xFFFFFF :: u32) = unat n mod 2 ^ 24"
proof -
  have "n AND 0xFFFFFF = take_bit 24 n"
    by (simp add: take_bit_eq_mask mask_eq_exp_minus_1)
  then show ?thesis
    by (simp add: take_bit_eq_mod unat_mod_distrib)
qed

lemma compute_wrapped_big_nonce_eq:
  "compute_wrapped_big_nonce g n = unat g * 2 ^ 24 + unat n mod 2 ^ 24"
proof -
  let ?g = "push_bit 24 (ucast g :: u64)" and ?n = "ucast (n AND 0xFFFFFF) :: u64"
  have disj: "?g AND ?n = 0"
    by (rule bit_eqI)
      (auto simp: bit_simps bit_consts)
  have g: "unat ?g = unat g * 2 ^ 24"
  proof -
    have "unat g * 2 ^ 24 < 2 ^ 64"
      using unat_u32 [of g] by simp
    then show ?thesis
      by (simp add: push_bit_eq_mult unat_word_ariths)
  qed
  have n: "unat ?n = unat n mod 2 ^ 24"
    by (simp add: unat_masked_nonce)
  have "unat (?g + ?n) = unat ?g + unat ?n"
  proof -
    have "unat g * 2 ^ 24 + unat n mod 2 ^ 24 < 2 ^ 64"
      using unat_u32 [of g] mod_less_divisor [of "2 ^ 24" "unat n"] by simp
    then show ?thesis
      using g n by (simp add: unat_word_ariths)
  qed
  moreover have "?g OR ?n = ?g + ?n"
    using disj by (simp add: disjunctive_add_eq_or)
  ultimately show ?thesis
    using g n by (simp add: compute_wrapped_big_nonce_def dave_consts)
qed

text \<open>
  What a replay window promises: a message that was accepted is rejected from then on. Whether a
  message is acceptable depends on its key only.
\<close>

locale replay_window =
  fixes ok :: "'s \<Rightarrow> 'm \<Rightarrow> bool"
    and accept :: "'s \<Rightarrow> 'm \<Rightarrow> 's"
    and key :: "'m \<Rightarrow> 'k"
    and inv :: "'s \<Rightarrow> bool"
  assumes accept_inv: "inv s \<Longrightarrow> ok s m \<Longrightarrow> inv (accept s m)"
    and accept_rejects: "inv s \<Longrightarrow> ok s m \<Longrightarrow> \<not> ok (accept s m) m"
    and rejects_stay: "inv s \<Longrightarrow> \<not> ok s m \<Longrightarrow> ok s m' \<Longrightarrow> \<not> ok (accept s m') m"
    and key_ok: "key m = key m' \<Longrightarrow> ok s m = ok s m'"
begin

fun run :: "'s \<Rightarrow> 'm list \<Rightarrow> 's \<times> 'm list" where
  "run s [] = (s, [])"
| "run s (m # ms) =
     (if ok s m then (let (s', acc) = run (accept s m) ms in (s', m # acc)) else run s ms)"

lemma run_inv: "inv s \<Longrightarrow> inv (fst (run s ms))"
  by (induction ms arbitrary: s) (auto simp: accept_inv split_beta)

lemma rejected_never_accepted:
  "inv s \<Longrightarrow> \<not> ok s m \<Longrightarrow> key m \<notin> key ` set (snd (run s ms))"
proof (induction ms arbitrary: s)
  case Nil
  then show ?case by simp
next
  case (Cons m' ms)
  show ?case
  proof (cases "ok s m'")
    case True
    then have "key m \<noteq> key m'" using Cons.prems(2) key_ok by metis
    moreover have "key m \<notin> key ` set (snd (run (accept s m') ms))"
      using Cons True by (simp add: accept_inv rejects_stay)
    ultimately show ?thesis
      using True by (simp add: split_beta)
  next
    case False
    with Cons show ?thesis by simp
  qed
qed

lemma accepted_once: "inv s \<Longrightarrow> distinct (map key (snd (run s ms)))"
proof (induction ms arbitrary: s)
  case Nil
  then show ?case by simp
next
  case (Cons m ms)
  show ?case
  proof (cases "ok s m")
    case True
    then have "key m \<notin> key ` set (snd (run (accept s m) ms))"
      using Cons.prems by (simp add: rejected_never_accepted accept_inv accept_rejects)
    with True Cons.IH [of "accept s m"] Cons.prems show ?thesis
      by (simp add: split_beta accept_inv)
  next
    case False
    with Cons show ?thesis by simp
  qed
qed

end

text \<open>The invariant of the window: the missing nonces are in order, below the newest one.\<close>

definition window_inv :: "'h cipher_manager \<Rightarrow> bool" where
  "window_inv m =
     (case cm_newest_processed_nonce m of
        None \<Rightarrow> cm_missing_nonces m = []
      | Some newest \<Rightarrow>
          sorted (cm_missing_nonces m) \<and> distinct (cm_missing_nonces m)
          \<and> (\<forall>n \<in> set (cm_missing_nonces m). n < newest \<and> newest \<le> n + MAX_MISSING_NONCES))"

text \<open>The acceptance test on the wrapped nonce.\<close>

definition window_ok :: "'h cipher_manager \<Rightarrow> nat \<Rightarrow> bool" where
  "window_ok m w = (case cm_newest_processed_nonce m of None \<Rightarrow> True
     | Some newest \<Rightarrow> newest < w \<or> w \<in> set (cm_missing_nonces m))"

lemma can_process_nonce_iff:
  "can_process_nonce m g n = window_ok m (compute_wrapped_big_nonce g n)"
  by (auto simp: can_process_nonce_def window_ok_def Let_def list_ex_iff split: option.split)

lemma track_generation_window [simp]:
  "cm_newest_processed_nonce (track_generation g now m) = cm_newest_processed_nonce m"
  "cm_missing_nonces (track_generation g now m) = cm_missing_nonces m"
  by (simp_all add: track_generation_def)

lemma window_frame:
  assumes "cm_newest_processed_nonce m' = cm_newest_processed_nonce m"
    "cm_missing_nonces m' = cm_missing_nonces m"
  shows "window_inv m' = window_inv m" "window_ok m' w = window_ok m w"
  unfolding window_inv_def window_ok_def assms by simp_all

lemma dropWhile_sorted_filter:
  "sorted xs \<Longrightarrow> dropWhile (\<lambda>n. n < k) xs = filter (\<lambda>n. k \<le> n) (xs :: nat list)"
proof (induction xs)
  case Nil
  then show ?case by simp
next
  case (Cons x xs)
  have "k \<le> x \<Longrightarrow> filter (\<lambda>n. k \<le> n) xs = xs"
    using Cons.prems by (intro filter_True) auto
  with Cons show ?case by auto
qed

lemma oldest_missing_eq:
  "(if w > MAX_MISSING_NONCES then w - MAX_MISSING_NONCES else 0) = w - MAX_MISSING_NONCES"
  by simp

lemma track_nonce_new:
  assumes "window_inv m" "cm_newest_processed_nonce m = Some newest" "newest < w"
  shows "cm_newest_processed_nonce (track_nonce w m) = Some w"
    "cm_missing_nonces (track_nonce w m) =
       filter (\<lambda>n. w - MAX_MISSING_NONCES \<le> n) (cm_missing_nonces m)
       @ [max (w - MAX_MISSING_NONCES) (newest + 1)..<w]"
  using assms
  by (simp_all add: track_nonce_def oldest_missing_eq Let_def dropWhile_sorted_filter window_inv_def
      del: dropWhile_eq_Nil_conv)

lemma track_nonce_inv: "window_inv m \<Longrightarrow> window_ok m w \<Longrightarrow> window_inv (track_nonce w m)"
proof (cases "cm_newest_processed_nonce m")
  case None
  assume "window_inv m"
  with None show ?thesis by (simp add: window_inv_def track_nonce_def)
next
  case (Some newest)
  assume inv: "window_inv m" and "window_ok m w"
  show ?thesis
  proof (cases "newest < w")
    case True
    note eq = track_nonce_new [OF inv Some True]
    show ?thesis
      unfolding window_inv_def eq using inv Some True
      by (force simp: window_inv_def sorted_append sorted_wrt_filter)
  next
    case False
    with inv Some show ?thesis
      by (auto simp: window_inv_def track_nonce_def sorted_remove1 dest: subsetD [OF set_remove1_subset])
  qed
qed

lemma track_nonce_rejects: "window_inv m \<Longrightarrow> window_ok m w \<Longrightarrow> \<not> window_ok (track_nonce w m) w"
proof (cases "cm_newest_processed_nonce m")
  case None
  assume "window_inv m"
  with None show ?thesis by (simp add: window_inv_def window_ok_def track_nonce_def)
next
  case (Some newest)
  assume inv: "window_inv m" and "window_ok m w"
  show ?thesis
  proof (cases "newest < w")
    case True
    note eq = track_nonce_new [OF inv Some True]
    show ?thesis
      unfolding window_ok_def eq using inv Some True by (auto simp: window_inv_def)
  next
    case False
    with inv Some show ?thesis
      by (auto simp: window_inv_def window_ok_def track_nonce_def)
  qed
qed

lemma track_nonce_stays:
  assumes "window_inv m" "\<not> window_ok m w" "window_ok m w'"
  shows "\<not> window_ok (track_nonce w' m) w"
proof -
  obtain newest where Some: "cm_newest_processed_nonce m = Some newest"
    using assms(2) by (auto simp: window_ok_def split: option.splits)
  show ?thesis
  proof (cases "newest < w'")
    case True
    note eq = track_nonce_new [OF assms(1) Some True]
    show ?thesis
      unfolding window_ok_def eq using assms Some True by (auto simp: window_ok_def)
  next
    case False
    with assms Some show ?thesis
      by (auto simp: window_ok_def track_nonce_def dest: subsetD [OF set_remove1_subset])
  qed
qed

lemma report_window:
  "window_inv (report_cipher_success g n now m) = window_inv (track_nonce (compute_wrapped_big_nonce g n) m)"
  "window_ok (report_cipher_success g n now m) w = window_ok (track_nonce (compute_wrapped_big_nonce g n) m) w"
  by (rule window_frame; simp add: report_cipher_success_def)+

text \<open>
  The manager's two operations are a replay window for messages that carry a generation, a
  truncated nonce and the time they arrive.
\<close>

interpretation nonces: replay_window
  "\<lambda>m (g, n, now :: int). can_process_nonce m g n"
  "\<lambda>m (g, n, now). report_cipher_success g n now m"
  "\<lambda>(g, n, now). compute_wrapped_big_nonce g n"
  window_inv
  by unfold_locales
    (auto simp: can_process_nonce_iff report_window track_nonce_inv track_nonce_rejects track_nonce_stays)

section \<open>The window against its specification\<close>

text \<open>
  The specification keeps the first nonce, the newest one and the set of all nonces processed. A
  nonce is acceptable when it is newer than the newest, or behind the first one, at most 1000
  behind the newest, and not processed yet.
\<close>

record window_spec =
  ws_first :: nat
  ws_newest :: nat
  ws_seen :: "nat set"

definition spec_accepts :: "window_spec option \<Rightarrow> nat \<Rightarrow> bool" where
  "spec_accepts s w = (case s of None \<Rightarrow> True
     | Some s \<Rightarrow> ws_newest s < w
         \<or> ws_first s < w \<and> ws_newest s \<le> w + MAX_MISSING_NONCES \<and> w \<notin> ws_seen s)"

definition spec_process :: "window_spec option \<Rightarrow> nat \<Rightarrow> window_spec option" where
  "spec_process s w = (case s of None \<Rightarrow> Some \<lparr>ws_first = w, ws_newest = w, ws_seen = {w}\<rparr>
     | Some s \<Rightarrow> Some \<lparr>ws_first = ws_first s, ws_newest = max (ws_newest s) w,
                       ws_seen = insert w (ws_seen s)\<rparr>)"

definition window_refines :: "'h cipher_manager \<Rightarrow> window_spec option \<Rightarrow> bool" where
  "window_refines m s = (window_inv m \<and> (case s of
       None \<Rightarrow> cm_newest_processed_nonce m = None
     | Some s \<Rightarrow> cm_newest_processed_nonce m = Some (ws_newest s)
         \<and> set (cm_missing_nonces m) = {k. ws_first s < k \<and> k < ws_newest s
             \<and> ws_newest s \<le> k + MAX_MISSING_NONCES \<and> k \<notin> ws_seen s}
         \<and> ws_first s \<le> ws_newest s \<and> ws_newest s \<in> ws_seen s \<and> (\<forall>k \<in> ws_seen s. k \<le> ws_newest s)))"

lemma window_refines_accepts:
  assumes "window_refines m s"
  shows "window_ok m w = spec_accepts s w"
  using assms
  by (auto simp: window_refines_def window_ok_def spec_accepts_def le_less split: option.splits)

lemma window_refinesD:
  assumes "window_refines m (Some s)"
  shows "window_inv m" "cm_newest_processed_nonce m = Some (ws_newest s)"
    "k \<in> set (cm_missing_nonces m) \<longleftrightarrow>
       ws_first s < k \<and> k < ws_newest s \<and> ws_newest s \<le> k + MAX_MISSING_NONCES \<and> k \<notin> ws_seen s"
    "ws_first s \<le> ws_newest s" "ws_newest s \<in> ws_seen s" "k \<in> ws_seen s \<Longrightarrow> k \<le> ws_newest s"
  using assms by (auto simp: window_refines_def)

lemma window_refines_new:
  assumes r: "window_refines m (Some s)" and new: "ws_newest s < w"
  shows "window_refines (track_nonce w m) (spec_process (Some s) w)"
proof -
  note D = window_refinesD [OF r]
  note eq = track_nonce_new [OF D(1,2) new]
  have inv: "window_inv (track_nonce w m)"
    using D(1) by (rule track_nonce_inv) (simp add: window_ok_def D(2) new)
  have mem: "k \<in> set (cm_missing_nonces (track_nonce w m)) \<longleftrightarrow>
      ws_first s < k \<and> k < w \<and> w \<le> k + MAX_MISSING_NONCES \<and> k \<noteq> w \<and> k \<notin> ws_seen s" for k
    using D(3) [of k] D(4,5) D(6) [of k] new unfolding eq by (cases "k = ws_newest s") auto
  show ?thesis
    unfolding window_refines_def spec_process_def
    using inv eq(1) new D(4) by (auto simp: mem dest: D(6))
qed

lemma window_refines_old:
  assumes r: "window_refines m (Some s)" and old: "\<not> ws_newest s < w" and ok: "window_ok m w"
  shows "window_refines (track_nonce w m) (spec_process (Some s) w)"
proof -
  note D = window_refinesD [OF r]
  have inv: "window_inv (track_nonce w m)"
    using D(1) ok by (rule track_nonce_inv)
  have "distinct (cm_missing_nonces m)"
    using D(1,2) by (simp add: window_inv_def)
  then have mem: "k \<in> set (cm_missing_nonces (track_nonce w m)) \<longleftrightarrow>
      k \<noteq> w \<and> k \<in> set (cm_missing_nonces m)" for k
    using old D(2) by (auto simp: track_nonce_def)
  have nw: "cm_newest_processed_nonce (track_nonce w m) = Some (ws_newest s)"
    using old D(2) by (simp add: track_nonce_def)
  have set: "set (cm_missing_nonces (track_nonce w m)) = {k. ws_first s < k \<and> k < ws_newest s
      \<and> ws_newest s \<le> k + MAX_MISSING_NONCES \<and> k \<notin> insert w (ws_seen s)}"
    by (auto simp: mem D(3))
  have mx: "max (ws_newest s) w = ws_newest s"
    using old by simp
  show ?thesis
    using inv old D(4,5) by (simp add: window_refines_def spec_process_def nw set mx) (blast dest: D(6))
qed

lemma window_refines_process:
  assumes "window_refines m s" "window_ok m w"
  shows "window_refines (track_nonce w m) (spec_process s w)"
proof (cases s)
  case None
  with assms show ?thesis
    by (auto simp: window_refines_def spec_process_def track_nonce_def window_inv_def)
next
  case (Some s')
  with assms window_refines_new window_refines_old show ?thesis by blast
qed

lemma window_refines_report:
  assumes "window_refines m s" "can_process_nonce m g n"
  shows "window_refines (report_cipher_success g n now m) (spec_process s (compute_wrapped_big_nonce g n))"
proof -
  let ?w = "compute_wrapped_big_nonce g n"
  have "window_refines (track_nonce ?w m) (spec_process s ?w)"
    using assms by (intro window_refines_process) (simp_all add: can_process_nonce_iff)
  moreover have "cm_newest_processed_nonce (report_cipher_success g n now m) = cm_newest_processed_nonce (track_nonce ?w m)"
    "cm_missing_nonces (report_cipher_success g n now m) = cm_missing_nonces (track_nonce ?w m)"
    by (simp_all add: report_cipher_success_def)
  ultimately show ?thesis
    unfolding window_refines_def report_window by (simp cong: option.case_cong)
qed

lemma window_refines_run:
  "window_refines m s \<Longrightarrow>
   window_refines (fst (nonces.run m msgs))
     (foldl spec_process s (map (\<lambda>(g, n, now). compute_wrapped_big_nonce g n) (snd (nonces.run m msgs))))"
proof (induction msgs arbitrary: m s)
  case Nil
  then show ?case by simp
next
  case (Cons msg msgs)
  obtain g n now where msg: "msg = (g, n, now)" by (cases msg)
  show ?case
  proof (cases "can_process_nonce m g n")
    case True
    obtain m' acc where r: "nonces.run (report_cipher_success g n now m) msgs = (m', acc)" by force
    from Cons.IH [OF window_refines_report [OF Cons.prems True, of now]] show ?thesis
      using True by (simp add: msg r)
  next
    case False
    with Cons show ?thesis by (simp add: msg)
  qed
qed

section \<open>Keys\<close>

text \<open>
  OpenSSL reads sixteen key bytes. A manager is well-keyed when every key it holds or can get is
  empty (then no cipher is made) or at least that long.
\<close>

definition mls_keys_ok :: "'h mls_ratchet \<Rightarrow> bool" where
  "mls_keys_ok mls \<longleftrightarrow> (\<forall>h g h' key. hr_get mls h g = Some (h', key) \<longrightarrow> key = [] \<or> 16 \<le> length key)"

fun ratchet_ok :: "'h key_ratchet \<Rightarrow> bool" where
  "ratchet_ok (MlsKeyRatchet h) = True"
| "ratchet_ok (SimpleKeyRatchet key) = (key = [] \<or> 16 \<le> length key)"

definition manager_ok :: "'h cipher_manager \<Rightarrow> bool" where
  "manager_ok m \<longleftrightarrow> ratchet_ok (cm_ratchet m)
     \<and> (\<forall>g e. cm_ciphers m g = Some e \<longrightarrow> 16 \<le> length (ac_key (ce_cipher e)))"

lemma get_key_ok:
  assumes "mls_keys_ok mls" "ratchet_ok r" "get_key mls r g = (r', key)"
  shows "ratchet_ok r' \<and> (key = [] \<or> 16 \<le> length key)"
  using assms by (cases r) (auto simp: mls_keys_ok_def split: option.splits prod.splits)

lemma delete_key_ok: "ratchet_ok r \<Longrightarrow> ratchet_ok (delete_key mls r g)"
  by (cases r) auto

text \<open>What the cleanup leaves unchanged.\<close>

lemma delete_old_keys_frame:
  "cm_ciphers (delete_old_keys mls m) = cm_ciphers m
   \<and> cm_newest_processed_nonce (delete_old_keys mls m) = cm_newest_processed_nonce m
   \<and> cm_missing_nonces (delete_old_keys mls m) = cm_missing_nonces m
   \<and> cm_newest_generation (delete_old_keys mls m) = cm_newest_generation m
   \<and> cm_creation_time (delete_old_keys mls m) = cm_creation_time m
   \<and> (ratchet_ok (cm_ratchet m) \<longrightarrow> ratchet_ok (cm_ratchet (delete_old_keys mls m)))"
proof (induction mls m rule: delete_old_keys.induct)
  case (1 mls m)
  then show ?case
    by (subst (1 2 3 4 5 6) delete_old_keys.simps) (auto simp: delete_key_ok)
qed

lemma cleanup_frame:
  "cm_newest_processed_nonce (cleanup_expired_ciphers mls now m) = cm_newest_processed_nonce m"
  "cm_missing_nonces (cleanup_expired_ciphers mls now m) = cm_missing_nonces m"
  by (simp_all add: cleanup_expired_ciphers_def delete_old_keys_frame)

lemma cleanup_ok: "manager_ok m \<Longrightarrow> manager_ok (cleanup_expired_ciphers mls now m)"
  by (auto simp: manager_ok_def cleanup_expired_ciphers_def delete_old_keys_frame drop_expired_def
      split: option.splits if_splits)

lemma get_cipher_window:
  assumes "get_cipher evp mls g now m = (m', c)"
  shows "cm_newest_processed_nonce m' = cm_newest_processed_nonce m"
    "cm_missing_nonces m' = cm_missing_nonces m"
  using assms
  by (auto simp: get_cipher_def Let_def cleanup_frame split: if_splits option.splits prod.splits)

lemma get_cipher_ok:
  assumes "mls_keys_ok mls" "manager_ok m" "get_cipher evp mls g now m = (m', c)"
  shows "manager_ok m'" "\<And>a. c = Some a \<Longrightarrow> 16 \<le> length (ac_key a)"
proof -
  let ?m = "cleanup_expired_ciphers mls now m"
  have ok: "manager_ok ?m" using assms(2) by (rule cleanup_ok)
  obtain r key where k: "get_key mls (cm_ratchet ?m) (ucast g) = (r, key)" by force
  have rk: "ratchet_ok r \<and> (key = [] \<or> 16 \<le> length key)"
    using get_key_ok [OF assms(1) _ k] ok by (simp add: manager_ok_def)
  show "manager_ok m'"
    using assms(3) ok rk k
    by (auto simp: get_cipher_def Let_def manager_ok_def AeadCipher_def split: if_splits option.splits)
  show "\<And>a. c = Some a \<Longrightarrow> 16 \<le> length (ac_key a)"
    using assms(3) ok rk k
    by (auto simp: get_cipher_def Let_def manager_ok_def AeadCipher_def split: if_splits option.splits)
qed

lemma report_ok: "manager_ok m \<Longrightarrow> manager_ok (report_cipher_success g n now m)"
  by (auto simp: manager_ok_def report_cipher_success_def track_generation_def track_nonce_def Let_def
      split: option.splits)

end
