(* ===== verification/Encryptor.thy ===== *)
theory Encryptor
  imports Codec_Bodies Cipher_Manager
begin

text \<open>
  \<^verbatim>\<open>src/dave/encryptor.cpp\<close>. \<open>encrypt\<close> returns the encryptor and the output buffer with
  an error or the number of bytes written; \<^term>\<open>None\<close> is an access outside a buffer (or,
  through the AV1 loop, not returning).
\<close>

record 'h encryptor =
  en_passthrough_mode :: bool
  en_ratchet :: "'h key_ratchet option"
  en_cryptor :: "aead_cipher option"
  en_current_key_generation :: u8
  en_truncated_nonce :: u32
  en_ssrc_codec_map :: "u32 \<rightharpoonup> codec"
  en_frame_processor :: outbound
  en_temp_cipher_output :: bytes
  en_current_protocol_version :: u16

definition encryptor_init :: "'h encryptor" where
  "encryptor_init = \<lparr>en_passthrough_mode = True, en_ratchet = None, en_cryptor = None,
     en_current_key_generation = 0, en_truncated_nonce = 0, en_ssrc_codec_map = Map.empty,
     en_frame_processor = outbound_init, en_temp_cipher_output = [],
     en_current_protocol_version = max_protocol_version\<rparr>"

definition set_key_ratchet :: "'h key_ratchet option \<Rightarrow> 'h encryptor \<Rightarrow> 'h encryptor" where
  "set_key_ratchet ratchet e = e\<lparr>en_ratchet := ratchet, en_cryptor := None,
     en_current_key_generation := 0, en_truncated_nonce := 0\<rparr>"

definition set_key_ratchet_bytes :: "bytes \<Rightarrow> 'h encryptor \<Rightarrow> 'h encryptor" where
  "set_key_ratchet_bytes key e = e\<lparr>en_ratchet := Some (SimpleKeyRatchet key), en_cryptor := None,
     en_current_key_generation := 0, en_truncated_nonce := 0\<rparr>"

definition set_passthrough_mode :: "bool \<Rightarrow> 'h encryptor \<Rightarrow> 'h encryptor" where
  "set_passthrough_mode passthrough_mode e = e\<lparr>en_passthrough_mode := passthrough_mode,
     en_current_protocol_version := (if passthrough_mode then 0 else max_protocol_version)\<rparr>"

definition has_key_ratchet :: "'h encryptor \<Rightarrow> bool" where
  "has_key_ratchet e = (en_ratchet e \<noteq> None)"

definition assign_ssrc_to_codec :: "u32 \<Rightarrow> codec \<Rightarrow> 'h encryptor \<Rightarrow> 'h encryptor" where
  "assign_ssrc_to_codec ssrc c e = e\<lparr>en_ssrc_codec_map := (en_ssrc_codec_map e)(ssrc \<mapsto> c)\<rparr>"

definition codec_for_ssrc :: "'h encryptor \<Rightarrow> u32 \<Rightarrow> codec" where
  "codec_for_ssrc e ssrc = (case en_ssrc_codec_map e ssrc of Some c \<Rightarrow> c | None \<Rightarrow> Opus)"

text \<open>The key rotation check.\<close>

definition rotate_key ::
    "evp \<Rightarrow> 'h mls_ratchet \<Rightarrow> 'h key_ratchet \<Rightarrow> u8 \<Rightarrow> 'h encryptor \<Rightarrow> 'h encryptor \<times> aead_cipher option" where
  "rotate_key evp mls ratchet generation e =
     (if en_cryptor e = None \<or> generation \<noteq> en_current_key_generation e then
        (let (r, key) = get_key mls ratchet generation;
             e1 = e\<lparr>en_ratchet := Some r\<rparr>
         in if key = [] then (e1, None)
            else (e1\<lparr>en_cryptor := Some (AeadCipher evp key),
                     en_current_key_generation := generation\<rparr>,
                  Some (AeadCipher evp key)))
      else (e, en_cryptor e))"

text \<open>The twelve byte nonce: the truncated nonce in its last four bytes.\<close>

definition nonce_buffer :: "u32 \<Rightarrow> bytes option" where
  "nonce_buffer nonce =
     write_value_at (replicate AES_GCM_128_NONCE_BYTES 0) AES_GCM_128_TRUNCATED_SYNC_NONCE_OFFSET nonce"

text \<open>What follows the body: tag, nonce, ranges, size and marker.\<close>

definition append_supplemental ::
    "range list \<Rightarrow> bytes \<Rightarrow> u32 \<Rightarrow> nat \<Rightarrow> bytes \<Rightarrow> (bytes \<times> nat) option" where
  "append_supplemental ranges tag nonce body_size out = do {
     out1 \<leftarrow> store out body_size tag;
     let w1 = body_size + AES_GCM_128_TRUNCATED_TAG_BYTES;
     (out2, n) \<leftarrow> write_leb128 (ucast nonce) out1 w1;
     let w2 = w1 + n;
     (out3, k) \<leftarrow> serialize_unencrypted_ranges ranges out2 w2 (size_sub (length out2) w2);
     let w3 = w2 + unat k;
     let size_val = (of_nat (w3 - body_size + 1 + 2) :: u8);
     out4 \<leftarrow> write_value_at out3 w3 size_val;
     out5 \<leftarrow> write_value_at out4 (w3 + 1) MARKER_BYTES;
     Some (out5, w3 + 1 + 2)
   }"

definition encrypt_with ::
    "evp \<Rightarrow> aead_cipher \<Rightarrow> bytes \<Rightarrow> 'h encryptor \<Rightarrow> ('h encryptor \<times> bytes \<times> (dave_error + nat)) option" where
  "encrypt_with evp c out e = do {
     let fp = en_frame_processor e;
     let encrypted_bytes = ob_encrypted_bytes fp;
     nonce \<leftarrow> nonce_buffer (en_truncated_nonce e);
     let temp0 = resize_bytes (en_temp_cipher_output e)
                   (length encrypted_bytes + AES_GCM_128_TRUNCATED_TAG_BYTES);
     (temp, res) \<leftarrow> aead_encrypt evp c encrypted_bytes (ob_unencrypted_bytes fp) nonce temp0;
     let e1 = e\<lparr>en_temp_cipher_output := temp\<rparr>;
     (case res of
        Inl _ \<Rightarrow> Some (e1, out, Inl EncryptionFailed)
      | Inr _ \<Rightarrow> do {
          cipher_src \<leftarrow> subspan temp 0 (length encrypted_bytes);
          ct \<leftarrow> store (ob_ciphertext_bytes fp) 0 cipher_src;
          tag \<leftarrow> subspan temp (length encrypted_bytes) AES_GCM_128_TRUNCATED_TAG_BYTES;
          let fp1 = fp\<lparr>ob_ciphertext_bytes := ct\<rparr>;
          let e2 = e1\<lparr>en_frame_processor := fp1\<rparr>;
          (out1, body_size) \<leftarrow> outbound_reconstruct_frame fp1 out;
          if body_size = 0 then Some (e2, out1, Inl EncryptionFailed)
          else do {
            (out2, written) \<leftarrow> append_supplemental (ob_unencrypted_ranges fp1) tag
                                 (en_truncated_nonce e) body_size out1;
            Some (e2, out2, Inr written)
          }
        })
   }"

definition encrypt ::
    "evp \<Rightarrow> 'h mls_ratchet \<Rightarrow> media_type \<Rightarrow> u32 \<Rightarrow> bytes \<Rightarrow> bytes \<Rightarrow> 'h encryptor
     \<Rightarrow> ('h encryptor \<times> bytes \<times> (dave_error + nat)) option" where
  "encrypt evp mls media_type ssrc frame out e =
     (if en_passthrough_mode e then do {
        out1 \<leftarrow> store out 0 frame;
        Some (e, out1, Inr (length frame))
      } else (case en_ratchet e of
        None \<Rightarrow> Some (e, out, Inl RatchetNotReady)
      | Some ratchet \<Rightarrow> do {
          fp \<leftarrow> process_frame (en_frame_processor e) frame (codec_for_ssrc e ssrc);
          let nonce = en_truncated_nonce e + 1;
          let generation = (ucast (drop_bit RATCHET_GENERATION_SHIFT_BITS nonce) :: u8);
          let e1 = e\<lparr>en_frame_processor := fp, en_truncated_nonce := nonce\<rparr>;
          (case rotate_key evp mls ratchet generation e1 of
             (e2, None) \<Rightarrow> Some (e2, out, Inl InvalidGeneration)
           | (e2, Some c) \<Rightarrow> encrypt_with evp c out e2)
        }))"

definition get_max_ciphertext_byte_size :: "media_type \<Rightarrow> nat \<Rightarrow> nat" where
  "get_max_ciphertext_byte_size media_type frame_size =
     frame_size + SUPPLEMENTAL_BYTES + TRANSFORM_PADDING_BYTES"

section \<open>The output is laid out as the parser expects\<close>

lemma nonce_buffer_eq: "nonce_buffer n = Some (replicate 8 0 @ le_bytes n)"
  by (simp add: nonce_buffer_def write_value_at_def store_def dave_consts)

lemma length_ranges_bytes_small: "supplemental_size rs nonce \<le> 255 \<Longrightarrow> length (ranges_bytes rs) < 256"
  by (simp add: supplemental_size_def)

lemma serialize_eq:
  assumes "take n buffer = pre" "n + length (ranges_bytes rs) \<le> length buffer" "length (ranges_bytes rs) < 256"
  obtains buffer' where
    "serialize_unencrypted_ranges rs buffer n (length buffer - n)
       = Some (buffer', of_nat (length (ranges_bytes rs)))"
    "length buffer' = length buffer" "take (n + length (ranges_bytes rs)) buffer' = pre @ ranges_bytes rs"
  using assms serialize_loop_eq [of n rs "length buffer" buffer]
  by (auto simp: serialize_unencrypted_ranges_def)

lemma append_supplemental_eq:
  assumes "length tag = 8" "supplemental_size rs nonce \<le> 255"
    and body: "take n out = body" "n + supplemental_size rs nonce \<le> length out"
  shows "\<exists>out'. append_supplemental rs tag nonce n out = Some (out', n + supplemental_size rs nonce)
     \<and> length out' = length out
     \<and> take (n + supplemental_size rs nonce) out' = body @ supplemental_bytes rs tag nonce"
proof -
  let ?l = "leb128_bytes (ucast nonce)" and ?r = "ranges_bytes rs"
  let ?sup = "supplemental_size rs nonce"
  have sup: "?sup = 8 + length ?l + length ?r + 3"
    by (simp add: supplemental_size_def)
  obtain o1 where o1: "store out n tag = Some o1" "length o1 = length out" "take (n + 8) o1 = body @ tag"
    using store_append [OF body(1), of tag] assms sup by auto
  obtain o2 where o2: "store o1 (n + 8) ?l = Some o2" "length o2 = length out"
    "take (n + 8 + length ?l) o2 = (body @ tag) @ ?l"
    using store_append [OF o1(3), of ?l] assms sup o1(2) by auto
  obtain o3 where o3: "serialize_unencrypted_ranges rs o2 (n + 8 + length ?l) (length o2 - (n + 8 + length ?l))
       = Some (o3, of_nat (length ?r))" "length o3 = length out"
    "take (n + 8 + length ?l + length ?r) o3 = ((body @ tag) @ ?l) @ ?r"
    using serialize_eq [OF o2(3), of rs] assms sup o2(2) by auto
  let ?w3 = "n + 8 + length ?l + length ?r"
  obtain o4 where o4: "store o3 ?w3 (le_bytes (of_nat ?sup :: u8)) = Some o4" "length o4 = length out"
    "take (?w3 + 1) o4 = (((body @ tag) @ ?l) @ ?r) @ le_bytes (of_nat ?sup :: u8)"
    using store_append [OF o3(3), of "le_bytes (of_nat ?sup :: u8)"] assms sup o3(2) by auto
  obtain o5 where o5: "store o4 (?w3 + 1) (le_bytes MARKER_BYTES) = Some o5" "length o5 = length out"
    "take (?w3 + 1 + 2) o5 = ((((body @ tag) @ ?l) @ ?r) @ le_bytes (of_nat ?sup :: u8)) @ le_bytes MARKER_BYTES"
    using store_append [OF o4(3), of "le_bytes MARKER_BYTES"] assms sup o4(2) by auto
  have one: "le_bytes (b :: u8) = [b]" for b
    by (simp add: le_bytes_def)
  have k: "unat (of_nat (length ?r) :: u8) = length ?r"
    using assms(2) by (simp add: sup unat_of_nat_u8)
  have "append_supplemental rs tag nonce n out = Some (o5, n + ?sup)"
    using o1(1) o2(1,2) o3(1) o4(1) o5(1) k assms(4)
    by (simp add: append_supplemental_def dave_consts write_leb128_eq leb128_size_length Let_def
        write_value_at_def sup ac_simps)
  moreover have "take (n + ?sup) o5 = body @ supplemental_bytes rs tag nonce"
    using o5(3) by (simp add: supplemental_bytes_def one sup add.commute add.left_commute)
  ultimately show ?thesis
    using o5(2) by blast
qed

text \<open>
  The frame the encryptor produces from the processed frame \<open>fp\<close> under a key and a truncated
  nonce: ciphertext and tag of the secret bytes, with the clear bytes authenticated.
\<close>

definition nonce_bytes :: "u32 \<Rightarrow> bytes" where
  "nonce_bytes nonce = replicate 8 0 @ le_bytes nonce"

lemma length_nonce_bytes: "length (nonce_bytes nonce) = 12"
  by (simp add: nonce_bytes_def)

definition sealed_ct :: "evp \<Rightarrow> bytes \<Rightarrow> u32 \<Rightarrow> outbound \<Rightarrow> bytes" where
  "sealed_ct evp key nonce fp =
     gcm_ct evp (take 16 key) (nonce_bytes nonce) (ob_unencrypted_bytes fp) (ob_encrypted_bytes fp)"

definition sealed_tag :: "evp \<Rightarrow> bytes \<Rightarrow> u32 \<Rightarrow> outbound \<Rightarrow> bytes" where
  "sealed_tag evp key nonce fp =
     gcm_tag evp (take 16 key) (nonce_bytes nonce) (ob_unencrypted_bytes fp) (ob_encrypted_bytes fp)"

definition sealed_frame :: "evp \<Rightarrow> bytes \<Rightarrow> u32 \<Rightarrow> outbound \<Rightarrow> bytes" where
  "sealed_frame evp key nonce fp =
     frame_layout (ob_unencrypted_ranges fp) (ob_unencrypted_bytes fp)
       (sealed_ct evp key nonce fp) (sealed_tag evp key nonce fp) nonce"

definition body_size :: "outbound \<Rightarrow> nat" where
  "body_size fp = length (ob_unencrypted_bytes fp) + length (ob_encrypted_bytes fp)"

definition sealed_size :: "u32 \<Rightarrow> outbound \<Rightarrow> nat" where
  "sealed_size nonce fp = body_size fp + supplemental_size (ob_unencrypted_ranges fp) nonce"

lemma length_sealed:
  assumes "evp_gcm evp"
  shows "length (sealed_ct evp key nonce fp) = length (ob_encrypted_bytes fp)"
    "length (sealed_tag evp key nonce fp) = 8"
  using evp_gcm_seal [OF assms] by (simp_all add: sealed_ct_def sealed_tag_def)

lemma length_sealed_frame:
  assumes "evp_gcm evp" "outbound_inv fp"
  shows "length (sealed_frame evp key nonce fp) = sealed_size nonce fp"
  using assms
  by (simp add: sealed_frame_def frame_layout_def length_weave length_supplemental_bytes length_sealed
      outbound_inv_def sealed_size_def body_size_def)

lemma encrypt_with_eq:
  fixes e :: "'h encryptor"
  assumes evp: "evp_gcm evp" "ac_ctx c" "16 \<le> length (ac_key c)"
    and fp: "fp = en_frame_processor e" "outbound_inv fp"
      "length (ob_ciphertext_bytes fp) = length (ob_encrypted_bytes fp)"
    and nonce: "nonce = en_truncated_nonce e"
    and sizes: "0 < body_size fp" "supplemental_size (ob_unencrypted_ranges fp) nonce \<le> 255"
      "sealed_size nonce fp \<le> length out" "body_size fp < 2 ^ 31"
  shows "\<exists>out' temp. encrypt_with evp c out e =
      Some (e\<lparr>en_temp_cipher_output := temp,
              en_frame_processor := fp\<lparr>ob_ciphertext_bytes := sealed_ct evp (ac_key c) nonce fp\<rparr>\<rparr>,
            out', Inr (sealed_size nonce fp))
      \<and> length out' = length out \<and> take (sealed_size nonce fp) out' = sealed_frame evp (ac_key c) nonce fp"
proof -
  let ?rs = "ob_unencrypted_ranges fp" and ?ub = "ob_unencrypted_bytes fp" and ?eb = "ob_encrypted_bytes fp"
  let ?ct = "sealed_ct evp (ac_key c) nonce fp" and ?tag = "sealed_tag evp (ac_key c) nonce fp"
  note len = length_sealed [OF evp(1), of "ac_key c" nonce fp]
  let ?t0 = "resize_bytes (en_temp_cipher_output e) (length ?eb + 8)"
  have ae: "aead_encrypt evp c ?eb ?ub (nonce_bytes nonce) ?t0 = Some (?ct @ ?tag, Inr (length ?eb + 8))"
    using aead_encrypt_eq [OF evp, of ?t0 ?eb ?ub "nonce_bytes nonce"] sizes(4)
    by (simp add: sealed_ct_def sealed_tag_def body_size_def length_nonce_bytes)
  have inv: "in_order 0 ?rs" "covered ?rs = length ?ub" "gaps 0 ?rs \<le> length ?ct"
    using fp(2) len by (simp_all add: outbound_inv_def)
  have fits: "length ?ub + length ?ct \<le> length out"
    using sizes(3) len by (simp add: sealed_size_def body_size_def)
  obtain o1 where o1: "do_reconstruct ?rs ?ub ?ct out = Some (o1, body_size fp)" "length o1 = length out"
    "take (body_size fp) o1 = weave ?rs ?ub ?ct"
    using do_reconstruct_weave [OF inv fits] len(1) by (auto simp: body_size_def)
  obtain o2 where o2: "append_supplemental ?rs ?tag nonce (body_size fp) o1 = Some (o2, sealed_size nonce fp)"
    "length o2 = length out" "take (sealed_size nonce fp) o2 = sealed_frame evp (ac_key c) nonce fp"
    using append_supplemental_eq [OF len(2) sizes(2) o1(3)] sizes(3) o1(2)
    by (auto simp: sealed_size_def sealed_frame_def frame_layout_def)
  have st: "store (ob_ciphertext_bytes fp) 0 ?ct = Some ?ct"
    using fp(3) len(1) by (simp add: store_def)
  have "outbound_reconstruct_frame (fp\<lparr>ob_ciphertext_bytes := ?ct\<rparr>) out = Some (o1, body_size fp)"
    using o1(1) fits by (simp add: outbound_reconstruct_frame_def)
  with ae st o2 sizes(1) len show ?thesis
    by (simp add: encrypt_with_def nonce_buffer_eq dave_consts Let_def subspan_def
        flip: fp(1) nonce nonce_bytes_def) (rule exI, rule refl)
qed

text \<open>The key the encryptor uses for a generation: the cached cipher's, or the ratchet's.\<close>

definition next_key :: "'h mls_ratchet \<Rightarrow> 'h encryptor \<Rightarrow> bytes" where
  "next_key mls e =
     (let generation = ucast (drop_bit RATCHET_GENERATION_SHIFT_BITS (en_truncated_nonce e + 1)) :: u8
      in case en_cryptor e of
           Some c \<Rightarrow> if generation = en_current_key_generation e then ac_key c
                     else snd (get_key mls (the (en_ratchet e)) generation)
         | None \<Rightarrow> snd (get_key mls (the (en_ratchet e)) generation))"

text \<open>The encryptor after a successful call, up to its scratch buffers.\<close>

definition encryptor_next :: "evp \<Rightarrow> 'h mls_ratchet \<Rightarrow> 'h encryptor \<Rightarrow> 'h encryptor \<Rightarrow> bool" where
  "encryptor_next evp mls e e' =
     (let generation = ucast (drop_bit RATCHET_GENERATION_SHIFT_BITS (en_truncated_nonce e + 1)) :: u8
      in en_truncated_nonce e' = en_truncated_nonce e + 1
         \<and> en_current_key_generation e' = generation
         \<and> (\<exists>c. en_cryptor e' = Some c \<and> ac_ctx c \<and> ac_key c = next_key mls e)
         \<and> en_ratchet e' = (if en_cryptor e = None \<or> generation \<noteq> en_current_key_generation e
              then Some (fst (get_key mls (the (en_ratchet e)) generation)) else en_ratchet e)
         \<and> en_passthrough_mode e' = en_passthrough_mode e
         \<and> en_ssrc_codec_map e' = en_ssrc_codec_map e)"

lemma rotate_key_eq:
  assumes "next_key mls e \<noteq> []" "en_ratchet e = Some r" "evp_ctx_new evp"
    and "\<forall>c. en_cryptor e = Some c \<longrightarrow> ac_ctx c"
    and "generation = ucast (drop_bit RATCHET_GENERATION_SHIFT_BITS (en_truncated_nonce e + 1))"
  shows "\<exists>e2 c. rotate_key evp mls r generation (e\<lparr>en_frame_processor := fp, en_truncated_nonce := en_truncated_nonce e + 1\<rparr>)
       = (e2, Some c) \<and> ac_ctx c \<and> ac_key c = next_key mls e \<and> en_frame_processor e2 = fp
       \<and> encryptor_next evp mls e e2"
  using assms
  by (auto simp: rotate_key_def next_key_def encryptor_next_def AeadCipher_def Let_def
      split: prod.splits option.splits if_splits)

lemma encryptor_next_scratch:
  "encryptor_next evp mls e (e'\<lparr>en_temp_cipher_output := t, en_frame_processor := fp\<rparr>)
   = encryptor_next evp mls e e'"
  by (simp add: encryptor_next_def)

lemma encrypt_eq:
  fixes e :: "'h encryptor"
  assumes evp: "evp_gcm evp"
    and e: "\<not> en_passthrough_mode e" "en_ratchet e = Some r" "\<forall>c. en_cryptor e = Some c \<longrightarrow> ac_ctx c"
    and key: "16 \<le> length (next_key mls e)"
    and fp: "process_frame (en_frame_processor e) frame (codec_for_ssrc e ssrc) = Some fp"
    and nonce: "nonce = en_truncated_nonce e + 1"
    and sizes: "0 < body_size fp" "supplemental_size (ob_unencrypted_ranges fp) nonce \<le> 255"
      "sealed_size nonce fp \<le> length out" "body_size fp < 2 ^ 31"
  shows "\<exists>e' out'. encrypt evp mls mt ssrc frame out e = Some (e', out', Inr (sealed_size nonce fp))
      \<and> encryptor_next evp mls e e' \<and> length out' = length out
      \<and> take (sealed_size nonce fp) out' = sealed_frame evp (next_key mls e) nonce fp"
proof -
  let ?g = "ucast (drop_bit RATCHET_GENERATION_SHIFT_BITS nonce) :: u8"
  have "next_key mls e \<noteq> []" using key by auto
  from rotate_key_eq [OF this e(2) evp_gcm_setup(1) [OF evp] e(3), of ?g fp]
  obtain e2 c where rk: "rotate_key evp mls r ?g (e\<lparr>en_frame_processor := fp, en_truncated_nonce := nonce\<rparr>) = (e2, Some c)"
    "ac_ctx c" "ac_key c = next_key mls e" "en_frame_processor e2 = fp" "encryptor_next evp mls e e2"
    by (auto simp: nonce)
  have n2: "nonce = en_truncated_nonce e2"
    using rk(5) by (simp add: encryptor_next_def Let_def nonce)
  have "\<exists>out' temp. encrypt_with evp c out e2 =
      Some (e2\<lparr>en_temp_cipher_output := temp,
              en_frame_processor := fp\<lparr>ob_ciphertext_bytes := sealed_ct evp (ac_key c) nonce fp\<rparr>\<rparr>,
            out', Inr (sealed_size nonce fp))
      \<and> length out' = length out \<and> take (sealed_size nonce fp) out' = sealed_frame evp (ac_key c) nonce fp"
    using process_frame_inv [OF fp] rk key
    by (intro encrypt_with_eq evp n2 sizes) simp_all
  then obtain out' temp where w: "encrypt_with evp c out e2 =
      Some (e2\<lparr>en_temp_cipher_output := temp,
              en_frame_processor := fp\<lparr>ob_ciphertext_bytes := sealed_ct evp (ac_key c) nonce fp\<rparr>\<rparr>,
            out', Inr (sealed_size nonce fp))" "length out' = length out"
    "take (sealed_size nonce fp) out' = sealed_frame evp (ac_key c) nonce fp" by blast
  have "encrypt evp mls mt ssrc frame out e = encrypt_with evp c out e2"
    using e(1,2) rk(1) by (simp add: encrypt_def fp Let_def flip: nonce)
  with w rk(3,5) show ?thesis
    by (auto simp: encryptor_next_scratch)
qed

end
