(* ===== verification/Decryptor.thy ===== *)
theory Decryptor
  imports Encryptor
begin

text \<open>
  \<^verbatim>\<open>src/dave/decryptor.cpp\<close>. The steady clock is an argument: \<open>now\<close> for every reading
  but the last one of \<open>decrypt\<close>, \<open>end_time\<close>, which only the statistics use. The deque of
  managers has its front at the head of the list, the pool of frame processors its back at the
  end.
\<close>

record decryption_stats =
  ds_passthroughs :: u64
  ds_decrypt_success :: u64
  ds_decrypt_failure :: u64
  ds_decrypt_duration :: u64
  ds_decrypt_attempts :: u64

record 'h decryptor =
  dc_managers :: "'h cipher_manager list"
  dc_frame_processors :: "inbound list"
  dc_temp_combined :: bytes
  dc_allow_passthrough_until :: int
  dc_stats :: "media_type \<Rightarrow> decryption_stats"

definition stats_init :: decryption_stats where
  "stats_init = \<lparr>ds_passthroughs = 0, ds_decrypt_success = 0, ds_decrypt_failure = 0,
     ds_decrypt_duration = 0, ds_decrypt_attempts = 0\<rparr>"

definition decryptor_init :: "'h decryptor" where
  "decryptor_init = \<lparr>dc_managers = [], dc_frame_processors = [], dc_temp_combined = [],
     dc_allow_passthrough_until = TIME_MIN, dc_stats = (\<lambda>_. stats_init)\<rparr>"

definition update_stats ::
    "media_type \<Rightarrow> (decryption_stats \<Rightarrow> decryption_stats) \<Rightarrow> 'h decryptor \<Rightarrow> 'h decryptor" where
  "update_stats t f d = d\<lparr>dc_stats := (dc_stats d)(t := f (dc_stats d t))\<rparr>"

definition update_cryptor_manager_expiry :: "int \<Rightarrow> int \<Rightarrow> 'h decryptor \<Rightarrow> 'h decryptor" where
  "update_cryptor_manager_expiry expiry now d =
     d\<lparr>dc_managers := map (update_expiry (now + expiry * 1000000000)) (dc_managers d)\<rparr>"

definition transition_to_key_ratchet ::
    "'h key_ratchet option \<Rightarrow> int \<Rightarrow> int \<Rightarrow> 'h decryptor \<Rightarrow> 'h decryptor" where
  "transition_to_key_ratchet ratchet transition_expiry now d =
     (let d1 = update_cryptor_manager_expiry transition_expiry now d
      in case ratchet of
           Some r \<Rightarrow> d1\<lparr>dc_managers := dc_managers d1 @ [CipherManager r now]\<rparr>
         | None \<Rightarrow> d1)"

definition transition_to_key_ratchet_bytes ::
    "bytes \<Rightarrow> int \<Rightarrow> int \<Rightarrow> 'h decryptor \<Rightarrow> 'h decryptor" where
  "transition_to_key_ratchet_bytes key transition_expiry now d =
     (let d1 = update_cryptor_manager_expiry transition_expiry now d
      in if key \<noteq> []
         then d1\<lparr>dc_managers := dc_managers d1 @ [CipherManager (SimpleKeyRatchet key) now]\<rparr>
         else d1)"

definition transition_to_passthrough_mode :: "bool \<Rightarrow> int \<Rightarrow> int \<Rightarrow> 'h decryptor \<Rightarrow> 'h decryptor" where
  "transition_to_passthrough_mode passthrough_mode transition_expiry now d =
     (if passthrough_mode then d\<lparr>dc_allow_passthrough_until := TIME_MAX\<rparr>
      else d\<lparr>dc_allow_passthrough_until :=
               min (dc_allow_passthrough_until d) (now + transition_expiry * 1000000000)\<rparr>)"

definition cleanup_expired_managers :: "int \<Rightarrow> 'h decryptor \<Rightarrow> 'h decryptor" where
  "cleanup_expired_managers now d = d\<lparr>dc_managers := dropWhile (is_expired now) (dc_managers d)\<rparr>"

definition get_or_create_frame_processor :: "'h decryptor \<Rightarrow> 'h decryptor \<times> inbound" where
  "get_or_create_frame_processor d =
     (if dc_frame_processors d = [] then (d, inbound_init)
      else (d\<lparr>dc_frame_processors := butlast (dc_frame_processors d)\<rparr>, last (dc_frame_processors d)))"

definition return_frame_processor :: "inbound \<Rightarrow> 'h decryptor \<Rightarrow> 'h decryptor" where
  "return_frame_processor fp d = d\<lparr>dc_frame_processors := dc_frame_processors d @ [fp]\<rparr>"

text \<open>
  \<open>decrypt_impl\<close> returns the manager, the frame processor, the output and the decryptor as it
  leaves them, and the number of bytes written when it succeeds.
\<close>

definition decrypt_impl ::
    "evp \<Rightarrow> 'h mls_ratchet \<Rightarrow> int \<Rightarrow> media_type \<Rightarrow> 'h cipher_manager \<Rightarrow> inbound \<Rightarrow> bytes \<Rightarrow> 'h decryptor
     \<Rightarrow> ('h cipher_manager \<times> inbound \<times> bytes \<times> 'h decryptor \<times> nat option) option" where
  "decrypt_impl evp mls now media_type manager fp frame_out d =
     (if \<not> ib_encrypted fp then Some (manager, fp, frame_out, d, None)
      else (let truncated_nonce = ib_truncated_nonce fp;
                generation = cm_compute_wrapped_generation manager
                               (drop_bit RATCHET_GENERATION_SHIFT_BITS truncated_nonce)
        in if \<not> can_process_nonce manager generation truncated_nonce
           then Some (manager, fp, frame_out, d, None)
           else (case get_cipher evp mls generation now manager of
               (manager1, None) \<Rightarrow> Some (manager1, fp, frame_out, d, None)
             | (manager1, Some cipher) \<Rightarrow> do {
                 nonce \<leftarrow> nonce_buffer truncated_nonce;
                 let size = length (ib_ciphertext fp) + length (ib_tag fp);
                 temp1 \<leftarrow> store (resize_bytes (dc_temp_combined d) size) 0 (ib_ciphertext fp);
                 temp2 \<leftarrow> store temp1 (length (ib_ciphertext fp)) (ib_tag fp);
                 let d1 = update_stats media_type
                            (\<lambda>s. s\<lparr>ds_decrypt_attempts := ds_decrypt_attempts s + 1\<rparr>)
                            (d\<lparr>dc_temp_combined := temp2\<rparr>);
                 (plaintext, result) \<leftarrow>
                   aead_decrypt evp cipher temp2 (ib_authenticated fp) nonce (ib_plaintext fp);
                 let fp1 = fp\<lparr>ib_plaintext := plaintext\<rparr>;
                 (case result of
                    Inl _ \<Rightarrow> Some (manager1, fp1, frame_out, d1, None)
                  | Inr _ \<Rightarrow> do {
                      let manager2 = report_cipher_success generation truncated_nonce now manager1;
                      (out, written) \<leftarrow> inbound_reconstruct_frame fp1 frame_out;
                      Some (manager2, fp1, out, d1, if written = 0 then None else Some written)
                    })
               })))"

text \<open>The loop over the managers, newest first.\<close>

fun try_managers ::
    "evp \<Rightarrow> 'h mls_ratchet \<Rightarrow> int \<Rightarrow> media_type \<Rightarrow> 'h cipher_manager list \<Rightarrow> inbound \<Rightarrow> bytes \<Rightarrow> 'h decryptor
     \<Rightarrow> ('h cipher_manager list \<times> inbound \<times> bytes \<times> 'h decryptor \<times> nat option) option" where
  "try_managers evp mls now t [] fp out d = Some ([], fp, out, d, None)"
| "try_managers evp mls now t (m # ms) fp out d = do {
     (m', fp', out', d', res) \<leftarrow> decrypt_impl evp mls now t m fp out d;
     (case res of
        Some n \<Rightarrow> Some (m' # ms, fp', out', d', Some n)
      | None \<Rightarrow> do {
          (ms', fp'', out'', d'', res') \<leftarrow> try_managers evp mls now t ms fp' out' d';
          Some (m' # ms', fp'', out'', d'', res')
        })
   }"

definition is_silence :: "media_type \<Rightarrow> bytes \<Rightarrow> bool" where
  "is_silence media_type encrypted_frame \<longleftrightarrow>
     media_type = Audio \<and> length encrypted_frame = length OPUS_SILENCE_PACKET
     \<and> encrypted_frame = OPUS_SILENCE_PACKET"

definition decrypt ::
    "evp \<Rightarrow> 'h mls_ratchet \<Rightarrow> int \<Rightarrow> int \<Rightarrow> media_type \<Rightarrow> bytes \<Rightarrow> bytes \<Rightarrow> 'h decryptor
     \<Rightarrow> ('h decryptor \<times> bytes \<times> (errc + nat)) option" where
  "decrypt evp mls now end_time media_type encrypted_frame frame_out d0 =
     (let (d, local_frame) = get_or_create_frame_processor d0 in
      if is_silence media_type encrypted_frame
      then do {
        out \<leftarrow> store frame_out 0 encrypted_frame;
        Some (return_frame_processor local_frame d, out, Inr (length encrypted_frame))
      } else do {
        let d1 = cleanup_expired_managers now d;
        fp \<leftarrow> parse_frame local_frame encrypted_frame;
        let can_passthrough = dc_allow_passthrough_until d1 > now;
        if \<not> ib_encrypted fp \<and> can_passthrough then do {
          out \<leftarrow> store frame_out 0 encrypted_frame;
          Some (return_frame_processor fp
                  (update_stats media_type (\<lambda>s. s\<lparr>ds_passthroughs := ds_passthroughs s + 1\<rparr>) d1),
                out, Inr (length encrypted_frame))
        } else if \<not> ib_encrypted fp then
          Some (return_frame_processor fp
                  (update_stats media_type (\<lambda>s. s\<lparr>ds_decrypt_failure := ds_decrypt_failure s + 1\<rparr>) d1),
                frame_out, Inl bad_message)
        else do {
          (ms, fp', out, d2, res) \<leftarrow>
            try_managers evp mls now media_type (rev (dc_managers d1)) fp frame_out d1;
          let d3 = update_stats media_type
                     (\<lambda>s. s\<lparr>ds_decrypt_duration :=
                             ds_decrypt_duration s + of_int ((end_time - now) div 1000)\<rparr>)
                     (d2\<lparr>dc_managers := rev ms\<rparr>);
          (case res of
             Some n \<Rightarrow>
               Some (return_frame_processor fp'
                       (update_stats media_type
                          (\<lambda>s. s\<lparr>ds_decrypt_success := ds_decrypt_success s + 1\<rparr>) d3),
                     out, Inr n)
           | None \<Rightarrow>
               Some (return_frame_processor fp'
                       (update_stats media_type
                          (\<lambda>s. s\<lparr>ds_decrypt_failure := ds_decrypt_failure s + 1\<rparr>) d3),
                     out, Inl bad_message))
        }
      })"

section \<open>Safety on arbitrary input\<close>

definition decryptor_ok :: "'h decryptor \<Rightarrow> bool" where
  "decryptor_ok d \<longleftrightarrow> (\<forall>m \<in> set (dc_managers d). manager_ok m \<and> window_inv m)"

lemma dc_managers_update_stats [simp]: "dc_managers (update_stats t f d) = dc_managers d"
  by (simp add: update_stats_def)

lemma combined_eq:
  "\<exists>t1. store (resize_bytes buf (length ct + length tag)) 0 ct = Some t1
      \<and> store t1 (length ct) tag = Some (ct @ tag)"
  by (simp add: store_def)

lemma inbound_inv_plaintext:
  "inbound_inv fp \<Longrightarrow> length pt = length (ib_plaintext fp) \<Longrightarrow> inbound_inv (fp\<lparr>ib_plaintext := pt\<rparr>)"
  by (simp add: inbound_inv_def)

lemma decrypt_impl_safe:
  assumes evp: "evp_gcm evp" "mls_keys_ok mls" and m: "manager_ok m" "window_inv m"
    and fp: "inbound_inv fp"
  shows "\<exists>m' fp' out' d' res. decrypt_impl evp mls now t m fp out d = Some (m', fp', out', d', res)
     \<and> manager_ok m' \<and> window_inv m' \<and> inbound_inv fp' \<and> length out' = length out
     \<and> (\<forall>n. res = Some n \<longrightarrow> n \<le> length out)"
proof (cases "ib_encrypted fp")
  case False
  with m fp show ?thesis by (simp add: decrypt_impl_def)
next
  case enc: True
  let ?n = "ib_truncated_nonce fp"
  let ?g = "cm_compute_wrapped_generation m (drop_bit RATCHET_GENERATION_SHIFT_BITS ?n)"
  show ?thesis
  proof (cases "can_process_nonce m ?g ?n")
    case False
    with m fp enc show ?thesis by (simp add: decrypt_impl_def Let_def)
  next
    case ok: True
    obtain m1 c where gc: "get_cipher evp mls ?g now m = (m1, c)" by force
    note m1 = get_cipher_ok [OF evp(2) m(1) gc]
    have w1: "window_inv m1" "window_ok m1 w = window_ok m w" for w
      using window_frame [OF get_cipher_window [OF gc]] m(2) by simp_all
    show ?thesis
    proof (cases c)
      case None
      with m1(1) w1 fp enc ok gc show ?thesis by (simp add: decrypt_impl_def Let_def)
    next
      case (Some a)
      obtain t1 where t1: "store (resize_bytes (dc_temp_combined d)
            (length (ib_ciphertext fp) + length (ib_tag fp))) 0 (ib_ciphertext fp) = Some t1"
        "store t1 (length (ib_ciphertext fp)) (ib_tag fp) = Some (ib_ciphertext fp @ ib_tag fp)"
        using combined_eq by blast
      have "length (ib_ciphertext fp @ ib_tag fp) = length (ib_plaintext fp) + 8"
        using fp enc by (simp add: inbound_inv_def dave_consts)
      from aead_decrypt_safe [OF evp(1) m1(2) [OF Some] this]
      obtain pt res where ad: "aead_decrypt evp a (ib_ciphertext fp @ ib_tag fp) (ib_authenticated fp)
          (nonce_bytes ?n) (ib_plaintext fp) = Some (pt, res)" "length pt = length (ib_plaintext fp)"
        by blast
      have fp1: "inbound_inv (fp\<lparr>ib_plaintext := pt\<rparr>)"
        using fp ad(2) by (rule inbound_inv_plaintext)
      obtain o1 k where rec: "inbound_reconstruct_frame (fp\<lparr>ib_plaintext := pt\<rparr>) out = Some (o1, k)"
        "k \<le> length out" "length o1 = length out"
        using inbound_reconstruct_frame_safe [OF fp1, of out] by blast
      have m2: "manager_ok (report_cipher_success ?g ?n now m1)"
        "window_inv (report_cipher_success ?g ?n now m1)"
        using m1(1) w1 ok by (simp_all add: report_ok report_window track_nonce_inv can_process_nonce_iff)
      show ?thesis
        using enc ok gc Some t1 ad(1) fp1 rec m1(1) w1(1) m2
        by (cases res) (simp_all add: decrypt_impl_def Let_def nonce_buffer_eq flip: nonce_bytes_def)
    qed
  qed
qed

lemma try_managers_safe:
  assumes "evp_gcm evp" "mls_keys_ok mls" "\<forall>m \<in> set ms. manager_ok m \<and> window_inv m" "inbound_inv fp"
  shows "\<exists>ms' fp' out' d' res. try_managers evp mls now t ms fp out d = Some (ms', fp', out', d', res)
     \<and> (\<forall>m \<in> set ms'. manager_ok m \<and> window_inv m) \<and> length out' = length out
     \<and> (\<forall>n. res = Some n \<longrightarrow> n \<le> length out)"
  using assms(3,4)
proof (induction ms arbitrary: fp out d)
  case Nil
  then show ?case by simp
next
  case (Cons m ms)
  obtain m' fp' out' d' res where di: "decrypt_impl evp mls now t m fp out d = Some (m', fp', out', d', res)"
    "manager_ok m'" "window_inv m'" "inbound_inv fp'" "length out' = length out"
    "\<forall>n. res = Some n \<longrightarrow> n \<le> length out"
    using decrypt_impl_safe [OF assms(1,2), of m fp] Cons.prems by (metis list.set_intros(1))
  have rest: "\<forall>m \<in> set ms. manager_ok m \<and> window_inv m"
    using Cons.prems(1) by simp
  show ?case
    using Cons.IH [OF rest di(4), of out' d'] di rest by (cases res) auto
qed

lemma decryptor_ok_parts:
  "decryptor_ok d \<Longrightarrow> decryptor_ok (cleanup_expired_managers now d)"
  "decryptor_ok d \<Longrightarrow> decryptor_ok (fst (get_or_create_frame_processor d))"
  "decryptor_ok (return_frame_processor fp d) = decryptor_ok d"
  "decryptor_ok (update_stats t f d) = decryptor_ok d"
  by (auto simp: decryptor_ok_def cleanup_expired_managers_def get_or_create_frame_processor_def
      return_frame_processor_def dest: set_dropWhileD)

lemma decrypt_safe:
  assumes "evp_gcm evp" "mls_keys_ok mls" "decryptor_ok d"
    and "length frame \<le> SIZE_MAX" "length frame \<le> length out"
  shows "\<exists>d' out' res. decrypt evp mls now end_time t frame out d = Some (d', out', res)
     \<and> decryptor_ok d' \<and> length out' = length out \<and> (\<forall>n. res = Inr n \<longrightarrow> n \<le> length out)"
proof -
  obtain d0 lf where g: "get_or_create_frame_processor d = (d0, lf)" by force
  let ?d1 = "cleanup_expired_managers now d0"
  have ok0: "decryptor_ok d0" "decryptor_ok ?d1"
    using decryptor_ok_parts(2) [OF assms(3)] by (simp_all add: g decryptor_ok_parts(1))
  obtain fp where fp: "parse_frame lf frame = Some fp" "inbound_inv fp"
    using parse_frame_inv [OF assms(4)] by blast
  obtain o1 where copy: "store out 0 frame = Some o1" "length o1 = length out"
    using assms(5) by (simp add: store_def)
  have "\<forall>m \<in> set (rev (dc_managers ?d1)). manager_ok m \<and> window_inv m"
    using ok0(2) by (simp add: decryptor_ok_def)
  from try_managers_safe [OF assms(1,2) this fp(2)]
  obtain ms' fp' out' d' res where tm:
    "try_managers evp mls now t (rev (dc_managers ?d1)) fp out ?d1 = Some (ms', fp', out', d', res)"
    "\<forall>m \<in> set ms'. manager_ok m \<and> window_inv m" "length out' = length out"
    "\<forall>n. res = Some n \<longrightarrow> n \<le> length out"
    by blast
  have ok2: "decryptor_ok (d'\<lparr>dc_managers := rev ms'\<rparr>)"
    using tm(2) by (simp add: decryptor_ok_def)
  note def = decrypt_def [of evp mls now end_time t frame out d, unfolded g Let_def split_conv]
  consider "is_silence t frame" | "\<not> is_silence t frame" "\<not> ib_encrypted fp"
    | "\<not> is_silence t frame" "ib_encrypted fp" by blast
  then show ?thesis
  proof cases
    case 1
    then show ?thesis
      unfolding def using copy ok0(1) assms(5) by (simp add: decryptor_ok_parts)
  next
    case 2
    with copy ok0(2) assms(5) fp(1) show ?thesis
      by (cases "now < dc_allow_passthrough_until ?d1") (simp_all add: def decryptor_ok_parts)
  next
    case 3
    then have "decrypt evp mls now end_time t frame out d = (case res of
             Some n \<Rightarrow>
               Some (return_frame_processor fp'
                       (update_stats t (\<lambda>s. s\<lparr>ds_decrypt_success := ds_decrypt_success s + 1\<rparr>)
                       (update_stats t
                     (\<lambda>s. s\<lparr>ds_decrypt_duration :=
                             ds_decrypt_duration s + of_int ((end_time - now) div 1000)\<rparr>)
                     (d'\<lparr>dc_managers := rev ms'\<rparr>))), out', Inr n)
           | None \<Rightarrow>
               Some (return_frame_processor fp'
                       (update_stats t (\<lambda>s. s\<lparr>ds_decrypt_failure := ds_decrypt_failure s + 1\<rparr>)
                       (update_stats t
                     (\<lambda>s. s\<lparr>ds_decrypt_duration :=
                             ds_decrypt_duration s + of_int ((end_time - now) div 1000)\<rparr>)
                     (d'\<lparr>dc_managers := rev ms'\<rparr>))), out', Inl bad_message))"
      using fp(1) tm(1) by (simp add: def)
    with tm(3,4) ok2 show ?thesis
      by (cases res) (simp_all add: decryptor_ok_parts)
  qed
qed

section \<open>Opening a sealed frame\<close>

lemma sized_in_order: "in_order i rs \<Longrightarrow> ranges_end i rs \<le> SIZE_MAX \<Longrightarrow> sized rs"
proof (induction rs arbitrary: i)
  case Nil
  then show ?case by (simp add: sized_def)
next
  case (Cons r rs)
  then have "sized rs" by auto
  moreover have "rg_offset r + rg_size r \<le> SIZE_MAX"
    using ranges_end_mono [of "rg_offset r + rg_size r" rs] Cons.prems by simp
  ultimately show ?case by (auto simp: sized_def)
qed

text \<open>Parsing what the encryptor wrote gives its parts back.\<close>

lemma parse_sealed:
  assumes "evp_gcm evp" "outbound_inv fp" "sealed_size nonce fp \<le> SIZE_MAX"
    and "supplemental_size (ob_unencrypted_ranges fp) nonce \<le> 255"
  shows "parse_frame p (sealed_frame evp key nonce fp) = Some (p\<lparr>ib_encrypted := True,
     ib_original_size := sealed_size nonce fp, ib_tag := sealed_tag evp key nonce fp,
     ib_truncated_nonce := nonce, ib_unencrypted_ranges := ob_unencrypted_ranges fp,
     ib_authenticated := ob_unencrypted_bytes fp, ib_ciphertext := sealed_ct evp key nonce fp,
     ib_plaintext := replicate (length (ob_encrypted_bytes fp)) 0\<rparr>)"
proof -
  let ?rs = "ob_unencrypted_ranges fp"
  note len = length_sealed [OF assms(1), of key nonce fp]
  have inv: "in_order 0 ?rs" "covered ?rs = length (ob_unencrypted_bytes fp)"
    "gaps 0 ?rs \<le> length (sealed_ct evp key nonce fp)"
    using assms(2) len by (simp_all add: outbound_inv_def)
  have "ranges_end 0 ?rs \<le> SIZE_MAX"
    using inv assms(3) len by (simp add: ranges_end_eq sealed_size_def body_size_def)
  with inv(1) have "sized ?rs" by (rule sized_in_order)
  from parse_frame_layout [OF inv this len(2) assms(4) refl] length_sealed_frame [OF assms(1,2)] assms(3)
  show ?thesis
    by (simp add: sealed_frame_def [symmetric] len(1))
qed

text \<open>
  The manager that gets the sealed frame, can process its nonce and has the key for it opens it:
  the output is the body before encryption.
\<close>

lemma decrypt_impl_opens:
  assumes evp: "evp_gcm evp" and fp: "outbound_inv fp" "0 < body_size fp"
    and pf: "pf = p\<lparr>ib_encrypted := True, ib_original_size := sz, ib_tag := sealed_tag evp key nonce fp,
     ib_truncated_nonce := nonce, ib_unencrypted_ranges := ob_unencrypted_ranges fp,
     ib_authenticated := ob_unencrypted_bytes fp, ib_ciphertext := sealed_ct evp key nonce fp,
     ib_plaintext := replicate (length (ob_encrypted_bytes fp)) 0\<rparr>"
    and g: "g = cm_compute_wrapped_generation m (drop_bit RATCHET_GENERATION_SHIFT_BITS nonce)"
    and ok: "can_process_nonce m g nonce"
    and gc: "get_cipher evp mls g now m = (m1, Some c)" "ac_ctx c" "16 \<le> length key" "ac_key c = key"
    and out: "body_size fp \<le> length out" "body_size fp < 2 ^ 31"
  shows "\<exists>fp' out' d'. decrypt_impl evp mls now t m pf out d
       = Some (report_cipher_success g nonce now m1, fp', out', d', Some (body_size fp))
     \<and> dc_managers d' = dc_managers d \<and> dc_allow_passthrough_until d' = dc_allow_passthrough_until d
     \<and> dc_frame_processors d' = dc_frame_processors d
     \<and> length out' = length out \<and> take (body_size fp) out' = outbound_body fp"
proof -
  let ?ct = "sealed_ct evp key nonce fp" and ?tag = "sealed_tag evp key nonce fp"
  let ?eb = "ob_encrypted_bytes fp"
  note len = length_sealed [OF evp, of key nonce fp]
  obtain t1 where t1: "store (resize_bytes (dc_temp_combined d) (length ?ct + length ?tag)) 0 ?ct = Some t1"
    "store t1 (length ?ct) ?tag = Some (?ct @ ?tag)"
    using combined_eq by blast
  have ad: "aead_decrypt evp c (?ct @ ?tag) (ob_unencrypted_bytes fp) (nonce_bytes nonce)
      (replicate (length ?eb) 0) = Some (?eb, Inr (length ?eb))"
    using aead_decrypt_eq [OF evp gc(2), of "replicate (length ?eb) 0" ?eb "ob_unencrypted_bytes fp" "nonce_bytes nonce"]
      gc(3,4) out(2)
    by (simp add: sealed_ct_def sealed_tag_def body_size_def length_nonce_bytes)
  let ?pf1 = "pf\<lparr>ib_plaintext := ?eb\<rparr>"
  have "inbound_inv ?pf1" "ib_encrypted ?pf1"
    using fp(1) len by (simp_all add: pf inbound_inv_def outbound_inv_def dave_consts)
  from inbound_reconstruct_frame_eq [OF this, of out] out(1)
  obtain o1 where o1: "inbound_reconstruct_frame ?pf1 out = Some (o1, body_size fp)"
    "length o1 = length out" "take (body_size fp) o1 = outbound_body fp"
    by (auto simp: pf body_size_def outbound_body_def)
  show ?thesis
    using ok gc t1 ad o1 fp(2)
    by (simp add: decrypt_impl_def Let_def nonce_buffer_eq update_stats_def pf flip: g nonce_bytes_def)
qed

lemma sealed_not_silence:
  assumes "evp_gcm evp" "outbound_inv fp"
  shows "\<not> is_silence t (sealed_frame evp key nonce fp)"
proof -
  have "11 \<le> length (sealed_frame evp key nonce fp)"
    using length_sealed_frame [OF assms] by (simp add: sealed_size_def supplemental_size_def)
  then show ?thesis by (auto simp: is_silence_def OPUS_SILENCE_PACKET_def)
qed

lemma decrypt_opens:
  assumes evp: "evp_gcm evp" and fp: "outbound_inv fp" "0 < body_size fp"
    and sizes: "sealed_size nonce fp \<le> SIZE_MAX" "supplemental_size (ob_unencrypted_ranges fp) nonce \<le> 255"
      "body_size fp \<le> length out" "body_size fp < 2 ^ 31"
    and d: "dc_managers d = ms @ [m]" "\<not> is_expired now m"
    and g: "g = cm_compute_wrapped_generation m (drop_bit RATCHET_GENERATION_SHIFT_BITS nonce)"
    and ok: "can_process_nonce m g nonce"
    and gc: "get_cipher evp mls g now m = (m1, Some c)" "ac_ctx c" "16 \<le> length key" "ac_key c = key"
  shows "\<exists>d' out'. decrypt evp mls now end_time t (sealed_frame evp key nonce fp) out d
       = Some (d', out', Inr (body_size fp))
     \<and> take (body_size fp) out' = outbound_body fp
     \<and> dc_managers d' = dropWhile (is_expired now) ms @ [report_cipher_success g nonce now m1]"
proof -
  obtain d0 lf where gp: "get_or_create_frame_processor d = (d0, lf)" "dc_managers d0 = ms @ [m]"
    using d(1) that [of "fst (get_or_create_frame_processor d)" "snd (get_or_create_frame_processor d)"]
    by (auto simp: get_or_create_frame_processor_def)
  let ?d1 = "cleanup_expired_managers now d0"
  let ?ms = "dropWhile (is_expired now) ms"
  have "dc_managers ?d1 = ?ms @ [m]"
  proof -
    have "dropWhile (is_expired now) (ms @ [m]) = ?ms @ [m]"
      using d(2) by (induction ms) auto
    then show ?thesis by (simp add: cleanup_expired_managers_def gp(2))
  qed
  then have rev: "rev (dc_managers ?d1) = m # rev ?ms" by simp
  note pf = parse_sealed [OF evp fp(1) sizes(1,2), of lf key]
  from decrypt_impl_opens [where p = lf and sz = "sealed_size nonce fp" and t = t and d = ?d1,
      OF evp fp refl g ok gc sizes(3,4)]
  obtain fp' out' d' where di: "decrypt_impl evp mls now t m (lf\<lparr>ib_encrypted := True,
     ib_original_size := sealed_size nonce fp, ib_tag := sealed_tag evp key nonce fp,
     ib_truncated_nonce := nonce, ib_unencrypted_ranges := ob_unencrypted_ranges fp,
     ib_authenticated := ob_unencrypted_bytes fp, ib_ciphertext := sealed_ct evp key nonce fp,
     ib_plaintext := replicate (length (ob_encrypted_bytes fp)) 0\<rparr>) out ?d1
       = Some (report_cipher_success g nonce now m1, fp', out', d', Some (body_size fp))"
    "take (body_size fp) out' = outbound_body fp"
    by blast
  show ?thesis
    unfolding decrypt_def gp(1) Let_def split_conv
    by (simp add: sealed_not_silence [OF evp fp(1)] pf rev di return_frame_processor_def)
qed

section \<open>A stream of frames\<close>

text \<open>
  Sender and receiver of one audio stream, frame by frame, with buffers of the sizes the library
  prescribes. \<open>relay\<close> returns what the receiver hands on; \<^term>\<open>None\<close> if either side fails.
\<close>

fun relay ::
    "evp \<Rightarrow> 'h mls_ratchet \<Rightarrow> u32 \<Rightarrow> int \<Rightarrow> 'h encryptor \<Rightarrow> 'h decryptor \<Rightarrow> bytes list \<Rightarrow> bytes list option" where
  "relay evp mls ssrc now e d [] = Some []"
| "relay evp mls ssrc now e d (f # fs) =
     (case encrypt evp mls Audio ssrc f
             (replicate (get_max_ciphertext_byte_size Audio (length f)) 0) e of
        Some (e', out, Inr n) \<Rightarrow>
          (case decrypt evp mls now now Audio (take n out) (replicate n 0) d of
             Some (d', out', Inr k) \<Rightarrow>
               map_option (Cons (take k out')) (relay evp mls ssrc now e' d' fs)
           | _ \<Rightarrow> None)
      | _ \<Rightarrow> None)"

text \<open>
  The two sides after \<open>n\<close> frames, for ratchets (of whichever kind) that give \<open>key\<close> for
  generation 0, the generation of the first 2^24 frames.
\<close>

definition sender_at :: "'h mls_ratchet \<Rightarrow> bytes \<Rightarrow> u32 \<Rightarrow> nat \<Rightarrow> 'h encryptor \<Rightarrow> bool" where
  "sender_at mls key ssrc n e \<longleftrightarrow> \<not> en_passthrough_mode e
     \<and> (\<exists>r. en_ratchet e = Some r \<and> (en_cryptor e = None \<longrightarrow> snd (get_key mls r 0) = key))
     \<and> en_truncated_nonce e = of_nat n \<and> en_current_key_generation e = 0
     \<and> (\<forall>c. en_cryptor e = Some c \<longrightarrow> ac_ctx c \<and> ac_key c = key)
     \<and> codec_for_ssrc e ssrc = Opus"

definition receiver_manager :: "'h mls_ratchet \<Rightarrow> bytes \<Rightarrow> nat \<Rightarrow> 'h cipher_manager \<Rightarrow> bool" where
  "receiver_manager mls key n m \<longleftrightarrow>
     (cm_ciphers m 0 = None \<longrightarrow> snd (get_key mls (cm_ratchet m) 0) = key)
     \<and> cm_oldest_generation m = 0 \<and> cm_newest_generation m = 0 \<and> cm_expiry_time m = TIME_MAX
     \<and> (\<forall>g e. cm_ciphers m g = Some e \<longrightarrow>
           g = 0 \<and> ac_ctx (ce_cipher e) \<and> ac_key (ce_cipher e) = key \<and> ce_expiry e = TIME_MAX)
     \<and> (\<forall>k. cm_newest_processed_nonce m = Some k \<longrightarrow> k \<le> n)"

definition receiver_at :: "'h mls_ratchet \<Rightarrow> bytes \<Rightarrow> nat \<Rightarrow> 'h decryptor \<Rightarrow> bool" where
  "receiver_at mls key n d \<longleftrightarrow> (\<exists>m. dc_managers d = [m] \<and> receiver_manager mls key n m)"

lemma receiver_get_cipher:
  assumes "receiver_manager mls key n m" "evp_ctx_new evp" "key \<noteq> []" "now \<le> TIME_MAX"
  shows "\<exists>m1 c. get_cipher evp mls 0 now m = (m1, Some c) \<and> ac_ctx c \<and> ac_key c = key
    \<and> receiver_manager mls key n m1"
proof -
  have "drop_expired now (cm_ciphers m) = cm_ciphers m"
    using assms(1,4) by (fastforce simp: drop_expired_def receiver_manager_def fun_eq_iff split: option.splits)
  then have "cleanup_expired_ciphers mls now m = m"
    using assms(1) by (simp add: cleanup_expired_ciphers_def delete_old_keys.simps receiver_manager_def)
  moreover have "cm_ciphers m g = None" if "cm_ciphers m 0 = None" for g
    using assms(1) that unfolding receiver_manager_def by (metis option.exhaust option.distinct(1))
  ultimately show ?thesis
    using assms
    by (cases "cm_ciphers m 0")
      (auto simp: get_cipher_def receiver_manager_def AeadCipher_def Let_def split: prod.splits)
qed

lemma receiver_report:
  assumes "receiver_manager mls key n m" "unat nonce mod 2 ^ 24 \<le> k" "n \<le> k"
  shows "receiver_manager mls key k (report_cipher_success 0 nonce now m)"
  using assms
  by (auto simp: receiver_manager_def report_cipher_success_def track_generation_def track_nonce_def
      compute_wrapped_big_nonce_eq Let_def split: option.splits)

lemma small_nonce:
  assumes "n < 2 ^ 24"
  shows "unat (of_nat n :: u32) = n" "drop_bit RATCHET_GENERATION_SHIFT_BITS (of_nat n :: u32) = 0"
proof -
  show u: "unat (of_nat n :: u32) = n"
    using assms by (simp add: unsigned_of_nat take_bit_nat_eq_self_iff)
  have "unat (drop_bit 24 (of_nat n :: u32)) = 0"
    using assms u by (simp add: drop_bit_eq_div unat_div_distrib)
  then show "drop_bit RATCHET_GENERATION_SHIFT_BITS (of_nat n :: u32) = 0"
    by (simp add: dave_consts unsigned_eq_0_iff)
qed

lemma opus_supplemental: "supplemental_size [] nonce \<le> 16"
  using leb128_size_u32 [of nonce] by (simp add: supplemental_size_def leb128_size_length)

text \<open>An audio frame as the encryptor sends it.\<close>

definition opus_sealed :: "evp \<Rightarrow> bytes \<Rightarrow> u32 \<Rightarrow> bytes \<Rightarrow> bytes" where
  "opus_sealed evp key nonce f =
     sealed_frame evp key nonce (outbound_init\<lparr>ob_encrypted_bytes := f, ob_frame_index := length f\<rparr>)"

lemma opus_sealed_eq:
  assumes "ob_unencrypted_ranges fp = []" "ob_unencrypted_bytes fp = []" "ob_encrypted_bytes fp = f"
  shows "sealed_frame evp key nonce fp = opus_sealed evp key nonce f"
  using assms by (simp add: opus_sealed_def sealed_frame_def sealed_ct_def sealed_tag_def outbound_init_def)

lemma length_opus_sealed:
  assumes "evp_gcm evp"
  shows "length (opus_sealed evp key nonce f) = length f + supplemental_size [] nonce"
proof -
  have "outbound_inv (outbound_init\<lparr>ob_encrypted_bytes := f, ob_frame_index := length f\<rparr>)"
    by (simp add: outbound_inv_def outbound_init_def)
  from length_sealed_frame [OF assms this] show ?thesis
    by (simp add: opus_sealed_def sealed_size_def body_size_def outbound_init_def)
qed

text \<open>
  One frame at each side: the sender moves on by one; the receiver opens any frame that is newer
  than all it has seen, also when frames were lost in between.
\<close>

lemma sender_step:
  fixes e :: "'h encryptor"
  assumes evp: "evp_gcm evp" and key: "16 \<le> length key" and s: "sender_at mls key ssrc n e"
    and n: "Suc n < 2 ^ 24" and f: "f \<noteq> []" "length f < 2 ^ 31"
    and out: "length f + 75 \<le> length out"
  shows "\<exists>e' out'. encrypt evp mls Audio ssrc f out e
       = Some (e', out', Inr (length (opus_sealed evp key (of_nat (Suc n)) f)))
     \<and> take (length (opus_sealed evp key (of_nat (Suc n)) f)) out' = opus_sealed evp key (of_nat (Suc n)) f
     \<and> sender_at mls key ssrc (Suc n) e'"
proof -
  define nonce where "nonce = (of_nat (Suc n) :: u32)"
  note small = small_nonce [OF n, folded nonce_def]
  obtain fp where fp: "process_frame (en_frame_processor e) f Opus = Some fp"
    "ob_unencrypted_ranges fp = []" "ob_unencrypted_bytes fp = []" "ob_encrypted_bytes fp = f"
    using process_frame_whole [of Opus] by blast
  have sz: "sealed_size nonce fp = length (opus_sealed evp key nonce f)" "body_size fp = length f"
    by (simp_all add: sealed_size_def length_opus_sealed [OF evp] body_size_def fp)
  have sup: "supplemental_size (ob_unencrypted_ranges fp) nonce \<le> 16"
    by (simp add: fp(2) opus_supplemental)
  have tn: "en_truncated_nonce e + 1 = nonce"
    using s by (simp add: nonce_def sender_at_def add.commute)
  obtain r where r: "en_ratchet e = Some r" using s by (auto simp: sender_at_def)
  have nk: "next_key mls e = key"
    using s unfolding next_key_def Let_def tn small(2) by (auto simp: sender_at_def split: option.splits)
  have c: "codec_for_ssrc e ssrc = Opus" "\<not> en_passthrough_mode e" "\<forall>c. en_cryptor e = Some c \<longrightarrow> ac_ctx c"
    using s by (simp_all add: sender_at_def)
  have fp': "process_frame (en_frame_processor e) f (codec_for_ssrc e ssrc) = Some fp"
    using fp(1) by (simp add: c)
  have szs: "0 < body_size fp" "sealed_size nonce fp \<le> length out" "body_size fp < 2 ^ 31"
    using sup f out by (simp_all add: sz(2) sealed_size_def)
  obtain e' out' where enc: "encrypt evp mls Audio ssrc f out e = Some (e', out', Inr (sealed_size nonce fp))"
    "encryptor_next evp mls e e'" "take (sealed_size nonce fp) out' = sealed_frame evp key nonce fp"
    using encrypt_eq [where mls = mls and mt = Audio, OF evp c(2) r c(3) _ fp' tn [symmetric] szs(1) _ szs(2,3)] key sup
    by (auto simp: nk)
  note nx = enc(2) [unfolded encryptor_next_def Let_def tn nk small(2)]
  obtain c' where "en_cryptor e' = Some c'" "ac_ctx c'" "ac_key c' = key" using nx by blast
  moreover have "\<exists>r'. en_ratchet e' = Some r'" using nx r by auto
  moreover have "codec_for_ssrc e' ssrc = Opus" using nx c(1) by (simp add: codec_for_ssrc_def)
  ultimately have "sender_at mls key ssrc (Suc n) e'"
    using nx c(2) by (auto simp: sender_at_def simp flip: nonce_def of_nat_Suc)
  then show ?thesis
    using enc(1,3) unfolding nonce_def [symmetric] by (auto simp: sz opus_sealed_eq [OF fp(2-4)])
qed

lemma receiver_step:
  fixes d :: "'h decryptor"
  assumes evp: "evp_gcm evp" and key: "16 \<le> length key" and r: "receiver_at mls key n d"
    and k: "n < k" "k < 2 ^ 24" and f: "f \<noteq> []" "length f < 2 ^ 31" and now: "now \<le> TIME_MAX"
    and out: "length f \<le> length out"
  shows "\<exists>d' out'. decrypt evp mls now end_time Audio (opus_sealed evp key (of_nat k) f) out d
       = Some (d', out', Inr (length f)) \<and> take (length f) out' = f \<and> receiver_at mls key k d'"
proof -
  define nonce where "nonce = (of_nat k :: u32)"
  note small = small_nonce [OF k(2), folded nonce_def]
  let ?fp = "outbound_init\<lparr>ob_encrypted_bytes := f, ob_frame_index := length f\<rparr>"
  have fp: "outbound_inv ?fp" "body_size ?fp = length f" "outbound_body ?fp = f" "ob_unencrypted_ranges ?fp = []"
    by (simp_all add: outbound_inv_def outbound_init_def body_size_def outbound_body_def weave_def)
  have sup: "supplemental_size (ob_unencrypted_ranges ?fp) nonce \<le> 16"
    by (simp add: fp(4) opus_supplemental)
  have szs: "0 < body_size ?fp" "sealed_size nonce ?fp \<le> SIZE_MAX" "body_size ?fp \<le> length out"
      "body_size ?fp < 2 ^ 31"
    using sup f out by (simp_all add: sealed_size_def fp SIZE_MAX_def)
  obtain m where m: "dc_managers d = [] @ [m]" "receiver_manager mls key n m"
    using r by (auto simp: receiver_at_def)
  have gen: "0 = cm_compute_wrapped_generation m (drop_bit RATCHET_GENERATION_SHIFT_BITS nonce)"
    using m(2) small(2)
    by (simp add: cm_compute_wrapped_generation_def compute_wrapped_generation_def receiver_manager_def)
  have ok: "can_process_nonce m 0 nonce"
    using m(2) k small(1)
    by (auto simp: can_process_nonce_iff window_ok_def receiver_manager_def compute_wrapped_big_nonce_eq
        split: option.splits)
  obtain m1 c where gc: "get_cipher evp mls 0 now m = (m1, Some c)" "ac_ctx c" "ac_key c = key"
    "receiver_manager mls key n m1"
    using receiver_get_cipher [OF m(2) evp_gcm_setup(1) [OF evp] _ now] key by fastforce
  have exp: "\<not> is_expired now m"
    using m(2) now by (simp add: is_expired_def receiver_manager_def)
  obtain d' out' where dec: "decrypt evp mls now end_time Audio (sealed_frame evp key nonce ?fp) out d
       = Some (d', out', Inr (length f))" "take (length f) out' = f"
    "dc_managers d' = [report_cipher_success 0 nonce now m1]"
    using decrypt_opens [where t = Audio and end_time = end_time,
        OF evp fp(1) szs(1,2) _ szs(3,4) m(1) exp gen ok gc(1,2) key gc(3)] sup by (auto simp: fp)
  moreover have "receiver_at mls key k d'"
    using receiver_report [OF gc(4), of nonce k now] small(1) k dec(3) by (simp add: receiver_at_def)
  ultimately show ?thesis
    by (auto simp: opus_sealed_def simp flip: nonce_def)
qed

lemma relay_stream:
  assumes "evp_gcm evp" "16 \<le> length key" "sender_at mls key ssrc n e" "receiver_at mls key n d"
    and "n + length fs < 2 ^ 24" "\<forall>f \<in> set fs. f \<noteq> [] \<and> length f < 2 ^ 31" "now \<le> TIME_MAX"
  shows "relay evp mls ssrc now e d fs = Some fs"
  using assms(3-6)
proof (induction fs arbitrary: n e d)
  case Nil
  then show ?case by simp
next
  case (Cons f fs)
  have step: "Suc n < 2 ^ 24" "f \<noteq> []" "length f < 2 ^ 31"
    using Cons.prems(3,4) by auto
  define out where "out = (replicate (get_max_ciphertext_byte_size Audio (length f)) 0 :: bytes)"
  have "length f + 75 \<le> length out"
    by (simp add: out_def get_max_ciphertext_byte_size_def dave_consts)
  from sender_step [OF assms(1,2) Cons.prems(1) step this] obtain e' out' where s:
    "encrypt evp mls Audio ssrc f out e = Some (e', out', Inr (length (opus_sealed evp key (of_nat (Suc n)) f)))"
    "take (length (opus_sealed evp key (of_nat (Suc n)) f)) out' = opus_sealed evp key (of_nat (Suc n)) f"
    "sender_at mls key ssrc (Suc n) e'" by blast
  define out2 where "out2 = (replicate (length (opus_sealed evp key (of_nat (Suc n)) f)) 0 :: bytes)"
  have "length f \<le> length out2"
    by (simp add: out2_def length_opus_sealed [OF assms(1)])
  from receiver_step [OF assms(1,2) Cons.prems(2) lessI step assms(7) this, of now] obtain d' out3 where r:
    "decrypt evp mls now now Audio (opus_sealed evp key (of_nat (Suc n)) f) out2 d = Some (d', out3, Inr (length f))"
    "take (length f) out3 = f" "receiver_at mls key (Suc n) d'" by blast
  have "relay evp mls ssrc now e' d' fs = Some fs"
    by (rule Cons.IH [OF s(3) r(3)]) (use Cons.prems(3,4) in auto)
  with s(1,2) r(1,2) show ?case by (simp add: out2_def flip: out_def)
qed

end
