(* ===== verification/Dave_Properties.thy ===== *)
theory Dave_Properties
  imports H264_Stream Decryptor
begin

text \<open>
  The properties of the media encryption layer: the frame format, the codecs, the nonce window,
  and encryptor and decryptor end to end.
\<close>

section \<open>End to end\<close>

text \<open>An encryptor and a decryptor set up with a key ratchet.\<close>

definition fresh_sender :: "'h key_ratchet \<Rightarrow> 'h encryptor" where
  "fresh_sender r = set_passthrough_mode False (set_key_ratchet (Some r) encryptor_init)"

definition fresh_receiver :: "'h key_ratchet \<Rightarrow> int \<Rightarrow> 'h decryptor" where
  "fresh_receiver r now = transition_to_key_ratchet (Some r) 10 now decryptor_init"

lemma fresh_sender_at: "snd (get_key mls r 0) = key \<Longrightarrow> sender_at mls key ssrc 0 (fresh_sender r)"
  by (simp add: sender_at_def fresh_sender_def set_passthrough_mode_def set_key_ratchet_def
      encryptor_init_def codec_for_ssrc_def)

lemma fresh_receiver_at: "snd (get_key mls r 0) = key \<Longrightarrow> receiver_at mls key 0 (fresh_receiver r now)"
  by (simp add: receiver_at_def fresh_receiver_def transition_to_key_ratchet_def
      update_cryptor_manager_expiry_def decryptor_init_def receiver_manager_def CipherManager_def Let_def)

text \<open>
  C1. A stream of audio frames survives end-to-end encryption: for every AES-128-GCM
  implementation that behaves as documented, a sender and a receiver whose key ratchets give the
  same key of at least sixteen bytes for generation 0, and every sequence of fewer than 2^24
  nonempty frames of fewer than 2^31 bytes (EVP takes lengths as \<^verbatim>\<open>int\<close>): a freshly keyed encryptor and a freshly keyed decryptor
  that work through the sequence, with buffers of the size
  \<open>get_max_ciphertext_byte_size\<close> prescribes, both succeed on each frame, and the receiver's
  output is the sender's input.
\<close>

theorem dave_stream_roundtrip:
  assumes "evp_gcm evp" "snd (get_key mls r 0) = key" "snd (get_key mls r' 0) = key" "16 \<le> length key"
    and "length frames < 2 ^ 24" "\<forall>f \<in> set frames. f \<noteq> [] \<and> length f < 2 ^ 31" "now \<le> TIME_MAX"
  shows "relay evp mls ssrc now (fresh_sender r) (fresh_receiver r' t0) frames = Some frames"
  by (rule relay_stream [OF assms(1,4) fresh_sender_at [OF assms(2)] fresh_receiver_at [OF assms(3)]])
    (use assms(5-7) in auto)

theorem dave_stream_roundtrip_witness:
  "evp_gcm pad_evp \<and>
   relay pad_evp no_mls 7 0 (fresh_sender (SimpleKeyRatchet (replicate 16 9)))
       (fresh_receiver (SimpleKeyRatchet (replicate 16 9)) 0) [[1, 2, 3], [0xFA, 0xFA]]
     = Some [[1, 2, 3], [0xFA, 0xFA]]"
  using dave_stream_roundtrip [OF pad_evp_gcm, of no_mls "SimpleKeyRatchet (replicate 16 9)" "replicate 16 9"
      "SimpleKeyRatchet (replicate 16 9)" "[[1, 2, 3], [0xFA, 0xFA]]" 0 7 0]
  by (simp add: pad_evp_gcm SIZE_MAX_def TIME_MAX_def)

text \<open>
  C2. Decryption never leaves its buffers and always returns, whatever bytes arrive: for every
  decryptor whose managers hold keys of sixteen bytes or more (and the state it is left in is such
  a decryptor again), every frame and every output buffer at least as long as the frame. The number
  of bytes it reports is at most the size of the output buffer.
\<close>

theorem decrypt_memory_safe:
  assumes "evp_gcm evp" "mls_keys_ok mls" "decryptor_ok d"
    and "length frame \<le> SIZE_MAX" "length frame \<le> length out"
  shows "\<exists>d' out' res. decrypt evp mls now end_time t frame out d = Some (d', out', res)
     \<and> decryptor_ok d' \<and> length out' = length out \<and> (\<forall>n. res = Inr n \<longrightarrow> n \<le> length out)"
  using assms by (rule decrypt_safe)

lemma fresh_receiver_ok: "ratchet_ok r \<Longrightarrow> decryptor_ok (fresh_receiver r now)"
  by (auto simp: decryptor_ok_def fresh_receiver_def transition_to_key_ratchet_def
      update_cryptor_manager_expiry_def decryptor_init_def CipherManager_def manager_ok_def
      window_inv_def Let_def)

theorem decrypt_memory_safe_witness:
  "decryptor_ok (fresh_receiver (SimpleKeyRatchet (replicate 16 9)) 0 :: unit decryptor)
   \<and> (\<exists>d' out' res. decrypt pad_evp no_mls 1 2 Audio [0, 1, 2, 3, 4, 5, 6, 7, 8, 9, 255, 11, 0xFA, 0xFA]
        (replicate 14 0) (fresh_receiver (SimpleKeyRatchet (replicate 16 9)) 0) = Some (d', out', res) \<and> decryptor_ok d')"
proof -
  have "mls_keys_ok no_mls" by (simp add: mls_keys_ok_def no_mls_def)
  moreover have ok: "decryptor_ok (fresh_receiver (SimpleKeyRatchet (replicate 16 9)) 0 :: unit decryptor)"
    by (simp add: fresh_receiver_ok)
  ultimately show ?thesis
    using decrypt_memory_safe [OF pad_evp_gcm, of no_mls "fresh_receiver (SimpleKeyRatchet (replicate 16 9)) 0"
        "[0, 1, 2, 3, 4, 5, 6, 7, 8, 9, 255, 11, 0xFA, 0xFA]" "replicate 14 0" 1 2 Audio]
    by (auto simp: SIZE_MAX_def)
qed

section \<open>Replay protection\<close>

text \<open>
  C4. No nonce is accepted twice: whatever generations, nonces and times are presented to a new
  cipher manager, with each nonce that \<open>can_process_nonce\<close> admits reported by
  \<open>report_cipher_success\<close>, the wrapped nonces it admits are pairwise distinct.
\<close>

theorem nonce_accepted_once:
  "distinct (map (\<lambda>(g, n, now). compute_wrapped_big_nonce g n)
     (snd (nonces.run (CipherManager ratchet t0) messages)))"
proof -
  have "window_inv (CipherManager ratchet t0)"
    by (simp add: window_inv_def CipherManager_def)
  then show ?thesis by (rule nonces.accepted_once)
qed

text \<open>
  C5. The nonce window implements its specification: after any messages presented to a new
  manager, the manager admits a nonce exactly when the specification does, which keeps the set of
  all nonces processed so far: a nonce is admitted when it is newer than the newest, or newer than
  the first, at most 1000 behind the newest and not processed before.
\<close>

theorem nonce_window_refines:
  "can_process_nonce (fst (nonces.run (CipherManager ratchet t0) messages)) g n
   = spec_accepts
       (foldl spec_process None
          (map (\<lambda>(g, n, now). compute_wrapped_big_nonce g n)
             (snd (nonces.run (CipherManager ratchet t0) messages))))
       (compute_wrapped_big_nonce g n)"
proof -
  have "window_refines (CipherManager ratchet t0) None"
    by (simp add: window_refines_def window_inv_def CipherManager_def)
  from window_refines_run [OF this] show ?thesis
    by (simp add: can_process_nonce_iff window_refines_accepts)
qed

section \<open>Codecs\<close>

text \<open>
  C6. Every codec's frames survive: whatever body the processor makes of the frame (for
  H264, H265 and AV1 it differs from the frame, see below), the receiver's newest manager gets that
  body back, provided it admits the nonce and has the sender's key for it, and the sizes fit: a
  nonempty body of fewer than 2^31 bytes, at most 255 supplemental bytes, an output buffer that holds body
  and supplement.
\<close>

theorem encrypt_decrypt_body:
  assumes evp: "evp_gcm evp"
    and e: "\<not> en_passthrough_mode e" "en_ratchet e = Some r" "\<forall>c. en_cryptor e = Some c \<longrightarrow> ac_ctx c"
      "16 \<le> length (next_key mls e)"
    and fp: "process_frame (en_frame_processor e) frame (codec_for_ssrc e ssrc) = Some fp"
    and nonce: "nonce = en_truncated_nonce e + 1"
    and sizes: "0 < body_size fp" "supplemental_size (ob_unencrypted_ranges fp) nonce \<le> 255"
      "sealed_size nonce fp \<le> length out" "length out \<le> SIZE_MAX" "body_size fp \<le> length frame_out"
      "body_size fp < 2 ^ 31"
    and d: "dc_managers d = ms @ [m]" "\<not> is_expired now m"
    and g: "g = cm_compute_wrapped_generation m (drop_bit RATCHET_GENERATION_SHIFT_BITS nonce)"
    and m: "can_process_nonce m g nonce" "get_cipher evp mls g now m = (m', Some c)" "ac_ctx c"
      "ac_key c = next_key mls e"
  shows "\<exists>e' out' n d' frame_out'. encrypt evp mls t ssrc frame out e = Some (e', out', Inr n)
     \<and> decrypt evp mls now end_time t (take n out') frame_out d = Some (d', frame_out', Inr (body_size fp))
     \<and> take (body_size fp) frame_out' = outbound_body fp"
proof -
  have inv: "outbound_inv fp" by (rule process_frame_inv [OF fp])
  have "sealed_size nonce fp \<le> SIZE_MAX" using sizes by simp
  from decrypt_opens [OF evp inv sizes(1) this sizes(2,5,6) d g m(1,2,3) e(4) m(4)]
    encrypt_eq [OF evp e(1-4) fp nonce sizes(1-3,6)]
  show ?thesis by metis
qed

text \<open>A VP8 delta frame: one clear byte, the rest encrypted.\<close>

definition vp8_sender :: "unit encryptor" where
  "vp8_sender = assign_ssrc_to_codec 7 Vp8 (fresh_sender (SimpleKeyRatchet (replicate 16 9)))"

definition vp8_processed :: outbound where
  "vp8_processed = \<lparr>ob_frame_codec = Vp8, ob_frame_index = 3, ob_unencrypted_bytes = [1],
     ob_encrypted_bytes = [2, 3], ob_ciphertext_bytes = [0, 0], ob_unencrypted_ranges = [mk_range 0 1]\<rparr>"

lemma vp8_processed_eq:
  "process_frame (en_frame_processor vp8_sender) [1, 2, 3] (codec_for_ssrc vp8_sender 7) = Some vp8_processed"
  by (simp add: vp8_sender_def vp8_processed_def fresh_sender_def assign_ssrc_to_codec_def codec_for_ssrc_def
      set_passthrough_mode_def set_key_ratchet_def encryptor_init_def outbound_init_def
      process_frame_def process_codec_def process_frame_vp8_def outbound_reset_def elem_at_def
      span_subspan_def subspan_def add_unencrypted_bytes_def add_encrypted_bytes_def resize_bytes_def
      SIZE_MAX_def Let_def)

theorem encrypt_decrypt_body_witness:
  "\<exists>e' out' n d' frame_out'. encrypt pad_evp no_mls Video 7 [1, 2, 3] (replicate 80 0) vp8_sender
       = Some (e', out', Inr n)
     \<and> decrypt pad_evp no_mls 1 2 Video (take n out') (replicate 80 0) (fresh_receiver (SimpleKeyRatchet (replicate 16 9)) 0)
       = Some (d', frame_out', Inr 3)
     \<and> take 3 frame_out' = [1, 2, 3]"
proof -
  let ?m = "CipherManager (SimpleKeyRatchet (replicate 16 9)) 0 :: unit cipher_manager"
  have d: "dc_managers (fresh_receiver (SimpleKeyRatchet (replicate 16 9)) 0) = [] @ [?m]"
    by (simp add: fresh_receiver_def transition_to_key_ratchet_def update_cryptor_manager_expiry_def
        decryptor_init_def Let_def)
  have rm: "receiver_manager no_mls (replicate 16 9) 0 ?m"
    by (simp add: receiver_manager_def CipherManager_def)
  obtain m1 c where gc: "get_cipher pad_evp no_mls 0 1 ?m = (m1, Some c)" "ac_ctx c" "ac_key c = replicate 16 9"
    using receiver_get_cipher [OF rm evp_gcm_setup(1) [OF pad_evp_gcm], of 1] by (auto simp: TIME_MAX_def)
  have e: "\<not> en_passthrough_mode vp8_sender" "en_ratchet vp8_sender = Some (SimpleKeyRatchet (replicate 16 9))"
    "en_cryptor vp8_sender = None" "en_truncated_nonce vp8_sender = 0" "next_key no_mls vp8_sender = replicate 16 9"
    by (simp_all add: vp8_sender_def fresh_sender_def assign_ssrc_to_codec_def set_passthrough_mode_def
        set_key_ratchet_def encryptor_init_def next_key_def)
  have s: "body_size vp8_processed = 3" "outbound_body vp8_processed = [1, 2, 3]"
    "supplemental_size (ob_unencrypted_ranges vp8_processed) 1 = 14"
    by (simp_all add: body_size_def vp8_processed_def outbound_body_def weave_def supplemental_size_def
        range_bytes_def leb128_bytes.simps word_le_nat_alt)
  show ?thesis
    using encrypt_decrypt_body [OF pad_evp_gcm e(1,2) _ _ vp8_processed_eq, where mls = no_mls and nonce = 1
        and out = "replicate 80 0" and frame_out = "replicate 80 0" and t = Video and end_time = 2
        and now = 1 and d = "fresh_receiver (SimpleKeyRatchet (replicate 16 9)) 0" and ms = "[]" and m = ?m and g = 0
        and m' = m1 and c = c] d gc e s
    by (simp add: sealed_size_def SIZE_MAX_def is_expired_def CipherManager_def TIME_MAX_def
        cm_compute_wrapped_generation_def compute_wrapped_generation_def can_process_nonce_def dave_consts)
qed

lemma concat_map_concat: "concat (map f (concat xss)) = concat (map (\<lambda>xs. concat (map f xs)) xss)"
  by (induction xss) simp_all

text \<open>
  C11. H264: a frame of NAL units in the byte stream format, each behind a start code of three or
  four bytes, is processed within bounds. The body is the units in order, each behind a four byte start
  code. Of a slice unit the header byte and the payload bytes that hold its first three Exp-Golomb coded
  numbers (first macroblock, slice type, picture parameter set, each below 2^32 - 1) and the bit behind them
  stay in the clear, and the rest is secret; every other unit is clear. The units have at least two bytes, do
  not end in a zero byte and contain no start code, and the clear part of a slice lies in its unit and has no
  emulation prevention byte.
\<close>

theorem h264_frame_body:
  assumes "us \<noteq> []" "\<forall>u \<in> set us. h264_unit_wf u" "length (h264_stream us) < SIZE_MAX"
  shows "\<exists>p'. process_frame p (h264_stream us) H264 = Some p'
     \<and> outbound_body p' = concat (map (\<lambda>u. [0, 0, 0, 1] @ hu_bytes u) us)
     \<and> ob_unencrypted_bytes p' = concat (map h264_clear us)
     \<and> ob_encrypted_bytes p' = concat (map h264_secret us)"
  using process_frame_fed [OF process_h264_stream [OF assms], of p]
  by (simp only: concat_map_concat map_map comp_def chunks_of_unit)

theorem h264_frame_body_witness:
  "\<exists>p'. process_frame outbound_init [0, 0, 1, 0x67, 9, 9, 0, 0, 0, 1, 0x65, 0xB8, 5, 6] H264 = Some p'
     \<and> outbound_body p' = [0, 0, 0, 1, 0x67, 9, 9, 0, 0, 0, 1, 0x65, 0xB8, 5, 6]
     \<and> ob_encrypted_bytes p' = [5, 6]"
proof -
  let ?sps = "\<lparr>hu_long = False, hu_bytes = [0x67, 9, 9], hu_first_mb = 0, hu_slice_type = 0, hu_pps_id = 0\<rparr>"
  let ?idr = "\<lparr>hu_long = True, hu_bytes = [0x65, 0xB8, 5, 6], hu_first_mb = 0, hu_slice_type = 2, hu_pps_id = 0\<rparr>"
  have bits: "slice_header 0 2 0 = [True, False, True, True, True]"
    by (simp add: slice_header_def exp_golomb_def number_bits.simps)
  have payload: "payload_bits [0xB8, 5, 6] = [True, False, True, True, True] @ (False # False # False # payload_bits [5, 6])"
    by (simp add: payload_bits_def byte_bits_def upt_rec)
  have idr: "header_bytes ?idr = 1" "slice_unit (hu_bytes ?idr)" "\<not> slice_unit (hu_bytes ?sps)"
    by (simp_all add: header_bytes_def bits slice_unit_def)
  have "slice_ok ?idr"
    using idr(1) by (simp add: slice_ok_def bits payload unescaped_def)
  then have "\<forall>u \<in> set [?sps, ?idr]. h264_unit_wf u"
    using idr by (simp add: h264_unit_wf_def)
  with h264_frame_body [of "[?sps, ?idr]" outbound_init] idr show ?thesis
    by (auto simp: h264_stream_def start_code_def SIZE_MAX_def h264_secret_def)
qed

text \<open>
  H265: when every coded slice unit has its two header bytes, the whole frame is processed
  within bounds; the body is the frame's NAL units in order, each behind a four byte start code, and
  the secret bytes are those of the coded slice units behind the header.
\<close>

lemma h265_frame_body:
  assumes "5 \<le> length frame" "length frame < SIZE_MAX"
    and "\<forall>u \<in> set (nal_units frame (next_h26x_nalu_index frame 0)). h265_unit_ok frame u"
  shows "\<exists>p'. process_frame p frame H265 = Some p'
     \<and> outbound_body p' = concat (map (nalu_bytes frame) (nal_units frame (next_h26x_nalu_index frame 0)))
     \<and> ob_encrypted_bytes p' = concat (map (\<lambda>u. concat (map secret_bytes (h265_chunks frame u)))
          (nal_units frame (next_h26x_nalu_index frame 0)))"
proof -
  let ?n = "next_h26x_nalu_index frame 0"
  have hit: "\<forall>s c. ?n = Some (s, c) \<longrightarrow> 0 < s \<and> s < length frame \<and> frame ! (s - 1) = 1"
    by (auto dest: next_nalu_hit)
  have "process_codec q frame H265
      = Some (foldl sink.feed q (concat (map (h265_chunks frame) (nal_units frame ?n))), True)" for q
    using process_frame_h265_eq [OF assms] by (simp add: process_codec_def)
  from process_frame_fed [OF this] h265.loop_eq [OF assms(3,2) hit]
  show ?thesis by (simp add: concat_map_concat comp_def) blast
qed

theorem h265_frame_body_witness:
  "\<exists>p'. process_frame outbound_init [0, 0, 0, 1, 0x26, 1, 7, 8] H265 = Some p'
     \<and> outbound_body p' = [0, 0, 0, 1, 0x26, 1, 7, 8] \<and> ob_encrypted_bytes p' = [7, 8]"
proof -
  let ?f = "[0, 0, 0, 1, 0x26, 1, 7, 8] :: bytes"
  have n: "next_h26x_nalu_index ?f 0 = Some (4, 4)" "next_h26x_nalu_index ?f 4 = None"
    by (simp_all add: next_h26x_nalu_index_def nalu_search.simps NALU_SHORT_START_SEQUENCE_SIZE_def)
  have units: "nal_units ?f (next_h26x_nalu_index ?f 0) = [(4, 8)]"
    by (simp add: nal_units.simps n nalu_end_def)
  show ?thesis
    using h265_frame_body [of ?f outbound_init]
    by (simp add: units h265_unit_ok_def SIZE_MAX_def nalu_bytes_def NALU_LONG_START_CODE_def h265_chunks_def)
qed

text \<open>
  A slice unit that is shorter than the bytes that cover its parameter set id makes
  \<open>process_frame_h264\<close> read behind the frame: the five byte frame 00 00 01 65 01.
\<close>

theorem h264_short_slice_overread:
  "process_frame p [0, 0, 1, 0x65, 0x01] H264 = None"
proof -
  let ?f = "[0, 0, 1, 0x65, 0x01] :: bytes"
  have n: "next_h26x_nalu_index ?f 0 = Some (3, 3)" "next_h26x_nalu_index ?f 3 = None"
    by (simp_all add: next_h26x_nalu_index_def nalu_search.simps NALU_SHORT_START_SEQUENCE_SIZE_def)
  have pps: "bytes_covering_h264_pps [1] = 2"
    by (simp add: bytes_covering_h264_pps_def pps_loop.simps)
  show ?thesis
    by (simp add: process_frame_def process_codec_def process_frame_h264_def h26x_loop.simps n nalu_end_def
        h264_nalu_def pps span_subspan_def subspan_def SIZE_MAX_def NALU_SHORT_START_SEQUENCE_SIZE_def)
qed

text \<open>
  C12. AV1: on a frame in which no unit's declared size makes the index wrap around, processing
  ends, stays within bounds and leaves the processor consistent, also when the frame is malformed.
\<close>

theorem av1_frame_returns:
  assumes "av1_no_wrap frame" "length frame < SIZE_MAX"
  shows "\<exists>p'. process_frame p frame Av1 = Some p' \<and> outbound_inv p'
     \<and> length (ob_ciphertext_bytes p') = length (ob_encrypted_bytes p')"
proof -
  obtain q ok where "process_frame_av1 ((outbound_reset p)\<lparr>ob_frame_codec := Av1\<rparr>) frame = Some (q, ok)"
    using av1_loop_safe [OF assms, of 0 "(outbound_reset p)\<lparr>ob_frame_codec := Av1\<rparr>"]
    by (auto simp: process_frame_av1_def)
  then obtain p' where "process_frame p frame Av1 = Some p'"
    by (auto simp: process_frame_def process_codec_def Let_def)
  then show ?thesis
    using process_frame_inv by blast
qed

theorem av1_frame_returns_witness:
  "av1_no_wrap [0x30, 7, 8] \<and> (\<exists>p'. process_frame outbound_init [0x30, 7, 8] Av1 = Some p')"
proof -
  have "[0..<length [0x30, 7, 8 :: u8]] = [0, 1, 2]"
    by (simp add: upt_rec)
  moreover have "av1_obu_payload [0x30, 7, 8] 0 = Some (1, 2)" "av1_obu_payload [0x30, 7, 8] 1 = None"
    "av1_obu_payload [0x30, 7, 8] (Suc (Suc 0)) = None"
    by (simp_all add: av1_obu_payload_def)
  ultimately have "av1_no_wrap [0x30, 7, 8]"
    unfolding av1_no_wrap_def by (simp add: SIZE_MAX_def)
  with av1_frame_returns [of "[0x30, 7, 8]" outbound_init] show ?thesis
    by (auto simp: SIZE_MAX_def)
qed



section \<open>The frame format\<close>

text \<open>
  C10. Parsing inverts the frame layout: for ranges in order that cover the clear bytes, an
  eight byte tag and at most 255 supplemental bytes, \<open>parse_frame\<close> recovers every part, and
  reconstruction from the recovered ranges with any plaintext of the same size gives the woven
  frame.
\<close>

theorem frame_format_roundtrip:
  assumes rs: "in_order 0 rs" "covered rs = length clear" "gaps 0 rs \<le> length ct" "sized rs"
    and len: "length tag = 8" "supplemental_size rs nonce \<le> 255"
      "length (frame_layout rs clear ct tag nonce) \<le> SIZE_MAX"
    and out: "length pt = length ct" "length clear + length pt \<le> length out"
  shows "\<exists>p' out'. parse_frame p (frame_layout rs clear ct tag nonce) = Some p'
     \<and> ib_encrypted p' \<and> ib_tag p' = tag \<and> ib_truncated_nonce p' = nonce
     \<and> ib_unencrypted_ranges p' = rs \<and> ib_authenticated p' = clear \<and> ib_ciphertext p' = ct
     \<and> inbound_reconstruct_frame (p'\<lparr>ib_plaintext := pt\<rparr>) out = Some (out', length clear + length pt)
     \<and> take (length clear + length pt) out' = weave rs clear pt"
proof -
  note parse = parse_frame_layout [OF rs len(1,2) refl len(3), of p]
  have "gaps 0 rs \<le> length pt" using rs(3) out(1) by simp
  from do_reconstruct_weave [OF rs(1,2) this out(2)] out show ?thesis
    by (auto simp: parse inbound_reconstruct_frame_def)
qed

theorem frame_format_roundtrip_witness:
  "parse_frame inbound_init (frame_layout [mk_range 2 2] [8, 9] [5, 6] (replicate 8 0) 3) \<noteq> None
   \<and> in_order 0 [mk_range 2 2]"
proof -
  have s: "supplemental_size [mk_range 2 2] 3 = 14"
    by (simp add: supplemental_size_def range_bytes_def leb128_bytes.simps word_le_nat_alt)
  have l: "length (frame_layout [mk_range 2 2] [8, 9] [5, 6] (replicate 8 0) 3) = 18"
    by (simp add: frame_layout_def length_weave length_supplemental_bytes s)
  show ?thesis
    using frame_format_roundtrip [of "[mk_range 2 2]" "[8, 9]" "[5, 6]" "replicate 8 0" 3 "[0, 0]" "replicate 4 0"
        inbound_init] s l
    by (auto simp: sized_def SIZE_MAX_def)
qed

end
