(* ===== verification/Lru_Cache.thy ===== *)
theory Lru_Cache
  imports Prelude
begin

text \<open>
  \<^verbatim>\<open>include/ekizu/lru_cache.hpp\<close>: a list of entries, most recently used first, and a map
  from keys to list iterators. An iterator is the identity of a list node, so a node is its
  identity with its key and value; \<open>lru_next\<close> is the next unused identity. Erasing through an
  iterator that is not in the list, or popping an empty list, is undefined behaviour:
  \<^term>\<open>None\<close>.

  The second half gives the specification (a bounded recency list), the refinement, and the
  contract a user of the cache relies on, the interface \<open>recency_cache\<close>.
\<close>

type_synonym ('k, 'v) node = "nat \<times> 'k \<times> 'v"

record ('k, 'v) lru =
  lru_capacity :: nat
  lru_list :: "('k, 'v) node list"
  lru_map :: "'k \<rightharpoonup> nat"
  lru_next :: nat

definition LruCache :: "nat \<Rightarrow> ('k, 'v) lru" where
  "LruCache capacity = \<lparr>lru_capacity = capacity, lru_list = [], lru_map = Map.empty, lru_next = 0\<rparr>"

text \<open>\<^verbatim>\<open>std::list\<close>: emplace at the front, erase through an iterator, splice to the front.\<close>

definition emplace_front :: "'k \<Rightarrow> 'v \<Rightarrow> ('k, 'v) lru \<Rightarrow> ('k, 'v) lru" where
  "emplace_front k v c = c\<lparr>lru_list := (lru_next c, k, v) # lru_list c, lru_next := Suc (lru_next c)\<rparr>"

definition list_erase :: "nat \<Rightarrow> ('k, 'v) node list \<Rightarrow> ('k, 'v) node list option" where
  "list_erase it xs = (if it \<in> fst ` set xs then Some (filter (\<lambda>n. fst n \<noteq> it) xs) else None)"

definition deref :: "nat \<Rightarrow> ('k, 'v) node list \<Rightarrow> ('k \<times> 'v) option" where
  "deref it xs = map_of xs it"

definition splice_front :: "nat \<Rightarrow> ('k, 'v) node list \<Rightarrow> ('k, 'v) node list option" where
  "splice_front it xs = do {
     kv \<leftarrow> deref it xs;
     rest \<leftarrow> list_erase it xs;
     Some ((it, kv) # rest)
   }"

definition map_erase :: "'k \<Rightarrow> ('k \<rightharpoonup> nat) \<Rightarrow> ('k \<rightharpoonup> nat)" where
  "map_erase k m = m(k := None)"

text \<open>
  \<^verbatim>\<open>update_lru\<close>. The iterator of the front node is found after the old node was erased, as in
  the source.
\<close>

definition update_lru :: "'k \<Rightarrow> ('k, 'v) lru \<Rightarrow> ('k, 'v) lru option" where
  "update_lru key c0 = do {
     c \<leftarrow> (case lru_map c0 key of
             None \<Rightarrow> Some c0
           | Some it \<Rightarrow> map_option (\<lambda>xs. c0\<lparr>lru_list := xs, lru_map := map_erase key (lru_map c0)\<rparr>)
                         (list_erase it (lru_list c0)));
     front \<leftarrow> elem_at (lru_list c) 0;
     let c1 = c\<lparr>lru_map := (lru_map c)(key \<mapsto> fst front)\<rparr>;
     if card (dom (lru_map c1)) > lru_capacity c1 then
       (if lru_list c1 = [] then None
        else Some (c1\<lparr>lru_map := map_erase (fst (snd (last (lru_list c1)))) (lru_map c1),
                      lru_list := butlast (lru_list c1)\<rparr>))
     else Some c1
   }"

text \<open>
  \<open>put\<close> forwards the key into the new node and then uses it again; \<open>key_after\<close> is its
  value then: the same for a copied or trivially copyable key, a moved-from value for an rvalue of
  a type like \<^verbatim>\<open>std::string\<close>. \<open>emplace\<close> copies it first.
\<close>

definition put :: "'k \<Rightarrow> 'k \<Rightarrow> 'v \<Rightarrow> ('k, 'v) lru \<Rightarrow> ('k, 'v) lru option" where
  "put key key_after v c = update_lru key_after (emplace_front key v c)"

definition emplace :: "'k \<Rightarrow> 'v \<Rightarrow> ('k, 'v) lru \<Rightarrow> ('k, 'v) lru option" where
  "emplace key v c = update_lru key (emplace_front key v c)"

definition get :: "'k \<Rightarrow> ('k, 'v) lru \<Rightarrow> (('k, 'v) lru \<times> 'v option) option" where
  "get key c =
     (case lru_map c key of
        None \<Rightarrow> Some (c, None)
      | Some it \<Rightarrow> do {
          xs \<leftarrow> splice_front it (lru_list c);
          kv \<leftarrow> deref it xs;
          Some (c\<lparr>lru_list := xs\<rparr>, Some (snd kv))
        })"

definition remove :: "'k \<Rightarrow> ('k, 'v) lru \<Rightarrow> ('k, 'v) lru option" where
  "remove key c =
     (case lru_map c key of
        None \<Rightarrow> Some c
      | Some it \<Rightarrow> map_option (\<lambda>xs. c\<lparr>lru_list := xs, lru_map := map_erase key (lru_map c)\<rparr>)
                    (list_erase it (lru_list c)))"

definition has :: "'k \<Rightarrow> ('k, 'v) lru \<Rightarrow> bool" where
  "has key c = (lru_map c key \<noteq> None)"

definition cache_size :: "('k, 'v) lru \<Rightarrow> nat" where
  "cache_size c = card (dom (lru_map c))"

definition cache_empty :: "('k, 'v) lru \<Rightarrow> bool" where
  "cache_empty c = (lru_map c = Map.empty)"

section \<open>Invariant\<close>

definition entries :: "('k, 'v) lru \<Rightarrow> ('k \<times> 'v) list" where
  "entries c = map snd (lru_list c)"

definition node_key :: "('k, 'v) node \<Rightarrow> 'k" where
  "node_key n = fst (snd n)"

definition lru_wf :: "('k, 'v) lru \<Rightarrow> bool" where
  "lru_wf c \<longleftrightarrow> distinct (map fst (lru_list c)) \<and> distinct (map node_key (lru_list c))
     \<and> (\<forall>n \<in> set (lru_list c). fst n < lru_next c)
     \<and> lru_map c = map_of (map (\<lambda>n. (node_key n, fst n)) (lru_list c))"

definition lru_inv :: "('k, 'v) lru \<Rightarrow> bool" where
  "lru_inv c \<longleftrightarrow> lru_wf c \<and> length (lru_list c) \<le> lru_capacity c"

lemma lru_inv_init: "lru_inv (LruCache n)" "entries (LruCache n) = []"
  by (simp_all add: lru_inv_def lru_wf_def LruCache_def entries_def)

lemma keys_entries: "map fst (entries c) = map node_key (lru_list c)"
  by (simp add: entries_def node_key_def)

lemma wf_map_Some:
  assumes "lru_wf c"
  shows "lru_map c k = Some it \<longleftrightarrow> (\<exists>v. (it, k, v) \<in> set (lru_list c))"
proof -
  have "distinct (map fst (map (\<lambda>n. (node_key n, fst n)) (lru_list c)))"
    using assms by (simp add: lru_wf_def comp_def)
  moreover have "lru_map c = map_of (map (\<lambda>n. (node_key n, fst n)) (lru_list c))"
    using assms by (simp add: lru_wf_def)
  ultimately show ?thesis
    by (simp add: map_of_eq_Some_iff node_key_def) force
qed

lemma wf_map_None: "lru_wf c \<Longrightarrow> lru_map c k = None \<longleftrightarrow> k \<notin> node_key ` set (lru_list c)"
  by (auto simp: lru_wf_def map_of_eq_None_iff image_image)

lemma wf_dom:
  assumes "lru_wf c"
  shows "card (dom (lru_map c)) = length (lru_list c)"
proof -
  have "dom (lru_map c) = set (map node_key (lru_list c))"
    using assms by (simp add: lru_wf_def dom_map_of_conv_image_fst image_image)
  moreover have "distinct (map node_key (lru_list c))"
    using assms by (simp add: lru_wf_def)
  ultimately show ?thesis by (simp only: distinct_card length_map)
qed

text \<open>The node an iterator of the map points at is the node with the key.\<close>

lemma wf_node_unique:
  assumes "lru_wf c" "(it, k, v) \<in> set (lru_list c)" "n \<in> set (lru_list c)"
  shows "fst n = it \<longleftrightarrow> node_key n = k"
proof -
  have "inj_on fst (set (lru_list c))" "inj_on node_key (set (lru_list c))"
    using assms(1) by (simp_all add: lru_wf_def distinct_map)
  from inj_on_eq_iff [OF this(1) assms(3,2)] inj_on_eq_iff [OF this(2) assms(3,2)]
  show ?thesis by (simp add: node_key_def)
qed

definition without :: "'k \<Rightarrow> ('k, 'v) node list \<Rightarrow> ('k, 'v) node list" where
  "without k xs = filter (\<lambda>n. node_key n \<noteq> k) xs"

lemma set_without: "set (without k xs) = {n \<in> set xs. node_key n \<noteq> k}"
  by (auto simp: without_def)

lemma without_id: "k \<notin> node_key ` set xs \<Longrightarrow> without k xs = xs"
  by (auto simp: without_def filter_id_conv)

lemma wf_erase:
  assumes "lru_wf c" "lru_map c k = Some it"
  shows "list_erase it (lru_list c) = Some (without k (lru_list c))"
    "list_erase it ((lru_next c, k', v') # lru_list c) = Some ((lru_next c, k', v') # without k (lru_list c))"
proof -
  obtain v where v: "(it, k, v) \<in> set (lru_list c)"
    using assms wf_map_Some by fast
  have flt: "filter (\<lambda>n. fst n \<noteq> it) (lru_list c) = without k (lru_list c)"
    unfolding without_def using wf_node_unique [OF assms(1) v] by (intro filter_cong) auto
  have mem: "it \<in> fst ` set (lru_list c)" using v by force
  have "it \<noteq> lru_next c" using v assms(1) by (force simp: lru_wf_def)
  with flt mem show "list_erase it (lru_list c) = Some (without k (lru_list c))"
    "list_erase it ((lru_next c, k', v') # lru_list c) = Some ((lru_next c, k', v') # without k (lru_list c))"
    by (auto simp: list_erase_def)
qed

lemma wf_map_without:
  assumes "lru_wf c"
  shows "map_erase k (lru_map c) = map_of (map (\<lambda>n. (node_key n, fst n)) (without k (lru_list c)))"
proof -
  have "map_of (map (\<lambda>n. (node_key n, fst n)) (filter (\<lambda>n. node_key n \<noteq> k) xs)) x
      = (if x = k then None else map_of (map (\<lambda>n. (node_key n, fst n)) xs) x)" for xs :: "('a, 'b) node list" and x
    by (induction xs) auto
  with assms show ?thesis by (simp add: lru_wf_def map_erase_def without_def fun_eq_iff)
qed

lemma wf_without:
  assumes "lru_wf c"
  shows "lru_wf (c\<lparr>lru_list := without k (lru_list c), lru_map := map_erase k (lru_map c)\<rparr>)"
  using assms wf_map_without [OF assms, of k]
  by (auto simp: lru_wf_def without_def distinct_map_filter)

text \<open>The cache after a \<open>put\<close>, before and after the eviction.\<close>

definition put_nodes :: "'k \<Rightarrow> 'v \<Rightarrow> ('k, 'v) lru \<Rightarrow> ('k, 'v) lru" where
  "put_nodes k v c = c\<lparr>lru_list := (lru_next c, k, v) # without k (lru_list c),
     lru_map := (map_erase k (lru_map c))(k \<mapsto> lru_next c), lru_next := Suc (lru_next c)\<rparr>"

lemma wf_put_nodes: "lru_wf c \<Longrightarrow> lru_wf (put_nodes k v c)"
  using wf_without [of c k]
  by (auto simp: lru_wf_def put_nodes_def node_key_def set_without dest: less_SucI)

lemma wf_evict:
  assumes "lru_wf c" "lru_list c \<noteq> []"
  shows "lru_wf (c\<lparr>lru_map := map_erase (node_key (last (lru_list c))) (lru_map c),
    lru_list := butlast (lru_list c)\<rparr>)"
proof -
  obtain xs n where xs: "lru_list c = xs @ [n]"
    using assms(2) by (cases "lru_list c" rule: rev_cases) auto
  have "node_key n \<notin> node_key ` set xs"
    using assms(1) by (auto simp: lru_wf_def xs)
  then have "without (node_key n) (lru_list c) = xs"
    by (simp add: xs without_id) (simp add: without_def without_id [unfolded without_def])
  with wf_without [OF assms(1), of "node_key n"] show ?thesis
    by (simp add: xs lru_wf_def)
qed

lemma update_lru_eq:
  assumes "lru_wf c"
  shows "update_lru k (emplace_front k v c) =
    (let c1 = put_nodes k v c in
     if length (lru_list c1) > lru_capacity c
     then Some (c1\<lparr>lru_map := map_erase (node_key (last (lru_list c1))) (lru_map c1),
                   lru_list := butlast (lru_list c1)\<rparr>)
     else Some c1)"
proof -
  have "card (dom (lru_map (put_nodes k v c))) = length (lru_list (put_nodes k v c))"
    using wf_put_nodes [OF assms] by (rule wf_dom)
  moreover have "lru_map c k = None \<Longrightarrow> without k (lru_list c) = lru_list c"
    "lru_map c k = None \<Longrightarrow> map_erase k (lru_map c) = lru_map c"
    using wf_map_None [OF assms, of k] by (auto simp: without_id map_erase_def fun_upd_idem)
  ultimately show ?thesis
    using wf_erase(2) [OF assms, of k]
    by (cases "lru_map c k")
      (simp_all add: update_lru_def emplace_front_def put_nodes_def elem_at_def Let_def node_key_def)
qed

section \<open>Specification and refinement\<close>

definition spec_put :: "nat \<Rightarrow> 'k \<Rightarrow> 'v \<Rightarrow> ('k \<times> 'v) list \<Rightarrow> ('k \<times> 'v) list" where
  "spec_put capacity k v es = take capacity ((k, v) # filter (\<lambda>e. fst e \<noteq> k) es)"

definition spec_touch :: "'k \<Rightarrow> ('k \<times> 'v) list \<Rightarrow> ('k \<times> 'v) list" where
  "spec_touch k es = (case map_of es k of None \<Rightarrow> es | Some v \<Rightarrow> (k, v) # filter (\<lambda>e. fst e \<noteq> k) es)"

lemma entries_without: "map snd (without k xs) = filter (\<lambda>e. fst e \<noteq> k) (map snd xs)"
  by (induction xs) (auto simp: without_def node_key_def)

lemma length_without: "length (without k xs) \<le> length xs"
  by (simp add: without_def)

lemma put_refines:
  assumes "lru_inv c"
  shows "\<exists>c'. put k k v c = Some c' \<and> lru_inv c' \<and> lru_capacity c' = lru_capacity c
     \<and> entries c' = spec_put (lru_capacity c) k v (entries c)"
proof -
  let ?c1 = "put_nodes k v c"
  let ?c2 = "?c1\<lparr>lru_map := map_erase (node_key (last (lru_list ?c1))) (lru_map ?c1),
                 lru_list := butlast (lru_list ?c1)\<rparr>"
  have wf: "lru_wf ?c1" using assms by (simp add: lru_inv_def wf_put_nodes)
  have ne: "lru_list ?c1 \<noteq> []" by (simp add: put_nodes_def)
  have cap: "lru_capacity ?c1 = lru_capacity c" by (simp add: put_nodes_def)
  have len: "length (lru_list ?c1) \<le> Suc (lru_capacity c)"
    using assms length_without [of k "lru_list c"] by (simp add: lru_inv_def put_nodes_def)
  have ent: "entries ?c1 = (k, v) # filter (\<lambda>e. fst e \<noteq> k) (entries c)"
    by (simp add: entries_def put_nodes_def entries_without)
  have p: "put k k v c = (if length (lru_list ?c1) > lru_capacity c then Some ?c2 else Some ?c1)"
    using assms by (simp add: put_def update_lru_eq lru_inv_def Let_def)
  show ?thesis
  proof (cases "length (lru_list ?c1) > lru_capacity c")
    case True
    then have "length (lru_list ?c1) = Suc (lru_capacity c)" using len by simp
    moreover from this have "entries ?c2 = take (lru_capacity c) (entries ?c1)"
      by (simp add: entries_def butlast_conv_take take_map)
    ultimately show ?thesis
      using True p wf_evict [OF wf ne] cap ent by (simp add: lru_inv_def spec_put_def)
  next
    case False
    then have "length (entries ?c1) \<le> lru_capacity c" by (simp add: entries_def)
    with False show ?thesis
      using p wf cap by (simp add: lru_inv_def spec_put_def flip: ent)
  qed
qed

lemma get_refines:
  assumes "lru_inv c"
  shows "\<exists>c'. get k c = Some (c', map_of (entries c) k) \<and> lru_inv c' \<and> lru_capacity c' = lru_capacity c
     \<and> entries c' = spec_touch k (entries c)"
proof (cases "lru_map c k")
  case None
  then have "k \<notin> fst ` set (entries c)"
    using assms wf_map_None [of c k] by (auto simp: lru_inv_def entries_def node_key_def image_iff)
  then have "map_of (entries c) k = None" by (simp add: map_of_eq_None_iff)
  with None assms show ?thesis by (simp add: get_def spec_touch_def)
next
  case (Some it)
  have wf: "lru_wf c" using assms by (simp add: lru_inv_def)
  obtain v where v: "(it, k, v) \<in> set (lru_list c)"
    using wf Some wf_map_Some by fast
  have mo: "map_of (lru_list c) it = Some (k, v)"
    using wf v by (intro map_of_is_SomeI) (simp_all add: lru_wf_def)
  have "distinct (map fst (entries c))" using wf by (simp add: lru_wf_def keys_entries)
  moreover have "(k, v) \<in> set (entries c)" using v by (force simp: entries_def)
  ultimately have me: "map_of (entries c) k = Some v" by (rule map_of_is_SomeI)
  let ?c' = "c\<lparr>lru_list := (it, k, v) # without k (lru_list c)\<rparr>"
  have g: "get k c = Some (?c', Some v)"
    using wf_erase(1) [OF wf Some] by (simp add: get_def Some splice_front_def deref_def mo)
  have "lru_wf ?c'"
  proof -
    have "lru_map c = (map_erase k (lru_map c))(k \<mapsto> it)" using Some by (auto simp: map_erase_def)
    with wf_map_without [OF wf, of k]
    have "lru_map c = map_of (map (\<lambda>n. (node_key n, fst n)) ((it, k, v) # without k (lru_list c)))"
      by (simp add: node_key_def)
    moreover have "it \<notin> fst ` set (without k (lru_list c))"
      using wf_node_unique [OF wf v] by (auto simp: set_without)
    ultimately show ?thesis
      using wf_without [OF wf, of k] wf v by (auto simp: lru_wf_def node_key_def set_without)
  qed
  moreover have "length ((it, k, v) # without k (lru_list c)) \<le> length (lru_list c)"
  proof -
    have "length (without k (lru_list c)) < length (lru_list c)"
      unfolding without_def using v by (intro length_filter_less) (auto simp: node_key_def)
    then show ?thesis by simp
  qed
  moreover have "entries ?c' = spec_touch k (entries c)"
    unfolding spec_touch_def me by (simp add: entries_def entries_without)
  ultimately show ?thesis
    using g me assms by (simp add: lru_inv_def)
qed

lemma remove_refines:
  assumes "lru_inv c"
  shows "\<exists>c'. remove k c = Some c' \<and> lru_inv c' \<and> lru_capacity c' = lru_capacity c
     \<and> entries c' = filter (\<lambda>e. fst e \<noteq> k) (entries c)"
proof (cases "lru_map c k")
  case None
  then have "without k (lru_list c) = lru_list c"
    using assms wf_map_None [of c k] by (simp add: lru_inv_def without_id)
  with None assms show ?thesis
    using entries_without [of k "lru_list c"] by (simp add: remove_def entries_def)
next
  case (Some it)
  have wf: "lru_wf c" using assms by (simp add: lru_inv_def)
  show ?thesis
    using wf_erase(1) [OF wf Some] wf_without [OF wf, of k] assms length_without [of k "lru_list c"]
    by (simp add: remove_def Some lru_inv_def entries_def entries_without)
qed

lemma has_entries: "lru_inv c \<Longrightarrow> has k c \<longleftrightarrow> k \<in> fst ` set (entries c)"
  using wf_map_None [of c k] by (auto simp: has_def lru_inv_def entries_def node_key_def image_iff)

lemma cache_size_entries: "lru_inv c \<Longrightarrow> cache_size c = length (entries c)"
  by (simp add: cache_size_def lru_inv_def wf_dom entries_def)

lemma entries_distinct: "lru_inv c \<Longrightarrow> distinct (map fst (entries c))"
  by (simp add: lru_inv_def lru_wf_def keys_entries)

section \<open>What a user of the cache relies on\<close>

locale recency_cache =
  fixes inv :: "'s \<Rightarrow> bool"
    and view :: "'s \<Rightarrow> ('k \<times> 'v) list"
    and cap :: "'s \<Rightarrow> nat"
    and insert :: "'k \<Rightarrow> 'v \<Rightarrow> 's \<Rightarrow> 's option"
    and lookup :: "'k \<Rightarrow> 's \<Rightarrow> ('s \<times> 'v option) option"
  assumes insert_law: "inv s \<Longrightarrow> \<exists>s'. insert k v s = Some s' \<and> inv s' \<and> cap s' = cap s
        \<and> view s' = spec_put (cap s) k v (view s)"
    and lookup_law: "inv s \<Longrightarrow> \<exists>s'. lookup k s = Some (s', map_of (view s) k) \<and> inv s' \<and> cap s' = cap s
        \<and> view s' = spec_touch k (view s)"
    and view_distinct: "inv s \<Longrightarrow> distinct (map fst (view s))"
begin

fun insert_all :: "('k \<times> 'v) list \<Rightarrow> 's \<Rightarrow> 's option" where
  "insert_all [] s = Some s"
| "insert_all ((k, v) # kvs) s = Option.bind (insert k v s) (insert_all kvs)"

lemma insert_lookup:
  assumes "inv s" "0 < cap s"
  obtains s' s'' where "insert k v s = Some s'" "lookup k s' = Some (s'', Some v)"
proof -
  from insert_law [OF assms(1), of k v] obtain s' where s': "insert k v s = Some s'" "inv s'"
    "view s' = spec_put (cap s) k v (view s)" by blast
  have "map_of (view s') k = Some v"
    using assms(2) by (cases "cap s") (simp_all add: s'(3) spec_put_def)
  with s' lookup_law [OF s'(2), of k] that show thesis by fastforce
qed

text \<open>
  Retention: an entry with keys from a set \<open>K\<close> in front of it, fewer than the capacity, stays
  while only keys of \<open>K\<close> are inserted.
\<close>

lemma insert_keeps:
  assumes "inv s" "view s = pre @ (k, v) # post" "fst ` set pre \<subseteq> K" "finite K" "card K < cap s"
    and "k' \<in> K" "k' \<noteq> k"
  shows "\<exists>s' pre' post'. insert k' v' s = Some s' \<and> inv s' \<and> cap s' = cap s
     \<and> view s' = pre' @ (k, v) # post' \<and> fst ` set pre' \<subseteq> K"
proof -
  from insert_law [OF assms(1), of k' v'] obtain s' where s': "insert k' v' s = Some s'" "inv s'" "cap s' = cap s"
    "view s' = spec_put (cap s) k' v' (view s)" by blast
  let ?pre = "(k', v') # filter (\<lambda>e. fst e \<noteq> k') pre"
  let ?post = "filter (\<lambda>e. fst e \<noteq> k') post"
  have sub: "fst ` set ?pre \<subseteq> K" using assms(3,6) by auto
  have "distinct (map fst pre)" using view_distinct [OF assms(1)] assms(2) by simp
  then have "distinct (map fst ?pre)" by (auto simp: distinct_map_filter)
  then have "length ?pre = card (fst ` set ?pre)"
    by (metis distinct_card length_map list.set_map)
  also have "\<dots> \<le> card K" using sub assms(4) by (rule card_mono [rotated])
  finally have lt: "length ?pre < cap s" using assms(5) by simp
  then obtain n where n: "cap s = length ?pre + Suc n"
    by (metis add_Suc_right less_iff_Suc_add)
  have "view s' = ?pre @ (k, v) # take n ?post"
    using assms(7) by (simp add: s'(4) spec_put_def assms(2) n)
  with s'(1-3) sub show ?thesis by blast
qed

lemma retention:
  assumes "inv s" "view s = pre @ (k, v) # post" "fst ` set pre \<subseteq> K" "finite K" "card K < cap s"
    and "fst ` set kvs \<subseteq> K" "k \<notin> K"
  shows "\<exists>s'. insert_all kvs s = Some s' \<and> inv s' \<and> map_of (view s') k = Some v"
  using assms(1-3,5,6)
proof (induction kvs arbitrary: s pre post)
  case Nil
  have "(k, v) \<in> set (view s)" using Nil.prems(2) by simp
  with view_distinct [OF Nil.prems(1)] have "map_of (view s) k = Some v"
    by (rule map_of_is_SomeI)
  with Nil.prems(1) show ?case by simp
next
  case (Cons kv kvs)
  obtain k' v' where kv: "kv = (k', v')" by (cases kv)
  have k': "k' \<in> K" "k' \<noteq> k" using Cons.prems(5) assms(7) kv by auto
  obtain s' pre' post' where s': "insert k' v' s = Some s'" "inv s'" "cap s' = cap s"
    "view s' = pre' @ (k, v) # post'" "fst ` set pre' \<subseteq> K"
    using insert_keeps [OF Cons.prems(1-3) assms(4) Cons.prems(4) k'] by blast
  have "\<exists>s''. insert_all kvs s' = Some s'' \<and> inv s'' \<and> map_of (view s'') k = Some v"
    using Cons.IH [OF s'(2,4,5)] Cons.prems(4,5) s'(3) by simp
  then show ?case by (simp add: kv s'(1))
qed

end

interpretation lru: recency_cache lru_inv entries lru_capacity "\<lambda>k. put k k" get
  by unfold_locales (rule put_refines get_refines entries_distinct, assumption)+

section \<open>Properties\<close>

text \<open>
  C9. The cache implements the bounded recency list: from a well-formed cache every operation
  succeeds without touching a dangling iterator and keeps the invariant (one node per key, the map
  pointing at exactly those nodes, at most \<open>capacity\<close> of them); \<open>put\<close> moves the entry to the
  front and drops what exceeds the capacity, \<open>get\<close> returns the entry's value and moves it to the
  front, \<open>remove\<close> deletes it, \<open>has\<close> and \<open>size\<close> report the entries. For \<open>put\<close> this is about
  keys that keep their value when they are moved from: lvalues, and the integers and snowflakes the library uses as
  keys (for other keys see \<open>lru_put_moved_key_lost\<close>).
\<close>

theorem lru_refines_recency_list:
  assumes "lru_inv c"
  shows "(\<exists>c'. put k k v c = Some c' \<and> lru_inv c' \<and> entries c' = spec_put (lru_capacity c) k v (entries c))
    \<and> (\<exists>c'. emplace k v c = Some c' \<and> lru_inv c' \<and> entries c' = spec_put (lru_capacity c) k v (entries c))
    \<and> (\<exists>c'. get k c = Some (c', map_of (entries c) k) \<and> lru_inv c' \<and> entries c' = spec_touch k (entries c))
    \<and> (\<exists>c'. remove k c = Some c' \<and> lru_inv c' \<and> entries c' = filter (\<lambda>e. fst e \<noteq> k) (entries c))
    \<and> (has k c \<longleftrightarrow> k \<in> fst ` set (entries c)) \<and> cache_size c = length (entries c)
    \<and> cache_size c \<le> lru_capacity c"
proof -
  have "emplace k v c = put k k v c" by (simp add: emplace_def put_def)
  moreover have "cache_size c \<le> lru_capacity c"
    using assms by (simp add: cache_size_entries entries_def lru_inv_def)
  ultimately show ?thesis
    using put_refines [OF assms, of k v] get_refines [OF assms, of k] remove_refines [OF assms, of k]
      has_entries [OF assms, of k] cache_size_entries [OF assms] by auto
qed

theorem lru_refines_recency_list_witness:
  "\<exists>c'. put (7 :: nat) 7 ''x'' (LruCache 2) = Some c' \<and> entries c' = [(7, ''x'')]"
proof -
  have "lru_capacity (LruCache 2 :: (nat, string) lru) = 2" by (simp add: LruCache_def)
  with lru_refines_recency_list [OF lru_inv_init(1), of "7 :: nat" "''x''" 2] show ?thesis
    by (auto simp: lru_inv_init spec_put_def)
qed

text \<open>
  Retention: after \<open>put k v\<close>, the key is still there with its value however many
  entries are inserted, as long as the other keys inserted since are fewer than the capacity.
\<close>

theorem lru_retention:
  assumes "lru_inv c" "card (fst ` set kvs) < lru_capacity c" "k \<notin> fst ` set kvs"
  shows "\<exists>c1 c2. put k k v c = Some c1 \<and> lru.insert_all kvs c1 = Some c2
     \<and> map_of (entries c2) k = Some v \<and> has k c2"
proof -
  obtain c1 where c1: "put k k v c = Some c1" "lru_inv c1" "lru_capacity c1 = lru_capacity c"
    "entries c1 = spec_put (lru_capacity c) k v (entries c)"
    using put_refines [OF assms(1)] by blast
  obtain n where n: "lru_capacity c = Suc n" using assms(2) by (cases "lru_capacity c") auto
  have e: "entries c1 = [] @ (k, v) # take n (filter (\<lambda>e. fst e \<noteq> k) (entries c))"
    by (simp add: c1(4) spec_put_def n)
  have "\<exists>c2. lru.insert_all kvs c1 = Some c2 \<and> lru_inv c2 \<and> map_of (entries c2) k = Some v"
    by (rule lru.retention [OF c1(2) e, of "fst ` set kvs"]) (use assms c1(3) in auto)
  then obtain c2 where c2: "lru.insert_all kvs c1 = Some c2" "lru_inv c2" "map_of (entries c2) k = Some v"
    by blast
  then have "has k c2"
    by (metis has_entries map_of_eq_None_iff option.distinct(1))
  with c1(1) c2 show ?thesis by blast
qed

theorem lru_retention_witness:
  "\<exists>c1 c2. put (1 :: nat) 1 ''a'' (LruCache 3) = Some c1
     \<and> lru.insert_all [(2, ''b''), (3, ''c''), (2, ''d'')] c1 = Some c2 \<and> has 1 c2"
proof -
  have "card (fst ` set [(2 :: nat, ''b''), (3, ''c''), (2, ''d'')]) < lru_capacity (LruCache 3 :: (nat, string) lru)"
    by (simp add: LruCache_def insert_commute [of 2 3])
  from lru_retention [OF lru_inv_init(1) this, of 1 "''a''"] show ?thesis by auto
qed

text \<open>
  A \<open>put\<close> with an rvalue key of a type that does not keep its value when moved from
  loses the entry: the map gets the moved-from key, and the key that was put is not found.
\<close>

lemma lru_put_moved_key_lost:
  "\<exists>c'. put ''guild'' [] (5 :: nat) (LruCache 2) = Some c' \<and> \<not> has ''guild'' c' \<and> has [] c'
     \<and> entries c' = [(''guild'', 5)]"
  by (simp add: put_def emplace_front_def update_lru_def LruCache_def elem_at_def has_def entries_def)

end
