(* ===== verification/Rate_Limiter.thy ===== *)
theory Rate_Limiter
  imports Prelude "HOL-Library.Multiset"
begin

text \<open>
  \<^verbatim>\<open>src/rate_limiter.cpp\<close>: requests to the Discord API are queued, sent one at a time, held
  back while the route's limit is used up, and completed exactly once. Everything runs on one
  strand, so the limiter is a state machine driven by four kinds of events: a request is
  submitted, the transport answers, the wait timer's handler runs, the limiter is shut down.
  \<^verbatim>\<open>dispatch\<close> to the strand from the strand runs at once, so \<open>finish_one\<close> continues with
  \<open>start_next\<close> directly.

  Times are seconds of the system clock. The identity \<open>pd_id\<close> of a pending request stands for
  its completion handler; \<open>rl_completed\<close> records the handlers posted, in order, with their
  results, and \<open>rl_sent\<close> the requests handed to the send function.
\<close>

section \<open>std::stoul and std::stol\<close>

text \<open>
  Leading white space, an optional sign, then digits; what follows is ignored. No digits or a
  value outside the type is an exception: \<^term>\<open>None\<close>.
\<close>

definition digit_value :: "char \<Rightarrow> nat option" where
  "digit_value c =
     (let n = of_char c :: nat in if 48 \<le> n \<and> n \<le> 57 then Some (n - 48) else None)"

definition is_space :: "char \<Rightarrow> bool" where
  "is_space c = (let n = of_char c :: nat in n = 32 \<or> 9 \<le> n \<and> n \<le> 13)"

fun read_digits :: "string \<Rightarrow> nat \<Rightarrow> nat" where
  "read_digits [] acc = acc"
| "read_digits (c # cs) acc = (case digit_value c of Some d \<Rightarrow> read_digits cs (acc * 10 + d) | None \<Rightarrow> acc)"

definition scan_int :: "string \<Rightarrow> (bool \<times> nat) option" where
  "scan_int s =
     (let s1 = dropWhile is_space s;
          (neg, s2) = (case s1 of c # cs \<Rightarrow> if c = CHR ''-'' then (True, cs)
                                          else if c = CHR ''+'' then (False, cs) else (False, s1)
                       | [] \<Rightarrow> (False, []))
      in case s2 of
           [] \<Rightarrow> None
         | c # _ \<Rightarrow> if digit_value c = None then None else Some (neg, read_digits s2 0))"

definition stoul :: "string \<Rightarrow> nat option" where
  "stoul s = (case scan_int s of
     None \<Rightarrow> None
   | Some (neg, n) \<Rightarrow> if n > SIZE_MAX then None else Some (if neg then wrap64 (2 ^ 64 - n) else n))"

definition stol :: "string \<Rightarrow> int option" where
  "stol s = (case scan_int s of
     None \<Rightarrow> None
   | Some (neg, n) \<Rightarrow>
       (let v = (if neg then - int n else int n)
        in if v < - (2 ^ 63) \<or> v > 2 ^ 63 - 1 then None else Some v))"

section \<open>State\<close>

record http_request =
  rq_method :: string
  rq_target :: string
  rq_headers :: "(string \<times> string) list"

text \<open>
  The response as the code looks at it: status, reason, body and the values of the three rate
  limit headers, where present.
\<close>

record http_response =
  rs_status :: nat
  rs_reason :: string
  rs_body :: string
  rs_limit :: "string option"
  rs_remaining :: "string option"
  rs_reset :: "string option"

datatype rl_error =
    http_redirection | http_client_error | http_rate_limited | http_server_error | http_error
  | rate_limiter_stopped | rate_limiter_send_disabled | operation_aborted | transport_error string

type_synonym rl_result = "rl_error + http_response"

record rate_limit =
  lim_limit :: u16
  lim_remaining :: u16
  lim_reset_time :: int

record pending =
  pd_id :: nat
  pd_req :: http_request

text \<open>The wait timer: no handler outstanding, armed for a time, or cancelled with the handler queued.\<close>

datatype wait_timer = Idle | Armed int | Cancelled

record limiter =
  rl_stopping :: bool
  rl_send_fn :: bool
  rl_rate_limits :: "string \<Rightarrow> string \<rightharpoonup> rate_limit"
  rl_busy :: bool
  rl_queue :: "pending list"
  rl_timer :: wait_timer
  rl_waiting :: "pending option"
  rl_in_flight :: "pending list"
  rl_sent :: "pending list"
  rl_completed :: "(pending \<times> rl_result \<times> string) list"

definition RateLimiter :: "bool \<Rightarrow> limiter" where
  "RateLimiter send_fn = \<lparr>rl_stopping = False, rl_send_fn = send_fn, rl_rate_limits = (\<lambda>_. Map.empty),
     rl_busy = False, rl_queue = [], rl_timer = Idle, rl_waiting = None, rl_in_flight = [],
     rl_sent = [], rl_completed = []\<rparr>"

section \<open>Errors\<close>

definition map_http_status_to_errc :: "nat \<Rightarrow> rl_error" where
  "map_http_status_to_errc status =
     (if status = 429 then http_rate_limited
      else if 300 \<le> status \<and> status < 400 then http_redirection
      else if 400 \<le> status \<and> status < 500 then http_client_error
      else if 500 \<le> status \<and> status < 600 then http_server_error
      else http_error)"

fun decimal :: "nat \<Rightarrow> string" where
  "decimal n = (if n < 10 then [char_of (48 + n)] else decimal (n div 10) @ [char_of (48 + n mod 10)])"

declare decimal.simps [simp del]

definition k_error_body_limit :: nat where
  "k_error_body_limit = 1024"

definition build_http_status_context :: "http_request \<Rightarrow> http_response \<Rightarrow> string" where
  "build_http_status_context req res =
     (let body = (if length (rs_body res) > k_error_body_limit
                  then take k_error_body_limit (rs_body res) @ ''...(truncated)'' else rs_body res);
          headers = concat (map (\<lambda>(name, value). CHR 0x0A # ''  '' @ name @ '': '' @ value) (rq_headers req));
          line = ''HTTP status '' @ decimal (rs_status res) @ '' ('' @ rs_reason res @ '') for ''
                 @ rq_method req @ '' '' @ rq_target req @ headers
      in if body = [] then line else line @ ''; body: '' @ body)"

definition shutdown_context :: string where
  "shutdown_context = ''RateLimiter: shutdown''"

section \<open>Operations\<close>

definition complete :: "pending \<Rightarrow> rl_result \<Rightarrow> string \<Rightarrow> limiter \<Rightarrow> limiter" where
  "complete p result context s = s\<lparr>rl_completed := rl_completed s @ [(p, result, context)]\<rparr>"

definition should_wait :: "int \<Rightarrow> pending \<Rightarrow> limiter \<Rightarrow> int option" where
  "should_wait now p s =
     (case rl_rate_limits s (rq_method (pd_req p)) (rq_target (pd_req p)) of
        None \<Rightarrow> None
      | Some rl \<Rightarrow> if lim_remaining rl = 0 \<and> now < lim_reset_time rl then Some (lim_reset_time rl) else None)"

text \<open>
  The four functions call each other: every round of \<open>start_next\<close> takes a request off the
  queue.
\<close>

function start_next :: "int \<Rightarrow> limiter \<Rightarrow> limiter"
  and maybe_wait_then_send :: "int \<Rightarrow> pending \<Rightarrow> limiter \<Rightarrow> limiter"
  and do_send :: "int \<Rightarrow> pending \<Rightarrow> limiter \<Rightarrow> limiter"
  and finish_one :: "int \<Rightarrow> pending \<Rightarrow> rl_result \<Rightarrow> string \<Rightarrow> limiter \<Rightarrow> limiter" where
  "start_next now s =
     (if rl_stopping s then s\<lparr>rl_busy := False\<rparr>
      else if rl_busy s \<or> rl_queue s = [] then s
      else maybe_wait_then_send now (hd (rl_queue s)) (s\<lparr>rl_busy := True, rl_queue := tl (rl_queue s)\<rparr>))"
| "maybe_wait_then_send now p s =
     (if rl_stopping s then finish_one now p (Inl rate_limiter_stopped) shutdown_context s
      else (case should_wait now p s of
              None \<Rightarrow> do_send now p s
            | Some reset_time \<Rightarrow> s\<lparr>rl_waiting := Some p, rl_timer := Armed reset_time\<rparr>))"
| "do_send now p s =
     (if rl_stopping s then finish_one now p (Inl rate_limiter_stopped) shutdown_context s
      else if \<not> rl_send_fn s
      then finish_one now p (Inl rate_limiter_send_disabled) ''RateLimiter: send function not set'' s
      else s\<lparr>rl_in_flight := rl_in_flight s @ [p], rl_sent := rl_sent s @ [p]\<rparr>)"
| "finish_one now p result context s =
     start_next now ((complete p result context s)\<lparr>rl_busy := False\<rparr>)"
  by pat_completeness auto

termination
  by (relation "measures
      [\<lambda>x. case x of Inl (Inl (_, s)) \<Rightarrow> length (rl_queue s)
                   | Inl (Inr (_, _, s)) \<Rightarrow> length (rl_queue s)
                   | Inr (Inl (_, _, s)) \<Rightarrow> length (rl_queue s)
                   | Inr (Inr (_, _, _, _, s)) \<Rightarrow> length (rl_queue s),
       \<lambda>x. case x of Inl (Inl _) \<Rightarrow> 0 | Inl (Inr _) \<Rightarrow> 3 | Inr (Inl _) \<Rightarrow> 2 | Inr (Inr _) \<Rightarrow> 1]")
    (auto simp: complete_def)

declare start_next.simps [simp del] maybe_wait_then_send.simps [simp del] do_send.simps [simp del]
  finish_one.simps [simp del]

definition async_send_impl :: "int \<Rightarrow> pending \<Rightarrow> limiter \<Rightarrow> limiter" where
  "async_send_impl now p s =
     (if rl_stopping s then complete p (Inl rate_limiter_stopped) shutdown_context s
      else start_next now (s\<lparr>rl_queue := rl_queue s @ [p]\<rparr>))"

text \<open>The handler of the wait timer.\<close>

definition on_timer :: "int \<Rightarrow> rl_error option \<Rightarrow> limiter \<Rightarrow> limiter" where
  "on_timer now ec s0 =
     (let s = s0\<lparr>rl_timer := Idle\<rparr> in
      case rl_waiting s of
        None \<Rightarrow> start_next now (s\<lparr>rl_busy := False\<rparr>)
      | Some p2 \<Rightarrow>
          (let s1 = s\<lparr>rl_waiting := None\<rparr> in
           if rl_stopping s1 then finish_one now p2 (Inl rate_limiter_stopped) shutdown_context s1
           else case ec of
                  Some e \<Rightarrow> finish_one now p2 (Inl e) [] s1
                | None \<Rightarrow> do_send now p2 s1))"

text \<open>
  The handler of the send function: remember the rate limit, then complete the request. A header
  that does not parse is an exception out of the handler, which destroys the pending request and
  leaves the rest as it is: the flag returned is then \<^term>\<open>True\<close>.
\<close>

definition parse_rate_limit :: "http_response \<Rightarrow> rate_limit option option" where
  "parse_rate_limit res =
     (case (rs_limit res, rs_remaining res, rs_reset res) of
        (Some l, Some r, Some t) \<Rightarrow>
          (case (stoul l, stoul r, stol t) of
             (Some l', Some r', Some t') \<Rightarrow>
               Some (Some \<lparr>lim_limit = of_nat l', lim_remaining = of_nat r', lim_reset_time = t'\<rparr>)
           | _ \<Rightarrow> None)
      | _ \<Rightarrow> Some None)"

definition store_rate_limit :: "pending \<Rightarrow> rate_limit option \<Rightarrow> limiter \<Rightarrow> limiter" where
  "store_rate_limit p rl s =
     (case rl of
        None \<Rightarrow> s
      | Some r \<Rightarrow> (let m = rq_method (pd_req p) in
          s\<lparr>rl_rate_limits := (rl_rate_limits s)(m := (rl_rate_limits s m)(rq_target (pd_req p) \<mapsto> r))\<rparr>))"

definition on_response ::
    "int \<Rightarrow> pending \<Rightarrow> (string + http_response) \<Rightarrow> limiter \<Rightarrow> limiter \<times> bool" where
  "on_response now p res s0 =
     (let s = s0\<lparr>rl_in_flight := remove1 p (rl_in_flight s0)\<rparr> in
      case res of
        Inl msg \<Rightarrow>
          (finish_one now p (Inl (transport_error msg))
             (''HTTP transport error for '' @ rq_method (pd_req p) @ '' '' @ rq_target (pd_req p)
              @ '': '' @ msg) s, False)
      | Inr r \<Rightarrow>
          (case parse_rate_limit r of
             None \<Rightarrow> (s, True)
           | Some rl \<Rightarrow>
               (let s1 = store_rate_limit p rl s in
                if 200 \<le> rs_status r \<and> rs_status r < 300 then (finish_one now p (Inr r) [] s1, False)
                else (finish_one now p (Inl (map_http_status_to_errc (rs_status r)))
                        (build_http_status_context (pd_req p) r) s1, False))))"

definition cancel_timer :: "wait_timer \<Rightarrow> wait_timer" where
  "cancel_timer t = (case t of Armed _ \<Rightarrow> Cancelled | _ \<Rightarrow> t)"

fun fail_queued :: "nat \<Rightarrow> int \<Rightarrow> limiter \<Rightarrow> limiter" where
  "fail_queued 0 now s = s"
| "fail_queued (Suc n) now s =
     (case rl_queue s of
        [] \<Rightarrow> s
      | p # ps \<Rightarrow> fail_queued n now
          (finish_one now p (Inl rate_limiter_stopped) shutdown_context (s\<lparr>rl_queue := ps\<rparr>)))"

text \<open>
  \<^verbatim>\<open>shutdown\<close>. The loop over the queue pops one request per round and nothing is queued
  meanwhile, so the length of the queue is enough fuel.
\<close>

definition shutdown :: "int \<Rightarrow> limiter \<Rightarrow> limiter" where
  "shutdown now s0 =
     (if rl_stopping s0 then s0
      else (let s1 = s0\<lparr>rl_stopping := True, rl_send_fn := False, rl_timer := cancel_timer (rl_timer s0)\<rparr>;
                s2 = (case rl_waiting s1 of
                        None \<Rightarrow> s1
                      | Some p \<Rightarrow> finish_one now p (Inl rate_limiter_stopped) shutdown_context
                                   (s1\<lparr>rl_waiting := None\<rparr>));
                s3 = fail_queued (length (rl_queue s2)) now s2
            in s3\<lparr>rl_busy := False\<rparr>))"

section \<open>Runs\<close>

text \<open>
  The limiter with its environment: \<open>limiter_run subs lost s\<close> says that \<open>s\<close> is reached after
  the requests \<open>subs\<close> were submitted in this order, and the handlers of the responses to \<open>lost\<close> were
  left by an exception. The timer's handler runs when the time it is armed for has come, or after it
  was cancelled.
\<close>

inductive limiter_run :: "pending list \<Rightarrow> pending list \<Rightarrow> limiter \<Rightarrow> bool" where
  init: "limiter_run [] [] (RateLimiter send_fn)"
| submit: "limiter_run subs lost s \<Longrightarrow> limiter_run (subs @ [p]) lost (async_send_impl now p s)"
| respond: "limiter_run subs lost s \<Longrightarrow> p \<in> set (rl_in_flight s) \<Longrightarrow> on_response now p res s = (s', threw) \<Longrightarrow>
    limiter_run subs (if threw then lost @ [p] else lost) s'"
| expire: "limiter_run subs lost s \<Longrightarrow> rl_timer s = Armed r \<Longrightarrow> r \<le> now \<Longrightarrow>
    limiter_run subs lost (on_timer now None s)"
| abort: "limiter_run subs lost s \<Longrightarrow> rl_timer s = Cancelled \<Longrightarrow>
    limiter_run subs lost (on_timer now (Some operation_aborted) s)"
| stop: "limiter_run subs lost s \<Longrightarrow> limiter_run subs lost (shutdown now s)"

definition held :: "limiter \<Rightarrow> pending list" where
  "held s = (case rl_waiting s of None \<Rightarrow> [] | Some p \<Rightarrow> [p])"

definition contents :: "limiter \<Rightarrow> pending multiset" where
  "contents s = mset (map fst (rl_completed s)) + mset (rl_queue s) + mset (held s) + mset (rl_in_flight s)"

text \<open>
  While it runs: at most one request is out, waiting or in flight; the limiter is busy exactly
  then; nothing is queued when it is not; a waiting request is one whose route is used up, and the
  timer is armed for that route's reset. After \<open>shutdown\<close>: nothing queued, nothing waiting.
\<close>

definition running_inv :: "limiter \<Rightarrow> bool" where
  "running_inv s \<longleftrightarrow> length (held s @ rl_in_flight s) \<le> 1
     \<and> (rl_busy s \<longleftrightarrow> held s @ rl_in_flight s \<noteq> []) \<and> (\<not> rl_busy s \<longrightarrow> rl_queue s = [])
     \<and> (case rl_timer s of
          Idle \<Rightarrow> rl_waiting s = None
        | Armed r \<Rightarrow> (\<exists>p rl. rl_waiting s = Some p
            \<and> rl_rate_limits s (rq_method (pd_req p)) (rq_target (pd_req p)) = Some rl
            \<and> lim_remaining rl = 0 \<and> lim_reset_time rl = r)
        | Cancelled \<Rightarrow> False)"

definition stopped_inv :: "limiter \<Rightarrow> bool" where
  "stopped_inv s \<longleftrightarrow> rl_queue s = [] \<and> rl_waiting s = None \<and> \<not> rl_busy s \<and> \<not> rl_send_fn s
     \<and> length (rl_in_flight s) \<le> 1 \<and> (rl_timer s = Idle \<or> rl_timer s = Cancelled)"

definition limiter_inv :: "limiter \<Rightarrow> bool" where
  "limiter_inv s \<longleftrightarrow> (if rl_stopping s then stopped_inv s else running_inv s)"

text \<open>Ready for the next request: nothing out, nothing armed.\<close>

definition ready :: "limiter \<Rightarrow> bool" where
  "ready s \<longleftrightarrow> \<not> rl_stopping s \<and> \<not> rl_busy s \<and> rl_waiting s = None \<and> rl_in_flight s = [] \<and> rl_timer s = Idle"

lemma start_next_empty: "rl_queue s = [] \<Longrightarrow> \<not> rl_stopping s \<Longrightarrow> start_next now s = s"
  by (simp add: start_next.simps)

lemma start_next_stopping: "rl_stopping s \<Longrightarrow> start_next now s = s\<lparr>rl_busy := False\<rparr>"
  by (simp add: start_next.simps)

lemma start_next_busy: "rl_busy s \<Longrightarrow> \<not> rl_stopping s \<Longrightarrow> start_next now s = s"
  by (simp add: start_next.simps)

lemma should_wait_cong:
  "rl_rate_limits s' = rl_rate_limits s \<Longrightarrow> should_wait now p s' = should_wait now p s"
  by (simp add: should_wait_def)

lemma start_next_Cons:
  assumes "\<not> rl_stopping s" "\<not> rl_busy s" "rl_queue s = p # ps"
  shows "start_next now s =
    (let s1 = s\<lparr>rl_busy := True, rl_queue := ps\<rparr> in
     case should_wait now p s of
       Some r \<Rightarrow> s1\<lparr>rl_waiting := Some p, rl_timer := Armed r\<rparr>
     | None \<Rightarrow>
         if rl_send_fn s then s1\<lparr>rl_in_flight := rl_in_flight s @ [p], rl_sent := rl_sent s @ [p]\<rparr>
         else start_next now ((complete p (Inl rate_limiter_send_disabled)
                ''RateLimiter: send function not set'' s1)\<lparr>rl_busy := False\<rparr>))"
proof -
  have "should_wait now p (s\<lparr>rl_busy := True, rl_queue := ps\<rparr>) = should_wait now p s"
    by (rule should_wait_cong) simp
  with assms show ?thesis
    by (simp add: start_next.simps [of now s] maybe_wait_then_send.simps do_send.simps finish_one.simps
        Let_def split: option.split)
qed

lemma should_wait_Some:
  "should_wait now p s = Some r \<Longrightarrow>
   \<exists>rl. rl_rate_limits s (rq_method (pd_req p)) (rq_target (pd_req p)) = Some rl
     \<and> lim_remaining rl = 0 \<and> lim_reset_time rl = r"
  by (auto simp: should_wait_def split: option.splits if_splits)

text \<open>What \<open>start_next\<close> does from a ready state.\<close>

lemma start_next_ready:
  assumes "ready s" "s' = start_next now s"
  shows "running_inv s' \<and> \<not> rl_stopping s' \<and> contents s' = contents s \<and> rl_send_fn s' = rl_send_fn s
    \<and> rl_rate_limits s' = rl_rate_limits s
    \<and> (rl_send_fn s \<longrightarrow> rl_sent s' @ held s' @ rl_queue s' = rl_sent s @ rl_queue s)
    \<and> (rl_sent s' = rl_sent s \<or> (\<exists>p. rl_sent s' = rl_sent s @ [p] \<and> should_wait now p s' = None))"
  using assms
proof (induction "rl_queue s" arbitrary: s s')
  case Nil
  then show ?case
    by (auto simp: start_next_empty ready_def running_inv_def held_def)
next
  case (Cons p ps)
  have q: "rl_queue s = p # ps" using Cons.hyps by simp
  note eq = start_next_Cons [OF _ _ q, of now]
  let ?s1 = "s\<lparr>rl_busy := True, rl_queue := ps\<rparr>"
  consider (wait) r where "should_wait now p s = Some r"
    | (send) "should_wait now p s = None" "rl_send_fn s"
    | (disabled) "should_wait now p s = None" "\<not> rl_send_fn s" by fastforce
  then show ?case
  proof cases
    case wait
    with Cons.prems q should_wait_Some [OF wait] show ?thesis
      by (auto simp: eq ready_def running_inv_def held_def contents_def)
  next
    case send
    with Cons.prems q show ?thesis
      by (auto simp: eq ready_def running_inv_def held_def contents_def should_wait_def)
  next
    case disabled
    let ?s2 = "(complete p (Inl rate_limiter_send_disabled) ''RateLimiter: send function not set'' ?s1)\<lparr>rl_busy := False\<rparr>"
    have r2: "ready ?s2" "ps = rl_queue ?s2" "s' = start_next now ?s2"
      using Cons.prems disabled by (simp_all add: eq ready_def complete_def Let_def)
    have "contents ?s2 = contents s" "rl_sent ?s2 = rl_sent s" "rl_send_fn ?s2 = rl_send_fn s"
      "rl_rate_limits ?s2 = rl_rate_limits s"
      using q by (simp_all add: contents_def complete_def held_def)
    with Cons.hyps(1) [OF r2(2,1,3)] disabled show ?thesis by simp
  qed
qed

definition run_ok :: "pending list \<Rightarrow> limiter \<Rightarrow> bool" where
  "run_ok subs s \<longleftrightarrow> limiter_inv s \<and> mset subs = contents s
     \<and> (\<not> rl_stopping s \<and> rl_send_fn s \<longrightarrow> subs = rl_sent s @ held s @ rl_queue s)"

text \<open>
  The limit of a route is used up at a time before its reset when no request remains. At most the one
  request whose limit is not used up now is handed to the send function.
\<close>

definition used_up :: "int \<Rightarrow> pending \<Rightarrow> limiter \<Rightarrow> bool" where
  "used_up now p s \<longleftrightarrow> (\<exists>rl. rl_rate_limits s (rq_method (pd_req p)) (rq_target (pd_req p)) = Some rl
     \<and> lim_remaining rl = 0 \<and> now < lim_reset_time rl)"

lemma should_wait_None: "should_wait now p s = None \<longleftrightarrow> \<not> used_up now p s"
  by (auto simp: should_wait_def used_up_def split: option.splits)

definition sends_allowed :: "int \<Rightarrow> limiter \<Rightarrow> limiter \<Rightarrow> bool" where
  "sends_allowed now s s' \<longleftrightarrow> rl_sent s' = rl_sent s
     \<or> (\<exists>p. rl_sent s' = rl_sent s @ [p] \<and> \<not> used_up now p s')"

lemma start_next_run:
  assumes "ready s" "mset subs = contents s" "rl_send_fn s \<longrightarrow> subs = rl_sent s @ rl_queue s"
  shows "run_ok subs (start_next now s) \<and> sends_allowed now s (start_next now s)"
  using start_next_ready [OF assms(1) refl, of now] assms
  by (simp add: run_ok_def limiter_inv_def sends_allowed_def flip: should_wait_None)

lemma finish_one_run:
  assumes "\<not> rl_stopping s" "rl_waiting s = None" "rl_in_flight s = []" "rl_timer s = Idle"
    and "mset subs = contents s + {#p#}" "rl_send_fn s \<longrightarrow> subs = rl_sent s @ rl_queue s"
  shows "run_ok subs (finish_one now p res ctx s) \<and> sends_allowed now s (finish_one now p res ctx s)"
proof -
  let ?s1 = "(complete p res ctx s)\<lparr>rl_busy := False\<rparr>"
  have "ready ?s1" "mset subs = contents ?s1" "rl_send_fn ?s1 \<longrightarrow> subs = rl_sent ?s1 @ rl_queue ?s1"
    using assms by (simp_all add: ready_def complete_def contents_def held_def)
  from start_next_run [OF this, of now] show ?thesis
    by (simp add: finish_one.simps sends_allowed_def complete_def)
qed

lemma finish_one_stopping:
  "rl_stopping s \<Longrightarrow> finish_one now p res ctx s = (complete p res ctx s)\<lparr>rl_busy := False\<rparr>"
  by (simp add: finish_one.simps start_next.simps complete_def)

lemma submit_run:
  assumes "run_ok subs s"
  shows "run_ok (subs @ [p]) (async_send_impl now p s) \<and> sends_allowed now s (async_send_impl now p s)"
proof (cases "rl_stopping s")
  case True
  with assms show ?thesis
    by (auto simp: async_send_impl_def run_ok_def limiter_inv_def stopped_inv_def complete_def contents_def
        held_def sends_allowed_def)
next
  case run: False
  let ?s1 = "s\<lparr>rl_queue := rl_queue s @ [p]\<rparr>"
  have inv: "running_inv s" using assms run by (simp add: run_ok_def limiter_inv_def)
  show ?thesis
  proof (cases "rl_busy s")
    case True
    then have "async_send_impl now p s = ?s1"
      using run by (simp add: async_send_impl_def start_next_busy)
    with True assms run show ?thesis
      by (auto simp: run_ok_def limiter_inv_def running_inv_def contents_def held_def sends_allowed_def
          split: wait_timer.splits)
  next
    case False
    then have "ready ?s1" "held s = []" "rl_in_flight s = []"
      using inv run by (auto simp: ready_def running_inv_def held_def split: wait_timer.splits option.splits)
    moreover have "mset (subs @ [p]) = contents ?s1"
      using assms by (simp add: run_ok_def contents_def held_def)
    moreover have "rl_send_fn ?s1 \<longrightarrow> subs @ [p] = rl_sent ?s1 @ rl_queue ?s1"
      using assms run \<open>held s = []\<close> by (simp add: run_ok_def)
    ultimately show ?thesis
      using start_next_run [of ?s1 "subs @ [p]" now] run
      by (simp add: async_send_impl_def sends_allowed_def)
  qed
qed

lemma store_rate_limit_frame [simp]:
  "rl_stopping (store_rate_limit p rl s) = rl_stopping s" "rl_send_fn (store_rate_limit p rl s) = rl_send_fn s"
  "rl_busy (store_rate_limit p rl s) = rl_busy s" "rl_queue (store_rate_limit p rl s) = rl_queue s"
  "rl_timer (store_rate_limit p rl s) = rl_timer s" "rl_waiting (store_rate_limit p rl s) = rl_waiting s"
  "rl_in_flight (store_rate_limit p rl s) = rl_in_flight s" "rl_sent (store_rate_limit p rl s) = rl_sent s"
  "rl_completed (store_rate_limit p rl s) = rl_completed s"
  by (simp_all add: store_rate_limit_def Let_def split: option.split)

text \<open>Every response that does not throw ends in \<open>finish_one\<close>.\<close>

lemma on_response_finishes:
  assumes "on_response now p res s = (s', False)"
  shows "\<exists>rl r ctx. s' = finish_one now p r ctx (store_rate_limit p rl (s\<lparr>rl_in_flight := remove1 p (rl_in_flight s)\<rparr>))"
proof -
  have none: "store_rate_limit p None x = x" for x by (simp add: store_rate_limit_def)
  show ?thesis
  proof (cases res)
    case (Inl msg)
    then show ?thesis
      using assms by (intro exI [of _ None]) (auto simp: on_response_def none)
  next
    case (Inr r)
    then show ?thesis
      using assms by (auto simp: on_response_def Let_def split: option.splits if_splits)
  qed
qed

lemma respond_run:
  assumes "run_ok subs s" "p \<in> set (rl_in_flight s)" "on_response now p res s = (s', False)"
  shows "run_ok subs s' \<and> sends_allowed now s s'"
proof -
  obtain rl r ctx where s': "s' = finish_one now p r ctx
      (store_rate_limit p rl (s\<lparr>rl_in_flight := remove1 p (rl_in_flight s)\<rparr>))"
    using on_response_finishes [OF assms(3)] by blast
  let ?s1 = "store_rate_limit p rl (s\<lparr>rl_in_flight := remove1 p (rl_in_flight s)\<rparr>)"
  have one: "rl_in_flight s = [p]"
    using assms(1,2) by (cases "rl_in_flight s")
      (auto simp: run_ok_def limiter_inv_def stopped_inv_def running_inv_def split: if_splits)
  have c: "mset subs = contents ?s1 + {#p#}"
    using assms(1) one by (simp add: run_ok_def contents_def held_def)
  show ?thesis
  proof (cases "rl_stopping s")
    case True
    then have "s' = (complete p r ctx ?s1)\<lparr>rl_busy := False\<rparr>"
      by (simp add: s' finish_one_stopping)
    with assms(1) True c show ?thesis
      by (simp add: run_ok_def limiter_inv_def stopped_inv_def sends_allowed_def complete_def contents_def
          held_def one)
  next
    case run: False
    then have "rl_waiting s = None" "rl_timer s = Idle"
      using assms(1) one
      by (auto simp: run_ok_def limiter_inv_def running_inv_def held_def split: wait_timer.splits option.splits)
    then have "run_ok subs (finish_one now p r ctx ?s1) \<and> sends_allowed now ?s1 (finish_one now p r ctx ?s1)"
      using run one c assms(1) by (intro finish_one_run) (simp_all add: run_ok_def held_def)
    then show ?thesis
      by (simp add: s' sends_allowed_def)
  qed
qed

lemma running_armed:
  assumes "run_ok subs s" "rl_timer s = Armed r"
  shows "\<exists>p rl. \<not> rl_stopping s \<and> rl_waiting s = Some p \<and> rl_in_flight s = []
    \<and> rl_rate_limits s (rq_method (pd_req p)) (rq_target (pd_req p)) = Some rl
    \<and> lim_remaining rl = 0 \<and> lim_reset_time rl = r"
  using assms
  by (auto simp: run_ok_def limiter_inv_def stopped_inv_def running_inv_def held_def split: if_splits)

lemma expire_run:
  assumes "run_ok subs s" "rl_timer s = Armed r" "r \<le> now"
  shows "run_ok subs (on_timer now None s) \<and> sends_allowed now s (on_timer now None s)"
proof -
  obtain p rl where p: "\<not> rl_stopping s" "rl_waiting s = Some p" "rl_in_flight s = []"
    "rl_rate_limits s (rq_method (pd_req p)) (rq_target (pd_req p)) = Some rl"
    "lim_remaining rl = 0" "lim_reset_time rl = r"
    using running_armed [OF assms(1,2)] by blast
  let ?s1 = "s\<lparr>rl_timer := Idle, rl_waiting := None\<rparr>"
  have c: "mset subs = contents ?s1 + {#p#}" "rl_send_fn ?s1 \<longrightarrow> subs = rl_sent ?s1 @ p # rl_queue ?s1"
    using assms(1) p by (simp_all add: run_ok_def contents_def held_def)
  show ?thesis
  proof (cases "rl_send_fn s")
    case True
    have "rl_busy s" using assms(1) p by (simp add: run_ok_def limiter_inv_def running_inv_def held_def)
    with True p c assms(3) show ?thesis
      by (simp add: on_timer_def do_send.simps run_ok_def limiter_inv_def running_inv_def held_def
          contents_def sends_allowed_def used_up_def)
  next
    case False
    have eq: "on_timer now None s = finish_one now p (Inl rate_limiter_send_disabled)
        ''RateLimiter: send function not set'' ?s1"
      using False p by (simp add: on_timer_def do_send.simps Let_def)
    have "run_ok subs (on_timer now None s) \<and> sends_allowed now ?s1 (on_timer now None s)"
      unfolding eq by (rule finish_one_run) (use p c False in simp_all)
    then show ?thesis by (simp add: sends_allowed_def)
  qed
qed

lemma abort_run:
  assumes "run_ok subs s" "rl_timer s = Cancelled"
  shows "run_ok subs (on_timer now ec s) \<and> sends_allowed now s (on_timer now ec s)"
proof -
  have "rl_stopping s" "rl_waiting s = None"
    using assms by (auto simp: run_ok_def limiter_inv_def running_inv_def stopped_inv_def split: if_splits)
  with assms show ?thesis
    by (simp add: on_timer_def Let_def start_next_stopping run_ok_def limiter_inv_def stopped_inv_def
        contents_def held_def sends_allowed_def)
qed

lemma fail_queued_eq:
  assumes "rl_stopping s" "n = length (rl_queue s)"
  shows "(fail_queued n now s)\<lparr>rl_busy := False\<rparr> = s\<lparr>rl_queue := [],
    rl_completed := rl_completed s @ map (\<lambda>p. (p, Inl rate_limiter_stopped, shutdown_context)) (rl_queue s),
    rl_busy := False\<rparr>"
  using assms
proof (induction n arbitrary: s)
  case 0
  then show ?case by simp
next
  case (Suc n)
  obtain p ps where q: "rl_queue s = p # ps" using Suc.prems(2) by (cases "rl_queue s") auto
  let ?s1 = "s\<lparr>rl_queue := ps, rl_busy := False,
    rl_completed := rl_completed s @ [(p, Inl rate_limiter_stopped, shutdown_context)]\<rparr>"
  have "finish_one now p (Inl rate_limiter_stopped) shutdown_context (s\<lparr>rl_queue := ps\<rparr>) = ?s1"
    using Suc.prems(1) by (simp add: finish_one_stopping complete_def)
  with Suc.IH [of ?s1] Suc.prems q show ?case by simp
qed

text \<open>\<open>shutdown\<close> completes the waiting request and the queue, in order, with the same error.\<close>

lemma shutdown_eq:
  assumes "\<not> rl_stopping s"
  shows "shutdown now s = s\<lparr>rl_stopping := True, rl_send_fn := False, rl_timer := cancel_timer (rl_timer s),
    rl_busy := False, rl_waiting := None, rl_queue := [],
    rl_completed := rl_completed s
      @ map (\<lambda>p. (p, Inl rate_limiter_stopped, shutdown_context)) (held s @ rl_queue s)\<rparr>"
  using assms
  by (cases "rl_waiting s")
    (simp_all add: shutdown_def Let_def held_def finish_one_stopping complete_def fail_queued_eq)

lemma stop_run:
  assumes "run_ok subs s"
  shows "run_ok subs (shutdown now s) \<and> sends_allowed now s (shutdown now s)"
proof (cases "rl_stopping s")
  case True
  with assms show ?thesis by (simp add: shutdown_def sends_allowed_def)
next
  case False
  with assms show ?thesis
    by (auto simp: shutdown_eq run_ok_def limiter_inv_def running_inv_def stopped_inv_def contents_def
        held_def sends_allowed_def cancel_timer_def comp_def split: wait_timer.splits option.splits)
qed

text \<open>
  After an exception out of the handler of a response: that request is in none of the lists any more, and
  the limiter stays busy, with nothing out, until it is shut down.
\<close>

definition wedged :: "pending list \<Rightarrow> pending list \<Rightarrow> limiter \<Rightarrow> bool" where
  "wedged subs lost s \<longleftrightarrow> (\<exists>p. lost = [p] \<and> mset subs = contents s + {#p#}) \<and> rl_waiting s = None \<and> rl_in_flight s = []
     \<and> (if rl_stopping s then stopped_inv s else rl_busy s \<and> rl_timer s = Idle)"

lemma throw_wedges:
  assumes "run_ok subs s" "p \<in> set (rl_in_flight s)" "on_response now p res s = (s', True)"
  shows "wedged subs [p] s' \<and> rl_sent s' = rl_sent s \<and> s' = s\<lparr>rl_in_flight := []\<rparr>"
proof -
  have one: "rl_in_flight s = [p]"
    using assms(1,2) by (cases "rl_in_flight s")
      (auto simp: run_ok_def limiter_inv_def stopped_inv_def running_inv_def split: if_splits)
  have s': "s' = s\<lparr>rl_in_flight := []\<rparr>"
    using assms(3) one by (auto simp: on_response_def Let_def split: sum.splits option.splits if_splits)
  show ?thesis
    using assms(1) one
    by (auto simp: s' wedged_def run_ok_def limiter_inv_def stopped_inv_def running_inv_def contents_def held_def
        split: if_splits wait_timer.splits option.splits)
qed

lemma wedged_submit:
  assumes "wedged subs lost s"
  shows "wedged (subs @ [p]) lost (async_send_impl now p s) \<and> rl_sent (async_send_impl now p s) = rl_sent s"
  using assms
  by (auto simp: wedged_def async_send_impl_def start_next_busy complete_def contents_def held_def stopped_inv_def)

lemma wedged_abort:
  assumes "wedged subs lost s" "rl_timer s = Cancelled"
  shows "wedged subs lost (on_timer now ec s) \<and> rl_sent (on_timer now ec s) = rl_sent s"
  using assms
  by (auto simp: wedged_def on_timer_def Let_def start_next_stopping contents_def held_def stopped_inv_def split: if_splits)

lemma wedged_stop:
  assumes "wedged subs lost s"
  shows "wedged subs lost (shutdown now s) \<and> rl_sent (shutdown now s) = rl_sent s"
proof (cases "rl_stopping s")
  case True
  with assms show ?thesis by (simp add: shutdown_def)
next
  case False
  with assms show ?thesis
    by (auto simp: wedged_def shutdown_eq contents_def held_def stopped_inv_def cancel_timer_def comp_def)
qed

definition reach_ok :: "pending list \<Rightarrow> pending list \<Rightarrow> limiter \<Rightarrow> bool" where
  "reach_ok subs lost s \<longleftrightarrow> (if lost = [] then run_ok subs s else wedged subs lost s)"

lemma limiter_run_ok: "limiter_run subs lost s \<Longrightarrow> reach_ok subs lost s"
proof (induction rule: limiter_run.induct)
  case (init send_fn)
  then show ?case
    by (simp add: reach_ok_def run_ok_def RateLimiter_def limiter_inv_def running_inv_def contents_def held_def)
next
  case (submit subs lost s p now)
  then show ?case using submit_run wedged_submit by (simp add: reach_ok_def split: if_splits)
next
  case (respond subs lost s p now res s' threw)
  then have "lost = []" "run_ok subs s" by (auto simp: reach_ok_def wedged_def split: if_splits)
  then show ?case using respond respond_run throw_wedges by (cases threw) (auto simp: reach_ok_def)
next
  case (expire subs lost s r now)
  then have "lost = []" "run_ok subs s" by (auto simp: reach_ok_def wedged_def stopped_inv_def split: if_splits)
  then show ?case using expire expire_run by (simp add: reach_ok_def)
next
  case (abort subs lost s now)
  then show ?case using abort_run wedged_abort by (simp add: reach_ok_def split: if_splits)
next
  case (stop subs lost s now)
  then show ?case using stop_run wedged_stop by (simp add: reach_ok_def split: if_splits)
qed

lemma run_without_exception: "limiter_run subs [] s \<Longrightarrow> run_ok subs s"
  using limiter_run_ok [of subs "[]" s] by (simp add: reach_ok_def)

section \<open>Properties\<close>

text \<open>
  C3. One request at a time: in every state the limiter can reach, exceptions out of the handler of a response
  included, at most one request is waiting for a reset or in flight, and a waiting request has its timer
  armed. While the limiter is not shut down, requests are queued only if one is out, so an event that
  continues the queue is outstanding, or if an exception has left a handler; after an exception nothing
  is out any more.
\<close>

theorem rate_limiter_serial:
  assumes "limiter_run subs lost s"
  shows "length (held s @ rl_in_flight s) \<le> 1
    \<and> (\<not> rl_stopping s \<and> rl_queue s \<noteq> [] \<longrightarrow> lost \<noteq> [] \<or> (\<exists>p. held s @ rl_in_flight s = [p]))
    \<and> (lost \<noteq> [] \<longrightarrow> held s @ rl_in_flight s = [])
    \<and> (rl_waiting s \<noteq> None \<longrightarrow> (\<exists>r. rl_timer s = Armed r))"
proof (cases "lost = []")
  case True
  then have "run_ok subs s" using assms run_without_exception by simp
  with True show ?thesis
    by (cases "held s @ rl_in_flight s"; cases "rl_timer s")
      (auto simp: run_ok_def limiter_inv_def running_inv_def stopped_inv_def held_def split: if_splits option.splits)
next
  case False
  then have "wedged subs lost s" using limiter_run_ok [OF assms] by (simp add: reach_ok_def)
  with False show ?thesis by (simp add: wedged_def held_def)
qed

definition get_guild :: "nat \<Rightarrow> pending" where
  "get_guild i = \<lparr>pd_id = i, pd_req = \<lparr>rq_method = ''GET'', rq_target = ''/guilds/1'', rq_headers = []\<rparr>\<rparr>"

lemma two_submitted:
  "limiter_run [get_guild 7, get_guild 8] []
     (async_send_impl 0 (get_guild 8) (async_send_impl 0 (get_guild 7) (RateLimiter True)))"
  using limiter_run.submit [OF limiter_run.submit [OF limiter_run.init]] by force

theorem rate_limiter_serial_witness:
  "let s = async_send_impl 0 (get_guild 8) (async_send_impl 0 (get_guild 7) (RateLimiter True))
   in rl_queue s = [get_guild 8] \<and> rl_in_flight s = [get_guild 7] \<and> length (held s @ rl_in_flight s) \<le> 1"
  using rate_limiter_serial [OF two_submitted]
  by (simp add: async_send_impl_def start_next.simps maybe_wait_then_send.simps do_send.simps should_wait_def
      RateLimiter_def held_def)

text \<open>
  C7. Every request is accounted for, and completed at most once: the requests submitted are,
  as a multiset, those completed, queued, waiting and in flight, and those whose response handler was left by
  an exception, which are never completed and of which there is at most one; when the submitted requests are
  pairwise different, so are the completed ones.
\<close>

theorem rate_limiter_completes_once:
  assumes "limiter_run subs lost s"
  shows "mset subs = mset (map fst (rl_completed s)) + mset (rl_queue s) + mset (held s) + mset (rl_in_flight s) + mset lost
    \<and> length lost \<le> 1 \<and> (distinct subs \<longrightarrow> distinct (map fst (rl_completed s) @ lost))"
proof -
  have eq: "mset subs = mset (map fst (rl_completed s)) + mset (rl_queue s) + mset (held s) + mset (rl_in_flight s) + mset lost"
      "length lost \<le> 1"
    using limiter_run_ok [OF assms]
    by (auto simp: reach_ok_def run_ok_def wedged_def contents_def split: if_splits)
  then have "mset subs = mset (map fst (rl_completed s) @ lost @ rl_queue s @ held s @ rl_in_flight s)"
    by simp
  then have "distinct subs \<longrightarrow> distinct (map fst (rl_completed s) @ lost @ rl_queue s @ held s @ rl_in_flight s)"
    by (metis mset_eq_imp_distinct_iff)
  with eq show ?thesis by auto
qed

theorem rate_limiter_completes_once_witness:
  "let s = async_send_impl 0 (get_guild 8) (async_send_impl 0 (get_guild 7) (RateLimiter True))
   in mset [get_guild 7, get_guild 8]
      = mset (map fst (rl_completed s)) + mset (rl_queue s) + mset (held s) + mset (rl_in_flight s)"
  using rate_limiter_completes_once [OF two_submitted] by (simp add: Let_def)

text \<open>
  First in, first out: as long as the limiter is not shut down and has a send function, the
  requests submitted are exactly those sent, in that order, followed by the waiting one and the
  queue.
\<close>

theorem rate_limiter_fifo:
  assumes "limiter_run subs [] s" "\<not> rl_stopping s" "rl_send_fn s"
  shows "subs = rl_sent s @ held s @ rl_queue s"
  using run_without_exception [OF assms(1)] assms(2,3) by (simp add: run_ok_def)

theorem rate_limiter_fifo_witness:
  "let s = async_send_impl 0 (get_guild 8) (async_send_impl 0 (get_guild 7) (RateLimiter True))
   in [get_guild 7, get_guild 8] = rl_sent s @ held s @ rl_queue s"
proof -
  let ?s = "async_send_impl 0 (get_guild 8) (async_send_impl 0 (get_guild 7) (RateLimiter True))"
  have "\<not> rl_stopping ?s" "rl_send_fn ?s"
    by (simp_all add: async_send_impl_def start_next.simps maybe_wait_then_send.simps do_send.simps
        should_wait_def RateLimiter_def)
  with rate_limiter_fifo [OF two_submitted] show ?thesis by (simp add: Let_def)
qed

text \<open>
  C8. Rate limits are respected: whatever event a reachable limiter handles at time
  \<open>now\<close> (a submission, a response, also one whose handler throws, the timer's handler after its time has come or
  after it was cancelled, or shutdown), at most one request is sent, and the limit stored for its route, as
  updated by that event, either has requests remaining or was reset by that time.
\<close>

theorem rate_limits_respected:
  assumes "limiter_run subs lost s"
    and "s' = async_send_impl now p s
       \<or> p \<in> set (rl_in_flight s) \<and> on_response now p res s = (s', threw)
       \<or> (\<exists>r. rl_timer s = Armed r \<and> r \<le> now \<and> s' = on_timer now None s)
       \<or> rl_timer s = Cancelled \<and> s' = on_timer now (Some operation_aborted) s
       \<or> s' = shutdown now s"
  shows "rl_sent s' = rl_sent s
    \<or> (\<exists>q. rl_sent s' = rl_sent s @ [q]
         \<and> (\<forall>rl. rl_rate_limits s' (rq_method (pd_req q)) (rq_target (pd_req q)) = Some rl
              \<longrightarrow> lim_remaining rl > 0 \<or> lim_reset_time rl \<le> now))"
proof -
  have "sends_allowed now s s'"
  proof (cases "lost = []")
    case True
    then have ok: "run_ok subs s" using assms(1) run_without_exception by simp
    from assms(2) show ?thesis
    proof (elim disjE exE conjE)
      assume "p \<in> set (rl_in_flight s)" "on_response now p res s = (s', threw)"
      then show ?thesis
        using respond_run [OF ok, of p now res s'] throw_wedges [OF ok, of p now res s']
        by (cases threw) (simp_all add: sends_allowed_def)
    qed (use ok submit_run expire_run abort_run stop_run in simp_all)
  next
    case False
    then have w: "wedged subs lost s" using limiter_run_ok [OF assms(1)] by (simp add: reach_ok_def)
    then have none: "rl_in_flight s = []" "rl_timer s \<noteq> Armed r" for r
      by (auto simp: wedged_def stopped_inv_def split: if_splits)
    from assms(2) show ?thesis
      by (elim disjE exE conjE)
        (use none wedged_submit [OF w] wedged_abort [OF w] wedged_stop [OF w] in \<open>simp_all add: sends_allowed_def\<close>)
  qed
  then show ?thesis
    by (auto simp: sends_allowed_def used_up_def word_neq_0_conv)
qed

theorem rate_limits_respected_witness:
  "let s = async_send_impl 0 (get_guild 7) (RateLimiter True);
       r = \<lparr>rs_status = 200, rs_reason = ''OK'', rs_body = [], rs_limit = Some ''5'',
            rs_remaining = Some ''0'', rs_reset = Some ''60''\<rparr>;
       s1 = fst (on_response 1 (get_guild 7) (Inr r) s);
       s2 = async_send_impl 2 (get_guild 8) s1
   in rl_sent s1 = [get_guild 7] \<and> rl_sent s2 = rl_sent s1 \<and> rl_waiting s2 = Some (get_guild 8)"
proof -
  let ?s = "async_send_impl 0 (get_guild 7) (RateLimiter True)"
  let ?r = "\<lparr>rs_status = 200, rs_reason = ''OK'', rs_body = [], rs_limit = Some ''5'',
            rs_remaining = Some ''0'', rs_reset = Some ''60''\<rparr>"
  note defs = async_send_impl_def start_next.simps maybe_wait_then_send.simps do_send.simps finish_one.simps
    should_wait_def RateLimiter_def complete_def
  have s: "?s = (RateLimiter True)\<lparr>rl_busy := True, rl_in_flight := [get_guild 7], rl_sent := [get_guild 7]\<rparr>"
    by (simp add: defs)
  have pr: "parse_rate_limit ?r = Some (Some \<lparr>lim_limit = 5, lim_remaining = 0, lim_reset_time = 60\<rparr>)"
    by (simp add: parse_rate_limit_def stoul_def stol_def scan_int_def digit_value_def is_space_def SIZE_MAX_def)
  have resp: "on_response 1 (get_guild 7) (Inr ?r) ?s = (fst (on_response 1 (get_guild 7) (Inr ?r) ?s), False)"
    by (simp add: on_response_def pr)
  have run: "limiter_run [get_guild 7] [] ?s"
    using limiter_run.submit [OF limiter_run.init] by force
  have in_flight: "get_guild 7 \<in> set (rl_in_flight ?s)" by (simp add: s)
  have run1: "limiter_run [get_guild 7] [] (fst (on_response 1 (get_guild 7) (Inr ?r) ?s))"
    using limiter_run.respond [OF run in_flight resp] by simp
  let ?s1 = "(RateLimiter True)\<lparr>rl_sent := [get_guild 7], rl_completed := [(get_guild 7, Inr ?r, [])],
    rl_rate_limits := (\<lambda>_. Map.empty)(''GET'' := [''/guilds/1'' \<mapsto>
       \<lparr>lim_limit = 5, lim_remaining = 0, lim_reset_time = 60\<rparr>])\<rparr>"
  have s1: "fst (on_response 1 (get_guild 7) (Inr ?r) ?s) = ?s1"
    by (simp add: s on_response_def pr store_rate_limit_def defs get_guild_def Let_def)
  note rate_limits_respected [OF run1 [unfolded s1], of "async_send_impl 2 (get_guild 8) ?s1" 2 "get_guild 8"]
  moreover have "rl_waiting (async_send_impl 2 (get_guild 8) ?s1) = Some (get_guild 8)"
    "rl_sent (async_send_impl 2 (get_guild 8) ?s1) = [get_guild 7]"
    by (simp_all add: defs get_guild_def Let_def)
  ultimately show ?thesis
    by (simp add: s1 Let_def)
qed

text \<open>
  Shutdown completes everything: afterwards nothing is queued or waiting, at most the one
  request in flight is not completed yet, the requests that were waiting and queued have got
  \<open>rate_limiter_stopped\<close> in order, and a request submitted later gets it at once.
\<close>

theorem rate_limiter_shutdown:
  assumes "limiter_run subs [] s" "\<not> rl_stopping s" "s' = shutdown now s"
  shows "rl_queue s' = [] \<and> rl_waiting s' = None \<and> length (rl_in_flight s') \<le> 1
    \<and> mset subs = mset (map fst (rl_completed s')) + mset (rl_in_flight s')
    \<and> rl_completed s' = rl_completed s
        @ map (\<lambda>p. (p, Inl rate_limiter_stopped, shutdown_context)) (held s @ rl_queue s)
    \<and> rl_completed (async_send_impl later p s')
        = rl_completed s' @ [(p, Inl rate_limiter_stopped, shutdown_context)]"
proof -
  have "run_ok subs s'"
    using stop_run run_without_exception [OF assms(1)] assms(3) by simp
  moreover have "rl_stopping s'" using assms(2,3) by (simp add: shutdown_eq)
  ultimately show ?thesis
    using assms(2,3)
    by (simp add: run_ok_def limiter_inv_def stopped_inv_def contents_def held_def shutdown_eq
        async_send_impl_def complete_def)
qed

theorem rate_limiter_shutdown_witness:
  "let s = async_send_impl 0 (get_guild 8) (async_send_impl 0 (get_guild 7) (RateLimiter True))
   in rl_queue (shutdown 9 s) = [] \<and>
      map fst (rl_completed (shutdown 9 s)) = [get_guild 8]"
proof -
  let ?s = "async_send_impl 0 (get_guild 8) (async_send_impl 0 (get_guild 7) (RateLimiter True))"
  have s: "\<not> rl_stopping ?s" "rl_completed ?s = []" "held ?s = []" "rl_queue ?s = [get_guild 8]"
    by (simp_all add: async_send_impl_def start_next.simps maybe_wait_then_send.simps do_send.simps
        should_wait_def RateLimiter_def held_def)
  from rate_limiter_shutdown [OF two_submitted s(1) refl, of 9] s(2,3,4) show ?thesis by (simp add: Let_def)
qed

text \<open>
  A rate limit header that is not a number wedges the limiter: the exception leaves it
  busy with nothing out, the request's handler is never called, and no request submitted afterwards
  is sent or completed, however many are.
\<close>

theorem rate_limiter_wedged_by_header:
  assumes "limiter_run subs [] s" "\<not> rl_stopping s" "p \<in> set (rl_in_flight s)"
    and "on_response now p res s = (s', True)"
  shows "rl_in_flight s' = [] \<and> rl_waiting s' = None
    \<and> (let later = foldl (\<lambda>x (t, q). async_send_impl t q x) s' new in
         rl_sent later = rl_sent s \<and> rl_completed later = rl_completed s \<and> rl_in_flight later = [])"
proof -
  have inv: "running_inv s"
    using run_without_exception [OF assms(1)] assms(2) by (simp add: run_ok_def limiter_inv_def)
  then have one: "rl_in_flight s = [p]" "rl_waiting s = None" "rl_busy s"
    using assms(3) by (cases "rl_in_flight s"; auto simp: running_inv_def held_def split: option.splits)+
  have s': "s' = s\<lparr>rl_in_flight := []\<rparr>"
    using assms(4) one
    by (auto simp: on_response_def Let_def split: sum.splits option.splits if_splits)
  have "\<not> rl_stopping x \<Longrightarrow> rl_busy x \<Longrightarrow> \<exists>q. foldl (\<lambda>x (t, q). async_send_impl t q x) x new = x\<lparr>rl_queue := q\<rparr>" for x
  proof (induction new arbitrary: x)
    case Nil
    then show ?case by (intro exI [of _ "rl_queue x"]) simp
  next
    case (Cons n new)
    obtain t q where n: "n = (t, q)" by (cases n)
    have "async_send_impl t q x = x\<lparr>rl_queue := rl_queue x @ [q]\<rparr>"
      using Cons.prems by (simp add: async_send_impl_def start_next_busy)
    with Cons.IH [of "x\<lparr>rl_queue := rl_queue x @ [q]\<rparr>"] Cons.prems show ?case by (simp add: n)
  qed
  from this [of s'] one assms(2) show ?thesis
    by (auto simp: s' Let_def)
qed

theorem rate_limiter_wedged_by_header_witness:
  "let s = async_send_impl 0 (get_guild 7) (RateLimiter True);
       r = \<lparr>rs_status = 200, rs_reason = ''OK'', rs_body = [], rs_limit = Some ''five'',
            rs_remaining = Some ''0'', rs_reset = Some ''60''\<rparr>;
       s1 = fst (on_response 1 (get_guild 7) (Inr r) s)
   in rl_completed (async_send_impl 2 (get_guild 8) s1) = [] \<and>
      rl_in_flight (async_send_impl 2 (get_guild 8) s1) = []"
proof -
  let ?s = "async_send_impl 0 (get_guild 7) (RateLimiter True)"
  let ?r = "\<lparr>rs_status = 200, rs_reason = ''OK'', rs_body = [], rs_limit = Some ''five'',
            rs_remaining = Some ''0'', rs_reset = Some ''60''\<rparr>"
  have s: "\<not> rl_stopping ?s" "get_guild 7 \<in> set (rl_in_flight ?s)" "rl_completed ?s = []"
    by (simp_all add: async_send_impl_def start_next.simps maybe_wait_then_send.simps do_send.simps
        should_wait_def RateLimiter_def)
  have "parse_rate_limit ?r = None"
    by (simp add: parse_rate_limit_def stoul_def scan_int_def digit_value_def is_space_def)
  then have resp: "on_response 1 (get_guild 7) (Inr ?r) ?s = (fst (on_response 1 (get_guild 7) (Inr ?r) ?s), True)"
    by (simp add: on_response_def)
  have run: "limiter_run [get_guild 7] [] ?s"
    using limiter_run.submit [OF limiter_run.init] by force
  from rate_limiter_wedged_by_header [OF run s(1,2) resp, of "[(2, get_guild 8)]"] s(3) show ?thesis
    by (simp add: Let_def)
qed

end
