(* ===== verification/Voice_Rtp.thy ===== *)
theory Voice_Rtp
  imports Frame_Processors
begin

text \<open>
  \<^verbatim>\<open>src/voice/voice_util.hpp\<close> and \<^verbatim>\<open>src/voice/voice_crypto.{hpp,cpp}\<close>: big-endian
  fields, the twelve byte RTP header and the transport encryption of a voice packet. libsodium is
  a parameter: the record \<open>sodium\<close> has one function per call the code makes, a return code
  other than 0 is \<^term>\<open>None\<close>. What the code relies on from libsodium is the predicate
  \<open>sodium_aead\<close>.
\<close>

section \<open>Big-endian fields\<close>

definition be_bytes :: "'a::len word \<Rightarrow> bytes" where
  "be_bytes w = map (\<lambda>i. ucast (drop_bit (8 * i) w)) (rev [0..<LENGTH('a) div 8])"

definition be_value :: "bytes \<Rightarrow> 'a::len word" where
  "be_value bs = foldl (\<lambda>v b. push_bit 8 v OR ucast b) 0 bs"

definition put_be :: "bytes \<Rightarrow> nat \<Rightarrow> 'a::len word \<Rightarrow> bytes option" where
  "put_be buf off val = store buf off (be_bytes val)"

definition read_be :: "bytes \<Rightarrow> 'a::len word" where
  "read_be s = (if length s < LENGTH('a) div 8 then 0 else be_value (take (LENGTH('a) div 8) s))"

definition read_u16be :: "bytes \<Rightarrow> u16" where
  "read_u16be s = read_be s"

definition read_u32be :: "bytes \<Rightarrow> u32" where
  "read_u32be s = read_be s"

lemma length_be_bytes [simp]: "length (be_bytes (w :: 'a::len word)) = LENGTH('a) div 8"
  by (simp add: be_bytes_def)

lemma be_value_be_bytes:
  assumes "8 dvd LENGTH('a)"
  shows "be_value (be_bytes w) = (w :: 'a::len word)"
proof -
  have "be_value (be_bytes w) = take_bit (8 * (LENGTH('a) div 8)) w"
    using foldl_be_bytes [of 0 w "LENGTH('a) div 8"] by (simp add: be_value_def be_bytes_def)
  with assms show ?thesis by (simp add: take_bit_word_eq_self)
qed

lemma be_bytes_inj: "8 dvd LENGTH('a) \<Longrightarrow> be_bytes v = be_bytes w \<longleftrightarrow> v = (w :: 'a::len word)"
  by (metis be_value_be_bytes)

lemma read_be_be_bytes:
  assumes "8 dvd LENGTH('a)"
  shows "read_be (be_bytes w @ rest) = (w :: 'a::len word)"
  using assms by (simp add: read_be_def be_value_be_bytes)

lemma read_u16be_be_bytes [simp]: "read_u16be (be_bytes v @ rest) = v"
  by (simp add: read_u16be_def read_be_be_bytes)

lemma read_u32be_be_bytes [simp]: "read_u32be (be_bytes v @ rest) = v"
  by (simp add: read_u32be_def read_be_be_bytes)

lemmas read_be_exact [simp] =
  read_u16be_be_bytes [where rest = "[]", simplified]
  read_u32be_be_bytes [where rest = "[]", simplified]

section \<open>The RTP header\<close>

definition RTP_HEADER_SIZE :: nat where "RTP_HEADER_SIZE = 12"
definition MAX_PACKET_SIZE :: nat where "MAX_PACKET_SIZE = 3 * 1276"
definition SILENCE_FRAME :: bytes where "SILENCE_FRAME = [0xF8, 0xFF, 0xFE]"

record rtp_header =
  version_padding_extension :: u8
  marker_payload_type :: u8
  sequence :: u16
  timestamp :: u32
  ssrc :: u32

definition rtp_header_zero :: rtp_header where
  "rtp_header_zero = \<lparr>version_padding_extension = 0, marker_payload_type = 0, sequence = 0,
     timestamp = 0, ssrc = 0\<rparr>"

definition rtp_parse :: "bytes \<Rightarrow> rtp_header option" where
  "rtp_parse data =
     (if length data < RTP_HEADER_SIZE then Some rtp_header_zero
      else do {
        b0 \<leftarrow> elem_at data 0;
        b1 \<leftarrow> elem_at data 1;
        sq \<leftarrow> subspan data 2 2;
        ts \<leftarrow> subspan data 4 4;
        ss \<leftarrow> subspan data 8 4;
        Some \<lparr>version_padding_extension = b0, marker_payload_type = b1, sequence = be_value sq,
              timestamp = be_value ts, ssrc = be_value ss\<rparr>
      })"

definition rtp_write_to :: "rtp_header \<Rightarrow> bytes \<Rightarrow> bytes option" where
  "rtp_write_to h buffer = do {
     b1 \<leftarrow> store buffer 0 [version_padding_extension h];
     b2 \<leftarrow> store b1 1 [marker_payload_type h];
     b3 \<leftarrow> put_be b2 2 (sequence h);
     b4 \<leftarrow> put_be b3 4 (timestamp h);
     put_be b4 8 (ssrc h)
   }"

text \<open>The header as it appears on the wire.\<close>

definition rtp_bytes :: "rtp_header \<Rightarrow> bytes" where
  "rtp_bytes h = [version_padding_extension h, marker_payload_type h]
     @ be_bytes (sequence h) @ be_bytes (timestamp h) @ be_bytes (ssrc h)"

lemma length_rtp_bytes [simp]: "length (rtp_bytes h) = 12"
  by (simp add: rtp_bytes_def)

lemma rtp_fields:
  "take 2 (drop 2 (rtp_bytes h @ rest)) = be_bytes (sequence h)"
  "take 4 (drop 4 (rtp_bytes h @ rest)) = be_bytes (timestamp h)"
  "take 4 (drop 8 (rtp_bytes h @ rest)) = be_bytes (ssrc h)"
  "(rtp_bytes h @ rest) ! 0 = version_padding_extension h"
  "(rtp_bytes h @ rest) ! Suc 0 = marker_payload_type h"
  by (simp_all add: rtp_bytes_def)

lemma rtp_parse_bytes: "rtp_parse (rtp_bytes h @ rest) = Some h"
proof -
  have "be_value (be_bytes (sequence h)) = sequence h" "be_value (be_bytes (timestamp h)) = timestamp h"
    "be_value (be_bytes (ssrc h)) = ssrc h"
    by (simp_all add: be_value_be_bytes)
  then show ?thesis
    using rtp_fields [of h rest]
    by (simp add: rtp_parse_def RTP_HEADER_SIZE_def span_simps)
qed

lemma store_after:
  "n = length pre \<Longrightarrow> length src \<le> length suf \<Longrightarrow>
   store (pre @ suf) n src = Some (pre @ src @ drop (length src) suf)"
  by (simp add: store_def)

lemma rtp_write_to_eq:
  assumes "12 \<le> length buffer"
  shows "rtp_write_to h buffer = Some (rtp_bytes h @ drop 12 buffer)"
proof -
  let ?a = "[version_padding_extension h]" and ?b = "[version_padding_extension h, marker_payload_type h]"
  let ?c = "?b @ be_bytes (sequence h)" and ?d = "?b @ be_bytes (sequence h) @ be_bytes (timestamp h)"
  have "store buffer 0 ?a = Some (?a @ drop 1 buffer)"
    using assms by (simp add: store_def)
  moreover have "store (?a @ drop 1 buffer) 1 [marker_payload_type h] = Some (?b @ drop 2 buffer)"
    using assms store_after [of 1 ?a "[marker_payload_type h]" "drop 1 buffer"]
    by (simp flip: numeral_2_eq_2)
  moreover have "put_be (?b @ drop 2 buffer) 2 (sequence h) = Some (?c @ drop 4 buffer)"
    using assms store_after [of 2 ?b "be_bytes (sequence h)" "drop 2 buffer"] by (simp add: put_be_def)
  moreover have "put_be (?c @ drop 4 buffer) 4 (timestamp h) = Some (?d @ drop 8 buffer)"
    using assms store_after [of 4 ?c "be_bytes (timestamp h)" "drop 4 buffer"] by (simp add: put_be_def)
  moreover have "put_be (?d @ drop 8 buffer) 8 (ssrc h) = Some (rtp_bytes h @ drop 12 buffer)"
    using assms store_after [of 8 ?d "be_bytes (ssrc h)" "drop 8 buffer"] by (simp add: put_be_def rtp_bytes_def)
  ultimately show ?thesis
    by (simp add: rtp_write_to_def del: append_Cons append_Nil)
qed

section \<open>Transport encryption\<close>

datatype voice_transport_mode = XChaCha20_Poly1305_RTPSIZE | AES256_GCM_RTPSIZE

fun mode_to_string :: "voice_transport_mode \<Rightarrow> string" where
  "mode_to_string XChaCha20_Poly1305_RTPSIZE = ''aead_xchacha20_poly1305_rtpsize''"
| "mode_to_string AES256_GCM_RTPSIZE = ''aead_aes256_gcm_rtpsize''"

text \<open>
  The four calls, each of a key, a nonce, the additional data and the text; the sizes are the
  library's constants \<^verbatim>\<open>ABYTES\<close>, \<^verbatim>\<open>NPUBBYTES\<close> and \<^verbatim>\<open>KEYBYTES\<close>.
\<close>

record sodium =
  xchacha20_encrypt :: "bytes \<Rightarrow> bytes \<Rightarrow> bytes \<Rightarrow> bytes \<Rightarrow> bytes option"
  xchacha20_decrypt :: "bytes \<Rightarrow> bytes \<Rightarrow> bytes \<Rightarrow> bytes \<Rightarrow> bytes option"
  aes256gcm_encrypt :: "bytes \<Rightarrow> bytes \<Rightarrow> bytes \<Rightarrow> bytes \<Rightarrow> bytes option"
  aes256gcm_decrypt :: "bytes \<Rightarrow> bytes \<Rightarrow> bytes \<Rightarrow> bytes \<Rightarrow> bytes option"

definition TAG_SIZE :: nat where "TAG_SIZE = 16"
definition NONCE_SIZE :: nat where "NONCE_SIZE = 4"
definition SODIUM_KEYBYTES :: nat where "SODIUM_KEYBYTES = 32"
definition XCHACHA20_NPUBBYTES :: nat where "XCHACHA20_NPUBBYTES = 24"
definition AES256GCM_NPUBBYTES :: nat where "AES256GCM_NPUBBYTES = 12"

lemmas rtp_consts = RTP_HEADER_SIZE_def TAG_SIZE_def NONCE_SIZE_def SODIUM_KEYBYTES_def
  XCHACHA20_NPUBBYTES_def AES256GCM_NPUBBYTES_def

record voice_crypto =
  vc_mode :: voice_transport_mode
  vc_key :: bytes
  vc_nonce :: u32

definition voice_crypto_init :: voice_crypto where
  "voice_crypto_init = \<lparr>vc_mode = AES256_GCM_RTPSIZE, vc_key = [], vc_nonce = 0\<rparr>"

definition encrypt_xchacha20 ::
    "sodium \<Rightarrow> voice_crypto \<Rightarrow> bytes \<Rightarrow> bytes \<Rightarrow> u32 \<Rightarrow> (errc + bytes) option" where
  "encrypt_xchacha20 so c header payload nonce_val = do {
     let result = replicate (12 + length payload + TAG_SIZE + NONCE_SIZE) 0;
     result1 \<leftarrow> store result 0 header;
     nonce_bytes \<leftarrow> put_be (replicate 4 0) 0 nonce_val;
     iv \<leftarrow> store (replicate XCHACHA20_NPUBBYTES 0) 0 nonce_bytes;
     key \<leftarrow> subspan (vc_key c) 0 SODIUM_KEYBYTES;
     (case xchacha20_encrypt so key iv header payload of
        None \<Rightarrow> Some (Inl io_error)
      | Some ct \<Rightarrow> do {
          result2 \<leftarrow> store result1 12 ct;
          result3 \<leftarrow> store result2 (12 + length ct) nonce_bytes;
          Some (Inr result3)
        })
   }"

definition encrypt_aes256gcm ::
    "sodium \<Rightarrow> voice_crypto \<Rightarrow> bytes \<Rightarrow> bytes \<Rightarrow> u32 \<Rightarrow> (errc + bytes) option" where
  "encrypt_aes256gcm so c header payload nonce_val = do {
     let result = replicate (12 + length payload + TAG_SIZE + NONCE_SIZE) 0;
     result1 \<leftarrow> store result 0 header;
     nonce_bytes \<leftarrow> put_be (replicate 4 0) 0 nonce_val;
     iv \<leftarrow> store (replicate AES256GCM_NPUBBYTES 0) 0 nonce_bytes;
     key \<leftarrow> subspan (vc_key c) 0 SODIUM_KEYBYTES;
     (case aes256gcm_encrypt so key iv header payload of
        None \<Rightarrow> Some (Inl io_error)
      | Some ct \<Rightarrow> do {
          result2 \<leftarrow> store result1 12 ct;
          result3 \<leftarrow> store result2 (12 + length ct) nonce_bytes;
          Some (Inr result3)
        })
   }"

definition decrypt_xchacha20 ::
    "sodium \<Rightarrow> voice_crypto \<Rightarrow> bytes \<Rightarrow> bytes \<Rightarrow> (errc + bytes) option" where
  "decrypt_xchacha20 so c header encrypted_payload =
     (if length encrypted_payload < TAG_SIZE + NONCE_SIZE then Some (Inl message_size)
      else do {
        nonce_bytes \<leftarrow> subspan encrypted_payload (length encrypted_payload - NONCE_SIZE) 4;
        iv \<leftarrow> store (replicate XCHACHA20_NPUBBYTES 0) 0 nonce_bytes;
        let ciphertext_len = length encrypted_payload - NONCE_SIZE;
        let result = replicate (ciphertext_len - TAG_SIZE) 0;
        key \<leftarrow> subspan (vc_key c) 0 SODIUM_KEYBYTES;
        (case xchacha20_decrypt so key iv header (take ciphertext_len encrypted_payload) of
           None \<Rightarrow> Some (Inl io_error)
         | Some pt \<Rightarrow> do {
             result1 \<leftarrow> store result 0 pt;
             Some (Inr (resize_bytes result1 (length pt)))
           })
      })"

definition decrypt_aes256gcm ::
    "sodium \<Rightarrow> voice_crypto \<Rightarrow> bytes \<Rightarrow> bytes \<Rightarrow> (errc + bytes) option" where
  "decrypt_aes256gcm so c header encrypted_payload =
     (if length encrypted_payload < TAG_SIZE + NONCE_SIZE then Some (Inl message_size)
      else do {
        nonce_bytes \<leftarrow> subspan encrypted_payload (length encrypted_payload - NONCE_SIZE) 4;
        iv \<leftarrow> store (replicate AES256GCM_NPUBBYTES 0) 0 nonce_bytes;
        let ciphertext_len = length encrypted_payload - NONCE_SIZE;
        let result = replicate (ciphertext_len - TAG_SIZE) 0;
        key \<leftarrow> subspan (vc_key c) 0 SODIUM_KEYBYTES;
        (case aes256gcm_decrypt so key iv header (take ciphertext_len encrypted_payload) of
           None \<Rightarrow> Some (Inl io_error)
         | Some pt \<Rightarrow> do {
             result1 \<leftarrow> store result 0 pt;
             Some (Inr (resize_bytes result1 (length pt)))
           })
      })"

definition encrypt_rtp ::
    "sodium \<Rightarrow> bytes \<Rightarrow> bytes \<Rightarrow> voice_crypto \<Rightarrow> (voice_crypto \<times> (errc + bytes)) option" where
  "encrypt_rtp so header payload c =
     (let nonce_val = vc_nonce c; c1 = c\<lparr>vc_nonce := vc_nonce c + 1\<rparr>
      in map_option (Pair c1)
           (case vc_mode c of
              XChaCha20_Poly1305_RTPSIZE \<Rightarrow> encrypt_xchacha20 so c1 header payload nonce_val
            | AES256_GCM_RTPSIZE \<Rightarrow> encrypt_aes256gcm so c1 header payload nonce_val))"

definition decrypt_rtp :: "sodium \<Rightarrow> bytes \<Rightarrow> bytes \<Rightarrow> voice_crypto \<Rightarrow> (errc + bytes) option" where
  "decrypt_rtp so header encrypted_payload c =
     (case vc_mode c of
        XChaCha20_Poly1305_RTPSIZE \<Rightarrow> decrypt_xchacha20 so c header encrypted_payload
      | AES256_GCM_RTPSIZE \<Rightarrow> decrypt_aes256gcm so c header encrypted_payload)"

section \<open>What the code relies on\<close>

text \<open>
  An authenticated cipher as libsodium documents it, for keys and nonces of its sizes: encryption
  appends a sixteen byte tag, decryption under the same key, nonce and additional data gives the
  plaintext back, and whatever decryption accepts is sixteen bytes longer than its plaintext.
\<close>

definition aead_pair ::
    "nat \<Rightarrow> (bytes \<Rightarrow> bytes \<Rightarrow> bytes \<Rightarrow> bytes \<Rightarrow> bytes option)
     \<Rightarrow> (bytes \<Rightarrow> bytes \<Rightarrow> bytes \<Rightarrow> bytes \<Rightarrow> bytes option) \<Rightarrow> bool" where
  "aead_pair iv_size enc dec \<longleftrightarrow> (\<forall>key iv aad pt. length key = 32 \<longrightarrow> length iv = iv_size \<longrightarrow>
     (\<exists>ct. enc key iv aad pt = Some ct \<and> length ct = length pt + 16 \<and> dec key iv aad ct = Some pt)
     \<and> (\<forall>ct. dec key iv aad ct = Some pt \<longrightarrow> length ct = length pt + 16))"

definition sodium_aead :: "sodium \<Rightarrow> bool" where
  "sodium_aead so \<longleftrightarrow> aead_pair 24 (xchacha20_encrypt so) (xchacha20_decrypt so)
     \<and> aead_pair 12 (aes256gcm_encrypt so) (aes256gcm_decrypt so)"

text \<open>An instance: the ciphertext is the plaintext followed by a constant tag.\<close>

definition pad_encrypt :: "bytes \<Rightarrow> bytes \<Rightarrow> bytes \<Rightarrow> bytes \<Rightarrow> bytes option" where
  "pad_encrypt key iv aad pt = Some (pt @ replicate 16 0)"

definition pad_decrypt :: "bytes \<Rightarrow> bytes \<Rightarrow> bytes \<Rightarrow> bytes \<Rightarrow> bytes option" where
  "pad_decrypt key iv aad ct =
     (if 16 \<le> length ct \<and> drop (length ct - 16) ct = replicate 16 0
      then Some (take (length ct - 16) ct) else None)"

definition pad_sodium :: sodium where
  "pad_sodium = \<lparr>xchacha20_encrypt = pad_encrypt, xchacha20_decrypt = pad_decrypt,
     aes256gcm_encrypt = pad_encrypt, aes256gcm_decrypt = pad_decrypt\<rparr>"

lemma pad_sodium_aead: "sodium_aead pad_sodium"
  by (auto simp: sodium_aead_def aead_pair_def pad_sodium_def pad_encrypt_def pad_decrypt_def
      split: if_splits)

section \<open>A sealed packet opens\<close>

text \<open>
  The two modes share one contract: sealing lays the packet out as header, ciphertext with tag and
  nonce; opening what follows the header gives the payload back; and opening arbitrary bytes never
  leaves a buffer.
\<close>

definition key_installed :: "voice_crypto \<Rightarrow> bool" where
  "key_installed c \<longleftrightarrow> 32 \<le> length (vc_key c)"

definition packet_nonce :: "bytes \<Rightarrow> bytes" where
  "packet_nonce packet = drop (length packet - 4) packet"

locale packet_seal =
  fixes seal :: "sodium \<Rightarrow> voice_crypto \<Rightarrow> bytes \<Rightarrow> bytes \<Rightarrow> u32 \<Rightarrow> (errc + bytes) option"
    and unseal :: "sodium \<Rightarrow> voice_crypto \<Rightarrow> bytes \<Rightarrow> bytes \<Rightarrow> (errc + bytes) option"
  assumes sealed: "sodium_aead so \<Longrightarrow> key_installed c \<Longrightarrow> length header = 12 \<Longrightarrow>
      \<exists>ct. seal so c header payload n = Some (Inr (header @ ct @ be_bytes n))
        \<and> length ct = length payload + 16
        \<and> unseal so c header (ct @ be_bytes n) = Some (Inr payload)"
    and unseal_safe: "sodium_aead so \<Longrightarrow> key_installed c \<Longrightarrow>
      \<exists>r. unseal so c header bs = Some r \<and> (\<forall>pt. r = Inr pt \<longrightarrow> length bs = length pt + 20)"
    and unseal_key: "vc_key c = vc_key c' \<Longrightarrow> unseal so c = unseal so c'"
begin

lemma seal_unseal:
  assumes "sodium_aead so" "key_installed c" "length header = 12" "vc_key c' = vc_key c"
  obtains packet where "seal so c header payload n = Some (Inr packet)"
    "take 12 packet = header" "length packet = length payload + 32"
    "unseal so c' header (drop 12 packet) = Some (Inr payload)"
    "packet_nonce packet = be_bytes n"
proof -
  from sealed [OF assms(1-3), of payload n] obtain ct where
    "seal so c header payload n = Some (Inr (header @ ct @ be_bytes n))" "length ct = length payload + 16"
    "unseal so c header (ct @ be_bytes n) = Some (Inr payload)" by blast
  with assms(3) unseal_key [OF assms(4), of so] show ?thesis
    by (intro that [of "header @ ct @ be_bytes n"]) (simp_all add: packet_nonce_def)
qed

end

lemma aead_pairD:
  assumes "aead_pair k enc dec" "length key = 32" "length iv = k"
  shows "\<exists>ct. enc key iv aad pt = Some ct \<and> length ct = length pt + 16 \<and> dec key iv aad ct = Some pt"
    "dec key iv aad ct = Some pt \<Longrightarrow> length ct = length pt + 16"
  using assms(1) [unfolded aead_pair_def, rule_format, OF assms(2,3)] by blast+

lemma put_nonce: "put_be (replicate 4 0) 0 (n :: u32) = Some (be_bytes n)"
  by (simp add: put_be_def store_def)

lemma store_replicate_prefix:
  "length src \<le> n \<Longrightarrow> store (replicate n 0) 0 src = Some (src @ replicate (n - length src) 0)"
  by (simp add: store_def)

text \<open>The packet buffer is filled exactly.\<close>

lemma packet_buffer:
  assumes "length header = 12" "length ct = n + 16"
  shows "do {
       r1 \<leftarrow> store (replicate (12 + n + TAG_SIZE + NONCE_SIZE) (0 :: u8)) 0 header;
       r2 \<leftarrow> store r1 12 ct;
       store r2 (12 + length ct) (be_bytes (m :: u32))
     } = Some (header @ ct @ be_bytes m)"
proof -
  have r1: "store (replicate (12 + n + TAG_SIZE + NONCE_SIZE) (0 :: u8)) 0 header
      = Some (header @ replicate (n + 20) 0)"
    by (subst store_replicate_prefix) (simp_all add: assms rtp_consts)
  have r2: "store (header @ replicate (n + 20) (0 :: u8)) 12 ct = Some (header @ ct @ replicate 4 0)"
    by (subst store_after) (simp_all add: assms)
  have r3: "store ((header @ ct) @ replicate 4 (0 :: u8)) (12 + length ct) (be_bytes m)
      = Some ((header @ ct) @ be_bytes m @ [])"
    by (subst store_after) (simp_all add: assms)
  show ?thesis
    unfolding r1 Option.bind.bind_lunit r2 using r3 by (simp only: append_assoc append_Nil2)
qed

lemma open_buffer:
  assumes "length pt = n"
  shows "store (replicate n (0 :: u8)) 0 pt = Some pt" "resize_bytes pt n = pt"
  using assms by (simp_all add: store_def resize_bytes_def)

lemma crypto_key:
  assumes "key_installed c"
  shows "subspan (vc_key c) 0 SODIUM_KEYBYTES = Some (take 32 (vc_key c))" "length (take 32 (vc_key c)) = 32"
  using assms by (simp_all add: key_installed_def subspan_def rtp_consts)

lemma wire_suffix:
  "length ct = n + 16 \<Longrightarrow> subspan (ct @ be_bytes (m :: u32)) (length (ct @ be_bytes m) - NONCE_SIZE) 4 = Some (be_bytes m)"
  by (simp add: subspan_def rtp_consts)

text \<open>The two modes are one algorithm over a cipher and the size of its nonce.\<close>

definition seal_with ::
    "nat \<Rightarrow> (bytes \<Rightarrow> bytes \<Rightarrow> bytes \<Rightarrow> bytes \<Rightarrow> bytes option) \<Rightarrow> bytes \<Rightarrow> bytes \<Rightarrow> bytes \<Rightarrow> u32
     \<Rightarrow> (errc + bytes) option" where
  "seal_with iv_size enc key header payload n = do {
     result1 \<leftarrow> store (replicate (12 + length payload + TAG_SIZE + NONCE_SIZE) 0) 0 header;
     nonce_bytes \<leftarrow> put_be (replicate 4 0) 0 n;
     iv \<leftarrow> store (replicate iv_size 0) 0 nonce_bytes;
     key \<leftarrow> subspan key 0 SODIUM_KEYBYTES;
     (case enc key iv header payload of
        None \<Rightarrow> Some (Inl io_error)
      | Some ct \<Rightarrow> do {
          result2 \<leftarrow> store result1 12 ct;
          result3 \<leftarrow> store result2 (12 + length ct) nonce_bytes;
          Some (Inr result3)
        })
   }"

definition unseal_with ::
    "nat \<Rightarrow> (bytes \<Rightarrow> bytes \<Rightarrow> bytes \<Rightarrow> bytes \<Rightarrow> bytes option) \<Rightarrow> bytes \<Rightarrow> bytes \<Rightarrow> bytes
     \<Rightarrow> (errc + bytes) option" where
  "unseal_with iv_size dec key header bs =
     (if length bs < TAG_SIZE + NONCE_SIZE then Some (Inl message_size)
      else do {
        nonce_bytes \<leftarrow> subspan bs (length bs - NONCE_SIZE) 4;
        iv \<leftarrow> store (replicate iv_size 0) 0 nonce_bytes;
        key \<leftarrow> subspan key 0 SODIUM_KEYBYTES;
        (case dec key iv header (take (length bs - NONCE_SIZE) bs) of
           None \<Rightarrow> Some (Inl io_error)
         | Some pt \<Rightarrow> do {
             result1 \<leftarrow> store (replicate (length bs - NONCE_SIZE - TAG_SIZE) 0) 0 pt;
             Some (Inr (resize_bytes result1 (length pt)))
           })
      })"

lemma modes_seal_with:
  "encrypt_xchacha20 so c h p n = seal_with 24 (xchacha20_encrypt so) (vc_key c) h p n"
  "encrypt_aes256gcm so c h p n = seal_with 12 (aes256gcm_encrypt so) (vc_key c) h p n"
  "decrypt_xchacha20 so c h bs = unseal_with 24 (xchacha20_decrypt so) (vc_key c) h bs"
  "decrypt_aes256gcm so c h bs = unseal_with 12 (aes256gcm_decrypt so) (vc_key c) h bs"
  unfolding encrypt_xchacha20_def encrypt_aes256gcm_def decrypt_xchacha20_def decrypt_aes256gcm_def
    seal_with_def unseal_with_def XCHACHA20_NPUBBYTES_def AES256GCM_NPUBBYTES_def Let_def by (rule refl)+

lemma seal_with_eq:
  assumes a: "aead_pair k enc dec" "4 \<le> k" and key: "32 \<le> length key" and h: "length header = 12"
  shows "\<exists>ct. seal_with k enc key header payload n = Some (Inr (header @ ct @ be_bytes n))
     \<and> length ct = length payload + 16 \<and> unseal_with k dec key header (ct @ be_bytes n) = Some (Inr payload)"
proof -
  define iv where "iv = be_bytes n @ replicate (k - 4) 0"
  have iv: "store (replicate k 0) 0 (be_bytes n) = Some iv" "length iv = k"
    using a(2) by (simp_all add: iv_def store_replicate_prefix)
  have k: "subspan key 0 SODIUM_KEYBYTES = Some (take 32 key)" "length (take 32 key) = 32"
    using key by (simp_all add: subspan_def rtp_consts)
  from aead_pairD(1) [OF a(1) k(2) iv(2)] obtain ct where ct: "enc (take 32 key) iv header payload = Some ct"
    "length ct = length payload + 16" "dec (take 32 key) iv header ct = Some payload" by blast
  have "seal_with k enc key header payload n = Some (Inr (header @ ct @ be_bytes n))"
    using packet_buffer [OF h ct(2), of n] by (auto simp: seal_with_def put_nonce iv k ct(1) bind_Some_iff)
  moreover have "unseal_with k dec key header (ct @ be_bytes n) = Some (Inr payload)"
  proof -
    have len: "length (ct @ be_bytes n) - NONCE_SIZE = length ct" "length ct - TAG_SIZE = length payload"
      "\<not> length (ct @ be_bytes n) < TAG_SIZE + NONCE_SIZE"
      using ct(2) by (simp_all add: rtp_consts)
    show ?thesis
      unfolding unseal_with_def wire_suffix [OF ct(2)] using len
      by (simp add: iv k ct(3) open_buffer)
  qed
  ultimately show ?thesis using ct(2) by blast
qed

lemma unseal_with_safe:
  assumes a: "aead_pair k enc dec" "4 \<le> k" and key: "32 \<le> length key"
  shows "\<exists>r. unseal_with k dec key header bs = Some r \<and> (\<forall>pt. r = Inr pt \<longrightarrow> length bs = length pt + 20)"
proof (cases "length bs < TAG_SIZE + NONCE_SIZE")
  case True
  then show ?thesis by (simp add: unseal_with_def)
next
  case False
  define nb where "nb = take 4 (drop (length bs - NONCE_SIZE) bs)"
  define iv where "iv = nb @ replicate (k - 4) 0"
  have nb: "subspan bs (length bs - NONCE_SIZE) 4 = Some nb" "length nb = 4"
    using False by (simp_all add: nb_def subspan_def rtp_consts)
  then have iv: "store (replicate k 0) 0 nb = Some iv" "length iv = k"
    using a(2) by (simp_all add: iv_def store_replicate_prefix)
  have k: "subspan key 0 SODIUM_KEYBYTES = Some (take 32 key)" "length (take 32 key) = 32"
    using key by (simp_all add: subspan_def rtp_consts)
  show ?thesis
  proof (cases "dec (take 32 key) iv header (take (length bs - NONCE_SIZE) bs)")
    case None
    then show ?thesis using False by (simp add: unseal_with_def nb iv k)
  next
    case (Some pt)
    from aead_pairD(2) [OF a(1) k(2) iv(2) this] False
    have len: "length bs = length pt + 20" by (simp add: rtp_consts)
    then have "length bs - NONCE_SIZE - TAG_SIZE = length pt" by (simp add: rtp_consts)
    then have "unseal_with k dec key header bs = Some (Inr pt)"
      using False Some by (simp add: unseal_with_def nb iv k open_buffer)
    with len show ?thesis by simp
  qed
qed

interpretation xchacha20: packet_seal encrypt_xchacha20 decrypt_xchacha20
  by unfold_locales (auto simp: modes_seal_with sodium_aead_def key_installed_def fun_eq_iff
      intro: seal_with_eq unseal_with_safe)

interpretation aes256gcm: packet_seal encrypt_aes256gcm decrypt_aes256gcm
  by unfold_locales (auto simp: modes_seal_with sodium_aead_def key_installed_def fun_eq_iff
      intro: seal_with_eq unseal_with_safe)

text \<open>Both operations in either mode, for two ends that hold the same key.\<close>

definition same_transport :: "voice_crypto \<Rightarrow> voice_crypto \<Rightarrow> bool" where
  "same_transport c c' \<longleftrightarrow> vc_mode c = vc_mode c' \<and> vc_key c = vc_key c'"

lemma encrypt_decrypt_rtp:
  assumes "sodium_aead so" "key_installed c" "length header = 12" "same_transport c c'"
  obtains packet where "encrypt_rtp so header payload c = Some (c\<lparr>vc_nonce := vc_nonce c + 1\<rparr>, Inr packet)"
    "take 12 packet = header" "length packet = length payload + 32"
    "decrypt_rtp so header (drop 12 packet) c' = Some (Inr payload)"
    "packet_nonce packet = be_bytes (vc_nonce c)"
proof -
  let ?c1 = "c\<lparr>vc_nonce := vc_nonce c + 1\<rparr>"
  have c1: "key_installed ?c1" "vc_key c' = vc_key ?c1" "vc_mode c' = vc_mode c"
    using assms(2,4) by (simp_all add: key_installed_def same_transport_def)
  show ?thesis
  proof (cases "vc_mode c")
    case XChaCha20_Poly1305_RTPSIZE
    show ?thesis
      by (rule xchacha20.seal_unseal [OF assms(1) c1(1) assms(3) c1(2), of payload "vc_nonce c"], rule that)
        (simp_all add: XChaCha20_Poly1305_RTPSIZE c1(3) encrypt_rtp_def decrypt_rtp_def)
  next
    case AES256_GCM_RTPSIZE
    show ?thesis
      by (rule aes256gcm.seal_unseal [OF assms(1) c1(1) assms(3) c1(2), of payload "vc_nonce c"], rule that)
        (simp_all add: AES256_GCM_RTPSIZE c1(3) encrypt_rtp_def decrypt_rtp_def)
  qed
qed

lemma decrypt_rtp_safe:
  assumes "sodium_aead so" "key_installed c"
  shows "\<exists>r. decrypt_rtp so header bs c = Some r \<and> (\<forall>pt. r = Inr pt \<longrightarrow> length bs = length pt + 20)"
  using xchacha20.unseal_safe [OF assms] aes256gcm.unseal_safe [OF assms]
  by (cases "vc_mode c") (simp_all add: decrypt_rtp_def)

section \<open>A stream of packets\<close>

text \<open>The packets of a sequence of headers and payloads, each sealed after the one before.\<close>

fun seal_stream :: "sodium \<Rightarrow> voice_crypto \<Rightarrow> (bytes \<times> bytes) list \<Rightarrow> bytes list option" where
  "seal_stream so c [] = Some []"
| "seal_stream so c ((header, payload) # rest) =
     (case encrypt_rtp so header payload c of
        Some (c1, Inr packet) \<Rightarrow> map_option (Cons packet) (seal_stream so c1 rest)
      | _ \<Rightarrow> None)"

definition open_packet :: "sodium \<Rightarrow> voice_crypto \<Rightarrow> bytes \<Rightarrow> (errc + bytes) option" where
  "open_packet so c packet = decrypt_rtp so (take 12 packet) (drop 12 packet) c"

lemma same_transport_nonce [simp]: "same_transport (c\<lparr>vc_nonce := n\<rparr>) c' = same_transport c c'"
  by (simp add: same_transport_def)

lemma seal_stream_opens:
  assumes "sodium_aead so" "key_installed c" "same_transport c c'" "\<forall>(h, p) \<in> set hps. length h = 12"
  shows "\<exists>packets. seal_stream so c hps = Some packets \<and> length packets = length hps
     \<and> map (open_packet so c') packets = map (\<lambda>(h, p). Some (Inr p)) hps
     \<and> map packet_nonce packets = map (\<lambda>i. be_bytes (vc_nonce c + of_nat i)) [0..<length hps]"
  using assms(2-4)
proof (induction hps arbitrary: c)
  case Nil
  then show ?case by simp
next
  case (Cons hp hps)
  obtain h p where hp: "hp = (h, p)" by force
  let ?c1 = "c\<lparr>vc_nonce := vc_nonce c + 1\<rparr>"
  from Cons.prems hp have "length h = 12" by simp
  from encrypt_decrypt_rtp [OF assms(1) Cons.prems(1) this Cons.prems(2), of p]
  obtain packet where p: "encrypt_rtp so h p c = Some (?c1, Inr packet)" "take 12 packet = h"
    "decrypt_rtp so h (drop 12 packet) c' = Some (Inr p)" "packet_nonce packet = be_bytes (vc_nonce c)"
    by metis
  have "key_installed ?c1" "same_transport ?c1 c'" "\<forall>(h, p) \<in> set hps. length h = 12"
    using Cons.prems by (simp_all add: key_installed_def)
  from Cons.IH [OF this] obtain packets where ps: "seal_stream so ?c1 hps = Some packets"
    "length packets = length hps" "map (open_packet so c') packets = map (\<lambda>(h, p). Some (Inr p)) hps"
    "map packet_nonce packets = map (\<lambda>i. be_bytes (vc_nonce ?c1 + of_nat i)) [0..<length hps]" by blast
  have "map (\<lambda>i. be_bytes (vc_nonce c + of_nat i)) [0..<length (hp # hps)]
      = be_bytes (vc_nonce c) # map (\<lambda>i. be_bytes (vc_nonce ?c1 + of_nat i)) [0..<length hps]"
    by (simp add: upt_conv_Cons map_Suc_upt [symmetric] comp_def ac_simps del: upt_Suc map_Suc_upt)
  moreover have "open_packet so c' packet = Some (Inr p)"
    using p by (simp add: open_packet_def)
  ultimately show ?case
    using p(1,4) ps hp by (intro exI [of _ "packet # packets"]) simp
qed

lemma distinct_nonce_counter:
  assumes "n \<le> 2 ^ 32"
  shows "distinct (map (\<lambda>i. be_bytes (start + of_nat i :: u32)) [0..<n])"
proof -
  have "inj_on (\<lambda>i. be_bytes (start + of_nat i :: u32)) (set [0..<n])"
  proof (rule inj_onI)
    fix i j
    assume ij: "i \<in> set [0..<n]" "j \<in> set [0..<n]"
      and "be_bytes (start + of_nat i :: u32) = be_bytes (start + of_nat j)"
    then have "unat (of_nat i :: u32) = unat (of_nat j :: u32)"
      by (simp add: be_bytes_inj)
    with ij assms show "i = j"
      by (simp add: unsigned_of_nat take_bit_nat_eq_self_iff take_bit_nat_eq_self)
  qed
  then show ?thesis by (simp only: distinct_map distinct_upt simp_thms)
qed

section \<open>Properties\<close>

text \<open>
  An RTP header survives the wire: written into any buffer of at least twelve bytes it stays
  inside the first twelve, leaves the rest of the buffer alone, and parsing the buffer gives the
  header back, all fields included.
\<close>

theorem rtp_header_roundtrip:
  assumes "12 \<le> length buffer"
  shows "\<exists>buffer'. rtp_write_to h buffer = Some buffer' \<and> length buffer' = length buffer
     \<and> drop 12 buffer' = drop 12 buffer \<and> rtp_parse buffer' = Some h"
  using assms by (simp add: rtp_write_to_eq rtp_parse_bytes)

theorem rtp_header_roundtrip_witness:
  "\<exists>buffer'. rtp_write_to \<lparr>version_padding_extension = 0x80, marker_payload_type = 0x78,
       sequence = 0x1234, timestamp = 960, ssrc = 77\<rparr> (replicate 13 5) = Some buffer'
     \<and> drop 12 buffer' = [5] \<and> rtp_parse buffer' = Some \<lparr>version_padding_extension = 0x80,
         marker_payload_type = 0x78, sequence = 0x1234, timestamp = 960, ssrc = 77\<rparr>"
proof -
  have "drop 12 (replicate 13 5) = [5 :: u8]" by (simp add: drop_replicate)
  then show ?thesis
    using rtp_header_roundtrip [of "replicate 13 5" "\<lparr>version_padding_extension = 0x80,
      marker_payload_type = 0x78, sequence = 0x1234, timestamp = 960, ssrc = 77\<rparr>"] by auto
qed

text \<open>
  C16. Voice packets survive transport encryption in both modes, independently of each other: for
  every libsodium that behaves as documented and every 32 byte key, sealing any sequence of
  payloads succeeds, a receiver with the same mode and key opens each of the packets to its
  payload whatever became of the others, and up to 2^32 packets carry pairwise distinct nonces.
\<close>

theorem transport_stream_opens:
  assumes "sodium_aead so" "key_installed c" "same_transport c c'" "\<forall>(h, p) \<in> set hps. length h = 12"
  shows "\<exists>packets. seal_stream so c hps = Some packets
     \<and> map (open_packet so c') packets = map (\<lambda>(h, p). Some (Inr p)) hps
     \<and> (length hps \<le> 2 ^ 32 \<longrightarrow> distinct (map packet_nonce packets))"
  using seal_stream_opens [OF assms] distinct_nonce_counter [of "length hps" "vc_nonce c"] by force

theorem transport_stream_opens_witness:
  "\<exists>packets. seal_stream pad_sodium \<lparr>vc_mode = XChaCha20_Poly1305_RTPSIZE, vc_key = replicate 32 7, vc_nonce = 0xFFFFFFFF\<rparr>
       [(replicate 12 1, [1, 2, 3]), (replicate 12 2, [])] = Some packets
     \<and> map (open_packet pad_sodium \<lparr>vc_mode = XChaCha20_Poly1305_RTPSIZE, vc_key = replicate 32 7, vc_nonce = 0\<rparr>) packets
       = [Some (Inr [1, 2, 3]), Some (Inr [])]"
  using transport_stream_opens [OF pad_sodium_aead, of
      "\<lparr>vc_mode = XChaCha20_Poly1305_RTPSIZE, vc_key = replicate 32 7, vc_nonce = 0xFFFFFFFF\<rparr>"
      "\<lparr>vc_mode = XChaCha20_Poly1305_RTPSIZE, vc_key = replicate 32 7, vc_nonce = 0\<rparr>"
      "[(replicate 12 1, [1, 2, 3]), (replicate 12 2, [])]"]
  by (auto simp: key_installed_def same_transport_def)

end
