(* ===== verification/Json.thy ===== *)
theory Json
  imports Prelude
begin

text \<open>
  The part of \<^verbatim>\<open>nlohmann::json\<close> the source reads messages with, the standard library's
  decimal conversions, and \<^verbatim>\<open>src/snowflake.cpp\<close>. An access that throws, or that the
  library leaves undefined (\<^verbatim>\<open>operator[]\<close> on a constant object without the key), is
  \<^term>\<open>None\<close>. A floating point number is represented by its value truncated towards zero,
  which is all that the conversions to integers keep of it.
\<close>

datatype json =
    JNull | JBool bool | JInt int | JUint nat | JFloat int | JStr string
  | JArr "json list" | JObj "(string \<times> json) list"

fun contains :: "json \<Rightarrow> string \<Rightarrow> bool" where
  "contains (JObj kvs) k = (map_of kvs k \<noteq> None)"
| "contains _ k = False"

fun json_at :: "json \<Rightarrow> string \<Rightarrow> json option" where
  "json_at (JObj kvs) k = map_of kvs k"
| "json_at _ k = None"

fun is_string :: "json \<Rightarrow> bool" where
  "is_string (JStr s) = True" | "is_string _ = False"

fun is_null :: "json \<Rightarrow> bool" where
  "is_null JNull = True" | "is_null _ = False"

fun is_array :: "json \<Rightarrow> bool" where
  "is_array (JArr xs) = True" | "is_array _ = False"

fun is_number :: "json \<Rightarrow> bool" where
  "is_number (JInt i) = True" | "is_number (JUint n) = True" | "is_number (JFloat f) = True"
| "is_number _ = False"

text \<open>
  Arithmetic conversions. The narrow ones also take booleans; \<^verbatim>\<open>int64_t\<close> is the library's
  own integer type and does not.
\<close>

fun get_arith :: "json \<Rightarrow> int option" where
  "get_arith (JInt i) = Some i"
| "get_arith (JUint n) = Some (int n)"
| "get_arith (JFloat f) = Some f"
| "get_arith (JBool b) = Some (if b then 1 else 0)"
| "get_arith _ = None"

definition get_word :: "json \<Rightarrow> 'a::len word option" where
  "get_word j = map_option of_int (get_arith j)"

definition get_int :: "json \<Rightarrow> int option" where
  "get_int j = map_option (\<lambda>i. sint (of_int i :: u32)) (get_arith j)"

definition get_int64 :: "json \<Rightarrow> int option" where
  "get_int64 j = (case j of JBool _ \<Rightarrow> None
     | _ \<Rightarrow> map_option (\<lambda>i. sint (of_int i :: u64)) (get_arith j))"

fun get_string :: "json \<Rightarrow> string option" where
  "get_string (JStr s) = Some s" | "get_string _ = None"

fun sequence_options :: "'a option list \<Rightarrow> 'a list option" where
  "sequence_options [] = Some []"
| "sequence_options (None # xs) = None"
| "sequence_options (Some x # xs) = map_option (Cons x) (sequence_options xs)"

fun get_byte_vector :: "json \<Rightarrow> bytes option" where
  "get_byte_vector (JArr xs) = sequence_options (map get_word xs)"
| "get_byte_vector _ = None"

lemma sequence_options_Some [simp]: "sequence_options (map Some xs) = Some xs"
  by (induction xs) auto

lemma sequence_options_length: "sequence_options xs = Some ys \<Longrightarrow> length ys = length xs"
  by (induction xs arbitrary: ys rule: sequence_options.induct) auto

section \<open>Decimal numbers\<close>

definition digit_char :: "nat \<Rightarrow> char" where
  "digit_char d = char_of (48 + d)"

fun to_decimal :: "nat \<Rightarrow> string" where
  "to_decimal n = (if n < 10 then [digit_char n] else to_decimal (n div 10) @ [digit_char (n mod 10)])"

declare to_decimal.simps [simp del]

definition to_string :: "u64 \<Rightarrow> string" where
  "to_string n = to_decimal (unat n)"

definition is_digit :: "char \<Rightarrow> bool" where
  "is_digit c \<longleftrightarrow> 48 \<le> (of_char c :: nat) \<and> (of_char c :: nat) \<le> 57"

definition digit_value :: "char \<Rightarrow> nat" where
  "digit_value c = of_char c - 48"

definition is_space :: "char \<Rightarrow> bool" where
  "is_space c \<longleftrightarrow> (of_char c :: nat) \<in> {32, 9, 10, 11, 12, 13}"

definition decimal_value :: "string \<Rightarrow> nat" where
  "decimal_value ds = foldl (\<lambda>v c. 10 * v + digit_value c) 0 ds"

text \<open>
  \<^verbatim>\<open>std::stoull\<close> in base 10: white space, an optional sign (a minus negates modulo
  2^64), the longest run of digits, whatever follows ignored; it throws on no digits and on a
  value of 2^64 or more.
\<close>

definition split_sign :: "string \<Rightarrow> bool \<times> string" where
  "split_sign s = (case s of
     [] \<Rightarrow> (False, [])
   | c # cs \<Rightarrow> if c = CHR ''-'' then (True, cs) else if c = CHR ''+'' then (False, cs) else (False, s))"

definition stoull :: "string \<Rightarrow> u64 option" where
  "stoull s =
     (let (negative, rest) = split_sign (dropWhile is_space s);
          ds = takeWhile is_digit rest;
          v = decimal_value ds
      in if ds = [] then None
         else if v \<ge> 2 ^ 64 then None
         else Some (if negative then - of_nat v else of_nat v))"

section \<open>Snowflakes\<close>

type_synonym snowflake = u64

definition snowflake_timestamp :: "snowflake \<Rightarrow> u64" where
  "snowflake_timestamp s = drop_bit 22 s + 1420070400000"

definition snowflake_to_json :: "snowflake \<Rightarrow> json" where
  "snowflake_to_json s = JStr (to_string s)"

definition snowflake_from_json :: "json \<Rightarrow> snowflake \<Rightarrow> snowflake option" where
  "snowflake_from_json j s = (case j of
     JStr str \<Rightarrow> if str \<noteq> [] \<and> list_all is_digit str then stoull str else Some s
   | JUint n \<Rightarrow> Some (of_nat n)
   | _ \<Rightarrow> Some s)"

section \<open>Lemmas\<close>

lemma digit_char_props:
  assumes "d < 10"
  shows "is_digit (digit_char d)" "digit_value (digit_char d) = d" "\<not> is_space (digit_char d)"
    "digit_char d \<noteq> CHR ''-''" "digit_char d \<noteq> CHR ''+''"
proof -
  have c: "of_char (digit_char d) = (48 + d :: nat)"
    using assms by (simp add: digit_char_def)
  then show "is_digit (digit_char d)" "digit_value (digit_char d) = d" "\<not> is_space (digit_char d)"
    using assms by (auto simp: is_digit_def digit_value_def is_space_def)
  show "digit_char d \<noteq> CHR ''-''" "digit_char d \<noteq> CHR ''+''"
    using c by auto
qed

lemma to_decimal_digits: "list_all is_digit (to_decimal n)"
proof (induction n rule: to_decimal.induct)
  case (1 n)
  then show ?case
    by (cases "n < 10") (simp_all add: to_decimal.simps [of n] digit_char_props(1))
qed

lemma to_decimal_nonempty [simp]: "to_decimal n \<noteq> []"
  by (subst to_decimal.simps) simp

lemma decimal_value_to_decimal: "decimal_value (to_decimal n) = n"
proof (induction n rule: to_decimal.induct)
  case (1 n)
  show ?case
  proof (cases "n < 10")
    case True
    then show ?thesis
      by (simp add: to_decimal.simps [of n] decimal_value_def digit_char_props(2))
  next
    case False
    with 1 have "decimal_value (to_decimal n) = 10 * (n div 10) + n mod 10"
      by (simp add: to_decimal.simps [of n] decimal_value_def digit_char_props(2))
    then show ?thesis by simp
  qed
qed

lemma digit_no_space_sign:
  assumes "is_digit c"
  shows "\<not> is_space c" "c \<noteq> CHR ''-''" "c \<noteq> CHR ''+''"
  using assms by (auto simp: is_digit_def is_space_def)

lemma stoull_digits:
  assumes "ds \<noteq> []" "list_all is_digit ds"
  shows "stoull ds = (if decimal_value ds < 2 ^ 64 then Some (of_nat (decimal_value ds)) else None)"
proof -
  obtain c cs where ds: "ds = c # cs" using assms(1) by (cases ds) auto
  have c: "is_digit c" using assms(2) by (simp add: ds)
  have "dropWhile is_space ds = ds" "split_sign ds = (False, ds)"
    using digit_no_space_sign [OF c] by (simp_all add: ds split_sign_def)
  moreover have "takeWhile is_digit ds = ds"
    using assms(2) by (simp add: list_all_iff takeWhile_eq_all_conv)
  ultimately show ?thesis
    unfolding stoull_def using assms(1) by (simp add: Let_def del: takeWhile_eq_all_conv)
qed

lemma stoull_to_string [simp]: "stoull (to_string n) = Some n"
  using unat_u64 [of n]
  by (simp add: to_string_def stoull_digits to_decimal_digits decimal_value_to_decimal)

lemma to_string_inj: "to_string a = to_string b \<longleftrightarrow> a = b"
  by (metis stoull_to_string option.inject)

lemma to_string_nonempty [simp]: "to_string n \<noteq> []"
  by (simp add: to_string_def)

text \<open>
  A Snowflake survives its JSON representation: for every 64 bit identifier, reading back what
  \<open>to_json\<close> wrote gives the identifier, whatever the target held before, and reading never
  throws on it.
\<close>

lemma snowflake_json_roundtrip: "snowflake_from_json (snowflake_to_json s) t = Some s"
  by (simp add: snowflake_from_json_def snowflake_to_json_def)
    (simp add: to_string_def to_decimal_digits)

end
