(* ===== verification/Voice_State.thy ===== *)
theory Voice_State
  imports Voice_Rtp Decryptor Json
begin

text \<open>
  \<^verbatim>\<open>src/voice/voice_connection_impl.hpp\<close>: the state of a voice connection. The fields keep
  their names without the prefix \<^verbatim>\<open>m_\<close>. A channel, a timer and a socket are represented
  by whether they exist; what is queued in the channels and who waits on the timers belongs to the
  operations that use them. The MLS session is of type \<^typ>\<open>'s\<close>.
\<close>

datatype voice_connection_state =
    Disconnected | Connecting | Identifying | Ready | Resuming | Closed

definition kMaxMissedHeartbeats :: int where "kMaxMissedHeartbeats = 3"

text \<open>The close codes, and which of them allow a resume.\<close>

datatype voice_close_code =
    UnknownOpcode | FailedToDecodePayload | NotAuthenticated | AuthenticationFailed
  | AlreadyAuthenticated | SessionNoLongerValid | SessionTimeout | ServerNotFound
  | UnknownProtocol | CC_Disconnected | VoiceServerCrashed | UnknownEncryptionMode

fun close_code_value :: "voice_close_code \<Rightarrow> u16" where
  "close_code_value UnknownOpcode = 4001"
| "close_code_value FailedToDecodePayload = 4002"
| "close_code_value NotAuthenticated = 4003"
| "close_code_value AuthenticationFailed = 4004"
| "close_code_value AlreadyAuthenticated = 4005"
| "close_code_value SessionNoLongerValid = 4006"
| "close_code_value SessionTimeout = 4009"
| "close_code_value ServerNotFound = 4011"
| "close_code_value UnknownProtocol = 4012"
| "close_code_value CC_Disconnected = 4014"
| "close_code_value VoiceServerCrashed = 4015"
| "close_code_value UnknownEncryptionMode = 4016"

text \<open>The argument is the enumeration's underlying value: the code casts any number to it.\<close>

definition should_resume :: "u16 \<Rightarrow> bool" where
  "should_resume code = (code = close_code_value VoiceServerCrashed)"

definition is_resumable_close_code :: "u16 \<Rightarrow> bool" where
  "is_resumable_close_code code =
     (if code < 4000 then True
      else if code \<ge> 4001 \<and> code \<le> 4016 then should_resume code
      else True)"

record audio_packet =
  encoded :: bytes
  frame_count :: size_t

record packet =
  pk_sequence :: u16
  pk_timestamp :: u32
  pk_ssrc :: u32
  pk_opus :: bytes
  pk_user_id :: snowflake

record ('h, 's) dave_state =
  ds_session :: "'s option"
  ds_encryptor :: "'h encryptor option"
  ds_decryptors :: "string \<rightharpoonup> 'h decryptor"
  ds_cached_roster_map :: "u64 \<rightharpoonup> bytes"
  ds_protocol_version :: u16
  ds_done_ready :: bool
  ds_privacy_code :: string

record voice_state =
  vs_guild_id :: "snowflake option"
  vs_channel_id :: "snowflake option"
  vs_user_id :: snowflake
  vs_session_id :: string

record ('h, 's) voice_impl =
  ws :: bool
  channel :: bool
  ready_chan :: bool
  recv_chan :: bool
  heartbeat_timer :: bool
  send_timer :: bool
  udp :: bool
  crypto :: voice_crypto
  dave :: "('h, 's) dave_state option"
  dave_user_list :: "u64 list"
  media_session_id :: string
  recognized_user_ids :: "string set"
  dave_transition_versions :: "u16 \<rightharpoonup> int"
  vstate :: voice_state
  token :: string
  heartbeat_interval_ms :: u32
  last_heartbeat_acked :: bool
  heartbeat_running :: bool
  warned_waiting_for_e2ee :: bool
  last_seq :: int
  pending_frames :: u64
  v_ssrc :: u32
  connection_state :: voice_connection_state
  disconnected :: bool
  speaking :: bool
  missed_heartbeats :: int
  packet_count :: u64
  rtp_sequence :: u16
  rtp_timestamp :: u32
  ssrc_to_user_id :: "u32 \<rightharpoonup> string"
  user_id_to_ssrc :: "string \<rightharpoonup> u32"
  receiver_running :: bool

text \<open>The constructor: a connected socket, everything else at its default.\<close>

definition voice_impl_init :: "voice_state \<Rightarrow> string \<Rightarrow> ('h, 's) voice_impl" where
  "voice_impl_init state tok = \<lparr>ws = True, channel = False, ready_chan = False, recv_chan = False,
     heartbeat_timer = False, send_timer = False, udp = False, crypto = voice_crypto_init,
     dave = None, dave_user_list = [], media_session_id = [], recognized_user_ids = {},
     dave_transition_versions = Map.empty, vstate = state, token = tok,
     heartbeat_interval_ms = 0, last_heartbeat_acked = True, heartbeat_running = False,
     warned_waiting_for_e2ee = False, last_seq = 0, pending_frames = 0, v_ssrc = 0,
     connection_state = Disconnected, disconnected = False, speaking = False,
     missed_heartbeats = 0, packet_count = 0, rtp_sequence = 0, rtp_timestamp = 0,
     ssrc_to_user_id = Map.empty, user_id_to_ssrc = Map.empty, receiver_running = False\<rparr>"

lemma resumable_iff:
  "is_resumable_close_code code \<longleftrightarrow> code = 4015 \<or> code \<le> 4000 \<or> 4016 < code"
proof -
  have "code < 4001 \<longleftrightarrow> code \<le> 4000" "code < 4000 \<Longrightarrow> code \<le> 4000"
    by (auto simp: word_less_nat_alt word_le_nat_alt)
  then show ?thesis
    by (auto simp: is_resumable_close_code_def should_resume_def not_le not_less)
qed

end
