(* ===== verification/Voice_Receiver.thy ===== *)
theory Voice_Receiver
  imports Voice_State
begin

text \<open>
  \<^verbatim>\<open>src/voice/voice_receiver.cpp\<close>: what becomes of a datagram. \<open>process\<close> returns the
  connection and the packet it puts into the receive channel, if any; \<^term>\<open>None\<close> is an
  access outside a buffer, the dereference of a channel that does not exist, or an exception.
\<close>

definition strip_rtp_padding :: "bytes \<Rightarrow> bool \<Rightarrow> bytes option" where
  "strip_rtp_padding payload padding_bit_set =
     (if \<not> padding_bit_set \<or> payload = [] then Some payload
      else (let pad = unat (last payload)
            in if pad = 0 \<or> pad > length payload then Some payload
               else subspan payload 0 (length payload - pad)))"

text \<open>
  The header fields that decide what is authenticated: the length of the unencrypted header
  (with the extension's preamble) and the number of extension words. \<^term>\<open>Some None\<close> is an
  early return.
\<close>

record rtp_view =
  rv_padding :: bool
  rv_extension :: bool
  rv_aad_len :: nat
  rv_ext_len_words :: u16

definition inspect_header :: "bytes \<Rightarrow> rtp_view option option" where
  "inspect_header bs =
     (if length bs < RTP_HEADER_SIZE then Some None
      else do {
        b0 \<leftarrow> elem_at bs 0;
        if drop_bit 6 b0 AND 3 \<noteq> 2 then Some None
        else do {
          b1 \<leftarrow> elem_at bs 1;
          if b1 AND 0x7F \<noteq> 120 then Some None
          else (let padding = (b0 AND 0x20 \<noteq> 0);
                    extension = (b0 AND 0x10 \<noteq> 0);
                    cc = unat (b0 AND 0x0F);
                    aad_len = 12 + cc * 4
            in if length bs < aad_len then Some None
               else if extension then
                 (if length bs < aad_len + 4 then Some None
                  else do {
                    ext \<leftarrow> subspan bs (aad_len + 2) 2;
                    Some (Some \<lparr>rv_padding = padding, rv_extension = True, rv_aad_len = aad_len + 4,
                            rv_ext_len_words = read_u16be ext\<rparr>)
                  })
               else Some (Some \<lparr>rv_padding = padding, rv_extension = False, rv_aad_len = aad_len,
                            rv_ext_len_words = 0\<rparr>))
        }
      })"

text \<open>The media in a decrypted payload: what follows the extension, without the padding.\<close>

definition unpack_media :: "rtp_view \<Rightarrow> bytes \<Rightarrow> bytes option option" where
  "unpack_media v payload =
     (let ext_bytes = unat (rv_ext_len_words v) * 4
      in if rv_extension v then
           (if ext_bytes > length payload then Some None
            else do {
              body \<leftarrow> subspan payload ext_bytes (length payload - ext_bytes);
              map_option Some (strip_rtp_padding body (rv_padding v))
            })
         else map_option Some (strip_rtp_padding payload (rv_padding v)))"

text \<open>The media payload of a datagram.\<close>

definition media_payload :: "sodium \<Rightarrow> voice_crypto \<Rightarrow> bytes \<Rightarrow> bytes option option" where
  "media_payload so c bs = do {
     view \<leftarrow> inspect_header bs;
     (case view of
        None \<Rightarrow> Some None
      | Some v \<Rightarrow>
          if length bs \<le> rv_aad_len v then Some None
          else do {
            aad_header \<leftarrow> subspan bs 0 (rv_aad_len v);
            encrypted_payload \<leftarrow> subspan bs (rv_aad_len v) (length bs - rv_aad_len v);
            decrypted \<leftarrow> decrypt_rtp so aad_header encrypted_payload c;
            (case decrypted of
               Inl _ \<Rightarrow> Some None
             | Inr payload \<Rightarrow> unpack_media v payload)
          })
   }"

definition min_dave_frame_size :: nat where "min_dave_frame_size = 44"

definition dave_receive_enabled :: "('h, 's) voice_impl \<Rightarrow> bool" where
  "dave_receive_enabled i = (case dave i of
     Some ds \<Rightarrow> ds_protocol_version ds > 0 \<and> ds_decryptors ds \<noteq> Map.empty
   | None \<Rightarrow> False)"

definition deliver :: "packet \<Rightarrow> ('h, 's) voice_impl \<Rightarrow> (('h, 's) voice_impl \<times> packet option) option" where
  "deliver pkt i = (if recv_chan i then Some (i, Some pkt) else None)"

text \<open>The branch for end-to-end encrypted media.\<close>

definition process_dave ::
    "evp \<Rightarrow> 'h mls_ratchet \<Rightarrow> int \<Rightarrow> int \<Rightarrow> ('h, 's) dave_state \<Rightarrow> packet \<Rightarrow> bytes \<Rightarrow> ('h, 's) voice_impl
     \<Rightarrow> (('h, 's) voice_impl \<times> packet option) option" where
  "process_dave evp mls now end_time ds pkt payload i =
     (case ssrc_to_user_id i (pk_ssrc pkt) of
        None \<Rightarrow> Some (i, None)
      | Some user_id \<Rightarrow>
          if payload = SILENCE_FRAME then do {
            uid \<leftarrow> snowflake_from_json (JStr user_id) 0;
            deliver (pkt\<lparr>pk_user_id := uid\<rparr>) i
          }
          else if length payload < min_dave_frame_size then Some (i, None)
          else (case ds_decryptors ds user_id of
              None \<Rightarrow> Some (i, None)
            | Some d \<Rightarrow> do {
                (d', plaintext, res) \<leftarrow>
                  decrypt evp mls now end_time Audio payload (replicate (length payload) 0) d;
                let ds1 = ds\<lparr>ds_decryptors := (ds_decryptors ds)(user_id \<mapsto> d')\<rparr>;
                (case res of
                   Inl _ \<Rightarrow> Some (i\<lparr>dave := Some ds1\<rparr>, None)
                 | Inr n \<Rightarrow> do {
                     let i1 = i\<lparr>dave := Some (ds1\<lparr>ds_done_ready := True\<rparr>)\<rparr>;
                     uid \<leftarrow> snowflake_from_json (JStr user_id) 0;
                     deliver (pkt\<lparr>pk_opus := resize_bytes plaintext n, pk_user_id := uid\<rparr>) i1
                   })
              }))"

text \<open>Without end-to-end encryption the transport's payload is handed on.\<close>

definition process_plain ::
    "packet \<Rightarrow> bytes \<Rightarrow> ('h, 's) voice_impl \<Rightarrow> (('h, 's) voice_impl \<times> packet option) option" where
  "process_plain pkt payload i = do {
     uid \<leftarrow> (case ssrc_to_user_id i (pk_ssrc pkt) of
              Some u \<Rightarrow> snowflake_from_json (JStr u) 0
            | None \<Rightarrow> Some 0);
     deliver (pkt\<lparr>pk_opus := payload, pk_user_id := uid\<rparr>) i
   }"

definition dispatch_media ::
    "evp \<Rightarrow> 'h mls_ratchet \<Rightarrow> int \<Rightarrow> int \<Rightarrow> packet \<Rightarrow> bytes \<Rightarrow> ('h, 's) voice_impl
     \<Rightarrow> (('h, 's) voice_impl \<times> packet option) option" where
  "dispatch_media evp mls now end_time pkt payload i =
     (case dave i of
        Some ds \<Rightarrow>
          if dave_receive_enabled i then process_dave evp mls now end_time ds pkt payload i
          else process_plain pkt payload i
      | None \<Rightarrow> process_plain pkt payload i)"

definition process ::
    "evp \<Rightarrow> 'h mls_ratchet \<Rightarrow> sodium \<Rightarrow> int \<Rightarrow> int \<Rightarrow> bytes \<Rightarrow> ('h, 's) voice_impl
     \<Rightarrow> (('h, 's) voice_impl \<times> packet option) option" where
  "process evp mls so now end_time bs i = do {
     media \<leftarrow> media_payload so (crypto i) bs;
     (case media of
        None \<Rightarrow> Some (i, None)
      | Some payload \<Rightarrow> do {
          ssrc_bytes \<leftarrow> subspan bs 8 4;
          sequence_bytes \<leftarrow> subspan bs 2 2;
          timestamp_bytes \<leftarrow> subspan bs 4 4;
          let pkt = \<lparr>pk_sequence = read_u16be sequence_bytes, pk_timestamp = read_u32be timestamp_bytes,
                     pk_ssrc = read_u32be ssrc_bytes, pk_opus = [], pk_user_id = 0\<rparr>;
          dispatch_media evp mls now end_time pkt payload i
        })
   }"

text \<open>
  The receive loop: one completion of the socket. An error ends the loop (\<^term>\<open>False\<close>);
  after a datagram it goes on if the socket still exists and the receiver is running.
\<close>

datatype datagram = Datagram int int bytes | ReceiveError

definition receive_step ::
    "evp \<Rightarrow> 'h mls_ratchet \<Rightarrow> sodium \<Rightarrow> datagram \<Rightarrow> ('h, 's) voice_impl
     \<Rightarrow> (('h, 's) voice_impl \<times> packet option \<times> bool) option" where
  "receive_step evp mls so ev i = (case ev of
     ReceiveError \<Rightarrow> Some (i, None, False)
   | Datagram now end_time bs \<Rightarrow> do {
       (i', p) \<leftarrow> process evp mls so now end_time bs i;
       Some (i', p, udp i' \<and> receiver_running i')
     })"

fun receive_loop ::
    "evp \<Rightarrow> 'h mls_ratchet \<Rightarrow> sodium \<Rightarrow> datagram list \<Rightarrow> ('h, 's) voice_impl
     \<Rightarrow> (('h, 's) voice_impl \<times> packet list) option" where
  "receive_loop evp mls so [] i = Some (i, [])"
| "receive_loop evp mls so (ev # evs) i = do {
     (i', p, continue) \<leftarrow> receive_step evp mls so ev i;
     let out = (case p of Some pkt \<Rightarrow> [pkt] | None \<Rightarrow> []);
     if continue then do {
       (i'', ps) \<leftarrow> receive_loop evp mls so evs i';
       Some (i'', out @ ps)
     } else Some (i', out)
   }"

section \<open>Safety\<close>

lemma strip_rtp_padding_safe:
  "\<exists>body. strip_rtp_padding payload b = Some body \<and> length body \<le> length payload"
  by (auto simp: strip_rtp_padding_def subspan_def Let_def)

lemma inspect_header_safe:
  "\<exists>v. inspect_header bs = Some v \<and> (v \<noteq> None \<longrightarrow> 12 \<le> length bs)"
proof (cases "length bs < 12")
  case True
  then show ?thesis by (simp add: inspect_header_def RTP_HEADER_SIZE_def)
next
  case False
  then have e: "elem_at bs 0 = Some (bs ! 0)" "elem_at bs 1 = Some (bs ! 1)"
    by (auto simp: elem_at_def)
  define version_bad pt_bad where "version_bad = (drop_bit 6 (bs ! 0) AND 3 \<noteq> 2)"
    and "pt_bad = (bs ! 1 AND 0x7F \<noteq> 120)"
  define n where "n = 12 + unat (bs ! 0 AND 0x0F) * 4"
  define ext where "ext = (bs ! 0 AND 0x10 \<noteq> 0)"
  have "subspan bs (n + 2) 2 = Some (take 2 (drop (n + 2) bs))" if "\<not> length bs < n + 4"
    using that by (simp add: subspan_def)
  then show ?thesis
    unfolding inspect_header_def RTP_HEADER_SIZE_def e Option.bind.bind_lunit Let_def
      version_bad_def [symmetric] pt_bad_def [symmetric] n_def [symmetric] ext_def [symmetric]
    using False by (cases version_bad; cases pt_bad; cases ext) auto
qed

lemma unpack_media_safe:
  "\<exists>m. unpack_media v payload = Some m \<and> (\<forall>p. m = Some p \<longrightarrow> length p \<le> length payload)"
proof -
  define k where "k = unat (rv_ext_len_words v) * 4"
  obtain p1 where p1: "strip_rtp_padding payload (rv_padding v) = Some p1" "length p1 \<le> length payload"
    using strip_rtp_padding_safe by blast
  obtain p2 where p2: "strip_rtp_padding (drop k payload) (rv_padding v) = Some p2"
    "length p2 \<le> length (drop k payload)"
    using strip_rtp_padding_safe by blast
  have "k \<le> length payload \<Longrightarrow> subspan payload k (length payload - k) = Some (drop k payload)"
    by (simp add: subspan_def)
  with p1 p2 show ?thesis
    unfolding unpack_media_def Let_def k_def [symmetric]
    by (cases "rv_extension v"; cases "k > length payload") auto
qed

lemma media_payload_safe:
  assumes "sodium_aead so" "key_installed c"
  shows "\<exists>m. media_payload so c bs = Some m \<and> (\<forall>p. m = Some p \<longrightarrow> 12 \<le> length bs \<and> length p + 20 \<le> length bs)"
proof -
  obtain v where v: "inspect_header bs = Some v" "v \<noteq> None \<longrightarrow> 12 \<le> length bs"
    using inspect_header_safe by blast
  show ?thesis
  proof (cases "\<exists>w. v = Some w \<and> \<not> length bs \<le> rv_aad_len w")
    case False
    with v(1) show ?thesis by (cases v) (auto simp: media_payload_def)
  next
    case True
    then obtain w where w: "v = Some w" "\<not> length bs \<le> rv_aad_len w" by blast
    obtain r where r: "decrypt_rtp so (take (rv_aad_len w) bs) (drop (rv_aad_len w) bs) c = Some r"
      "\<forall>pt. r = Inr pt \<longrightarrow> length (drop (rv_aad_len w) bs) = length pt + 20"
      using decrypt_rtp_safe [OF assms] by blast
    have eq: "media_payload so c bs = (case r of Inl _ \<Rightarrow> Some None | Inr payload \<Rightarrow> unpack_media w payload)"
      using v(1) w r(1) by (simp add: media_payload_def subspan_def)
    show ?thesis
    proof (cases r)
      case (Inl a)
      then show ?thesis by (simp add: eq)
    next
      case (Inr payload)
      then have "length payload + 20 \<le> length bs" "12 \<le> length bs"
        using r(2) v(2) w by auto
      then show ?thesis
        using unpack_media_safe [of w payload] by (auto simp: eq Inr)
    qed
  qed
qed

section \<open>The receiver as a whole\<close>

text \<open>
  A connection that is receiving: the channel exists, a key is installed, every decryptor holds
  usable keys, and every known user identifier is a Snowflake below 2^64 or not a number at all.
\<close>

definition receiver_ok :: "('h, 's) voice_impl \<Rightarrow> bool" where
  "receiver_ok i \<longleftrightarrow> recv_chan i \<and> key_installed (crypto i)
     \<and> (\<forall>ds u d. dave i = Some ds \<longrightarrow> ds_decryptors ds u = Some d \<longrightarrow> decryptor_ok d)
     \<and> (\<forall>s u. ssrc_to_user_id i s = Some u \<longrightarrow> snowflake_from_json (JStr u) 0 \<noteq> None)"

lemma process_plain_safe:
  assumes "receiver_ok i"
  shows "\<exists>p. process_plain pkt payload i = Some (i, p)"
  using assms
  by (cases "ssrc_to_user_id i (pk_ssrc pkt)") (fastforce simp: receiver_ok_def process_plain_def deliver_def)+

lemma process_dave_safe:
  assumes "evp_gcm evp" "mls_keys_ok mls" "receiver_ok i" "dave i = Some ds" "length payload \<le> SIZE_MAX"
  shows "\<exists>i' p. process_dave evp mls now end_time ds pkt payload i = Some (i', p) \<and> receiver_ok i'
     \<and> udp i' = udp i \<and> receiver_running i' = receiver_running i"
proof (cases "ssrc_to_user_id i (pk_ssrc pkt)")
  case None
  then show ?thesis using assms(3) by (simp add: process_dave_def)
next
  case (Some u)
  obtain uid where uid: "snowflake_from_json (JStr u) 0 = Some uid"
    using assms(3) Some unfolding receiver_ok_def by (metis not_None_eq)
  have chan: "recv_chan i" using assms(3) by (simp add: receiver_ok_def)
  show ?thesis
  proof (cases "\<exists>d. payload \<noteq> SILENCE_FRAME \<and> \<not> length payload < min_dave_frame_size \<and> ds_decryptors ds u = Some d")
    case False
    then show ?thesis
      using assms(3) Some uid chan
      by (cases "payload = SILENCE_FRAME"; cases "length payload < min_dave_frame_size"; cases "ds_decryptors ds u")
        (auto simp: process_dave_def deliver_def)
  next
    case True
    then obtain d where d: "payload \<noteq> SILENCE_FRAME" "\<not> length payload < min_dave_frame_size"
      "ds_decryptors ds u = Some d" by blast
    have "decryptor_ok d" using assms(3,4) d(3) by (auto simp: receiver_ok_def)
    from decrypt_safe [OF assms(1,2) this assms(5), of "replicate (length payload) 0" now end_time Audio]
    obtain d' out res where dec: "decrypt evp mls now end_time Audio payload (replicate (length payload) 0) d
        = Some (d', out, res)" "decryptor_ok d'" by auto
    have "receiver_ok (i\<lparr>dave := Some (ds\<lparr>ds_decryptors := (ds_decryptors ds)(u \<mapsto> d'), ds_done_ready := b\<rparr>)\<rparr>)" for b
      using assms(3,4) dec(2) by (auto simp: receiver_ok_def)
    from this [of True] this [of "ds_done_ready ds"] show ?thesis
      using Some d dec(1) uid chan by (cases res) (auto simp: process_dave_def deliver_def)
  qed
qed

definition packet_of :: "bytes \<Rightarrow> packet" where
  "packet_of bs = \<lparr>pk_sequence = read_u16be (take 2 (drop 2 bs)),
      pk_timestamp = read_u32be (take 4 (drop 4 bs)), pk_ssrc = read_u32be (take 4 (drop 8 bs)),
      pk_opus = [], pk_user_id = 0\<rparr>"

lemma process_eq:
  assumes "media_payload so (crypto i) bs = Some (Some payload)" "12 \<le> length bs"
  shows "process evp mls so now end_time bs i = dispatch_media evp mls now end_time (packet_of bs) payload i"
  unfolding process_def assms(1) Let_def packet_of_def using assms(2) by (simp add: subspan_def)

lemma process_safe:
  assumes "evp_gcm evp" "mls_keys_ok mls" "sodium_aead so" "receiver_ok i" "length bs \<le> SIZE_MAX"
  shows "\<exists>i' p. process evp mls so now end_time bs i = Some (i', p) \<and> receiver_ok i'
     \<and> udp i' = udp i \<and> receiver_running i' = receiver_running i"
proof -
  have "key_installed (crypto i)" using assms(4) by (simp add: receiver_ok_def)
  from media_payload_safe [OF assms(3) this, of bs] obtain m where m: "media_payload so (crypto i) bs = Some m"
    "\<forall>p. m = Some p \<longrightarrow> 12 \<le> length bs \<and> length p + 20 \<le> length bs" by blast
  show ?thesis
  proof (cases m)
    case None
    then show ?thesis using m(1) assms(4) by (simp add: process_def)
  next
    case (Some payload)
    have len: "12 \<le> length bs" "length payload \<le> SIZE_MAX" using m(2) Some assms(5) by auto
    have plain: "\<exists>p. process_plain (packet_of bs) payload i = Some (i, p)"
      by (rule process_plain_safe [OF assms(4)])
    note eq = process_eq [OF m(1) [unfolded Some] len(1), of evp mls now end_time]
    show ?thesis
    proof (cases "dave i")
      case None
      then show ?thesis using plain assms(4) by (auto simp: eq dispatch_media_def)
    next
      case (Some ds)
      then show ?thesis
        using plain assms(4) process_dave_safe [OF assms(1,2,4) Some len(2), of now end_time "packet_of bs"]
        by (cases "dave_receive_enabled i") (auto simp: eq dispatch_media_def)
    qed
  qed
qed

fun datagram_size :: "datagram \<Rightarrow> nat" where
  "datagram_size (Datagram now end_time bs) = length bs"
| "datagram_size ReceiveError = 0"

lemma receive_step_safe:
  assumes "evp_gcm evp" "mls_keys_ok mls" "sodium_aead so" "receiver_ok i" "datagram_size ev \<le> SIZE_MAX"
  shows "\<exists>i' p b. receive_step evp mls so ev i = Some (i', p, b) \<and> receiver_ok i'"
proof (cases ev)
  case (Datagram now end_time bs)
  then show ?thesis
    using process_safe [OF assms(1-4), of bs now end_time] assms(5) by (auto simp: receive_step_def)
next
  case ReceiveError
  then show ?thesis using assms(4) by (auto simp: receive_step_def)
qed

text \<open>
  C15. The voice receiver survives whatever arrives: for every sequence of datagrams, of any content
  and length, and every connection that is receiving with a transport key installed, the loop
  never reads or writes outside a buffer, always returns, and leaves the connection in a state
  where the same holds again; with end-to-end encryption or without.
\<close>

theorem receiver_memory_safe:
  assumes "evp_gcm evp" "mls_keys_ok mls" "sodium_aead so" "receiver_ok i"
    and "\<forall>ev \<in> set evs. datagram_size ev \<le> SIZE_MAX"
  shows "\<exists>i' ps. receive_loop evp mls so evs i = Some (i', ps) \<and> receiver_ok i'"
  using assms(4,5)
proof (induction evs arbitrary: i)
  case Nil
  then show ?case by simp
next
  case (Cons ev evs)
  obtain i' p b where s: "receive_step evp mls so ev i = Some (i', p, b)" "receiver_ok i'"
    using receive_step_safe [OF assms(1-3) Cons.prems(1), of ev] Cons.prems(2) by auto
  obtain i'' ps where "receive_loop evp mls so evs i' = Some (i'', ps)" "receiver_ok i''"
    using Cons.IH [OF s(2)] Cons.prems(2) by auto
  with s show ?case by (cases b) auto
qed

definition sample_voice_state :: voice_state where
  "sample_voice_state = \<lparr>vs_guild_id = Some 1, vs_channel_id = Some 2, vs_user_id = 3, vs_session_id = ''s''\<rparr>"

definition sample_receiver :: "(unit, unit) voice_impl" where
  "sample_receiver = (voice_impl_init sample_voice_state ''t'')\<lparr>recv_chan := True, udp := True,
     receiver_running := True, crypto := \<lparr>vc_mode = AES256_GCM_RTPSIZE, vc_key = replicate 32 7, vc_nonce = 0\<rparr>\<rparr>"

theorem receiver_memory_safe_witness:
  "receiver_ok sample_receiver
   \<and> (\<exists>i' ps. receive_loop pad_evp no_mls pad_sodium
        [Datagram 0 0 [0xBF, 0x78, 0], Datagram 0 0 (replicate 40 0xB8), ReceiveError] sample_receiver = Some (i', ps))"
proof -
  have "receiver_ok sample_receiver"
    by (simp add: receiver_ok_def sample_receiver_def voice_impl_init_def key_installed_def)
  moreover have "mls_keys_ok no_mls" by (simp add: mls_keys_ok_def no_mls_def)
  ultimately show ?thesis
    using receiver_memory_safe [OF pad_evp_gcm, of no_mls pad_sodium sample_receiver
        "[Datagram 0 0 [0xBF, 0x78, 0], Datagram 0 0 (replicate 40 0xB8), ReceiveError]"] pad_sodium_aead
    by (auto simp: SIZE_MAX_def)
qed

end
