(* ===== verification/Voice_Sender.thy ===== *)
theory Voice_Sender
  imports Voice_Receiver
begin

text \<open>
  \<^verbatim>\<open>src/voice/voice_sender.cpp\<close>: frames enter through \<open>send_opus\<close>, wait in the
  channel, and the sender loop takes them one at a time: pace, encrypt, wrap into RTP, hand to the
  socket. The loop is a state machine: \<open>phase\<close> says which completion it waits for. The channel
  has no buffer, so a frame in it is an unfinished \<^verbatim>\<open>async_send\<close>; \<open>queue\<close> holds these in
  order. \<open>wire\<close> is what was handed to the socket, oldest first. Times are in nanoseconds of the
  steady clock. libopus is a parameter: \<open>samples\<close> is
  \<^verbatim>\<open>opus_packet_get_samples_per_frame\<close>, \<open>enc\<close> is the codec.
\<close>

definition SAMPLE_RATE :: nat where "SAMPLE_RATE = 48000"

datatype sender_phase =
    Awaiting            \<comment> \<open>a receive on the channel is pending\<close>
  | Pacing audio_packet \<comment> \<open>the send timer is pending\<close>
  | Sending nat         \<comment> \<open>a send on the socket is pending, for that many samples\<close>
  | Stopped

record ('h, 's) sender =
  impl :: "('h, 's) voice_impl"
  phase :: sender_phase
  next_send_time :: int
  consecutive_failures :: int
  queue :: "audio_packet list"
  wire :: "bytes list"

section \<open>Entry\<close>

text \<open>
  The result is what the completion handler gets at once, \<^term>\<open>Some e\<close>, or \<^term>\<open>None\<close>
  when the frame is in the channel and the handler waits.
\<close>

datatype send_error = SendErrc errc | OpusError int

definition send_opus ::
    "(bytes \<Rightarrow> int) \<Rightarrow> bytes \<Rightarrow> ('h, 's) sender \<Rightarrow> ('h, 's) sender \<times> send_error option" where
  "send_opus samples data s =
     (if data = [] then (s, Some (SendErrc invalid_argument))
      else if \<not> channel (impl s) \<or> disconnected (impl s) then (s, Some (SendErrc not_connected))
      else if samples data < 0 then (s, Some (OpusError (samples data)))
      else (s\<lparr>impl := (impl s)\<lparr>pending_frames := pending_frames (impl s) + 1\<rparr>,
              queue := queue s @ [\<lparr>encoded = data, frame_count = nat (samples data)\<rparr>]\<rparr>, None))"

definition send_raw ::
    "(16 word list \<Rightarrow> nat \<Rightarrow> send_error + bytes) \<Rightarrow> (bytes \<Rightarrow> int) \<Rightarrow> 16 word list \<Rightarrow> ('h, 's) sender
     \<Rightarrow> ('h, 's) sender \<times> send_error option" where
  "send_raw enc samples data s =
     (if data = [] then (s, Some (SendErrc invalid_argument))
      else if \<not> channel (impl s) \<or> disconnected (impl s) then (s, Some (SendErrc not_connected))
      else (case enc data (length data) of
              Inl e \<Rightarrow> (s, Some e)
            | Inr encoded_audio \<Rightarrow> send_opus samples encoded_audio s))"

definition silence ::
    "(bytes \<Rightarrow> int) \<Rightarrow> ('h, 's) sender \<Rightarrow> ('h, 's) sender \<times> send_error option" where
  "silence samples s = send_opus samples SILENCE_FRAME s"

section \<open>The loop\<close>

text \<open>\<open>step\<close>: wait for the next frame, unless channel or socket are gone.\<close>

definition await_next :: "('h, 's) sender \<Rightarrow> ('h, 's) sender" where
  "await_next s = s\<lparr>phase := (if \<not> channel (impl s) \<or> \<not> udp (impl s) then Stopped else Awaiting)\<rparr>"

definition maintain_sync :: "nat \<Rightarrow> ('h, 's) sender \<Rightarrow> ('h, 's) sender" where
  "maintain_sync n s = s\<lparr>
     impl := (impl s)\<lparr>rtp_sequence := rtp_sequence (impl s) + 1,
                      rtp_timestamp := rtp_timestamp (impl s) + of_nat n\<rparr>,
     next_send_time := next_send_time s + int (wrap64 (n * 1000) div SAMPLE_RATE) * 1000000\<rparr>"

definition drop_pending :: "('h, 's) sender \<Rightarrow> ('h, 's) sender" where
  "drop_pending s = s\<lparr>impl := (impl s)\<lparr>pending_frames := pending_frames (impl s) - 1\<rparr>\<rparr>"

definition dave_send_enabled :: "('h, 's) voice_impl \<Rightarrow> bool" where
  "dave_send_enabled i = (case dave i of
     Some ds \<Rightarrow> (case ds_encryptor ds of
         Some e \<Rightarrow> \<not> en_passthrough_mode e \<and> has_key_ratchet e
       | None \<Rightarrow> False)
   | None \<Rightarrow> False)"

definition dave_expected :: "('h, 's) voice_impl \<Rightarrow> bool" where
  "dave_expected i = (case dave i of
     Some ds \<Rightarrow> (case ds_encryptor ds of
         Some e \<Rightarrow> \<not> en_passthrough_mode e \<and> \<not> has_key_ratchet e
       | None \<Rightarrow> False)
   | None \<Rightarrow> False)"

text \<open>End-to-end encryption of a frame, where enabled: the payload of the packet.\<close>

definition seal_media ::
    "evp \<Rightarrow> 'h mls_ratchet \<Rightarrow> bytes \<Rightarrow> ('h, 's) voice_impl \<Rightarrow> (('h, 's) voice_impl \<times> (dave_error + bytes)) option" where
  "seal_media evp mls frame i =
     (if dave_send_enabled i then
        (case dave i of
           Some ds \<Rightarrow> (case ds_encryptor ds of
               Some e \<Rightarrow> do {
                 (e', out, res) \<leftarrow> encrypt evp mls Audio (v_ssrc i) frame
                     (replicate (get_max_ciphertext_byte_size Audio (length frame)) 0) e;
                 let i' = i\<lparr>dave := Some (ds\<lparr>ds_encryptor := Some e'\<rparr>)\<rparr>;
                 (case res of
                    Inl err \<Rightarrow> Some (i', Inl err)
                  | Inr n \<Rightarrow> Some (i', Inr (resize_bytes out n)))
               }
             | None \<Rightarrow> None)
         | None \<Rightarrow> None)
      else Some (i, Inr frame))"

definition sender_header :: "('h, 's) voice_impl \<Rightarrow> bytes option" where
  "sender_header i = do {
     h0 \<leftarrow> store (replicate RTP_HEADER_SIZE 0) 0 [0x80];
     h1 \<leftarrow> store h0 1 [0x78];
     h2 \<leftarrow> put_be h1 2 (rtp_sequence i);
     h3 \<leftarrow> put_be h2 4 (rtp_timestamp i);
     put_be h3 8 (v_ssrc i)
   }"

definition send_packet ::
    "evp \<Rightarrow> 'h mls_ratchet \<Rightarrow> sodium \<Rightarrow> audio_packet \<Rightarrow> ('h, 's) sender \<Rightarrow> ('h, 's) sender option" where
  "send_packet evp mls so pkt s =
     (if \<not> udp (impl s) then Some ((drop_pending s)\<lparr>phase := Stopped\<rparr>)
      else do {
        let i0 = (if dave_expected (impl s) then (impl s)\<lparr>warned_waiting_for_e2ee := True\<rparr> else impl s);
        (i1, payload) \<leftarrow> seal_media evp mls (encoded pkt) i0;
        (case payload of
           Inl _ \<Rightarrow> Some (await_next (maintain_sync (frame_count pkt) (drop_pending (s\<lparr>impl := i1\<rparr>))))
         | Inr body \<Rightarrow> do {
             header \<leftarrow> sender_header i1;
             (c, res) \<leftarrow> encrypt_rtp so header body (crypto i1);
             let s1 = s\<lparr>impl := i1\<lparr>crypto := c\<rparr>\<rparr>;
             (case res of
                Inl _ \<Rightarrow> Some (await_next (maintain_sync (frame_count pkt) (drop_pending s1)))
              | Inr datagram \<Rightarrow>
                  Some (s1\<lparr>phase := Sending (frame_count pkt), wire := wire s @ [datagram]\<rparr>))
           })
      })"

text \<open>\<open>process\<close>: wait until it is time, reset after a large drift.\<close>

definition process_frame_at ::
    "evp \<Rightarrow> 'h mls_ratchet \<Rightarrow> sodium \<Rightarrow> int \<Rightarrow> audio_packet \<Rightarrow> ('h, 's) sender \<Rightarrow> ('h, 's) sender option" where
  "process_frame_at evp mls so now pkt s =
     (if next_send_time s > now then Some (s\<lparr>phase := Pacing pkt\<rparr>)
      else (let drift_ms = (now - next_send_time s) div 1000000;
                s1 = (if drift_ms > 100 then s\<lparr>next_send_time := now\<rparr> else s)
            in send_packet evp mls so pkt s1))"

definition udp_sent :: "bool \<Rightarrow> nat \<Rightarrow> ('h, 's) sender \<Rightarrow> ('h, 's) sender" where
  "udp_sent ok n s =
     (if \<not> ok then
        (let s1 = maintain_sync n (drop_pending (s\<lparr>consecutive_failures := consecutive_failures s + 1\<rparr>))
         in if consecutive_failures s1 \<ge> 10 then s1\<lparr>phase := Stopped\<rparr> else await_next s1)
      else
        (let s1 = s\<lparr>consecutive_failures := 0, impl := (impl s)\<lparr>packet_count := packet_count (impl s) + 1\<rparr>\<rparr>
         in await_next (maintain_sync n (drop_pending s1))))"

text \<open>
  The completions the loop can see. The channel hands a frame over when one is queued and the loop
  awaits it; closing the channel fails every unfinished send (which is then no longer pending) and
  the receive. A completion that is not awaited does nothing.
\<close>

datatype sender_event =
    Opus bytes               \<comment> \<open>a call of \<open>send_opus\<close>\<close>
  | Take int                 \<comment> \<open>the channel hands over a frame, at that time\<close>
  | TimerFired | TimerFailed
  | UdpDone bool             \<comment> \<open>the socket's completion, and whether it succeeded\<close>
  | ChannelClosed

definition sender_step ::
    "evp \<Rightarrow> 'h mls_ratchet \<Rightarrow> sodium \<Rightarrow> (bytes \<Rightarrow> int) \<Rightarrow> sender_event \<Rightarrow> ('h, 's) sender \<Rightarrow> ('h, 's) sender option" where
  "sender_step evp mls so samples ev s = (case ev of
     Opus data \<Rightarrow> Some (fst (send_opus samples data s))
   | Take now \<Rightarrow> (case (phase s, queue s) of
         (Awaiting, pkt # rest) \<Rightarrow> process_frame_at evp mls so now pkt (s\<lparr>queue := rest\<rparr>)
       | _ \<Rightarrow> Some s)
   | TimerFired \<Rightarrow> (case phase s of Pacing pkt \<Rightarrow> send_packet evp mls so pkt s | _ \<Rightarrow> Some s)
   | TimerFailed \<Rightarrow> (case phase s of Pacing pkt \<Rightarrow> Some (s\<lparr>phase := Stopped\<rparr>) | _ \<Rightarrow> Some s)
   | UdpDone ok \<Rightarrow> (case phase s of Sending n \<Rightarrow> Some (udp_sent ok n s) | _ \<Rightarrow> Some s)
   | ChannelClosed \<Rightarrow> Some (s\<lparr>
         impl := (impl s)\<lparr>channel := False,
           pending_frames := pending_frames (impl s) - of_nat (length (queue s))\<rparr>,
         queue := [], phase := (if phase s = Awaiting then Stopped else phase s)\<rparr>))"

fun sender_run ::
    "evp \<Rightarrow> 'h mls_ratchet \<Rightarrow> sodium \<Rightarrow> (bytes \<Rightarrow> int) \<Rightarrow> sender_event list \<Rightarrow> ('h, 's) sender \<Rightarrow> ('h, 's) sender option" where
  "sender_run evp mls so samples [] s = Some s"
| "sender_run evp mls so samples (ev # evs) s =
     Option.bind (sender_step evp mls so samples ev s) (sender_run evp mls so samples evs)"

text \<open>
  \<open>opus_sender_loop\<close>: the loop starts with a fresh operation. The flush of
  \<^verbatim>\<open>voice_connection_impl.cpp\<close> polls every ten milliseconds until this holds.
\<close>

definition opus_sender_loop :: "int \<Rightarrow> ('h, 's) voice_impl \<Rightarrow> ('h, 's) sender option" where
  "opus_sender_loop now i =
     (if \<not> channel i \<or> \<not> udp i then None
      else Some \<lparr>impl = i\<lparr>send_timer := True\<rparr>, phase = Awaiting, next_send_time = now,
                 consecutive_failures = 0, queue = [], wire = []\<rparr>)"

definition flush_done :: "('h, 's) voice_impl \<Rightarrow> bool" where
  "flush_done i \<longleftrightarrow> pending_frames i \<le> 0 \<or> \<not> udp i \<or> disconnected i"

section \<open>Accounting\<close>

text \<open>Frames accepted and neither sent nor given up: those in the channel and the one in hand.\<close>

definition in_hand :: "sender_phase \<Rightarrow> nat" where
  "in_hand p = (case p of Pacing _ \<Rightarrow> 1 | Sending _ \<Rightarrow> 1 | _ \<Rightarrow> 0)"

definition accounted :: "('h, 's) sender \<Rightarrow> bool" where
  "accounted s \<longleftrightarrow> pending_frames (impl s) = of_nat (length (queue s) + in_hand (phase s))"

definition holding :: "('h, 's) sender \<Rightarrow> bool" where
  "holding s \<longleftrightarrow> pending_frames (impl s) = of_nat (length (queue s)) + 1"

lemmas sender_defs = await_next_def maintain_sync_def drop_pending_def

lemma settle_accounted:
  assumes "holding s"
  shows "accounted (await_next (maintain_sync n (drop_pending s)))"
    "accounted ((maintain_sync n (drop_pending s))\<lparr>phase := Stopped\<rparr>)"
    "accounted ((drop_pending s)\<lparr>phase := Stopped\<rparr>)"
  using assms by (simp_all add: accounted_def holding_def in_hand_def sender_defs)

lemma holding_cong:
  assumes "holding s" "pending_frames (impl s') = pending_frames (impl s)" "queue s' = queue s"
  shows "holding s'"
  using assms by (simp add: holding_def)

lemma seal_media_fields:
  assumes "seal_media evp mls f i = Some (i', r)"
  shows "\<exists>ds. i' = i\<lparr>dave := ds\<rparr>"
proof (cases "dave_send_enabled i")
  case False
  with assms have "i' = i\<lparr>dave := dave i\<rparr>" by (simp add: seal_media_def)
  then show ?thesis by blast
next
  case True
  then obtain ds e where d: "dave i = Some ds" "ds_encryptor ds = Some e"
    by (auto simp: dave_send_enabled_def split: option.splits)
  with assms True obtain e' out res where
    "encrypt evp mls Audio (v_ssrc i) f (replicate (get_max_ciphertext_byte_size Audio (length f)) 0) e
       = Some (e', out, res)"
    by (auto simp: seal_media_def bind_Some_iff)
  with assms True d show ?thesis
    by (cases res) (auto simp: seal_media_def)
qed

lemma send_packet_accounted:
  assumes "send_packet evp mls so pkt s = Some s'" "holding s"
  shows "accounted s'"
proof (cases "udp (impl s)")
  case False
  with assms show ?thesis by (auto simp: send_packet_def settle_accounted)
next
  case True
  define i0 where "i0 = (if dave_expected (impl s) then (impl s)\<lparr>warned_waiting_for_e2ee := True\<rparr> else impl s)"
  have i0: "pending_frames i0 = pending_frames (impl s)" by (simp add: i0_def)
  obtain i1 payload where sm: "seal_media evp mls (encoded pkt) i0 = Some (i1, payload)"
    using assms(1) True by (auto simp: send_packet_def bind_Some_iff Let_def simp flip: i0_def)
  have pf: "pending_frames i1 = pending_frames (impl s)"
    using seal_media_fields [OF sm] i0 by auto
  have h: "holding (s\<lparr>impl := i1\<rparr>)" "holding (s\<lparr>impl := i1\<lparr>crypto := c\<rparr>\<rparr>)" for c
    using assms(2) pf by (auto intro: holding_cong)
  show ?thesis
  proof (cases payload)
    case (Inl a)
    then show ?thesis
      using assms(1) True sm settle_accounted(1) [OF h(1)]
      by (auto simp: send_packet_def Let_def simp flip: i0_def)
  next
    case (Inr body)
    obtain header c res where hd: "sender_header i1 = Some header"
      "encrypt_rtp so header body (crypto i1) = Some (c, res)"
      using assms(1) True sm Inr by (auto simp: send_packet_def bind_Some_iff Let_def simp flip: i0_def)
    show ?thesis
    proof (cases res)
      case Err: (Inl a)
      then show ?thesis
        using assms(1) True sm Inr hd settle_accounted(1) [OF h(2)]
        by (auto simp: send_packet_def Let_def simp flip: i0_def)
    next
      case Ok: (Inr d)
      have "accounted (s\<lparr>impl := i1\<lparr>crypto := c\<rparr>, phase := Sending (frame_count pkt), wire := wire s @ [d]\<rparr>)"
        using assms(2) pf by (simp add: accounted_def holding_def in_hand_def)
      then show ?thesis
        using assms(1) True sm Inr hd Ok by (auto simp: send_packet_def Let_def simp flip: i0_def)
    qed
  qed
qed

lemma process_frame_at_accounted:
  assumes "process_frame_at evp mls so now pkt s = Some s'" "holding s"
  shows "accounted s'"
proof (cases "next_send_time s > now")
  case True
  with assms show ?thesis by (auto simp: process_frame_at_def accounted_def holding_def in_hand_def)
next
  case False
  then show ?thesis
    using assms send_packet_accounted [where s = "if (now - next_send_time s) div 1000000 > 100
        then s\<lparr>next_send_time := now\<rparr> else s"]
    by (auto simp: process_frame_at_def Let_def holding_def split: if_splits)
qed

lemma sender_step_accounted:
  assumes "sender_step evp mls so samples ev s = Some s'" "accounted s" "ev \<noteq> TimerFailed"
  shows "accounted s'"
proof (cases ev)
  case (Opus data)
  then show ?thesis
    using assms by (auto simp: sender_step_def send_opus_def accounted_def)
next
  case (Take now)
  show ?thesis
  proof (cases "phase s = Awaiting \<and> queue s \<noteq> []")
    case True
    then obtain pkt rest where q: "queue s = pkt # rest" by (cases "queue s") auto
    have "holding (s\<lparr>queue := rest\<rparr>)"
      using assms(2) True q by (simp add: accounted_def holding_def in_hand_def)
    then show ?thesis
      using assms(1) True q Take by (auto simp: sender_step_def intro: process_frame_at_accounted)
  next
    case False
    then show ?thesis
      using assms(1,2) Take by (auto simp: sender_step_def split: sender_phase.splits list.splits)
  qed
next
  case TimerFired
  then show ?thesis
    using assms(1,2) send_packet_accounted [of evp mls so _ s s']
    by (cases "phase s") (auto simp: sender_step_def accounted_def [of s] in_hand_def holding_def)
next
  case (UdpDone ok)
  then show ?thesis
    using assms settle_accounted [where s = "s\<lparr>consecutive_failures := consecutive_failures s + 1\<rparr>"]
      settle_accounted [where s = "s\<lparr>consecutive_failures := 0, impl := (impl s)\<lparr>packet_count := packet_count (impl s) + 1\<rparr>\<rparr>"]
    by (cases "phase s") (auto simp: sender_step_def udp_sent_def Let_def holding_def accounted_def in_hand_def)
next
  case ChannelClosed
  then show ?thesis
    using assms by (auto simp: sender_step_def accounted_def in_hand_def split: sender_phase.splits)
qed (use assms in simp)

text \<open>
  The pacing timer failing ends the loop without counting down: the frame in hand is abandoned. It
  can happen once, as the loop stays ended.
\<close>

fun pacing_failed ::
    "evp \<Rightarrow> 'h mls_ratchet \<Rightarrow> sodium \<Rightarrow> (bytes \<Rightarrow> int) \<Rightarrow> sender_event list \<Rightarrow> ('h, 's) sender \<Rightarrow> bool" where
  "pacing_failed evp mls so samples [] s \<longleftrightarrow> False"
| "pacing_failed evp mls so samples (ev # evs) s \<longleftrightarrow>
     ev = TimerFailed \<and> (case phase s of Pacing _ \<Rightarrow> True | _ \<Rightarrow> False)
     \<or> (case sender_step evp mls so samples ev s of Some s1 \<Rightarrow> pacing_failed evp mls so samples evs s1 | None \<Rightarrow> False)"

definition abandoned :: "('h, 's) sender \<Rightarrow> bool" where
  "abandoned s \<longleftrightarrow> phase s = Stopped \<and> holding s"

lemma sender_step_stopped:
  assumes "sender_step evp mls so samples ev s = Some s'" "phase s = Stopped"
  shows "phase s' = Stopped
    \<and> pending_frames (impl s') - of_nat (length (queue s')) = pending_frames (impl s) - of_nat (length (queue s))"
  using assms by (cases ev) (auto simp: sender_step_def send_opus_def)

lemma abandoned_step:
  "sender_step evp mls so samples ev s = Some s' \<Longrightarrow> abandoned s \<Longrightarrow> abandoned s'"
  using sender_step_stopped [of evp mls so samples ev s s'] by (auto simp: abandoned_def holding_def algebra_simps)

lemma abandoned_run:
  "sender_run evp mls so samples evs s = Some s' \<Longrightarrow> abandoned s \<Longrightarrow> abandoned s'"
  by (induction evs arbitrary: s) (auto simp: bind_Some_iff dest: abandoned_step)

lemma timer_failed_step:
  assumes "sender_step evp mls so samples TimerFailed s = Some s'" "accounted s"
  shows "if case phase s of Pacing _ \<Rightarrow> True | _ \<Rightarrow> False then abandoned s' else s' = s"
  using assms by (cases "phase s") (auto simp: sender_step_def abandoned_def holding_def accounted_def in_hand_def)

lemma sender_run_accounted:
  assumes "sender_run evp mls so samples evs s = Some s'" "accounted s"
  shows "if pacing_failed evp mls so samples evs s then abandoned s' else accounted s'"
  using assms
proof (induction evs arbitrary: s)
  case (Cons ev evs)
  then obtain s1 where s1: "sender_step evp mls so samples ev s = Some s1" "sender_run evp mls so samples evs s1 = Some s'"
    by (auto simp: bind_Some_iff)
  show ?case
  proof (cases "ev = TimerFailed \<and> (case phase s of Pacing _ \<Rightarrow> True | _ \<Rightarrow> False)")
    case True
    then have "abandoned s1" using timer_failed_step [of evp mls so samples s s1] s1(1) Cons.prems(2) by simp
    from abandoned_run [OF s1(2) this] True show ?thesis by simp
  next
    case False
    then have "accounted s1"
      using timer_failed_step [of evp mls so samples s s1] sender_step_accounted [OF s1(1) Cons.prems(2)] s1(1) Cons.prems(2)
      by (cases "ev = TimerFailed") auto
    from Cons.IH [OF s1(2) this] False s1(1) show ?thesis by (auto split: if_splits)
  qed
qed simp

text \<open>
  C17. The count of pending frames is exact: from a loop that starts with none pending, whatever
  calls and completions follow in whatever order, the counter that \<open>flush\<close> waits on is the number of frames
  in the channel plus the one in hand, plus one exactly when the pacing timer failed while it was awaited, after
  which the loop has ended and the count never falls to zero by itself. In particular a loop that
  awaits a frame with an empty channel has none pending, and the flush completes.
\<close>

theorem sender_pending_exact:
  assumes "opus_sender_loop now i = Some s" "pending_frames i = 0"
    and "sender_run evp mls so samples evs s = Some s'"
  shows "pending_frames (impl s') = of_nat (length (queue s') + in_hand (phase s')
        + (if pacing_failed evp mls so samples evs s then 1 else 0))
    \<and> (pacing_failed evp mls so samples evs s \<longrightarrow> phase s' = Stopped)
    \<and> (queue s' = [] \<and> phase s' = Awaiting \<longrightarrow> flush_done (impl s'))"
proof -
  have "accounted s"
    using assms(1,2) by (auto simp: opus_sender_loop_def accounted_def in_hand_def split: if_splits)
  from sender_run_accounted [OF assms(3) this] show ?thesis
    by (auto simp: accounted_def abandoned_def holding_def flush_done_def in_hand_def split: if_splits)
qed

definition sample_sender :: "(unit, unit) voice_impl" where
  "sample_sender = sample_receiver\<lparr>channel := True\<rparr>"

theorem sender_pending_exact_witness:
  "\<exists>s s'. opus_sender_loop 0 sample_sender = Some s
     \<and> sender_run pad_evp no_mls pad_sodium (\<lambda>_. 960) [Opus [1, 2, 3], Opus [4], Take (- 5), TimerFailed] s = Some s'
     \<and> length (queue s') = 1 \<and> pending_frames (impl s') = 2"
proof -
  define s where "s = \<lparr>impl = sample_sender\<lparr>send_timer := True\<rparr>, phase = Awaiting, next_send_time = 0,
    consecutive_failures = 0, queue = [], wire = []\<rparr>"
  let ?evs = "[Opus [1, 2, 3], Opus [4], Take (- 5), TimerFailed]"
  have s: "opus_sender_loop 0 sample_sender = Some s" "pending_frames sample_sender = 0"
    by (simp_all add: opus_sender_loop_def sample_sender_def sample_receiver_def voice_impl_init_def s_def)
  note defs = sender_step_def send_opus_def s_def sample_sender_def sample_receiver_def voice_impl_init_def
    process_frame_at_def in_hand_def
  obtain s' where s': "sender_run pad_evp no_mls pad_sodium (\<lambda>_. 960) ?evs s = Some s'"
    "length (queue s') = 1" "in_hand (phase s') = 0"
    by (simp add: defs)
  have "pacing_failed pad_evp no_mls pad_sodium (\<lambda>_. 960) ?evs s"
    by (simp add: defs)
  with sender_pending_exact [OF s s'(1)] s s' show ?thesis by auto
qed

section \<open>After ten failures\<close>

definition stuck :: "('h, 's) sender \<Rightarrow> bool" where
  "stuck s \<longleftrightarrow> phase s = Stopped \<and> accounted s \<and> queue s \<noteq> [] \<and> udp (impl s) \<and> \<not> disconnected (impl s)"

lemma stuck_send_opus:
  assumes "stuck s" "fst (send_opus samples d s) = s'"
  shows "stuck s' \<and> wire s' = wire s \<and> length (queue s') \<le> Suc (length (queue s))"
proof (cases "s' = s")
  case True
  then show ?thesis using assms(1) by simp
next
  case False
  then have "s' = s\<lparr>impl := (impl s)\<lparr>pending_frames := pending_frames (impl s) + 1\<rparr>,
      queue := queue s @ [\<lparr>encoded = d, frame_count = nat (samples d)\<rparr>]\<rparr>"
    using assms(2) by (simp add: send_opus_def split: if_splits)
  then show ?thesis
    using assms(1) by (simp add: stuck_def accounted_def in_hand_def)
qed

lemma stuck_step:
  assumes "stuck s" "ev \<noteq> ChannelClosed"
  shows "\<exists>s'. sender_step evp mls so samples ev s = Some s' \<and> stuck s' \<and> wire s' = wire s
     \<and> length (queue s') \<le> Suc (length (queue s))"
proof -
  have "phase s = Stopped" using assms(1) by (simp add: stuck_def)
  then have "sender_step evp mls so samples ev s
      = Some (case ev of Opus d \<Rightarrow> fst (send_opus samples d s) | _ \<Rightarrow> s)"
    using assms(2) by (cases ev) (simp_all add: sender_step_def)
  then show ?thesis
    using assms(1) stuck_send_opus [OF assms(1)] by (cases ev) auto
qed

lemma stuck_run:
  assumes "stuck s" "ChannelClosed \<notin> set evs"
  shows "\<exists>s'. sender_run evp mls so samples evs s = Some s' \<and> stuck s' \<and> wire s' = wire s
     \<and> length (queue s') \<le> length (queue s) + length evs"
  using assms
proof (induction evs arbitrary: s)
  case Nil
  then show ?case by simp
next
  case (Cons ev evs)
  obtain s1 where s1: "sender_step evp mls so samples ev s = Some s1" "stuck s1" "wire s1 = wire s"
    "length (queue s1) \<le> Suc (length (queue s))"
    using stuck_step [of s ev evp mls so samples] Cons.prems by auto
  obtain s2 where "sender_run evp mls so samples evs s1 = Some s2" "stuck s2" "wire s2 = wire s1"
    "length (queue s2) \<le> length (queue s1) + length evs"
    using Cons.IH [OF s1(2)] Cons.prems(2) by auto
  with s1 show ?case by (intro exI [of _ s2]) simp
qed

text \<open>
  The tenth consecutive failure of the socket wedges a sender that still has frames queued:
  whatever happens afterwards, short of the channel being closed, nothing more is sent, and the
  flush does not complete (although the connection still counts as connected and
  \<open>send_opus\<close> keeps accepting frames).
\<close>

theorem sender_wedged_after_failures:
  assumes "phase s = Sending n" "consecutive_failures s = 9" "accounted s" "queue s \<noteq> []"
    and "udp (impl s)" "\<not> disconnected (impl s)"
    and "ChannelClosed \<notin> set evs" "length (queue s) + length evs < 2 ^ 64"
  shows "\<exists>s'. sender_run evp mls so samples (UdpDone False # evs) s = Some s'
     \<and> wire s' = wire s \<and> \<not> flush_done (impl s')"
proof -
  define s1 where "s1 = udp_sent False n s"
  have "holding (s\<lparr>consecutive_failures := consecutive_failures s + 1\<rparr>)"
    using assms(1,3) by (simp add: accounted_def holding_def in_hand_def)
  from settle_accounted(2) [OF this] have "accounted s1"
    using assms(2) by (simp add: s1_def udp_sent_def Let_def sender_defs)
  moreover have "phase s1 = Stopped" "queue s1 = queue s" "udp (impl s1)" "\<not> disconnected (impl s1)" "wire s1 = wire s"
    using assms(2,5,6) by (simp_all add: s1_def udp_sent_def Let_def sender_defs)
  ultimately have s1: "stuck s1" "wire s1 = wire s" "queue s1 = queue s"
    using assms(4) by (simp_all add: stuck_def)
  obtain s' where s': "sender_run evp mls so samples evs s1 = Some s'" "stuck s'" "wire s' = wire s1"
    "length (queue s') \<le> length (queue s1) + length evs"
    using stuck_run [OF s1(1) assms(7)] by blast
  have "unat (pending_frames (impl s')) = length (queue s')"
    using s'(2,4) s1(3) assms(8)
    by (simp add: stuck_def accounted_def in_hand_def unsigned_of_nat take_bit_nat_eq_self_iff)
  then have "pending_frames (impl s') \<noteq> 0"
    using s'(2) by (auto simp: stuck_def)
  then have "\<not> flush_done (impl s')"
    using s'(2) by (simp add: flush_done_def stuck_def word_le_nat_alt unat_eq_zero)
  moreover have "sender_step evp mls so samples (UdpDone False) s = Some s1"
    using assms(1) by (simp add: sender_step_def s1_def)
  ultimately show ?thesis using s' s1(2) by auto
qed

definition failing_sender :: "(unit, unit) sender" where
  "failing_sender = \<lparr>impl = sample_sender\<lparr>pending_frames := 2\<rparr>, phase = Sending 960, next_send_time = 0,
     consecutive_failures = 9, queue = [\<lparr>encoded = [4], frame_count = 960\<rparr>], wire = []\<rparr>"

theorem sender_wedged_after_failures_witness:
  "\<exists>s'. sender_run pad_evp no_mls pad_sodium (\<lambda>_. 960) [UdpDone False, Take 5, Opus [7]] failing_sender = Some s'
     \<and> wire s' = [] \<and> \<not> flush_done (impl s')"
  using sender_wedged_after_failures [of failing_sender 960 "[Take 5, Opus [7]]" pad_evp no_mls pad_sodium "\<lambda>_. 960"]
  by (simp add: failing_sender_def accounted_def in_hand_def sample_sender_def sample_receiver_def voice_impl_init_def)

end
