(* ===== verification/Voice_Link.thy ===== *)
theory Voice_Link
  imports Voice_Sender Dave_Properties
begin

text \<open>
  Sender and receiver end to end: what the sender loop hands to the socket, in whatever order calls
  and completions arrive, is what a receiver gets out of it, whichever datagrams are lost on the
  way. The contract between the two ends is the locale \<open>media_link\<close>; it is met with end-to-end
  encryption and without.
\<close>

section \<open>A datagram as the sender makes it\<close>

definition sender_rtp :: "('h, 's) voice_impl \<Rightarrow> rtp_header" where
  "sender_rtp i = \<lparr>version_padding_extension = 0x80, marker_payload_type = 0x78,
     sequence = rtp_sequence i, timestamp = rtp_timestamp i, ssrc = v_ssrc i\<rparr>"

lemma sender_header_eq: "sender_header i = Some (rtp_bytes (sender_rtp i))"
proof -
  have "sender_header i = rtp_write_to (sender_rtp i) (replicate 12 0)"
    by (simp add: sender_header_def rtp_write_to_def sender_rtp_def RTP_HEADER_SIZE_def)
  then show ?thesis by (simp add: rtp_write_to_eq)
qed

lemma inspect_sent:
  assumes "take 12 bs = rtp_bytes h" "version_padding_extension h = 0x80" "marker_payload_type h = 0x78"
  shows "inspect_header bs = Some (Some \<lparr>rv_padding = False, rv_extension = False, rv_aad_len = 12,
      rv_ext_len_words = 0\<rparr>)"
proof -
  have len: "12 \<le> length bs"
    using arg_cong [OF assms(1), of length] by simp
  have "bs = rtp_bytes h @ drop 12 bs"
    using assms(1) by (metis append_take_drop_id)
  then have b: "bs ! 0 = 0x80" "bs ! 1 = 0x78"
    using rtp_fields(4,5) [of h "drop 12 bs"] assms(2,3) by simp_all
  have "elem_at bs 0 = Some 0x80" "elem_at bs 1 = Some 0x78"
    using len b by (auto simp: elem_at_def)
  then show ?thesis
    using len by (simp add: inspect_header_def RTP_HEADER_SIZE_def)
qed

lemma media_payload_sent:
  assumes h: "take 12 bs = rtp_bytes h" "version_padding_extension h = 0x80" "marker_payload_type h = 0x78"
    and "12 < length bs" "decrypt_rtp so (rtp_bytes h) (drop 12 bs) c = Some (Inr payload)"
  shows "media_payload so c bs = Some (Some payload)"
  using assms(4,5) h(1)
  by (simp add: media_payload_def inspect_sent [OF h] subspan_def unpack_media_def strip_rtp_padding_def)

lemma packet_of_sent:
  assumes "take 12 bs = rtp_bytes h"
  shows "packet_of bs = \<lparr>pk_sequence = sequence h, pk_timestamp = timestamp h, pk_ssrc = ssrc h,
      pk_opus = [], pk_user_id = 0\<rparr>"
proof -
  have "bs = rtp_bytes h @ drop 12 bs"
    using assms by (metis append_take_drop_id)
  then show ?thesis
    using rtp_fields(1-3) [of h "drop 12 bs"] by (simp add: packet_of_def)
qed

section \<open>The contract\<close>

text \<open>
  \<open>at n ds ssrc\<close>: the sender is about to send datagram \<open>n\<close>; \<open>ready n r\<close>: the receiver
  has seen no datagram from \<open>n\<close> on. Sealing then succeeds, and any receiver that is ready
  delivers the frame under the user identifier \<open>uid\<close>.
\<close>

definition received_as :: "snowflake \<Rightarrow> bytes \<Rightarrow> packet \<Rightarrow> packet" where
  "received_as uid f pkt = pkt\<lparr>pk_opus := f, pk_user_id := uid\<rparr>"

definition still_open :: "('h, 's) voice_impl \<Rightarrow> ('h, 's) voice_impl \<Rightarrow> bool" where
  "still_open r r' \<longleftrightarrow> crypto r' = crypto r \<and> udp r' = udp r \<and> receiver_running r' = receiver_running r"

text \<open>Datagram \<open>k\<close> delivers frame \<open>f\<close> to every receiver with the transport key of \<open>c\<close>.\<close>

definition delivers ::
    "evp \<Rightarrow> 'h mls_ratchet \<Rightarrow> snowflake \<Rightarrow> (u32 \<Rightarrow> nat \<Rightarrow> ('h, 't) voice_impl \<Rightarrow> bool) \<Rightarrow> sodium
     \<Rightarrow> voice_crypto \<Rightarrow> u32 \<Rightarrow> u16 \<Rightarrow> nat \<Rightarrow> bytes \<Rightarrow> bytes \<Rightarrow> bool" where
  "delivers evp mls uid ready so c sc sq k w f \<longleftrightarrow> (\<forall>r now end_time. ready sc k r \<longrightarrow> same_transport c (crypto r) \<longrightarrow>
     now \<le> TIME_MAX \<longrightarrow> (\<exists>r' pkt. process evp mls so now end_time w r = Some (r', Some pkt)
       \<and> ready sc (Suc k) r' \<and> still_open r r'
       \<and> pk_sequence pkt = sq \<and> pk_ssrc pkt = sc \<and> pk_opus pkt = f \<and> pk_user_id pkt = uid))"

locale media_link =
  fixes evp :: evp and mls :: "'h mls_ratchet" and uid :: snowflake
    and frame_ok :: "nat \<Rightarrow> bytes \<Rightarrow> bool"
    and at :: "nat \<Rightarrow> ('h, 's) dave_state option \<Rightarrow> u32 \<Rightarrow> bool"
    and ready :: "u32 \<Rightarrow> nat \<Rightarrow> ('h, 't) voice_impl \<Rightarrow> bool"
  assumes sealed: "at n ds sc \<Longrightarrow> frame_ok n f \<Longrightarrow> \<exists>ds' body. at (Suc n) ds' sc
      \<and> (\<forall>i. dave i = ds \<longrightarrow> v_ssrc i = sc \<longrightarrow> seal_media evp mls f i = Some (i\<lparr>dave := ds'\<rparr>, Inr body))
      \<and> (\<forall>r pkt now end_time. ready sc n r \<longrightarrow> pk_ssrc pkt = sc \<longrightarrow> now \<le> TIME_MAX \<longrightarrow>
          (\<exists>r'. dispatch_media evp mls now end_time pkt body r = Some (r', Some (received_as uid f pkt))
             \<and> ready sc (Suc n) r' \<and> still_open r r'))"
    and ready_mono: "ready sc m r \<Longrightarrow> m \<le> n \<Longrightarrow> ready sc n r"
begin

lemma send_delivers:
  assumes so: "sodium_aead so" "key_installed (crypto i)" and at: "at n (dave i) (v_ssrc i)" "frame_ok n f"
  obtains ds' body w where "seal_media evp mls f i = Some (i\<lparr>dave := ds'\<rparr>, Inr body)"
    "at (Suc n) ds' (v_ssrc i)"
    "encrypt_rtp so (rtp_bytes (sender_rtp i)) body (crypto i)
       = Some ((crypto i)\<lparr>vc_nonce := vc_nonce (crypto i) + 1\<rparr>, Inr w)"
    "delivers evp mls uid ready so (crypto i) (v_ssrc i) (rtp_sequence i) n w f"
proof -
  from sealed [OF at] obtain ds' body where b: "at (Suc n) ds' (v_ssrc i)"
    "seal_media evp mls f i = Some (i\<lparr>dave := ds'\<rparr>, Inr body)"
    "\<And>r pkt now end_time. ready (v_ssrc i) n r \<Longrightarrow> pk_ssrc pkt = v_ssrc i \<Longrightarrow> now \<le> TIME_MAX \<Longrightarrow>
       \<exists>r'. dispatch_media evp mls now end_time pkt body r = Some (r', Some (received_as uid f pkt))
         \<and> ready (v_ssrc i) (Suc n) r' \<and> still_open r r'" by blast
  have st: "same_transport (crypto i) (crypto i)" by (simp add: same_transport_def)
  obtain w where w: "encrypt_rtp so (rtp_bytes (sender_rtp i)) body (crypto i)
       = Some ((crypto i)\<lparr>vc_nonce := vc_nonce (crypto i) + 1\<rparr>, Inr w)"
    "take 12 w = rtp_bytes (sender_rtp i)" "length w = length body + 32"
    "decrypt_rtp so (rtp_bytes (sender_rtp i)) (drop 12 w) (crypto i) = Some (Inr body)"
    by (rule encrypt_decrypt_rtp [OF so length_rtp_bytes st])
  have dec: "decrypt_rtp so (rtp_bytes (sender_rtp i)) (drop 12 w) c = Some (Inr body)"
    if "same_transport (crypto i) c" for c
    using w(4) that xchacha20.unseal_key [of c "crypto i" so] aes256gcm.unseal_key [of c "crypto i" so]
    by (simp add: decrypt_rtp_def same_transport_def split: voice_transport_mode.splits)
  have "delivers evp mls uid ready so (crypto i) (v_ssrc i) (rtp_sequence i) n w f"
    unfolding delivers_def
  proof (intro allI impI)
    fix r :: "('h, 't) voice_impl" and now end_time
    assume r: "ready (v_ssrc i) n r" "same_transport (crypto i) (crypto r)" "now \<le> TIME_MAX"
    have "media_payload so (crypto r) w = Some (Some body)"
      using w(2,3) dec [OF r(2)] by (intro media_payload_sent) (simp_all add: sender_rtp_def)
    from process_eq [OF this] have "process evp mls so now end_time w r
        = dispatch_media evp mls now end_time (packet_of w) body r"
      using w(3) by simp
    moreover have pk: "packet_of w = \<lparr>pk_sequence = rtp_sequence i, pk_timestamp = rtp_timestamp i,
        pk_ssrc = v_ssrc i, pk_opus = [], pk_user_id = 0\<rparr>"
      by (simp add: packet_of_sent [OF w(2)]) (simp add: sender_rtp_def)
    ultimately show "\<exists>r' pkt. process evp mls so now end_time w r = Some (r', Some pkt)
       \<and> ready (v_ssrc i) (Suc n) r' \<and> still_open r r'
       \<and> pk_sequence pkt = rtp_sequence i \<and> pk_ssrc pkt = v_ssrc i \<and> pk_opus pkt = f \<and> pk_user_id pkt = uid"
      using b(3) [OF r(1) _ r(3), of "packet_of w" end_time] by (auto simp: received_as_def)
  qed
  then show ?thesis by (rule that [OF b(2,1) w(1)])
qed

end

text \<open>
  What holds of the sender when the frames \<open>fs\<close> have been handed to the socket: each datagram
  delivers its frame, under consecutive sequence numbers from \<open>seq0\<close> on.
\<close>

definition link_inv ::
    "evp \<Rightarrow> 'h mls_ratchet \<Rightarrow> snowflake \<Rightarrow> (nat \<Rightarrow> ('h, 's) dave_state option \<Rightarrow> u32 \<Rightarrow> bool)
     \<Rightarrow> (u32 \<Rightarrow> nat \<Rightarrow> ('h, 't) voice_impl \<Rightarrow> bool) \<Rightarrow> sodium \<Rightarrow> voice_crypto \<Rightarrow> u32 \<Rightarrow> u16
     \<Rightarrow> ('h, 's) sender \<Rightarrow> bytes list \<Rightarrow> bool" where
  "link_inv evp mls uid at ready so c0 sc seq0 s fs \<longleftrightarrow>
     at (length fs) (dave (impl s)) sc \<and> v_ssrc (impl s) = sc \<and> same_transport c0 (crypto (impl s)) \<and> key_installed c0
     \<and> udp (impl s) \<and> channel (impl s) \<and> \<not> disconnected (impl s) \<and> length (wire s) = length fs
     \<and> rtp_sequence (impl s) + (case phase s of Sending _ \<Rightarrow> 1 | _ \<Rightarrow> 0) = seq0 + of_nat (length fs)
     \<and> (\<forall>k < length fs. delivers evp mls uid ready so c0 sc (seq0 + of_nat k) k (wire s ! k) (fs ! k))"

text \<open>The frames accepted and not yet handed to the socket.\<close>

definition waiting :: "('h, 's) sender \<Rightarrow> bytes list" where
  "waiting s = map encoded ((case phase s of Pacing p \<Rightarrow> [p] | _ \<Rightarrow> []) @ queue s)"

definition accepts :: "(bytes \<Rightarrow> int) \<Rightarrow> sender_event \<Rightarrow> bytes list" where
  "accepts samples ev = (case ev of Opus d \<Rightarrow> if d \<noteq> [] \<and> 0 \<le> samples d then [d] else [] | _ \<Rightarrow> [])"

lemma delivers_transport:
  "same_transport c0 c \<Longrightarrow> delivers evp mls uid ready so c sc = delivers evp mls uid ready so c0 sc"
  by (simp add: delivers_def same_transport_def fun_eq_iff)

lemma link_inv_queue: "link_inv evp mls uid at ready so c0 sc seq0 (s\<lparr>queue := q\<rparr>) fs
    = link_inv evp mls uid at ready so c0 sc seq0 s fs"
  by (simp add: link_inv_def)

lemma link_inv_cong:
  assumes "link_inv evp mls uid at ready so c0 sc seq0 s fs" "wire s' = wire s"
    "dave (impl s') = dave (impl s)" "v_ssrc (impl s') = v_ssrc (impl s)" "crypto (impl s') = crypto (impl s)"
    "udp (impl s') = udp (impl s)" "channel (impl s') = channel (impl s)" "disconnected (impl s') = disconnected (impl s)"
    "rtp_sequence (impl s') + (case phase s' of Sending _ \<Rightarrow> 1 | _ \<Rightarrow> 0)
       = rtp_sequence (impl s) + (case phase s of Sending _ \<Rightarrow> 1 | _ \<Rightarrow> 0)"
  shows "link_inv evp mls uid at ready so c0 sc seq0 s' fs"
  using assms by (simp add: link_inv_def)

context media_link
begin

lemma send_packet_link:
  assumes so: "sodium_aead so" and inv: "link_inv evp mls uid at ready so c0 sc seq0 s fs"
    and ph: "\<forall>n. phase s \<noteq> Sending n" and ok: "frame_ok (length fs) (encoded pkt)"
  shows "\<exists>s'. send_packet evp mls so pkt s = Some s' \<and> queue s' = queue s \<and> phase s' = Sending (frame_count pkt)
     \<and> link_inv evp mls uid at ready so c0 sc seq0 s' (fs @ [encoded pkt])"
proof -
  define i where "i = (if dave_expected (impl s) then (impl s)\<lparr>warned_waiting_for_e2ee := True\<rparr> else impl s)"
  have i: "dave i = dave (impl s)" "v_ssrc i = sc" "crypto i = crypto (impl s)" "rtp_sequence i = rtp_sequence (impl s)"
    "udp i" "channel i" "\<not> disconnected i"
    using inv by (simp_all add: i_def link_inv_def)
  have st: "same_transport c0 (crypto i)" "key_installed (crypto i)" "at (length fs) (dave i) (v_ssrc i)"
    using inv by (auto simp: link_inv_def i same_transport_def key_installed_def)
  have sq: "rtp_sequence i = seq0 + of_nat (length fs)"
    using inv ph i(4) by (cases "phase s") (simp_all add: link_inv_def)
  obtain ds' body w where w: "seal_media evp mls (encoded pkt) i = Some (i\<lparr>dave := ds'\<rparr>, Inr body)"
    "at (Suc (length fs)) ds' (v_ssrc i)"
    "encrypt_rtp so (rtp_bytes (sender_rtp i)) body (crypto i)
       = Some ((crypto i)\<lparr>vc_nonce := vc_nonce (crypto i) + 1\<rparr>, Inr w)"
    "delivers evp mls uid ready so (crypto i) (v_ssrc i) (rtp_sequence i) (length fs) w (encoded pkt)"
    by (rule send_delivers [OF so st(2,3) ok])
  define s' where "s' = s\<lparr>impl := i\<lparr>dave := ds', crypto := (crypto i)\<lparr>vc_nonce := vc_nonce (crypto i) + 1\<rparr>\<rparr>,
      phase := Sending (frame_count pkt), wire := wire s @ [w]\<rparr>"
  have "sender_header (i\<lparr>dave := ds'\<rparr>) = Some (rtp_bytes (sender_rtp i))"
    by (simp add: sender_header_eq sender_rtp_def)
  then have "send_packet evp mls so pkt s = Some s'"
    using w(1,3) inv by (simp add: send_packet_def Let_def s'_def link_inv_def flip: i_def)
  moreover have "delivers evp mls uid ready so c0 sc (seq0 + of_nat (length fs)) (length fs) w (encoded pkt)"
    using w(4) by (simp add: i(2) sq delivers_transport [OF st(1)])
  then have "link_inv evp mls uid at ready so c0 sc seq0 s' (fs @ [encoded pkt])"
    using inv w(2) st(1) i sq
    by (auto simp: link_inv_def s'_def nth_append less_Suc_eq same_transport_def)
  ultimately show ?thesis by (auto simp: s'_def)
qed

lemma process_frame_at_link:
  assumes so: "sodium_aead so" and inv: "link_inv evp mls uid at ready so c0 sc seq0 s fs"
    and ph: "phase s = Awaiting" and ok: "frame_ok (length fs) (encoded pkt)"
  shows "\<exists>s' fs'. process_frame_at evp mls so now pkt s = Some s'
     \<and> link_inv evp mls uid at ready so c0 sc seq0 s' fs' \<and> fs' @ waiting s' = fs @ encoded pkt # waiting s"
proof (cases "next_send_time s > now")
  case True
  have "link_inv evp mls uid at ready so c0 sc seq0 (s\<lparr>phase := Pacing pkt\<rparr>) fs"
    using inv ph by (simp add: link_inv_def)
  with True ph show ?thesis
    by (auto simp: process_frame_at_def waiting_def)
next
  case False
  define s1 where "s1 = (if (now - next_send_time s) div 1000000 > 100 then s\<lparr>next_send_time := now\<rparr> else s)"
  have s1: "link_inv evp mls uid at ready so c0 sc seq0 s1 fs" "\<forall>n. phase s1 \<noteq> Sending n" "queue s1 = queue s"
    using inv ph by (simp_all add: s1_def link_inv_def)
  from send_packet_link [OF so s1(1,2) ok] obtain s' where s': "send_packet evp mls so pkt s1 = Some s'"
    "queue s' = queue s" "phase s' = Sending (frame_count pkt)"
    "link_inv evp mls uid at ready so c0 sc seq0 s' (fs @ [encoded pkt])"
    by (auto simp: s1(3))
  then have "process_frame_at evp mls so now pkt s = Some s'" "(fs @ [encoded pkt]) @ waiting s' = fs @ encoded pkt # waiting s"
    using False ph by (simp_all add: process_frame_at_def Let_def waiting_def flip: s1_def)
  with s'(4) show ?thesis by blast
qed

lemma sender_step_link:
  assumes so: "sodium_aead so" and inv: "link_inv evp mls uid at ready so c0 sc seq0 s fs"
    and ok: "\<forall>f \<in> set (waiting s @ accepts samples ev). frame_ok (length fs) f"
    and ev: "ev \<noteq> TimerFailed" "ev \<noteq> ChannelClosed"
  shows "\<exists>s' fs'. sender_step evp mls so samples ev s = Some s' \<and> link_inv evp mls uid at ready so c0 sc seq0 s' fs'
     \<and> fs' @ waiting s' = fs @ waiting s @ accepts samples ev"
proof (cases ev)
  case (Opus d)
  have "channel (impl s)" "\<not> disconnected (impl s)" using inv by (simp_all add: link_inv_def)
  moreover have "link_inv evp mls uid at ready so c0 sc seq0 (fst (send_opus samples d s)) fs"
    by (rule link_inv_cong [OF inv]) (simp_all add: send_opus_def)
  ultimately show ?thesis
    using Opus by (intro exI [of _ "fst (send_opus samples d s)"] exI [of _ fs])
      (auto simp: sender_step_def send_opus_def waiting_def accepts_def)
next
  case (Take now)
  show ?thesis
  proof (cases "phase s = Awaiting \<and> queue s \<noteq> []")
    case True
    then obtain pkt rest where q: "queue s = pkt # rest" "phase s = Awaiting" by (cases "queue s") auto
    have "link_inv evp mls uid at ready so c0 sc seq0 (s\<lparr>queue := rest\<rparr>) fs" "frame_ok (length fs) (encoded pkt)"
      using inv ok q by (simp_all add: link_inv_queue waiting_def)
    from process_frame_at_link [OF so this(1) _ this(2), of now] q Take show ?thesis
      by (simp add: sender_step_def waiting_def accepts_def)
  next
    case False
    then have "sender_step evp mls so samples ev s = Some s"
      using Take by (auto simp: sender_step_def split: sender_phase.splits list.splits)
    then show ?thesis using inv Take by (auto simp: accepts_def)
  qed
next
  case TimerFired
  show ?thesis
  proof (cases "\<exists>pkt. phase s = Pacing pkt")
    case True
    then obtain pkt where pkt: "phase s = Pacing pkt" by blast
    then have "frame_ok (length fs) (encoded pkt)" "\<forall>n. phase s \<noteq> Sending n"
      using ok by (simp_all add: waiting_def)
    from send_packet_link [OF so inv this(2,1)] obtain s' where "send_packet evp mls so pkt s = Some s'"
      "queue s' = queue s" "phase s' = Sending (frame_count pkt)"
      "link_inv evp mls uid at ready so c0 sc seq0 s' (fs @ [encoded pkt])" by blast
    with pkt TimerFired show ?thesis
      by (intro exI [of _ s'] exI [of _ "fs @ [encoded pkt]"]) (simp add: sender_step_def waiting_def accepts_def)
  next
    case False
    then have "sender_step evp mls so samples ev s = Some s"
      using TimerFired by (auto simp: sender_step_def split: sender_phase.splits)
    then show ?thesis using inv TimerFired by (auto simp: accepts_def)
  qed
next
  case (UdpDone b)
  show ?thesis
  proof (cases "\<exists>n. phase s = Sending n")
    case True
    then obtain n where n: "phase s = Sending n" by blast
    have "link_inv evp mls uid at ready so c0 sc seq0 (udp_sent b n s) fs"
      by (rule link_inv_cong [OF inv]) (simp_all add: udp_sent_def Let_def sender_defs n)
    moreover have "waiting (udp_sent b n s) = waiting s"
      by (simp add: waiting_def n udp_sent_def Let_def sender_defs)
    ultimately show ?thesis
      using n UdpDone by (auto simp: sender_step_def accepts_def)
  next
    case False
    then have "sender_step evp mls so samples ev s = Some s"
      using UdpDone by (auto simp: sender_step_def split: sender_phase.splits)
    then show ?thesis using inv UdpDone by (auto simp: accepts_def)
  qed
qed (use ev in simp_all)

lemma sender_run_link:
  assumes "sodium_aead so" "link_inv evp mls uid at ready so c0 sc seq0 s fs"
    and "TimerFailed \<notin> set evs" "ChannelClosed \<notin> set evs"
    and "\<forall>f \<in> set (fs @ waiting s @ concat (map (accepts samples) evs)). \<forall>n < length fs + length (waiting s) + length evs. frame_ok n f"
  shows "\<exists>s' fs'. sender_run evp mls so samples evs s = Some s' \<and> link_inv evp mls uid at ready so c0 sc seq0 s' fs'
     \<and> fs' @ waiting s' = fs @ waiting s @ concat (map (accepts samples) evs)"
  using assms(2-5)
proof (induction evs arbitrary: s fs)
  case Nil
  then show ?case by auto
next
  case (Cons ev evs)
  have "\<forall>f \<in> set (waiting s @ accepts samples ev). frame_ok (length fs) f"
    using Cons.prems(4) by auto
  from sender_step_link [OF assms(1) Cons.prems(1) this] Cons.prems(2,3) obtain s1 fs1 where
    s1: "sender_step evp mls so samples ev s = Some s1" "link_inv evp mls uid at ready so c0 sc seq0 s1 fs1"
      "fs1 @ waiting s1 = fs @ waiting s @ accepts samples ev" by auto
  have "length (accepts samples ev) \<le> 1" by (simp add: accepts_def split: sender_event.splits)
  with arg_cong [OF s1(3), of length] have len: "length fs1 + length (waiting s1) + length evs
      \<le> length fs + length (waiting s) + length (ev # evs)" by simp
  have "set (fs1 @ waiting s1) = set (fs @ waiting s @ accepts samples ev)"
    using s1(3) by simp
  then have "set (fs1 @ waiting s1 @ concat (map (accepts samples) evs))
      = set (fs @ waiting s @ concat (map (accepts samples) (ev # evs)))"
    by (simp add: Un_assoc [symmetric])
  note same = this
  have "\<forall>f \<in> set (fs1 @ waiting s1 @ concat (map (accepts samples) evs)).
      \<forall>n < length fs1 + length (waiting s1) + length evs. frame_ok n f"
    unfolding same
  proof (intro ballI allI impI)
    fix f n
    assume "f \<in> set (fs @ waiting s @ concat (map (accepts samples) (ev # evs)))"
      "n < length fs1 + length (waiting s1) + length evs"
    with Cons.prems(4) len show "frame_ok n f" by (meson order.strict_trans2)
  qed
  from Cons.IH [OF s1(2) _ _ this] Cons.prems(2,3)
  obtain s' fs' where "sender_run evp mls so samples evs s1 = Some s'"
    "link_inv evp mls uid at ready so c0 sc seq0 s' fs'"
    "fs' @ waiting s' = fs1 @ waiting s1 @ concat (map (accepts samples) evs)" by auto
  with s1 show ?case by auto
qed

text \<open>
  The receiver's side: whichever datagrams arrive, in order, their frames come out, each with its
  sequence number.
\<close>

lemma receive_some:
  assumes inv: "link_inv evp mls uid at ready so c0 sc seq0 s fs"
    and r: "ready sc m r" "same_transport c0 (crypto r)" "udp r" "receiver_running r"
    and ks: "sorted_wrt (<) (map fst ks)" "\<forall>(k, t) \<in> set ks. m \<le> k \<and> k < length fs \<and> t \<le> TIME_MAX"
  shows "\<exists>r' ps. receive_loop evp mls so (map (\<lambda>(k, t). Datagram t t (wire s ! k)) ks) r = Some (r', ps)
     \<and> map pk_opus ps = map (\<lambda>(k, t). fs ! k) ks
     \<and> map pk_sequence ps = map (\<lambda>(k, t). seq0 + of_nat k) ks
     \<and> (\<forall>p \<in> set ps. pk_ssrc p = sc \<and> pk_user_id p = uid)"
  using r ks
proof (induction ks arbitrary: m r)
  case Nil
  then show ?case by simp
next
  case (Cons kt ks)
  obtain k t where kt: "kt = (k, t)" by force
  have k: "m \<le> k" "k < length fs" "t \<le> TIME_MAX" using Cons.prems(6) by (auto simp: kt)
  have "delivers evp mls uid ready so c0 sc (seq0 + of_nat k) k (wire s ! k) (fs ! k)"
    using inv k(2) by (simp add: link_inv_def)
  from this [unfolded delivers_def, rule_format, OF ready_mono [OF Cons.prems(1) k(1)] Cons.prems(2) k(3), of t]
  obtain r1 pkt where p: "process evp mls so t t (wire s ! k) r = Some (r1, Some pkt)"
    "ready sc (Suc k) r1" "still_open r r1"
    "pk_sequence pkt = seq0 + of_nat k" "pk_ssrc pkt = sc" "pk_opus pkt = fs ! k" "pk_user_id pkt = uid"
    by blast
  have r1: "same_transport c0 (crypto r1)" "udp r1" "receiver_running r1"
    using p(3) Cons.prems(2-4) by (simp_all add: still_open_def)
  have "\<forall>(k', t) \<in> set ks. Suc k \<le> k' \<and> k' < length fs \<and> t \<le> TIME_MAX" "sorted_wrt (<) (map fst ks)"
    using Cons.prems(5,6) by (auto simp: kt)
  from Cons.IH [OF p(2) r1 this(2,1)] obtain r' ps where
    "receive_loop evp mls so (map (\<lambda>(k, t). Datagram t t (wire s ! k)) ks) r1 = Some (r', ps)"
    "map pk_opus ps = map (\<lambda>(k, t). fs ! k) ks" "map pk_sequence ps = map (\<lambda>(k, t). seq0 + of_nat k) ks"
    "\<forall>p \<in> set ps. pk_ssrc p = sc \<and> pk_user_id p = uid" by blast
  with p r1 show ?case
    by (simp add: kt receive_step_def)
qed

text \<open>Both ends together, from a loop that has just been started.\<close>

lemma end_to_end:
  assumes so: "sodium_aead so" "key_installed (crypto i)" and loop: "opus_sender_loop now i = Some s0"
    and conn: "\<not> disconnected i" and i: "at 0 (dave i) (v_ssrc i)"
    and evs: "TimerFailed \<notin> set evs" "ChannelClosed \<notin> set evs"
    and ok: "\<forall>f \<in> set (concat (map (accepts samples) evs)). \<forall>n < length evs. frame_ok n f"
    and r: "ready (v_ssrc i) 0 r" "same_transport (crypto i) (crypto r)" "udp r" "receiver_running r"
  shows "\<exists>s sent. sender_run evp mls so samples evs s0 = Some s
     \<and> sent @ waiting s = concat (map (accepts samples) evs) \<and> length (wire s) = length sent
     \<and> (\<forall>ks. sorted_wrt (<) (map fst ks) \<longrightarrow> (\<forall>(k, t) \<in> set ks. k < length sent \<and> t \<le> TIME_MAX) \<longrightarrow>
          (\<exists>r' ps. receive_loop evp mls so (map (\<lambda>(k, t). Datagram t t (wire s ! k)) ks) r = Some (r', ps)
             \<and> map pk_opus ps = map (\<lambda>(k, t). sent ! k) ks
             \<and> map pk_sequence ps = map (\<lambda>(k, t). rtp_sequence i + of_nat k) ks
             \<and> (\<forall>p \<in> set ps. pk_ssrc p = v_ssrc i \<and> pk_user_id p = uid)))"
proof -
  have s0: "impl s0 = i\<lparr>send_timer := True\<rparr>" "phase s0 = Awaiting" "queue s0 = []" "wire s0 = []" "channel i" "udp i"
    using loop by (auto simp: opus_sender_loop_def split: if_splits)
  have "link_inv evp mls uid at ready so (crypto i) (v_ssrc i) (rtp_sequence i) s0 []"
    using so(2) conn i by (simp add: link_inv_def s0 same_transport_def)
  from sender_run_link [OF so(1) this evs, of samples] ok obtain s sent where
    s: "sender_run evp mls so samples evs s0 = Some s"
      "link_inv evp mls uid at ready so (crypto i) (v_ssrc i) (rtp_sequence i) s sent"
      "sent @ waiting s = concat (map (accepts samples) evs)"
    by (auto simp: waiting_def s0)
  have "length (wire s) = length sent" using s(2) by (simp add: link_inv_def)
  with s receive_some [OF s(2) r] show ?thesis
    by (intro exI [of _ s] exI [of _ sent]) simp
qed

end

section \<open>Without end-to-end encryption\<close>

definition send_plain :: "('h, 's) dave_state option \<Rightarrow> bool" where
  "send_plain ds = (case ds of
     Some d \<Rightarrow> (case ds_encryptor d of Some e \<Rightarrow> en_passthrough_mode e \<or> \<not> has_key_ratchet e | None \<Rightarrow> True)
   | None \<Rightarrow> True)"

definition receive_plain :: "snowflake \<Rightarrow> u32 \<Rightarrow> ('h, 's) voice_impl \<Rightarrow> bool" where
  "receive_plain uid sc r \<longleftrightarrow> recv_chan r \<and> \<not> dave_receive_enabled r
     \<and> (case ssrc_to_user_id r sc of Some u \<Rightarrow> snowflake_from_json (JStr u) 0 = Some uid | None \<Rightarrow> uid = 0)"

lemma seal_media_plain: "send_plain (dave i) \<Longrightarrow> seal_media evp mls f i = Some (i, Inr f)"
  by (auto simp: seal_media_def dave_send_enabled_def send_plain_def split: option.splits)

lemma dispatch_plain:
  assumes "receive_plain uid (pk_ssrc pkt) r"
  shows "dispatch_media evp mls now end_time pkt f r = Some (r, Some (received_as uid f pkt))"
  using assms
  by (auto simp: dispatch_media_def process_plain_def deliver_def receive_plain_def received_as_def
      split: option.splits)

interpretation plain: media_link evp mls uid "\<lambda>n f. True" "\<lambda>n ds sc. send_plain ds" "\<lambda>sc n r. receive_plain uid sc r"
  for evp mls uid
proof (standard, goal_cases)
  case (1 n ds sc f)
  then show ?case
    by (intro exI [of _ ds] exI [of _ f]) (auto simp: seal_media_plain dispatch_plain still_open_def)
qed simp

section \<open>With end-to-end encryption\<close>

definition send_dave ::
    "evp \<Rightarrow> 'h mls_ratchet \<Rightarrow> bytes \<Rightarrow> nat \<Rightarrow> ('h, 's) dave_state option \<Rightarrow> u32 \<Rightarrow> bool" where
  "send_dave evp mls key n ds sc \<longleftrightarrow> evp_gcm evp \<and> 16 \<le> length key
     \<and> (\<exists>d e. ds = Some d \<and> ds_encryptor d = Some e \<and> sender_at mls key sc n e)"

definition receive_dave ::
    "'h mls_ratchet \<Rightarrow> bytes \<Rightarrow> snowflake \<Rightarrow> u32 \<Rightarrow> nat \<Rightarrow> ('h, 's) voice_impl \<Rightarrow> bool" where
  "receive_dave mls key uid sc n r \<longleftrightarrow> recv_chan r \<and> (\<exists>ds u d. dave r = Some ds \<and> 0 < ds_protocol_version ds
     \<and> ssrc_to_user_id r sc = Some u \<and> snowflake_from_json (JStr u) 0 = Some uid
     \<and> ds_decryptors ds u = Some d \<and> receiver_at mls key n d)"

text \<open>
  A frame that the receiver does not take for too short: with the supplement it has at least
  \<open>min_dave_frame_size\<close> bytes.
\<close>

definition dave_frame_ok :: "nat \<Rightarrow> bytes \<Rightarrow> bool" where
  "dave_frame_ok n f \<longleftrightarrow> Suc n < 2 ^ 24 \<and> 32 \<le> length f \<and> length f < 2 ^ 31"

lemma opus_supplemental_min: "12 \<le> supplemental_size [] nonce"
proof -
  have "leb128_bytes (ucast nonce) \<noteq> []" by (subst leb128_bytes.simps) simp
  then have "1 \<le> length (leb128_bytes (ucast nonce))" by (cases "leb128_bytes (ucast nonce)") auto
  then show ?thesis by (simp add: supplemental_size_def)
qed

lemma seal_media_dave:
  assumes "send_dave evp mls key n ds sc" "Suc n < 2 ^ 24" "f \<noteq> []" "length f < 2 ^ 31"
  obtains ds' where "send_dave evp mls key (Suc n) ds' sc"
    "\<forall>i. dave i = ds \<longrightarrow> v_ssrc i = sc \<longrightarrow>
       seal_media evp mls f i = Some (i\<lparr>dave := ds'\<rparr>, Inr (opus_sealed evp key (of_nat (Suc n)) f))"
proof -
  obtain d e where d: "ds = Some d" "ds_encryptor d = Some e" "sender_at mls key sc n e"
    "evp_gcm evp" "16 \<le> length key"
    using assms(1) by (auto simp: send_dave_def)
  define out where "out = (replicate (get_max_ciphertext_byte_size Audio (length f)) 0 :: bytes)"
  define body where "body = opus_sealed evp key (of_nat (Suc n)) f"
  have "length f + 75 \<le> length out"
    by (simp add: out_def get_max_ciphertext_byte_size_def dave_consts)
  from sender_step [OF d(4,5,3) assms(2-4) this, folded body_def] obtain e' out' where e':
    "encrypt evp mls Audio sc f out e = Some (e', out', Inr (length body))"
    "take (length body) out' = body" "sender_at mls key sc (Suc n) e'" by blast
  have "length body \<le> length out'"
    using arg_cong [OF e'(2), of length] by simp
  then have "resize_bytes out' (length body) = body"
    using e'(2) by (simp add: resize_bytes_def)
  moreover have "dave_send_enabled i" if "dave i = ds" for i
    using d(1-3) that by (auto simp: dave_send_enabled_def sender_at_def has_key_ratchet_def)
  ultimately have "\<forall>i. dave i = ds \<longrightarrow> v_ssrc i = sc \<longrightarrow>
      seal_media evp mls f i = Some (i\<lparr>dave := Some (d\<lparr>ds_encryptor := Some e'\<rparr>)\<rparr>, Inr body)"
    using d(1,2) e'(1) by (auto simp: seal_media_def out_def)
  moreover have "send_dave evp mls key (Suc n) (Some (d\<lparr>ds_encryptor := Some e'\<rparr>)) sc"
    using d(4,5) e'(3) by (simp add: send_dave_def)
  ultimately show ?thesis using that [of "Some (d\<lparr>ds_encryptor := Some e'\<rparr>)"] by (simp add: body_def)
qed

lemma dispatch_dave:
  assumes evp: "evp_gcm evp" "16 \<le> length key" and r: "receive_dave mls key uid (pk_ssrc pkt) n r"
    and n: "n < k" "k < 2 ^ 24" and f: "32 \<le> length f" "length f < 2 ^ 31" and now: "now \<le> TIME_MAX"
  shows "\<exists>r'. dispatch_media evp mls now end_time pkt (opus_sealed evp key (of_nat k) f) r
       = Some (r', Some (received_as uid f pkt)) \<and> receive_dave mls key uid (pk_ssrc pkt) k r' \<and> still_open r r'"
proof -
  define body where "body = opus_sealed evp key (of_nat k) f"
  obtain ds u d where d: "dave r = Some ds" "0 < ds_protocol_version ds" "ssrc_to_user_id r (pk_ssrc pkt) = Some u"
    "snowflake_from_json (JStr u) 0 = Some uid" "ds_decryptors ds u = Some d" "receiver_at mls key n d" "recv_chan r"
    using r by (auto simp: receive_dave_def)
  have len: "44 \<le> length body" "length f \<le> length body"
    using f(1) opus_supplemental_min [of "of_nat k"] by (simp_all add: body_def length_opus_sealed [OF evp(1)])
  then have sz: "body \<noteq> SILENCE_FRAME" "\<not> length body < min_dave_frame_size"
    by (auto simp: SILENCE_FRAME_def min_dave_frame_size_def)
  have "f \<noteq> []" using f(1) by auto
  from receiver_step [OF evp d(6) n this f(2) now, of "replicate (length body) 0" end_time] len(2) obtain d' out where
    dec: "decrypt evp mls now end_time Audio body (replicate (length body) 0) d = Some (d', out, Inr (length f))"
      "take (length f) out = f" "receiver_at mls key k d'"
    by (auto simp flip: body_def)
  have "length f \<le> length out" using arg_cong [OF dec(2), of length] by simp
  then have rs: "resize_bytes out (length f) = f" using dec(2) by (simp add: resize_bytes_def)
  have en: "dave_receive_enabled r" using d(1,2,5) by (auto simp: dave_receive_enabled_def)
  define r' where "r' = r\<lparr>dave := Some (ds\<lparr>ds_decryptors := (ds_decryptors ds)(u \<mapsto> d'), ds_done_ready := True\<rparr>)\<rparr>"
  have "dispatch_media evp mls now end_time pkt body r = Some (r', Some (received_as uid f pkt))"
    using d en sz dec(1) rs
    by (simp add: dispatch_media_def process_dave_def deliver_def received_as_def r'_def)
  moreover have "receive_dave mls key uid (pk_ssrc pkt) k r'" "still_open r r'"
    using d dec(3) by (auto simp: receive_dave_def still_open_def r'_def)
  ultimately show ?thesis by (auto simp flip: body_def)
qed

lemma receiver_at_mono: "receiver_at mls key m d \<Longrightarrow> m \<le> n \<Longrightarrow> receiver_at mls key n d"
  by (fastforce simp: receiver_at_def receiver_manager_def)

lemma receive_dave_mono: "receive_dave mls key uid sc m r \<Longrightarrow> m \<le> n \<Longrightarrow> receive_dave mls key uid sc n r"
  unfolding receive_dave_def using receiver_at_mono by blast

interpretation e2ee: media_link evp mls uid dave_frame_ok "send_dave evp mls key" "receive_dave mls key uid"
  for evp mls uid key
proof (standard, goal_cases)
  case (1 n ds sc f)
  then have f: "Suc n < 2 ^ 24" "f \<noteq> []" "32 \<le> length f" "length f < 2 ^ 31"
    and key: "evp_gcm evp" "16 \<le> length key"
    by (auto simp: dave_frame_ok_def send_dave_def)
  obtain ds' where "send_dave evp mls key (Suc n) ds' sc"
    "\<forall>i. dave i = ds \<longrightarrow> v_ssrc i = sc \<longrightarrow>
       seal_media evp mls f i = Some (i\<lparr>dave := ds'\<rparr>, Inr (opus_sealed evp key (of_nat (Suc n)) f))"
    by (rule seal_media_dave [OF 1(1) f(1,2,4)])
  then show ?case
    using dispatch_dave [OF key _ lessI f(1,3,4)] by blast
next
  case 2
  then show ?case by (rule receive_dave_mono)
qed

section \<open>Properties\<close>

text \<open>
  C14. Voice end to end, with DAVE encryption inside transport encryption. A sender loop is started
  on a connected channel; calls of \<open>send_opus\<close> and completions of channel, timer and socket
  follow in any order (up to 2^24 of them; the pacing timer does not fail and the channel is not
  closed), with frames of at least 32 and fewer than 2^31 bytes. Then no step of the sender leaves a buffer, the frames
  accepted are exactly those handed to the socket, in order, followed by those still waiting, and
  a receiver with the same keys that gets any of the datagrams, in order, delivers exactly the frames
  in them, with the sender's SSRC, the right user and consecutive sequence numbers, whichever
  others were lost.
\<close>

theorem voice_end_to_end:
  assumes "evp_gcm evp" "16 \<le> length key" "sodium_aead so" "key_installed (crypto i)"
    and "dave i = Some ds" "ds_encryptor ds = Some e" "sender_at mls key (v_ssrc i) 0 e"
    and "opus_sender_loop now i = Some s0" "\<not> disconnected i"
    and "TimerFailed \<notin> set evs" "ChannelClosed \<notin> set evs" "length evs < 2 ^ 24"
    and "\<forall>f \<in> set (concat (map (accepts samples) evs)). 32 \<le> length f \<and> length f < 2 ^ 31"
    and "receive_dave mls key uid (v_ssrc i) 0 r" "same_transport (crypto i) (crypto r)" "udp r" "receiver_running r"
  shows "\<exists>s sent. sender_run evp mls so samples evs s0 = Some s
     \<and> sent @ waiting s = concat (map (accepts samples) evs) \<and> length (wire s) = length sent
     \<and> (\<forall>ks. sorted_wrt (<) (map fst ks) \<longrightarrow> (\<forall>(k, t) \<in> set ks. k < length sent \<and> t \<le> TIME_MAX) \<longrightarrow>
          (\<exists>r' ps. receive_loop evp mls so (map (\<lambda>(k, t). Datagram t t (wire s ! k)) ks) r = Some (r', ps)
             \<and> map pk_opus ps = map (\<lambda>(k, t). sent ! k) ks
             \<and> map pk_sequence ps = map (\<lambda>(k, t). rtp_sequence i + of_nat k) ks
             \<and> (\<forall>p \<in> set ps. pk_ssrc p = v_ssrc i \<and> pk_user_id p = uid)))"
proof (rule e2ee.end_to_end [where key = key])
  show "send_dave evp mls key 0 (dave i) (v_ssrc i)"
    using assms(1,2,5-7) by (simp add: send_dave_def)
  show "\<forall>f \<in> set (concat (map (accepts samples) evs)). \<forall>n < length evs. dave_frame_ok n f"
    using assms(12,13) by (fastforce simp: dave_frame_ok_def)
qed (use assms in simp_all)

text \<open>
  The same without end-to-end encryption: transport encryption alone carries frames of every
  size, also the ones a DAVE receiver would drop.
\<close>

theorem voice_end_to_end_plain:
  assumes "sodium_aead so" "key_installed (crypto i)" "send_plain (dave i)"
    and "opus_sender_loop now i = Some s0" "\<not> disconnected i"
    and "TimerFailed \<notin> set evs" "ChannelClosed \<notin> set evs"
    and "receive_plain uid (v_ssrc i) r" "same_transport (crypto i) (crypto r)" "udp r" "receiver_running r"
  shows "\<exists>s sent. sender_run evp mls so samples evs s0 = Some s
     \<and> sent @ waiting s = concat (map (accepts samples) evs) \<and> length (wire s) = length sent
     \<and> (\<forall>ks. sorted_wrt (<) (map fst ks) \<longrightarrow> (\<forall>(k, t) \<in> set ks. k < length sent \<and> t \<le> TIME_MAX) \<longrightarrow>
          (\<exists>r' ps. receive_loop evp mls so (map (\<lambda>(k, t). Datagram t t (wire s ! k)) ks) r = Some (r', ps)
             \<and> map pk_opus ps = map (\<lambda>(k, t). sent ! k) ks
             \<and> map pk_sequence ps = map (\<lambda>(k, t). rtp_sequence i + of_nat k) ks
             \<and> (\<forall>p \<in> set ps. pk_ssrc p = v_ssrc i \<and> pk_user_id p = uid)))"
  using assms by (intro plain.end_to_end) simp_all

theorem voice_end_to_end_plain_witness:
  "\<exists>s sent. sender_run pad_evp no_mls pad_sodium (\<lambda>_. 960) [Opus [1, 2], Take 5, UdpDone True, Opus [3], Take 30000000]
        \<lparr>impl = sample_sender\<lparr>send_timer := True\<rparr>, phase = Awaiting, next_send_time = 0,
         consecutive_failures = 0, queue = [], wire = []\<rparr> = Some s
     \<and> sent @ waiting s = [[1, 2], [3]] \<and> length (wire s) = length sent"
proof -
  have "send_plain (dave sample_sender)" "receive_plain 0 (v_ssrc sample_sender) sample_receiver"
    "key_installed (crypto sample_sender)" "same_transport (crypto sample_sender) (crypto sample_receiver)"
    "udp sample_receiver" "receiver_running sample_receiver" "\<not> disconnected sample_sender"
    "opus_sender_loop 0 sample_sender = Some \<lparr>impl = sample_sender\<lparr>send_timer := True\<rparr>, phase = Awaiting,
       next_send_time = 0, consecutive_failures = 0, queue = [], wire = []\<rparr>"
    by (simp_all add: sample_sender_def sample_receiver_def voice_impl_init_def send_plain_def receive_plain_def
        dave_receive_enabled_def key_installed_def same_transport_def opus_sender_loop_def)
  from voice_end_to_end_plain [OF pad_sodium_aead this(3,1,8,7) _ _ this(2,4,5,6),
      of "[Opus [1, 2], Take 5, UdpDone True, Opus [3], Take 30000000]" pad_evp no_mls "\<lambda>_. 960"]
  show ?thesis by (auto simp: accepts_def)
qed

text \<open>
  Short frames are lost to end-to-end encryption: for every frame of at most 27 bytes (a silence
  frame, or ordinary speech at low bitrates) the sender encrypts and sends it, but a receiver
  that decrypts end to end drops the datagram, whatever its keys.
\<close>

theorem dave_short_frame_dropped:
  assumes "send_dave evp mls key n (dave i) (v_ssrc i)" "Suc n < 2 ^ 24" "f \<noteq> []" "length f \<le> 27"
    and "dave_receive_enabled r" "pk_ssrc pkt = v_ssrc i"
  shows "\<exists>i' body. seal_media evp mls f i = Some (i', Inr body)
     \<and> dispatch_media evp mls now end_time pkt body r = Some (r, None)"
proof -
  have "length f < 2 ^ 31" using assms(4) by simp
  from seal_media_dave [OF assms(1-3) this] obtain ds' where
    s: "seal_media evp mls f i = Some (i\<lparr>dave := ds'\<rparr>, Inr (opus_sealed evp key (of_nat (Suc n)) f))" by metis
  have evp: "evp_gcm evp" using assms(1) by (simp add: send_dave_def)
  define body where "body = opus_sealed evp key (of_nat (Suc n)) f"
  have "12 \<le> length body" "length body \<le> 43"
    using assms(4) opus_supplemental [of "of_nat (Suc n)"] opus_supplemental_min [of "of_nat (Suc n)"]
    by (simp_all add: body_def length_opus_sealed [OF evp])
  then have "body \<noteq> SILENCE_FRAME" "length body < min_dave_frame_size"
    by (auto simp: SILENCE_FRAME_def min_dave_frame_size_def)
  then have "dispatch_media evp mls now end_time pkt body r = Some (r, None)"
    using assms(5) by (auto simp: dispatch_media_def process_dave_def dave_receive_enabled_def split: option.splits)
  with s show ?thesis unfolding body_def by blast
qed

text \<open>A pair of connections that share a key, for the witnesses.\<close>

definition sample_key :: "unit key_ratchet" where
  "sample_key = SimpleKeyRatchet (replicate 16 9)"

definition dave_sender :: "(unit, unit) voice_impl" where
  "dave_sender = sample_sender\<lparr>dave := Some \<lparr>ds_session = None, ds_encryptor = Some (fresh_sender sample_key),
     ds_decryptors = Map.empty, ds_cached_roster_map = Map.empty, ds_protocol_version = 1, ds_done_ready = False,
     ds_privacy_code = []\<rparr>\<rparr>"

definition dave_receiver :: "(unit, unit) voice_impl" where
  "dave_receiver = sample_receiver\<lparr>ssrc_to_user_id := [0 \<mapsto> ''5''],
     dave := Some \<lparr>ds_session = None, ds_encryptor = None,
     ds_decryptors = [''5'' \<mapsto> fresh_receiver sample_key 0], ds_cached_roster_map = Map.empty,
     ds_protocol_version = 1, ds_done_ready = False, ds_privacy_code = []\<rparr>\<rparr>"

lemma sample_key_0: "snd (get_key no_mls sample_key 0) = replicate 16 9"
  by (simp add: sample_key_def)

lemma dave_samples:
  "send_dave pad_evp no_mls (replicate 16 9) 0 (dave dave_sender) (v_ssrc dave_sender)"
  "receive_dave no_mls (replicate 16 9) 5 (v_ssrc dave_sender) 0 dave_receiver"
  "dave_receive_enabled dave_receiver"
proof -
  have v: "v_ssrc dave_sender = 0" "recv_chan dave_receiver"
    by (simp_all add: dave_sender_def sample_sender_def sample_receiver_def voice_impl_init_def dave_receiver_def)
  show "send_dave pad_evp no_mls (replicate 16 9) 0 (dave dave_sender) (v_ssrc dave_sender)"
    using fresh_sender_at [OF sample_key_0] pad_evp_gcm by (simp add: send_dave_def dave_sender_def)
  have "snowflake_from_json (JStr ''5'') 0 = Some 5"
    by (simp add: snowflake_from_json_def stoull_digits is_digit_def decimal_value_def digit_value_def)
  then show "receive_dave no_mls (replicate 16 9) 5 (v_ssrc dave_sender) 0 dave_receiver"
    using fresh_receiver_at [OF sample_key_0] v by (simp add: receive_dave_def dave_receiver_def)
  show "dave_receive_enabled dave_receiver"
    by (simp add: dave_receive_enabled_def dave_receiver_def)
qed

theorem voice_end_to_end_witness:
  "\<exists>s sent. sender_run pad_evp no_mls pad_sodium (\<lambda>_. 960) [Opus (replicate 40 1), Take 5]
        \<lparr>impl = dave_sender\<lparr>send_timer := True\<rparr>, phase = Awaiting, next_send_time = 0,
         consecutive_failures = 0, queue = [], wire = []\<rparr> = Some s
     \<and> sent @ waiting s = [replicate 40 1] \<and> length (wire s) = length sent"
proof -
  obtain ds e where d: "dave dave_sender = Some ds" "ds_encryptor ds = Some e"
    "sender_at no_mls (replicate 16 9) (v_ssrc dave_sender) 0 e"
    using dave_samples(1) by (auto simp: send_dave_def)
  have s: "key_installed (crypto dave_sender)" "same_transport (crypto dave_sender) (crypto dave_receiver)"
    "udp dave_receiver" "receiver_running dave_receiver" "\<not> disconnected dave_sender"
    "opus_sender_loop 0 dave_sender = Some \<lparr>impl = dave_sender\<lparr>send_timer := True\<rparr>, phase = Awaiting,
       next_send_time = 0, consecutive_failures = 0, queue = [], wire = []\<rparr>"
    by (simp_all add: dave_sender_def dave_receiver_def sample_sender_def sample_receiver_def voice_impl_init_def
        key_installed_def same_transport_def opus_sender_loop_def)
  have "16 \<le> length (replicate 16 (9 :: u8))" by simp
  from voice_end_to_end [OF pad_evp_gcm this pad_sodium_aead s(1) d s(6,5) _ _ _ _ dave_samples(2) s(2-4),
      of "[Opus (replicate 40 1), Take 5]" "\<lambda>_. 960"]
  show ?thesis by (auto simp: accepts_def SIZE_MAX_def)
qed

theorem dave_short_frame_dropped_witness:
  "\<exists>i' body. seal_media pad_evp no_mls SILENCE_FRAME dave_sender = Some (i', Inr body)
     \<and> dispatch_media pad_evp no_mls 0 0 \<lparr>pk_sequence = 7, pk_timestamp = 0, pk_ssrc = 0, pk_opus = [], pk_user_id = 0\<rparr>
         body dave_receiver = Some (dave_receiver, None)"
proof -
  have "v_ssrc dave_sender = 0"
    by (simp add: dave_sender_def sample_sender_def sample_receiver_def voice_impl_init_def)
  then show ?thesis
    using dave_short_frame_dropped [OF dave_samples(1) _ _ _ dave_samples(3), of SILENCE_FRAME
        "\<lparr>pk_sequence = 7, pk_timestamp = 0, pk_ssrc = 0, pk_opus = [], pk_user_id = 0\<rparr>" 0 0]
    by (simp add: SILENCE_FRAME_def)
qed

end
