(* ===== verification/Roster.thy ===== *)
theory Roster
  imports Json Buffer_Utils
begin

text \<open>
  The pure parts of the MLS session: credentials (\<^verbatim>\<open>src/dave/user_credential.hpp\<close>), the
  roster comparison of \<^verbatim>\<open>Session::replace_state\<close> and the displayable code
  (\<^verbatim>\<open>src/dave/displayable_code.hpp\<close>). A \<^verbatim>\<open>std::map\<close> is the list of its
  entries in key order, which is what its iterators and \<^verbatim>\<open>std::set_difference\<close> see.
\<close>

section \<open>Credentials\<close>

datatype credential = BasicCredential bytes | OtherCredential

definition bytes_of_string :: "string \<Rightarrow> bytes" where
  "bytes_of_string s = map of_char s"

definition string_of_bytes :: "bytes \<Rightarrow> string" where
  "string_of_bytes bs = map (\<lambda>b. char_of (unat b)) bs"

definition create_user_credential :: "string \<Rightarrow> credential" where
  "create_user_credential user_id = (case stoull user_id of
     Some i \<Rightarrow> BasicCredential (big_endian_bytes_from i)
   | None \<Rightarrow> BasicCredential (bytes_of_string user_id))"

fun user_credential_to_string :: "credential \<Rightarrow> string" where
  "user_credential_to_string OtherCredential = []"
| "user_credential_to_string (BasicCredential identity) =
     (if length identity = 8 then to_string (from_big_endian_bytes identity)
      else string_of_bytes identity)"

section \<open>Sorted maps\<close>

type_synonym roster_map = "(u64 \<times> bytes) list"

fun map_assign :: "'k::linorder \<Rightarrow> 'v \<Rightarrow> ('k \<times> 'v) list \<Rightarrow> ('k \<times> 'v) list" where
  "map_assign k v [] = [(k, v)]"
| "map_assign k v ((k', v') # m) =
     (if k < k' then (k, v) # (k', v') # m
      else if k = k' then (k, v) # m
      else (k', v') # map_assign k v m)"

definition map_try_emplace :: "'k::linorder \<Rightarrow> 'v \<Rightarrow> ('k \<times> 'v) list \<Rightarrow> ('k \<times> 'v) list" where
  "map_try_emplace k v m = (if map_of m k = None then map_assign k v m else m)"

definition map_inv :: "('k::linorder \<times> 'v) list \<Rightarrow> bool" where
  "map_inv m \<longleftrightarrow> sorted_wrt (<) (map fst m)"

text \<open>The comparison of entries that \<^verbatim>\<open>std::pair\<close> and \<^verbatim>\<open>std::vector\<close> define.\<close>

fun bytes_less :: "bytes \<Rightarrow> bytes \<Rightarrow> bool" where
  "bytes_less [] [] = False"
| "bytes_less [] (b # bs) = True"
| "bytes_less (a # as) [] = False"
| "bytes_less (a # as) (b # bs) = (a < b \<or> (a = b \<and> bytes_less as bs))"

definition entry_less :: "u64 \<times> bytes \<Rightarrow> u64 \<times> bytes \<Rightarrow> bool" where
  "entry_less x y \<longleftrightarrow> fst x < fst y \<or> (fst x = fst y \<and> bytes_less (snd x) (snd y))"

fun set_difference :: "roster_map \<Rightarrow> roster_map \<Rightarrow> roster_map" where
  "set_difference [] ys = []"
| "set_difference (x # xs) [] = x # xs"
| "set_difference (x # xs) (y # ys) =
     (if entry_less x y then x # set_difference xs (y # ys)
      else if \<not> entry_less y x then set_difference xs ys
      else set_difference (x # xs) ys)"

text \<open>
  The change from the old roster to the new one: new and changed members with their key, members
  that left with an empty one.
\<close>

definition roster_changes :: "roster_map \<Rightarrow> roster_map \<Rightarrow> roster_map" where
  "roster_changes old new =
     foldl (\<lambda>m (k, v). map_try_emplace k [] m)
       (foldl (\<lambda>m (k, v). map_assign k v m) [] (set_difference new old))
       (set_difference old new)"

section \<open>Displayable code\<close>

definition pad_left :: "nat \<Rightarrow> string \<Rightarrow> string" where
  "pad_left w s = replicate (w - length s) (CHR ''0'') @ s"

text \<open>One group: up to \<open>group_size\<close> bytes from index \<open>i\<close> on, as a 64 bit number.\<close>

definition group_value :: "bytes \<Rightarrow> nat \<Rightarrow> nat \<Rightarrow> u64" where
  "group_value data i group_size =
     foldl (\<lambda>v b. push_bit 8 v OR ucast b) 0 (take group_size (drop i data))"

text \<open>
  \<^term>\<open>None\<close> is a loop that does not end, as for groups of size 0, or a power of ten that
  does not fit in \<^verbatim>\<open>size_t\<close>, which the cast leaves undefined; up to \<^term>\<open>10 ^ 19\<close> the
  power is exact.
\<close>

partial_function (option) code_groups :: "bytes \<Rightarrow> nat \<Rightarrow> nat \<Rightarrow> nat \<Rightarrow> string option" where
  "code_groups data desired_length group_size i =
     (if i < desired_length then do {
        rest \<leftarrow> code_groups data desired_length group_size ((i + group_size) mod 2 ^ 64);
        Some (pad_left group_size (to_decimal (unat (group_value data i group_size) mod 10 ^ group_size))
              @ '' '' @ rest)
      } else Some [])"

definition generate_displayable_code :: "bytes \<Rightarrow> nat \<Rightarrow> nat \<Rightarrow> string option" where
  "generate_displayable_code data desired_length group_size =
     (if data = [] then Some []
      else if group_size > 19 then None
      else code_groups data desired_length group_size 0)"

section \<open>Lemmas on sorted maps\<close>

lemma map_of_assign: "map_of (map_assign k v m) k' = (if k' = k then Some v else map_of m k')"
  if "map_inv m"
  using that by (induction k v m rule: map_assign.induct) (auto simp: map_inv_def)

lemma map_assign_keys: "set (map fst (map_assign k v m)) = insert k (set (map fst m))"
  by (induction k v m rule: map_assign.induct) auto

lemma map_assign_inv: "map_inv m \<Longrightarrow> map_inv (map_assign k v m)"
  by (induction k v m rule: map_assign.induct)
    (auto simp: map_inv_def map_assign_keys [unfolded set_map, simplified])

lemma map_assign_append:
  "map_inv (m @ [(k, v)]) \<Longrightarrow> map_assign k v m = m @ [(k, v)]"
  by (induction k v m rule: map_assign.induct) (auto simp: map_inv_def sorted_wrt_append)

lemma map_inv_Cons: "map_inv ((k, v) # m) \<longleftrightarrow> (\<forall>k' \<in> fst ` set m. k < k') \<and> map_inv m"
  by (auto simp: map_inv_def)

lemma map_of_not_less: "map_inv ((k, v) # m) \<Longrightarrow> k' \<le> k \<Longrightarrow> map_of m k' = None"
  by (fastforce simp: map_inv_Cons map_of_eq_None_iff)

section \<open>The roster comparison\<close>

lemma bytes_less_trichotomy: "\<not> bytes_less a b \<Longrightarrow> \<not> bytes_less b a \<Longrightarrow> a = b"
  by (induction a b rule: bytes_less.induct) (auto simp: not_less)

lemma bytes_less_irrefl [simp]: "\<not> bytes_less a a"
  by (induction a) auto

lemma entry_less_trichotomy: "\<not> entry_less x y \<Longrightarrow> \<not> entry_less y x \<Longrightarrow> x = y"
  by (cases x; cases y) (auto simp: entry_less_def not_less dest: bytes_less_trichotomy)

text \<open>On maps, \<^verbatim>\<open>std::set_difference\<close> keeps the entries the other map does not have.\<close>

lemma set_difference_filter:
  assumes "map_inv xs" "map_inv ys"
  shows "set_difference xs ys = filter (\<lambda>(k, v). map_of ys k \<noteq> Some v) xs"
  using assms
proof (induction xs ys rule: set_difference.induct)
  case (1 ys)
  then show ?case by simp
next
  case (2 x xs)
  then show ?case by auto
next
  case (3 x xs y ys)
  obtain k v k' v' where xy: "x = (k, v)" "y = (k', v')" by force
  have inv: "map_inv xs" "map_inv ys" using 3(4,5) by (simp_all add: xy map_inv_Cons)
  consider (lt) "entry_less x y" | (eq) "x = y" | (gt) "entry_less y x" "\<not> entry_less x y"
    using entry_less_trichotomy by blast
  then show ?case
  proof cases
    case lt
    then have "k \<le> k'" by (auto simp: xy entry_less_def)
    from map_of_not_less [OF 3(5) [unfolded xy] this] lt have "map_of (y # ys) k \<noteq> Some v"
      by (auto simp: xy entry_less_def)
    then show ?thesis using lt 3(1,5) inv(1) by (simp add: xy)
  next
    case eq
    have "filter (\<lambda>(k, v). map_of (y # ys) k \<noteq> Some v) xs = filter (\<lambda>(k, v). map_of ys k \<noteq> Some v) xs"
      using 3(4) eq by (intro filter_cong refl) (fastforce simp: xy map_inv_Cons split: if_splits)
    then show ?thesis using eq 3(2) inv by (simp add: xy entry_less_def)
  next
    case gt
    have "map_of ys k' = None" using map_of_not_less [OF 3(5) [unfolded xy]] by simp
    then have "filter (\<lambda>(k, v). map_of (y # ys) k \<noteq> Some v) (x # xs) = filter (\<lambda>(k, v). map_of ys k \<noteq> Some v) (x # xs)"
    proof (intro filter_cong refl)
      fix e assume "e \<in> set (x # xs)"
      moreover obtain a b where e: "e = (a, b)" by force
      ultimately have "a = k' \<Longrightarrow> b \<noteq> v'"
        using 3(4) gt by (fastforce simp: xy map_inv_Cons entry_less_def)
      with \<open>map_of ys k' = None\<close> show "(case e of (k, v) \<Rightarrow> map_of (y # ys) k \<noteq> Some v)
          = (case e of (k, v) \<Rightarrow> map_of ys k \<noteq> Some v)"
        by (auto simp: xy e)
    qed
    then show ?thesis using gt 3(3) 3(4) inv(2) by simp
  qed
qed

lemma foldl_assign:
  assumes "map_inv (m @ xs)"
  shows "foldl (\<lambda>m (k, v). map_assign k v m) m xs = m @ xs"
  using assms
proof (induction xs arbitrary: m)
  case Nil
  then show ?case by simp
next
  case (Cons x xs)
  obtain k v where x: "x = (k, v)" by force
  have "map_inv (m @ [(k, v)])" using Cons.prems by (auto simp: map_inv_def sorted_wrt_append x)
  then show ?case using Cons.IH [of "m @ [(k, v)]"] Cons.prems by (simp add: map_assign_append x)
qed

lemma foldl_try_emplace:
  assumes "map_inv m"
  shows "map_inv (foldl (\<lambda>m (k, v). map_try_emplace k e m) m xs)
    \<and> map_of (foldl (\<lambda>m (k, v). map_try_emplace k e m) m xs) k
       = (case map_of m k of Some v \<Rightarrow> Some v | None \<Rightarrow> if k \<in> fst ` set xs then Some e else None)"
  using assms
proof (induction xs arbitrary: m)
  case Nil
  then show ?case by (simp split: option.splits)
next
  case (Cons x xs)
  obtain k' v' where x: "x = (k', v')" by force
  have "map_inv (map_try_emplace k' e m)"
    "map_of (map_try_emplace k' e m) k = (case map_of m k of Some v \<Rightarrow> Some v | None \<Rightarrow> if k = k' then Some e else None)"
    using Cons.prems by (auto simp: map_try_emplace_def map_assign_inv map_of_assign split: option.splits)
  then show ?case using Cons.IH [of "map_try_emplace k' e m"] by (auto simp: x split: option.splits)
qed

lemma map_inv_distinct: "map_inv m \<Longrightarrow> distinct (map fst m)"
  by (induction m) (auto simp: map_inv_def)

lemma map_of_filter_inv:
  assumes "map_inv m"
  shows "map_of (filter (\<lambda>(k, v). P k v) m) k = (case map_of m k of Some v \<Rightarrow> if P k v then Some v else None | None \<Rightarrow> None)"
  using assms
proof (induction m)
  case Nil
  then show ?case by simp
next
  case (Cons x m)
  obtain k' v' where x: "x = (k', v')" by force
  have "map_of m k' = None" using map_of_not_less [of k' v' m k'] Cons.prems by (simp add: x)
  then show ?case using Cons by (auto simp: x map_inv_Cons split: option.splits)
qed

lemma map_inv_filter: "map_inv m \<Longrightarrow> map_inv (filter P m)"
  by (simp add: map_inv_def sorted_wrt_map sorted_wrt_filter)

text \<open>
  C20. The change map that a new group state produces is the difference of the rosters: a
  member is in it exactly when its entry differs between the two rosters, with its new signature
  key, or with an empty key when it left. (With \<open>old\<close> the previous roster and \<open>new\<close> the
  roster of the new state, both in key order.)
\<close>

theorem roster_changes_exact:
  assumes "map_inv old" "map_inv new"
  shows "map_inv (roster_changes old new)
    \<and> map_of (roster_changes old new) k =
        (if map_of new k = map_of old k then None
         else Some (case map_of new k of Some v \<Rightarrow> v | None \<Rightarrow> []))"
proof -
  let ?added = "filter (\<lambda>(k, v). map_of old k \<noteq> Some v) new"
  let ?gone = "filter (\<lambda>(k, v). map_of new k \<noteq> Some v) old"
  have inv: "map_inv ?added" by (rule map_inv_filter [OF assms(2)])
  have changes: "roster_changes old new = foldl (\<lambda>m (k, v). map_try_emplace k [] m) ?added ?gone"
    using foldl_assign [of "[]" ?added] inv by (simp add: roster_changes_def set_difference_filter assms)
  have "map_of ?gone k = None \<longleftrightarrow> k \<notin> fst ` set ?gone" by (rule map_of_eq_None_iff)
  moreover note map_of_filter_inv [OF assms(2), of "\<lambda>k v. map_of old k \<noteq> Some v" k]
    map_of_filter_inv [OF assms(1), of "\<lambda>k v. map_of new k \<noteq> Some v" k]
  ultimately show ?thesis
    using foldl_try_emplace [OF inv, of "[]" ?gone k] unfolding changes
    by (auto split: option.splits if_splits)
qed

theorem roster_changes_exact_witness:
  "roster_changes [(1, [10]), (2, [20]), (5, [50])] [(1, [10]), (2, [21]), (3, [30])] = [(2, [21]), (3, [30]), (5, [])]
   \<and> map_of (roster_changes [(1, [10]), (2, [20]), (5, [50])] [(1, [10]), (2, [21]), (3, [30])]) 5 = Some []"
proof -
  have "map_inv [(1 :: u64, [10 :: u8]), (2, [20]), (5, [50])]" "map_inv [(1 :: u64, [10 :: u8]), (2, [21]), (3, [30])]"
    by (simp_all add: map_inv_def)
  from roster_changes_exact [OF this, of 5] show ?thesis
    by (simp add: roster_changes_def entry_less_def map_try_emplace_def)
qed

section \<open>Credentials and codes\<close>

text \<open>
  A user's credential identifies the user: for every 64 bit identifier, the credential made
  from its decimal form holds eight bytes and reads back as that decimal form; different
  identifiers have different credentials.
\<close>

lemma credential_roundtrip:
  "user_credential_to_string (create_user_credential (to_string uid)) = to_string uid
   \<and> (create_user_credential (to_string uid) = create_user_credential (to_string uid') \<longleftrightarrow> uid = uid')"
proof -
  have read: "user_credential_to_string (create_user_credential (to_string u)) = to_string u" for u
    by (simp add: create_user_credential_def from_big_endian_bytes_from)
  then show ?thesis using to_string_inj by metis
qed

lemma length_to_decimal: "n < 10 ^ g \<Longrightarrow> 0 < g \<Longrightarrow> length (to_decimal n) \<le> g"
proof (induction g arbitrary: n)
  case 0
  then show ?case by simp
next
  case (Suc g)
  show ?case
  proof (cases "n < 10")
    case True
    then show ?thesis by (simp add: to_decimal.simps)
  next
    case False
    then have "g \<noteq> 0" using Suc.prems(1) by (cases g) auto
    moreover have "n div 10 < 10 ^ g" using Suc.prems(1) by (simp add: div_less_iff_less_mult mult.commute)
    ultimately have "length (to_decimal (n div 10)) \<le> g" using Suc.IH by simp
    then show ?thesis using False by (subst to_decimal.simps) simp
  qed
qed

lemma pad_left_group:
  assumes "n < 10 ^ g" "0 < g"
  shows "length (pad_left g (to_decimal n)) = g" "list_all is_digit (pad_left g (to_decimal n))"
  using length_to_decimal [OF assms] to_decimal_digits [of n]
  by (auto simp: pad_left_def list_all_iff is_digit_def)

lemma code_groups_format:
  assumes "0 < g" "n + g < 2 ^ 64"
  shows "\<exists>groups. code_groups data n g i = Some (concat (map (\<lambda>s. s @ '' '') groups))
     \<and> length groups = (n - i + g - 1) div g \<and> (\<forall>s \<in> set groups. length s = g \<and> list_all is_digit s)"
proof (induction "n - i" arbitrary: i rule: less_induct)
  case less
  show ?case
  proof (cases "i < n")
    case False
    then have "(n - i + g - 1) div g = 0" using assms by simp
    with False show ?thesis by (subst code_groups.simps) (intro exI [of _ "[]"], simp)
  next
    case True
    then have "n - (i + g) < n - i" using assms by simp
    moreover have "(i + g) mod 2 ^ 64 = i + g" using True assms(2) by simp
    ultimately obtain groups where rest: "code_groups data n g ((i + g) mod 2 ^ 64) = Some (concat (map (\<lambda>s. s @ '' '') groups))"
      "length groups = (n - (i + g) + g - 1) div g" "\<forall>s \<in> set groups. length s = g \<and> list_all is_digit s"
      using less [of "i + g"] by auto
    define s where "s = pad_left g (to_decimal (unat (group_value data i g) mod 10 ^ g))"
    have s: "length s = g" "list_all is_digit s"
      unfolding s_def using assms(1) by (intro pad_left_group; simp)+
    have "(n - i + g - 1) div g = Suc ((n - (i + g) + g - 1) div g)"
    proof (cases "i + g \<le> n")
      case True
      then have "n - i + g - 1 = (n - (i + g) + g - 1) + g" using assms by simp
      then show ?thesis using assms by (simp only: div_add_self2 Suc_eq_plus1)
    next
      case False
      then have "n - (i + g) + g - 1 < g" "g \<le> n - i + g - 1" "n - i + g - 1 < 2 * g" using True assms by simp_all
      then show ?thesis by (simp add: div_nat_eqI)
    qed
    with rest s True show ?thesis
      by (subst code_groups.simps) (intro exI [of _ "s # groups"], simp add: s_def)
  qed
qed

text \<open>
  The displayable code is well-formed: whatever authenticator it is made from (a nonempty one),
  and for every length and every group size from 1 to 19, generating it ends, and gives groups of exactly the
  group size in decimal digits, each followed by a space, as many as cover the length; with the
  defaults, six groups of five digits.
\<close>

theorem displayable_code_format:
  assumes "data \<noteq> []" "0 < group_size" "group_size \<le> 19" "desired_length + group_size < 2 ^ 64"
  shows "\<exists>groups. generate_displayable_code data desired_length group_size
        = Some (concat (map (\<lambda>s. s @ '' '') groups))
     \<and> length groups = (desired_length + group_size - 1) div group_size
     \<and> (\<forall>s \<in> set groups. length s = group_size \<and> list_all is_digit s)"
  using code_groups_format [OF assms(2,4), of data 0] assms(1,3)
  by (simp add: generate_displayable_code_def)

theorem displayable_code_format_witness:
  "\<exists>groups. generate_displayable_code [1, 2, 3] 30 5 = Some (concat (map (\<lambda>s. s @ '' '') groups))
     \<and> length groups = 6 \<and> (\<forall>s \<in> set groups. length s = 5 \<and> list_all is_digit s)"
  using displayable_code_format [of "[1, 2, 3]" 5 30] by simp

end
