(* ===== verification/Dave_Session.thy ===== *)
theory Dave_Session
  imports Roster Aead_Cipher
begin

text \<open>
  \<^verbatim>\<open>src/dave/session.{hpp,cpp}\<close> with \<^verbatim>\<open>src/dave/parameters.hpp\<close>: the MLS session
  of a voice connection. The MLS library is a parameter: the record \<open>mlspp\<close> has one field per
  library call, a group state is of type \<^typ>\<open>'st\<close>, every other library object (messages,
  keys, packages, leaf nodes) of type \<^typ>\<open>'x\<close>, and \<^term>\<open>None\<close> is an exception, which
  the session catches. The random choices of an operation are an argument \<open>rnd\<close>. The
  protocol version selects the same cipher suite and extensions whatever it is, so these are part
  of the library calls.
\<close>

datatype proposal = AddProposal credential | RemoveProposal | OtherProposal

record 'x content =
  ct_validated :: 'x
  ct_public_message :: bool
  ct_epoch :: u64
  ct_is_proposal :: bool
  ct_external_sender :: bool
  ct_proposal :: proposal

record leaf_node =
  lf_credential :: credential
  lf_signature_key :: bytes

record ('st, 'x, 'h) mlspp =
  tls_external_sender :: "bytes \<Rightarrow> 'x option"
  tls_message :: "bytes \<Rightarrow> 'x option"
  tls_welcome :: "bytes \<Rightarrow> 'x option"
  tls_bool :: "bytes \<Rightarrow> (bool \<times> bytes) option"
  tls_refs :: "bytes \<Rightarrow> bytes list option"
  tls_messages :: "bytes \<Rightarrow> 'x list option"
  marshal_message :: "'x \<Rightarrow> bytes option"
  marshal_welcome :: "'x \<Rightarrow> bytes option"
  marshal_key_package :: "'x \<Rightarrow> bytes option"
  message_group_id :: "'x \<Rightarrow> bytes option"
  welcome_has_secrets :: "'x \<Rightarrow> bool"
  generate_hpke :: "nat \<Rightarrow> 'x option"
  generate_signature :: "nat \<Rightarrow> 'x option"
  make_leaf_node :: "'x \<Rightarrow> 'x \<Rightarrow> credential \<Rightarrow> 'x option"
  make_key_package :: "'x \<Rightarrow> 'x \<Rightarrow> 'x \<Rightarrow> 'x option"
  create_state :: "bytes \<Rightarrow> 'x \<Rightarrow> 'x \<Rightarrow> 'x \<Rightarrow> 'x \<Rightarrow> 'st option"
  join_state :: "'x \<Rightarrow> 'x \<Rightarrow> 'x \<Rightarrow> 'x \<Rightarrow> 'x \<Rightarrow> 'st option"
  state_unwrap :: "'st \<Rightarrow> 'x \<Rightarrow> 'x content option"
  state_handle :: "'st \<Rightarrow> 'x \<Rightarrow> 'st option"
  state_handle_commit :: "'st \<Rightarrow> 'x \<Rightarrow> 'st option \<Rightarrow> 'st option option"
  state_commit :: "'st \<Rightarrow> nat \<Rightarrow> ('x \<times> 'x \<times> 'st) option"
  state_ref :: "'st \<Rightarrow> 'x \<Rightarrow> bytes option"
  state_epoch :: "'st \<Rightarrow> u64"
  state_roster :: "'st \<Rightarrow> leaf_node list"
  state_external_senders :: "'st \<Rightarrow> 'x list option"
  state_epoch_authenticator :: "'st \<Rightarrow> bytes"
  state_export :: "'st \<Rightarrow> string \<Rightarrow> bytes \<Rightarrow> nat \<Rightarrow> bytes option"
  make_ratchet :: "'st \<Rightarrow> bytes \<Rightarrow> 'h option"

text \<open>
  What ends the process: a null pointer that is dereferenced, and an exception that leaves a function
  declared \<^verbatim>\<open>noexcept\<close>. The field \<open>se_fault\<close> is not in the code; it records such an end, and what a
  sequence of operations does to the session after one is of no meaning.
\<close>

datatype session_fault = Null_dereference | Terminated

record ('st, 'x) session =
  se_protocol_version :: u16
  se_group_id :: bytes
  se_signing_key_id :: string
  se_bot_user_id :: u64
  se_self_leaf_node :: "'x option"
  se_signature_private_key :: "'x option"
  se_hpke_private_key :: "'x option"
  se_join_init_private_key :: "'x option"
  se_join_key_package :: "'x option"
  se_mls_external_sender :: "'x option"
  se_pending_group_state :: "'st option"
  se_pending_group_commit :: "'x option"
  se_outbound_cached_group_state :: "'st option"
  se_current_state :: "'st option"
  se_roster :: roster_map
  se_state_with_proposals :: "'st option"
  se_proposal_queue :: "('x \<times> bytes) list"
  se_fault :: "session_fault option"

definition null_dereference :: "('st, 'x) session \<Rightarrow> ('st, 'x) session" where
  "null_dereference s = s\<lparr>se_fault := Some Null_dereference\<rparr>"

definition terminated :: "('st, 'x) session \<Rightarrow> ('st, 'x) session" where
  "terminated s = s\<lparr>se_fault := Some Terminated\<rparr>"

definition Session :: "string \<Rightarrow> ('st, 'x) session" where
  "Session auth_session_id = \<lparr>se_protocol_version = 0, se_group_id = [],
     se_signing_key_id = auth_session_id, se_bot_user_id = 0, se_self_leaf_node = None,
     se_signature_private_key = None, se_hpke_private_key = None, se_join_init_private_key = None,
     se_join_key_package = None, se_mls_external_sender = None, se_pending_group_state = None,
     se_pending_group_commit = None, se_outbound_cached_group_state = None, se_current_state = None,
     se_roster = [], se_state_with_proposals = None, se_proposal_queue = [], se_fault = None\<rparr>"

definition USER_MEDIA_KEY_BASE_LABEL :: string where
  "USER_MEDIA_KEY_BASE_LABEL = ''Discord Secure Frames v0''"

section \<open>State and key material\<close>

definition clear_pending_state :: "('st, 'x) session \<Rightarrow> ('st, 'x) session" where
  "clear_pending_state s = s\<lparr>se_pending_group_state := None, se_pending_group_commit := None,
     se_join_init_private_key := None, se_join_key_package := None, se_hpke_private_key := None,
     se_self_leaf_node := None, se_state_with_proposals := None, se_proposal_queue := []\<rparr>"

definition session_reset :: "('st, 'x) session \<Rightarrow> ('st, 'x) session" where
  "session_reset s = (clear_pending_state s)\<lparr>se_current_state := None,
     se_outbound_cached_group_state := None, se_protocol_version := 0, se_group_id := []\<rparr>"

definition set_protocol_version :: "u16 \<Rightarrow> ('st, 'x) session \<Rightarrow> ('st, 'x) session" where
  "set_protocol_version version s = s\<lparr>se_protocol_version := version\<rparr>"

definition get_last_epoch_authenticator :: "('st, 'x, 'h) mlspp \<Rightarrow> ('st, 'x) session \<Rightarrow> bytes" where
  "get_last_epoch_authenticator lib s =
     (case se_current_state s of Some st \<Rightarrow> state_epoch_authenticator lib st | None \<Rightarrow> [])"

definition has_external_sender :: "('st, 'x) session \<Rightarrow> bool" where
  "has_external_sender s = (se_mls_external_sender s \<noteq> None)"

definition is_initialized :: "('st, 'x) session \<Rightarrow> bool" where
  "is_initialized s = (se_group_id s \<noteq> [])"

definition has_current_state :: "('st, 'x) session \<Rightarrow> bool" where
  "has_current_state s = (se_current_state s \<noteq> None)"

text \<open>
  \<open>init_leaf_node\<close> keeps what it has assigned when a later call throws. \<open>persisted\<close> is
  \<^verbatim>\<open>get_persisted_key_pair\<close>; the second result is the caller's transient key.
\<close>

definition install_leaf_node ::
    "('st, 'x, 'h) mlspp \<Rightarrow> nat \<Rightarrow> u64 \<Rightarrow> 'x \<Rightarrow> ('st, 'x) session \<Rightarrow> ('st, 'x) session" where
  "install_leaf_node lib rnd self_user_id key s =
     (let s1 = s\<lparr>se_signature_private_key := Some key\<rparr>
      in case generate_hpke lib rnd of
           None \<Rightarrow> s1
         | Some hpke \<Rightarrow>
             (let s2 = s1\<lparr>se_hpke_private_key := Some hpke\<rparr>
              in case make_leaf_node lib hpke key (create_user_credential (to_string self_user_id)) of
                   None \<Rightarrow> s2
                 | Some leaf \<Rightarrow> s2\<lparr>se_self_leaf_node := Some leaf\<rparr>))"

definition init_leaf_node ::
    "('st, 'x, 'h) mlspp \<Rightarrow> (string \<Rightarrow> u16 \<Rightarrow> 'x option) \<Rightarrow> nat \<Rightarrow> u64 \<Rightarrow> 'x option \<Rightarrow> ('st, 'x) session
     \<Rightarrow> ('st, 'x) session \<times> 'x option" where
  "init_leaf_node lib persisted rnd self_user_id transient_key s =
     (let key = (case transient_key of
            Some k \<Rightarrow> Some k
          | None \<Rightarrow> if se_signing_key_id s \<noteq> [] then persisted (se_signing_key_id s) (se_protocol_version s)
                    else generate_signature lib rnd)
      in case key of
           None \<Rightarrow> (s, None)
         | Some k \<Rightarrow> (install_leaf_node lib rnd self_user_id k s, Some k))"

definition create_pending_group :: "('st, 'x, 'h) mlspp \<Rightarrow> ('st, 'x) session \<Rightarrow> ('st, 'x) session" where
  "create_pending_group lib s =
     (if se_group_id s = [] then s
      else (case (se_mls_external_sender s, se_self_leaf_node s) of
        (Some ext, Some leaf) \<Rightarrow>
          (case (se_hpke_private_key s, se_signature_private_key s) of
             (Some hpke, Some sig) \<Rightarrow>
               (case create_state lib (se_group_id s) hpke sig leaf ext of
                  None \<Rightarrow> s
                | Some st \<Rightarrow> s\<lparr>se_pending_group_state := Some st\<rparr>)
           | _ \<Rightarrow> null_dereference s)
      | _ \<Rightarrow> s))"

definition session_init ::
    "('st, 'x, 'h) mlspp \<Rightarrow> (string \<Rightarrow> u16 \<Rightarrow> 'x option) \<Rightarrow> nat \<Rightarrow> u16 \<Rightarrow> u64 \<Rightarrow> u64 \<Rightarrow> 'x option
     \<Rightarrow> ('st, 'x) session \<Rightarrow> ('st, 'x) session \<times> 'x option" where
  "session_init lib persisted rnd version group_id self_user_id transient_key s =
     (let s1 = (session_reset s)\<lparr>se_bot_user_id := self_user_id, se_protocol_version := version,
                 se_group_id := big_endian_bytes_from group_id\<rparr>;
          (s2, key) = init_leaf_node lib persisted rnd self_user_id transient_key s1
      in (create_pending_group lib s2, key))"

definition set_external_sender ::
    "('st, 'x, 'h) mlspp \<Rightarrow> bytes \<Rightarrow> ('st, 'x) session \<Rightarrow> ('st, 'x) session" where
  "set_external_sender lib package s =
     (if se_current_state s \<noteq> None then s
      else (case tls_external_sender lib package of
              None \<Rightarrow> s
            | Some ext \<Rightarrow>
                (let s1 = s\<lparr>se_mls_external_sender := Some ext\<rparr>
                 in if se_group_id s1 \<noteq> [] then create_pending_group lib s1 else s1)))"

definition reset_join_key_package :: "('st, 'x, 'h) mlspp \<Rightarrow> nat \<Rightarrow> ('st, 'x) session \<Rightarrow> ('st, 'x) session" where
  "reset_join_key_package lib rnd s =
     (case (se_self_leaf_node s, generate_hpke lib rnd) of
        (Some leaf, Some init_key) \<Rightarrow>
          (let s1 = s\<lparr>se_join_init_private_key := Some init_key\<rparr>
           in case se_signature_private_key s of
                None \<Rightarrow> null_dereference s1
              | Some sig \<Rightarrow> (case make_key_package lib init_key leaf sig of
                    None \<Rightarrow> s1
                  | Some kp \<Rightarrow> s1\<lparr>se_join_key_package := Some kp\<rparr>))
      | _ \<Rightarrow> s)"

definition get_marshalled_key_package ::
    "('st, 'x, 'h) mlspp \<Rightarrow> nat \<Rightarrow> ('st, 'x) session \<Rightarrow> ('st, 'x) session \<times> bytes" where
  "get_marshalled_key_package lib rnd s =
     (let s1 = reset_join_key_package lib rnd s
      in case se_join_key_package s1 of
           None \<Rightarrow> (s1, [])
         | Some kp \<Rightarrow> (s1, case marshal_key_package lib kp of Some bs \<Rightarrow> bs | None \<Rightarrow> []))"

definition get_key_ratchet_key :: "('st, 'x, 'h) mlspp \<Rightarrow> u64 \<Rightarrow> ('st, 'x) session \<Rightarrow> bytes" where
  "get_key_ratchet_key lib user_id s = (case se_current_state s of
     None \<Rightarrow> []
   | Some st \<Rightarrow> (case state_export lib st USER_MEDIA_KEY_BASE_LABEL (le_bytes user_id) AES_GCM_128_KEY_BYTES of
        Some secret \<Rightarrow> secret | None \<Rightarrow> []))"

definition get_key_ratchet :: "('st, 'x, 'h) mlspp \<Rightarrow> u64 \<Rightarrow> ('st, 'x) session \<Rightarrow> 'h key_ratchet option" where
  "get_key_ratchet lib user_id s = (case se_current_state s of
     None \<Rightarrow> None
   | Some st \<Rightarrow> (case state_export lib st USER_MEDIA_KEY_BASE_LABEL (le_bytes user_id) AES_GCM_128_KEY_BYTES of
        Some secret \<Rightarrow> map_option MlsKeyRatchet (make_ratchet lib st secret) | None \<Rightarrow> None))"

section \<open>Proposals\<close>

definition is_recognized_user_id :: "credential \<Rightarrow> u64 set \<Rightarrow> bool" where
  "is_recognized_user_id cred recognised =
     (let uid_str = user_credential_to_string cred
      in if uid_str = [] then False
         else (case stoull uid_str of Some uid \<Rightarrow> uid \<in> recognised | None \<Rightarrow> False))"

definition validate_proposal_message ::
    "('st, 'x, 'h) mlspp \<Rightarrow> 'x content \<Rightarrow> 'st \<Rightarrow> u64 set \<Rightarrow> bool" where
  "validate_proposal_message lib message target_state recognised =
     (if \<not> ct_public_message message then False
      else if ct_epoch message \<noteq> state_epoch lib target_state then False
      else if \<not> ct_is_proposal message then False
      else if \<not> ct_external_sender message then False
      else (case ct_proposal message of
              AddProposal cred \<Rightarrow> is_recognized_user_id cred recognised
            | RemoveProposal \<Rightarrow> True
            | OtherProposal \<Rightarrow> False))"

fun erase_first_ref :: "bytes \<Rightarrow> ('x \<times> bytes) list \<Rightarrow> ('x \<times> bytes) list" where
  "erase_first_ref ref [] = []"
| "erase_first_ref ref (p # ps) = (if snd p = ref then ps else p # erase_first_ref ref ps)"

text \<open>Handling the queued proposals again; an exception stops with the state reached.\<close>

fun replay_queue :: "('st, 'x, 'h) mlspp \<Rightarrow> 'st \<Rightarrow> ('x \<times> bytes) list \<Rightarrow> 'st \<times> bool" where
  "replay_queue lib st [] = (st, True)"
| "replay_queue lib st (p # ps) = (case state_handle lib st (fst p) of
     Some st' \<Rightarrow> replay_queue lib st' ps | None \<Rightarrow> (st, False))"

text \<open>The proposals of a message, one by one; \<^term>\<open>False\<close> is a rejection or an exception.\<close>

fun take_proposals ::
    "('st, 'x, 'h) mlspp \<Rightarrow> u64 set \<Rightarrow> 'x list \<Rightarrow> 'st \<Rightarrow> ('x \<times> bytes) list \<Rightarrow> 'st \<times> ('x \<times> bytes) list \<times> bool" where
  "take_proposals lib recognised [] st q = (st, q, True)"
| "take_proposals lib recognised (m # ms) st q = (case state_unwrap lib st m of
     None \<Rightarrow> (st, q, False)
   | Some c \<Rightarrow>
       if \<not> validate_proposal_message lib c st recognised then (st, q, False)
       else (case state_handle lib st (ct_validated c) of
               None \<Rightarrow> (st, q, False)
             | Some st' \<Rightarrow> (case state_ref lib st' (ct_validated c) of
                 None \<Rightarrow> (st', q, False)
               | Some ref \<Rightarrow> take_proposals lib recognised ms st' (q @ [(ct_validated c, ref)]))))"

definition base_state :: "('st, 'x) session \<Rightarrow> 'st option" where
  "base_state s = (case se_pending_group_state s of Some st \<Rightarrow> Some st | None \<Rightarrow> se_current_state s)"

text \<open>The commit that answers the proposals.\<close>

definition answer_proposals ::
    "('st, 'x, 'h) mlspp \<Rightarrow> nat \<Rightarrow> ('st, 'x) session \<Rightarrow> ('st, 'x) session \<times> bytes option" where
  "answer_proposals lib rnd s = (case se_state_with_proposals s of
     None \<Rightarrow> (null_dereference s, None)
   | Some st \<Rightarrow> (case state_commit lib st rnd of
        None \<Rightarrow> (s, None)
      | Some (commit_message, welcome_message, new_state) \<Rightarrow>
          (case marshal_message lib commit_message of
             None \<Rightarrow> (s, None)
           | Some bs \<Rightarrow>
               (let s1 = s\<lparr>se_pending_group_commit := Some commit_message\<rparr>
                in if welcome_has_secrets lib welcome_message then
                     (case marshal_welcome lib welcome_message of
                        None \<Rightarrow> (s1, None)
                      | Some ws \<Rightarrow> (s1\<lparr>se_outbound_cached_group_state := Some new_state\<rparr>, Some (bs @ ws)))
                   else (s1\<lparr>se_outbound_cached_group_state := Some new_state\<rparr>, Some bs)))))"

text \<open>A message that revokes proposals, and one that brings new ones.\<close>

definition revoke_proposals ::
    "('st, 'x, 'h) mlspp \<Rightarrow> nat \<Rightarrow> 'st \<Rightarrow> bytes \<Rightarrow> ('st, 'x) session \<Rightarrow> ('st, 'x) session \<times> bytes option" where
  "revoke_proposals lib rnd base rest s = (case tls_refs lib rest of
     None \<Rightarrow> (s, None)
   | Some refs \<Rightarrow>
       (let q = foldl (\<lambda>q ref. erase_first_ref ref q) (se_proposal_queue s) refs;
            (st, ok) = replay_queue lib base q;
            s1 = s\<lparr>se_proposal_queue := q, se_state_with_proposals := Some st\<rparr>
        in if ok then answer_proposals lib rnd s1 else (s1, None)))"

definition append_proposals ::
    "('st, 'x, 'h) mlspp \<Rightarrow> nat \<Rightarrow> u64 set \<Rightarrow> 'st \<Rightarrow> bytes \<Rightarrow> ('st, 'x) session \<Rightarrow> ('st, 'x) session \<times> bytes option" where
  "append_proposals lib rnd recognised st rest s = (case tls_messages lib rest of
     None \<Rightarrow> (s, None)
   | Some messages \<Rightarrow>
       (let (st', q, ok) = take_proposals lib recognised messages st (se_proposal_queue s);
            s1 = s\<lparr>se_proposal_queue := q, se_state_with_proposals := Some st'\<rparr>
        in if ok then answer_proposals lib rnd s1 else (s1, None)))"

definition process_proposals ::
    "('st, 'x, 'h) mlspp \<Rightarrow> nat \<Rightarrow> bytes \<Rightarrow> u64 set \<Rightarrow> ('st, 'x) session \<Rightarrow> ('st, 'x) session \<times> bytes option" where
  "process_proposals lib rnd proposals recognised s =
     (if se_pending_group_state s = None \<and> se_current_state s = None then (s, None)
      else case base_state s of
     None \<Rightarrow> (null_dereference s, None)
   | Some base \<Rightarrow>
       (let st = (case se_state_with_proposals s of Some st \<Rightarrow> st | None \<Rightarrow> base);
            s1 = s\<lparr>se_state_with_proposals := Some st\<rparr>
        in case tls_bool lib proposals of
             None \<Rightarrow> (s1, None)
           | Some (is_revoke, rest) \<Rightarrow>
               if is_revoke then revoke_proposals lib rnd base rest s1
               else append_proposals lib rnd recognised st rest s1))"

section \<open>Commits and welcomes\<close>

definition new_roster :: "('st, 'x, 'h) mlspp \<Rightarrow> 'st \<Rightarrow> roster_map" where
  "new_roster lib st = foldl (\<lambda>m leaf. case lf_credential leaf of
       BasicCredential identity \<Rightarrow> map_assign (from_big_endian_bytes identity) (lf_signature_key leaf) m
     | OtherCredential \<Rightarrow> m) [] (state_roster lib st)"

definition replace_state :: "('st, 'x, 'h) mlspp \<Rightarrow> 'st \<Rightarrow> ('st, 'x) session \<Rightarrow> ('st, 'x) session \<times> roster_map" where
  "replace_state lib st s =
     (s\<lparr>se_roster := new_roster lib st, se_current_state := Some st\<rparr>,
      roster_changes (se_roster s) (new_roster lib st))"

datatype roster_variant = Failed | Ignored | RosterMap roster_map

text \<open>
  \<^verbatim>\<open>can_process_commit\<close> is \<^verbatim>\<open>noexcept\<close>, and asking a message for its group throws when
  it has none: \<^term>\<open>None\<close>.
\<close>

definition can_process_commit :: "('st, 'x, 'h) mlspp \<Rightarrow> 'x \<Rightarrow> ('st, 'x) session \<Rightarrow> bool option" where
  "can_process_commit lib commit s =
     (if se_state_with_proposals s = None then Some False
      else map_option (\<lambda>group_id. group_id = se_group_id s) (message_group_id lib commit))"

definition process_commit ::
    "('st, 'x, 'h) mlspp \<Rightarrow> bytes \<Rightarrow> ('st, 'x) session \<Rightarrow> ('st, 'x) session \<times> roster_variant" where
  "process_commit lib commit s = (case tls_message lib commit of
     None \<Rightarrow> (s, Failed)
   | Some message \<Rightarrow> (case can_process_commit lib message s of
       None \<Rightarrow> (terminated s, Failed)
     | Some False \<Rightarrow> (s, Ignored)
     | Some True \<Rightarrow> (case se_state_with_proposals s of
         None \<Rightarrow> (null_dereference s, Failed)
       | Some st \<Rightarrow> (case state_handle_commit lib st message (se_outbound_cached_group_state s) of
             Some (Some new_state) \<Rightarrow>
               (let (s1, ret) = replace_state lib new_state s
                in (clear_pending_state (s1\<lparr>se_outbound_cached_group_state := None\<rparr>), RosterMap ret))
           | _ \<Rightarrow> (s, Failed)))))"

definition verify_welcome_state ::
    "('st, 'x, 'h) mlspp \<Rightarrow> 'st \<Rightarrow> u64 set \<Rightarrow> ('st, 'x) session \<Rightarrow> bool" where
  "verify_welcome_state lib st recognised s = (case se_mls_external_sender s of
     None \<Rightarrow> False
   | Some ext \<Rightarrow> (case state_external_senders lib st of
        Some [sender] \<Rightarrow> sender = ext
      | _ \<Rightarrow> False))"

definition has_cryptographic_state_for_welcome :: "('st, 'x) session \<Rightarrow> bool" where
  "has_cryptographic_state_for_welcome s \<longleftrightarrow> se_join_key_package s \<noteq> None \<and> se_join_init_private_key s \<noteq> None
     \<and> se_signature_private_key s \<noteq> None \<and> se_hpke_private_key s \<noteq> None"

definition process_welcome ::
    "('st, 'x, 'h) mlspp \<Rightarrow> bytes \<Rightarrow> u64 set \<Rightarrow> ('st, 'x) session \<Rightarrow> ('st, 'x) session \<times> roster_map option" where
  "process_welcome lib welcome recognised s =
     (if \<not> has_cryptographic_state_for_welcome s then (s, None)
      else if se_mls_external_sender s = None then (s, None)
      else if se_current_state s \<noteq> None then (s, None)
      else (case tls_welcome lib welcome of
              None \<Rightarrow> (s, None)
            | Some w \<Rightarrow>
                (case (se_join_key_package s, se_join_init_private_key s, se_signature_private_key s, se_hpke_private_key s) of
                   (Some kp, Some init_key, Some sig, Some hpke) \<Rightarrow>
                     (case join_state lib init_key hpke sig kp w of
                        None \<Rightarrow> (s, None)
                      | Some st \<Rightarrow>
                          if \<not> verify_welcome_state lib st recognised s then (s, None)
                          else (let (s1, ret) = replace_state lib st s
                                in (clear_pending_state s1, Some ret)))
                 | _ \<Rightarrow> (null_dereference s, None))))"

section \<open>Well-formed sessions\<close>

text \<open>
  What the code relies on without checking: a leaf node comes with the two keys that
  \<open>create_pending_group\<close> and \<open>reset_join_key_package\<close> dereference; a state with proposals
  stands on a group; a pending group has an identifier and an external sender; the roster is a map.
\<close>

definition session_ok :: "('st, 'x) session \<Rightarrow> bool" where
  "session_ok s \<longleftrightarrow>
     (se_self_leaf_node s \<noteq> None \<longrightarrow> se_hpke_private_key s \<noteq> None \<and> se_signature_private_key s \<noteq> None)
     \<and> (se_state_with_proposals s \<noteq> None \<longrightarrow> base_state s \<noteq> None)
     \<and> (se_pending_group_state s \<noteq> None \<longrightarrow> se_group_id s \<noteq> [] \<and> se_mls_external_sender s \<noteq> None)
     \<and> (se_join_key_package s \<noteq> None \<longrightarrow> se_join_init_private_key s \<noteq> None)
     \<and> map_inv (se_roster s) \<and> se_fault s \<noteq> Some Null_dereference"

text \<open>The operations, and what a sequence of them makes of a session.\<close>

datatype session_op =
    Op_init nat u16 u64 u64 | Op_reset | Op_set_protocol_version u16 | Op_set_external_sender bytes
  | Op_process_proposals nat bytes "u64 set" | Op_process_commit bytes
  | Op_process_welcome bytes "u64 set" | Op_get_marshalled_key_package nat

fun session_apply ::
    "('st, 'x, 'h) mlspp \<Rightarrow> (string \<Rightarrow> u16 \<Rightarrow> 'x option) \<Rightarrow> session_op \<Rightarrow> ('st, 'x) session \<times> 'x option
     \<Rightarrow> ('st, 'x) session \<times> 'x option" where
  "session_apply lib p (Op_init rnd v g u) (s, key) = session_init lib p rnd v g u key s"
| "session_apply lib p Op_reset (s, key) = (session_reset s, key)"
| "session_apply lib p (Op_set_protocol_version v) (s, key) = (set_protocol_version v s, key)"
| "session_apply lib p (Op_set_external_sender bs) (s, key) = (set_external_sender lib bs s, key)"
| "session_apply lib p (Op_process_proposals rnd bs r) (s, key) = (fst (process_proposals lib rnd bs r s), key)"
| "session_apply lib p (Op_process_commit bs) (s, key) = (fst (process_commit lib bs s), key)"
| "session_apply lib p (Op_process_welcome bs r) (s, key) = (fst (process_welcome lib bs r s), key)"
| "session_apply lib p (Op_get_marshalled_key_package rnd) (s, key) =
     (fst (get_marshalled_key_package lib rnd s), key)"

definition session_run ::
    "('st, 'x, 'h) mlspp \<Rightarrow> (string \<Rightarrow> u16 \<Rightarrow> 'x option) \<Rightarrow> string \<Rightarrow> 'x option \<Rightarrow> session_op list \<Rightarrow> ('st, 'x) session" where
  "session_run lib persisted auth_session_id key ops =
     fst (foldl (\<lambda>p op. session_apply lib persisted op p) (Session auth_session_id, key) ops)"

lemma base_state_upd [simp]:
  "base_state (s\<lparr>se_state_with_proposals := x\<rparr>) = base_state s"
  "base_state (s\<lparr>se_proposal_queue := q\<rparr>) = base_state s"
  "base_state (s\<lparr>se_pending_group_commit := c\<rparr>) = base_state s"
  "base_state (s\<lparr>se_outbound_cached_group_state := x\<rparr>) = base_state s"
  "base_state (s\<lparr>se_mls_external_sender := e\<rparr>) = base_state s"
  by (simp_all add: base_state_def split: option.splits)

lemma session_ok_upd [simp]:
  "session_ok (s\<lparr>se_pending_group_commit := c\<rparr>) = session_ok s"
  "session_ok (s\<lparr>se_outbound_cached_group_state := x\<rparr>) = session_ok s"
  "session_ok (s\<lparr>se_proposal_queue := q\<rparr>) = session_ok s"
  "session_ok (s\<lparr>se_protocol_version := v\<rparr>) = session_ok s"
  by (simp_all add: session_ok_def base_state_def split: option.splits)

lemma session_ok_init: "session_ok (Session i)"
  by (simp add: session_ok_def Session_def map_inv_def)

lemma clear_pending_ok:
  assumes "map_inv (se_roster s)" "se_fault s \<noteq> Some Null_dereference"
  shows "session_ok (clear_pending_state s)" "session_ok (session_reset s)"
  using assms by (simp_all add: session_ok_def clear_pending_state_def session_reset_def)

lemma create_pending_group_ok: "session_ok s \<Longrightarrow> session_ok (create_pending_group lib s)"
  by (auto simp: create_pending_group_def session_ok_def base_state_def split: option.splits)

lemma create_pending_group_defined:
  assumes "session_ok s" "se_group_id s \<noteq> []" "se_mls_external_sender s \<noteq> None" "se_self_leaf_node s \<noteq> None"
  shows "\<exists>hpke sig. se_hpke_private_key s = Some hpke \<and> se_signature_private_key s = Some sig"
  using assms by (auto simp: session_ok_def)

lemma install_leaf_node_ok:
  assumes "session_ok s" "se_self_leaf_node s = None"
  shows "session_ok (install_leaf_node lib rnd u k s)"
  using assms
  by (auto simp: install_leaf_node_def session_ok_def base_state_def Let_def split: option.splits)

lemma session_init_ok:
  assumes "session_ok s"
  shows "session_ok (fst (session_init lib p rnd v g u key s))"
proof -
  define s1 where "s1 = (session_reset s)\<lparr>se_bot_user_id := u, se_protocol_version := v, se_group_id := big_endian_bytes_from g\<rparr>"
  have "map_inv (se_roster s)" "se_fault s \<noteq> Some Null_dereference" using assms by (simp_all add: session_ok_def)
  from clear_pending_ok(2) [OF this] have s1: "session_ok s1" "se_self_leaf_node s1 = None"
    by (simp_all add: s1_def session_ok_def session_reset_def clear_pending_state_def base_state_def)
  obtain s2 k where s2: "init_leaf_node lib p rnd u key s1 = (s2, k)" by force
  then have "session_ok s2"
    using s1 by (auto simp: init_leaf_node_def Let_def install_leaf_node_ok split: option.splits)
  then show ?thesis
    by (simp add: session_init_def Let_def create_pending_group_ok s2 flip: s1_def)
qed

lemma set_external_sender_ok:
  assumes "session_ok s" shows "session_ok (set_external_sender lib bs s)"
proof -
  have "session_ok (s\<lparr>se_mls_external_sender := Some ext\<rparr>)" for ext
    using assms by (simp add: session_ok_def)
  then show ?thesis
    using assms by (simp add: set_external_sender_def Let_def create_pending_group_ok split: option.split)
qed

lemma answer_proposals_ok:
  "session_ok s \<Longrightarrow> se_state_with_proposals s \<noteq> None \<Longrightarrow> session_ok (fst (answer_proposals lib rnd s))"
  by (auto simp: answer_proposals_def Let_def split: option.splits)

lemma new_roster_inv: "map_inv (new_roster lib st)"
proof -
  have "map_inv m \<Longrightarrow> map_inv (foldl (\<lambda>m leaf. case lf_credential leaf of
       BasicCredential identity \<Rightarrow> map_assign (from_big_endian_bytes identity) (lf_signature_key leaf) m
     | OtherCredential \<Rightarrow> m) m leaves)" for m leaves
    by (induction leaves arbitrary: m) (auto simp: map_assign_inv split: credential.splits)
  from this [of "[]" "state_roster lib st"] show ?thesis by (simp add: new_roster_def map_inv_def)
qed

lemma with_proposals_ok:
  assumes "session_ok s" "base_state s \<noteq> None"
  shows "session_ok (s\<lparr>se_state_with_proposals := Some st\<rparr>)"
    "session_ok (s\<lparr>se_proposal_queue := q, se_state_with_proposals := Some st\<rparr>)"
  using assms by (simp_all add: session_ok_def)

lemma revoke_proposals_ok:
  assumes "session_ok s" "base_state s \<noteq> None"
  shows "session_ok (fst (revoke_proposals lib rnd base rest s))"
  using assms
  by (cases "tls_refs lib rest")
    (simp_all add: revoke_proposals_def Let_def answer_proposals_ok with_proposals_ok case_prod_beta)

lemma append_proposals_ok:
  assumes "session_ok s" "base_state s \<noteq> None"
  shows "session_ok (fst (append_proposals lib rnd r st rest s))"
  using assms
  by (cases "tls_messages lib rest")
    (simp_all add: append_proposals_def Let_def answer_proposals_ok with_proposals_ok case_prod_beta)

lemma process_proposals_ok:
  assumes "session_ok s"
  shows "session_ok (fst (process_proposals lib rnd bs r s))"
proof (cases "base_state s")
  case None
  then show ?thesis using assms by (auto simp: process_proposals_def base_state_def split: option.splits)
next
  case (Some base)
  then have ok: "session_ok (s\<lparr>se_state_with_proposals := Some st\<rparr>)" for st
    using assms by (simp add: with_proposals_ok)
  then show ?thesis
    using Some assms by (simp add: process_proposals_def Let_def revoke_proposals_ok append_proposals_ok split: option.split)
qed

lemma process_commit_ok:
  assumes "session_ok s" shows "session_ok (fst (process_commit lib bs s))"
proof -
  have "session_ok (terminated s)" using assms
    by (auto simp: session_ok_def base_state_def terminated_def split: option.splits)
  with assms show ?thesis
    by (auto simp: process_commit_def can_process_commit_def replace_state_def Let_def new_roster_inv session_ok_def [of s]
        intro!: clear_pending_ok split: option.splits bool.splits)
qed

lemma process_welcome_ok: "session_ok s \<Longrightarrow> session_ok (fst (process_welcome lib bs r s))"
  by (auto simp: process_welcome_def has_cryptographic_state_for_welcome_def replace_state_def Let_def new_roster_inv
      session_ok_def [of s] intro!: clear_pending_ok split: option.splits)

lemma key_package_ok: "session_ok s \<Longrightarrow> session_ok (fst (get_marshalled_key_package lib rnd s))"
  by (auto simp: get_marshalled_key_package_def reset_join_key_package_def session_ok_def base_state_def Let_def
      split: option.splits)

lemma session_apply_ok: "session_ok (fst p) \<Longrightarrow> session_ok (fst (session_apply lib persisted op p))"
  by (cases op; cases p)
    (simp_all add: session_init_ok set_external_sender_ok process_proposals_ok process_commit_ok
      process_welcome_ok key_package_ok set_protocol_version_def clear_pending_ok(2) session_ok_def [THEN iffD1])

section \<open>The proposals behind a commit\<close>

text \<open>
  The state with proposals is what handling the queue on the group gives; a proposal is
  \<open>accepted\<close> when some message unwrapped to it that the validation let through.
\<close>

definition proposals_sync :: "('st, 'x, 'h) mlspp \<Rightarrow> ('st, 'x) session \<Rightarrow> bool" where
  "proposals_sync lib s \<longleftrightarrow> (case se_state_with_proposals s of
     None \<Rightarrow> se_proposal_queue s = []
   | Some st \<Rightarrow> (case base_state s of
        None \<Rightarrow> False | Some b \<Rightarrow> replay_queue lib b (se_proposal_queue s) = (st, True)))"









section \<open>Faults\<close>

text \<open>Only a commit can terminate the process: one whose message has no group.\<close>

definition fault_kept :: "('st, 'x) session \<Rightarrow> ('st, 'x) session \<Rightarrow> bool" where
  "fault_kept s s' \<longleftrightarrow> se_fault s' = se_fault s \<or> se_fault s' = Some Null_dereference"

lemma fault_keptD: "fault_kept s s' \<Longrightarrow> se_fault s' = Some Terminated \<Longrightarrow> se_fault s = Some Terminated"
  by (auto simp: fault_kept_def)

lemma fault_kept_null [simp]: "fault_kept s (null_dereference s')" "fault_kept s s"
  by (simp_all add: fault_kept_def null_dereference_def)

lemma fault_kept_upd [simp]:
  "fault_kept (s\<lparr>se_state_with_proposals := x\<rparr>) s' = fault_kept s s'"
  "fault_kept (s\<lparr>se_proposal_queue := q\<rparr>) s' = fault_kept s s'"
  "fault_kept (s\<lparr>se_mls_external_sender := e\<rparr>) s' = fault_kept s s'"
  "fault_kept s (s'\<lparr>se_state_with_proposals := x\<rparr>) = fault_kept s s'"
  "fault_kept s (s'\<lparr>se_proposal_queue := q\<rparr>) = fault_kept s s'"
  "fault_kept s (s'\<lparr>se_mls_external_sender := e\<rparr>) = fault_kept s s'"
  by (simp_all add: fault_kept_def)

lemma create_pending_group_fault: "fault_kept s (create_pending_group lib s)"
  by (simp add: create_pending_group_def split: option.splits) (simp add: fault_kept_def)

lemma answer_proposals_fault: "fault_kept s (fst (answer_proposals lib rnd s))"
  by (simp add: answer_proposals_def Let_def split: option.splits) (simp add: fault_kept_def)

lemma session_init_fault: "fault_kept s (fst (session_init lib p rnd v g u key s))"
proof -
  have f: "se_fault (install_leaf_node lib rnd u k x) = se_fault x" for k x
    by (simp add: install_leaf_node_def Let_def split: option.splits)
  have "se_fault (fst (init_leaf_node lib p rnd u key x)) = se_fault x" for x
    by (simp add: init_leaf_node_def Let_def f split: option.splits)
  then show ?thesis
    using create_pending_group_fault [of "fst (init_leaf_node lib p rnd u key ((session_reset s)\<lparr>se_bot_user_id := u,
        se_protocol_version := v, se_group_id := big_endian_bytes_from g\<rparr>))" lib]
    by (simp add: fault_kept_def session_init_def Let_def case_prod_beta session_reset_def clear_pending_state_def)
qed

lemma process_proposals_fault: "fault_kept s (fst (process_proposals lib rnd bs r s))"
proof -
  have answer: "fault_kept x (fst (answer_proposals lib rnd (x\<lparr>se_proposal_queue := q, se_state_with_proposals := st\<rparr>)))" for x q st
    using answer_proposals_fault [of "x\<lparr>se_proposal_queue := q, se_state_with_proposals := st\<rparr>" lib rnd] by simp
  have revoke: "fault_kept x (fst (revoke_proposals lib rnd b rest x))" for b rest x
    using answer by (cases "tls_refs lib rest") (simp_all add: revoke_proposals_def Let_def case_prod_beta)
  have append: "fault_kept x (fst (append_proposals lib rnd r st rest x))" for st rest x
    using answer by (cases "tls_messages lib rest") (simp_all add: append_proposals_def Let_def case_prod_beta)
  have "fault_kept s (fst (revoke_proposals lib rnd b rest (s\<lparr>se_state_with_proposals := st\<rparr>)))"
    "fault_kept s (fst (append_proposals lib rnd r st' rest (s\<lparr>se_state_with_proposals := st\<rparr>)))" for b rest st st'
    using revoke [of "s\<lparr>se_state_with_proposals := st\<rparr>"] append [of "s\<lparr>se_state_with_proposals := st\<rparr>"] by simp_all
  then show ?thesis
    by (cases "base_state s"; cases "tls_bool lib bs") (simp_all add: process_proposals_def Let_def case_prod_beta)
qed

lemma set_external_sender_fault: "fault_kept s (set_external_sender lib bs s)"
proof -
  have "fault_kept s (create_pending_group lib (s\<lparr>se_mls_external_sender := e\<rparr>))" for e
    using create_pending_group_fault [of "s\<lparr>se_mls_external_sender := e\<rparr>" lib] by simp
  then show ?thesis by (simp add: set_external_sender_def Let_def split: option.splits)
qed

lemma session_apply_fault:
  assumes "se_fault (fst (session_apply lib p op q)) = Some Terminated"
  shows "se_fault (fst q) = Some Terminated
    \<or> (\<exists>bs m. op = Op_process_commit bs \<and> tls_message lib bs = Some m \<and> message_group_id lib m = None)"
proof (cases q)
  case (Pair s key)
  show ?thesis
  proof (cases op)
    case (Op_process_commit bs)
    with assms Pair show ?thesis
      by (auto simp: process_commit_def can_process_commit_def null_dereference_def replace_state_def clear_pending_state_def
          Let_def split: option.splits bool.splits if_splits)
  next
    case (Op_init rnd v g u)
    with assms Pair show ?thesis using fault_keptD [OF session_init_fault] by auto
  next
    case (Op_process_proposals rnd bs r)
    with assms Pair show ?thesis using fault_keptD [OF process_proposals_fault] by auto
  next
    case (Op_set_external_sender bs)
    with assms Pair show ?thesis using fault_keptD [OF set_external_sender_fault] by auto
  next
    case (Op_process_welcome bs r)
    with assms Pair show ?thesis
      by (auto simp: process_welcome_def null_dereference_def replace_state_def clear_pending_state_def Let_def
          split: option.splits if_splits)
  next
    case (Op_get_marshalled_key_package rnd)
    with assms Pair show ?thesis
      by (auto simp: get_marshalled_key_package_def reset_join_key_package_def null_dereference_def Let_def
          split: option.splits)
  qed (use assms Pair in \<open>simp_all add: session_reset_def clear_pending_state_def set_protocol_version_def\<close>)
qed

section \<open>Properties\<close>

text \<open>
  C19. Whatever sequence of operations a session goes through, with whatever bytes from the
  network and whichever calls into the MLS library throw, no operation dereferences a
  null pointer (each unchecked dereference of the code is a dereference in the model), and the process is only
  terminated by a commit message that has no group, for which the library throws inside a
  function declared \<^verbatim>\<open>noexcept\<close>. The session stays well-formed: a leaf node never stands without the
  signature and encryption keys, a state with proposals never without the group that a
  revocation falls back to, a pending group never without identifier and external sender, a key
  package never without its private key, and the roster is a map.
\<close>

theorem session_invariant:
  assumes "s = session_run lib persisted auth_session_id key ops"
  shows "session_ok s \<and> se_fault s \<noteq> Some Null_dereference
    \<and> (se_fault s = Some Terminated \<longrightarrow>
         (\<exists>bs m. Op_process_commit bs \<in> set ops \<and> tls_message lib bs = Some m \<and> message_group_id lib m = None))"
  unfolding assms session_run_def
proof (induction ops rule: rev_induct)
  case Nil
  show ?case by (simp add: session_ok_init) (simp add: Session_def)
next
  case (snoc op ops)
  let ?p = "foldl (\<lambda>p op. session_apply lib persisted op p) (Session auth_session_id, key) ops"
  have "session_ok (fst (session_apply lib persisted op ?p))" using snoc by (simp add: session_apply_ok)
  moreover from this have "se_fault (fst (session_apply lib persisted op ?p)) \<noteq> Some Null_dereference"
    by (simp add: session_ok_def)
  ultimately show ?case
    using snoc session_apply_fault [of lib persisted op ?p] by auto
qed


text \<open>
  A concrete library for the witnesses: a group state is the list of the proposals it has handled,
  every message is a proposal of the external sender to add user 7.
\<close>

definition list_mls :: "(nat list, nat, unit) mlspp" where
  "list_mls = \<lparr>tls_external_sender = (\<lambda>bs. Some (length bs)), tls_message = (\<lambda>bs. Some (if bs = [255] then 255 else 0)),
     tls_welcome = (\<lambda>bs. Some 0), tls_bool = (\<lambda>bs. if bs = [] then None else Some (hd bs \<noteq> 0, tl bs)),
     tls_refs = (\<lambda>bs. Some (map (\<lambda>b. [b]) bs)), tls_messages = (\<lambda>bs. Some (map unat bs)),
     marshal_message = (\<lambda>m. Some [of_nat m]), marshal_welcome = (\<lambda>m. Some [of_nat m]),
     marshal_key_package = (\<lambda>m. Some [of_nat m]), message_group_id = (\<lambda>m. if m = 255 then None else Some []),
     welcome_has_secrets = (\<lambda>m. m \<noteq> 0), generate_hpke = Some, generate_signature = Some,
     make_leaf_node = (\<lambda>h k c. Some (h + k)), make_key_package = (\<lambda>i l k. Some (i + l + k)),
     create_state = (\<lambda>g h k l e. Some []), join_state = (\<lambda>i h k p w. Some []),
     state_unwrap = (\<lambda>st m. Some \<lparr>ct_validated = m, ct_public_message = True, ct_epoch = 0,
        ct_is_proposal = True, ct_external_sender = True,
        ct_proposal = AddProposal (create_user_credential (to_string 7))\<rparr>),
     state_handle = (\<lambda>st m. Some (st @ [m])), state_handle_commit = (\<lambda>st m c. Some c),
     state_commit = (\<lambda>st r. Some (length st, sum_list st, st)), state_ref = (\<lambda>st m. Some [of_nat m]),
     state_epoch = (\<lambda>st. 0), state_roster = (\<lambda>st. []), state_external_senders = (\<lambda>st. None),
     state_epoch_authenticator = (\<lambda>st. []), state_export = (\<lambda>st l c n. Some (replicate n 0)),
     make_ratchet = (\<lambda>st bs. Some ())\<rparr>"

lemma user_7_recognised: "is_recognized_user_id (create_user_credential (to_string 7)) {7}"
  by (simp add: is_recognized_user_id_def create_user_credential_def from_big_endian_bytes_from)

definition busy_session :: "(nat list, nat) session" where
  "busy_session = (Session [])\<lparr>se_current_state := Some [], se_state_with_proposals := Some [5, 6],
     se_proposal_queue := [(5, [5]), (6, [6])]\<rparr>"

lemma busy_session_sync: "proposals_sync list_mls busy_session"
  by (simp add: proposals_sync_def busy_session_def base_state_def Session_def list_mls_def)

text \<open>
  The state with proposals is not always that of the queue on the group: an external sender that arrives while
  proposals are queued on a pending group replaces that group and keeps both.
\<close>

lemma external_sender_leaves_proposals:
  assumes "se_current_state s = None" "tls_external_sender lib bs = Some ext" "se_group_id s \<noteq> []"
    and "se_self_leaf_node s = Some leaf" "se_hpke_private_key s = Some hpke" "se_signature_private_key s = Some sig"
    and "create_state lib (se_group_id s) hpke sig leaf ext = Some g"
  shows "set_external_sender lib bs s = s\<lparr>se_mls_external_sender := Some ext, se_pending_group_state := Some g\<rparr>"
    and "se_state_with_proposals s = Some st \<Longrightarrow>
      proposals_sync lib (set_external_sender lib bs s) \<longleftrightarrow> replay_queue lib g (se_proposal_queue s) = (st, True)"
  using assms by (simp_all add: set_external_sender_def create_pending_group_def proposals_sync_def base_state_def)


theorem session_invariant_witness:
  "let s = session_run list_mls (\<lambda>_ _. None) [] None
        [Op_init 3 1 9 7, Op_set_external_sender [1], Op_process_proposals 0 [0, 9] {7}, Op_process_commit [255]]
   in session_ok s \<and> se_fault s = Some Terminated"
proof -
  let ?ops = "[Op_init 3 1 9 7, Op_set_external_sender [1], Op_process_proposals 0 [0, 9] {7}, Op_process_commit [255]]"
  let ?s = "session_run list_mls (\<lambda>_ _. None) [] None ?ops"
  have "length (big_endian_bytes_from 9) = 8" by (rule length_big_endian_bytes_from)
  then have "big_endian_bytes_from 9 \<noteq> []" by (metis list.size(3) zero_neq_numeral)
  then have "se_fault ?s = Some Terminated"
    using user_7_recognised
    by (simp add: session_run_def session_init_def init_leaf_node_def install_leaf_node_def create_pending_group_def
        set_external_sender_def process_proposals_def append_proposals_def answer_proposals_def process_commit_def
        can_process_commit_def validate_proposal_message_def base_state_def Session_def list_mls_def session_reset_def
        clear_pending_state_def terminated_def Let_def)
  with session_invariant [of ?s list_mls "\<lambda>_ _. None" "[]" None ?ops] show ?thesis by (simp only: Let_def)
qed

end
