(* ===== verification/Voice_Dave.thy ===== *)
theory Voice_Dave
  imports Voice_Sender Dave_Session
begin

text \<open>
  \<^verbatim>\<open>src/voice/voice_dave_handler.cpp\<close>, with \<open>on_speaking\<close> of
  \<^verbatim>\<open>voice_receiver.cpp\<close> and the two senders of \<^verbatim>\<open>voice_connection_impl.cpp\<close>: how
  a voice connection drives its MLS session.

  An asynchronous operation either finishes at once (\<open>Done\<close>) or waits for an \<open>action\<close>
  (\<open>Await\<close>). The completion handlers it was given are a stack of \<open>frame\<close>s, the innermost
  first; \<^verbatim>\<open>Voice_Gateway\<close> runs them. \<^term>\<open>None\<close> is the dereference of a null pointer
  or of an empty optional, or an exception that leaves the handler. What the environment supplies
  is a record \<open>ctx\<close>: the MLS library, the key store, the JSON parser, the clocks and the random
  choices.
\<close>

datatype voice_opcode =
    Op_Identify | Op_SelectProtocol | Op_Ready | Op_Heartbeat | Op_SessionDescription | Op_Speaking
  | Op_HeartbeatAck | Op_Resume | Op_Hello | Op_Resumed | Op_ClientsConnect | Op_ClientDisconnect
  | Op_DavePrepareTransition | Op_DaveExecuteTransition | Op_DaveTransitionReady | Op_DavePrepareEpoch
  | Op_DaveMlsExternalSender | Op_DaveMlsKeyPackage | Op_DaveMlsProposals | Op_DaveMlsCommitWelcome
  | Op_DaveMlsAnnounceCommitTransition | Op_DaveMlsWelcome | Op_DaveMlsInvalidCommitWelcome

fun opcode_value :: "voice_opcode \<Rightarrow> u8" where
  "opcode_value Op_Identify = 0"
| "opcode_value Op_SelectProtocol = 1"
| "opcode_value Op_Ready = 2"
| "opcode_value Op_Heartbeat = 3"
| "opcode_value Op_SessionDescription = 4"
| "opcode_value Op_Speaking = 5"
| "opcode_value Op_HeartbeatAck = 6"
| "opcode_value Op_Resume = 7"
| "opcode_value Op_Hello = 8"
| "opcode_value Op_Resumed = 9"
| "opcode_value Op_ClientsConnect = 11"
| "opcode_value Op_ClientDisconnect = 13"
| "opcode_value Op_DavePrepareTransition = 21"
| "opcode_value Op_DaveExecuteTransition = 22"
| "opcode_value Op_DaveTransitionReady = 23"
| "opcode_value Op_DavePrepareEpoch = 24"
| "opcode_value Op_DaveMlsExternalSender = 25"
| "opcode_value Op_DaveMlsKeyPackage = 26"
| "opcode_value Op_DaveMlsProposals = 27"
| "opcode_value Op_DaveMlsCommitWelcome = 28"
| "opcode_value Op_DaveMlsAnnounceCommitTransition = 29"
| "opcode_value Op_DaveMlsWelcome = 30"
| "opcode_value Op_DaveMlsInvalidCommitWelcome = 31"

text \<open>
  What an action can be completed with; a failed read carries the close code that the socket
  holds, if any.
\<close>

datatype reply = Replied bytes | Message bool bytes | ReadFailed "u16 option" | FailedWith errc

abbreviation success :: reply where "success \<equiv> Replied []"

fun is_ok :: "reply \<Rightarrow> bool" where
  "is_ok (Replied _) = True"
| "is_ok (Message _ _) = True"
| "is_ok _ = False"

datatype action =
    Ws_send json | Ws_send_bytes bytes | Ws_read | Ws_close | Ws_connect
  | Udp_bind string | Udp_connect string string | Udp_send bytes | Udp_receive
  | Post reply | Heartbeat_wait u32 | Reconnect_wait | Flush_wait | Ready_receive

datatype progress = Done reply | Await action

text \<open>The completion handlers of the connection's operations; \<open>F_user\<close> is the caller's.\<close>

datatype frame =
    F_listen | F_message | F_execute | F_activate | F_restart_mls | F_after_mls
  | F_udp_bound string string | F_udp_connected | F_udp_sent | F_udp_discovered
  | F_heartbeat_due | F_heartbeat_sent | F_reconnect_due | F_reconnect_connected | F_reconnected
  | F_run_connected | F_closed | F_final_read | F_flush_due | F_user nat

text \<open>
  Beside the members of the connection: the pending operations, how many media loops were started,
  every action issued so far (\<open>outbox\<close>), and the calls of user handlers.
\<close>

record ('h, 'st, 'x) gateway =
  conn :: "('h, ('st, 'x) session) voice_impl"
  transient_key :: "'x option"
  pending :: "(action \<times> frame list) list"
  sender_loops :: nat
  receiver_loops :: nat
  outbox :: "action list"
  completed :: "(nat \<times> reply) list"

record ('h, 'st, 'x) ctx =
  cx_mls :: "('st, 'x, 'h) mlspp"
  cx_persisted :: "string option \<Rightarrow> string \<Rightarrow> u16 \<Rightarrow> 'x option"
  cx_parse :: "bytes \<Rightarrow> json option"
  cx_now :: int
  cx_wall_ms :: int
  cx_rnd :: nat

definition with_dave ::
    "(('h, ('st, 'x) session) dave_state \<Rightarrow> ('h, ('st, 'x) session) dave_state) \<Rightarrow> ('h, 'st, 'x) gateway
     \<Rightarrow> ('h, 'st, 'x) gateway" where
  "with_dave f g = g\<lparr>conn := (conn g)\<lparr>dave := map_option f (dave (conn g))\<rparr>\<rparr>"

definition with_session ::
    "(('st, 'x) session \<Rightarrow> ('st, 'x) session) \<Rightarrow> ('h, 'st, 'x) gateway \<Rightarrow> ('h, 'st, 'x) gateway" where
  "with_session f = with_dave (\<lambda>ds. ds\<lparr>ds_session := map_option f (ds_session ds)\<rparr>)"

definition with_encryptor ::
    "('h encryptor \<Rightarrow> 'h encryptor) \<Rightarrow> ('h, 'st, 'x) gateway \<Rightarrow> ('h, 'st, 'x) gateway" where
  "with_encryptor f = with_dave (\<lambda>ds. ds\<lparr>ds_encryptor := map_option f (ds_encryptor ds)\<rparr>)"

definition the_session :: "('h, 'st, 'x) gateway \<Rightarrow> ('st, 'x) session option" where
  "the_session g = Option.bind (dave (conn g)) ds_session"

definition the_encryptor :: "('h, 'st, 'x) gateway \<Rightarrow> 'h encryptor option" where
  "the_encryptor g = Option.bind (dave (conn g)) ds_encryptor"

section \<open>Sending\<close>

definition send_voice_json :: "json \<Rightarrow> ('h, 'st, 'x) gateway \<Rightarrow> progress" where
  "send_voice_json j g = (if \<not> ws (conn g) then Await (Post success) else Await (Ws_send j))"

definition send_voice_binary :: "voice_opcode \<Rightarrow> bytes \<Rightarrow> ('h, 'st, 'x) gateway \<Rightarrow> progress" where
  "send_voice_binary opcode payload g =
     (if \<not> ws (conn g) then Await (Post success)
      else Await (Ws_send_bytes (opcode_value opcode # payload)))"

definition transition_json :: "voice_opcode \<Rightarrow> u16 \<Rightarrow> json" where
  "transition_json opcode tid = JObj [(''op'', JUint (unat (opcode_value opcode))),
     (''d'', JObj [(''transition_id'', JUint (unat tid))])]"

definition send_mls_key_package ::
    "('h, 'st, 'x) ctx \<Rightarrow> ('h, 'st, 'x) gateway \<Rightarrow> ('h, 'st, 'x) gateway \<times> progress" where
  "send_mls_key_package cx g = (case the_session g of
     None \<Rightarrow> (g, Await (Post (FailedWith operation_not_permitted)))
   | Some s \<Rightarrow>
       (let (s', key_package) = get_marshalled_key_package (cx_mls cx) (cx_rnd cx) s;
            g' = with_session (\<lambda>_. s') g
        in if key_package = [] then (g', Await (Post (FailedWith operation_not_permitted)))
           else (g', send_voice_binary Op_DaveMlsKeyPackage key_package g')))"

definition send_mls_commit_welcome :: "bytes \<Rightarrow> ('h, 'st, 'x) gateway \<Rightarrow> progress" where
  "send_mls_commit_welcome payload g = send_voice_binary Op_DaveMlsCommitWelcome payload g"

definition send_mls_invalid_commit_welcome :: "u16 \<Rightarrow> ('h, 'st, 'x) gateway \<Rightarrow> progress" where
  "send_mls_invalid_commit_welcome tid g =
     send_voice_json (transition_json Op_DaveMlsInvalidCommitWelcome tid) g"

section \<open>The session\<close>

definition convert_to_numeric_ids :: "string set \<Rightarrow> u64 set" where
  "convert_to_numeric_ids string_ids = Option.these (stoull ` string_ids)"

definition recognized :: "('h, 'st, 'x) gateway \<Rightarrow> u64 set" where
  "recognized g = insert (vs_user_id (vstate (conn g))) (convert_to_numeric_ids (recognized_user_ids (conn g)))"

definition compute_group_id :: "('h, 'st, 'x) gateway \<Rightarrow> u64 option" where
  "compute_group_id g = vs_channel_id (vstate (conn g))"

text \<open>The encryptor that goes with a new MLS group: no keys, frames pass through.\<close>

definition fresh_encryptor :: "u32 \<Rightarrow> 'h encryptor" where
  "fresh_encryptor own = set_passthrough_mode True (assign_ssrc_to_codec own codec.Opus encryptor_init)"

definition start_mls ::
    "('h, 'st, 'x) ctx \<Rightarrow> u16 \<Rightarrow> ('st, 'x) session \<Rightarrow> ('h, 'st, 'x) gateway \<Rightarrow> (('h, 'st, 'x) gateway \<times> progress) option" where
  "start_mls cx version s g = do {
     group_id \<leftarrow> compute_group_id g;
     let (s', key) = session_init (cx_mls cx) (cx_persisted cx None) (cx_rnd cx) version group_id
            (vs_user_id (vstate (conn g))) (transient_key g) s;
     let g1 = with_dave (\<lambda>ds. ds\<lparr>ds_session := Some s',
            ds_encryptor := Some (fresh_encryptor (v_ssrc (conn g)))\<rparr>) (g\<lparr>transient_key := key\<rparr>);
     Some (send_mls_key_package cx g1)
   }"

definition maybe_start_mls ::
    "('h, 'st, 'x) ctx \<Rightarrow> bool \<Rightarrow> ('h, 'st, 'x) gateway \<Rightarrow> (('h, 'st, 'x) gateway \<times> progress) option" where
  "maybe_start_mls cx force_reset g = (case dave (conn g) of
     None \<Rightarrow> Some (g, Done success)
   | Some ds \<Rightarrow>
       if ds_protocol_version ds \<le> 0 then Some (g, Done success)
       else (case ds_session ds of
               None \<Rightarrow> Some (g, Done success)
             | Some s0 \<Rightarrow>
                 (let s = (if force_reset then session_reset s0 else s0);
                      g1 = with_session (\<lambda>_. s) g
                  in if is_initialized s \<and> \<not> force_reset then Some (g1, Done success)
                     else if \<not> has_external_sender s then Some (g1, Done success)
                     else start_mls cx (ds_protocol_version ds) s g1)))"

section \<open>Key ratchets\<close>

definition install_decryptor ::
    "('h, 'st, 'x) ctx \<Rightarrow> ('st, 'x) session \<Rightarrow> u64 \<Rightarrow> string \<Rightarrow> (string \<rightharpoonup> 'h decryptor) \<Rightarrow> string \<rightharpoonup> 'h decryptor" where
  "install_decryptor cx s uid key ds = (case get_key_ratchet (cx_mls cx) uid s of
     None \<Rightarrow> ds
   | Some ratchet \<Rightarrow> ds(key \<mapsto>
       transition_to_key_ratchet (Some ratchet) 10 (cx_now cx) decryptor_init))"

definition refresh_decryptor ::
    "('h, 'st, 'x) ctx \<Rightarrow> ('st, 'x) session \<Rightarrow> (string \<rightharpoonup> 'h decryptor) \<Rightarrow> u64 \<Rightarrow> string \<rightharpoonup> 'h decryptor" where
  "refresh_decryptor cx s ds uid =
     (let key = to_string uid;
          d = (case ds key of Some d \<Rightarrow> d | None \<Rightarrow> decryptor_init)
      in case get_key_ratchet (cx_mls cx) uid s of
           None \<Rightarrow> ds(key \<mapsto> d)
         | Some ratchet \<Rightarrow> ds(key \<mapsto> transition_to_key_ratchet (Some ratchet) 10 (cx_now cx) d))"

definition update_ratchets ::
    "('h, 'st, 'x) ctx \<Rightarrow> ('h, 'st, 'x) gateway \<Rightarrow> ('h, 'st, 'x) gateway option" where
  "update_ratchets cx g = (case the_session g of
     None \<Rightarrow> Some g
   | Some s \<Rightarrow> do {
       let self_id = vs_user_id (vstate (conn g));
       code \<leftarrow> generate_displayable_code (get_last_epoch_authenticator (cx_mls cx) s) 30 5;
       Some (with_dave (\<lambda>ds. ds\<lparr>
         ds_decryptors := foldl (\<lambda>m uid. if uid = self_id then m else refresh_decryptor cx s m uid)
            (ds_decryptors ds) (dave_user_list (conn g)),
         ds_encryptor := map_option (\<lambda>e. case get_key_ratchet (cx_mls cx) self_id s of
              None \<Rightarrow> e | Some ratchet \<Rightarrow> set_key_ratchet (Some ratchet) e) (ds_encryptor ds),
         ds_privacy_code := code\<rparr>) g)
     })"

section \<open>Transitions\<close>

definition execute_dave_transition ::
    "('h, 'st, 'x) ctx \<Rightarrow> int \<Rightarrow> ('h, 'st, 'x) gateway \<Rightarrow> (('h, 'st, 'x) gateway \<times> progress \<times> frame list) option" where
  "execute_dave_transition cx version g =
     (if dave (conn g) = None then Some (g, Done success, [])
      else (let g1 = with_session (set_protocol_version (of_int version))
                  (with_dave (\<lambda>ds. ds\<lparr>ds_done_ready := False, ds_protocol_version := of_int version\<rparr>) g)
            in if version = 0
               then Some (with_encryptor (set_passthrough_mode True) (with_session session_reset g1), Done success, [])
               else do {
                 (g2, p) \<leftarrow> maybe_start_mls cx False g1;
                 Some (g2, p, [F_activate])
               }))"

text \<open>The rest of a transition, once \<open>maybe_start_mls\<close> is done.\<close>

definition activate_transition ::
    "('h, 'st, 'x) ctx \<Rightarrow> reply \<Rightarrow> ('h, 'st, 'x) gateway \<Rightarrow> (('h, 'st, 'x) gateway \<times> progress) option" where
  "activate_transition cx r g =
     (if \<not> is_ok r then Some (g, Done r)
      else if the_session g = None \<or> the_encryptor g = None
      then Some (g, Done (FailedWith operation_not_permitted))
      else do {
        g1 \<leftarrow> update_ratchets cx g;
        e \<leftarrow> the_encryptor g1;
        Some (if \<not> has_key_ratchet e
          then (with_encryptor (set_passthrough_mode True) g1, Done (FailedWith operation_not_permitted))
          else (let g2 = with_encryptor (set_passthrough_mode False) g1
                in (g2\<lparr>conn := (conn g2)\<lparr>warned_waiting_for_e2ee := False\<rparr>\<rparr>, Done success)))
      })"

text \<open>The handler behind an acknowledged transition 0: it reads the version only then.\<close>

definition execute_after_ready ::
    "('h, 'st, 'x) ctx \<Rightarrow> reply \<Rightarrow> ('h, 'st, 'x) gateway \<Rightarrow> (('h, 'st, 'x) gateway \<times> progress \<times> frame list) option" where
  "execute_after_ready cx r g =
     (if \<not> is_ok r then Some (g, Done r, [])
      else do {
        ds \<leftarrow> dave (conn g);
        execute_dave_transition cx (uint (ds_protocol_version ds)) g
      })"

definition recover_mls :: "u16 \<Rightarrow> ('h, 'st, 'x) gateway \<Rightarrow> progress \<times> frame list" where
  "recover_mls tid g = (send_mls_invalid_commit_welcome tid g, [F_restart_mls])"

definition restart_mls ::
    "('h, 'st, 'x) ctx \<Rightarrow> reply \<Rightarrow> ('h, 'st, 'x) gateway \<Rightarrow> (('h, 'st, 'x) gateway \<times> progress) option" where
  "restart_mls cx r g =
     (if \<not> is_ok r then Some (g, Done r) else maybe_start_mls cx True (with_session session_reset g))"

section \<open>Binary messages\<close>

definition announce_ready :: "u16 \<Rightarrow> ('h, 'st, 'x) gateway \<Rightarrow> progress \<times> frame list" where
  "announce_ready tid g =
     (send_voice_json (transition_json Op_DaveTransitionReady tid) g, if tid = 0 then [F_execute] else [])"

text \<open>
  A commit that ends the process (\<open>se_fault\<close>) is followed here like one that failed; nothing that comes
  after it is of meaning.
\<close>

definition on_commit ::
    "('h, 'st, 'x) ctx \<Rightarrow> bytes \<Rightarrow> ('st, 'x) session \<Rightarrow> ('h, 'st, 'x) gateway \<Rightarrow> ('h, 'st, 'x) gateway \<times> progress \<times> frame list" where
  "on_commit cx payload s g =
     (if length payload < 2 then (g, Done success, [])
      else (let tid = read_u16be payload;
                (s', result) = process_commit (cx_mls cx) (drop 2 payload) s;
                g1 = with_session (\<lambda>_. s') g
            in case result of
                 RosterMap roster \<Rightarrow>
                   (let g2 = with_dave (\<lambda>ds. ds\<lparr>ds_cached_roster_map := map_of roster\<rparr>) g1
                    in (g2, announce_ready tid g2))
               | _ \<Rightarrow> (g1, recover_mls tid g1)))"

definition on_welcome ::
    "('h, 'st, 'x) ctx \<Rightarrow> bytes \<Rightarrow> ('st, 'x) session \<Rightarrow> ('h, 'st, 'x) gateway \<Rightarrow> ('h, 'st, 'x) gateway \<times> progress \<times> frame list" where
  "on_welcome cx payload s g =
     (if length payload < 2 then (g, Done success, [])
      else (let tid = read_u16be payload;
                (s', result) = process_welcome (cx_mls cx) (drop 2 payload) (recognized g) s;
                g1 = with_session (\<lambda>_. s') g
            in case result of
                 None \<Rightarrow> (g1, recover_mls tid g1)
               | Some roster \<Rightarrow>
                   (let g2 = with_dave (\<lambda>ds. ds\<lparr>ds_decryptors :=
                          foldl (\<lambda>m (uid, _). if uid = vs_user_id (vstate (conn g)) then m
                                  else install_decryptor cx s' uid (to_string uid) m)
                            (ds_decryptors ds) roster\<rparr>) g1
                    in (g2, announce_ready tid g2))))"

definition handle_binary_event ::
    "('h, 'st, 'x) ctx \<Rightarrow> u8 \<Rightarrow> bytes \<Rightarrow> ('h, 'st, 'x) gateway \<Rightarrow> (('h, 'st, 'x) gateway \<times> progress \<times> frame list) option" where
  "handle_binary_event cx op payload g = (case the_session g of
     None \<Rightarrow> Some (g, Done success, [])
   | Some s \<Rightarrow>
       if op = opcode_value Op_DaveMlsExternalSender then do {
         (g1, p) \<leftarrow> maybe_start_mls cx False (with_session (\<lambda>_. set_external_sender (cx_mls cx) payload s) g);
         Some (g1, p, [])
       }
       else if op = opcode_value Op_DaveMlsProposals then
         (let (s', res) = process_proposals (cx_mls cx) (cx_rnd cx) payload (recognized g) s;
              g1 = with_session (\<lambda>_. s') g
          in Some (case res of
               None \<Rightarrow> (g1, Done success, [])
             | Some commit_msg \<Rightarrow> (g1, send_mls_commit_welcome commit_msg g1, [])))
       else if op = opcode_value Op_DaveMlsAnnounceCommitTransition then Some (on_commit cx payload s g)
       else if op = opcode_value Op_DaveMlsWelcome then Some (on_welcome cx payload s g)
       else Some (g, Done success, []))"

section \<open>Speaking\<close>

definition on_speaking ::
    "('h, 'st, 'x) ctx \<Rightarrow> string \<Rightarrow> u32 \<Rightarrow> bool \<Rightarrow> ('h, 'st, 'x) gateway \<Rightarrow> ('h, 'st, 'x) gateway" where
  "on_speaking cx user_id s_ssrc is_speaking g =
     (if \<not> is_speaking then g
      else (let i = conn g;
                g1 = g\<lparr>conn := i\<lparr>ssrc_to_user_id := (ssrc_to_user_id i)(s_ssrc \<mapsto> user_id),
                        user_id_to_ssrc := (user_id_to_ssrc i)(user_id \<mapsto> s_ssrc),
                        recognized_user_ids := insert user_id (recognized_user_ids i)\<rparr>\<rparr>
            in case the_session g1 of
                 None \<Rightarrow> g1
               | Some s \<Rightarrow>
                   if \<not> has_current_state s then g1
                   else (case stoull user_id of
                           None \<Rightarrow> g1
                         | Some uid \<Rightarrow> with_dave (\<lambda>ds. ds\<lparr>ds_decryptors :=
                             install_decryptor cx s uid user_id (ds_decryptors ds)\<rparr>) g1)))"

end
