(* ===== verification/Voice_Gateway.thy ===== *)
theory Voice_Gateway
  imports Voice_Dave
begin

text \<open>
  The control plane of a voice connection: \<^verbatim>\<open>src/voice/voice_websocket.cpp\<close> (the
  listen loop), \<^verbatim>\<open>voice_heartbeat.cpp\<close>, \<^verbatim>\<open>voice_reconnect.cpp\<close> and
  \<^verbatim>\<open>voice_connection_impl.cpp\<close>, as a state machine. \<open>pending\<close> holds the unfinished
  asynchronous operations, each with the stack of handlers behind it; an event completes one of
  them or calls the interface. Which pending operation completes next and with what is up to the
  environment: this includes every answer of sockets and timers, also cancellation.
\<close>

definition spawn :: "action \<Rightarrow> frame list \<Rightarrow> ('h, 'st, 'x) gateway \<Rightarrow> ('h, 'st, 'x) gateway" where
  "spawn a fs g = g\<lparr>pending := pending g @ [(a, fs)], outbox := outbox g @ [a]\<rparr>"

definition with_conn ::
    "(('h, ('st, 'x) session) voice_impl \<Rightarrow> ('h, ('st, 'x) session) voice_impl) \<Rightarrow> ('h, 'st, 'x) gateway
     \<Rightarrow> ('h, 'st, 'x) gateway" where
  "with_conn f g = g\<lparr>conn := f (conn g)\<rparr>"

section \<open>Heartbeats\<close>

definition heartbeat_tick :: "('h, 'st, 'x) gateway \<Rightarrow> ('h, 'st, 'x) gateway" where
  "heartbeat_tick g =
     (if \<not> heartbeat_running (conn g) \<or> \<not> heartbeat_timer (conn g) then g
      else spawn (Heartbeat_wait (heartbeat_interval_ms (conn g))) [F_heartbeat_due] g)"

definition setup_heartbeat :: "json \<Rightarrow> ('h, 'st, 'x) gateway \<Rightarrow> ('h, 'st, 'x) gateway option" where
  "setup_heartbeat data g =
     (if heartbeat_timer (conn g) then Some g
      else do {
        d \<leftarrow> json_at data ''d'';
        interval \<leftarrow> json_at d ''heartbeat_interval'';
        ms \<leftarrow> get_word interval;
        Some (heartbeat_tick (with_conn (\<lambda>i. i\<lparr>heartbeat_interval_ms := ms, heartbeat_timer := True,
            heartbeat_running := True\<rparr>) g))
      })"

definition heartbeat_json :: "int \<Rightarrow> int \<Rightarrow> json" where
  "heartbeat_json now_ms seq_ack = JObj [(''op'', JUint (unat (opcode_value Op_Heartbeat))),
     (''d'', JObj [(''t'', JInt now_ms), (''seq_ack'', JInt seq_ack)])]"

definition send_heartbeat :: "('h, 'st, 'x) ctx \<Rightarrow> ('h, 'st, 'x) gateway \<Rightarrow> progress" where
  "send_heartbeat cx g =
     (if \<not> ws (conn g) then Done success
      else Await (Ws_send (heartbeat_json (cx_wall_ms cx) (last_seq (conn g)))))"

text \<open>Cancelling a timer or a socket shows in the reply that its pending operation gets.\<close>

definition initiate_reconnect :: "('h, 'st, 'x) gateway \<Rightarrow> ('h, 'st, 'x) gateway" where
  "initiate_reconnect g =
     (if disconnected (conn g) then g
      else spawn Reconnect_wait [F_reconnect_due] (with_conn (\<lambda>i. i\<lparr>heartbeat_running := False,
          connection_state := (if connection_state i = Ready then Resuming else Connecting),
          ws := False\<rparr>) g))"

definition heartbeat_due ::
    "('h, 'st, 'x) ctx \<Rightarrow> reply \<Rightarrow> ('h, 'st, 'x) gateway \<Rightarrow> ('h, 'st, 'x) gateway \<times> progress \<times> frame list" where
  "heartbeat_due cx r g =
     (if \<not> is_ok r \<or> \<not> heartbeat_running (conn g) then (g, Done success, [])
      else (let missed = (if last_heartbeat_acked (conn g) then 0 else missed_heartbeats (conn g) + 1);
                g1 = with_conn (\<lambda>i. i\<lparr>missed_heartbeats := missed\<rparr>) g
            in if \<not> last_heartbeat_acked (conn g) \<and> missed \<ge> kMaxMissedHeartbeats
               then (initiate_reconnect g1, Done success, [])
               else (let g2 = with_conn (\<lambda>i. i\<lparr>last_heartbeat_acked := False\<rparr>) g1
                     in (g2, send_heartbeat cx g2, [F_heartbeat_sent]))))"

section \<open>Listening and reconnecting\<close>

definition ws_listen_loop :: "('h, 'st, 'x) gateway \<Rightarrow> ('h, 'st, 'x) gateway" where
  "ws_listen_loop g = (if \<not> ws (conn g) then g else spawn (Post success) [F_listen] g)"

definition listen_step :: "('h, 'st, 'x) gateway \<Rightarrow> progress \<times> frame list" where
  "listen_step g = (if \<not> ws (conn g) then (Done success, []) else (Await Ws_read, [F_message]))"

definition reconnect_due :: "reply \<Rightarrow> ('h, 'st, 'x) gateway \<Rightarrow> progress \<times> frame list" where
  "reconnect_due r g =
     (if \<not> is_ok r then (Done success, [])
      else if disconnected (conn g) then (Done success, [])
      else (Await Ws_connect, [F_reconnect_connected, F_reconnected]))"

text \<open>The handler of \<open>connect_ws_async\<close>, and the one \<open>initiate_reconnect\<close> gives it.\<close>

definition ws_connected :: "reply \<Rightarrow> ('h, 'st, 'x) gateway \<Rightarrow> ('h, 'st, 'x) gateway \<times> progress" where
  "ws_connected r g =
     (if \<not> is_ok r then (g, Done r)
      else (with_conn (\<lambda>i. i\<lparr>last_heartbeat_acked := True, missed_heartbeats := 0\<rparr>)
              (ws_listen_loop (with_conn (\<lambda>i. i\<lparr>ws := True\<rparr>) g)), Done success))"

definition reconnected :: "reply \<Rightarrow> ('h, 'st, 'x) gateway \<Rightarrow> ('h, 'st, 'x) gateway" where
  "reconnected r g =
     (if \<not> is_ok r then with_conn (\<lambda>i. i\<lparr>connection_state := Closed, disconnected := True\<rparr>) g else g)"

definition listen_failed :: "u16 option \<Rightarrow> ('h, 'st, 'x) gateway \<Rightarrow> ('h, 'st, 'x) gateway" where
  "listen_failed reason g =
     (let close_reason = (if ws (conn g) then reason else None);
          close_code = (case close_reason of Some c \<Rightarrow> c | None \<Rightarrow> 1006)
      in if is_resumable_close_code close_code \<and> connection_state (conn g) = Ready
         then initiate_reconnect g
         else with_conn (\<lambda>i. i\<lparr>connection_state := Closed, disconnected := True\<rparr>) g)"

section \<open>Media setup\<close>

definition discovery_packet :: "u32 \<Rightarrow> bytes option" where
  "discovery_packet own = do {
     p0 \<leftarrow> put_be (replicate 74 0) 0 (1 :: u16);
     p1 \<leftarrow> put_be p0 2 (70 :: u16);
     put_be p1 4 own
   }"

definition prepare_dave ::
    "('h, 'st, 'x) ctx \<Rightarrow> ('h, 'st, 'x) gateway \<Rightarrow> ('h, 'st, 'x) gateway" where
  "prepare_dave cx g = (case dave (conn g) of
     Some _ \<Rightarrow> g
   | None \<Rightarrow> (with_conn (\<lambda>i. i\<lparr>dave := Some \<lparr>ds_session = Some (Session (vs_session_id (vstate i))),
         ds_encryptor = Some encryptor_init, ds_decryptors = Map.empty, ds_cached_roster_map = Map.empty,
         ds_protocol_version = 0, ds_done_ready = False, ds_privacy_code = []\<rparr>\<rparr>) g)\<lparr>
       transient_key := cx_persisted cx (Some ''ekizu_voice'') (to_string (vs_user_id (vstate (conn g)))) 1\<rparr>)"

definition setup_udp ::
    "('h, 'st, 'x) ctx \<Rightarrow> json \<Rightarrow> ('h, 'st, 'x) gateway \<Rightarrow> (('h, 'st, 'x) gateway \<times> progress \<times> frame list) option" where
  "setup_udp cx data g = do {
     d \<leftarrow> json_at data ''d'';
     own \<leftarrow> Option.bind (json_at d ''ssrc'') get_word;
     ip \<leftarrow> Option.bind (json_at d ''ip'') get_string;
     port \<leftarrow> Option.bind (json_at d ''port'') (get_word :: json \<Rightarrow> u16 option);
     let g1 = prepare_dave cx (with_conn (\<lambda>i. i\<lparr>v_ssrc := own\<rparr>) g);
     if the_encryptor g1 = None then None
     else (let g2 = with_encryptor (\<lambda>e. set_passthrough_mode True (assign_ssrc_to_codec own codec.Opus e)) g1;
               bind_addr = (if CHR '':'' \<in> set ip then ''[::]:0'' else ''0.0.0.0:0'')
           in Some (g2, Await (Udp_bind bind_addr), [F_udp_bound ip (to_decimal (unat port))]))
   }"

definition udp_bound ::
    "string \<Rightarrow> string \<Rightarrow> reply \<Rightarrow> ('h, 'st, 'x) gateway \<Rightarrow> ('h, 'st, 'x) gateway \<times> progress \<times> frame list" where
  "udp_bound ip port r g =
     (if \<not> is_ok r then (g, Done r, [])
      else (with_conn (\<lambda>i. i\<lparr>udp := True\<rparr>) g, Await (Udp_connect ip port), [F_udp_connected]))"

definition udp_connected ::
    "reply \<Rightarrow> ('h, 'st, 'x) gateway \<Rightarrow> (('h, 'st, 'x) gateway \<times> progress \<times> frame list) option" where
  "udp_connected r g =
     (if \<not> is_ok r then Some (with_conn (\<lambda>i. i\<lparr>udp := False\<rparr>) g, Done r, [])
      else if \<not> udp (conn g) then None
      else do {
        pkt \<leftarrow> discovery_packet (v_ssrc (conn g));
        Some (g, Await (Udp_send pkt), [F_udp_sent])
      })"

definition udp_sent_discovery :: "reply \<Rightarrow> ('h, 'st, 'x) gateway \<Rightarrow> (progress \<times> frame list) option" where
  "udp_sent_discovery r g =
     (if \<not> is_ok r then Some (Done r, [])
      else if \<not> udp (conn g) then None
      else Some (Await Udp_receive, [F_udp_discovered]))"

definition select_protocol_json :: "string \<Rightarrow> u16 \<Rightarrow> json" where
  "select_protocol_json ip port = JObj [(''op'', JUint (unat (opcode_value Op_SelectProtocol))),
     (''d'', JObj [(''protocol'', JStr ''udp''), (''data'', JObj [(''address'', JStr ip),
        (''port'', JUint (unat port)), (''mode'', JStr ''aead_aes256_gcm_rtpsize'')])])]"

definition udp_discovered :: "reply \<Rightarrow> ('h, 'st, 'x) gateway \<Rightarrow> progress option" where
  "udp_discovered r g = (case r of
     Replied res \<Rightarrow>
       if length res < 74 then Some (Done (FailedWith message_size))
       else do {
         ip_view \<leftarrow> subspan res 8 64;
         port_bytes \<leftarrow> subspan res (length res - 2) 2;
         if \<not> ws (conn g) then None
         else Some (Await (Ws_send (select_protocol_json
                (string_of_bytes (takeWhile (\<lambda>b. b \<noteq> 0) ip_view)) (read_u16be port_bytes))))
       }
   | _ \<Rightarrow> Some (Done r))"

definition start_sender :: "('h, 'st, 'x) gateway \<Rightarrow> ('h, 'st, 'x) gateway" where
  "start_sender g =
     (if \<not> channel (conn g) \<or> \<not> udp (conn g) then g
      else (with_conn (\<lambda>i. i\<lparr>send_timer := True\<rparr>) g)\<lparr>sender_loops := sender_loops g + 1\<rparr>)"

definition start_receiver :: "('h, 'st, 'x) gateway \<Rightarrow> ('h, 'st, 'x) gateway" where
  "start_receiver g =
     (if \<not> udp (conn g) \<or> \<not> recv_chan (conn g) then g
      else (with_conn (\<lambda>i. i\<lparr>receiver_running := True\<rparr>) g)\<lparr>receiver_loops := receiver_loops g + 1\<rparr>)"

definition after_mls :: "reply \<Rightarrow> ('h, 'st, 'x) gateway \<Rightarrow> ('h, 'st, 'x) gateway \<times> progress" where
  "after_mls r g =
     (if \<not> is_ok r then (g, Done r)
      else (start_receiver (with_conn (\<lambda>i. i\<lparr>recv_chan := True\<rparr>)
              (start_sender (with_conn (\<lambda>i. i\<lparr>channel := True\<rparr>) g))), Done success))"

definition read_media_session_id :: "json \<Rightarrow> string \<Rightarrow> string option" where
  "read_media_session_id d old =
     (if contains d ''media_session_id'' then do {
        m \<leftarrow> json_at d ''media_session_id'';
        if is_null m then Some old else get_string m
      } else Some old)"

definition read_dave_version :: "json \<Rightarrow> int option" where
  "read_dave_version d =
     (if contains d ''dave_protocol_version'' then do {
        v \<leftarrow> json_at d ''dave_protocol_version'';
        if is_null v then Some 0 else get_int v
      } else Some 0)"

definition transport_mode :: "string \<Rightarrow> voice_transport_mode option" where
  "transport_mode mode_str =
     (if mode_str = ''aead_xchacha20_poly1305_rtpsize'' then Some XChaCha20_Poly1305_RTPSIZE
      else if mode_str = ''aead_aes256_gcm_rtpsize'' then Some AES256_GCM_RTPSIZE
      else None)"

text \<open>The version of the session description enters the DAVE state, which must have a session.\<close>

definition set_dave_version :: "int \<Rightarrow> ('h, 'st, 'x) gateway \<Rightarrow> ('h, 'st, 'x) gateway option" where
  "set_dave_version version g = (case dave (conn g) of
     None \<Rightarrow> Some g
   | Some ds \<Rightarrow> (case ds_session ds of
        None \<Rightarrow> None
      | Some s \<Rightarrow> Some (with_session (set_protocol_version (of_int version))
            (with_dave (\<lambda>ds. ds\<lparr>ds_protocol_version := of_int version\<rparr>) g))))"

definition handle_session_description ::
    "('h, 'st, 'x) ctx \<Rightarrow> json \<Rightarrow> ('h, 'st, 'x) gateway \<Rightarrow> (('h, 'st, 'x) gateway \<times> progress \<times> frame list) option" where
  "handle_session_description cx data g = do {
     d \<leftarrow> json_at data ''d'';
     media \<leftarrow> read_media_session_id d (media_session_id (conn g));
     mode_str \<leftarrow> Option.bind (json_at d ''mode'') get_string;
     key \<leftarrow> Option.bind (json_at d ''secret_key'') get_byte_vector;
     let g1 = with_conn (\<lambda>i. i\<lparr>media_session_id := media, crypto := (crypto i)\<lparr>vc_key := key, vc_nonce := 0\<rparr>\<rparr>) g;
     (case transport_mode mode_str of
        None \<Rightarrow> Some (g1, Done (FailedWith not_supported), [])
      | Some m \<Rightarrow> do {
          version \<leftarrow> read_dave_version d;
          g2 \<leftarrow> set_dave_version version (with_conn (\<lambda>i. i\<lparr>crypto := (crypto i)\<lparr>vc_mode := m\<rparr>\<rparr>) g1);
          (case dave (conn g2) of
             Some ds \<Rightarrow>
               if ds_protocol_version ds > 0 then do {
                 (g3, p) \<leftarrow> maybe_start_mls cx False (with_conn (\<lambda>i. i\<lparr>warned_waiting_for_e2ee := False\<rparr>) g2);
                 Some (g3, p, [F_after_mls])
               } else Some (g2, Done success, [F_after_mls])
           | None \<Rightarrow> Some (g2, Done success, [F_after_mls]))
        })
   }"

section \<open>Messages\<close>

definition op_json :: "voice_opcode \<Rightarrow> (string \<times> json) list \<Rightarrow> json" where
  "op_json op d = JObj [(''op'', JUint (unat (opcode_value op))), (''d'', JObj d)]"

definition resume_json :: "('h, 'st, 'x) gateway \<Rightarrow> snowflake \<Rightarrow> json" where
  "resume_json g guild = op_json Op_Resume [(''server_id'', JStr (to_string guild)),
     (''session_id'', JStr (vs_session_id (vstate (conn g)))), (''token'', JStr (token (conn g))),
     (''seq_ack'', JInt (last_seq (conn g)))]"

definition identify_json :: "('h, 'st, 'x) gateway \<Rightarrow> snowflake \<Rightarrow> json" where
  "identify_json g guild = op_json Op_Identify [(''server_id'', JStr (to_string guild)),
     (''user_id'', JStr (to_string (vs_user_id (vstate (conn g))))),
     (''session_id'', JStr (vs_session_id (vstate (conn g)))), (''token'', JStr (token (conn g))),
     (''max_dave_protocol_version'', JUint (unat max_protocol_version))]"

definition on_hello ::
    "json \<Rightarrow> ('h, 'st, 'x) gateway \<Rightarrow> (('h, 'st, 'x) gateway \<times> progress \<times> frame list) option" where
  "on_hello data g = do {
     g1 \<leftarrow> setup_heartbeat data g;
     guild \<leftarrow> vs_guild_id (vstate (conn g1));
     let resuming = (connection_state (conn g1) = Resuming);
     let g2 = (if resuming then g1 else with_conn (\<lambda>i. i\<lparr>connection_state := Identifying\<rparr>) g1);
     if \<not> ws (conn g2) then None
     else Some (g2, Await (Ws_send (if resuming then resume_json g2 guild else identify_json g2 guild)), [])
   }"

definition on_resumed :: "('h, 'st, 'x) gateway \<Rightarrow> ('h, 'st, 'x) gateway" where
  "on_resumed = with_conn (\<lambda>i. i\<lparr>connection_state := Ready, missed_heartbeats := 0, disconnected := False\<rparr>)"

definition on_speaking_event ::
    "('h, 'st, 'x) ctx \<Rightarrow> json \<Rightarrow> ('h, 'st, 'x) gateway \<Rightarrow> ('h, 'st, 'x) gateway option" where
  "on_speaking_event cx data g = do {
     d \<leftarrow> json_at data ''d'';
     if contains d ''ssrc'' \<and> contains d ''user_id'' then do {
       s_ssrc \<leftarrow> Option.bind (json_at d ''ssrc'') get_word;
       user_id \<leftarrow> Option.bind (json_at d ''user_id'') get_string;
       flags \<leftarrow> (if contains d ''speaking'' then Option.bind (json_at d ''speaking'') get_int else Some 0);
       Some (on_speaking cx user_id s_ssrc (flags \<noteq> 0) g)
     } else Some g
   }"

fun string_items :: "json \<Rightarrow> string list" where
  "string_items (JArr xs) = concat (map (\<lambda>j. case j of JStr s \<Rightarrow> [s] | _ \<Rightarrow> []) xs)"
| "string_items _ = []"

definition on_clients_connect :: "json \<Rightarrow> ('h, 'st, 'x) gateway \<Rightarrow> ('h, 'st, 'x) gateway option" where
  "on_clients_connect data g = do {
     d \<leftarrow> json_at data ''d'';
     if contains d ''user_ids'' then do {
       ids \<leftarrow> json_at d ''user_ids'';
       Some (if is_array ids
         then with_conn (\<lambda>i. i\<lparr>recognized_user_ids := recognized_user_ids i \<union> set (string_items ids)\<rparr>) g
         else g)
     } else Some g
   }"

definition on_client_disconnect :: "json \<Rightarrow> ('h, 'st, 'x) gateway \<Rightarrow> ('h, 'st, 'x) gateway option" where
  "on_client_disconnect data g = do {
     d \<leftarrow> json_at data ''d'';
     if contains d ''user_id'' then do {
       u \<leftarrow> json_at d ''user_id'';
       Some (case u of
           JStr user_id \<Rightarrow> with_conn (\<lambda>i. i\<lparr>recognized_user_ids := recognized_user_ids i - {user_id}\<rparr>) g
         | _ \<Rightarrow> g)
     } else Some g
   }"

definition current_dave_version :: "('h, 'st, 'x) gateway \<Rightarrow> int" where
  "current_dave_version g = (case dave (conn g) of Some ds \<Rightarrow> uint (ds_protocol_version ds) | None \<Rightarrow> 0)"

text \<open>The number under a key, \<^term>\<open>Some None\<close> when the key is missing or holds something else.\<close>

definition number_under :: "json \<Rightarrow> string \<Rightarrow> json option option" where
  "number_under d k =
     (if contains d k then do { v \<leftarrow> json_at d k; Some (if is_number v then Some v else None) } else Some None)"

definition on_prepare_transition ::
    "('h, 'st, 'x) ctx \<Rightarrow> json \<Rightarrow> ('h, 'st, 'x) gateway \<Rightarrow> (('h, 'st, 'x) gateway \<times> progress \<times> frame list) option" where
  "on_prepare_transition cx data g = do {
     d \<leftarrow> json_at data ''d'';
     tid_json \<leftarrow> number_under d ''transition_id'';
     (case tid_json of
        None \<Rightarrow> Some (g, Done success, [])
      | Some t \<Rightarrow> do {
          tid \<leftarrow> get_word t;
          version \<leftarrow> (if contains d ''protocol_version'' then Option.bind (json_at d ''protocol_version'') get_int
                      else Some (current_dave_version g));
          let g1 = with_conn (\<lambda>i. i\<lparr>dave_transition_versions := (dave_transition_versions i)(tid \<mapsto> version)\<rparr>) g;
          if tid = (0 :: u16) then
            (case the_session g1 of
               Some s \<Rightarrow> if has_current_state s then execute_dave_transition cx version g1
                         else Some (g1, Done success, [])
             | None \<Rightarrow> Some (g1, Done success, []))
          else (let g2 = (if version = 0 then with_encryptor (set_passthrough_mode True) g1 else g1)
                in if \<not> ws (conn g2) then None
                   else Some (g2, Await (Ws_send (transition_json Op_DaveTransitionReady tid)), []))
        })
   }"

definition on_execute_transition ::
    "('h, 'st, 'x) ctx \<Rightarrow> json \<Rightarrow> ('h, 'st, 'x) gateway \<Rightarrow> (('h, 'st, 'x) gateway \<times> progress \<times> frame list) option" where
  "on_execute_transition cx data g = do {
     d \<leftarrow> json_at data ''d'';
     tid_json \<leftarrow> number_under d ''transition_id'';
     (case tid_json of
        None \<Rightarrow> Some (g, Done success, [])
      | Some t \<Rightarrow> do {
          tid \<leftarrow> get_word t;
          (case dave_transition_versions (conn g) tid of
             None \<Rightarrow> execute_dave_transition cx (current_dave_version g) g
           | Some version \<Rightarrow> execute_dave_transition cx version
               (with_conn (\<lambda>i. i\<lparr>dave_transition_versions := (dave_transition_versions i)(tid := None)\<rparr>) g))
        })
   }"

text \<open>
  The version is set before the reset, which clears the session's copy of it again; the DAVE
  state keeps it.
\<close>

definition on_prepare_epoch ::
    "('h, 'st, 'x) ctx \<Rightarrow> json \<Rightarrow> ('h, 'st, 'x) gateway \<Rightarrow> (('h, 'st, 'x) gateway \<times> progress \<times> frame list) option" where
  "on_prepare_epoch cx data g = do {
     d \<leftarrow> json_at data ''d'';
     epoch \<leftarrow> number_under d ''epoch'';
     (case epoch of
        None \<Rightarrow> Some (g, Done success, [])
      | Some ej \<Rightarrow> do {
          e \<leftarrow> get_int ej;
          if e \<noteq> 1 then Some (g, Done success, [])
          else do {
            vj \<leftarrow> number_under d ''protocol_version'';
            version \<leftarrow> (case vj of None \<Rightarrow> Some 1 | Some v \<Rightarrow> get_int v);
            let g1 = (if the_session g = None then g
                      else with_session (\<lambda>s. session_reset (set_protocol_version (of_int version) s))
                             (with_dave (\<lambda>ds. ds\<lparr>ds_protocol_version := of_int version\<rparr>) g));
            (g2, p) \<leftarrow> maybe_start_mls cx False g1;
            Some (g2, p, [])
          }
        })
   }"

definition dispatch ::
    "('h, 'st, 'x) ctx \<Rightarrow> u8 \<Rightarrow> json \<Rightarrow> ('h, 'st, 'x) gateway \<Rightarrow> (('h, 'st, 'x) gateway \<times> progress \<times> frame list) option" where
  "dispatch cx op data g =
     (let go_on = (\<lambda>g'. (g', Done success, []))
      in if op = opcode_value Op_Ready then
           setup_udp cx data (with_conn (\<lambda>i. i\<lparr>disconnected := False, connection_state := Ready\<rparr>) g)
         else if op = opcode_value Op_SessionDescription then handle_session_description cx data g
         else if op = opcode_value Op_HeartbeatAck then
           Some (go_on (with_conn (\<lambda>i. i\<lparr>last_heartbeat_acked := True\<rparr>) g))
         else if op = opcode_value Op_Hello then on_hello data g
         else if op = opcode_value Op_Resumed then Some (go_on (on_resumed g))
         else if op = opcode_value Op_Speaking then map_option go_on (on_speaking_event cx data g)
         else if op = opcode_value Op_ClientsConnect then map_option go_on (on_clients_connect data g)
         else if op = opcode_value Op_ClientDisconnect then map_option go_on (on_client_disconnect data g)
         else if op = opcode_value Op_DavePrepareTransition then on_prepare_transition cx data g
         else if op = opcode_value Op_DaveExecuteTransition then on_execute_transition cx data g
         else if op = opcode_value Op_DavePrepareEpoch then on_prepare_epoch cx data g
         else Some (go_on g))"

definition on_text ::
    "('h, 'st, 'x) ctx \<Rightarrow> bytes \<Rightarrow> ('h, 'st, 'x) gateway \<Rightarrow> (('h, 'st, 'x) gateway \<times> progress \<times> frame list) option" where
  "on_text cx payload g = (case cx_parse cx payload of
     None \<Rightarrow> Some (g, Done success, [])
   | Some data \<Rightarrow> do {
       seq \<leftarrow> (if contains data ''seq'' then Option.bind (json_at data ''seq'') get_int64 else Some (last_seq (conn g)));
       op \<leftarrow> Option.bind (json_at data ''op'') get_int;
       dispatch cx (of_int op) data (with_conn (\<lambda>i. i\<lparr>last_seq := seq\<rparr>) g)
     })"

definition on_binary ::
    "('h, 'st, 'x) ctx \<Rightarrow> bytes \<Rightarrow> ('h, 'st, 'x) gateway \<Rightarrow> (('h, 'st, 'x) gateway \<times> progress \<times> frame list) option" where
  "on_binary cx payload g =
     (if length payload < 3 then Some (g, Done success, [])
      else do {
        op \<leftarrow> elem_at payload 2;
        handle_binary_event cx op (drop 3 payload)
          (with_conn (\<lambda>i. i\<lparr>last_seq := uint (read_u16be payload)\<rparr>) g)
      })"

text \<open>The completion of a read; after a message the loop goes on, whatever became of it.\<close>

definition on_message ::
    "('h, 'st, 'x) ctx \<Rightarrow> reply \<Rightarrow> ('h, 'st, 'x) gateway \<Rightarrow> (('h, 'st, 'x) gateway \<times> progress \<times> frame list) option" where
  "on_message cx r g = (case r of
     Message is_binary payload \<Rightarrow> do {
       (g', p, fs) \<leftarrow> (if payload = [] then Some (g, Done success, [])
          else if \<not> is_binary then on_text cx payload g else on_binary cx payload g);
       Some (g', p, fs @ [F_listen])
     }
   | ReadFailed reason \<Rightarrow> Some (listen_failed reason g, Done success, [])
   | _ \<Rightarrow> Some (listen_failed None g, Done success, []))"

section \<open>The interface\<close>

definition request_stop :: "('h, 'st, 'x) gateway \<Rightarrow> ('h, 'st, 'x) gateway" where
  "request_stop g = (with_conn (\<lambda>i. i\<lparr>disconnected := True, heartbeat_running := False, receiver_running := False,
     channel := False, ready_chan := False, recv_chan := False, heartbeat_timer := False,
     send_timer := False, udp := False, dave := None\<rparr>) g)\<lparr>transient_key := None\<rparr>"

text \<open>
  \<open>udp_close\<close> is what closing the socket returns. The test of the MLS session dereferences
  the DAVE state without a check.
\<close>

definition gw_close ::
    "reply \<Rightarrow> ('h, 'st, 'x) gateway \<Rightarrow> (('h, 'st, 'x) gateway \<times> progress \<times> frame list) option" where
  "gw_close udp_close g =
     (let had_udp = udp (conn g);
          g1 = with_conn (\<lambda>i. i\<lparr>heartbeat_running := False, channel := False, ready_chan := False,
                 recv_chan := False, heartbeat_timer := False, send_timer := False, udp := False\<rparr>) g
      in if had_udp \<and> \<not> is_ok udp_close then Some (g1, Done udp_close, [])
         else (case dave (conn g1) of
            None \<Rightarrow> None
          | Some ds \<Rightarrow>
              if (case ds_session ds of None \<Rightarrow> True | Some s \<Rightarrow> \<not> has_external_sender s)
              then Some (g1, Done success, [])
              else if \<not> ws (conn g1)
              then Some (with_conn (\<lambda>i. i\<lparr>disconnected := True\<rparr>) g1, Done success, [])
              else Some (g1, Await Ws_close, [F_closed])))"

definition ws_closed :: "reply \<Rightarrow> ('h, 'st, 'x) gateway \<Rightarrow> (progress \<times> frame list) option" where
  "ws_closed r g =
     (if \<not> is_ok r then Some (Done r, [])
      else if \<not> ws (conn g) then None else Some (Await Ws_read, [F_final_read]))"

definition final_read :: "('h, 'st, 'x) gateway \<Rightarrow> ('h, 'st, 'x) gateway" where
  "final_read = with_conn (\<lambda>i. i\<lparr>ws := False, disconnected := True\<rparr>)"

definition gw_reconnect :: "('h, 'st, 'x) gateway \<Rightarrow> progress option" where
  "gw_reconnect g =
     (if \<not> ws (conn g) then Some (Done (FailedWith operation_not_permitted))
      else do {
        guild \<leftarrow> vs_guild_id (vstate (conn g));
        Some (Await (Ws_send (op_json Op_Resume [(''server_id'', JStr (to_string guild)),
           (''session_id'', JStr (vs_session_id (vstate (conn g)))), (''token'', JStr (token (conn g)))])))
      })"

definition gw_run :: "('h, 'st, 'x) gateway \<Rightarrow> ('h, 'st, 'x) gateway \<times> progress \<times> frame list" where
  "gw_run g =
     (if ready_chan (conn g) then (g, Done success, [])
      else (let g1 = with_conn (\<lambda>i. i\<lparr>ready_chan := True\<rparr>) g
            in if \<not> ws (conn g1) then (g1, Await Ws_connect, [F_run_connected])
               else (ws_listen_loop g1, Await Ready_receive, [])))"

definition run_connected ::
    "reply \<Rightarrow> ('h, 'st, 'x) gateway \<Rightarrow> (('h, 'st, 'x) gateway \<times> progress) option" where
  "run_connected r g =
     (if \<not> is_ok r then Some (g, Done r)
      else if \<not> ready_chan (conn g) then None
      else Some (ws_listen_loop (with_conn (\<lambda>i. i\<lparr>ws := True\<rparr>) g), Await Ready_receive))"

definition gw_speak :: "u8 \<Rightarrow> ('h, 'st, 'x) gateway \<Rightarrow> ('h, 'st, 'x) gateway \<times> progress" where
  "gw_speak flags g =
     (if \<not> ws (conn g) then (g, Done (FailedWith operation_not_permitted))
      else (with_conn (\<lambda>i. i\<lparr>speaking := (flags \<noteq> 0)\<rparr>) g,
            Await (Ws_send (op_json Op_Speaking [(''speaking'', JUint (unat flags)), (''delay'', JInt 0),
               (''ssrc'', JUint (unat (v_ssrc (conn g))))]))))"

definition flush_check :: "('h, 'st, 'x) gateway \<Rightarrow> progress \<times> frame list" where
  "flush_check g = (if flush_done (conn g) then (Done success, []) else (Await Flush_wait, [F_flush_due]))"

definition flush_due :: "reply \<Rightarrow> ('h, 'st, 'x) gateway \<Rightarrow> progress \<times> frame list" where
  "flush_due r g = (if \<not> is_ok r then (Done r, []) else flush_check g)"

section \<open>The machine\<close>

text \<open>One completion handler; then the stack of them, until it is empty or one of them waits.\<close>

fun frame_step ::
    "('h, 'st, 'x) ctx \<Rightarrow> frame \<Rightarrow> reply \<Rightarrow> ('h, 'st, 'x) gateway \<Rightarrow> (('h, 'st, 'x) gateway \<times> progress \<times> frame list) option" where
  "frame_step cx F_listen r g = Some (g, listen_step g)"
| "frame_step cx F_message r g = on_message cx r g"
| "frame_step cx F_execute r g = execute_after_ready cx r g"
| "frame_step cx F_activate r g = map_option (\<lambda>(g', p). (g', p, [])) (activate_transition cx r g)"
| "frame_step cx F_restart_mls r g = map_option (\<lambda>(g', p). (g', p, [])) (restart_mls cx r g)"
| "frame_step cx F_after_mls r g = (case after_mls r g of (g', p) \<Rightarrow> Some (g', p, []))"
| "frame_step cx (F_udp_bound ip port) r g = Some (udp_bound ip port r g)"
| "frame_step cx F_udp_connected r g = udp_connected r g"
| "frame_step cx F_udp_sent r g = map_option (\<lambda>(p, fs). (g, p, fs)) (udp_sent_discovery r g)"
| "frame_step cx F_udp_discovered r g = map_option (\<lambda>p. (g, p, [])) (udp_discovered r g)"
| "frame_step cx F_heartbeat_due r g = Some (heartbeat_due cx r g)"
| "frame_step cx F_heartbeat_sent r g = Some (heartbeat_tick g, Done success, [])"
| "frame_step cx F_reconnect_due r g = Some (g, reconnect_due r g)"
| "frame_step cx F_reconnect_connected r g = (case ws_connected r g of (g', p) \<Rightarrow> Some (g', p, []))"
| "frame_step cx F_reconnected r g = Some (reconnected r g, Done success, [])"
| "frame_step cx F_run_connected r g = map_option (\<lambda>(g', p). (g', p, [])) (run_connected r g)"
| "frame_step cx F_closed r g = map_option (\<lambda>(p, fs). (g, p, fs)) (ws_closed r g)"
| "frame_step cx F_final_read r g = Some (final_read g, Done success, [])"
| "frame_step cx F_flush_due r g = Some (g, flush_due r g)"
| "frame_step cx (F_user h) r g = Some (g\<lparr>completed := completed g @ [(h, r)]\<rparr>, Done r, [])"

fun frame_weight :: "frame \<Rightarrow> nat" where
  "frame_weight F_message = 5"
| "frame_weight F_execute = 3"
| "frame_weight F_reconnect_due = 3"
| "frame_weight F_heartbeat_due = 2"
| "frame_weight _ = 1"

lemma announce_frames: "announce_ready tid g = (p, fs) \<Longrightarrow> p \<noteq> Done r"
  by (auto simp: announce_ready_def send_voice_json_def split: if_splits)

lemma recover_frames: "recover_mls tid g = (p, fs) \<Longrightarrow> p \<noteq> Done r"
  by (auto simp: recover_mls_def send_mls_invalid_commit_welcome_def send_voice_json_def split: if_splits)

lemma on_commit_frames: "on_commit cx payload s g = (g', Done r, fs) \<Longrightarrow> fs = []"
  by (auto simp: on_commit_def Let_def split: if_splits prod.splits roster_variant.splits
      dest: announce_frames recover_frames)

lemma on_welcome_frames: "on_welcome cx payload s g = (g', Done r, fs) \<Longrightarrow> fs = []"
  by (auto simp: on_welcome_def Let_def split: if_splits prod.splits option.splits
      dest: announce_frames recover_frames)

lemma execute_frames: "execute_dave_transition cx v g = Some (g', p, fs) \<Longrightarrow> fs = [] \<or> fs = [F_activate]"
  by (auto simp: execute_dave_transition_def Let_def split: if_splits Option.bind_splits)

lemma binary_frames: "handle_binary_event cx op payload g = Some (g', Done r, fs) \<Longrightarrow> fs = []"
  unfolding handle_binary_event_def
  by (auto simp: Let_def send_mls_commit_welcome_def split: option.splits if_splits prod.splits Option.bind_splits
      dest: on_commit_frames on_welcome_frames)

definition light :: "frame list \<Rightarrow> bool" where
  "light fs \<longleftrightarrow> sum_list (map frame_weight fs) \<le> 1"

lemma light_simps [simp]: "light []" "light [F_activate]" "light [F_after_mls]" "light [F_udp_bound a b]"
  by (simp_all add: light_def)

lemma description_frames: "handle_session_description cx data g = Some (g', p, fs) \<Longrightarrow> light fs"
  by (auto simp: handle_session_description_def Let_def split: option.splits if_splits Option.bind_splits)

lemma prepare_transition_frames: "on_prepare_transition cx data g = Some (g', p, fs) \<Longrightarrow> light fs"
  by (auto simp: on_prepare_transition_def Let_def split: option.splits if_splits Option.bind_splits
      dest: execute_frames)

lemma execute_transition_frames: "on_execute_transition cx data g = Some (g', p, fs) \<Longrightarrow> light fs"
  by (auto simp: on_execute_transition_def split: option.splits Option.bind_splits dest: execute_frames)

lemma dispatch_frames: "dispatch cx op data g = Some (g', p, fs) \<Longrightarrow> light fs"
  unfolding dispatch_def Let_def
  by (auto simp: setup_udp_def on_hello_def on_prepare_epoch_def Let_def
      split: if_splits Option.bind_splits option.splits
      dest: description_frames prepare_transition_frames execute_transition_frames)

lemma message_frames:
  assumes "on_message cx r g = Some (g', Done r', fs)"
  shows "sum_list (map frame_weight fs) < 5"
proof -
  have "on_text cx payload g = Some (g', p, fs') \<Longrightarrow> light fs'" for payload p fs'
    by (auto simp: on_text_def split: option.splits Option.bind_splits dest: dispatch_frames)
  moreover have "on_binary cx payload g = Some (g', Done r', fs') \<Longrightarrow> fs' = []" for payload fs'
    by (auto simp: on_binary_def split: if_splits Option.bind_splits dest: binary_frames)
  ultimately show ?thesis
    using assms by (fastforce simp: on_message_def light_def split: reply.splits if_splits Option.bind_splits)
qed

lemma frame_step_decreases:
  assumes "frame_step cx f r g = Some (g', Done r', fs)"
  shows "sum_list (map frame_weight fs) < frame_weight f"
  using assms
  by (cases f)
    (auto simp: listen_step_def udp_bound_def udp_connected_def udp_sent_discovery_def heartbeat_due_def
      reconnect_due_def ws_closed_def flush_due_def flush_check_def execute_after_ready_def Let_def
      split: if_splits prod.splits Option.bind_splits dest!: message_frames execute_frames)

function run_frames ::
    "('h, 'st, 'x) ctx \<Rightarrow> frame list \<Rightarrow> reply \<Rightarrow> ('h, 'st, 'x) gateway \<Rightarrow> ('h, 'st, 'x) gateway option" where
  "run_frames cx [] r g = Some g"
| "run_frames cx (f # fs) r g = (case frame_step cx f r g of
     None \<Rightarrow> None
   | Some (g', Done r', fs') \<Rightarrow> run_frames cx (fs' @ fs) r' g'
   | Some (g', Await a, fs') \<Rightarrow> Some (spawn a (fs' @ fs) g'))"
  by pat_completeness auto
termination
  by (relation "measure (\<lambda>(cx, fs, r, g). sum_list (map frame_weight fs))") (auto dest: frame_step_decreases)

definition proceed ::
    "('h, 'st, 'x) ctx \<Rightarrow> frame list \<Rightarrow> ('h, 'st, 'x) gateway \<times> progress \<times> frame list \<Rightarrow> ('h, 'st, 'x) gateway option" where
  "proceed cx rest = (\<lambda>(g, p, fs). case p of
     Done r \<Rightarrow> run_frames cx (fs @ rest) r g
   | Await a \<Rightarrow> Some (spawn a (fs @ rest) g))"

text \<open>
  An event completes the \<open>n\<close>-th pending operation, or is a call of the interface with the number
  of its completion handler. A posted handler gets what it was posted with.
\<close>

datatype gw_event =
    Complete nat reply | Call_run nat | Call_close reply nat | Call_reconnect nat
  | Call_speak u8 nat | Call_flush nat | Call_stop

definition reply_to :: "action \<Rightarrow> reply \<Rightarrow> reply" where
  "reply_to a r = (case a of Post r' \<Rightarrow> r' | _ \<Rightarrow> r)"

fun gw_step ::
    "('h, 'st, 'x) ctx \<Rightarrow> gw_event \<Rightarrow> ('h, 'st, 'x) gateway \<Rightarrow> ('h, 'st, 'x) gateway option" where
  "gw_step cx (Complete n r) g =
     (if n < length (pending g) then
        (case pending g ! n of (a, fs) \<Rightarrow>
           run_frames cx fs (reply_to a r) (g\<lparr>pending := take n (pending g) @ drop (Suc n) (pending g)\<rparr>))
      else Some g)"
| "gw_step cx (Call_run h) g = proceed cx [F_user h] (gw_run g)"
| "gw_step cx (Call_close u h) g = Option.bind (gw_close u g) (proceed cx [F_user h])"
| "gw_step cx (Call_reconnect h) g = Option.bind (gw_reconnect g) (\<lambda>p. proceed cx [F_user h] (g, p, []))"
| "gw_step cx (Call_speak flags h) g = (case gw_speak flags g of (g', p) \<Rightarrow> proceed cx [F_user h] (g', p, []))"
| "gw_step cx (Call_flush h) g = proceed cx [F_user h] (g, flush_check g)"
| "gw_step cx Call_stop g = Some (request_stop g)"

fun gw_steps ::
    "(('h, 'st, 'x) ctx \<times> gw_event) list \<Rightarrow> ('h, 'st, 'x) gateway \<Rightarrow> ('h, 'st, 'x) gateway option" where
  "gw_steps [] g = Some g"
| "gw_steps ((cx, ev) # evs) g = Option.bind (gw_step cx ev g) (gw_steps evs)"

definition gateway_init :: "voice_state \<Rightarrow> string \<Rightarrow> ('h, 'st, 'x) gateway" where
  "gateway_init st tok = \<lparr>conn = voice_impl_init st tok, transient_key = None, pending = [],
     sender_loops = 0, receiver_loops = 0, outbox = [], completed = []\<rparr>"

section \<open>Invariants of the machine\<close>

text \<open>
  What a property needs in order to hold along every run: every handler and every call keeps it,
  with the action it issues recorded.
\<close>

definition result_ok :: "(('h, 'st, 'x) gateway \<Rightarrow> bool) \<Rightarrow> ('h, 'st, 'x) gateway \<times> progress \<times> frame list \<Rightarrow> bool" where
  "result_ok I = (\<lambda>(g, p, fs). case p of Done r \<Rightarrow> I g | Await a \<Rightarrow> (\<forall>rest. I (spawn a (fs @ rest) g)))"

locale gateway_invariant =
  fixes I :: "('h, 'st, 'x) gateway \<Rightarrow> bool"
    and allowed :: "gw_event \<Rightarrow> bool"
  assumes frame_keeps: "I g \<Longrightarrow> frame_step cx f r g = Some res \<Longrightarrow> result_ok I res"
    and take_keeps: "I g \<Longrightarrow> I (g\<lparr>pending := ps\<rparr>)"
    and run_keeps: "I g \<Longrightarrow> result_ok I (gw_run g)"
    and close_keeps: "I g \<Longrightarrow> allowed (Call_close u h) \<Longrightarrow> gw_close u g = Some res \<Longrightarrow> result_ok I res"
    and reconnect_keeps: "I g \<Longrightarrow> gw_reconnect g = Some p \<Longrightarrow> result_ok I (g, p, [])"
    and speak_keeps: "I g \<Longrightarrow> gw_speak flags g = (g', p) \<Longrightarrow> result_ok I (g', p, [])"
    and flush_keeps: "I g \<Longrightarrow> result_ok I (g, flush_check g)"
    and stop_keeps: "I g \<Longrightarrow> allowed Call_stop \<Longrightarrow> I (request_stop g)"
begin

lemma run_frames_keeps: "I g \<Longrightarrow> run_frames cx fs r g = Some g' \<Longrightarrow> I g'"
proof (induction cx fs r g rule: run_frames.induct)
  case (2 cx f fs r g)
  from "2.prems"(2) obtain g1 p fs1 where s: "frame_step cx f r g = Some (g1, p, fs1)"
    by (auto split: option.splits)
  from frame_keeps [OF "2.prems"(1) s] have ok: "result_ok I (g1, p, fs1)" .
  show ?case
  proof (cases p)
    case (Done r1)
    then show ?thesis using "2.IH" [OF s refl refl Done] "2.prems"(2) ok s by (simp add: result_ok_def)
  next
    case (Await a)
    then show ?thesis using "2.prems"(2) ok s by (auto simp: result_ok_def)
  qed
qed simp

lemma proceed_keeps: "result_ok I res \<Longrightarrow> proceed cx rest res = Some g' \<Longrightarrow> I g'"
  by (cases res) (auto simp: proceed_def result_ok_def intro: run_frames_keeps split: progress.splits)

lemma step_keeps: "I g \<Longrightarrow> allowed ev \<Longrightarrow> gw_step cx ev g = Some g' \<Longrightarrow> I g'"
  by (cases ev)
    (auto split: prod.splits if_splits Option.bind_splits
      dest: run_frames_keeps [OF take_keeps] proceed_keeps [OF run_keeps] proceed_keeps [OF close_keeps]
        proceed_keeps [OF reconnect_keeps] proceed_keeps [OF speak_keeps] proceed_keeps [OF flush_keeps]
      intro: stop_keeps)

lemma steps_keep: "I g \<Longrightarrow> (\<forall>e\<in>set evs. allowed (snd e)) \<Longrightarrow> gw_steps evs g = Some g' \<Longrightarrow> I g'"
  by (induction evs g rule: gw_steps.induct) (auto split: Option.bind_splits dest: step_keeps)

end

end
