(* ===== verification/Gateway_Properties.thy ===== *)
theory Gateway_Properties
  imports Voice_Gateway
begin

text \<open>
  Properties of the voice gateway machine: what holds of the MLS session and the encryptor
  whatever the server sends, how a connection resumes, and what becomes of the heartbeats.
\<close>

section \<open>The DAVE state\<close>

definition keyed :: "'h encryptor \<Rightarrow> bool" where
  "keyed e \<longleftrightarrow> en_passthrough_mode e \<or> has_key_ratchet e"

definition dave_ok :: "('h, ('st, 'x) session) dave_state \<Rightarrow> bool" where
  "dave_ok ds \<longleftrightarrow> (\<exists>s. ds_session ds = Some s \<and> session_ok s) \<and> (\<exists>e. ds_encryptor ds = Some e \<and> keyed e)"

definition gateway_ok :: "('h, 'st, 'x) gateway \<Rightarrow> bool" where
  "gateway_ok g \<longleftrightarrow> (\<forall>ds. dave (conn g) = Some ds \<longrightarrow> dave_ok ds)"

lemma keyed_simps [simp]:
  "keyed (set_passthrough_mode True e)"
  "has_key_ratchet e \<Longrightarrow> keyed (set_passthrough_mode b e)"
  "keyed (set_key_ratchet (Some ratchet) e)"
  "keyed encryptor_init"
  "keyed (fresh_encryptor own)"
  by (simp_all add: keyed_def set_passthrough_mode_def has_key_ratchet_def set_key_ratchet_def encryptor_init_def
      fresh_encryptor_def assign_ssrc_to_codec_def)

lemma gateway_ok_upd [simp]:
  "gateway_ok (g\<lparr>pending := ps\<rparr>) = gateway_ok g"
  "gateway_ok (g\<lparr>completed := cs\<rparr>) = gateway_ok g"
  "gateway_ok (g\<lparr>transient_key := k\<rparr>) = gateway_ok g"
  "gateway_ok (g\<lparr>sender_loops := n\<rparr>) = gateway_ok g"
  "gateway_ok (g\<lparr>receiver_loops := n\<rparr>) = gateway_ok g"
  "gateway_ok (spawn a fs g) = gateway_ok g"
  "result_ok gateway_ok (g, p, fs) = gateway_ok g"
  by (simp_all add: gateway_ok_def spawn_def result_ok_def split: progress.splits)

lemma gateway_ok_with_conn:
  "gateway_ok g \<Longrightarrow> (dave (f (conn g)) = dave (conn g) \<or> dave (f (conn g)) = None) \<Longrightarrow> gateway_ok (with_conn f g)"
  by (auto simp: gateway_ok_def with_conn_def)

lemma gateway_ok_with_dave:
  "gateway_ok g \<Longrightarrow> (\<And>ds. dave_ok ds \<Longrightarrow> dave_ok (f ds)) \<Longrightarrow> gateway_ok (with_dave f g)"
  by (auto simp: gateway_ok_def with_dave_def)

lemma gateway_ok_with_session:
  "gateway_ok g \<Longrightarrow> (\<And>s. session_ok s \<Longrightarrow> session_ok (f s)) \<Longrightarrow> gateway_ok (with_session f g)"
  unfolding with_session_def by (rule gateway_ok_with_dave) (auto simp: dave_ok_def)

lemma gateway_ok_with_encryptor:
  "gateway_ok g \<Longrightarrow> (\<And>e. keyed e \<Longrightarrow> keyed (f e)) \<Longrightarrow> gateway_ok (with_encryptor f g)"
  unfolding with_encryptor_def by (rule gateway_ok_with_dave) (auto simp: dave_ok_def)

lemma gateway_session_ok: "gateway_ok g \<Longrightarrow> the_session g = Some s \<Longrightarrow> session_ok s"
  by (auto simp: gateway_ok_def the_session_def dave_ok_def split: Option.bind_splits)

lemma reset_ok: "session_ok s \<Longrightarrow> session_ok (session_reset s)"
  by (simp add: clear_pending_ok(2) session_ok_def [THEN iffD1])

lemma set_version_ok [simp]: "session_ok (set_protocol_version v s) = session_ok s"
  by (simp add: set_protocol_version_def)

lemmas keeps_intros =
  gateway_ok_with_conn gateway_ok_with_dave gateway_ok_with_session gateway_ok_with_encryptor

lemma send_key_package_keeps:
  assumes "gateway_ok g" "send_mls_key_package cx g = (g', p)" shows "gateway_ok g'"
proof (cases "the_session g")
  case None
  then show ?thesis using assms by (simp add: send_mls_key_package_def)
next
  case (Some s)
  obtain s' kp where kp: "get_marshalled_key_package (cx_mls cx) (cx_rnd cx) s = (s', kp)" by force
  have "session_ok s'" using key_package_ok [OF gateway_session_ok [OF assms(1) Some]] kp by (metis fst_conv)
  then have "gateway_ok (with_session (\<lambda>_. s') g)" using assms(1) by (intro gateway_ok_with_session) auto
  then show ?thesis using assms(2) Some kp by (auto simp: send_mls_key_package_def Let_def split: if_splits)
qed

lemma start_mls_keeps:
  assumes "gateway_ok g" "session_ok s" "start_mls cx v s g = Some (g', p)" shows "gateway_ok g'"
proof -
  obtain gid where gid: "compute_group_id g = Some gid"
    using assms(3) by (auto simp: start_mls_def split: Option.bind_splits)
  obtain s' key where i: "session_init (cx_mls cx) (cx_persisted cx None) (cx_rnd cx) v gid
      (vs_user_id (vstate (conn g))) (transient_key g) s = (s', key)" by force
  then have "session_ok s'" using session_init_ok [OF assms(2)] by (metis fst_conv)
  then have "gateway_ok (with_dave (\<lambda>ds. ds\<lparr>ds_session := Some s',
      ds_encryptor := Some (fresh_encryptor (v_ssrc (conn g)))\<rparr>) (g\<lparr>transient_key := key\<rparr>))"
    using assms(1) by (intro gateway_ok_with_dave) (simp_all add: dave_ok_def)
  then show ?thesis
    using assms(3) gid i by (auto simp: start_mls_def intro: send_key_package_keeps)
qed

lemma maybe_start_keeps:
  assumes "gateway_ok g" "maybe_start_mls cx b g = Some (g', p)" shows "gateway_ok g'"
proof -
  have "gateway_ok (with_session (\<lambda>_. s) g)" if "session_ok s" for s
    using that assms(1) by (intro gateway_ok_with_session) auto
  moreover have "session_ok s" if "dave (conn g) = Some ds" "ds_session ds = Some s" for ds s
    using that assms(1) by (auto simp: gateway_ok_def dave_ok_def)
  ultimately show ?thesis
    using assms by (auto simp: maybe_start_mls_def Let_def reset_ok
        split: option.splits if_splits dest!: start_mls_keeps [rotated -1])
qed

lemma keyed_rekey: "keyed e \<Longrightarrow> keyed (case k of None \<Rightarrow> e | Some ratchet \<Rightarrow> set_key_ratchet (Some ratchet) e)"
  by (cases k) simp_all

lemma update_ratchets_keeps:
  assumes "gateway_ok g" "update_ratchets cx g = Some g'" shows "gateway_ok g'"
proof (cases "the_session g")
  case None
  then show ?thesis using assms by (simp add: update_ratchets_def)
next
  case (Some s)
  obtain code where code: "generate_displayable_code (get_last_epoch_authenticator (cx_mls cx) s) 30 5 = Some code"
    using assms(2) Some by (auto simp: update_ratchets_def Let_def split: Option.bind_splits)
  show ?thesis
    using assms(2) unfolding update_ratchets_def Some option.case code Let_def Option.bind_lunit option.inject
    by (elim subst) (rule gateway_ok_with_dave [OF assms(1)], auto simp: dave_ok_def keyed_rekey)
qed

lemma execute_keeps:
  assumes "gateway_ok g" "execute_dave_transition cx v g = Some (g', p, fs)" shows "gateway_ok g'"
  using assms
  by (auto simp: execute_dave_transition_def Let_def split: if_splits Option.bind_splits
      intro!: keeps_intros elim!: maybe_start_keeps [rotated] simp: dave_ok_def reset_ok)

lemma activate_keeps:
  assumes "gateway_ok g" "activate_transition cx r g = Some (g', p)" shows "gateway_ok g'"
proof -
  have flag: "gateway_ok (g2\<lparr>conn := (conn g2)\<lparr>warned_waiting_for_e2ee := b\<rparr>\<rparr>) = gateway_ok g2" for g2 b
    by (simp add: gateway_ok_def)
  have "gateway_ok (with_encryptor (set_passthrough_mode False) g1)"
    if "gateway_ok g1" "the_encryptor g1 = Some e" "has_key_ratchet e" for g1 e
    using that by (auto simp: gateway_ok_def with_encryptor_def with_dave_def dave_ok_def the_encryptor_def
        split: Option.bind_splits)
  moreover have "gateway_ok (with_encryptor (set_passthrough_mode True) g1)" if "gateway_ok g1" for g1
    using that by (intro gateway_ok_with_encryptor) auto
  ultimately show ?thesis
    using assms by (auto simp: activate_transition_def Let_def flag dest!: update_ratchets_keeps [OF assms(1)]
        split: if_splits Option.bind_splits)
qed

lemma restart_keeps: "gateway_ok g \<Longrightarrow> restart_mls cx r g = Some (g', p) \<Longrightarrow> gateway_ok g'"
  by (auto simp: restart_mls_def split: if_splits
      elim!: maybe_start_keeps [rotated] intro!: gateway_ok_with_session reset_ok)

lemma on_commit_keeps:
  assumes "gateway_ok g" "session_ok s" "on_commit cx payload s g = (g', p, fs)" shows "gateway_ok g'"
proof -
  obtain s' res where c: "process_commit (cx_mls cx) (drop 2 payload) s = (s', res)" by force
  then have "session_ok s'" using process_commit_ok [OF assms(2)] by (metis fst_conv)
  then have g1: "gateway_ok (with_session (\<lambda>_. s') g)" using assms(1) by (intro gateway_ok_with_session) auto
  have "gateway_ok (with_dave (\<lambda>ds. ds\<lparr>ds_cached_roster_map := m\<rparr>) (with_session (\<lambda>_. s') g))" for m
    using g1 by (intro gateway_ok_with_dave) (simp_all add: dave_ok_def)
  then show ?thesis
    using assms(1,3) g1 c by (auto simp: on_commit_def Let_def split: if_splits roster_variant.splits)
qed

lemma on_welcome_keeps:
  assumes "gateway_ok g" "session_ok s" "on_welcome cx payload s g = (g', p, fs)" shows "gateway_ok g'"
proof -
  obtain s' res where c: "process_welcome (cx_mls cx) (drop 2 payload) (recognized g) s = (s', res)" by force
  then have "session_ok s'" using process_welcome_ok [OF assms(2)] by (metis fst_conv)
  then have g1: "gateway_ok (with_session (\<lambda>_. s') g)" using assms(1) by (intro gateway_ok_with_session) auto
  have "gateway_ok (with_dave (\<lambda>ds. ds\<lparr>ds_decryptors := f ds\<rparr>) (with_session (\<lambda>_. s') g))" for f
    using g1 by (intro gateway_ok_with_dave) (simp_all add: dave_ok_def)
  then show ?thesis
    using assms(1,3) g1 c by (auto simp: on_welcome_def Let_def split: if_splits option.splits)
qed

lemma binary_keeps:
  assumes "gateway_ok g" "handle_binary_event cx op payload g = Some (g', p, fs)" shows "gateway_ok g'"
proof (cases "the_session g")
  case None
  then show ?thesis using assms by (simp add: handle_binary_event_def)
next
  case (Some s)
  note ok = gateway_session_ok [OF assms(1) Some]
  have put: "gateway_ok (with_session (\<lambda>_. s') g)" if "session_ok s'" for s'
    using that assms(1) by (intro gateway_ok_with_session) auto
  obtain s' res where pp: "process_proposals (cx_mls cx) (cx_rnd cx) payload (recognized g) s = (s', res)" by force
  have "session_ok s'" using process_proposals_ok [OF ok] pp by (metis fst_conv)
  with assms Some show ?thesis
    by (auto simp: handle_binary_event_def Let_def pp put set_external_sender_ok ok
        split: if_splits option.splits Option.bind_splits
        dest: on_commit_keeps [OF assms(1) ok] on_welcome_keeps [OF assms(1) ok] dest!: maybe_start_keeps [rotated])
qed

lemma heartbeat_keeps:
  "gateway_ok g \<Longrightarrow> gateway_ok (heartbeat_tick g)"
  "gateway_ok g \<Longrightarrow> gateway_ok (initiate_reconnect g)"
  "gateway_ok g \<Longrightarrow> gateway_ok (ws_listen_loop g)"
  "gateway_ok g \<Longrightarrow> gateway_ok (listen_failed c g)"
  "gateway_ok g \<Longrightarrow> setup_heartbeat data g = Some g' \<Longrightarrow> gateway_ok g'"
  by (auto simp: heartbeat_tick_def initiate_reconnect_def ws_listen_loop_def listen_failed_def setup_heartbeat_def
      Let_def intro!: gateway_ok_with_conn split: Option.bind_splits if_splits option.splits)

lemma heartbeat_due_keeps: "gateway_ok g \<Longrightarrow> heartbeat_due cx r g = (g', p, fs) \<Longrightarrow> gateway_ok g'"
  by (auto simp: heartbeat_due_def Let_def intro!: gateway_ok_with_conn heartbeat_keeps(2) split: if_splits)

lemma prepare_dave_keeps: "gateway_ok g \<Longrightarrow> gateway_ok (prepare_dave cx g)"
  by (auto simp: prepare_dave_def with_conn_def gateway_ok_def dave_ok_def session_ok_init split: option.splits)

lemma setup_udp_keeps:
  assumes "gateway_ok g" "setup_udp cx data g = Some (g', p, fs)" shows "gateway_ok g'"
  using assms
  by (auto simp: setup_udp_def Let_def intro!: gateway_ok_with_encryptor prepare_dave_keeps gateway_ok_with_conn
      split: Option.bind_splits if_splits)

lemma after_mls_keeps: "gateway_ok g \<Longrightarrow> after_mls r g = (g', p) \<Longrightarrow> gateway_ok g'"
  by (auto simp: after_mls_def start_receiver_def start_sender_def intro!: gateway_ok_with_conn split: if_splits)

lemma description_keeps:
  assumes "gateway_ok g" "handle_session_description cx data g = Some (g', p, fs)" shows "gateway_ok g'"
proof -
  have v: "gateway_ok g2" if "gateway_ok g1" "set_dave_version v g1 = Some g2" for g1 g2 :: "('a, 'b, 'c) gateway" and v
    using that by (auto simp: set_dave_version_def dave_ok_def intro!: keeps_intros split: option.splits)
  have c: "gateway_ok (with_conn (\<lambda>i. i\<lparr>warned_waiting_for_e2ee := False\<rparr>) g1) = gateway_ok g1"
    "gateway_ok (with_conn (\<lambda>i. i\<lparr>crypto := f i\<rparr>) g1) = gateway_ok g1"
    "gateway_ok (with_conn (\<lambda>i. i\<lparr>media_session_id := m, crypto := f i\<rparr>) g1) = gateway_ok g1"
    for g1 :: "('a, 'b, 'c) gateway" and f m
    by (simp_all add: gateway_ok_def with_conn_def)
  show ?thesis
    using assms
    by (auto simp: handle_session_description_def Let_def c split: Option.bind_splits if_splits option.splits
        dest!: v [rotated] maybe_start_keeps [rotated])
qed

lemma on_speaking_keeps: "gateway_ok g \<Longrightarrow> gateway_ok (on_speaking cx u s b g)"
proof -
  have *: "gateway_ok (g1\<lparr>conn := (conn g1)\<lparr>ssrc_to_user_id := a, user_id_to_ssrc := b, recognized_user_ids := c\<rparr>\<rparr>)
      = gateway_ok g1" for g1 :: "('a, 'b, 'c) gateway" and a b c
    by (simp add: gateway_ok_def)
  show "gateway_ok g \<Longrightarrow> gateway_ok (on_speaking cx u s b g)"
    unfolding on_speaking_def Let_def
    by (auto simp: * dave_ok_def intro!: gateway_ok_with_dave split: option.splits)
qed

lemma prepare_transition_keeps:
  assumes "gateway_ok g" "on_prepare_transition cx data g = Some (g', p, fs)" shows "gateway_ok g'"
proof -
  have c: "gateway_ok (with_conn (\<lambda>i. i\<lparr>dave_transition_versions := m i\<rparr>) g)" for m
    using assms(1) by (intro gateway_ok_with_conn) simp_all
  have e: "gateway_ok (with_encryptor (set_passthrough_mode True) g1)" if "gateway_ok g1" for g1 :: "('a, 'b, 'c) gateway"
    using that by (intro gateway_ok_with_encryptor) auto
  show ?thesis
    using assms c e
    by (auto simp: on_prepare_transition_def Let_def split: Option.bind_splits if_splits option.splits
        dest!: execute_keeps [OF c])
qed

lemma execute_transition_keeps:
  assumes "gateway_ok g" "on_execute_transition cx data g = Some (g', p, fs)" shows "gateway_ok g'"
proof -
  have c: "gateway_ok (with_conn (\<lambda>i. i\<lparr>dave_transition_versions := m i\<rparr>) g)" for m
    using assms(1) by (intro gateway_ok_with_conn) simp_all
  show ?thesis
    using assms by (auto simp: on_execute_transition_def split: Option.bind_splits option.splits
        dest!: execute_keeps [OF c] execute_keeps [OF assms(1)])
qed

lemma prepare_epoch_keeps:
  assumes "gateway_ok g" "on_prepare_epoch cx data g = Some (g', p, fs)" shows "gateway_ok g'"
proof -
  have "gateway_ok (with_session (\<lambda>s. session_reset (set_protocol_version v s))
      (with_dave (\<lambda>ds. ds\<lparr>ds_protocol_version := v\<rparr>) g))" for v
    using assms(1) by (intro keeps_intros) (auto simp: dave_ok_def reset_ok)
  then show ?thesis
    using assms by (auto simp: on_prepare_epoch_def Let_def split: Option.bind_splits option.splits if_splits
        dest!: maybe_start_keeps [rotated])
qed

lemma clients_keep:
  "gateway_ok g \<Longrightarrow> on_clients_connect data g = Some g' \<Longrightarrow> gateway_ok g'"
  "gateway_ok g \<Longrightarrow> on_client_disconnect data g = Some g' \<Longrightarrow> gateway_ok g'"
  "gateway_ok g \<Longrightarrow> on_speaking_event cx data g = Some g' \<Longrightarrow> gateway_ok g'"
  by (auto simp: on_clients_connect_def on_client_disconnect_def on_speaking_event_def
      intro!: gateway_ok_with_conn on_speaking_keeps split: Option.bind_splits if_splits json.splits)

lemma hello_keeps:
  assumes "gateway_ok g" "on_hello data g = Some (g', p, fs)" shows "gateway_ok g'"
proof -
  obtain g1 where g1: "setup_heartbeat data g = Some g1"
    using assms(2) by (auto simp: on_hello_def split: Option.bind_splits)
  have "g' = g1 \<or> g' = with_conn (\<lambda>i. i\<lparr>connection_state := Identifying\<rparr>) g1"
    using assms(2) by (auto simp: on_hello_def g1 Let_def split: Option.bind_splits if_splits)
  then show ?thesis
    using heartbeat_keeps(5) [OF assms(1) g1] by (auto intro!: gateway_ok_with_conn)
qed

lemma if_someE: "(if b then x else y) = Some z \<Longrightarrow> (x = Some z \<Longrightarrow> P) \<Longrightarrow> (y = Some z \<Longrightarrow> P) \<Longrightarrow> P"
  by (simp split: if_splits)

lemma dispatch_keeps:
  assumes "gateway_ok g" "dispatch cx op data g = Some (g', p, fs)" shows "gateway_ok g'"
proof -
  have "gateway_ok (with_conn (\<lambda>i. i\<lparr>disconnected := False, connection_state := Ready\<rparr>) g)"
    "gateway_ok (with_conn (\<lambda>i. i\<lparr>last_heartbeat_acked := True\<rparr>) g)" "gateway_ok (on_resumed g)"
    using assms(1) by (auto simp: on_resumed_def intro!: gateway_ok_with_conn)
  with assms(1) show ?thesis
    using assms(2) unfolding dispatch_def Let_def
    by (elim if_someE) (auto dest: setup_udp_keeps description_keeps hello_keeps clients_keep
        prepare_transition_keeps execute_transition_keeps prepare_epoch_keeps)
qed

lemma message_keeps:
  assumes "gateway_ok g" "on_message cx r g = Some (g', p, fs)" shows "gateway_ok g'"
proof -
  have c: "gateway_ok (with_conn (\<lambda>i. i\<lparr>last_seq := q\<rparr>) g)" for q
    using assms(1) by (intro gateway_ok_with_conn) simp_all
  have "gateway_ok g2" if "on_text cx payload g = Some (g2, p2, fs2)" for payload g2 p2 fs2
    using that assms(1) by (auto simp: on_text_def split: option.splits Option.bind_splits dest!: dispatch_keeps [OF c])
  moreover have "gateway_ok g2" if "on_binary cx payload g = Some (g2, p2, fs2)" for payload g2 p2 fs2
    using that assms(1) by (auto simp: on_binary_def split: if_splits Option.bind_splits dest!: binary_keeps [OF c])
  ultimately show ?thesis
    using assms by (auto simp: on_message_def heartbeat_keeps(4) split: reply.splits if_splits Option.bind_splits)
qed

lemma frame_keeps_gateway_ok:
  assumes "gateway_ok g" "frame_step cx f r g = Some (g', p, fs)" shows "gateway_ok g'"
  using assms
  by (cases f)
    (auto simp: execute_after_ready_def udp_bound_def udp_connected_def ws_connected_def reconnected_def
      run_connected_def final_read_def heartbeat_keeps
      intro!: gateway_ok_with_conn heartbeat_keeps(3) split: if_splits prod.splits Option.bind_splits
      dest: message_keeps execute_keeps activate_keeps restart_keeps after_mls_keeps heartbeat_due_keeps)

interpretation session_gate: gateway_invariant gateway_ok "\<lambda>_. True"
proof
  fix g :: "('a, 'b, 'c) gateway" and cx f r res
  assume "gateway_ok g" "frame_step cx f r g = Some res"
  then show "result_ok gateway_ok res" by (cases res) (auto dest: frame_keeps_gateway_ok)
next
  fix g :: "('a, 'b, 'c) gateway" and u h res
  assume "gateway_ok g" "gw_close u g = Some res"
  then show "result_ok gateway_ok res"
    by (cases res) (auto simp: gw_close_def Let_def intro!: gateway_ok_with_conn split: if_splits option.splits)
qed (auto simp: gw_run_def gw_speak_def request_stop_def Let_def ws_listen_loop_def result_ok_def
    intro!: gateway_ok_with_conn split: if_splits progress.splits)

section \<open>Heartbeats\<close>

definition is_heartbeat :: "action \<Rightarrow> bool" where
  "is_heartbeat a = (case a of Ws_send j \<Rightarrow> json_at j ''op'' = Some (JUint 3) | _ \<Rightarrow> False)"

definition heartbeats :: "('h, 'st, 'x) gateway \<Rightarrow> nat" where
  "heartbeats g = length (filter is_heartbeat (outbox g))"

text \<open>A timer that exists but does not run, and the number of heartbeats sent so far.\<close>

definition frozen :: "nat \<Rightarrow> ('h, 'st, 'x) gateway \<Rightarrow> bool" where
  "frozen n g \<longleftrightarrow> heartbeat_timer (conn g) \<and> \<not> heartbeat_running (conn g) \<and> heartbeats g = n"

definition silent :: "progress \<Rightarrow> bool" where
  "silent p = (case p of Await a \<Rightarrow> \<not> is_heartbeat a | Done _ \<Rightarrow> True)"

lemma frozen_upd [simp]:
  "frozen n (g\<lparr>pending := ps\<rparr>) = frozen n g"
  "frozen n (g\<lparr>completed := cs\<rparr>) = frozen n g"
  "frozen n (g\<lparr>transient_key := k\<rparr>) = frozen n g"
  "frozen n (g\<lparr>sender_loops := m\<rparr>) = frozen n g"
  "frozen n (g\<lparr>receiver_loops := m\<rparr>) = frozen n g"
  "frozen n (with_dave f g) = frozen n g"
  "frozen n (with_session f1 g) = frozen n g"
  "frozen n (with_encryptor f2 g) = frozen n g"
  by (simp_all add: frozen_def heartbeats_def with_dave_def with_session_def with_encryptor_def)

lemma frozen_with_conn [simp]:
  assumes "heartbeat_timer (f (conn g)) = heartbeat_timer (conn g)"
    "heartbeat_running (f (conn g)) = heartbeat_running (conn g)"
  shows "frozen n (with_conn f g) = frozen n g"
  using assms by (simp add: frozen_def heartbeats_def with_conn_def)

lemma frozen_stopped:
  assumes "frozen n g" "heartbeat_timer (f (conn g)) = heartbeat_timer (conn g)" "\<not> heartbeat_running (f (conn g))"
  shows "frozen n (with_conn f g)"
  using assms by (simp add: frozen_def heartbeats_def with_conn_def)

lemma frozen_spawn [simp]: "\<not> is_heartbeat a \<Longrightarrow> frozen n (spawn a fs g) = frozen n g"
  by (simp add: frozen_def heartbeats_def spawn_def)

lemma silent_simps [simp]:
  "silent (Done r)" "silent (Await a) = (\<not> is_heartbeat a)"
  by (simp_all add: silent_def)

lemma is_heartbeat_simps [simp]:
  "\<not> is_heartbeat (Ws_send_bytes bs)" "\<not> is_heartbeat Ws_read" "\<not> is_heartbeat Ws_close"
  "\<not> is_heartbeat Ws_connect" "\<not> is_heartbeat (Udp_bind a)" "\<not> is_heartbeat (Udp_connect a b)"
  "\<not> is_heartbeat (Udp_send bs)" "\<not> is_heartbeat Udp_receive" "\<not> is_heartbeat (Post r)"
  "\<not> is_heartbeat (Heartbeat_wait ms)" "\<not> is_heartbeat Reconnect_wait" "\<not> is_heartbeat Flush_wait"
  "\<not> is_heartbeat Ready_receive"
  "is_heartbeat (Ws_send (op_json op d)) = (op = Op_Heartbeat)"
  "is_heartbeat (Ws_send (transition_json op tid)) = (op = Op_Heartbeat)"
  "\<not> is_heartbeat (Ws_send (select_protocol_json ip port))"
  "\<not> is_heartbeat (Ws_send (resume_json g guild))" "\<not> is_heartbeat (Ws_send (identify_json g guild))"
  by (simp_all add: is_heartbeat_def op_json_def transition_json_def select_protocol_json_def resume_json_def
      identify_json_def) (cases op; simp)+

lemma frozen_result: "result_ok (frozen n) (g, p, fs) = (frozen n g \<and> silent p)" if "silent p"
  using that by (cases p) (simp_all add: result_ok_def)

lemma silent_sends [simp]:
  "silent (send_voice_json (transition_json Op_DaveTransitionReady tid) g)"
  "silent (send_voice_binary op bs g)"
  "silent (send_mls_commit_welcome bs g)"
  "silent (send_mls_invalid_commit_welcome tid g)"
  "silent (fst (announce_ready tid g))" "silent (fst (recover_mls tid g))"
  by (simp_all add: send_voice_json_def send_voice_binary_def send_mls_commit_welcome_def
      send_mls_invalid_commit_welcome_def announce_ready_def recover_mls_def)

lemma key_package_frozen:
  assumes "frozen n g" "send_mls_key_package cx g = (g', p)" shows "frozen n g' \<and> silent p"
  using assms by (auto simp: send_mls_key_package_def Let_def split: option.splits prod.splits if_splits)

lemma start_mls_frozen: "frozen n g \<Longrightarrow> start_mls cx v s g = Some (g', p) \<Longrightarrow> frozen n g' \<and> silent p"
  by (auto simp: start_mls_def split: Option.bind_splits prod.splits dest!: key_package_frozen [rotated])

lemma maybe_start_frozen:
  assumes "frozen n g" "maybe_start_mls cx b g = Some (g', p)" shows "frozen n g' \<and> silent p"
  using assms by (auto simp: maybe_start_mls_def Let_def split: option.splits if_splits
      dest!: start_mls_frozen [rotated])

lemma execute_frozen:
  assumes "frozen n g" "execute_dave_transition cx v g = Some (g', p, fs)" shows "frozen n g' \<and> silent p"
  using assms by (auto simp: execute_dave_transition_def Let_def split: if_splits Option.bind_splits
      dest!: maybe_start_frozen [rotated])

lemma activate_frozen:
  assumes "frozen n g" "activate_transition cx r g = Some (g', p)" shows "frozen n g' \<and> silent p"
proof -
  have u: "frozen n g1" if "update_ratchets cx g = Some g1" for g1
    using that assms(1) by (auto simp: update_ratchets_def Let_def split: option.splits Option.bind_splits)
  have w: "frozen n (g1\<lparr>conn := (conn g1)\<lparr>warned_waiting_for_e2ee := b\<rparr>\<rparr>) = frozen n g1"
    for g1 :: "('a, 'b, 'c) gateway" and b by (simp add: frozen_def heartbeats_def)
  show ?thesis
    using assms by (auto simp: activate_transition_def Let_def w split: if_splits Option.bind_splits dest!: u)
qed

lemma announce_frozen: "announce_ready tid g = (p, fs) \<Longrightarrow> silent p" "recover_mls tid g = (p, fs) \<Longrightarrow> silent p"
  using silent_sends(5,6) by (metis fst_conv)+

lemma commit_frozen: "frozen n g \<Longrightarrow> on_commit cx payload s g = (g', p, fs) \<Longrightarrow> frozen n g' \<and> silent p"
  by (auto simp: on_commit_def Let_def split: if_splits prod.splits roster_variant.splits dest: announce_frozen)

lemma welcome_frozen: "frozen n g \<Longrightarrow> on_welcome cx payload s g = (g', p, fs) \<Longrightarrow> frozen n g' \<and> silent p"
  by (auto simp: on_welcome_def Let_def split: if_splits prod.splits option.splits dest: announce_frozen)

lemma binary_frozen:
  assumes "frozen n g" "handle_binary_event cx op payload g = Some (g', p, fs)" shows "frozen n g' \<and> silent p"
proof (cases "the_session g")
  case None
  then show ?thesis using assms by (auto simp: handle_binary_event_def)
next
  case (Some s)
  show ?thesis
    using assms(2) unfolding handle_binary_event_def Some option.case
    by (elim if_someE)
      (use assms(1) in \<open>auto simp: Let_def split: Option.bind_splits option.splits prod.splits
        dest!: maybe_start_frozen [rotated] commit_frozen [rotated] welcome_frozen [rotated]\<close>)
qed

lemma reconnect_frozen:
  "frozen n g \<Longrightarrow> frozen n (initiate_reconnect g)"
  "frozen n g \<Longrightarrow> frozen n (ws_listen_loop g)"
  "frozen n g \<Longrightarrow> frozen n (listen_failed c g)"
  "frozen n g \<Longrightarrow> heartbeat_tick g = g"
  "frozen n g \<Longrightarrow> setup_heartbeat data g = Some g"
  "frozen n g \<Longrightarrow> heartbeat_due cx r g = (g, Done success, [])"
  by (auto simp: initiate_reconnect_def ws_listen_loop_def listen_failed_def heartbeat_tick_def setup_heartbeat_def
      heartbeat_due_def Let_def frozen_stopped split: option.splits) (simp_all add: frozen_def)

lemma description_frozen:
  assumes "frozen n g" "handle_session_description cx data g = Some (g', p, fs)" shows "frozen n g' \<and> silent p"
proof -
  have v: "frozen n g2" if "frozen n g1" "set_dave_version v g1 = Some g2" for g1 g2 :: "('a, 'b, 'c) gateway" and v
    using that by (auto simp: set_dave_version_def split: option.splits)
  show ?thesis
    using assms by (auto simp: handle_session_description_def Let_def split: Option.bind_splits if_splits option.splits
        dest!: v [rotated] maybe_start_frozen [rotated])
qed

lemma dispatch_frozen:
  assumes "frozen n g" "dispatch cx op data g = Some (g', p, fs)" shows "frozen n g' \<and> silent p"
proof -
  note pre = assms(1) reconnect_frozen(5) [OF assms(1)]
  have udp: "setup_udp cx data g1 = Some (g', p, fs) \<Longrightarrow> frozen n g1 \<Longrightarrow> frozen n g' \<and> silent p" for g1
    by (auto simp: setup_udp_def prepare_dave_def Let_def split: Option.bind_splits if_splits option.splits)
  have speak: "on_speaking_event cx data g = Some g1 \<Longrightarrow> frozen n g1" for g1
    using assms(1) by (auto simp: on_speaking_event_def on_speaking_def Let_def frozen_def heartbeats_def with_dave_def
        split: Option.bind_splits if_splits option.splits)
  have clients: "on_clients_connect data g = Some g1 \<Longrightarrow> frozen n g1"
    "on_client_disconnect data g = Some g1 \<Longrightarrow> frozen n g1" for g1
    using assms(1) by (auto simp: on_clients_connect_def on_client_disconnect_def
        split: Option.bind_splits if_splits json.splits)
  have hello: "on_hello data g = Some (g', p, fs) \<Longrightarrow> frozen n g' \<and> silent p"
    using pre by (auto simp: on_hello_def Let_def split: Option.bind_splits if_splits)
  have trans: "on_prepare_transition cx data g = Some (g', p, fs) \<Longrightarrow> frozen n g' \<and> silent p"
    "on_execute_transition cx data g = Some (g', p, fs) \<Longrightarrow> frozen n g' \<and> silent p"
    "on_prepare_epoch cx data g = Some (g', p, fs) \<Longrightarrow> frozen n g' \<and> silent p"
    using assms(1) by (auto simp: on_prepare_transition_def on_execute_transition_def on_prepare_epoch_def Let_def
        split: Option.bind_splits if_splits option.splits dest!: execute_frozen [rotated] maybe_start_frozen [rotated])
  show ?thesis
    using assms(2) unfolding dispatch_def Let_def
    by (elim if_someE) (use assms(1) in \<open>auto simp: on_resumed_def dest: udp hello trans speak clients
        dest!: description_frozen [rotated]\<close>)
qed

lemma message_frozen:
  assumes "frozen n g" "on_message cx r g = Some (g', p, fs)" shows "frozen n g' \<and> silent p"
proof -
  have "frozen n g2 \<and> silent p2" if "on_text cx payload g = Some (g2, p2, fs2)" for payload g2 p2 fs2
    using that assms(1) by (auto simp: on_text_def split: option.splits Option.bind_splits dest!: dispatch_frozen [rotated])
  moreover have "frozen n g2 \<and> silent p2" if "on_binary cx payload g = Some (g2, p2, fs2)" for payload g2 p2 fs2
    using that assms(1) by (auto simp: on_binary_def split: if_splits Option.bind_splits dest!: binary_frozen [rotated])
  ultimately show ?thesis
    using assms by (auto simp: on_message_def reconnect_frozen(3) split: reply.splits if_splits Option.bind_splits)
qed

lemma frame_frozen:
  assumes "frozen n g" "frame_step cx f r g = Some (g', p, fs)" shows "frozen n g' \<and> silent p"
  using assms
  by (cases f)
    (auto simp: reconnect_frozen listen_step_def execute_after_ready_def restart_mls_def after_mls_def start_sender_def
      start_receiver_def udp_bound_def udp_connected_def udp_sent_discovery_def udp_discovered_def reconnect_due_def
      ws_connected_def reconnected_def run_connected_def ws_closed_def final_read_def flush_due_def flush_check_def
      split: if_splits prod.splits Option.bind_splits reply.splits
      dest!: message_frozen [rotated] execute_frozen [rotated] activate_frozen [rotated] maybe_start_frozen [rotated])

fun no_shutdown :: "gw_event \<Rightarrow> bool" where
  "no_shutdown (Call_close _ _) = False"
| "no_shutdown Call_stop = False"
| "no_shutdown _ = True"

interpretation stopped_heartbeat: gateway_invariant "frozen n" no_shutdown for n
proof
  fix g :: "('a, 'b, 'c) gateway" and cx f r res
  assume "frozen n g" "frame_step cx f r g = Some res"
  then show "result_ok (frozen n) res" by (cases res) (auto dest: frame_frozen simp: frozen_result)
qed (auto simp: gw_run_def gw_reconnect_def gw_speak_def flush_check_def reconnect_frozen(2) frozen_result Let_def
    split: if_splits Option.bind_splits)

lemma complete_last:
  "pending g = ps @ [(a, fs)] \<Longrightarrow>
   gw_step cx (Complete (length ps) r) g = run_frames cx fs (reply_to a r) (g\<lparr>pending := ps\<rparr>)"
  by simp

lemma complete_first:
  "pending g = (a, fs) # ps \<Longrightarrow> gw_step cx (Complete 0 r) g = run_frames cx fs (reply_to a r) (g\<lparr>pending := ps\<rparr>)"
  by simp

section \<open>Properties\<close>

text \<open>
  C21. Whatever the server sends, whichever sockets and timers fail, and whatever is called in which
  order: a DAVE state always has a well-formed session and an encryptor, and an encryptor that
  does not pass frames through always has a key ratchet. So media is end-to-end encrypted exactly
  when passthrough is off, and the sender's branch for an encryptor that is on but not ready, with
  its warning, is never taken.
\<close>

theorem gateway_media_gate:
  assumes "gw_steps evs (gateway_init st tok) = Some g"
  shows "gateway_ok g \<and> \<not> dave_expected (conn g)
    \<and> (dave_send_enabled (conn g) \<longleftrightarrow> (\<exists>e. the_encryptor g = Some e \<and> \<not> en_passthrough_mode e))"
proof -
  have "gateway_ok (gateway_init st tok)" by (simp add: gateway_ok_def gateway_init_def voice_impl_init_def)
  then have ok: "gateway_ok g" using session_gate.steps_keep assms by blast
  then have "keyed e" if "the_encryptor g = Some e" for e
    using that by (auto simp: gateway_ok_def dave_ok_def the_encryptor_def split: Option.bind_splits)
  then show ?thesis
    using ok by (auto simp: dave_expected_def dave_send_enabled_def the_encryptor_def keyed_def split: option.splits)
qed

text \<open>
  C23. After a reconnect was started on a connection whose heartbeat was set up, no heartbeat is
  ever sent again, whatever happens short of closing the connection: the reconnect stops the
  heartbeat, and the next hello finds the old timer and leaves it stopped. (The server ends a
  connection without heartbeats.)
\<close>

theorem heartbeats_never_restart:
  assumes "heartbeat_timer (conn g)" "\<not> disconnected (conn g)"
    and "\<forall>e\<in>set evs. no_shutdown (snd e)" "gw_steps evs (initiate_reconnect g) = Some g'"
  shows "heartbeats g' = heartbeats g \<and> \<not> heartbeat_running (conn g')"
proof -
  have "frozen (heartbeats g) (initiate_reconnect g)"
    using assms(1,2) by (simp add: frozen_def heartbeats_def initiate_reconnect_def spawn_def with_conn_def is_heartbeat_def)
  then have "frozen (heartbeats g) g'" using stopped_heartbeat.steps_keep assms(3,4) by blast
  then show ?thesis by (simp add: frozen_def)
qed

text \<open>
  C22. A lost connection that may be resumed is resumed: when the read fails with a resumable close
  code (or none) on a ready connection, then, once the timer fires, the socket connects and the
  server says hello and accepts, the connection sends exactly one resume message, which acknowledges
  the last sequence number it saw, keeps listening on the new socket, and is ready again; other
  pending operations are not touched.
\<close>

theorem voice_resume_handshake:
  assumes "pending g = (Ws_read, [F_message]) # ps"
    and "ws (conn g)" "connection_state (conn g) = Ready" "\<not> disconnected (conn g)" "heartbeat_timer (conn g)"
    and "vs_guild_id (vstate (conn g)) = Some guild"
    and "is_resumable_close_code (case reason of Some c \<Rightarrow> c | None \<Rightarrow> 1006)"
    and hello: "cx_parse cx hello = Some hj" "hello \<noteq> []" "\<not> contains hj ''seq''" "json_at hj ''op'' = Some (JUint 8)"
    and resumed: "cx_parse cx resumed = Some rj" "resumed \<noteq> []" "\<not> contains rj ''seq''" "json_at rj ''op'' = Some (JUint 9)"
  shows "\<exists>g'. gw_steps [(cx, Complete 0 (ReadFailed reason)), (cx, Complete (length ps) success),
        (cx, Complete (length ps) success), (cx, Complete (length ps) success),
        (cx, Complete (length ps) (Message False hello)), (cx, Complete (length ps) success),
        (cx, Complete (length ps) (Message False resumed))] g = Some g'
    \<and> outbox g' = outbox g @ [Reconnect_wait, Ws_connect, Post success, Ws_read, Ws_send (resume_json g guild),
         Ws_read, Ws_read]
    \<and> pending g' = ps @ [(Ws_read, [F_message])] \<and> ws (conn g') \<and> connection_state (conn g') = Ready"
proof -
  have op: "get_int (JUint 8) = Some 8" "get_int (JUint 9) = Some 9" by (simp_all add: get_int_def)
  note defs = on_message_def listen_failed_def initiate_reconnect_def with_conn_def spawn_def reply_to_def
    reconnect_due_def ws_connected_def reconnected_def ws_listen_loop_def listen_step_def on_text_def dispatch_def
    on_hello_def setup_heartbeat_def on_resumed_def Let_def
  show ?thesis
    using assms by (simp add: defs op resume_json_def)
qed

text \<open>
  A connection that misses its heartbeats is not reconnected. At the third missed acknowledgement
  the heartbeat starts a reconnect, which cancels the socket; the cancelled read then finds a
  connection that is not ready and marks it closed and disconnected; so when the reconnect timer
  fires, nothing is done. The connection ends closed, without a socket, and no new one was asked
  for.
\<close>

theorem heartbeat_reconnect_abandoned:
  assumes "pending g = (Heartbeat_wait ms, [F_heartbeat_due]) # (Ws_read, [F_message]) # ps"
    and "heartbeat_running (conn g)" "\<not> disconnected (conn g)" "\<not> last_heartbeat_acked (conn g)"
    and "missed_heartbeats (conn g) = 2"
  shows "\<exists>g'. gw_steps [(cx, Complete 0 success), (cx', Complete 0 (ReadFailed reason)),
        (cx'', Complete (length ps) success)] g = Some g'
    \<and> outbox g' = outbox g @ [Reconnect_wait] \<and> pending g' = ps
    \<and> \<not> ws (conn g') \<and> connection_state (conn g') = Closed \<and> disconnected (conn g')"
proof -
  note defs = heartbeat_due_def on_message_def listen_failed_def initiate_reconnect_def with_conn_def spawn_def
    reply_to_def reconnect_due_def Let_def kMaxMissedHeartbeats_def
  show ?thesis using assms by (simp add: defs)
qed

section \<open>Witnesses\<close>

text \<open>A context on the list library, in which the first byte of a text message is its opcode.\<close>

definition demo_ctx :: "(unit, nat list, nat) ctx" where
  "demo_ctx = \<lparr>cx_mls = list_mls, cx_persisted = (\<lambda>_ _ _. Some 3),
     cx_parse = (\<lambda>bs. Some (JObj [(''op'', JUint (unat (hd bs))),
        (''d'', JObj [(''heartbeat_interval'', JUint 1000), (''ssrc'', JUint 7), (''ip'', JStr ''10.0.0.1''),
           (''port'', JUint 50000)])])),
     cx_now = 0, cx_wall_ms = 0, cx_rnd = 0\<rparr>"

definition demo_voice :: voice_state where
  "demo_voice = \<lparr>vs_guild_id = Some 1, vs_channel_id = Some 2, vs_user_id = 7, vs_session_id = ''s''\<rparr>"

definition demo_ready :: "(unit, nat list, nat) gateway" where
  "demo_ready = (gateway_init demo_voice ''t'')\<lparr>conn := (voice_impl_init demo_voice ''t'')\<lparr>
     connection_state := Ready, heartbeat_timer := True, heartbeat_running := True, last_heartbeat_acked := False,
     missed_heartbeats := 2, last_seq := 41\<rparr>\<rparr>"

lemmas demo_defs = demo_ready_def demo_ctx_def demo_voice_def gateway_init_def voice_impl_init_def

theorem gateway_media_gate_witness:
  "\<exists>g. gw_steps [(demo_ctx, Call_run 0), (demo_ctx, Complete 0 success), (demo_ctx, Complete 1 (Message False [2]))]
       (gateway_init demo_voice ''t'') = Some g \<and> dave (conn g) \<noteq> None \<and> \<not> dave_expected (conn g)"
proof -
  obtain g where g: "gw_steps [(demo_ctx, Call_run 0), (demo_ctx, Complete 0 success),
      (demo_ctx, Complete 1 (Message False [2]))] (gateway_init demo_voice ''t'') = Some g" "dave (conn g) \<noteq> None"
    by (simp add: demo_defs gw_run_def proceed_def with_conn_def ws_listen_loop_def spawn_def reply_to_def
        listen_step_def on_message_def on_text_def dispatch_def get_int_def setup_udp_def get_word_def
        prepare_dave_def the_encryptor_def with_encryptor_def with_dave_def Let_def)
  then show ?thesis using gateway_media_gate [OF g(1)] by blast
qed

theorem heartbeats_never_restart_witness:
  "\<exists>g'. gw_steps [(demo_ctx, Complete 0 success), (demo_ctx, Complete 0 success), (demo_ctx, Complete 0 success),
        (demo_ctx, Complete 0 (Message False [8]))] (initiate_reconnect demo_ready) = Some g'
    \<and> ws (conn g') \<and> heartbeats g' = 0 \<and> \<not> heartbeat_running (conn g')"
proof -
  obtain g' where g: "gw_steps [(demo_ctx, Complete 0 success), (demo_ctx, Complete 0 success),
      (demo_ctx, Complete 0 success), (demo_ctx, Complete 0 (Message False [8]))]
      (initiate_reconnect demo_ready) = Some g'" "ws (conn g')"
    by (simp add: demo_defs initiate_reconnect_def with_conn_def ws_listen_loop_def spawn_def reply_to_def
        reconnect_due_def ws_connected_def reconnected_def listen_step_def on_message_def on_text_def dispatch_def
        on_hello_def setup_heartbeat_def get_int_def Let_def)
  moreover have "heartbeats demo_ready = 0" "heartbeat_timer (conn demo_ready)" "\<not> disconnected (conn demo_ready)"
    by (simp_all add: heartbeats_def demo_defs)
  ultimately show ?thesis using heartbeats_never_restart [OF _ _ _ g(1)] by auto
qed

theorem voice_resume_handshake_witness:
  "\<exists>g'. gw_steps [(demo_ctx, Complete 0 (ReadFailed (Some 4015))), (demo_ctx, Complete 0 success),
        (demo_ctx, Complete 0 success), (demo_ctx, Complete 0 success), (demo_ctx, Complete 0 (Message False [8])),
        (demo_ctx, Complete 0 success), (demo_ctx, Complete 0 (Message False [9]))]
       (demo_ready\<lparr>pending := [(Ws_read, [F_message])]\<rparr>) = Some g'
    \<and> connection_state (conn g') = Ready
    \<and> Ws_send (op_json Op_Resume [(''server_id'', JStr (to_string 1)), (''session_id'', JStr ''s''),
         (''token'', JStr ''t''), (''seq_ack'', JInt 41)]) \<in> set (outbox g')"
  using voice_resume_handshake [of "demo_ready\<lparr>pending := [(Ws_read, [F_message])]\<rparr>" "[]" 1 "Some 4015" demo_ctx "[8]"
      "JObj [(''op'', JUint 8), (''d'', JObj [(''heartbeat_interval'', JUint 1000), (''ssrc'', JUint 7),
         (''ip'', JStr ''10.0.0.1''), (''port'', JUint 50000)])]" "[9]"
      "JObj [(''op'', JUint 9), (''d'', JObj [(''heartbeat_interval'', JUint 1000), (''ssrc'', JUint 7),
         (''ip'', JStr ''10.0.0.1''), (''port'', JUint 50000)])]"]
  by (auto simp: demo_defs resume_json_def is_resumable_close_code_def should_resume_def)

theorem heartbeat_reconnect_abandoned_witness:
  "\<exists>g'. gw_steps [(demo_ctx, Complete 0 success), (demo_ctx, Complete 0 (ReadFailed None)), (demo_ctx, Complete 0 success)]
       (demo_ready\<lparr>pending := [(Heartbeat_wait 1000, [F_heartbeat_due]), (Ws_read, [F_message])]\<rparr>) = Some g'
    \<and> pending g' = [] \<and> connection_state (conn g') = Closed \<and> Ws_connect \<notin> set (outbox g')"
  using heartbeat_reconnect_abandoned [of "demo_ready\<lparr>pending := [(Heartbeat_wait 1000, [F_heartbeat_due]),
      (Ws_read, [F_message])]\<rparr>" 1000 "[]" demo_ctx demo_ctx None demo_ctx]
  by (auto simp: demo_defs)

end
