(* ===== verification/Inflater.thy ===== *)
theory Inflater
  imports Dave_Types
begin

text \<open>
  \<^verbatim>\<open>src/inflater.cpp\<close>: decompression of the gateway's zlib stream. zlib is a parameter:
  a stream is of type \<^typ>\<open>'z\<close>; \<open>z_feed\<close> sets its input; \<open>z_inflate\<close> is one call of
  \<^verbatim>\<open>inflate\<close> with that much output space and gives the stream, the return code and the
  output written; \<open>z_reset\<close> is \<^verbatim>\<open>inflateReset\<close>.
\<close>

datatype zcode = Z_OK | Z_STREAM_END | Z_BUF_ERROR | Z_OTHER

record 'z zlib =
  z_feed :: "bytes \<Rightarrow> 'z \<Rightarrow> 'z"
  z_inflate :: "nat \<Rightarrow> 'z \<Rightarrow> 'z \<times> zcode \<times> bytes"
  z_reset :: "'z \<Rightarrow> 'z"

definition BUFFER_SIZE :: nat where "BUFFER_SIZE = 1024"

text \<open>The loop; it need not end for every library, so \<^term>\<open>None\<close> is not returning.\<close>

partial_function (option) inflate_loop ::
    "'z zlib \<Rightarrow> nat \<Rightarrow> 'z \<Rightarrow> bytes \<Rightarrow> ('z \<times> (errc + bytes)) option" where
  "inflate_loop zl n z result =
     (case z_inflate zl n z of (z', res, out) \<Rightarrow>
        if res \<noteq> Z_OK \<and> res \<noteq> Z_STREAM_END \<and> res \<noteq> Z_BUF_ERROR
        then Some (z_reset zl z', Inl not_supported)
        else if n - length out = 0 then inflate_loop zl n z' (result @ out)
        else Some (z', Inr (result @ out)))"

definition zlib_suffix :: "bytes \<Rightarrow> bool" where
  "zlib_suffix data = (drop (length data - 4) data = [0x00, 0x00, 0xFF, 0xFF])"

definition inflate :: "'z zlib \<Rightarrow> bytes \<Rightarrow> 'z \<Rightarrow> ('z \<times> (errc + bytes)) option" where
  "inflate zl data z =
     (if length data < 4 then Some (z, Inl not_supported)
      else if \<not> zlib_suffix data then Some (z, Inl not_supported)
      else inflate_loop zl BUFFER_SIZE (z_feed zl (take (length data mod 2 ^ 32) data) z) [])"

text \<open>
  The contract of zlib on a valid stream (\<open>valid z\<close>: the input given so far is the beginning of one; on other
  input zlib reports a data error): \<open>rest z\<close> is the output that this input
  still has to produce; a call writes as much of it as there is space for and reports no error.
\<close>

definition zlib_stream :: "'z zlib \<Rightarrow> ('z \<Rightarrow> bool) \<Rightarrow> ('z \<Rightarrow> bytes) \<Rightarrow> bool" where
  "zlib_stream zl valid rest \<longleftrightarrow> (\<forall>n z z' res out. valid z \<longrightarrow> z_inflate zl n z = (z', res, out) \<longrightarrow>
      valid z' \<and> out = take n (rest z) \<and> rest z' = drop n (rest z) \<and> res \<noteq> Z_OTHER)"

lemma loop_delivers:
  assumes zl: "zlib_stream zl valid rest" and "0 < n" and "valid z"
  shows "\<exists>z'. inflate_loop zl n z acc = Some (z', Inr (acc @ rest z)) \<and> rest z' = [] \<and> valid z'"
  using assms(3)
proof (induction "length (rest z)" arbitrary: z acc rule: less_induct)
  case less
  obtain z' res out where s: "z_inflate zl n z = (z', res, out)" by (metis prod_cases3)
  with zl less.prems have "valid z' \<and> out = take n (rest z) \<and> rest z' = drop n (rest z) \<and> res \<noteq> Z_OTHER"
    unfolding zlib_stream_def by blast
  then have d: "out = take n (rest z)" "rest z' = drop n (rest z)" and v: "valid z'"
    and res: "res = Z_OK \<or> res = Z_STREAM_END \<or> res = Z_BUF_ERROR"
    by (auto, cases res) auto
  show ?case
  proof (cases "n \<le> length (rest z)")
    case True
    with assms(2) d(2) have "length (rest z') < length (rest z)" by simp
    from less.hyps [OF this v, of "acc @ out"] obtain z'' where
      "inflate_loop zl n z' (acc @ out) = Some (z'', Inr (acc @ rest z))" "rest z'' = []" "valid z''"
      using d(1,2) by auto
    then show ?thesis using s d res True by (subst inflate_loop.simps) auto
  next
    case False
    then show ?thesis using s d res v by (subst inflate_loop.simps) auto
  qed
qed

text \<open>
  C26. Decompression delivers the whole message: for every zlib library that keeps its contract on
  valid streams, a chunk that continues a valid stream and ends with the flush marker is turned, in any number of rounds through
  the buffer, into exactly the output the stream has for it, nothing is left over, and the call
  returns.
\<close>

theorem inflate_complete:
  assumes "zlib_stream zl valid rest" "valid (z_feed zl data z)"
    and "4 \<le> length data" "length data < 2 ^ 32" "zlib_suffix data"
  shows "\<exists>z'. inflate zl data z = Some (z', Inr (rest (z_feed zl data z))) \<and> rest z' = [] \<and> valid z'"
proof -
  have "0 < BUFFER_SIZE" by (simp add: BUFFER_SIZE_def)
  from loop_delivers [OF assms(1) this assms(2), of "[]"]
  show ?thesis using assms(3-5) by (simp add: inflate_def)
qed

text \<open>A library whose output is its input, without the marker.\<close>

definition stored_zlib :: "bytes zlib" where
  "stored_zlib = \<lparr>z_feed = (\<lambda>data z. z @ take (length data - 4) data),
     z_inflate = (\<lambda>n z. (drop n z, if z = [] then Z_BUF_ERROR else Z_OK, take n z)), z_reset = (\<lambda>z. [])\<rparr>"

lemma stored_stream: "zlib_stream stored_zlib (\<lambda>_. True) (\<lambda>z. z)"
  by (auto simp: zlib_stream_def stored_zlib_def split: if_splits)

theorem inflate_complete_witness:
  "\<exists>z'. inflate stored_zlib [7, 8, 0, 0, 0xFF, 0xFF] [] = Some (z', Inr [7, 8]) \<and> z' = []"
proof -
  have "4 \<le> length [7, 8, 0, 0, 0xFF, 0xFF :: u8]" "length [7, 8, 0, 0, 0xFF, 0xFF :: u8] < 2 ^ 32"
    "zlib_suffix [7, 8, 0, 0, 0xFF, 0xFF]"
    by (simp_all add: zlib_suffix_def)
  from inflate_complete [OF stored_stream TrueI this, of "[]"] show ?thesis
    by (simp add: stored_zlib_def)
qed

end
