(* ===== verification/Shard.thy ===== *)
theory Shard
  imports Inflater Json "HOL-Library.AList" "HOL-Library.Multiset"
begin

text \<open>
  \<^verbatim>\<open>src/shard.cpp\<close>: a connection to the Discord gateway. Every operation runs on the
  shard's strand; \<open>pending\<close> holds the asynchronous operations that have not finished, each with
  the handler behind it. An event of the machine finishes one of them or calls the interface.
  \<^term>\<open>None\<close> is an exception that leaves a handler. The environment (\<open>shard_env\<close>) holds
  the JSON parser, zlib, the conversions of event data, whether the socket reports itself open, and
  whether an inflater can be created.
\<close>

section \<open>Data\<close>

datatype gateway_opcode =
    GW_Dispatch | GW_Heartbeat | GW_Identify | GW_PresenceUpdate | GW_VoiceStateUpdate | GW_Resume
  | GW_Reconnect | GW_RequestGuildMembers | GW_InvalidSession | GW_Hello | GW_HeartbeatAck

fun gateway_opcode_value :: "gateway_opcode \<Rightarrow> u8" where
  "gateway_opcode_value GW_Dispatch = 0"
| "gateway_opcode_value GW_Heartbeat = 1"
| "gateway_opcode_value GW_Identify = 2"
| "gateway_opcode_value GW_PresenceUpdate = 3"
| "gateway_opcode_value GW_VoiceStateUpdate = 4"
| "gateway_opcode_value GW_Resume = 6"
| "gateway_opcode_value GW_Reconnect = 7"
| "gateway_opcode_value GW_RequestGuildMembers = 8"
| "gateway_opcode_value GW_InvalidSession = 9"
| "gateway_opcode_value GW_Hello = 10"
| "gateway_opcode_value GW_HeartbeatAck = 11"

text \<open>Errors of the operations; the first five of the socket are the transient ones.\<close>

datatype shard_error =
    Net_aborted | Net_eof | Net_reset | Ws_closed | Ssl_truncated | Net_other nat | Sys errc

fun is_transient_read_error :: "shard_error \<Rightarrow> bool" where
  "is_transient_read_error Net_aborted = True"
| "is_transient_read_error Net_eof = True"
| "is_transient_read_error Net_reset = True"
| "is_transient_read_error Ws_closed = True"
| "is_transient_read_error Ssl_truncated = True"
| "is_transient_read_error (Net_other n) = False"
| "is_transient_read_error (Sys e) = False"

text \<open>What a call of the interface is answered with; \<open>NoEvent\<close> is an error code of value 0.\<close>

datatype 'e answer = Event 'e | NoEvent | Failure shard_error

record close_frame =
  cf_code :: u16
  cf_reason :: string

definition CF_NORMAL :: close_frame where
  "CF_NORMAL = \<lparr>cf_code = 1000, cf_reason = ''closing connection''\<rparr>"
definition CF_RESUME :: close_frame where
  "CF_RESUME = \<lparr>cf_code = 4000, cf_reason = ''resuming connection''\<rparr>"
definition CF_SESSION_EXPIRED :: close_frame where
  "CF_SESSION_EXPIRED = \<lparr>cf_code = 4009, cf_reason = ''session expired''\<rparr>"

record gateway_session =
  gs_id :: string
  gs_sequence :: u64

record shard_config =
  cfg_token :: string
  cfg_intents :: "u32 option"
  cfg_shard_count :: u64
  cfg_compression :: bool
  cfg_is_bot :: bool

datatype shard_action =
    Send json | Close close_frame | Read | Connect string | Heartbeat_timer u32 | Backoff_timer nat

text \<open>
  The handlers: \<open>S_call\<close> answers a call with the result, \<open>S_op\<close> answers a call of
  \<open>next_event\<close> with no event, \<open>S_ignore\<close> does nothing.
\<close>

datatype shard_frame =
    S_call nat | S_op nat | S_ignore | S_backoff nat | S_connected nat | S_read nat
  | S_heartbeat_due | S_heartbeat_sent

datatype shard_reply = R_ok | R_message bool bytes | R_error shard_error

record ('z, 'e) shard =
  sh_timer :: bool
  sh_id :: u64
  sh_config :: shard_config
  sh_last_heartbeat_acked :: bool
  sh_heartbeat_interval :: u32
  sh_inflater :: "'z option"
  sh_session :: "gateway_session option"
  sh_resume_gateway_url :: "string option"
  sh_ws :: bool
  sh_reconnect_attempts :: u64
  sh_heartbeat_running :: bool
  sh_intentional_close :: bool
  sh_missed_heartbeats :: int
  sh_pending :: "(shard_action \<times> shard_frame) list"
  sh_issued :: "shard_action list"
  sh_answers :: "(nat \<times> 'e answer) list"

record ('z, 'e) shard_env =
  env_parse :: "bytes \<Rightarrow> json option"
  env_zlib :: "'z zlib"
  env_new_stream :: "'z option"
  env_from_json :: "string \<Rightarrow> json \<Rightarrow> 'e option"
  env_resumed :: 'e
  env_is_open :: bool

definition GATEWAY_URL :: string where
  "GATEWAY_URL = ''wss://gateway.discord.gg/?v=10&encoding=json&compress=zlib-stream''"
definition GATEWAY_JSON_ZLIB_QUERY :: string where
  "GATEWAY_JSON_ZLIB_QUERY = ''?v=10&encoding=json&compress=zlib-stream''"
definition SHARD_MAX_MISSED :: int where "SHARD_MAX_MISSED = 3"

definition Shard :: "u64 \<Rightarrow> u64 \<Rightarrow> string \<Rightarrow> u32 \<Rightarrow> ('z, 'e) shard" where
  "Shard ident shards tok intents = \<lparr>sh_timer = False, sh_id = ident,
     sh_config = \<lparr>cfg_token = tok, cfg_intents = Some intents, cfg_shard_count = shards,
        cfg_compression = True, cfg_is_bot = True\<rparr>,
     sh_last_heartbeat_acked = True, sh_heartbeat_interval = 0, sh_inflater = None, sh_session = None,
     sh_resume_gateway_url = None, sh_ws = False, sh_reconnect_attempts = 0, sh_heartbeat_running = False,
     sh_intentional_close = False, sh_missed_heartbeats = 0, sh_pending = [], sh_issued = [], sh_answers = []\<rparr>"

definition issue :: "shard_action \<Rightarrow> shard_frame \<Rightarrow> ('z, 'e) shard \<Rightarrow> ('z, 'e) shard" where
  "issue a f s = s\<lparr>sh_pending := sh_pending s @ [(a, f)], sh_issued := sh_issued s @ [a]\<rparr>"

definition answer :: "nat \<Rightarrow> 'e answer \<Rightarrow> ('z, 'e) shard \<Rightarrow> ('z, 'e) shard" where
  "answer n r s = s\<lparr>sh_answers := sh_answers s @ [(n, r)]\<rparr>"

section \<open>Events\<close>

definition EVENT_NAMES :: "string list" where
  "EVENT_NAMES = [''CHANNEL_CREATE'', ''CHANNEL_DELETE'', ''CHANNEL_PINS_UPDATE'', ''CHANNEL_UPDATE'',
     ''GUILD_BAN_ADD'', ''GUILD_BAN_REMOVE'', ''GUILD_CREATE'', ''GUILD_DELETE'', ''GUILD_EMOJIS_UPDATE'',
     ''GUILD_INTEGRATIONS_UPDATE'', ''GUILD_MEMBER_ADD'', ''GUILD_MEMBER_REMOVE'', ''GUILD_MEMBER_UPDATE'',
     ''GUILD_MEMBERS_CHUNK'', ''GUILD_ROLE_CREATE'', ''GUILD_ROLE_DELETE'', ''GUILD_ROLE_UPDATE'',
     ''GUILD_SCHEDULED_EVENT_CREATE'', ''GUILD_SCHEDULED_EVENT_DELETE'', ''GUILD_SCHEDULED_EVENT_UPDATE'',
     ''GUILD_SCHEDULED_EVENT_USER_ADD'', ''GUILD_SCHEDULED_EVENT_USER_REMOVE'', ''GUILD_STICKERS_UPDATE'',
     ''GUILD_UPDATE'', ''INTEGRATION_CREATE'', ''INTEGRATION_DELETE'', ''INTEGRATION_UPDATE'',
     ''INTERACTION_CREATE'', ''INVITE_CREATE'', ''INVITE_DELETE'', ''MESSAGE_CREATE'', ''MESSAGE_DELETE'',
     ''MESSAGE_DELETE_BULK'', ''MESSAGE_REACTION_ADD'', ''MESSAGE_REACTION_REMOVE'',
     ''MESSAGE_REACTION_REMOVE_ALL'', ''MESSAGE_REACTION_REMOVE_EMOJI'', ''MESSAGE_UPDATE'',
     ''PRESENCE_UPDATE'', ''READY'', ''STAGE_INSTANCE_CREATE'', ''STAGE_INSTANCE_DELETE'',
     ''STAGE_INSTANCE_UPDATE'', ''THREAD_CREATE'', ''THREAD_DELETE'', ''THREAD_LIST_SYNC'',
     ''THREAD_MEMBER_UPDATE'', ''THREAD_MEMBERS_UPDATE'', ''THREAD_UPDATE'', ''TYPING_START'', ''USER_UPDATE'',
     ''VOICE_SERVER_UPDATE'', ''VOICE_STATE_UPDATE'', ''WEBHOOKS_UPDATE'']"

definition event_from_str :: "('z, 'e) shard_env \<Rightarrow> string \<Rightarrow> json \<Rightarrow> 'e answer option" where
  "event_from_str env event_type data =
     (if event_type = ''RESUMED'' then Some (Event (env_resumed env))
      else if event_type \<in> set EVENT_NAMES then map_option Event (env_from_json env event_type data)
      else Some NoEvent)"

section \<open>Messages\<close>

definition gw_json :: "gateway_opcode \<Rightarrow> json \<Rightarrow> json" where
  "gw_json op d = JObj [(''op'', JUint (unat (gateway_opcode_value op))), (''d'', d)]"

text \<open>RFC 7396, as \<^verbatim>\<open>nlohmann::json::merge_patch\<close> implements it.\<close>

fun merge_patch :: "json \<Rightarrow> json \<Rightarrow> json"
  and merge_members :: "(string \<times> json) list \<Rightarrow> (string \<times> json) list \<Rightarrow> (string \<times> json) list" where
  "merge_patch target (JObj kvs) = JObj (merge_members (case target of JObj ms \<Rightarrow> ms | _ \<Rightarrow> []) kvs)"
| "merge_patch target v = v"
| "merge_members obj [] = obj"
| "merge_members obj ((k, v) # kvs) =
     merge_members (if is_null v then AList.delete k obj
        else AList.update k (merge_patch (case map_of obj k of Some old \<Rightarrow> old | None \<Rightarrow> JNull) v) obj) kvs"

definition identify_base :: "('z, 'e) shard \<Rightarrow> json" where
  "identify_base s = JObj [(''token'', JStr (cfg_token (sh_config s))), (''compress'', JBool False),
     (''shard'', JArr [JUint (unat (sh_id s)), JUint (unat (cfg_shard_count (sh_config s)))]),
     (''presence'', JObj [(''status'', JStr ''online''), (''since'', JInt 0), (''activities'', JNull),
        (''afk'', JBool False)])]"

definition bot_properties :: "u32 \<Rightarrow> json" where
  "bot_properties intents = JObj [(''properties'', JObj [(''$os'', JStr ''Linux''), (''$browser'', JStr ''ekizu''),
      (''$device'', JStr ''ekizu'')]), (''large_threshold'', JInt 250), (''intents'', JUint (unat intents))]"

definition user_properties :: json where
  "user_properties = JObj [
     (''client_state'', JObj [(''guild_hashes'', JNull), (''highest_last_message_id'', JStr ''0''),
        (''read_state_version'', JInt 0), (''user_guild_settings_version'', JInt (-1)),
        (''user_settings_version'', JInt (-1))]),
     (''properties'', JObj [(''browser_user_agent'', JStr ''Mozilla/5.0 (Windows NT 10.0; Win64; x64)AppleWebKit/537.36 (KHTML, like Gecko) Chrome/103.0.0.0 Safari/537.36''),
        (''browser_version'', JStr ''103.0.0.0''), (''client_build_number'', JInt 137095), (''os'', JStr ''Windows''),
        (''device'', JStr ''''), (''os_version'', JStr ''10''), (''referrer'', JStr ''''),
        (''referrer_current'', JStr ''''), (''referring_domain'', JStr ''''), (''referring_domain_current'', JStr ''''),
        (''release_channel'', JStr ''stable''), (''system_locale'', JStr ''en-US'')])]"

definition identify_payload :: "('z, 'e) shard \<Rightarrow> json option" where
  "identify_payload s =
     (if cfg_is_bot (sh_config s)
      then map_option (\<lambda>i. gw_json GW_Identify (merge_patch (identify_base s) (bot_properties i))) (cfg_intents (sh_config s))
      else Some (gw_json GW_Identify (merge_patch (identify_base s) user_properties)))"

definition resume_payload :: "('z, 'e) shard \<Rightarrow> gateway_session \<Rightarrow> json" where
  "resume_payload s ses = gw_json GW_Resume (JObj [(''token'', JStr (cfg_token (sh_config s))),
     (''session_id'', JStr (gs_id ses)), (''seq'', JUint (unat (gs_sequence ses)))])"

text \<open>
  The sequence of a heartbeat. Without a session the braces of the initialisation make a list
  around the null.
\<close>

definition heartbeat_payload :: "('z, 'e) shard \<Rightarrow> json" where
  "heartbeat_payload s = gw_json GW_Heartbeat (case sh_session s of
     Some ses \<Rightarrow> JUint (unat (gs_sequence ses)) | None \<Rightarrow> JArr [JNull])"

definition voice_state_payload :: "snowflake \<Rightarrow> json \<Rightarrow> json" where
  "voice_state_payload guild_id channel = gw_json GW_VoiceStateUpdate (JObj [(''guild_id'', snowflake_to_json guild_id),
     (''channel_id'', channel), (''self_mute'', JBool False), (''self_deaf'', JBool False)])"

section \<open>Operations\<close>

definition close_impl :: "close_frame \<Rightarrow> shard_frame \<Rightarrow> ('z, 'e) shard \<Rightarrow> ('z, 'e) shard \<times> shard_error option" where
  "close_impl reason f s =
     (let s1 = (if cf_code reason = 1000 \<or> cf_code reason = 1001
                then s\<lparr>sh_intentional_close := True, sh_resume_gateway_url := None, sh_session := None\<rparr> else s);
          s2 = (if sh_timer s1 then s1\<lparr>sh_heartbeat_running := False, sh_timer := False\<rparr> else s1)
      in if \<not> sh_ws s2 then (s2, Some (Sys not_connected))
         else (issue (Close reason) f s2, None))"

definition send_or_fail :: "json \<Rightarrow> nat \<Rightarrow> ('z, 'e) shard \<Rightarrow> ('z, 'e) shard" where
  "send_or_fail payload n s =
     (if \<not> sh_ws s then answer n (Failure (Sys not_connected)) s else issue (Send payload) (S_call n) s)"

definition join_voice_channel :: "snowflake \<Rightarrow> snowflake \<Rightarrow> nat \<Rightarrow> ('z, 'e) shard \<Rightarrow> ('z, 'e) shard" where
  "join_voice_channel guild_id channel_id n s =
     send_or_fail (voice_state_payload guild_id (snowflake_to_json channel_id)) n s"

definition leave_voice_channel :: "snowflake \<Rightarrow> nat \<Rightarrow> ('z, 'e) shard \<Rightarrow> ('z, 'e) shard" where
  "leave_voice_channel guild_id n s = send_or_fail (voice_state_payload guild_id JNull) n s"

text \<open>The presence is given as it is converted (\<open>update_presence_to_json\<close> of the theory on events).\<close>

definition update_presence :: "json \<Rightarrow> nat \<Rightarrow> ('z, 'e) shard \<Rightarrow> ('z, 'e) shard" where
  "update_presence presence n s = send_or_fail (gw_json GW_PresenceUpdate presence) n s"

definition shard_heartbeat_tick :: "('z, 'e) shard \<Rightarrow> ('z, 'e) shard" where
  "shard_heartbeat_tick s =
     (if \<not> sh_timer s \<or> \<not> sh_heartbeat_running s then s
      else issue (Heartbeat_timer (sh_heartbeat_interval s)) S_heartbeat_due s)"

definition start_heartbeat :: "u32 \<Rightarrow> ('z, 'e) shard \<Rightarrow> ('z, 'e) shard" where
  "start_heartbeat interval s =
     (if \<not> sh_ws s then s
      else shard_heartbeat_tick (s\<lparr>sh_heartbeat_interval := interval, sh_timer := True, sh_heartbeat_running := True\<rparr>))"

definition shard_heartbeat_due :: "shard_reply \<Rightarrow> ('z, 'e) shard \<Rightarrow> ('z, 'e) shard" where
  "shard_heartbeat_due r s =
     (if r \<noteq> R_ok \<or> \<not> sh_heartbeat_running s then s
      else if \<not> sh_ws s then s
      else (let missed = (if sh_last_heartbeat_acked s then 0 else sh_missed_heartbeats s + 1);
                s1 = s\<lparr>sh_missed_heartbeats := missed\<rparr>
            in if \<not> sh_last_heartbeat_acked s \<and> missed \<ge> SHARD_MAX_MISSED
               then fst (close_impl CF_SESSION_EXPIRED S_ignore (s1\<lparr>sh_heartbeat_running := False\<rparr>))
               else issue (Send (heartbeat_payload s1)) S_heartbeat_sent (s1\<lparr>sh_last_heartbeat_acked := False\<rparr>)))"

text \<open>
  The delay before a connection is attempted, in seconds. The power is a double, exact here; from
  \<^term>\<open>(2::nat) ^ 64\<close> on its cast is undefined, which is \<^term>\<open>None\<close>.
\<close>

definition backoff :: "u64 \<Rightarrow> nat option" where
  "backoff attempts = (if unat attempts < 64 then Some (min (2 ^ unat attempts) 128) else None)"

definition reconnect_async :: "nat \<Rightarrow> ('z, 'e) shard \<Rightarrow> ('z, 'e) shard option" where
  "reconnect_async n s =
     (if sh_intentional_close s then Some (answer n (Failure (Sys operation_canceled)) s)
      else map_option (\<lambda>delay. issue (Backoff_timer delay) (S_backoff n) s) (backoff (sh_reconnect_attempts s)))"

definition gateway_url :: "('z, 'e) shard \<Rightarrow> string" where
  "gateway_url s = (case sh_resume_gateway_url s of
     Some url \<Rightarrow> url @ ''/'' @ GATEWAY_JSON_ZLIB_QUERY | None \<Rightarrow> GATEWAY_URL)"

definition backoff_over :: "shard_reply \<Rightarrow> nat \<Rightarrow> ('z, 'e) shard \<Rightarrow> ('z, 'e) shard" where
  "backoff_over r n s = (case r of
     R_error e \<Rightarrow> answer n (Failure e) s
   | _ \<Rightarrow> if sh_intentional_close s then answer n (Failure (Sys operation_canceled)) s
          else issue (Connect (gateway_url s)) (S_connected n) s)"

text \<open>\<open>read_one\<close> and \<open>ensure_connected_then_read\<close> of an operation \<open>next_event\<close>.\<close>

definition read_one :: "nat \<Rightarrow> ('z, 'e) shard \<Rightarrow> ('z, 'e) shard" where
  "read_one n s = (if \<not> sh_ws s then answer n (Failure (Sys not_connected)) s else issue Read (S_read n) s)"

definition connected :: "('z, 'e) shard_env \<Rightarrow> shard_reply \<Rightarrow> nat \<Rightarrow> ('z, 'e) shard \<Rightarrow> ('z, 'e) shard" where
  "connected env r n s = (case r of
     R_error e \<Rightarrow> answer n (Failure e)
       (s\<lparr>sh_reconnect_attempts := sh_reconnect_attempts s + 1, sh_resume_gateway_url := None\<rparr>)
   | _ \<Rightarrow> (let s1 = s\<lparr>sh_ws := True\<rparr>
          in if cfg_compression (sh_config s1) then
               (case env_new_stream env of
                  None \<Rightarrow> answer n (Failure (Sys not_supported)) s1
                | Some z \<Rightarrow> read_one n (s1\<lparr>sh_inflater := Some z\<rparr>))
             else read_one n s1))"

definition ensure_connected_then_read ::
    "('z, 'e) shard_env \<Rightarrow> nat \<Rightarrow> ('z, 'e) shard \<Rightarrow> ('z, 'e) shard option" where
  "ensure_connected_then_read env n s =
     (if \<not> sh_ws s \<or> \<not> env_is_open env then
        (if sh_intentional_close s then Some (answer n (Failure (Sys not_connected)) s)
         else reconnect_async n s)
      else Some (read_one n s))"

definition on_read_error ::
    "('z, 'e) shard_env \<Rightarrow> shard_error \<Rightarrow> nat \<Rightarrow> ('z, 'e) shard \<Rightarrow> ('z, 'e) shard option" where
  "on_read_error env e n s =
     (if sh_intentional_close s then Some (answer n (Failure e) s)
      else if \<not> is_transient_read_error e then Some (answer n (Failure e) s)
      else ensure_connected_then_read env n s)"

section \<open>Payloads\<close>

definition read_sequence :: "json \<Rightarrow> u64 option option" where
  "read_sequence j =
     (if contains j ''s'' then do {
        v \<leftarrow> json_at j ''s'';
        if is_number v then map_option (\<lambda>i. Some (of_int i)) (get_arith v) else Some None
      } else Some None)"

definition has_string :: "json \<Rightarrow> string \<Rightarrow> bool" where
  "has_string j k = (case json_at j k of Some v \<Rightarrow> is_string v | None \<Rightarrow> False)"

fun is_object :: "json \<Rightarrow> bool" where
  "is_object (JObj _) = True" | "is_object _ = False"

definition note_ready :: "string \<Rightarrow> json \<Rightarrow> u64 option \<Rightarrow> ('z, 'e) shard \<Rightarrow> ('z, 'e) shard option" where
  "note_ready event_type event sequence s =
     (if event_type \<noteq> ''READY'' then Some s
      else if \<not> has_string event ''resume_gateway_url'' \<or> \<not> has_string event ''session_id'' then None
      else do {
        url \<leftarrow> Option.bind (json_at event ''resume_gateway_url'') get_string;
        sid \<leftarrow> Option.bind (json_at event ''session_id'') get_string;
        Some (s\<lparr>sh_session := Some \<lparr>gs_id = sid, gs_sequence = (case sequence of Some q \<Rightarrow> q | None \<Rightarrow> 0)\<rparr>,
               sh_resume_gateway_url := Some url\<rparr>)
      })"

definition note_sequence :: "u64 option \<Rightarrow> ('z, 'e) shard \<Rightarrow> ('z, 'e) shard" where
  "note_sequence sequence s = (case (sh_session s, sequence) of
     (Some ses, Some q) \<Rightarrow> s\<lparr>sh_session := Some (ses\<lparr>gs_sequence := q\<rparr>)\<rparr> | _ \<Rightarrow> s)"

definition on_dispatch :: "('z, 'e) shard_env \<Rightarrow> json \<Rightarrow> nat \<Rightarrow> ('z, 'e) shard \<Rightarrow> ('z, 'e) shard option" where
  "on_dispatch env j n s =
     (if \<not> has_string j ''t'' \<or> \<not> (case json_at j ''d'' of Some d \<Rightarrow> is_object d | None \<Rightarrow> False)
      then Some (answer n (Failure (Sys invalid_argument)) s)
      else do {
        sequence \<leftarrow> read_sequence j;
        event_type \<leftarrow> Option.bind (json_at j ''t'') get_string;
        event \<leftarrow> json_at j ''d'';
        (case note_ready event_type event sequence s of
           None \<Rightarrow> Some (answer n (Failure (Sys invalid_argument)) s)
         | Some s1 \<Rightarrow> do {
             r \<leftarrow> event_from_str env event_type event;
             Some (answer n r (note_sequence sequence s1))
           })
      })"

text \<open>A close inside an operation answers it with the error or with no event.\<close>

definition close_for :: "close_frame \<Rightarrow> nat \<Rightarrow> ('z, 'e) shard \<Rightarrow> ('z, 'e) shard" where
  "close_for reason n s = (case close_impl reason (S_op n) s of
     (s1, Some e) \<Rightarrow> answer n (Failure e) s1 | (s1, None) \<Rightarrow> s1)"

definition send_for :: "json \<Rightarrow> nat \<Rightarrow> ('z, 'e) shard \<Rightarrow> ('z, 'e) shard" where
  "send_for payload n s =
     (if \<not> sh_ws s then answer n (Failure (Sys not_connected)) s else issue (Send payload) (S_op n) s)"

definition on_invalid_session :: "json \<Rightarrow> nat \<Rightarrow> ('z, 'e) shard \<Rightarrow> ('z, 'e) shard" where
  "on_invalid_session j n s = (case json_at j ''d'' of
     Some (JBool resumable) \<Rightarrow> close_for (if resumable then CF_RESUME else CF_NORMAL) n s
   | _ \<Rightarrow> answer n (Failure (Sys invalid_argument)) s)"

definition send_resume :: "nat \<Rightarrow> ('z, 'e) shard \<Rightarrow> ('z, 'e) shard" where
  "send_resume n s =
     (if \<not> sh_ws s then answer n (Failure (Sys not_connected)) s
      else (case sh_session s of
              None \<Rightarrow> answer n (Failure (Sys operation_not_permitted)) s
            | Some ses \<Rightarrow> issue (Send (resume_payload s ses)) (S_op n) s))"

definition send_identify :: "nat \<Rightarrow> ('z, 'e) shard \<Rightarrow> ('z, 'e) shard option" where
  "send_identify n s =
     (if \<not> sh_ws s then Some (answer n (Failure (Sys not_connected)) s)
      else map_option (\<lambda>p. issue (Send p) (S_op n) s) (identify_payload s))"

definition shard_on_hello :: "json \<Rightarrow> nat \<Rightarrow> ('z, 'e) shard \<Rightarrow> ('z, 'e) shard option" where
  "shard_on_hello j n s0 =
     (let s = s0\<lparr>sh_last_heartbeat_acked := True\<rparr>
      in case Option.bind (json_at j ''d'') (\<lambda>d. json_at d ''heartbeat_interval'') of
           Some (JUint interval) \<Rightarrow>
             (let s1 = start_heartbeat (of_nat interval) s
              in if sh_session s1 \<noteq> None then Some (send_resume n s1) else send_identify n s1)
         | _ \<Rightarrow> Some (answer n (Failure (Sys invalid_argument)) s))"

definition handle_gateway_payload ::
    "('z, 'e) shard_env \<Rightarrow> bytes \<Rightarrow> nat \<Rightarrow> ('z, 'e) shard \<Rightarrow> ('z, 'e) shard option" where
  "handle_gateway_payload env data n s =
     (case Option.bind (env_parse env data) (\<lambda>j. map_option (Pair j) (json_at j ''op'')) of
        None \<Rightarrow> Some (answer n (Failure (Sys invalid_argument)) s)
      | Some (j, opj) \<Rightarrow>
          if \<not> is_number opj then Some (answer n (Failure (Sys invalid_argument)) s)
          else do {
            op \<leftarrow> get_word opj;
            if op = gateway_opcode_value GW_Dispatch then on_dispatch env j n s
            else if op = gateway_opcode_value GW_Heartbeat then Some (send_for (heartbeat_payload s) n s)
            else if op = gateway_opcode_value GW_Reconnect then Some (close_for CF_RESUME n s)
            else if op = gateway_opcode_value GW_InvalidSession then Some (on_invalid_session j n s)
            else if op = gateway_opcode_value GW_Hello then shard_on_hello j n s
            else if op = gateway_opcode_value GW_HeartbeatAck then
              Some (answer n NoEvent (s\<lparr>sh_last_heartbeat_acked := True\<rparr>))
            else Some (answer n NoEvent s)
          })"

definition shard_on_message ::
    "('z, 'e) shard_env \<Rightarrow> bool \<Rightarrow> bytes \<Rightarrow> nat \<Rightarrow> ('z, 'e) shard \<Rightarrow> ('z, 'e) shard option" where
  "shard_on_message env is_binary payload n s = (case sh_inflater s of
     Some z \<Rightarrow>
       if is_binary then do {
         (z', res) \<leftarrow> inflate (env_zlib env) payload z;
         (case res of
            Inl e \<Rightarrow> Some (answer n (Failure (Sys e)) (s\<lparr>sh_inflater := Some z'\<rparr>))
          | Inr data \<Rightarrow> handle_gateway_payload env data n (s\<lparr>sh_inflater := Some z'\<rparr>))
       } else handle_gateway_payload env payload n s
   | None \<Rightarrow> handle_gateway_payload env payload n s)"

section \<open>The machine\<close>

definition result_answer :: "shard_reply \<Rightarrow> 'e answer" where
  "result_answer r = (case r of R_error e \<Rightarrow> Failure e | _ \<Rightarrow> NoEvent)"

fun shard_frame_step ::
    "('z, 'e) shard_env \<Rightarrow> shard_frame \<Rightarrow> shard_reply \<Rightarrow> ('z, 'e) shard \<Rightarrow> ('z, 'e) shard option" where
  "shard_frame_step env (S_call n) r s = Some (answer n (result_answer r) s)"
| "shard_frame_step env (S_op n) r s = Some (answer n (result_answer r) s)"
| "shard_frame_step env S_ignore r s = Some s"
| "shard_frame_step env (S_backoff n) r s = Some (backoff_over r n s)"
| "shard_frame_step env (S_connected n) r s = Some (connected env r n s)"
| "shard_frame_step env (S_read n) r s = (case r of
     R_message b payload \<Rightarrow> shard_on_message env b payload n s
   | R_error e \<Rightarrow> on_read_error env e n s
   | R_ok \<Rightarrow> shard_on_message env False [] n s)"
| "shard_frame_step env S_heartbeat_due r s = Some (shard_heartbeat_due r s)"
| "shard_frame_step env S_heartbeat_sent r s = Some (shard_heartbeat_tick s)"

datatype shard_event =
    Finish nat shard_reply | Next_event nat | Close_call close_frame nat | Join_voice snowflake snowflake nat
  | Leave_voice snowflake nat | Update_presence json nat

fun shard_step ::
    "('z, 'e) shard_env \<Rightarrow> shard_event \<Rightarrow> ('z, 'e) shard \<Rightarrow> ('z, 'e) shard option" where
  "shard_step env (Finish i r) s =
     (if i < length (sh_pending s)
      then shard_frame_step env (snd (sh_pending s ! i)) r
             (s\<lparr>sh_pending := take i (sh_pending s) @ drop (Suc i) (sh_pending s)\<rparr>)
      else Some s)"
| "shard_step env (Next_event n) s = ensure_connected_then_read env n s"
| "shard_step env (Close_call reason n) s = Some (case close_impl reason (S_call n) s of
     (s1, Some e) \<Rightarrow> answer n (Failure e) s1 | (s1, None) \<Rightarrow> s1)"
| "shard_step env (Join_voice g c n) s = Some (join_voice_channel g c n s)"
| "shard_step env (Leave_voice g n) s = Some (leave_voice_channel g n s)"
| "shard_step env (Update_presence p n) s = Some (update_presence p n s)"

fun shard_steps ::
    "(('z, 'e) shard_env \<times> shard_event) list \<Rightarrow> ('z, 'e) shard \<Rightarrow> ('z, 'e) shard option" where
  "shard_steps [] s = Some s"
| "shard_steps ((env, ev) # evs) s = Option.bind (shard_step env ev s) (shard_steps evs)"


section \<open>Every call is answered\<close>

fun frame_call :: "shard_frame \<Rightarrow> nat list" where
  "frame_call (S_call n) = [n]"
| "frame_call (S_op n) = [n]"
| "frame_call (S_backoff n) = [n]"
| "frame_call (S_connected n) = [n]"
| "frame_call (S_read n) = [n]"
| "frame_call _ = []"


text \<open>The calls a shard owes an answer, and those it has answered.\<close>

definition owed :: "('z, 'e) shard \<Rightarrow> nat multiset" where
  "owed s = mset (concat (map (\<lambda>p. frame_call (snd p)) (sh_pending s)))"

definition answered :: "('z, 'e) shard \<Rightarrow> nat multiset" where
  "answered s = mset (map fst (sh_answers s))"

definition calls :: "('z, 'e) shard \<Rightarrow> nat multiset" where
  "calls s = owed s + answered s"

lemma calls_issue [simp]: "calls (issue a f s) = calls s + mset (frame_call f)"
  by (simp add: calls_def owed_def answered_def issue_def)

lemma calls_answer [simp]: "calls (answer n r s) = calls s + {#n#}"
  by (simp add: calls_def owed_def answered_def answer_def)

lemma calls_upd [simp]:
  "calls (s\<lparr>sh_session := a\<rparr>) = calls s" "calls (s\<lparr>sh_ws := b\<rparr>) = calls s"
  "calls (s\<lparr>sh_last_heartbeat_acked := b\<rparr>) = calls s" "calls (s\<lparr>sh_inflater := z\<rparr>) = calls s"
  "calls (s\<lparr>sh_missed_heartbeats := m\<rparr>) = calls s" "calls (s\<lparr>sh_heartbeat_running := b\<rparr>) = calls s"
  "calls (s\<lparr>sh_timer := b\<rparr>) = calls s" "calls (s\<lparr>sh_heartbeat_interval := ms\<rparr>) = calls s"
  "calls (s\<lparr>sh_reconnect_attempts := k\<rparr>) = calls s" "calls (s\<lparr>sh_resume_gateway_url := u\<rparr>) = calls s"
  "calls (s\<lparr>sh_intentional_close := b\<rparr>) = calls s"
  by (simp_all add: calls_def owed_def answered_def)

lemma calls_close:
  "close_impl c f s = (s', None) \<Longrightarrow> calls s' = calls s + mset (frame_call f)"
  "close_impl c f s = (s', Some e) \<Longrightarrow> calls s' = calls s"
  by (auto simp: close_impl_def Let_def split: if_splits)

lemma calls_close_for [simp]: "calls (close_for c n s) = calls s + {#n#}"
  by (auto simp: close_for_def calls_close split: prod.splits option.splits)

lemma calls_heartbeat [simp]:
  "calls (shard_heartbeat_tick s) = calls s" "calls (start_heartbeat ms s) = calls s"
  by (simp_all add: shard_heartbeat_tick_def start_heartbeat_def)

lemma calls_heartbeat_due [simp]: "calls (shard_heartbeat_due r s) = calls s"
proof -
  have "calls (fst (close_impl CF_SESSION_EXPIRED S_ignore s1)) = calls s1" for s1 :: "('a, 'b) shard"
    by (cases "close_impl CF_SESSION_EXPIRED S_ignore s1") (auto dest: calls_close simp: close_impl_def Let_def split: if_splits)
  then show ?thesis by (simp add: shard_heartbeat_due_def Let_def)
qed

lemma calls_send [simp]:
  "calls (send_or_fail p n s) = calls s + {#n#}" "calls (send_for p n s) = calls s + {#n#}"
  "calls (read_one n s) = calls s + {#n#}" "calls (send_resume n s) = calls s + {#n#}"
  "calls (backoff_over r n s) = calls s + {#n#}" "calls (connected env r n s) = calls s + {#n#}"
  "calls (on_invalid_session j n s) = calls s + {#n#}"
  by (auto simp: send_or_fail_def send_for_def read_one_def send_resume_def backoff_over_def connected_def
      on_invalid_session_def Let_def split: option.splits shard_reply.splits json.splits)










section \<open>Connecting\<close>

fun is_connect :: "shard_action \<Rightarrow> bool" where
  "is_connect (Connect url) = True"
| "is_connect _ = False"

definition connects :: "('z, 'e) shard \<Rightarrow> nat" where
  "connects s = length (filter is_connect (sh_issued s))"

text \<open>A shard that was closed intentionally, and how often it had connected until then.\<close>

definition shut :: "nat \<Rightarrow> ('z, 'e) shard \<Rightarrow> bool" where
  "shut k s \<longleftrightarrow> sh_intentional_close s \<and> connects s = k"

lemma shut_upd [simp]:
  "shut k (s\<lparr>sh_pending := ps\<rparr>) = shut k s" "shut k (s\<lparr>sh_session := a\<rparr>) = shut k s"
  "shut k (s\<lparr>sh_ws := b\<rparr>) = shut k s" "shut k (s\<lparr>sh_last_heartbeat_acked := b\<rparr>) = shut k s"
  "shut k (s\<lparr>sh_inflater := z\<rparr>) = shut k s" "shut k (s\<lparr>sh_missed_heartbeats := m\<rparr>) = shut k s"
  "shut k (s\<lparr>sh_heartbeat_running := b\<rparr>) = shut k s" "shut k (s\<lparr>sh_timer := b\<rparr>) = shut k s"
  "shut k (s\<lparr>sh_heartbeat_interval := ms\<rparr>) = shut k s" "shut k (s\<lparr>sh_reconnect_attempts := j\<rparr>) = shut k s"
  "shut k (s\<lparr>sh_resume_gateway_url := u\<rparr>) = shut k s"
  "shut k (answer n r s) = shut k s"
  "\<not> is_connect act \<Longrightarrow> shut k (issue act f s) = shut k s"
  by (simp_all add: shut_def connects_def answer_def issue_def)

lemma shut_intentional: "shut k s \<Longrightarrow> sh_intentional_close s"
  by (simp add: shut_def)

lemma shut_close: "shut k s \<Longrightarrow> shut k (s\<lparr>sh_intentional_close := True\<rparr>)"
  by (simp add: shut_def connects_def)

lemma shut_close_impl: "shut k s \<Longrightarrow> close_impl c f s = (s', e) \<Longrightarrow> shut k s'"
  by (auto simp: close_impl_def Let_def shut_close split: if_splits)

lemma shut_heartbeat:
  "shut k s \<Longrightarrow> shut k (shard_heartbeat_tick s)" "shut k s \<Longrightarrow> shut k (start_heartbeat ms s)"
  "shut k s \<Longrightarrow> shut k (shard_heartbeat_due r s)" "shut k s \<Longrightarrow> shut k (close_for c n s)"
  by (auto simp: shard_heartbeat_tick_def start_heartbeat_def shard_heartbeat_due_def close_for_def Let_def
      split: prod.splits option.splits intro: shut_close_impl [OF _ prod.collapse [symmetric]] dest: shut_close_impl [rotated])

lemma shut_send:
  "shut k s \<Longrightarrow> shut k (send_or_fail p n s)" "shut k s \<Longrightarrow> shut k (send_for p n s)"
  "shut k s \<Longrightarrow> shut k (read_one n s)" "shut k s \<Longrightarrow> shut k (send_resume n s)"
  "shut k s \<Longrightarrow> shut k (backoff_over r n s)" "shut k s \<Longrightarrow> shut k (connected env r n s)"
  "shut k s \<Longrightarrow> shut k (on_invalid_session j n s)"
  by (auto simp: send_or_fail_def send_for_def read_one_def send_resume_def backoff_over_def connected_def
      on_invalid_session_def Let_def shut_intentional shut_heartbeat
      split: option.splits shard_reply.splits json.splits)

lemma shut_ensure: "shut k s \<Longrightarrow> ensure_connected_then_read env n s = Some s' \<Longrightarrow> shut k s'"
  by (auto simp: ensure_connected_then_read_def shut_intentional shut_send split: if_splits)

lemma shut_payload:
  assumes "shut k s" "handle_gateway_payload env data n s = Some s'" shows "shut k s'"
proof -
  have "shut k s'" if "on_dispatch env j n s = Some s'" for j
    using that assms(1) by (auto simp: on_dispatch_def note_ready_def note_sequence_def
        split: if_splits Option.bind_splits option.splits)
  moreover have "shut k s'" if "shard_on_hello j n s = Some s'" for j
    using that assms(1) by (auto simp: shard_on_hello_def send_identify_def Let_def shut_send shut_heartbeat
        split: option.splits json.splits if_splits)
  ultimately show ?thesis
    using assms by (auto simp: handle_gateway_payload_def shut_send shut_heartbeat
        split: option.splits prod.splits if_splits Option.bind_splits)
qed

lemma shut_frame: "shut k s \<Longrightarrow> shard_frame_step env f r s = Some s' \<Longrightarrow> shut k s'"
  by (cases f)
    (auto simp: shut_send shut_heartbeat shard_on_message_def on_read_error_def shut_intentional
      split: shard_reply.splits option.splits if_splits Option.bind_splits sum.splits dest!: shut_payload [rotated])

lemma shut_step: "shut k s \<Longrightarrow> shard_step env ev s = Some s' \<Longrightarrow> shut k s'"
  by (cases ev)
    (auto simp: join_voice_channel_def leave_voice_channel_def update_presence_def shut_send
      split: if_splits prod.splits option.splits dest: shut_frame [rotated] shut_ensure shut_close_impl [rotated])

lemma shut_steps: "shut k s \<Longrightarrow> shard_steps evs s = Some s' \<Longrightarrow> shut k s'"
proof (induction evs arbitrary: s)
  case (Cons e evs)
  obtain env ev where e: "e = (env, ev)" by force
  from Cons.prems(2) obtain s1 where "shard_step env ev s = Some s1" "shard_steps evs s1 = Some s'"
    by (auto simp: e split: Option.bind_splits)
  then show ?case using Cons.IH shut_step [OF Cons.prems(1)] by blast
qed simp

lemma close_normal_shut: "shut (connects s) (close_for CF_NORMAL n s)"
  by (cases "sh_timer s"; cases "sh_ws s")
    (simp_all add: close_for_def close_impl_def CF_NORMAL_def shut_def connects_def issue_def answer_def)

section \<open>Properties\<close>





text \<open>
  A session that the gateway declares invalid and not resumable ends the shard for good: the
  shard closes the connection as on a normal shutdown, which marks the close as intended, and from
  then on, whatever is called and whatever happens, it never connects again. (A new session would
  have to be identified on a new connection.)
\<close>

theorem invalid_session_is_final:
  assumes "env_parse env data = Some j" "json_at j ''op'' = Some (JUint 9)" "json_at j ''d'' = Some (JBool False)"
    and "handle_gateway_payload env data n s = Some s1" "shard_steps evs s1 = Some s2"
  shows "connects s2 = connects s \<and> sh_intentional_close s2"
proof -
  have "s1 = close_for CF_NORMAL n s"
    using assms(1-4) by (simp add: handle_gateway_payload_def get_word_def on_invalid_session_def)
  then have "shut (connects s) s1" by (simp add: close_normal_shut)
  from shut_steps [OF this assms(5)] show ?thesis by (simp add: shut_def)
qed


section \<open>Witnesses\<close>

text \<open>An environment in which the first byte of a message is its opcode, and 0 is the event \<^verbatim>\<open>READY\<close>.\<close>

definition demo_env :: "bool \<Rightarrow> (bytes, string) shard_env" where
  "demo_env opened = \<lparr>env_parse = (\<lambda>bs. Some (if hd bs = 0
       then JObj [(''op'', JUint 0), (''t'', JStr ''READY''), (''s'', JUint 77),
         (''d'', JObj [(''resume_gateway_url'', JStr ''wss://r''), (''session_id'', JStr ''s'')])]
       else JObj [(''op'', JUint (unat (hd bs))),
         (''d'', if hd bs = 9 then JBool False else JObj [(''heartbeat_interval'', JUint 41250)])])),
     env_zlib = stored_zlib, env_new_stream = Some [], env_from_json = (\<lambda>t d. Some t), env_resumed = ''RESUMED'',
     env_is_open = opened\<rparr>"

lemmas machine_defs = demo_env_def Shard_def on_read_error_def ensure_connected_then_read_def reconnect_async_def
  backoff_def issue_def answer_def backoff_over_def gateway_url_def connected_def read_one_def shard_on_message_def
  handle_gateway_payload_def get_word_def shard_on_hello_def start_heartbeat_def shard_heartbeat_tick_def send_resume_def
  result_answer_def send_identify_def identify_payload_def close_for_def close_impl_def on_invalid_session_def
  CF_NORMAL_def Let_def


theorem invalid_session_is_final_witness:
  "\<exists>s1 s2. handle_gateway_payload (demo_env True) [9] 1 ((Shard 0 1 ''t'' 5)\<lparr>sh_ws := True\<rparr>) = Some s1
    \<and> shard_steps [(demo_env False, Finish 0 R_ok), (demo_env False, Next_event 2)] s1 = Some s2
    \<and> connects s2 = 0 \<and> sh_answers s2 = [(1, NoEvent), (2, Failure (Sys not_connected))]"
proof -
  obtain s1 s2 where s: "handle_gateway_payload (demo_env True) [9] 1 ((Shard 0 1 ''t'' 5)\<lparr>sh_ws := True\<rparr>) = Some s1"
      "shard_steps [(demo_env False, Finish 0 R_ok), (demo_env False, Next_event 2)] s1 = Some s2"
      "sh_answers s2 = [(1, NoEvent), (2, Failure (Sys not_connected))]"
    by (simp add: machine_defs)
  have "connects ((Shard 0 1 ''t'' 5 :: (bytes, string) shard)\<lparr>sh_ws := True\<rparr>) = 0"
    by (simp add: connects_def Shard_def)
  with invalid_session_is_final [OF _ _ _ s(1,2)] s show ?thesis by (simp add: demo_env_def)
qed




end
