(* ===== verification/Json_Util.thy ===== *)
theory Json_Util
  imports Json "HOL-Library.AList"
begin

text \<open>
  \<^verbatim>\<open>include/ekizu/json_util.hpp\<close> on the types the message components use, and
  \<^verbatim>\<open>PartialEmoji\<close> of \<^verbatim>\<open>src/emoji.cpp\<close>. An object under construction is its list of
  members. \<open>serialize\<close> writes a member; a type with its own \<open>to_json\<close> writes into the member
  that is already there. \<open>deserialize\<close> leaves the target as it is when the member is missing or
  null; otherwise the conversion depends on the type: its argument \<open>old\<close> is what the target
  holds, and \<^term>\<open>None\<close> is an exception.
\<close>

section \<open>Writing\<close>

fun members :: "json \<Rightarrow> (string \<times> json) list" where
  "members (JObj kvs) = kvs"
| "members _ = []"

definition put_member :: "string \<Rightarrow> json \<Rightarrow> (string \<times> json) list \<Rightarrow> (string \<times> json) list" where
  "put_member k v m = AList.update k v m"

definition put_optional :: "string \<Rightarrow> json option \<Rightarrow> (string \<times> json) list \<Rightarrow> (string \<times> json) list" where
  "put_optional k v m = (case v of None \<Rightarrow> m | Some x \<Rightarrow> put_member k x m)"

definition juint :: "'a::len word \<Rightarrow> json" where
  "juint w = JUint (unat w)"

section \<open>Reading\<close>

definition deserialize :: "(json \<Rightarrow> 'a \<Rightarrow> 'a option) \<Rightarrow> json \<Rightarrow> string \<Rightarrow> 'a \<Rightarrow> 'a option" where
  "deserialize conv data key old =
     (case json_at data key of
        None \<Rightarrow> Some old
      | Some v \<Rightarrow> if is_null v then Some old else conv v old)"

text \<open>
  The conversions. Integers and booleans are also read from strings, where a string that is not a
  number changes nothing; into an optional integer a string is never read. 64-bit integers are the
  JSON library's own number type, whose conversion does not take booleans.
\<close>

definition to_str :: "json \<Rightarrow> string \<Rightarrow> string option" where
  "to_str v old = get_string v"

definition get_u64 :: "json \<Rightarrow> u64 option" where
  "get_u64 v = (case v of JBool _ \<Rightarrow> None | _ \<Rightarrow> get_word v)"

definition to_u64 :: "json \<Rightarrow> u64 \<Rightarrow> u64 option" where
  "to_u64 v old = (case v of
     JStr s \<Rightarrow> Some (case stoull s of Some n \<Rightarrow> n | None \<Rightarrow> old)
   | _ \<Rightarrow> get_u64 v)"

fun get_bool :: "json \<Rightarrow> bool option" where
  "get_bool (JBool b) = Some b"
| "get_bool _ = None"

definition to_bool :: "json \<Rightarrow> bool \<Rightarrow> bool option" where
  "to_bool v old = (case v of
     JStr s \<Rightarrow> Some (case stoull s of Some n \<Rightarrow> n \<noteq> 0 | None \<Rightarrow> old)
   | _ \<Rightarrow> get_bool v)"

definition to_enum :: "json \<Rightarrow> u8 \<Rightarrow> u8 option" where
  "to_enum v old = (if is_number v then get_word v else None)"

definition to_snowflake :: "json \<Rightarrow> snowflake \<Rightarrow> snowflake option" where
  "to_snowflake v old = snowflake_from_json v 0"

definition to_opt_uint :: "json \<Rightarrow> 'a::len word option \<Rightarrow> 'a word option option" where
  "to_opt_uint v old = (if is_string v then Some old else map_option Some (get_word v))"

definition to_opt_u64 :: "json \<Rightarrow> u64 option \<Rightarrow> u64 option option" where
  "to_opt_u64 v old = (if is_string v then Some old else map_option Some (get_u64 v))"

definition to_opt_bool :: "json \<Rightarrow> bool option \<Rightarrow> bool option option" where
  "to_opt_bool v old = (if is_string v then Some old else map_option Some (get_bool v))"

text \<open>An optional of any other type, a vector, and a type read by its own function.\<close>

definition to_opt :: "(json \<Rightarrow> 'a option) \<Rightarrow> json \<Rightarrow> 'a option \<Rightarrow> 'a option option" where
  "to_opt get v old = map_option Some (get v)"

definition get_vector :: "(json \<Rightarrow> 'a option) \<Rightarrow> json \<Rightarrow> 'a list option" where
  "get_vector get v = (case v of JArr xs \<Rightarrow> sequence_options (map get xs) | _ \<Rightarrow> None)"

definition to_value :: "(json \<Rightarrow> 'a option) \<Rightarrow> json \<Rightarrow> 'a \<Rightarrow> 'a option" where
  "to_value get v old = get v"

definition to_vector :: "(json \<Rightarrow> 'a option) \<Rightarrow> json \<Rightarrow> 'a list \<Rightarrow> 'a list option" where
  "to_vector get v old = get_vector get v"

section \<open>Emoji\<close>

record partial_emoji =
  pe_id :: snowflake
  pe_name :: string
  pe_animated :: "bool option"

definition emoji_into :: "partial_emoji \<Rightarrow> (string \<times> json) list \<Rightarrow> (string \<times> json) list" where
  "emoji_into p m = put_optional ''animated'' (map_option JBool (pe_animated p))
     (put_member ''name'' (JStr (pe_name p)) (put_member ''id'' (snowflake_to_json (pe_id p)) m))"

text \<open>Into the member of an object: what is there must be null or an object itself.\<close>

definition put_emoji ::
    "string \<Rightarrow> partial_emoji option \<Rightarrow> (string \<times> json) list \<Rightarrow> (string \<times> json) list option" where
  "put_emoji k e m = (case e of
     None \<Rightarrow> Some m
   | Some p \<Rightarrow> (case map_of m k of
        None \<Rightarrow> Some (put_member k (JObj (emoji_into p [])) m)
      | Some JNull \<Rightarrow> Some (put_member k (JObj (emoji_into p [])) m)
      | Some (JObj old) \<Rightarrow> Some (put_member k (JObj (emoji_into p old)) m)
      | Some _ \<Rightarrow> None))"

definition emoji_from_json :: "json \<Rightarrow> partial_emoji option" where
  "emoji_from_json j = do {
     i \<leftarrow> deserialize to_snowflake j ''id'' 0;
     n \<leftarrow> deserialize to_str j ''name'' [];
     a \<leftarrow> deserialize to_opt_bool j ''animated'' None;
     Some \<lparr>pe_id = i, pe_name = n, pe_animated = a\<rparr>
   }"

section \<open>Lemmas\<close>

lemma map_of_put [simp]: "map_of (put_member k v m) k' = (if k' = k then Some v else map_of m k')"
  by (simp add: put_member_def update_conv)

lemma map_of_put_opt [simp]:
  "map_of (put_optional k v m) k' = (if k' = k then (case v of None \<Rightarrow> map_of m k | Some x \<Rightarrow> Some x) else map_of m k')"
  by (simp add: put_optional_def split: option.splits)

lemma get_word_juint [simp]: "get_word (juint w) = Some w"
  by (simp add: get_word_def juint_def)

lemma juint_simps [simp]:
  "\<not> is_null (juint w)" "\<not> is_string (juint w)" "is_number (juint w)" "is_null (snowflake_to_json s) = False"
  "to_enum (juint e) old = Some e" "to_u64 (juint u) old' = Some u" "to_opt_uint (juint w) oo = Some (Some w)"
  "to_opt_u64 (juint u) ou = Some (Some u)"
  by (simp_all add: juint_def snowflake_to_json_def to_enum_def to_u64_def get_u64_def to_opt_u64_def
      to_opt_uint_def get_word_def)

lemma to_simps [simp]:
  "to_str (JStr s) a = Some s" "to_bool (JBool b) b' = Some b" "to_opt_bool (JBool b) ob = Some (Some b)"
  "to_snowflake (snowflake_to_json u) u' = Some u"
  by (simp_all add: to_str_def to_bool_def to_opt_bool_def to_snowflake_def snowflake_to_json_def
      snowflake_from_json_def) (simp add: to_string_def to_decimal_digits)

lemma deserialize_written [simp]:
  "map_of m k = Some v \<Longrightarrow> \<not> is_null v \<Longrightarrow> deserialize conv (JObj m) k old = conv v old"
  by (simp add: deserialize_def)

lemma deserialize_missing [simp]: "map_of m k = None \<Longrightarrow> deserialize conv (JObj m) k old = Some old"
  by (simp add: deserialize_def)

lemma sequence_options_map:
  "(\<And>x. x \<in> set xs \<Longrightarrow> f x = Some (g x)) \<Longrightarrow> sequence_options (map f xs) = Some (map g xs)"
  by (induction xs) auto

lemma sequence_options_total [simp]: "sequence_options (map (\<lambda>x. Some (f x)) xs) = Some (map f xs)"
  by (simp add: sequence_options_map)

lemma get_vector_map:
  "(\<And>x. x \<in> set xs \<Longrightarrow> get (enc x) = Some (g x)) \<Longrightarrow> get_vector get (JArr (map enc xs)) = Some (map g xs)"
  by (simp add: get_vector_def o_def sequence_options_map)

text \<open>Reading an optional member that was written, or left out of a fresh object.\<close>

lemma deserialize_opt:
  assumes "map_of m k = map_option enc v" "\<And>x. \<not> is_null (enc x)" "\<And>x. conv (enc x) None = Some (Some x)"
  shows "deserialize conv (JObj m) k None = Some v"
  using assms by (cases v) (simp_all add: deserialize_def)

lemma emoji_roundtrip: "emoji_from_json (JObj (emoji_into p [])) = Some p"
proof -
  have "deserialize to_opt_bool (JObj (emoji_into p [])) ''animated'' None = Some (pe_animated p)"
    by (rule deserialize_opt [where enc = JBool]) (simp_all add: emoji_into_def split: option.splits)
  moreover have "deserialize to_snowflake (JObj (emoji_into p [])) ''id'' 0 = Some (pe_id p)"
    "deserialize to_str (JObj (emoji_into p [])) ''name'' [] = Some (pe_name p)"
    by (simp_all add: emoji_into_def deserialize_def)
  ultimately show ?thesis by (simp add: emoji_from_json_def)
qed

end
