(* ===== verification/Message_Component.thy ===== *)
theory Message_Component
  imports Json_Util
begin

text \<open>
  \<^verbatim>\<open>src/message_component.cpp\<close>: the components of a message and their JSON form. Every
  structure keeps the JSON it was read from in \<open>raw\<close>; writing starts from it and sets the known
  members over it. The user, role and mentionable selects have the same members and share one
  record. Reading is into a default value, as everywhere in the source; \<^term>\<open>None\<close> is an
  exception.
\<close>

section \<open>Data\<close>

datatype component_type =
    CT_ActionRow | CT_Button | CT_SelectMenu | CT_TextInput | CT_UserSelect | CT_RoleSelect
  | CT_MentionableSelect | CT_ChannelSelect | CT_Section | CT_TextDisplay | CT_Thumbnail
  | CT_MediaGallery | CT_File | CT_Separator | CT_Container | CT_Label | CT_FileUpload

fun type_value :: "component_type \<Rightarrow> u8" where
  "type_value CT_ActionRow = 1"
| "type_value CT_Button = 2"
| "type_value CT_SelectMenu = 3"
| "type_value CT_TextInput = 4"
| "type_value CT_UserSelect = 5"
| "type_value CT_RoleSelect = 6"
| "type_value CT_MentionableSelect = 7"
| "type_value CT_ChannelSelect = 8"
| "type_value CT_Section = 9"
| "type_value CT_TextDisplay = 10"
| "type_value CT_Thumbnail = 11"
| "type_value CT_MediaGallery = 12"
| "type_value CT_File = 13"
| "type_value CT_Separator = 14"
| "type_value CT_Container = 17"
| "type_value CT_Label = 18"
| "type_value CT_FileUpload = 19"

record button =
  bt_id :: "u32 option"
  bt_style :: u8
  bt_label :: "string option"
  bt_emoji :: "partial_emoji option"
  bt_custom_id :: "string option"
  bt_url :: "string option"
  bt_sku_id :: "u64 option"
  bt_disabled :: bool
  bt_raw :: json

record select_options =
  so_label :: string
  so_value :: string
  so_description :: "string option"
  so_emoji :: "partial_emoji option"
  so_default :: "bool option"
  so_raw :: json

record default_value =
  dv_id :: u64
  dv_type :: string
  dv_raw :: json

record select_common =
  sc_id :: "u32 option"
  sc_custom_id :: string
  sc_placeholder :: "string option"
  sc_min_values :: "u8 option"
  sc_max_values :: "u8 option"
  sc_disabled :: "bool option"

record select_menu =
  sm_common :: select_common
  sm_options :: "select_options list"
  sm_raw :: json

record entity_select =
  es_common :: select_common
  es_default_values :: "default_value list option"
  es_raw :: json

record channel_select =
  cs_common :: select_common
  cs_channel_types :: "u8 list option"
  cs_default_values :: "default_value list option"
  cs_raw :: json

record text_input =
  ti_id :: "u32 option"
  ti_custom_id :: string
  ti_style :: u8
  ti_label :: string
  ti_min_length :: "u16 option"
  ti_max_length :: "u16 option"
  ti_required :: "bool option"
  ti_value :: "string option"
  ti_placeholder :: "string option"
  ti_raw :: json

record media_item =
  mi_url :: string
  mi_raw :: json

record text_display =
  td_id :: "u32 option"
  td_content :: string
  td_raw :: json

record thumbnail =
  th_id :: "u32 option"
  th_media :: media_item
  th_description :: "string option"
  th_spoiler :: "bool option"
  th_raw :: json

datatype section_accessory = Acc_Button button | Acc_Thumbnail thumbnail

record section_component =
  sn_id :: "u32 option"
  sn_components :: "text_display list"
  sn_accessory :: "section_accessory option"
  sn_raw :: json

record gallery_item =
  gi_media :: media_item
  gi_description :: "string option"
  gi_spoiler :: "bool option"
  gi_raw :: json

record media_gallery =
  mg_id :: "u32 option"
  mg_items :: "gallery_item list"
  mg_raw :: json

record file_component =
  fc_id :: "u32 option"
  fc_file :: media_item
  fc_spoiler :: "bool option"
  fc_raw :: json

record separator =
  sp_id :: "u32 option"
  sp_divider :: "bool option"
  sp_spacing :: "u8 option"
  sp_raw :: json

record file_upload =
  fu_id :: "u32 option"
  fu_custom_id :: string
  fu_min_values :: "u8 option"
  fu_max_values :: "u8 option"
  fu_required :: "bool option"
  fu_raw :: json

record unknown_component =
  uk_type :: u8
  uk_raw :: json

section \<open>Writing\<close>

definition juint_opt :: "'a::len word option \<Rightarrow> json option" where "juint_opt = map_option juint"
definition jstr_opt :: "string option \<Rightarrow> json option" where "jstr_opt = map_option JStr"
definition jbool_opt :: "bool option \<Rightarrow> json option" where "jbool_opt = map_option JBool"

definition put_type :: "component_type \<Rightarrow> (string \<times> json) list \<Rightarrow> (string \<times> json) list" where
  "put_type t = put_member ''type'' (juint (type_value t))"

definition button_to_json :: "button \<Rightarrow> json option" where
  "button_to_json b = do {
     let m = members (bt_raw b);
     let m = put_type CT_Button m;
     let m = put_optional ''id'' (juint_opt (bt_id b)) m;
     let m = put_member ''style'' (juint (bt_style b)) m;
     let m = put_optional ''label'' (jstr_opt (bt_label b)) m;
     m \<leftarrow> put_emoji ''emoji'' (bt_emoji b) m;
     let m = put_optional ''custom_id'' (jstr_opt (bt_custom_id b)) m;
     let m = put_optional ''url'' (jstr_opt (bt_url b)) m;
     let m = put_optional ''sku_id'' (juint_opt (bt_sku_id b)) m;
     let m = put_member ''disabled'' (JBool (bt_disabled b)) m;
     Some (JObj m)
   }"

definition select_options_to_json :: "select_options \<Rightarrow> json option" where
  "select_options_to_json s = do {
     let m = members (so_raw s);
     let m = put_member ''label'' (JStr (so_label s)) m;
     let m = put_member ''value'' (JStr (so_value s)) m;
     let m = put_optional ''description'' (jstr_opt (so_description s)) m;
     m \<leftarrow> put_emoji ''emoji'' (so_emoji s) m;
     let m = put_optional ''default'' (jbool_opt (so_default s)) m;
     Some (JObj m)
   }"

definition default_value_to_json :: "default_value \<Rightarrow> json" where
  "default_value_to_json v =
     JObj (put_member ''type'' (JStr (dv_type v)) (put_member ''id'' (juint (dv_id v)) (members (dv_raw v))))"

definition serialize_select_common ::
    "component_type \<Rightarrow> select_common \<Rightarrow> default_value list option \<Rightarrow> (string \<times> json) list \<Rightarrow> (string \<times> json) list" where
  "serialize_select_common t c default_values m =
     (let m = put_type t m;
          m = put_optional ''id'' (juint_opt (sc_id c)) m;
          m = put_member ''custom_id'' (JStr (sc_custom_id c)) m;
          m = put_optional ''placeholder'' (jstr_opt (sc_placeholder c)) m;
          m = put_optional ''min_values'' (juint_opt (sc_min_values c)) m;
          m = put_optional ''max_values'' (juint_opt (sc_max_values c)) m;
          m = put_optional ''disabled'' (jbool_opt (sc_disabled c)) m
      in put_optional ''default_values'' (map_option (\<lambda>vs. JArr (map default_value_to_json vs)) default_values) m)"

definition select_menu_to_json :: "select_menu \<Rightarrow> json option" where
  "select_menu_to_json s = do {
     let m = serialize_select_common CT_SelectMenu (sm_common s) None (members (sm_raw s));
     js \<leftarrow> sequence_options (map select_options_to_json (sm_options s));
     Some (JObj (put_member ''options'' (JArr js) m))
   }"

definition entity_select_to_json :: "component_type \<Rightarrow> entity_select \<Rightarrow> json" where
  "entity_select_to_json t s =
     JObj (serialize_select_common t (es_common s) (es_default_values s) (members (es_raw s)))"

definition channel_select_to_json :: "channel_select \<Rightarrow> json" where
  "channel_select_to_json s =
     JObj (put_optional ''channel_types'' (map_option (\<lambda>ts. JArr (map juint ts)) (cs_channel_types s))
       (serialize_select_common CT_ChannelSelect (cs_common s) (cs_default_values s) (members (cs_raw s))))"

definition text_input_to_json :: "text_input \<Rightarrow> json" where
  "text_input_to_json t =
     (let m = members (ti_raw t);
          m = put_type CT_TextInput m;
          m = put_optional ''id'' (juint_opt (ti_id t)) m;
          m = put_member ''custom_id'' (JStr (ti_custom_id t)) m;
          m = put_member ''style'' (juint (ti_style t)) m;
          m = put_member ''label'' (JStr (ti_label t)) m;
          m = put_optional ''min_length'' (juint_opt (ti_min_length t)) m;
          m = put_optional ''max_length'' (juint_opt (ti_max_length t)) m;
          m = put_optional ''required'' (jbool_opt (ti_required t)) m;
          m = put_optional ''value'' (jstr_opt (ti_value t)) m;
          m = put_optional ''placeholder'' (jstr_opt (ti_placeholder t)) m
      in JObj m)"

definition media_item_to_json :: "media_item \<Rightarrow> json" where
  "media_item_to_json m = JObj (put_member ''url'' (JStr (mi_url m)) (members (mi_raw m)))"

definition text_display_to_json :: "text_display \<Rightarrow> json" where
  "text_display_to_json t =
     (let m = put_type CT_TextDisplay (members (td_raw t));
          m = put_optional ''id'' (juint_opt (td_id t)) m
      in JObj (put_member ''content'' (JStr (td_content t)) m))"

definition thumbnail_to_json :: "thumbnail \<Rightarrow> json" where
  "thumbnail_to_json t =
     (let m = put_type CT_Thumbnail (members (th_raw t));
          m = put_optional ''id'' (juint_opt (th_id t)) m;
          m = put_member ''media'' (media_item_to_json (th_media t)) m;
          m = put_optional ''description'' (jstr_opt (th_description t)) m
      in JObj (put_optional ''spoiler'' (jbool_opt (th_spoiler t)) m))"

fun accessory_to_json :: "section_accessory \<Rightarrow> json option" where
  "accessory_to_json (Acc_Button b) = button_to_json b"
| "accessory_to_json (Acc_Thumbnail t) = Some (thumbnail_to_json t)"

definition section_to_json :: "section_component \<Rightarrow> json option" where
  "section_to_json s = do {
     let m = put_type CT_Section (members (sn_raw s));
     let m = put_optional ''id'' (juint_opt (sn_id s)) m;
     let m = put_member ''components'' (JArr (map text_display_to_json (sn_components s))) m;
     (case sn_accessory s of
        None \<Rightarrow> Some (JObj m)
      | Some a \<Rightarrow> map_option (\<lambda>j. JObj (put_member ''accessory'' j m)) (accessory_to_json a))
   }"

definition gallery_item_to_json :: "gallery_item \<Rightarrow> json" where
  "gallery_item_to_json g =
     (let m = put_member ''media'' (media_item_to_json (gi_media g)) (members (gi_raw g));
          m = put_optional ''description'' (jstr_opt (gi_description g)) m
      in JObj (put_optional ''spoiler'' (jbool_opt (gi_spoiler g)) m))"

definition media_gallery_to_json :: "media_gallery \<Rightarrow> json" where
  "media_gallery_to_json g =
     (let m = put_type CT_MediaGallery (members (mg_raw g));
          m = put_optional ''id'' (juint_opt (mg_id g)) m
      in JObj (put_member ''items'' (JArr (map gallery_item_to_json (mg_items g))) m))"

definition file_to_json :: "file_component \<Rightarrow> json" where
  "file_to_json f =
     (let m = put_type CT_File (members (fc_raw f));
          m = put_optional ''id'' (juint_opt (fc_id f)) m;
          m = put_member ''file'' (media_item_to_json (fc_file f)) m
      in JObj (put_optional ''spoiler'' (jbool_opt (fc_spoiler f)) m))"

definition separator_to_json :: "separator \<Rightarrow> json" where
  "separator_to_json s =
     (let m = put_type CT_Separator (members (sp_raw s));
          m = put_optional ''id'' (juint_opt (sp_id s)) m;
          m = put_optional ''divider'' (jbool_opt (sp_divider s)) m
      in JObj (put_optional ''spacing'' (juint_opt (sp_spacing s)) m))"

definition file_upload_to_json :: "file_upload \<Rightarrow> json" where
  "file_upload_to_json f =
     (let m = put_type CT_FileUpload (members (fu_raw f));
          m = put_optional ''id'' (juint_opt (fu_id f)) m;
          m = put_member ''custom_id'' (JStr (fu_custom_id f)) m;
          m = put_optional ''min_values'' (juint_opt (fu_min_values f)) m;
          m = put_optional ''max_values'' (juint_opt (fu_max_values f)) m
      in JObj (put_optional ''required'' (jbool_opt (fu_required f)) m))"

definition unknown_to_json :: "unknown_component \<Rightarrow> json" where
  "unknown_to_json u =
     (let m = members (uk_raw u)
      in JObj (if map_of m ''type'' = None then put_member ''type'' (juint (uk_type u)) m else m))"

section \<open>Reading\<close>

definition button_from_json :: "json \<Rightarrow> button option" where
  "button_from_json j = do {
     i \<leftarrow> deserialize to_opt_uint j ''id'' None;
     style \<leftarrow> deserialize to_enum j ''style'' 0;
     label \<leftarrow> deserialize (to_opt get_string) j ''label'' None;
     emoji \<leftarrow> deserialize (to_opt emoji_from_json) j ''emoji'' None;
     custom_id \<leftarrow> deserialize (to_opt get_string) j ''custom_id'' None;
     url \<leftarrow> deserialize (to_opt get_string) j ''url'' None;
     sku_id \<leftarrow> deserialize to_opt_u64 j ''sku_id'' None;
     disabled \<leftarrow> deserialize to_bool j ''disabled'' False;
     Some \<lparr>bt_id = i, bt_style = style, bt_label = label, bt_emoji = emoji, bt_custom_id = custom_id,
       bt_url = url, bt_sku_id = sku_id, bt_disabled = disabled, bt_raw = j\<rparr>
   }"

definition select_options_from_json :: "json \<Rightarrow> select_options option" where
  "select_options_from_json j = do {
     label \<leftarrow> deserialize to_str j ''label'' [];
     val \<leftarrow> deserialize to_str j ''value'' [];
     description \<leftarrow> deserialize (to_opt get_string) j ''description'' None;
     emoji \<leftarrow> deserialize (to_opt emoji_from_json) j ''emoji'' None;
     def \<leftarrow> deserialize to_opt_bool j ''default'' None;
     Some \<lparr>so_label = label, so_value = val, so_description = description, so_emoji = emoji,
       so_default = def, so_raw = j\<rparr>
   }"

definition default_value_from_json :: "json \<Rightarrow> default_value option" where
  "default_value_from_json j = do {
     i \<leftarrow> deserialize to_u64 j ''id'' 0;
     t \<leftarrow> deserialize to_str j ''type'' [];
     Some \<lparr>dv_id = i, dv_type = t, dv_raw = j\<rparr>
   }"

definition deserialize_select_common :: "json \<Rightarrow> select_common option" where
  "deserialize_select_common j = do {
     i \<leftarrow> deserialize to_opt_uint j ''id'' None;
     custom_id \<leftarrow> deserialize to_str j ''custom_id'' [];
     placeholder \<leftarrow> deserialize (to_opt get_string) j ''placeholder'' None;
     min_values \<leftarrow> deserialize to_opt_uint j ''min_values'' None;
     max_values \<leftarrow> deserialize to_opt_uint j ''max_values'' None;
     disabled \<leftarrow> deserialize to_opt_bool j ''disabled'' None;
     Some \<lparr>sc_id = i, sc_custom_id = custom_id, sc_placeholder = placeholder, sc_min_values = min_values,
       sc_max_values = max_values, sc_disabled = disabled\<rparr>
   }"

definition default_values_from_json :: "json \<Rightarrow> default_value list option option" where
  "default_values_from_json j = deserialize (to_opt (get_vector default_value_from_json)) j ''default_values'' None"

definition select_menu_from_json :: "json \<Rightarrow> select_menu option" where
  "select_menu_from_json j = do {
     c \<leftarrow> deserialize_select_common j;
     options \<leftarrow> deserialize (to_vector select_options_from_json) j ''options'' [];
     Some \<lparr>sm_common = c, sm_options = options, sm_raw = j\<rparr>
   }"

definition entity_select_from_json :: "json \<Rightarrow> entity_select option" where
  "entity_select_from_json j = do {
     c \<leftarrow> deserialize_select_common j;
     ds \<leftarrow> default_values_from_json j;
     Some \<lparr>es_common = c, es_default_values = ds, es_raw = j\<rparr>
   }"

definition channel_select_from_json :: "json \<Rightarrow> channel_select option" where
  "channel_select_from_json j = do {
     c \<leftarrow> deserialize_select_common j;
     ds \<leftarrow> default_values_from_json j;
     types \<leftarrow> deserialize (to_opt (get_vector get_word)) j ''channel_types'' None;
     Some \<lparr>cs_common = c, cs_channel_types = types, cs_default_values = ds, cs_raw = j\<rparr>
   }"

definition text_input_from_json :: "json \<Rightarrow> text_input option" where
  "text_input_from_json j = do {
     i \<leftarrow> deserialize to_opt_uint j ''id'' None;
     custom_id \<leftarrow> deserialize to_str j ''custom_id'' [];
     style \<leftarrow> deserialize to_enum j ''style'' 0;
     label \<leftarrow> deserialize to_str j ''label'' [];
     min_length \<leftarrow> deserialize to_opt_uint j ''min_length'' None;
     max_length \<leftarrow> deserialize to_opt_uint j ''max_length'' None;
     required \<leftarrow> deserialize to_opt_bool j ''required'' None;
     val \<leftarrow> deserialize (to_opt get_string) j ''value'' None;
     placeholder \<leftarrow> deserialize (to_opt get_string) j ''placeholder'' None;
     Some \<lparr>ti_id = i, ti_custom_id = custom_id, ti_style = style, ti_label = label, ti_min_length = min_length,
       ti_max_length = max_length, ti_required = required, ti_value = val, ti_placeholder = placeholder, ti_raw = j\<rparr>
   }"

definition media_item_from_json :: "json \<Rightarrow> media_item option" where
  "media_item_from_json j = do {
     url \<leftarrow> deserialize to_str j ''url'' [];
     Some \<lparr>mi_url = url, mi_raw = j\<rparr>
   }"

definition no_media :: media_item where "no_media = \<lparr>mi_url = [], mi_raw = JNull\<rparr>"

definition text_display_from_json :: "json \<Rightarrow> text_display option" where
  "text_display_from_json j = do {
     i \<leftarrow> deserialize to_opt_uint j ''id'' None;
     content \<leftarrow> deserialize to_str j ''content'' [];
     Some \<lparr>td_id = i, td_content = content, td_raw = j\<rparr>
   }"

definition thumbnail_from_json :: "json \<Rightarrow> thumbnail option" where
  "thumbnail_from_json j = do {
     i \<leftarrow> deserialize to_opt_uint j ''id'' None;
     media \<leftarrow> deserialize (to_value media_item_from_json) j ''media'' no_media;
     description \<leftarrow> deserialize (to_opt get_string) j ''description'' None;
     spoiler \<leftarrow> deserialize to_opt_bool j ''spoiler'' None;
     Some \<lparr>th_id = i, th_media = media, th_description = description, th_spoiler = spoiler, th_raw = j\<rparr>
   }"

text \<open>The type of a component, where it is a number.\<close>

definition type_of_json :: "json \<Rightarrow> u8 option" where
  "type_of_json j = (case json_at j ''type'' of
     Some t \<Rightarrow> if is_number t then get_word t else None | None \<Rightarrow> None)"

fun is_obj :: "json \<Rightarrow> bool" where
  "is_obj (JObj _) = True" | "is_obj _ = False"

definition accessory_from_json :: "json \<Rightarrow> section_accessory option option" where
  "accessory_from_json a = (case type_of_json a of
     None \<Rightarrow> Some None
   | Some t \<Rightarrow>
       if t = type_value CT_Button then map_option (\<lambda>b. Some (Acc_Button b)) (button_from_json a)
       else if t = type_value CT_Thumbnail then map_option (\<lambda>b. Some (Acc_Thumbnail b)) (thumbnail_from_json a)
       else Some None)"

definition read_accessory :: "json \<Rightarrow> section_accessory option option" where
  "read_accessory j = (case json_at j ''accessory'' of
     Some a \<Rightarrow> if is_obj a then accessory_from_json a else Some None
   | None \<Rightarrow> Some None)"

definition section_from_json :: "json \<Rightarrow> section_component option" where
  "section_from_json j = do {
     i \<leftarrow> deserialize to_opt_uint j ''id'' None;
     comps \<leftarrow> deserialize (to_vector text_display_from_json) j ''components'' [];
     acc \<leftarrow> read_accessory j;
     Some \<lparr>sn_id = i, sn_components = comps, sn_accessory = acc, sn_raw = j\<rparr>
   }"

definition gallery_item_from_json :: "json \<Rightarrow> gallery_item option" where
  "gallery_item_from_json j = do {
     media \<leftarrow> deserialize (to_value media_item_from_json) j ''media'' no_media;
     description \<leftarrow> deserialize (to_opt get_string) j ''description'' None;
     spoiler \<leftarrow> deserialize to_opt_bool j ''spoiler'' None;
     Some \<lparr>gi_media = media, gi_description = description, gi_spoiler = spoiler, gi_raw = j\<rparr>
   }"

definition media_gallery_from_json :: "json \<Rightarrow> media_gallery option" where
  "media_gallery_from_json j = do {
     i \<leftarrow> deserialize to_opt_uint j ''id'' None;
     items \<leftarrow> deserialize (to_vector gallery_item_from_json) j ''items'' [];
     Some \<lparr>mg_id = i, mg_items = items, mg_raw = j\<rparr>
   }"

definition file_from_json :: "json \<Rightarrow> file_component option" where
  "file_from_json j = do {
     i \<leftarrow> deserialize to_opt_uint j ''id'' None;
     f \<leftarrow> deserialize (to_value media_item_from_json) j ''file'' no_media;
     spoiler \<leftarrow> deserialize to_opt_bool j ''spoiler'' None;
     Some \<lparr>fc_id = i, fc_file = f, fc_spoiler = spoiler, fc_raw = j\<rparr>
   }"

definition separator_from_json :: "json \<Rightarrow> separator option" where
  "separator_from_json j = do {
     i \<leftarrow> deserialize to_opt_uint j ''id'' None;
     divider \<leftarrow> deserialize to_opt_bool j ''divider'' None;
     spacing \<leftarrow> deserialize to_opt_uint j ''spacing'' None;
     Some \<lparr>sp_id = i, sp_divider = divider, sp_spacing = spacing, sp_raw = j\<rparr>
   }"

definition file_upload_from_json :: "json \<Rightarrow> file_upload option" where
  "file_upload_from_json j = do {
     i \<leftarrow> deserialize to_opt_uint j ''id'' None;
     custom_id \<leftarrow> deserialize to_str j ''custom_id'' [];
     min_values \<leftarrow> deserialize to_opt_uint j ''min_values'' None;
     max_values \<leftarrow> deserialize to_opt_uint j ''max_values'' None;
     required \<leftarrow> deserialize to_opt_bool j ''required'' None;
     Some \<lparr>fu_id = i, fu_custom_id = custom_id, fu_min_values = min_values, fu_max_values = max_values,
       fu_required = required, fu_raw = j\<rparr>
   }"

definition unknown_from_json :: "json \<Rightarrow> unknown_component" where
  "unknown_from_json j = \<lparr>uk_type = (case type_of_json j of Some t \<Rightarrow> t | None \<Rightarrow> 0), uk_raw = j\<rparr>"

end
