(* ===== verification/Component_Codec.thy ===== *)
theory Component_Codec
  imports Message_Component
begin

text \<open>
  Writing and reading of the message components without children of variant type. A component is
  \<open>coherent\<close> when its optional fields that are empty are also empty in the \<open>raw\<close> it carries (so
  that the raw does not bring them back) and an emoji has a place to go; components made by the
  builders, whose raw is null, and components read from JSON are coherent. The locale states what
  every pair of conversion functions promises: what a coherent value is written as reads back as the
  same value up to \<open>raw\<close> (\<open>erase\<close> forgets it), and every value that was read is coherent if it can
  be written at all.
\<close>

section \<open>Interface\<close>

locale json_codec =
  fixes to_j :: "'a \<Rightarrow> json option"
    and from_j :: "json \<Rightarrow> 'a option"
    and coherent :: "'a \<Rightarrow> bool"
    and erase :: "'a \<Rightarrow> 'a"
  assumes written: "coherent x \<Longrightarrow> \<exists>m y. to_j x = Some (JObj m) \<and> from_j (JObj m) = Some y \<and> erase y = erase x"
    and read_coherent: "from_j j = Some x \<Longrightarrow> to_j x \<noteq> None \<Longrightarrow> coherent x"
begin

lemma read_written: "from_j j = Some x \<Longrightarrow> to_j x = Some j' \<Longrightarrow> coherent x"
  by (rule read_coherent) simp_all

lemma resend:
  assumes "from_j j = Some x" "to_j x = Some j'"
  shows "\<exists>y. from_j j' = Some y \<and> erase y = erase x"
  using written [OF read_coherent [OF assms(1)]] assms(2) by auto

lemma vector_written:
  assumes "list_all coherent xs"
  shows "\<exists>js ys. sequence_options (map to_j xs) = Some js \<and> sequence_options (map from_j js) = Some ys
    \<and> map erase ys = map erase xs"
  using assms
proof (induction xs)
  case (Cons x xs)
  then obtain js ys where "sequence_options (map to_j xs) = Some js"
    "sequence_options (map from_j js) = Some ys" "map erase ys = map erase xs" by auto
  moreover obtain m y where "to_j x = Some (JObj m)" "from_j (JObj m) = Some y" "erase y = erase x"
    using written [of x] Cons.prems by auto
  ultimately show ?case by (intro exI [of _ "JObj m # js"] exI [of _ "y # ys"]) simp
qed simp

lemma vector_coherent:
  assumes "sequence_options (map from_j js) = Some xs" "sequence_options (map to_j xs) \<noteq> None"
  shows "list_all coherent xs"
  using assms
proof (induction js arbitrary: xs)
  case (Cons j js)
  then obtain x xs' where x: "xs = x # xs'" "from_j j = Some x" "sequence_options (map from_j js) = Some xs'"
    by (cases "from_j j") auto
  with Cons.prems have "to_j x \<noteq> None" "sequence_options (map to_j xs') \<noteq> None"
    by (cases "to_j x"; auto)+
  with x Cons.IH show ?case by (simp add: read_coherent)
qed simp

end

locale component_codec = json_codec +
  fixes ctype :: component_type
  assumes typed: "to_j x = Some j \<Longrightarrow> type_of_json j = Some (type_value ctype)"
begin

lemma written_typed:
  assumes "coherent x"
  shows "\<exists>m y. to_j x = Some (JObj m) \<and> type_of_json (JObj m) = Some (type_value ctype)
    \<and> from_j (JObj m) = Some y \<and> erase y = erase x"
  using written [OF assms] typed by blast

end

section \<open>Members\<close>

definition absent :: "(json \<Rightarrow> 'a option \<Rightarrow> 'a option option) \<Rightarrow> (string \<times> json) list \<Rightarrow> string \<Rightarrow> 'a option \<Rightarrow> bool" where
  "absent conv m k v = (v = None \<longrightarrow> deserialize conv (JObj m) k None = Some None)"

lemma deserialize_members: "deserialize conv (JObj (members j)) k old = deserialize conv j k old"
  by (cases j) (simp_all add: deserialize_def)

lemma deserialize_put [simp]:
  "deserialize conv (JObj (put_member k v m)) k' old =
     (if k' = k then if is_null v then Some old else conv v old else deserialize conv (JObj m) k' old)"
  by (simp add: deserialize_def)

lemma deserialize_put_opt [simp]:
  "k' \<noteq> k \<Longrightarrow> deserialize conv (JObj (put_optional k v m)) k' old = deserialize conv (JObj m) k' old"
  by (simp add: deserialize_def)

lemma put_opt_simps [simp]: "put_optional k None m = m" "put_optional k (Some v) m = put_member k v m"
  by (simp_all add: put_optional_def)

lemma absent_put [simp]:
  "k' \<noteq> k \<Longrightarrow> absent conv (put_member k v m) k' x = absent conv m k' x"
  "k' \<noteq> k \<Longrightarrow> absent conv (put_optional k w m) k' x = absent conv m k' x"
  by (simp_all add: absent_def)

lemma members_eq:
  assumes "map_of m' k = map_of m k"
  shows "deserialize conv (JObj m') k old = deserialize conv (JObj m) k old"
    and "absent aconv m' k x = absent aconv m k x"
  using assms by (simp_all add: absent_def deserialize_def)

lemma absent_read: "deserialize conv j k None = Some v \<Longrightarrow> absent conv (members j) k v"
  by (simp add: absent_def deserialize_members)

lemma absent_empty [simp]: "absent conv [] k v"
  by (simp add: absent_def deserialize_def)

text \<open>An optional member that is written, or else absent in what was there, reads back.\<close>

lemma read_put_opt:
  assumes "absent conv m k v" "\<And>x. \<not> is_null (enc x)" "\<And>x. conv (enc x) None = Some (Some x)"
  shows "deserialize conv (JObj (put_optional k (map_option enc v) m)) k None = Some v"
  using assms by (cases v) (simp_all add: absent_def put_optional_def)

lemma read_opts [simp]:
  "absent to_opt_uint m k w \<Longrightarrow> deserialize to_opt_uint (JObj (put_optional k (juint_opt w) m)) k None = Some w"
  "absent to_opt_u64 m k u \<Longrightarrow> deserialize to_opt_u64 (JObj (put_optional k (juint_opt u) m)) k None = Some u"
  "absent to_opt_bool m k b \<Longrightarrow> deserialize to_opt_bool (JObj (put_optional k (jbool_opt b) m)) k None = Some b"
  "absent (to_opt get_string) m k s \<Longrightarrow>
     deserialize (to_opt get_string) (JObj (put_optional k (jstr_opt s) m)) k None = Some s"
  by (auto simp: juint_opt_def jbool_opt_def jstr_opt_def to_opt_def intro!: read_put_opt)

lemma json_at_put [simp]:
  "json_at (JObj (put_member k v m)) k' = (if k' = k then Some v else json_at (JObj m) k')"
  "k' \<noteq> k \<Longrightarrow> json_at (JObj (put_optional k w m)) k' = json_at (JObj m) k'"
  by simp_all

lemma type_put [simp]:
  "k \<noteq> ''type'' \<Longrightarrow> type_of_json (JObj (put_member k v m)) = type_of_json (JObj m)"
  "k \<noteq> ''type'' \<Longrightarrow> type_of_json (JObj (put_optional k w m)) = type_of_json (JObj m)"
  "type_of_json (JObj (put_type t m)) = Some (type_value t)"
  by (simp_all add: type_of_json_def put_type_def)

section \<open>Emoji\<close>

definition emoji_fits :: "(string \<times> json) list \<Rightarrow> string \<Rightarrow> partial_emoji option \<Rightarrow> bool" where
  "emoji_fits m k e = (case e of
     None \<Rightarrow> absent (to_opt emoji_from_json) m k e
   | Some p \<Rightarrow> (case map_of m k of
        None \<Rightarrow> True
      | Some JNull \<Rightarrow> True
      | Some (JObj old) \<Rightarrow> absent to_opt_bool old ''animated'' (pe_animated p)
      | _ \<Rightarrow> False))"

lemma emoji_fits_put [simp]:
  "k' \<noteq> k \<Longrightarrow> emoji_fits (put_member k v m) k' e = emoji_fits m k' e"
  "k' \<noteq> k \<Longrightarrow> emoji_fits (put_optional k w m) k' e = emoji_fits m k' e"
  by (cases e; simp add: emoji_fits_def)+

lemma emoji_into_reads:
  assumes "absent to_opt_bool old ''animated'' (pe_animated p)"
  shows "emoji_from_json (JObj (emoji_into p old)) = Some p"
proof -
  have "emoji_into p old = put_optional ''animated'' (jbool_opt (pe_animated p))
     (put_member ''name'' (JStr (pe_name p)) (put_member ''id'' (snowflake_to_json (pe_id p)) old))"
    by (simp add: emoji_into_def jbool_opt_def)
  with assms show ?thesis by (simp add: emoji_from_json_def)
qed

text \<open>What writing an emoji does to the other members, and to its own.\<close>

lemma put_emoji_written:
  assumes "emoji_fits m k e"
  obtains m' where "put_emoji k e m = Some m'" "deserialize (to_opt emoji_from_json) (JObj m') k None = Some e"
    "\<And>k'. k' \<noteq> k \<Longrightarrow> map_of m' k' = map_of m k'"
proof (cases e)
  case None
  with assms that [of m] show ?thesis by (simp add: emoji_fits_def put_emoji_def absent_def)
next
  case e: (Some p)
  have fresh: "emoji_from_json (JObj (emoji_into p [])) = Some p" by (rule emoji_into_reads) simp
  show ?thesis
  proof (cases "map_of m k")
    case None
    with e fresh that [of "put_member k (JObj (emoji_into p [])) m"] show ?thesis
      by (simp add: put_emoji_def to_opt_def)
  next
    case (Some v)
    with assms e consider "v = JNull" | old where "v = JObj old" "absent to_opt_bool old ''animated'' (pe_animated p)"
      by (cases v) (auto simp: emoji_fits_def)
    then show ?thesis
    proof cases
      case 1
      with Some e fresh that [of "put_member k (JObj (emoji_into p [])) m"] show ?thesis
        by (simp add: put_emoji_def to_opt_def)
    next
      case 2
      with Some e emoji_into_reads [OF 2(2)] that [of "put_member k (JObj (emoji_into p old)) m"] show ?thesis
        by (simp add: put_emoji_def to_opt_def)
    qed
  qed
qed

lemma put_emoji_other:
  assumes "put_emoji k e m = Some m'" "k' \<noteq> k"
  shows "map_of m' k' = map_of m k'"
proof (cases e)
  case (Some p)
  with assms show ?thesis by (cases "map_of m k") (auto simp: put_emoji_def split: json.splits)
qed (use assms in \<open>simp add: put_emoji_def\<close>)

lemma put_emoji_fails [simp]:
  "k' \<noteq> k \<Longrightarrow> (put_emoji k e (put_member k' v m) = None) = (put_emoji k e m = None)"
  "k' \<noteq> k \<Longrightarrow> (put_emoji k e (put_optional k' w m) = None) = (put_emoji k e m = None)"
  by (cases e; cases "map_of m k"; simp add: put_emoji_def split: json.splits)+

lemma type_put_emoji:
  "put_emoji ''emoji'' e m = Some m' \<Longrightarrow> type_of_json (JObj m') = type_of_json (JObj m)"
  by (simp add: type_of_json_def put_emoji_other)

lemma emoji_fits_read:
  assumes "deserialize (to_opt emoji_from_json) j k None = Some e" "put_emoji k e (members j) \<noteq> None"
  shows "emoji_fits (members j) k e"
proof (cases e)
  case None
  with assms(1) show ?thesis by (simp add: emoji_fits_def absent_read)
next
  case (Some p)
  show ?thesis
  proof (cases "map_of (members j) k")
    case v: (Some v)
    from assms(2) Some v consider "v = JNull" | old where "v = JObj old"
      by (cases v) (auto simp: put_emoji_def)
    then show ?thesis
    proof cases
      case 2
      from assms(1) have "deserialize (to_opt emoji_from_json) (JObj (members j)) k None = Some e"
        by (simp add: deserialize_members)
      with v 2 Some have "emoji_from_json (JObj old) = Some p" by (simp add: to_opt_def)
      then have "deserialize to_opt_bool (JObj old) ''animated'' None = Some (pe_animated p)"
        by (auto simp: emoji_from_json_def split: Option.bind_splits)
      with v 2 Some absent_read [of to_opt_bool "JObj old"] show ?thesis by (simp add: emoji_fits_def)
    qed (simp add: emoji_fits_def v Some)
  qed (simp add: emoji_fits_def Some)
qed

section \<open>Buttons and select options\<close>

definition coherent_button :: "button \<Rightarrow> bool" where
  "coherent_button b = (let m = members (bt_raw b) in
     absent to_opt_uint m ''id'' (bt_id b) \<and> absent (to_opt get_string) m ''label'' (bt_label b) \<and>
     emoji_fits m ''emoji'' (bt_emoji b) \<and> absent (to_opt get_string) m ''custom_id'' (bt_custom_id b) \<and>
     absent (to_opt get_string) m ''url'' (bt_url b) \<and> absent to_opt_u64 m ''sku_id'' (bt_sku_id b))"

definition erase_button :: "button \<Rightarrow> button" where
  "erase_button b = b\<lparr>bt_raw := JNull\<rparr>"

lemma button_written:
  assumes "coherent_button b"
  shows "\<exists>m y. button_to_json b = Some (JObj m) \<and> button_from_json (JObj m) = Some y \<and> erase_button y = erase_button b"
proof -
  note c = assms [unfolded coherent_button_def Let_def]
  define m where "m = put_optional ''label'' (jstr_opt (bt_label b)) (put_member ''style'' (juint (bt_style b))
     (put_optional ''id'' (juint_opt (bt_id b)) (put_type CT_Button (members (bt_raw b)))))"
  have "emoji_fits m ''emoji'' (bt_emoji b)" using c by (simp add: m_def put_type_def)
  then obtain m' where m': "put_emoji ''emoji'' (bt_emoji b) m = Some m'"
    "deserialize (to_opt emoji_from_json) (JObj m') ''emoji'' None = Some (bt_emoji b)"
    and eq: "\<And>k'. k' \<noteq> ''emoji'' \<Longrightarrow> map_of m' k' = map_of m k'" by (rule put_emoji_written) blast
  note eqs = members_eq [OF eq]
  from m' c show ?thesis
    by (simp add: button_to_json_def button_from_json_def erase_button_def eqs m_def put_type_def)
qed

lemma button_typed: "button_to_json b = Some j \<Longrightarrow> type_of_json j = Some (type_value CT_Button)"
  by (auto simp: button_to_json_def type_put_emoji split: Option.bind_splits)

lemma button_read_coherent:
  assumes "button_from_json j = Some b" "button_to_json b \<noteq> None"
  shows "coherent_button b"
proof -
  from assms(1) have raw: "bt_raw b = j"
    and f: "deserialize to_opt_uint j ''id'' None = Some (bt_id b)"
      "deserialize (to_opt get_string) j ''label'' None = Some (bt_label b)"
      "deserialize (to_opt emoji_from_json) j ''emoji'' None = Some (bt_emoji b)"
      "deserialize (to_opt get_string) j ''custom_id'' None = Some (bt_custom_id b)"
      "deserialize (to_opt get_string) j ''url'' None = Some (bt_url b)"
      "deserialize to_opt_u64 j ''sku_id'' None = Some (bt_sku_id b)"
    by (auto simp: button_from_json_def split: Option.bind_splits)
  have "emoji_fits (members j) ''emoji'' (bt_emoji b)"
    using assms(2) raw by (intro emoji_fits_read [OF f(3)]) (simp add: button_to_json_def put_type_def bind_eq_None_conv del: not_None_eq)
  with f raw show ?thesis by (simp add: coherent_button_def absent_read)
qed

interpretation button: component_codec button_to_json button_from_json coherent_button erase_button CT_Button
  by unfold_locales (rule button_written button_read_coherent button_typed; assumption)+

definition coherent_select_options :: "select_options \<Rightarrow> bool" where
  "coherent_select_options s = (let m = members (so_raw s) in
     absent (to_opt get_string) m ''description'' (so_description s) \<and> emoji_fits m ''emoji'' (so_emoji s) \<and>
     absent to_opt_bool m ''default'' (so_default s))"

definition erase_select_options :: "select_options \<Rightarrow> select_options" where
  "erase_select_options s = s\<lparr>so_raw := JNull\<rparr>"

lemma select_options_written:
  assumes "coherent_select_options s"
  shows "\<exists>m y. select_options_to_json s = Some (JObj m) \<and> select_options_from_json (JObj m) = Some y
    \<and> erase_select_options y = erase_select_options s"
proof -
  note c = assms [unfolded coherent_select_options_def Let_def]
  define m where "m = put_optional ''description'' (jstr_opt (so_description s)) (put_member ''value'' (JStr (so_value s))
     (put_member ''label'' (JStr (so_label s)) (members (so_raw s))))"
  have "emoji_fits m ''emoji'' (so_emoji s)" using c by (simp add: m_def)
  then obtain m' where m': "put_emoji ''emoji'' (so_emoji s) m = Some m'"
    "deserialize (to_opt emoji_from_json) (JObj m') ''emoji'' None = Some (so_emoji s)"
    and eq: "\<And>k'. k' \<noteq> ''emoji'' \<Longrightarrow> map_of m' k' = map_of m k'" by (rule put_emoji_written) blast
  note eqs = members_eq [OF eq]
  from m' c show ?thesis
    by (simp add: select_options_to_json_def select_options_from_json_def erase_select_options_def eqs m_def)
qed

lemma select_options_read_coherent:
  assumes "select_options_from_json j = Some s" "select_options_to_json s \<noteq> None"
  shows "coherent_select_options s"
proof -
  from assms(1) have raw: "so_raw s = j"
    and f: "deserialize (to_opt get_string) j ''description'' None = Some (so_description s)"
      "deserialize (to_opt emoji_from_json) j ''emoji'' None = Some (so_emoji s)"
      "deserialize to_opt_bool j ''default'' None = Some (so_default s)"
    by (auto simp: select_options_from_json_def split: Option.bind_splits)
  have "emoji_fits (members j) ''emoji'' (so_emoji s)"
    using assms(2) raw by (intro emoji_fits_read [OF f(2)])
      (simp add: select_options_to_json_def bind_eq_None_conv del: not_None_eq)
  with f raw show ?thesis by (simp add: coherent_select_options_def absent_read)
qed

interpretation select_options: json_codec select_options_to_json select_options_from_json
  coherent_select_options erase_select_options
  by unfold_locales (rule select_options_written select_options_read_coherent; assumption)+

section \<open>Default values and the common part of the selects\<close>

definition erase_default_value :: "default_value \<Rightarrow> default_value" where
  "erase_default_value v = v\<lparr>dv_raw := JNull\<rparr>"

interpretation default_value: json_codec "\<lambda>v. Some (default_value_to_json v)" default_value_from_json
  "\<lambda>_. True" erase_default_value
  by unfold_locales (simp_all add: default_value_to_json_def default_value_from_json_def erase_default_value_def)

abbreviation to_default_values :: "json \<Rightarrow> default_value list option \<Rightarrow> default_value list option option" where
  "to_default_values \<equiv> to_opt (get_vector default_value_from_json)"

definition coherent_select_common :: "(string \<times> json) list \<Rightarrow> select_common \<Rightarrow> bool" where
  "coherent_select_common m c =
     (absent to_opt_uint m ''id'' (sc_id c) \<and> absent (to_opt get_string) m ''placeholder'' (sc_placeholder c) \<and>
      absent to_opt_uint m ''min_values'' (sc_min_values c) \<and> absent to_opt_uint m ''max_values'' (sc_max_values c) \<and>
      absent to_opt_bool m ''disabled'' (sc_disabled c))"

lemma select_common_written:
  assumes "coherent_select_common m c"
  shows "deserialize_select_common (JObj (serialize_select_common t c dv m)) = Some c"
    and "deserialize_select_common (JObj (put_member ''options'' v (serialize_select_common t c dv m))) = Some c"
    and "deserialize_select_common (JObj (put_optional ''channel_types'' w (serialize_select_common t c dv m))) = Some c"
  using assms
  by (simp_all add: coherent_select_common_def deserialize_select_common_def serialize_select_common_def put_type_def)

lemma select_common_read:
  "deserialize_select_common j = Some c \<Longrightarrow> coherent_select_common (members j) c"
  by (auto simp: coherent_select_common_def deserialize_select_common_def absent_read split: Option.bind_splits)

lemma select_common_typed [simp]: "type_of_json (JObj (serialize_select_common t c dv m)) = Some (type_value t)"
  by (simp add: serialize_select_common_def)

lemma select_common_other [simp]:
  assumes "k \<notin> {''type'', ''id'', ''custom_id'', ''placeholder'', ''min_values'', ''max_values'', ''disabled'', ''default_values''}"
  shows "map_of (serialize_select_common t c dv m) k = map_of m k"
  using assms by (simp add: serialize_select_common_def put_type_def)

lemma default_values_written:
  assumes "absent to_default_values m ''default_values'' dv"
  shows "\<exists>ys. default_values_from_json (JObj (serialize_select_common t c dv m)) = Some ys
    \<and> map_option (map erase_default_value) ys = map_option (map erase_default_value) dv"
proof (cases dv)
  case None
  with assms show ?thesis
    by (simp add: default_values_from_json_def serialize_select_common_def put_type_def absent_def)
next
  case (Some vs)
  obtain ys where "sequence_options (map default_value_from_json (map default_value_to_json vs)) = Some ys"
    "map erase_default_value ys = map erase_default_value vs"
    using default_value.vector_written [of vs] by (auto simp: list_all_def)
  with Some show ?thesis
    by (simp add: default_values_from_json_def serialize_select_common_def to_opt_def get_vector_def)
qed

end
