(* ===== verification/Component_Leaves.thy ===== *)
theory Component_Leaves
  imports Component_Codec
begin

text \<open>
  The codec interface for the remaining components that do not hold a variant: selects, text inputs,
  display components and file uploads.
\<close>

section \<open>Selects\<close>

definition coherent_select_menu :: "select_menu \<Rightarrow> bool" where
  "coherent_select_menu s = (coherent_select_common (members (sm_raw s)) (sm_common s) \<and>
     list_all coherent_select_options (sm_options s))"

definition erase_select_menu :: "select_menu \<Rightarrow> select_menu" where
  "erase_select_menu s = s\<lparr>sm_options := map erase_select_options (sm_options s), sm_raw := JNull\<rparr>"

lemma select_menu_written:
  assumes "coherent_select_menu s"
  shows "\<exists>m y. select_menu_to_json s = Some (JObj m) \<and> select_menu_from_json (JObj m) = Some y
    \<and> erase_select_menu y = erase_select_menu s"
proof -
  from assms have c: "coherent_select_common (members (sm_raw s)) (sm_common s)"
    and o: "list_all coherent_select_options (sm_options s)" by (simp_all add: coherent_select_menu_def)
  obtain js ys where "sequence_options (map select_options_to_json (sm_options s)) = Some js"
    "sequence_options (map select_options_from_json js) = Some ys"
    "map erase_select_options ys = map erase_select_options (sm_options s)"
    using select_options.vector_written [OF o] by blast
  then show ?thesis
    by (simp add: select_menu_to_json_def select_menu_from_json_def erase_select_menu_def
        select_common_written(2) [OF c] to_vector_def get_vector_def)
qed

lemma read_vector_coherent:
  assumes codec: "json_codec to_j from_j coherent erase"
    and "deserialize (to_vector from_j) j k [] = Some xs" "sequence_options (map to_j xs) \<noteq> None"
  shows "list_all coherent xs"
proof (cases "json_at j k")
  case (Some v)
  show ?thesis
  proof (cases "is_null v")
    case False
    with assms(2) Some obtain js where "sequence_options (map from_j js) = Some xs"
      by (cases v) (auto simp: deserialize_def to_vector_def get_vector_def)
    with json_codec.vector_coherent [OF codec] assms(3) show ?thesis by blast
  qed (use assms(2) Some in \<open>simp add: deserialize_def\<close>)
qed (use assms(2) in \<open>simp add: deserialize_def\<close>)

lemma select_menu_read_coherent:
  assumes "select_menu_from_json j = Some s" "select_menu_to_json s \<noteq> None"
  shows "coherent_select_menu s"
proof -
  from assms(1) have f: "sm_raw s = j" "deserialize_select_common j = Some (sm_common s)"
    "deserialize (to_vector select_options_from_json) j ''options'' [] = Some (sm_options s)"
    by (auto simp: select_menu_from_json_def split: Option.bind_splits)
  have "sequence_options (map select_options_to_json (sm_options s)) \<noteq> None"
    using assms(2) by (simp add: select_menu_to_json_def bind_eq_None_conv del: not_None_eq)
  then show ?thesis
    using read_vector_coherent [OF select_options.json_codec_axioms f(3)] f(1,2)
    by (simp add: coherent_select_menu_def select_common_read)
qed

lemma select_menu_typed: "select_menu_to_json s = Some j \<Longrightarrow> type_of_json j = Some (type_value CT_SelectMenu)"
  by (auto simp: select_menu_to_json_def split: Option.bind_splits)

interpretation select_menu: component_codec select_menu_to_json select_menu_from_json coherent_select_menu
  erase_select_menu CT_SelectMenu
  by unfold_locales (rule select_menu_written select_menu_read_coherent select_menu_typed; assumption)+

definition coherent_entity_select :: "entity_select \<Rightarrow> bool" where
  "coherent_entity_select s = (coherent_select_common (members (es_raw s)) (es_common s) \<and>
     absent to_default_values (members (es_raw s)) ''default_values'' (es_default_values s))"

definition erase_entity_select :: "entity_select \<Rightarrow> entity_select" where
  "erase_entity_select s =
     s\<lparr>es_default_values := map_option (map erase_default_value) (es_default_values s), es_raw := JNull\<rparr>"

lemma entity_select_codec:
  "component_codec (\<lambda>s. Some (entity_select_to_json t s)) entity_select_from_json coherent_entity_select
     erase_entity_select t"
proof
  fix s
  assume "coherent_entity_select s"
  then have c: "coherent_select_common (members (es_raw s)) (es_common s)"
    "absent to_default_values (members (es_raw s)) ''default_values'' (es_default_values s)"
    by (simp_all add: coherent_entity_select_def)
  obtain ys where ys: "default_values_from_json
      (JObj (serialize_select_common t (es_common s) (es_default_values s) (members (es_raw s)))) = Some ys"
    "map_option (map erase_default_value) ys = map_option (map erase_default_value) (es_default_values s)"
    using default_values_written [OF c(2)] by blast
  then show "\<exists>m y. Some (entity_select_to_json t s) = Some (JObj m) \<and> entity_select_from_json (JObj m) = Some y
      \<and> erase_entity_select y = erase_entity_select s"
    by (simp add: entity_select_to_json_def entity_select_from_json_def erase_entity_select_def
        select_common_written(1) [OF c(1)])
next
  fix j s
  assume "entity_select_from_json j = Some s"
  then show "coherent_entity_select s"
    by (auto simp: entity_select_from_json_def coherent_entity_select_def default_values_from_json_def
        absent_read select_common_read split: Option.bind_splits)
qed (auto simp: entity_select_to_json_def)

interpretation user_select: component_codec "\<lambda>s. Some (entity_select_to_json CT_UserSelect s)"
  entity_select_from_json coherent_entity_select erase_entity_select CT_UserSelect
  by (rule entity_select_codec)

interpretation role_select: component_codec "\<lambda>s. Some (entity_select_to_json CT_RoleSelect s)"
  entity_select_from_json coherent_entity_select erase_entity_select CT_RoleSelect
  by (rule entity_select_codec)

interpretation mentionable_select: component_codec "\<lambda>s. Some (entity_select_to_json CT_MentionableSelect s)"
  entity_select_from_json coherent_entity_select erase_entity_select CT_MentionableSelect
  by (rule entity_select_codec)

definition coherent_channel_select :: "channel_select \<Rightarrow> bool" where
  "coherent_channel_select s = (coherent_select_common (members (cs_raw s)) (cs_common s) \<and>
     absent to_default_values (members (cs_raw s)) ''default_values'' (cs_default_values s) \<and>
     absent (to_opt (get_vector get_word)) (members (cs_raw s)) ''channel_types'' (cs_channel_types s))"

definition erase_channel_select :: "channel_select \<Rightarrow> channel_select" where
  "erase_channel_select s =
     s\<lparr>cs_default_values := map_option (map erase_default_value) (cs_default_values s), cs_raw := JNull\<rparr>"

lemma channel_select_written:
  assumes "coherent_channel_select s"
  shows "\<exists>m y. Some (channel_select_to_json s) = Some (JObj m) \<and> channel_select_from_json (JObj m) = Some y
    \<and> erase_channel_select y = erase_channel_select s"
proof -
  let ?m = "serialize_select_common CT_ChannelSelect (cs_common s) (cs_default_values s) (members (cs_raw s))"
  from assms have c: "coherent_select_common (members (cs_raw s)) (cs_common s)"
    "absent to_default_values (members (cs_raw s)) ''default_values'' (cs_default_values s)"
    "absent (to_opt (get_vector get_word)) (members (cs_raw s)) ''channel_types'' (cs_channel_types s)"
    by (simp_all add: coherent_channel_select_def)
  obtain ys where ys: "default_values_from_json (JObj ?m) = Some ys"
    "map_option (map erase_default_value) ys = map_option (map erase_default_value) (cs_default_values s)"
    using default_values_written [OF c(2)] by blast
  have "absent (to_opt (get_vector get_word)) ?m ''channel_types'' (cs_channel_types s)"
    using c(3) by (simp add: members_eq(2) [OF select_common_other])
  then have "deserialize (to_opt (get_vector get_word)) (JObj (put_optional ''channel_types''
      (map_option (\<lambda>ts. JArr (map juint ts)) (cs_channel_types s)) ?m)) ''channel_types'' None = Some (cs_channel_types s)"
    by (rule read_put_opt) (simp_all add: to_opt_def get_vector_map [where g = "\<lambda>x. x"])
  with ys show ?thesis
    by (simp add: channel_select_to_json_def channel_select_from_json_def erase_channel_select_def
        select_common_written(3) [OF c(1)] default_values_from_json_def)
qed

interpretation channel_select: component_codec "\<lambda>s. Some (channel_select_to_json s)" channel_select_from_json
  coherent_channel_select erase_channel_select CT_ChannelSelect
proof
  fix j s
  assume "channel_select_from_json j = Some s"
  then show "coherent_channel_select s"
    by (auto simp: channel_select_from_json_def coherent_channel_select_def default_values_from_json_def
        absent_read select_common_read split: Option.bind_splits)
qed (rule channel_select_written, assumption, auto simp: channel_select_to_json_def)

section \<open>Text inputs and file uploads\<close>

definition coherent_text_input :: "text_input \<Rightarrow> bool" where
  "coherent_text_input t = (let m = members (ti_raw t) in
     absent to_opt_uint m ''id'' (ti_id t) \<and> absent to_opt_uint m ''min_length'' (ti_min_length t) \<and>
     absent to_opt_uint m ''max_length'' (ti_max_length t) \<and> absent to_opt_bool m ''required'' (ti_required t) \<and>
     absent (to_opt get_string) m ''value'' (ti_value t) \<and>
     absent (to_opt get_string) m ''placeholder'' (ti_placeholder t))"

definition erase_text_input :: "text_input \<Rightarrow> text_input" where
  "erase_text_input t = t\<lparr>ti_raw := JNull\<rparr>"

interpretation text_input: component_codec "\<lambda>t. Some (text_input_to_json t)" text_input_from_json
  coherent_text_input erase_text_input CT_TextInput
proof
  fix t
  assume "coherent_text_input t"
  then show "\<exists>m y. Some (text_input_to_json t) = Some (JObj m) \<and> text_input_from_json (JObj m) = Some y
      \<and> erase_text_input y = erase_text_input t"
    by (simp add: coherent_text_input_def text_input_to_json_def text_input_from_json_def erase_text_input_def
        put_type_def Let_def)
next
  fix j t
  assume "text_input_from_json j = Some t"
  then show "coherent_text_input t"
    by (auto simp: text_input_from_json_def coherent_text_input_def absent_read split: Option.bind_splits)
qed (auto simp: text_input_to_json_def Let_def)

definition coherent_file_upload :: "file_upload \<Rightarrow> bool" where
  "coherent_file_upload f = (let m = members (fu_raw f) in
     absent to_opt_uint m ''id'' (fu_id f) \<and> absent to_opt_uint m ''min_values'' (fu_min_values f) \<and>
     absent to_opt_uint m ''max_values'' (fu_max_values f) \<and> absent to_opt_bool m ''required'' (fu_required f))"

definition erase_file_upload :: "file_upload \<Rightarrow> file_upload" where
  "erase_file_upload f = f\<lparr>fu_raw := JNull\<rparr>"

interpretation file_upload: component_codec "\<lambda>f. Some (file_upload_to_json f)" file_upload_from_json
  coherent_file_upload erase_file_upload CT_FileUpload
proof
  fix f
  assume "coherent_file_upload f"
  then show "\<exists>m y. Some (file_upload_to_json f) = Some (JObj m) \<and> file_upload_from_json (JObj m) = Some y
      \<and> erase_file_upload y = erase_file_upload f"
    by (simp add: coherent_file_upload_def file_upload_to_json_def file_upload_from_json_def erase_file_upload_def
        put_type_def Let_def)
next
  fix j f
  assume "file_upload_from_json j = Some f"
  then show "coherent_file_upload f"
    by (auto simp: file_upload_from_json_def coherent_file_upload_def absent_read split: Option.bind_splits)
qed (auto simp: file_upload_to_json_def Let_def)

section \<open>Display components\<close>

definition erase_media_item :: "media_item \<Rightarrow> media_item" where
  "erase_media_item m = m\<lparr>mi_raw := JNull\<rparr>"

interpretation media_item: json_codec "\<lambda>m. Some (media_item_to_json m)" media_item_from_json "\<lambda>_. True"
  erase_media_item
  by unfold_locales (simp_all add: media_item_to_json_def media_item_from_json_def erase_media_item_def)

text \<open>A media item as a member.\<close>

lemma media_member [simp]:
  "\<not> is_null (media_item_to_json x)"
  "to_value media_item_from_json (media_item_to_json x) old =
     Some \<lparr>mi_url = mi_url x, mi_raw = media_item_to_json x\<rparr>"
  by (simp_all add: media_item_to_json_def media_item_from_json_def to_value_def)

definition coherent_text_display :: "text_display \<Rightarrow> bool" where
  "coherent_text_display t = absent to_opt_uint (members (td_raw t)) ''id'' (td_id t)"

definition erase_text_display :: "text_display \<Rightarrow> text_display" where
  "erase_text_display t = t\<lparr>td_raw := JNull\<rparr>"

interpretation text_display: component_codec "\<lambda>t. Some (text_display_to_json t)" text_display_from_json
  coherent_text_display erase_text_display CT_TextDisplay
proof
  fix t
  assume "coherent_text_display t"
  then show "\<exists>m y. Some (text_display_to_json t) = Some (JObj m) \<and> text_display_from_json (JObj m) = Some y
      \<and> erase_text_display y = erase_text_display t"
    by (simp add: coherent_text_display_def text_display_to_json_def text_display_from_json_def
        erase_text_display_def put_type_def Let_def)
next
  fix j t
  assume "text_display_from_json j = Some t"
  then show "coherent_text_display t"
    by (auto simp: text_display_from_json_def coherent_text_display_def absent_read split: Option.bind_splits)
qed (auto simp: text_display_to_json_def Let_def)

definition coherent_thumbnail :: "thumbnail \<Rightarrow> bool" where
  "coherent_thumbnail t = (let m = members (th_raw t) in
     absent to_opt_uint m ''id'' (th_id t) \<and> absent (to_opt get_string) m ''description'' (th_description t) \<and>
     absent to_opt_bool m ''spoiler'' (th_spoiler t))"

definition erase_thumbnail :: "thumbnail \<Rightarrow> thumbnail" where
  "erase_thumbnail t = t\<lparr>th_media := erase_media_item (th_media t), th_raw := JNull\<rparr>"

interpretation thumbnail: component_codec "\<lambda>t. Some (thumbnail_to_json t)" thumbnail_from_json
  coherent_thumbnail erase_thumbnail CT_Thumbnail
proof
  fix t
  assume "coherent_thumbnail t"
  then show "\<exists>m y. Some (thumbnail_to_json t) = Some (JObj m) \<and> thumbnail_from_json (JObj m) = Some y
      \<and> erase_thumbnail y = erase_thumbnail t"
    by (simp add: coherent_thumbnail_def thumbnail_to_json_def thumbnail_from_json_def erase_thumbnail_def
        erase_media_item_def put_type_def Let_def)
next
  fix j t
  assume "thumbnail_from_json j = Some t"
  then show "coherent_thumbnail t"
    by (auto simp: thumbnail_from_json_def coherent_thumbnail_def absent_read split: Option.bind_splits)
qed (auto simp: thumbnail_to_json_def Let_def)

definition coherent_gallery_item :: "gallery_item \<Rightarrow> bool" where
  "coherent_gallery_item g = (let m = members (gi_raw g) in
     absent (to_opt get_string) m ''description'' (gi_description g) \<and> absent to_opt_bool m ''spoiler'' (gi_spoiler g))"

definition erase_gallery_item :: "gallery_item \<Rightarrow> gallery_item" where
  "erase_gallery_item g = g\<lparr>gi_media := erase_media_item (gi_media g), gi_raw := JNull\<rparr>"

interpretation gallery_item: json_codec "\<lambda>g. Some (gallery_item_to_json g)" gallery_item_from_json
  coherent_gallery_item erase_gallery_item
proof
  fix g
  assume "coherent_gallery_item g"
  then show "\<exists>m y. Some (gallery_item_to_json g) = Some (JObj m) \<and> gallery_item_from_json (JObj m) = Some y
      \<and> erase_gallery_item y = erase_gallery_item g"
    by (simp add: coherent_gallery_item_def gallery_item_to_json_def gallery_item_from_json_def
        erase_gallery_item_def erase_media_item_def Let_def)
next
  fix j g
  assume "gallery_item_from_json j = Some g"
  then show "coherent_gallery_item g"
    by (auto simp: gallery_item_from_json_def coherent_gallery_item_def absent_read split: Option.bind_splits)
qed

definition coherent_media_gallery :: "media_gallery \<Rightarrow> bool" where
  "coherent_media_gallery g = (absent to_opt_uint (members (mg_raw g)) ''id'' (mg_id g) \<and>
     list_all coherent_gallery_item (mg_items g))"

definition erase_media_gallery :: "media_gallery \<Rightarrow> media_gallery" where
  "erase_media_gallery g = g\<lparr>mg_items := map erase_gallery_item (mg_items g), mg_raw := JNull\<rparr>"

interpretation media_gallery: component_codec "\<lambda>g. Some (media_gallery_to_json g)" media_gallery_from_json
  coherent_media_gallery erase_media_gallery CT_MediaGallery
proof
  fix g
  assume c: "coherent_media_gallery g"
  then obtain ys where "sequence_options (map gallery_item_from_json (map gallery_item_to_json (mg_items g))) = Some ys"
    "map erase_gallery_item ys = map erase_gallery_item (mg_items g)"
    using gallery_item.vector_written [of "mg_items g"] by (auto simp: coherent_media_gallery_def)
  with c show "\<exists>m y. Some (media_gallery_to_json g) = Some (JObj m) \<and> media_gallery_from_json (JObj m) = Some y
      \<and> erase_media_gallery y = erase_media_gallery g"
    by (simp add: coherent_media_gallery_def media_gallery_to_json_def media_gallery_from_json_def
        erase_media_gallery_def put_type_def Let_def to_vector_def get_vector_def)
next
  fix j g
  assume "media_gallery_from_json j = Some g"
  then have "mg_raw g = j" "deserialize to_opt_uint j ''id'' None = Some (mg_id g)"
    "deserialize (to_vector gallery_item_from_json) j ''items'' [] = Some (mg_items g)"
    by (auto simp: media_gallery_from_json_def split: Option.bind_splits)
  then show "coherent_media_gallery g"
    using read_vector_coherent [OF gallery_item.json_codec_axioms, of j "''items''" "mg_items g"]
    by (simp add: coherent_media_gallery_def absent_read)
qed (auto simp: media_gallery_to_json_def Let_def)

definition coherent_file :: "file_component \<Rightarrow> bool" where
  "coherent_file f = (absent to_opt_uint (members (fc_raw f)) ''id'' (fc_id f) \<and>
     absent to_opt_bool (members (fc_raw f)) ''spoiler'' (fc_spoiler f))"

definition erase_file :: "file_component \<Rightarrow> file_component" where
  "erase_file f = f\<lparr>fc_file := erase_media_item (fc_file f), fc_raw := JNull\<rparr>"

interpretation file_component: component_codec "\<lambda>f. Some (file_to_json f)" file_from_json coherent_file erase_file CT_File
proof
  fix f
  assume "coherent_file f"
  then show "\<exists>m y. Some (file_to_json f) = Some (JObj m) \<and> file_from_json (JObj m) = Some y
      \<and> erase_file y = erase_file f"
    by (simp add: coherent_file_def file_to_json_def file_from_json_def erase_file_def erase_media_item_def
        put_type_def Let_def)
next
  fix j f
  assume "file_from_json j = Some f"
  then show "coherent_file f"
    by (auto simp: file_from_json_def coherent_file_def absent_read split: Option.bind_splits)
qed (auto simp: file_to_json_def Let_def)

definition coherent_separator :: "separator \<Rightarrow> bool" where
  "coherent_separator s = (let m = members (sp_raw s) in
     absent to_opt_uint m ''id'' (sp_id s) \<and> absent to_opt_bool m ''divider'' (sp_divider s) \<and>
     absent to_opt_uint m ''spacing'' (sp_spacing s))"

definition erase_separator :: "separator \<Rightarrow> separator" where
  "erase_separator s = s\<lparr>sp_raw := JNull\<rparr>"

interpretation separator: component_codec "\<lambda>s. Some (separator_to_json s)" separator_from_json
  coherent_separator erase_separator CT_Separator
proof
  fix s
  assume "coherent_separator s"
  then show "\<exists>m y. Some (separator_to_json s) = Some (JObj m) \<and> separator_from_json (JObj m) = Some y
      \<and> erase_separator y = erase_separator s"
    by (simp add: coherent_separator_def separator_to_json_def separator_from_json_def erase_separator_def
        put_type_def Let_def)
next
  fix j s
  assume "separator_from_json j = Some s"
  then show "coherent_separator s"
    by (auto simp: separator_from_json_def coherent_separator_def absent_read split: Option.bind_splits)
qed (auto simp: separator_to_json_def Let_def)

end
