(* ===== verification/Component_Tree.thy ===== *)
theory Component_Tree
  imports Message_Component
begin

text \<open>
  \<^verbatim>\<open>src/message_component.cpp\<close>, continued: the components that hold others. Each variant type of
  the source is a datatype with the alternatives in the order of the source; reading one looks at
  the \<open>type\<close> member. Without a type that is a number the target keeps its default, which is the
  first alternative of the variant (for the child of a container the unknown component).
\<close>

section \<open>Action rows\<close>

datatype row_component =
    Row_Button button | Row_SelectMenu select_menu | Row_UserSelect entity_select
  | Row_RoleSelect entity_select | Row_MentionableSelect entity_select
  | Row_ChannelSelect channel_select | Row_TextInput text_input | Row_FileUpload file_upload

definition default_button :: button where
  "default_button = \<lparr>bt_id = None, bt_style = 0, bt_label = None, bt_emoji = None, bt_custom_id = None,
     bt_url = None, bt_sku_id = None, bt_disabled = False, bt_raw = JNull\<rparr>"

fun row_component_to_json :: "row_component \<Rightarrow> json option" where
  "row_component_to_json (Row_Button b) = button_to_json b"
| "row_component_to_json (Row_SelectMenu s) = select_menu_to_json s"
| "row_component_to_json (Row_UserSelect s) = Some (entity_select_to_json CT_UserSelect s)"
| "row_component_to_json (Row_RoleSelect s) = Some (entity_select_to_json CT_RoleSelect s)"
| "row_component_to_json (Row_MentionableSelect s) = Some (entity_select_to_json CT_MentionableSelect s)"
| "row_component_to_json (Row_ChannelSelect s) = Some (channel_select_to_json s)"
| "row_component_to_json (Row_TextInput t) = Some (text_input_to_json t)"
| "row_component_to_json (Row_FileUpload f) = Some (file_upload_to_json f)"

definition row_component_from_json :: "json \<Rightarrow> row_component option" where
  "row_component_from_json j = (case type_of_json j of
     None \<Rightarrow> Some (Row_Button default_button)
   | Some t \<Rightarrow>
       if t = type_value CT_Button then map_option Row_Button (button_from_json j)
       else if t = type_value CT_SelectMenu then map_option Row_SelectMenu (select_menu_from_json j)
       else if t = type_value CT_UserSelect then map_option Row_UserSelect (entity_select_from_json j)
       else if t = type_value CT_RoleSelect then map_option Row_RoleSelect (entity_select_from_json j)
       else if t = type_value CT_MentionableSelect then map_option Row_MentionableSelect (entity_select_from_json j)
       else if t = type_value CT_ChannelSelect then map_option Row_ChannelSelect (channel_select_from_json j)
       else if t = type_value CT_TextInput then map_option Row_TextInput (text_input_from_json j)
       else if t = type_value CT_FileUpload then map_option Row_FileUpload (file_upload_from_json j)
       else Some (Row_Button default_button))"

record action_row =
  ar_id :: "u32 option"
  ar_components :: "row_component list"
  ar_raw :: json

definition action_row_to_json :: "action_row \<Rightarrow> json option" where
  "action_row_to_json a = do {
     let m = put_type CT_ActionRow (members (ar_raw a));
     let m = put_optional ''id'' (juint_opt (ar_id a)) m;
     js \<leftarrow> sequence_options (map row_component_to_json (ar_components a));
     Some (JObj (put_member ''components'' (JArr js) m))
   }"

definition action_row_from_json :: "json \<Rightarrow> action_row option" where
  "action_row_from_json j = do {
     i \<leftarrow> deserialize to_opt_uint j ''id'' None;
     comps \<leftarrow> deserialize (to_vector row_component_from_json) j ''components'' [];
     Some \<lparr>ar_id = i, ar_components = comps, ar_raw = j\<rparr>
   }"

section \<open>Labels\<close>

datatype label_child =
    Label_TextInput text_input | Label_FileUpload file_upload | Label_SelectMenu select_menu
  | Label_UserSelect entity_select | Label_RoleSelect entity_select
  | Label_MentionableSelect entity_select | Label_ChannelSelect channel_select

record label_component =
  lb_id :: "u32 option"
  lb_label :: string
  lb_description :: "string option"
  lb_component :: label_child
  lb_raw :: json

definition default_text_input :: text_input where
  "default_text_input = \<lparr>ti_id = None, ti_custom_id = [], ti_style = 0, ti_label = [], ti_min_length = None,
     ti_max_length = None, ti_required = None, ti_value = None, ti_placeholder = None, ti_raw = JNull\<rparr>"

fun label_component_to_json :: "label_child \<Rightarrow> json option" where
  "label_component_to_json (Label_TextInput t) = Some (text_input_to_json t)"
| "label_component_to_json (Label_FileUpload f) = Some (file_upload_to_json f)"
| "label_component_to_json (Label_SelectMenu s) = select_menu_to_json s"
| "label_component_to_json (Label_UserSelect s) = Some (entity_select_to_json CT_UserSelect s)"
| "label_component_to_json (Label_RoleSelect s) = Some (entity_select_to_json CT_RoleSelect s)"
| "label_component_to_json (Label_MentionableSelect s) = Some (entity_select_to_json CT_MentionableSelect s)"
| "label_component_to_json (Label_ChannelSelect s) = Some (channel_select_to_json s)"

definition label_component_from_json :: "json \<Rightarrow> label_child option" where
  "label_component_from_json j = (case type_of_json j of
     None \<Rightarrow> Some (Label_TextInput default_text_input)
   | Some t \<Rightarrow>
       if t = type_value CT_TextInput then map_option Label_TextInput (text_input_from_json j)
       else if t = type_value CT_FileUpload then map_option Label_FileUpload (file_upload_from_json j)
       else if t = type_value CT_SelectMenu then map_option Label_SelectMenu (select_menu_from_json j)
       else if t = type_value CT_UserSelect then map_option Label_UserSelect (entity_select_from_json j)
       else if t = type_value CT_RoleSelect then map_option Label_RoleSelect (entity_select_from_json j)
       else if t = type_value CT_MentionableSelect then map_option Label_MentionableSelect (entity_select_from_json j)
       else if t = type_value CT_ChannelSelect then map_option Label_ChannelSelect (channel_select_from_json j)
       else Some (Label_TextInput default_text_input))"

definition label_to_json :: "label_component \<Rightarrow> json option" where
  "label_to_json l = do {
     let m = put_type CT_Label (members (lb_raw l));
     let m = put_optional ''id'' (juint_opt (lb_id l)) m;
     let m = put_member ''label'' (JStr (lb_label l)) m;
     let m = put_optional ''description'' (jstr_opt (lb_description l)) m;
     child \<leftarrow> label_component_to_json (lb_component l);
     Some (JObj (put_member ''component'' child m))
   }"

definition label_from_json :: "json \<Rightarrow> label_component option" where
  "label_from_json j = do {
     i \<leftarrow> deserialize to_opt_uint j ''id'' None;
     label \<leftarrow> deserialize to_str j ''label'' [];
     description \<leftarrow> deserialize (to_opt get_string) j ''description'' None;
     child \<leftarrow> (case json_at j ''component'' of
        Some c \<Rightarrow> if is_obj c then label_component_from_json c else Some (Label_TextInput default_text_input)
      | None \<Rightarrow> Some (Label_TextInput default_text_input));
     Some \<lparr>lb_id = i, lb_label = label, lb_description = description, lb_component = child, lb_raw = j\<rparr>
   }"

section \<open>Containers\<close>

datatype container_child =
    Child_ActionRow action_row | Child_Section section_component | Child_TextDisplay text_display
  | Child_Thumbnail thumbnail | Child_MediaGallery media_gallery | Child_File file_component
  | Child_Separator separator | Child_Button button | Child_SelectMenu select_menu
  | Child_UserSelect entity_select | Child_RoleSelect entity_select
  | Child_MentionableSelect entity_select | Child_ChannelSelect channel_select
  | Child_Unknown unknown_component

record container =
  ct_id :: "u32 option"
  ct_accent_color :: "u32 option"
  ct_spoiler :: "bool option"
  ct_components :: "container_child list"
  ct_raw :: json

fun container_child_to_json :: "container_child \<Rightarrow> json option" where
  "container_child_to_json (Child_ActionRow a) = action_row_to_json a"
| "container_child_to_json (Child_Section s) = section_to_json s"
| "container_child_to_json (Child_TextDisplay t) = Some (text_display_to_json t)"
| "container_child_to_json (Child_Thumbnail t) = Some (thumbnail_to_json t)"
| "container_child_to_json (Child_MediaGallery m) = Some (media_gallery_to_json m)"
| "container_child_to_json (Child_File f) = Some (file_to_json f)"
| "container_child_to_json (Child_Separator s) = Some (separator_to_json s)"
| "container_child_to_json (Child_Button b) = button_to_json b"
| "container_child_to_json (Child_SelectMenu s) = select_menu_to_json s"
| "container_child_to_json (Child_UserSelect s) = Some (entity_select_to_json CT_UserSelect s)"
| "container_child_to_json (Child_RoleSelect s) = Some (entity_select_to_json CT_RoleSelect s)"
| "container_child_to_json (Child_MentionableSelect s) = Some (entity_select_to_json CT_MentionableSelect s)"
| "container_child_to_json (Child_ChannelSelect s) = Some (channel_select_to_json s)"
| "container_child_to_json (Child_Unknown u) = Some (unknown_to_json u)"

definition container_child_from_json :: "json \<Rightarrow> container_child option" where
  "container_child_from_json j = (case type_of_json j of
     None \<Rightarrow> Some (Child_Unknown \<lparr>uk_type = 0, uk_raw = JNull\<rparr>)
   | Some t \<Rightarrow>
       if t = type_value CT_ActionRow then map_option Child_ActionRow (action_row_from_json j)
       else if t = type_value CT_Section then map_option Child_Section (section_from_json j)
       else if t = type_value CT_TextDisplay then map_option Child_TextDisplay (text_display_from_json j)
       else if t = type_value CT_Thumbnail then map_option Child_Thumbnail (thumbnail_from_json j)
       else if t = type_value CT_MediaGallery then map_option Child_MediaGallery (media_gallery_from_json j)
       else if t = type_value CT_File then map_option Child_File (file_from_json j)
       else if t = type_value CT_Separator then map_option Child_Separator (separator_from_json j)
       else if t = type_value CT_Button then map_option Child_Button (button_from_json j)
       else if t = type_value CT_SelectMenu then map_option Child_SelectMenu (select_menu_from_json j)
       else if t = type_value CT_UserSelect then map_option Child_UserSelect (entity_select_from_json j)
       else if t = type_value CT_RoleSelect then map_option Child_RoleSelect (entity_select_from_json j)
       else if t = type_value CT_MentionableSelect then map_option Child_MentionableSelect (entity_select_from_json j)
       else if t = type_value CT_ChannelSelect then map_option Child_ChannelSelect (channel_select_from_json j)
       else Some (Child_Unknown \<lparr>uk_type = t, uk_raw = j\<rparr>))"

definition container_to_json :: "container \<Rightarrow> json option" where
  "container_to_json c = do {
     let m = put_type CT_Container (members (ct_raw c));
     let m = put_optional ''id'' (juint_opt (ct_id c)) m;
     let m = put_optional ''accent_color'' (juint_opt (ct_accent_color c)) m;
     let m = put_optional ''spoiler'' (jbool_opt (ct_spoiler c)) m;
     comps \<leftarrow> sequence_options (map container_child_to_json (ct_components c));
     Some (JObj (put_member ''components'' (JArr comps) m))
   }"

definition accent_color_from_json :: "json \<Rightarrow> u32 option" where
  "accent_color_from_json j = (case json_at j ''accent_color'' of Some (JUint n) \<Rightarrow> Some (of_nat n) | _ \<Rightarrow> None)"

definition container_from_json :: "json \<Rightarrow> container option" where
  "container_from_json j = do {
     i \<leftarrow> deserialize to_opt_uint j ''id'' None;
     let accent = accent_color_from_json j;
     spoiler \<leftarrow> deserialize to_opt_bool j ''spoiler'' None;
     comps \<leftarrow> (case json_at j ''components'' of
        Some (JArr elems) \<Rightarrow> sequence_options (map container_child_from_json elems)
      | _ \<Rightarrow> Some []);
     Some \<lparr>ct_id = i, ct_accent_color = accent, ct_spoiler = spoiler, ct_components = comps, ct_raw = j\<rparr>
   }"

section \<open>Message components\<close>

datatype message_component =
    MC_ActionRow action_row | MC_Button button | MC_SelectMenu select_menu | MC_UserSelect entity_select
  | MC_RoleSelect entity_select | MC_MentionableSelect entity_select | MC_ChannelSelect channel_select
  | MC_TextInput text_input | MC_Section section_component | MC_TextDisplay text_display
  | MC_Thumbnail thumbnail | MC_MediaGallery media_gallery | MC_File file_component | MC_Separator separator
  | MC_Container container | MC_Label label_component | MC_FileUpload file_upload
  | MC_Unknown unknown_component

fun message_component_to_json :: "message_component \<Rightarrow> json option" where
  "message_component_to_json (MC_ActionRow a) = action_row_to_json a"
| "message_component_to_json (MC_Button b) = button_to_json b"
| "message_component_to_json (MC_SelectMenu s) = select_menu_to_json s"
| "message_component_to_json (MC_UserSelect s) = Some (entity_select_to_json CT_UserSelect s)"
| "message_component_to_json (MC_RoleSelect s) = Some (entity_select_to_json CT_RoleSelect s)"
| "message_component_to_json (MC_MentionableSelect s) = Some (entity_select_to_json CT_MentionableSelect s)"
| "message_component_to_json (MC_ChannelSelect s) = Some (channel_select_to_json s)"
| "message_component_to_json (MC_TextInput t) = Some (text_input_to_json t)"
| "message_component_to_json (MC_Section s) = section_to_json s"
| "message_component_to_json (MC_TextDisplay t) = Some (text_display_to_json t)"
| "message_component_to_json (MC_Thumbnail t) = Some (thumbnail_to_json t)"
| "message_component_to_json (MC_MediaGallery m) = Some (media_gallery_to_json m)"
| "message_component_to_json (MC_File f) = Some (file_to_json f)"
| "message_component_to_json (MC_Separator s) = Some (separator_to_json s)"
| "message_component_to_json (MC_Container c) = container_to_json c"
| "message_component_to_json (MC_Label l) = label_to_json l"
| "message_component_to_json (MC_FileUpload f) = Some (file_upload_to_json f)"
| "message_component_to_json (MC_Unknown u) = Some (unknown_to_json u)"

definition default_action_row :: action_row where
  "default_action_row = \<lparr>ar_id = None, ar_components = [], ar_raw = JNull\<rparr>"

definition message_component_from_json :: "json \<Rightarrow> message_component option" where
  "message_component_from_json j = (case type_of_json j of
     None \<Rightarrow> Some (MC_ActionRow default_action_row)
   | Some t \<Rightarrow>
       if t = type_value CT_ActionRow then map_option MC_ActionRow (action_row_from_json j)
       else if t = type_value CT_Button then map_option MC_Button (button_from_json j)
       else if t = type_value CT_SelectMenu then map_option MC_SelectMenu (select_menu_from_json j)
       else if t = type_value CT_UserSelect then map_option MC_UserSelect (entity_select_from_json j)
       else if t = type_value CT_RoleSelect then map_option MC_RoleSelect (entity_select_from_json j)
       else if t = type_value CT_MentionableSelect then map_option MC_MentionableSelect (entity_select_from_json j)
       else if t = type_value CT_ChannelSelect then map_option MC_ChannelSelect (channel_select_from_json j)
       else if t = type_value CT_TextInput then map_option MC_TextInput (text_input_from_json j)
       else if t = type_value CT_Section then map_option MC_Section (section_from_json j)
       else if t = type_value CT_TextDisplay then map_option MC_TextDisplay (text_display_from_json j)
       else if t = type_value CT_Thumbnail then map_option MC_Thumbnail (thumbnail_from_json j)
       else if t = type_value CT_MediaGallery then map_option MC_MediaGallery (media_gallery_from_json j)
       else if t = type_value CT_File then map_option MC_File (file_from_json j)
       else if t = type_value CT_Separator then map_option MC_Separator (separator_from_json j)
       else if t = type_value CT_Container then map_option MC_Container (container_from_json j)
       else if t = type_value CT_Label then map_option MC_Label (label_from_json j)
       else if t = type_value CT_FileUpload then map_option MC_FileUpload (file_upload_from_json j)
       else Some (MC_Unknown \<lparr>uk_type = t, uk_raw = j\<rparr>))"

end
