(* ===== verification/Component_Properties.thy ===== *)
theory Component_Properties
  imports Component_Leaves Component_Tree
begin

text \<open>
  The codec interface for the components that hold others, up to the message component itself, and
  the properties of the whole.
\<close>

section \<open>Sections\<close>

fun coherent_accessory :: "section_accessory \<Rightarrow> bool" where
  "coherent_accessory (Acc_Button b) = coherent_button b"
| "coherent_accessory (Acc_Thumbnail t) = coherent_thumbnail t"

fun erase_accessory :: "section_accessory \<Rightarrow> section_accessory" where
  "erase_accessory (Acc_Button b) = Acc_Button (erase_button b)"
| "erase_accessory (Acc_Thumbnail t) = Acc_Thumbnail (erase_thumbnail t)"

lemma accessory_written:
  assumes "coherent_accessory a"
  shows "\<exists>m y. accessory_to_json a = Some (JObj m) \<and> accessory_from_json (JObj m) = Some (Some y)
    \<and> erase_accessory y = erase_accessory a"
proof (cases a)
  case (Acc_Button b)
  with button.written_typed [of b] assms show ?thesis by (auto simp: accessory_from_json_def)
next
  case (Acc_Thumbnail t)
  with thumbnail.written_typed [of t] assms show ?thesis by (auto simp: accessory_from_json_def)
qed

lemma accessory_read_coherent:
  assumes "accessory_from_json j = Some (Some a)" "accessory_to_json a \<noteq> None"
  shows "coherent_accessory a"
proof -
  from assms(1) consider b where "a = Acc_Button b" "button_from_json j = Some b"
    | t where "a = Acc_Thumbnail t" "thumbnail_from_json j = Some t"
    by (auto simp: accessory_from_json_def split: option.splits if_splits)
  then show ?thesis
    by cases (use assms(2) in \<open>auto intro: button.read_coherent thumbnail.read_coherent\<close>)
qed

definition coherent_section :: "section_component \<Rightarrow> bool" where
  "coherent_section s = (absent to_opt_uint (members (sn_raw s)) ''id'' (sn_id s) \<and>
     list_all coherent_text_display (sn_components s) \<and>
     (case sn_accessory s of None \<Rightarrow> read_accessory (sn_raw s) = Some None | Some a \<Rightarrow> coherent_accessory a))"

definition erase_section :: "section_component \<Rightarrow> section_component" where
  "erase_section s = s\<lparr>sn_components := map erase_text_display (sn_components s),
     sn_accessory := map_option erase_accessory (sn_accessory s), sn_raw := JNull\<rparr>"

lemma read_accessory_members: "read_accessory (JObj (members j)) = read_accessory j"
  by (cases j) (simp_all add: read_accessory_def)

lemma read_accessory_put [simp]:
  "k \<noteq> ''accessory'' \<Longrightarrow> read_accessory (JObj (put_member k v m)) = read_accessory (JObj m)"
  "k \<noteq> ''accessory'' \<Longrightarrow> read_accessory (JObj (put_optional k w m)) = read_accessory (JObj m)"
  "read_accessory (JObj (put_member ''accessory'' v m)) = (if is_obj v then accessory_from_json v else Some None)"
  by (simp_all add: read_accessory_def)

lemma section_written:
  assumes "coherent_section s"
  shows "\<exists>m y. section_to_json s = Some (JObj m) \<and> section_from_json (JObj m) = Some y
    \<and> erase_section y = erase_section s"
proof -
  from assms obtain ys where ys: "sequence_options (map text_display_from_json (map text_display_to_json (sn_components s))) = Some ys"
    "map erase_text_display ys = map erase_text_display (sn_components s)"
    using text_display.vector_written [of "sn_components s"] by (auto simp: coherent_section_def)
  show ?thesis
  proof (cases "sn_accessory s")
    case None
    with assms ys show ?thesis
      by (simp add: coherent_section_def section_to_json_def section_from_json_def erase_section_def put_type_def
          to_vector_def get_vector_def read_accessory_members)
  next
    case (Some a)
    with assms accessory_written [of a] obtain m y where "accessory_to_json a = Some (JObj m)"
      "accessory_from_json (JObj m) = Some (Some y)" "erase_accessory y = erase_accessory a"
      by (auto simp: coherent_section_def)
    with Some assms ys show ?thesis
      by (simp add: coherent_section_def section_to_json_def section_from_json_def erase_section_def put_type_def
          to_vector_def get_vector_def)
  qed
qed

lemma section_read_coherent:
  assumes "section_from_json j = Some s" "section_to_json s \<noteq> None"
  shows "coherent_section s"
proof -
  from assms(1) have f: "sn_raw s = j" "deserialize to_opt_uint j ''id'' None = Some (sn_id s)"
    "deserialize (to_vector text_display_from_json) j ''components'' [] = Some (sn_components s)"
    "read_accessory j = Some (sn_accessory s)"
    by (auto simp: section_from_json_def split: Option.bind_splits)
  have "case sn_accessory s of None \<Rightarrow> read_accessory j = Some None | Some a \<Rightarrow> coherent_accessory a"
  proof (cases "sn_accessory s")
    case (Some a)
    with f(4) obtain v where "accessory_from_json v = Some (Some a)"
      by (auto simp: read_accessory_def split: option.splits if_splits)
    moreover from Some assms(2) have "accessory_to_json a \<noteq> None"
      by (simp add: section_to_json_def del: not_None_eq)
    ultimately show ?thesis using Some accessory_read_coherent by simp
  qed (use f(4) in simp)
  then show ?thesis
    using f(2) read_vector_coherent [OF text_display.json_codec_axioms f(3)]
    unfolding coherent_section_def f(1) by (simp add: absent_read)
qed

lemma section_typed: "section_to_json s = Some j \<Longrightarrow> type_of_json j = Some (type_value CT_Section)"
  by (auto simp: section_to_json_def Let_def split: option.splits)

interpretation section_component: component_codec section_to_json section_from_json coherent_section erase_section CT_Section
  by unfold_locales (rule section_written section_read_coherent section_typed; assumption)+

section \<open>Action rows\<close>

fun coherent_row_component :: "row_component \<Rightarrow> bool" where
  "coherent_row_component (Row_Button b) = coherent_button b"
| "coherent_row_component (Row_SelectMenu s) = coherent_select_menu s"
| "coherent_row_component (Row_UserSelect s) = coherent_entity_select s"
| "coherent_row_component (Row_RoleSelect s) = coherent_entity_select s"
| "coherent_row_component (Row_MentionableSelect s) = coherent_entity_select s"
| "coherent_row_component (Row_ChannelSelect s) = coherent_channel_select s"
| "coherent_row_component (Row_TextInput t) = coherent_text_input t"
| "coherent_row_component (Row_FileUpload f) = coherent_file_upload f"

fun erase_row_component :: "row_component \<Rightarrow> row_component" where
  "erase_row_component (Row_Button b) = Row_Button (erase_button b)"
| "erase_row_component (Row_SelectMenu s) = Row_SelectMenu (erase_select_menu s)"
| "erase_row_component (Row_UserSelect s) = Row_UserSelect (erase_entity_select s)"
| "erase_row_component (Row_RoleSelect s) = Row_RoleSelect (erase_entity_select s)"
| "erase_row_component (Row_MentionableSelect s) = Row_MentionableSelect (erase_entity_select s)"
| "erase_row_component (Row_ChannelSelect s) = Row_ChannelSelect (erase_channel_select s)"
| "erase_row_component (Row_TextInput t) = Row_TextInput (erase_text_input t)"
| "erase_row_component (Row_FileUpload f) = Row_FileUpload (erase_file_upload f)"

lemmas leaf_written =
  button.written_typed select_menu.written_typed channel_select.written_typed text_input.written_typed
  file_upload.written_typed text_display.written_typed thumbnail.written_typed
  media_gallery.written_typed file_component.written_typed separator.written_typed
  section_component.written_typed

lemmas leaf_read =
  button.read_written select_menu.read_written section_component.read_written
  user_select.read_coherent [simplified] channel_select.read_coherent [simplified]
  text_input.read_coherent [simplified] file_upload.read_coherent [simplified]
  text_display.read_coherent [simplified] thumbnail.read_coherent [simplified]
  media_gallery.read_coherent [simplified] file_component.read_coherent [simplified]
  separator.read_coherent [simplified]

lemmas entity_written =
  user_select.written_typed role_select.written_typed mentionable_select.written_typed

lemma row_component_written:
  assumes "coherent_row_component c"
  shows "\<exists>m y. row_component_to_json c = Some (JObj m) \<and> row_component_from_json (JObj m) = Some y
    \<and> erase_row_component y = erase_row_component c"
proof (cases c)
  case (Row_UserSelect s)
  with assms entity_written(1) [of s] show ?thesis by (auto simp: row_component_from_json_def)
next
  case (Row_RoleSelect s)
  with assms entity_written(2) [of s] show ?thesis by (auto simp: row_component_from_json_def)
next
  case (Row_MentionableSelect s)
  with assms entity_written(3) [of s] show ?thesis by (auto simp: row_component_from_json_def)
qed (use assms in \<open>auto simp: row_component_from_json_def dest!: leaf_written\<close>)

lemma default_button_coherent [simp]: "coherent_button default_button"
  by (simp add: coherent_button_def default_button_def emoji_fits_def)

lemma row_component_read_coherent:
  assumes "row_component_from_json j = Some c" "row_component_to_json c \<noteq> None"
  shows "coherent_row_component c"
  using assms by (auto simp: row_component_from_json_def split: option.splits if_splits intro: leaf_read)

interpretation row_component: json_codec row_component_to_json row_component_from_json
  coherent_row_component erase_row_component
  by unfold_locales (rule row_component_written row_component_read_coherent; assumption)+

definition coherent_action_row :: "action_row \<Rightarrow> bool" where
  "coherent_action_row a = (absent to_opt_uint (members (ar_raw a)) ''id'' (ar_id a) \<and>
     list_all coherent_row_component (ar_components a))"

definition erase_action_row :: "action_row \<Rightarrow> action_row" where
  "erase_action_row a = a\<lparr>ar_components := map erase_row_component (ar_components a), ar_raw := JNull\<rparr>"

lemma action_row_written:
  assumes "coherent_action_row a"
  shows "\<exists>m y. action_row_to_json a = Some (JObj m) \<and> action_row_from_json (JObj m) = Some y
    \<and> erase_action_row y = erase_action_row a"
proof -
  from assms obtain js ys where "sequence_options (map row_component_to_json (ar_components a)) = Some js"
    "sequence_options (map row_component_from_json js) = Some ys"
    "map erase_row_component ys = map erase_row_component (ar_components a)"
    using row_component.vector_written [of "ar_components a"] by (auto simp: coherent_action_row_def)
  with assms show ?thesis
    by (simp add: coherent_action_row_def action_row_to_json_def action_row_from_json_def erase_action_row_def
        put_type_def to_vector_def get_vector_def)
qed

lemma action_row_read_coherent:
  assumes "action_row_from_json j = Some a" "action_row_to_json a \<noteq> None"
  shows "coherent_action_row a"
proof -
  from assms(1) have f: "ar_raw a = j" "deserialize to_opt_uint j ''id'' None = Some (ar_id a)"
    "deserialize (to_vector row_component_from_json) j ''components'' [] = Some (ar_components a)"
    by (auto simp: action_row_from_json_def split: Option.bind_splits)
  have "sequence_options (map row_component_to_json (ar_components a)) \<noteq> None"
    using assms(2) by (simp add: action_row_to_json_def bind_eq_None_conv del: not_None_eq)
  then show ?thesis
    using f(1,2) read_vector_coherent [OF row_component.json_codec_axioms f(3)]
    by (simp add: coherent_action_row_def absent_read)
qed

lemma action_row_typed: "action_row_to_json a = Some j \<Longrightarrow> type_of_json j = Some (type_value CT_ActionRow)"
  by (auto simp: action_row_to_json_def split: Option.bind_splits)

interpretation action_row: component_codec action_row_to_json action_row_from_json coherent_action_row
  erase_action_row CT_ActionRow
  by unfold_locales (rule action_row_written action_row_read_coherent action_row_typed; assumption)+

section \<open>Labels\<close>

fun coherent_label_child :: "label_child \<Rightarrow> bool" where
  "coherent_label_child (Label_TextInput t) = coherent_text_input t"
| "coherent_label_child (Label_FileUpload f) = coherent_file_upload f"
| "coherent_label_child (Label_SelectMenu s) = coherent_select_menu s"
| "coherent_label_child (Label_UserSelect s) = coherent_entity_select s"
| "coherent_label_child (Label_RoleSelect s) = coherent_entity_select s"
| "coherent_label_child (Label_MentionableSelect s) = coherent_entity_select s"
| "coherent_label_child (Label_ChannelSelect s) = coherent_channel_select s"

fun erase_label_child :: "label_child \<Rightarrow> label_child" where
  "erase_label_child (Label_TextInput t) = Label_TextInput (erase_text_input t)"
| "erase_label_child (Label_FileUpload f) = Label_FileUpload (erase_file_upload f)"
| "erase_label_child (Label_SelectMenu s) = Label_SelectMenu (erase_select_menu s)"
| "erase_label_child (Label_UserSelect s) = Label_UserSelect (erase_entity_select s)"
| "erase_label_child (Label_RoleSelect s) = Label_RoleSelect (erase_entity_select s)"
| "erase_label_child (Label_MentionableSelect s) = Label_MentionableSelect (erase_entity_select s)"
| "erase_label_child (Label_ChannelSelect s) = Label_ChannelSelect (erase_channel_select s)"

lemma label_child_written:
  assumes "coherent_label_child c"
  shows "\<exists>m y. label_component_to_json c = Some (JObj m) \<and> label_component_from_json (JObj m) = Some y
    \<and> erase_label_child y = erase_label_child c"
proof (cases c)
  case (Label_UserSelect s)
  with assms entity_written(1) [of s] show ?thesis by (auto simp: label_component_from_json_def)
next
  case (Label_RoleSelect s)
  with assms entity_written(2) [of s] show ?thesis by (auto simp: label_component_from_json_def)
next
  case (Label_MentionableSelect s)
  with assms entity_written(3) [of s] show ?thesis by (auto simp: label_component_from_json_def)
qed (use assms in \<open>auto simp: label_component_from_json_def dest!: leaf_written\<close>)

lemma default_text_input_coherent [simp]: "coherent_text_input default_text_input"
  by (simp add: coherent_text_input_def default_text_input_def)

lemma label_child_read_coherent:
  assumes "label_component_from_json j = Some c" "label_component_to_json c \<noteq> None"
  shows "coherent_label_child c"
  using assms by (auto simp: label_component_from_json_def split: option.splits if_splits intro: leaf_read)

interpretation label_child: json_codec label_component_to_json label_component_from_json
  coherent_label_child erase_label_child
  by unfold_locales (rule label_child_written label_child_read_coherent; assumption)+

definition coherent_label :: "label_component \<Rightarrow> bool" where
  "coherent_label l = (absent to_opt_uint (members (lb_raw l)) ''id'' (lb_id l) \<and>
     absent (to_opt get_string) (members (lb_raw l)) ''description'' (lb_description l) \<and>
     coherent_label_child (lb_component l))"

definition erase_label :: "label_component \<Rightarrow> label_component" where
  "erase_label l = l\<lparr>lb_component := erase_label_child (lb_component l), lb_raw := JNull\<rparr>"

lemma label_written:
  assumes "coherent_label l"
  shows "\<exists>m y. label_to_json l = Some (JObj m) \<and> label_from_json (JObj m) = Some y
    \<and> erase_label y = erase_label l"
proof -
  from assms obtain m y where "label_component_to_json (lb_component l) = Some (JObj m)"
    "label_component_from_json (JObj m) = Some y" "erase_label_child y = erase_label_child (lb_component l)"
    using label_child.written [of "lb_component l"] by (auto simp: coherent_label_def)
  with assms show ?thesis
    by (simp add: coherent_label_def label_to_json_def label_from_json_def erase_label_def put_type_def)
qed

lemma label_read_coherent:
  assumes "label_from_json j = Some l" "label_to_json l \<noteq> None"
  shows "coherent_label l"
proof -
  from assms(1) have f: "lb_raw l = j" "deserialize to_opt_uint j ''id'' None = Some (lb_id l)"
    "deserialize (to_opt get_string) j ''description'' None = Some (lb_description l)"
    and child: "(case json_at j ''component'' of
        Some c \<Rightarrow> if is_obj c then label_component_from_json c else Some (Label_TextInput default_text_input)
      | None \<Rightarrow> Some (Label_TextInput default_text_input)) = Some (lb_component l)"
    by (auto simp: label_from_json_def split: Option.bind_splits)
  have "label_component_to_json (lb_component l) \<noteq> None"
    using assms(2) by (simp add: label_to_json_def bind_eq_None_conv del: not_None_eq)
  with child have "coherent_label_child (lb_component l)"
    by (cases "json_at j ''component''")
      (auto split: if_splits dest: sym intro: label_child.read_written)
  with f show ?thesis by (simp add: coherent_label_def absent_read)
qed

lemma label_typed: "label_to_json l = Some j \<Longrightarrow> type_of_json j = Some (type_value CT_Label)"
  by (auto simp: label_to_json_def split: Option.bind_splits)

interpretation label_component: component_codec label_to_json label_from_json coherent_label erase_label CT_Label
  by unfold_locales (rule label_written label_read_coherent label_typed; assumption)+

section \<open>Containers\<close>

text \<open>An unknown component has its content in \<open>raw\<close>; it is kept as what it is written as.\<close>

definition coherent_unknown :: "(u8 \<Rightarrow> bool) \<Rightarrow> unknown_component \<Rightarrow> bool" where
  "coherent_unknown known u = (type_of_json (unknown_to_json u) = Some (uk_type u) \<and> \<not> known (uk_type u))"

definition erase_unknown :: "unknown_component \<Rightarrow> unknown_component" where
  "erase_unknown u = u\<lparr>uk_raw := unknown_to_json u\<rparr>"

lemma unknown_written_twice [simp]: "unknown_to_json \<lparr>uk_type = t, uk_raw = unknown_to_json u\<rparr> = unknown_to_json u"
  by (simp add: unknown_to_json_def Let_def)

lemma unknown_is_object: "\<exists>m. unknown_to_json u = JObj m"
  by (simp add: unknown_to_json_def Let_def)

lemma unknown_read:
  assumes "type_of_json j = Some t"
  shows "unknown_to_json \<lparr>uk_type = t, uk_raw = j\<rparr> = j"
proof -
  from assms obtain m v where "j = JObj m" "map_of m ''type'' = Some v"
    by (cases j) (auto simp: type_of_json_def split: option.splits)
  then show ?thesis by (simp add: unknown_to_json_def)
qed

definition child_type :: "u8 \<Rightarrow> bool" where
  "child_type t = (t \<in> type_value ` {CT_ActionRow, CT_Section, CT_TextDisplay, CT_Thumbnail, CT_MediaGallery,
     CT_File, CT_Separator, CT_Button, CT_SelectMenu, CT_UserSelect, CT_RoleSelect, CT_MentionableSelect, CT_ChannelSelect})"

fun coherent_child :: "container_child \<Rightarrow> bool" where
  "coherent_child (Child_ActionRow a) = coherent_action_row a"
| "coherent_child (Child_Section s) = coherent_section s"
| "coherent_child (Child_TextDisplay t) = coherent_text_display t"
| "coherent_child (Child_Thumbnail t) = coherent_thumbnail t"
| "coherent_child (Child_MediaGallery m) = coherent_media_gallery m"
| "coherent_child (Child_File f) = coherent_file f"
| "coherent_child (Child_Separator s) = coherent_separator s"
| "coherent_child (Child_Button b) = coherent_button b"
| "coherent_child (Child_SelectMenu s) = coherent_select_menu s"
| "coherent_child (Child_UserSelect s) = coherent_entity_select s"
| "coherent_child (Child_RoleSelect s) = coherent_entity_select s"
| "coherent_child (Child_MentionableSelect s) = coherent_entity_select s"
| "coherent_child (Child_ChannelSelect s) = coherent_channel_select s"
| "coherent_child (Child_Unknown u) = coherent_unknown child_type u"

fun erase_child :: "container_child \<Rightarrow> container_child" where
  "erase_child (Child_ActionRow a) = Child_ActionRow (erase_action_row a)"
| "erase_child (Child_Section s) = Child_Section (erase_section s)"
| "erase_child (Child_TextDisplay t) = Child_TextDisplay (erase_text_display t)"
| "erase_child (Child_Thumbnail t) = Child_Thumbnail (erase_thumbnail t)"
| "erase_child (Child_MediaGallery m) = Child_MediaGallery (erase_media_gallery m)"
| "erase_child (Child_File f) = Child_File (erase_file f)"
| "erase_child (Child_Separator s) = Child_Separator (erase_separator s)"
| "erase_child (Child_Button b) = Child_Button (erase_button b)"
| "erase_child (Child_SelectMenu s) = Child_SelectMenu (erase_select_menu s)"
| "erase_child (Child_UserSelect s) = Child_UserSelect (erase_entity_select s)"
| "erase_child (Child_RoleSelect s) = Child_RoleSelect (erase_entity_select s)"
| "erase_child (Child_MentionableSelect s) = Child_MentionableSelect (erase_entity_select s)"
| "erase_child (Child_ChannelSelect s) = Child_ChannelSelect (erase_channel_select s)"
| "erase_child (Child_Unknown u) = Child_Unknown (erase_unknown u)"

lemma container_child_written:
  assumes "coherent_child c"
  shows "\<exists>m y. container_child_to_json c = Some (JObj m) \<and> container_child_from_json (JObj m) = Some y
    \<and> erase_child y = erase_child c"
proof (cases c)
  case (Child_UserSelect s)
  with assms entity_written(1) [of s] show ?thesis by (auto simp: container_child_from_json_def)
next
  case (Child_RoleSelect s)
  with assms entity_written(2) [of s] show ?thesis by (auto simp: container_child_from_json_def)
next
  case (Child_MentionableSelect s)
  with assms entity_written(3) [of s] show ?thesis by (auto simp: container_child_from_json_def)
next
  case (Child_Unknown u)
  obtain m where m: "unknown_to_json u = JObj m" using unknown_is_object by blast
  with assms Child_Unknown have "type_of_json (JObj m) = Some (uk_type u)" "\<not> child_type (uk_type u)"
    by (simp_all add: coherent_unknown_def)
  then have "container_child_from_json (JObj m) = Some (Child_Unknown \<lparr>uk_type = uk_type u, uk_raw = unknown_to_json u\<rparr>)"
    by (simp add: container_child_from_json_def child_type_def m)
  with Child_Unknown m unknown_written_twice [of "uk_type u" u] show ?thesis by (simp add: erase_unknown_def)
qed (use assms in \<open>auto simp: container_child_from_json_def dest!: leaf_written action_row.written_typed\<close>)

lemma container_child_read_coherent:
  assumes "container_child_from_json j = Some c" "container_child_to_json c \<noteq> None"
  shows "coherent_child c"
proof (cases "type_of_json j")
  case None
  with assms show ?thesis
    by (auto simp: container_child_from_json_def coherent_unknown_def unknown_to_json_def child_type_def type_of_json_def)
next
  case (Some t)
  show ?thesis
  proof (cases "child_type t")
    case True
    with assms Some show ?thesis
      by (auto simp: container_child_from_json_def child_type_def split: if_splits
          intro: leaf_read action_row.read_written)
  next
    case False
    with assms Some have "c = Child_Unknown \<lparr>uk_type = t, uk_raw = j\<rparr>"
      by (simp add: container_child_from_json_def child_type_def)
    with False Some show ?thesis by (simp add: coherent_unknown_def unknown_read)
  qed
qed

interpretation container_child: json_codec container_child_to_json container_child_from_json coherent_child erase_child
  by unfold_locales (rule container_child_written container_child_read_coherent; assumption)+

definition coherent_container :: "container \<Rightarrow> bool" where
  "coherent_container c = (absent to_opt_uint (members (ct_raw c)) ''id'' (ct_id c) \<and>
     (ct_accent_color c = None \<longrightarrow> accent_color_from_json (ct_raw c) = None) \<and>
     absent to_opt_bool (members (ct_raw c)) ''spoiler'' (ct_spoiler c) \<and> list_all coherent_child (ct_components c))"

definition erase_container :: "container \<Rightarrow> container" where
  "erase_container c = c\<lparr>ct_components := map erase_child (ct_components c), ct_raw := JNull\<rparr>"

lemma accent_color_members: "accent_color_from_json (JObj (members j)) = accent_color_from_json j"
  by (cases j) (simp_all add: accent_color_from_json_def)

lemma accent_color_put [simp]:
  "k \<noteq> ''accent_color'' \<Longrightarrow> accent_color_from_json (JObj (put_member k v m)) = accent_color_from_json (JObj m)"
  "k \<noteq> ''accent_color'' \<Longrightarrow> accent_color_from_json (JObj (put_optional k w m)) = accent_color_from_json (JObj m)"
  "accent_color_from_json (JObj (put_optional ''accent_color'' (juint_opt c) m)) =
     (case c of None \<Rightarrow> accent_color_from_json (JObj m) | Some x \<Rightarrow> Some x)"
  by (cases c; simp add: accent_color_from_json_def juint_opt_def juint_def)+

lemma container_written:
  assumes "coherent_container c"
  shows "\<exists>m y. container_to_json c = Some (JObj m) \<and> container_from_json (JObj m) = Some y
    \<and> erase_container y = erase_container c"
proof -
  from assms obtain js ys where "sequence_options (map container_child_to_json (ct_components c)) = Some js"
    "sequence_options (map container_child_from_json js) = Some ys"
    "map erase_child ys = map erase_child (ct_components c)"
    using container_child.vector_written [of "ct_components c"] by (auto simp: coherent_container_def)
  with assms show ?thesis
    by (cases "ct_accent_color c")
      (simp_all add: coherent_container_def container_to_json_def container_from_json_def erase_container_def
        put_type_def accent_color_members)
qed

lemma container_read_coherent:
  assumes "container_from_json j = Some c" "container_to_json c \<noteq> None"
  shows "coherent_container c"
proof -
  from assms(1) have f: "ct_raw c = j" "deserialize to_opt_uint j ''id'' None = Some (ct_id c)"
    "accent_color_from_json j = ct_accent_color c" "deserialize to_opt_bool j ''spoiler'' None = Some (ct_spoiler c)"
    and comps: "(case json_at j ''components'' of
        Some (JArr elems) \<Rightarrow> sequence_options (map container_child_from_json elems)
      | _ \<Rightarrow> Some []) = Some (ct_components c)"
    by (auto simp: container_from_json_def split: Option.bind_splits)
  from comps obtain js where js: "sequence_options (map container_child_from_json js) = Some (ct_components c)"
  proof (cases "json_at j ''components''")
    case None
    with comps that [of "[]"] show ?thesis by simp
  next
    case (Some v)
    with comps that that [of "[]"] show ?thesis by (cases v) auto
  qed
  have "sequence_options (map container_child_to_json (ct_components c)) \<noteq> None"
    using assms(2) by (simp add: container_to_json_def bind_eq_None_conv del: not_None_eq)
  then have "list_all coherent_child (ct_components c)" by (rule container_child.vector_coherent [OF js])
  with f show ?thesis by (simp add: coherent_container_def absent_read)
qed

lemma container_typed: "container_to_json c = Some j \<Longrightarrow> type_of_json j = Some (type_value CT_Container)"
  by (auto simp: container_to_json_def split: Option.bind_splits)

interpretation container: component_codec container_to_json container_from_json coherent_container
  erase_container CT_Container
  by unfold_locales (rule container_written container_read_coherent container_typed; assumption)+

section \<open>Message components\<close>

definition message_type :: "u8 \<Rightarrow> bool" where
  "message_type t = (t \<in> type_value ` {CT_ActionRow, CT_Button, CT_SelectMenu, CT_UserSelect, CT_RoleSelect,
     CT_MentionableSelect, CT_ChannelSelect, CT_TextInput, CT_Section, CT_TextDisplay, CT_Thumbnail,
     CT_MediaGallery, CT_File, CT_Separator, CT_Container, CT_Label, CT_FileUpload})"

fun coherent_component :: "message_component \<Rightarrow> bool" where
  "coherent_component (MC_ActionRow a) = coherent_action_row a"
| "coherent_component (MC_Button b) = coherent_button b"
| "coherent_component (MC_SelectMenu s) = coherent_select_menu s"
| "coherent_component (MC_UserSelect s) = coherent_entity_select s"
| "coherent_component (MC_RoleSelect s) = coherent_entity_select s"
| "coherent_component (MC_MentionableSelect s) = coherent_entity_select s"
| "coherent_component (MC_ChannelSelect s) = coherent_channel_select s"
| "coherent_component (MC_TextInput t) = coherent_text_input t"
| "coherent_component (MC_Section s) = coherent_section s"
| "coherent_component (MC_TextDisplay t) = coherent_text_display t"
| "coherent_component (MC_Thumbnail t) = coherent_thumbnail t"
| "coherent_component (MC_MediaGallery m) = coherent_media_gallery m"
| "coherent_component (MC_File f) = coherent_file f"
| "coherent_component (MC_Separator s) = coherent_separator s"
| "coherent_component (MC_Container c) = coherent_container c"
| "coherent_component (MC_Label l) = coherent_label l"
| "coherent_component (MC_FileUpload f) = coherent_file_upload f"
| "coherent_component (MC_Unknown u) = coherent_unknown message_type u"

fun erase_component :: "message_component \<Rightarrow> message_component" where
  "erase_component (MC_ActionRow a) = MC_ActionRow (erase_action_row a)"
| "erase_component (MC_Button b) = MC_Button (erase_button b)"
| "erase_component (MC_SelectMenu s) = MC_SelectMenu (erase_select_menu s)"
| "erase_component (MC_UserSelect s) = MC_UserSelect (erase_entity_select s)"
| "erase_component (MC_RoleSelect s) = MC_RoleSelect (erase_entity_select s)"
| "erase_component (MC_MentionableSelect s) = MC_MentionableSelect (erase_entity_select s)"
| "erase_component (MC_ChannelSelect s) = MC_ChannelSelect (erase_channel_select s)"
| "erase_component (MC_TextInput t) = MC_TextInput (erase_text_input t)"
| "erase_component (MC_Section s) = MC_Section (erase_section s)"
| "erase_component (MC_TextDisplay t) = MC_TextDisplay (erase_text_display t)"
| "erase_component (MC_Thumbnail t) = MC_Thumbnail (erase_thumbnail t)"
| "erase_component (MC_MediaGallery m) = MC_MediaGallery (erase_media_gallery m)"
| "erase_component (MC_File f) = MC_File (erase_file f)"
| "erase_component (MC_Separator s) = MC_Separator (erase_separator s)"
| "erase_component (MC_Container c) = MC_Container (erase_container c)"
| "erase_component (MC_Label l) = MC_Label (erase_label l)"
| "erase_component (MC_FileUpload f) = MC_FileUpload (erase_file_upload f)"
| "erase_component (MC_Unknown u) = MC_Unknown (erase_unknown u)"

lemma message_component_written:
  assumes "coherent_component c"
  shows "\<exists>m y. message_component_to_json c = Some (JObj m) \<and> message_component_from_json (JObj m) = Some y
    \<and> erase_component y = erase_component c"
proof (cases c)
  case (MC_UserSelect s)
  with assms entity_written(1) [of s] show ?thesis by (auto simp: message_component_from_json_def)
next
  case (MC_RoleSelect s)
  with assms entity_written(2) [of s] show ?thesis by (auto simp: message_component_from_json_def)
next
  case (MC_MentionableSelect s)
  with assms entity_written(3) [of s] show ?thesis by (auto simp: message_component_from_json_def)
next
  case (MC_Unknown u)
  obtain m where m: "unknown_to_json u = JObj m" using unknown_is_object by blast
  with assms MC_Unknown have "type_of_json (JObj m) = Some (uk_type u)" "\<not> message_type (uk_type u)"
    by (simp_all add: coherent_unknown_def)
  then have "message_component_from_json (JObj m) = Some (MC_Unknown \<lparr>uk_type = uk_type u, uk_raw = unknown_to_json u\<rparr>)"
    by (simp add: message_component_from_json_def message_type_def m)
  with MC_Unknown m unknown_written_twice [of "uk_type u" u] show ?thesis by (simp add: erase_unknown_def)
qed (use assms in \<open>auto simp: message_component_from_json_def
    dest!: leaf_written action_row.written_typed container.written_typed label_component.written_typed\<close>)

lemma message_component_read_coherent:
  assumes "message_component_from_json j = Some c" "message_component_to_json c \<noteq> None"
  shows "coherent_component c"
proof (cases "type_of_json j")
  case None
  with assms show ?thesis
    by (auto simp: message_component_from_json_def default_action_row_def coherent_action_row_def)
next
  case (Some t)
  show ?thesis
  proof (cases "message_type t")
    case True
    with assms Some show ?thesis
      by (auto simp: message_component_from_json_def message_type_def split: if_splits
          intro: leaf_read action_row.read_written container.read_written label_component.read_written)
  next
    case False
    with assms Some have "c = MC_Unknown \<lparr>uk_type = t, uk_raw = j\<rparr>"
      by (simp add: message_component_from_json_def message_type_def)
    with False Some show ?thesis by (simp add: coherent_unknown_def unknown_read)
  qed
qed

interpretation message_component: json_codec message_component_to_json message_component_from_json
  coherent_component erase_component
  by unfold_locales (rule message_component_written message_component_read_coherent; assumption)+

section \<open>Members the library does not know\<close>

definition component_keys :: "string list" where
  "component_keys = [''type'', ''id'', ''style'', ''label'', ''emoji'', ''custom_id'', ''url'', ''sku_id'',
     ''disabled'', ''options'', ''placeholder'', ''min_values'', ''max_values'', ''default_values'',
     ''channel_types'', ''min_length'', ''max_length'', ''required'', ''value'', ''components'', ''accessory'',
     ''content'', ''media'', ''description'', ''spoiler'', ''items'', ''file'', ''divider'', ''spacing'',
     ''accent_color'', ''component'']"

fun component_raw :: "message_component \<Rightarrow> json" where
  "component_raw (MC_ActionRow a) = ar_raw a"
| "component_raw (MC_Button b) = bt_raw b"
| "component_raw (MC_SelectMenu s) = sm_raw s"
| "component_raw (MC_UserSelect s) = es_raw s"
| "component_raw (MC_RoleSelect s) = es_raw s"
| "component_raw (MC_MentionableSelect s) = es_raw s"
| "component_raw (MC_ChannelSelect s) = cs_raw s"
| "component_raw (MC_TextInput t) = ti_raw t"
| "component_raw (MC_Section s) = sn_raw s"
| "component_raw (MC_TextDisplay t) = td_raw t"
| "component_raw (MC_Thumbnail t) = th_raw t"
| "component_raw (MC_MediaGallery m) = mg_raw m"
| "component_raw (MC_File f) = fc_raw f"
| "component_raw (MC_Separator s) = sp_raw s"
| "component_raw (MC_Container c) = ct_raw c"
| "component_raw (MC_Label l) = lb_raw l"
| "component_raw (MC_FileUpload f) = fu_raw f"
| "component_raw (MC_Unknown u) = uk_raw u"

lemma component_other_members:
  assumes "message_component_to_json c = Some j'" "k \<notin> set component_keys"
  shows "json_at j' k = map_of (members (component_raw c)) k"
proof -
  note k = assms(2) [unfolded component_keys_def, simplified]
  note written = action_row_to_json_def select_menu_to_json_def entity_select_to_json_def
    channel_select_to_json_def text_input_to_json_def section_to_json_def text_display_to_json_def
    thumbnail_to_json_def media_gallery_to_json_def file_to_json_def separator_to_json_def
    container_to_json_def label_to_json_def file_upload_to_json_def unknown_to_json_def put_type_def
  show ?thesis
  proof (cases c)
    case (MC_Button b)
    with assms(1) k show ?thesis
      by (auto simp: button_to_json_def put_type_def put_emoji_other split: Option.bind_splits)
  next
    case (MC_Section s)
    with assms(1) k show ?thesis by (cases "sn_accessory s") (auto simp: section_to_json_def put_type_def)
  qed (use assms(1) k in \<open>auto simp: written Let_def split: Option.bind_splits\<close>)
qed

lemma component_raw_read:
  assumes "message_component_from_json j = Some c" "type_of_json j = Some t"
  shows "component_raw c = j"
proof -
  note readers = button_from_json_def action_row_from_json_def select_menu_from_json_def entity_select_from_json_def
    channel_select_from_json_def text_input_from_json_def section_from_json_def text_display_from_json_def
    thumbnail_from_json_def media_gallery_from_json_def file_from_json_def separator_from_json_def
    container_from_json_def label_from_json_def file_upload_from_json_def
  from assms show ?thesis
    by (auto simp: message_component_from_json_def readers split: if_splits Option.bind_splits)
qed

section \<open>Unknown components in a row\<close>

definition row_type :: "u8 \<Rightarrow> bool" where
  "row_type t = (t \<in> type_value ` {CT_Button, CT_SelectMenu, CT_UserSelect, CT_RoleSelect, CT_MentionableSelect,
     CT_ChannelSelect, CT_TextInput, CT_FileUpload})"

lemma unknown_row_component:
  assumes "type_of_json v = Some t" "\<not> row_type t"
  shows "row_component_from_json v = Some (Row_Button default_button)"
  using assms by (simp add: row_component_from_json_def row_type_def)

definition sample_button :: json where
  "sample_button = JObj [(''type'', JUint 2), (''style'', JUint 1), (''label'', JStr ''ok''),
     (''emoji'', JObj [(''id'', JNull), (''name'', JStr ''x'')]), (''soundboard'', JUint 7)]"

definition sample_button_read :: button where
  "sample_button_read = \<lparr>bt_id = None, bt_style = 1, bt_label = Some ''ok'',
     bt_emoji = Some \<lparr>pe_id = 0, pe_name = ''x'', pe_animated = None\<rparr>, bt_custom_id = None, bt_url = None,
     bt_sku_id = None, bt_disabled = False, bt_raw = sample_button\<rparr>"

lemmas sample_simps = deserialize_def type_of_json_def get_word_def to_enum_def to_opt_def to_opt_bool_def
  to_snowflake_def put_member_def put_type_def put_emoji_def emoji_into_def juint_opt_def jstr_opt_def jbool_opt_def juint_def

lemma sample_button_reads: "message_component_from_json sample_button = Some (MC_Button sample_button_read)"
  by (simp add: message_component_from_json_def button_from_json_def emoji_from_json_def sample_button_def
      sample_button_read_def sample_simps to_str_def)

lemma sample_button_writes: "\<exists>j'. message_component_to_json (MC_Button sample_button_read) = Some j'"
  by (simp add: button_to_json_def sample_button_def sample_button_read_def sample_simps)

section \<open>Properties\<close>

text \<open>
  C27. A message component that was read from JSON and can be written is the same component, in all its fields and those of its children, when
  what was written is read again; an unknown component keeps its whole JSON.\<close>

theorem message_component_resend:
  assumes "message_component_from_json j = Some c" "message_component_to_json c = Some j'"
  shows "\<exists>y. message_component_from_json j' = Some y \<and> erase_component y = erase_component c"
  using assms by (rule message_component.resend)

theorem message_component_resend_witness:
  "\<exists>j' y. message_component_to_json (MC_Button sample_button_read) = Some j' \<and>
     message_component_from_json j' = Some y \<and> erase_component y = erase_component (MC_Button sample_button_read)"
  using message_component_resend [OF sample_button_reads] sample_button_writes by blast

text \<open>
  A component built from scratch, whose optional fields are not overridden by the raw JSON it
  carries, can be written, and reading gives the same component in all its fields.\<close>

lemma message_component_roundtrip:
  assumes "coherent_component c"
  shows "\<exists>j y. message_component_to_json c = Some j \<and> message_component_from_json j = Some y
    \<and> erase_component y = erase_component c"
  using message_component.written [OF assms] by blast

text \<open>
  Forward compatibility: every member of a typed component whose name the library does not use is
  written exactly as it was read.\<close>

theorem unknown_members_kept:
  assumes "type_of_json j = Some t" "message_component_from_json j = Some c"
    and "message_component_to_json c = Some j'" "k \<notin> set component_keys"
  shows "json_at j' k = json_at j k"
  using component_other_members [OF assms(3,4)] component_raw_read [OF assms(2,1)] assms(1)
  by (cases j) (simp_all add: type_of_json_def)

theorem unknown_members_kept_witness:
  "\<exists>j'. message_component_to_json (MC_Button sample_button_read) = Some j' \<and> json_at j' ''soundboard'' = Some (JUint 7)"
proof -
  obtain j' where j': "message_component_to_json (MC_Button sample_button_read) = Some j'"
    using sample_button_writes by blast
  have "type_of_json sample_button = Some 2"
    by (simp add: sample_button_def type_of_json_def get_word_def)
  from unknown_members_kept [OF this sample_button_reads j', of "''soundboard''"] j' show ?thesis
    by (simp add: component_keys_def sample_button_def)
qed

text \<open>
  In an action row the same does not hold for components: one of a type the row does not know is
  read as an empty button and sent back as an empty button, whatever it contained.\<close>

theorem unknown_row_component_replaced:
  assumes "type_of_json v = Some t" "\<not> row_type t"
  shows "\<exists>a. action_row_from_json (JObj [(''type'', JUint 1), (''components'', JArr [v])]) = Some a
    \<and> action_row_to_json a = Some (JObj [(''type'', JUint 1), (''components'',
        JArr [JObj [(''type'', JUint 2), (''style'', JUint 0), (''disabled'', JBool False)]])])"
  using unknown_row_component [OF assms]
  by (simp add: action_row_from_json_def action_row_to_json_def to_vector_def get_vector_def default_button_def
      button_to_json_def deserialize_def put_type_def put_member_def put_emoji_def juint_opt_def jstr_opt_def juint_def)

theorem unknown_row_component_replaced_witness:
  "\<exists>a. action_row_from_json (JObj [(''type'', JUint 1), (''components'', JArr [JObj [(''type'', JUint 99)]])]) = Some a
    \<and> action_row_to_json a = Some (JObj [(''type'', JUint 1), (''components'',
        JArr [JObj [(''type'', JUint 2), (''style'', JUint 0), (''disabled'', JBool False)]])])"
  by (rule unknown_row_component_replaced [of _ 99]) (simp_all add: type_of_json_def get_word_def row_type_def)

end
