(* ===== verification/Component_Builders.thy ===== *)
theory Component_Builders
  imports Component_Properties
begin

text \<open>
  The builders of \<^verbatim>\<open>include/ekizu/message_component.hpp\<close> and \<^verbatim>\<open>src/emoji.cpp\<close>. Each builder
  is a datatype of its calls and a function that applies one call to the component under
  construction; \<open>build\<close> returns the component after all calls. No call sets \<open>raw\<close>: the locale
  \<open>builder\<close> carries that through any sequence of calls, and what is built is coherent, so that the
  round trip of the codecs applies to it.
\<close>

locale builder =
  fixes apply_call :: "'c \<Rightarrow> 'a \<Rightarrow> 'a"
    and start :: 'a
    and args :: "'c \<Rightarrow> bool"
    and fresh :: "'a \<Rightarrow> bool"
    and coherent :: "'a \<Rightarrow> bool"
  assumes start_fresh: "fresh start"
    and call_fresh: "fresh x \<Longrightarrow> args c \<Longrightarrow> fresh (apply_call c x)"
    and fresh_coherent: "fresh x \<Longrightarrow> coherent x"
begin

lemma calls_fresh: "fresh x \<Longrightarrow> list_all args cs \<Longrightarrow> fresh (fold apply_call cs x)"
  by (induction cs arbitrary: x) (auto intro: call_fresh)

lemma built_coherent: "list_all args cs \<Longrightarrow> coherent (fold apply_call cs start)"
  by (intro fresh_coherent calls_fresh start_fresh)

end

section \<open>Emoji\<close>

datatype emoji_call = Emoji_id snowflake | Emoji_name string | Emoji_animated bool

definition default_emoji :: partial_emoji where
  "default_emoji = \<lparr>pe_id = 0, pe_name = [], pe_animated = None\<rparr>"

fun emoji_builder :: "emoji_call \<Rightarrow> partial_emoji \<Rightarrow> partial_emoji" where
  "emoji_builder (Emoji_id v) e = e\<lparr>pe_id := v\<rparr>"
| "emoji_builder (Emoji_name v) e = e\<lparr>pe_name := v\<rparr>"
| "emoji_builder (Emoji_animated v) e = e\<lparr>pe_animated := Some v\<rparr>"

section \<open>Components without children\<close>

datatype button_call =
    Button_id u32
  | Button_style u8
  | Button_label string
  | Button_emoji partial_emoji
  | Button_custom_id string
  | Button_url string
  | Button_sku_id u64
  | Button_disabled bool

fun button_builder :: "button_call \<Rightarrow> button \<Rightarrow> button" where
  "button_builder (Button_id v) x = x\<lparr>bt_id := Some v\<rparr>"
| "button_builder (Button_style v) x = x\<lparr>bt_style := v\<rparr>"
| "button_builder (Button_label v) x = x\<lparr>bt_label := Some v\<rparr>"
| "button_builder (Button_emoji v) x = x\<lparr>bt_emoji := Some v\<rparr>"
| "button_builder (Button_custom_id v) x = x\<lparr>bt_custom_id := Some v\<rparr>"
| "button_builder (Button_url v) x = x\<lparr>bt_url := Some v\<rparr>"
| "button_builder (Button_sku_id v) x = x\<lparr>bt_sku_id := Some v\<rparr>"
| "button_builder (Button_disabled v) x = x\<lparr>bt_disabled := v\<rparr>"

interpretation button_builder: builder button_builder default_button "\<lambda>_. True"
  "\<lambda>x. bt_raw x = JNull" coherent_button
proof
  fix x :: button and c :: button_call
  assume "bt_raw x = JNull"
  then show "bt_raw (button_builder c x) = JNull" by (cases c) simp_all
qed (simp_all add: default_button_def coherent_button_def emoji_fits_def split: option.splits)

datatype select_options_call =
    Option_label string
  | Option_value string
  | Option_description string
  | Option_emoji partial_emoji
  | Option_default bool

definition default_select_options :: select_options where
  "default_select_options = \<lparr>so_label = [], so_value = [], so_description = None, so_emoji = None,
     so_default = None, so_raw = JNull\<rparr>"

fun select_options_builder :: "select_options_call \<Rightarrow> select_options \<Rightarrow> select_options" where
  "select_options_builder (Option_label v) x = x\<lparr>so_label := v\<rparr>"
| "select_options_builder (Option_value v) x = x\<lparr>so_value := v\<rparr>"
| "select_options_builder (Option_description v) x = x\<lparr>so_description := Some v\<rparr>"
| "select_options_builder (Option_emoji v) x = x\<lparr>so_emoji := Some v\<rparr>"
| "select_options_builder (Option_default v) x = x\<lparr>so_default := Some v\<rparr>"

interpretation select_options_builder: builder select_options_builder default_select_options "\<lambda>_. True"
  "\<lambda>x. so_raw x = JNull" coherent_select_options
proof
  fix x :: select_options and c :: select_options_call
  assume "so_raw x = JNull"
  then show "so_raw (select_options_builder c x) = JNull" by (cases c) simp_all
qed (simp_all add: default_select_options_def coherent_select_options_def emoji_fits_def split: option.splits)

datatype default_value_call =
    Default_id u64
  | Default_type string

definition default_default_value :: default_value where
  "default_default_value = \<lparr>dv_id = 0, dv_type = [], dv_raw = JNull\<rparr>"

fun default_value_builder :: "default_value_call \<Rightarrow> default_value \<Rightarrow> default_value" where
  "default_value_builder (Default_id v) x = x\<lparr>dv_id := v\<rparr>"
| "default_value_builder (Default_type v) x = x\<lparr>dv_type := v\<rparr>"

interpretation default_value_builder: builder default_value_builder default_default_value "\<lambda>_. True"
  "\<lambda>x. dv_raw x = JNull" "\<lambda>_. True"
proof
  fix x :: default_value and c :: default_value_call
  assume "dv_raw x = JNull"
  then show "dv_raw (default_value_builder c x) = JNull" by (cases c) simp_all
qed (simp_all add: default_default_value_def )

definition default_select_common :: select_common where
  "default_select_common = \<lparr>sc_id = None, sc_custom_id = [], sc_placeholder = None, sc_min_values = None,
     sc_max_values = None, sc_disabled = None\<rparr>"

text \<open>The calls all select builders have.\<close>

datatype select_call =
    Select_id u32
  | Select_custom_id string
  | Select_placeholder string
  | Select_min_values u8
  | Select_max_values u8
  | Select_disabled bool

fun select_builder :: "select_call \<Rightarrow> select_common \<Rightarrow> select_common" where
  "select_builder (Select_id v) x = x\<lparr>sc_id := Some v\<rparr>"
| "select_builder (Select_custom_id v) x = x\<lparr>sc_custom_id := v\<rparr>"
| "select_builder (Select_placeholder v) x = x\<lparr>sc_placeholder := Some v\<rparr>"
| "select_builder (Select_min_values v) x = x\<lparr>sc_min_values := Some v\<rparr>"
| "select_builder (Select_max_values v) x = x\<lparr>sc_max_values := Some v\<rparr>"
| "select_builder (Select_disabled v) x = x\<lparr>sc_disabled := Some v\<rparr>"

lemma select_common_fresh [simp]: "coherent_select_common [] c"
  by (simp add: coherent_select_common_def)

datatype select_menu_call =
    Menu_common select_call
  | Menu_options "select_options list"

definition default_select_menu :: select_menu where
  "default_select_menu = \<lparr>sm_common = default_select_common, sm_options = [], sm_raw = JNull\<rparr>"

fun select_menu_builder :: "select_menu_call \<Rightarrow> select_menu \<Rightarrow> select_menu" where
  "select_menu_builder (Menu_common v) x = x\<lparr>sm_common := select_builder v (sm_common x)\<rparr>"
| "select_menu_builder (Menu_options v) x = x\<lparr>sm_options := v\<rparr>"

fun select_menu_args :: "select_menu_call \<Rightarrow> bool" where
  "select_menu_args (Menu_options v) = list_all coherent_select_options v"
| "select_menu_args _ = True"

definition fresh_select_menu :: "select_menu \<Rightarrow> bool" where
  "fresh_select_menu x = (sm_raw x = JNull \<and>
     list_all coherent_select_options (sm_options x))"

interpretation select_menu_builder: builder select_menu_builder default_select_menu select_menu_args
  fresh_select_menu coherent_select_menu
proof
  fix x :: select_menu and c :: select_menu_call
  assume "fresh_select_menu x" "select_menu_args c"
  then show "fresh_select_menu (select_menu_builder c x)" by (cases c) (simp_all add: fresh_select_menu_def )
qed (simp_all add: fresh_select_menu_def default_select_menu_def coherent_select_menu_def)

datatype entity_select_call =
    Entity_common select_call
  | Entity_default_values "default_value list"

definition default_entity_select :: entity_select where
  "default_entity_select = \<lparr>es_common = default_select_common, es_default_values = None, es_raw = JNull\<rparr>"

fun entity_select_builder :: "entity_select_call \<Rightarrow> entity_select \<Rightarrow> entity_select" where
  "entity_select_builder (Entity_common v) x = x\<lparr>es_common := select_builder v (es_common x)\<rparr>"
| "entity_select_builder (Entity_default_values v) x = x\<lparr>es_default_values := Some v\<rparr>"

interpretation entity_select_builder: builder entity_select_builder default_entity_select "\<lambda>_. True"
  "\<lambda>x. es_raw x = JNull" coherent_entity_select
proof
  fix x :: entity_select and c :: entity_select_call
  assume "es_raw x = JNull"
  then show "es_raw (entity_select_builder c x) = JNull" by (cases c) simp_all
qed (simp_all add: default_entity_select_def coherent_entity_select_def)

datatype channel_select_call =
    Channel_common select_call
  | Channel_channel_types "u8 list"
  | Channel_default_values "default_value list"

definition default_channel_select :: channel_select where
  "default_channel_select = \<lparr>cs_common = default_select_common, cs_channel_types = None,
     cs_default_values = None, cs_raw = JNull\<rparr>"

fun channel_select_builder :: "channel_select_call \<Rightarrow> channel_select \<Rightarrow> channel_select" where
  "channel_select_builder (Channel_common v) x = x\<lparr>cs_common := select_builder v (cs_common x)\<rparr>"
| "channel_select_builder (Channel_channel_types v) x = x\<lparr>cs_channel_types := Some v\<rparr>"
| "channel_select_builder (Channel_default_values v) x = x\<lparr>cs_default_values := Some v\<rparr>"

interpretation channel_select_builder: builder channel_select_builder default_channel_select "\<lambda>_. True"
  "\<lambda>x. cs_raw x = JNull" coherent_channel_select
proof
  fix x :: channel_select and c :: channel_select_call
  assume "cs_raw x = JNull"
  then show "cs_raw (channel_select_builder c x) = JNull" by (cases c) simp_all
qed (simp_all add: default_channel_select_def coherent_channel_select_def)

datatype text_input_call =
    Input_id u32
  | Input_custom_id string
  | Input_style u8
  | Input_label string
  | Input_min_length u16
  | Input_max_length u16
  | Input_required bool
  | Input_value string
  | Input_placeholder string

fun text_input_builder :: "text_input_call \<Rightarrow> text_input \<Rightarrow> text_input" where
  "text_input_builder (Input_id v) x = x\<lparr>ti_id := Some v\<rparr>"
| "text_input_builder (Input_custom_id v) x = x\<lparr>ti_custom_id := v\<rparr>"
| "text_input_builder (Input_style v) x = x\<lparr>ti_style := v\<rparr>"
| "text_input_builder (Input_label v) x = x\<lparr>ti_label := v\<rparr>"
| "text_input_builder (Input_min_length v) x = x\<lparr>ti_min_length := Some v\<rparr>"
| "text_input_builder (Input_max_length v) x = x\<lparr>ti_max_length := Some v\<rparr>"
| "text_input_builder (Input_required v) x = x\<lparr>ti_required := Some v\<rparr>"
| "text_input_builder (Input_value v) x = x\<lparr>ti_value := Some v\<rparr>"
| "text_input_builder (Input_placeholder v) x = x\<lparr>ti_placeholder := Some v\<rparr>"

interpretation text_input_builder: builder text_input_builder default_text_input "\<lambda>_. True"
  "\<lambda>x. ti_raw x = JNull" coherent_text_input
proof
  fix x :: text_input and c :: text_input_call
  assume "ti_raw x = JNull"
  then show "ti_raw (text_input_builder c x) = JNull" by (cases c) simp_all
qed (simp_all add: default_text_input_def coherent_text_input_def)

datatype media_item_call =
    Media_url string

definition default_media_item :: media_item where
  "default_media_item = \<lparr>mi_url = [], mi_raw = JNull\<rparr>"

fun media_item_builder :: "media_item_call \<Rightarrow> media_item \<Rightarrow> media_item" where
  "media_item_builder (Media_url v) x = x\<lparr>mi_url := v\<rparr>"

interpretation media_item_builder: builder media_item_builder default_media_item "\<lambda>_. True"
  "\<lambda>x. mi_raw x = JNull" "\<lambda>_. True"
proof
  fix x :: media_item and c :: media_item_call
  assume "mi_raw x = JNull"
  then show "mi_raw (media_item_builder c x) = JNull" by (cases c) simp_all
qed (simp_all add: default_media_item_def )

datatype text_display_call =
    Text_id u32
  | Text_content string

definition default_text_display :: text_display where
  "default_text_display = \<lparr>td_id = None, td_content = [], td_raw = JNull\<rparr>"

fun text_display_builder :: "text_display_call \<Rightarrow> text_display \<Rightarrow> text_display" where
  "text_display_builder (Text_id v) x = x\<lparr>td_id := Some v\<rparr>"
| "text_display_builder (Text_content v) x = x\<lparr>td_content := v\<rparr>"

interpretation text_display_builder: builder text_display_builder default_text_display "\<lambda>_. True"
  "\<lambda>x. td_raw x = JNull" coherent_text_display
proof
  fix x :: text_display and c :: text_display_call
  assume "td_raw x = JNull"
  then show "td_raw (text_display_builder c x) = JNull" by (cases c) simp_all
qed (simp_all add: default_text_display_def coherent_text_display_def)

datatype thumbnail_call =
    Thumb_id u32
  | Thumb_media media_item
  | Thumb_description string
  | Thumb_spoiler bool

definition default_thumbnail :: thumbnail where
  "default_thumbnail = \<lparr>th_id = None, th_media = no_media, th_description = None, th_spoiler = None,
     th_raw = JNull\<rparr>"

fun thumbnail_builder :: "thumbnail_call \<Rightarrow> thumbnail \<Rightarrow> thumbnail" where
  "thumbnail_builder (Thumb_id v) x = x\<lparr>th_id := Some v\<rparr>"
| "thumbnail_builder (Thumb_media v) x = x\<lparr>th_media := v\<rparr>"
| "thumbnail_builder (Thumb_description v) x = x\<lparr>th_description := Some v\<rparr>"
| "thumbnail_builder (Thumb_spoiler v) x = x\<lparr>th_spoiler := Some v\<rparr>"

interpretation thumbnail_builder: builder thumbnail_builder default_thumbnail "\<lambda>_. True"
  "\<lambda>x. th_raw x = JNull" coherent_thumbnail
proof
  fix x :: thumbnail and c :: thumbnail_call
  assume "th_raw x = JNull"
  then show "th_raw (thumbnail_builder c x) = JNull" by (cases c) simp_all
qed (simp_all add: default_thumbnail_def coherent_thumbnail_def)

datatype gallery_item_call =
    Item_media media_item
  | Item_description string
  | Item_spoiler bool

definition default_gallery_item :: gallery_item where
  "default_gallery_item = \<lparr>gi_media = no_media, gi_description = None, gi_spoiler = None, gi_raw = JNull\<rparr>"

fun gallery_item_builder :: "gallery_item_call \<Rightarrow> gallery_item \<Rightarrow> gallery_item" where
  "gallery_item_builder (Item_media v) x = x\<lparr>gi_media := v\<rparr>"
| "gallery_item_builder (Item_description v) x = x\<lparr>gi_description := Some v\<rparr>"
| "gallery_item_builder (Item_spoiler v) x = x\<lparr>gi_spoiler := Some v\<rparr>"

interpretation gallery_item_builder: builder gallery_item_builder default_gallery_item "\<lambda>_. True"
  "\<lambda>x. gi_raw x = JNull" coherent_gallery_item
proof
  fix x :: gallery_item and c :: gallery_item_call
  assume "gi_raw x = JNull"
  then show "gi_raw (gallery_item_builder c x) = JNull" by (cases c) simp_all
qed (simp_all add: default_gallery_item_def coherent_gallery_item_def)

datatype file_call =
    File_id u32
  | File_file media_item
  | File_spoiler bool

definition default_file :: file_component where
  "default_file = \<lparr>fc_id = None, fc_file = no_media, fc_spoiler = None, fc_raw = JNull\<rparr>"

fun file_builder :: "file_call \<Rightarrow> file_component \<Rightarrow> file_component" where
  "file_builder (File_id v) x = x\<lparr>fc_id := Some v\<rparr>"
| "file_builder (File_file v) x = x\<lparr>fc_file := v\<rparr>"
| "file_builder (File_spoiler v) x = x\<lparr>fc_spoiler := Some v\<rparr>"

interpretation file_builder: builder file_builder default_file "\<lambda>_. True"
  "\<lambda>x. fc_raw x = JNull" coherent_file
proof
  fix x :: file_component and c :: file_call
  assume "fc_raw x = JNull"
  then show "fc_raw (file_builder c x) = JNull" by (cases c) simp_all
qed (simp_all add: default_file_def coherent_file_def)

datatype separator_call =
    Separator_id u32
  | Separator_divider bool
  | Separator_spacing u8

definition default_separator :: separator where
  "default_separator = \<lparr>sp_id = None, sp_divider = None, sp_spacing = None, sp_raw = JNull\<rparr>"

fun separator_builder :: "separator_call \<Rightarrow> separator \<Rightarrow> separator" where
  "separator_builder (Separator_id v) x = x\<lparr>sp_id := Some v\<rparr>"
| "separator_builder (Separator_divider v) x = x\<lparr>sp_divider := Some v\<rparr>"
| "separator_builder (Separator_spacing v) x = x\<lparr>sp_spacing := Some v\<rparr>"

interpretation separator_builder: builder separator_builder default_separator "\<lambda>_. True"
  "\<lambda>x. sp_raw x = JNull" coherent_separator
proof
  fix x :: separator and c :: separator_call
  assume "sp_raw x = JNull"
  then show "sp_raw (separator_builder c x) = JNull" by (cases c) simp_all
qed (simp_all add: default_separator_def coherent_separator_def)

datatype file_upload_call =
    Upload_id u32
  | Upload_custom_id string
  | Upload_min_values u8
  | Upload_max_values u8
  | Upload_required bool

definition default_file_upload :: file_upload where
  "default_file_upload = \<lparr>fu_id = None, fu_custom_id = [], fu_min_values = None, fu_max_values = None,
     fu_required = None, fu_raw = JNull\<rparr>"

fun file_upload_builder :: "file_upload_call \<Rightarrow> file_upload \<Rightarrow> file_upload" where
  "file_upload_builder (Upload_id v) x = x\<lparr>fu_id := Some v\<rparr>"
| "file_upload_builder (Upload_custom_id v) x = x\<lparr>fu_custom_id := v\<rparr>"
| "file_upload_builder (Upload_min_values v) x = x\<lparr>fu_min_values := Some v\<rparr>"
| "file_upload_builder (Upload_max_values v) x = x\<lparr>fu_max_values := Some v\<rparr>"
| "file_upload_builder (Upload_required v) x = x\<lparr>fu_required := Some v\<rparr>"

interpretation file_upload_builder: builder file_upload_builder default_file_upload "\<lambda>_. True"
  "\<lambda>x. fu_raw x = JNull" coherent_file_upload
proof
  fix x :: file_upload and c :: file_upload_call
  assume "fu_raw x = JNull"
  then show "fu_raw (file_upload_builder c x) = JNull" by (cases c) simp_all
qed (simp_all add: default_file_upload_def coherent_file_upload_def)

section \<open>Components with children\<close>

datatype section_call =
    Section_id u32
  | Section_components "text_display list"
  | Section_add text_display
  | Section_accessory section_accessory
  | Section_accessory_button button
  | Section_accessory_thumbnail thumbnail

definition default_section :: section_component where
  "default_section = \<lparr>sn_id = None, sn_components = [], sn_accessory = None, sn_raw = JNull\<rparr>"

fun section_builder :: "section_call \<Rightarrow> section_component \<Rightarrow> section_component" where
  "section_builder (Section_id v) x = x\<lparr>sn_id := Some v\<rparr>"
| "section_builder (Section_components v) x = x\<lparr>sn_components := v\<rparr>"
| "section_builder (Section_add v) x = x\<lparr>sn_components := sn_components x @ [v]\<rparr>"
| "section_builder (Section_accessory v) x = x\<lparr>sn_accessory := Some v\<rparr>"
| "section_builder (Section_accessory_button v) x = x\<lparr>sn_accessory := Some (Acc_Button v)\<rparr>"
| "section_builder (Section_accessory_thumbnail v) x = x\<lparr>sn_accessory := Some (Acc_Thumbnail v)\<rparr>"

fun section_args :: "section_call \<Rightarrow> bool" where
  "section_args (Section_components v) = list_all coherent_text_display v"
| "section_args (Section_add v) = coherent_text_display v"
| "section_args (Section_accessory v) = coherent_accessory v"
| "section_args (Section_accessory_button v) = coherent_button v"
| "section_args (Section_accessory_thumbnail v) = coherent_thumbnail v"
| "section_args _ = True"

definition fresh_section :: "section_component \<Rightarrow> bool" where
  "fresh_section x = (sn_raw x = JNull \<and>
     list_all coherent_text_display (sn_components x) \<and>
     (case sn_accessory x of None \<Rightarrow> True | Some a \<Rightarrow> coherent_accessory a))"

interpretation section_builder: builder section_builder default_section section_args
  fresh_section coherent_section
proof
  fix x :: section_component and c :: section_call
  assume "fresh_section x" "section_args c"
  then show "fresh_section (section_builder c x)" by (cases c) (simp_all add: fresh_section_def )
qed (simp_all add: fresh_section_def default_section_def coherent_section_def read_accessory_def split: option.splits)

datatype media_gallery_call =
    Gallery_id u32
  | Gallery_items "gallery_item list"
  | Gallery_add gallery_item

definition default_media_gallery :: media_gallery where
  "default_media_gallery = \<lparr>mg_id = None, mg_items = [], mg_raw = JNull\<rparr>"

fun media_gallery_builder :: "media_gallery_call \<Rightarrow> media_gallery \<Rightarrow> media_gallery" where
  "media_gallery_builder (Gallery_id v) x = x\<lparr>mg_id := Some v\<rparr>"
| "media_gallery_builder (Gallery_items v) x = x\<lparr>mg_items := v\<rparr>"
| "media_gallery_builder (Gallery_add v) x = x\<lparr>mg_items := mg_items x @ [v]\<rparr>"

fun media_gallery_args :: "media_gallery_call \<Rightarrow> bool" where
  "media_gallery_args (Gallery_items v) = list_all coherent_gallery_item v"
| "media_gallery_args (Gallery_add v) = coherent_gallery_item v"
| "media_gallery_args _ = True"

definition fresh_media_gallery :: "media_gallery \<Rightarrow> bool" where
  "fresh_media_gallery x = (mg_raw x = JNull \<and>
     list_all coherent_gallery_item (mg_items x))"

interpretation media_gallery_builder: builder media_gallery_builder default_media_gallery media_gallery_args
  fresh_media_gallery coherent_media_gallery
proof
  fix x :: media_gallery and c :: media_gallery_call
  assume "fresh_media_gallery x" "media_gallery_args c"
  then show "fresh_media_gallery (media_gallery_builder c x)" by (cases c) (simp_all add: fresh_media_gallery_def )
qed (simp_all add: fresh_media_gallery_def default_media_gallery_def coherent_media_gallery_def)

datatype label_call =
    Label_id u32
  | Label_label string
  | Label_description string
  | Label_component label_child

definition default_label :: label_component where
  "default_label = \<lparr>lb_id = None, lb_label = [], lb_description = None,
     lb_component = Label_TextInput default_text_input, lb_raw = JNull\<rparr>"

fun label_builder :: "label_call \<Rightarrow> label_component \<Rightarrow> label_component" where
  "label_builder (Label_id v) x = x\<lparr>lb_id := Some v\<rparr>"
| "label_builder (Label_label v) x = x\<lparr>lb_label := v\<rparr>"
| "label_builder (Label_description v) x = x\<lparr>lb_description := Some v\<rparr>"
| "label_builder (Label_component v) x = x\<lparr>lb_component := v\<rparr>"

fun label_args :: "label_call \<Rightarrow> bool" where
  "label_args (Label_component v) = coherent_label_child v"
| "label_args _ = True"

definition fresh_label :: "label_component \<Rightarrow> bool" where
  "fresh_label x = (lb_raw x = JNull \<and>
     coherent_label_child (lb_component x))"

interpretation label_builder: builder label_builder default_label label_args
  fresh_label coherent_label
proof
  fix x :: label_component and c :: label_call
  assume "fresh_label x" "label_args c"
  then show "fresh_label (label_builder c x)" by (cases c) (simp_all add: fresh_label_def )
qed (simp_all add: fresh_label_def default_label_def coherent_label_def)

datatype action_row_call =
    Row_id u32
  | Row_components "row_component list"
  | Row_add row_component

fun action_row_builder :: "action_row_call \<Rightarrow> action_row \<Rightarrow> action_row" where
  "action_row_builder (Row_id v) x = x\<lparr>ar_id := Some v\<rparr>"
| "action_row_builder (Row_components v) x = x\<lparr>ar_components := v\<rparr>"
| "action_row_builder (Row_add v) x = x\<lparr>ar_components := ar_components x @ [v]\<rparr>"

fun action_row_args :: "action_row_call \<Rightarrow> bool" where
  "action_row_args (Row_components v) = list_all coherent_row_component v"
| "action_row_args (Row_add v) = coherent_row_component v"
| "action_row_args _ = True"

definition fresh_action_row :: "action_row \<Rightarrow> bool" where
  "fresh_action_row x = (ar_raw x = JNull \<and>
     list_all coherent_row_component (ar_components x))"

interpretation action_row_builder: builder action_row_builder default_action_row action_row_args
  fresh_action_row coherent_action_row
proof
  fix x :: action_row and c :: action_row_call
  assume "fresh_action_row x" "action_row_args c"
  then show "fresh_action_row (action_row_builder c x)" by (cases c) (simp_all add: fresh_action_row_def )
qed (simp_all add: fresh_action_row_def default_action_row_def coherent_action_row_def)

datatype container_call =
    Container_id u32
  | Container_accent_color u32
  | Container_spoiler bool
  | Container_components "container_child list"
  | Container_add container_child

definition default_container :: container where
  "default_container = \<lparr>ct_id = None, ct_accent_color = None, ct_spoiler = None, ct_components = [],
     ct_raw = JNull\<rparr>"

fun container_builder :: "container_call \<Rightarrow> container \<Rightarrow> container" where
  "container_builder (Container_id v) x = x\<lparr>ct_id := Some v\<rparr>"
| "container_builder (Container_accent_color v) x = x\<lparr>ct_accent_color := Some v\<rparr>"
| "container_builder (Container_spoiler v) x = x\<lparr>ct_spoiler := Some v\<rparr>"
| "container_builder (Container_components v) x = x\<lparr>ct_components := v\<rparr>"
| "container_builder (Container_add v) x = x\<lparr>ct_components := ct_components x @ [v]\<rparr>"

fun container_args :: "container_call \<Rightarrow> bool" where
  "container_args (Container_components v) = list_all coherent_child v"
| "container_args (Container_add v) = coherent_child v"
| "container_args _ = True"

definition fresh_container :: "container \<Rightarrow> bool" where
  "fresh_container x = (ct_raw x = JNull \<and>
     list_all coherent_child (ct_components x))"

interpretation container_builder: builder container_builder default_container container_args
  fresh_container coherent_container
proof
  fix x :: container and c :: container_call
  assume "fresh_container x" "container_args c"
  then show "fresh_container (container_builder c x)" by (cases c) (simp_all add: fresh_container_def )
qed (simp_all add: fresh_container_def default_container_def coherent_container_def accent_color_from_json_def)

section \<open>Property\<close>

text \<open>
  Whatever calls are made on a container builder, with children that are coherent themselves (as
  everything the other builders make is), the container can be written, and reading what was written
  gives the same container in all fields of all its children.\<close>

theorem built_container_roundtrip:
  assumes "list_all container_args calls"
  shows "\<exists>j y. message_component_to_json (MC_Container (fold container_builder calls default_container)) = Some j
    \<and> message_component_from_json j = Some y
    \<and> erase_component y = erase_component (MC_Container (fold container_builder calls default_container))"
  using container_builder.built_coherent [OF assms] message_component_roundtrip
    [of "MC_Container (fold container_builder calls default_container)"] by simp

theorem built_container_roundtrip_witness:
  "\<exists>j y. message_component_to_json (MC_Container (fold container_builder
       [Container_accent_color 255, Container_add (Child_TextDisplay (fold text_display_builder [Text_content ''hi''] default_text_display))]
       default_container)) = Some j
    \<and> message_component_from_json j = Some y
    \<and> erase_component y = MC_Container \<lparr>ct_id = None, ct_accent_color = Some 255, ct_spoiler = None,
        ct_components = [Child_TextDisplay \<lparr>td_id = None, td_content = ''hi'', td_raw = JNull\<rparr>], ct_raw = JNull\<rparr>"
  using built_container_roundtrip [of "[Container_accent_color 255, Container_add (Child_TextDisplay
      (fold text_display_builder [Text_content ''hi''] default_text_display))]"]
    text_display_builder.built_coherent [of "[Text_content ''hi'']"]
  by (simp add: default_container_def default_text_display_def erase_container_def erase_text_display_def)

end
