(* ===== verification/Event_Runs.thy ===== *)
theory Event_Runs
  imports Prelude "HOL-Library.Multiset"
begin

text \<open>
  Runs of the event-driven components: a component is a step function on its state, partial where
  an event cannot happen, and a run is a sequence of events from the initial state. The locales are
  the two contracts the components share: an invariant of every reachable state, and the
  bookkeeping of calls, of which none is forgotten and none is answered twice.
\<close>

inductive run_of :: "('e \<Rightarrow> 's \<Rightarrow> 's option) \<Rightarrow> 's \<Rightarrow> 'e list \<Rightarrow> 's \<Rightarrow> bool"
  for step_fn :: "'e \<Rightarrow> 's \<Rightarrow> 's option" and init :: 's where
  start: "run_of step_fn init [] init"
| step: "run_of step_fn init es s \<Longrightarrow> step_fn e s = Some s' \<Longrightarrow> run_of step_fn init (es @ [e]) s'"

fun exec_of :: "('e \<Rightarrow> 's \<Rightarrow> 's option) \<Rightarrow> 'e list \<Rightarrow> 's \<Rightarrow> 's option" where
  "exec_of step_fn [] s = Some s"
| "exec_of step_fn (e # es) s = Option.bind (step_fn e s) (exec_of step_fn es)"

lemma exec_of_run:
  "run_of step_fn init es s \<Longrightarrow> exec_of step_fn es' s = Some s' \<Longrightarrow> run_of step_fn init (es @ es') s'"
proof (induction es' arbitrary: es s)
  case (Cons e es')
  then obtain s1 where "step_fn e s = Some s1" "exec_of step_fn es' s1 = Some s'"
    by (auto simp: Option.bind_eq_Some_conv)
  with Cons.IH [of "es @ [e]" s1] run_of.step [OF Cons.prems(1)] show ?case by simp
qed simp

lemma exec_of_init: "exec_of step_fn es init = Some s \<Longrightarrow> run_of step_fn init es s"
  using exec_of_run [OF run_of.start, of step_fn es init s] by simp

text \<open>A run in which only some events occur is a run of the step function restricted to them.\<close>

definition restrict_step :: "('e \<Rightarrow> bool) \<Rightarrow> ('e \<Rightarrow> 's \<Rightarrow> 's option) \<Rightarrow> 'e \<Rightarrow> 's \<Rightarrow> 's option" where
  "restrict_step allowed step_fn e s = (if allowed e then step_fn e s else None)"

lemma run_of_restrict:
  "run_of step_fn init es s \<Longrightarrow> list_all allowed es \<Longrightarrow> run_of (restrict_step allowed step_fn) init es s"
  by (induction rule: run_of.induct) (auto simp: restrict_step_def intro: run_of.intros)

locale event_invariant =
  fixes step_fn :: "'e \<Rightarrow> 's \<Rightarrow> 's option"
    and init :: 's
    and inv :: "'s \<Rightarrow> bool"
  assumes init_inv: "inv init"
    and step_inv: "inv s \<Longrightarrow> step_fn e s = Some s' \<Longrightarrow> inv s'"
begin

lemma run_inv: "run_of step_fn init es s \<Longrightarrow> inv s"
  by (induction rule: run_of.induct) (auto intro: init_inv step_inv)

end

locale call_system =
  fixes step_fn :: "'e \<Rightarrow> 's \<Rightarrow> 's option"
    and init :: 's
    and calls :: "'e \<Rightarrow> nat list"
    and all_calls :: "'s \<Rightarrow> nat multiset"
  assumes init_calls: "all_calls init = {#}"
    and step_calls: "step_fn e s = Some s' \<Longrightarrow> all_calls s' = all_calls s + mset (calls e)"
begin

lemma run_calls: "run_of step_fn init es s \<Longrightarrow> all_calls s = mset (concat (map calls es))"
  by (induction rule: run_of.induct) (simp_all add: init_calls step_calls)

end

end
