(* ===== verification/Websocket.thy ===== *)
theory Websocket
  imports Event_Runs "HOL-Library.Sublist"
begin

text \<open>
  \<^verbatim>\<open>src/ws.cpp\<close>: the WebSocket client. All handlers run on one strand, so that every operation
  and every completion is one step. The Beast stream is third-party: its operations under way are
  the lists \<open>ws_read_op\<close>, \<open>ws_write_op\<close> and \<open>ws_close_op\<close> (Beast allows one operation of each kind
  at a time), and their completions are events with any outcome. A handler given to the client is a
  call number; posting it to its executor appends the answer to \<open>ws_answers\<close>. What was written
  without an error is kept in \<open>ws_wire\<close>.
\<close>

section \<open>State\<close>

datatype ws_error = Ws_io nat | Ws_canceled | Ws_in_progress | Ws_closed | Ws_invalid_argument | Ws_protocol_error

record ws_message =
  wm_payload :: bytes
  wm_is_binary :: bool

record ws_close_frame =
  cf_code :: u16
  cf_reason :: string

type_synonym ws_call = nat

datatype ws_answer =
    Ans_read ws_call "ws_error + ws_message"
  | Ans_send ws_call "ws_error option"
  | Ans_close ws_call "ws_error option"

record ws_impl =
  ws_closing :: bool
  ws_sending :: bool
  ws_reading :: bool
  ws_cancelled :: bool
  ws_send_queue :: "ws_message list"
  ws_read_queue :: "ws_call list"
  ws_close_reason :: "ws_close_frame option"
  ws_buffer :: bytes
  ws_read_op :: "ws_call list"
  ws_write_op :: "(ws_call \<times> ws_message) list"
  ws_close_op :: "ws_call list"
  ws_wire :: "ws_message list"
  ws_answers :: "ws_answer list"

definition ws_init :: ws_impl where
  "ws_init = \<lparr>ws_closing = False, ws_sending = False, ws_reading = False, ws_cancelled = False,
     ws_send_queue = [], ws_read_queue = [], ws_close_reason = None, ws_buffer = [], ws_read_op = [],
     ws_write_op = [], ws_close_op = [], ws_wire = [], ws_answers = []\<rparr>"

definition post_via :: "ws_answer \<Rightarrow> ws_impl \<Rightarrow> ws_impl" where
  "post_via a s = s\<lparr>ws_answers := ws_answers s @ [a]\<rparr>"

section \<open>Reading\<close>

function start_next_read :: "ws_impl \<Rightarrow> ws_impl" where
  "start_next_read s = (case ws_read_queue s of
     [] \<Rightarrow> s\<lparr>ws_reading := False\<rparr>
   | c # cs \<Rightarrow>
       if ws_cancelled s then start_next_read (post_via (Ans_read c (Inl Ws_canceled)) (s\<lparr>ws_read_queue := cs\<rparr>))
       else s\<lparr>ws_read_queue := cs, ws_read_op := ws_read_op s @ [c]\<rparr>)"
  by pat_completeness auto
termination
  by (relation "measure (\<lambda>s. length (ws_read_queue s))") (auto simp: post_via_def)

declare start_next_read.simps [simp del]

definition async_read :: "ws_call \<Rightarrow> ws_impl \<Rightarrow> ws_impl" where
  "async_read c s =
     (if ws_cancelled s then post_via (Ans_read c (Inl Ws_canceled)) s
      else let s = s\<lparr>ws_read_queue := ws_read_queue s @ [c]\<rparr>
           in if \<not> ws_reading s then start_next_read (s\<lparr>ws_reading := True\<rparr>) else s)"

text \<open>
  The completion of a read: a message, an error with whatever part of a message is in the buffer by
  then, or the close frame of the peer.
\<close>

datatype read_outcome = Got_message bytes bool | Read_failed ws_error bytes | Peer_closed ws_close_frame bytes

definition on_read :: "ws_call \<Rightarrow> read_outcome \<Rightarrow> ws_impl \<Rightarrow> ws_impl" where
  "on_read c out s = start_next_read (case out of
     Got_message data bin \<Rightarrow>
       post_via (Ans_read c (Inr \<lparr>wm_payload = ws_buffer s @ data, wm_is_binary = bin\<rparr>)) (s\<lparr>ws_buffer := []\<rparr>)
   | Read_failed e part \<Rightarrow> post_via (Ans_read c (Inl e)) (s\<lparr>ws_buffer := ws_buffer s @ part\<rparr>)
   | Peer_closed r part \<Rightarrow> post_via (Ans_read c (Inl Ws_closed))
       (s\<lparr>ws_buffer := ws_buffer s @ part, ws_close_reason := Some r\<rparr>))"

section \<open>Closing\<close>

definition async_close :: "ws_call \<Rightarrow> ws_impl \<Rightarrow> ws_impl" where
  "async_close c s =
     (if ws_closing s then post_via (Ans_close c (Some Ws_in_progress)) s
      else s\<lparr>ws_closing := True, ws_close_op := ws_close_op s @ [c]\<rparr>)"

definition on_closed :: "ws_call \<Rightarrow> ws_error option \<Rightarrow> ws_impl \<Rightarrow> ws_impl" where
  "on_closed c ec s = post_via (Ans_close c ec) (s\<lparr>ws_closing := False\<rparr>)"

section \<open>Sending\<close>

definition drain_step :: "ws_call \<Rightarrow> ws_error option \<Rightarrow> ws_impl \<Rightarrow> ws_impl" where
  "drain_step c outcome s = (case outcome of
     Some e \<Rightarrow> post_via (Ans_send c (Some e)) (s\<lparr>ws_sending := False\<rparr>)
   | None \<Rightarrow> (case ws_send_queue s of
        [] \<Rightarrow> post_via (Ans_send c None) (s\<lparr>ws_sending := False\<rparr>)
      | m # ms \<Rightarrow> s\<lparr>ws_send_queue := ms, ws_write_op := ws_write_op s @ [(c, m)]\<rparr>))"

definition async_send :: "ws_call \<Rightarrow> ws_message \<Rightarrow> ws_impl \<Rightarrow> ws_impl" where
  "async_send c m s = (let s = s\<lparr>ws_send_queue := ws_send_queue s @ [m]\<rparr> in
     if ws_sending s then post_via (Ans_send c None) s
     else drain_step c None (s\<lparr>ws_sending := True\<rparr>))"

definition on_written :: "ws_call \<Rightarrow> ws_message \<Rightarrow> ws_error option \<Rightarrow> ws_impl \<Rightarrow> ws_impl" where
  "on_written c m ec s = drain_step c ec (if ec = None then s\<lparr>ws_wire := ws_wire s @ [m]\<rparr> else s)"

section \<open>Cancelling\<close>

definition ws_cancel :: "ws_impl \<Rightarrow> ws_impl" where
  "ws_cancel s = s\<lparr>ws_cancelled := True,
     ws_answers := ws_answers s @ map (\<lambda>c. Ans_read c (Inl Ws_canceled)) (ws_read_queue s),
     ws_read_queue := [], ws_send_queue := []\<rparr>"

section \<open>The client\<close>

text \<open>The public functions: a client that was moved from has no implementation.\<close>

record ws_client =
  wc_impl :: "ws_impl option"
  wc_refused :: "ws_answer list"

definition read_impl :: "ws_call \<Rightarrow> ws_client \<Rightarrow> ws_client" where
  "read_impl c w = (case wc_impl w of
     None \<Rightarrow> w\<lparr>wc_refused := wc_refused w @ [Ans_read c (Inl Ws_closed)]\<rparr>
   | Some s \<Rightarrow> w\<lparr>wc_impl := Some (async_read c s)\<rparr>)"

definition send_impl :: "ws_call \<Rightarrow> ws_message \<Rightarrow> ws_client \<Rightarrow> ws_client" where
  "send_impl c m w = (case wc_impl w of
     None \<Rightarrow> w\<lparr>wc_refused := wc_refused w @ [Ans_send c (Some Ws_closed)]\<rparr>
   | Some s \<Rightarrow> w\<lparr>wc_impl := Some (async_send c m s)\<rparr>)"

definition ws_close_impl :: "ws_call \<Rightarrow> ws_client \<Rightarrow> ws_client" where
  "ws_close_impl c w = (case wc_impl w of
     None \<Rightarrow> w\<lparr>wc_refused := wc_refused w @ [Ans_close c (Some Ws_closed)]\<rparr>
   | Some s \<Rightarrow> w\<lparr>wc_impl := Some (async_close c s)\<rparr>)"

definition client_cancel :: "ws_client \<Rightarrow> ws_client" where
  "client_cancel w = w\<lparr>wc_impl := map_option ws_cancel (wc_impl w)\<rparr>"

definition client_close_reason :: "ws_client \<Rightarrow> ws_close_frame option" where
  "client_close_reason w = (case wc_impl w of None \<Rightarrow> None | Some s \<Rightarrow> ws_close_reason s)"

section \<open>Ws_connecting\<close>

text \<open>
  The URL parser is Boost.URL, a parameter; \<open>tls\<close> is the outcome of the two calls that set up the
  TLS context. Each phase of the connection is one asynchronous operation.
\<close>

record uri =
  uri_scheme :: "string option"
  uri_host :: string
  uri_path :: string
  uri_query :: string
  uri_port :: "string option"

record connect_op =
  co_use_ssl :: bool
  co_host :: string
  co_port :: string
  co_path :: string

definition request_target :: "uri \<Rightarrow> string" where
  "request_target u = (let p = uri_path u @ (if uri_query u = [] then [] else ''?'' @ uri_query u)
     in if p = [] then ''/'' else p)"

definition connect_impl :: "(string \<Rightarrow> ws_error + uri) \<Rightarrow> ws_error option \<Rightarrow> ws_error option \<Rightarrow> string
    \<Rightarrow> ws_error + connect_op" where
  "connect_impl parse_uri verify_mode verify_paths url = (case parse_uri url of
     Inl e \<Rightarrow> Inl e
   | Inr u \<Rightarrow>
       if uri_scheme u \<noteq> Some ''ws'' \<and> uri_scheme u \<noteq> Some ''wss'' then Inl Ws_invalid_argument
       else let ssl = (uri_scheme u = Some ''wss'');
                op = \<lparr>co_use_ssl = ssl, co_host = uri_host u,
                  co_port = (case uri_port u of Some p \<Rightarrow> p | None \<Rightarrow> if ssl then ''443'' else ''80''),
                  co_path = request_target u\<rparr>
            in if \<not> ssl then Inr op
               else (case verify_mode of Some e \<Rightarrow> Inl e
                 | None \<Rightarrow> (case verify_paths of Some e \<Rightarrow> Inl e | None \<Rightarrow> Inr op)))"

datatype connect_phase = Ws_resolving | Ws_connecting | Tls_handshake string | Upgrading string

datatype connect_state = In_phase connect_phase | Connect_failed ws_error | Connect_done ws_impl

text \<open>The completion of an operation; a connection tells the port of the endpoint and whether the
  server name could be set.\<close>

datatype connect_outcome = Conn_error ws_error | Conn_ok | Conn_endpoint string "ws_error option"

definition ws_handshake :: "connect_op \<Rightarrow> string \<Rightarrow> connect_state" where
  "ws_handshake op port = In_phase (Upgrading (co_host op @ '':'' @ port))"

definition on_connect :: "connect_op \<Rightarrow> string \<Rightarrow> ws_error option \<Rightarrow> connect_state" where
  "on_connect op port sni =
     (if \<not> co_use_ssl op then ws_handshake op port
      else case sni of Some e \<Rightarrow> Connect_failed e | None \<Rightarrow> In_phase (Tls_handshake port))"

fun connect_event :: "connect_op \<Rightarrow> connect_phase \<Rightarrow> connect_outcome \<Rightarrow> connect_state option" where
  "connect_event op _ (Conn_error e) = Some (Connect_failed e)"
| "connect_event op Ws_resolving Conn_ok = Some (In_phase Ws_connecting)"
| "connect_event op Ws_connecting (Conn_endpoint port sni) = Some (on_connect op port sni)"
| "connect_event op (Tls_handshake port) Conn_ok = Some (ws_handshake op port)"
| "connect_event op (Upgrading target) Conn_ok = Some (Connect_done ws_init)"
| "connect_event op _ _ = None"

section \<open>Runs\<close>

datatype ws_event =
    Call_read ws_call | Call_send ws_call ws_message | Call_close ws_call | Call_cancel
  | Read_done read_outcome | Write_done "ws_error option" | Close_done "ws_error option"

text \<open>One event; \<^term>\<open>None\<close> where no such operation is under way.\<close>

fun ws_step :: "ws_event \<Rightarrow> ws_impl \<Rightarrow> ws_impl option" where
  "ws_step (Call_read c) s = Some (async_read c s)"
| "ws_step (Call_send c m) s = Some (async_send c m s)"
| "ws_step (Call_close c) s = Some (async_close c s)"
| "ws_step Call_cancel s = Some (ws_cancel s)"
| "ws_step (Read_done out) s = (case ws_read_op s of
     [] \<Rightarrow> None | c # cs \<Rightarrow> Some (on_read c out (s\<lparr>ws_read_op := cs\<rparr>)))"
| "ws_step (Write_done ec) s = (case ws_write_op s of
     [] \<Rightarrow> None | (c, m) # ops \<Rightarrow> Some (on_written c m ec (s\<lparr>ws_write_op := ops\<rparr>)))"
| "ws_step (Close_done ec) s = (case ws_close_op s of
     [] \<Rightarrow> None | c # cs \<Rightarrow> Some (on_closed c ec (s\<lparr>ws_close_op := cs\<rparr>)))"

abbreviation ws_run :: "ws_event list \<Rightarrow> ws_impl \<Rightarrow> bool" where
  "ws_run \<equiv> run_of ws_step ws_init"

fun connect_exec :: "connect_op \<Rightarrow> connect_outcome list \<Rightarrow> connect_state \<Rightarrow> connect_state option" where
  "connect_exec op [] st = Some st"
| "connect_exec op (x # xs) (In_phase p) = Option.bind (connect_event op p x) (connect_exec op xs)"
| "connect_exec op (x # xs) _ = None"

section \<open>One operation of each kind\<close>

definition ws_inv :: "ws_impl \<Rightarrow> bool" where
  "ws_inv s = (length (ws_read_op s) = (if ws_reading s then 1 else 0) \<and>
     length (ws_write_op s) = (if ws_sending s then 1 else 0) \<and>
     length (ws_close_op s) = (if ws_closing s then 1 else 0) \<and>
     (ws_read_queue s \<noteq> [] \<longrightarrow> ws_reading s \<and> \<not> ws_cancelled s))"

text \<open>Where nobody waits for a cancelled client, the loop over the readers runs at most once.\<close>

lemma start_next_read_once:
  assumes "ws_read_queue s = [] \<or> \<not> ws_cancelled s"
  shows "start_next_read s = (case ws_read_queue s of [] \<Rightarrow> s\<lparr>ws_reading := False\<rparr>
    | c # cs \<Rightarrow> s\<lparr>ws_read_queue := cs, ws_read_op := ws_read_op s @ [c]\<rparr>)"
  using assms by (subst start_next_read.simps) (auto split: list.splits)

lemmas ws_ops = async_read_def on_read_def async_close_def on_closed_def drain_step_def async_send_def
  on_written_def ws_cancel_def post_via_def Let_def

lemma ws_inv_init: "ws_inv ws_init"
  by (simp add: ws_inv_def ws_init_def)

lemma on_read_inv:
  assumes "ws_inv s" "ws_read_op s = c # cs"
  shows "ws_inv (on_read c out (s\<lparr>ws_read_op := cs\<rparr>))"
proof -
  from assms have "ws_reading s" "cs = []" "ws_read_queue s = [] \<or> \<not> ws_cancelled s"
    by (auto simp: ws_inv_def split: if_splits)
  with assms show ?thesis
    by (cases out; cases "ws_read_queue s")
      (auto simp: on_read_def post_via_def start_next_read_once ws_inv_def)
qed

lemma async_read_inv: "ws_inv s \<Longrightarrow> ws_inv (async_read c s)"
  by (cases "ws_cancelled s"; cases "ws_reading s"; cases "ws_read_queue s")
    (simp_all add: ws_inv_def async_read_def post_via_def start_next_read_once Let_def)

lemma drain_step_inv:
  assumes "ws_inv (s\<lparr>ws_sending := False\<rparr>)" "ws_sending s"
  shows "ws_inv (drain_step c r s)"
  using assms by (cases r; cases "ws_send_queue s") (simp_all add: ws_inv_def drain_step_def post_via_def)

lemma async_send_inv:
  assumes "ws_inv s"
  shows "ws_inv (async_send c m s)"
proof (cases "ws_sending s")
  case True
  with assms show ?thesis by (simp add: async_send_def ws_inv_def post_via_def)
next
  case False
  with assms have "ws_inv (drain_step c None (s\<lparr>ws_send_queue := ws_send_queue s @ [m], ws_sending := True\<rparr>))"
    by (intro drain_step_inv) (simp_all add: ws_inv_def)
  with False show ?thesis by (simp add: async_send_def)
qed

lemma on_written_inv:
  assumes "ws_inv s" "ws_write_op s = op # ops"
  shows "ws_inv (on_written c m ec (s\<lparr>ws_write_op := ops\<rparr>))"
proof -
  from assms have op: "ws_sending s" "ops = []" by (auto simp: ws_inv_def split: if_splits)
  show ?thesis unfolding on_written_def
  proof (rule drain_step_inv)
    show "ws_inv ((if ec = None then s\<lparr>ws_write_op := ops, ws_wire := ws_wire (s\<lparr>ws_write_op := ops\<rparr>) @ [m]\<rparr>
        else s\<lparr>ws_write_op := ops\<rparr>)\<lparr>ws_sending := False\<rparr>)"
      using assms(1) op by (cases "ws_reading s"; cases "ws_closing s") (simp_all add: ws_inv_def)
  qed (simp add: op)
qed

lemma on_closed_inv:
  assumes "ws_inv s" "ws_close_op s = op # ops"
  shows "ws_inv (on_closed c ec (s\<lparr>ws_close_op := ops\<rparr>))"
  using assms by (cases "ws_closing s") (simp_all add: ws_inv_def on_closed_def post_via_def)

lemma ws_step_inv:
  assumes "ws_inv s" "ws_step e s = Some s'"
  shows "ws_inv s'"
proof (cases e)
  case (Read_done out)
  with assms show ?thesis by (cases "ws_read_op s") (auto intro: on_read_inv)
next
  case (Write_done ec)
  with assms show ?thesis by (cases "ws_write_op s") (auto intro: on_written_inv)
next
  case (Close_done ec)
  with assms show ?thesis by (cases "ws_close_op s") (auto intro: on_closed_inv)
next
  case (Call_close c)
  with assms show ?thesis by (cases "ws_closing s") (auto simp: ws_inv_def async_close_def post_via_def)
next
  case Call_cancel
  with assms show ?thesis by (auto simp: ws_inv_def ws_cancel_def)
qed (use assms in \<open>auto intro: async_read_inv async_send_inv\<close>)

interpretation ws: event_invariant ws_step ws_init ws_inv
  by unfold_locales (rule ws_inv_init ws_step_inv; assumption?)+

section \<open>Calls and answers\<close>

fun event_calls :: "ws_event \<Rightarrow> ws_call list" where
  "event_calls (Call_read c) = [c]"
| "event_calls (Call_send c m) = [c]"
| "event_calls (Call_close c) = [c]"
| "event_calls _ = []"

fun answer_call :: "ws_answer \<Rightarrow> ws_call" where
  "answer_call (Ans_read c r) = c"
| "answer_call (Ans_send c r) = c"
| "answer_call (Ans_close c r) = c"

definition waiting_calls :: "ws_impl \<Rightarrow> ws_call list" where
  "waiting_calls s = ws_read_queue s @ ws_read_op s @ map fst (ws_write_op s) @ ws_close_op s"

definition all_calls :: "ws_impl \<Rightarrow> ws_call multiset" where
  "all_calls s = mset (waiting_calls s) + mset (map answer_call (ws_answers s))"

lemma all_calls_post [simp]: "all_calls (post_via a s) = add_mset (answer_call a) (all_calls s)"
  by (simp add: all_calls_def waiting_calls_def post_via_def)

lemma start_next_read_calls: "all_calls (start_next_read s) = all_calls s"
proof (induction s rule: start_next_read.induct)
  case (1 s)
  show ?case
  proof (cases "ws_read_queue s")
    case (Cons c cs)
    show ?thesis
    proof (cases "ws_cancelled s")
      case True
      with Cons 1 [OF Cons True] show ?thesis
        by (subst start_next_read.simps) (simp add: all_calls_def waiting_calls_def post_via_def)
    qed (use Cons in \<open>subst start_next_read.simps, simp add: all_calls_def waiting_calls_def\<close>)
  qed (subst start_next_read.simps, simp add: all_calls_def waiting_calls_def)
qed

lemma drain_step_calls: "all_calls (drain_step c r s) = add_mset c (all_calls s)"
  by (cases r; cases "ws_send_queue s")
    (simp_all add: drain_step_def all_calls_def waiting_calls_def post_via_def)

lemma ws_step_calls:
  assumes "ws_step e s = Some s'"
  shows "all_calls s' = all_calls s + mset (event_calls e)"
proof (cases e)
  case (Call_read c)
  with assms show ?thesis
    by (auto simp: async_read_def start_next_read_calls Let_def) (simp_all add: all_calls_def waiting_calls_def)
next
  case (Call_send c m)
  with assms show ?thesis
    by (auto simp: async_send_def drain_step_calls Let_def) (simp_all add: all_calls_def waiting_calls_def)
next
  case (Read_done out)
  with assms show ?thesis
    by (cases "ws_read_op s"; cases out)
      (auto simp: on_read_def start_next_read_calls, simp_all add: all_calls_def waiting_calls_def)
next
  case (Write_done ec)
  with assms show ?thesis
    by (cases "ws_write_op s")
      (auto simp: on_written_def drain_step_calls, simp_all add: all_calls_def waiting_calls_def)
next
  case (Close_done ec)
  with assms show ?thesis
    by (cases "ws_close_op s") (auto simp: on_closed_def, simp_all add: all_calls_def waiting_calls_def)
next
  case (Call_close c)
  with assms show ?thesis by (auto simp: async_close_def) (simp_all add: all_calls_def waiting_calls_def)
next
  case Call_cancel
  with assms show ?thesis by (auto simp: ws_cancel_def all_calls_def waiting_calls_def image_mset.compositionality comp_def)
qed

interpretation ws_calls: call_system ws_step ws_init event_calls all_calls
  by unfold_locales (simp add: all_calls_def waiting_calls_def ws_init_def, rule ws_step_calls)

section \<open>Order of messages\<close>

fun sent_message :: "ws_event \<Rightarrow> ws_message list" where
  "sent_message (Call_send c m) = [m]"
| "sent_message _ = []"

definition sent_messages :: "ws_event list \<Rightarrow> ws_message list" where
  "sent_messages es = concat (map sent_message es)"

text \<open>The messages on their way: written, being written and queued.\<close>

definition outgoing :: "ws_impl \<Rightarrow> ws_message list" where
  "outgoing s = ws_wire s @ map snd (ws_write_op s) @ ws_send_queue s"

fun loses_messages :: "ws_event \<Rightarrow> bool" where
  "loses_messages Call_cancel = True"
| "loses_messages (Write_done (Some e)) = True"
| "loses_messages _ = False"

lemma start_next_read_outgoing [simp]: "outgoing (start_next_read s) = outgoing s"
  by (induction s rule: start_next_read.induct)
    (subst start_next_read.simps, simp add: outgoing_def post_via_def split: list.splits)

lemma drain_step_outgoing:
  assumes "ws_write_op s = []"
  shows "outgoing (drain_step c r s) = outgoing s"
  using assms by (cases r; cases "ws_send_queue s") (simp_all add: drain_step_def outgoing_def post_via_def)

lemma ws_step_outgoing:
  assumes "ws_inv s" "ws_step e s = Some s'" "\<not> loses_messages e"
  shows "outgoing s' = outgoing s @ sent_message e"
proof (cases e)
  case (Call_read c)
  with assms show ?thesis by (auto simp: async_read_def Let_def) (simp_all add: outgoing_def post_via_def)
next
  case (Call_send c m)
  show ?thesis
  proof (cases "ws_sending s")
    case True
    with assms Call_send show ?thesis by (auto simp: async_send_def outgoing_def post_via_def)
  next
    case False
    with assms(1) have "ws_write_op s = []" by (simp add: ws_inv_def)
    with assms False Call_send show ?thesis
      by (auto simp: async_send_def drain_step_outgoing) (simp add: outgoing_def)
  qed
next
  case (Read_done out)
  with assms show ?thesis
    by (cases "ws_read_op s"; cases out) (auto simp: on_read_def, simp_all add: outgoing_def post_via_def)
next
  case (Write_done ec)
  with assms(3) have ec: "ec = None" by (cases ec) simp_all
  from assms(2) Write_done obtain c m ops where op: "ws_write_op s = (c, m) # ops"
    by (cases "ws_write_op s") auto
  with assms(1) have "ops = []" by (simp add: ws_inv_def split: if_splits)
  with assms(2) Write_done ec op show ?thesis
    by (auto simp: on_written_def drain_step_outgoing) (simp add: outgoing_def)
next
  case (Close_done ec)
  with assms show ?thesis
    by (cases "ws_close_op s") (auto simp: on_closed_def outgoing_def post_via_def)
next
  case (Call_close c)
  with assms show ?thesis by (auto simp: async_close_def outgoing_def post_via_def)
qed (use assms in simp)

lemma ws_step_outgoing_lost:
  assumes "ws_inv s" "ws_step e s = Some s'" "loses_messages e"
  shows "subseq (outgoing s') (outgoing s)"
proof (cases e)
  case Call_cancel
  with assms show ?thesis by (auto simp: ws_cancel_def outgoing_def)
next
  case (Write_done ec)
  with assms(3) obtain x where ec: "ec = Some x" by (cases ec) simp_all
  from assms(2) Write_done obtain c m ops where op: "ws_write_op s = (c, m) # ops"
    by (cases "ws_write_op s") auto
  with assms(1) have "ops = []" by (simp add: ws_inv_def split: if_splits)
  with assms(2) Write_done ec op show ?thesis
    by (auto simp: on_written_def drain_step_def post_via_def outgoing_def subseq_append' intro: list_emb_Cons)
qed (use assms in simp_all)

lemma ws_run_outgoing:
  assumes "ws_run es s"
  shows "subseq (outgoing s) (sent_messages es)"
    and "list_all (\<lambda>e. \<not> loses_messages e) es \<Longrightarrow> outgoing s = sent_messages es"
proof -
  from assms have "subseq (outgoing s) (sent_messages es) \<and>
      (list_all (\<lambda>e. \<not> loses_messages e) es \<longrightarrow> outgoing s = sent_messages es)"
  proof (induction rule: run_of.induct)
    case start
    show ?case by (simp add: outgoing_def ws_init_def sent_messages_def)
  next
    case (step es s e s')
    have inv: "ws_inv s" using step.hyps(1) by (rule ws.run_inv)
    show ?case
    proof (cases "loses_messages e")
      case True
      then have "subseq (outgoing s') (outgoing s)"
        using ws_step_outgoing_lost [OF inv step.hyps(2)] by simp
      with step.IH True have "subseq (outgoing s') (sent_messages es)" by (auto intro: subseq_order.trans)
      then have "subseq (outgoing s') (sent_messages es @ sent_messages [e])" by (rule subseq_rev_drop_many)
      with True show ?thesis by (simp add: sent_messages_def)
    next
      case False
      with ws_step_outgoing [OF inv step.hyps(2)] step.IH show ?thesis by (auto simp: sent_messages_def)
    qed
  qed
  then show "subseq (outgoing s) (sent_messages es)"
    "list_all (\<lambda>e. \<not> loses_messages e) es \<Longrightarrow> outgoing s = sent_messages es" by simp_all
qed

section \<open>Order of readers\<close>

fun read_call :: "ws_event \<Rightarrow> ws_call list" where
  "read_call (Call_read c) = [c]"
| "read_call _ = []"

fun answered_read :: "ws_answer \<Rightarrow> ws_call list" where
  "answered_read (Ans_read c r) = [c]"
| "answered_read _ = []"

fun delivered_message :: "ws_answer \<Rightarrow> ws_message list" where
  "delivered_message (Ans_read c (Inr m)) = [m]"
| "delivered_message _ = []"

fun arrived_message :: "ws_event \<Rightarrow> ws_message list" where
  "arrived_message (Read_done (Got_message d b)) = [\<lparr>wm_payload = d, wm_is_binary = b\<rparr>]"
| "arrived_message _ = []"

fun failed_read :: "ws_event \<Rightarrow> bool" where
  "failed_read (Read_done (Read_failed e p)) = True"
| "failed_read (Read_done (Peer_closed r p)) = True"
| "failed_read _ = False"

definition readers :: "ws_impl \<Rightarrow> ws_call list" where
  "readers s = concat (map answered_read (ws_answers s)) @ ws_read_op s @ ws_read_queue s"

definition delivered :: "ws_impl \<Rightarrow> ws_message list" where
  "delivered s = concat (map delivered_message (ws_answers s))"

lemma drain_step_reads:
  "readers (drain_step c r s) = readers s" "delivered (drain_step c r s) = delivered s"
  "ws_buffer (drain_step c r s) = ws_buffer s" "ws_cancelled (drain_step c r s) = ws_cancelled s"
  by (cases r; cases "ws_send_queue s"; simp add: drain_step_def readers_def delivered_def post_via_def)+

lemma start_next_read_reads:
  assumes "\<not> ws_cancelled s"
  shows "ws_read_op s = [] \<Longrightarrow> readers (start_next_read s) = readers s"
    and "delivered (start_next_read s) = delivered s" "ws_buffer (start_next_read s) = ws_buffer s"
    and "\<not> ws_cancelled (start_next_read s)"
  using assms by (cases "ws_read_queue s"; simp add: start_next_read_once readers_def delivered_def)+

lemma ws_step_reads:
  assumes "ws_inv s" "\<not> ws_cancelled s" "ws_step e s = Some s'" "e \<noteq> Call_cancel"
  shows "\<not> ws_cancelled s'" "readers s' = readers s @ read_call e"
    and "ws_buffer s = [] \<Longrightarrow> \<not> failed_read e \<Longrightarrow> ws_buffer s' = [] \<and> delivered s' = delivered s @ arrived_message e"
proof -
  have "\<not> ws_cancelled s' \<and> readers s' = readers s @ read_call e \<and>
    (ws_buffer s = [] \<and> \<not> failed_read e \<longrightarrow> ws_buffer s' = [] \<and> delivered s' = delivered s @ arrived_message e)"
  proof (cases e)
    case (Call_read c)
    show ?thesis
    proof (cases "ws_reading s")
      case True
      with assms Call_read show ?thesis by (auto simp: async_read_def readers_def delivered_def)
    next
      case False
      with assms(1) have "ws_read_op s = []" by (simp add: ws_inv_def)
      with assms Call_read False show ?thesis
        by (auto simp: async_read_def start_next_read_reads) (simp_all add: readers_def delivered_def)
    qed
  next
    case (Call_send c m)
    with assms show ?thesis
      by (cases "ws_sending s")
        (auto simp: async_send_def drain_step_reads Let_def, simp_all add: readers_def delivered_def post_via_def)
  next
    case (Read_done out)
    with assms(3) obtain c cs where op: "ws_read_op s = c # cs" by (cases "ws_read_op s") auto
    with assms(1) have "cs = []" by (simp add: ws_inv_def split: if_splits)
    with assms(2,3) Read_done op show ?thesis
      by (cases out) (auto simp: on_read_def post_via_def start_next_read_reads, simp_all add: readers_def delivered_def)
  next
    case (Write_done ec)
    with assms show ?thesis
      by (cases "ws_write_op s"; cases "ec = None")
        (auto simp: on_written_def drain_step_reads, simp_all add: readers_def delivered_def)
  next
    case (Close_done ec)
    with assms show ?thesis
      by (cases "ws_close_op s") (auto simp: on_closed_def readers_def delivered_def post_via_def)
  next
    case (Call_close c)
    with assms show ?thesis
      by (cases "ws_closing s") (auto simp: async_close_def readers_def delivered_def post_via_def)
  qed (use assms(4) in simp)
  then show "\<not> ws_cancelled s'" "readers s' = readers s @ read_call e"
    "ws_buffer s = [] \<Longrightarrow> \<not> failed_read e \<Longrightarrow> ws_buffer s' = [] \<and> delivered s' = delivered s @ arrived_message e"
    by simp_all
qed

lemma ws_run_reads:
  assumes "ws_run es s" "Call_cancel \<notin> set es"
  shows "\<not> ws_cancelled s" "readers s = concat (map read_call es)"
    and "list_all (\<lambda>e. \<not> failed_read e) es \<Longrightarrow> ws_buffer s = [] \<and> delivered s = concat (map arrived_message es)"
proof -
  from assms have "\<not> ws_cancelled s \<and> readers s = concat (map read_call es) \<and>
    (list_all (\<lambda>e. \<not> failed_read e) es \<longrightarrow> ws_buffer s = [] \<and> delivered s = concat (map arrived_message es))"
  proof (induction rule: run_of.induct)
    case start
    show ?case by (simp add: readers_def delivered_def ws_init_def)
  next
    case (step es s e s')
    have inv: "ws_inv s" using step.hyps(1) by (rule ws.run_inv)
    from step have "\<not> ws_cancelled s" "e \<noteq> Call_cancel" by auto
    from ws_step_reads [OF inv this(1) step.hyps(2) this(2)] step.IH step.prems show ?case by simp
  qed
  then show "\<not> ws_cancelled s" "readers s = concat (map read_call es)"
    "list_all (\<lambda>e. \<not> failed_read e) es \<Longrightarrow> ws_buffer s = [] \<and> delivered s = concat (map arrived_message es)"
    by simp_all
qed

section \<open>Properties\<close>

text \<open>
  C28. Under any order of calls and completions, every call of a client waits for something or has
  been answered, exactly once; there is never more than one read, one write and one close on the
  stream, and a reader waits only while a read is under way.\<close>

theorem ws_calls_answered_once:
  assumes "ws_run es s"
  shows "mset (concat (map event_calls es)) = mset (waiting_calls s) + mset (map answer_call (ws_answers s))
    \<and> length (ws_read_op s) \<le> 1 \<and> length (ws_write_op s) \<le> 1 \<and> length (ws_close_op s) \<le> 1
    \<and> (ws_read_queue s \<noteq> [] \<longrightarrow> ws_read_op s \<noteq> [])"
  using ws_calls.run_calls [OF assms] ws.run_inv [OF assms] by (auto simp: all_calls_def ws_inv_def)

theorem ws_calls_answered_once_witness:
  "\<exists>s. ws_run [Call_read 1, Call_read 2, Read_done (Got_message [7] True)] s
     \<and> waiting_calls s = [2] \<and> ws_read_op s = [2] \<and> map answer_call (ws_answers s) = [1]
     \<and> mset (concat (map event_calls [Call_read 1, Call_read 2, Read_done (Got_message [7] True)]))
       = mset (waiting_calls s) + mset (map answer_call (ws_answers s))"
proof -
  let ?es = "[Call_read 1, Call_read 2, Read_done (Got_message [7] True)]"
  let ?s = "ws_init\<lparr>ws_reading := True, ws_read_op := [2],
     ws_answers := [Ans_read 1 (Inr \<lparr>wm_payload = [7], wm_is_binary = True\<rparr>)]\<rparr>"
  have "exec_of ws_step ?es ws_init = Some ?s"
    by (simp add: ws_init_def async_read_def start_next_read_once on_read_def post_via_def)
  then have run: "ws_run ?es ?s" by (rule exec_of_init)
  have "waiting_calls ?s = [2]" "ws_read_op ?s = [2]" "map answer_call (ws_answers ?s) = [1]"
    by (simp_all add: ws_init_def waiting_calls_def)
  with run ws_calls_answered_once [OF run] show ?thesis by (intro exI [of _ ?s] conjI) simp_all
qed

text \<open>
  Messages go out in the order they were handed in: what was written, is being written and is
  queued is always a subsequence of what was sent, and all of it unless the client is cancelled or a
  write fails. Until the client is cancelled readers are answered in the order of their calls, and
  as long as no read fails they get exactly the messages that arrived, in order.\<close>

theorem ws_messages_in_order:
  assumes "ws_run es s"
  shows "subseq (outgoing s) (sent_messages es)
    \<and> (list_all (\<lambda>e. \<not> loses_messages e) es \<longrightarrow> outgoing s = sent_messages es)
    \<and> (Call_cancel \<notin> set es \<longrightarrow> readers s = concat (map read_call es))
    \<and> (Call_cancel \<notin> set es \<and> list_all (\<lambda>e. \<not> failed_read e) es \<longrightarrow>
      delivered s = concat (map arrived_message es))"
  using ws_run_outgoing [OF assms] ws_run_reads [OF assms] by auto

theorem ws_messages_in_order_witness:
  "\<exists>s. ws_run [Call_send 1 \<lparr>wm_payload = [1], wm_is_binary = False\<rparr>,
       Call_send 2 \<lparr>wm_payload = [2], wm_is_binary = False\<rparr>, Write_done None] s
     \<and> outgoing s = [\<lparr>wm_payload = [1], wm_is_binary = False\<rparr>, \<lparr>wm_payload = [2], wm_is_binary = False\<rparr>]"
proof -
  let ?es = "[Call_send 1 \<lparr>wm_payload = [1], wm_is_binary = False\<rparr>,
       Call_send 2 \<lparr>wm_payload = [2], wm_is_binary = False\<rparr>, Write_done None]"
  obtain s where "exec_of ws_step ?es ws_init = Some s"
    by (simp add: ws_init_def async_send_def drain_step_def on_written_def post_via_def)
  then have "ws_run ?es s" by (simp only: exec_of_init)
  with ws_messages_in_order [of ?es s] show ?thesis by (auto simp: sent_messages_def)
qed

text \<open>
  A send during another one is reported as successful at once, but its message can be lost: when
  the client is cancelled it is dropped, and when the write under way fails it stays in the queue
  with nobody writing it.\<close>

theorem ws_accepted_message_lost:
  "(\<exists>s. ws_run [Call_send 1 a, Call_send 2 b, Call_cancel] s
     \<and> Ans_send 2 None \<in> set (ws_answers s) \<and> outgoing s = [a])
   \<and> (\<exists>s. ws_run [Call_send 1 a, Call_send 2 b, Write_done (Some e)] s
     \<and> Ans_send 2 None \<in> set (ws_answers s) \<and> ws_send_queue s = [b] \<and> ws_write_op s = [] \<and> \<not> ws_sending s)"
proof
  obtain s where s: "exec_of ws_step [Call_send 1 a, Call_send 2 b, Call_cancel] ws_init = Some s"
    "Ans_send 2 None \<in> set (ws_answers s)" "outgoing s = [a]"
    by (simp add: ws_init_def async_send_def drain_step_def ws_cancel_def post_via_def outgoing_def)
  with exec_of_init [OF s(1)]
  show "\<exists>s. ws_run [Call_send 1 a, Call_send 2 b, Call_cancel] s
     \<and> Ans_send 2 None \<in> set (ws_answers s) \<and> outgoing s = [a]" by auto
  obtain s where s: "exec_of ws_step [Call_send 1 a, Call_send 2 b, Write_done (Some e)] ws_init = Some s"
    "Ans_send 2 None \<in> set (ws_answers s)" "ws_send_queue s = [b]" "ws_write_op s = []" "\<not> ws_sending s"
    by (simp add: ws_init_def async_send_def drain_step_def on_written_def post_via_def)
  with exec_of_init [OF s(1)]
  show "\<exists>s. ws_run [Call_send 1 a, Call_send 2 b, Write_done (Some e)] s
     \<and> Ans_send 2 None \<in> set (ws_answers s) \<and> ws_send_queue s = [b] \<and> ws_write_op s = [] \<and> \<not> ws_sending s"
    by auto
qed

section \<open>The phases of a connection\<close>

lemma connect_exec_done [simp]:
  "connect_exec op xs (Connect_done s) = (if xs = [] then Some (Connect_done s) else None)"
  "connect_exec op xs (Connect_failed e) = (if xs = [] then Some (Connect_failed e) else None)"
  by (cases xs; simp)+

lemma upgrade_phase:
  "connect_exec op xs (In_phase (Upgrading t)) = Some (Connect_done s) \<longleftrightarrow> xs = [Conn_ok] \<and> s = ws_init"
  by (cases xs; cases "hd xs") (auto split: if_splits)

lemma tls_phase:
  "connect_exec op xs (In_phase (Tls_handshake port)) = Some (Connect_done s) \<longleftrightarrow>
     xs = [Conn_ok, Conn_ok] \<and> s = ws_init"
  by (cases xs; cases "hd xs") (auto simp: ws_handshake_def upgrade_phase split: if_splits)

lemma connect_phase_done:
  "connect_exec op xs (In_phase Ws_connecting) = Some (Connect_done s) \<longleftrightarrow> s = ws_init \<and>
     (if co_use_ssl op then \<exists>port. xs = [Conn_endpoint port None, Conn_ok, Conn_ok]
      else \<exists>port sni. xs = [Conn_endpoint port sni, Conn_ok])"
proof (cases xs)
  case (Cons x ys)
  show ?thesis
  proof (cases x)
    case (Conn_endpoint port sni)
    with Cons show ?thesis
      by (cases sni) (auto simp: on_connect_def ws_handshake_def upgrade_phase tls_phase split: if_splits)
  qed (use Cons in \<open>auto split: if_splits\<close>)
qed simp

text \<open>A client is handed out exactly when every phase succeeded, the TLS handshake included.\<close>

theorem ws_connect_phases:
  "connect_exec op xs (In_phase Ws_resolving) = Some (Connect_done s) \<longleftrightarrow> s = ws_init \<and>
     (if co_use_ssl op then \<exists>port. xs = [Conn_ok, Conn_endpoint port None, Conn_ok, Conn_ok]
      else \<exists>port sni. xs = [Conn_ok, Conn_endpoint port sni, Conn_ok])"
proof (cases xs)
  case (Cons x ys)
  then show ?thesis by (cases x) (auto simp: connect_phase_done split: if_splits)
qed simp

end
