(* ===== verification/Udp.thy ===== *)
theory Udp
  imports Event_Runs
begin

text \<open>
  \<^verbatim>\<open>src/udp.cpp\<close>: the UDP socket. Its methods may be called from any thread; what happens
  under the mutex is one step, so that the places between two locked regions are states of their
  own: \<open>u_starters\<close> counts the threads that have claimed the receive loop and not yet run
  \<open>start_receive\<close>, \<open>u_finishing\<close> the completion handlers that have posted their answer and not yet
  decided whether to go on. The Asio socket and resolver are third-party: operations under way are
  \<open>u_recv_op\<close> and \<open>u_ops\<close>, and complete with any outcome. A handler is a call number; posting it
  appends to \<open>u_answers\<close>.
\<close>

section \<open>Addresses\<close>

datatype udp_error = Udp_io nat | Udp_closed | Udp_not_connected | Udp_not_initialized | Udp_invalid_address | Host_not_found

definition parse_bracketed :: "string \<Rightarrow> udp_error + string \<times> string" where
  "parse_bracketed address = (case dropWhile (\<lambda>c. c \<noteq> CHR '']'') address of
     [] \<Rightarrow> Inl Udp_invalid_address
   | _ # rest \<Rightarrow>
       let host = takeWhile (\<lambda>c. c \<noteq> CHR '']'') (tl address)
       in if length rest < 2 \<or> hd rest \<noteq> CHR '':'' then Inl Udp_invalid_address
          else let port = tl rest in if port = [] then Inl Udp_invalid_address else Inr (host, port))"

definition parse_host_port :: "string \<Rightarrow> udp_error + string \<times> string" where
  "parse_host_port address =
     (if address = [] then Inl Udp_invalid_address
      else if hd address = CHR ''['' then parse_bracketed address
      else (case dropWhile (\<lambda>c. c \<noteq> CHR '':'') (rev address) of
         [] \<Rightarrow> Inl Udp_invalid_address
       | _ # rhost \<Rightarrow>
           let port = rev (takeWhile (\<lambda>c. c \<noteq> CHR '':'') (rev address));
               host = rev rhost
           in if port = [] then Inl Udp_invalid_address
              else Inr (if host = [] then ''0.0.0.0'' else host, port)))"

section \<open>State\<close>

type_synonym udp_call = nat
type_synonym endpoint = nat

datatype recv_kind = Recv_connected | Recv_from

datatype udp_op =
    Op_resolve_connect udp_call
  | Op_connect udp_call endpoint
  | Op_send udp_call bytes "endpoint option"
  | Op_resolve_send udp_call bytes

datatype udp_result = Res_error udp_error | Res_done | Res_sent nat | Res_datagram bytes | Res_datagram_from bytes endpoint

record udp_impl =
  u_recvq :: "(recv_kind \<times> udp_call) list"
  u_receive_inflight :: bool
  u_closing :: bool
  u_connected :: bool
  u_starters :: nat
  u_finishing :: nat
  u_recv_op :: "(recv_kind \<times> udp_call) list"
  u_ops :: "udp_op list"
  u_answers :: "(udp_call \<times> udp_result) list"

definition udp_init :: udp_impl where
  "udp_init = \<lparr>u_recvq = [], u_receive_inflight = False, u_closing = False, u_connected = False,
     u_starters = 0, u_finishing = 0, u_recv_op = [], u_ops = [], u_answers = []\<rparr>"

definition udp_post :: "udp_call \<Rightarrow> udp_result \<Rightarrow> udp_impl \<Rightarrow> udp_impl" where
  "udp_post c r s = s\<lparr>u_answers := u_answers s @ [(c, r)]\<rparr>"

section \<open>Receiving\<close>

definition enqueue_receive :: "recv_kind \<Rightarrow> udp_call \<Rightarrow> udp_impl \<Rightarrow> udp_impl" where
  "enqueue_receive k c s = (let s = s\<lparr>u_recvq := u_recvq s @ [(k, c)]\<rparr> in
     if u_receive_inflight s then s else s\<lparr>u_receive_inflight := True, u_starters := Suc (u_starters s)\<rparr>)"

definition udp_async_receive :: "udp_call \<Rightarrow> udp_impl \<Rightarrow> udp_impl" where
  "udp_async_receive c s =
     (if u_closing s then udp_post c (Res_error Udp_closed) s
      else if \<not> u_connected s then udp_post c (Res_error Udp_not_connected) s
      else enqueue_receive Recv_connected c s)"

definition udp_async_receive_from :: "udp_call \<Rightarrow> udp_impl \<Rightarrow> udp_impl" where
  "udp_async_receive_from c s =
     (if u_closing s then udp_post c (Res_error Udp_closed) s else enqueue_receive Recv_from c s)"

definition start_receive :: "udp_impl \<Rightarrow> udp_impl" where
  "start_receive s =
     (if u_closing s then s\<lparr>u_receive_inflight := False\<rparr>
      else (case u_recvq s of
         [] \<Rightarrow> s\<lparr>u_receive_inflight := False\<rparr>
       | op # ops \<Rightarrow> s\<lparr>u_recvq := ops, u_recv_op := u_recv_op s @ [op]\<rparr>))"

text \<open>The completion of a receive, up to the posted answer.\<close>

datatype recv_outcome = Recv_error udp_error | Recv_data bytes endpoint

fun recv_result :: "bool \<Rightarrow> recv_kind \<Rightarrow> recv_outcome \<Rightarrow> udp_result" where
  "recv_result closing _ (Recv_error e) = Res_error (if closing then Udp_closed else e)"
| "recv_result _ Recv_connected (Recv_data d ep) = Res_datagram d"
| "recv_result _ Recv_from (Recv_data d ep) = Res_datagram_from d ep"

definition on_received :: "recv_kind \<Rightarrow> udp_call \<Rightarrow> recv_outcome \<Rightarrow> udp_impl \<Rightarrow> udp_impl" where
  "on_received k c out s =
     (udp_post c (recv_result (u_closing s) k out) s)\<lparr>u_finishing := Suc (u_finishing s)\<rparr>"

text \<open>The end of the completion handler: claim the next receive or give the loop up.\<close>

definition receive_next :: "udp_impl \<Rightarrow> udp_impl" where
  "receive_next s =
     (if \<not> u_closing s \<and> u_recvq s \<noteq> [] then s\<lparr>u_starters := Suc (u_starters s)\<rparr>
      else s\<lparr>u_receive_inflight := False\<rparr>)"

section \<open>Closing\<close>

definition udp_close :: "udp_impl \<Rightarrow> udp_impl" where
  "udp_close s =
     (if u_closing s then s
      else s\<lparr>u_closing := True, u_recvq := [],
        u_answers := u_answers s @ map (\<lambda>(k, c). (c, Res_error Udp_closed)) (u_recvq s)\<rparr>)"

section \<open>Connecting and sending\<close>

definition udp_async_connect :: "udp_call \<Rightarrow> udp_impl \<Rightarrow> udp_impl" where
  "udp_async_connect c s = s\<lparr>u_ops := u_ops s @ [Op_resolve_connect c]\<rparr>"

definition udp_async_send :: "udp_call \<Rightarrow> bytes \<Rightarrow> udp_impl \<Rightarrow> udp_impl" where
  "udp_async_send c d s =
     (if \<not> u_connected s then udp_post c (Res_error Udp_not_connected) s
      else s\<lparr>u_ops := u_ops s @ [Op_send c d None]\<rparr>)"

definition udp_async_send_to :: "udp_call \<Rightarrow> bytes \<Rightarrow> endpoint \<Rightarrow> udp_impl \<Rightarrow> udp_impl" where
  "udp_async_send_to c d ep s = s\<lparr>u_ops := u_ops s @ [Op_send c d (Some ep)]\<rparr>"

definition udp_async_send_to_str :: "udp_call \<Rightarrow> bytes \<Rightarrow> string \<Rightarrow> udp_impl \<Rightarrow> udp_impl" where
  "udp_async_send_to_str c d address s = (case parse_host_port address of
     Inl e \<Rightarrow> udp_post c (Res_error e) s
   | Inr _ \<Rightarrow> s\<lparr>u_ops := u_ops s @ [Op_resolve_send c d]\<rparr>)"

datatype op_outcome = Oc_error udp_error | Oc_endpoints "endpoint list" | Oc_ok nat

fun on_op_done :: "udp_op \<Rightarrow> op_outcome \<Rightarrow> udp_impl \<Rightarrow> udp_impl option" where
  "on_op_done (Op_resolve_connect c) (Oc_error e) s = Some (udp_post c (Res_error e) s)"
| "on_op_done (Op_resolve_connect c) (Oc_endpoints eps) s = Some (case eps of
     [] \<Rightarrow> udp_post c (Res_error Host_not_found) s
   | ep # _ \<Rightarrow> if u_closing s then udp_post c (Res_error Udp_closed) s
       else s\<lparr>u_ops := u_ops s @ [Op_connect c ep]\<rparr>)"
| "on_op_done (Op_connect c ep) (Oc_error e) s = Some (udp_post c (Res_error e) s)"
| "on_op_done (Op_connect c ep) (Oc_ok n) s = Some (udp_post c Res_done (s\<lparr>u_connected := True\<rparr>))"
| "on_op_done (Op_send c d ep) (Oc_error e) s = Some (udp_post c (Res_error e) s)"
| "on_op_done (Op_send c d ep) (Oc_ok n) s = Some (udp_post c (Res_sent n) s)"
| "on_op_done (Op_resolve_send c d) (Oc_error e) s = Some (udp_post c (Res_error e) s)"
| "on_op_done (Op_resolve_send c d) (Oc_endpoints eps) s = Some (case eps of
     [] \<Rightarrow> udp_post c (Res_error Host_not_found) s
   | ep # _ \<Rightarrow> udp_async_send_to c d ep s)"
| "on_op_done _ _ s = None"

section \<open>The public socket\<close>

text \<open>A socket that was moved from, or never bound, has no implementation.\<close>

record udp_socket =
  us_impl :: "udp_impl option"
  us_refused :: "(udp_call \<times> udp_result) list"

definition with_socket :: "udp_call \<Rightarrow> (udp_impl \<Rightarrow> udp_impl) \<Rightarrow> udp_socket \<Rightarrow> udp_socket" where
  "with_socket c f u = (case us_impl u of
     None \<Rightarrow> u\<lparr>us_refused := us_refused u @ [(c, Res_error Udp_not_initialized)]\<rparr>
   | Some s \<Rightarrow> u\<lparr>us_impl := Some (f s)\<rparr>)"

definition udp_connect_impl :: "udp_call \<Rightarrow> udp_socket \<Rightarrow> udp_socket" where
  "udp_connect_impl c = with_socket c (udp_async_connect c)"

definition udp_send_impl :: "udp_call \<Rightarrow> bytes \<Rightarrow> udp_socket \<Rightarrow> udp_socket" where
  "udp_send_impl c d = with_socket c (udp_async_send c d)"

definition udp_receive_impl :: "udp_call \<Rightarrow> udp_socket \<Rightarrow> udp_socket" where
  "udp_receive_impl c = with_socket c (udp_async_receive c)"

definition udp_send_to_impl :: "udp_call \<Rightarrow> bytes \<Rightarrow> endpoint \<Rightarrow> udp_socket \<Rightarrow> udp_socket" where
  "udp_send_to_impl c d ep = with_socket c (udp_async_send_to c d ep)"

definition udp_send_to_str_impl :: "udp_call \<Rightarrow> bytes \<Rightarrow> string \<Rightarrow> udp_socket \<Rightarrow> udp_socket" where
  "udp_send_to_str_impl c d a = with_socket c (udp_async_send_to_str c d a)"

definition udp_receive_from_impl :: "udp_call \<Rightarrow> udp_socket \<Rightarrow> udp_socket" where
  "udp_receive_from_impl c = with_socket c (udp_async_receive_from c)"

definition udp_socket_close :: "udp_socket \<Rightarrow> udp_socket" where
  "udp_socket_close u = u\<lparr>us_impl := map_option udp_close (us_impl u)\<rparr>"

text \<open>
  Binding: the address is parsed, resolved, and the first endpoint opened and bound; \<open>opened\<close> and
  \<open>bound\<close> are what the two calls of the socket report.
\<close>

definition bind_resolved :: "op_outcome \<Rightarrow> udp_error option \<Rightarrow> udp_error option \<Rightarrow> (udp_error + udp_impl) option" where
  "bind_resolved out opened bound = (case out of
     Oc_error e \<Rightarrow> Some (Inl e)
   | Oc_endpoints [] \<Rightarrow> Some (Inl Host_not_found)
   | Oc_endpoints (ep # _) \<Rightarrow> Some (case opened of Some e \<Rightarrow> Inl e
       | None \<Rightarrow> (case bound of Some e \<Rightarrow> Inl e | None \<Rightarrow> Inr udp_init))
   | Oc_ok n \<Rightarrow> None)"

definition bind_impl :: "string \<Rightarrow> op_outcome \<Rightarrow> udp_error option \<Rightarrow> udp_error option \<Rightarrow> (udp_error + udp_impl) option" where
  "bind_impl address out opened bound = (case parse_host_port address of
     Inl e \<Rightarrow> Some (Inl e) | Inr _ \<Rightarrow> bind_resolved out opened bound)"

section \<open>Runs\<close>

datatype udp_event =
    U_receive udp_call | U_receive_from udp_call | U_start | U_received recv_outcome | U_next | U_close
  | U_connect udp_call | U_send udp_call bytes | U_send_to udp_call bytes endpoint
  | U_send_to_str udp_call bytes string | U_op_done udp_op op_outcome

fun udp_step :: "udp_event \<Rightarrow> udp_impl \<Rightarrow> udp_impl option" where
  "udp_step (U_receive c) s = Some (udp_async_receive c s)"
| "udp_step (U_receive_from c) s = Some (udp_async_receive_from c s)"
| "udp_step U_start s = (case u_starters s of
     0 \<Rightarrow> None | Suc n \<Rightarrow> Some (start_receive (s\<lparr>u_starters := n\<rparr>)))"
| "udp_step (U_received out) s = (case u_recv_op s of
     [] \<Rightarrow> None | (k, c) # ops \<Rightarrow> Some (on_received k c out (s\<lparr>u_recv_op := ops\<rparr>)))"
| "udp_step U_next s = (case u_finishing s of
     0 \<Rightarrow> None | Suc n \<Rightarrow> Some (receive_next (s\<lparr>u_finishing := n\<rparr>)))"
| "udp_step U_close s = Some (udp_close s)"
| "udp_step (U_connect c) s = Some (udp_async_connect c s)"
| "udp_step (U_send c d) s = Some (udp_async_send c d s)"
| "udp_step (U_send_to c d ep) s = Some (udp_async_send_to c d ep s)"
| "udp_step (U_send_to_str c d a) s = Some (udp_async_send_to_str c d a s)"
| "udp_step (U_op_done op out) s =
     (if op \<in> set (u_ops s) then on_op_done op out (s\<lparr>u_ops := remove1 op (u_ops s)\<rparr>) else None)"

abbreviation udp_run :: "udp_event list \<Rightarrow> udp_impl \<Rightarrow> bool" where
  "udp_run \<equiv> run_of udp_step udp_init"

section \<open>One receive at a time\<close>

text \<open>
  Whoever sets the flag owns the receive loop: a thread about to start it, the operation under way,
  or the handler of a completed one. Somebody owns it as long as a reader is queued.
\<close>

definition udp_inv :: "udp_impl \<Rightarrow> bool" where
  "udp_inv s = (u_starters s + length (u_recv_op s) + u_finishing s = (if u_receive_inflight s then 1 else 0) \<and>
     (u_recvq s \<noteq> [] \<longrightarrow> u_receive_inflight s \<and> \<not> u_closing s))"

lemma udp_inv_post [simp]: "udp_inv (udp_post c r s) = udp_inv s"
  by (simp add: udp_inv_def udp_post_def)

lemma udp_inv_ops [simp]: "udp_inv (s\<lparr>u_ops := ops\<rparr>) = udp_inv s" "udp_inv (s\<lparr>u_connected := b\<rparr>) = udp_inv s"
  by (simp_all add: udp_inv_def)

lemma enqueue_receive_inv:
  assumes "udp_inv s" "\<not> u_closing s"
  shows "udp_inv (enqueue_receive k c s)"
  using assms by (cases "u_receive_inflight s") (simp_all add: udp_inv_def enqueue_receive_def Let_def)

lemma start_receive_inv:
  assumes "udp_inv s" "u_starters s = Suc n"
  shows "udp_inv (start_receive (s\<lparr>u_starters := n\<rparr>))"
proof -
  from assms have "u_receive_inflight s" "n = 0" "u_recv_op s = []" "u_finishing s = 0"
    by (auto simp: udp_inv_def split: if_splits)
  with assms show ?thesis
    by (cases "u_closing s"; cases "u_recvq s") (simp_all add: udp_inv_def start_receive_def)
qed

lemma receive_next_inv:
  assumes "udp_inv s" "u_finishing s = Suc n"
  shows "udp_inv (receive_next (s\<lparr>u_finishing := n\<rparr>))"
proof -
  from assms have "u_receive_inflight s" "n = 0" "u_recv_op s = []" "u_starters s = 0"
    by (auto simp: udp_inv_def split: if_splits)
  with assms show ?thesis
    by (cases "u_closing s"; cases "u_recvq s") (simp_all add: udp_inv_def receive_next_def)
qed

lemma on_op_done_inv:
  assumes "udp_inv s" "on_op_done op out s = Some s'"
  shows "udp_inv s'"
  using assms
  by (cases "(op, out, s)" rule: on_op_done.cases) (auto simp: udp_async_send_to_def split: list.splits if_splits)

lemma udp_step_inv:
  assumes "udp_inv s" "udp_step e s = Some s'"
  shows "udp_inv s'"
proof (cases e)
  case (U_receive c)
  with assms show ?thesis by (auto simp: udp_async_receive_def intro: enqueue_receive_inv)
next
  case (U_receive_from c)
  with assms show ?thesis by (auto simp: udp_async_receive_from_def intro: enqueue_receive_inv)
next
  case U_start
  with assms show ?thesis by (auto intro: start_receive_inv split: nat.splits)
next
  case (U_received out)
  with assms show ?thesis
    by (cases "u_recv_op s") (auto simp: udp_inv_def on_received_def udp_post_def split: if_splits)
next
  case U_next
  with assms show ?thesis by (auto intro: receive_next_inv split: nat.splits)
next
  case U_close
  with assms show ?thesis by (cases "u_closing s") (auto simp: udp_close_def udp_inv_def)
next
  case (U_op_done op out)
  with assms(2) have "on_op_done op out (s\<lparr>u_ops := remove1 op (u_ops s)\<rparr>) = Some s'"
    by (simp split: if_splits)
  with assms(1) show ?thesis by (auto intro: on_op_done_inv [rotated])
qed (use assms in \<open>auto simp: udp_async_connect_def udp_async_send_def udp_async_send_to_def
    udp_async_send_to_str_def split: sum.splits\<close>)

interpretation udp: event_invariant udp_step udp_init udp_inv
  by unfold_locales (simp add: udp_inv_def udp_init_def, rule udp_step_inv)

section \<open>Calls and answers\<close>

fun udp_event_calls :: "udp_event \<Rightarrow> udp_call list" where
  "udp_event_calls (U_receive c) = [c]"
| "udp_event_calls (U_receive_from c) = [c]"
| "udp_event_calls (U_connect c) = [c]"
| "udp_event_calls (U_send c d) = [c]"
| "udp_event_calls (U_send_to c d ep) = [c]"
| "udp_event_calls (U_send_to_str c d a) = [c]"
| "udp_event_calls _ = []"

fun op_call :: "udp_op \<Rightarrow> udp_call" where
  "op_call (Op_resolve_connect c) = c"
| "op_call (Op_connect c ep) = c"
| "op_call (Op_send c d ep) = c"
| "op_call (Op_resolve_send c d) = c"

definition udp_waiting :: "udp_impl \<Rightarrow> udp_call list" where
  "udp_waiting s = map snd (u_recvq s) @ map snd (u_recv_op s) @ map op_call (u_ops s)"

definition udp_all_calls :: "udp_impl \<Rightarrow> udp_call multiset" where
  "udp_all_calls s = mset (udp_waiting s) + mset (map fst (u_answers s))"

lemma udp_all_calls_post [simp]: "udp_all_calls (udp_post c r s) = add_mset c (udp_all_calls s)"
  by (simp add: udp_all_calls_def udp_waiting_def udp_post_def)

lemma udp_all_calls_ops [simp]:
  "udp_all_calls (s\<lparr>u_ops := u_ops s @ [op]\<rparr>) = add_mset (op_call op) (udp_all_calls s)"
  "udp_all_calls (s\<lparr>u_connected := b\<rparr>) = udp_all_calls s"
  by (simp_all add: udp_all_calls_def udp_waiting_def)

lemma enqueue_receive_calls: "udp_all_calls (enqueue_receive k c s) = add_mset c (udp_all_calls s)"
  by (simp add: enqueue_receive_def udp_all_calls_def udp_waiting_def Let_def)

lemma start_receive_calls: "udp_all_calls (start_receive s) = udp_all_calls s"
  by (cases "u_recvq s") (simp_all add: start_receive_def udp_all_calls_def udp_waiting_def)

lemma on_op_done_calls:
  assumes "on_op_done op out s = Some s'"
  shows "udp_all_calls s' = add_mset (op_call op) (udp_all_calls s)"
  using assms
  by (cases "(op, out, s)" rule: on_op_done.cases) (auto simp: udp_async_send_to_def split: list.splits if_splits)

lemma remove_op_calls:
  assumes "op \<in> set (u_ops s)"
  shows "add_mset (op_call op) (udp_all_calls (s\<lparr>u_ops := remove1 op (u_ops s)\<rparr>)) = udp_all_calls s"
proof -
  have "mset (u_ops s) = add_mset op (mset (remove1 op (u_ops s)))" using assms by simp
  then have "image_mset op_call (mset (u_ops s)) =
      add_mset (op_call op) (image_mset op_call (mset (remove1 op (u_ops s))))"
    by (metis image_mset_add_mset)
  then show ?thesis by (simp add: udp_all_calls_def udp_waiting_def)
qed

lemma udp_step_calls:
  assumes "udp_step e s = Some s'"
  shows "udp_all_calls s' = udp_all_calls s + mset (udp_event_calls e)"
proof (cases e)
  case U_start
  with assms show ?thesis
    by (auto simp: start_receive_calls split: nat.splits) (simp add: udp_all_calls_def udp_waiting_def)
next
  case (U_received out)
  with assms show ?thesis
    by (cases "u_recv_op s") (auto simp: on_received_def udp_all_calls_def udp_waiting_def udp_post_def)
next
  case U_next
  with assms show ?thesis
    by (auto simp: receive_next_def udp_all_calls_def udp_waiting_def split: nat.splits)
next
  case U_close
  with assms show ?thesis
    by (auto simp: udp_close_def udp_all_calls_def udp_waiting_def image_mset.compositionality comp_def case_prod_unfold)
next
  case (U_op_done op out)
  with assms have "op \<in> set (u_ops s)" "on_op_done op out (s\<lparr>u_ops := remove1 op (u_ops s)\<rparr>) = Some s'"
    by (auto split: if_splits)
  with U_op_done show ?thesis by (simp add: on_op_done_calls remove_op_calls)
qed (use assms in \<open>auto simp: udp_async_receive_def udp_async_receive_from_def enqueue_receive_calls
    udp_async_connect_def udp_async_send_def udp_async_send_to_def udp_async_send_to_str_def split: sum.splits if_splits\<close>)

interpretation udp_calls: call_system udp_step udp_init udp_event_calls udp_all_calls
  by unfold_locales (simp add: udp_all_calls_def udp_waiting_def udp_init_def, rule udp_step_calls)

section \<open>Properties\<close>

text \<open>
  C29. Under any interleaving of threads and completions there is at most one receive on the socket,
  readers are queued only while some thread, operation or handler owns the receive loop, and every
  call is waiting or has been answered, exactly once.\<close>

theorem udp_receives_serial:
  assumes "udp_run es s"
  shows "length (u_recv_op s) \<le> 1
    \<and> (u_recvq s \<noteq> [] \<longrightarrow> u_starters s + length (u_recv_op s) + u_finishing s = 1)
    \<and> mset (concat (map udp_event_calls es)) = mset (udp_waiting s) + mset (map fst (u_answers s))"
  using udp.run_inv [OF assms] udp_calls.run_calls [OF assms]
  by (auto simp: udp_inv_def udp_all_calls_def split: if_splits)

theorem udp_receives_serial_witness:
  "\<exists>s. udp_run [U_receive_from 1, U_receive_from 2, U_start, U_received (Recv_data [5] 9), U_next, U_start] s
     \<and> u_recv_op s = [(Recv_from, 2)] \<and> u_answers s = [(1, Res_datagram_from [5] 9)]
     \<and> mset (udp_waiting s) + mset (map fst (u_answers s)) = {#1, 2#}"
proof -
  let ?es = "[U_receive_from 1, U_receive_from 2, U_start, U_received (Recv_data [5] 9), U_next, U_start]"
  let ?s = "udp_init\<lparr>u_receive_inflight := True, u_recv_op := [(Recv_from, 2)],
     u_answers := [(1, Res_datagram_from [5] 9)]\<rparr>"
  have "exec_of udp_step ?es udp_init = Some ?s"
    by (simp add: udp_init_def udp_async_receive_from_def enqueue_receive_def start_receive_def on_received_def
        udp_post_def receive_next_def)
  then have run: "udp_run ?es ?s" by (rule exec_of_init)
  then show ?thesis using udp_receives_serial [OF run] by (intro exI [of _ ?s]) simp
qed

text \<open>
  Closing answers every reader: once the socket is closing nobody is queued, so a call that is
  not answered is the receive under way or another operation of the socket; a receive under way that
  fails is answered with udp\\_closed, and so is every receive called later.\<close>

theorem udp_close_answers:
  assumes "udp_run es s" "u_closing s"
  shows "u_recvq s = []
    \<and> mset (concat (map udp_event_calls es)) =
        mset (map snd (u_recv_op s)) + mset (map op_call (u_ops s)) + mset (map fst (u_answers s))
    \<and> (\<forall>k c e. u_recv_op s = [(k, c)] \<longrightarrow>
        (\<exists>s'. udp_step (U_received (Recv_error e)) s = Some s' \<and> u_answers s' = u_answers s @ [(c, Res_error Udp_closed)]))
    \<and> (\<forall>c. u_answers (udp_async_receive c s) = u_answers s @ [(c, Res_error Udp_closed)]
        \<and> u_answers (udp_async_receive_from c s) = u_answers s @ [(c, Res_error Udp_closed)])"
proof (intro conjI allI impI)
  show q: "u_recvq s = []" using udp.run_inv [OF assms(1)] assms(2) by (auto simp: udp_inv_def)
  show "mset (concat (map udp_event_calls es)) =
      mset (map snd (u_recv_op s)) + mset (map op_call (u_ops s)) + mset (map fst (u_answers s))"
    using udp_calls.run_calls [OF assms(1)] q by (simp add: udp_all_calls_def udp_waiting_def)
qed (use assms(2) in \<open>simp_all add: on_received_def udp_post_def udp_async_receive_def udp_async_receive_from_def\<close>)

theorem udp_close_answers_witness:
  "\<exists>s. udp_run [U_receive_from 1, U_receive_from 2, U_start, U_close] s \<and> u_closing s
     \<and> u_recv_op s = [(Recv_from, 1)] \<and> u_recvq s = [] \<and> u_answers s = [(2, Res_error Udp_closed)]"
proof -
  let ?es = "[U_receive_from 1, U_receive_from 2, U_start, U_close]"
  let ?s = "udp_init\<lparr>u_receive_inflight := True, u_recv_op := [(Recv_from, 1)], u_closing := True,
     u_answers := [(2, Res_error Udp_closed)]\<rparr>"
  have "exec_of udp_step ?es udp_init = Some ?s"
    by (simp add: udp_init_def udp_async_receive_from_def enqueue_receive_def start_receive_def udp_close_def)
  then have run: "udp_run ?es ?s" by (rule exec_of_init)
  have "u_recvq ?s = []" using udp_close_answers [OF run] by simp
  with run show ?thesis by (intro exI [of _ ?s]) simp
qed

text \<open>
  A host and a port written as host:port or, for hosts with colons, as [host]:port are parsed
  back, and an empty host means all addresses.\<close>

theorem udp_address_roundtrip:
  assumes "port \<noteq> []" "CHR '':'' \<notin> set port" "CHR '']'' \<notin> set host"
  shows "parse_host_port (''['' @ host @ '']:'' @ port) = Inr (host, port)
    \<and> (take 1 host \<noteq> ''['' \<longrightarrow>
        parse_host_port (host @ '':'' @ port) = Inr (if host = [] then ''0.0.0.0'' else host, port))"
proof
  have "dropWhile (\<lambda>c. c \<noteq> CHR '']'') (host @ '']:'' @ port) = '']:'' @ port"
    "takeWhile (\<lambda>c. c \<noteq> CHR '']'') (host @ '']:'' @ port) = host"
    using assms(3) by (induction host) auto
  then show "parse_host_port (''['' @ host @ '']:'' @ port) = Inr (host, port)"
    using assms(1) by (cases port) (simp_all add: parse_host_port_def parse_bracketed_def)
  have ne: "\<And>x. x \<in> set (rev port) \<Longrightarrow> x \<noteq> CHR '':''" using assms(2) by auto
  have drop: "dropWhile (\<lambda>c. c \<noteq> CHR '':'') (rev port @ CHR '':'' # rev host) = CHR '':'' # rev host"
    and take: "takeWhile (\<lambda>c. c \<noteq> CHR '':'') (rev port @ CHR '':'' # rev host) = rev port"
    using dropWhile_append2 [of "rev port" "\<lambda>c. c \<noteq> CHR '':''"] takeWhile_append2 [of "rev port" "\<lambda>c. c \<noteq> CHR '':''"] ne
    by simp_all
  show "take 1 host \<noteq> ''['' \<longrightarrow>
      parse_host_port (host @ '':'' @ port) = Inr (if host = [] then ''0.0.0.0'' else host, port)"
    using assms(1) drop take by (cases host) (auto simp: parse_host_port_def Let_def)
qed

theorem udp_address_roundtrip_witness:
  "parse_host_port ''[::1]:50000'' = Inr (''::1'', ''50000'') \<and> parse_host_port '':80'' = Inr (''0.0.0.0'', ''80'')"
  using udp_address_roundtrip [of "''50000''" "''::1''"] udp_address_roundtrip [of "''80''" "[]"] by simp

end
