(* ===== verification/Http.thy ===== *)
theory Http
  imports Event_Runs Rate_Limiter
begin

text \<open>
  \<^verbatim>\<open>src/http.cpp\<close> and the sending half of \<^verbatim>\<open>src/http_client.cpp\<close>. A connection sends one
  request at a time on its strand; \<open>cancel\<close> sets an atomic flag at once and clears up on the strand
  later (\<open>h_cancel_posted\<close>). The Beast stream is third-party: the operation under way is \<open>h_op\<close>,
  its completions are events. A handler is a call number, answering it appends to \<open>h_answers\<close>;
  \<open>h_wire\<close> collects the requests whose transmission was begun. The client keeps a connection,
  reconnects and retries.
\<close>

section \<open>Connection\<close>

record request_body = http_request +
  rq_body :: string

datatype http_error_code =
    Http_io nat | Http_canceled | Http_not_connected | Http_unsupported_scheme | Http_not_authenticated

type_synonym http_result = "http_error_code + http_response"

datatype http_phase = Writing | Reading

record http_conn =
  h_busy :: bool
  h_cancelled :: bool
  h_cancelled_on_strand :: bool
  h_cancel_posted :: nat
  h_queue :: "(nat \<times> request_body) list"
  h_op :: "(nat \<times> request_body \<times> http_phase) list"
  h_wire :: "request_body list"
  h_answers :: "(nat \<times> http_result) list"

definition http_conn_init :: http_conn where
  "http_conn_init = \<lparr>h_busy = False, h_cancelled = False, h_cancelled_on_strand = False, h_cancel_posted = 0,
     h_queue = [], h_op = [], h_wire = [], h_answers = []\<rparr>"

definition http_answer :: "nat \<Rightarrow> http_result \<Rightarrow> http_conn \<Rightarrow> http_conn" where
  "http_answer c r s = s\<lparr>h_answers := h_answers s @ [(c, r)]\<rparr>"

definition cancel_on_strand :: "http_conn \<Rightarrow> http_conn" where
  "cancel_on_strand s =
     (if h_cancelled_on_strand s then s
      else s\<lparr>h_cancelled_on_strand := True, h_queue := [],
        h_answers := h_answers s @ map (\<lambda>(c, q). (c, Inl Http_canceled)) (h_queue s)\<rparr>)"

definition http_start_next :: "http_conn \<Rightarrow> http_conn" where
  "http_start_next s =
     (if h_cancelled s then cancel_on_strand s
      else if h_busy s then s
      else (case h_queue s of
         [] \<Rightarrow> s
       | (c, q) # qs \<Rightarrow> s\<lparr>h_busy := True, h_queue := qs, h_op := h_op s @ [(c, q, Writing)],
           h_wire := h_wire s @ [q]\<rparr>))"

definition http_enqueue :: "nat \<Rightarrow> request_body \<Rightarrow> http_conn \<Rightarrow> http_conn" where
  "http_enqueue c q s =
     (if h_cancelled s then http_answer c (Inl Http_canceled) s
      else http_start_next (s\<lparr>h_queue := h_queue s @ [(c, q)]\<rparr>))"

definition http_cancel :: "http_conn \<Rightarrow> http_conn" where
  "http_cancel s =
     (if h_cancelled s then s else s\<lparr>h_cancelled := True, h_cancel_posted := Suc (h_cancel_posted s)\<rparr>)"

definition http_finish :: "nat \<Rightarrow> http_result \<Rightarrow> http_conn \<Rightarrow> http_conn" where
  "http_finish c r s =
     (let r = (if h_cancelled s then Inl Http_canceled else r);
          s = http_answer c r s
      in http_start_next (s\<lparr>h_busy := False\<rparr>))"

fun on_transfer :: "nat \<times> request_body \<times> http_phase \<Rightarrow> http_result \<Rightarrow> http_conn \<Rightarrow> http_conn" where
  "on_transfer (c, q, Writing) (Inl e) s = http_finish c (Inl e) s"
| "on_transfer (c, q, Writing) (Inr _) s = s\<lparr>h_op := h_op s @ [(c, q, Reading)]\<rparr>"
| "on_transfer (c, q, Reading) r s = http_finish c r s"

section \<open>Opening a connection\<close>

text \<open>
  The URL parser is Boost.URL, a parameter; its result has the encoded path and query. \<open>verify_mode\<close>
  and \<open>verify_paths\<close> are what the calls that set up the TLS context report, and the phases after
  that complete with any outcome.
\<close>

record http_uri =
  hu_scheme :: string
  hu_host :: string
  hu_port :: string
  hu_path :: string
  hu_query :: string

definition make_target :: "http_uri \<Rightarrow> string" where
  "make_target u = (if hu_path u = [] then ''/'' else hu_path u) @
     (if hu_query u = [] then [] else CHR ''?'' # hu_query u)"

definition http_connect_impl :: "(string \<Rightarrow> http_error_code + http_uri) \<Rightarrow> http_error_code option \<Rightarrow>
    http_error_code option \<Rightarrow> string \<Rightarrow> http_error_code + bool \<times> string \<times> string" where
  "http_connect_impl parse_uri verify_mode verify_paths url = (case parse_uri url of
     Inl e \<Rightarrow> Inl e
   | Inr u \<Rightarrow>
       if hu_scheme u \<noteq> ''http'' \<and> hu_scheme u \<noteq> ''https'' then Inl Http_unsupported_scheme
       else let https = (hu_scheme u = ''https'');
                port = (if hu_port u \<noteq> [] then hu_port u else if https then ''443'' else ''80'')
            in if \<not> https then Inr (https, hu_host u, port)
               else (case verify_mode of Some e \<Rightarrow> Inl e
                 | None \<Rightarrow> (case verify_paths of Some e \<Rightarrow> Inl e | None \<Rightarrow> Inr (https, hu_host u, port))))"

text \<open>\<open>async_run\<close>: resolve, connect, and for https set the server name and shake hands.\<close>

definition async_run :: "bool \<Rightarrow> http_error_code option \<Rightarrow> http_error_code option \<Rightarrow> http_error_code option \<Rightarrow>
    http_error_code option \<Rightarrow> http_error_code + http_conn" where
  "async_run https resolve connect sni handshake = (case resolve of Some e \<Rightarrow> Inl e
     | None \<Rightarrow> (case connect of Some e \<Rightarrow> Inl e
     | None \<Rightarrow> if \<not> https then Inr http_conn_init
       else (case sni of Some e \<Rightarrow> Inl e
     | None \<Rightarrow> (case handshake of Some e \<Rightarrow> Inl e | None \<Rightarrow> Inr http_conn_init))))"

text \<open>A moved-from connection refuses requests.\<close>

definition request_impl :: "nat \<Rightarrow> request_body \<Rightarrow> http_conn option \<Rightarrow> http_conn option \<times> (nat \<times> http_result) list" where
  "request_impl c q conn = (case conn of
     None \<Rightarrow> (None, [(c, Inl Http_not_connected)])
   | Some s \<Rightarrow> (Some (http_enqueue c q s), []))"

definition get_request :: "http_uri \<Rightarrow> request_body" where
  "get_request u = \<lparr>rq_method = ''GET'', rq_target = make_target u, rq_headers = [(''Host'', hu_host u)], rq_body = []\<rparr>"

section \<open>Runs of a connection\<close>

datatype http_event =
    H_request nat request_body | H_cancel | H_cancel_run | H_transfer http_result

fun http_step :: "http_event \<Rightarrow> http_conn \<Rightarrow> http_conn option" where
  "http_step (H_request c q) s = Some (http_enqueue c q s)"
| "http_step H_cancel s = Some (http_cancel s)"
| "http_step H_cancel_run s = (case h_cancel_posted s of
     0 \<Rightarrow> None | Suc n \<Rightarrow> Some (cancel_on_strand (s\<lparr>h_cancel_posted := n\<rparr>)))"
| "http_step (H_transfer r) s = (case h_op s of
     [] \<Rightarrow> None | op # ops \<Rightarrow> Some (on_transfer op r (s\<lparr>h_op := ops\<rparr>)))"

abbreviation http_run :: "http_event list \<Rightarrow> http_conn \<Rightarrow> bool" where
  "http_run \<equiv> run_of http_step http_conn_init"

section \<open>The client\<close>

text \<open>
  \<open>send_http_attempt\<close>. The rate limiter hands over one request at a time; its progress is the
  phase. \<open>hc_sent\<close> collects the requests given to a connection.
\<close>

text \<open>The fields of Beast compare their names without regard to case.\<close>

definition ascii_lower :: "char \<Rightarrow> char" where
  "ascii_lower c = (let n = of_char c :: nat in if 65 \<le> n \<and> n \<le> 90 then char_of (n + 32) else c)"

definition same_field :: "string \<Rightarrow> string \<Rightarrow> bool" where
  "same_field k l \<longleftrightarrow> map ascii_lower k = map ascii_lower l"

definition set_header :: "string \<Rightarrow> string \<Rightarrow> (string \<times> string) list \<Rightarrow> (string \<times> string) list" where
  "set_header k v hs = filter (\<lambda>(k', _). \<not> same_field k' k) hs @ [(k, v)]"

definition normalize_target :: "string \<Rightarrow> string" where
  "normalize_target t =
     (let t = (if t = [] \<or> hd t \<noteq> CHR ''/'' then CHR ''/'' # t else t)
      in if take 5 t \<noteq> ''/api/'' then ''/api/v10'' @ t else t)"

definition normalize_request :: "string \<Rightarrow> request_body \<Rightarrow> request_body" where
  "normalize_request token q = q\<lparr>rq_target := normalize_target (rq_target q),
     rq_headers := set_header ''Host'' ''discord.com'' (set_header ''Authorization'' (''Bot '' @ token) (rq_headers q))\<rparr>"

datatype client_phase =
    Client_connecting nat request_body | Client_requesting nat request_body | Client_done http_result

record http_client =
  hc_token :: "string option"
  hc_http :: bool
  hc_phase :: client_phase
  hc_sent :: "request_body list"

definition send_http_attempt :: "request_body \<Rightarrow> nat \<Rightarrow> http_client \<Rightarrow> http_client" where
  "send_http_attempt q attempt s = (case hc_token s of
     None \<Rightarrow> s\<lparr>hc_phase := Client_done (Inl Http_not_authenticated)\<rparr>
   | Some token \<Rightarrow>
       let q = normalize_request token q
       in if \<not> hc_http s then s\<lparr>hc_phase := Client_connecting attempt q\<rparr>
          else s\<lparr>hc_phase := Client_requesting attempt q, hc_sent := hc_sent s @ [q]\<rparr>)"

definition send_http :: "request_body \<Rightarrow> http_client \<Rightarrow> http_client" where
  "send_http q s = send_http_attempt q 0 s"

definition on_connected :: "http_error_code option \<Rightarrow> nat \<Rightarrow> request_body \<Rightarrow> http_client \<Rightarrow> http_client" where
  "on_connected ec attempt q s = (case ec of
     Some e \<Rightarrow> s\<lparr>hc_phase := Client_done (Inl e)\<rparr>
   | None \<Rightarrow> s\<lparr>hc_http := True, hc_phase := Client_requesting attempt q, hc_sent := hc_sent s @ [q]\<rparr>)"

definition retry_or_finish :: "http_result \<Rightarrow> nat \<Rightarrow> request_body \<Rightarrow> http_client \<Rightarrow> http_client" where
  "retry_or_finish res attempt q s = (case res of
     Inr r \<Rightarrow> s\<lparr>hc_phase := Client_done (Inr r)\<rparr>
   | Inl e \<Rightarrow> if attempt \<ge> 1 then s\<lparr>hc_phase := Client_done (Inl e)\<rparr>
       else send_http_attempt q (attempt + 1) (s\<lparr>hc_http := False\<rparr>))"

definition client_shutdown :: "http_client \<Rightarrow> http_client" where
  "client_shutdown s = s\<lparr>hc_token := None, hc_http := False\<rparr>"

datatype client_event = HC_connected "http_error_code option" | HC_response http_result | HC_shutdown

fun client_step :: "client_event \<Rightarrow> http_client \<Rightarrow> http_client option" where
  "client_step (HC_connected ec) s = (case hc_phase s of
     Client_connecting n q \<Rightarrow> Some (on_connected ec n q s) | _ \<Rightarrow> None)"
| "client_step (HC_response r) s = (case hc_phase s of
     Client_requesting n q \<Rightarrow> Some (retry_or_finish r n q s) | _ \<Rightarrow> None)"
| "client_step HC_shutdown s = Some (client_shutdown s)"

definition client_start :: "string option \<Rightarrow> bool \<Rightarrow> request_body \<Rightarrow> http_client" where
  "client_start token live q =
     send_http q \<lparr>hc_token = token, hc_http = live, hc_phase = Client_done (Inl Http_not_connected), hc_sent = []\<rparr>"

section \<open>One request at a time\<close>

definition http_inv :: "http_conn \<Rightarrow> bool" where
  "http_inv s = (length (h_op s) = (if h_busy s then 1 else 0) \<and>
     (h_queue s \<noteq> [] \<longrightarrow> h_busy s) \<and> (h_cancelled_on_strand s \<longrightarrow> h_cancelled s \<and> h_queue s = []) \<and>
     (h_cancel_posted s \<noteq> 0 \<longrightarrow> h_cancelled s))"

lemma http_answer_sel [simp]:
  "h_busy (http_answer c r s) = h_busy s" "h_cancelled (http_answer c r s) = h_cancelled s"
  "h_cancelled_on_strand (http_answer c r s) = h_cancelled_on_strand s" "h_queue (http_answer c r s) = h_queue s"
  "h_op (http_answer c r s) = h_op s" "h_wire (http_answer c r s) = h_wire s"
  "h_cancel_posted (http_answer c r s) = h_cancel_posted s"
  "h_answers (http_answer c r s) = h_answers s @ [(c, r)]"
  by (simp_all add: http_answer_def)

lemma cancel_on_strand_inv:
  "http_inv s \<Longrightarrow> h_cancelled s \<Longrightarrow> http_inv (cancel_on_strand s)"
  by (cases "h_busy s") (simp_all add: http_inv_def cancel_on_strand_def)

lemma http_start_next_inv:
  assumes "length (h_op s) = (if h_busy s then 1 else 0)" "h_cancelled_on_strand s \<longrightarrow> h_cancelled s \<and> h_queue s = []"
    "h_cancel_posted s \<noteq> 0 \<longrightarrow> h_cancelled s" "\<not> h_cancelled s \<or> \<not> h_cancelled_on_strand s \<or> h_queue s = []"
  shows "http_inv (http_start_next s)"
proof (cases "h_cancelled s")
  case True
  with assms show ?thesis by (auto simp: http_inv_def http_start_next_def cancel_on_strand_def)
next
  case False
  show ?thesis
  proof (cases "h_queue s")
    case Nil
    with assms False show ?thesis by (auto simp: http_inv_def http_start_next_def)
  next
    case (Cons a qs)
    with assms False show ?thesis
      by (cases a; cases "h_busy s") (simp_all add: http_inv_def http_start_next_def)
  qed
qed

lemma http_finish_inv:
  assumes "http_inv s" "h_op s = op # ops"
  shows "http_inv (http_finish c r (s\<lparr>h_op := ops\<rparr>))"
proof -
  have "ops = []" using assms by (simp add: http_inv_def split: if_splits)
  with assms show ?thesis
    unfolding http_finish_def Let_def by (intro http_start_next_inv) (auto simp: http_inv_def)
qed

lemma on_transfer_inv:
  assumes "http_inv s" "h_op s = op # ops"
  shows "http_inv (on_transfer op r (s\<lparr>h_op := ops\<rparr>))"
proof -
  obtain c q ph where op: "op = (c, q, ph)" by (cases op)
  have "ops = []" "h_busy s" using assms by (auto simp: http_inv_def split: if_splits)
  with assms(1) have "http_inv (s\<lparr>h_op := ops @ [(c, q, Reading)]\<rparr>)" by (simp add: http_inv_def)
  then show ?thesis using http_finish_inv [OF assms] by (cases ph; cases r) (simp_all add: op)
qed

lemma http_step_inv:
  assumes "http_inv s" "http_step e s = Some s'"
  shows "http_inv s'"
proof (cases e)
  case (H_request c q)
  show ?thesis
  proof (cases "h_cancelled s")
    case True
    with assms H_request show ?thesis by (auto simp: http_enqueue_def http_inv_def)
  next
    case False
    with assms(1) have "http_inv (http_start_next (s\<lparr>h_queue := h_queue s @ [(c, q)]\<rparr>))"
      by (intro http_start_next_inv) (simp_all add: http_inv_def)
    with False assms(2) H_request show ?thesis by (simp add: http_enqueue_def)
  qed
next
  case H_cancel
  with assms show ?thesis by (cases "h_cancelled s") (auto simp: http_cancel_def http_inv_def)
next
  case H_cancel_run
  with assms obtain n where "h_cancel_posted s = Suc n" "s' = cancel_on_strand (s\<lparr>h_cancel_posted := n\<rparr>)"
    by (auto split: nat.splits)
  moreover from this(1) assms(1) have "http_inv (s\<lparr>h_cancel_posted := n\<rparr>)" "h_cancelled s"
    by (auto simp: http_inv_def)
  ultimately show ?thesis by (simp add: cancel_on_strand_inv)
next
  case (H_transfer r)
  with assms(2) obtain op ops where op: "h_op s = op # ops" "s' = on_transfer op r (s\<lparr>h_op := ops\<rparr>)"
    by (auto split: list.splits)
  with assms(1) show ?thesis by (simp add: on_transfer_inv)
qed

interpretation http: event_invariant http_step http_conn_init http_inv
  by unfold_locales (simp add: http_inv_def http_conn_init_def, rule http_step_inv)

section \<open>Calls and answers\<close>

fun http_event_calls :: "http_event \<Rightarrow> nat list" where
  "http_event_calls (H_request c q) = [c]"
| "http_event_calls _ = []"

definition http_all_calls :: "http_conn \<Rightarrow> nat multiset" where
  "http_all_calls s = mset (map fst (h_queue s)) + mset (map fst (h_op s)) + mset (map fst (h_answers s))"

lemma http_answer_calls [simp]: "http_all_calls (http_answer c r s) = add_mset c (http_all_calls s)"
  by (simp add: http_all_calls_def)

lemma http_busy_calls [simp]: "http_all_calls (s\<lparr>h_busy := b\<rparr>) = http_all_calls s"
  by (simp add: http_all_calls_def)

lemma cancel_on_strand_calls [simp]:
  "http_all_calls (cancel_on_strand s) = http_all_calls s"
  by (simp add: cancel_on_strand_def http_all_calls_def image_mset.compositionality comp_def case_prod_unfold)

lemma http_start_next_calls [simp]: "http_all_calls (http_start_next s) = http_all_calls s"
proof (cases "h_queue s")
  case Nil
  then show ?thesis by (simp add: http_start_next_def)
next
  case (Cons a qs)
  then show ?thesis by (cases a) (simp add: http_start_next_def, simp add: http_all_calls_def)
qed

lemma http_step_calls:
  assumes "http_step e s = Some s'"
  shows "http_all_calls s' = http_all_calls s + mset (http_event_calls e)"
proof (cases e)
  case (H_request c q)
  with assms show ?thesis by (auto simp: http_enqueue_def) (simp add: http_all_calls_def)
next
  case H_cancel
  with assms show ?thesis by (auto simp: http_cancel_def http_all_calls_def)
next
  case H_cancel_run
  with assms show ?thesis by (auto split: nat.splits) (simp add: http_all_calls_def)
next
  case (H_transfer r)
  with assms obtain op ops where op: "h_op s = op # ops" "s' = on_transfer op r (s\<lparr>h_op := ops\<rparr>)"
    by (auto split: list.splits)
  then show ?thesis using H_transfer
    by (cases "(op, r, s\<lparr>h_op := ops\<rparr>)" rule: on_transfer.cases)
      (auto simp: http_finish_def Let_def, simp_all add: http_all_calls_def)
qed

interpretation http_calls: call_system http_step http_conn_init http_event_calls http_all_calls
  by unfold_locales (simp add: http_all_calls_def http_conn_init_def, rule http_step_calls)

section \<open>Order\<close>

fun http_event_requests :: "http_event \<Rightarrow> request_body list" where
  "http_event_requests (H_request c q) = [q]"
| "http_event_requests _ = []"

definition http_line :: "http_conn \<Rightarrow> nat list" where
  "http_line s = map fst (h_answers s) @ map fst (h_op s) @ map fst (h_queue s)"

definition http_transmitted :: "http_conn \<Rightarrow> request_body list" where
  "http_transmitted s = h_wire s @ map snd (h_queue s)"

lemma http_start_next_order:
  assumes "\<not> h_cancelled s" "h_busy s \<or> h_op s = []"
  shows "http_line (http_start_next s) = http_line s" "http_transmitted (http_start_next s) = http_transmitted s"
    "h_cancelled (http_start_next s) = False"
  using assms by (cases "h_queue s"; auto simp: http_start_next_def http_line_def http_transmitted_def)+

lemma http_step_order:
  assumes "http_inv s" "\<not> h_cancelled s" "http_step e s = Some s'" "e \<noteq> H_cancel"
  shows "\<not> h_cancelled s' \<and> http_line s' = http_line s @ http_event_calls e \<and>
    http_transmitted s' = http_transmitted s @ http_event_requests e"
proof (cases e)
  case (H_request c q)
  have "h_busy s \<or> h_op s = []" using assms(1) by (simp add: http_inv_def split: if_splits)
  with assms H_request show ?thesis
    by (auto simp: http_enqueue_def http_start_next_order) (simp_all add: http_line_def http_transmitted_def)
next
  case H_cancel_run
  with assms show ?thesis by (auto simp: http_inv_def split: nat.splits)
next
  case (H_transfer r)
  with assms(3) obtain op ops where op: "h_op s = op # ops" "s' = on_transfer op r (s\<lparr>h_op := ops\<rparr>)"
    by (auto split: list.splits)
  moreover from this(1) assms(1) have "ops = []" by (simp add: http_inv_def split: if_splits)
  ultimately show ?thesis using H_transfer assms(2)
    by (cases "(op, r, s\<lparr>h_op := ops\<rparr>)" rule: on_transfer.cases)
      (auto simp: http_finish_def http_start_next_order, simp_all add: http_line_def http_transmitted_def)
qed (use assms(4) in simp)

lemma http_run_order:
  assumes "http_run es s" "H_cancel \<notin> set es"
  shows "http_line s = concat (map http_event_calls es)" "http_transmitted s = concat (map http_event_requests es)"
proof -
  from assms have "\<not> h_cancelled s \<and> http_line s = concat (map http_event_calls es) \<and>
      http_transmitted s = concat (map http_event_requests es)"
  proof (induction rule: run_of.induct)
    case start
    show ?case by (simp add: http_conn_init_def http_line_def http_transmitted_def)
  next
    case (step es s e s')
    from step have "\<not> h_cancelled s" "e \<noteq> H_cancel" by auto
    from http_step_order [OF http.run_inv [OF step.hyps(1)] this(1) step.hyps(2) this(2)] step.IH step.prems
    show ?case by simp
  qed
  then show "http_line s = concat (map http_event_calls es)"
    "http_transmitted s = concat (map http_event_requests es)" by simp_all
qed

section \<open>Normalizing a request\<close>

lemma normalize_target_idem: "normalize_target (normalize_target t) = normalize_target t"
  by (auto simp: normalize_target_def Let_def)

lemma set_header_twice:
  assumes "\<not> same_field k l"
  shows "set_header k v (set_header l w (set_header k v (set_header l w hs))) = set_header k v (set_header l w hs)"
  using assms by (simp add: set_header_def same_field_def) (rule filter_cong, auto)

lemma normalize_request_idem: "normalize_request t (normalize_request t q) = normalize_request t q"
proof -
  have "\<not> same_field ''Host'' ''Authorization''" by (simp add: same_field_def)
  then show ?thesis by (simp add: normalize_request_def normalize_target_idem set_header_twice)
qed

section \<open>The attempts of a request\<close>

fun attempts_left :: "client_phase \<Rightarrow> nat" where
  "attempts_left (Client_connecting 0 q) = 4"
| "attempts_left (Client_requesting 0 q) = 3"
| "attempts_left (Client_connecting (Suc n) q) = 2"
| "attempts_left (Client_requesting (Suc n) q) = 1"
| "attempts_left (Client_done r) = 0"

definition client_steps :: "client_event list \<Rightarrow> nat" where
  "client_steps es = length (filter (\<lambda>e. e \<noteq> HC_shutdown) es)"

lemma client_steps_simps [simp]:
  "client_steps [] = 0" "client_steps (es @ [HC_shutdown]) = client_steps es"
  "client_steps (es @ [HC_connected ec]) = Suc (client_steps es)"
  "client_steps (es @ [HC_response r]) = Suc (client_steps es)"
  by (simp_all add: client_steps_def)

text \<open>
  What is sent is the normalized request; it was sent once at most before the retry and twice at
  most in all, and the retry only happens after a failed response.
\<close>

definition client_inv :: "string \<Rightarrow> request_body \<Rightarrow> client_event list \<Rightarrow> http_client \<Rightarrow> bool" where
  "client_inv t q es s = (
     set (hc_sent s) \<subseteq> {normalize_request t q} \<and> (hc_token s = None \<or> hc_token s = Some t) \<and>
     attempts_left (hc_phase s) + client_steps es \<le> 4 \<and>
     (case hc_phase s of
        Client_connecting n r \<Rightarrow> r = normalize_request t q \<and> \<not> hc_http s \<and> length (hc_sent s) = n \<and> n \<le> 1
      | Client_requesting n r \<Rightarrow> r = normalize_request t q \<and> length (hc_sent s) = Suc n \<and> n \<le> 1
      | Client_done r \<Rightarrow> length (hc_sent s) \<le> 2) \<and>
     (length (hc_sent s) = 2 \<or> (\<exists>n r. hc_phase s = Client_connecting (Suc n) r) \<longrightarrow>
        (\<exists>e. HC_response (Inl e) \<in> set es)))"

lemma client_start_inv: "client_inv t q [] (client_start (Some t) live q)"
  by (simp add: client_inv_def client_start_def send_http_def send_http_attempt_def Let_def)

lemma on_connected_inv:
  assumes "client_inv t q es s" "hc_phase s = Client_connecting n r"
  shows "client_inv t q (es @ [HC_connected ec]) (on_connected ec n r s)"
proof (cases ec)
  case None
  with assms show ?thesis by (cases n) (auto simp: client_inv_def on_connected_def)
next
  case (Some e)
  with assms show ?thesis by (cases n) (auto simp: client_inv_def on_connected_def)
qed

lemma retry_or_finish_inv:
  assumes "client_inv t q es s" "hc_phase s = Client_requesting n r"
  shows "client_inv t q (es @ [HC_response res]) (retry_or_finish res n r s)"
proof (cases res)
  case (Inr v)
  with assms show ?thesis by (cases n) (auto simp: client_inv_def retry_or_finish_def)
next
  case (Inl e)
  show ?thesis
  proof (cases n)
    case 0
    with Inl assms show ?thesis
      by (cases "hc_token s")
        (auto simp: client_inv_def retry_or_finish_def send_http_attempt_def Let_def normalize_request_idem)
  next
    case (Suc m)
    with Inl assms show ?thesis by (auto simp: client_inv_def retry_or_finish_def)
  qed
qed

lemma client_step_inv:
  assumes "client_inv t q es s" "client_step e s = Some s'"
  shows "client_inv t q (es @ [e]) s'"
proof (cases e)
  case HC_shutdown
  with assms have "s' = client_shutdown s" by simp
  with HC_shutdown assms(1) show ?thesis
    by (cases "hc_phase s") (auto simp: client_inv_def client_shutdown_def)
next
  case (HC_connected ec)
  with assms show ?thesis by (auto intro: on_connected_inv split: client_phase.splits)
next
  case (HC_response r)
  with assms show ?thesis by (auto intro: retry_or_finish_inv split: client_phase.splits)
qed

lemma client_run_inv: "run_of client_step (client_start (Some t) live q) es s \<Longrightarrow> client_inv t q es s"
  by (induction rule: run_of.induct) (auto intro: client_start_inv client_step_inv)

section \<open>Properties\<close>

text \<open>
  C30. A connection has at most one request on its stream, a request waits only while another is on
  the stream, and every request is waiting or answered, exactly once. Unless the connection is
  cancelled requests are sent and answered in the order they were made.\<close>

theorem http_connection_serial:
  assumes "http_run es s"
  shows "length (h_op s) \<le> 1 \<and> (h_queue s \<noteq> [] \<longrightarrow> h_op s \<noteq> [])
    \<and> mset (concat (map http_event_calls es)) =
        mset (map fst (h_queue s)) + mset (map fst (h_op s)) + mset (map fst (h_answers s))
    \<and> (H_cancel \<notin> set es \<longrightarrow>
        concat (map http_event_calls es) = map fst (h_answers s) @ map fst (h_op s) @ map fst (h_queue s)
        \<and> concat (map http_event_requests es) = h_wire s @ map snd (h_queue s))"
  using http.run_inv [OF assms] http_calls.run_calls [OF assms] http_run_order [OF assms]
  by (auto simp: http_inv_def http_all_calls_def http_line_def http_transmitted_def split: if_splits)

theorem http_connection_serial_witness:
  "\<exists>s q. http_run [H_request 1 q, H_request 2 q, H_transfer (Inl (Http_io 1))] s
     \<and> map fst (h_op s) = [2] \<and> h_answers s = [(1, Inl (Http_io 1))] \<and> h_wire s = [q, q]"
proof -
  let ?q = "\<lparr>rq_method = ''GET'', rq_target = ''/users'', rq_headers = [], rq_body = []\<rparr> :: request_body"
  let ?es = "[H_request 1 ?q, H_request 2 ?q, H_transfer (Inl (Http_io 1))]"
  let ?s = "http_conn_init\<lparr>h_busy := True, h_op := [(2, ?q, Writing)], h_wire := [?q, ?q],
     h_answers := [(1, Inl (Http_io 1))]\<rparr>"
  have "exec_of http_step ?es http_conn_init = Some ?s"
    by (simp add: http_conn_init_def http_enqueue_def http_start_next_def http_finish_def http_answer_def)
  then have run: "http_run ?es ?s" by (rule exec_of_init)
  have "h_wire ?s = [?q, ?q]" using http_connection_serial [OF run] by (simp add: http_conn_init_def)
  with run show ?thesis by (intro exI [of _ ?s] exI [of _ ?q]) simp
qed

text \<open>
  C31. The client sends a request at most twice, always with the same normalized content under
  discord.com and the token; it sends it again only after a response failed, and has answered after
  four steps at most, whatever happens in between.\<close>

theorem http_client_retries_once:
  assumes "run_of client_step (client_start (Some t) live q) es s"
  shows "length (hc_sent s) \<le> 2 \<and> set (hc_sent s) \<subseteq> {normalize_request t q}
    \<and> (length (hc_sent s) = 2 \<longrightarrow> (\<exists>e. HC_response (Inl e) \<in> set es))
    \<and> client_steps es \<le> 4 \<and> (client_steps es = 4 \<longrightarrow> (\<exists>r. hc_phase s = Client_done r))"
proof -
  note inv = client_run_inv [OF assms, unfolded client_inv_def]
  have "length (hc_sent s) \<le> 2" using inv by (cases "hc_phase s") auto
  moreover have "client_steps es = 4 \<longrightarrow> (\<exists>r. hc_phase s = Client_done r)"
  proof (cases "hc_phase s")
    case (Client_connecting n r)
    with inv show ?thesis by (cases n) auto
  next
    case (Client_requesting n r)
    with inv show ?thesis by (cases n) auto
  qed simp
  ultimately show ?thesis using inv by auto
qed

definition sample_post :: request_body where
  "sample_post = \<lparr>rq_method = ''POST'', rq_target = ''channels/1/messages'', rq_headers = [], rq_body = ''hi''\<rparr>"

lemma retried_run:
  "run_of client_step (client_start (Some t) True q) [HC_response (Inl e), HC_connected None]
     \<lparr>hc_token = Some t, hc_http = True, hc_phase = Client_requesting 1 (normalize_request t q),
       hc_sent = [normalize_request t q, normalize_request t q]\<rparr>"
  by (rule exec_of_init) (simp add: client_start_def send_http_def send_http_attempt_def retry_or_finish_def
      on_connected_def normalize_request_idem Let_def)

theorem http_client_retries_once_witness:
  "\<exists>s. run_of client_step (client_start (Some ''t'') True sample_post)
       [HC_response (Inl (Http_io 1)), HC_connected None] s
     \<and> length (hc_sent s) = 2 \<and> client_steps [HC_response (Inl (Http_io 1)), HC_connected None] \<le> 4"
  using http_client_retries_once [OF retried_run [of "''t''" sample_post "Http_io 1"]]
    retried_run [of "''t''" sample_post "Http_io 1"] by (intro exI conjI) auto

text \<open>
  The retry does not look at the method: a POST whose response was lost after the server has
  handled it is sent a second time.\<close>

theorem http_post_sent_twice:
  "\<exists>s. run_of client_step (client_start (Some t) True (sample_post\<lparr>rq_body := body\<rparr>))
       [HC_response (Inl e), HC_connected None] s
     \<and> map rq_method (hc_sent s) = [''POST'', ''POST''] \<and> map rq_body (hc_sent s) = [body, body]"
proof -
  let ?q = "normalize_request t (sample_post\<lparr>rq_body := body\<rparr>)"
  note retried_run [of t "sample_post\<lparr>rq_body := body\<rparr>" e]
  moreover have "rq_method ?q = ''POST''" "rq_body ?q = body"
    by (simp_all add: normalize_request_def sample_post_def)
  ultimately show ?thesis
    by (intro exI [of _ "\<lparr>hc_token = Some t, hc_http = True, hc_phase = Client_requesting 1 ?q, hc_sent = [?q, ?q]\<rparr>"]) simp
qed

end
