(* ===== verification/Timer_Queue.thy ===== *)
theory Timer_Queue
  imports Event_Runs "HOL-Library.Word"
begin

text \<open>
  \<^verbatim>\<open>include/ekizu/timer_queue.hpp\<close>: tasks that run on a thread of their own when their time has
  come. The queue is a binary heap in a vector, kept by \<^verbatim>\<open>std::push_heap\<close> and
  \<^verbatim>\<open>std::pop_heap\<close>, which are written out here as the usual implementations have them (a hole that
  moves up; a hole that moves down to a leaf and the last element moved up from there). Every method
  is one atomic step under the mutex; the thread runs from one wait, or one task, to the next. Times
  and delays are unbounded integers (those of the steady clock have 64 bits of nanoseconds, some 292 years); the clock is
  an argument of every step that reads it. The first round of the new thread is part of the step that starts it. A task's function
  is a number, and \<open>tq_log\<close> collects the calls with the time at which they were made.
\<close>

section \<open>Tasks and the heap\<close>

record task =
  tk_id :: "64 word"
  tk_delay :: int
  tk_time :: int
  tk_func :: nat

abbreviation parent :: "nat \<Rightarrow> nat" where
  "parent i \<equiv> (i - 1) div 2"

function sift_up :: "task \<Rightarrow> task list \<Rightarrow> nat \<Rightarrow> task list" where
  "sift_up v c hole =
     (if 0 < hole \<and> tk_time v < tk_time (c ! parent hole)
      then sift_up v (c[hole := c ! parent hole]) (parent hole) else c[hole := v])"
  by auto
termination by (relation "measure (\<lambda>(v, c, hole). hole)") auto

definition push_heap :: "task list \<Rightarrow> task list" where
  "push_heap c = (if c = [] then c else sift_up (last c) c (length c - 1))"

text \<open>The smaller child of a hole that has two children.\<close>

definition child :: "task list \<Rightarrow> nat \<Rightarrow> nat" where
  "child c hole =
     (if tk_time (c ! (2 * hole + 1)) < tk_time (c ! (2 * hole + 2)) then 2 * hole + 1 else 2 * hole + 2)"

function adjust_heap :: "task \<Rightarrow> task list \<Rightarrow> nat \<Rightarrow> task list" where
  "adjust_heap v c hole =
     (if 2 * hole + 2 < length c then adjust_heap v (c[hole := c ! child c hole]) (child c hole)
      else if 2 * hole + 2 = length c then sift_up v (c[hole := c ! (2 * hole + 1)]) (2 * hole + 1)
      else sift_up v c hole)"
  by auto
termination
  by (relation "measure (\<lambda>(v, c, hole). length c - hole)") (auto simp: child_def)

declare sift_up.simps [simp del] adjust_heap.simps [simp del]

definition pop_heap :: "task list \<Rightarrow> task list" where
  "pop_heap c = (if length c > 1 then adjust_heap (last c) (butlast c) 0 @ [hd c] else c)"

definition queue_push :: "task \<Rightarrow> task list \<Rightarrow> task list" where
  "queue_push t c = push_heap (c @ [t])"

definition top_and_pop :: "task list \<Rightarrow> task \<times> task list" where
  "top_and_pop c = (let c = pop_heap c in (last c, butlast c))"

section \<open>The queue and its thread\<close>

datatype worker =
    Not_started | Waiting_for_task | Waiting_until int | Executing task | Finished

record timer_queue =
  tq_tasks :: "task list"
  tq_thread :: worker
  tq_stop :: bool
  tq_repeat_mode :: bool
  tq_task_counter :: "64 word"
  tq_log :: "(task \<times> int) list"
  tq_terminated :: bool

definition TimerQueue :: timer_queue where
  "TimerQueue = \<lparr>tq_tasks = [], tq_thread = Not_started, tq_stop = True, tq_repeat_mode = False,
     tq_task_counter = 0, tq_log = [], tq_terminated = False\<rparr>"

definition set_repeat_mode :: "bool \<Rightarrow> timer_queue \<Rightarrow> timer_queue" where
  "set_repeat_mode r q = q\<lparr>tq_repeat_mode := r\<rparr>"

text \<open>
  A round of \<open>run\<close>, up to the next point at which the mutex is released: a wait, or a task that was
  popped. A cancelled task (id 0) is popped as well, without a call.
\<close>

definition run_loop :: "int \<Rightarrow> timer_queue \<Rightarrow> timer_queue" where
  "run_loop now q =
     (if tq_stop q then q\<lparr>tq_thread := Finished\<rparr>
      else if tq_tasks q = [] then q\<lparr>tq_thread := Waiting_for_task\<rparr>
      else if tk_time (hd (tq_tasks q)) > now
      then q\<lparr>tq_thread := Waiting_until (tk_time (hd (tq_tasks q)))\<rparr>
      else let (t, c) = top_and_pop (tq_tasks q)
           in q\<lparr>tq_tasks := c, tq_thread := Executing t,
                tq_log := (if tk_id t \<noteq> 0 then tq_log q @ [(t, now)] else tq_log q)\<rparr>)"

text \<open>
  \<open>start\<close> assigns a new thread to \<open>m_thread\<close>; when the old one has not been joined the program is
  terminated. \<open>stop\<close> sets the flag and then waits for the thread (\<open>join\<close>, a step of its own).
\<close>

definition tq_start :: "int \<Rightarrow> timer_queue \<Rightarrow> timer_queue" where
  "tq_start now q =
     (if \<not> tq_stop q then q
      else let q = q\<lparr>tq_stop := False\<rparr>
           in if tq_thread q \<noteq> Not_started then q\<lparr>tq_terminated := True\<rparr> else run_loop now q)"

definition tq_stop_op :: "timer_queue \<Rightarrow> timer_queue" where
  "tq_stop_op q = (if tq_stop q then q else q\<lparr>tq_stop := True\<rparr>)"

definition tq_join :: "timer_queue \<Rightarrow> timer_queue option" where
  "tq_join q = (if tq_thread q = Finished then Some (q\<lparr>tq_thread := Not_started\<rparr>) else None)"

definition add_task :: "int \<Rightarrow> nat \<Rightarrow> int \<Rightarrow> timer_queue \<Rightarrow> 64 word \<times> timer_queue" where
  "add_task now f delay q =
     (let n = tq_task_counter q + 1;
          id = (if n = 0 then n + 1 else n)
      in (id, q\<lparr>tq_task_counter := id,
            tq_tasks := queue_push \<lparr>tk_id = id, tk_delay = delay, tk_time = now + delay, tk_func = f\<rparr> (tq_tasks q)\<rparr>))"

fun find_task :: "64 word \<Rightarrow> task list \<Rightarrow> nat \<Rightarrow> nat option" where
  "find_task i [] k = None"
| "find_task i (t # ts) k = (if tk_id t = i then Some k else find_task i ts (Suc k))"

definition cancel_task :: "int \<Rightarrow> 64 word \<Rightarrow> timer_queue \<Rightarrow> timer_queue" where
  "cancel_task now i q = (case find_task i (tq_tasks q) 0 of
     None \<Rightarrow> q
   | Some k \<Rightarrow> q\<lparr>tq_tasks := (tq_tasks q)[k := (tq_tasks q ! k)\<lparr>tk_id := 0, tk_time := now\<rparr>]\<rparr>)"

definition remove_task :: "64 word \<Rightarrow> timer_queue \<Rightarrow> timer_queue" where
  "remove_task i q = (case find_task i (tq_tasks q) 0 of
     None \<Rightarrow> q
   | Some k \<Rightarrow> q\<lparr>tq_tasks := take k (tq_tasks q) @ drop (Suc k) (tq_tasks q)\<rparr>)"

text \<open>The thread wakes up, and a task's function returns.\<close>

definition wake :: "int \<Rightarrow> timer_queue \<Rightarrow> timer_queue option" where
  "wake now q = (case tq_thread q of
     Waiting_for_task \<Rightarrow> if tq_tasks q \<noteq> [] \<or> tq_stop q then Some (run_loop now q) else None
   | Waiting_until t \<Rightarrow> if t \<le> now \<or> tq_stop q then Some (run_loop now q) else None
   | _ \<Rightarrow> None)"

definition task_returned :: "int \<Rightarrow> timer_queue \<Rightarrow> timer_queue option" where
  "task_returned now q = (case tq_thread q of
     Executing t \<Rightarrow> Some (run_loop now
       (if tq_repeat_mode q \<and> tk_id t \<noteq> 0
        then q\<lparr>tq_tasks := queue_push (t\<lparr>tk_time := now + tk_delay t\<rparr>) (tq_tasks q)\<rparr> else q))
   | _ \<Rightarrow> None)"

datatype timer_event =
    TAdd nat int | TCancel "64 word" | TRemove "64 word" | TRepeat bool | TStart | TStop | TJoin | TWake | TReturn

text \<open>One step at time \<open>now\<close>; after \<^verbatim>\<open>std::terminate\<close> nothing happens any more.\<close>

fun timer_step :: "int \<times> timer_event \<Rightarrow> timer_queue \<Rightarrow> timer_queue option" where
  "timer_step (now, e) q =
     (if tq_terminated q then None else case e of
        TAdd f d \<Rightarrow> Some (snd (add_task now f d q))
      | TCancel i \<Rightarrow> Some (cancel_task now i q)
      | TRemove i \<Rightarrow> Some (remove_task i q)
      | TRepeat r \<Rightarrow> Some (set_repeat_mode r q)
      | TStart \<Rightarrow> Some (tq_start now q)
      | TStop \<Rightarrow> Some (tq_stop_op q)
      | TJoin \<Rightarrow> tq_join q
      | TWake \<Rightarrow> wake now q
      | TReturn \<Rightarrow> task_returned now q)"


section \<open>The heap functions are correct\<close>

lemma length_sift_up [simp]: "length (sift_up v c h) = length c"
  by (induction v c h rule: sift_up.induct) (subst sift_up.simps, simp)

lemma length_adjust_heap [simp]: "length (adjust_heap v c h) = length c"
  by (induction v c h rule: adjust_heap.induct) (subst adjust_heap.simps, simp)

definition is_heap :: "task list \<Rightarrow> bool" where
  "is_heap c \<longleftrightarrow> (\<forall>i<length c. 0 < i \<longrightarrow> tk_time (c ! parent i) \<le> tk_time (c ! i))"

text \<open>
  A heap but for the element at \<open>h\<close>, which may be smaller than its parent; and one but for a hole
  at \<open>h\<close>, whose content does not count.
\<close>

definition heap_up :: "task list \<Rightarrow> nat \<Rightarrow> bool" where
  "heap_up c h \<longleftrightarrow> (\<forall>i<length c. 0 < i \<longrightarrow>
     (i \<noteq> h \<longrightarrow> tk_time (c ! parent i) \<le> tk_time (c ! i)) \<and>
     (parent i = h \<and> 0 < h \<longrightarrow> tk_time (c ! parent h) \<le> tk_time (c ! i)))"

definition heap_hole :: "task list \<Rightarrow> nat \<Rightarrow> bool" where
  "heap_hole c h \<longleftrightarrow> (\<forall>i<length c. 0 < i \<longrightarrow>
     (i \<noteq> h \<and> parent i \<noteq> h \<longrightarrow> tk_time (c ! parent i) \<le> tk_time (c ! i)) \<and>
     (parent i = h \<and> 0 < h \<longrightarrow> tk_time (c ! parent h) \<le> tk_time (c ! i)))"

lemma swap_hole: "h < length c \<Longrightarrow> p < length c \<Longrightarrow> mset (c[h := c ! p, p := v]) = mset (c[h := v])"
  by (cases "h = p") (auto simp: mset_update nth_list_update add_mset_commute)

lemma mset_sift_up: "h < length c \<Longrightarrow> mset (sift_up v c h) = mset (c[h := v])"
proof (induction v c h rule: sift_up.induct)
  case (1 v c h)
  then show ?case using swap_hole [of h c "parent h" v]
    by (subst sift_up.simps) (auto simp: less_imp_diff_less)
qed

lemma heap_up_step:
  assumes "heap_up (c[h := v]) h" "h < length c" "0 < h" "tk_time v < tk_time (c ! parent h)"
  shows "heap_up (c[h := c ! parent h, parent h := v]) (parent h)"
proof -
  define p where "p = parent h"
  define d where "d = c[h := c ! p, p := v]"
  have p: "p < h" using assms(3) by (simp add: p_def)
  have d: "d ! p = v" "d ! h = c ! p" "\<And>j. j \<noteq> h \<Longrightarrow> j \<noteq> p \<Longrightarrow> d ! j = c ! j" "length d = length c"
    using p assms(2) by (simp_all add: d_def)
  have up: "tk_time (c ! parent j) \<le> tk_time (c ! j)" if "j < length c" "0 < j" "j \<noteq> h" "parent j \<noteq> h" for j
    using assms(1) that unfolding heap_up_def by (metis length_list_update nth_list_update_neq)
  have skip: "tk_time (c ! p) \<le> tk_time (c ! j)" if "j < length c" "parent j = h" for j
  proof -
    have "0 < j" "j \<noteq> h" using that assms(3) by auto
    with assms(1) that assms(3) p have "tk_time (c[h := v] ! p) \<le> tk_time (c[h := v] ! j)"
      by (simp add: heap_up_def p_def)
    with p \<open>j \<noteq> h\<close> show ?thesis by simp
  qed
  have v: "tk_time v < tk_time (c ! p)" using assms(4) by (simp add: p_def)
  have "heap_up d p"
    unfolding heap_up_def d(4)
  proof (intro allI impI conjI)
    fix i assume i: "i < length c" "0 < i" "i \<noteq> p"
    consider "i = h" | "i \<noteq> h" "parent i = h" | "i \<noteq> h" "parent i = p" "parent i \<noteq> h" | "i \<noteq> h" "parent i \<noteq> h" "parent i \<noteq> p" by blast
    then show "tk_time (d ! parent i) \<le> tk_time (d ! i)"
    proof cases
      case 1
      then have "parent i = p" "d ! i = c ! p" by (simp_all add: p_def d(2) [unfolded p_def])
      with d(1) v show ?thesis by simp
    next
      case 2 with d(2,3) i skip [of i] show ?thesis by simp
    next
      case 3 with d i up [of i] v show ?thesis by simp
    next
      case 4 with d(3) i up [of i] show ?thesis by simp
    qed
  next
    fix i assume i: "i < length c" "0 < i" "parent i = p \<and> 0 < p"
    have "0 < p" using i(3) by blast
    then have "parent p < p" by simp
    then have pp: "d ! parent p = c ! parent p" using p d(3) [of "parent p"] by simp
    have above: "tk_time (c ! parent p) \<le> tk_time (c ! p)" using up [of p] i p assms(2) \<open>parent p < p\<close> by simp
    show "tk_time (d ! parent p) \<le> tk_time (d ! i)"
    proof (cases "i = h")
      case True with pp d(2) above show ?thesis by simp
    next
      case False
      have "i \<noteq> p" using i by auto
      then have "d ! i = c ! i" using False d(3) by simp
      moreover have "tk_time (c ! p) \<le> tk_time (c ! i)" using up [of i] i False p by simp
      ultimately show ?thesis using pp above by simp
    qed
  qed
  then show ?thesis by (simp add: d_def p_def)
qed

lemma sift_up_heap: "h < length c \<Longrightarrow> heap_up (c[h := v]) h \<Longrightarrow> is_heap (sift_up v c h)"
proof (induction v c h rule: sift_up.induct)
  case (1 v c h)
  show ?case
  proof (cases "0 < h \<and> tk_time v < tk_time (c ! parent h)")
    case True
    with 1 have "is_heap (sift_up v (c[h := c ! parent h]) (parent h))"
      by (intro 1(1) heap_up_step) auto
    with True show ?thesis by (simp add: sift_up.simps [of v c h])
  next
    case False
    with 1 have "is_heap (c[h := v])"
      by (auto simp: heap_up_def is_heap_def nth_list_update)
    moreover have "sift_up v c h = c[h := v]" using False by (subst sift_up.simps) auto
    ultimately show ?thesis by simp
  qed
qed

lemma push_heap_correct:
  assumes "is_heap c"
  shows "is_heap (queue_push t c)" and "mset (queue_push t c) = add_mset t (mset c)"
proof -
  have "heap_up (c @ [t]) (length c)"
    using assms by (auto simp: heap_up_def is_heap_def nth_append)
  then show "is_heap (queue_push t c)"
    using sift_up_heap [of "length c" "c @ [t]" t] by (simp add: queue_push_def push_heap_def)
  show "mset (queue_push t c) = add_mset t (mset c)"
    using mset_sift_up [of "length c" "c @ [t]" t] by (simp add: queue_push_def push_heap_def)
qed


lemma hole_filled:
  assumes "heap_hole c h" "h < length c" "length c \<le> 2 * h + 1"
  shows "heap_up (c[h := v]) h"
proof -
  have n: "parent i \<noteq> h" if "0 < i" "i < length c" for i using that assms(3) by auto
  then show ?thesis using assms(1) unfolding heap_hole_def heap_up_def
    by (metis length_list_update nth_list_update_neq)
qed

text \<open>Moving the smallest child of the hole up.\<close>

lemma hole_moves:
  assumes hole: "heap_hole c h" and "h < length c" "k < length c" "0 < k" "parent k = h"
    and least: "\<And>i. i < length c \<Longrightarrow> 0 < i \<Longrightarrow> parent i = h \<Longrightarrow> tk_time (c ! k) \<le> tk_time (c ! i)"
  shows "heap_hole (c[h := c ! k]) k"
proof -
  define d where "d = c[h := c ! k]"
  have d: "d ! h = c ! k" "\<And>j. j \<noteq> h \<Longrightarrow> d ! j = c ! j" "length d = length c" "h < k"
    using assms(2,4,5) by (auto simp: d_def)
  have up: "tk_time (c ! parent j) \<le> tk_time (c ! j)" if "j < length c" "0 < j" "j \<noteq> h" "parent j \<noteq> h" for j
    using hole that by (simp add: heap_hole_def)
  have skip: "tk_time (c ! parent h) \<le> tk_time (c ! k)" if "0 < h"
    using hole assms(3-5) that unfolding heap_hole_def by blast
  have "heap_hole d k"
    unfolding heap_hole_def d(3)
  proof (intro allI impI conjI)
    fix i assume i: "i < length c" "0 < i" "i \<noteq> k \<and> parent i \<noteq> k"
    consider "i = h" | "i \<noteq> h" "parent i = h" | "i \<noteq> h" "parent i \<noteq> h" by blast
    then show "tk_time (d ! parent i) \<le> tk_time (d ! i)"
    proof cases
      case 1
      then have "parent i \<noteq> h" using i by auto
      with 1 d(1,2) skip i show ?thesis by simp
    next
      case 2 with d(1,2) least [of i] i show ?thesis by simp
    next
      case 3 with d(2) up [of i] i show ?thesis by simp
    qed
  next
    fix i assume i: "i < length c" "0 < i" "parent i = k \<and> 0 < k"
    then have "i \<noteq> h" using d(4) by auto
    with i d up [of i] assms(5) show "tk_time (d ! parent k) \<le> tk_time (d ! i)" by simp
  qed
  then show ?thesis by (simp add: d_def)
qed

lemma child_least:
  assumes "2 * h + 2 < length c"
  shows "child c h < length c" "0 < child c h" "parent (child c h) = h"
    and "0 < i \<Longrightarrow> parent i = h \<Longrightarrow> tk_time (c ! child c h) \<le> tk_time (c ! i)"
proof -
  show "child c h < length c" "0 < child c h" "parent (child c h) = h" using assms by (auto simp: child_def)
  assume "0 < i" "parent i = h"
  then have "i = 2 * h + 1 \<or> i = 2 * h + 2" by auto
  then show "tk_time (c ! child c h) \<le> tk_time (c ! i)" by (auto simp: child_def)
qed

lemma adjust_heap_correct:
  assumes "h < length c" "heap_hole c h"
  shows "is_heap (adjust_heap v c h) \<and> mset (adjust_heap v c h) = mset (c[h := v])"
  using assms
proof (induction v c h rule: adjust_heap.induct)
  case (1 v c h)
  consider "2 * h + 2 < length c" | "2 * h + 2 = length c" | "length c \<le> 2 * h + 1" by linarith
  then show ?case
  proof cases
    case big: 1
    note ch = child_least [OF big]
    have hole: "heap_hole (c[h := c ! child c h]) (child c h)"
      by (rule hole_moves [OF 1(3,2) ch(1-3)]) (use ch(4) in blast)
    have "adjust_heap v c h = adjust_heap v (c[h := c ! child c h]) (child c h)"
      using big by (subst adjust_heap.simps) simp
    with 1(1) [OF big] hole ch(1) swap_hole [OF 1(2) ch(1)] show ?thesis by simp
  next
    case one: 2
    have p: "parent (2 * h + 1) = h" by simp
    have hole: "heap_hole (c[h := c ! (2 * h + 1)]) (2 * h + 1)"
    proof (rule hole_moves [OF 1(3,2) _ _ p])
      fix i assume "i < length c" "0 < i" "parent i = h"
      then have "i = 2 * h + 1" using one by auto
      then show "tk_time (c ! (2 * h + 1)) \<le> tk_time (c ! i)" by simp
    qed (use one in simp_all)
    have "heap_up (c[h := c ! (2 * h + 1), 2 * h + 1 := v]) (2 * h + 1)"
      by (rule hole_filled [OF hole]) (use one in simp_all)
    moreover have "adjust_heap v c h = sift_up v (c[h := c ! (2 * h + 1)]) (2 * h + 1)"
      using one by (subst adjust_heap.simps) simp
    ultimately show ?thesis
      using sift_up_heap [of "2 * h + 1" "c[h := c ! (2 * h + 1)]" v]
        mset_sift_up [of "2 * h + 1" "c[h := c ! (2 * h + 1)]" v] swap_hole [OF 1(2), of "2 * h + 1" v] one
      by simp
  next
    case 3
    then have "adjust_heap v c h = sift_up v c h" by (subst adjust_heap.simps) simp
    with sift_up_heap [OF 1(2) hole_filled [OF 1(3,2) 3]] mset_sift_up [OF 1(2)] show ?thesis by simp
  qed
qed

lemma heap_root: "is_heap c \<Longrightarrow> i < length c \<Longrightarrow> tk_time (hd c) \<le> tk_time (c ! i)"
proof (induction i rule: less_induct)
  case (less i)
  show ?case
  proof (cases "i = 0")
    case True with less.prems show ?thesis by (simp add: hd_conv_nth)
  next
    case False
    then have "parent i < i" "tk_time (c ! parent i) \<le> tk_time (c ! i)"
      using less.prems by (auto simp: is_heap_def)
    with less.IH [of "parent i"] less.prems show ?thesis by simp
  qed
qed

lemma heap_butlast: "is_heap c \<Longrightarrow> is_heap (butlast c)"
  by (auto simp: is_heap_def nth_butlast)

lemma heap_heap_hole: "is_heap c \<Longrightarrow> heap_hole c 0"
  by (auto simp: is_heap_def heap_hole_def)

lemma pop_empty: "length c = 1 \<Longrightarrow> top_and_pop c = (hd c, [])"
  by (cases c) (simp_all add: top_and_pop_def pop_heap_def)

lemma pop_many: "length c > 1 \<Longrightarrow> top_and_pop c = (hd c, adjust_heap (last c) (butlast c) 0)"
  by (simp add: top_and_pop_def pop_heap_def)

lemma top_and_pop_top: "c \<noteq> [] \<Longrightarrow> fst (top_and_pop c) = hd c"
  using pop_empty [of c] pop_many [of c] by (cases "length c = 1") (simp_all add: Suc_lessI)

lemma top_and_pop_correct:
  assumes "is_heap c" "c \<noteq> []"
  shows "is_heap (snd (top_and_pop c))" and "mset c = add_mset (hd c) (mset (snd (top_and_pop c)))"
proof -
  have "is_heap (snd (top_and_pop c)) \<and> mset c = add_mset (hd c) (mset (snd (top_and_pop c)))"
  proof (cases "length c = 1")
    case True
    then show ?thesis by (cases c) (simp_all add: pop_empty is_heap_def)
  next
    case False
    then have len: "length c > 1" using assms(2) by (cases c) auto
    then have c: "c = hd c # tl (butlast c) @ [last c]" "butlast c = hd c # tl (butlast c)"
      by (cases c rule: rev_cases; simp; metis hd_append2 list.collapse length_greater_0_conv)+
    have "is_heap (adjust_heap (last c) (butlast c) 0) \<and>
        mset (adjust_heap (last c) (butlast c) 0) = mset ((butlast c)[0 := last c])"
      by (rule adjust_heap_correct) (use len assms in \<open>simp_all add: heap_heap_hole heap_butlast\<close>)
    moreover have "mset c = add_mset (hd c) (mset ((butlast c)[0 := last c]))"
      by (subst c(1), subst c(2)) simp
    ultimately show ?thesis by (simp add: pop_many [OF len])
  qed
  then show "is_heap (snd (top_and_pop c))" "mset c = add_mset (hd c) (mset (snd (top_and_pop c)))" by simp_all
qed


section \<open>The queue as a priority queue\<close>

text \<open>What the thread relies on: the task popped is one of those with the smallest time, and the
  others stay.\<close>

locale deadline_queue =
  fixes push :: "task \<Rightarrow> 'q \<Rightarrow> 'q"
    and pop :: "'q \<Rightarrow> task \<times> 'q"
    and invar :: "'q \<Rightarrow> bool"
    and tasks :: "'q \<Rightarrow> task multiset"
  assumes push_invar: "invar q \<Longrightarrow> invar (push t q)"
    and push_tasks: "invar q \<Longrightarrow> tasks (push t q) = add_mset t (tasks q)"
    and pop_invar: "invar q \<Longrightarrow> tasks q \<noteq> {#} \<Longrightarrow> invar (snd (pop q))"
    and pop_tasks: "invar q \<Longrightarrow> tasks q \<noteq> {#} \<Longrightarrow> tasks q = add_mset (fst (pop q)) (tasks (snd (pop q)))"
    and pop_least: "invar q \<Longrightarrow> t \<in># tasks q \<Longrightarrow> tk_time (fst (pop q)) \<le> tk_time t"
begin

lemma popped_first:
  assumes "invar q" "tasks q \<noteq> {#}" "pop q = (t, q')"
  shows "invar q'" "tasks q = add_mset t (tasks q')" "u \<in># tasks q' \<Longrightarrow> tk_time t \<le> tk_time u"
  using pop_invar [OF assms(1,2)] pop_tasks [OF assms(1,2)] pop_least [OF assms(1), of u] assms(3) by auto

end

interpretation heap: deadline_queue queue_push top_and_pop is_heap mset
proof unfold_locales
  show "tk_time (fst (top_and_pop c)) \<le> tk_time t" if "is_heap c" "t \<in># mset c" for c t
    using that heap_root [of c] by (cases "c = []") (auto simp: top_and_pop_top in_set_conv_nth)
qed (simp_all add: push_heap_correct top_and_pop_correct top_and_pop_top)

section \<open>Runs\<close>

text \<open>What one run of the loop does when the tasks form a heap.\<close>

definition live :: "task list \<Rightarrow> bool" where
  "live c \<longleftrightarrow> (\<forall>t \<in> set c. tk_id t \<noteq> 0)"

lemma top_and_pop_live: "is_heap c \<Longrightarrow> c \<noteq> [] \<Longrightarrow> live c \<Longrightarrow> tk_id (hd c) \<noteq> 0 \<and> live (snd (top_and_pop c))"
  using heap.pop_tasks [of c] by (auto simp: live_def top_and_pop_top simp flip: set_mset_mset)

lemma queue_push_live: "is_heap c \<Longrightarrow> tk_id t \<noteq> 0 \<Longrightarrow> live c \<Longrightarrow> live (queue_push t c)"
  by (simp add: live_def push_heap_correct flip: set_mset_mset)

lemma run_loop_cases:
  assumes "is_heap (tq_tasks q)" "live (tq_tasks q)"
  obtains w where "run_loop now q = q\<lparr>tq_thread := w\<rparr>" "\<And>t. w \<noteq> Executing t"
  | t c where "tq_tasks q \<noteq> []" "top_and_pop (tq_tasks q) = (t, c)" "tk_time t \<le> now"
    "run_loop now q = q\<lparr>tq_tasks := c, tq_thread := Executing t, tq_log := tq_log q @ [(t, now)]\<rparr>"
proof (cases "tq_stop q \<or> tq_tasks q = [] \<or> tk_time (hd (tq_tasks q)) > now")
  case True
  then have "\<exists>w. run_loop now q = q\<lparr>tq_thread := w\<rparr> \<and> (\<forall>t. w \<noteq> Executing t)"
    by (auto simp: run_loop_def)
  with that(1) show ?thesis by blast
next
  case False
  obtain t c where p: "top_and_pop (tq_tasks q) = (t, c)" by (cases "top_and_pop (tq_tasks q)")
  with False assms have "t = hd (tq_tasks q)" "tk_id t \<noteq> 0"
    using top_and_pop_top [of "tq_tasks q"] top_and_pop_live [of "tq_tasks q"] by auto
  with False p show ?thesis
    by (intro that(2) [of t c]) (simp_all add: run_loop_def)
qed


fun undisturbed :: "int \<times> timer_event \<Rightarrow> bool" where
  "undisturbed (now, TCancel i) = False"
| "undisturbed (now, TRemove i) = False"
| "undisturbed (now, TRepeat r) = (\<not> r)"
| "undisturbed _ = True"

fun added :: "timer_queue \<Rightarrow> int \<times> timer_event \<Rightarrow> task list" where
  "added q (now, TAdd f d) =
     [\<lparr>tk_id = fst (add_task now f d q), tk_delay = d, tk_time = now + d, tk_func = f\<rparr>]"
| "added q _ = []"

definition timer_inv :: "timer_queue \<Rightarrow> bool" where
  "timer_inv q \<longleftrightarrow> is_heap (tq_tasks q) \<and> live (tq_tasks q) \<and> \<not> tq_repeat_mode q
     \<and> (\<forall>t. tq_thread q = Executing t \<longrightarrow> tk_id t \<noteq> 0)"

text \<open>
  The effect of a step: at most one task starts, one whose time has come and which is not behind any
  that stays.
\<close>

definition step_effect :: "int \<Rightarrow> task list \<Rightarrow> timer_queue \<Rightarrow> timer_queue \<Rightarrow> bool" where
  "step_effect now new q q' \<longleftrightarrow>
     (mset (tq_tasks q') = mset new + mset (tq_tasks q) \<and> tq_log q' = tq_log q) \<or>
     (\<exists>t. add_mset t (mset (tq_tasks q')) = mset new + mset (tq_tasks q) \<and> tq_log q' = tq_log q @ [(t, now)]
        \<and> tk_time t \<le> now \<and> (\<forall>u \<in> set (tq_tasks q'). tk_time t \<le> tk_time u))"

lemma run_loop_effect:
  assumes "timer_inv q"
  shows "timer_inv (run_loop now q) \<and> step_effect now [] q (run_loop now q)"
proof (rule run_loop_cases [of q now])
  show "is_heap (tq_tasks q)" "live (tq_tasks q)" using assms by (simp_all add: timer_inv_def)
next
  fix w assume "run_loop now q = q\<lparr>tq_thread := w\<rparr>" "\<And>t. w \<noteq> Executing t"
  with assms show ?thesis by (simp add: timer_inv_def step_effect_def)
next
  fix t c assume a: "tq_tasks q \<noteq> []" "top_and_pop (tq_tasks q) = (t, c)" "tk_time t \<le> now"
    "run_loop now q = q\<lparr>tq_tasks := c, tq_thread := Executing t, tq_log := tq_log q @ [(t, now)]\<rparr>"
  have inv: "is_heap (tq_tasks q)" "live (tq_tasks q)" "\<not> tq_repeat_mode q" using assms by (simp_all add: timer_inv_def)
  note p = heap.popped_first [OF inv(1) _ a(2), simplified, OF a(1)]
  have "tk_id t \<noteq> 0" "live c"
    using top_and_pop_live [OF inv(1) a(1) inv(2)] top_and_pop_top [OF a(1)] a(2) by simp_all
  with a p inv show ?thesis by (simp add: timer_inv_def step_effect_def)
qed

lemma add_task_effect:
  assumes "timer_inv q"
  shows "timer_inv (snd (add_task now f d q)) \<and> step_effect now (added q (now, TAdd f d)) q (snd (add_task now f d q))"
proof -
  define i where "i = fst (add_task now f d q)"
  let ?t = "\<lparr>tk_id = i, tk_delay = d, tk_time = now + d, tk_func = f\<rparr>"
  have i: "i \<noteq> 0" by (simp add: i_def add_task_def Let_def)
  have q': "snd (add_task now f d q) = q\<lparr>tq_task_counter := i, tq_tasks := queue_push ?t (tq_tasks q)\<rparr>"
    by (simp add: add_task_def Let_def i_def)
  from assms i show ?thesis
    by (simp add: q' timer_inv_def step_effect_def push_heap_correct queue_push_live i_def [symmetric])
qed

lemma run_loop_step:
  assumes "timer_inv q" "q' = run_loop now (q\<lparr>tq_stop := b\<rparr>)"
  shows "timer_inv q' \<and> step_effect now [] q q'"
proof -
  have "timer_inv (q\<lparr>tq_stop := b\<rparr>)" using assms(1) by (simp add: timer_inv_def)
  moreover have "step_effect now [] (q\<lparr>tq_stop := b\<rparr>) q' = step_effect now [] q q'" by (simp add: step_effect_def)
  ultimately show ?thesis using run_loop_effect [of "q\<lparr>tq_stop := b\<rparr>" now] assms(2) by simp
qed

lemma timer_step_effect:
  assumes inv: "timer_inv q" and "undisturbed (now, e)" and step: "timer_step (now, e) q = Some q'"
  shows "timer_inv q' \<and> step_effect now (added q (now, e)) q q'"
proof -
  have same: "timer_inv r \<and> step_effect now [] q r"
    if "tq_tasks r = tq_tasks q" "tq_log r = tq_log q" "tq_repeat_mode r = tq_repeat_mode q"
      "tq_thread r = tq_thread q \<or> tq_thread r = Not_started" for r
    using inv that by (auto simp: timer_inv_def step_effect_def)
  show ?thesis
  proof (cases e)
    case (TAdd f d)
    with step add_task_effect [OF inv, of now f d] show ?thesis by (simp split: if_splits)
  next
    case (TRepeat r)
    with assms have "q' = q\<lparr>tq_repeat_mode := False\<rparr>" "\<not> tq_repeat_mode q"
      by (simp_all add: set_repeat_mode_def timer_inv_def split: if_splits)
    with TRepeat same [of q'] show ?thesis by simp
  next
    case TStart
    then consider "q' = q" | "q' = q\<lparr>tq_stop := False, tq_terminated := True\<rparr>" | "q' = run_loop now (q\<lparr>tq_stop := False\<rparr>)"
      using step by (auto simp: tq_start_def Let_def split: if_splits)
    then show ?thesis using TStart same [of q'] run_loop_step [OF inv] by cases simp_all
  next
    case TStop
    with step same [of q'] show ?thesis by (auto simp: tq_stop_op_def split: if_splits)
  next
    case TJoin
    with step same [of q'] show ?thesis by (auto simp: tq_join_def split: if_splits)
  next
    case TWake
    then have "q' = run_loop now q" using step by (auto simp: wake_def split: if_splits worker.splits)
    with TWake run_loop_effect [OF inv, of now] show ?thesis by simp
  next
    case TReturn
    then have "q' = run_loop now q" using step inv
      by (auto simp: task_returned_def timer_inv_def split: if_splits worker.splits)
    with TReturn run_loop_effect [OF inv, of now] show ?thesis by simp
  qed (use assms(2) in simp_all)
qed

interpretation undisturbed: event_invariant "restrict_step undisturbed timer_step" TimerQueue timer_inv
proof unfold_locales
  show "timer_inv TimerQueue" by (simp add: timer_inv_def TimerQueue_def is_heap_def live_def)
  show "timer_inv q'" if "timer_inv q" "restrict_step undisturbed timer_step e q = Some q'" for q e q'
    using that timer_step_effect [of q "fst e" "snd e" q'] by (simp add: restrict_step_def split: if_splits)
qed

text \<open>
  C32. As long as no task is cancelled or removed and repeating is off, whatever the order in which
  threads add tasks, start and stop the queue and the clock advances: the tasks of the queue form a heap, a
  step loses and invents no task, and it starts at most one, namely a task whose time has come and
  than which no other task in the queue has an earlier time.
\<close>
theorem timer_tasks_in_order:
  assumes "run_of timer_step TimerQueue es q" "list_all undisturbed es"
    and "undisturbed (now, e)" "timer_step (now, e) q = Some q'"
  shows "is_heap (tq_tasks q') \<and> step_effect now (added q (now, e)) q q'"
proof -
  have "timer_inv q" using undisturbed.run_inv run_of_restrict [OF assms(1,2)] by blast
  with timer_step_effect [OF this assms(3,4)] show ?thesis by (simp add: timer_inv_def)
qed


definition example_events :: "(int \<times> timer_event) list" where
  "example_events = [(0, TAdd 1 30), (1, TAdd 2 20), (2, TAdd 3 40), (3, TStart)]"

theorem timer_tasks_in_order_witness:
  "\<exists>q q' t. run_of timer_step TimerQueue example_events q \<and> timer_step (25, TWake) q = Some q' \<and>
     is_heap (tq_tasks q') \<and> step_effect 25 [] q q' \<and> tq_log q' = [(t, 25)] \<and> tk_func t = 2"
proof -
  let ?t = "\<lambda>i d m f. \<lparr>tk_id = i, tk_delay = d, tk_time = m, tk_func = f\<rparr>"
  let ?q = "\<lparr>tq_tasks = [?t 2 20 21 2, ?t 1 30 30 1, ?t 3 40 42 3], tq_thread = Waiting_until 21, tq_stop = False,
     tq_repeat_mode = False, tq_task_counter = 3, tq_log = [], tq_terminated = False\<rparr>"
  have run: "run_of timer_step TimerQueue example_events ?q"
    by (rule exec_of_init) (simp add: example_events_def TimerQueue_def add_task_def Let_def queue_push_def
        push_heap_def sift_up.simps tq_start_def run_loop_def)
  let ?q' = "?q\<lparr>tq_tasks := [?t 1 30 30 1, ?t 3 40 42 3], tq_thread := Executing (?t 2 20 21 2), tq_log := [(?t 2 20 21 2, 25)]\<rparr>"
  have step: "timer_step (25, TWake) ?q = Some ?q'"
    by (simp add: wake_def run_loop_def top_and_pop_def pop_heap_def adjust_heap.simps sift_up.simps)
  have "is_heap (tq_tasks ?q') \<and> step_effect 25 (added ?q (25, TWake)) ?q ?q'"
    by (rule timer_tasks_in_order [OF run _ _ step]) (simp_all add: example_events_def)
  with run step show ?thesis
    by (intro exI [of _ ?q] exI [of _ ?q'] exI [of _ "?t 2 20 21 2"]) simp
qed

text \<open>
  A thread that waits for the time of a task is not told of a task with an earlier time: until
  then, or a stop, no task is started, whatever is added meanwhile.
\<close>
theorem timer_late_wakeup:
  assumes "tq_thread q = Waiting_until t" "\<not> tq_stop q" "list_all (\<lambda>(now, e). now < t \<and> e \<noteq> TStop) es"
    and "exec_of timer_step es q = Some q'"
  shows "tq_thread q' = Waiting_until t \<and> tq_log q' = tq_log q"
  using assms
proof (induction es arbitrary: q)
  case (Cons x es)
  obtain now e where x: "x = (now, e)" by (cases x)
  with Cons.prems obtain q1 where s: "timer_step (now, e) q = Some q1" "exec_of timer_step es q1 = Some q'"
    by (auto simp del: timer_step.simps simp: Option.bind_eq_Some_conv)
  from s(1) x Cons.prems have "tq_thread q1 = Waiting_until t \<and> \<not> tq_stop q1 \<and> tq_log q1 = tq_log q"
    by (cases e) (auto simp: add_task_def Let_def cancel_task_def remove_task_def set_repeat_mode_def tq_start_def
        tq_join_def wake_def task_returned_def split: if_splits option.splits)
  with Cons.IH [of q1] Cons.prems s(2) show ?case by simp
qed simp

theorem timer_late_wakeup_witness:
  "\<exists>q q'. run_of timer_step TimerQueue [(0, TAdd 1 3600000), (1, TStart)] q \<and>
     exec_of timer_step [(2, TAdd 2 0), (3599999, TRepeat False)] q = Some q' \<and>
     tq_log q' = [] \<and> tk_time (hd (tq_tasks q')) = 2"
proof -
  let ?t = "\<lambda>i d m f. \<lparr>tk_id = i, tk_delay = d, tk_time = m, tk_func = f\<rparr>"
  let ?q = "\<lparr>tq_tasks = [?t 1 3600000 3600000 1], tq_thread = Waiting_until 3600000, tq_stop = False,
     tq_repeat_mode = False, tq_task_counter = 1, tq_log = [], tq_terminated = False\<rparr>"
  let ?q' = "?q\<lparr>tq_tasks := [?t 2 0 2 2, ?t 1 3600000 3600000 1], tq_task_counter := 2\<rparr>"
  have run: "run_of timer_step TimerQueue [(0, TAdd 1 3600000), (1, TStart)] ?q"
    by (rule exec_of_init) (simp add: TimerQueue_def add_task_def Let_def queue_push_def push_heap_def sift_up.simps
        tq_start_def run_loop_def)
  have exec: "exec_of timer_step [(2, TAdd 2 0), (3599999, TRepeat False)] ?q = Some ?q'"
    by (simp add: add_task_def Let_def queue_push_def push_heap_def sift_up.simps set_repeat_mode_def)
  have "tq_thread ?q' = Waiting_until 3600000 \<and> tq_log ?q' = tq_log ?q"
    by (rule timer_late_wakeup [OF _ _ _ exec]) simp_all
  with run exec show ?thesis by (intro exI [of _ ?q] exI [of _ ?q']) simp
qed

text \<open>
  Removing or cancelling a task breaks the heap, so that tasks start in the wrong order: with
  tasks due at 10, 30 and 20, after the first is removed the thread waits until 30 and then starts
  the task of 30 before that of 20; with tasks due at 20, 25 and 30, after the second is cancelled at
  5 a task added at 6 without delay stays behind the task of 20, which is started at 20 in its place.
\<close>
theorem timer_removal_breaks_order:
  "(\<exists>q t u. exec_of timer_step [(0, TAdd 1 10), (0, TAdd 2 30), (0, TAdd 3 20), (0, TRemove 1), (0, TStart), (30, TWake)]
       TimerQueue = Some q \<and> tq_log q = [(t, 30)] \<and> tk_time t = 30 \<and> tq_tasks q = [u] \<and> tk_time u = 20) \<and>
   (\<exists>q t u. exec_of timer_step [(0, TAdd 1 20), (0, TAdd 2 25), (0, TAdd 3 30), (5, TCancel 2), (6, TAdd 4 0), (20, TStart)]
       TimerQueue = Some q \<and> tq_log q = [(t, 20)] \<and> tk_time t = 20 \<and> u \<in> set (tq_tasks q) \<and> tk_func u = 4 \<and> tk_time u = 6)"
proof (intro conjI)
  let ?t = "\<lambda>i d m f. \<lparr>tk_id = i, tk_delay = d, tk_time = m, tk_func = f\<rparr>"
  let ?q = "\<lparr>tq_tasks = [?t 3 20 20 3], tq_thread = Executing (?t 2 30 30 2), tq_stop = False,
     tq_repeat_mode = False, tq_task_counter = 3, tq_log = [(?t 2 30 30 2, 30)], tq_terminated = False\<rparr>"
  have "exec_of timer_step [(0, TAdd 1 10), (0, TAdd 2 30), (0, TAdd 3 20), (0, TRemove 1), (0, TStart), (30, TWake)]
       TimerQueue = Some ?q"
    by (simp add: TimerQueue_def add_task_def Let_def queue_push_def push_heap_def sift_up.simps remove_task_def
        tq_start_def run_loop_def wake_def top_and_pop_def pop_heap_def adjust_heap.simps)
  then show "\<exists>q t u. exec_of timer_step [(0, TAdd 1 10), (0, TAdd 2 30), (0, TAdd 3 20), (0, TRemove 1), (0, TStart), (30, TWake)]
       TimerQueue = Some q \<and> tq_log q = [(t, 30)] \<and> tk_time t = 30 \<and> tq_tasks q = [u] \<and> tk_time u = 20"
    by (intro exI [of _ ?q]) simp
next
  let ?t = "\<lambda>i d m f. \<lparr>tk_id = i, tk_delay = d, tk_time = m, tk_func = f\<rparr>"
  let ?q = "\<lparr>tq_tasks = [?t 0 25 5 2, ?t 4 0 6 4, ?t 3 30 30 3], tq_thread = Executing (?t 1 20 20 1), tq_stop = False,
     tq_repeat_mode = False, tq_task_counter = 4, tq_log = [(?t 1 20 20 1, 20)], tq_terminated = False\<rparr>"
  have "exec_of timer_step [(0, TAdd 1 20), (0, TAdd 2 25), (0, TAdd 3 30), (5, TCancel 2), (6, TAdd 4 0), (20, TStart)]
       TimerQueue = Some ?q"
    by (simp add: TimerQueue_def add_task_def Let_def queue_push_def push_heap_def sift_up.simps cancel_task_def
        tq_start_def run_loop_def top_and_pop_def pop_heap_def adjust_heap.simps child_def)
  then show "\<exists>q t u. exec_of timer_step [(0, TAdd 1 20), (0, TAdd 2 25), (0, TAdd 3 30), (5, TCancel 2), (6, TAdd 4 0), (20, TStart)]
       TimerQueue = Some q \<and> tq_log q = [(t, 20)] \<and> tk_time t = 20 \<and> u \<in> set (tq_tasks q) \<and> tk_func u = 4 \<and> tk_time u = 6"
    by (intro exI [of _ ?q] exI [of _ "?t 1 20 20 1"] exI [of _ "?t 4 0 6 4"]) simp
qed

end
