(* ===== verification/Entity_Codec.thy ===== *)
theory Entity_Codec
  imports Json_Util
begin

text \<open>
  How the library's structures are written to and read from JSON. A \<open>to_json\<close> function of the source
  is a sequence of \<^verbatim>\<open>serialize\<close> calls on a value that starts as null: the list of members in the
  order of the calls, where an empty optional writes nothing (\<open>write_members\<close>). A structure none of
  whose members is written therefore stays null. A \<open>from_json\<close> function is a sequence of
  \<^verbatim>\<open>deserialize\<close> calls that start from the members' initial values. Enumerations are represented by
  the number of their underlying type, since any number of that type can be read into one.

  The locale \<open>entity_codec\<close> is what the two functions of a structure promise to the structures that
  contain it; \<open>entity_object\<close> adds that a value is never written as null.
\<close>

section \<open>Writing\<close>

definition write_members :: "(string \<times> json option) list \<Rightarrow> json" where
  "write_members ws = (let m = fold (\<lambda>(k, v). put_optional k v) ws [] in if m = [] then JNull else JObj m)"

type_synonym i32 = "32 word"

definition jsint :: "i32 \<Rightarrow> json" where
  "jsint w = JInt (sint w)"

definition jmap :: "(string \<times> string) list \<Rightarrow> json" where
  "jmap m = JObj (map (\<lambda>(k, v). (k, JStr v)) m)"

definition jpair :: "u64 \<times> u64 \<Rightarrow> json" where
  "jpair p = JArr [juint (fst p), juint (snd p)]"

definition permissions_to_json :: "u64 \<Rightarrow> json" where
  "permissions_to_json p = JStr (to_string p)"

section \<open>Reading\<close>

definition get_snowflake :: "json \<Rightarrow> snowflake option" where
  "get_snowflake v = snowflake_from_json v 0"

definition get_enum :: "json \<Rightarrow> 'a::len word option" where
  "get_enum v = (if is_number v then get_word v else None)"

definition to_uint :: "json \<Rightarrow> 'a::len word \<Rightarrow> 'a word option" where
  "to_uint v old = (case v of
     JStr s \<Rightarrow> Some (case stoull s of Some n \<Rightarrow> ucast n | None \<Rightarrow> old)
   | _ \<Rightarrow> get_word v)"

text \<open>\<^verbatim>\<open>std::stoi\<close>; a value that is no \<^verbatim>\<open>int\<close> is an exception.\<close>

definition stoi :: "string \<Rightarrow> i32 option" where
  "stoi s = (let (neg, ds) = split_sign (dropWhile is_space s); ds = takeWhile is_digit ds;
       n = (if neg then - int (decimal_value ds) else int (decimal_value ds))
     in if ds = [] \<or> n < - (2 ^ 31) \<or> n \<ge> 2 ^ 31 then None else Some (of_int n))"

definition to_sint :: "json \<Rightarrow> i32 \<Rightarrow> i32 option" where
  "to_sint v old = (case v of
     JStr s \<Rightarrow> Some (case stoi s of Some n \<Rightarrow> n | None \<Rightarrow> old)
   | _ \<Rightarrow> get_word v)"

definition to_opt_sint :: "json \<Rightarrow> i32 option \<Rightarrow> i32 option option" where
  "to_opt_sint v old = (if is_string v then Some old else map_option Some (get_word v))"

definition permissions_from_json :: "json \<Rightarrow> u64 option" where
  "permissions_from_json v = (if is_null v then Some 0 else to_u64 v 0)"

definition get_map :: "json \<Rightarrow> (string \<times> string) list option" where
  "get_map v = (case v of
     JObj kvs \<Rightarrow> sequence_options (map (\<lambda>(k, x). map_option (Pair k) (get_string x)) kvs)
   | _ \<Rightarrow> None)"

definition get_pair :: "json \<Rightarrow> (u64 \<times> u64) option" where
  "get_pair v = (case v of
     JArr (x # y # _) \<Rightarrow> Option.bind (get_u64 x) (\<lambda>a. map_option (Pair a) (get_u64 y))
   | _ \<Rightarrow> None)"

section \<open>What is read of what was written\<close>

definition read_value :: "(json \<Rightarrow> 'a \<Rightarrow> 'a option) \<Rightarrow> json option option \<Rightarrow> 'a \<Rightarrow> 'a option" where
  "read_value conv w old = (case w of
     Some (Some v) \<Rightarrow> if is_null v then Some old else conv v old
   | _ \<Rightarrow> Some old)"

text \<open>A member may be written twice, with the same value.\<close>

definition one_value :: "('k \<times> 'v) list \<Rightarrow> bool" where
  "one_value ws \<longleftrightarrow> (\<forall>k v v'. (k, v) \<in> set ws \<longrightarrow> (k, v') \<in> set ws \<longrightarrow> v' = v)"

lemma one_value_distinct: "distinct (map fst ws) \<Longrightarrow> one_value ws"
  by (auto simp: one_value_def dest: eq_key_imp_eq_value)

lemma one_value_remdups: "distinct (map fst (remdups ws)) \<Longrightarrow> one_value ws"
  using one_value_distinct [of "remdups ws"] by (simp add: one_value_def)

lemma map_of_write:
  "one_value ws \<Longrightarrow>
   map_of (fold (\<lambda>(k, v). put_optional k v) ws m) k =
     (case map_of ws k of Some (Some v) \<Rightarrow> Some v | _ \<Rightarrow> map_of m k)"
proof (induction ws arbitrary: m)
  case (Cons w ws)
  obtain k' v where w: "w = (k', v)" by (cases w)
  have "one_value ws" using Cons.prems by (simp add: one_value_def)
  moreover have "map_of ws k' = None \<or> map_of ws k' = Some v"
    using Cons.prems w by (cases "map_of ws k'") (auto simp: one_value_def dest: map_of_SomeD)
  ultimately show ?case using Cons.IH w by (auto split: option.splits)
qed simp

lemma read_members:
  assumes "one_value ws"
  shows "deserialize conv (write_members ws) k old = read_value conv (map_of ws k) old"
  using map_of_write [OF assms, of "[]" k]
  by (auto simp: deserialize_def write_members_def read_value_def Let_def split: option.splits)

text \<open>The same for a value that starts as an empty object, and for a member that is accessed directly.\<close>

definition write_object :: "(string \<times> json option) list \<Rightarrow> json" where
  "write_object ws = JObj (fold (\<lambda>(k, v). put_optional k v) ws [])"

lemma read_object: "deserialize conv (write_object ws) k old = deserialize conv (write_members ws) k old"
  by (auto simp: write_object_def write_members_def deserialize_def Let_def)

lemma json_at_written:
  assumes "one_value ws"
  shows "json_at (write_members ws) k = (case map_of ws k of Some v \<Rightarrow> v | None \<Rightarrow> None)"
  using map_of_write [OF assms, of "[]" k]
  by (auto simp: write_members_def Let_def split: option.splits)

lemmas read_member = read_members [OF one_value_distinct]
lemmas read_member_twice = read_members [OF one_value_remdups]

lemma map_of_one_value: "one_value ws \<Longrightarrow> (k, v) \<in> set ws \<Longrightarrow> map_of ws k = Some v"
  by (induction ws) (auto simp: one_value_def)

lemma write_members_object:
  assumes "one_value ws" "list_ex (\<lambda>(k, v). v \<noteq> None) ws"
  shows "\<not> is_null (write_members ws)"
proof -
  obtain k v where "(k, Some v) \<in> set ws" using assms(2) by (auto simp: list_ex_iff)
  with assms(1) have "map_of (fold (\<lambda>(k, v). put_optional k v) ws []) k = Some v"
    using map_of_write [OF assms(1), of "[]" k] by (simp add: map_of_one_value)
  then have "fold (\<lambda>(k, v). put_optional k v) ws [] \<noteq> []" by auto
  then show ?thesis by (simp add: write_members_def Let_def)
qed

lemma read_value_simps [simp]:
  "read_value conv None old = Some old"
  "read_value conv (Some None) old = Some old"
  "\<not> is_null v \<Longrightarrow> read_value conv (Some (Some v)) old = conv v old"
  by (simp_all add: read_value_def)

lemma read_optional:
  assumes "pred_option (\<lambda>x. \<not> is_null (enc x) \<and> conv (enc x) None = Some (Some x)) v"
  shows "read_value conv (Some (map_option enc v)) None = Some v"
  using assms by (cases v) simp_all

declare option.pred_True [simp] list.pred_True [simp]

lemma is_null_simps [simp]:
  "\<not> is_null (juint w)" "\<not> is_null (jsint i)" "\<not> is_null (jmap m)" "\<not> is_null (jpair p)"
  "\<not> is_null (permissions_to_json q)" "\<not> is_null (snowflake_to_json s)"
  by (simp_all add: jsint_def jmap_def jpair_def permissions_to_json_def)

lemma get_written [simp]:
  "get_snowflake (snowflake_to_json s) = Some s"
  "get_enum (juint w) = Some w"
  "to_uint (juint w) old = Some w"
  "to_sint (jsint i) old' = Some i"
  "get_pair (jpair p) = Some p"
  using to_simps(4) [of s 0]
  by (simp_all add: get_snowflake_def to_snowflake_def get_enum_def to_uint_def juint_def to_sint_def jsint_def
      get_word_def get_pair_def jpair_def get_u64_def)

lemma get_map_written [simp]: "get_map (jmap m) = Some m"
  by (simp add: get_map_def jmap_def split_def o_def)

lemma get_permissions [simp]: "permissions_from_json (permissions_to_json q) = Some q"
  using snowflake_json_roundtrip [of q 0]
  by (simp add: permissions_from_json_def permissions_to_json_def to_u64_def snowflake_to_json_def
      snowflake_from_json_def split: if_splits option.splits)

text \<open>Optional integers and booleans, which have conversions of their own.\<close>

lemma read_opt_simps [simp]:
  "read_value to_opt_uint (Some (map_option juint w)) None = Some w"
  "read_value to_opt_u64 (Some (map_option juint u)) None = Some u"
  "read_value to_opt_sint (Some (map_option jsint i)) None = Some i"
  "read_value to_opt_bool (Some (map_option JBool b)) None = Some b"
  by (rule read_optional; auto simp: pred_option_def to_opt_uint_def to_opt_u64_def to_opt_sint_def get_u64_def
      juint_def get_word_def jsint_def)+

section \<open>Interface\<close>

locale entity_codec =
  fixes to_j :: "'a \<Rightarrow> json" and from_j :: "json \<Rightarrow> 'a option" and ok :: "'a \<Rightarrow> bool"
  assumes roundtrip: "ok x \<Longrightarrow> from_j (to_j x) = Some x"
begin

lemma vector: "list_all ok xs \<Longrightarrow> get_vector from_j (JArr (map to_j xs)) = Some xs"
  by (induction xs) (simp_all add: get_vector_def roundtrip)

lemma read_vector [simp]:
  "list_all ok xs \<Longrightarrow> to_vector from_j (JArr (map to_j xs)) old = Some xs"
  by (simp add: to_vector_def vector)

lemma read_opt_vector [simp]:
  "pred_option (list_all ok) v \<Longrightarrow>
   read_value (to_opt (get_vector from_j)) (Some (map_option (\<lambda>xs. JArr (map to_j xs)) v)) None = Some v"
  by (rule read_optional) (auto simp: pred_option_def to_opt_def vector)

lemma read_nullable [simp]:
  "pred_option (\<lambda>x. ok x \<and> \<not> is_null (to_j x)) v \<Longrightarrow>
   read_value (to_opt from_j) (Some (map_option to_j v)) None = Some v"
  by (rule read_optional) (auto simp: pred_option_def to_opt_def roundtrip)

text \<open>A member of this type that is written as null has its initial value.\<close>

lemma read_inner:
  assumes "ok x" "from_j JNull = Some old"
  shows "read_value (to_value from_j) (Some (Some (to_j x))) old = Some x"
proof (cases "is_null (to_j x)")
  case True
  then have "to_j x = JNull" by (cases "to_j x") simp_all
  with roundtrip [OF assms(1)] assms(2) show ?thesis by (simp add: read_value_def)
qed (simp add: read_value_def to_value_def roundtrip assms(1))

end

locale entity_object = entity_codec +
  assumes object: "\<not> is_null (to_j x)"
begin

declare object [simp]

lemma read_opt [simp]:
  "pred_option ok v \<Longrightarrow> read_value (to_opt from_j) (Some (map_option to_j v)) None = Some v"
  by (rule read_optional) (auto simp: pred_option_def to_opt_def roundtrip)

lemma read_opt_again [simp]:
  "pred_option ok v \<Longrightarrow> read_value (to_opt from_j) (Some (map_option to_j v)) v = Some v"
  by (cases v) (simp_all add: to_opt_def roundtrip)

lemma read_value_member [simp]: "ok x \<Longrightarrow> to_value from_j (to_j x) old = Some x"
  by (simp add: to_value_def roundtrip)

end

interpretation str: entity_object JStr get_string "\<lambda>_. True"
  by unfold_locales simp_all

interpretation snowflake: entity_object snowflake_to_json get_snowflake "\<lambda>_. True"
  by unfold_locales simp_all

interpretation enum: entity_object juint get_enum "\<lambda>_. True"
  by unfold_locales simp_all

interpretation permissions: entity_object permissions_to_json permissions_from_json "\<lambda>_. True"
  by unfold_locales simp_all

interpretation localizations: entity_object jmap get_map "\<lambda>_. True"
  by unfold_locales simp_all

interpretation u64_pair: entity_object jpair get_pair "\<lambda>_. True"
  by unfold_locales simp_all

interpretation boolean: entity_object JBool get_bool "\<lambda>_. True"
  by unfold_locales simp_all

interpretation partial_emoji: entity_object "\<lambda>p. JObj (emoji_into p [])" emoji_from_json "\<lambda>_. True"
  by unfold_locales (simp_all add: emoji_roundtrip)

end
