(* ===== verification/Entity_User.thy ===== *)
theory Entity_User
  imports Entity_Codec
begin

text \<open>
  Users, roles, emojis and members: \<^verbatim>\<open>src/user.cpp\<close>, \<^verbatim>\<open>current_user.cpp\<close>, \<^verbatim>\<open>role.cpp\<close>,
  \<^verbatim>\<open>emoji.cpp\<close>, \<^verbatim>\<open>guild_member.cpp\<close>, \<^verbatim>\<open>partial_member.cpp\<close>, \<^verbatim>\<open>mention.cpp\<close>, \<^verbatim>\<open>ban.cpp\<close> and
  \<^verbatim>\<open>partial_application.cpp\<close>. Of each structure: its record with the initial values, what is
  written and what is read. The condition \<open>ok\<close> of a structure, where it has one, says that the members
  which one of the two functions leaves out have their initial values.
\<close>

record user =
  us_id :: snowflake
  us_username :: string
  us_discriminator :: string
  us_global_name :: "string option"
  us_avatar :: "string option"
  us_bot :: bool
  us_system :: bool
  us_mfa_enabled :: bool
  us_banner :: "string option"
  us_accent_color :: "u16 option"
  us_locale :: string
  us_verified :: bool
  us_email :: "string option"
  us_flags :: u32
  us_premium_type :: u8
  us_public_flags :: u32
  us_avatar_decoration :: "string option"

definition user_init :: user where
  "user_init = \<lparr>us_id = 0, us_username = [], us_discriminator = [], us_global_name = None, us_avatar = None,
     us_bot = False, us_system = False, us_mfa_enabled = False, us_banner = None, us_accent_color = None,
     us_locale = [], us_verified = False, us_email = None, us_flags = 0, us_premium_type = 0,
     us_public_flags = 0, us_avatar_decoration = None\<rparr>"

definition user_members :: "user \<Rightarrow> (string \<times> json option) list" where
  "user_members x = [
     (''id'', Some (snowflake_to_json (us_id x))), (''username'', Some (JStr (us_username x))),
     (''discriminator'', Some (JStr (us_discriminator x))), (''avatar'', map_option JStr (us_avatar x)),
     (''bot'', Some (JBool (us_bot x))), (''system'', Some (JBool (us_system x))),
     (''mfa_enabled'', Some (JBool (us_mfa_enabled x))), (''banner'', map_option JStr (us_banner x)),
     (''accent_color'', map_option juint (us_accent_color x)), (''locale'', Some (JStr (us_locale x))),
     (''verified'', Some (JBool (us_verified x))), (''email'', map_option JStr (us_email x)),
     (''flags'', Some (juint (us_flags x))), (''premium_type'', Some (juint (us_premium_type x))),
     (''public_flags'', Some (juint (us_public_flags x))),
     (''avatar_decoration'', map_option JStr (us_avatar_decoration x))]"

definition user_to_json :: "user \<Rightarrow> json" where
  "user_to_json x = write_members (user_members x)"

definition user_from_json :: "json \<Rightarrow> user option" where
  "user_from_json j = do {
     v0 \<leftarrow> deserialize (to_value get_snowflake) j ''id'' 0;
     v1 \<leftarrow> deserialize to_str j ''username'' [];
     v2 \<leftarrow> deserialize to_str j ''discriminator'' [];
     v3 \<leftarrow> deserialize (to_opt get_string) j ''avatar'' None;
     v4 \<leftarrow> deserialize to_bool j ''bot'' False;
     v5 \<leftarrow> deserialize to_bool j ''system'' False;
     v6 \<leftarrow> deserialize to_bool j ''mfa_enabled'' False;
     v7 \<leftarrow> deserialize (to_opt get_string) j ''banner'' None;
     v8 \<leftarrow> deserialize to_opt_uint j ''accent_color'' None;
     v9 \<leftarrow> deserialize to_str j ''locale'' [];
     v10 \<leftarrow> deserialize to_bool j ''verified'' False;
     v11 \<leftarrow> deserialize (to_opt get_string) j ''email'' None;
     v12 \<leftarrow> deserialize (to_value get_enum) j ''flags'' 0;
     v13 \<leftarrow> deserialize (to_value get_enum) j ''premium_type'' 0;
     v14 \<leftarrow> deserialize (to_value get_enum) j ''public_flags'' 0;
     v15 \<leftarrow> deserialize (to_opt get_string) j ''avatar_decoration'' None;
     Some \<lparr>us_id = v0, us_username = v1, us_discriminator = v2, us_global_name = None, us_avatar = v3, us_bot = v4,
       us_system = v5, us_mfa_enabled = v6, us_banner = v7, us_accent_color = v8, us_locale = v9,
       us_verified = v10, us_email = v11, us_flags = v12, us_premium_type = v13, us_public_flags = v14,
       us_avatar_decoration = v15\<rparr>
   }"

definition user_ok :: "user \<Rightarrow> bool" where
  "user_ok x \<longleftrightarrow> us_global_name x = None"

lemma user_roundtrip: "user_ok x \<Longrightarrow> user_from_json (user_to_json x) = Some x"
proof -
  assume "user_ok x"
  moreover have "distinct (map fst (user_members x))" by (simp add: user_members_def)
  note read = read_member [OF this]
  ultimately show ?thesis unfolding user_from_json_def user_to_json_def read
    by (simp add: user_members_def user_ok_def)
qed

lemma user_object: "\<not> is_null (user_to_json x)"
  unfolding user_to_json_def by (rule write_members_object [OF one_value_distinct]) (simp_all add: user_members_def)

interpretation user: entity_object user_to_json user_from_json user_ok
  by unfold_locales (simp_all add: user_roundtrip user_object)

record current_user =
  cu_id :: snowflake
  cu_username :: string
  cu_discriminator :: string
  cu_avatar :: "string option"
  cu_bot :: bool
  cu_mfa_enabled :: bool
  cu_banner :: "string option"
  cu_accent_color :: "u16 option"
  cu_locale :: string
  cu_verified :: bool
  cu_flags :: u32
  cu_premium_type :: u8
  cu_public_flags :: u32

definition current_user_init :: current_user where
  "current_user_init = \<lparr>cu_id = 0, cu_username = [], cu_discriminator = [], cu_avatar = None, cu_bot = False,
     cu_mfa_enabled = False, cu_banner = None, cu_accent_color = None, cu_locale = [], cu_verified = False,
     cu_flags = 0, cu_premium_type = 0, cu_public_flags = 0\<rparr>"

definition current_user_members :: "current_user \<Rightarrow> (string \<times> json option) list" where
  "current_user_members x = [
     (''id'', Some (snowflake_to_json (cu_id x))), (''username'', Some (JStr (cu_username x))),
     (''discriminator'', Some (JStr (cu_discriminator x))), (''avatar'', map_option JStr (cu_avatar x)),
     (''bot'', Some (JBool (cu_bot x))), (''mfa_enabled'', Some (JBool (cu_mfa_enabled x))),
     (''banner'', map_option JStr (cu_banner x)), (''accent_color'', map_option juint (cu_accent_color x)),
     (''locale'', Some (JStr (cu_locale x))), (''verified'', Some (JBool (cu_verified x))),
     (''flags'', Some (juint (cu_flags x))), (''premium_type'', Some (juint (cu_premium_type x))),
     (''public_flags'', Some (juint (cu_public_flags x)))]"

definition current_user_to_json :: "current_user \<Rightarrow> json" where
  "current_user_to_json x = write_members (current_user_members x)"

definition current_user_from_json :: "json \<Rightarrow> current_user option" where
  "current_user_from_json j = do {
     v0 \<leftarrow> deserialize (to_value get_snowflake) j ''id'' 0;
     v1 \<leftarrow> deserialize to_str j ''username'' [];
     v2 \<leftarrow> deserialize to_str j ''discriminator'' [];
     v3 \<leftarrow> deserialize (to_opt get_string) j ''avatar'' None;
     v4 \<leftarrow> deserialize to_bool j ''bot'' False;
     v5 \<leftarrow> deserialize to_bool j ''mfa_enabled'' False;
     v6 \<leftarrow> deserialize (to_opt get_string) j ''banner'' None;
     v7 \<leftarrow> deserialize to_opt_uint j ''accent_color'' None;
     v8 \<leftarrow> deserialize to_str j ''locale'' [];
     v9 \<leftarrow> deserialize to_bool j ''verified'' False;
     v10 \<leftarrow> deserialize (to_value get_enum) j ''flags'' 0;
     v11 \<leftarrow> deserialize (to_value get_enum) j ''premium_type'' 0;
     v12 \<leftarrow> deserialize (to_value get_enum) j ''public_flags'' 0;
     Some \<lparr>cu_id = v0, cu_username = v1, cu_discriminator = v2, cu_avatar = v3, cu_bot = v4, cu_mfa_enabled = v5,
       cu_banner = v6, cu_accent_color = v7, cu_locale = v8, cu_verified = v9, cu_flags = v10,
       cu_premium_type = v11, cu_public_flags = v12\<rparr>
   }"

lemma current_user_roundtrip: "current_user_from_json (current_user_to_json x) = Some x"
proof -
  have "distinct (map fst (current_user_members x))" by (simp add: current_user_members_def)
  note read = read_member [OF this]
  show ?thesis unfolding current_user_from_json_def current_user_to_json_def read
    by (simp add: current_user_members_def)
qed

lemma current_user_object: "\<not> is_null (current_user_to_json x)"
  unfolding current_user_to_json_def by (rule write_members_object [OF one_value_distinct]) (simp_all add: current_user_members_def)

interpretation current_user: entity_object current_user_to_json current_user_from_json "\<lambda>_. True"
  by unfold_locales (simp_all add: current_user_roundtrip current_user_object)

record role_tags =
  rt_bot_id :: snowflake
  rt_integration_id :: snowflake
  rt_premium_subscriber :: bool
  rt_subscription_listing_id :: snowflake
  rt_available_for_purchase :: bool
  rt_guild_connections :: bool

definition role_tags_init :: role_tags where
  "role_tags_init = \<lparr>rt_bot_id = 0, rt_integration_id = 0, rt_premium_subscriber = False, rt_subscription_listing_id = 0,
     rt_available_for_purchase = False, rt_guild_connections = False\<rparr>"

definition role_tags_members :: "role_tags \<Rightarrow> (string \<times> json option) list" where
  "role_tags_members x = [
     (''bot_id'', Some (snowflake_to_json (rt_bot_id x))),
     (''integration_id'', Some (snowflake_to_json (rt_integration_id x))),
     (''premium_subscriber'', Some (JBool (rt_premium_subscriber x))),
     (''subscription_listing_id'', Some (snowflake_to_json (rt_subscription_listing_id x))),
     (''available_for_purchase'', Some (JBool (rt_available_for_purchase x))),
     (''guild_connections'', Some (JBool (rt_guild_connections x)))]"

definition role_tags_to_json :: "role_tags \<Rightarrow> json" where
  "role_tags_to_json x = write_members (role_tags_members x)"

definition role_tags_from_json :: "json \<Rightarrow> role_tags option" where
  "role_tags_from_json j = do {
     v0 \<leftarrow> deserialize (to_value get_snowflake) j ''bot_id'' 0;
     v1 \<leftarrow> deserialize (to_value get_snowflake) j ''integration_id'' 0;
     v2 \<leftarrow> deserialize to_bool j ''premium_subscriber'' False;
     v3 \<leftarrow> deserialize (to_value get_snowflake) j ''subscription_listing_id'' 0;
     v4 \<leftarrow> deserialize to_bool j ''available_for_purchase'' False;
     v5 \<leftarrow> deserialize to_bool j ''guild_connections'' False;
     Some \<lparr>rt_bot_id = v0, rt_integration_id = v1, rt_premium_subscriber = v2, rt_subscription_listing_id = v3,
       rt_available_for_purchase = v4, rt_guild_connections = v5\<rparr>
   }"

lemma role_tags_roundtrip: "role_tags_from_json (role_tags_to_json x) = Some x"
proof -
  have "distinct (map fst (role_tags_members x))" by (simp add: role_tags_members_def)
  note read = read_member [OF this]
  show ?thesis unfolding role_tags_from_json_def role_tags_to_json_def read
    by (simp add: role_tags_members_def)
qed

lemma role_tags_object: "\<not> is_null (role_tags_to_json x)"
  unfolding role_tags_to_json_def by (rule write_members_object [OF one_value_distinct]) (simp_all add: role_tags_members_def)

interpretation role_tags: entity_object role_tags_to_json role_tags_from_json "\<lambda>_. True"
  by unfold_locales (simp_all add: role_tags_roundtrip role_tags_object)

record role =
  ro_id :: snowflake
  ro_name :: string
  ro_color :: u32
  ro_hoist :: bool
  ro_icon :: "string option"
  ro_unicode_emoji :: "string option"
  ro_position :: u32
  ro_permissions :: u64
  ro_managed :: bool
  ro_mentionable :: bool
  ro_tags :: role_tags
  ro_flags :: u64

definition role_init :: role where
  "role_init = \<lparr>ro_id = 0, ro_name = [], ro_color = 0, ro_hoist = False, ro_icon = None, ro_unicode_emoji = None,
     ro_position = 0, ro_permissions = 0, ro_managed = False, ro_mentionable = False, ro_tags = role_tags_init,
     ro_flags = 0\<rparr>"

definition role_members :: "role \<Rightarrow> (string \<times> json option) list" where
  "role_members x = [
     (''id'', Some (snowflake_to_json (ro_id x))), (''name'', Some (JStr (ro_name x))),
     (''color'', Some (juint (ro_color x))), (''hoist'', Some (JBool (ro_hoist x))),
     (''icon'', map_option JStr (ro_icon x)), (''unicode_emoji'', map_option JStr (ro_unicode_emoji x)),
     (''position'', Some (juint (ro_position x))), (''permissions'', Some (juint (ro_permissions x))),
     (''managed'', Some (JBool (ro_managed x))), (''mentionable'', Some (JBool (ro_mentionable x))),
     (''tags'', Some (role_tags_to_json (ro_tags x))), (''flags'', Some (juint (ro_flags x)))]"

definition role_to_json :: "role \<Rightarrow> json" where
  "role_to_json x = write_members (role_members x)"

definition role_from_json :: "json \<Rightarrow> role option" where
  "role_from_json j = do {
     v0 \<leftarrow> deserialize (to_value get_snowflake) j ''id'' 0;
     v1 \<leftarrow> deserialize to_str j ''name'' [];
     v2 \<leftarrow> deserialize to_uint j ''color'' 0;
     v3 \<leftarrow> deserialize to_bool j ''hoist'' False;
     v4 \<leftarrow> deserialize (to_opt get_string) j ''icon'' None;
     v5 \<leftarrow> deserialize (to_opt get_string) j ''unicode_emoji'' None;
     v6 \<leftarrow> deserialize to_uint j ''position'' 0;
     v7 \<leftarrow> deserialize to_u64 j ''permissions'' 0;
     v8 \<leftarrow> deserialize to_bool j ''managed'' False;
     v9 \<leftarrow> deserialize to_bool j ''mentionable'' False;
     v10 \<leftarrow> deserialize (to_value role_tags_from_json) j ''tags'' role_tags_init;
     v11 \<leftarrow> deserialize to_u64 j ''flags'' 0;
     Some \<lparr>ro_id = v0, ro_name = v1, ro_color = v2, ro_hoist = v3, ro_icon = v4, ro_unicode_emoji = v5,
       ro_position = v6, ro_permissions = v7, ro_managed = v8, ro_mentionable = v9, ro_tags = v10,
       ro_flags = v11\<rparr>
   }"

lemma role_roundtrip: "role_from_json (role_to_json x) = Some x"
proof -
  have "distinct (map fst (role_members x))" by (simp add: role_members_def)
  note read = read_member [OF this]
  show ?thesis unfolding role_from_json_def role_to_json_def read
    by (simp add: role_members_def)
qed

lemma role_object: "\<not> is_null (role_to_json x)"
  unfolding role_to_json_def by (rule write_members_object [OF one_value_distinct]) (simp_all add: role_members_def)

interpretation role: entity_object role_to_json role_from_json "\<lambda>_. True"
  by unfold_locales (simp_all add: role_roundtrip role_object)

record guild_emoji =
  ge_id :: "snowflake option"
  ge_name :: "string option"
  ge_roles :: "snowflake list"
  ge_user_id :: snowflake
  ge_require_colons :: bool
  ge_managed :: bool
  ge_animated :: bool
  ge_available :: bool
  ge_user :: user

definition guild_emoji_init :: guild_emoji where
  "guild_emoji_init = \<lparr>ge_id = None, ge_name = None, ge_roles = [], ge_user_id = 0, ge_require_colons = False, ge_managed = False,
     ge_animated = False, ge_available = False, ge_user = user_init\<rparr>"

definition guild_emoji_members :: "guild_emoji \<Rightarrow> (string \<times> json option) list" where
  "guild_emoji_members x = [
     (''id'', map_option snowflake_to_json (ge_id x)), (''name'', map_option JStr (ge_name x)),
     (''roles'', Some (JArr (map snowflake_to_json (ge_roles x)))),
     (''user_id'', Some (snowflake_to_json (ge_user_id x))),
     (''require_colons'', Some (JBool (ge_require_colons x))), (''managed'', Some (JBool (ge_managed x))),
     (''animated'', Some (JBool (ge_animated x))), (''available'', Some (JBool (ge_available x))),
     (''user'', Some (user_to_json (ge_user x)))]"

definition guild_emoji_to_json :: "guild_emoji \<Rightarrow> json" where
  "guild_emoji_to_json x = write_members (guild_emoji_members x)"

definition guild_emoji_from_json :: "json \<Rightarrow> guild_emoji option" where
  "guild_emoji_from_json j = do {
     v0 \<leftarrow> deserialize (to_opt get_snowflake) j ''id'' None;
     v1 \<leftarrow> deserialize (to_opt get_string) j ''name'' None;
     v2 \<leftarrow> deserialize (to_vector get_snowflake) j ''roles'' [];
     v3 \<leftarrow> deserialize (to_value get_snowflake) j ''user_id'' 0;
     v4 \<leftarrow> deserialize to_bool j ''require_colons'' False;
     v5 \<leftarrow> deserialize to_bool j ''managed'' False;
     v6 \<leftarrow> deserialize to_bool j ''animated'' False;
     v7 \<leftarrow> deserialize to_bool j ''available'' False;
     v8 \<leftarrow> deserialize (to_value user_from_json) j ''user'' user_init;
     Some \<lparr>ge_id = v0, ge_name = v1, ge_roles = v2, ge_user_id = v3, ge_require_colons = v4, ge_managed = v5,
       ge_animated = v6, ge_available = v7, ge_user = v8\<rparr>
   }"

definition guild_emoji_ok :: "guild_emoji \<Rightarrow> bool" where
  "guild_emoji_ok x \<longleftrightarrow> user_ok (ge_user x)"

lemma guild_emoji_roundtrip: "guild_emoji_ok x \<Longrightarrow> guild_emoji_from_json (guild_emoji_to_json x) = Some x"
proof -
  assume "guild_emoji_ok x"
  moreover have "distinct (map fst (guild_emoji_members x))" by (simp add: guild_emoji_members_def)
  note read = read_member [OF this]
  ultimately show ?thesis unfolding guild_emoji_from_json_def guild_emoji_to_json_def read
    by (simp add: guild_emoji_members_def guild_emoji_ok_def)
qed

lemma guild_emoji_object: "\<not> is_null (guild_emoji_to_json x)"
  unfolding guild_emoji_to_json_def by (rule write_members_object [OF one_value_distinct]) (simp_all add: guild_emoji_members_def)

interpretation guild_emoji: entity_object guild_emoji_to_json guild_emoji_from_json guild_emoji_ok
  by unfold_locales (simp_all add: guild_emoji_roundtrip guild_emoji_object)

record guild_member =
  gm_user :: user
  gm_nick :: "string option"
  gm_avatar :: "string option"
  gm_roles :: "snowflake list"
  gm_joined_at :: string
  gm_premium_since :: "string option"
  gm_deaf :: bool
  gm_mute :: bool
  gm_pending :: bool
  gm_permissions :: string
  gm_communication_disabled_until :: string

definition guild_member_init :: guild_member where
  "guild_member_init = \<lparr>gm_user = user_init, gm_nick = None, gm_avatar = None, gm_roles = [], gm_joined_at = [],
     gm_premium_since = None, gm_deaf = False, gm_mute = False, gm_pending = False, gm_permissions = [],
     gm_communication_disabled_until = []\<rparr>"

definition guild_member_members :: "guild_member \<Rightarrow> (string \<times> json option) list" where
  "guild_member_members x = [
     (''user'', Some (user_to_json (gm_user x))), (''nick'', map_option JStr (gm_nick x)),
     (''avatar'', map_option JStr (gm_avatar x)), (''roles'', Some (JArr (map snowflake_to_json (gm_roles x)))),
     (''joined_at'', Some (JStr (gm_joined_at x))), (''premium_since'', map_option JStr (gm_premium_since x)),
     (''communication_disabled_until'', Some (JStr (gm_communication_disabled_until x))),
     (''deaf'', Some (JBool (gm_deaf x))), (''mute'', Some (JBool (gm_mute x))),
     (''pending'', Some (JBool (gm_pending x))), (''permissions'', Some (JStr (gm_permissions x))),
     (''communication_disabled_until'', Some (JStr (gm_communication_disabled_until x)))]"

definition guild_member_to_json :: "guild_member \<Rightarrow> json" where
  "guild_member_to_json x = write_members (guild_member_members x)"

definition guild_member_from_json :: "json \<Rightarrow> guild_member option" where
  "guild_member_from_json j = do {
     v0 \<leftarrow> deserialize (to_value user_from_json) j ''user'' user_init;
     v1 \<leftarrow> deserialize (to_opt get_string) j ''nick'' None;
     v2 \<leftarrow> deserialize (to_opt get_string) j ''avatar'' None;
     v3 \<leftarrow> deserialize (to_vector get_snowflake) j ''roles'' [];
     v4 \<leftarrow> deserialize to_str j ''joined_at'' [];
     v5 \<leftarrow> deserialize (to_opt get_string) j ''premium_since'' None;
     v6 \<leftarrow> deserialize to_str j ''communication_disabled_until'' [];
     v7 \<leftarrow> deserialize to_bool j ''deaf'' False;
     v8 \<leftarrow> deserialize to_bool j ''mute'' False;
     v9 \<leftarrow> deserialize to_bool j ''pending'' False;
     v10 \<leftarrow> deserialize to_str j ''permissions'' [];
     v11 \<leftarrow> deserialize to_str j ''communication_disabled_until'' v6;
     Some \<lparr>gm_user = v0, gm_nick = v1, gm_avatar = v2, gm_roles = v3, gm_joined_at = v4, gm_premium_since = v5,
       gm_deaf = v7, gm_mute = v8, gm_pending = v9, gm_permissions = v10, gm_communication_disabled_until = v11\<rparr>
   }"

definition guild_member_ok :: "guild_member \<Rightarrow> bool" where
  "guild_member_ok x \<longleftrightarrow> user_ok (gm_user x)"

lemma guild_member_roundtrip: "guild_member_ok x \<Longrightarrow> guild_member_from_json (guild_member_to_json x) = Some x"
proof -
  assume "guild_member_ok x"
  moreover have "distinct (map fst (remdups (guild_member_members x)))" by (simp add: guild_member_members_def)
  note read = read_member_twice [OF this]
  ultimately show ?thesis unfolding guild_member_from_json_def guild_member_to_json_def read
    by (simp add: guild_member_members_def guild_member_ok_def)
qed

lemma guild_member_object: "\<not> is_null (guild_member_to_json x)"
  unfolding guild_member_to_json_def by (rule write_members_object [OF one_value_remdups]) (simp_all add: guild_member_members_def)

interpretation guild_member: entity_object guild_member_to_json guild_member_from_json guild_member_ok
  by unfold_locales (simp_all add: guild_member_roundtrip guild_member_object)

record partial_member =
  pm_user :: "user option"
  pm_nick :: "string option"
  pm_avatar :: "string option"
  pm_roles :: "snowflake list option"
  pm_joined_at :: string
  pm_premium_since :: "string option"
  pm_deaf :: bool
  pm_mute :: bool
  pm_pending :: "bool option"
  pm_permissions :: "string option"
  pm_communication_disabled_until :: "string option"

definition partial_member_init :: partial_member where
  "partial_member_init = \<lparr>pm_user = None, pm_nick = None, pm_avatar = None, pm_roles = None, pm_joined_at = [],
     pm_premium_since = None, pm_deaf = False, pm_mute = False, pm_pending = None, pm_permissions = None,
     pm_communication_disabled_until = None\<rparr>"

definition partial_member_members :: "partial_member \<Rightarrow> (string \<times> json option) list" where
  "partial_member_members x = [
     (''user'', map_option user_to_json (pm_user x)), (''nick'', map_option JStr (pm_nick x)),
     (''avatar'', map_option JStr (pm_avatar x)),
     (''roles'', map_option (\<lambda>xs. JArr (map snowflake_to_json xs)) (pm_roles x)),
     (''joined_at'', Some (JStr (pm_joined_at x))), (''premium_since'', map_option JStr (pm_premium_since x)),
     (''communication_disabled_until'', map_option JStr (pm_communication_disabled_until x)),
     (''deaf'', Some (JBool (pm_deaf x))), (''mute'', Some (JBool (pm_mute x))),
     (''pending'', map_option JBool (pm_pending x)), (''permissions'', map_option JStr (pm_permissions x)),
     (''communication_disabled_until'', map_option JStr (pm_communication_disabled_until x))]"

definition partial_member_to_json :: "partial_member \<Rightarrow> json" where
  "partial_member_to_json x = write_members (partial_member_members x)"

definition partial_member_from_json :: "json \<Rightarrow> partial_member option" where
  "partial_member_from_json j = do {
     v0 \<leftarrow> deserialize (to_opt user_from_json) j ''user'' None;
     v1 \<leftarrow> deserialize (to_opt get_string) j ''nick'' None;
     v2 \<leftarrow> deserialize (to_opt get_string) j ''avatar'' None;
     v3 \<leftarrow> deserialize (to_opt (get_vector get_snowflake)) j ''roles'' None;
     v4 \<leftarrow> deserialize to_str j ''joined_at'' [];
     v5 \<leftarrow> deserialize (to_opt get_string) j ''premium_since'' None;
     v6 \<leftarrow> deserialize (to_opt get_string) j ''communication_disabled_until'' None;
     v7 \<leftarrow> deserialize to_bool j ''deaf'' False;
     v8 \<leftarrow> deserialize to_bool j ''mute'' False;
     v9 \<leftarrow> deserialize to_opt_bool j ''pending'' None;
     v10 \<leftarrow> deserialize (to_opt get_string) j ''permissions'' None;
     v11 \<leftarrow> deserialize (to_opt get_string) j ''communication_disabled_until'' v6;
     Some \<lparr>pm_user = v0, pm_nick = v1, pm_avatar = v2, pm_roles = v3, pm_joined_at = v4, pm_premium_since = v5,
       pm_deaf = v7, pm_mute = v8, pm_pending = v9, pm_permissions = v10, pm_communication_disabled_until = v11\<rparr>
   }"

definition partial_member_ok :: "partial_member \<Rightarrow> bool" where
  "partial_member_ok x \<longleftrightarrow> pred_option user_ok (pm_user x)"

lemma partial_member_roundtrip: "partial_member_ok x \<Longrightarrow> partial_member_from_json (partial_member_to_json x) = Some x"
proof -
  assume "partial_member_ok x"
  moreover have "distinct (map fst (remdups (partial_member_members x)))" by (simp add: partial_member_members_def)
  note read = read_member_twice [OF this]
  ultimately show ?thesis unfolding partial_member_from_json_def partial_member_to_json_def read
    by (simp add: partial_member_members_def partial_member_ok_def)
qed

lemma partial_member_object: "\<not> is_null (partial_member_to_json x)"
  unfolding partial_member_to_json_def by (rule write_members_object [OF one_value_remdups]) (simp_all add: partial_member_members_def)

interpretation partial_member: entity_object partial_member_to_json partial_member_from_json partial_member_ok
  by unfold_locales (simp_all add: partial_member_roundtrip partial_member_object)

record mention =
  me_id :: snowflake
  me_username :: string
  me_discriminator :: string
  me_global_name :: "string option"
  me_avatar :: "string option"
  me_bot :: bool
  me_system :: "bool option"
  me_mfa_enabled :: "bool option"
  me_banner :: "string option"
  me_accent_color :: "i32 option"
  me_locale :: "string option"
  me_verified :: "bool option"
  me_email :: "string option"
  me_flags :: "i32 option"
  me_premium_type :: "i32 option"
  me_public_flags :: "i32 option"
  me_avatar_decoration :: "string option"

definition mention_init :: mention where
  "mention_init = \<lparr>me_id = 0, me_username = [], me_discriminator = [], me_global_name = None, me_avatar = None,
     me_bot = False, me_system = None, me_mfa_enabled = None, me_banner = None, me_accent_color = None,
     me_locale = None, me_verified = None, me_email = None, me_flags = None, me_premium_type = None,
     me_public_flags = None, me_avatar_decoration = None\<rparr>"

definition mention_members :: "mention \<Rightarrow> (string \<times> json option) list" where
  "mention_members x = [
     (''id'', Some (snowflake_to_json (me_id x))), (''username'', Some (JStr (me_username x))),
     (''discriminator'', Some (JStr (me_discriminator x))),
     (''global_name'', map_option JStr (me_global_name x)), (''avatar'', map_option JStr (me_avatar x)),
     (''bot'', Some (JBool (me_bot x))), (''system'', map_option JBool (me_system x)),
     (''mfa_enabled'', map_option JBool (me_mfa_enabled x)), (''banner'', map_option JStr (me_banner x)),
     (''accent_color'', map_option jsint (me_accent_color x)), (''locale'', map_option JStr (me_locale x)),
     (''verified'', map_option JBool (me_verified x)), (''email'', map_option JStr (me_email x)),
     (''flags'', map_option jsint (me_flags x)), (''premium_type'', map_option jsint (me_premium_type x)),
     (''public_flags'', map_option jsint (me_public_flags x)),
     (''avatar_decoration'', map_option JStr (me_avatar_decoration x))]"

definition mention_to_json :: "mention \<Rightarrow> json" where
  "mention_to_json x = write_members (mention_members x)"

definition mention_from_json :: "json \<Rightarrow> mention option" where
  "mention_from_json j = do {
     v0 \<leftarrow> deserialize (to_value get_snowflake) j ''id'' 0;
     v1 \<leftarrow> deserialize to_str j ''username'' [];
     v2 \<leftarrow> deserialize to_str j ''discriminator'' [];
     v3 \<leftarrow> deserialize (to_opt get_string) j ''global_name'' None;
     v4 \<leftarrow> deserialize (to_opt get_string) j ''avatar'' None;
     v5 \<leftarrow> deserialize to_bool j ''bot'' False;
     v6 \<leftarrow> deserialize to_opt_bool j ''system'' None;
     v7 \<leftarrow> deserialize to_opt_bool j ''mfa_enabled'' None;
     v8 \<leftarrow> deserialize (to_opt get_string) j ''banner'' None;
     v9 \<leftarrow> deserialize to_opt_sint j ''accent_color'' None;
     v10 \<leftarrow> deserialize (to_opt get_string) j ''locale'' None;
     v11 \<leftarrow> deserialize to_opt_bool j ''verified'' None;
     v12 \<leftarrow> deserialize (to_opt get_string) j ''email'' None;
     v13 \<leftarrow> deserialize to_opt_sint j ''flags'' None;
     v14 \<leftarrow> deserialize to_opt_sint j ''premium_type'' None;
     v15 \<leftarrow> deserialize to_opt_sint j ''public_flags'' None;
     v16 \<leftarrow> deserialize (to_opt get_string) j ''avatar_decoration'' None;
     Some \<lparr>me_id = v0, me_username = v1, me_discriminator = v2, me_global_name = v3, me_avatar = v4, me_bot = v5,
       me_system = v6, me_mfa_enabled = v7, me_banner = v8, me_accent_color = v9, me_locale = v10,
       me_verified = v11, me_email = v12, me_flags = v13, me_premium_type = v14, me_public_flags = v15,
       me_avatar_decoration = v16\<rparr>
   }"

lemma mention_roundtrip: "mention_from_json (mention_to_json x) = Some x"
proof -
  have "distinct (map fst (mention_members x))" by (simp add: mention_members_def)
  note read = read_member [OF this]
  show ?thesis unfolding mention_from_json_def mention_to_json_def read
    by (simp add: mention_members_def)
qed

lemma mention_object: "\<not> is_null (mention_to_json x)"
  unfolding mention_to_json_def by (rule write_members_object [OF one_value_distinct]) (simp_all add: mention_members_def)

interpretation mention: entity_object mention_to_json mention_from_json "\<lambda>_. True"
  by unfold_locales (simp_all add: mention_roundtrip mention_object)

record ban =
  ba_reason :: "string option"
  ba_user :: user

definition ban_init :: ban where
  "ban_init = \<lparr>ba_reason = None, ba_user = user_init\<rparr>"

definition ban_members :: "ban \<Rightarrow> (string \<times> json option) list" where
  "ban_members x = [
     (''reason'', map_option JStr (ba_reason x)), (''user'', Some (user_to_json (ba_user x)))]"

definition ban_to_json :: "ban \<Rightarrow> json" where
  "ban_to_json x = write_members (ban_members x)"

definition ban_from_json :: "json \<Rightarrow> ban option" where
  "ban_from_json j = do {
     v0 \<leftarrow> deserialize (to_opt get_string) j ''reason'' None;
     v1 \<leftarrow> deserialize (to_value user_from_json) j ''user'' user_init;
     Some \<lparr>ba_reason = v0, ba_user = v1\<rparr>
   }"

definition ban_ok :: "ban \<Rightarrow> bool" where
  "ban_ok x \<longleftrightarrow> user_ok (ba_user x)"

lemma ban_roundtrip: "ban_ok x \<Longrightarrow> ban_from_json (ban_to_json x) = Some x"
proof -
  assume "ban_ok x"
  moreover have "distinct (map fst (ban_members x))" by (simp add: ban_members_def)
  note read = read_member [OF this]
  ultimately show ?thesis unfolding ban_from_json_def ban_to_json_def read
    by (simp add: ban_members_def ban_ok_def)
qed

lemma ban_object: "\<not> is_null (ban_to_json x)"
  unfolding ban_to_json_def by (rule write_members_object [OF one_value_distinct]) (simp_all add: ban_members_def)

interpretation ban: entity_object ban_to_json ban_from_json ban_ok
  by unfold_locales (simp_all add: ban_roundtrip ban_object)

record partial_application =
  pa_id :: snowflake
  pa_flags :: u64

definition partial_application_init :: partial_application where
  "partial_application_init = \<lparr>pa_id = 0, pa_flags = 0\<rparr>"

definition partial_application_members :: "partial_application \<Rightarrow> (string \<times> json option) list" where
  "partial_application_members x = [
     (''id'', Some (snowflake_to_json (pa_id x))), (''flags'', Some (juint (pa_flags x)))]"

definition partial_application_to_json :: "partial_application \<Rightarrow> json" where
  "partial_application_to_json x = write_members (partial_application_members x)"

definition partial_application_from_json :: "json \<Rightarrow> partial_application option" where
  "partial_application_from_json j = do {
     v0 \<leftarrow> deserialize (to_value get_snowflake) j ''id'' 0;
     v1 \<leftarrow> deserialize (to_value get_enum) j ''flags'' 0;
     Some \<lparr>pa_id = v0, pa_flags = v1\<rparr>
   }"

lemma partial_application_roundtrip: "partial_application_from_json (partial_application_to_json x) = Some x"
proof -
  have "distinct (map fst (partial_application_members x))" by (simp add: partial_application_members_def)
  note read = read_member [OF this]
  show ?thesis unfolding partial_application_from_json_def partial_application_to_json_def read
    by (simp add: partial_application_members_def)
qed

lemma partial_application_object: "\<not> is_null (partial_application_to_json x)"
  unfolding partial_application_to_json_def by (rule write_members_object [OF one_value_distinct]) (simp_all add: partial_application_members_def)

interpretation partial_application: entity_object partial_application_to_json partial_application_from_json "\<lambda>_. True"
  by unfold_locales (simp_all add: partial_application_roundtrip partial_application_object)

record partial_user =
  pu_id :: snowflake
  pu_username :: string
  pu_discriminator :: string
  pu_avatar :: string

definition partial_user_init :: partial_user where
  "partial_user_init = \<lparr>pu_id = 0, pu_username = [], pu_discriminator = [], pu_avatar = []\<rparr>"

definition partial_user_members :: "partial_user \<Rightarrow> (string \<times> json option) list" where
  "partial_user_members x = [
     (''id'', Some (snowflake_to_json (pu_id x))), (''username'', Some (JStr (pu_username x))),
     (''discriminator'', Some (JStr (pu_discriminator x))), (''avatar'', Some (JStr (pu_avatar x)))]"

definition partial_user_to_json :: "partial_user \<Rightarrow> json" where
  "partial_user_to_json x = write_members (partial_user_members x)"

definition partial_user_from_json :: "json \<Rightarrow> partial_user option" where
  "partial_user_from_json j = do {
     v0 \<leftarrow> deserialize (to_value get_snowflake) j ''id'' 0;
     v1 \<leftarrow> deserialize to_str j ''username'' [];
     v2 \<leftarrow> deserialize to_str j ''discriminator'' [];
     v3 \<leftarrow> deserialize to_str j ''avatar'' [];
     Some \<lparr>pu_id = v0, pu_username = v1, pu_discriminator = v2, pu_avatar = v3\<rparr>
   }"

lemma partial_user_roundtrip: "partial_user_from_json (partial_user_to_json x) = Some x"
proof -
  have "distinct (map fst (partial_user_members x))" by (simp add: partial_user_members_def)
  note read = read_member [OF this]
  show ?thesis unfolding partial_user_from_json_def partial_user_to_json_def read
    by (simp add: partial_user_members_def)
qed

lemma partial_user_object: "\<not> is_null (partial_user_to_json x)"
  unfolding partial_user_to_json_def by (rule write_members_object [OF one_value_distinct]) (simp_all add: partial_user_members_def)

interpretation partial_user: entity_object partial_user_to_json partial_user_from_json "\<lambda>_. True"
  by unfold_locales (simp_all add: partial_user_roundtrip partial_user_object)

end
