(* ===== verification/Entity_Channel.thy ===== *)
theory Entity_Channel
  imports Entity_User
begin

text \<open>
  Presences and channels: \<^verbatim>\<open>src/presence.cpp\<close> and \<^verbatim>\<open>src/channel.cpp\<close>. An activity writes its
  type as a signed number and reads an enumeration; the status \<open>Invisible\<close> has no textual form of its
  own.
\<close>

definition jenum_int :: "'a::len word \<Rightarrow> json" where
  "jenum_int w = JInt (uint w)"

lemma jenum_int_simps [simp]: "\<not> is_null (jenum_int w)" "to_value get_enum (jenum_int w) old = Some w"
  by (simp_all add: jenum_int_def to_value_def get_enum_def get_word_def)

record activity_assets =
  aa_large_image :: "string option"
  aa_large_text :: "string option"
  aa_small_image :: "string option"
  aa_small_text :: "string option"

definition activity_assets_init :: activity_assets where
  "activity_assets_init = \<lparr>aa_large_image = None, aa_large_text = None, aa_small_image = None, aa_small_text = None\<rparr>"

definition activity_assets_members :: "activity_assets \<Rightarrow> (string \<times> json option) list" where
  "activity_assets_members x = [
     (''large_image'', map_option JStr (aa_large_image x)), (''large_text'', map_option JStr (aa_large_text x)),
     (''small_image'', map_option JStr (aa_small_image x)), (''small_text'', map_option JStr (aa_small_text x))]"

definition activity_assets_to_json :: "activity_assets \<Rightarrow> json" where
  "activity_assets_to_json x = write_members (activity_assets_members x)"

definition activity_assets_from_json :: "json \<Rightarrow> activity_assets option" where
  "activity_assets_from_json j = do {
     v0 \<leftarrow> deserialize (to_opt get_string) j ''large_image'' None;
     v1 \<leftarrow> deserialize (to_opt get_string) j ''large_text'' None;
     v2 \<leftarrow> deserialize (to_opt get_string) j ''small_image'' None;
     v3 \<leftarrow> deserialize (to_opt get_string) j ''small_text'' None;
     Some \<lparr>aa_large_image = v0, aa_large_text = v1, aa_small_image = v2, aa_small_text = v3\<rparr>
   }"

lemma activity_assets_roundtrip: "activity_assets_from_json (activity_assets_to_json x) = Some x"
proof -
  have "distinct (map fst (activity_assets_members x))" by (simp add: activity_assets_members_def)
  note read = read_member [OF this]
  show ?thesis unfolding activity_assets_from_json_def activity_assets_to_json_def read
    by (simp add: activity_assets_members_def)
qed

lemma activity_assets_null: "activity_assets_from_json JNull = Some activity_assets_init"
  by (simp add: activity_assets_from_json_def activity_assets_init_def deserialize_def)

interpretation activity_assets: entity_codec activity_assets_to_json activity_assets_from_json "\<lambda>_. True"
  by unfold_locales (simp_all add: activity_assets_roundtrip)

record activity_button =
  ab_label :: string
  ab_url :: string

definition activity_button_init :: activity_button where
  "activity_button_init = \<lparr>ab_label = [], ab_url = []\<rparr>"

definition activity_button_members :: "activity_button \<Rightarrow> (string \<times> json option) list" where
  "activity_button_members x = [
     (''label'', Some (JStr (ab_label x))), (''url'', Some (JStr (ab_url x)))]"

definition activity_button_to_json :: "activity_button \<Rightarrow> json" where
  "activity_button_to_json x = write_members (activity_button_members x)"

definition activity_button_from_json :: "json \<Rightarrow> activity_button option" where
  "activity_button_from_json j = do {
     v0 \<leftarrow> deserialize to_str j ''label'' [];
     v1 \<leftarrow> deserialize to_str j ''url'' [];
     Some \<lparr>ab_label = v0, ab_url = v1\<rparr>
   }"

lemma activity_button_roundtrip: "activity_button_from_json (activity_button_to_json x) = Some x"
proof -
  have "distinct (map fst (activity_button_members x))" by (simp add: activity_button_members_def)
  note read = read_member [OF this]
  show ?thesis unfolding activity_button_from_json_def activity_button_to_json_def read
    by (simp add: activity_button_members_def)
qed

lemma activity_button_object: "\<not> is_null (activity_button_to_json x)"
  unfolding activity_button_to_json_def by (rule write_members_object [OF one_value_distinct]) (simp_all add: activity_button_members_def)

interpretation activity_button: entity_object activity_button_to_json activity_button_from_json "\<lambda>_. True"
  by unfold_locales (simp_all add: activity_button_roundtrip activity_button_object)

record activity_emoji =
  ae_name :: string
  ae_id :: snowflake
  ae_animated :: "bool option"

definition activity_emoji_init :: activity_emoji where
  "activity_emoji_init = \<lparr>ae_name = [], ae_id = 0, ae_animated = None\<rparr>"

definition activity_emoji_members :: "activity_emoji \<Rightarrow> (string \<times> json option) list" where
  "activity_emoji_members x = [
     (''name'', Some (JStr (ae_name x))), (''id'', Some (snowflake_to_json (ae_id x))),
     (''animated'', map_option JBool (ae_animated x))]"

definition activity_emoji_to_json :: "activity_emoji \<Rightarrow> json" where
  "activity_emoji_to_json x = write_members (activity_emoji_members x)"

definition activity_emoji_from_json :: "json \<Rightarrow> activity_emoji option" where
  "activity_emoji_from_json j = do {
     v0 \<leftarrow> deserialize to_str j ''name'' [];
     v1 \<leftarrow> deserialize (to_value get_snowflake) j ''id'' 0;
     v2 \<leftarrow> deserialize to_opt_bool j ''animated'' None;
     Some \<lparr>ae_name = v0, ae_id = v1, ae_animated = v2\<rparr>
   }"

lemma activity_emoji_roundtrip: "activity_emoji_from_json (activity_emoji_to_json x) = Some x"
proof -
  have "distinct (map fst (activity_emoji_members x))" by (simp add: activity_emoji_members_def)
  note read = read_member [OF this]
  show ?thesis unfolding activity_emoji_from_json_def activity_emoji_to_json_def read
    by (simp add: activity_emoji_members_def)
qed

lemma activity_emoji_object: "\<not> is_null (activity_emoji_to_json x)"
  unfolding activity_emoji_to_json_def by (rule write_members_object [OF one_value_distinct]) (simp_all add: activity_emoji_members_def)

interpretation activity_emoji: entity_object activity_emoji_to_json activity_emoji_from_json "\<lambda>_. True"
  by unfold_locales (simp_all add: activity_emoji_roundtrip activity_emoji_object)

record activity_party =
  ap_id :: "string option"
  ap_size :: "(u64 \<times> u64) option"

definition activity_party_init :: activity_party where
  "activity_party_init = \<lparr>ap_id = None, ap_size = None\<rparr>"

definition activity_party_members :: "activity_party \<Rightarrow> (string \<times> json option) list" where
  "activity_party_members x = [
     (''id'', map_option JStr (ap_id x)), (''size'', map_option jpair (ap_size x))]"

definition activity_party_to_json :: "activity_party \<Rightarrow> json" where
  "activity_party_to_json x = write_members (activity_party_members x)"

definition activity_party_from_json :: "json \<Rightarrow> activity_party option" where
  "activity_party_from_json j = do {
     v0 \<leftarrow> deserialize (to_opt get_string) j ''id'' None;
     v1 \<leftarrow> deserialize (to_opt get_pair) j ''size'' None;
     Some \<lparr>ap_id = v0, ap_size = v1\<rparr>
   }"

lemma activity_party_roundtrip: "activity_party_from_json (activity_party_to_json x) = Some x"
proof -
  have "distinct (map fst (activity_party_members x))" by (simp add: activity_party_members_def)
  note read = read_member [OF this]
  show ?thesis unfolding activity_party_from_json_def activity_party_to_json_def read
    by (simp add: activity_party_members_def)
qed

lemma activity_party_null: "activity_party_from_json JNull = Some activity_party_init"
  by (simp add: activity_party_from_json_def activity_party_init_def deserialize_def)

interpretation activity_party: entity_codec activity_party_to_json activity_party_from_json "\<lambda>_. True"
  by unfold_locales (simp_all add: activity_party_roundtrip)

record activity_secrets =
  as_join :: "string option"
  as_spectate :: "string option"
  as_match :: "string option"

definition activity_secrets_init :: activity_secrets where
  "activity_secrets_init = \<lparr>as_join = None, as_spectate = None, as_match = None\<rparr>"

definition activity_secrets_members :: "activity_secrets \<Rightarrow> (string \<times> json option) list" where
  "activity_secrets_members x = [
     (''join'', map_option JStr (as_join x)), (''spectate'', map_option JStr (as_spectate x)),
     (''match'', map_option JStr (as_match x))]"

definition activity_secrets_to_json :: "activity_secrets \<Rightarrow> json" where
  "activity_secrets_to_json x = write_members (activity_secrets_members x)"

definition activity_secrets_from_json :: "json \<Rightarrow> activity_secrets option" where
  "activity_secrets_from_json j = do {
     v0 \<leftarrow> deserialize (to_opt get_string) j ''join'' None;
     v1 \<leftarrow> deserialize (to_opt get_string) j ''spectate'' None;
     v2 \<leftarrow> deserialize (to_opt get_string) j ''match'' None;
     Some \<lparr>as_join = v0, as_spectate = v1, as_match = v2\<rparr>
   }"

lemma activity_secrets_roundtrip: "activity_secrets_from_json (activity_secrets_to_json x) = Some x"
proof -
  have "distinct (map fst (activity_secrets_members x))" by (simp add: activity_secrets_members_def)
  note read = read_member [OF this]
  show ?thesis unfolding activity_secrets_from_json_def activity_secrets_to_json_def read
    by (simp add: activity_secrets_members_def)
qed

lemma activity_secrets_null: "activity_secrets_from_json JNull = Some activity_secrets_init"
  by (simp add: activity_secrets_from_json_def activity_secrets_init_def deserialize_def)

interpretation activity_secrets: entity_codec activity_secrets_to_json activity_secrets_from_json "\<lambda>_. True"
  by unfold_locales (simp_all add: activity_secrets_roundtrip)

record activity_timestamps =
  at_start :: "u64 option"
  at_end :: "u64 option"

definition activity_timestamps_init :: activity_timestamps where
  "activity_timestamps_init = \<lparr>at_start = None, at_end = None\<rparr>"

definition activity_timestamps_members :: "activity_timestamps \<Rightarrow> (string \<times> json option) list" where
  "activity_timestamps_members x = [
     (''start'', map_option juint (at_start x)), (''end'', map_option juint (at_end x))]"

definition activity_timestamps_to_json :: "activity_timestamps \<Rightarrow> json" where
  "activity_timestamps_to_json x = write_members (activity_timestamps_members x)"

definition activity_timestamps_from_json :: "json \<Rightarrow> activity_timestamps option" where
  "activity_timestamps_from_json j = do {
     v0 \<leftarrow> deserialize to_opt_u64 j ''start'' None;
     v1 \<leftarrow> deserialize to_opt_u64 j ''end'' None;
     Some \<lparr>at_start = v0, at_end = v1\<rparr>
   }"

lemma activity_timestamps_roundtrip: "activity_timestamps_from_json (activity_timestamps_to_json x) = Some x"
proof -
  have "distinct (map fst (activity_timestamps_members x))" by (simp add: activity_timestamps_members_def)
  note read = read_member [OF this]
  show ?thesis unfolding activity_timestamps_from_json_def activity_timestamps_to_json_def read
    by (simp add: activity_timestamps_members_def)
qed

lemma activity_timestamps_null: "activity_timestamps_from_json JNull = Some activity_timestamps_init"
  by (simp add: activity_timestamps_from_json_def activity_timestamps_init_def deserialize_def)

interpretation activity_timestamps: entity_codec activity_timestamps_to_json activity_timestamps_from_json "\<lambda>_. True"
  by unfold_locales (simp_all add: activity_timestamps_roundtrip)

record activity =
  ac_name :: string
  ac_type :: u8
  ac_url :: "string option"
  ac_created_at :: "u64 option"
  ac_timestamps :: "activity_timestamps option"
  ac_application_id :: "snowflake option"
  ac_details :: "string option"
  ac_state :: "string option"
  ac_emoji :: "activity_emoji option"
  ac_party :: "activity_party option"
  ac_assets :: "activity_assets option"
  ac_secrets :: "activity_secrets option"
  ac_instance :: "bool option"
  ac_flags :: "u64 option"
  ac_buttons :: "activity_button list option"

definition activity_init :: activity where
  "activity_init = \<lparr>ac_name = [], ac_type = 0, ac_url = None, ac_created_at = None, ac_timestamps = None,
     ac_application_id = None, ac_details = None, ac_state = None, ac_emoji = None, ac_party = None,
     ac_assets = None, ac_secrets = None, ac_instance = None, ac_flags = None, ac_buttons = None\<rparr>"

definition activity_members :: "activity \<Rightarrow> (string \<times> json option) list" where
  "activity_members x = [
     (''name'', Some (JStr (ac_name x))), (''type'', Some (jenum_int (ac_type x))),
     (''url'', map_option JStr (ac_url x)), (''created_at'', map_option juint (ac_created_at x)),
     (''timestamps'', map_option activity_timestamps_to_json (ac_timestamps x)),
     (''application_id'', map_option snowflake_to_json (ac_application_id x)),
     (''details'', map_option JStr (ac_details x)), (''state'', map_option JStr (ac_state x)),
     (''emoji'', map_option activity_emoji_to_json (ac_emoji x)),
     (''party'', map_option activity_party_to_json (ac_party x)),
     (''assets'', map_option activity_assets_to_json (ac_assets x)),
     (''secrets'', map_option activity_secrets_to_json (ac_secrets x)),
     (''instance'', map_option JBool (ac_instance x)), (''flags'', map_option juint (ac_flags x)),
     (''buttons'', map_option (\<lambda>xs. JArr (map activity_button_to_json xs)) (ac_buttons x))]"

definition activity_to_json :: "activity \<Rightarrow> json" where
  "activity_to_json x = write_members (activity_members x)"

definition activity_from_json :: "json \<Rightarrow> activity option" where
  "activity_from_json j = do {
     v0 \<leftarrow> deserialize to_str j ''name'' [];
     v1 \<leftarrow> deserialize (to_value get_enum) j ''type'' 0;
     v2 \<leftarrow> deserialize (to_opt get_string) j ''url'' None;
     v3 \<leftarrow> deserialize to_opt_u64 j ''created_at'' None;
     v4 \<leftarrow> deserialize (to_opt activity_timestamps_from_json) j ''timestamps'' None;
     v5 \<leftarrow> deserialize (to_opt get_snowflake) j ''application_id'' None;
     v6 \<leftarrow> deserialize (to_opt get_string) j ''details'' None;
     v7 \<leftarrow> deserialize (to_opt get_string) j ''state'' None;
     v8 \<leftarrow> deserialize (to_opt activity_emoji_from_json) j ''emoji'' None;
     v9 \<leftarrow> deserialize (to_opt activity_party_from_json) j ''party'' None;
     v10 \<leftarrow> deserialize (to_opt activity_assets_from_json) j ''assets'' None;
     v11 \<leftarrow> deserialize (to_opt activity_secrets_from_json) j ''secrets'' None;
     v12 \<leftarrow> deserialize to_opt_bool j ''instance'' None;
     v13 \<leftarrow> deserialize (to_opt get_enum) j ''flags'' None;
     v14 \<leftarrow> deserialize (to_opt (get_vector activity_button_from_json)) j ''buttons'' None;
     Some \<lparr>ac_name = v0, ac_type = v1, ac_url = v2, ac_created_at = v3, ac_timestamps = v4, ac_application_id = v5,
       ac_details = v6, ac_state = v7, ac_emoji = v8, ac_party = v9, ac_assets = v10, ac_secrets = v11,
       ac_instance = v12, ac_flags = v13, ac_buttons = v14\<rparr>
   }"

definition activity_ok :: "activity \<Rightarrow> bool" where
  "activity_ok x \<longleftrightarrow> pred_option (\<lambda>v. \<not> is_null (activity_timestamps_to_json v)) (ac_timestamps x) \<and>
     pred_option (\<lambda>v. \<not> is_null (activity_party_to_json v)) (ac_party x) \<and>
     pred_option (\<lambda>v. \<not> is_null (activity_assets_to_json v)) (ac_assets x) \<and>
     pred_option (\<lambda>v. \<not> is_null (activity_secrets_to_json v)) (ac_secrets x)"

lemma activity_roundtrip: "activity_ok x \<Longrightarrow> activity_from_json (activity_to_json x) = Some x"
proof -
  assume "activity_ok x"
  moreover have "distinct (map fst (activity_members x))" by (simp add: activity_members_def)
  note read = read_member [OF this]
  ultimately show ?thesis unfolding activity_from_json_def activity_to_json_def read
    by (simp add: activity_members_def activity_ok_def)
qed

lemma activity_object: "\<not> is_null (activity_to_json x)"
  unfolding activity_to_json_def by (rule write_members_object [OF one_value_distinct]) (simp_all add: activity_members_def)

interpretation activity: entity_object activity_to_json activity_from_json activity_ok
  by unfold_locales (simp_all add: activity_roundtrip activity_object)

datatype status =
    ST_DoNotDisturb | ST_Idle | ST_Invisible | ST_Offline | ST_Online | ST_Unknown

fun status_to_str :: "status \<Rightarrow> string" where
  "status_to_str ST_DoNotDisturb = ''dnd''"
| "status_to_str ST_Idle = ''idle''"
| "status_to_str ST_Offline = ''offline''"
| "status_to_str ST_Online = ''online''"
| "status_to_str _ = ''unknown''"

definition status_from_str :: "string \<Rightarrow> status" where
  "status_from_str s =
     (if s = ''online'' then ST_Online else
      if s = ''dnd'' then ST_DoNotDisturb else
      if s = ''idle'' then ST_Idle else
      if s = ''offline'' then ST_Offline else
      ST_Unknown)"

definition status_to_json :: "status \<Rightarrow> json" where
  "status_to_json x = JStr (status_to_str x)"

definition status_from_json :: "json \<Rightarrow> status option" where
  "status_from_json j = (case j of JStr s \<Rightarrow> Some (status_from_str s) | _ \<Rightarrow> None)"

definition status_ok :: "status \<Rightarrow> bool" where
  "status_ok x \<longleftrightarrow> x \<noteq> ST_Invisible"

interpretation status: entity_object status_to_json status_from_json status_ok
proof unfold_locales
  show "status_from_json (status_to_json x) = Some x" if "status_ok x" for x
    using that by (cases x) (simp_all add: status_to_json_def status_from_json_def status_from_str_def status_ok_def)
qed (simp add: status_to_json_def)

record client_status =
  cs_desktop :: "status option"
  cs_mobile :: "status option"
  cs_web :: "status option"

definition client_status_init :: client_status where
  "client_status_init = \<lparr>cs_desktop = None, cs_mobile = None, cs_web = None\<rparr>"

definition client_status_members :: "client_status \<Rightarrow> (string \<times> json option) list" where
  "client_status_members x = [
     (''desktop'', map_option status_to_json (cs_desktop x)),
     (''mobile'', map_option status_to_json (cs_mobile x)), (''web'', map_option status_to_json (cs_web x))]"

definition client_status_to_json :: "client_status \<Rightarrow> json" where
  "client_status_to_json x = write_members (client_status_members x)"

definition client_status_from_json :: "json \<Rightarrow> client_status option" where
  "client_status_from_json j = do {
     v0 \<leftarrow> deserialize (to_opt status_from_json) j ''desktop'' None;
     v1 \<leftarrow> deserialize (to_opt status_from_json) j ''mobile'' None;
     v2 \<leftarrow> deserialize (to_opt status_from_json) j ''web'' None;
     Some \<lparr>cs_desktop = v0, cs_mobile = v1, cs_web = v2\<rparr>
   }"

definition client_status_ok :: "client_status \<Rightarrow> bool" where
  "client_status_ok x \<longleftrightarrow> pred_option status_ok (cs_desktop x) \<and> pred_option status_ok (cs_mobile x) \<and>
     pred_option status_ok (cs_web x)"

lemma client_status_roundtrip: "client_status_ok x \<Longrightarrow> client_status_from_json (client_status_to_json x) = Some x"
proof -
  assume "client_status_ok x"
  moreover have "distinct (map fst (client_status_members x))" by (simp add: client_status_members_def)
  note read = read_member [OF this]
  ultimately show ?thesis unfolding client_status_from_json_def client_status_to_json_def read
    by (simp add: client_status_members_def client_status_ok_def)
qed

lemma client_status_null: "client_status_from_json JNull = Some client_status_init"
  by (simp add: client_status_from_json_def client_status_init_def deserialize_def)

interpretation client_status: entity_codec client_status_to_json client_status_from_json client_status_ok
  by unfold_locales (simp_all add: client_status_roundtrip)

record presence =
  pr_activities :: "activity list"
  pr_client_status :: client_status
  pr_guild_id :: snowflake
  pr_status :: status

definition presence_init :: presence where
  "presence_init = \<lparr>pr_activities = [], pr_client_status = client_status_init, pr_guild_id = 0, pr_status = ST_DoNotDisturb\<rparr>"

definition presence_members :: "presence \<Rightarrow> (string \<times> json option) list" where
  "presence_members x = [
     (''activities'', Some (JArr (map activity_to_json (pr_activities x)))),
     (''client_status'', Some (client_status_to_json (pr_client_status x))),
     (''guild_id'', Some (snowflake_to_json (pr_guild_id x))), (''status'', Some (status_to_json (pr_status x)))]"

definition presence_to_json :: "presence \<Rightarrow> json" where
  "presence_to_json x = write_members (presence_members x)"

definition presence_from_json :: "json \<Rightarrow> presence option" where
  "presence_from_json j = do {
     v0 \<leftarrow> deserialize (to_vector activity_from_json) j ''activities'' [];
     v1 \<leftarrow> deserialize (to_value client_status_from_json) j ''client_status'' client_status_init;
     v2 \<leftarrow> deserialize (to_value get_snowflake) j ''guild_id'' 0;
     v3 \<leftarrow> deserialize (to_value status_from_json) j ''status'' ST_DoNotDisturb;
     Some \<lparr>pr_activities = v0, pr_client_status = v1, pr_guild_id = v2, pr_status = v3\<rparr>
   }"

definition presence_ok :: "presence \<Rightarrow> bool" where
  "presence_ok x \<longleftrightarrow> list_all activity_ok (pr_activities x) \<and> client_status_ok (pr_client_status x) \<and>
     status_ok (pr_status x)"

lemma presence_roundtrip: "presence_ok x \<Longrightarrow> presence_from_json (presence_to_json x) = Some x"
proof -
  assume "presence_ok x"
  moreover have "distinct (map fst (presence_members x))" by (simp add: presence_members_def)
  note read = read_member [OF this]
  ultimately show ?thesis unfolding presence_from_json_def presence_to_json_def read
    by (simp add: presence_members_def presence_ok_def client_status.read_inner client_status_null)
qed

lemma presence_object: "\<not> is_null (presence_to_json x)"
  unfolding presence_to_json_def by (rule write_members_object [OF one_value_distinct]) (simp_all add: presence_members_def)

interpretation presence: entity_object presence_to_json presence_from_json presence_ok
  by unfold_locales (simp_all add: presence_roundtrip presence_object)

record default_reaction =
  dr_emoji_id :: snowflake
  dr_emoji_name :: "string option"

definition default_reaction_init :: default_reaction where
  "default_reaction_init = \<lparr>dr_emoji_id = 0, dr_emoji_name = None\<rparr>"

definition default_reaction_members :: "default_reaction \<Rightarrow> (string \<times> json option) list" where
  "default_reaction_members x = [
     (''emoji_id'', Some (snowflake_to_json (dr_emoji_id x))),
     (''emoji_name'', map_option JStr (dr_emoji_name x))]"

definition default_reaction_to_json :: "default_reaction \<Rightarrow> json" where
  "default_reaction_to_json x = write_members (default_reaction_members x)"

definition default_reaction_from_json :: "json \<Rightarrow> default_reaction option" where
  "default_reaction_from_json j = do {
     v0 \<leftarrow> deserialize (to_value get_snowflake) j ''emoji_id'' 0;
     v1 \<leftarrow> deserialize (to_opt get_string) j ''emoji_name'' None;
     Some \<lparr>dr_emoji_id = v0, dr_emoji_name = v1\<rparr>
   }"

lemma default_reaction_roundtrip: "default_reaction_from_json (default_reaction_to_json x) = Some x"
proof -
  have "distinct (map fst (default_reaction_members x))" by (simp add: default_reaction_members_def)
  note read = read_member [OF this]
  show ?thesis unfolding default_reaction_from_json_def default_reaction_to_json_def read
    by (simp add: default_reaction_members_def)
qed

lemma default_reaction_object: "\<not> is_null (default_reaction_to_json x)"
  unfolding default_reaction_to_json_def by (rule write_members_object [OF one_value_distinct]) (simp_all add: default_reaction_members_def)

interpretation default_reaction: entity_object default_reaction_to_json default_reaction_from_json "\<lambda>_. True"
  by unfold_locales (simp_all add: default_reaction_roundtrip default_reaction_object)

record forum_tag =
  ft_id :: snowflake
  ft_name :: string
  ft_moderated :: bool
  ft_emoji_id :: "snowflake option"
  ft_emoji_name :: "string option"

definition forum_tag_init :: forum_tag where
  "forum_tag_init = \<lparr>ft_id = 0, ft_name = [], ft_moderated = False, ft_emoji_id = None, ft_emoji_name = None\<rparr>"

definition forum_tag_members :: "forum_tag \<Rightarrow> (string \<times> json option) list" where
  "forum_tag_members x = [
     (''id'', Some (snowflake_to_json (ft_id x))), (''name'', Some (JStr (ft_name x))),
     (''moderated'', Some (JBool (ft_moderated x))),
     (''emoji_id'', map_option snowflake_to_json (ft_emoji_id x)),
     (''emoji_name'', map_option JStr (ft_emoji_name x))]"

definition forum_tag_to_json :: "forum_tag \<Rightarrow> json" where
  "forum_tag_to_json x = write_members (forum_tag_members x)"

definition forum_tag_from_json :: "json \<Rightarrow> forum_tag option" where
  "forum_tag_from_json j = do {
     v0 \<leftarrow> deserialize (to_value get_snowflake) j ''id'' 0;
     v1 \<leftarrow> deserialize to_str j ''name'' [];
     v2 \<leftarrow> deserialize to_bool j ''moderated'' False;
     v3 \<leftarrow> deserialize (to_opt get_snowflake) j ''emoji_id'' None;
     v4 \<leftarrow> deserialize (to_opt get_string) j ''emoji_name'' None;
     Some \<lparr>ft_id = v0, ft_name = v1, ft_moderated = v2, ft_emoji_id = v3, ft_emoji_name = v4\<rparr>
   }"

lemma forum_tag_roundtrip: "forum_tag_from_json (forum_tag_to_json x) = Some x"
proof -
  have "distinct (map fst (forum_tag_members x))" by (simp add: forum_tag_members_def)
  note read = read_member [OF this]
  show ?thesis unfolding forum_tag_from_json_def forum_tag_to_json_def read
    by (simp add: forum_tag_members_def)
qed

lemma forum_tag_object: "\<not> is_null (forum_tag_to_json x)"
  unfolding forum_tag_to_json_def by (rule write_members_object [OF one_value_distinct]) (simp_all add: forum_tag_members_def)

interpretation forum_tag: entity_object forum_tag_to_json forum_tag_from_json "\<lambda>_. True"
  by unfold_locales (simp_all add: forum_tag_roundtrip forum_tag_object)

record permission_overwrite =
  po_id :: snowflake
  po_type :: u8
  po_allow :: u64
  po_deny :: u64

definition permission_overwrite_init :: permission_overwrite where
  "permission_overwrite_init = \<lparr>po_id = 0, po_type = 0, po_allow = 0, po_deny = 0\<rparr>"

definition permission_overwrite_members :: "permission_overwrite \<Rightarrow> (string \<times> json option) list" where
  "permission_overwrite_members x = [
     (''id'', Some (snowflake_to_json (po_id x))), (''type'', Some (juint (po_type x))),
     (''allow'', Some (permissions_to_json (po_allow x))), (''deny'', Some (permissions_to_json (po_deny x)))]"

definition permission_overwrite_to_json :: "permission_overwrite \<Rightarrow> json" where
  "permission_overwrite_to_json x = write_members (permission_overwrite_members x)"

definition permission_overwrite_from_json :: "json \<Rightarrow> permission_overwrite option" where
  "permission_overwrite_from_json j = do {
     v0 \<leftarrow> deserialize (to_value get_snowflake) j ''id'' 0;
     v1 \<leftarrow> deserialize (to_value get_enum) j ''type'' 0;
     v2 \<leftarrow> deserialize (to_value permissions_from_json) j ''allow'' 0;
     v3 \<leftarrow> deserialize (to_value permissions_from_json) j ''deny'' 0;
     Some \<lparr>po_id = v0, po_type = v1, po_allow = v2, po_deny = v3\<rparr>
   }"

lemma permission_overwrite_roundtrip: "permission_overwrite_from_json (permission_overwrite_to_json x) = Some x"
proof -
  have "distinct (map fst (permission_overwrite_members x))" by (simp add: permission_overwrite_members_def)
  note read = read_member [OF this]
  show ?thesis unfolding permission_overwrite_from_json_def permission_overwrite_to_json_def read
    by (simp add: permission_overwrite_members_def)
qed

lemma permission_overwrite_object: "\<not> is_null (permission_overwrite_to_json x)"
  unfolding permission_overwrite_to_json_def by (rule write_members_object [OF one_value_distinct]) (simp_all add: permission_overwrite_members_def)

interpretation permission_overwrite: entity_object permission_overwrite_to_json permission_overwrite_from_json "\<lambda>_. True"
  by unfold_locales (simp_all add: permission_overwrite_roundtrip permission_overwrite_object)

record thread_metadata =
  tm_archived :: bool
  tm_auto_archive_duration :: i32
  tm_archive_timestamp :: string
  tm_locked :: bool
  tm_invitable :: "bool option"
  tm_create_timestamp :: "string option"

definition thread_metadata_init :: thread_metadata where
  "thread_metadata_init = \<lparr>tm_archived = False, tm_auto_archive_duration = 0, tm_archive_timestamp = [], tm_locked = False,
     tm_invitable = None, tm_create_timestamp = None\<rparr>"

definition thread_metadata_members :: "thread_metadata \<Rightarrow> (string \<times> json option) list" where
  "thread_metadata_members x = [
     (''archived'', Some (JBool (tm_archived x))),
     (''auto_archive_duration'', Some (jsint (tm_auto_archive_duration x))),
     (''archive_timestamp'', Some (JStr (tm_archive_timestamp x))), (''locked'', Some (JBool (tm_locked x))),
     (''invitable'', map_option JBool (tm_invitable x)),
     (''create_timestamp'', map_option JStr (tm_create_timestamp x))]"

definition thread_metadata_to_json :: "thread_metadata \<Rightarrow> json" where
  "thread_metadata_to_json x = write_members (thread_metadata_members x)"

definition thread_metadata_from_json :: "json \<Rightarrow> thread_metadata option" where
  "thread_metadata_from_json j = do {
     v0 \<leftarrow> deserialize to_bool j ''archived'' False;
     v1 \<leftarrow> deserialize to_sint j ''auto_archive_duration'' 0;
     v2 \<leftarrow> deserialize to_str j ''archive_timestamp'' [];
     v3 \<leftarrow> deserialize to_bool j ''locked'' False;
     v4 \<leftarrow> deserialize to_opt_bool j ''invitable'' None;
     v5 \<leftarrow> deserialize (to_opt get_string) j ''create_timestamp'' None;
     Some \<lparr>tm_archived = v0, tm_auto_archive_duration = v1, tm_archive_timestamp = v2, tm_locked = v3,
       tm_invitable = v4, tm_create_timestamp = v5\<rparr>
   }"

lemma thread_metadata_roundtrip: "thread_metadata_from_json (thread_metadata_to_json x) = Some x"
proof -
  have "distinct (map fst (thread_metadata_members x))" by (simp add: thread_metadata_members_def)
  note read = read_member [OF this]
  show ?thesis unfolding thread_metadata_from_json_def thread_metadata_to_json_def read
    by (simp add: thread_metadata_members_def)
qed

lemma thread_metadata_object: "\<not> is_null (thread_metadata_to_json x)"
  unfolding thread_metadata_to_json_def by (rule write_members_object [OF one_value_distinct]) (simp_all add: thread_metadata_members_def)

interpretation thread_metadata: entity_object thread_metadata_to_json thread_metadata_from_json "\<lambda>_. True"
  by unfold_locales (simp_all add: thread_metadata_roundtrip thread_metadata_object)

record thread_member =
  tmh_id :: "snowflake option"
  tmh_user_id :: "snowflake option"
  tmh_join_timestamp :: string
  tmh_flags :: u64
  tmh_member :: "guild_member option"
  tmh_presence :: "presence option"

definition thread_member_init :: thread_member where
  "thread_member_init = \<lparr>tmh_id = None, tmh_user_id = None, tmh_join_timestamp = [], tmh_flags = 0, tmh_member = None,
     tmh_presence = None\<rparr>"

definition thread_member_members :: "thread_member \<Rightarrow> (string \<times> json option) list" where
  "thread_member_members x = [
     (''id'', map_option snowflake_to_json (tmh_id x)),
     (''user_id'', map_option snowflake_to_json (tmh_user_id x)),
     (''join_timestamp'', Some (JStr (tmh_join_timestamp x))), (''flags'', Some (juint (tmh_flags x))),
     (''member'', map_option guild_member_to_json (tmh_member x)),
     (''presence'', map_option presence_to_json (tmh_presence x))]"

definition thread_member_to_json :: "thread_member \<Rightarrow> json" where
  "thread_member_to_json x = write_members (thread_member_members x)"

definition thread_member_from_json :: "json \<Rightarrow> thread_member option" where
  "thread_member_from_json j = do {
     v0 \<leftarrow> deserialize (to_opt get_snowflake) j ''id'' None;
     v1 \<leftarrow> deserialize (to_opt get_snowflake) j ''user_id'' None;
     v2 \<leftarrow> deserialize to_str j ''join_timestamp'' [];
     v3 \<leftarrow> deserialize to_u64 j ''flags'' 0;
     v4 \<leftarrow> deserialize (to_opt guild_member_from_json) j ''member'' None;
     v5 \<leftarrow> deserialize (to_opt presence_from_json) j ''presence'' None;
     Some \<lparr>tmh_id = v0, tmh_user_id = v1, tmh_join_timestamp = v2, tmh_flags = v3, tmh_member = v4,
       tmh_presence = v5\<rparr>
   }"

definition thread_member_ok :: "thread_member \<Rightarrow> bool" where
  "thread_member_ok x \<longleftrightarrow> pred_option guild_member_ok (tmh_member x) \<and> pred_option presence_ok (tmh_presence x)"

lemma thread_member_roundtrip: "thread_member_ok x \<Longrightarrow> thread_member_from_json (thread_member_to_json x) = Some x"
proof -
  assume "thread_member_ok x"
  moreover have "distinct (map fst (thread_member_members x))" by (simp add: thread_member_members_def)
  note read = read_member [OF this]
  ultimately show ?thesis unfolding thread_member_from_json_def thread_member_to_json_def read
    by (simp add: thread_member_members_def thread_member_ok_def)
qed

lemma thread_member_object: "\<not> is_null (thread_member_to_json x)"
  unfolding thread_member_to_json_def by (rule write_members_object [OF one_value_distinct]) (simp_all add: thread_member_members_def)

interpretation thread_member: entity_object thread_member_to_json thread_member_from_json thread_member_ok
  by unfold_locales (simp_all add: thread_member_roundtrip thread_member_object)

record channel =
  ch_id :: snowflake
  ch_type :: u8
  ch_guild_id :: "snowflake option"
  ch_position :: "i32 option"
  ch_permission_overwrites :: "permission_overwrite list option"
  ch_name :: "string option"
  ch_topic :: "string option"
  ch_nsfw :: bool
  ch_last_message_id :: "snowflake option"
  ch_bitrate :: "i32 option"
  ch_user_limit :: "i32 option"
  ch_rate_limit_per_user :: i32
  ch_recipients :: "user list option"
  ch_icon :: "string option"
  ch_owner_id :: "snowflake option"
  ch_application_id :: "snowflake option"
  ch_managed :: bool
  ch_parent_id :: "snowflake option"
  ch_last_pin_timestamp :: "string option"
  ch_rtc_region :: "string option"
  ch_video_quality_mode :: "i32 option"
  ch_message_count :: "i32 option"
  ch_member_count :: "i32 option"
  ch_thread_metadata :: "thread_metadata option"
  ch_member :: "thread_member option"
  ch_default_auto_archive_duration :: "i32 option"
  ch_permissions :: "string option"
  ch_flags :: "i32 option"
  ch_total_messages_sent :: "i32 option"
  ch_available_tags :: "forum_tag list option"
  ch_applied_tags :: "snowflake list option"
  ch_default_reaction_emoji :: "default_reaction option"
  ch_default_thread_rate_limit_per_user :: "i32 option"
  ch_default_sort_order :: "i32 option"
  ch_default_forum_layout :: "i32 option"

definition channel_init :: channel where
  "channel_init = \<lparr>ch_id = 0, ch_type = 0, ch_guild_id = None, ch_position = None, ch_permission_overwrites = None,
     ch_name = None, ch_topic = None, ch_nsfw = False, ch_last_message_id = None, ch_bitrate = None,
     ch_user_limit = None, ch_rate_limit_per_user = 0, ch_recipients = None, ch_icon = None, ch_owner_id = None,
     ch_application_id = None, ch_managed = False, ch_parent_id = None, ch_last_pin_timestamp = None,
     ch_rtc_region = None, ch_video_quality_mode = None, ch_message_count = None, ch_member_count = None,
     ch_thread_metadata = None, ch_member = None, ch_default_auto_archive_duration = None,
     ch_permissions = None, ch_flags = None, ch_total_messages_sent = None, ch_available_tags = None,
     ch_applied_tags = None, ch_default_reaction_emoji = None, ch_default_thread_rate_limit_per_user = None,
     ch_default_sort_order = None, ch_default_forum_layout = None\<rparr>"

definition channel_members :: "channel \<Rightarrow> (string \<times> json option) list" where
  "channel_members x = [
     (''id'', Some (snowflake_to_json (ch_id x))), (''type'', Some (juint (ch_type x))),
     (''guild_id'', map_option snowflake_to_json (ch_guild_id x)),
     (''position'', map_option jsint (ch_position x)),
     (''permission_overwrites'', map_option (\<lambda>xs. JArr (map permission_overwrite_to_json xs)) (ch_permission_overwrites x)),
     (''name'', map_option JStr (ch_name x)), (''topic'', map_option JStr (ch_topic x)),
     (''nsfw'', Some (JBool (ch_nsfw x))),
     (''last_message_id'', map_option snowflake_to_json (ch_last_message_id x)),
     (''bitrate'', map_option jsint (ch_bitrate x)), (''user_limit'', map_option jsint (ch_user_limit x)),
     (''rate_limit_per_user'', Some (jsint (ch_rate_limit_per_user x))),
     (''recipients'', map_option (\<lambda>xs. JArr (map user_to_json xs)) (ch_recipients x)),
     (''icon'', map_option JStr (ch_icon x)), (''owner_id'', map_option snowflake_to_json (ch_owner_id x)),
     (''application_id'', map_option snowflake_to_json (ch_application_id x)),
     (''managed'', Some (JBool (ch_managed x))), (''parent_id'', map_option snowflake_to_json (ch_parent_id x)),
     (''last_pin_timestamp'', map_option JStr (ch_last_pin_timestamp x)),
     (''rtc_region'', map_option JStr (ch_rtc_region x)),
     (''video_quality_mode'', map_option jsint (ch_video_quality_mode x)),
     (''message_count'', map_option jsint (ch_message_count x)),
     (''member_count'', map_option jsint (ch_member_count x)),
     (''thread_metadata'', map_option thread_metadata_to_json (ch_thread_metadata x)),
     (''member'', map_option thread_member_to_json (ch_member x)),
     (''default_auto_archive_duration'', map_option jsint (ch_default_auto_archive_duration x)),
     (''permissions'', map_option JStr (ch_permissions x)), (''flags'', map_option jsint (ch_flags x)),
     (''total_messages_sent'', map_option jsint (ch_total_messages_sent x)),
     (''available_tags'', map_option (\<lambda>xs. JArr (map forum_tag_to_json xs)) (ch_available_tags x)),
     (''applied_tags'', map_option (\<lambda>xs. JArr (map snowflake_to_json xs)) (ch_applied_tags x)),
     (''default_reaction_emoji'', map_option default_reaction_to_json (ch_default_reaction_emoji x)),
     (''default_thread_rate_limit_per_user'', map_option jsint (ch_default_thread_rate_limit_per_user x)),
     (''default_sort_order'', map_option jsint (ch_default_sort_order x)),
     (''default_forum_layout'', map_option jsint (ch_default_forum_layout x))]"

definition channel_to_json :: "channel \<Rightarrow> json" where
  "channel_to_json x = write_members (channel_members x)"

definition channel_from_json :: "json \<Rightarrow> channel option" where
  "channel_from_json j = do {
     v0 \<leftarrow> deserialize (to_value get_snowflake) j ''id'' 0;
     v1 \<leftarrow> deserialize (to_value get_enum) j ''type'' 0;
     v2 \<leftarrow> deserialize (to_opt get_snowflake) j ''guild_id'' None;
     v3 \<leftarrow> deserialize to_opt_sint j ''position'' None;
     v4 \<leftarrow> deserialize (to_opt (get_vector permission_overwrite_from_json)) j ''permission_overwrites'' None;
     v5 \<leftarrow> deserialize (to_opt get_string) j ''name'' None;
     v6 \<leftarrow> deserialize (to_opt get_string) j ''topic'' None;
     v7 \<leftarrow> deserialize to_bool j ''nsfw'' False;
     v8 \<leftarrow> deserialize (to_opt get_snowflake) j ''last_message_id'' None;
     v9 \<leftarrow> deserialize to_opt_sint j ''bitrate'' None;
     v10 \<leftarrow> deserialize to_opt_sint j ''user_limit'' None;
     v11 \<leftarrow> deserialize to_sint j ''rate_limit_per_user'' 0;
     v12 \<leftarrow> deserialize (to_opt (get_vector user_from_json)) j ''recipients'' None;
     v13 \<leftarrow> deserialize (to_opt get_string) j ''icon'' None;
     v14 \<leftarrow> deserialize (to_opt get_snowflake) j ''owner_id'' None;
     v15 \<leftarrow> deserialize (to_opt get_snowflake) j ''application_id'' None;
     v16 \<leftarrow> deserialize to_bool j ''managed'' False;
     v17 \<leftarrow> deserialize (to_opt get_snowflake) j ''parent_id'' None;
     v18 \<leftarrow> deserialize (to_opt get_string) j ''last_pin_timestamp'' None;
     v19 \<leftarrow> deserialize (to_opt get_string) j ''rtc_region'' None;
     v20 \<leftarrow> deserialize to_opt_sint j ''video_quality_mode'' None;
     v21 \<leftarrow> deserialize to_opt_sint j ''message_count'' None;
     v22 \<leftarrow> deserialize to_opt_sint j ''member_count'' None;
     v23 \<leftarrow> deserialize (to_opt thread_metadata_from_json) j ''thread_metadata'' None;
     v24 \<leftarrow> deserialize (to_opt thread_member_from_json) j ''member'' None;
     v25 \<leftarrow> deserialize to_opt_sint j ''default_auto_archive_duration'' None;
     v26 \<leftarrow> deserialize (to_opt get_string) j ''permissions'' None;
     v27 \<leftarrow> deserialize to_opt_sint j ''flags'' None;
     v28 \<leftarrow> deserialize to_opt_sint j ''total_messages_sent'' None;
     v29 \<leftarrow> deserialize (to_opt (get_vector forum_tag_from_json)) j ''available_tags'' None;
     v30 \<leftarrow> deserialize (to_opt (get_vector get_snowflake)) j ''applied_tags'' None;
     v31 \<leftarrow> deserialize (to_opt default_reaction_from_json) j ''default_reaction_emoji'' None;
     v32 \<leftarrow> deserialize to_opt_sint j ''default_thread_rate_limit_per_user'' None;
     v33 \<leftarrow> deserialize to_opt_sint j ''default_sort_order'' None;
     v34 \<leftarrow> deserialize to_opt_sint j ''default_forum_layout'' None;
     Some \<lparr>ch_id = v0, ch_type = v1, ch_guild_id = v2, ch_position = v3, ch_permission_overwrites = v4,
       ch_name = v5, ch_topic = v6, ch_nsfw = v7, ch_last_message_id = v8, ch_bitrate = v9, ch_user_limit = v10,
       ch_rate_limit_per_user = v11, ch_recipients = v12, ch_icon = v13, ch_owner_id = v14,
       ch_application_id = v15, ch_managed = v16, ch_parent_id = v17, ch_last_pin_timestamp = v18,
       ch_rtc_region = v19, ch_video_quality_mode = v20, ch_message_count = v21, ch_member_count = v22,
       ch_thread_metadata = v23, ch_member = v24, ch_default_auto_archive_duration = v25, ch_permissions = v26,
       ch_flags = v27, ch_total_messages_sent = v28, ch_available_tags = v29, ch_applied_tags = v30,
       ch_default_reaction_emoji = v31, ch_default_thread_rate_limit_per_user = v32,
       ch_default_sort_order = v33, ch_default_forum_layout = v34\<rparr>
   }"

definition channel_ok :: "channel \<Rightarrow> bool" where
  "channel_ok x \<longleftrightarrow> pred_option (list_all user_ok) (ch_recipients x) \<and> pred_option thread_member_ok (ch_member x)"

lemma channel_roundtrip: "channel_ok x \<Longrightarrow> channel_from_json (channel_to_json x) = Some x"
proof -
  assume "channel_ok x"
  moreover have "distinct (map fst (channel_members x))" by (simp add: channel_members_def)
  note read = read_member [OF this]
  ultimately show ?thesis unfolding channel_from_json_def channel_to_json_def read
    by (simp add: channel_members_def channel_ok_def)
qed

lemma channel_object: "\<not> is_null (channel_to_json x)"
  unfolding channel_to_json_def by (rule write_members_object [OF one_value_distinct]) (simp_all add: channel_members_def)

interpretation channel: entity_object channel_to_json channel_from_json channel_ok
  by unfold_locales (simp_all add: channel_roundtrip channel_object)

end
