(* ===== verification/Entity_Message.thy ===== *)
theory Entity_Message
  imports Entity_Channel
begin

text \<open>
  What messages are made of: \<^verbatim>\<open>src/attachment.cpp\<close>, \<^verbatim>\<open>embed.cpp\<close>, \<^verbatim>\<open>sticker.cpp\<close>, \<^verbatim>\<open>poll.cpp\<close> and
  the parts of \<^verbatim>\<open>message.cpp\<close>. An embed image or provider without any member is written as null, so an
  embed that has one does not come back; the condition of an embed excludes it.
\<close>

record attachment =
  att_id :: snowflake
  att_filename :: string
  att_description :: string
  att_content_type :: string
  att_size :: u64
  att_url :: string
  att_proxy_url :: string
  att_height :: u16
  att_width :: u16
  att_ephemeral :: bool

definition attachment_init :: attachment where
  "attachment_init = \<lparr>att_id = 0, att_filename = [], att_description = [], att_content_type = [], att_size = 0, att_url = [],
     att_proxy_url = [], att_height = 0, att_width = 0, att_ephemeral = False\<rparr>"

definition attachment_members :: "attachment \<Rightarrow> (string \<times> json option) list" where
  "attachment_members x = [
     (''id'', Some (snowflake_to_json (att_id x))), (''filename'', Some (JStr (att_filename x))),
     (''description'', Some (JStr (att_description x))), (''content_type'', Some (JStr (att_content_type x))),
     (''size'', Some (juint (att_size x))), (''url'', Some (JStr (att_url x))),
     (''proxy_url'', Some (JStr (att_proxy_url x))), (''height'', Some (juint (att_height x))),
     (''width'', Some (juint (att_width x))), (''ephemeral'', Some (JBool (att_ephemeral x)))]"

definition attachment_to_json :: "attachment \<Rightarrow> json" where
  "attachment_to_json x = write_members (attachment_members x)"

definition attachment_from_json :: "json \<Rightarrow> attachment option" where
  "attachment_from_json j = do {
     v0 \<leftarrow> deserialize (to_value get_snowflake) j ''id'' 0;
     v1 \<leftarrow> deserialize to_str j ''filename'' [];
     v2 \<leftarrow> deserialize to_str j ''description'' [];
     v3 \<leftarrow> deserialize to_str j ''content_type'' [];
     v4 \<leftarrow> deserialize to_u64 j ''size'' 0;
     v5 \<leftarrow> deserialize to_str j ''url'' [];
     v6 \<leftarrow> deserialize to_str j ''proxy_url'' [];
     v7 \<leftarrow> deserialize to_uint j ''height'' 0;
     v8 \<leftarrow> deserialize to_uint j ''width'' 0;
     v9 \<leftarrow> deserialize to_bool j ''ephemeral'' False;
     Some \<lparr>att_id = v0, att_filename = v1, att_description = v2, att_content_type = v3, att_size = v4, att_url = v5,
       att_proxy_url = v6, att_height = v7, att_width = v8, att_ephemeral = v9\<rparr>
   }"

lemma attachment_roundtrip: "attachment_from_json (attachment_to_json x) = Some x"
proof -
  have "distinct (map fst (attachment_members x))" by (simp add: attachment_members_def)
  note read = read_member [OF this]
  show ?thesis unfolding attachment_from_json_def attachment_to_json_def read
    by (simp add: attachment_members_def)
qed

lemma attachment_object: "\<not> is_null (attachment_to_json x)"
  unfolding attachment_to_json_def by (rule write_members_object [OF one_value_distinct]) (simp_all add: attachment_members_def)

interpretation attachment: entity_object attachment_to_json attachment_from_json "\<lambda>_. True"
  by unfold_locales (simp_all add: attachment_roundtrip attachment_object)

record partial_attachment =
  paa_id :: "snowflake option"
  paa_filename :: "string option"
  paa_description :: "string option"

definition partial_attachment_init :: partial_attachment where
  "partial_attachment_init = \<lparr>paa_id = None, paa_filename = None, paa_description = None\<rparr>"

definition partial_attachment_members :: "partial_attachment \<Rightarrow> (string \<times> json option) list" where
  "partial_attachment_members x = [
     (''id'', map_option snowflake_to_json (paa_id x)), (''filename'', map_option JStr (paa_filename x)),
     (''description'', map_option JStr (paa_description x))]"

definition partial_attachment_to_json :: "partial_attachment \<Rightarrow> json" where
  "partial_attachment_to_json x = write_members (partial_attachment_members x)"

definition partial_attachment_from_json :: "json \<Rightarrow> partial_attachment option" where
  "partial_attachment_from_json j = do {
     v0 \<leftarrow> deserialize (to_opt get_snowflake) j ''id'' None;
     v1 \<leftarrow> deserialize (to_opt get_string) j ''filename'' None;
     v2 \<leftarrow> deserialize (to_opt get_string) j ''description'' None;
     Some \<lparr>paa_id = v0, paa_filename = v1, paa_description = v2\<rparr>
   }"

lemma partial_attachment_roundtrip: "partial_attachment_from_json (partial_attachment_to_json x) = Some x"
proof -
  have "distinct (map fst (partial_attachment_members x))" by (simp add: partial_attachment_members_def)
  note read = read_member [OF this]
  show ?thesis unfolding partial_attachment_from_json_def partial_attachment_to_json_def read
    by (simp add: partial_attachment_members_def)
qed

lemma partial_attachment_null: "partial_attachment_from_json JNull = Some partial_attachment_init"
  by (simp add: partial_attachment_from_json_def partial_attachment_init_def deserialize_def)

interpretation partial_attachment: entity_codec partial_attachment_to_json partial_attachment_from_json "\<lambda>_. True"
  by unfold_locales (simp_all add: partial_attachment_roundtrip)

record embed_image =
  ei_url :: "string option"
  ei_proxy_url :: "string option"
  ei_height :: "u16 option"
  ei_width :: "u16 option"

definition embed_image_init :: embed_image where
  "embed_image_init = \<lparr>ei_url = None, ei_proxy_url = None, ei_height = None, ei_width = None\<rparr>"

definition embed_image_members :: "embed_image \<Rightarrow> (string \<times> json option) list" where
  "embed_image_members x = [
     (''url'', map_option JStr (ei_url x)), (''proxy_url'', map_option JStr (ei_proxy_url x)),
     (''height'', map_option juint (ei_height x)), (''width'', map_option juint (ei_width x))]"

definition embed_image_to_json :: "embed_image \<Rightarrow> json" where
  "embed_image_to_json x = write_members (embed_image_members x)"

definition embed_image_from_json :: "json \<Rightarrow> embed_image option" where
  "embed_image_from_json j = do {
     v0 \<leftarrow> deserialize (to_opt get_string) j ''url'' None;
     v1 \<leftarrow> deserialize (to_opt get_string) j ''proxy_url'' None;
     v2 \<leftarrow> deserialize to_opt_uint j ''height'' None;
     v3 \<leftarrow> deserialize to_opt_uint j ''width'' None;
     Some \<lparr>ei_url = v0, ei_proxy_url = v1, ei_height = v2, ei_width = v3\<rparr>
   }"

lemma embed_image_roundtrip: "embed_image_from_json (embed_image_to_json x) = Some x"
proof -
  have "distinct (map fst (embed_image_members x))" by (simp add: embed_image_members_def)
  note read = read_member [OF this]
  show ?thesis unfolding embed_image_from_json_def embed_image_to_json_def read
    by (simp add: embed_image_members_def)
qed

lemma embed_image_null: "embed_image_from_json JNull = Some embed_image_init"
  by (simp add: embed_image_from_json_def embed_image_init_def deserialize_def)

interpretation embed_image: entity_codec embed_image_to_json embed_image_from_json "\<lambda>_. True"
  by unfold_locales (simp_all add: embed_image_roundtrip)

record embed_provider =
  ep_name :: "string option"
  ep_url :: "string option"

definition embed_provider_init :: embed_provider where
  "embed_provider_init = \<lparr>ep_name = None, ep_url = None\<rparr>"

definition embed_provider_members :: "embed_provider \<Rightarrow> (string \<times> json option) list" where
  "embed_provider_members x = [
     (''name'', map_option JStr (ep_name x)), (''url'', map_option JStr (ep_url x))]"

definition embed_provider_to_json :: "embed_provider \<Rightarrow> json" where
  "embed_provider_to_json x = write_members (embed_provider_members x)"

definition embed_provider_from_json :: "json \<Rightarrow> embed_provider option" where
  "embed_provider_from_json j = do {
     v0 \<leftarrow> deserialize (to_opt get_string) j ''name'' None;
     v1 \<leftarrow> deserialize (to_opt get_string) j ''url'' None;
     Some \<lparr>ep_name = v0, ep_url = v1\<rparr>
   }"

lemma embed_provider_roundtrip: "embed_provider_from_json (embed_provider_to_json x) = Some x"
proof -
  have "distinct (map fst (embed_provider_members x))" by (simp add: embed_provider_members_def)
  note read = read_member [OF this]
  show ?thesis unfolding embed_provider_from_json_def embed_provider_to_json_def read
    by (simp add: embed_provider_members_def)
qed

lemma embed_provider_null: "embed_provider_from_json JNull = Some embed_provider_init"
  by (simp add: embed_provider_from_json_def embed_provider_init_def deserialize_def)

interpretation embed_provider: entity_codec embed_provider_to_json embed_provider_from_json "\<lambda>_. True"
  by unfold_locales (simp_all add: embed_provider_roundtrip)

record embed_author =
  ea_name :: string
  ea_url :: "string option"
  ea_icon_url :: "string option"
  ea_proxy_icon_url :: "string option"

definition embed_author_init :: embed_author where
  "embed_author_init = \<lparr>ea_name = [], ea_url = None, ea_icon_url = None, ea_proxy_icon_url = None\<rparr>"

definition embed_author_members :: "embed_author \<Rightarrow> (string \<times> json option) list" where
  "embed_author_members x = [
     (''name'', Some (JStr (ea_name x))), (''url'', map_option JStr (ea_url x)),
     (''icon_url'', map_option JStr (ea_icon_url x)),
     (''proxy_icon_url'', map_option JStr (ea_proxy_icon_url x))]"

definition embed_author_to_json :: "embed_author \<Rightarrow> json" where
  "embed_author_to_json x = write_members (embed_author_members x)"

definition embed_author_from_json :: "json \<Rightarrow> embed_author option" where
  "embed_author_from_json j = do {
     v0 \<leftarrow> deserialize to_str j ''name'' [];
     v1 \<leftarrow> deserialize (to_opt get_string) j ''url'' None;
     v2 \<leftarrow> deserialize (to_opt get_string) j ''icon_url'' None;
     v3 \<leftarrow> deserialize (to_opt get_string) j ''proxy_icon_url'' None;
     Some \<lparr>ea_name = v0, ea_url = v1, ea_icon_url = v2, ea_proxy_icon_url = v3\<rparr>
   }"

lemma embed_author_roundtrip: "embed_author_from_json (embed_author_to_json x) = Some x"
proof -
  have "distinct (map fst (embed_author_members x))" by (simp add: embed_author_members_def)
  note read = read_member [OF this]
  show ?thesis unfolding embed_author_from_json_def embed_author_to_json_def read
    by (simp add: embed_author_members_def)
qed

lemma embed_author_object: "\<not> is_null (embed_author_to_json x)"
  unfolding embed_author_to_json_def by (rule write_members_object [OF one_value_distinct]) (simp_all add: embed_author_members_def)

interpretation embed_author: entity_object embed_author_to_json embed_author_from_json "\<lambda>_. True"
  by unfold_locales (simp_all add: embed_author_roundtrip embed_author_object)

record embed_footer =
  ef_text :: string
  ef_icon_url :: "string option"
  ef_proxy_icon_url :: "string option"

definition embed_footer_init :: embed_footer where
  "embed_footer_init = \<lparr>ef_text = [], ef_icon_url = None, ef_proxy_icon_url = None\<rparr>"

definition embed_footer_members :: "embed_footer \<Rightarrow> (string \<times> json option) list" where
  "embed_footer_members x = [
     (''text'', Some (JStr (ef_text x))), (''icon_url'', map_option JStr (ef_icon_url x)),
     (''proxy_icon_url'', map_option JStr (ef_proxy_icon_url x))]"

definition embed_footer_to_json :: "embed_footer \<Rightarrow> json" where
  "embed_footer_to_json x = write_members (embed_footer_members x)"

definition embed_footer_from_json :: "json \<Rightarrow> embed_footer option" where
  "embed_footer_from_json j = do {
     v0 \<leftarrow> deserialize to_str j ''text'' [];
     v1 \<leftarrow> deserialize (to_opt get_string) j ''icon_url'' None;
     v2 \<leftarrow> deserialize (to_opt get_string) j ''proxy_icon_url'' None;
     Some \<lparr>ef_text = v0, ef_icon_url = v1, ef_proxy_icon_url = v2\<rparr>
   }"

lemma embed_footer_roundtrip: "embed_footer_from_json (embed_footer_to_json x) = Some x"
proof -
  have "distinct (map fst (embed_footer_members x))" by (simp add: embed_footer_members_def)
  note read = read_member [OF this]
  show ?thesis unfolding embed_footer_from_json_def embed_footer_to_json_def read
    by (simp add: embed_footer_members_def)
qed

lemma embed_footer_object: "\<not> is_null (embed_footer_to_json x)"
  unfolding embed_footer_to_json_def by (rule write_members_object [OF one_value_distinct]) (simp_all add: embed_footer_members_def)

interpretation embed_footer: entity_object embed_footer_to_json embed_footer_from_json "\<lambda>_. True"
  by unfold_locales (simp_all add: embed_footer_roundtrip embed_footer_object)

record embed_field =
  efm_name :: string
  efm_value :: string
  efm_inline :: "bool option"

definition embed_field_init :: embed_field where
  "embed_field_init = \<lparr>efm_name = [], efm_value = [], efm_inline = None\<rparr>"

definition embed_field_members :: "embed_field \<Rightarrow> (string \<times> json option) list" where
  "embed_field_members x = [
     (''name'', Some (JStr (efm_name x))), (''value'', Some (JStr (efm_value x))),
     (''inline'', map_option JBool (efm_inline x))]"

definition embed_field_to_json :: "embed_field \<Rightarrow> json" where
  "embed_field_to_json x = write_members (embed_field_members x)"

definition embed_field_from_json :: "json \<Rightarrow> embed_field option" where
  "embed_field_from_json j = do {
     v0 \<leftarrow> deserialize to_str j ''name'' [];
     v1 \<leftarrow> deserialize to_str j ''value'' [];
     v2 \<leftarrow> deserialize to_opt_bool j ''inline'' None;
     Some \<lparr>efm_name = v0, efm_value = v1, efm_inline = v2\<rparr>
   }"

lemma embed_field_roundtrip: "embed_field_from_json (embed_field_to_json x) = Some x"
proof -
  have "distinct (map fst (embed_field_members x))" by (simp add: embed_field_members_def)
  note read = read_member [OF this]
  show ?thesis unfolding embed_field_from_json_def embed_field_to_json_def read
    by (simp add: embed_field_members_def)
qed

lemma embed_field_object: "\<not> is_null (embed_field_to_json x)"
  unfolding embed_field_to_json_def by (rule write_members_object [OF one_value_distinct]) (simp_all add: embed_field_members_def)

interpretation embed_field: entity_object embed_field_to_json embed_field_from_json "\<lambda>_. True"
  by unfold_locales (simp_all add: embed_field_roundtrip embed_field_object)

record embed =
  em_title :: "string option"
  em_description :: "string option"
  em_url :: "string option"
  em_timestamp :: "string option"
  em_color :: "u16 option"
  em_footer :: "embed_footer option"
  em_image :: "embed_image option"
  em_thumbnail :: "embed_image option"
  em_video :: "embed_image option"
  em_provider :: "embed_provider option"
  em_author :: "embed_author option"
  em_fields :: "embed_field list option"

definition embed_init :: embed where
  "embed_init = \<lparr>em_title = None, em_description = None, em_url = None, em_timestamp = None, em_color = None,
     em_footer = None, em_image = None, em_thumbnail = None, em_video = None, em_provider = None,
     em_author = None, em_fields = None\<rparr>"

definition embed_members :: "embed \<Rightarrow> (string \<times> json option) list" where
  "embed_members x = [
     (''title'', map_option JStr (em_title x)), (''description'', map_option JStr (em_description x)),
     (''url'', map_option JStr (em_url x)), (''timestamp'', map_option JStr (em_timestamp x)),
     (''color'', map_option juint (em_color x)), (''author'', map_option embed_author_to_json (em_author x)),
     (''footer'', map_option embed_footer_to_json (em_footer x)),
     (''thumbnail'', map_option embed_image_to_json (em_thumbnail x)),
     (''image'', map_option embed_image_to_json (em_image x)),
     (''provider'', map_option embed_provider_to_json (em_provider x)),
     (''video'', map_option embed_image_to_json (em_video x)),
     (''fields'', map_option (\<lambda>xs. JArr (map embed_field_to_json xs)) (em_fields x))]"

definition embed_to_json :: "embed \<Rightarrow> json" where
  "embed_to_json x = write_members (embed_members x)"

definition embed_from_json :: "json \<Rightarrow> embed option" where
  "embed_from_json j = do {
     v0 \<leftarrow> deserialize (to_opt get_string) j ''title'' None;
     v1 \<leftarrow> deserialize (to_opt get_string) j ''description'' None;
     v2 \<leftarrow> deserialize (to_opt get_string) j ''url'' None;
     v3 \<leftarrow> deserialize (to_opt get_string) j ''timestamp'' None;
     v4 \<leftarrow> deserialize to_opt_uint j ''color'' None;
     v5 \<leftarrow> deserialize (to_opt embed_author_from_json) j ''author'' None;
     v6 \<leftarrow> deserialize (to_opt embed_footer_from_json) j ''footer'' None;
     v7 \<leftarrow> deserialize (to_opt embed_image_from_json) j ''thumbnail'' None;
     v8 \<leftarrow> deserialize (to_opt embed_image_from_json) j ''image'' None;
     v9 \<leftarrow> deserialize (to_opt embed_provider_from_json) j ''provider'' None;
     v10 \<leftarrow> deserialize (to_opt embed_image_from_json) j ''video'' None;
     v11 \<leftarrow> deserialize (to_opt (get_vector embed_field_from_json)) j ''fields'' None;
     Some \<lparr>em_title = v0, em_description = v1, em_url = v2, em_timestamp = v3, em_color = v4, em_footer = v6,
       em_image = v8, em_thumbnail = v7, em_video = v10, em_provider = v9, em_author = v5, em_fields = v11\<rparr>
   }"

definition embed_ok :: "embed \<Rightarrow> bool" where
  "embed_ok x \<longleftrightarrow> pred_option (\<lambda>v. \<not> is_null (embed_image_to_json v)) (em_image x) \<and>
     pred_option (\<lambda>v. \<not> is_null (embed_image_to_json v)) (em_thumbnail x) \<and>
     pred_option (\<lambda>v. \<not> is_null (embed_image_to_json v)) (em_video x) \<and>
     pred_option (\<lambda>v. \<not> is_null (embed_provider_to_json v)) (em_provider x)"

lemma embed_roundtrip: "embed_ok x \<Longrightarrow> embed_from_json (embed_to_json x) = Some x"
proof -
  assume "embed_ok x"
  moreover have "distinct (map fst (embed_members x))" by (simp add: embed_members_def)
  note read = read_member [OF this]
  ultimately show ?thesis unfolding embed_from_json_def embed_to_json_def read
    by (simp add: embed_members_def embed_ok_def)
qed

lemma embed_null: "embed_from_json JNull = Some embed_init"
  by (simp add: embed_from_json_def embed_init_def deserialize_def)

interpretation embed: entity_codec embed_to_json embed_from_json embed_ok
  by unfold_locales (simp_all add: embed_roundtrip)

record sticker =
  st_id :: snowflake
  st_pack_id :: snowflake
  st_name :: string
  st_description :: "string option"
  st_tags :: string
  st_type :: u8
  st_format_type :: u8
  st_available :: bool
  st_guild_id :: snowflake
  st_user :: user
  st_sort_value :: i32

definition sticker_init :: sticker where
  "sticker_init = \<lparr>st_id = 0, st_pack_id = 0, st_name = [], st_description = None, st_tags = [], st_type = 0,
     st_format_type = 0, st_available = False, st_guild_id = 0, st_user = user_init, st_sort_value = 0\<rparr>"

definition sticker_members :: "sticker \<Rightarrow> (string \<times> json option) list" where
  "sticker_members x = [
     (''id'', Some (snowflake_to_json (st_id x))), (''pack_id'', Some (snowflake_to_json (st_pack_id x))),
     (''name'', Some (JStr (st_name x))), (''description'', map_option JStr (st_description x)),
     (''tags'', Some (JStr (st_tags x))), (''type'', Some (juint (st_type x))),
     (''format_type'', Some (juint (st_format_type x))), (''available'', Some (JBool (st_available x))),
     (''guild_id'', Some (snowflake_to_json (st_guild_id x))), (''sort_value'', Some (jsint (st_sort_value x))),
     (''user'', Some (user_to_json (st_user x)))]"

definition sticker_to_json :: "sticker \<Rightarrow> json" where
  "sticker_to_json x = write_members (sticker_members x)"

definition sticker_from_json :: "json \<Rightarrow> sticker option" where
  "sticker_from_json j = do {
     v0 \<leftarrow> deserialize (to_value get_snowflake) j ''id'' 0;
     v1 \<leftarrow> deserialize (to_value get_snowflake) j ''pack_id'' 0;
     v2 \<leftarrow> deserialize to_str j ''name'' [];
     v3 \<leftarrow> deserialize (to_opt get_string) j ''description'' None;
     v4 \<leftarrow> deserialize to_str j ''tags'' [];
     v5 \<leftarrow> deserialize (to_value get_enum) j ''type'' 0;
     v6 \<leftarrow> deserialize (to_value get_enum) j ''format_type'' 0;
     v7 \<leftarrow> deserialize to_bool j ''available'' False;
     v8 \<leftarrow> deserialize (to_value get_snowflake) j ''guild_id'' 0;
     v9 \<leftarrow> deserialize to_sint j ''sort_value'' 0;
     v10 \<leftarrow> deserialize (to_value user_from_json) j ''user'' user_init;
     Some \<lparr>st_id = v0, st_pack_id = v1, st_name = v2, st_description = v3, st_tags = v4, st_type = v5,
       st_format_type = v6, st_available = v7, st_guild_id = v8, st_user = v10, st_sort_value = v9\<rparr>
   }"

definition sticker_ok :: "sticker \<Rightarrow> bool" where
  "sticker_ok x \<longleftrightarrow> user_ok (st_user x)"

lemma sticker_roundtrip: "sticker_ok x \<Longrightarrow> sticker_from_json (sticker_to_json x) = Some x"
proof -
  assume "sticker_ok x"
  moreover have "distinct (map fst (sticker_members x))" by (simp add: sticker_members_def)
  note read = read_member [OF this]
  ultimately show ?thesis unfolding sticker_from_json_def sticker_to_json_def read
    by (simp add: sticker_members_def sticker_ok_def)
qed

lemma sticker_object: "\<not> is_null (sticker_to_json x)"
  unfolding sticker_to_json_def by (rule write_members_object [OF one_value_distinct]) (simp_all add: sticker_members_def)

interpretation sticker: entity_object sticker_to_json sticker_from_json sticker_ok
  by unfold_locales (simp_all add: sticker_roundtrip sticker_object)

record poll_media =
  pmo_text :: "string option"
  pmo_emoji :: "partial_emoji option"

definition poll_media_init :: poll_media where
  "poll_media_init = \<lparr>pmo_text = None, pmo_emoji = None\<rparr>"

definition poll_media_members :: "poll_media \<Rightarrow> (string \<times> json option) list" where
  "poll_media_members x = [
     (''text'', map_option JStr (pmo_text x)),
     (''emoji'', map_option (\<lambda>p. JObj (emoji_into p [])) (pmo_emoji x))]"

definition poll_media_to_json :: "poll_media \<Rightarrow> json" where
  "poll_media_to_json x = write_members (poll_media_members x)"

definition poll_media_from_json :: "json \<Rightarrow> poll_media option" where
  "poll_media_from_json j = do {
     v0 \<leftarrow> deserialize (to_opt get_string) j ''text'' None;
     v1 \<leftarrow> deserialize (to_opt emoji_from_json) j ''emoji'' None;
     Some \<lparr>pmo_text = v0, pmo_emoji = v1\<rparr>
   }"

lemma poll_media_roundtrip: "poll_media_from_json (poll_media_to_json x) = Some x"
proof -
  have "distinct (map fst (poll_media_members x))" by (simp add: poll_media_members_def)
  note read = read_member [OF this]
  show ?thesis unfolding poll_media_from_json_def poll_media_to_json_def read
    by (simp add: poll_media_members_def)
qed

lemma poll_media_null: "poll_media_from_json JNull = Some poll_media_init"
  by (simp add: poll_media_from_json_def poll_media_init_def deserialize_def)

interpretation poll_media: entity_codec poll_media_to_json poll_media_from_json "\<lambda>_. True"
  by unfold_locales (simp_all add: poll_media_roundtrip)

record poll_answer =
  pao_answer_id :: u32
  pao_poll_media :: poll_media

definition poll_answer_init :: poll_answer where
  "poll_answer_init = \<lparr>pao_answer_id = 0, pao_poll_media = poll_media_init\<rparr>"

definition poll_answer_members :: "poll_answer \<Rightarrow> (string \<times> json option) list" where
  "poll_answer_members x = [
     (''answer_id'', Some (juint (pao_answer_id x))),
     (''poll_media'', Some (poll_media_to_json (pao_poll_media x)))]"

definition poll_answer_to_json :: "poll_answer \<Rightarrow> json" where
  "poll_answer_to_json x = write_members (poll_answer_members x)"

definition poll_answer_from_json :: "json \<Rightarrow> poll_answer option" where
  "poll_answer_from_json j = do {
     v0 \<leftarrow> deserialize to_uint j ''answer_id'' 0;
     v1 \<leftarrow> deserialize (to_value poll_media_from_json) j ''poll_media'' poll_media_init;
     Some \<lparr>pao_answer_id = v0, pao_poll_media = v1\<rparr>
   }"

lemma poll_answer_roundtrip: "poll_answer_from_json (poll_answer_to_json x) = Some x"
proof -
  have "distinct (map fst (poll_answer_members x))" by (simp add: poll_answer_members_def)
  note read = read_member [OF this]
  show ?thesis unfolding poll_answer_from_json_def poll_answer_to_json_def read
    by (simp add: poll_answer_members_def poll_media.read_inner poll_media_null)
qed

lemma poll_answer_object: "\<not> is_null (poll_answer_to_json x)"
  unfolding poll_answer_to_json_def by (rule write_members_object [OF one_value_distinct]) (simp_all add: poll_answer_members_def)

interpretation poll_answer: entity_object poll_answer_to_json poll_answer_from_json "\<lambda>_. True"
  by unfold_locales (simp_all add: poll_answer_roundtrip poll_answer_object)

record poll =
  poo_question :: poll_media
  poo_answers :: "poll_answer list"
  poo_duration :: "u32 option"
  poo_allow_multiselect :: "bool option"
  poo_layout_type :: "u8 option"

definition poll_init :: poll where
  "poll_init = \<lparr>poo_question = poll_media_init, poo_answers = [], poo_duration = None, poo_allow_multiselect = None,
     poo_layout_type = None\<rparr>"

definition poll_members :: "poll \<Rightarrow> (string \<times> json option) list" where
  "poll_members x = [
     (''question'', Some (poll_media_to_json (poo_question x))),
     (''answers'', Some (JArr (map poll_answer_to_json (poo_answers x)))),
     (''duration'', map_option juint (poo_duration x)),
     (''allow_multiselect'', map_option JBool (poo_allow_multiselect x)),
     (''layout_type'', map_option juint (poo_layout_type x))]"

definition poll_to_json :: "poll \<Rightarrow> json" where
  "poll_to_json x = write_members (poll_members x)"

definition poll_from_json :: "json \<Rightarrow> poll option" where
  "poll_from_json j = do {
     v0 \<leftarrow> deserialize (to_value poll_media_from_json) j ''question'' poll_media_init;
     v1 \<leftarrow> deserialize (to_vector poll_answer_from_json) j ''answers'' [];
     v2 \<leftarrow> deserialize to_opt_uint j ''duration'' None;
     v3 \<leftarrow> deserialize to_opt_bool j ''allow_multiselect'' None;
     v4 \<leftarrow> deserialize (to_opt get_enum) j ''layout_type'' None;
     Some \<lparr>poo_question = v0, poo_answers = v1, poo_duration = v2, poo_allow_multiselect = v3, poo_layout_type = v4\<rparr>
   }"

lemma poll_roundtrip: "poll_from_json (poll_to_json x) = Some x"
proof -
  have "distinct (map fst (poll_members x))" by (simp add: poll_members_def)
  note read = read_member [OF this]
  show ?thesis unfolding poll_from_json_def poll_to_json_def read
    by (simp add: poll_members_def poll_media.read_inner poll_media_null)
qed

lemma poll_object: "\<not> is_null (poll_to_json x)"
  unfolding poll_to_json_def by (rule write_members_object [OF one_value_distinct]) (simp_all add: poll_members_def)

interpretation poll: entity_object poll_to_json poll_from_json "\<lambda>_. True"
  by unfold_locales (simp_all add: poll_roundtrip poll_object)

record allowed_mentions =
  am_parse :: "string list"
  am_roles :: "snowflake list"
  am_users :: "snowflake list"
  am_replied_user :: bool

definition allowed_mentions_init :: allowed_mentions where
  "allowed_mentions_init = \<lparr>am_parse = [], am_roles = [], am_users = [], am_replied_user = False\<rparr>"

definition allowed_mentions_members :: "allowed_mentions \<Rightarrow> (string \<times> json option) list" where
  "allowed_mentions_members x = [
     (''parse'', Some (JArr (map JStr (am_parse x)))),
     (''roles'', Some (JArr (map snowflake_to_json (am_roles x)))),
     (''users'', Some (JArr (map snowflake_to_json (am_users x)))),
     (''replied_user'', Some (JBool (am_replied_user x)))]"

definition allowed_mentions_to_json :: "allowed_mentions \<Rightarrow> json" where
  "allowed_mentions_to_json x = write_members (allowed_mentions_members x)"

definition allowed_mentions_from_json :: "json \<Rightarrow> allowed_mentions option" where
  "allowed_mentions_from_json j = do {
     v0 \<leftarrow> deserialize (to_vector get_string) j ''parse'' [];
     v1 \<leftarrow> deserialize (to_vector get_snowflake) j ''roles'' [];
     v2 \<leftarrow> deserialize (to_vector get_snowflake) j ''users'' [];
     v3 \<leftarrow> deserialize to_bool j ''replied_user'' False;
     Some \<lparr>am_parse = v0, am_roles = v1, am_users = v2, am_replied_user = v3\<rparr>
   }"

lemma allowed_mentions_roundtrip: "allowed_mentions_from_json (allowed_mentions_to_json x) = Some x"
proof -
  have "distinct (map fst (allowed_mentions_members x))" by (simp add: allowed_mentions_members_def)
  note read = read_member [OF this]
  show ?thesis unfolding allowed_mentions_from_json_def allowed_mentions_to_json_def read
    by (simp add: allowed_mentions_members_def)
qed

lemma allowed_mentions_object: "\<not> is_null (allowed_mentions_to_json x)"
  unfolding allowed_mentions_to_json_def by (rule write_members_object [OF one_value_distinct]) (simp_all add: allowed_mentions_members_def)

interpretation allowed_mentions: entity_object allowed_mentions_to_json allowed_mentions_from_json "\<lambda>_. True"
  by unfold_locales (simp_all add: allowed_mentions_roundtrip allowed_mentions_object)

record channel_mention =
  cm_id :: snowflake
  cm_guild_id :: snowflake
  cm_type :: u8
  cm_name :: string

definition channel_mention_init :: channel_mention where
  "channel_mention_init = \<lparr>cm_id = 0, cm_guild_id = 0, cm_type = 0, cm_name = []\<rparr>"

definition channel_mention_members :: "channel_mention \<Rightarrow> (string \<times> json option) list" where
  "channel_mention_members x = [
     (''id'', Some (snowflake_to_json (cm_id x))), (''guild_id'', Some (snowflake_to_json (cm_guild_id x))),
     (''type'', Some (juint (cm_type x))), (''name'', Some (JStr (cm_name x)))]"

definition channel_mention_to_json :: "channel_mention \<Rightarrow> json" where
  "channel_mention_to_json x = write_members (channel_mention_members x)"

definition channel_mention_from_json :: "json \<Rightarrow> channel_mention option" where
  "channel_mention_from_json j = do {
     v0 \<leftarrow> deserialize (to_value get_snowflake) j ''id'' 0;
     v1 \<leftarrow> deserialize (to_value get_snowflake) j ''guild_id'' 0;
     v2 \<leftarrow> deserialize (to_value get_enum) j ''type'' 0;
     v3 \<leftarrow> deserialize to_str j ''name'' [];
     Some \<lparr>cm_id = v0, cm_guild_id = v1, cm_type = v2, cm_name = v3\<rparr>
   }"

lemma channel_mention_roundtrip: "channel_mention_from_json (channel_mention_to_json x) = Some x"
proof -
  have "distinct (map fst (channel_mention_members x))" by (simp add: channel_mention_members_def)
  note read = read_member [OF this]
  show ?thesis unfolding channel_mention_from_json_def channel_mention_to_json_def read
    by (simp add: channel_mention_members_def)
qed

lemma channel_mention_object: "\<not> is_null (channel_mention_to_json x)"
  unfolding channel_mention_to_json_def by (rule write_members_object [OF one_value_distinct]) (simp_all add: channel_mention_members_def)

interpretation channel_mention: entity_object channel_mention_to_json channel_mention_from_json "\<lambda>_. True"
  by unfold_locales (simp_all add: channel_mention_roundtrip channel_mention_object)

record message_activity =
  ma_type :: u8
  ma_party_id :: "string option"

definition message_activity_init :: message_activity where
  "message_activity_init = \<lparr>ma_type = 0, ma_party_id = None\<rparr>"

definition message_activity_members :: "message_activity \<Rightarrow> (string \<times> json option) list" where
  "message_activity_members x = [
     (''type'', Some (juint (ma_type x))), (''party_id'', map_option JStr (ma_party_id x))]"

definition message_activity_to_json :: "message_activity \<Rightarrow> json" where
  "message_activity_to_json x = write_members (message_activity_members x)"

definition message_activity_from_json :: "json \<Rightarrow> message_activity option" where
  "message_activity_from_json j = do {
     v0 \<leftarrow> deserialize (to_value get_enum) j ''type'' 0;
     v1 \<leftarrow> deserialize (to_opt get_string) j ''party_id'' None;
     Some \<lparr>ma_type = v0, ma_party_id = v1\<rparr>
   }"

lemma message_activity_roundtrip: "message_activity_from_json (message_activity_to_json x) = Some x"
proof -
  have "distinct (map fst (message_activity_members x))" by (simp add: message_activity_members_def)
  note read = read_member [OF this]
  show ?thesis unfolding message_activity_from_json_def message_activity_to_json_def read
    by (simp add: message_activity_members_def)
qed

lemma message_activity_object: "\<not> is_null (message_activity_to_json x)"
  unfolding message_activity_to_json_def by (rule write_members_object [OF one_value_distinct]) (simp_all add: message_activity_members_def)

interpretation message_activity: entity_object message_activity_to_json message_activity_from_json "\<lambda>_. True"
  by unfold_locales (simp_all add: message_activity_roundtrip message_activity_object)

record message_application =
  mae_id :: snowflake
  mae_name :: string
  mae_icon :: "string option"
  mae_description :: string
  mae_cover_image :: "string option"

definition message_application_init :: message_application where
  "message_application_init = \<lparr>mae_id = 0, mae_name = [], mae_icon = None, mae_description = [], mae_cover_image = None\<rparr>"

definition message_application_members :: "message_application \<Rightarrow> (string \<times> json option) list" where
  "message_application_members x = [
     (''id'', Some (snowflake_to_json (mae_id x))), (''name'', Some (JStr (mae_name x))),
     (''icon'', map_option JStr (mae_icon x)), (''description'', Some (JStr (mae_description x))),
     (''cover_image'', map_option JStr (mae_cover_image x))]"

definition message_application_to_json :: "message_application \<Rightarrow> json" where
  "message_application_to_json x = write_members (message_application_members x)"

definition message_application_from_json :: "json \<Rightarrow> message_application option" where
  "message_application_from_json j = do {
     v0 \<leftarrow> deserialize (to_value get_snowflake) j ''id'' 0;
     v1 \<leftarrow> deserialize to_str j ''name'' [];
     v2 \<leftarrow> deserialize (to_opt get_string) j ''icon'' None;
     v3 \<leftarrow> deserialize to_str j ''description'' [];
     v4 \<leftarrow> deserialize (to_opt get_string) j ''cover_image'' None;
     Some \<lparr>mae_id = v0, mae_name = v1, mae_icon = v2, mae_description = v3, mae_cover_image = v4\<rparr>
   }"

lemma message_application_roundtrip: "message_application_from_json (message_application_to_json x) = Some x"
proof -
  have "distinct (map fst (message_application_members x))" by (simp add: message_application_members_def)
  note read = read_member [OF this]
  show ?thesis unfolding message_application_from_json_def message_application_to_json_def read
    by (simp add: message_application_members_def)
qed

lemma message_application_object: "\<not> is_null (message_application_to_json x)"
  unfolding message_application_to_json_def by (rule write_members_object [OF one_value_distinct]) (simp_all add: message_application_members_def)

interpretation message_application: entity_object message_application_to_json message_application_from_json "\<lambda>_. True"
  by unfold_locales (simp_all add: message_application_roundtrip message_application_object)

record message_interaction =
  mi_id :: snowflake
  mi_type :: u8
  mi_name :: string
  mi_user :: user
  mi_member :: "partial_member option"

definition message_interaction_init :: message_interaction where
  "message_interaction_init = \<lparr>mi_id = 0, mi_type = 0, mi_name = [], mi_user = user_init, mi_member = None\<rparr>"

definition message_interaction_members :: "message_interaction \<Rightarrow> (string \<times> json option) list" where
  "message_interaction_members x = [
     (''id'', Some (snowflake_to_json (mi_id x))), (''type'', Some (juint (mi_type x))),
     (''name'', Some (JStr (mi_name x))), (''user'', Some (user_to_json (mi_user x))),
     (''member'', map_option partial_member_to_json (mi_member x))]"

definition message_interaction_to_json :: "message_interaction \<Rightarrow> json" where
  "message_interaction_to_json x = write_members (message_interaction_members x)"

definition message_interaction_from_json :: "json \<Rightarrow> message_interaction option" where
  "message_interaction_from_json j = do {
     v0 \<leftarrow> deserialize (to_value get_snowflake) j ''id'' 0;
     v1 \<leftarrow> deserialize (to_value get_enum) j ''type'' 0;
     v2 \<leftarrow> deserialize to_str j ''name'' [];
     v3 \<leftarrow> deserialize (to_value user_from_json) j ''user'' user_init;
     v4 \<leftarrow> deserialize (to_opt partial_member_from_json) j ''member'' None;
     Some \<lparr>mi_id = v0, mi_type = v1, mi_name = v2, mi_user = v3, mi_member = v4\<rparr>
   }"

definition message_interaction_ok :: "message_interaction \<Rightarrow> bool" where
  "message_interaction_ok x \<longleftrightarrow> user_ok (mi_user x) \<and> pred_option partial_member_ok (mi_member x)"

lemma message_interaction_roundtrip: "message_interaction_ok x \<Longrightarrow> message_interaction_from_json (message_interaction_to_json x) = Some x"
proof -
  assume "message_interaction_ok x"
  moreover have "distinct (map fst (message_interaction_members x))" by (simp add: message_interaction_members_def)
  note read = read_member [OF this]
  ultimately show ?thesis unfolding message_interaction_from_json_def message_interaction_to_json_def read
    by (simp add: message_interaction_members_def message_interaction_ok_def)
qed

lemma message_interaction_object: "\<not> is_null (message_interaction_to_json x)"
  unfolding message_interaction_to_json_def by (rule write_members_object [OF one_value_distinct]) (simp_all add: message_interaction_members_def)

interpretation message_interaction: entity_object message_interaction_to_json message_interaction_from_json message_interaction_ok
  by unfold_locales (simp_all add: message_interaction_roundtrip message_interaction_object)

record message_reference =
  mr_message_id :: "snowflake option"
  mr_channel_id :: "snowflake option"
  mr_guild_id :: "snowflake option"
  mr_fail_if_not_exists :: "bool option"

definition message_reference_init :: message_reference where
  "message_reference_init = \<lparr>mr_message_id = None, mr_channel_id = None, mr_guild_id = None, mr_fail_if_not_exists = None\<rparr>"

definition message_reference_members :: "message_reference \<Rightarrow> (string \<times> json option) list" where
  "message_reference_members x = [
     (''message_id'', map_option snowflake_to_json (mr_message_id x)),
     (''channel_id'', map_option snowflake_to_json (mr_channel_id x)),
     (''guild_id'', map_option snowflake_to_json (mr_guild_id x)),
     (''fail_if_not_exists'', map_option JBool (mr_fail_if_not_exists x))]"

definition message_reference_to_json :: "message_reference \<Rightarrow> json" where
  "message_reference_to_json x = write_members (message_reference_members x)"

definition message_reference_from_json :: "json \<Rightarrow> message_reference option" where
  "message_reference_from_json j = do {
     v0 \<leftarrow> deserialize (to_opt get_snowflake) j ''message_id'' None;
     v1 \<leftarrow> deserialize (to_opt get_snowflake) j ''channel_id'' None;
     v2 \<leftarrow> deserialize (to_opt get_snowflake) j ''guild_id'' None;
     v3 \<leftarrow> deserialize to_opt_bool j ''fail_if_not_exists'' None;
     Some \<lparr>mr_message_id = v0, mr_channel_id = v1, mr_guild_id = v2, mr_fail_if_not_exists = v3\<rparr>
   }"

lemma message_reference_roundtrip: "message_reference_from_json (message_reference_to_json x) = Some x"
proof -
  have "distinct (map fst (message_reference_members x))" by (simp add: message_reference_members_def)
  note read = read_member [OF this]
  show ?thesis unfolding message_reference_from_json_def message_reference_to_json_def read
    by (simp add: message_reference_members_def)
qed

lemma message_reference_null: "message_reference_from_json JNull = Some message_reference_init"
  by (simp add: message_reference_from_json_def message_reference_init_def deserialize_def)

interpretation message_reference: entity_codec message_reference_to_json message_reference_from_json "\<lambda>_. True"
  by unfold_locales (simp_all add: message_reference_roundtrip)

end
