(* ===== verification/Entity_Guild.thy ===== *)
theory Entity_Guild
  imports Entity_Message
begin

text \<open>
  Guilds and what belongs to them: \<^verbatim>\<open>src/guild.cpp\<close>, \<^verbatim>\<open>guild_feature.cpp\<close>, \<^verbatim>\<open>partial_guild.cpp\<close>,
  \<^verbatim>\<open>guild_preview.cpp\<close>, \<^verbatim>\<open>guild_scheduled_event.cpp\<close>, \<^verbatim>\<open>guild_interaction.cpp\<close>, \<^verbatim>\<open>stage_instance.cpp\<close>,
  \<^verbatim>\<open>voice_state.cpp\<close>, \<^verbatim>\<open>invite.cpp\<close> and \<^verbatim>\<open>entitlement.cpp\<close>. A guild does not write its members, and
  the feature \<open>Commerce\<close> has no textual form.
\<close>

datatype guild_feature =
    GF_AnimatedBanner | GF_AnimatedIcon | GF_AutoModeration | GF_Banner | GF_Commerce | GF_Community |
    GF_CreatorMonetizableProvisional | GF_CreatorStorePage | GF_DeveloperSupportServer | GF_Discoverable |
    GF_Featurable | GF_InvitesDisabled | GF_InviteSplash | GF_MemberVerificationGateEnabled |
    GF_MonetizationEnabled | GF_MoreStickers | GF_News | GF_Partnered | GF_PreviewEnabled | GF_PrivateThreads |
    GF_RoleIcons | GF_RoleSubscriptionsAvailableForPurchase | GF_RoleSubscriptionsEnabled |
    GF_TicketedEventsEnabled | GF_VanityUrl | GF_Verified | GF_VipRegions | GF_WelcomeScreenEnabled | GF_Unknown

fun guild_feature_to_str :: "guild_feature \<Rightarrow> string" where
  "guild_feature_to_str GF_AnimatedBanner = ''ANIMATED_BANNER''"
| "guild_feature_to_str GF_AnimatedIcon = ''ANIMATED_ICON''"
| "guild_feature_to_str GF_AutoModeration = ''AUTO_MODERATION''"
| "guild_feature_to_str GF_Banner = ''BANNER''"
| "guild_feature_to_str GF_Community = ''COMMUNITY''"
| "guild_feature_to_str GF_CreatorMonetizableProvisional = ''CREATOR_MONETIZABLE_PROVISIONAL''"
| "guild_feature_to_str GF_CreatorStorePage = ''CREATOR_STORE_PAGE''"
| "guild_feature_to_str GF_DeveloperSupportServer = ''DEVELOPER_SUPPORT_SERVER''"
| "guild_feature_to_str GF_Discoverable = ''DISCOVERABLE''"
| "guild_feature_to_str GF_Featurable = ''FEATURABLE''"
| "guild_feature_to_str GF_InvitesDisabled = ''INVITES_DISABLED''"
| "guild_feature_to_str GF_InviteSplash = ''INVITE_SPLASH''"
| "guild_feature_to_str GF_MemberVerificationGateEnabled = ''MEMBER_VERIFICATION_GATE_ENABLED''"
| "guild_feature_to_str GF_MonetizationEnabled = ''MONETIZATION_ENABLED''"
| "guild_feature_to_str GF_MoreStickers = ''MORE_STICKERS''"
| "guild_feature_to_str GF_News = ''NEWS''"
| "guild_feature_to_str GF_Partnered = ''PARTNERED''"
| "guild_feature_to_str GF_PreviewEnabled = ''PREVIEW_ENABLED''"
| "guild_feature_to_str GF_PrivateThreads = ''PRIVATE_THREADS''"
| "guild_feature_to_str GF_RoleIcons = ''ROLE_ICONS''"
| "guild_feature_to_str GF_RoleSubscriptionsAvailableForPurchase = ''ROLE_SUBSCRIPTIONS_AVAILABLE_FOR_PURCHASE''"
| "guild_feature_to_str GF_RoleSubscriptionsEnabled = ''ROLE_SUBSCRIPTIONS_ENABLED''"
| "guild_feature_to_str GF_TicketedEventsEnabled = ''TICKETED_EVENTS_ENABLED''"
| "guild_feature_to_str GF_VanityUrl = ''VANITY_URL''"
| "guild_feature_to_str GF_Verified = ''VERIFIED''"
| "guild_feature_to_str GF_VipRegions = ''VIP_REGIONS''"
| "guild_feature_to_str GF_WelcomeScreenEnabled = ''WELCOME_SCREEN_ENABLED''"
| "guild_feature_to_str _ = ''UNKNOWN''"

definition guild_feature_from_str :: "string \<Rightarrow> guild_feature" where
  "guild_feature_from_str s =
     (if s = ''ANIMATED_BANNER'' then GF_AnimatedBanner else
      if s = ''ANIMATED_ICON'' then GF_AnimatedIcon else
      if s = ''AUTO_MODERATION'' then GF_AutoModeration else
      if s = ''BANNER'' then GF_Banner else
      if s = ''COMMUNITY'' then GF_Community else
      if s = ''CREATOR_MONETIZABLE_PROVISIONAL'' then GF_CreatorMonetizableProvisional else
      if s = ''CREATOR_STORE_PAGE'' then GF_CreatorStorePage else
      if s = ''DEVELOPER_SUPPORT_SERVER'' then GF_DeveloperSupportServer else
      if s = ''DISCOVERABLE'' then GF_Discoverable else
      if s = ''FEATURABLE'' then GF_Featurable else
      if s = ''INVITES_DISABLED'' then GF_InvitesDisabled else
      if s = ''INVITE_SPLASH'' then GF_InviteSplash else
      if s = ''MEMBER_VERIFICATION_GATE_ENABLED'' then GF_MemberVerificationGateEnabled else
      if s = ''MONETIZATION_ENABLED'' then GF_MonetizationEnabled else
      if s = ''MORE_STICKERS'' then GF_MoreStickers else
      if s = ''NEWS'' then GF_News else
      if s = ''PARTNERED'' then GF_Partnered else
      if s = ''PREVIEW_ENABLED'' then GF_PreviewEnabled else
      if s = ''PRIVATE_THREADS'' then GF_PrivateThreads else
      if s = ''ROLE_ICONS'' then GF_RoleIcons else
      if s = ''ROLE_SUBSCRIPTIONS_AVAILABLE_FOR_PURCHASE'' then GF_RoleSubscriptionsAvailableForPurchase else
      if s = ''ROLE_SUBSCRIPTIONS_ENABLED'' then GF_RoleSubscriptionsEnabled else
      if s = ''TICKETED_EVENTS_ENABLED'' then GF_TicketedEventsEnabled else
      if s = ''VANITY_URL'' then GF_VanityUrl else
      if s = ''VERIFIED'' then GF_Verified else
      if s = ''VIP_REGIONS'' then GF_VipRegions else
      if s = ''WELCOME_SCREEN_ENABLED'' then GF_WelcomeScreenEnabled else
      GF_Unknown)"

definition guild_feature_to_json :: "guild_feature \<Rightarrow> json" where
  "guild_feature_to_json x = JStr (guild_feature_to_str x)"

definition guild_feature_from_json :: "json \<Rightarrow> guild_feature option" where
  "guild_feature_from_json j = (case j of JStr s \<Rightarrow> Some (guild_feature_from_str s) | _ \<Rightarrow> Some GF_AnimatedBanner)"

definition guild_feature_ok :: "guild_feature \<Rightarrow> bool" where
  "guild_feature_ok x \<longleftrightarrow> x \<noteq> GF_Commerce"

interpretation guild_feature: entity_object guild_feature_to_json guild_feature_from_json guild_feature_ok
proof unfold_locales
  show "guild_feature_from_json (guild_feature_to_json x) = Some x" if "guild_feature_ok x" for x
    using that by (cases x) (simp_all add: guild_feature_to_json_def guild_feature_from_json_def guild_feature_from_str_def guild_feature_ok_def)
qed (simp add: guild_feature_to_json_def)

record unavailable_guild =
  ug_id :: snowflake
  ug_unavailable :: bool

definition unavailable_guild_init :: unavailable_guild where
  "unavailable_guild_init = \<lparr>ug_id = 0, ug_unavailable = False\<rparr>"

definition unavailable_guild_members :: "unavailable_guild \<Rightarrow> (string \<times> json option) list" where
  "unavailable_guild_members x = [
     (''id'', Some (snowflake_to_json (ug_id x))), (''unavailable'', Some (JBool (ug_unavailable x)))]"

definition unavailable_guild_to_json :: "unavailable_guild \<Rightarrow> json" where
  "unavailable_guild_to_json x = write_members (unavailable_guild_members x)"

definition unavailable_guild_from_json :: "json \<Rightarrow> unavailable_guild option" where
  "unavailable_guild_from_json j = do {
     v0 \<leftarrow> deserialize (to_value get_snowflake) j ''id'' 0;
     v1 \<leftarrow> deserialize to_bool j ''unavailable'' False;
     Some \<lparr>ug_id = v0, ug_unavailable = v1\<rparr>
   }"

lemma unavailable_guild_roundtrip: "unavailable_guild_from_json (unavailable_guild_to_json x) = Some x"
proof -
  have "distinct (map fst (unavailable_guild_members x))" by (simp add: unavailable_guild_members_def)
  note read = read_member [OF this]
  show ?thesis unfolding unavailable_guild_from_json_def unavailable_guild_to_json_def read
    by (simp add: unavailable_guild_members_def)
qed

lemma unavailable_guild_object: "\<not> is_null (unavailable_guild_to_json x)"
  unfolding unavailable_guild_to_json_def by (rule write_members_object [OF one_value_distinct]) (simp_all add: unavailable_guild_members_def)

interpretation unavailable_guild: entity_object unavailable_guild_to_json unavailable_guild_from_json "\<lambda>_. True"
  by unfold_locales (simp_all add: unavailable_guild_roundtrip unavailable_guild_object)

record voice_state =
  vs_guild_id :: "snowflake option"
  vs_channel_id :: "snowflake option"
  vs_user_id :: snowflake
  vs_member :: "guild_member option"
  vs_session_id :: string
  vs_deaf :: bool
  vs_mute :: bool
  vs_self_deaf :: bool
  vs_self_mute :: bool
  vs_self_stream :: "bool option"
  vs_self_video :: bool
  vs_suppress :: bool
  vs_request_to_speak_timestamp :: "string option"

definition voice_state_init :: voice_state where
  "voice_state_init = \<lparr>vs_guild_id = None, vs_channel_id = None, vs_user_id = 0, vs_member = None, vs_session_id = [],
     vs_deaf = False, vs_mute = False, vs_self_deaf = False, vs_self_mute = False, vs_self_stream = None,
     vs_self_video = False, vs_suppress = False, vs_request_to_speak_timestamp = None\<rparr>"

definition voice_state_members :: "voice_state \<Rightarrow> (string \<times> json option) list" where
  "voice_state_members x = [
     (''guild_id'', map_option snowflake_to_json (vs_guild_id x)),
     (''channel_id'', map_option snowflake_to_json (vs_channel_id x)),
     (''user_id'', Some (snowflake_to_json (vs_user_id x))),
     (''member'', map_option guild_member_to_json (vs_member x)),
     (''session_id'', Some (JStr (vs_session_id x))), (''deaf'', Some (JBool (vs_deaf x))),
     (''mute'', Some (JBool (vs_mute x))), (''self_deaf'', Some (JBool (vs_self_deaf x))),
     (''self_mute'', Some (JBool (vs_self_mute x))), (''self_stream'', map_option JBool (vs_self_stream x)),
     (''self_video'', Some (JBool (vs_self_video x))), (''suppress'', Some (JBool (vs_suppress x))),
     (''request_to_speak_timestamp'', map_option JStr (vs_request_to_speak_timestamp x))]"

definition voice_state_to_json :: "voice_state \<Rightarrow> json" where
  "voice_state_to_json x = write_members (voice_state_members x)"

definition voice_state_from_json :: "json \<Rightarrow> voice_state option" where
  "voice_state_from_json j = do {
     v0 \<leftarrow> deserialize (to_opt get_snowflake) j ''guild_id'' None;
     v1 \<leftarrow> deserialize (to_opt get_snowflake) j ''channel_id'' None;
     v2 \<leftarrow> deserialize (to_value get_snowflake) j ''user_id'' 0;
     v3 \<leftarrow> deserialize (to_opt guild_member_from_json) j ''member'' None;
     v4 \<leftarrow> deserialize to_str j ''session_id'' [];
     v5 \<leftarrow> deserialize to_bool j ''deaf'' False;
     v6 \<leftarrow> deserialize to_bool j ''mute'' False;
     v7 \<leftarrow> deserialize to_bool j ''self_deaf'' False;
     v8 \<leftarrow> deserialize to_bool j ''self_mute'' False;
     v9 \<leftarrow> deserialize to_opt_bool j ''self_stream'' None;
     v10 \<leftarrow> deserialize to_bool j ''self_video'' False;
     v11 \<leftarrow> deserialize to_bool j ''suppress'' False;
     v12 \<leftarrow> deserialize (to_opt get_string) j ''request_to_speak_timestamp'' None;
     Some \<lparr>vs_guild_id = v0, vs_channel_id = v1, vs_user_id = v2, vs_member = v3, vs_session_id = v4, vs_deaf = v5,
       vs_mute = v6, vs_self_deaf = v7, vs_self_mute = v8, vs_self_stream = v9, vs_self_video = v10,
       vs_suppress = v11, vs_request_to_speak_timestamp = v12\<rparr>
   }"

definition voice_state_ok :: "voice_state \<Rightarrow> bool" where
  "voice_state_ok x \<longleftrightarrow> pred_option guild_member_ok (vs_member x)"

lemma voice_state_roundtrip: "voice_state_ok x \<Longrightarrow> voice_state_from_json (voice_state_to_json x) = Some x"
proof -
  assume "voice_state_ok x"
  moreover have "distinct (map fst (voice_state_members x))" by (simp add: voice_state_members_def)
  note read = read_member [OF this]
  ultimately show ?thesis unfolding voice_state_from_json_def voice_state_to_json_def read
    by (simp add: voice_state_members_def voice_state_ok_def)
qed

lemma voice_state_object: "\<not> is_null (voice_state_to_json x)"
  unfolding voice_state_to_json_def by (rule write_members_object [OF one_value_distinct]) (simp_all add: voice_state_members_def)

interpretation voice_state: entity_object voice_state_to_json voice_state_from_json voice_state_ok
  by unfold_locales (simp_all add: voice_state_roundtrip voice_state_object)

record guild =
  gu_id :: snowflake
  gu_name :: string
  gu_icon :: "string option"
  gu_icon_hash :: "string option"
  gu_splash :: "string option"
  gu_discovery_splash :: "string option"
  gu_owner :: bool
  gu_owner_id :: snowflake
  gu_permissions :: string
  gu_region :: "string option"
  gu_afk_channel_id :: "snowflake option"
  gu_afk_timeout :: u32
  gu_widget_enabled :: bool
  gu_widget_channel_id :: "snowflake option"
  gu_verification_level :: u8
  gu_default_message_notifications :: u8
  gu_explicit_content_filter :: u8
  gu_roles :: "role list"
  gu_emojis :: "guild_emoji list"
  gu_features :: "guild_feature list"
  gu_mfa_level :: u8
  gu_application_id :: "snowflake option"
  gu_system_channel_id :: "snowflake option"
  gu_system_channel_flags :: u8
  gu_rules_channel_id :: "snowflake option"
  gu_max_presences :: "u64 option"
  gu_vanity_url_code :: string
  gu_description :: string
  gu_banner :: string
  gu_premium_tier :: u8
  gu_premium_subscription_count :: u64
  gu_preferred_locale :: string
  gu_public_updates_channel_id :: "snowflake option"
  gu_max_video_channel_users :: u32
  gu_approximate_member_count :: u32
  gu_approximate_presence_count :: u32
  gu_nsfw_level :: u8
  gu_stickers :: "sticker list"
  gu_premium_progress_bar_enabled :: bool
  gu_safety_alerts_channel_id :: "snowflake option"
  gu_members :: "guild_member list"
  gu_voice_states :: "voice_state list"

definition guild_init :: guild where
  "guild_init = \<lparr>gu_id = 0, gu_name = [], gu_icon = None, gu_icon_hash = None, gu_splash = None, gu_discovery_splash = None,
     gu_owner = False, gu_owner_id = 0, gu_permissions = [], gu_region = None, gu_afk_channel_id = None,
     gu_afk_timeout = 0, gu_widget_enabled = False, gu_widget_channel_id = None, gu_verification_level = 0,
     gu_default_message_notifications = 0, gu_explicit_content_filter = 0, gu_roles = [], gu_emojis = [],
     gu_features = [], gu_mfa_level = 0, gu_application_id = None, gu_system_channel_id = None,
     gu_system_channel_flags = 0, gu_rules_channel_id = None, gu_max_presences = None, gu_vanity_url_code = [],
     gu_description = [], gu_banner = [], gu_premium_tier = 0, gu_premium_subscription_count = 0,
     gu_preferred_locale = [], gu_public_updates_channel_id = None, gu_max_video_channel_users = 0,
     gu_approximate_member_count = 0, gu_approximate_presence_count = 0, gu_nsfw_level = 0, gu_stickers = [],
     gu_premium_progress_bar_enabled = False, gu_safety_alerts_channel_id = None, gu_members = [],
     gu_voice_states = []\<rparr>"

definition guild_members :: "guild \<Rightarrow> (string \<times> json option) list" where
  "guild_members x = [
     (''id'', Some (snowflake_to_json (gu_id x))), (''name'', Some (JStr (gu_name x))),
     (''icon'', map_option JStr (gu_icon x)), (''icon_hash'', map_option JStr (gu_icon_hash x)),
     (''splash'', map_option JStr (gu_splash x)),
     (''discovery_splash'', map_option JStr (gu_discovery_splash x)), (''owner'', Some (JBool (gu_owner x))),
     (''owner_id'', Some (snowflake_to_json (gu_owner_id x))),
     (''permissions'', Some (JStr (gu_permissions x))), (''region'', map_option JStr (gu_region x)),
     (''afk_channel_id'', map_option snowflake_to_json (gu_afk_channel_id x)),
     (''afk_timeout'', Some (juint (gu_afk_timeout x))),
     (''widget_enabled'', Some (JBool (gu_widget_enabled x))),
     (''widget_channel_id'', map_option snowflake_to_json (gu_widget_channel_id x)),
     (''verification_level'', Some (juint (gu_verification_level x))),
     (''default_message_notifications'', Some (juint (gu_default_message_notifications x))),
     (''explicit_content_filter'', Some (juint (gu_explicit_content_filter x))),
     (''roles'', Some (JArr (map role_to_json (gu_roles x)))),
     (''emojis'', Some (JArr (map guild_emoji_to_json (gu_emojis x)))),
     (''features'', Some (JArr (map guild_feature_to_json (gu_features x)))),
     (''mfa_level'', Some (juint (gu_mfa_level x))),
     (''application_id'', map_option snowflake_to_json (gu_application_id x)),
     (''system_channel_id'', map_option snowflake_to_json (gu_system_channel_id x)),
     (''system_channel_flags'', Some (juint (gu_system_channel_flags x))),
     (''rules_channel_id'', map_option snowflake_to_json (gu_rules_channel_id x)),
     (''max_presences'', map_option juint (gu_max_presences x)),
     (''vanity_url_code'', Some (JStr (gu_vanity_url_code x))),
     (''description'', Some (JStr (gu_description x))), (''banner'', Some (JStr (gu_banner x))),
     (''premium_tier'', Some (juint (gu_premium_tier x))),
     (''premium_subscription_count'', Some (juint (gu_premium_subscription_count x))),
     (''preferred_locale'', Some (JStr (gu_preferred_locale x))),
     (''public_updates_channel_id'', map_option snowflake_to_json (gu_public_updates_channel_id x)),
     (''max_video_channel_users'', Some (juint (gu_max_video_channel_users x))),
     (''approximate_member_count'', Some (juint (gu_approximate_member_count x))),
     (''approximate_presence_count'', Some (juint (gu_approximate_presence_count x))),
     (''nsfw_level'', Some (juint (gu_nsfw_level x))),
     (''stickers'', Some (JArr (map sticker_to_json (gu_stickers x)))),
     (''premium_progress_bar_enabled'', Some (JBool (gu_premium_progress_bar_enabled x))),
     (''safety_alerts_channel_id'', map_option snowflake_to_json (gu_safety_alerts_channel_id x)),
     (''voice_states'', Some (JArr (map voice_state_to_json (gu_voice_states x))))]"

definition guild_to_json :: "guild \<Rightarrow> json" where
  "guild_to_json x = write_members (guild_members x)"

definition guild_from_json :: "json \<Rightarrow> guild option" where
  "guild_from_json j = do {
     v0 \<leftarrow> deserialize (to_value get_snowflake) j ''id'' 0;
     v1 \<leftarrow> deserialize to_str j ''name'' [];
     v2 \<leftarrow> deserialize (to_opt get_string) j ''icon'' None;
     v3 \<leftarrow> deserialize (to_opt get_string) j ''icon_hash'' None;
     v4 \<leftarrow> deserialize (to_opt get_string) j ''splash'' None;
     v5 \<leftarrow> deserialize (to_opt get_string) j ''discovery_splash'' None;
     v6 \<leftarrow> deserialize to_bool j ''owner'' False;
     v7 \<leftarrow> deserialize (to_value get_snowflake) j ''owner_id'' 0;
     v8 \<leftarrow> deserialize to_str j ''permissions'' [];
     v9 \<leftarrow> deserialize (to_opt get_string) j ''region'' None;
     v10 \<leftarrow> deserialize (to_opt get_snowflake) j ''afk_channel_id'' None;
     v11 \<leftarrow> deserialize to_uint j ''afk_timeout'' 0;
     v12 \<leftarrow> deserialize to_bool j ''widget_enabled'' False;
     v13 \<leftarrow> deserialize (to_opt get_snowflake) j ''widget_channel_id'' None;
     v14 \<leftarrow> deserialize (to_value get_enum) j ''verification_level'' 0;
     v15 \<leftarrow> deserialize (to_value get_enum) j ''default_message_notifications'' 0;
     v16 \<leftarrow> deserialize (to_value get_enum) j ''explicit_content_filter'' 0;
     v17 \<leftarrow> deserialize (to_vector role_from_json) j ''roles'' [];
     v18 \<leftarrow> deserialize (to_vector guild_emoji_from_json) j ''emojis'' [];
     v19 \<leftarrow> deserialize (to_vector guild_feature_from_json) j ''features'' [];
     v20 \<leftarrow> deserialize (to_value get_enum) j ''mfa_level'' 0;
     v21 \<leftarrow> deserialize (to_opt get_snowflake) j ''application_id'' None;
     v22 \<leftarrow> deserialize (to_opt get_snowflake) j ''system_channel_id'' None;
     v23 \<leftarrow> deserialize (to_value get_enum) j ''system_channel_flags'' 0;
     v24 \<leftarrow> deserialize (to_opt get_snowflake) j ''rules_channel_id'' None;
     v25 \<leftarrow> deserialize to_opt_u64 j ''max_presences'' None;
     v26 \<leftarrow> deserialize to_str j ''vanity_url_code'' [];
     v27 \<leftarrow> deserialize to_str j ''description'' [];
     v28 \<leftarrow> deserialize to_str j ''banner'' [];
     v29 \<leftarrow> deserialize (to_value get_enum) j ''premium_tier'' 0;
     v30 \<leftarrow> deserialize to_u64 j ''premium_subscription_count'' 0;
     v31 \<leftarrow> deserialize to_str j ''preferred_locale'' [];
     v32 \<leftarrow> deserialize (to_opt get_snowflake) j ''public_updates_channel_id'' None;
     v33 \<leftarrow> deserialize to_uint j ''max_video_channel_users'' 0;
     v34 \<leftarrow> deserialize to_uint j ''approximate_member_count'' 0;
     v35 \<leftarrow> deserialize to_uint j ''approximate_presence_count'' 0;
     v36 \<leftarrow> deserialize (to_value get_enum) j ''nsfw_level'' 0;
     v37 \<leftarrow> deserialize (to_vector sticker_from_json) j ''stickers'' [];
     v38 \<leftarrow> deserialize to_bool j ''premium_progress_bar_enabled'' False;
     v39 \<leftarrow> deserialize (to_opt get_snowflake) j ''safety_alerts_channel_id'' None;
     v40 \<leftarrow> deserialize (to_vector guild_member_from_json) j ''members'' [];
     v41 \<leftarrow> deserialize (to_vector voice_state_from_json) j ''voice_states'' [];
     Some \<lparr>gu_id = v0, gu_name = v1, gu_icon = v2, gu_icon_hash = v3, gu_splash = v4, gu_discovery_splash = v5,
       gu_owner = v6, gu_owner_id = v7, gu_permissions = v8, gu_region = v9, gu_afk_channel_id = v10,
       gu_afk_timeout = v11, gu_widget_enabled = v12, gu_widget_channel_id = v13, gu_verification_level = v14,
       gu_default_message_notifications = v15, gu_explicit_content_filter = v16, gu_roles = v17,
       gu_emojis = v18, gu_features = v19, gu_mfa_level = v20, gu_application_id = v21,
       gu_system_channel_id = v22, gu_system_channel_flags = v23, gu_rules_channel_id = v24,
       gu_max_presences = v25, gu_vanity_url_code = v26, gu_description = v27, gu_banner = v28,
       gu_premium_tier = v29, gu_premium_subscription_count = v30, gu_preferred_locale = v31,
       gu_public_updates_channel_id = v32, gu_max_video_channel_users = v33, gu_approximate_member_count = v34,
       gu_approximate_presence_count = v35, gu_nsfw_level = v36, gu_stickers = v37,
       gu_premium_progress_bar_enabled = v38, gu_safety_alerts_channel_id = v39, gu_members = v40,
       gu_voice_states = v41\<rparr>
   }"

definition guild_ok :: "guild \<Rightarrow> bool" where
  "guild_ok x \<longleftrightarrow> list_all guild_emoji_ok (gu_emojis x) \<and> list_all guild_feature_ok (gu_features x) \<and>
     list_all sticker_ok (gu_stickers x) \<and> gu_members x = [] \<and>
     list_all voice_state_ok (gu_voice_states x)"

lemma guild_roundtrip: "guild_ok x \<Longrightarrow> guild_from_json (guild_to_json x) = Some x"
proof -
  assume "guild_ok x"
  moreover have "distinct (map fst (guild_members x))" by (simp add: guild_members_def)
  note read = read_member [OF this]
  ultimately show ?thesis unfolding guild_from_json_def guild_to_json_def read
    by (simp add: guild_members_def guild_ok_def)
qed

lemma guild_object: "\<not> is_null (guild_to_json x)"
  unfolding guild_to_json_def by (rule write_members_object [OF one_value_distinct]) (simp_all add: guild_members_def)

interpretation guild: entity_object guild_to_json guild_from_json guild_ok
  by unfold_locales (simp_all add: guild_roundtrip guild_object)

record partial_guild =
  pg_id :: snowflake
  pg_name :: string
  pg_icon :: "string option"
  pg_icon_hash :: "string option"
  pg_splash :: "string option"
  pg_discovery_splash :: "string option"
  pg_owner :: "bool option"
  pg_owner_id :: snowflake
  pg_permissions :: "u64 option"
  pg_region :: "string option"
  pg_afk_channel_id :: "snowflake option"
  pg_afk_timeout :: u16
  pg_widget_enabled :: "bool option"
  pg_widget_channel_id :: "snowflake option"
  pg_verification_level :: u8
  pg_default_message_notifications :: u8
  pg_explicit_content_filter :: u8
  pg_roles :: "role list"
  pg_emojis :: "guild_emoji list"
  pg_features :: "guild_feature list"
  pg_mfa_level :: u8
  pg_application_id :: "snowflake option"
  pg_system_channel_id :: "snowflake option"
  pg_system_channel_flags :: u8
  pg_rules_channel_id :: "snowflake option"
  pg_max_presences :: "u64 option"
  pg_max_members :: "u64 option"
  pg_vanity_url_code :: "string option"
  pg_description :: "string option"
  pg_banner :: "string option"
  pg_premium_tier :: u8
  pg_premium_subscription_count :: "u64 option"
  pg_preferred_locale :: string
  pg_public_updates_channel_id :: "snowflake option"
  pg_nsfw_level :: u8
  pg_stickers :: "sticker list"
  pg_premium_progress_bar_enabled :: bool
  pg_max_video_channel_users :: "u64 option"
  pg_max_stage_video_channel_users :: "u64 option"
  pg_approximate_member_count :: "u64 option"
  pg_approximate_presence_count :: "u64 option"

definition partial_guild_init :: partial_guild where
  "partial_guild_init = \<lparr>pg_id = 0, pg_name = [], pg_icon = None, pg_icon_hash = None, pg_splash = None, pg_discovery_splash = None,
     pg_owner = None, pg_owner_id = 0, pg_permissions = None, pg_region = None, pg_afk_channel_id = None,
     pg_afk_timeout = 0, pg_widget_enabled = None, pg_widget_channel_id = None, pg_verification_level = 0,
     pg_default_message_notifications = 0, pg_explicit_content_filter = 0, pg_roles = [], pg_emojis = [],
     pg_features = [], pg_mfa_level = 0, pg_application_id = None, pg_system_channel_id = None,
     pg_system_channel_flags = 0, pg_rules_channel_id = None, pg_max_presences = None, pg_max_members = None,
     pg_vanity_url_code = None, pg_description = None, pg_banner = None, pg_premium_tier = 0,
     pg_premium_subscription_count = None, pg_preferred_locale = [], pg_public_updates_channel_id = None,
     pg_nsfw_level = 0, pg_stickers = [], pg_premium_progress_bar_enabled = False,
     pg_max_video_channel_users = None, pg_max_stage_video_channel_users = None,
     pg_approximate_member_count = None, pg_approximate_presence_count = None\<rparr>"

definition partial_guild_members :: "partial_guild \<Rightarrow> (string \<times> json option) list" where
  "partial_guild_members x = [
     (''id'', Some (snowflake_to_json (pg_id x))), (''name'', Some (JStr (pg_name x))),
     (''icon'', map_option JStr (pg_icon x)), (''icon_hash'', map_option JStr (pg_icon_hash x)),
     (''splash'', map_option JStr (pg_splash x)),
     (''discovery_splash'', map_option JStr (pg_discovery_splash x)),
     (''owner'', map_option JBool (pg_owner x)), (''owner_id'', Some (snowflake_to_json (pg_owner_id x))),
     (''permissions'', map_option permissions_to_json (pg_permissions x)),
     (''region'', map_option JStr (pg_region x)),
     (''afk_channel_id'', map_option snowflake_to_json (pg_afk_channel_id x)),
     (''afk_timeout'', Some (juint (pg_afk_timeout x))),
     (''widget_enabled'', map_option JBool (pg_widget_enabled x)),
     (''widget_channel_id'', map_option snowflake_to_json (pg_widget_channel_id x)),
     (''verification_level'', Some (juint (pg_verification_level x))),
     (''default_message_notifications'', Some (juint (pg_default_message_notifications x))),
     (''explicit_content_filter'', Some (juint (pg_explicit_content_filter x))),
     (''roles'', Some (JArr (map role_to_json (pg_roles x)))),
     (''emojis'', Some (JArr (map guild_emoji_to_json (pg_emojis x)))),
     (''features'', Some (JArr (map guild_feature_to_json (pg_features x)))),
     (''mfa_level'', Some (juint (pg_mfa_level x))),
     (''application_id'', map_option snowflake_to_json (pg_application_id x)),
     (''system_channel_id'', map_option snowflake_to_json (pg_system_channel_id x)),
     (''system_channel_flags'', Some (juint (pg_system_channel_flags x))),
     (''rules_channel_id'', map_option snowflake_to_json (pg_rules_channel_id x)),
     (''max_presences'', map_option juint (pg_max_presences x)),
     (''max_members'', map_option juint (pg_max_members x)),
     (''vanity_url_code'', map_option JStr (pg_vanity_url_code x)),
     (''description'', map_option JStr (pg_description x)), (''banner'', map_option JStr (pg_banner x)),
     (''premium_tier'', Some (juint (pg_premium_tier x))),
     (''premium_subscription_count'', map_option juint (pg_premium_subscription_count x)),
     (''preferred_locale'', Some (JStr (pg_preferred_locale x))),
     (''public_updates_channel_id'', map_option snowflake_to_json (pg_public_updates_channel_id x)),
     (''nsfw_level'', Some (juint (pg_nsfw_level x))),
     (''stickers'', Some (JArr (map sticker_to_json (pg_stickers x)))),
     (''premium_progress_bar_enabled'', Some (JBool (pg_premium_progress_bar_enabled x))),
     (''max_video_channel_users'', map_option juint (pg_max_video_channel_users x)),
     (''max_stage_video_channel_users'', map_option juint (pg_max_stage_video_channel_users x)),
     (''approximate_member_count'', map_option juint (pg_approximate_member_count x)),
     (''approximate_presence_count'', map_option juint (pg_approximate_presence_count x))]"

definition partial_guild_to_json :: "partial_guild \<Rightarrow> json" where
  "partial_guild_to_json x = write_members (partial_guild_members x)"

definition partial_guild_from_json :: "json \<Rightarrow> partial_guild option" where
  "partial_guild_from_json j = do {
     v0 \<leftarrow> deserialize (to_value get_snowflake) j ''id'' 0;
     v1 \<leftarrow> deserialize to_str j ''name'' [];
     v2 \<leftarrow> deserialize (to_opt get_string) j ''icon'' None;
     v3 \<leftarrow> deserialize (to_opt get_string) j ''icon_hash'' None;
     v4 \<leftarrow> deserialize (to_opt get_string) j ''splash'' None;
     v5 \<leftarrow> deserialize (to_opt get_string) j ''discovery_splash'' None;
     v6 \<leftarrow> deserialize to_opt_bool j ''owner'' None;
     v7 \<leftarrow> deserialize (to_value get_snowflake) j ''owner_id'' 0;
     v8 \<leftarrow> deserialize (to_opt permissions_from_json) j ''permissions'' None;
     v9 \<leftarrow> deserialize (to_opt get_string) j ''region'' None;
     v10 \<leftarrow> deserialize (to_opt get_snowflake) j ''afk_channel_id'' None;
     v11 \<leftarrow> deserialize to_uint j ''afk_timeout'' 0;
     v12 \<leftarrow> deserialize to_opt_bool j ''widget_enabled'' None;
     v13 \<leftarrow> deserialize (to_opt get_snowflake) j ''widget_channel_id'' None;
     v14 \<leftarrow> deserialize (to_value get_enum) j ''verification_level'' 0;
     v15 \<leftarrow> deserialize (to_value get_enum) j ''default_message_notifications'' 0;
     v16 \<leftarrow> deserialize (to_value get_enum) j ''explicit_content_filter'' 0;
     v17 \<leftarrow> deserialize (to_vector role_from_json) j ''roles'' [];
     v18 \<leftarrow> deserialize (to_vector guild_emoji_from_json) j ''emojis'' [];
     v19 \<leftarrow> deserialize (to_vector guild_feature_from_json) j ''features'' [];
     v20 \<leftarrow> deserialize (to_value get_enum) j ''mfa_level'' 0;
     v21 \<leftarrow> deserialize (to_opt get_snowflake) j ''application_id'' None;
     v22 \<leftarrow> deserialize (to_opt get_snowflake) j ''system_channel_id'' None;
     v23 \<leftarrow> deserialize (to_value get_enum) j ''system_channel_flags'' 0;
     v24 \<leftarrow> deserialize (to_opt get_snowflake) j ''rules_channel_id'' None;
     v25 \<leftarrow> deserialize to_opt_u64 j ''max_presences'' None;
     v26 \<leftarrow> deserialize to_opt_u64 j ''max_members'' None;
     v27 \<leftarrow> deserialize (to_opt get_string) j ''vanity_url_code'' None;
     v28 \<leftarrow> deserialize (to_opt get_string) j ''description'' None;
     v29 \<leftarrow> deserialize (to_opt get_string) j ''banner'' None;
     v30 \<leftarrow> deserialize (to_value get_enum) j ''premium_tier'' 0;
     v31 \<leftarrow> deserialize to_opt_u64 j ''premium_subscription_count'' None;
     v32 \<leftarrow> deserialize to_str j ''preferred_locale'' [];
     v33 \<leftarrow> deserialize (to_opt get_snowflake) j ''public_updates_channel_id'' None;
     v34 \<leftarrow> deserialize (to_value get_enum) j ''nsfw_level'' 0;
     v35 \<leftarrow> deserialize (to_vector sticker_from_json) j ''stickers'' [];
     v36 \<leftarrow> deserialize to_bool j ''premium_progress_bar_enabled'' False;
     v37 \<leftarrow> deserialize to_opt_u64 j ''max_video_channel_users'' None;
     v38 \<leftarrow> deserialize to_opt_u64 j ''max_stage_video_channel_users'' None;
     v39 \<leftarrow> deserialize to_opt_u64 j ''approximate_member_count'' None;
     v40 \<leftarrow> deserialize to_opt_u64 j ''approximate_presence_count'' None;
     Some \<lparr>pg_id = v0, pg_name = v1, pg_icon = v2, pg_icon_hash = v3, pg_splash = v4, pg_discovery_splash = v5,
       pg_owner = v6, pg_owner_id = v7, pg_permissions = v8, pg_region = v9, pg_afk_channel_id = v10,
       pg_afk_timeout = v11, pg_widget_enabled = v12, pg_widget_channel_id = v13, pg_verification_level = v14,
       pg_default_message_notifications = v15, pg_explicit_content_filter = v16, pg_roles = v17,
       pg_emojis = v18, pg_features = v19, pg_mfa_level = v20, pg_application_id = v21,
       pg_system_channel_id = v22, pg_system_channel_flags = v23, pg_rules_channel_id = v24,
       pg_max_presences = v25, pg_max_members = v26, pg_vanity_url_code = v27, pg_description = v28,
       pg_banner = v29, pg_premium_tier = v30, pg_premium_subscription_count = v31, pg_preferred_locale = v32,
       pg_public_updates_channel_id = v33, pg_nsfw_level = v34, pg_stickers = v35,
       pg_premium_progress_bar_enabled = v36, pg_max_video_channel_users = v37,
       pg_max_stage_video_channel_users = v38, pg_approximate_member_count = v39,
       pg_approximate_presence_count = v40\<rparr>
   }"

definition partial_guild_ok :: "partial_guild \<Rightarrow> bool" where
  "partial_guild_ok x \<longleftrightarrow> list_all guild_emoji_ok (pg_emojis x) \<and> list_all guild_feature_ok (pg_features x) \<and>
     list_all sticker_ok (pg_stickers x)"

lemma partial_guild_roundtrip: "partial_guild_ok x \<Longrightarrow> partial_guild_from_json (partial_guild_to_json x) = Some x"
proof -
  assume "partial_guild_ok x"
  moreover have "distinct (map fst (partial_guild_members x))" by (simp add: partial_guild_members_def)
  note read = read_member [OF this]
  ultimately show ?thesis unfolding partial_guild_from_json_def partial_guild_to_json_def read
    by (simp add: partial_guild_members_def partial_guild_ok_def)
qed

lemma partial_guild_object: "\<not> is_null (partial_guild_to_json x)"
  unfolding partial_guild_to_json_def by (rule write_members_object [OF one_value_distinct]) (simp_all add: partial_guild_members_def)

interpretation partial_guild: entity_object partial_guild_to_json partial_guild_from_json partial_guild_ok
  by unfold_locales (simp_all add: partial_guild_roundtrip partial_guild_object)

record guild_preview =
  gp_id :: snowflake
  gp_name :: string
  gp_icon :: "string option"
  gp_splash :: "string option"
  gp_discovery_splash :: "string option"
  gp_emojis :: "guild_emoji list"
  gp_features :: "guild_feature list"
  gp_approximate_member_count :: u64
  gp_approximate_presence_count :: u64
  gp_description :: "string option"
  gp_stickers :: "sticker list"

definition guild_preview_init :: guild_preview where
  "guild_preview_init = \<lparr>gp_id = 0, gp_name = [], gp_icon = None, gp_splash = None, gp_discovery_splash = None, gp_emojis = [],
     gp_features = [], gp_approximate_member_count = 0, gp_approximate_presence_count = 0,
     gp_description = None, gp_stickers = []\<rparr>"

definition guild_preview_members :: "guild_preview \<Rightarrow> (string \<times> json option) list" where
  "guild_preview_members x = [
     (''id'', Some (snowflake_to_json (gp_id x))), (''name'', Some (JStr (gp_name x))),
     (''icon'', map_option JStr (gp_icon x)), (''splash'', map_option JStr (gp_splash x)),
     (''discovery_splash'', map_option JStr (gp_discovery_splash x)),
     (''emojis'', Some (JArr (map guild_emoji_to_json (gp_emojis x)))),
     (''features'', Some (JArr (map guild_feature_to_json (gp_features x)))),
     (''approximate_member_count'', Some (juint (gp_approximate_member_count x))),
     (''approximate_presence_count'', Some (juint (gp_approximate_presence_count x))),
     (''description'', map_option JStr (gp_description x)),
     (''stickers'', Some (JArr (map sticker_to_json (gp_stickers x))))]"

definition guild_preview_to_json :: "guild_preview \<Rightarrow> json" where
  "guild_preview_to_json x = write_members (guild_preview_members x)"

definition guild_preview_from_json :: "json \<Rightarrow> guild_preview option" where
  "guild_preview_from_json j = do {
     v0 \<leftarrow> deserialize (to_value get_snowflake) j ''id'' 0;
     v1 \<leftarrow> deserialize to_str j ''name'' [];
     v2 \<leftarrow> deserialize (to_opt get_string) j ''icon'' None;
     v3 \<leftarrow> deserialize (to_opt get_string) j ''splash'' None;
     v4 \<leftarrow> deserialize (to_opt get_string) j ''discovery_splash'' None;
     v5 \<leftarrow> deserialize (to_vector guild_emoji_from_json) j ''emojis'' [];
     v6 \<leftarrow> deserialize (to_vector guild_feature_from_json) j ''features'' [];
     v7 \<leftarrow> deserialize to_u64 j ''approximate_member_count'' 0;
     v8 \<leftarrow> deserialize to_u64 j ''approximate_presence_count'' 0;
     v9 \<leftarrow> deserialize (to_opt get_string) j ''description'' None;
     v10 \<leftarrow> deserialize (to_vector sticker_from_json) j ''stickers'' [];
     Some \<lparr>gp_id = v0, gp_name = v1, gp_icon = v2, gp_splash = v3, gp_discovery_splash = v4, gp_emojis = v5,
       gp_features = v6, gp_approximate_member_count = v7, gp_approximate_presence_count = v8,
       gp_description = v9, gp_stickers = v10\<rparr>
   }"

definition guild_preview_ok :: "guild_preview \<Rightarrow> bool" where
  "guild_preview_ok x \<longleftrightarrow> list_all guild_emoji_ok (gp_emojis x) \<and> list_all guild_feature_ok (gp_features x) \<and>
     list_all sticker_ok (gp_stickers x)"

lemma guild_preview_roundtrip: "guild_preview_ok x \<Longrightarrow> guild_preview_from_json (guild_preview_to_json x) = Some x"
proof -
  assume "guild_preview_ok x"
  moreover have "distinct (map fst (guild_preview_members x))" by (simp add: guild_preview_members_def)
  note read = read_member [OF this]
  ultimately show ?thesis unfolding guild_preview_from_json_def guild_preview_to_json_def read
    by (simp add: guild_preview_members_def guild_preview_ok_def)
qed

lemma guild_preview_object: "\<not> is_null (guild_preview_to_json x)"
  unfolding guild_preview_to_json_def by (rule write_members_object [OF one_value_distinct]) (simp_all add: guild_preview_members_def)

interpretation guild_preview: entity_object guild_preview_to_json guild_preview_from_json guild_preview_ok
  by unfold_locales (simp_all add: guild_preview_roundtrip guild_preview_object)

record stage_instance =
  si_id :: snowflake
  si_guild_id :: snowflake
  si_channel_id :: snowflake
  si_topic :: string
  si_privacy_level :: i32
  si_discoverable_disabled :: bool
  si_guild_scheduled_event_id :: "snowflake option"

definition stage_instance_init :: stage_instance where
  "stage_instance_init = \<lparr>si_id = 0, si_guild_id = 0, si_channel_id = 0, si_topic = [], si_privacy_level = 0,
     si_discoverable_disabled = False, si_guild_scheduled_event_id = None\<rparr>"

definition stage_instance_members :: "stage_instance \<Rightarrow> (string \<times> json option) list" where
  "stage_instance_members x = [
     (''id'', Some (snowflake_to_json (si_id x))), (''guild_id'', Some (snowflake_to_json (si_guild_id x))),
     (''channel_id'', Some (snowflake_to_json (si_channel_id x))), (''topic'', Some (JStr (si_topic x))),
     (''privacy_level'', Some (jsint (si_privacy_level x))),
     (''discoverable_disabled'', Some (JBool (si_discoverable_disabled x))),
     (''guild_scheduled_event_id'', map_option snowflake_to_json (si_guild_scheduled_event_id x))]"

definition stage_instance_to_json :: "stage_instance \<Rightarrow> json" where
  "stage_instance_to_json x = write_members (stage_instance_members x)"

definition stage_instance_from_json :: "json \<Rightarrow> stage_instance option" where
  "stage_instance_from_json j = do {
     v0 \<leftarrow> deserialize (to_value get_snowflake) j ''id'' 0;
     v1 \<leftarrow> deserialize (to_value get_snowflake) j ''guild_id'' 0;
     v2 \<leftarrow> deserialize (to_value get_snowflake) j ''channel_id'' 0;
     v3 \<leftarrow> deserialize to_str j ''topic'' [];
     v4 \<leftarrow> deserialize to_sint j ''privacy_level'' 0;
     v5 \<leftarrow> deserialize to_bool j ''discoverable_disabled'' False;
     v6 \<leftarrow> deserialize (to_opt get_snowflake) j ''guild_scheduled_event_id'' None;
     Some \<lparr>si_id = v0, si_guild_id = v1, si_channel_id = v2, si_topic = v3, si_privacy_level = v4,
       si_discoverable_disabled = v5, si_guild_scheduled_event_id = v6\<rparr>
   }"

lemma stage_instance_roundtrip: "stage_instance_from_json (stage_instance_to_json x) = Some x"
proof -
  have "distinct (map fst (stage_instance_members x))" by (simp add: stage_instance_members_def)
  note read = read_member [OF this]
  show ?thesis unfolding stage_instance_from_json_def stage_instance_to_json_def read
    by (simp add: stage_instance_members_def)
qed

lemma stage_instance_object: "\<not> is_null (stage_instance_to_json x)"
  unfolding stage_instance_to_json_def by (rule write_members_object [OF one_value_distinct]) (simp_all add: stage_instance_members_def)

interpretation stage_instance: entity_object stage_instance_to_json stage_instance_from_json "\<lambda>_. True"
  by unfold_locales (simp_all add: stage_instance_roundtrip stage_instance_object)

record entity_metadata =
  emn_location :: "string option"

definition entity_metadata_init :: entity_metadata where
  "entity_metadata_init = \<lparr>emn_location = None\<rparr>"

definition entity_metadata_members :: "entity_metadata \<Rightarrow> (string \<times> json option) list" where
  "entity_metadata_members x = [
     (''location'', map_option JStr (emn_location x))]"

definition entity_metadata_to_json :: "entity_metadata \<Rightarrow> json" where
  "entity_metadata_to_json x = write_members (entity_metadata_members x)"

definition entity_metadata_from_json :: "json \<Rightarrow> entity_metadata option" where
  "entity_metadata_from_json j = do {
     v0 \<leftarrow> deserialize (to_opt get_string) j ''location'' None;
     Some \<lparr>emn_location = v0\<rparr>
   }"

lemma entity_metadata_roundtrip: "entity_metadata_from_json (entity_metadata_to_json x) = Some x"
proof -
  have "distinct (map fst (entity_metadata_members x))" by (simp add: entity_metadata_members_def)
  note read = read_member [OF this]
  show ?thesis unfolding entity_metadata_from_json_def entity_metadata_to_json_def read
    by (simp add: entity_metadata_members_def)
qed

lemma entity_metadata_null: "entity_metadata_from_json JNull = Some entity_metadata_init"
  by (simp add: entity_metadata_from_json_def entity_metadata_init_def deserialize_def)

interpretation entity_metadata: entity_codec entity_metadata_to_json entity_metadata_from_json "\<lambda>_. True"
  by unfold_locales (simp_all add: entity_metadata_roundtrip)

record guild_scheduled_event =
  gse_id :: snowflake
  gse_guild_id :: snowflake
  gse_channel_id :: "snowflake option"
  gse_creator_id :: "snowflake option"
  gse_name :: string
  gse_description :: "string option"
  gse_scheduled_start_time :: string
  gse_scheduled_end_time :: "string option"
  gse_privacy_level :: u8
  gse_status :: u8
  gse_entity_type :: u8
  gse_entity_id :: "snowflake option"
  gse_entity_metadata :: "entity_metadata option"
  gse_creator :: user
  gse_user_count :: "i32 option"
  gse_image :: "string option"

definition guild_scheduled_event_init :: guild_scheduled_event where
  "guild_scheduled_event_init = \<lparr>gse_id = 0, gse_guild_id = 0, gse_channel_id = None, gse_creator_id = None, gse_name = [],
     gse_description = None, gse_scheduled_start_time = [], gse_scheduled_end_time = None,
     gse_privacy_level = 0, gse_status = 0, gse_entity_type = 0, gse_entity_id = None,
     gse_entity_metadata = None, gse_creator = user_init, gse_user_count = None, gse_image = None\<rparr>"

definition guild_scheduled_event_members :: "guild_scheduled_event \<Rightarrow> (string \<times> json option) list" where
  "guild_scheduled_event_members x = [
     (''id'', Some (snowflake_to_json (gse_id x))), (''guild_id'', Some (snowflake_to_json (gse_guild_id x))),
     (''channel_id'', map_option snowflake_to_json (gse_channel_id x)),
     (''creator_id'', map_option snowflake_to_json (gse_creator_id x)), (''name'', Some (JStr (gse_name x))),
     (''description'', map_option JStr (gse_description x)),
     (''scheduled_start_time'', Some (JStr (gse_scheduled_start_time x))),
     (''scheduled_end_time'', map_option JStr (gse_scheduled_end_time x)),
     (''privacy_level'', Some (juint (gse_privacy_level x))), (''status'', Some (juint (gse_status x))),
     (''entity_type'', Some (juint (gse_entity_type x))),
     (''entity_id'', map_option snowflake_to_json (gse_entity_id x)),
     (''entity_metadata'', map_option entity_metadata_to_json (gse_entity_metadata x)),
     (''creator'', Some (user_to_json (gse_creator x))), (''user_count'', map_option jsint (gse_user_count x)),
     (''image'', map_option JStr (gse_image x))]"

definition guild_scheduled_event_to_json :: "guild_scheduled_event \<Rightarrow> json" where
  "guild_scheduled_event_to_json x = write_members (guild_scheduled_event_members x)"

definition guild_scheduled_event_from_json :: "json \<Rightarrow> guild_scheduled_event option" where
  "guild_scheduled_event_from_json j = do {
     v0 \<leftarrow> deserialize (to_value get_snowflake) j ''id'' 0;
     v1 \<leftarrow> deserialize (to_value get_snowflake) j ''guild_id'' 0;
     v2 \<leftarrow> deserialize (to_opt get_snowflake) j ''channel_id'' None;
     v3 \<leftarrow> deserialize (to_opt get_snowflake) j ''creator_id'' None;
     v4 \<leftarrow> deserialize to_str j ''name'' [];
     v5 \<leftarrow> deserialize (to_opt get_string) j ''description'' None;
     v6 \<leftarrow> deserialize to_str j ''scheduled_start_time'' [];
     v7 \<leftarrow> deserialize (to_opt get_string) j ''scheduled_end_time'' None;
     v8 \<leftarrow> deserialize (to_value get_enum) j ''privacy_level'' 0;
     v9 \<leftarrow> deserialize (to_value get_enum) j ''status'' 0;
     v10 \<leftarrow> deserialize (to_value get_enum) j ''entity_type'' 0;
     v11 \<leftarrow> deserialize (to_opt get_snowflake) j ''entity_id'' None;
     v12 \<leftarrow> deserialize (to_opt entity_metadata_from_json) j ''entity_metadata'' None;
     v13 \<leftarrow> deserialize (to_value user_from_json) j ''creator'' user_init;
     v14 \<leftarrow> deserialize to_opt_sint j ''user_count'' None;
     v15 \<leftarrow> deserialize (to_opt get_string) j ''image'' None;
     Some \<lparr>gse_id = v0, gse_guild_id = v1, gse_channel_id = v2, gse_creator_id = v3, gse_name = v4,
       gse_description = v5, gse_scheduled_start_time = v6, gse_scheduled_end_time = v7, gse_privacy_level = v8,
       gse_status = v9, gse_entity_type = v10, gse_entity_id = v11, gse_entity_metadata = v12,
       gse_creator = v13, gse_user_count = v14, gse_image = v15\<rparr>
   }"

definition guild_scheduled_event_ok :: "guild_scheduled_event \<Rightarrow> bool" where
  "guild_scheduled_event_ok x \<longleftrightarrow> pred_option (\<lambda>v. \<not> is_null (entity_metadata_to_json v)) (gse_entity_metadata x) \<and>
     user_ok (gse_creator x)"

lemma guild_scheduled_event_roundtrip: "guild_scheduled_event_ok x \<Longrightarrow> guild_scheduled_event_from_json (guild_scheduled_event_to_json x) = Some x"
proof -
  assume "guild_scheduled_event_ok x"
  moreover have "distinct (map fst (guild_scheduled_event_members x))" by (simp add: guild_scheduled_event_members_def)
  note read = read_member [OF this]
  ultimately show ?thesis unfolding guild_scheduled_event_from_json_def guild_scheduled_event_to_json_def read
    by (simp add: guild_scheduled_event_members_def guild_scheduled_event_ok_def)
qed

lemma guild_scheduled_event_object: "\<not> is_null (guild_scheduled_event_to_json x)"
  unfolding guild_scheduled_event_to_json_def by (rule write_members_object [OF one_value_distinct]) (simp_all add: guild_scheduled_event_members_def)

interpretation guild_scheduled_event: entity_object guild_scheduled_event_to_json guild_scheduled_event_from_json guild_scheduled_event_ok
  by unfold_locales (simp_all add: guild_scheduled_event_roundtrip guild_scheduled_event_object)

datatype guild_integration_type =
    GI_Twitch | GI_Youtube | GI_Discord | GI_GuildSubscription | GI_Unknown

fun guild_integration_type_to_str :: "guild_integration_type \<Rightarrow> string" where
  "guild_integration_type_to_str GI_Twitch = ''twitch''"
| "guild_integration_type_to_str GI_Youtube = ''youtube''"
| "guild_integration_type_to_str GI_Discord = ''discord''"
| "guild_integration_type_to_str GI_GuildSubscription = ''guild_subscription''"
| "guild_integration_type_to_str GI_Unknown = ''unknown''"

definition guild_integration_type_from_str :: "string \<Rightarrow> guild_integration_type" where
  "guild_integration_type_from_str s =
     (if s = ''twitch'' then GI_Twitch else
      if s = ''youtube'' then GI_Youtube else
      if s = ''discord'' then GI_Discord else
      if s = ''guild_subscription'' then GI_GuildSubscription else
      GI_Unknown)"

definition guild_integration_type_to_json :: "guild_integration_type \<Rightarrow> json" where
  "guild_integration_type_to_json x = JStr (guild_integration_type_to_str x)"

definition guild_integration_type_from_json :: "json \<Rightarrow> guild_integration_type option" where
  "guild_integration_type_from_json j = (case j of JStr s \<Rightarrow> Some (guild_integration_type_from_str s) | _ \<Rightarrow> Some GI_Twitch)"

interpretation guild_integration_type: entity_object guild_integration_type_to_json guild_integration_type_from_json "\<lambda>_. True"
proof unfold_locales
  show "guild_integration_type_from_json (guild_integration_type_to_json x) = Some x" for x
    by (cases x) (simp_all add: guild_integration_type_to_json_def guild_integration_type_from_json_def guild_integration_type_from_str_def)
qed (simp add: guild_integration_type_to_json_def)

record integration_account =
  ia_id :: snowflake
  ia_name :: string

definition integration_account_init :: integration_account where
  "integration_account_init = \<lparr>ia_id = 0, ia_name = []\<rparr>"

definition integration_account_members :: "integration_account \<Rightarrow> (string \<times> json option) list" where
  "integration_account_members x = [
     (''id'', Some (snowflake_to_json (ia_id x))), (''name'', Some (JStr (ia_name x)))]"

definition integration_account_to_json :: "integration_account \<Rightarrow> json" where
  "integration_account_to_json x = write_members (integration_account_members x)"

definition integration_account_from_json :: "json \<Rightarrow> integration_account option" where
  "integration_account_from_json j = do {
     v0 \<leftarrow> deserialize (to_value get_snowflake) j ''id'' 0;
     v1 \<leftarrow> deserialize to_str j ''name'' [];
     Some \<lparr>ia_id = v0, ia_name = v1\<rparr>
   }"

lemma integration_account_roundtrip: "integration_account_from_json (integration_account_to_json x) = Some x"
proof -
  have "distinct (map fst (integration_account_members x))" by (simp add: integration_account_members_def)
  note read = read_member [OF this]
  show ?thesis unfolding integration_account_from_json_def integration_account_to_json_def read
    by (simp add: integration_account_members_def)
qed

lemma integration_account_object: "\<not> is_null (integration_account_to_json x)"
  unfolding integration_account_to_json_def by (rule write_members_object [OF one_value_distinct]) (simp_all add: integration_account_members_def)

interpretation integration_account: entity_object integration_account_to_json integration_account_from_json "\<lambda>_. True"
  by unfold_locales (simp_all add: integration_account_roundtrip integration_account_object)

record integration_application =
  ian_id :: snowflake
  ian_name :: string
  ian_icon :: "string option"
  ian_description :: "string option"
  ian_bot :: "user option"

definition integration_application_init :: integration_application where
  "integration_application_init = \<lparr>ian_id = 0, ian_name = [], ian_icon = None, ian_description = None, ian_bot = None\<rparr>"

definition integration_application_members :: "integration_application \<Rightarrow> (string \<times> json option) list" where
  "integration_application_members x = [
     (''id'', Some (snowflake_to_json (ian_id x))), (''name'', Some (JStr (ian_name x))),
     (''icon'', map_option JStr (ian_icon x)), (''description'', map_option JStr (ian_description x)),
     (''bot'', map_option user_to_json (ian_bot x))]"

definition integration_application_to_json :: "integration_application \<Rightarrow> json" where
  "integration_application_to_json x = write_members (integration_application_members x)"

definition integration_application_from_json :: "json \<Rightarrow> integration_application option" where
  "integration_application_from_json j = do {
     v0 \<leftarrow> deserialize (to_value get_snowflake) j ''id'' 0;
     v1 \<leftarrow> deserialize to_str j ''name'' [];
     v2 \<leftarrow> deserialize (to_opt get_string) j ''icon'' None;
     v3 \<leftarrow> deserialize (to_opt get_string) j ''description'' None;
     v4 \<leftarrow> deserialize (to_opt user_from_json) j ''bot'' None;
     Some \<lparr>ian_id = v0, ian_name = v1, ian_icon = v2, ian_description = v3, ian_bot = v4\<rparr>
   }"

definition integration_application_ok :: "integration_application \<Rightarrow> bool" where
  "integration_application_ok x \<longleftrightarrow> pred_option user_ok (ian_bot x)"

lemma integration_application_roundtrip: "integration_application_ok x \<Longrightarrow> integration_application_from_json (integration_application_to_json x) = Some x"
proof -
  assume "integration_application_ok x"
  moreover have "distinct (map fst (integration_application_members x))" by (simp add: integration_application_members_def)
  note read = read_member [OF this]
  ultimately show ?thesis unfolding integration_application_from_json_def integration_application_to_json_def read
    by (simp add: integration_application_members_def integration_application_ok_def)
qed

lemma integration_application_object: "\<not> is_null (integration_application_to_json x)"
  unfolding integration_application_to_json_def by (rule write_members_object [OF one_value_distinct]) (simp_all add: integration_application_members_def)

interpretation integration_application: entity_object integration_application_to_json integration_application_from_json integration_application_ok
  by unfold_locales (simp_all add: integration_application_roundtrip integration_application_object)

record guild_integration =
  gi_id :: snowflake
  gi_name :: string
  gi_type :: guild_integration_type
  gi_enabled :: "bool option"
  gi_syncing :: "bool option"
  gi_role_id :: "snowflake option"
  gi_enable_emoticons :: "bool option"
  gi_expire_behavior :: "u8 option"
  gi_expire_grace_period :: "u64 option"
  gi_user :: "user option"
  gi_account :: integration_account
  gi_synced_at :: "string option"
  gi_subscriber_count :: "u64 option"
  gi_revoked :: "bool option"
  gi_application :: "integration_application option"
  gi_scopes :: "string list option"

definition guild_integration_init :: guild_integration where
  "guild_integration_init = \<lparr>gi_id = 0, gi_name = [], gi_type = GI_Twitch, gi_enabled = None, gi_syncing = None, gi_role_id = None,
     gi_enable_emoticons = None, gi_expire_behavior = None, gi_expire_grace_period = None, gi_user = None,
     gi_account = integration_account_init, gi_synced_at = None, gi_subscriber_count = None, gi_revoked = None,
     gi_application = None, gi_scopes = None\<rparr>"

definition guild_integration_members :: "guild_integration \<Rightarrow> (string \<times> json option) list" where
  "guild_integration_members x = [
     (''id'', Some (snowflake_to_json (gi_id x))), (''name'', Some (JStr (gi_name x))),
     (''type'', Some (guild_integration_type_to_json (gi_type x))),
     (''enabled'', map_option JBool (gi_enabled x)), (''syncing'', map_option JBool (gi_syncing x)),
     (''role_id'', map_option snowflake_to_json (gi_role_id x)),
     (''enable_emoticons'', map_option JBool (gi_enable_emoticons x)),
     (''expire_behavior'', map_option juint (gi_expire_behavior x)),
     (''expire_grace_period'', map_option juint (gi_expire_grace_period x)),
     (''user'', map_option user_to_json (gi_user x)),
     (''account'', Some (integration_account_to_json (gi_account x))),
     (''synced_at'', map_option JStr (gi_synced_at x)),
     (''subscriber_count'', map_option juint (gi_subscriber_count x)),
     (''revoked'', map_option JBool (gi_revoked x)),
     (''application'', map_option integration_application_to_json (gi_application x)),
     (''scopes'', map_option (\<lambda>xs. JArr (map JStr xs)) (gi_scopes x))]"

definition guild_integration_to_json :: "guild_integration \<Rightarrow> json" where
  "guild_integration_to_json x = write_members (guild_integration_members x)"

definition guild_integration_from_json :: "json \<Rightarrow> guild_integration option" where
  "guild_integration_from_json j = do {
     v0 \<leftarrow> deserialize (to_value get_snowflake) j ''id'' 0;
     v1 \<leftarrow> deserialize to_str j ''name'' [];
     v2 \<leftarrow> deserialize (to_value guild_integration_type_from_json) j ''type'' GI_Twitch;
     v3 \<leftarrow> deserialize to_opt_bool j ''enabled'' None;
     v4 \<leftarrow> deserialize to_opt_bool j ''syncing'' None;
     v5 \<leftarrow> deserialize (to_opt get_snowflake) j ''role_id'' None;
     v6 \<leftarrow> deserialize to_opt_bool j ''enable_emoticons'' None;
     v7 \<leftarrow> deserialize (to_opt get_enum) j ''expire_behavior'' None;
     v8 \<leftarrow> deserialize to_opt_u64 j ''expire_grace_period'' None;
     v9 \<leftarrow> deserialize (to_opt user_from_json) j ''user'' None;
     v10 \<leftarrow> deserialize (to_value integration_account_from_json) j ''account'' integration_account_init;
     v11 \<leftarrow> deserialize (to_opt get_string) j ''synced_at'' None;
     v12 \<leftarrow> deserialize to_opt_u64 j ''subscriber_count'' None;
     v13 \<leftarrow> deserialize to_opt_bool j ''revoked'' None;
     v14 \<leftarrow> deserialize (to_opt integration_application_from_json) j ''application'' None;
     v15 \<leftarrow> deserialize (to_opt (get_vector get_string)) j ''scopes'' None;
     Some \<lparr>gi_id = v0, gi_name = v1, gi_type = v2, gi_enabled = v3, gi_syncing = v4, gi_role_id = v5,
       gi_enable_emoticons = v6, gi_expire_behavior = v7, gi_expire_grace_period = v8, gi_user = v9,
       gi_account = v10, gi_synced_at = v11, gi_subscriber_count = v12, gi_revoked = v13, gi_application = v14,
       gi_scopes = v15\<rparr>
   }"

definition guild_integration_ok :: "guild_integration \<Rightarrow> bool" where
  "guild_integration_ok x \<longleftrightarrow> pred_option user_ok (gi_user x) \<and> pred_option integration_application_ok (gi_application x)"

lemma guild_integration_roundtrip: "guild_integration_ok x \<Longrightarrow> guild_integration_from_json (guild_integration_to_json x) = Some x"
proof -
  assume "guild_integration_ok x"
  moreover have "distinct (map fst (guild_integration_members x))" by (simp add: guild_integration_members_def)
  note read = read_member [OF this]
  ultimately show ?thesis unfolding guild_integration_from_json_def guild_integration_to_json_def read
    by (simp add: guild_integration_members_def guild_integration_ok_def)
qed

lemma guild_integration_object: "\<not> is_null (guild_integration_to_json x)"
  unfolding guild_integration_to_json_def by (rule write_members_object [OF one_value_distinct]) (simp_all add: guild_integration_members_def)

interpretation guild_integration: entity_object guild_integration_to_json guild_integration_from_json guild_integration_ok
  by unfold_locales (simp_all add: guild_integration_roundtrip guild_integration_object)

record invite_channel =
  ic_id :: snowflake
  ic_name :: string
  ic_type :: u8

definition invite_channel_init :: invite_channel where
  "invite_channel_init = \<lparr>ic_id = 0, ic_name = [], ic_type = 0\<rparr>"

definition invite_channel_members :: "invite_channel \<Rightarrow> (string \<times> json option) list" where
  "invite_channel_members x = [
     (''id'', Some (snowflake_to_json (ic_id x))), (''name'', Some (JStr (ic_name x))),
     (''type'', Some (juint (ic_type x)))]"

definition invite_channel_to_json :: "invite_channel \<Rightarrow> json" where
  "invite_channel_to_json x = write_members (invite_channel_members x)"

definition invite_channel_from_json :: "json \<Rightarrow> invite_channel option" where
  "invite_channel_from_json j = do {
     v0 \<leftarrow> deserialize (to_value get_snowflake) j ''id'' 0;
     v1 \<leftarrow> deserialize to_str j ''name'' [];
     v2 \<leftarrow> deserialize (to_value get_enum) j ''type'' 0;
     Some \<lparr>ic_id = v0, ic_name = v1, ic_type = v2\<rparr>
   }"

lemma invite_channel_roundtrip: "invite_channel_from_json (invite_channel_to_json x) = Some x"
proof -
  have "distinct (map fst (invite_channel_members x))" by (simp add: invite_channel_members_def)
  note read = read_member [OF this]
  show ?thesis unfolding invite_channel_from_json_def invite_channel_to_json_def read
    by (simp add: invite_channel_members_def)
qed

lemma invite_channel_object: "\<not> is_null (invite_channel_to_json x)"
  unfolding invite_channel_to_json_def by (rule write_members_object [OF one_value_distinct]) (simp_all add: invite_channel_members_def)

interpretation invite_channel: entity_object invite_channel_to_json invite_channel_from_json "\<lambda>_. True"
  by unfold_locales (simp_all add: invite_channel_roundtrip invite_channel_object)

record invite_guild =
  ig_id :: snowflake
  ig_name :: string
  ig_splash :: "string option"
  ig_banner :: "string option"
  ig_description :: "string option"
  ig_icon :: "string option"
  ig_features :: "guild_feature list"
  ig_verification_level :: u8
  ig_vanity_url_code :: "string option"
  ig_nsfw_level :: u8
  ig_premium_subscription_count :: u64

definition invite_guild_init :: invite_guild where
  "invite_guild_init = \<lparr>ig_id = 0, ig_name = [], ig_splash = None, ig_banner = None, ig_description = None, ig_icon = None,
     ig_features = [], ig_verification_level = 0, ig_vanity_url_code = None, ig_nsfw_level = 0,
     ig_premium_subscription_count = 0\<rparr>"

definition invite_guild_members :: "invite_guild \<Rightarrow> (string \<times> json option) list" where
  "invite_guild_members x = [
     (''id'', Some (snowflake_to_json (ig_id x))), (''name'', Some (JStr (ig_name x))),
     (''splash'', map_option JStr (ig_splash x)), (''banner'', map_option JStr (ig_banner x)),
     (''description'', map_option JStr (ig_description x)), (''icon'', map_option JStr (ig_icon x)),
     (''features'', Some (JArr (map guild_feature_to_json (ig_features x)))),
     (''verification_level'', Some (juint (ig_verification_level x))),
     (''vanity_url_code'', map_option JStr (ig_vanity_url_code x)),
     (''nsfw_level'', Some (juint (ig_nsfw_level x))),
     (''premium_subscription_count'', Some (juint (ig_premium_subscription_count x)))]"

definition invite_guild_to_json :: "invite_guild \<Rightarrow> json" where
  "invite_guild_to_json x = write_members (invite_guild_members x)"

definition invite_guild_from_json :: "json \<Rightarrow> invite_guild option" where
  "invite_guild_from_json j = do {
     v0 \<leftarrow> deserialize (to_value get_snowflake) j ''id'' 0;
     v1 \<leftarrow> deserialize to_str j ''name'' [];
     v2 \<leftarrow> deserialize (to_opt get_string) j ''splash'' None;
     v3 \<leftarrow> deserialize (to_opt get_string) j ''banner'' None;
     v4 \<leftarrow> deserialize (to_opt get_string) j ''description'' None;
     v5 \<leftarrow> deserialize (to_opt get_string) j ''icon'' None;
     v6 \<leftarrow> deserialize (to_vector guild_feature_from_json) j ''features'' [];
     v7 \<leftarrow> deserialize (to_value get_enum) j ''verification_level'' 0;
     v8 \<leftarrow> deserialize (to_opt get_string) j ''vanity_url_code'' None;
     v9 \<leftarrow> deserialize (to_value get_enum) j ''nsfw_level'' 0;
     v10 \<leftarrow> deserialize to_u64 j ''premium_subscription_count'' 0;
     Some \<lparr>ig_id = v0, ig_name = v1, ig_splash = v2, ig_banner = v3, ig_description = v4, ig_icon = v5,
       ig_features = v6, ig_verification_level = v7, ig_vanity_url_code = v8, ig_nsfw_level = v9,
       ig_premium_subscription_count = v10\<rparr>
   }"

definition invite_guild_ok :: "invite_guild \<Rightarrow> bool" where
  "invite_guild_ok x \<longleftrightarrow> list_all guild_feature_ok (ig_features x)"

lemma invite_guild_roundtrip: "invite_guild_ok x \<Longrightarrow> invite_guild_from_json (invite_guild_to_json x) = Some x"
proof -
  assume "invite_guild_ok x"
  moreover have "distinct (map fst (invite_guild_members x))" by (simp add: invite_guild_members_def)
  note read = read_member [OF this]
  ultimately show ?thesis unfolding invite_guild_from_json_def invite_guild_to_json_def read
    by (simp add: invite_guild_members_def invite_guild_ok_def)
qed

lemma invite_guild_object: "\<not> is_null (invite_guild_to_json x)"
  unfolding invite_guild_to_json_def by (rule write_members_object [OF one_value_distinct]) (simp_all add: invite_guild_members_def)

interpretation invite_guild: entity_object invite_guild_to_json invite_guild_from_json invite_guild_ok
  by unfold_locales (simp_all add: invite_guild_roundtrip invite_guild_object)

record invite =
  in_code :: string
  in_guild :: "invite_guild option"
  in_channel :: invite_channel
  in_inviter :: "user option"
  in_target_type :: u8
  in_target_user :: "user option"
  in_approximate_presence_count :: "u64 option"
  in_approximate_member_count :: "u64 option"
  in_expires_at :: "string option"

definition invite_init :: invite where
  "invite_init = \<lparr>in_code = [], in_guild = None, in_channel = invite_channel_init, in_inviter = None, in_target_type = 0,
     in_target_user = None, in_approximate_presence_count = None, in_approximate_member_count = None,
     in_expires_at = None\<rparr>"

definition invite_members :: "invite \<Rightarrow> (string \<times> json option) list" where
  "invite_members x = [
     (''code'', Some (JStr (in_code x))), (''guild'', map_option invite_guild_to_json (in_guild x)),
     (''channel'', Some (invite_channel_to_json (in_channel x))),
     (''inviter'', map_option user_to_json (in_inviter x)),
     (''target_user'', map_option user_to_json (in_target_user x)),
     (''approximate_presence_count'', map_option juint (in_approximate_presence_count x)),
     (''approximate_member_count'', map_option juint (in_approximate_member_count x)),
     (''expires_at'', map_option JStr (in_expires_at x))]"

definition invite_to_json :: "invite \<Rightarrow> json" where
  "invite_to_json x = write_members (invite_members x)"

definition invite_from_json :: "json \<Rightarrow> invite option" where
  "invite_from_json j = do {
     v0 \<leftarrow> deserialize to_str j ''code'' [];
     v1 \<leftarrow> deserialize (to_opt invite_guild_from_json) j ''guild'' None;
     v2 \<leftarrow> deserialize (to_value invite_channel_from_json) j ''channel'' invite_channel_init;
     v3 \<leftarrow> deserialize (to_opt user_from_json) j ''inviter'' None;
     v4 \<leftarrow> deserialize (to_opt user_from_json) j ''target_user'' None;
     v5 \<leftarrow> deserialize to_opt_u64 j ''approximate_presence_count'' None;
     v6 \<leftarrow> deserialize to_opt_u64 j ''approximate_member_count'' None;
     v7 \<leftarrow> deserialize (to_opt get_string) j ''expires_at'' None;
     Some \<lparr>in_code = v0, in_guild = v1, in_channel = v2, in_inviter = v3, in_target_type = 0, in_target_user = v4,
       in_approximate_presence_count = v5, in_approximate_member_count = v6, in_expires_at = v7\<rparr>
   }"

definition invite_ok :: "invite \<Rightarrow> bool" where
  "invite_ok x \<longleftrightarrow> pred_option invite_guild_ok (in_guild x) \<and> pred_option user_ok (in_inviter x) \<and>
     in_target_type x = 0 \<and> pred_option user_ok (in_target_user x)"

lemma invite_roundtrip: "invite_ok x \<Longrightarrow> invite_from_json (invite_to_json x) = Some x"
proof -
  assume "invite_ok x"
  moreover have "distinct (map fst (invite_members x))" by (simp add: invite_members_def)
  note read = read_member [OF this]
  ultimately show ?thesis unfolding invite_from_json_def invite_to_json_def read
    by (simp add: invite_members_def invite_ok_def)
qed

lemma invite_object: "\<not> is_null (invite_to_json x)"
  unfolding invite_to_json_def by (rule write_members_object [OF one_value_distinct]) (simp_all add: invite_members_def)

interpretation invite: entity_object invite_to_json invite_from_json invite_ok
  by unfold_locales (simp_all add: invite_roundtrip invite_object)

end
