(* ===== verification/Entity_Post.thy ===== *)
theory Entity_Post
  imports Entity_Message Component_Properties
begin

text \<open>
  Messages: \<^verbatim>\<open>src/message.cpp\<close>. The components of a message are those of
  \<^verbatim>\<open>src/message_component.cpp\<close>, which carry the JSON they were read from; a message is therefore
  compared up to that (\<open>erase_message\<close>). Writing fails if a component cannot be written. The flags
  \<open>crossposted\<close> and \<open>deleted\<close> are not part of the JSON form.
\<close>

section \<open>Components of a message\<close>

text \<open>Writing fails when a component cannot be written.\<close>

definition components_to_json :: "message_component list \<Rightarrow> json list option" where
  "components_to_json cs = sequence_options (map message_component_to_json cs)"

definition opt_components_to_json :: "message_component list option \<Rightarrow> json list option option" where
  "opt_components_to_json v = (case v of None \<Rightarrow> Some None | Some cs \<Rightarrow> map_option Some (components_to_json cs))"

lemma components_written:
  assumes "list_all coherent_component xs"
  shows "\<exists>cs ys. components_to_json xs = Some cs \<and> to_vector message_component_from_json (JArr cs) [] = Some ys
    \<and> map erase_component ys = map erase_component xs"
  using message_component.vector_written [OF assms]
  by (simp add: components_to_json_def to_vector_def get_vector_def)

section \<open>Messages\<close>

record message =
  mee_id :: snowflake
  mee_channel_id :: snowflake
  mee_guild_id :: "snowflake option"
  mee_author :: user
  mee_content :: string
  mee_timestamp :: string
  mee_edited_timestamp :: "string option"
  mee_tts :: bool
  mee_mention_everyone :: bool
  mee_mentions :: "user list"
  mee_mention_roles :: "snowflake list"
  mee_mention_channels :: "channel_mention list"
  mee_attachments :: "attachment list"
  mee_embeds :: "embed list"
  mee_nonce :: string
  mee_pinned :: bool
  mee_webhook_id :: snowflake
  mee_type :: u8
  mee_activity :: "message_activity option"
  mee_application :: "message_application option"
  mee_application_id :: "snowflake option"
  mee_message_reference :: message_reference
  mee_flags :: u32
  mee_referenced_message :: snowflake
  mee_interaction :: "message_interaction option"
  mee_components :: "message_component list"
  mee_crossposted :: bool
  mee_deleted :: bool

definition message_init :: message where
  "message_init = \<lparr>mee_id = 0, mee_channel_id = 0, mee_guild_id = None, mee_author = user_init, mee_content = [],
     mee_timestamp = [], mee_edited_timestamp = None, mee_tts = False, mee_mention_everyone = False,
     mee_mentions = [], mee_mention_roles = [], mee_mention_channels = [], mee_attachments = [],
     mee_embeds = [], mee_nonce = [], mee_pinned = False, mee_webhook_id = 0, mee_type = 0, mee_activity = None,
     mee_application = None, mee_application_id = None, mee_message_reference = message_reference_init,
     mee_flags = 0, mee_referenced_message = 0, mee_interaction = None, mee_components = [],
     mee_crossposted = False, mee_deleted = False\<rparr>"

definition message_members :: "message \<Rightarrow> json list \<Rightarrow> (string \<times> json option) list" where
  "message_members x cs = [
     (''id'', Some (snowflake_to_json (mee_id x))),
     (''channel_id'', Some (snowflake_to_json (mee_channel_id x))),
     (''guild_id'', map_option snowflake_to_json (mee_guild_id x)),
     (''author'', Some (user_to_json (mee_author x))), (''content'', Some (JStr (mee_content x))),
     (''timestamp'', Some (JStr (mee_timestamp x))),
     (''edited_timestamp'', map_option JStr (mee_edited_timestamp x)), (''tts'', Some (JBool (mee_tts x))),
     (''mention_everyone'', Some (JBool (mee_mention_everyone x))),
     (''mentions'', Some (JArr (map user_to_json (mee_mentions x)))),
     (''mention_roles'', Some (JArr (map snowflake_to_json (mee_mention_roles x)))),
     (''mention_channels'', Some (JArr (map channel_mention_to_json (mee_mention_channels x)))),
     (''attachments'', Some (JArr (map attachment_to_json (mee_attachments x)))),
     (''embeds'', Some (JArr (map embed_to_json (mee_embeds x)))), (''nonce'', Some (JStr (mee_nonce x))),
     (''pinned'', Some (JBool (mee_pinned x))), (''webhook_id'', Some (snowflake_to_json (mee_webhook_id x))),
     (''type'', Some (juint (mee_type x))),
     (''activity'', map_option message_activity_to_json (mee_activity x)),
     (''application'', map_option message_application_to_json (mee_application x)),
     (''application_id'', map_option snowflake_to_json (mee_application_id x)),
     (''message_reference'', Some (message_reference_to_json (mee_message_reference x))),
     (''flags'', Some (juint (mee_flags x))),
     (''referenced_message'', Some (snowflake_to_json (mee_referenced_message x))),
     (''interaction'', map_option message_interaction_to_json (mee_interaction x)),
     (''components'', Some (JArr cs))]"

definition message_to_json :: "message \<Rightarrow> json option" where
  "message_to_json x = map_option (\<lambda>cs. write_members (message_members x cs)) (components_to_json (mee_components x))"

definition message_from_json :: "json \<Rightarrow> message option" where
  "message_from_json j = do {
     v0 \<leftarrow> deserialize (to_value get_snowflake) j ''id'' 0;
     v1 \<leftarrow> deserialize (to_value get_snowflake) j ''channel_id'' 0;
     v2 \<leftarrow> deserialize (to_opt get_snowflake) j ''guild_id'' None;
     v3 \<leftarrow> deserialize (to_value user_from_json) j ''author'' user_init;
     v4 \<leftarrow> deserialize to_str j ''content'' [];
     v5 \<leftarrow> deserialize to_str j ''timestamp'' [];
     v6 \<leftarrow> deserialize (to_opt get_string) j ''edited_timestamp'' None;
     v7 \<leftarrow> deserialize to_bool j ''tts'' False;
     v8 \<leftarrow> deserialize to_bool j ''mention_everyone'' False;
     v9 \<leftarrow> deserialize (to_vector user_from_json) j ''mentions'' [];
     v10 \<leftarrow> deserialize (to_vector get_snowflake) j ''mention_roles'' [];
     v11 \<leftarrow> deserialize (to_vector channel_mention_from_json) j ''mention_channels'' [];
     v12 \<leftarrow> deserialize (to_vector attachment_from_json) j ''attachments'' [];
     v13 \<leftarrow> deserialize (to_vector embed_from_json) j ''embeds'' [];
     v14 \<leftarrow> deserialize to_str j ''nonce'' [];
     v15 \<leftarrow> deserialize to_bool j ''pinned'' False;
     v16 \<leftarrow> deserialize (to_value get_snowflake) j ''webhook_id'' 0;
     v17 \<leftarrow> deserialize (to_value get_enum) j ''type'' 0;
     v18 \<leftarrow> deserialize (to_opt message_activity_from_json) j ''activity'' None;
     v19 \<leftarrow> deserialize (to_opt message_application_from_json) j ''application'' None;
     v20 \<leftarrow> deserialize (to_opt get_snowflake) j ''application_id'' None;
     v21 \<leftarrow> deserialize (to_value message_reference_from_json) j ''message_reference'' message_reference_init;
     v22 \<leftarrow> deserialize (to_value get_enum) j ''flags'' 0;
     v23 \<leftarrow> deserialize (to_value get_snowflake) j ''referenced_message'' 0;
     v24 \<leftarrow> deserialize (to_opt message_interaction_from_json) j ''interaction'' None;
     v25 \<leftarrow> deserialize (to_vector message_component_from_json) j ''components'' [];
     Some \<lparr>mee_id = v0, mee_channel_id = v1, mee_guild_id = v2, mee_author = v3, mee_content = v4,
       mee_timestamp = v5, mee_edited_timestamp = v6, mee_tts = v7, mee_mention_everyone = v8,
       mee_mentions = v9, mee_mention_roles = v10, mee_mention_channels = v11, mee_attachments = v12,
       mee_embeds = v13, mee_nonce = v14, mee_pinned = v15, mee_webhook_id = v16, mee_type = v17,
       mee_activity = v18, mee_application = v19, mee_application_id = v20, mee_message_reference = v21,
       mee_flags = v22, mee_referenced_message = v23, mee_interaction = v24, mee_components = v25,
       mee_crossposted = False, mee_deleted = False\<rparr>
   }"

definition message_ok :: "message \<Rightarrow> bool" where
  "message_ok x \<longleftrightarrow> user_ok (mee_author x) \<and> list_all user_ok (mee_mentions x) \<and>
     list_all embed_ok (mee_embeds x) \<and> pred_option message_interaction_ok (mee_interaction x) \<and>
     list_all coherent_component (mee_components x) \<and> mee_crossposted x = False \<and>
     mee_deleted x = False"

definition erase_message :: "message \<Rightarrow> message" where
  "erase_message x = x\<lparr>mee_components := map erase_component (mee_components x)\<rparr>"

lemma message_written:
  assumes ok: "message_ok x"
  shows "\<exists>j y. message_to_json x = Some j \<and> \<not> is_null j \<and> message_from_json j = Some y \<and> erase_message y = erase_message x"
proof -
  obtain cs ys where cs: "components_to_json (mee_components x) = Some cs" "to_vector message_component_from_json (JArr cs) [] = Some ys"
    "map erase_component ys = map erase_component (mee_components x)"
    using components_written [of "mee_components x"] ok by (auto simp: message_ok_def)
  have d: "distinct (map fst (message_members x cs))" by (simp add: message_members_def)
  have "message_from_json (write_members (message_members x cs)) = Some (x\<lparr>mee_components := ys\<rparr>)"
    using ok cs(2) unfolding message_from_json_def read_member [OF d]
    by (simp add: message_members_def message_ok_def message_reference.read_inner message_reference_null)
  moreover have "\<not> is_null (write_members (message_members x cs))"
    by (rule write_members_object [OF one_value_distinct [OF d]]) (simp add: message_members_def)
  ultimately show ?thesis using cs by (simp add: message_to_json_def erase_message_def)
qed

end
