(* ===== verification/Modal_Response.thy ===== *)
theory Modal_Response
  imports Message_Component Entity_Codec
begin

text \<open>
  \<^verbatim>\<open>src/component_interaction_response.cpp\<close>: what a user entered into the components of a modal. Labels and
  action rows hold interactive components. Reading one of these (\<open>interactive_from_json\<close>) declares, in
  every case, a local variable with the name of the parameter and assigns it to itself; the parameter
  keeps the value it had, an empty text input.
\<close>

record text_input_response =
  tir_id :: "u32 option"
  tir_custom_id :: string
  tir_value :: string

definition text_input_response_init :: text_input_response where
  "text_input_response_init = \<lparr>tir_id = None, tir_custom_id = [], tir_value = []\<rparr>"

definition text_input_response_members :: "text_input_response \<Rightarrow> (string \<times> json option) list" where
  "text_input_response_members x = [
     (''type'', Some (JInt 4)), (''id'', map_option juint (tir_id x)),
     (''custom_id'', Some (JStr (tir_custom_id x))), (''value'', Some (JStr (tir_value x)))]"

definition text_input_response_to_json :: "text_input_response \<Rightarrow> json" where
  "text_input_response_to_json x = write_members (text_input_response_members x)"

definition text_input_response_from_json :: "json \<Rightarrow> text_input_response option" where
  "text_input_response_from_json j = do {
     v0 \<leftarrow> deserialize to_opt_uint j ''id'' None;
     v1 \<leftarrow> deserialize to_str j ''custom_id'' [];
     v2 \<leftarrow> deserialize to_str j ''value'' [];
     Some \<lparr>tir_id = v0, tir_custom_id = v1, tir_value = v2\<rparr>
   }"

lemma text_input_response_roundtrip: "text_input_response_from_json (text_input_response_to_json x) = Some x"
proof -
  have "distinct (map fst (text_input_response_members x))" by (simp add: text_input_response_members_def)
  note read = read_member [OF this]
  show ?thesis unfolding text_input_response_from_json_def text_input_response_to_json_def read
    by (simp add: text_input_response_members_def)
qed

lemma text_input_response_object: "\<not> is_null (text_input_response_to_json x)"
  unfolding text_input_response_to_json_def by (rule write_members_object [OF one_value_distinct]) (simp_all add: text_input_response_members_def)

interpretation text_input_response: entity_object text_input_response_to_json text_input_response_from_json "\<lambda>_. True"
  by unfold_locales (simp_all add: text_input_response_roundtrip text_input_response_object)

record string_select_response =
  ssr_id :: "u32 option"
  ssr_custom_id :: string
  ssr_values :: "string list"

definition string_select_response_init :: string_select_response where
  "string_select_response_init = \<lparr>ssr_id = None, ssr_custom_id = [], ssr_values = []\<rparr>"

definition string_select_response_members :: "string_select_response \<Rightarrow> (string \<times> json option) list" where
  "string_select_response_members x = [
     (''type'', Some (JInt 3)), (''id'', map_option juint (ssr_id x)),
     (''custom_id'', Some (JStr (ssr_custom_id x))), (''values'', Some (JArr (map JStr (ssr_values x))))]"

definition string_select_response_to_json :: "string_select_response \<Rightarrow> json" where
  "string_select_response_to_json x = write_members (string_select_response_members x)"

definition string_select_response_from_json :: "json \<Rightarrow> string_select_response option" where
  "string_select_response_from_json j = do {
     v0 \<leftarrow> deserialize to_opt_uint j ''id'' None;
     v1 \<leftarrow> deserialize to_str j ''custom_id'' [];
     v2 \<leftarrow> deserialize (to_vector get_string) j ''values'' [];
     Some \<lparr>ssr_id = v0, ssr_custom_id = v1, ssr_values = v2\<rparr>
   }"

lemma string_select_response_roundtrip: "string_select_response_from_json (string_select_response_to_json x) = Some x"
proof -
  have "distinct (map fst (string_select_response_members x))" by (simp add: string_select_response_members_def)
  note read = read_member [OF this]
  show ?thesis unfolding string_select_response_from_json_def string_select_response_to_json_def read
    by (simp add: string_select_response_members_def)
qed

lemma string_select_response_object: "\<not> is_null (string_select_response_to_json x)"
  unfolding string_select_response_to_json_def by (rule write_members_object [OF one_value_distinct]) (simp_all add: string_select_response_members_def)

interpretation string_select_response: entity_object string_select_response_to_json string_select_response_from_json "\<lambda>_. True"
  by unfold_locales (simp_all add: string_select_response_roundtrip string_select_response_object)

record user_select_response =
  usr_id :: "u32 option"
  usr_custom_id :: string
  usr_values :: "snowflake list"

definition user_select_response_init :: user_select_response where
  "user_select_response_init = \<lparr>usr_id = None, usr_custom_id = [], usr_values = []\<rparr>"

definition user_select_response_members :: "user_select_response \<Rightarrow> (string \<times> json option) list" where
  "user_select_response_members x = [
     (''type'', Some (JInt 5)), (''id'', map_option juint (usr_id x)),
     (''custom_id'', Some (JStr (usr_custom_id x))),
     (''values'', Some (JArr (map snowflake_to_json (usr_values x))))]"

definition user_select_response_to_json :: "user_select_response \<Rightarrow> json" where
  "user_select_response_to_json x = write_members (user_select_response_members x)"

definition user_select_response_from_json :: "json \<Rightarrow> user_select_response option" where
  "user_select_response_from_json j = do {
     v0 \<leftarrow> deserialize to_opt_uint j ''id'' None;
     v1 \<leftarrow> deserialize to_str j ''custom_id'' [];
     v2 \<leftarrow> deserialize (to_vector get_snowflake) j ''values'' [];
     Some \<lparr>usr_id = v0, usr_custom_id = v1, usr_values = v2\<rparr>
   }"

lemma user_select_response_roundtrip: "user_select_response_from_json (user_select_response_to_json x) = Some x"
proof -
  have "distinct (map fst (user_select_response_members x))" by (simp add: user_select_response_members_def)
  note read = read_member [OF this]
  show ?thesis unfolding user_select_response_from_json_def user_select_response_to_json_def read
    by (simp add: user_select_response_members_def)
qed

lemma user_select_response_object: "\<not> is_null (user_select_response_to_json x)"
  unfolding user_select_response_to_json_def by (rule write_members_object [OF one_value_distinct]) (simp_all add: user_select_response_members_def)

interpretation user_select_response: entity_object user_select_response_to_json user_select_response_from_json "\<lambda>_. True"
  by unfold_locales (simp_all add: user_select_response_roundtrip user_select_response_object)

record role_select_response =
  rsr_id :: "u32 option"
  rsr_custom_id :: string
  rsr_values :: "snowflake list"

definition role_select_response_init :: role_select_response where
  "role_select_response_init = \<lparr>rsr_id = None, rsr_custom_id = [], rsr_values = []\<rparr>"

definition role_select_response_members :: "role_select_response \<Rightarrow> (string \<times> json option) list" where
  "role_select_response_members x = [
     (''type'', Some (JInt 6)), (''id'', map_option juint (rsr_id x)),
     (''custom_id'', Some (JStr (rsr_custom_id x))),
     (''values'', Some (JArr (map snowflake_to_json (rsr_values x))))]"

definition role_select_response_to_json :: "role_select_response \<Rightarrow> json" where
  "role_select_response_to_json x = write_members (role_select_response_members x)"

definition role_select_response_from_json :: "json \<Rightarrow> role_select_response option" where
  "role_select_response_from_json j = do {
     v0 \<leftarrow> deserialize to_opt_uint j ''id'' None;
     v1 \<leftarrow> deserialize to_str j ''custom_id'' [];
     v2 \<leftarrow> deserialize (to_vector get_snowflake) j ''values'' [];
     Some \<lparr>rsr_id = v0, rsr_custom_id = v1, rsr_values = v2\<rparr>
   }"

lemma role_select_response_roundtrip: "role_select_response_from_json (role_select_response_to_json x) = Some x"
proof -
  have "distinct (map fst (role_select_response_members x))" by (simp add: role_select_response_members_def)
  note read = read_member [OF this]
  show ?thesis unfolding role_select_response_from_json_def role_select_response_to_json_def read
    by (simp add: role_select_response_members_def)
qed

lemma role_select_response_object: "\<not> is_null (role_select_response_to_json x)"
  unfolding role_select_response_to_json_def by (rule write_members_object [OF one_value_distinct]) (simp_all add: role_select_response_members_def)

interpretation role_select_response: entity_object role_select_response_to_json role_select_response_from_json "\<lambda>_. True"
  by unfold_locales (simp_all add: role_select_response_roundtrip role_select_response_object)

record mentionable_select_response =
  msr_id :: "u32 option"
  msr_custom_id :: string
  msr_values :: "snowflake list"

definition mentionable_select_response_init :: mentionable_select_response where
  "mentionable_select_response_init = \<lparr>msr_id = None, msr_custom_id = [], msr_values = []\<rparr>"

definition mentionable_select_response_members :: "mentionable_select_response \<Rightarrow> (string \<times> json option) list" where
  "mentionable_select_response_members x = [
     (''type'', Some (JInt 7)), (''id'', map_option juint (msr_id x)),
     (''custom_id'', Some (JStr (msr_custom_id x))),
     (''values'', Some (JArr (map snowflake_to_json (msr_values x))))]"

definition mentionable_select_response_to_json :: "mentionable_select_response \<Rightarrow> json" where
  "mentionable_select_response_to_json x = write_members (mentionable_select_response_members x)"

definition mentionable_select_response_from_json :: "json \<Rightarrow> mentionable_select_response option" where
  "mentionable_select_response_from_json j = do {
     v0 \<leftarrow> deserialize to_opt_uint j ''id'' None;
     v1 \<leftarrow> deserialize to_str j ''custom_id'' [];
     v2 \<leftarrow> deserialize (to_vector get_snowflake) j ''values'' [];
     Some \<lparr>msr_id = v0, msr_custom_id = v1, msr_values = v2\<rparr>
   }"

lemma mentionable_select_response_roundtrip: "mentionable_select_response_from_json (mentionable_select_response_to_json x) = Some x"
proof -
  have "distinct (map fst (mentionable_select_response_members x))" by (simp add: mentionable_select_response_members_def)
  note read = read_member [OF this]
  show ?thesis unfolding mentionable_select_response_from_json_def mentionable_select_response_to_json_def read
    by (simp add: mentionable_select_response_members_def)
qed

lemma mentionable_select_response_object: "\<not> is_null (mentionable_select_response_to_json x)"
  unfolding mentionable_select_response_to_json_def by (rule write_members_object [OF one_value_distinct]) (simp_all add: mentionable_select_response_members_def)

interpretation mentionable_select_response: entity_object mentionable_select_response_to_json mentionable_select_response_from_json "\<lambda>_. True"
  by unfold_locales (simp_all add: mentionable_select_response_roundtrip mentionable_select_response_object)

record channel_select_response =
  csr_id :: "u32 option"
  csr_custom_id :: string
  csr_values :: "snowflake list"

definition channel_select_response_init :: channel_select_response where
  "channel_select_response_init = \<lparr>csr_id = None, csr_custom_id = [], csr_values = []\<rparr>"

definition channel_select_response_members :: "channel_select_response \<Rightarrow> (string \<times> json option) list" where
  "channel_select_response_members x = [
     (''type'', Some (JInt 8)), (''id'', map_option juint (csr_id x)),
     (''custom_id'', Some (JStr (csr_custom_id x))),
     (''values'', Some (JArr (map snowflake_to_json (csr_values x))))]"

definition channel_select_response_to_json :: "channel_select_response \<Rightarrow> json" where
  "channel_select_response_to_json x = write_members (channel_select_response_members x)"

definition channel_select_response_from_json :: "json \<Rightarrow> channel_select_response option" where
  "channel_select_response_from_json j = do {
     v0 \<leftarrow> deserialize to_opt_uint j ''id'' None;
     v1 \<leftarrow> deserialize to_str j ''custom_id'' [];
     v2 \<leftarrow> deserialize (to_vector get_snowflake) j ''values'' [];
     Some \<lparr>csr_id = v0, csr_custom_id = v1, csr_values = v2\<rparr>
   }"

lemma channel_select_response_roundtrip: "channel_select_response_from_json (channel_select_response_to_json x) = Some x"
proof -
  have "distinct (map fst (channel_select_response_members x))" by (simp add: channel_select_response_members_def)
  note read = read_member [OF this]
  show ?thesis unfolding channel_select_response_from_json_def channel_select_response_to_json_def read
    by (simp add: channel_select_response_members_def)
qed

lemma channel_select_response_object: "\<not> is_null (channel_select_response_to_json x)"
  unfolding channel_select_response_to_json_def by (rule write_members_object [OF one_value_distinct]) (simp_all add: channel_select_response_members_def)

interpretation channel_select_response: entity_object channel_select_response_to_json channel_select_response_from_json "\<lambda>_. True"
  by unfold_locales (simp_all add: channel_select_response_roundtrip channel_select_response_object)

record file_upload_response =
  fur_id :: "u32 option"
  fur_custom_id :: string
  fur_values :: "snowflake list"

definition file_upload_response_init :: file_upload_response where
  "file_upload_response_init = \<lparr>fur_id = None, fur_custom_id = [], fur_values = []\<rparr>"

definition file_upload_response_members :: "file_upload_response \<Rightarrow> (string \<times> json option) list" where
  "file_upload_response_members x = [
     (''type'', Some (JInt 19)), (''id'', map_option juint (fur_id x)),
     (''custom_id'', Some (JStr (fur_custom_id x))),
     (''values'', Some (JArr (map snowflake_to_json (fur_values x))))]"

definition file_upload_response_to_json :: "file_upload_response \<Rightarrow> json" where
  "file_upload_response_to_json x = write_members (file_upload_response_members x)"

definition file_upload_response_from_json :: "json \<Rightarrow> file_upload_response option" where
  "file_upload_response_from_json j = do {
     v0 \<leftarrow> deserialize to_opt_uint j ''id'' None;
     v1 \<leftarrow> deserialize to_str j ''custom_id'' [];
     v2 \<leftarrow> deserialize (to_vector get_snowflake) j ''values'' [];
     Some \<lparr>fur_id = v0, fur_custom_id = v1, fur_values = v2\<rparr>
   }"

lemma file_upload_response_roundtrip: "file_upload_response_from_json (file_upload_response_to_json x) = Some x"
proof -
  have "distinct (map fst (file_upload_response_members x))" by (simp add: file_upload_response_members_def)
  note read = read_member [OF this]
  show ?thesis unfolding file_upload_response_from_json_def file_upload_response_to_json_def read
    by (simp add: file_upload_response_members_def)
qed

lemma file_upload_response_object: "\<not> is_null (file_upload_response_to_json x)"
  unfolding file_upload_response_to_json_def by (rule write_members_object [OF one_value_distinct]) (simp_all add: file_upload_response_members_def)

interpretation file_upload_response: entity_object file_upload_response_to_json file_upload_response_from_json "\<lambda>_. True"
  by unfold_locales (simp_all add: file_upload_response_roundtrip file_upload_response_object)

record text_display_response =
  tdr_id :: "u32 option"

definition text_display_response_init :: text_display_response where
  "text_display_response_init = \<lparr>tdr_id = None\<rparr>"

definition text_display_response_members :: "text_display_response \<Rightarrow> (string \<times> json option) list" where
  "text_display_response_members x = [
     (''type'', Some (JInt 10)), (''id'', map_option juint (tdr_id x))]"

definition text_display_response_to_json :: "text_display_response \<Rightarrow> json" where
  "text_display_response_to_json x = write_members (text_display_response_members x)"

definition text_display_response_from_json :: "json \<Rightarrow> text_display_response option" where
  "text_display_response_from_json j = do {
     v0 \<leftarrow> deserialize to_opt_uint j ''id'' None;
     Some \<lparr>tdr_id = v0\<rparr>
   }"

lemma text_display_response_roundtrip: "text_display_response_from_json (text_display_response_to_json x) = Some x"
proof -
  have "distinct (map fst (text_display_response_members x))" by (simp add: text_display_response_members_def)
  note read = read_member [OF this]
  show ?thesis unfolding text_display_response_from_json_def text_display_response_to_json_def read
    by (simp add: text_display_response_members_def)
qed

lemma text_display_response_object: "\<not> is_null (text_display_response_to_json x)"
  unfolding text_display_response_to_json_def by (rule write_members_object [OF one_value_distinct]) (simp_all add: text_display_response_members_def)

interpretation text_display_response: entity_object text_display_response_to_json text_display_response_from_json "\<lambda>_. True"
  by unfold_locales (simp_all add: text_display_response_roundtrip text_display_response_object)

section \<open>Interactive components\<close>

datatype interactive_response =
    IR_TextInput text_input_response | IR_StringSelect string_select_response | IR_UserSelect user_select_response
  | IR_RoleSelect role_select_response | IR_MentionableSelect mentionable_select_response
  | IR_ChannelSelect channel_select_response | IR_FileUpload file_upload_response

fun interactive_to_json :: "interactive_response \<Rightarrow> json" where
  "interactive_to_json (IR_TextInput r) = text_input_response_to_json r"
| "interactive_to_json (IR_StringSelect r) = string_select_response_to_json r"
| "interactive_to_json (IR_UserSelect r) = user_select_response_to_json r"
| "interactive_to_json (IR_RoleSelect r) = role_select_response_to_json r"
| "interactive_to_json (IR_MentionableSelect r) = mentionable_select_response_to_json r"
| "interactive_to_json (IR_ChannelSelect r) = channel_select_response_to_json r"
| "interactive_to_json (IR_FileUpload r) = file_upload_response_to_json r"

abbreviation empty_input :: interactive_response where
  "empty_input \<equiv> IR_TextInput text_input_response_init"

text \<open>
  The number of a component, where it has one. The local variables of the cases are discarded
  (\<open>dropped\<close>); what is left of reading them is that it may throw.
\<close>

definition number_type :: "json \<Rightarrow> u8 option" where
  "number_type j = (case json_at j ''type'' of
     Some v \<Rightarrow> if is_null v \<or> \<not> is_number v then None else get_word v
   | None \<Rightarrow> None)"

definition dropped :: "'a option \<Rightarrow> interactive_response \<Rightarrow> interactive_response option" where
  "dropped local_r r = map_option (\<lambda>_. r) local_r"

definition interactive_from_json :: "json \<Rightarrow> interactive_response option" where
  "interactive_from_json j = (let r = empty_input in case number_type j of
     None \<Rightarrow> Some r
   | Some t \<Rightarrow>
       if t = type_value CT_SelectMenu then dropped (string_select_response_from_json j) r
       else if t = type_value CT_TextInput then dropped (text_input_response_from_json j) r
       else if t = type_value CT_UserSelect then dropped (user_select_response_from_json j) r
       else if t = type_value CT_RoleSelect then dropped (role_select_response_from_json j) r
       else if t = type_value CT_MentionableSelect then dropped (mentionable_select_response_from_json j) r
       else if t = type_value CT_ChannelSelect then dropped (channel_select_response_from_json j) r
       else if t = type_value CT_FileUpload then dropped (file_upload_response_from_json j) r
       else Some empty_input)"

section \<open>Labels, rows and unknown components\<close>

record label_response =
  lr_id :: "u32 option"
  lr_component :: "interactive_response option"

definition label_response_to_json :: "label_response \<Rightarrow> json" where
  "label_response_to_json x = write_members [(''type'', Some (JInt 18)), (''id'', map_option juint (lr_id x)),
     (''component'', map_option interactive_to_json (lr_component x))]"

definition label_response_from_json :: "json \<Rightarrow> label_response option" where
  "label_response_from_json j = do {
     i \<leftarrow> deserialize to_opt_uint j ''id'' None;
     c \<leftarrow> (case json_at j ''component'' of
            Some (JObj m) \<Rightarrow> map_option Some (interactive_from_json (JObj m))
          | _ \<Rightarrow> Some None);
     Some \<lparr>lr_id = i, lr_component = c\<rparr>
   }"

record action_row_response =
  arr_id :: "u32 option"
  arr_components :: "interactive_response list"

definition action_row_response_to_json :: "action_row_response \<Rightarrow> json" where
  "action_row_response_to_json x = write_members [(''type'', Some (JInt 1)), (''id'', map_option juint (arr_id x)),
     (''components'', Some (JArr (map interactive_to_json (arr_components x))))]"

definition action_row_response_from_json :: "json \<Rightarrow> action_row_response option" where
  "action_row_response_from_json j = do {
     i \<leftarrow> deserialize to_opt_uint j ''id'' None;
     cs \<leftarrow> deserialize (to_vector interactive_from_json) j ''components'' [];
     Some \<lparr>arr_id = i, arr_components = cs\<rparr>
   }"

record unknown_response =
  ur_type :: u8
  ur_raw :: json

definition unknown_response_to_json :: "unknown_response \<Rightarrow> json" where
  "unknown_response_to_json x = (let m = members (ur_raw x)
     in JObj (if map_of m ''type'' = None then put_member ''type'' (juint (ur_type x)) m else m))"

datatype component_response =
    CR_StringSelect string_select_response | CR_TextInput text_input_response | CR_UserSelect user_select_response
  | CR_RoleSelect role_select_response | CR_MentionableSelect mentionable_select_response
  | CR_ChannelSelect channel_select_response | CR_TextDisplay text_display_response | CR_Label label_response
  | CR_ActionRow action_row_response | CR_FileUpload file_upload_response | CR_Unknown unknown_response

fun component_response_to_json :: "component_response \<Rightarrow> json" where
  "component_response_to_json (CR_StringSelect r) = string_select_response_to_json r"
| "component_response_to_json (CR_TextInput r) = text_input_response_to_json r"
| "component_response_to_json (CR_UserSelect r) = user_select_response_to_json r"
| "component_response_to_json (CR_RoleSelect r) = role_select_response_to_json r"
| "component_response_to_json (CR_MentionableSelect r) = mentionable_select_response_to_json r"
| "component_response_to_json (CR_ChannelSelect r) = channel_select_response_to_json r"
| "component_response_to_json (CR_TextDisplay r) = text_display_response_to_json r"
| "component_response_to_json (CR_Label r) = label_response_to_json r"
| "component_response_to_json (CR_ActionRow r) = action_row_response_to_json r"
| "component_response_to_json (CR_FileUpload r) = file_upload_response_to_json r"
| "component_response_to_json (CR_Unknown r) = unknown_response_to_json r"

definition component_response_from_json :: "json \<Rightarrow> component_response option" where
  "component_response_from_json j = (case number_type j of
     None \<Rightarrow> Some (CR_Unknown \<lparr>ur_type = 0, ur_raw = JNull\<rparr>)
   | Some t \<Rightarrow>
       if t = type_value CT_ActionRow then map_option CR_ActionRow (action_row_response_from_json j)
       else if t = type_value CT_SelectMenu then map_option CR_StringSelect (string_select_response_from_json j)
       else if t = type_value CT_TextInput then map_option CR_TextInput (text_input_response_from_json j)
       else if t = type_value CT_UserSelect then map_option CR_UserSelect (user_select_response_from_json j)
       else if t = type_value CT_RoleSelect then map_option CR_RoleSelect (role_select_response_from_json j)
       else if t = type_value CT_MentionableSelect then map_option CR_MentionableSelect (mentionable_select_response_from_json j)
       else if t = type_value CT_ChannelSelect then map_option CR_ChannelSelect (channel_select_response_from_json j)
       else if t = type_value CT_TextDisplay then map_option CR_TextDisplay (text_display_response_from_json j)
       else if t = type_value CT_Label then map_option CR_Label (label_response_from_json j)
       else if t = type_value CT_FileUpload then map_option CR_FileUpload (file_upload_response_from_json j)
       else Some (CR_Unknown \<lparr>ur_type = t, ur_raw = j\<rparr>))"

section \<open>What is kept and what is lost\<close>

lemma interactive_lost: "interactive_from_json j = Some r \<Longrightarrow> r = empty_input"
  by (auto simp: interactive_from_json_def dropped_def Let_def split: option.splits if_splits)

lemma sequence_options_all:
  "sequence_options (map f xs) = Some ys \<Longrightarrow> (\<And>x y. f x = Some y \<Longrightarrow> P y) \<Longrightarrow> list_all P ys"
proof (induction xs arbitrary: ys)
  case (Cons x xs)
  then show ?case by (cases "f x") auto
qed simp

lemma row_lost:
  assumes "action_row_response_from_json j = Some r"
  shows "list_all (\<lambda>c. c = empty_input) (arr_components r)"
proof -
  from assms have d: "deserialize (to_vector interactive_from_json) j ''components'' [] = Some (arr_components r)"
    by (auto simp: action_row_response_from_json_def split: Option.bind_splits)
  show ?thesis
  proof (cases "json_at j ''components''")
    case None
    with d show ?thesis by (simp add: deserialize_def)
  next
    case (Some v)
    show ?thesis
    proof (cases "is_null v")
      case False
      with d Some have "get_vector interactive_from_json v = Some (arr_components r)"
        by (simp add: deserialize_def to_vector_def)
      then obtain xs where "sequence_options (map interactive_from_json xs) = Some (arr_components r)"
        by (cases v) (simp_all add: get_vector_def)
      then show ?thesis by (rule sequence_options_all) (rule interactive_lost)
    qed (use d Some in \<open>simp add: deserialize_def\<close>)
  qed
qed

lemma label_lost:
  assumes "label_response_from_json j = Some r"
  shows "pred_option (\<lambda>c. c = empty_input) (lr_component r)"
  using assms interactive_lost
  by (auto simp: label_response_from_json_def split: Option.bind_splits option.splits json.splits)

text \<open>
  C33. Whatever a user enters into a modal is lost: in every label and every action row that is read,
  each component is an empty text input without id and value.
\<close>
theorem modal_values_lost:
  assumes "component_response_from_json j = Some r"
  shows "(\<forall>l. r = CR_Label l \<longrightarrow> pred_option (\<lambda>c. c = empty_input) (lr_component l)) \<and>
    (\<forall>a. r = CR_ActionRow a \<longrightarrow> list_all (\<lambda>c. c = empty_input) (arr_components a))"
proof (intro conjI allI impI)
  fix l assume "r = CR_Label l"
  with assms have "label_response_from_json j = Some l"
    by (auto simp: component_response_from_json_def split: option.splits if_splits)
  then show "pred_option (\<lambda>c. c = empty_input) (lr_component l)" by (rule label_lost)
next
  fix a assume "r = CR_ActionRow a"
  with assms have "action_row_response_from_json j = Some a"
    by (auto simp: component_response_from_json_def split: option.splits if_splits)
  then show "list_all (\<lambda>c. c = empty_input) (arr_components a)" by (rule row_lost)
qed

definition example_modal :: json where
  "example_modal = JObj [(''type'', JUint 18), (''component'', JObj [(''type'', JUint 4),
     (''custom_id'', JStr ''name''), (''value'', JStr ''Ada'')])]"

theorem modal_values_lost_witness:
  "\<exists>l. component_response_from_json example_modal = Some (CR_Label l) \<and> lr_component l = Some empty_input"
proof -
  have "number_type (JObj [(''type'', JUint 4), (''custom_id'', JStr ''name''), (''value'', JStr ''Ada'')]) = Some 4"
    "number_type example_modal = Some 18"
    by (simp_all add: number_type_def get_word_def example_modal_def)
  then have r: "component_response_from_json example_modal = Some (CR_Label \<lparr>lr_id = None, lr_component = Some empty_input\<rparr>)"
    by (simp add: component_response_from_json_def label_response_from_json_def interactive_from_json_def dropped_def
        example_modal_def text_input_response_from_json_def deserialize_def to_str_def)
  from modal_values_lost [OF r] r show ?thesis by auto
qed

text \<open>A response outside a label or row is read as it was written.\<close>

fun top_level :: "component_response \<Rightarrow> bool" where
  "top_level (CR_Label _) = False"
| "top_level (CR_ActionRow _) = False"
| "top_level (CR_Unknown _) = False"
| "top_level _ = True"

lemma number_type_written:
  assumes "one_value ws" "(''type'', Some (JInt n)) \<in> set ws"
  shows "number_type (write_members ws) = Some (of_int n)"
proof -
  have "map_of ws ''type'' = Some (Some (JInt n))" by (rule map_of_one_value [OF assms])
  then have "map_of (fold (\<lambda>(k, v). put_optional k v) ws []) ''type'' = Some (JInt n)"
    by (simp add: map_of_write [OF assms(1)])
  then have "json_at (write_members ws) ''type'' = Some (JInt n)"
    by (auto simp: write_members_def Let_def)
  then show ?thesis by (simp add: number_type_def get_word_def)
qed

lemmas response_types =
  number_type_written [OF one_value_distinct, of "string_select_response_members x" 3 for x]
  number_type_written [OF one_value_distinct, of "text_input_response_members x" 4 for x]
  number_type_written [OF one_value_distinct, of "user_select_response_members x" 5 for x]
  number_type_written [OF one_value_distinct, of "role_select_response_members x" 6 for x]
  number_type_written [OF one_value_distinct, of "mentionable_select_response_members x" 7 for x]
  number_type_written [OF one_value_distinct, of "channel_select_response_members x" 8 for x]
  number_type_written [OF one_value_distinct, of "text_display_response_members x" 10 for x]
  number_type_written [OF one_value_distinct, of "file_upload_response_members x" 19 for x]

lemmas response_members_defs =
  string_select_response_members_def text_input_response_members_def user_select_response_members_def
  role_select_response_members_def mentionable_select_response_members_def channel_select_response_members_def
  text_display_response_members_def file_upload_response_members_def

lemmas response_to_json_defs =
  string_select_response_to_json_def text_input_response_to_json_def user_select_response_to_json_def
  role_select_response_to_json_def mentionable_select_response_to_json_def channel_select_response_to_json_def
  text_display_response_to_json_def file_upload_response_to_json_def

lemma response_numbers [simp]:
  "number_type (string_select_response_to_json a) = Some 3"
  "number_type (text_input_response_to_json b) = Some 4"
  "number_type (user_select_response_to_json c) = Some 5"
  "number_type (role_select_response_to_json d) = Some 6"
  "number_type (mentionable_select_response_to_json e) = Some 7"
  "number_type (channel_select_response_to_json f) = Some 8"
  "number_type (text_display_response_to_json g) = Some 10"
  "number_type (file_upload_response_to_json h) = Some 19"
  unfolding response_to_json_defs
  by (subst response_types; simp add: response_members_defs)+

lemma top_level_roundtrip:
  "top_level r \<Longrightarrow> component_response_from_json (component_response_to_json r) = Some r"
  by (cases r) (simp_all add: component_response_from_json_def string_select_response.roundtrip
      text_input_response.roundtrip user_select_response.roundtrip role_select_response.roundtrip
      mentionable_select_response.roundtrip channel_select_response.roundtrip text_display_response.roundtrip
      file_upload_response.roundtrip)


end
