(* ===== verification/Entity_Interaction.thy ===== *)
theory Entity_Interaction
  imports Entity_Guild Entity_Post Modal_Response
begin

text \<open>
  Interactions: \<^verbatim>\<open>src/interaction.cpp\<close>, \<^verbatim>\<open>application_command_data.cpp\<close>,
  \<^verbatim>\<open>application_command_data_resolved.cpp\<close>, \<^verbatim>\<open>message_component_data.cpp\<close>, \<^verbatim>\<open>modal_submit_data.cpp\<close>,
  \<^verbatim>\<open>partial_interaction_guild.cpp\<close>, \<^verbatim>\<open>partial_interaction_channel.cpp\<close>, \<^verbatim>\<open>entitlement.cpp\<close> and
  \<^verbatim>\<open>interaction_callback.cpp\<close>. A \<^verbatim>\<open>double\<close> is represented by its integral part, as everywhere.
\<close>

section \<open>Maps by id\<close>

text \<open>
  An \<^verbatim>\<open>unordered_map\<close> with ids as keys is its list of entries. Since an id is not a string, the JSON
  library writes such a map as an array of pairs, whereas \<open>deserialize\<close> reads an object, whose keys
  it converts; an entry whose key is there already is dropped.
\<close>

definition jid_map :: "('a \<Rightarrow> json) \<Rightarrow> (snowflake \<times> 'a) list \<Rightarrow> json" where
  "jid_map enc m = JArr (map (\<lambda>(k, v). JArr [snowflake_to_json k, enc v]) m)"

fun read_entries :: "(json \<Rightarrow> 'a option) \<Rightarrow> (string \<times> json) list \<Rightarrow> (snowflake \<times> 'a) list \<Rightarrow> (snowflake \<times> 'a) list option" where
  "read_entries get [] m = Some m"
| "read_entries get ((k, v) # kvs) m = do {
     key \<leftarrow> get_snowflake (JStr k);
     x \<leftarrow> get v;
     read_entries get kvs (if map_of m key = None then m @ [(key, x)] else m)
   }"

definition to_id_map :: "(json \<Rightarrow> 'a option) \<Rightarrow> json \<Rightarrow> (snowflake \<times> 'a) list \<Rightarrow> (snowflake \<times> 'a) list option" where
  "to_id_map get v old = (case v of JObj kvs \<Rightarrow> read_entries get kvs [] | _ \<Rightarrow> Some old)"

text \<open>What was written is not read; an object with the ids as keys is.\<close>

lemma id_map_lost: "read_value (to_id_map get) (Some (Some (jid_map enc m))) old = Some old"
  by (simp add: jid_map_def to_id_map_def)

lemma read_entries_eq:
  assumes "list_all (\<lambda>(k, v). get (enc v) = Some v) m" "distinct (map fst (m' @ m))"
  shows "read_entries get (map (\<lambda>(k, v). (to_string k, enc v)) m) m' = Some (m' @ m)"
  using assms
proof (induction m arbitrary: m')
  case (Cons e m)
  obtain k v where e: "e = (k, v)" by (cases e)
  have "get_snowflake (JStr (to_string k)) = Some k"
    using get_written(1) [of k] by (simp add: snowflake_to_json_def)
  moreover have "map_of m' k = None" using Cons.prems e by (auto simp: map_of_eq_None_iff)
  ultimately show ?case using Cons.IH [of "m' @ [e]"] Cons.prems e by simp
qed simp

lemma id_map_read:
  assumes "list_all (\<lambda>(k, v). get (enc v) = Some v) m" "distinct (map fst m)"
  shows "to_id_map get (JObj (map (\<lambda>(k, v). (to_string k, enc v)) m)) old = Some m"
  using read_entries_eq [of get enc m "[]"] assms by (simp add: to_id_map_def)

section \<open>Resolved data\<close>

record interaction_channel =
  icn_id :: snowflake
  icn_type :: u8
  icn_name :: string
  icn_parent_id :: "snowflake option"
  icn_permissions :: u64
  icn_thread_metadata :: "thread_metadata option"

definition interaction_channel_init :: interaction_channel where
  "interaction_channel_init = \<lparr>icn_id = 0, icn_type = 0, icn_name = [], icn_parent_id = None, icn_permissions = 0,
     icn_thread_metadata = None\<rparr>"

definition interaction_channel_members :: "interaction_channel \<Rightarrow> (string \<times> json option) list" where
  "interaction_channel_members x = [
     (''id'', Some (snowflake_to_json (icn_id x))), (''type'', Some (juint (icn_type x))),
     (''name'', Some (JStr (icn_name x))), (''parent_id'', map_option snowflake_to_json (icn_parent_id x)),
     (''permissions'', Some (permissions_to_json (icn_permissions x))),
     (''thread_metadata'', map_option thread_metadata_to_json (icn_thread_metadata x))]"

definition interaction_channel_to_json :: "interaction_channel \<Rightarrow> json" where
  "interaction_channel_to_json x = write_members (interaction_channel_members x)"

definition interaction_channel_from_json :: "json \<Rightarrow> interaction_channel option" where
  "interaction_channel_from_json j = do {
     v0 \<leftarrow> deserialize (to_value get_snowflake) j ''id'' 0;
     v1 \<leftarrow> deserialize (to_value get_enum) j ''type'' 0;
     v2 \<leftarrow> deserialize to_str j ''name'' [];
     v3 \<leftarrow> deserialize (to_opt get_snowflake) j ''parent_id'' None;
     v4 \<leftarrow> deserialize (to_value permissions_from_json) j ''permissions'' 0;
     v5 \<leftarrow> deserialize (to_opt thread_metadata_from_json) j ''thread_metadata'' None;
     Some \<lparr>icn_id = v0, icn_type = v1, icn_name = v2, icn_parent_id = v3, icn_permissions = v4,
       icn_thread_metadata = v5\<rparr>
   }"

lemma interaction_channel_roundtrip: "interaction_channel_from_json (interaction_channel_to_json x) = Some x"
proof -
  have "distinct (map fst (interaction_channel_members x))" by (simp add: interaction_channel_members_def)
  note read = read_member [OF this]
  show ?thesis unfolding interaction_channel_from_json_def interaction_channel_to_json_def read
    by (simp add: interaction_channel_members_def)
qed

lemma interaction_channel_object: "\<not> is_null (interaction_channel_to_json x)"
  unfolding interaction_channel_to_json_def by (rule write_members_object [OF one_value_distinct]) (simp_all add: interaction_channel_members_def)

interpretation interaction_channel: entity_object interaction_channel_to_json interaction_channel_from_json "\<lambda>_. True"
  by unfold_locales (simp_all add: interaction_channel_roundtrip interaction_channel_object)

record interaction_member =
  im_avatar :: "string option"
  im_communication_disabled_until :: "string option"
  im_flags :: u8
  im_joined_at :: string
  im_nick :: "string option"
  im_pending :: bool
  im_permissions :: u64
  im_premium_since :: "string option"
  im_roles :: "snowflake list"

definition interaction_member_init :: interaction_member where
  "interaction_member_init = \<lparr>im_avatar = None, im_communication_disabled_until = None, im_flags = 0, im_joined_at = [], im_nick = None,
     im_pending = False, im_permissions = 0, im_premium_since = None, im_roles = []\<rparr>"

definition interaction_member_members :: "interaction_member \<Rightarrow> (string \<times> json option) list" where
  "interaction_member_members x = [
     (''avatar'', map_option JStr (im_avatar x)),
     (''communication_disabled_until'', map_option JStr (im_communication_disabled_until x)),
     (''flags'', Some (juint (im_flags x))), (''joined_at'', Some (JStr (im_joined_at x))),
     (''nick'', map_option JStr (im_nick x)), (''pending'', Some (JBool (im_pending x))),
     (''permissions'', Some (permissions_to_json (im_permissions x))),
     (''premium_since'', map_option JStr (im_premium_since x)),
     (''roles'', Some (JArr (map snowflake_to_json (im_roles x))))]"

definition interaction_member_to_json :: "interaction_member \<Rightarrow> json" where
  "interaction_member_to_json x = write_members (interaction_member_members x)"

definition interaction_member_from_json :: "json \<Rightarrow> interaction_member option" where
  "interaction_member_from_json j = do {
     v0 \<leftarrow> deserialize (to_opt get_string) j ''avatar'' None;
     v1 \<leftarrow> deserialize (to_opt get_string) j ''communication_disabled_until'' None;
     v2 \<leftarrow> deserialize (to_value get_enum) j ''flags'' 0;
     v3 \<leftarrow> deserialize to_str j ''joined_at'' [];
     v4 \<leftarrow> deserialize (to_opt get_string) j ''nick'' None;
     v5 \<leftarrow> deserialize to_bool j ''pending'' False;
     v6 \<leftarrow> deserialize (to_value permissions_from_json) j ''permissions'' 0;
     v7 \<leftarrow> deserialize (to_opt get_string) j ''premium_since'' None;
     v8 \<leftarrow> deserialize (to_vector get_snowflake) j ''roles'' [];
     Some \<lparr>im_avatar = v0, im_communication_disabled_until = v1, im_flags = v2, im_joined_at = v3, im_nick = v4,
       im_pending = v5, im_permissions = v6, im_premium_since = v7, im_roles = v8\<rparr>
   }"

lemma interaction_member_roundtrip: "interaction_member_from_json (interaction_member_to_json x) = Some x"
proof -
  have "distinct (map fst (interaction_member_members x))" by (simp add: interaction_member_members_def)
  note read = read_member [OF this]
  show ?thesis unfolding interaction_member_from_json_def interaction_member_to_json_def read
    by (simp add: interaction_member_members_def)
qed

lemma interaction_member_object: "\<not> is_null (interaction_member_to_json x)"
  unfolding interaction_member_to_json_def by (rule write_members_object [OF one_value_distinct]) (simp_all add: interaction_member_members_def)

interpretation interaction_member: entity_object interaction_member_to_json interaction_member_from_json "\<lambda>_. True"
  by unfold_locales (simp_all add: interaction_member_roundtrip interaction_member_object)

record resolved =
  rd_users :: "(snowflake \<times> user) list"
  rd_members :: "(snowflake \<times> interaction_member) list"
  rd_roles :: "(snowflake \<times> role) list"
  rd_channels :: "(snowflake \<times> interaction_channel) list"
  rd_messages :: "(snowflake \<times> message) list"
  rd_attachments :: "(snowflake \<times> attachment) list"

definition resolved_members :: "resolved \<Rightarrow> (snowflake \<times> json) list \<Rightarrow> (string \<times> json option) list" where
  "resolved_members x ms = [(''users'', Some (jid_map user_to_json (rd_users x))),
     (''members'', Some (jid_map interaction_member_to_json (rd_members x))),
     (''roles'', Some (jid_map role_to_json (rd_roles x))),
     (''channels'', Some (jid_map interaction_channel_to_json (rd_channels x))),
     (''messages'', Some (jid_map (\<lambda>j. j) ms)),
     (''attachments'', Some (jid_map attachment_to_json (rd_attachments x)))]"

definition resolved_to_json :: "resolved \<Rightarrow> json option" where
  "resolved_to_json x = do {
     ms \<leftarrow> sequence_options (map (\<lambda>(k, m). map_option (Pair k) (message_to_json m)) (rd_messages x));
     Some (write_members (resolved_members x ms))
   }"

definition resolved_from_json :: "json \<Rightarrow> resolved option" where
  "resolved_from_json j = do {
     us \<leftarrow> deserialize (to_id_map user_from_json) j ''users'' [];
     ms \<leftarrow> deserialize (to_id_map interaction_member_from_json) j ''members'' [];
     rs \<leftarrow> deserialize (to_id_map role_from_json) j ''roles'' [];
     cs \<leftarrow> deserialize (to_id_map interaction_channel_from_json) j ''channels'' [];
     ps \<leftarrow> deserialize (to_id_map message_from_json) j ''messages'' [];
     as \<leftarrow> deserialize (to_id_map attachment_from_json) j ''attachments'' [];
     Some \<lparr>rd_users = us, rd_members = ms, rd_roles = rs, rd_channels = cs, rd_messages = ps, rd_attachments = as\<rparr>
   }"

abbreviation no_resolved :: resolved where
  "no_resolved \<equiv> \<lparr>rd_users = [], rd_members = [], rd_roles = [], rd_channels = [], rd_messages = [], rd_attachments = []\<rparr>"

lemma resolved_lost:
  assumes "resolved_to_json x = Some j"
  shows "resolved_from_json j = Some no_resolved" "\<not> is_null j"
proof -
  obtain ms where j: "j = write_members (resolved_members x ms)"
    using assms by (auto simp: resolved_to_json_def split: Option.bind_splits)
  have d: "distinct (map fst (resolved_members x ms))" by (simp add: resolved_members_def)
  show "resolved_from_json j = Some no_resolved" unfolding resolved_from_json_def j read_member [OF d]
    by (simp add: resolved_members_def id_map_lost del: read_value_simps(3))
  show "\<not> is_null j" unfolding j
    by (rule write_members_object [OF one_value_distinct [OF d]]) (simp add: resolved_members_def)
qed

section \<open>Options of a command\<close>

type_synonym i64 = "64 word"

datatype option_value =
    OV_None | OV_String string | OV_Integer i64 | OV_Number int | OV_Boolean bool | OV_Id snowflake

fun option_value_to_json :: "option_value \<Rightarrow> json" where
  "option_value_to_json OV_None = JNull"
| "option_value_to_json (OV_String s) = JStr s"
| "option_value_to_json (OV_Integer i) = JInt (sint i)"
| "option_value_to_json (OV_Number f) = JFloat f"
| "option_value_to_json (OV_Boolean b) = JBool b"
| "option_value_to_json (OV_Id k) = snowflake_to_json k"

fun is_number_integer :: "json \<Rightarrow> bool" where
  "is_number_integer (JInt i) = True" | "is_number_integer (JUint n) = True" | "is_number_integer _ = False"

fun is_boolean :: "json \<Rightarrow> bool" where
  "is_boolean (JBool b) = True" | "is_boolean _ = False"

fun get_double :: "json \<Rightarrow> int option" where
  "get_double (JInt i) = Some i" | "get_double (JUint n) = Some (int n)" | "get_double (JFloat f) = Some f"
| "get_double _ = None"

definition fallback_value :: "json \<Rightarrow> option_value option" where
  "fallback_value j = (case j of
     JStr s \<Rightarrow> Some (OV_String s)
   | JBool b \<Rightarrow> Some (OV_Boolean b)
   | JInt _ \<Rightarrow> map_option (\<lambda>i. OV_Integer (of_int i)) (get_int64 j)
   | JUint _ \<Rightarrow> map_option (\<lambda>i. OV_Integer (of_int i)) (get_int64 j)
   | JFloat f \<Rightarrow> Some (OV_Number f)
   | _ \<Rightarrow> None)"

text \<open>
  The outer option is an exception. A signed integer in a string is read with \<^verbatim>\<open>std::stoi\<close>, and
  stays 0 when it is none; a floating point number in a string is an exception.
\<close>

definition option_value_from_json :: "json \<Rightarrow> u8 \<Rightarrow> option_value option option" where
  "option_value_from_json j t = (if is_null j then Some None
     else if t = 3 \<and> is_string j then Some (map_option OV_String (get_string j))
     else if t = 4 \<and> (is_number_integer j \<or> is_string j)
     then (case j of
         JStr s \<Rightarrow> Some (Some (OV_Integer (case stoi s of Some n \<Rightarrow> scast n | None \<Rightarrow> 0)))
       | _ \<Rightarrow> map_option (\<lambda>i. Some (OV_Integer (of_int i))) (get_int64 j))
     else if t = 10 \<and> (is_number j \<or> is_string j) then map_option (\<lambda>f. Some (OV_Number f)) (get_double j)
     else if t = 5 \<and> is_boolean j then Some (map_option OV_Boolean (get_bool j))
     else if t \<in> {6, 7, 8, 9, 11} then map_option (\<lambda>k. Some (OV_Id k)) (get_snowflake j)
     else Some (fallback_value j))"

datatype data_option = DataOption
  (do_name: string) (do_type: u8) (do_value: "option_value option") (do_options: "data_option list")
  (do_focused: "bool option")

fun data_option_to_json :: "data_option \<Rightarrow> json" where
  "data_option_to_json (DataOption n t v os f) = write_members [
     (''name'', Some (JStr n)), (''type'', Some (juint t)), (''focused'', map_option JBool f),
     (''options'', if os = [] then None else Some (JArr (map data_option_to_json os))),
     (''value'', map_option option_value_to_json v)]"

lemma json_array_size [termination_simp]:
  assumes "json_at j k = Some (JArr xs)" "x \<in> set xs"
  shows "size x < size j"
proof -
  obtain kvs where j: "j = JObj kvs" "map_of kvs k = Some (JArr xs)" using assms(1) by (cases j) auto
  then have "(k, JArr xs) \<in> set kvs" by (simp add: map_of_SomeD)
  then have "size (JArr xs) < size_list (size_prod (\<lambda>_. 0) size) kvs + Suc 0"
    by (induction kvs) (auto simp: size_list_estimation')
  moreover have "size x < size (JArr xs)" using assms(2) by (induction xs) auto
  ultimately show ?thesis using j by simp
qed

fun data_option_from_json :: "json \<Rightarrow> data_option option" where
  "data_option_from_json j = do {
     n \<leftarrow> deserialize to_str j ''name'' [];
     t \<leftarrow> deserialize (to_value get_enum) j ''type'' 0;
     f \<leftarrow> deserialize to_opt_bool j ''focused'' None;
     os \<leftarrow> (case json_at j ''options'' of
             None \<Rightarrow> Some []
           | Some v \<Rightarrow> if is_null v then Some [] else (case v of
               JArr xs \<Rightarrow> sequence_options (map data_option_from_json xs)
             | _ \<Rightarrow> None));
     v \<leftarrow> (case json_at j ''value'' of
            None \<Rightarrow> Some None
          | Some w \<Rightarrow> option_value_from_json w t);
     Some (DataOption n t v os f)
   }"

declare data_option_from_json.simps [simp del]

record entitlement =
  en_id :: snowflake
  en_sku_id :: snowflake
  en_application_id :: snowflake
  en_user_id :: "snowflake option"
  en_guild_id :: "snowflake option"
  en_type :: u8
  en_deleted :: bool
  en_starts_at :: "string option"
  en_ends_at :: "string option"
  en_consumed :: "bool option"
  en_promotion_id :: "snowflake option"
  en_gift_code_flags :: "u64 option"
  en_subscription_id :: "snowflake option"

definition entitlement_init :: entitlement where
  "entitlement_init = \<lparr>en_id = 0, en_sku_id = 0, en_application_id = 0, en_user_id = None, en_guild_id = None, en_type = 1,
     en_deleted = False, en_starts_at = None, en_ends_at = None, en_consumed = None, en_promotion_id = None,
     en_gift_code_flags = None, en_subscription_id = None\<rparr>"

definition entitlement_members :: "entitlement \<Rightarrow> (string \<times> json option) list" where
  "entitlement_members x = [
     (''id'', Some (snowflake_to_json (en_id x))), (''sku_id'', Some (snowflake_to_json (en_sku_id x))),
     (''application_id'', Some (snowflake_to_json (en_application_id x))),
     (''user_id'', map_option snowflake_to_json (en_user_id x)), (''type'', Some (juint (en_type x))),
     (''deleted'', Some (JBool (en_deleted x))), (''starts_at'', map_option JStr (en_starts_at x)),
     (''ends_at'', map_option JStr (en_ends_at x)),
     (''guild_id'', map_option snowflake_to_json (en_guild_id x)),
     (''consumed'', map_option JBool (en_consumed x)),
     (''promotion_id'', map_option snowflake_to_json (en_promotion_id x)),
     (''gift_code_flags'', map_option juint (en_gift_code_flags x)),
     (''subscription_id'', map_option snowflake_to_json (en_subscription_id x))]"

definition entitlement_to_json :: "entitlement \<Rightarrow> json" where
  "entitlement_to_json x = write_members (entitlement_members x)"

definition entitlement_from_json :: "json \<Rightarrow> entitlement option" where
  "entitlement_from_json j = do {
     v0 \<leftarrow> deserialize (to_value get_snowflake) j ''id'' 0;
     v1 \<leftarrow> deserialize (to_value get_snowflake) j ''sku_id'' 0;
     v2 \<leftarrow> deserialize (to_value get_snowflake) j ''application_id'' 0;
     v3 \<leftarrow> deserialize (to_opt get_snowflake) j ''user_id'' None;
     v4 \<leftarrow> deserialize (to_value get_enum) j ''type'' 1;
     v5 \<leftarrow> deserialize to_bool j ''deleted'' False;
     v6 \<leftarrow> deserialize (to_opt get_string) j ''starts_at'' None;
     v7 \<leftarrow> deserialize (to_opt get_string) j ''ends_at'' None;
     v8 \<leftarrow> deserialize (to_opt get_snowflake) j ''guild_id'' None;
     v9 \<leftarrow> deserialize to_opt_bool j ''consumed'' None;
     v10 \<leftarrow> deserialize (to_opt get_snowflake) j ''promotion_id'' None;
     v11 \<leftarrow> deserialize to_opt_u64 j ''gift_code_flags'' None;
     v12 \<leftarrow> deserialize (to_opt get_snowflake) j ''subscription_id'' None;
     Some \<lparr>en_id = v0, en_sku_id = v1, en_application_id = v2, en_user_id = v3, en_guild_id = v8, en_type = v4,
       en_deleted = v5, en_starts_at = v6, en_ends_at = v7, en_consumed = v9, en_promotion_id = v10,
       en_gift_code_flags = v11, en_subscription_id = v12\<rparr>
   }"

lemma entitlement_roundtrip: "entitlement_from_json (entitlement_to_json x) = Some x"
proof -
  have "distinct (map fst (entitlement_members x))" by (simp add: entitlement_members_def)
  note read = read_member [OF this]
  show ?thesis unfolding entitlement_from_json_def entitlement_to_json_def read
    by (simp add: entitlement_members_def)
qed

lemma entitlement_object: "\<not> is_null (entitlement_to_json x)"
  unfolding entitlement_to_json_def by (rule write_members_object [OF one_value_distinct]) (simp_all add: entitlement_members_def)

interpretation entitlement: entity_object entitlement_to_json entitlement_from_json "\<lambda>_. True"
  by unfold_locales (simp_all add: entitlement_roundtrip entitlement_object)

record partial_interaction_guild =
  pig_id :: snowflake
  pig_locale :: string
  pig_features :: "guild_feature list"

definition partial_interaction_guild_init :: partial_interaction_guild where
  "partial_interaction_guild_init = \<lparr>pig_id = 0, pig_locale = [], pig_features = []\<rparr>"

definition partial_interaction_guild_members :: "partial_interaction_guild \<Rightarrow> (string \<times> json option) list" where
  "partial_interaction_guild_members x = [
     (''id'', Some (snowflake_to_json (pig_id x))), (''locale'', Some (JStr (pig_locale x))),
     (''features'', Some (JArr (map guild_feature_to_json (pig_features x))))]"

definition partial_interaction_guild_to_json :: "partial_interaction_guild \<Rightarrow> json" where
  "partial_interaction_guild_to_json x = write_members (partial_interaction_guild_members x)"

definition partial_interaction_guild_from_json :: "json \<Rightarrow> partial_interaction_guild option" where
  "partial_interaction_guild_from_json j = do {
     v0 \<leftarrow> deserialize (to_value get_snowflake) j ''id'' 0;
     v1 \<leftarrow> deserialize to_str j ''locale'' [];
     v2 \<leftarrow> deserialize (to_vector guild_feature_from_json) j ''features'' [];
     Some \<lparr>pig_id = v0, pig_locale = v1, pig_features = v2\<rparr>
   }"

definition partial_interaction_guild_ok :: "partial_interaction_guild \<Rightarrow> bool" where
  "partial_interaction_guild_ok x \<longleftrightarrow> list_all guild_feature_ok (pig_features x)"

lemma partial_interaction_guild_roundtrip: "partial_interaction_guild_ok x \<Longrightarrow> partial_interaction_guild_from_json (partial_interaction_guild_to_json x) = Some x"
proof -
  assume "partial_interaction_guild_ok x"
  moreover have "distinct (map fst (partial_interaction_guild_members x))" by (simp add: partial_interaction_guild_members_def)
  note read = read_member [OF this]
  ultimately show ?thesis unfolding partial_interaction_guild_from_json_def partial_interaction_guild_to_json_def read
    by (simp add: partial_interaction_guild_members_def partial_interaction_guild_ok_def)
qed

lemma partial_interaction_guild_object: "\<not> is_null (partial_interaction_guild_to_json x)"
  unfolding partial_interaction_guild_to_json_def by (rule write_members_object [OF one_value_distinct]) (simp_all add: partial_interaction_guild_members_def)

interpretation partial_interaction_guild: entity_object partial_interaction_guild_to_json partial_interaction_guild_from_json partial_interaction_guild_ok
  by unfold_locales (simp_all add: partial_interaction_guild_roundtrip partial_interaction_guild_object)

record partial_interaction_channel =
  pic_id :: snowflake
  pic_type :: u8
  pic_name :: string
  pic_parent_id :: "snowflake option"
  pic_permissions :: u64
  pic_thread_metadata :: "thread_metadata option"

definition partial_interaction_channel_init :: partial_interaction_channel where
  "partial_interaction_channel_init = \<lparr>pic_id = 0, pic_type = 0, pic_name = [], pic_parent_id = None, pic_permissions = 0,
     pic_thread_metadata = None\<rparr>"

definition partial_interaction_channel_members :: "partial_interaction_channel \<Rightarrow> (string \<times> json option) list" where
  "partial_interaction_channel_members x = [
     (''id'', Some (snowflake_to_json (pic_id x))), (''type'', Some (juint (pic_type x))),
     (''name'', Some (JStr (pic_name x))), (''parent_id'', map_option snowflake_to_json (pic_parent_id x)),
     (''permissions'', Some (permissions_to_json (pic_permissions x))),
     (''thread_metadata'', map_option thread_metadata_to_json (pic_thread_metadata x))]"

definition partial_interaction_channel_to_json :: "partial_interaction_channel \<Rightarrow> json" where
  "partial_interaction_channel_to_json x = write_members (partial_interaction_channel_members x)"

definition partial_interaction_channel_from_json :: "json \<Rightarrow> partial_interaction_channel option" where
  "partial_interaction_channel_from_json j = do {
     v0 \<leftarrow> deserialize (to_value get_snowflake) j ''id'' 0;
     v1 \<leftarrow> deserialize (to_value get_enum) j ''type'' 0;
     v2 \<leftarrow> deserialize to_str j ''name'' [];
     v3 \<leftarrow> deserialize (to_opt get_snowflake) j ''parent_id'' None;
     v4 \<leftarrow> deserialize (to_value permissions_from_json) j ''permissions'' 0;
     v5 \<leftarrow> deserialize (to_opt thread_metadata_from_json) j ''thread_metadata'' None;
     Some \<lparr>pic_id = v0, pic_type = v1, pic_name = v2, pic_parent_id = v3, pic_permissions = v4,
       pic_thread_metadata = v5\<rparr>
   }"

lemma partial_interaction_channel_roundtrip: "partial_interaction_channel_from_json (partial_interaction_channel_to_json x) = Some x"
proof -
  have "distinct (map fst (partial_interaction_channel_members x))" by (simp add: partial_interaction_channel_members_def)
  note read = read_member [OF this]
  show ?thesis unfolding partial_interaction_channel_from_json_def partial_interaction_channel_to_json_def read
    by (simp add: partial_interaction_channel_members_def)
qed

lemma partial_interaction_channel_object: "\<not> is_null (partial_interaction_channel_to_json x)"
  unfolding partial_interaction_channel_to_json_def by (rule write_members_object [OF one_value_distinct]) (simp_all add: partial_interaction_channel_members_def)

interpretation partial_interaction_channel: entity_object partial_interaction_channel_to_json partial_interaction_channel_from_json "\<lambda>_. True"
  by unfold_locales (simp_all add: partial_interaction_channel_roundtrip partial_interaction_channel_object)

record interaction_callback_activity_instance =
  icai_id :: string

definition interaction_callback_activity_instance_init :: interaction_callback_activity_instance where
  "interaction_callback_activity_instance_init = \<lparr>icai_id = []\<rparr>"

definition interaction_callback_activity_instance_members :: "interaction_callback_activity_instance \<Rightarrow> (string \<times> json option) list" where
  "interaction_callback_activity_instance_members x = [
     (''id'', Some (JStr (icai_id x)))]"

definition interaction_callback_activity_instance_to_json :: "interaction_callback_activity_instance \<Rightarrow> json" where
  "interaction_callback_activity_instance_to_json x = write_members (interaction_callback_activity_instance_members x)"

definition interaction_callback_activity_instance_from_json :: "json \<Rightarrow> interaction_callback_activity_instance option" where
  "interaction_callback_activity_instance_from_json j = do {
     v0 \<leftarrow> deserialize to_str j ''id'' [];
     Some \<lparr>icai_id = v0\<rparr>
   }"

lemma interaction_callback_activity_instance_roundtrip: "interaction_callback_activity_instance_from_json (interaction_callback_activity_instance_to_json x) = Some x"
proof -
  have "distinct (map fst (interaction_callback_activity_instance_members x))" by (simp add: interaction_callback_activity_instance_members_def)
  note read = read_member [OF this]
  show ?thesis unfolding interaction_callback_activity_instance_from_json_def interaction_callback_activity_instance_to_json_def read
    by (simp add: interaction_callback_activity_instance_members_def)
qed

lemma interaction_callback_activity_instance_object: "\<not> is_null (interaction_callback_activity_instance_to_json x)"
  unfolding interaction_callback_activity_instance_to_json_def by (rule write_members_object [OF one_value_distinct]) (simp_all add: interaction_callback_activity_instance_members_def)

interpretation interaction_callback_activity_instance: entity_object interaction_callback_activity_instance_to_json interaction_callback_activity_instance_from_json "\<lambda>_. True"
  by unfold_locales (simp_all add: interaction_callback_activity_instance_roundtrip interaction_callback_activity_instance_object)

record interaction_callback =
  icnt_id :: snowflake
  icnt_type :: u8
  icnt_activity_instance_id :: "string option"
  icnt_response_message_id :: "snowflake option"
  icnt_response_message_loading :: "bool option"
  icnt_response_message_ephemeral :: "bool option"

definition interaction_callback_init :: interaction_callback where
  "interaction_callback_init = \<lparr>icnt_id = 0, icnt_type = 0, icnt_activity_instance_id = None, icnt_response_message_id = None,
     icnt_response_message_loading = None, icnt_response_message_ephemeral = None\<rparr>"

definition interaction_callback_members :: "interaction_callback \<Rightarrow> (string \<times> json option) list" where
  "interaction_callback_members x = [
     (''id'', Some (snowflake_to_json (icnt_id x))), (''type'', Some (juint (icnt_type x))),
     (''activity_instance_id'', map_option JStr (icnt_activity_instance_id x)),
     (''response_message_id'', map_option snowflake_to_json (icnt_response_message_id x)),
     (''response_message_loading'', map_option JBool (icnt_response_message_loading x)),
     (''response_message_ephemeral'', map_option JBool (icnt_response_message_ephemeral x))]"

definition interaction_callback_to_json :: "interaction_callback \<Rightarrow> json" where
  "interaction_callback_to_json x = write_members (interaction_callback_members x)"

definition interaction_callback_from_json :: "json \<Rightarrow> interaction_callback option" where
  "interaction_callback_from_json j = do {
     v0 \<leftarrow> deserialize (to_value get_snowflake) j ''id'' 0;
     v1 \<leftarrow> deserialize (to_value get_enum) j ''type'' 0;
     v2 \<leftarrow> deserialize (to_opt get_string) j ''activity_instance_id'' None;
     v3 \<leftarrow> deserialize (to_opt get_snowflake) j ''response_message_id'' None;
     v4 \<leftarrow> deserialize to_opt_bool j ''response_message_loading'' None;
     v5 \<leftarrow> deserialize to_opt_bool j ''response_message_ephemeral'' None;
     Some \<lparr>icnt_id = v0, icnt_type = v1, icnt_activity_instance_id = v2, icnt_response_message_id = v3,
       icnt_response_message_loading = v4, icnt_response_message_ephemeral = v5\<rparr>
   }"

lemma interaction_callback_roundtrip: "interaction_callback_from_json (interaction_callback_to_json x) = Some x"
proof -
  have "distinct (map fst (interaction_callback_members x))" by (simp add: interaction_callback_members_def)
  note read = read_member [OF this]
  show ?thesis unfolding interaction_callback_from_json_def interaction_callback_to_json_def read
    by (simp add: interaction_callback_members_def)
qed

lemma interaction_callback_object: "\<not> is_null (interaction_callback_to_json x)"
  unfolding interaction_callback_to_json_def by (rule write_members_object [OF one_value_distinct]) (simp_all add: interaction_callback_members_def)

interpretation interaction_callback: entity_object interaction_callback_to_json interaction_callback_from_json "\<lambda>_. True"
  by unfold_locales (simp_all add: interaction_callback_roundtrip interaction_callback_object)

section \<open>Commands, components and modals\<close>

record command_data =
  cd_id :: snowflake
  cd_name :: string
  cd_type :: u8
  cd_resolved :: "resolved option"
  cd_options :: "data_option list"
  cd_guild_id :: "snowflake option"
  cd_target_id :: "snowflake option"

definition opt_resolved_to_json :: "resolved option \<Rightarrow> json option option" where
  "opt_resolved_to_json v = (case v of None \<Rightarrow> Some None | Some r \<Rightarrow> map_option Some (resolved_to_json r))"

definition command_data_members :: "command_data \<Rightarrow> json option \<Rightarrow> (string \<times> json option) list" where
  "command_data_members x r = [(''id'', Some (snowflake_to_json (cd_id x))), (''name'', Some (JStr (cd_name x))),
     (''type'', Some (juint (cd_type x))), (''resolved'', r),
     (''options'', Some (JArr (map data_option_to_json (cd_options x)))),
     (''guild_id'', map_option snowflake_to_json (cd_guild_id x)),
     (''target_id'', map_option snowflake_to_json (cd_target_id x))]"

definition command_data_to_json :: "command_data \<Rightarrow> json option" where
  "command_data_to_json x = map_option (\<lambda>r. write_members (command_data_members x r)) (opt_resolved_to_json (cd_resolved x))"

definition command_data_from_json :: "json \<Rightarrow> command_data option" where
  "command_data_from_json j = do {
     i \<leftarrow> deserialize (to_value get_snowflake) j ''id'' 0;
     n \<leftarrow> deserialize to_str j ''name'' [];
     t \<leftarrow> deserialize (to_value get_enum) j ''type'' 0;
     r \<leftarrow> deserialize (to_opt resolved_from_json) j ''resolved'' None;
     os \<leftarrow> deserialize (to_vector data_option_from_json) j ''options'' [];
     g \<leftarrow> deserialize (to_opt get_snowflake) j ''guild_id'' None;
     k \<leftarrow> deserialize (to_opt get_snowflake) j ''target_id'' None;
     Some \<lparr>cd_id = i, cd_name = n, cd_type = t, cd_resolved = r, cd_options = os, cd_guild_id = g, cd_target_id = k\<rparr>
   }"

record component_data =
  md_custom_id :: string
  md_type :: u8
  md_values :: "string list option"
  md_resolved :: "resolved option"

definition component_data_members :: "component_data \<Rightarrow> json option \<Rightarrow> (string \<times> json option) list" where
  "component_data_members x r = [(''custom_id'', Some (JStr (md_custom_id x))), (''component_type'', Some (juint (md_type x))),
     (''values'', map_option (\<lambda>xs. JArr (map JStr xs)) (md_values x)), (''resolved'', r)]"

definition component_data_to_json :: "component_data \<Rightarrow> json option" where
  "component_data_to_json x = map_option (\<lambda>r. write_members (component_data_members x r)) (opt_resolved_to_json (md_resolved x))"

definition component_data_from_json :: "json \<Rightarrow> component_data option" where
  "component_data_from_json j = do {
     c \<leftarrow> deserialize to_str j ''custom_id'' [];
     t \<leftarrow> deserialize (to_value get_enum) j ''component_type'' 0;
     vs \<leftarrow> deserialize (to_opt (get_vector get_string)) j ''values'' None;
     r \<leftarrow> deserialize (to_opt resolved_from_json) j ''resolved'' None;
     Some \<lparr>md_custom_id = c, md_type = t, md_values = vs, md_resolved = r\<rparr>
   }"

record modal_data =
  sd_custom_id :: string
  sd_components :: "component_response list"
  sd_resolved :: "resolved option"

definition modal_data_members :: "modal_data \<Rightarrow> json option \<Rightarrow> (string \<times> json option) list" where
  "modal_data_members x r = [(''custom_id'', Some (JStr (sd_custom_id x))),
     (''components'', Some (JArr (map component_response_to_json (sd_components x)))), (''resolved'', r)]"

definition modal_data_to_json :: "modal_data \<Rightarrow> json option" where
  "modal_data_to_json x = map_option (\<lambda>r. write_members (modal_data_members x r)) (opt_resolved_to_json (sd_resolved x))"

definition modal_data_from_json :: "json \<Rightarrow> modal_data option" where
  "modal_data_from_json j = do {
     c \<leftarrow> deserialize to_str j ''custom_id'' [];
     cs \<leftarrow> deserialize (to_vector component_response_from_json) j ''components'' [];
     r \<leftarrow> deserialize (to_opt resolved_from_json) j ''resolved'' None;
     Some \<lparr>sd_custom_id = c, sd_components = cs, sd_resolved = r\<rparr>
   }"

datatype interaction_data = ID_Command command_data | ID_Component component_data | ID_Modal modal_data

fun interaction_data_to_json :: "interaction_data \<Rightarrow> json option" where
  "interaction_data_to_json (ID_Command d) = command_data_to_json d"
| "interaction_data_to_json (ID_Component d) = component_data_to_json d"
| "interaction_data_to_json (ID_Modal d) = modal_data_to_json d"

section \<open>Interactions\<close>

record owners =
  ow_guild_install :: "snowflake option"
  ow_user_install :: "snowflake option"

definition owners_to_json :: "owners \<Rightarrow> json" where
  "owners_to_json x = write_object [(''0'', map_option snowflake_to_json (ow_guild_install x)),
     (''1'', map_option snowflake_to_json (ow_user_install x))]"

definition owners_from_json :: "json \<Rightarrow> owners option" where
  "owners_from_json j = do {
     g \<leftarrow> deserialize (to_opt get_snowflake) j ''0'' None;
     u \<leftarrow> deserialize (to_opt get_snowflake) j ''1'' None;
     Some \<lparr>ow_guild_install = g, ow_user_install = u\<rparr>
   }"

interpretation owners: entity_object owners_to_json owners_from_json "\<lambda>_. True"
proof unfold_locales
  show "owners_from_json (owners_to_json x) = Some x" for x
    unfolding owners_from_json_def owners_to_json_def read_object by (simp add: read_member)
qed (simp add: owners_to_json_def write_object_def)

record interaction =
  in_id :: snowflake
  in_application_id :: snowflake
  in_type :: u8
  in_data :: "interaction_data option"
  in_guild_id :: "snowflake option"
  in_guild :: "partial_interaction_guild option"
  in_channel :: "partial_interaction_channel option"
  in_channel_id :: "snowflake option"
  in_member :: "guild_member option"
  in_user :: "user option"
  in_token :: string
  in_version :: i32
  in_message :: "message option"
  in_app_permissions :: "u64 option"
  in_entitlements :: "entitlement list option"
  in_owners :: "owners option"
  in_locale :: "string option"
  in_guild_locale :: "string option"
  in_context :: "u8 option"
  in_attachment_size_limit :: "u64 option"

definition interaction_init :: interaction where
  "interaction_init = \<lparr>in_id = 0, in_application_id = 0, in_type = 0, in_data = None, in_guild_id = None, in_guild = None,
     in_channel = None, in_channel_id = None, in_member = None, in_user = None, in_token = [], in_version = 0,
     in_message = None, in_app_permissions = None, in_entitlements = None, in_owners = None, in_locale = None,
     in_guild_locale = None, in_context = None, in_attachment_size_limit = None\<rparr>"

definition opt_written :: "('a \<Rightarrow> json option) \<Rightarrow> 'a option \<Rightarrow> json option option" where
  "opt_written to_j v = (case v of None \<Rightarrow> Some None | Some x \<Rightarrow> map_option Some (to_j x))"

definition interaction_members :: "interaction \<Rightarrow> json option \<Rightarrow> json option \<Rightarrow> (string \<times> json option) list" where
  "interaction_members x d m = [
     (''id'', Some (snowflake_to_json (in_id x))), (''application_id'', Some (snowflake_to_json (in_application_id x))),
     (''type'', Some (juint (in_type x))), (''data'', d),
     (''guild_id'', map_option snowflake_to_json (in_guild_id x)),
     (''guild'', map_option partial_interaction_guild_to_json (in_guild x)),
     (''channel'', map_option partial_interaction_channel_to_json (in_channel x)),
     (''channel_id'', map_option snowflake_to_json (in_channel_id x)),
     (''member'', map_option guild_member_to_json (in_member x)), (''user'', map_option user_to_json (in_user x)),
     (''token'', Some (JStr (in_token x))), (''version'', Some (jsint (in_version x))), (''message'', m),
     (''app_permissions'', map_option permissions_to_json (in_app_permissions x)),
     (''entitlements'', map_option (\<lambda>xs. JArr (map entitlement_to_json xs)) (in_entitlements x)),
     (''authorizing_integration_owners'', map_option owners_to_json (in_owners x)),
     (''locale'', map_option JStr (in_locale x)), (''guild_locale'', map_option JStr (in_guild_locale x)),
     (''context'', map_option juint (in_context x)),
     (''attachment_size_limit'', map_option juint (in_attachment_size_limit x))]"

definition interaction_to_json :: "interaction \<Rightarrow> json option" where
  "interaction_to_json x = do {
     d \<leftarrow> opt_written interaction_data_to_json (in_data x);
     m \<leftarrow> opt_written message_to_json (in_message x);
     Some (write_members (interaction_members x d m))
   }"

text \<open>The type decides how the data is read; without a type, and for other types, there is none.\<close>

definition interaction_data_from_json :: "json \<Rightarrow> interaction_data option option" where
  "interaction_data_from_json j = (case (json_at j ''type'', json_at j ''data'') of
     (Some tj, Some d) \<Rightarrow>
       if is_null tj \<or> is_null d then Some None
       else (case get_enum tj :: u8 option of
           None \<Rightarrow> None
         | Some t \<Rightarrow>
             if t = 2 \<or> t = 4 then map_option (\<lambda>v. Some (ID_Command v)) (command_data_from_json d)
             else if t = 3 then map_option (\<lambda>v. Some (ID_Component v)) (component_data_from_json d)
             else if t = 5 then map_option (\<lambda>v. Some (ID_Modal v)) (modal_data_from_json d)
             else Some None)
   | _ \<Rightarrow> Some None)"

definition interaction_from_json :: "json \<Rightarrow> interaction option" where
  "interaction_from_json j = do {
     i \<leftarrow> deserialize (to_value get_snowflake) j ''id'' 0;
     a \<leftarrow> deserialize (to_value get_snowflake) j ''application_id'' 0;
     t \<leftarrow> deserialize (to_value get_enum) j ''type'' 0;
     d \<leftarrow> interaction_data_from_json j;
     gi \<leftarrow> deserialize (to_opt get_snowflake) j ''guild_id'' None;
     g \<leftarrow> deserialize (to_opt partial_interaction_guild_from_json) j ''guild'' None;
     c \<leftarrow> deserialize (to_opt partial_interaction_channel_from_json) j ''channel'' None;
     ci \<leftarrow> deserialize (to_opt get_snowflake) j ''channel_id'' None;
     mb \<leftarrow> deserialize (to_opt guild_member_from_json) j ''member'' None;
     u \<leftarrow> deserialize (to_opt user_from_json) j ''user'' None;
     tk \<leftarrow> deserialize to_str j ''token'' [];
     v \<leftarrow> deserialize to_sint j ''version'' 0;
     m \<leftarrow> deserialize (to_opt message_from_json) j ''message'' None;
     p \<leftarrow> deserialize (to_opt permissions_from_json) j ''app_permissions'' None;
     e \<leftarrow> deserialize (to_opt (get_vector entitlement_from_json)) j ''entitlements'' None;
     ow \<leftarrow> deserialize (to_opt owners_from_json) j ''authorizing_integration_owners'' None;
     l \<leftarrow> deserialize (to_opt get_string) j ''locale'' None;
     gl \<leftarrow> deserialize (to_opt get_string) j ''guild_locale'' None;
     cx \<leftarrow> deserialize (to_opt get_enum) j ''context'' None;
     al \<leftarrow> deserialize to_opt_u64 j ''attachment_size_limit'' None;
     Some \<lparr>in_id = i, in_application_id = a, in_type = t, in_data = d, in_guild_id = gi, in_guild = g, in_channel = c,
       in_channel_id = ci, in_member = mb, in_user = u, in_token = tk, in_version = v, in_message = m,
       in_app_permissions = p, in_entitlements = e, in_owners = ow, in_locale = l, in_guild_locale = gl,
       in_context = cx, in_attachment_size_limit = al\<rparr>
   }"

section \<open>The answer to a response\<close>

record callback_resource =
  cr_type :: u8
  cr_activity_instance :: "interaction_callback_activity_instance option"
  cr_message :: "message option"

definition callback_resource_to_json :: "callback_resource \<Rightarrow> json option" where
  "callback_resource_to_json x = map_option (\<lambda>m. write_members [(''type'', Some (juint (cr_type x))),
     (''activity_instance'', map_option interaction_callback_activity_instance_to_json (cr_activity_instance x)),
     (''message'', m)]) (opt_written message_to_json (cr_message x))"

definition callback_resource_from_json :: "json \<Rightarrow> callback_resource option" where
  "callback_resource_from_json j = do {
     t \<leftarrow> deserialize (to_value get_enum) j ''type'' 0;
     a \<leftarrow> deserialize (to_opt interaction_callback_activity_instance_from_json) j ''activity_instance'' None;
     m \<leftarrow> deserialize (to_opt message_from_json) j ''message'' None;
     Some \<lparr>cr_type = t, cr_activity_instance = a, cr_message = m\<rparr>
   }"

record callback_response =
  cb_interaction :: interaction_callback
  cb_resource :: "callback_resource option"

definition callback_response_to_json :: "callback_response \<Rightarrow> json option" where
  "callback_response_to_json x = map_option (\<lambda>r. write_members [
     (''interaction'', Some (interaction_callback_to_json (cb_interaction x))), (''resource'', r)])
     (opt_written callback_resource_to_json (cb_resource x))"

definition callback_response_from_json :: "json \<Rightarrow> callback_response option" where
  "callback_response_from_json j = do {
     i \<leftarrow> deserialize (to_value interaction_callback_from_json) j ''interaction'' interaction_callback_init;
     r \<leftarrow> deserialize (to_opt callback_resource_from_json) j ''resource'' None;
     Some \<lparr>cb_interaction = i, cb_resource = r\<rparr>
   }"

section \<open>Reading what was written\<close>

text \<open>Ids, and numbers of the types that are read as one kind of value only.\<close>

definition value_fits :: "u8 \<Rightarrow> option_value \<Rightarrow> bool" where
  "value_fits t w = (let ids = {6, 7, 8, 9, 11} in case w of
     OV_None \<Rightarrow> False
   | OV_Id _ \<Rightarrow> t \<in> ids
   | OV_String _ \<Rightarrow> t \<notin> ids \<and> t \<noteq> 4 \<and> t \<noteq> 10
   | OV_Integer _ \<Rightarrow> t \<notin> ids \<and> t \<noteq> 10
   | _ \<Rightarrow> t \<notin> ids)"

lemma option_value_roundtrip:
  "value_fits t w \<Longrightarrow> option_value_from_json (option_value_to_json w) t = Some (Some w)"
  by (cases w) (auto simp: value_fits_def Let_def option_value_from_json_def fallback_value_def get_int64_def)

fun option_ok :: "data_option \<Rightarrow> bool" where
  "option_ok (DataOption n t v os f) \<longleftrightarrow> pred_option (value_fits t) v \<and> list_all option_ok os"

lemma value_not_null: "value_fits t w \<Longrightarrow> \<not> is_null (option_value_to_json w)"
  by (cases w) (simp_all add: value_fits_def)

lemma data_option_roundtrip: "option_ok opt \<Longrightarrow> data_option_from_json (data_option_to_json opt) = Some opt"
proof (induction opt)
  case (DataOption n t v os f)
  define ws where "ws = [(''name'', Some (JStr n)), (''type'', Some (juint t)), (''focused'', map_option JBool f),
     (''options'', if os = [] then None else Some (JArr (map data_option_to_json os))),
     (''value'', map_option option_value_to_json v)]"
  have d: "distinct (map fst ws)" by (simp add: ws_def)
  have inner: "sequence_options (map data_option_from_json (map data_option_to_json os)) = Some os"
    using DataOption by (induction os) auto
  have "(case json_at (write_members ws) ''value'' of None \<Rightarrow> Some None | Some w \<Rightarrow> option_value_from_json w t) = Some v"
    using DataOption.prems unfolding json_at_written [OF one_value_distinct [OF d]]
    by (cases v) (simp_all add: ws_def option_value_roundtrip)
  moreover have "(case json_at (write_members ws) ''options'' of None \<Rightarrow> Some []
      | Some v \<Rightarrow> if is_null v then Some [] else (case v of JArr xs \<Rightarrow> sequence_options (map data_option_from_json xs)
          | _ \<Rightarrow> None)) = Some os"
    using inner unfolding json_at_written [OF one_value_distinct [OF d]] by (simp add: ws_def)
  moreover have "deserialize to_str (write_members ws) ''name'' [] = Some n"
    "deserialize (to_value get_enum) (write_members ws) ''type'' 0 = Some t"
    "deserialize to_opt_bool (write_members ws) ''focused'' None = Some f"
    unfolding read_member [OF d] by (simp_all add: ws_def)
  ultimately show ?case
    by (subst data_option_from_json.simps) (simp add: ws_def [symmetric])
qed

lemma data_option_object: "\<not> is_null (data_option_to_json opt)"
proof (cases opt)
  case (DataOption n t v os f)
  show ?thesis unfolding DataOption data_option_to_json.simps
    by (rule write_members_object [OF one_value_distinct]) simp_all
qed

interpretation data_option: entity_object data_option_to_json data_option_from_json option_ok
  by unfold_locales (simp_all add: data_option_roundtrip data_option_object)

interpretation component_response: entity_codec component_response_to_json component_response_from_json top_level
  by unfold_locales (rule top_level_roundtrip)

text \<open>Resolved data is only kept when it is empty.\<close>

definition resolved_ok :: "resolved option \<Rightarrow> bool" where
  "resolved_ok = pred_option (\<lambda>r. r = no_resolved)"

lemma resolved_written:
  assumes "resolved_ok v"
  shows "\<exists>j. opt_resolved_to_json v = Some j \<and> read_value (to_opt resolved_from_json) (Some j) None = Some v"
proof (cases v)
  case (Some r)
  with assms have r: "r = no_resolved" by (simp add: resolved_ok_def)
  then obtain j where j: "resolved_to_json r = Some j" by (simp add: resolved_to_json_def)
  with Some r resolved_lost [OF j] show ?thesis by (simp add: opt_resolved_to_json_def to_opt_def)
qed (simp add: opt_resolved_to_json_def)

fun data_ok :: "u8 \<Rightarrow> interaction_data \<Rightarrow> bool" where
  "data_ok t (ID_Command d) \<longleftrightarrow> (t = 2 \<or> t = 4) \<and> resolved_ok (cd_resolved d) \<and> list_all option_ok (cd_options d)"
| "data_ok t (ID_Component d) \<longleftrightarrow> t = 3 \<and> resolved_ok (md_resolved d)"
| "data_ok t (ID_Modal d) \<longleftrightarrow> t = 5 \<and> resolved_ok (sd_resolved d) \<and> list_all top_level (sd_components d)"

lemma command_data_written:
  assumes "resolved_ok (cd_resolved d)" "list_all option_ok (cd_options d)"
  shows "\<exists>j. command_data_to_json d = Some j \<and> \<not> is_null j \<and> command_data_from_json j = Some d"
proof -
  obtain r where r: "opt_resolved_to_json (cd_resolved d) = Some r"
    "read_value (to_opt resolved_from_json) (Some r) None = Some (cd_resolved d)"
    using resolved_written [OF assms(1)] by blast
  have dist: "distinct (map fst (command_data_members d r))" by (simp add: command_data_members_def)
  have "command_data_from_json (write_members (command_data_members d r)) = Some d"
    using assms r(2) unfolding command_data_from_json_def read_member [OF dist] by (simp add: command_data_members_def)
  moreover have "\<not> is_null (write_members (command_data_members d r))"
    by (rule write_members_object [OF one_value_distinct [OF dist]]) (simp add: command_data_members_def)
  ultimately show ?thesis using r(1) by (simp add: command_data_to_json_def)
qed

lemma component_data_written:
  assumes "resolved_ok (md_resolved d)"
  shows "\<exists>j. component_data_to_json d = Some j \<and> \<not> is_null j \<and> component_data_from_json j = Some d"
proof -
  obtain r where r: "opt_resolved_to_json (md_resolved d) = Some r"
    "read_value (to_opt resolved_from_json) (Some r) None = Some (md_resolved d)"
    using resolved_written [OF assms(1)] by blast
  have dist: "distinct (map fst (component_data_members d r))" by (simp add: component_data_members_def)
  have "component_data_from_json (write_members (component_data_members d r)) = Some d"
    using r(2) unfolding component_data_from_json_def read_member [OF dist] by (simp add: component_data_members_def)
  moreover have "\<not> is_null (write_members (component_data_members d r))"
    by (rule write_members_object [OF one_value_distinct [OF dist]]) (simp add: component_data_members_def)
  ultimately show ?thesis using r(1) by (simp add: component_data_to_json_def)
qed

lemma modal_data_written:
  assumes "resolved_ok (sd_resolved d)" "list_all top_level (sd_components d)"
  shows "\<exists>j. modal_data_to_json d = Some j \<and> \<not> is_null j \<and> modal_data_from_json j = Some d"
proof -
  obtain r where r: "opt_resolved_to_json (sd_resolved d) = Some r"
    "read_value (to_opt resolved_from_json) (Some r) None = Some (sd_resolved d)"
    using resolved_written [OF assms(1)] by blast
  have dist: "distinct (map fst (modal_data_members d r))" by (simp add: modal_data_members_def)
  have "modal_data_from_json (write_members (modal_data_members d r)) = Some d"
    using assms r(2) unfolding modal_data_from_json_def read_member [OF dist] by (simp add: modal_data_members_def)
  moreover have "\<not> is_null (write_members (modal_data_members d r))"
    by (rule write_members_object [OF one_value_distinct [OF dist]]) (simp add: modal_data_members_def)
  ultimately show ?thesis using r(1) by (simp add: modal_data_to_json_def)
qed

text \<open>The data that is read from members with the type \<open>t\<close> and the data \<open>w\<close>.\<close>

lemma interaction_data_written:
  assumes "pred_option (data_ok t) v"
  shows "\<exists>w. opt_written interaction_data_to_json v = Some w \<and>
    (\<forall>j. json_at j ''type'' = Some (juint t) \<longrightarrow> json_at j ''data'' = w \<longrightarrow> interaction_data_from_json j = Some v)"
proof (cases v)
  case None
  then show ?thesis by (simp add: opt_written_def interaction_data_from_json_def)
next
  case (Some d)
  with assms have "data_ok t d" by simp
  then show ?thesis
  proof (cases d)
    case (ID_Command c)
    with \<open>data_ok t d\<close> obtain j where "command_data_to_json c = Some j" "\<not> is_null j" "command_data_from_json j = Some c"
      using command_data_written [of c] by auto
    with Some ID_Command \<open>data_ok t d\<close> show ?thesis
      by (simp add: opt_written_def interaction_data_from_json_def)
  next
    case (ID_Component c)
    with \<open>data_ok t d\<close> obtain j where "component_data_to_json c = Some j" "\<not> is_null j" "component_data_from_json j = Some c"
      using component_data_written [of c] by auto
    with Some ID_Component \<open>data_ok t d\<close> show ?thesis
      by (simp add: opt_written_def interaction_data_from_json_def)
  next
    case (ID_Modal c)
    with \<open>data_ok t d\<close> obtain j where "modal_data_to_json c = Some j" "\<not> is_null j" "modal_data_from_json j = Some c"
      using modal_data_written [of c] by auto
    with Some ID_Modal \<open>data_ok t d\<close> show ?thesis
      by (simp add: opt_written_def interaction_data_from_json_def)
  qed
qed

lemma opt_message_written:
  assumes "pred_option message_ok v"
  shows "\<exists>w y. opt_written message_to_json v = Some w \<and> read_value (to_opt message_from_json) (Some w) None = Some y
    \<and> map_option erase_message y = map_option erase_message v"
proof (cases v)
  case (Some m)
  with assms obtain j y where "message_to_json m = Some j" "\<not> is_null j" "message_from_json j = Some y"
    "erase_message y = erase_message m" using message_written [of m] by auto
  with Some show ?thesis by (simp add: opt_written_def to_opt_def)
qed (simp add: opt_written_def)

definition interaction_ok :: "interaction \<Rightarrow> bool" where
  "interaction_ok x \<longleftrightarrow> pred_option (data_ok (in_type x)) (in_data x) \<and> pred_option message_ok (in_message x) \<and>
     pred_option partial_interaction_guild_ok (in_guild x) \<and> pred_option guild_member_ok (in_member x) \<and>
     pred_option user_ok (in_user x)"

definition erase_interaction :: "interaction \<Rightarrow> interaction" where
  "erase_interaction x = x\<lparr>in_message := map_option erase_message (in_message x)\<rparr>"

lemma interaction_written:
  assumes ok: "interaction_ok x"
  shows "\<exists>j y. interaction_to_json x = Some j \<and> \<not> is_null j \<and> interaction_from_json j = Some y
    \<and> erase_interaction y = erase_interaction x"
proof -
  obtain d where d: "opt_written interaction_data_to_json (in_data x) = Some d"
    "\<And>j. json_at j ''type'' = Some (juint (in_type x)) \<Longrightarrow> json_at j ''data'' = d \<Longrightarrow>
      interaction_data_from_json j = Some (in_data x)"
    using interaction_data_written [of "in_type x" "in_data x"] ok by (auto simp: interaction_ok_def)
  obtain m y where m: "opt_written message_to_json (in_message x) = Some m"
    "read_value (to_opt message_from_json) (Some m) None = Some y"
    "map_option erase_message y = map_option erase_message (in_message x)"
    using opt_message_written [of "in_message x"] ok by (auto simp: interaction_ok_def)
  define j where "j = write_members (interaction_members x d m)"
  have dist: "distinct (map fst (interaction_members x d m))" by (simp add: interaction_members_def)
  have "interaction_data_from_json j = Some (in_data x)"
    by (rule d(2)) (simp_all add: j_def json_at_written [OF one_value_distinct [OF dist]],
      simp_all add: interaction_members_def)
  then have "interaction_from_json j = Some (x\<lparr>in_message := y\<rparr>)"
    using ok m(2) unfolding interaction_from_json_def j_def read_member [OF dist]
    by (simp add: interaction_members_def interaction_ok_def)
  moreover have "\<not> is_null j" unfolding j_def
    by (rule write_members_object [OF one_value_distinct [OF dist]]) (simp add: interaction_members_def)
  ultimately show ?thesis using d(1) m by (simp add: interaction_to_json_def j_def erase_interaction_def)
qed

end
