(* ===== verification/Gateway_Event.thy ===== *)
theory Gateway_Event
  imports Entity_Interaction Shard
begin

text \<open>
  The events of the gateway: \<^verbatim>\<open>include/ekizu/event.hpp\<close>, \<^verbatim>\<open>src/gateway/*.cpp\<close> and the table of names in
  \<^verbatim>\<open>src/shard.cpp\<close>. Several events only wrap one structure and have its JSON form. With the conversions
  of this theory the environment of a shard is complete: a dispatched event reaches the call of
  \<^verbatim>\<open>next_event\<close> that waits for it.
\<close>

section \<open>Setting the presence\<close>

record presence_change =
  pc_idle_since :: "u64 option"
  pc_activities :: "activity list"
  pc_status :: status
  pc_afk :: bool

definition update_presence_to_json :: "presence_change \<Rightarrow> json" where
  "update_presence_to_json p = write_members [
     (''since'', Some (case pc_idle_since p of Some t \<Rightarrow> juint t | None \<Rightarrow> JNull)),
     (''activities'', Some (JArr (map activity_to_json (pc_activities p)))),
     (''status'', Some (status_to_json (pc_status p))), (''afk'', Some (JBool (pc_afk p)))]"

text \<open>
  A bot that asks to be invisible asks for the status \<open>unknown\<close>: \<^verbatim>\<open>to_str\<close> has no case for it.
\<close>

lemma invisible_is_unknown:
  "pc_status p = ST_Invisible \<Longrightarrow> json_at (update_presence_to_json p) ''status'' = Some (JStr ''unknown'')"
  by (simp add: update_presence_to_json_def json_at_written [OF one_value_distinct] status_to_json_def)

record guild_ban_add =
  gba_guild_id :: snowflake
  gba_user :: user

definition guild_ban_add_init :: guild_ban_add where
  "guild_ban_add_init = \<lparr>gba_guild_id = 0, gba_user = user_init\<rparr>"

definition guild_ban_add_members :: "guild_ban_add \<Rightarrow> (string \<times> json option) list" where
  "guild_ban_add_members x = [
     (''guild_id'', Some (snowflake_to_json (gba_guild_id x))), (''user'', Some (user_to_json (gba_user x)))]"

definition guild_ban_add_to_json :: "guild_ban_add \<Rightarrow> json" where
  "guild_ban_add_to_json x = write_members (guild_ban_add_members x)"

definition guild_ban_add_from_json :: "json \<Rightarrow> guild_ban_add option" where
  "guild_ban_add_from_json j = do {
     v0 \<leftarrow> deserialize (to_value get_snowflake) j ''guild_id'' 0;
     v1 \<leftarrow> deserialize (to_value user_from_json) j ''user'' user_init;
     Some \<lparr>gba_guild_id = v0, gba_user = v1\<rparr>
   }"

definition guild_ban_add_ok :: "guild_ban_add \<Rightarrow> bool" where
  "guild_ban_add_ok x \<longleftrightarrow> user_ok (gba_user x)"

lemma guild_ban_add_roundtrip: "guild_ban_add_ok x \<Longrightarrow> guild_ban_add_from_json (guild_ban_add_to_json x) = Some x"
proof -
  assume "guild_ban_add_ok x"
  moreover have "distinct (map fst (guild_ban_add_members x))" by (simp add: guild_ban_add_members_def)
  note read = read_member [OF this]
  ultimately show ?thesis unfolding guild_ban_add_from_json_def guild_ban_add_to_json_def read
    by (simp add: guild_ban_add_members_def guild_ban_add_ok_def)
qed

lemma guild_ban_add_object: "\<not> is_null (guild_ban_add_to_json x)"
  unfolding guild_ban_add_to_json_def by (rule write_members_object [OF one_value_distinct]) (simp_all add: guild_ban_add_members_def)

interpretation guild_ban_add: entity_object guild_ban_add_to_json guild_ban_add_from_json guild_ban_add_ok
  by unfold_locales (simp_all add: guild_ban_add_roundtrip guild_ban_add_object)

record guild_ban_remove =
  gbr_guild_id :: snowflake
  gbr_user :: user

definition guild_ban_remove_init :: guild_ban_remove where
  "guild_ban_remove_init = \<lparr>gbr_guild_id = 0, gbr_user = user_init\<rparr>"

definition guild_ban_remove_members :: "guild_ban_remove \<Rightarrow> (string \<times> json option) list" where
  "guild_ban_remove_members x = [
     (''guild_id'', Some (snowflake_to_json (gbr_guild_id x))), (''user'', Some (user_to_json (gbr_user x)))]"

definition guild_ban_remove_to_json :: "guild_ban_remove \<Rightarrow> json" where
  "guild_ban_remove_to_json x = write_members (guild_ban_remove_members x)"

definition guild_ban_remove_from_json :: "json \<Rightarrow> guild_ban_remove option" where
  "guild_ban_remove_from_json j = do {
     v0 \<leftarrow> deserialize (to_value get_snowflake) j ''guild_id'' 0;
     v1 \<leftarrow> deserialize (to_value user_from_json) j ''user'' user_init;
     Some \<lparr>gbr_guild_id = v0, gbr_user = v1\<rparr>
   }"

definition guild_ban_remove_ok :: "guild_ban_remove \<Rightarrow> bool" where
  "guild_ban_remove_ok x \<longleftrightarrow> user_ok (gbr_user x)"

lemma guild_ban_remove_roundtrip: "guild_ban_remove_ok x \<Longrightarrow> guild_ban_remove_from_json (guild_ban_remove_to_json x) = Some x"
proof -
  assume "guild_ban_remove_ok x"
  moreover have "distinct (map fst (guild_ban_remove_members x))" by (simp add: guild_ban_remove_members_def)
  note read = read_member [OF this]
  ultimately show ?thesis unfolding guild_ban_remove_from_json_def guild_ban_remove_to_json_def read
    by (simp add: guild_ban_remove_members_def guild_ban_remove_ok_def)
qed

lemma guild_ban_remove_object: "\<not> is_null (guild_ban_remove_to_json x)"
  unfolding guild_ban_remove_to_json_def by (rule write_members_object [OF one_value_distinct]) (simp_all add: guild_ban_remove_members_def)

interpretation guild_ban_remove: entity_object guild_ban_remove_to_json guild_ban_remove_from_json guild_ban_remove_ok
  by unfold_locales (simp_all add: guild_ban_remove_roundtrip guild_ban_remove_object)

record channel_create =
  cc_channel :: channel

definition channel_create_init :: channel_create where
  "channel_create_init = \<lparr>cc_channel = channel_init\<rparr>"

definition channel_create_to_json :: "channel_create \<Rightarrow> json" where
  "channel_create_to_json x = channel_to_json (cc_channel x)"

definition channel_create_from_json :: "json \<Rightarrow> channel_create option" where
  "channel_create_from_json j = (if is_null j then Some channel_create_init
     else map_option (\<lambda>v. \<lparr>cc_channel = v\<rparr>) (channel_from_json j))"

definition channel_create_ok :: "channel_create \<Rightarrow> bool" where
  "channel_create_ok x = channel_ok (cc_channel x)"

interpretation channel_create: entity_object channel_create_to_json channel_create_from_json channel_create_ok
  by unfold_locales (simp_all add: channel_create_to_json_def channel_create_from_json_def channel.roundtrip channel_create_ok_def)

record channel_delete =
  cd_channel :: channel

definition channel_delete_init :: channel_delete where
  "channel_delete_init = \<lparr>cd_channel = channel_init\<rparr>"

definition channel_delete_to_json :: "channel_delete \<Rightarrow> json" where
  "channel_delete_to_json x = channel_to_json (cd_channel x)"

definition channel_delete_from_json :: "json \<Rightarrow> channel_delete option" where
  "channel_delete_from_json j = (if is_null j then Some channel_delete_init
     else map_option (\<lambda>v. \<lparr>cd_channel = v\<rparr>) (channel_from_json j))"

definition channel_delete_ok :: "channel_delete \<Rightarrow> bool" where
  "channel_delete_ok x = channel_ok (cd_channel x)"

interpretation channel_delete: entity_object channel_delete_to_json channel_delete_from_json channel_delete_ok
  by unfold_locales (simp_all add: channel_delete_to_json_def channel_delete_from_json_def channel.roundtrip channel_delete_ok_def)

record channel_pins_update =
  cpu_guild_id :: "snowflake option"
  cpu_channel_id :: snowflake
  cpu_last_pin_timestamp :: "string option"

definition channel_pins_update_init :: channel_pins_update where
  "channel_pins_update_init = \<lparr>cpu_guild_id = None, cpu_channel_id = 0, cpu_last_pin_timestamp = None\<rparr>"

definition channel_pins_update_members :: "channel_pins_update \<Rightarrow> (string \<times> json option) list" where
  "channel_pins_update_members x = [
     (''guild_id'', map_option snowflake_to_json (cpu_guild_id x)),
     (''channel_id'', Some (snowflake_to_json (cpu_channel_id x))),
     (''last_pin_timestamp'', map_option JStr (cpu_last_pin_timestamp x))]"

definition channel_pins_update_to_json :: "channel_pins_update \<Rightarrow> json" where
  "channel_pins_update_to_json x = write_members (channel_pins_update_members x)"

definition channel_pins_update_from_json :: "json \<Rightarrow> channel_pins_update option" where
  "channel_pins_update_from_json j = do {
     v0 \<leftarrow> deserialize (to_opt get_snowflake) j ''guild_id'' None;
     v1 \<leftarrow> deserialize (to_value get_snowflake) j ''channel_id'' 0;
     v2 \<leftarrow> deserialize (to_opt get_string) j ''last_pin_timestamp'' None;
     Some \<lparr>cpu_guild_id = v0, cpu_channel_id = v1, cpu_last_pin_timestamp = v2\<rparr>
   }"

lemma channel_pins_update_roundtrip: "channel_pins_update_from_json (channel_pins_update_to_json x) = Some x"
proof -
  have "distinct (map fst (channel_pins_update_members x))" by (simp add: channel_pins_update_members_def)
  note read = read_member [OF this]
  show ?thesis unfolding channel_pins_update_from_json_def channel_pins_update_to_json_def read
    by (simp add: channel_pins_update_members_def)
qed

lemma channel_pins_update_object: "\<not> is_null (channel_pins_update_to_json x)"
  unfolding channel_pins_update_to_json_def by (rule write_members_object [OF one_value_distinct]) (simp_all add: channel_pins_update_members_def)

interpretation channel_pins_update: entity_object channel_pins_update_to_json channel_pins_update_from_json "\<lambda>_. True"
  by unfold_locales (simp_all add: channel_pins_update_roundtrip channel_pins_update_object)

record channel_update =
  cuh_channel :: channel

definition channel_update_init :: channel_update where
  "channel_update_init = \<lparr>cuh_channel = channel_init\<rparr>"

definition channel_update_to_json :: "channel_update \<Rightarrow> json" where
  "channel_update_to_json x = channel_to_json (cuh_channel x)"

definition channel_update_from_json :: "json \<Rightarrow> channel_update option" where
  "channel_update_from_json j = (if is_null j then Some channel_update_init
     else map_option (\<lambda>v. \<lparr>cuh_channel = v\<rparr>) (channel_from_json j))"

definition channel_update_ok :: "channel_update \<Rightarrow> bool" where
  "channel_update_ok x = channel_ok (cuh_channel x)"

interpretation channel_update: entity_object channel_update_to_json channel_update_from_json channel_update_ok
  by unfold_locales (simp_all add: channel_update_to_json_def channel_update_from_json_def channel.roundtrip channel_update_ok_def)

record guild_create =
  gc_guild :: guild

definition guild_create_init :: guild_create where
  "guild_create_init = \<lparr>gc_guild = guild_init\<rparr>"

definition guild_create_to_json :: "guild_create \<Rightarrow> json" where
  "guild_create_to_json x = guild_to_json (gc_guild x)"

definition guild_create_from_json :: "json \<Rightarrow> guild_create option" where
  "guild_create_from_json j = (if is_null j then Some guild_create_init
     else map_option (\<lambda>v. \<lparr>gc_guild = v\<rparr>) (guild_from_json j))"

definition guild_create_ok :: "guild_create \<Rightarrow> bool" where
  "guild_create_ok x = guild_ok (gc_guild x)"

interpretation guild_create: entity_object guild_create_to_json guild_create_from_json guild_create_ok
  by unfold_locales (simp_all add: guild_create_to_json_def guild_create_from_json_def guild.roundtrip guild_create_ok_def)

record guild_delete =
  gd_guild_id :: snowflake
  gd_unavailable :: bool

definition guild_delete_init :: guild_delete where
  "guild_delete_init = \<lparr>gd_guild_id = 0, gd_unavailable = False\<rparr>"

definition guild_delete_members :: "guild_delete \<Rightarrow> (string \<times> json option) list" where
  "guild_delete_members x = [
     (''guild_id'', Some (snowflake_to_json (gd_guild_id x))),
     (''unavailable'', Some (JBool (gd_unavailable x)))]"

definition guild_delete_to_json :: "guild_delete \<Rightarrow> json" where
  "guild_delete_to_json x = write_members (guild_delete_members x)"

definition guild_delete_from_json :: "json \<Rightarrow> guild_delete option" where
  "guild_delete_from_json j = do {
     v0 \<leftarrow> deserialize (to_value get_snowflake) j ''guild_id'' 0;
     v1 \<leftarrow> deserialize to_bool j ''unavailable'' False;
     Some \<lparr>gd_guild_id = v0, gd_unavailable = v1\<rparr>
   }"

lemma guild_delete_roundtrip: "guild_delete_from_json (guild_delete_to_json x) = Some x"
proof -
  have "distinct (map fst (guild_delete_members x))" by (simp add: guild_delete_members_def)
  note read = read_member [OF this]
  show ?thesis unfolding guild_delete_from_json_def guild_delete_to_json_def read
    by (simp add: guild_delete_members_def)
qed

lemma guild_delete_object: "\<not> is_null (guild_delete_to_json x)"
  unfolding guild_delete_to_json_def by (rule write_members_object [OF one_value_distinct]) (simp_all add: guild_delete_members_def)

interpretation guild_delete: entity_object guild_delete_to_json guild_delete_from_json "\<lambda>_. True"
  by unfold_locales (simp_all add: guild_delete_roundtrip guild_delete_object)

record guild_emojis_update =
  geu_guild_id :: snowflake
  geu_emojis :: "guild_emoji list"

definition guild_emojis_update_init :: guild_emojis_update where
  "guild_emojis_update_init = \<lparr>geu_guild_id = 0, geu_emojis = []\<rparr>"

definition guild_emojis_update_members :: "guild_emojis_update \<Rightarrow> (string \<times> json option) list" where
  "guild_emojis_update_members x = [
     (''guild_id'', Some (snowflake_to_json (geu_guild_id x))),
     (''emojis'', Some (JArr (map guild_emoji_to_json (geu_emojis x))))]"

definition guild_emojis_update_to_json :: "guild_emojis_update \<Rightarrow> json" where
  "guild_emojis_update_to_json x = write_members (guild_emojis_update_members x)"

definition guild_emojis_update_from_json :: "json \<Rightarrow> guild_emojis_update option" where
  "guild_emojis_update_from_json j = do {
     v0 \<leftarrow> deserialize (to_value get_snowflake) j ''guild_id'' 0;
     v1 \<leftarrow> deserialize (to_vector guild_emoji_from_json) j ''emojis'' [];
     Some \<lparr>geu_guild_id = v0, geu_emojis = v1\<rparr>
   }"

definition guild_emojis_update_ok :: "guild_emojis_update \<Rightarrow> bool" where
  "guild_emojis_update_ok x \<longleftrightarrow> list_all guild_emoji_ok (geu_emojis x)"

lemma guild_emojis_update_roundtrip: "guild_emojis_update_ok x \<Longrightarrow> guild_emojis_update_from_json (guild_emojis_update_to_json x) = Some x"
proof -
  assume "guild_emojis_update_ok x"
  moreover have "distinct (map fst (guild_emojis_update_members x))" by (simp add: guild_emojis_update_members_def)
  note read = read_member [OF this]
  ultimately show ?thesis unfolding guild_emojis_update_from_json_def guild_emojis_update_to_json_def read
    by (simp add: guild_emojis_update_members_def guild_emojis_update_ok_def)
qed

lemma guild_emojis_update_object: "\<not> is_null (guild_emojis_update_to_json x)"
  unfolding guild_emojis_update_to_json_def by (rule write_members_object [OF one_value_distinct]) (simp_all add: guild_emojis_update_members_def)

interpretation guild_emojis_update: entity_object guild_emojis_update_to_json guild_emojis_update_from_json guild_emojis_update_ok
  by unfold_locales (simp_all add: guild_emojis_update_roundtrip guild_emojis_update_object)

record guild_integrations_update =
  giu_guild_id :: snowflake

definition guild_integrations_update_init :: guild_integrations_update where
  "guild_integrations_update_init = \<lparr>giu_guild_id = 0\<rparr>"

definition guild_integrations_update_members :: "guild_integrations_update \<Rightarrow> (string \<times> json option) list" where
  "guild_integrations_update_members x = [
     (''guild_id'', Some (snowflake_to_json (giu_guild_id x)))]"

definition guild_integrations_update_to_json :: "guild_integrations_update \<Rightarrow> json" where
  "guild_integrations_update_to_json x = write_members (guild_integrations_update_members x)"

definition guild_integrations_update_from_json :: "json \<Rightarrow> guild_integrations_update option" where
  "guild_integrations_update_from_json j = do {
     v0 \<leftarrow> deserialize (to_value get_snowflake) j ''guild_id'' 0;
     Some \<lparr>giu_guild_id = v0\<rparr>
   }"

lemma guild_integrations_update_roundtrip: "guild_integrations_update_from_json (guild_integrations_update_to_json x) = Some x"
proof -
  have "distinct (map fst (guild_integrations_update_members x))" by (simp add: guild_integrations_update_members_def)
  note read = read_member [OF this]
  show ?thesis unfolding guild_integrations_update_from_json_def guild_integrations_update_to_json_def read
    by (simp add: guild_integrations_update_members_def)
qed

lemma guild_integrations_update_object: "\<not> is_null (guild_integrations_update_to_json x)"
  unfolding guild_integrations_update_to_json_def by (rule write_members_object [OF one_value_distinct]) (simp_all add: guild_integrations_update_members_def)

interpretation guild_integrations_update: entity_object guild_integrations_update_to_json guild_integrations_update_from_json "\<lambda>_. True"
  by unfold_locales (simp_all add: guild_integrations_update_roundtrip guild_integrations_update_object)

record guild_member_add =
  gma_guild_id :: snowflake
  gma_member :: guild_member

definition guild_member_add_init :: guild_member_add where
  "guild_member_add_init = \<lparr>gma_guild_id = 0, gma_member = guild_member_init\<rparr>"

definition guild_member_add_members :: "guild_member_add \<Rightarrow> (string \<times> json option) list" where
  "guild_member_add_members x = [
     (''guild_id'', Some (snowflake_to_json (gma_guild_id x))),
     (''member'', Some (guild_member_to_json (gma_member x)))]"

definition guild_member_add_to_json :: "guild_member_add \<Rightarrow> json" where
  "guild_member_add_to_json x = write_members (guild_member_add_members x)"

definition guild_member_add_from_json :: "json \<Rightarrow> guild_member_add option" where
  "guild_member_add_from_json j = do {
     v0 \<leftarrow> deserialize (to_value get_snowflake) j ''guild_id'' 0;
     v1 \<leftarrow> deserialize (to_value guild_member_from_json) j ''member'' guild_member_init;
     Some \<lparr>gma_guild_id = v0, gma_member = v1\<rparr>
   }"

definition guild_member_add_ok :: "guild_member_add \<Rightarrow> bool" where
  "guild_member_add_ok x \<longleftrightarrow> guild_member_ok (gma_member x)"

lemma guild_member_add_roundtrip: "guild_member_add_ok x \<Longrightarrow> guild_member_add_from_json (guild_member_add_to_json x) = Some x"
proof -
  assume "guild_member_add_ok x"
  moreover have "distinct (map fst (guild_member_add_members x))" by (simp add: guild_member_add_members_def)
  note read = read_member [OF this]
  ultimately show ?thesis unfolding guild_member_add_from_json_def guild_member_add_to_json_def read
    by (simp add: guild_member_add_members_def guild_member_add_ok_def)
qed

lemma guild_member_add_object: "\<not> is_null (guild_member_add_to_json x)"
  unfolding guild_member_add_to_json_def by (rule write_members_object [OF one_value_distinct]) (simp_all add: guild_member_add_members_def)

interpretation guild_member_add: entity_object guild_member_add_to_json guild_member_add_from_json guild_member_add_ok
  by unfold_locales (simp_all add: guild_member_add_roundtrip guild_member_add_object)

record guild_member_remove =
  gmr_guild_id :: snowflake
  gmr_member :: guild_member

definition guild_member_remove_init :: guild_member_remove where
  "guild_member_remove_init = \<lparr>gmr_guild_id = 0, gmr_member = guild_member_init\<rparr>"

definition guild_member_remove_members :: "guild_member_remove \<Rightarrow> (string \<times> json option) list" where
  "guild_member_remove_members x = [
     (''guild_id'', Some (snowflake_to_json (gmr_guild_id x))),
     (''member'', Some (guild_member_to_json (gmr_member x)))]"

definition guild_member_remove_to_json :: "guild_member_remove \<Rightarrow> json" where
  "guild_member_remove_to_json x = write_members (guild_member_remove_members x)"

definition guild_member_remove_from_json :: "json \<Rightarrow> guild_member_remove option" where
  "guild_member_remove_from_json j = do {
     v0 \<leftarrow> deserialize (to_value get_snowflake) j ''guild_id'' 0;
     v1 \<leftarrow> deserialize (to_value guild_member_from_json) j ''member'' guild_member_init;
     Some \<lparr>gmr_guild_id = v0, gmr_member = v1\<rparr>
   }"

definition guild_member_remove_ok :: "guild_member_remove \<Rightarrow> bool" where
  "guild_member_remove_ok x \<longleftrightarrow> guild_member_ok (gmr_member x)"

lemma guild_member_remove_roundtrip: "guild_member_remove_ok x \<Longrightarrow> guild_member_remove_from_json (guild_member_remove_to_json x) = Some x"
proof -
  assume "guild_member_remove_ok x"
  moreover have "distinct (map fst (guild_member_remove_members x))" by (simp add: guild_member_remove_members_def)
  note read = read_member [OF this]
  ultimately show ?thesis unfolding guild_member_remove_from_json_def guild_member_remove_to_json_def read
    by (simp add: guild_member_remove_members_def guild_member_remove_ok_def)
qed

lemma guild_member_remove_object: "\<not> is_null (guild_member_remove_to_json x)"
  unfolding guild_member_remove_to_json_def by (rule write_members_object [OF one_value_distinct]) (simp_all add: guild_member_remove_members_def)

interpretation guild_member_remove: entity_object guild_member_remove_to_json guild_member_remove_from_json guild_member_remove_ok
  by unfold_locales (simp_all add: guild_member_remove_roundtrip guild_member_remove_object)

record guild_member_update =
  gmu_guild_id :: snowflake
  gmu_roles :: "snowflake list"
  gmu_user :: user
  gmu_nick :: "string option"
  gmu_avatar :: "string option"
  gmu_joined_at :: "string option"
  gmu_premium_since :: "string option"
  gmu_deaf :: "bool option"
  gmu_mute :: "bool option"
  gmu_pending :: bool
  gmu_communication_disabled_until :: "string option"

definition guild_member_update_init :: guild_member_update where
  "guild_member_update_init = \<lparr>gmu_guild_id = 0, gmu_roles = [], gmu_user = user_init, gmu_nick = None, gmu_avatar = None,
     gmu_joined_at = None, gmu_premium_since = None, gmu_deaf = None, gmu_mute = None, gmu_pending = False,
     gmu_communication_disabled_until = None\<rparr>"

definition guild_member_update_members :: "guild_member_update \<Rightarrow> (string \<times> json option) list" where
  "guild_member_update_members x = [
     (''guild_id'', Some (snowflake_to_json (gmu_guild_id x))),
     (''roles'', Some (JArr (map snowflake_to_json (gmu_roles x)))),
     (''user'', Some (user_to_json (gmu_user x))), (''nick'', map_option JStr (gmu_nick x)),
     (''avatar'', map_option JStr (gmu_avatar x)), (''joined_at'', map_option JStr (gmu_joined_at x)),
     (''premium_since'', map_option JStr (gmu_premium_since x)), (''deaf'', map_option JBool (gmu_deaf x)),
     (''mute'', map_option JBool (gmu_mute x)), (''pending'', Some (JBool (gmu_pending x))),
     (''communication_disabled_until'', map_option JStr (gmu_communication_disabled_until x))]"

definition guild_member_update_to_json :: "guild_member_update \<Rightarrow> json" where
  "guild_member_update_to_json x = write_members (guild_member_update_members x)"

definition guild_member_update_from_json :: "json \<Rightarrow> guild_member_update option" where
  "guild_member_update_from_json j = do {
     v0 \<leftarrow> deserialize (to_value get_snowflake) j ''guild_id'' 0;
     v1 \<leftarrow> deserialize (to_vector get_snowflake) j ''roles'' [];
     v2 \<leftarrow> deserialize (to_value user_from_json) j ''user'' user_init;
     v3 \<leftarrow> deserialize (to_opt get_string) j ''nick'' None;
     v4 \<leftarrow> deserialize (to_opt get_string) j ''avatar'' None;
     v5 \<leftarrow> deserialize (to_opt get_string) j ''joined_at'' None;
     v6 \<leftarrow> deserialize (to_opt get_string) j ''premium_since'' None;
     v7 \<leftarrow> deserialize to_opt_bool j ''deaf'' None;
     v8 \<leftarrow> deserialize to_opt_bool j ''mute'' None;
     v9 \<leftarrow> deserialize to_bool j ''pending'' False;
     v10 \<leftarrow> deserialize (to_opt get_string) j ''communication_disabled_until'' None;
     Some \<lparr>gmu_guild_id = v0, gmu_roles = v1, gmu_user = v2, gmu_nick = v3, gmu_avatar = v4, gmu_joined_at = v5,
       gmu_premium_since = v6, gmu_deaf = v7, gmu_mute = v8, gmu_pending = v9,
       gmu_communication_disabled_until = v10\<rparr>
   }"

definition guild_member_update_ok :: "guild_member_update \<Rightarrow> bool" where
  "guild_member_update_ok x \<longleftrightarrow> user_ok (gmu_user x)"

lemma guild_member_update_roundtrip: "guild_member_update_ok x \<Longrightarrow> guild_member_update_from_json (guild_member_update_to_json x) = Some x"
proof -
  assume "guild_member_update_ok x"
  moreover have "distinct (map fst (guild_member_update_members x))" by (simp add: guild_member_update_members_def)
  note read = read_member [OF this]
  ultimately show ?thesis unfolding guild_member_update_from_json_def guild_member_update_to_json_def read
    by (simp add: guild_member_update_members_def guild_member_update_ok_def)
qed

lemma guild_member_update_object: "\<not> is_null (guild_member_update_to_json x)"
  unfolding guild_member_update_to_json_def by (rule write_members_object [OF one_value_distinct]) (simp_all add: guild_member_update_members_def)

interpretation guild_member_update: entity_object guild_member_update_to_json guild_member_update_from_json guild_member_update_ok
  by unfold_locales (simp_all add: guild_member_update_roundtrip guild_member_update_object)

record guild_members_chunk =
  gmc_guild_id :: snowflake
  gmc_members :: "guild_member list"
  gmc_chunk_index :: i32
  gmc_chunk_count :: i32
  gmc_not_found :: "snowflake list option"
  gmc_presences :: "presence list option"
  gmc_nonce :: "string option"

definition guild_members_chunk_init :: guild_members_chunk where
  "guild_members_chunk_init = \<lparr>gmc_guild_id = 0, gmc_members = [], gmc_chunk_index = 0, gmc_chunk_count = 0, gmc_not_found = None,
     gmc_presences = None, gmc_nonce = None\<rparr>"

definition guild_members_chunk_members :: "guild_members_chunk \<Rightarrow> (string \<times> json option) list" where
  "guild_members_chunk_members x = [
     (''guild_id'', Some (snowflake_to_json (gmc_guild_id x))),
     (''members'', Some (JArr (map guild_member_to_json (gmc_members x)))),
     (''chunk_index'', Some (jsint (gmc_chunk_index x))), (''chunk_count'', Some (jsint (gmc_chunk_count x))),
     (''not_found'', map_option (\<lambda>xs. JArr (map snowflake_to_json xs)) (gmc_not_found x)),
     (''presences'', map_option (\<lambda>xs. JArr (map presence_to_json xs)) (gmc_presences x)),
     (''nonce'', map_option JStr (gmc_nonce x))]"

definition guild_members_chunk_to_json :: "guild_members_chunk \<Rightarrow> json" where
  "guild_members_chunk_to_json x = write_members (guild_members_chunk_members x)"

definition guild_members_chunk_from_json :: "json \<Rightarrow> guild_members_chunk option" where
  "guild_members_chunk_from_json j = do {
     v0 \<leftarrow> deserialize (to_value get_snowflake) j ''guild_id'' 0;
     v1 \<leftarrow> deserialize (to_vector guild_member_from_json) j ''members'' [];
     v2 \<leftarrow> deserialize to_sint j ''chunk_index'' 0;
     v3 \<leftarrow> deserialize to_sint j ''chunk_count'' 0;
     v4 \<leftarrow> deserialize (to_opt (get_vector get_snowflake)) j ''not_found'' None;
     v5 \<leftarrow> deserialize (to_opt (get_vector presence_from_json)) j ''presences'' None;
     v6 \<leftarrow> deserialize (to_opt get_string) j ''nonce'' None;
     Some \<lparr>gmc_guild_id = v0, gmc_members = v1, gmc_chunk_index = v2, gmc_chunk_count = v3, gmc_not_found = v4,
       gmc_presences = v5, gmc_nonce = v6\<rparr>
   }"

definition guild_members_chunk_ok :: "guild_members_chunk \<Rightarrow> bool" where
  "guild_members_chunk_ok x \<longleftrightarrow> list_all guild_member_ok (gmc_members x) \<and> pred_option (list_all presence_ok) (gmc_presences x)"

lemma guild_members_chunk_roundtrip: "guild_members_chunk_ok x \<Longrightarrow> guild_members_chunk_from_json (guild_members_chunk_to_json x) = Some x"
proof -
  assume "guild_members_chunk_ok x"
  moreover have "distinct (map fst (guild_members_chunk_members x))" by (simp add: guild_members_chunk_members_def)
  note read = read_member [OF this]
  ultimately show ?thesis unfolding guild_members_chunk_from_json_def guild_members_chunk_to_json_def read
    by (simp add: guild_members_chunk_members_def guild_members_chunk_ok_def)
qed

lemma guild_members_chunk_object: "\<not> is_null (guild_members_chunk_to_json x)"
  unfolding guild_members_chunk_to_json_def by (rule write_members_object [OF one_value_distinct]) (simp_all add: guild_members_chunk_members_def)

interpretation guild_members_chunk: entity_object guild_members_chunk_to_json guild_members_chunk_from_json guild_members_chunk_ok
  by unfold_locales (simp_all add: guild_members_chunk_roundtrip guild_members_chunk_object)

record guild_role_create =
  grc_guild_id :: snowflake
  grc_role :: role

definition guild_role_create_init :: guild_role_create where
  "guild_role_create_init = \<lparr>grc_guild_id = 0, grc_role = role_init\<rparr>"

definition guild_role_create_members :: "guild_role_create \<Rightarrow> (string \<times> json option) list" where
  "guild_role_create_members x = [
     (''guild_id'', Some (snowflake_to_json (grc_guild_id x))), (''role'', Some (role_to_json (grc_role x)))]"

definition guild_role_create_to_json :: "guild_role_create \<Rightarrow> json" where
  "guild_role_create_to_json x = write_members (guild_role_create_members x)"

definition guild_role_create_from_json :: "json \<Rightarrow> guild_role_create option" where
  "guild_role_create_from_json j = do {
     v0 \<leftarrow> deserialize (to_value get_snowflake) j ''guild_id'' 0;
     v1 \<leftarrow> deserialize (to_value role_from_json) j ''role'' role_init;
     Some \<lparr>grc_guild_id = v0, grc_role = v1\<rparr>
   }"

lemma guild_role_create_roundtrip: "guild_role_create_from_json (guild_role_create_to_json x) = Some x"
proof -
  have "distinct (map fst (guild_role_create_members x))" by (simp add: guild_role_create_members_def)
  note read = read_member [OF this]
  show ?thesis unfolding guild_role_create_from_json_def guild_role_create_to_json_def read
    by (simp add: guild_role_create_members_def)
qed

lemma guild_role_create_object: "\<not> is_null (guild_role_create_to_json x)"
  unfolding guild_role_create_to_json_def by (rule write_members_object [OF one_value_distinct]) (simp_all add: guild_role_create_members_def)

interpretation guild_role_create: entity_object guild_role_create_to_json guild_role_create_from_json "\<lambda>_. True"
  by unfold_locales (simp_all add: guild_role_create_roundtrip guild_role_create_object)

record guild_role_delete =
  grd_guild_id :: snowflake
  grd_role_id :: snowflake

definition guild_role_delete_init :: guild_role_delete where
  "guild_role_delete_init = \<lparr>grd_guild_id = 0, grd_role_id = 0\<rparr>"

definition guild_role_delete_members :: "guild_role_delete \<Rightarrow> (string \<times> json option) list" where
  "guild_role_delete_members x = [
     (''guild_id'', Some (snowflake_to_json (grd_guild_id x))),
     (''role_id'', Some (snowflake_to_json (grd_role_id x)))]"

definition guild_role_delete_to_json :: "guild_role_delete \<Rightarrow> json" where
  "guild_role_delete_to_json x = write_members (guild_role_delete_members x)"

definition guild_role_delete_from_json :: "json \<Rightarrow> guild_role_delete option" where
  "guild_role_delete_from_json j = do {
     v0 \<leftarrow> deserialize (to_value get_snowflake) j ''guild_id'' 0;
     v1 \<leftarrow> deserialize (to_value get_snowflake) j ''role_id'' 0;
     Some \<lparr>grd_guild_id = v0, grd_role_id = v1\<rparr>
   }"

lemma guild_role_delete_roundtrip: "guild_role_delete_from_json (guild_role_delete_to_json x) = Some x"
proof -
  have "distinct (map fst (guild_role_delete_members x))" by (simp add: guild_role_delete_members_def)
  note read = read_member [OF this]
  show ?thesis unfolding guild_role_delete_from_json_def guild_role_delete_to_json_def read
    by (simp add: guild_role_delete_members_def)
qed

lemma guild_role_delete_object: "\<not> is_null (guild_role_delete_to_json x)"
  unfolding guild_role_delete_to_json_def by (rule write_members_object [OF one_value_distinct]) (simp_all add: guild_role_delete_members_def)

interpretation guild_role_delete: entity_object guild_role_delete_to_json guild_role_delete_from_json "\<lambda>_. True"
  by unfold_locales (simp_all add: guild_role_delete_roundtrip guild_role_delete_object)

record guild_role_update =
  gru_guild_id :: snowflake
  gru_role :: role

definition guild_role_update_init :: guild_role_update where
  "guild_role_update_init = \<lparr>gru_guild_id = 0, gru_role = role_init\<rparr>"

definition guild_role_update_members :: "guild_role_update \<Rightarrow> (string \<times> json option) list" where
  "guild_role_update_members x = [
     (''guild_id'', Some (snowflake_to_json (gru_guild_id x))), (''role'', Some (role_to_json (gru_role x)))]"

definition guild_role_update_to_json :: "guild_role_update \<Rightarrow> json" where
  "guild_role_update_to_json x = write_members (guild_role_update_members x)"

definition guild_role_update_from_json :: "json \<Rightarrow> guild_role_update option" where
  "guild_role_update_from_json j = do {
     v0 \<leftarrow> deserialize (to_value get_snowflake) j ''guild_id'' 0;
     v1 \<leftarrow> deserialize (to_value role_from_json) j ''role'' role_init;
     Some \<lparr>gru_guild_id = v0, gru_role = v1\<rparr>
   }"

lemma guild_role_update_roundtrip: "guild_role_update_from_json (guild_role_update_to_json x) = Some x"
proof -
  have "distinct (map fst (guild_role_update_members x))" by (simp add: guild_role_update_members_def)
  note read = read_member [OF this]
  show ?thesis unfolding guild_role_update_from_json_def guild_role_update_to_json_def read
    by (simp add: guild_role_update_members_def)
qed

lemma guild_role_update_object: "\<not> is_null (guild_role_update_to_json x)"
  unfolding guild_role_update_to_json_def by (rule write_members_object [OF one_value_distinct]) (simp_all add: guild_role_update_members_def)

interpretation guild_role_update: entity_object guild_role_update_to_json guild_role_update_from_json "\<lambda>_. True"
  by unfold_locales (simp_all add: guild_role_update_roundtrip guild_role_update_object)

record guild_scheduled_event_create =
  gsec_event :: guild_scheduled_event

definition guild_scheduled_event_create_init :: guild_scheduled_event_create where
  "guild_scheduled_event_create_init = \<lparr>gsec_event = guild_scheduled_event_init\<rparr>"

definition guild_scheduled_event_create_to_json :: "guild_scheduled_event_create \<Rightarrow> json" where
  "guild_scheduled_event_create_to_json x = guild_scheduled_event_to_json (gsec_event x)"

definition guild_scheduled_event_create_from_json :: "json \<Rightarrow> guild_scheduled_event_create option" where
  "guild_scheduled_event_create_from_json j = (if is_null j then Some guild_scheduled_event_create_init
     else map_option (\<lambda>v. \<lparr>gsec_event = v\<rparr>) (guild_scheduled_event_from_json j))"

definition guild_scheduled_event_create_ok :: "guild_scheduled_event_create \<Rightarrow> bool" where
  "guild_scheduled_event_create_ok x = guild_scheduled_event_ok (gsec_event x)"

interpretation guild_scheduled_event_create: entity_object guild_scheduled_event_create_to_json guild_scheduled_event_create_from_json guild_scheduled_event_create_ok
  by unfold_locales (simp_all add: guild_scheduled_event_create_to_json_def guild_scheduled_event_create_from_json_def guild_scheduled_event.roundtrip guild_scheduled_event_create_ok_def)

record guild_scheduled_event_delete =
  gsed_event :: guild_scheduled_event

definition guild_scheduled_event_delete_init :: guild_scheduled_event_delete where
  "guild_scheduled_event_delete_init = \<lparr>gsed_event = guild_scheduled_event_init\<rparr>"

definition guild_scheduled_event_delete_to_json :: "guild_scheduled_event_delete \<Rightarrow> json" where
  "guild_scheduled_event_delete_to_json x = guild_scheduled_event_to_json (gsed_event x)"

definition guild_scheduled_event_delete_from_json :: "json \<Rightarrow> guild_scheduled_event_delete option" where
  "guild_scheduled_event_delete_from_json j = (if is_null j then Some guild_scheduled_event_delete_init
     else map_option (\<lambda>v. \<lparr>gsed_event = v\<rparr>) (guild_scheduled_event_from_json j))"

definition guild_scheduled_event_delete_ok :: "guild_scheduled_event_delete \<Rightarrow> bool" where
  "guild_scheduled_event_delete_ok x = guild_scheduled_event_ok (gsed_event x)"

interpretation guild_scheduled_event_delete: entity_object guild_scheduled_event_delete_to_json guild_scheduled_event_delete_from_json guild_scheduled_event_delete_ok
  by unfold_locales (simp_all add: guild_scheduled_event_delete_to_json_def guild_scheduled_event_delete_from_json_def guild_scheduled_event.roundtrip guild_scheduled_event_delete_ok_def)

record guild_scheduled_event_update =
  gseu_event :: guild_scheduled_event

definition guild_scheduled_event_update_init :: guild_scheduled_event_update where
  "guild_scheduled_event_update_init = \<lparr>gseu_event = guild_scheduled_event_init\<rparr>"

definition guild_scheduled_event_update_to_json :: "guild_scheduled_event_update \<Rightarrow> json" where
  "guild_scheduled_event_update_to_json x = guild_scheduled_event_to_json (gseu_event x)"

definition guild_scheduled_event_update_from_json :: "json \<Rightarrow> guild_scheduled_event_update option" where
  "guild_scheduled_event_update_from_json j = (if is_null j then Some guild_scheduled_event_update_init
     else map_option (\<lambda>v. \<lparr>gseu_event = v\<rparr>) (guild_scheduled_event_from_json j))"

definition guild_scheduled_event_update_ok :: "guild_scheduled_event_update \<Rightarrow> bool" where
  "guild_scheduled_event_update_ok x = guild_scheduled_event_ok (gseu_event x)"

interpretation guild_scheduled_event_update: entity_object guild_scheduled_event_update_to_json guild_scheduled_event_update_from_json guild_scheduled_event_update_ok
  by unfold_locales (simp_all add: guild_scheduled_event_update_to_json_def guild_scheduled_event_update_from_json_def guild_scheduled_event.roundtrip guild_scheduled_event_update_ok_def)

record guild_scheduled_event_user_add =
  gseua_guild_id :: snowflake
  gseua_guild_scheduled_event_id :: snowflake
  gseua_user_id :: snowflake

definition guild_scheduled_event_user_add_init :: guild_scheduled_event_user_add where
  "guild_scheduled_event_user_add_init = \<lparr>gseua_guild_id = 0, gseua_guild_scheduled_event_id = 0, gseua_user_id = 0\<rparr>"

definition guild_scheduled_event_user_add_members :: "guild_scheduled_event_user_add \<Rightarrow> (string \<times> json option) list" where
  "guild_scheduled_event_user_add_members x = [
     (''guild_id'', Some (snowflake_to_json (gseua_guild_id x))),
     (''guild_scheduled_event_id'', Some (snowflake_to_json (gseua_guild_scheduled_event_id x))),
     (''user_id'', Some (snowflake_to_json (gseua_user_id x)))]"

definition guild_scheduled_event_user_add_to_json :: "guild_scheduled_event_user_add \<Rightarrow> json" where
  "guild_scheduled_event_user_add_to_json x = write_members (guild_scheduled_event_user_add_members x)"

definition guild_scheduled_event_user_add_from_json :: "json \<Rightarrow> guild_scheduled_event_user_add option" where
  "guild_scheduled_event_user_add_from_json j = do {
     v0 \<leftarrow> deserialize (to_value get_snowflake) j ''guild_id'' 0;
     v1 \<leftarrow> deserialize (to_value get_snowflake) j ''guild_scheduled_event_id'' 0;
     v2 \<leftarrow> deserialize (to_value get_snowflake) j ''user_id'' 0;
     Some \<lparr>gseua_guild_id = v0, gseua_guild_scheduled_event_id = v1, gseua_user_id = v2\<rparr>
   }"

lemma guild_scheduled_event_user_add_roundtrip: "guild_scheduled_event_user_add_from_json (guild_scheduled_event_user_add_to_json x) = Some x"
proof -
  have "distinct (map fst (guild_scheduled_event_user_add_members x))" by (simp add: guild_scheduled_event_user_add_members_def)
  note read = read_member [OF this]
  show ?thesis unfolding guild_scheduled_event_user_add_from_json_def guild_scheduled_event_user_add_to_json_def read
    by (simp add: guild_scheduled_event_user_add_members_def)
qed

lemma guild_scheduled_event_user_add_object: "\<not> is_null (guild_scheduled_event_user_add_to_json x)"
  unfolding guild_scheduled_event_user_add_to_json_def by (rule write_members_object [OF one_value_distinct]) (simp_all add: guild_scheduled_event_user_add_members_def)

interpretation guild_scheduled_event_user_add: entity_object guild_scheduled_event_user_add_to_json guild_scheduled_event_user_add_from_json "\<lambda>_. True"
  by unfold_locales (simp_all add: guild_scheduled_event_user_add_roundtrip guild_scheduled_event_user_add_object)

record guild_scheduled_event_user_remove =
  gseur_guild_id :: snowflake
  gseur_guild_scheduled_event_id :: snowflake
  gseur_user_id :: snowflake

definition guild_scheduled_event_user_remove_init :: guild_scheduled_event_user_remove where
  "guild_scheduled_event_user_remove_init = \<lparr>gseur_guild_id = 0, gseur_guild_scheduled_event_id = 0, gseur_user_id = 0\<rparr>"

definition guild_scheduled_event_user_remove_members :: "guild_scheduled_event_user_remove \<Rightarrow> (string \<times> json option) list" where
  "guild_scheduled_event_user_remove_members x = [
     (''guild_id'', Some (snowflake_to_json (gseur_guild_id x))),
     (''guild_scheduled_event_id'', Some (snowflake_to_json (gseur_guild_scheduled_event_id x))),
     (''user_id'', Some (snowflake_to_json (gseur_user_id x)))]"

definition guild_scheduled_event_user_remove_to_json :: "guild_scheduled_event_user_remove \<Rightarrow> json" where
  "guild_scheduled_event_user_remove_to_json x = write_members (guild_scheduled_event_user_remove_members x)"

definition guild_scheduled_event_user_remove_from_json :: "json \<Rightarrow> guild_scheduled_event_user_remove option" where
  "guild_scheduled_event_user_remove_from_json j = do {
     v0 \<leftarrow> deserialize (to_value get_snowflake) j ''guild_id'' 0;
     v1 \<leftarrow> deserialize (to_value get_snowflake) j ''guild_scheduled_event_id'' 0;
     v2 \<leftarrow> deserialize (to_value get_snowflake) j ''user_id'' 0;
     Some \<lparr>gseur_guild_id = v0, gseur_guild_scheduled_event_id = v1, gseur_user_id = v2\<rparr>
   }"

lemma guild_scheduled_event_user_remove_roundtrip: "guild_scheduled_event_user_remove_from_json (guild_scheduled_event_user_remove_to_json x) = Some x"
proof -
  have "distinct (map fst (guild_scheduled_event_user_remove_members x))" by (simp add: guild_scheduled_event_user_remove_members_def)
  note read = read_member [OF this]
  show ?thesis unfolding guild_scheduled_event_user_remove_from_json_def guild_scheduled_event_user_remove_to_json_def read
    by (simp add: guild_scheduled_event_user_remove_members_def)
qed

lemma guild_scheduled_event_user_remove_object: "\<not> is_null (guild_scheduled_event_user_remove_to_json x)"
  unfolding guild_scheduled_event_user_remove_to_json_def by (rule write_members_object [OF one_value_distinct]) (simp_all add: guild_scheduled_event_user_remove_members_def)

interpretation guild_scheduled_event_user_remove: entity_object guild_scheduled_event_user_remove_to_json guild_scheduled_event_user_remove_from_json "\<lambda>_. True"
  by unfold_locales (simp_all add: guild_scheduled_event_user_remove_roundtrip guild_scheduled_event_user_remove_object)

record guild_stickers_update =
  gsu_guild_id :: snowflake
  gsu_stickers :: "sticker list"

definition guild_stickers_update_init :: guild_stickers_update where
  "guild_stickers_update_init = \<lparr>gsu_guild_id = 0, gsu_stickers = []\<rparr>"

definition guild_stickers_update_members :: "guild_stickers_update \<Rightarrow> (string \<times> json option) list" where
  "guild_stickers_update_members x = [
     (''guild_id'', Some (snowflake_to_json (gsu_guild_id x))),
     (''stickers'', Some (JArr (map sticker_to_json (gsu_stickers x))))]"

definition guild_stickers_update_to_json :: "guild_stickers_update \<Rightarrow> json" where
  "guild_stickers_update_to_json x = write_members (guild_stickers_update_members x)"

definition guild_stickers_update_from_json :: "json \<Rightarrow> guild_stickers_update option" where
  "guild_stickers_update_from_json j = do {
     v0 \<leftarrow> deserialize (to_value get_snowflake) j ''guild_id'' 0;
     v1 \<leftarrow> deserialize (to_vector sticker_from_json) j ''stickers'' [];
     Some \<lparr>gsu_guild_id = v0, gsu_stickers = v1\<rparr>
   }"

definition guild_stickers_update_ok :: "guild_stickers_update \<Rightarrow> bool" where
  "guild_stickers_update_ok x \<longleftrightarrow> list_all sticker_ok (gsu_stickers x)"

lemma guild_stickers_update_roundtrip: "guild_stickers_update_ok x \<Longrightarrow> guild_stickers_update_from_json (guild_stickers_update_to_json x) = Some x"
proof -
  assume "guild_stickers_update_ok x"
  moreover have "distinct (map fst (guild_stickers_update_members x))" by (simp add: guild_stickers_update_members_def)
  note read = read_member [OF this]
  ultimately show ?thesis unfolding guild_stickers_update_from_json_def guild_stickers_update_to_json_def read
    by (simp add: guild_stickers_update_members_def guild_stickers_update_ok_def)
qed

lemma guild_stickers_update_object: "\<not> is_null (guild_stickers_update_to_json x)"
  unfolding guild_stickers_update_to_json_def by (rule write_members_object [OF one_value_distinct]) (simp_all add: guild_stickers_update_members_def)

interpretation guild_stickers_update: entity_object guild_stickers_update_to_json guild_stickers_update_from_json guild_stickers_update_ok
  by unfold_locales (simp_all add: guild_stickers_update_roundtrip guild_stickers_update_object)

record guild_update =
  guu_guild :: partial_guild

definition guild_update_init :: guild_update where
  "guild_update_init = \<lparr>guu_guild = partial_guild_init\<rparr>"

definition guild_update_to_json :: "guild_update \<Rightarrow> json" where
  "guild_update_to_json x = partial_guild_to_json (guu_guild x)"

definition guild_update_from_json :: "json \<Rightarrow> guild_update option" where
  "guild_update_from_json j = (if is_null j then Some guild_update_init
     else map_option (\<lambda>v. \<lparr>guu_guild = v\<rparr>) (partial_guild_from_json j))"

definition guild_update_ok :: "guild_update \<Rightarrow> bool" where
  "guild_update_ok x = partial_guild_ok (guu_guild x)"

interpretation guild_update: entity_object guild_update_to_json guild_update_from_json guild_update_ok
  by unfold_locales (simp_all add: guild_update_to_json_def guild_update_from_json_def partial_guild.roundtrip guild_update_ok_def)

record integration_create =
  icnte_integration :: guild_integration

definition integration_create_init :: integration_create where
  "integration_create_init = \<lparr>icnte_integration = guild_integration_init\<rparr>"

definition integration_create_to_json :: "integration_create \<Rightarrow> json" where
  "integration_create_to_json x = guild_integration_to_json (icnte_integration x)"

definition integration_create_from_json :: "json \<Rightarrow> integration_create option" where
  "integration_create_from_json j = (if is_null j then Some integration_create_init
     else map_option (\<lambda>v. \<lparr>icnte_integration = v\<rparr>) (guild_integration_from_json j))"

definition integration_create_ok :: "integration_create \<Rightarrow> bool" where
  "integration_create_ok x = guild_integration_ok (icnte_integration x)"

interpretation integration_create: entity_object integration_create_to_json integration_create_from_json integration_create_ok
  by unfold_locales (simp_all add: integration_create_to_json_def integration_create_from_json_def guild_integration.roundtrip integration_create_ok_def)

record integration_delete =
  id_integration :: guild_integration

definition integration_delete_init :: integration_delete where
  "integration_delete_init = \<lparr>id_integration = guild_integration_init\<rparr>"

definition integration_delete_to_json :: "integration_delete \<Rightarrow> json" where
  "integration_delete_to_json x = guild_integration_to_json (id_integration x)"

definition integration_delete_from_json :: "json \<Rightarrow> integration_delete option" where
  "integration_delete_from_json j = (if is_null j then Some integration_delete_init
     else map_option (\<lambda>v. \<lparr>id_integration = v\<rparr>) (guild_integration_from_json j))"

definition integration_delete_ok :: "integration_delete \<Rightarrow> bool" where
  "integration_delete_ok x = guild_integration_ok (id_integration x)"

interpretation integration_delete: entity_object integration_delete_to_json integration_delete_from_json integration_delete_ok
  by unfold_locales (simp_all add: integration_delete_to_json_def integration_delete_from_json_def guild_integration.roundtrip integration_delete_ok_def)

record integration_update =
  iu_integration :: guild_integration

definition integration_update_init :: integration_update where
  "integration_update_init = \<lparr>iu_integration = guild_integration_init\<rparr>"

definition integration_update_to_json :: "integration_update \<Rightarrow> json" where
  "integration_update_to_json x = guild_integration_to_json (iu_integration x)"

definition integration_update_from_json :: "json \<Rightarrow> integration_update option" where
  "integration_update_from_json j = (if is_null j then Some integration_update_init
     else map_option (\<lambda>v. \<lparr>iu_integration = v\<rparr>) (guild_integration_from_json j))"

definition integration_update_ok :: "integration_update \<Rightarrow> bool" where
  "integration_update_ok x = guild_integration_ok (iu_integration x)"

interpretation integration_update: entity_object integration_update_to_json integration_update_from_json integration_update_ok
  by unfold_locales (simp_all add: integration_update_to_json_def integration_update_from_json_def guild_integration.roundtrip integration_update_ok_def)

record invite_create =
  icnv_channel_id :: snowflake
  icnv_code :: string
  icnv_created_at :: string
  icnv_guild_id :: snowflake
  icnv_inviter :: user
  icnv_max_age :: u64
  icnv_max_uses :: u64
  icnv_target_user_type :: u8
  icnv_target_user :: partial_user
  icnv_temporary :: bool
  icnv_uses :: u8

definition invite_create_init :: invite_create where
  "invite_create_init = \<lparr>icnv_channel_id = 0, icnv_code = [], icnv_created_at = [], icnv_guild_id = 0, icnv_inviter = user_init,
     icnv_max_age = 0, icnv_max_uses = 0, icnv_target_user_type = 0, icnv_target_user = partial_user_init,
     icnv_temporary = False, icnv_uses = 0\<rparr>"

definition invite_create_members :: "invite_create \<Rightarrow> (string \<times> json option) list" where
  "invite_create_members x = [
     (''channel_id'', Some (snowflake_to_json (icnv_channel_id x))), (''code'', Some (JStr (icnv_code x))),
     (''created_at'', Some (JStr (icnv_created_at x))),
     (''guild_id'', Some (snowflake_to_json (icnv_guild_id x))),
     (''inviter'', Some (user_to_json (icnv_inviter x))), (''max_age'', Some (juint (icnv_max_age x))),
     (''max_uses'', Some (juint (icnv_max_uses x))),
     (''target_user_type'', Some (juint (icnv_target_user_type x))),
     (''target_user'', Some (partial_user_to_json (icnv_target_user x))),
     (''temporary'', Some (JBool (icnv_temporary x))), (''uses'', Some (juint (icnv_uses x)))]"

definition invite_create_to_json :: "invite_create \<Rightarrow> json" where
  "invite_create_to_json x = write_members (invite_create_members x)"

definition invite_create_from_json :: "json \<Rightarrow> invite_create option" where
  "invite_create_from_json j = do {
     v0 \<leftarrow> deserialize (to_value get_snowflake) j ''channel_id'' 0;
     v1 \<leftarrow> deserialize to_str j ''code'' [];
     v2 \<leftarrow> deserialize to_str j ''created_at'' [];
     v3 \<leftarrow> deserialize (to_value get_snowflake) j ''guild_id'' 0;
     v4 \<leftarrow> deserialize (to_value user_from_json) j ''inviter'' user_init;
     v5 \<leftarrow> deserialize to_u64 j ''max_age'' 0;
     v6 \<leftarrow> deserialize to_u64 j ''max_uses'' 0;
     v7 \<leftarrow> deserialize (to_value get_enum) j ''target_user_type'' 0;
     v8 \<leftarrow> deserialize (to_value partial_user_from_json) j ''target_user'' partial_user_init;
     v9 \<leftarrow> deserialize to_bool j ''temporary'' False;
     v10 \<leftarrow> deserialize to_uint j ''uses'' 0;
     Some \<lparr>icnv_channel_id = v0, icnv_code = v1, icnv_created_at = v2, icnv_guild_id = v3, icnv_inviter = v4,
       icnv_max_age = v5, icnv_max_uses = v6, icnv_target_user_type = v7, icnv_target_user = v8,
       icnv_temporary = v9, icnv_uses = v10\<rparr>
   }"

definition invite_create_ok :: "invite_create \<Rightarrow> bool" where
  "invite_create_ok x \<longleftrightarrow> user_ok (icnv_inviter x)"

lemma invite_create_roundtrip: "invite_create_ok x \<Longrightarrow> invite_create_from_json (invite_create_to_json x) = Some x"
proof -
  assume "invite_create_ok x"
  moreover have "distinct (map fst (invite_create_members x))" by (simp add: invite_create_members_def)
  note read = read_member [OF this]
  ultimately show ?thesis unfolding invite_create_from_json_def invite_create_to_json_def read
    by (simp add: invite_create_members_def invite_create_ok_def)
qed

lemma invite_create_object: "\<not> is_null (invite_create_to_json x)"
  unfolding invite_create_to_json_def by (rule write_members_object [OF one_value_distinct]) (simp_all add: invite_create_members_def)

interpretation invite_create: entity_object invite_create_to_json invite_create_from_json invite_create_ok
  by unfold_locales (simp_all add: invite_create_roundtrip invite_create_object)

record invite_delete =
  idn_channel_id :: snowflake
  idn_code :: string
  idn_guild_id :: snowflake

definition invite_delete_init :: invite_delete where
  "invite_delete_init = \<lparr>idn_channel_id = 0, idn_code = [], idn_guild_id = 0\<rparr>"

definition invite_delete_members :: "invite_delete \<Rightarrow> (string \<times> json option) list" where
  "invite_delete_members x = [
     (''channel_id'', Some (snowflake_to_json (idn_channel_id x))), (''code'', Some (JStr (idn_code x))),
     (''guild_id'', Some (snowflake_to_json (idn_guild_id x)))]"

definition invite_delete_to_json :: "invite_delete \<Rightarrow> json" where
  "invite_delete_to_json x = write_members (invite_delete_members x)"

definition invite_delete_from_json :: "json \<Rightarrow> invite_delete option" where
  "invite_delete_from_json j = do {
     v0 \<leftarrow> deserialize (to_value get_snowflake) j ''channel_id'' 0;
     v1 \<leftarrow> deserialize to_str j ''code'' [];
     v2 \<leftarrow> deserialize (to_value get_snowflake) j ''guild_id'' 0;
     Some \<lparr>idn_channel_id = v0, idn_code = v1, idn_guild_id = v2\<rparr>
   }"

lemma invite_delete_roundtrip: "invite_delete_from_json (invite_delete_to_json x) = Some x"
proof -
  have "distinct (map fst (invite_delete_members x))" by (simp add: invite_delete_members_def)
  note read = read_member [OF this]
  show ?thesis unfolding invite_delete_from_json_def invite_delete_to_json_def read
    by (simp add: invite_delete_members_def)
qed

lemma invite_delete_object: "\<not> is_null (invite_delete_to_json x)"
  unfolding invite_delete_to_json_def by (rule write_members_object [OF one_value_distinct]) (simp_all add: invite_delete_members_def)

interpretation invite_delete: entity_object invite_delete_to_json invite_delete_from_json "\<lambda>_. True"
  by unfold_locales (simp_all add: invite_delete_roundtrip invite_delete_object)

record message_delete =
  md_id :: snowflake
  md_channel_id :: snowflake
  md_guild_id :: "snowflake option"

definition message_delete_init :: message_delete where
  "message_delete_init = \<lparr>md_id = 0, md_channel_id = 0, md_guild_id = None\<rparr>"

definition message_delete_members :: "message_delete \<Rightarrow> (string \<times> json option) list" where
  "message_delete_members x = [
     (''id'', Some (snowflake_to_json (md_id x))), (''channel_id'', Some (snowflake_to_json (md_channel_id x))),
     (''guild_id'', map_option snowflake_to_json (md_guild_id x))]"

definition message_delete_to_json :: "message_delete \<Rightarrow> json" where
  "message_delete_to_json x = write_members (message_delete_members x)"

definition message_delete_from_json :: "json \<Rightarrow> message_delete option" where
  "message_delete_from_json j = do {
     v0 \<leftarrow> deserialize (to_value get_snowflake) j ''id'' 0;
     v1 \<leftarrow> deserialize (to_value get_snowflake) j ''channel_id'' 0;
     v2 \<leftarrow> deserialize (to_opt get_snowflake) j ''guild_id'' None;
     Some \<lparr>md_id = v0, md_channel_id = v1, md_guild_id = v2\<rparr>
   }"

lemma message_delete_roundtrip: "message_delete_from_json (message_delete_to_json x) = Some x"
proof -
  have "distinct (map fst (message_delete_members x))" by (simp add: message_delete_members_def)
  note read = read_member [OF this]
  show ?thesis unfolding message_delete_from_json_def message_delete_to_json_def read
    by (simp add: message_delete_members_def)
qed

lemma message_delete_object: "\<not> is_null (message_delete_to_json x)"
  unfolding message_delete_to_json_def by (rule write_members_object [OF one_value_distinct]) (simp_all add: message_delete_members_def)

interpretation message_delete: entity_object message_delete_to_json message_delete_from_json "\<lambda>_. True"
  by unfold_locales (simp_all add: message_delete_roundtrip message_delete_object)

record message_delete_bulk =
  mdb_ids :: "snowflake list"
  mdb_channel_id :: snowflake
  mdb_guild_id :: "snowflake option"

definition message_delete_bulk_init :: message_delete_bulk where
  "message_delete_bulk_init = \<lparr>mdb_ids = [], mdb_channel_id = 0, mdb_guild_id = None\<rparr>"

definition message_delete_bulk_members :: "message_delete_bulk \<Rightarrow> (string \<times> json option) list" where
  "message_delete_bulk_members x = [
     (''ids'', Some (JArr (map snowflake_to_json (mdb_ids x)))),
     (''channel_id'', Some (snowflake_to_json (mdb_channel_id x))),
     (''guild_id'', map_option snowflake_to_json (mdb_guild_id x))]"

definition message_delete_bulk_to_json :: "message_delete_bulk \<Rightarrow> json" where
  "message_delete_bulk_to_json x = write_members (message_delete_bulk_members x)"

definition message_delete_bulk_from_json :: "json \<Rightarrow> message_delete_bulk option" where
  "message_delete_bulk_from_json j = do {
     v0 \<leftarrow> deserialize (to_vector get_snowflake) j ''ids'' [];
     v1 \<leftarrow> deserialize (to_value get_snowflake) j ''channel_id'' 0;
     v2 \<leftarrow> deserialize (to_opt get_snowflake) j ''guild_id'' None;
     Some \<lparr>mdb_ids = v0, mdb_channel_id = v1, mdb_guild_id = v2\<rparr>
   }"

lemma message_delete_bulk_roundtrip: "message_delete_bulk_from_json (message_delete_bulk_to_json x) = Some x"
proof -
  have "distinct (map fst (message_delete_bulk_members x))" by (simp add: message_delete_bulk_members_def)
  note read = read_member [OF this]
  show ?thesis unfolding message_delete_bulk_from_json_def message_delete_bulk_to_json_def read
    by (simp add: message_delete_bulk_members_def)
qed

lemma message_delete_bulk_object: "\<not> is_null (message_delete_bulk_to_json x)"
  unfolding message_delete_bulk_to_json_def by (rule write_members_object [OF one_value_distinct]) (simp_all add: message_delete_bulk_members_def)

interpretation message_delete_bulk: entity_object message_delete_bulk_to_json message_delete_bulk_from_json "\<lambda>_. True"
  by unfold_locales (simp_all add: message_delete_bulk_roundtrip message_delete_bulk_object)

record message_reaction_add =
  mra_user_id :: snowflake
  mra_channel_id :: snowflake
  mra_message_id :: snowflake
  mra_guild_id :: "snowflake option"
  mra_member :: "guild_member option"
  mra_emoji :: partial_emoji
  mra_message_author_id :: snowflake

definition message_reaction_add_init :: message_reaction_add where
  "message_reaction_add_init = \<lparr>mra_user_id = 0, mra_channel_id = 0, mra_message_id = 0, mra_guild_id = None, mra_member = None,
     mra_emoji = \<lparr>pe_id = 0, pe_name = [], pe_animated = None\<rparr>, mra_message_author_id = 0\<rparr>"

definition message_reaction_add_members :: "message_reaction_add \<Rightarrow> (string \<times> json option) list" where
  "message_reaction_add_members x = [
     (''user_id'', Some (snowflake_to_json (mra_user_id x))),
     (''channel_id'', Some (snowflake_to_json (mra_channel_id x))),
     (''message_id'', Some (snowflake_to_json (mra_message_id x))),
     (''guild_id'', map_option snowflake_to_json (mra_guild_id x)),
     (''member'', map_option guild_member_to_json (mra_member x)),
     (''emoji'', Some ((\<lambda>p. JObj (emoji_into p [])) (mra_emoji x))),
     (''message_author_id'', Some (snowflake_to_json (mra_message_author_id x)))]"

definition message_reaction_add_to_json :: "message_reaction_add \<Rightarrow> json" where
  "message_reaction_add_to_json x = write_members (message_reaction_add_members x)"

definition message_reaction_add_from_json :: "json \<Rightarrow> message_reaction_add option" where
  "message_reaction_add_from_json j = do {
     v0 \<leftarrow> deserialize (to_value get_snowflake) j ''user_id'' 0;
     v1 \<leftarrow> deserialize (to_value get_snowflake) j ''channel_id'' 0;
     v2 \<leftarrow> deserialize (to_value get_snowflake) j ''message_id'' 0;
     v3 \<leftarrow> deserialize (to_opt get_snowflake) j ''guild_id'' None;
     v4 \<leftarrow> deserialize (to_opt guild_member_from_json) j ''member'' None;
     v5 \<leftarrow> deserialize (to_value emoji_from_json) j ''emoji'' \<lparr>pe_id = 0, pe_name = [], pe_animated = None\<rparr>;
     v6 \<leftarrow> deserialize (to_value get_snowflake) j ''message_author_id'' 0;
     Some \<lparr>mra_user_id = v0, mra_channel_id = v1, mra_message_id = v2, mra_guild_id = v3, mra_member = v4,
       mra_emoji = v5, mra_message_author_id = v6\<rparr>
   }"

definition message_reaction_add_ok :: "message_reaction_add \<Rightarrow> bool" where
  "message_reaction_add_ok x \<longleftrightarrow> pred_option guild_member_ok (mra_member x)"

lemma message_reaction_add_roundtrip: "message_reaction_add_ok x \<Longrightarrow> message_reaction_add_from_json (message_reaction_add_to_json x) = Some x"
proof -
  assume "message_reaction_add_ok x"
  moreover have "distinct (map fst (message_reaction_add_members x))" by (simp add: message_reaction_add_members_def)
  note read = read_member [OF this]
  ultimately show ?thesis unfolding message_reaction_add_from_json_def message_reaction_add_to_json_def read
    by (simp add: message_reaction_add_members_def message_reaction_add_ok_def)
qed

lemma message_reaction_add_object: "\<not> is_null (message_reaction_add_to_json x)"
  unfolding message_reaction_add_to_json_def by (rule write_members_object [OF one_value_distinct]) (simp_all add: message_reaction_add_members_def)

interpretation message_reaction_add: entity_object message_reaction_add_to_json message_reaction_add_from_json message_reaction_add_ok
  by unfold_locales (simp_all add: message_reaction_add_roundtrip message_reaction_add_object)

record message_reaction_remove =
  mrr_user_id :: snowflake
  mrr_channel_id :: snowflake
  mrr_message_id :: snowflake
  mrr_guild_id :: "snowflake option"
  mrr_emoji :: partial_emoji

definition message_reaction_remove_init :: message_reaction_remove where
  "message_reaction_remove_init = \<lparr>mrr_user_id = 0, mrr_channel_id = 0, mrr_message_id = 0, mrr_guild_id = None,
     mrr_emoji = \<lparr>pe_id = 0, pe_name = [], pe_animated = None\<rparr>\<rparr>"

definition message_reaction_remove_members :: "message_reaction_remove \<Rightarrow> (string \<times> json option) list" where
  "message_reaction_remove_members x = [
     (''user_id'', Some (snowflake_to_json (mrr_user_id x))),
     (''channel_id'', Some (snowflake_to_json (mrr_channel_id x))),
     (''message_id'', Some (snowflake_to_json (mrr_message_id x))),
     (''guild_id'', map_option snowflake_to_json (mrr_guild_id x)),
     (''emoji'', Some ((\<lambda>p. JObj (emoji_into p [])) (mrr_emoji x)))]"

definition message_reaction_remove_to_json :: "message_reaction_remove \<Rightarrow> json" where
  "message_reaction_remove_to_json x = write_members (message_reaction_remove_members x)"

definition message_reaction_remove_from_json :: "json \<Rightarrow> message_reaction_remove option" where
  "message_reaction_remove_from_json j = do {
     v0 \<leftarrow> deserialize (to_value get_snowflake) j ''user_id'' 0;
     v1 \<leftarrow> deserialize (to_value get_snowflake) j ''channel_id'' 0;
     v2 \<leftarrow> deserialize (to_value get_snowflake) j ''message_id'' 0;
     v3 \<leftarrow> deserialize (to_opt get_snowflake) j ''guild_id'' None;
     v4 \<leftarrow> deserialize (to_value emoji_from_json) j ''emoji'' \<lparr>pe_id = 0, pe_name = [], pe_animated = None\<rparr>;
     Some \<lparr>mrr_user_id = v0, mrr_channel_id = v1, mrr_message_id = v2, mrr_guild_id = v3, mrr_emoji = v4\<rparr>
   }"

lemma message_reaction_remove_roundtrip: "message_reaction_remove_from_json (message_reaction_remove_to_json x) = Some x"
proof -
  have "distinct (map fst (message_reaction_remove_members x))" by (simp add: message_reaction_remove_members_def)
  note read = read_member [OF this]
  show ?thesis unfolding message_reaction_remove_from_json_def message_reaction_remove_to_json_def read
    by (simp add: message_reaction_remove_members_def)
qed

lemma message_reaction_remove_object: "\<not> is_null (message_reaction_remove_to_json x)"
  unfolding message_reaction_remove_to_json_def by (rule write_members_object [OF one_value_distinct]) (simp_all add: message_reaction_remove_members_def)

interpretation message_reaction_remove: entity_object message_reaction_remove_to_json message_reaction_remove_from_json "\<lambda>_. True"
  by unfold_locales (simp_all add: message_reaction_remove_roundtrip message_reaction_remove_object)

record message_reaction_remove_all =
  mrra_channel_id :: snowflake
  mrra_message_id :: snowflake
  mrra_guild_id :: "snowflake option"

definition message_reaction_remove_all_init :: message_reaction_remove_all where
  "message_reaction_remove_all_init = \<lparr>mrra_channel_id = 0, mrra_message_id = 0, mrra_guild_id = None\<rparr>"

definition message_reaction_remove_all_members :: "message_reaction_remove_all \<Rightarrow> (string \<times> json option) list" where
  "message_reaction_remove_all_members x = [
     (''channel_id'', Some (snowflake_to_json (mrra_channel_id x))),
     (''message_id'', Some (snowflake_to_json (mrra_message_id x))),
     (''guild_id'', map_option snowflake_to_json (mrra_guild_id x))]"

definition message_reaction_remove_all_to_json :: "message_reaction_remove_all \<Rightarrow> json" where
  "message_reaction_remove_all_to_json x = write_members (message_reaction_remove_all_members x)"

definition message_reaction_remove_all_from_json :: "json \<Rightarrow> message_reaction_remove_all option" where
  "message_reaction_remove_all_from_json j = do {
     v0 \<leftarrow> deserialize (to_value get_snowflake) j ''channel_id'' 0;
     v1 \<leftarrow> deserialize (to_value get_snowflake) j ''message_id'' 0;
     v2 \<leftarrow> deserialize (to_opt get_snowflake) j ''guild_id'' None;
     Some \<lparr>mrra_channel_id = v0, mrra_message_id = v1, mrra_guild_id = v2\<rparr>
   }"

lemma message_reaction_remove_all_roundtrip: "message_reaction_remove_all_from_json (message_reaction_remove_all_to_json x) = Some x"
proof -
  have "distinct (map fst (message_reaction_remove_all_members x))" by (simp add: message_reaction_remove_all_members_def)
  note read = read_member [OF this]
  show ?thesis unfolding message_reaction_remove_all_from_json_def message_reaction_remove_all_to_json_def read
    by (simp add: message_reaction_remove_all_members_def)
qed

lemma message_reaction_remove_all_object: "\<not> is_null (message_reaction_remove_all_to_json x)"
  unfolding message_reaction_remove_all_to_json_def by (rule write_members_object [OF one_value_distinct]) (simp_all add: message_reaction_remove_all_members_def)

interpretation message_reaction_remove_all: entity_object message_reaction_remove_all_to_json message_reaction_remove_all_from_json "\<lambda>_. True"
  by unfold_locales (simp_all add: message_reaction_remove_all_roundtrip message_reaction_remove_all_object)

record message_reaction_remove_emoji =
  mrre_channel_id :: snowflake
  mrre_guild_id :: "snowflake option"
  mrre_message_id :: snowflake
  mrre_emoji :: guild_emoji

definition message_reaction_remove_emoji_init :: message_reaction_remove_emoji where
  "message_reaction_remove_emoji_init = \<lparr>mrre_channel_id = 0, mrre_guild_id = None, mrre_message_id = 0, mrre_emoji = guild_emoji_init\<rparr>"

definition message_reaction_remove_emoji_members :: "message_reaction_remove_emoji \<Rightarrow> (string \<times> json option) list" where
  "message_reaction_remove_emoji_members x = [
     (''channel_id'', Some (snowflake_to_json (mrre_channel_id x))),
     (''guild_id'', map_option snowflake_to_json (mrre_guild_id x)),
     (''message_id'', Some (snowflake_to_json (mrre_message_id x))),
     (''emoji'', Some (guild_emoji_to_json (mrre_emoji x)))]"

definition message_reaction_remove_emoji_to_json :: "message_reaction_remove_emoji \<Rightarrow> json" where
  "message_reaction_remove_emoji_to_json x = write_members (message_reaction_remove_emoji_members x)"

definition message_reaction_remove_emoji_from_json :: "json \<Rightarrow> message_reaction_remove_emoji option" where
  "message_reaction_remove_emoji_from_json j = do {
     v0 \<leftarrow> deserialize (to_value get_snowflake) j ''channel_id'' 0;
     v1 \<leftarrow> deserialize (to_opt get_snowflake) j ''guild_id'' None;
     v2 \<leftarrow> deserialize (to_value get_snowflake) j ''message_id'' 0;
     v3 \<leftarrow> deserialize (to_value guild_emoji_from_json) j ''emoji'' guild_emoji_init;
     Some \<lparr>mrre_channel_id = v0, mrre_guild_id = v1, mrre_message_id = v2, mrre_emoji = v3\<rparr>
   }"

definition message_reaction_remove_emoji_ok :: "message_reaction_remove_emoji \<Rightarrow> bool" where
  "message_reaction_remove_emoji_ok x \<longleftrightarrow> guild_emoji_ok (mrre_emoji x)"

lemma message_reaction_remove_emoji_roundtrip: "message_reaction_remove_emoji_ok x \<Longrightarrow> message_reaction_remove_emoji_from_json (message_reaction_remove_emoji_to_json x) = Some x"
proof -
  assume "message_reaction_remove_emoji_ok x"
  moreover have "distinct (map fst (message_reaction_remove_emoji_members x))" by (simp add: message_reaction_remove_emoji_members_def)
  note read = read_member [OF this]
  ultimately show ?thesis unfolding message_reaction_remove_emoji_from_json_def message_reaction_remove_emoji_to_json_def read
    by (simp add: message_reaction_remove_emoji_members_def message_reaction_remove_emoji_ok_def)
qed

lemma message_reaction_remove_emoji_object: "\<not> is_null (message_reaction_remove_emoji_to_json x)"
  unfolding message_reaction_remove_emoji_to_json_def by (rule write_members_object [OF one_value_distinct]) (simp_all add: message_reaction_remove_emoji_members_def)

interpretation message_reaction_remove_emoji: entity_object message_reaction_remove_emoji_to_json message_reaction_remove_emoji_from_json message_reaction_remove_emoji_ok
  by unfold_locales (simp_all add: message_reaction_remove_emoji_roundtrip message_reaction_remove_emoji_object)

record message_update =
  mu_id :: snowflake
  mu_channel_id :: snowflake
  mu_author :: "user option"
  mu_content :: "string option"
  mu_timestamp :: "string option"
  mu_edited_timestamp :: "string option"
  mu_tts :: "bool option"
  mu_mention_everyone :: "bool option"
  mu_mentions :: "mention list option"
  mu_mention_roles :: "snowflake list option"
  mu_attachments :: "attachment list option"
  mu_embeds :: "embed list option"
  mu_pinned :: "bool option"
  mu_type :: "u8 option"

definition message_update_init :: message_update where
  "message_update_init = \<lparr>mu_id = 0, mu_channel_id = 0, mu_author = None, mu_content = None, mu_timestamp = None,
     mu_edited_timestamp = None, mu_tts = None, mu_mention_everyone = None, mu_mentions = None,
     mu_mention_roles = None, mu_attachments = None, mu_embeds = None, mu_pinned = None, mu_type = None\<rparr>"

definition message_update_members :: "message_update \<Rightarrow> (string \<times> json option) list" where
  "message_update_members x = [
     (''id'', Some (snowflake_to_json (mu_id x))), (''channel_id'', Some (snowflake_to_json (mu_channel_id x))),
     (''author'', map_option user_to_json (mu_author x)), (''content'', map_option JStr (mu_content x)),
     (''timestamp'', map_option JStr (mu_timestamp x)),
     (''edited_timestamp'', map_option JStr (mu_edited_timestamp x)), (''tts'', map_option JBool (mu_tts x)),
     (''mention_everyone'', map_option JBool (mu_mention_everyone x)),
     (''mentions'', map_option (\<lambda>xs. JArr (map mention_to_json xs)) (mu_mentions x)),
     (''mention_roles'', map_option (\<lambda>xs. JArr (map snowflake_to_json xs)) (mu_mention_roles x)),
     (''attachments'', map_option (\<lambda>xs. JArr (map attachment_to_json xs)) (mu_attachments x)),
     (''embeds'', map_option (\<lambda>xs. JArr (map embed_to_json xs)) (mu_embeds x)),
     (''pinned'', map_option JBool (mu_pinned x)), (''type'', map_option juint (mu_type x))]"

definition message_update_to_json :: "message_update \<Rightarrow> json" where
  "message_update_to_json x = write_members (message_update_members x)"

definition message_update_from_json :: "json \<Rightarrow> message_update option" where
  "message_update_from_json j = do {
     v0 \<leftarrow> deserialize (to_value get_snowflake) j ''id'' 0;
     v1 \<leftarrow> deserialize (to_value get_snowflake) j ''channel_id'' 0;
     v2 \<leftarrow> deserialize (to_opt user_from_json) j ''author'' None;
     v3 \<leftarrow> deserialize (to_opt get_string) j ''content'' None;
     v4 \<leftarrow> deserialize (to_opt get_string) j ''timestamp'' None;
     v5 \<leftarrow> deserialize (to_opt get_string) j ''edited_timestamp'' None;
     v6 \<leftarrow> deserialize to_opt_bool j ''tts'' None;
     v7 \<leftarrow> deserialize to_opt_bool j ''mention_everyone'' None;
     v8 \<leftarrow> deserialize (to_opt (get_vector mention_from_json)) j ''mentions'' None;
     v9 \<leftarrow> deserialize (to_opt (get_vector get_snowflake)) j ''mention_roles'' None;
     v10 \<leftarrow> deserialize (to_opt (get_vector attachment_from_json)) j ''attachments'' None;
     v11 \<leftarrow> deserialize (to_opt (get_vector embed_from_json)) j ''embeds'' None;
     v12 \<leftarrow> deserialize to_opt_bool j ''pinned'' None;
     v13 \<leftarrow> deserialize (to_opt get_enum) j ''type'' None;
     Some \<lparr>mu_id = v0, mu_channel_id = v1, mu_author = v2, mu_content = v3, mu_timestamp = v4,
       mu_edited_timestamp = v5, mu_tts = v6, mu_mention_everyone = v7, mu_mentions = v8, mu_mention_roles = v9,
       mu_attachments = v10, mu_embeds = v11, mu_pinned = v12, mu_type = v13\<rparr>
   }"

definition message_update_ok :: "message_update \<Rightarrow> bool" where
  "message_update_ok x \<longleftrightarrow> pred_option user_ok (mu_author x) \<and> pred_option (list_all embed_ok) (mu_embeds x)"

lemma message_update_roundtrip: "message_update_ok x \<Longrightarrow> message_update_from_json (message_update_to_json x) = Some x"
proof -
  assume "message_update_ok x"
  moreover have "distinct (map fst (message_update_members x))" by (simp add: message_update_members_def)
  note read = read_member [OF this]
  ultimately show ?thesis unfolding message_update_from_json_def message_update_to_json_def read
    by (simp add: message_update_members_def message_update_ok_def)
qed

lemma message_update_object: "\<not> is_null (message_update_to_json x)"
  unfolding message_update_to_json_def by (rule write_members_object [OF one_value_distinct]) (simp_all add: message_update_members_def)

interpretation message_update: entity_object message_update_to_json message_update_from_json message_update_ok
  by unfold_locales (simp_all add: message_update_roundtrip message_update_object)

record presence_update =
  pur_presence :: presence

definition presence_update_init :: presence_update where
  "presence_update_init = \<lparr>pur_presence = presence_init\<rparr>"

definition presence_update_to_json :: "presence_update \<Rightarrow> json" where
  "presence_update_to_json x = presence_to_json (pur_presence x)"

definition presence_update_from_json :: "json \<Rightarrow> presence_update option" where
  "presence_update_from_json j = (if is_null j then Some presence_update_init
     else map_option (\<lambda>v. \<lparr>pur_presence = v\<rparr>) (presence_from_json j))"

definition presence_update_ok :: "presence_update \<Rightarrow> bool" where
  "presence_update_ok x = presence_ok (pur_presence x)"

interpretation presence_update: entity_object presence_update_to_json presence_update_from_json presence_update_ok
  by unfold_locales (simp_all add: presence_update_to_json_def presence_update_from_json_def presence.roundtrip presence_update_ok_def)

record ready =
  re_v :: u8
  re_user :: current_user
  re_guilds :: "unavailable_guild list"
  re_session_id :: string
  re_resume_gateway_url :: string
  re_shard_info :: "(u64 \<times> u64) option"
  re_application :: partial_application

definition ready_init :: ready where
  "ready_init = \<lparr>re_v = 0, re_user = current_user_init, re_guilds = [], re_session_id = [], re_resume_gateway_url = [],
     re_shard_info = None, re_application = partial_application_init\<rparr>"

definition ready_members :: "ready \<Rightarrow> (string \<times> json option) list" where
  "ready_members x = [
     (''v'', Some (juint (re_v x))), (''user'', Some (current_user_to_json (re_user x))),
     (''guilds'', Some (JArr (map unavailable_guild_to_json (re_guilds x)))),
     (''session_id'', Some (JStr (re_session_id x))),
     (''resume_gateway_url'', Some (JStr (re_resume_gateway_url x))),
     (''shard_info'', map_option jpair (re_shard_info x)),
     (''application'', Some (partial_application_to_json (re_application x)))]"

definition ready_to_json :: "ready \<Rightarrow> json" where
  "ready_to_json x = write_members (ready_members x)"

definition ready_from_json :: "json \<Rightarrow> ready option" where
  "ready_from_json j = do {
     v0 \<leftarrow> deserialize to_uint j ''v'' 0;
     v1 \<leftarrow> deserialize (to_value current_user_from_json) j ''user'' current_user_init;
     v2 \<leftarrow> deserialize (to_vector unavailable_guild_from_json) j ''guilds'' [];
     v3 \<leftarrow> deserialize to_str j ''session_id'' [];
     v4 \<leftarrow> deserialize to_str j ''resume_gateway_url'' [];
     v5 \<leftarrow> deserialize (to_opt get_pair) j ''shard_info'' None;
     v6 \<leftarrow> deserialize (to_value partial_application_from_json) j ''application'' partial_application_init;
     Some \<lparr>re_v = v0, re_user = v1, re_guilds = v2, re_session_id = v3, re_resume_gateway_url = v4,
       re_shard_info = v5, re_application = v6\<rparr>
   }"

lemma ready_roundtrip: "ready_from_json (ready_to_json x) = Some x"
proof -
  have "distinct (map fst (ready_members x))" by (simp add: ready_members_def)
  note read = read_member [OF this]
  show ?thesis unfolding ready_from_json_def ready_to_json_def read
    by (simp add: ready_members_def)
qed

lemma ready_object: "\<not> is_null (ready_to_json x)"
  unfolding ready_to_json_def by (rule write_members_object [OF one_value_distinct]) (simp_all add: ready_members_def)

interpretation ready: entity_object ready_to_json ready_from_json "\<lambda>_. True"
  by unfold_locales (simp_all add: ready_roundtrip ready_object)

record stage_instance_create =
  sic_stage_instance :: stage_instance

definition stage_instance_create_init :: stage_instance_create where
  "stage_instance_create_init = \<lparr>sic_stage_instance = stage_instance_init\<rparr>"

definition stage_instance_create_to_json :: "stage_instance_create \<Rightarrow> json" where
  "stage_instance_create_to_json x = stage_instance_to_json (sic_stage_instance x)"

definition stage_instance_create_from_json :: "json \<Rightarrow> stage_instance_create option" where
  "stage_instance_create_from_json j = (if is_null j then Some stage_instance_create_init
     else map_option (\<lambda>v. \<lparr>sic_stage_instance = v\<rparr>) (stage_instance_from_json j))"

interpretation stage_instance_create: entity_object stage_instance_create_to_json stage_instance_create_from_json "\<lambda>_. True"
  by unfold_locales (simp_all add: stage_instance_create_to_json_def stage_instance_create_from_json_def stage_instance.roundtrip)

record stage_instance_delete =
  sid_stage_instance :: stage_instance

definition stage_instance_delete_init :: stage_instance_delete where
  "stage_instance_delete_init = \<lparr>sid_stage_instance = stage_instance_init\<rparr>"

definition stage_instance_delete_to_json :: "stage_instance_delete \<Rightarrow> json" where
  "stage_instance_delete_to_json x = stage_instance_to_json (sid_stage_instance x)"

definition stage_instance_delete_from_json :: "json \<Rightarrow> stage_instance_delete option" where
  "stage_instance_delete_from_json j = (if is_null j then Some stage_instance_delete_init
     else map_option (\<lambda>v. \<lparr>sid_stage_instance = v\<rparr>) (stage_instance_from_json j))"

interpretation stage_instance_delete: entity_object stage_instance_delete_to_json stage_instance_delete_from_json "\<lambda>_. True"
  by unfold_locales (simp_all add: stage_instance_delete_to_json_def stage_instance_delete_from_json_def stage_instance.roundtrip)

record stage_instance_update =
  siu_stage_instance :: stage_instance

definition stage_instance_update_init :: stage_instance_update where
  "stage_instance_update_init = \<lparr>siu_stage_instance = stage_instance_init\<rparr>"

definition stage_instance_update_to_json :: "stage_instance_update \<Rightarrow> json" where
  "stage_instance_update_to_json x = stage_instance_to_json (siu_stage_instance x)"

definition stage_instance_update_from_json :: "json \<Rightarrow> stage_instance_update option" where
  "stage_instance_update_from_json j = (if is_null j then Some stage_instance_update_init
     else map_option (\<lambda>v. \<lparr>siu_stage_instance = v\<rparr>) (stage_instance_from_json j))"

interpretation stage_instance_update: entity_object stage_instance_update_to_json stage_instance_update_from_json "\<lambda>_. True"
  by unfold_locales (simp_all add: stage_instance_update_to_json_def stage_instance_update_from_json_def stage_instance.roundtrip)

record thread_create =
  tc_thread :: channel

definition thread_create_init :: thread_create where
  "thread_create_init = \<lparr>tc_thread = channel_init\<rparr>"

definition thread_create_to_json :: "thread_create \<Rightarrow> json" where
  "thread_create_to_json x = channel_to_json (tc_thread x)"

definition thread_create_from_json :: "json \<Rightarrow> thread_create option" where
  "thread_create_from_json j = (if is_null j then Some thread_create_init
     else map_option (\<lambda>v. \<lparr>tc_thread = v\<rparr>) (channel_from_json j))"

definition thread_create_ok :: "thread_create \<Rightarrow> bool" where
  "thread_create_ok x = channel_ok (tc_thread x)"

interpretation thread_create: entity_object thread_create_to_json thread_create_from_json thread_create_ok
  by unfold_locales (simp_all add: thread_create_to_json_def thread_create_from_json_def channel.roundtrip thread_create_ok_def)

record thread_delete =
  td_id :: snowflake
  td_guild_id :: snowflake
  td_parent_id :: snowflake
  td_type :: u8

definition thread_delete_init :: thread_delete where
  "thread_delete_init = \<lparr>td_id = 0, td_guild_id = 0, td_parent_id = 0, td_type = 0\<rparr>"

definition thread_delete_members :: "thread_delete \<Rightarrow> (string \<times> json option) list" where
  "thread_delete_members x = [
     (''id'', Some (snowflake_to_json (td_id x))), (''guild_id'', Some (snowflake_to_json (td_guild_id x))),
     (''parent_id'', Some (snowflake_to_json (td_parent_id x))), (''type'', Some (juint (td_type x)))]"

definition thread_delete_to_json :: "thread_delete \<Rightarrow> json" where
  "thread_delete_to_json x = write_members (thread_delete_members x)"

definition thread_delete_from_json :: "json \<Rightarrow> thread_delete option" where
  "thread_delete_from_json j = do {
     v0 \<leftarrow> deserialize (to_value get_snowflake) j ''id'' 0;
     v1 \<leftarrow> deserialize (to_value get_snowflake) j ''guild_id'' 0;
     v2 \<leftarrow> deserialize (to_value get_snowflake) j ''parent_id'' 0;
     v3 \<leftarrow> deserialize (to_value get_enum) j ''type'' 0;
     Some \<lparr>td_id = v0, td_guild_id = v1, td_parent_id = v2, td_type = v3\<rparr>
   }"

lemma thread_delete_roundtrip: "thread_delete_from_json (thread_delete_to_json x) = Some x"
proof -
  have "distinct (map fst (thread_delete_members x))" by (simp add: thread_delete_members_def)
  note read = read_member [OF this]
  show ?thesis unfolding thread_delete_from_json_def thread_delete_to_json_def read
    by (simp add: thread_delete_members_def)
qed

lemma thread_delete_object: "\<not> is_null (thread_delete_to_json x)"
  unfolding thread_delete_to_json_def by (rule write_members_object [OF one_value_distinct]) (simp_all add: thread_delete_members_def)

interpretation thread_delete: entity_object thread_delete_to_json thread_delete_from_json "\<lambda>_. True"
  by unfold_locales (simp_all add: thread_delete_roundtrip thread_delete_object)

record thread_list_sync =
  tls_guild_id :: snowflake
  tls_channel_ids :: "snowflake list option"
  tls_threads :: "channel list"
  tls_members :: "thread_member list"

definition thread_list_sync_init :: thread_list_sync where
  "thread_list_sync_init = \<lparr>tls_guild_id = 0, tls_channel_ids = None, tls_threads = [], tls_members = []\<rparr>"

definition thread_list_sync_members :: "thread_list_sync \<Rightarrow> (string \<times> json option) list" where
  "thread_list_sync_members x = [
     (''guild_id'', Some (snowflake_to_json (tls_guild_id x))),
     (''channel_ids'', map_option (\<lambda>xs. JArr (map snowflake_to_json xs)) (tls_channel_ids x)),
     (''threads'', Some (JArr (map channel_to_json (tls_threads x)))),
     (''members'', Some (JArr (map thread_member_to_json (tls_members x))))]"

definition thread_list_sync_to_json :: "thread_list_sync \<Rightarrow> json" where
  "thread_list_sync_to_json x = write_members (thread_list_sync_members x)"

definition thread_list_sync_from_json :: "json \<Rightarrow> thread_list_sync option" where
  "thread_list_sync_from_json j = do {
     v0 \<leftarrow> deserialize (to_value get_snowflake) j ''guild_id'' 0;
     v1 \<leftarrow> deserialize (to_opt (get_vector get_snowflake)) j ''channel_ids'' None;
     v2 \<leftarrow> deserialize (to_vector channel_from_json) j ''threads'' [];
     v3 \<leftarrow> deserialize (to_vector thread_member_from_json) j ''members'' [];
     Some \<lparr>tls_guild_id = v0, tls_channel_ids = v1, tls_threads = v2, tls_members = v3\<rparr>
   }"

definition thread_list_sync_ok :: "thread_list_sync \<Rightarrow> bool" where
  "thread_list_sync_ok x \<longleftrightarrow> list_all channel_ok (tls_threads x) \<and> list_all thread_member_ok (tls_members x)"

lemma thread_list_sync_roundtrip: "thread_list_sync_ok x \<Longrightarrow> thread_list_sync_from_json (thread_list_sync_to_json x) = Some x"
proof -
  assume "thread_list_sync_ok x"
  moreover have "distinct (map fst (thread_list_sync_members x))" by (simp add: thread_list_sync_members_def)
  note read = read_member [OF this]
  ultimately show ?thesis unfolding thread_list_sync_from_json_def thread_list_sync_to_json_def read
    by (simp add: thread_list_sync_members_def thread_list_sync_ok_def)
qed

lemma thread_list_sync_object: "\<not> is_null (thread_list_sync_to_json x)"
  unfolding thread_list_sync_to_json_def by (rule write_members_object [OF one_value_distinct]) (simp_all add: thread_list_sync_members_def)

interpretation thread_list_sync: entity_object thread_list_sync_to_json thread_list_sync_from_json thread_list_sync_ok
  by unfold_locales (simp_all add: thread_list_sync_roundtrip thread_list_sync_object)

record thread_member_update =
  tmu_member :: thread_member

definition thread_member_update_init :: thread_member_update where
  "thread_member_update_init = \<lparr>tmu_member = thread_member_init\<rparr>"

definition thread_member_update_to_json :: "thread_member_update \<Rightarrow> json" where
  "thread_member_update_to_json x = thread_member_to_json (tmu_member x)"

definition thread_member_update_from_json :: "json \<Rightarrow> thread_member_update option" where
  "thread_member_update_from_json j = (if is_null j then Some thread_member_update_init
     else map_option (\<lambda>v. \<lparr>tmu_member = v\<rparr>) (thread_member_from_json j))"

definition thread_member_update_ok :: "thread_member_update \<Rightarrow> bool" where
  "thread_member_update_ok x = thread_member_ok (tmu_member x)"

interpretation thread_member_update: entity_object thread_member_update_to_json thread_member_update_from_json thread_member_update_ok
  by unfold_locales (simp_all add: thread_member_update_to_json_def thread_member_update_from_json_def thread_member.roundtrip thread_member_update_ok_def)

record thread_members_update =
  tmuh_id :: snowflake
  tmuh_guild_id :: snowflake
  tmuh_member_count :: u8
  tmuh_added_members :: "thread_member list option"
  tmuh_removed_member_ids :: "snowflake list"

definition thread_members_update_init :: thread_members_update where
  "thread_members_update_init = \<lparr>tmuh_id = 0, tmuh_guild_id = 0, tmuh_member_count = 0, tmuh_added_members = None,
     tmuh_removed_member_ids = []\<rparr>"

definition thread_members_update_members :: "thread_members_update \<Rightarrow> (string \<times> json option) list" where
  "thread_members_update_members x = [
     (''id'', Some (snowflake_to_json (tmuh_id x))), (''guild_id'', Some (snowflake_to_json (tmuh_guild_id x))),
     (''member_count'', Some (juint (tmuh_member_count x))),
     (''added_members'', map_option (\<lambda>xs. JArr (map thread_member_to_json xs)) (tmuh_added_members x)),
     (''removed_member_ids'', Some (JArr (map snowflake_to_json (tmuh_removed_member_ids x))))]"

definition thread_members_update_to_json :: "thread_members_update \<Rightarrow> json" where
  "thread_members_update_to_json x = write_members (thread_members_update_members x)"

definition thread_members_update_from_json :: "json \<Rightarrow> thread_members_update option" where
  "thread_members_update_from_json j = do {
     v0 \<leftarrow> deserialize (to_value get_snowflake) j ''id'' 0;
     v1 \<leftarrow> deserialize (to_value get_snowflake) j ''guild_id'' 0;
     v2 \<leftarrow> deserialize to_uint j ''member_count'' 0;
     v3 \<leftarrow> deserialize (to_opt (get_vector thread_member_from_json)) j ''added_members'' None;
     v4 \<leftarrow> deserialize (to_vector get_snowflake) j ''removed_member_ids'' [];
     Some \<lparr>tmuh_id = v0, tmuh_guild_id = v1, tmuh_member_count = v2, tmuh_added_members = v3,
       tmuh_removed_member_ids = v4\<rparr>
   }"

definition thread_members_update_ok :: "thread_members_update \<Rightarrow> bool" where
  "thread_members_update_ok x \<longleftrightarrow> pred_option (list_all thread_member_ok) (tmuh_added_members x)"

lemma thread_members_update_roundtrip: "thread_members_update_ok x \<Longrightarrow> thread_members_update_from_json (thread_members_update_to_json x) = Some x"
proof -
  assume "thread_members_update_ok x"
  moreover have "distinct (map fst (thread_members_update_members x))" by (simp add: thread_members_update_members_def)
  note read = read_member [OF this]
  ultimately show ?thesis unfolding thread_members_update_from_json_def thread_members_update_to_json_def read
    by (simp add: thread_members_update_members_def thread_members_update_ok_def)
qed

lemma thread_members_update_object: "\<not> is_null (thread_members_update_to_json x)"
  unfolding thread_members_update_to_json_def by (rule write_members_object [OF one_value_distinct]) (simp_all add: thread_members_update_members_def)

interpretation thread_members_update: entity_object thread_members_update_to_json thread_members_update_from_json thread_members_update_ok
  by unfold_locales (simp_all add: thread_members_update_roundtrip thread_members_update_object)

record thread_update =
  tu_thread :: channel

definition thread_update_init :: thread_update where
  "thread_update_init = \<lparr>tu_thread = channel_init\<rparr>"

definition thread_update_to_json :: "thread_update \<Rightarrow> json" where
  "thread_update_to_json x = channel_to_json (tu_thread x)"

definition thread_update_from_json :: "json \<Rightarrow> thread_update option" where
  "thread_update_from_json j = (if is_null j then Some thread_update_init
     else map_option (\<lambda>v. \<lparr>tu_thread = v\<rparr>) (channel_from_json j))"

definition thread_update_ok :: "thread_update \<Rightarrow> bool" where
  "thread_update_ok x = channel_ok (tu_thread x)"

interpretation thread_update: entity_object thread_update_to_json thread_update_from_json thread_update_ok
  by unfold_locales (simp_all add: thread_update_to_json_def thread_update_from_json_def channel.roundtrip thread_update_ok_def)

record typing_start =
  ts_channel_id :: snowflake
  ts_guild_id :: "snowflake option"
  ts_user_id :: snowflake
  ts_timestamp :: u64
  ts_member :: "guild_member option"

definition typing_start_init :: typing_start where
  "typing_start_init = \<lparr>ts_channel_id = 0, ts_guild_id = None, ts_user_id = 0, ts_timestamp = 0, ts_member = None\<rparr>"

definition typing_start_members :: "typing_start \<Rightarrow> (string \<times> json option) list" where
  "typing_start_members x = [
     (''channel_id'', Some (snowflake_to_json (ts_channel_id x))),
     (''guild_id'', map_option snowflake_to_json (ts_guild_id x)),
     (''user_id'', Some (snowflake_to_json (ts_user_id x))), (''timestamp'', Some (juint (ts_timestamp x))),
     (''member'', map_option guild_member_to_json (ts_member x))]"

definition typing_start_to_json :: "typing_start \<Rightarrow> json" where
  "typing_start_to_json x = write_members (typing_start_members x)"

definition typing_start_from_json :: "json \<Rightarrow> typing_start option" where
  "typing_start_from_json j = do {
     v0 \<leftarrow> deserialize (to_value get_snowflake) j ''channel_id'' 0;
     v1 \<leftarrow> deserialize (to_opt get_snowflake) j ''guild_id'' None;
     v2 \<leftarrow> deserialize (to_value get_snowflake) j ''user_id'' 0;
     v3 \<leftarrow> deserialize to_u64 j ''timestamp'' 0;
     v4 \<leftarrow> deserialize (to_opt guild_member_from_json) j ''member'' None;
     Some \<lparr>ts_channel_id = v0, ts_guild_id = v1, ts_user_id = v2, ts_timestamp = v3, ts_member = v4\<rparr>
   }"

definition typing_start_ok :: "typing_start \<Rightarrow> bool" where
  "typing_start_ok x \<longleftrightarrow> pred_option guild_member_ok (ts_member x)"

lemma typing_start_roundtrip: "typing_start_ok x \<Longrightarrow> typing_start_from_json (typing_start_to_json x) = Some x"
proof -
  assume "typing_start_ok x"
  moreover have "distinct (map fst (typing_start_members x))" by (simp add: typing_start_members_def)
  note read = read_member [OF this]
  ultimately show ?thesis unfolding typing_start_from_json_def typing_start_to_json_def read
    by (simp add: typing_start_members_def typing_start_ok_def)
qed

lemma typing_start_object: "\<not> is_null (typing_start_to_json x)"
  unfolding typing_start_to_json_def by (rule write_members_object [OF one_value_distinct]) (simp_all add: typing_start_members_def)

interpretation typing_start: entity_object typing_start_to_json typing_start_from_json typing_start_ok
  by unfold_locales (simp_all add: typing_start_roundtrip typing_start_object)

record user_update =
  uu_user :: current_user

definition user_update_init :: user_update where
  "user_update_init = \<lparr>uu_user = current_user_init\<rparr>"

definition user_update_to_json :: "user_update \<Rightarrow> json" where
  "user_update_to_json x = current_user_to_json (uu_user x)"

definition user_update_from_json :: "json \<Rightarrow> user_update option" where
  "user_update_from_json j = (if is_null j then Some user_update_init
     else map_option (\<lambda>v. \<lparr>uu_user = v\<rparr>) (current_user_from_json j))"

interpretation user_update: entity_object user_update_to_json user_update_from_json "\<lambda>_. True"
  by unfold_locales (simp_all add: user_update_to_json_def user_update_from_json_def current_user.roundtrip)

record voice_server_update =
  vsu_token :: string
  vsu_guild_id :: snowflake
  vsu_endpoint :: "string option"

definition voice_server_update_init :: voice_server_update where
  "voice_server_update_init = \<lparr>vsu_token = [], vsu_guild_id = 0, vsu_endpoint = None\<rparr>"

definition voice_server_update_members :: "voice_server_update \<Rightarrow> (string \<times> json option) list" where
  "voice_server_update_members x = [
     (''token'', Some (JStr (vsu_token x))), (''guild_id'', Some (snowflake_to_json (vsu_guild_id x))),
     (''endpoint'', map_option JStr (vsu_endpoint x))]"

definition voice_server_update_to_json :: "voice_server_update \<Rightarrow> json" where
  "voice_server_update_to_json x = write_members (voice_server_update_members x)"

definition voice_server_update_from_json :: "json \<Rightarrow> voice_server_update option" where
  "voice_server_update_from_json j = do {
     v0 \<leftarrow> deserialize to_str j ''token'' [];
     v1 \<leftarrow> deserialize (to_value get_snowflake) j ''guild_id'' 0;
     v2 \<leftarrow> deserialize (to_opt get_string) j ''endpoint'' None;
     Some \<lparr>vsu_token = v0, vsu_guild_id = v1, vsu_endpoint = v2\<rparr>
   }"

lemma voice_server_update_roundtrip: "voice_server_update_from_json (voice_server_update_to_json x) = Some x"
proof -
  have "distinct (map fst (voice_server_update_members x))" by (simp add: voice_server_update_members_def)
  note read = read_member [OF this]
  show ?thesis unfolding voice_server_update_from_json_def voice_server_update_to_json_def read
    by (simp add: voice_server_update_members_def)
qed

lemma voice_server_update_object: "\<not> is_null (voice_server_update_to_json x)"
  unfolding voice_server_update_to_json_def by (rule write_members_object [OF one_value_distinct]) (simp_all add: voice_server_update_members_def)

interpretation voice_server_update: entity_object voice_server_update_to_json voice_server_update_from_json "\<lambda>_. True"
  by unfold_locales (simp_all add: voice_server_update_roundtrip voice_server_update_object)

record voice_state_update =
  vsuo_voice_state :: voice_state

definition voice_state_update_init :: voice_state_update where
  "voice_state_update_init = \<lparr>vsuo_voice_state = voice_state_init\<rparr>"

definition voice_state_update_to_json :: "voice_state_update \<Rightarrow> json" where
  "voice_state_update_to_json x = voice_state_to_json (vsuo_voice_state x)"

definition voice_state_update_from_json :: "json \<Rightarrow> voice_state_update option" where
  "voice_state_update_from_json j = (if is_null j then Some voice_state_update_init
     else map_option (\<lambda>v. \<lparr>vsuo_voice_state = v\<rparr>) (voice_state_from_json j))"

definition voice_state_update_ok :: "voice_state_update \<Rightarrow> bool" where
  "voice_state_update_ok x = voice_state_ok (vsuo_voice_state x)"

interpretation voice_state_update: entity_object voice_state_update_to_json voice_state_update_from_json voice_state_update_ok
  by unfold_locales (simp_all add: voice_state_update_to_json_def voice_state_update_from_json_def voice_state.roundtrip voice_state_update_ok_def)

record webhooks_update =
  wu_guild_id :: snowflake
  wu_channel_id :: snowflake

definition webhooks_update_init :: webhooks_update where
  "webhooks_update_init = \<lparr>wu_guild_id = 0, wu_channel_id = 0\<rparr>"

definition webhooks_update_members :: "webhooks_update \<Rightarrow> (string \<times> json option) list" where
  "webhooks_update_members x = [
     (''guild_id'', Some (snowflake_to_json (wu_guild_id x))),
     (''channel_id'', Some (snowflake_to_json (wu_channel_id x)))]"

definition webhooks_update_to_json :: "webhooks_update \<Rightarrow> json" where
  "webhooks_update_to_json x = write_members (webhooks_update_members x)"

definition webhooks_update_from_json :: "json \<Rightarrow> webhooks_update option" where
  "webhooks_update_from_json j = do {
     v0 \<leftarrow> deserialize (to_value get_snowflake) j ''guild_id'' 0;
     v1 \<leftarrow> deserialize (to_value get_snowflake) j ''channel_id'' 0;
     Some \<lparr>wu_guild_id = v0, wu_channel_id = v1\<rparr>
   }"

lemma webhooks_update_roundtrip: "webhooks_update_from_json (webhooks_update_to_json x) = Some x"
proof -
  have "distinct (map fst (webhooks_update_members x))" by (simp add: webhooks_update_members_def)
  note read = read_member [OF this]
  show ?thesis unfolding webhooks_update_from_json_def webhooks_update_to_json_def read
    by (simp add: webhooks_update_members_def)
qed

lemma webhooks_update_object: "\<not> is_null (webhooks_update_to_json x)"
  unfolding webhooks_update_to_json_def by (rule write_members_object [OF one_value_distinct]) (simp_all add: webhooks_update_members_def)

interpretation webhooks_update: entity_object webhooks_update_to_json webhooks_update_from_json "\<lambda>_. True"
  by unfold_locales (simp_all add: webhooks_update_roundtrip webhooks_update_object)

section \<open>Events that carry a message or an interaction\<close>

record message_create =
  mc_message :: message


definition message_create_from_json :: "json \<Rightarrow> message_create option" where
  "message_create_from_json j = (if is_null j then Some \<lparr>mc_message = message_init\<rparr>
     else map_option (\<lambda>v. \<lparr>mc_message = v\<rparr>) (message_from_json j))"

record interaction_create =
  ic_interaction :: interaction


definition interaction_create_from_json :: "json \<Rightarrow> interaction_create option" where
  "interaction_create_from_json j = (if is_null j then Some \<lparr>ic_interaction = interaction_init\<rparr>
     else map_option (\<lambda>v. \<lparr>ic_interaction = v\<rparr>) (interaction_from_json j))"

section \<open>The variant\<close>

datatype (plugins only: code) event =
    EV_GuildBanAdd guild_ban_add | EV_GuildBanRemove guild_ban_remove | EV_ChannelCreate channel_create 
  | EV_ChannelDelete channel_delete | EV_ChannelPinsUpdate channel_pins_update 
  | EV_ChannelUpdate channel_update | EV_GuildCreate guild_create | EV_GuildDelete guild_delete 
  | EV_GuildEmojisUpdate guild_emojis_update | EV_GuildIntegrationsUpdate guild_integrations_update 
  | EV_GuildMemberAdd guild_member_add | EV_GuildMemberRemove guild_member_remove 
  | EV_GuildMemberUpdate guild_member_update | EV_GuildMembersChunk guild_members_chunk 
  | EV_GuildRoleCreate guild_role_create | EV_GuildRoleDelete guild_role_delete 
  | EV_GuildRoleUpdate guild_role_update | EV_GuildScheduledEventCreate guild_scheduled_event_create 
  | EV_GuildScheduledEventDelete guild_scheduled_event_delete 
  | EV_GuildScheduledEventUpdate guild_scheduled_event_update 
  | EV_GuildScheduledEventUserAdd guild_scheduled_event_user_add 
  | EV_GuildScheduledEventUserRemove guild_scheduled_event_user_remove 
  | EV_GuildStickersUpdate guild_stickers_update | EV_GuildUpdate guild_update 
  | EV_IntegrationCreate integration_create | EV_IntegrationDelete integration_delete 
  | EV_IntegrationUpdate integration_update | EV_InteractionCreate interaction_create 
  | EV_InviteCreate invite_create | EV_InviteDelete invite_delete | EV_MessageCreate message_create 
  | EV_MessageDelete message_delete | EV_MessageDeleteBulk message_delete_bulk 
  | EV_MessageReactionAdd message_reaction_add | EV_MessageReactionRemove message_reaction_remove 
  | EV_MessageReactionRemoveAll message_reaction_remove_all 
  | EV_MessageReactionRemoveEmoji message_reaction_remove_emoji | EV_MessageUpdate message_update 
  | EV_PresenceUpdate presence_update | EV_Ready ready | EV_Resumed 
  | EV_StageInstanceCreate stage_instance_create | EV_StageInstanceDelete stage_instance_delete 
  | EV_StageInstanceUpdate stage_instance_update | EV_ThreadCreate thread_create 
  | EV_ThreadDelete thread_delete | EV_ThreadListSync thread_list_sync 
  | EV_ThreadMemberUpdate thread_member_update | EV_ThreadMembersUpdate thread_members_update 
  | EV_ThreadUpdate thread_update | EV_TypingStart typing_start | EV_UserUpdate user_update 
  | EV_VoiceServerUpdate voice_server_update | EV_VoiceStateUpdate voice_state_update 
  | EV_WebhooksUpdate webhooks_update

text \<open>The conversions by the name of the event, in the order of \<^verbatim>\<open>event_from_str\<close>.\<close>

definition event_readers :: "(string \<times> (json \<Rightarrow> event option)) list" where
  "event_readers = [
     (''CHANNEL_CREATE'', \<lambda>j. map_option EV_ChannelCreate (channel_create_from_json j)),
     (''CHANNEL_DELETE'', \<lambda>j. map_option EV_ChannelDelete (channel_delete_from_json j)),
     (''CHANNEL_PINS_UPDATE'', \<lambda>j. map_option EV_ChannelPinsUpdate (channel_pins_update_from_json j)),
     (''CHANNEL_UPDATE'', \<lambda>j. map_option EV_ChannelUpdate (channel_update_from_json j)),
     (''GUILD_BAN_ADD'', \<lambda>j. map_option EV_GuildBanAdd (guild_ban_add_from_json j)),
     (''GUILD_BAN_REMOVE'', \<lambda>j. map_option EV_GuildBanRemove (guild_ban_remove_from_json j)),
     (''GUILD_CREATE'', \<lambda>j. map_option EV_GuildCreate (guild_create_from_json j)),
     (''GUILD_DELETE'', \<lambda>j. map_option EV_GuildDelete (guild_delete_from_json j)),
     (''GUILD_EMOJIS_UPDATE'', \<lambda>j. map_option EV_GuildEmojisUpdate (guild_emojis_update_from_json j)),
     (''GUILD_INTEGRATIONS_UPDATE'', \<lambda>j. map_option EV_GuildIntegrationsUpdate (guild_integrations_update_from_json j)),
     (''GUILD_MEMBER_ADD'', \<lambda>j. map_option EV_GuildMemberAdd (guild_member_add_from_json j)),
     (''GUILD_MEMBER_REMOVE'', \<lambda>j. map_option EV_GuildMemberRemove (guild_member_remove_from_json j)),
     (''GUILD_MEMBER_UPDATE'', \<lambda>j. map_option EV_GuildMemberUpdate (guild_member_update_from_json j)),
     (''GUILD_MEMBERS_CHUNK'', \<lambda>j. map_option EV_GuildMembersChunk (guild_members_chunk_from_json j)),
     (''GUILD_ROLE_CREATE'', \<lambda>j. map_option EV_GuildRoleCreate (guild_role_create_from_json j)),
     (''GUILD_ROLE_DELETE'', \<lambda>j. map_option EV_GuildRoleDelete (guild_role_delete_from_json j)),
     (''GUILD_ROLE_UPDATE'', \<lambda>j. map_option EV_GuildRoleUpdate (guild_role_update_from_json j)),
     (''GUILD_SCHEDULED_EVENT_CREATE'', \<lambda>j. map_option EV_GuildScheduledEventCreate (guild_scheduled_event_create_from_json j)),
     (''GUILD_SCHEDULED_EVENT_DELETE'', \<lambda>j. map_option EV_GuildScheduledEventDelete (guild_scheduled_event_delete_from_json j)),
     (''GUILD_SCHEDULED_EVENT_UPDATE'', \<lambda>j. map_option EV_GuildScheduledEventUpdate (guild_scheduled_event_update_from_json j)),
     (''GUILD_SCHEDULED_EVENT_USER_ADD'', \<lambda>j. map_option EV_GuildScheduledEventUserAdd (guild_scheduled_event_user_add_from_json j)),
     (''GUILD_SCHEDULED_EVENT_USER_REMOVE'', \<lambda>j. map_option EV_GuildScheduledEventUserRemove (guild_scheduled_event_user_remove_from_json j)),
     (''GUILD_STICKERS_UPDATE'', \<lambda>j. map_option EV_GuildStickersUpdate (guild_stickers_update_from_json j)),
     (''GUILD_UPDATE'', \<lambda>j. map_option EV_GuildUpdate (guild_update_from_json j)),
     (''INTEGRATION_CREATE'', \<lambda>j. map_option EV_IntegrationCreate (integration_create_from_json j)),
     (''INTEGRATION_DELETE'', \<lambda>j. map_option EV_IntegrationDelete (integration_delete_from_json j)),
     (''INTEGRATION_UPDATE'', \<lambda>j. map_option EV_IntegrationUpdate (integration_update_from_json j)),
     (''INTERACTION_CREATE'', \<lambda>j. map_option EV_InteractionCreate (interaction_create_from_json j)),
     (''INVITE_CREATE'', \<lambda>j. map_option EV_InviteCreate (invite_create_from_json j)),
     (''INVITE_DELETE'', \<lambda>j. map_option EV_InviteDelete (invite_delete_from_json j)),
     (''MESSAGE_CREATE'', \<lambda>j. map_option EV_MessageCreate (message_create_from_json j)),
     (''MESSAGE_DELETE'', \<lambda>j. map_option EV_MessageDelete (message_delete_from_json j)),
     (''MESSAGE_DELETE_BULK'', \<lambda>j. map_option EV_MessageDeleteBulk (message_delete_bulk_from_json j)),
     (''MESSAGE_REACTION_ADD'', \<lambda>j. map_option EV_MessageReactionAdd (message_reaction_add_from_json j)),
     (''MESSAGE_REACTION_REMOVE'', \<lambda>j. map_option EV_MessageReactionRemove (message_reaction_remove_from_json j)),
     (''MESSAGE_REACTION_REMOVE_ALL'', \<lambda>j. map_option EV_MessageReactionRemoveAll (message_reaction_remove_all_from_json j)),
     (''MESSAGE_REACTION_REMOVE_EMOJI'', \<lambda>j. map_option EV_MessageReactionRemoveEmoji (message_reaction_remove_emoji_from_json j)),
     (''MESSAGE_UPDATE'', \<lambda>j. map_option EV_MessageUpdate (message_update_from_json j)),
     (''PRESENCE_UPDATE'', \<lambda>j. map_option EV_PresenceUpdate (presence_update_from_json j)),
     (''READY'', \<lambda>j. map_option EV_Ready (ready_from_json j)),
     (''STAGE_INSTANCE_CREATE'', \<lambda>j. map_option EV_StageInstanceCreate (stage_instance_create_from_json j)),
     (''STAGE_INSTANCE_DELETE'', \<lambda>j. map_option EV_StageInstanceDelete (stage_instance_delete_from_json j)),
     (''STAGE_INSTANCE_UPDATE'', \<lambda>j. map_option EV_StageInstanceUpdate (stage_instance_update_from_json j)),
     (''THREAD_CREATE'', \<lambda>j. map_option EV_ThreadCreate (thread_create_from_json j)),
     (''THREAD_DELETE'', \<lambda>j. map_option EV_ThreadDelete (thread_delete_from_json j)),
     (''THREAD_LIST_SYNC'', \<lambda>j. map_option EV_ThreadListSync (thread_list_sync_from_json j)),
     (''THREAD_MEMBER_UPDATE'', \<lambda>j. map_option EV_ThreadMemberUpdate (thread_member_update_from_json j)),
     (''THREAD_MEMBERS_UPDATE'', \<lambda>j. map_option EV_ThreadMembersUpdate (thread_members_update_from_json j)),
     (''THREAD_UPDATE'', \<lambda>j. map_option EV_ThreadUpdate (thread_update_from_json j)),
     (''TYPING_START'', \<lambda>j. map_option EV_TypingStart (typing_start_from_json j)),
     (''USER_UPDATE'', \<lambda>j. map_option EV_UserUpdate (user_update_from_json j)),
     (''VOICE_SERVER_UPDATE'', \<lambda>j. map_option EV_VoiceServerUpdate (voice_server_update_from_json j)),
     (''VOICE_STATE_UPDATE'', \<lambda>j. map_option EV_VoiceStateUpdate (voice_state_update_from_json j)),
     (''WEBHOOKS_UPDATE'', \<lambda>j. map_option EV_WebhooksUpdate (webhooks_update_from_json j))]"






section \<open>What was written is read\<close>

lemma event_names: "map fst event_readers = EVENT_NAMES"
  by (simp add: event_readers_def EVENT_NAMES_def)








section \<open>Events on a shard\<close>










end
