(* ===== verification/Application_Command.thy ===== *)
theory Application_Command
  imports Entity_Interaction
begin

text \<open>
  Application commands: the structures and the builder of \<^verbatim>\<open>include/ekizu/application_command.hpp\<close>, the choices
  of \<^verbatim>\<open>src/application_command.cpp\<close>, and the conversions of \<^verbatim>\<open>bulk_overwrite_application_commands.cpp\<close>. An
  option holds options itself; what it holds besides them is the record \<open>option_fields\<close>. A choice is
  read into a value that starts as a string, and stays one: a choice with a number, once written, is
  an exception to the code that reads it.
\<close>

section \<open>Choices\<close>

type_synonym localizations = "(string \<times> string) list"

datatype choice_value = CV_String string | CV_Integer i64 | CV_Number int

record option_choice =
  oc_name :: string
  oc_name_localizations :: "localizations option"
  oc_value :: choice_value

fun choice_value_to_json :: "choice_value \<Rightarrow> json" where
  "choice_value_to_json (CV_String s) = JStr s"
| "choice_value_to_json (CV_Integer i) = JInt (sint i)"
| "choice_value_to_json (CV_Number f) = JFloat f"

definition option_choice_members :: "option_choice \<Rightarrow> (string \<times> json option) list" where
  "option_choice_members c = [(''name'', Some (JStr (oc_name c))),
     (''name_localizations'', map_option jmap (oc_name_localizations c)),
     (''value'', Some (choice_value_to_json (oc_value c)))]"

definition option_choice_to_json :: "option_choice \<Rightarrow> json" where
  "option_choice_to_json c = write_members (option_choice_members c)"

definition option_choice_from_json :: "json \<Rightarrow> option_choice option" where
  "option_choice_from_json j = do {
     n \<leftarrow> deserialize to_str j ''name'' [];
     l \<leftarrow> deserialize (to_opt get_map) j ''name_localizations'' None;
     v \<leftarrow> deserialize to_str j ''value'' [];
     Some \<lparr>oc_name = n, oc_name_localizations = l, oc_value = CV_String v\<rparr>
   }"

definition is_text :: "option_choice \<Rightarrow> bool" where
  "is_text c \<longleftrightarrow> (case oc_value c of CV_String _ \<Rightarrow> True | _ \<Rightarrow> False)"

lemma choice_members_distinct: "distinct (map fst (option_choice_members c))"
  by (simp add: option_choice_members_def)

lemma choice_object: "\<not> is_null (option_choice_to_json c)"
  unfolding option_choice_to_json_def
  by (rule write_members_object [OF one_value_distinct [OF choice_members_distinct]])
    (simp add: option_choice_members_def)

text \<open>What is read of a written choice: the choice itself if its value is text, an exception otherwise.\<close>

lemma choice_read:
  "option_choice_from_json (option_choice_to_json c) = (if is_text c then Some c else None)"
  unfolding option_choice_from_json_def option_choice_to_json_def read_member [OF choice_members_distinct]
  by (cases "oc_value c") (simp_all add: option_choice_members_def is_text_def to_str_def)

interpretation option_choice: entity_object option_choice_to_json option_choice_from_json is_text
  by unfold_locales (simp_all add: choice_read choice_object)

section \<open>Options\<close>

datatype num_value = NV_Integer i64 | NV_Number int

record option_fields =
  of_type :: u8
  of_name :: string
  of_name_localizations :: "localizations option"
  of_description :: string
  of_description_localizations :: "localizations option"
  of_required :: bool
  of_choices :: "option_choice list option"
  of_channel_types :: "u8 list option"
  of_min_value :: "num_value option"
  of_max_value :: "num_value option"
  of_min_length :: "i32 option"
  of_max_length :: "i32 option"
  of_autocomplete :: bool
  of_value :: option_value

datatype command_option = CommandOption (co_fields: option_fields) (co_options: "command_option list option")

definition option_fields_init :: option_fields where
  "option_fields_init = \<lparr>of_type = 0, of_name = [], of_name_localizations = None, of_description = [],
     of_description_localizations = None, of_required = False, of_choices = None, of_channel_types = None,
     of_min_value = None, of_max_value = None, of_min_length = None, of_max_length = None,
     of_autocomplete = False, of_value = OV_None\<rparr>"

fun serialize_numeric_variant :: "num_value \<Rightarrow> json" where
  "serialize_numeric_variant (NV_Integer i) = JInt (sint i)"
| "serialize_numeric_variant (NV_Number f) = JFloat f"

text \<open>A flag that is false is left out.\<close>

definition flag_set :: "bool \<Rightarrow> json option" where
  "flag_set b = (if b then Some (JBool True) else None)"

definition command_option_members :: "option_fields \<Rightarrow> json list option \<Rightarrow> (string \<times> json option) list" where
  "command_option_members f os = [(''type'', Some (juint (of_type f))), (''name'', Some (JStr (of_name f))),
     (''description'', Some (JStr (of_description f))), (''required'', flag_set (of_required f)),
     (''autocomplete'', flag_set (of_autocomplete f)),
     (''name_localizations'', map_option jmap (of_name_localizations f)),
     (''description_localizations'', map_option jmap (of_description_localizations f)),
     (''choices'', map_option (\<lambda>cs. JArr (map option_choice_to_json cs)) (of_choices f)),
     (''options'', map_option JArr os),
     (''channel_types'', map_option (\<lambda>cs. JArr (map juint cs)) (of_channel_types f)),
     (''min_value'', map_option serialize_numeric_variant (of_min_value f)),
     (''max_value'', map_option serialize_numeric_variant (of_max_value f)),
     (''min_length'', map_option jsint (of_min_length f)), (''max_length'', map_option jsint (of_max_length f))]"

fun command_option_to_json :: "command_option \<Rightarrow> json" where
  "command_option_to_json (CommandOption f os) =
     write_members (command_option_members f (map_option (map command_option_to_json) os))"

text \<open>The type is read if it is there, even if it is null, which is an exception.\<close>

definition read_type :: "json \<Rightarrow> u8 \<Rightarrow> u8 option" where
  "read_type j old = (case json_at j ''type'' of None \<Rightarrow> Some old | Some v \<Rightarrow> get_word v)"

definition read_option_fields :: "json \<Rightarrow> option_fields option" where
  "read_option_fields j = do {
     t \<leftarrow> read_type j 0;
     n \<leftarrow> deserialize to_str j ''name'' [];
     d \<leftarrow> deserialize to_str j ''description'' [];
     r \<leftarrow> deserialize to_bool j ''required'' False;
     a \<leftarrow> deserialize to_bool j ''autocomplete'' False;
     nl \<leftarrow> deserialize (to_opt get_map) j ''name_localizations'' None;
     dl \<leftarrow> deserialize (to_opt get_map) j ''description_localizations'' None;
     cs \<leftarrow> deserialize (to_opt (get_vector option_choice_from_json)) j ''choices'' None;
     Some (option_fields_init\<lparr>of_type := t, of_name := n, of_description := d, of_required := r,
       of_autocomplete := a, of_name_localizations := nl, of_description_localizations := dl, of_choices := cs\<rparr>)
   }"

fun command_option_from_json :: "json \<Rightarrow> command_option option" where
  "command_option_from_json j = do {
     f \<leftarrow> read_option_fields j;
     os \<leftarrow> (case json_at j ''options'' of
             None \<Rightarrow> Some None
           | Some v \<Rightarrow> if is_null v then Some None else (case v of
               JArr xs \<Rightarrow> map_option Some (sequence_options (map command_option_from_json xs))
             | _ \<Rightarrow> None));
     Some (CommandOption f os)
   }"

declare command_option_from_json.simps [simp del]

section \<open>The builder of an option\<close>

definition option_builder :: command_option where
  "option_builder = CommandOption option_fields_init None"

definition update_fields :: "(option_fields \<Rightarrow> option_fields) \<Rightarrow> command_option \<Rightarrow> command_option" where
  "update_fields u b = CommandOption (u (co_fields b)) (co_options b)"

definition option_type :: "u8 \<Rightarrow> command_option \<Rightarrow> command_option" where
  "option_type t = update_fields (\<lambda>f. f\<lparr>of_type := t\<rparr>)"
definition option_name :: "string \<Rightarrow> command_option \<Rightarrow> command_option" where
  "option_name n = update_fields (\<lambda>f. f\<lparr>of_name := n\<rparr>)"
definition option_name_localizations :: "localizations \<Rightarrow> command_option \<Rightarrow> command_option" where
  "option_name_localizations l = update_fields (\<lambda>f. f\<lparr>of_name_localizations := Some l\<rparr>)"
definition option_description :: "string \<Rightarrow> command_option \<Rightarrow> command_option" where
  "option_description d = update_fields (\<lambda>f. f\<lparr>of_description := d\<rparr>)"
definition option_description_localizations :: "localizations \<Rightarrow> command_option \<Rightarrow> command_option" where
  "option_description_localizations l = update_fields (\<lambda>f. f\<lparr>of_description_localizations := Some l\<rparr>)"
definition option_required :: "bool \<Rightarrow> command_option \<Rightarrow> command_option" where
  "option_required r = update_fields (\<lambda>f. f\<lparr>of_required := r\<rparr>)"
definition option_choices :: "option_choice list \<Rightarrow> command_option \<Rightarrow> command_option" where
  "option_choices c = update_fields (\<lambda>f. f\<lparr>of_choices := Some c\<rparr>)"
definition option_add_choice :: "string \<Rightarrow> choice_value \<Rightarrow> command_option \<Rightarrow> command_option" where
  "option_add_choice n v = update_fields (\<lambda>f. f\<lparr>of_choices :=
     Some ((case of_choices f of None \<Rightarrow> [] | Some cs \<Rightarrow> cs) @
       [\<lparr>oc_name = n, oc_name_localizations = None, oc_value = v\<rparr>])\<rparr>)"
definition option_options :: "command_option list \<Rightarrow> command_option \<Rightarrow> command_option" where
  "option_options os b = CommandOption (co_fields b) (Some os)"
definition option_add_option :: "command_option \<Rightarrow> command_option \<Rightarrow> command_option" where
  "option_add_option opt b = CommandOption (co_fields b)
     (Some ((case co_options b of None \<Rightarrow> [] | Some os \<Rightarrow> os) @ [opt]))"
definition option_channel_types :: "u8 list \<Rightarrow> command_option \<Rightarrow> command_option" where
  "option_channel_types ct = update_fields (\<lambda>f. f\<lparr>of_channel_types := Some ct\<rparr>)"
definition option_min_value :: "num_value \<Rightarrow> command_option \<Rightarrow> command_option" where
  "option_min_value v = update_fields (\<lambda>f. f\<lparr>of_min_value := Some v\<rparr>)"
definition option_max_value :: "num_value \<Rightarrow> command_option \<Rightarrow> command_option" where
  "option_max_value v = update_fields (\<lambda>f. f\<lparr>of_max_value := Some v\<rparr>)"
definition option_min_length :: "i32 \<Rightarrow> command_option \<Rightarrow> command_option" where
  "option_min_length n = update_fields (\<lambda>f. f\<lparr>of_min_length := Some n\<rparr>)"
definition option_max_length :: "i32 \<Rightarrow> command_option \<Rightarrow> command_option" where
  "option_max_length n = update_fields (\<lambda>f. f\<lparr>of_max_length := Some n\<rparr>)"
definition option_autocomplete :: "bool \<Rightarrow> command_option \<Rightarrow> command_option" where
  "option_autocomplete a = update_fields (\<lambda>f. f\<lparr>of_autocomplete := a\<rparr>)"

section \<open>Commands\<close>

record create_fields =
  acf_name :: string
  acf_name_localizations :: "localizations option"
  acf_description :: "string option"
  acf_description_localizations :: "localizations option"
  acf_options :: "command_option list option"
  acf_default_member_permissions :: "string option"
  acf_integration_types :: "u8 list option"
  acf_contexts :: "u8 list option"
  acf_type :: u8
  acf_nsfw :: bool

definition create_fields_init :: create_fields where
  "create_fields_init = \<lparr>acf_name = [], acf_name_localizations = None, acf_description = None,
     acf_description_localizations = None, acf_options = None, acf_default_member_permissions = None,
     acf_integration_types = None, acf_contexts = None, acf_type = 1, acf_nsfw = False\<rparr>"

definition options_to_json :: "command_option list option \<Rightarrow> json option" where
  "options_to_json = map_option (\<lambda>os. JArr (map command_option_to_json os))"

definition create_fields_members :: "create_fields \<Rightarrow> (string \<times> json option) list" where
  "create_fields_members f = [(''name'', Some (JStr (acf_name f))), (''type'', Some (juint (acf_type f))),
     (''description'', Some (JStr (case acf_description f of Some d \<Rightarrow> d | None \<Rightarrow> ''No description provided''))),
     (''nsfw'', flag_set (acf_nsfw f)), (''name_localizations'', map_option jmap (acf_name_localizations f)),
     (''description_localizations'', map_option jmap (acf_description_localizations f)),
     (''options'', options_to_json (acf_options f)),
     (''default_member_permissions'', map_option JStr (acf_default_member_permissions f)),
     (''integration_types'', map_option (\<lambda>ts. JArr (map juint ts)) (acf_integration_types f)),
     (''contexts'', map_option (\<lambda>ts. JArr (map juint ts)) (acf_contexts f))]"

definition create_fields_to_json :: "create_fields \<Rightarrow> json" where
  "create_fields_to_json f = write_members (create_fields_members f)"

definition create_fields_from_json :: "json \<Rightarrow> create_fields option" where
  "create_fields_from_json j = do {
     n \<leftarrow> deserialize to_str j ''name'' [];
     t \<leftarrow> read_type j 1;
     b \<leftarrow> deserialize to_bool j ''nsfw'' False;
     d \<leftarrow> deserialize (to_opt get_string) j ''description'' None;
     os \<leftarrow> deserialize (to_opt (get_vector command_option_from_json)) j ''options'' None;
     Some (create_fields_init\<lparr>acf_name := n, acf_type := t, acf_nsfw := b, acf_description := d, acf_options := os\<rparr>)
   }"

record application_command =
  ac_id :: snowflake
  ac_type :: u8
  ac_application_id :: snowflake
  ac_guild_id :: "snowflake option"
  ac_name :: string
  ac_name_localizations :: "localizations option"
  ac_description :: string
  ac_description_localizations :: "localizations option"
  ac_options :: "command_option list option"
  ac_default_member_permissions :: "string option"
  ac_dm_permission :: "bool option"
  ac_default_permission :: "bool option"
  ac_nsfw :: bool
  ac_integration_types :: "u8 list option"
  ac_contexts :: "u8 list option"
  ac_version :: snowflake

definition application_command_init :: application_command where
  "application_command_init = \<lparr>ac_id = 0, ac_type = 1, ac_application_id = 0, ac_guild_id = None, ac_name = [],
     ac_name_localizations = None, ac_description = [], ac_description_localizations = None, ac_options = None,
     ac_default_member_permissions = None, ac_dm_permission = None, ac_default_permission = None, ac_nsfw = False,
     ac_integration_types = None, ac_contexts = None, ac_version = 0\<rparr>"

definition application_command_members :: "application_command \<Rightarrow> (string \<times> json option) list" where
  "application_command_members c = [(''id'', Some (snowflake_to_json (ac_id c))), (''type'', Some (juint (ac_type c))),
     (''application_id'', Some (snowflake_to_json (ac_application_id c))), (''name'', Some (JStr (ac_name c))),
     (''description'', Some (JStr (ac_description c))), (''version'', Some (snowflake_to_json (ac_version c))),
     (''nsfw'', flag_set (ac_nsfw c)), (''guild_id'', map_option snowflake_to_json (ac_guild_id c)),
     (''options'', options_to_json (ac_options c)),
     (''default_member_permissions'', map_option JStr (ac_default_member_permissions c))]"

definition application_command_to_json :: "application_command \<Rightarrow> json" where
  "application_command_to_json c = write_members (application_command_members c)"

definition application_command_from_json :: "json \<Rightarrow> application_command option" where
  "application_command_from_json j = do {
     i \<leftarrow> deserialize (to_value get_snowflake) j ''id'' 0;
     t \<leftarrow> read_type j 1;
     a \<leftarrow> deserialize (to_value get_snowflake) j ''application_id'' 0;
     n \<leftarrow> deserialize to_str j ''name'' [];
     d \<leftarrow> deserialize to_str j ''description'' [];
     v \<leftarrow> deserialize (to_value get_snowflake) j ''version'' 0;
     b \<leftarrow> deserialize to_bool j ''nsfw'' False;
     g \<leftarrow> deserialize (to_opt get_snowflake) j ''guild_id'' None;
     os \<leftarrow> deserialize (to_opt (get_vector command_option_from_json)) j ''options'' None;
     p \<leftarrow> deserialize (to_opt get_string) j ''default_member_permissions'' None;
     Some (application_command_init\<lparr>ac_id := i, ac_type := t, ac_application_id := a, ac_name := n, ac_description := d,
       ac_version := v, ac_nsfw := b, ac_guild_id := g, ac_options := os, ac_default_member_permissions := p\<rparr>)
   }"

section \<open>What is read of what was written\<close>

text \<open>
  The members that are written but never read, or neither, get their initial values; an option is read only if
  every choice in it, at any depth, is text.
\<close>

fun all_text :: "command_option \<Rightarrow> bool" where
  "all_text (CommandOption f os) \<longleftrightarrow>
     pred_option (list_all is_text) (of_choices f) \<and> pred_option (list_all all_text) os"

definition kept_fields :: "option_fields \<Rightarrow> option_fields" where
  "kept_fields f = f\<lparr>of_channel_types := None, of_min_value := None, of_max_value := None, of_min_length := None,
     of_max_length := None, of_value := OV_None\<rparr>"

fun kept_option :: "command_option \<Rightarrow> command_option" where
  "kept_option (CommandOption f os) = CommandOption (kept_fields f) (map_option (map kept_option) os)"

lemma sequence_options_if:
  assumes "\<And>x. x \<in> set xs \<Longrightarrow> f x = (if P x then Some (g x) else None)"
  shows "sequence_options (map f xs) = (if list_all P xs then Some (map g xs) else None)"
  using assms by (induction xs) auto

lemma get_vector_if:
  assumes "\<And>x. x \<in> set xs \<Longrightarrow> get (enc x) = (if P x then Some (g x) else None)"
  shows "get_vector get (JArr (map enc xs)) = (if list_all P xs then Some (map g xs) else None)"
  using sequence_options_if [of xs "get \<circ> enc" P g] assms by (simp add: get_vector_def)

lemma choices_read:
  "get_vector option_choice_from_json (JArr (map option_choice_to_json cs)) = (if list_all is_text cs then Some cs else None)"
  using get_vector_if [of cs option_choice_from_json option_choice_to_json is_text id] by (simp add: choice_read)

lemma option_members_distinct: "distinct (map fst (command_option_members f os))"
  by (simp add: command_option_members_def)

lemmas option_at = json_at_written [OF one_value_distinct [OF option_members_distinct]]

lemma flag_read [simp]: "read_value to_bool (Some (flag_set b)) False = Some b"
  by (simp add: flag_set_def)

lemma read_fields_written:
  "read_option_fields (write_members (command_option_members f os)) =
     (if pred_option (list_all is_text) (of_choices f) then Some (kept_fields f) else None)"
proof -
  have "read_type (write_members (command_option_members f os)) 0 = Some (of_type f)"
    by (simp add: read_type_def option_at) (simp add: command_option_members_def)
  moreover have "read_value (to_opt (get_vector option_choice_from_json))
      (Some (map_option (\<lambda>cs. JArr (map option_choice_to_json cs)) (of_choices f))) None =
      (if pred_option (list_all is_text) (of_choices f) then Some (of_choices f) else None)"
    by (cases "of_choices f") (simp_all add: to_opt_def choices_read)
  ultimately show ?thesis
    unfolding read_option_fields_def read_member [OF option_members_distinct]
    by (cases f) (simp add: command_option_members_def kept_fields_def option_fields_init_def)
qed

lemma command_option_read:
  "command_option_from_json (command_option_to_json x) = (if all_text x then Some (kept_option x) else None)"
proof (induction x)
  case (CommandOption f os)
  let ?j = "write_members (command_option_members f (map_option (map command_option_to_json) os))"
  have "json_at ?j ''options'' = map_option JArr (map_option (map command_option_to_json) os)"
    by (simp add: option_at) (simp add: command_option_members_def)
  moreover have "sequence_options (map command_option_from_json (map command_option_to_json xs)) =
      (if list_all all_text xs then Some (map kept_option xs) else None)" if "os = Some xs" for xs
    unfolding map_map by (rule sequence_options_if) (use CommandOption that in auto)
  ultimately show ?case
    by (subst command_option_from_json.simps) (cases os; simp add: read_fields_written)
qed

lemma options_read:
  "read_value (to_opt (get_vector command_option_from_json)) (Some (options_to_json os)) None =
     (if pred_option (list_all all_text) os then Some (map_option (map kept_option) os) else None)"
  by (cases os) (simp_all add: options_to_json_def to_opt_def get_vector_if command_option_read)

definition kept_command :: "application_command \<Rightarrow> application_command" where
  "kept_command c = c\<lparr>ac_options := map_option (map kept_option) (ac_options c), ac_name_localizations := None,
     ac_description_localizations := None, ac_dm_permission := None, ac_default_permission := None,
     ac_integration_types := None, ac_contexts := None\<rparr>"

lemma command_read:
  "application_command_from_json (application_command_to_json c) =
     (if pred_option (list_all all_text) (ac_options c) then Some (kept_command c) else None)"
proof -
  have d: "distinct (map fst (application_command_members c))" by (simp add: application_command_members_def)
  have "read_type (write_members (application_command_members c)) 1 = Some (ac_type c)"
    by (simp add: read_type_def json_at_written [OF one_value_distinct [OF d]]) (simp add: application_command_members_def)
  then show ?thesis
    unfolding application_command_from_json_def application_command_to_json_def read_member [OF d]
    by (cases c) (simp add: application_command_members_def options_read kept_command_def application_command_init_def)
qed

text \<open>
  C37. Reading back a command that was written: it succeeds exactly when no choice of an option, at any depth,
  is a number, and yields the command without its localizations, its permissions in direct messages, its
  contexts, and without the limits and channel types of its options. A command with a numeric choice is an
  exception, so the answer of the service to its registration is reported as an error.
\<close>

theorem application_command_read:
  "application_command_from_json (application_command_to_json c) =
     (if pred_option (list_all all_text) (ac_options c) then Some (kept_command c) else None)"
  by (rule command_read)

text \<open>Choices and options added one by one are in the option in that order.\<close>

lemma add_choices:
  "of_choices (co_fields (fold (\<lambda>(n, v). option_add_choice n v) (nv # nvs) option_builder)) =
     Some (map (\<lambda>(n, v). \<lparr>oc_name = n, oc_name_localizations = None, oc_value = v\<rparr>) (nv # nvs))"
proof -
  have "of_choices (co_fields (fold (\<lambda>(n, v). option_add_choice n v) nvs b)) =
      Some (cs @ map (\<lambda>(n, v). \<lparr>oc_name = n, oc_name_localizations = None, oc_value = v\<rparr>) nvs)"
    if "of_choices (co_fields b) = Some cs" for b cs
    using that by (induction nvs arbitrary: b cs) (auto simp: option_add_choice_def update_fields_def)
  from this [of "(case nv of (n, v) \<Rightarrow> option_add_choice n v) option_builder"
      "[case nv of (n, v) \<Rightarrow> \<lparr>oc_name = n, oc_name_localizations = None, oc_value = v\<rparr>]"]
  show ?thesis
    by (cases nv) (simp add: option_add_choice_def update_fields_def option_builder_def option_fields_init_def)
qed

lemma add_options: "co_options (fold option_add_option os option_builder) = (if os = [] then None else Some os)"
proof -
  have *: "co_options (fold option_add_option os (CommandOption f (Some xs))) = Some (xs @ os)" for f xs os
    by (induction os arbitrary: f xs) (auto simp: option_add_option_def)
  show ?thesis by (cases os) (simp_all add: option_builder_def option_add_option_def *)
qed

end
