(* ===== verification/Request_Fields.thy ===== *)
theory Request_Fields
  imports Application_Command
begin

text \<open>
  What the requests carry: the structures of \<^verbatim>\<open>include/ekizu/request/*.hpp\<close> with what is written of them, and the
  functions that set their members. Where a request class has a member \<^verbatim>\<open>m_fields\<close>, its setters are functions
  on that structure. For each class whose body is the structure itself, \<open>..._sent\<close> says that what was set is in
  the body under its name and that nothing else changes.
\<close>

section \<open>Optional components\<close>

lemma opt_components_written:
  assumes "pred_option (list_all coherent_component) v"
  shows "\<exists>cs ys. opt_components_to_json v = Some cs \<and>
    read_value (to_opt (get_vector message_component_from_json)) (Some (map_option JArr cs)) None = Some ys \<and>
    map_option (map erase_component) ys = map_option (map erase_component) v"
proof (cases v)
  case (Some xs)
  with assms obtain cs ys where "components_to_json xs = Some cs"
    "to_vector message_component_from_json (JArr cs) [] = Some ys" "map erase_component ys = map erase_component xs"
    using components_written [of xs] by auto
  with Some show ?thesis by (simp add: opt_components_to_json_def to_opt_def to_vector_def)
qed (simp add: opt_components_to_json_def)

section \<open>Members\<close>

record add_guild_member_fields =
  agmf_access_token :: string
  agmf_nick :: "string option"
  agmf_roles :: "snowflake list option"
  agmf_mute :: "bool option"
  agmf_deaf :: "bool option"

definition add_guild_member_fields_init :: add_guild_member_fields where
  "add_guild_member_fields_init = \<lparr>agmf_access_token = [], agmf_nick = None, agmf_roles = None, agmf_mute = None, agmf_deaf = None\<rparr>"

definition add_guild_member_fields_members :: "add_guild_member_fields \<Rightarrow> (string \<times> json option) list" where
  "add_guild_member_fields_members x = [
     (''access_token'', Some (JStr (agmf_access_token x))), (''nick'', map_option JStr (agmf_nick x)),
     (''roles'', map_option (\<lambda>xs. JArr (map snowflake_to_json xs)) (agmf_roles x)),
     (''mute'', map_option JBool (agmf_mute x)), (''deaf'', map_option JBool (agmf_deaf x))]"

definition add_guild_member_fields_to_json :: "add_guild_member_fields \<Rightarrow> json" where
  "add_guild_member_fields_to_json x = write_members (add_guild_member_fields_members x)"

definition add_guild_member_set_nick :: "string \<Rightarrow> add_guild_member_fields \<Rightarrow> add_guild_member_fields" where
  "add_guild_member_set_nick v f = f\<lparr>agmf_nick := Some v\<rparr>"
definition add_guild_member_set_roles :: "(snowflake list) \<Rightarrow> add_guild_member_fields \<Rightarrow> add_guild_member_fields" where
  "add_guild_member_set_roles v f = f\<lparr>agmf_roles := Some v\<rparr>"
definition add_guild_member_set_mute :: "bool \<Rightarrow> add_guild_member_fields \<Rightarrow> add_guild_member_fields" where
  "add_guild_member_set_mute v f = f\<lparr>agmf_mute := Some v\<rparr>"
definition add_guild_member_set_deaf :: "bool \<Rightarrow> add_guild_member_fields \<Rightarrow> add_guild_member_fields" where
  "add_guild_member_set_deaf v f = f\<lparr>agmf_deaf := Some v\<rparr>"

lemma add_guild_member_sent:
  "json_at (add_guild_member_fields_to_json (add_guild_member_set_nick w0 f)) k = (if k = ''nick'' then Some (JStr (w0)) else json_at (add_guild_member_fields_to_json f) k)"
  "json_at (add_guild_member_fields_to_json (add_guild_member_set_roles w1 f)) k = (if k = ''roles'' then Some (JArr (map snowflake_to_json (w1))) else json_at (add_guild_member_fields_to_json f) k)"
  "json_at (add_guild_member_fields_to_json (add_guild_member_set_mute w2 f)) k = (if k = ''mute'' then Some (JBool (w2)) else json_at (add_guild_member_fields_to_json f) k)"
  "json_at (add_guild_member_fields_to_json (add_guild_member_set_deaf w3 f)) k = (if k = ''deaf'' then Some (JBool (w3)) else json_at (add_guild_member_fields_to_json f) k)"
proof -
  have d: "distinct (map fst (add_guild_member_fields_members g))" for g by (simp add: add_guild_member_fields_members_def)
  note at = json_at_written [OF one_value_distinct [OF d]]
  show
    "json_at (add_guild_member_fields_to_json (add_guild_member_set_nick w0 f)) k = (if k = ''nick'' then Some (JStr (w0)) else json_at (add_guild_member_fields_to_json f) k)"
    "json_at (add_guild_member_fields_to_json (add_guild_member_set_roles w1 f)) k = (if k = ''roles'' then Some (JArr (map snowflake_to_json (w1))) else json_at (add_guild_member_fields_to_json f) k)"
    "json_at (add_guild_member_fields_to_json (add_guild_member_set_mute w2 f)) k = (if k = ''mute'' then Some (JBool (w2)) else json_at (add_guild_member_fields_to_json f) k)"
    "json_at (add_guild_member_fields_to_json (add_guild_member_set_deaf w3 f)) k = (if k = ''deaf'' then Some (JBool (w3)) else json_at (add_guild_member_fields_to_json f) k)"
    unfolding add_guild_member_fields_to_json_def at by (auto simp: add_guild_member_fields_members_def add_guild_member_set_nick_def add_guild_member_set_roles_def add_guild_member_set_mute_def add_guild_member_set_deaf_def)
qed

record role_fields =
  rf_id :: snowflake
  rf_name :: string
  rf_color :: "u32 option"
  rf_hoist :: "bool option"
  rf_position :: "u64 option"
  rf_permissions :: "u64 option"
  rf_mentionable :: "bool option"

definition role_fields_init :: role_fields where
  "role_fields_init = \<lparr>rf_id = 0, rf_name = [], rf_color = None, rf_hoist = None, rf_position = None, rf_permissions = None,
     rf_mentionable = None\<rparr>"

definition role_fields_members :: "role_fields \<Rightarrow> (string \<times> json option) list" where
  "role_fields_members x = [
     (''id'', Some (snowflake_to_json (rf_id x))), (''name'', Some (JStr (rf_name x))),
     (''color'', map_option juint (rf_color x)), (''hoist'', map_option JBool (rf_hoist x)),
     (''position'', map_option juint (rf_position x)),
     (''permissions'', map_option permissions_to_json (rf_permissions x)),
     (''mentionable'', map_option JBool (rf_mentionable x))]"

definition role_fields_to_json :: "role_fields \<Rightarrow> json" where
  "role_fields_to_json x = write_members (role_fields_members x)"

record category_channel_fields =
  ccf_id :: snowflake
  ccf_type :: u8
  ccf_name :: string
  ccf_permission_overwrites :: "permission_overwrite list option"

definition category_channel_fields_init :: category_channel_fields where
  "category_channel_fields_init = \<lparr>ccf_id = 0, ccf_type = 0, ccf_name = [], ccf_permission_overwrites = None\<rparr>"

definition category_channel_fields_members :: "category_channel_fields \<Rightarrow> (string \<times> json option) list" where
  "category_channel_fields_members x = [
     (''id'', Some (snowflake_to_json (ccf_id x))), (''type'', Some (juint (ccf_type x))),
     (''name'', Some (JStr (ccf_name x))),
     (''permission_overwrites'', map_option (\<lambda>xs. JArr (map permission_overwrite_to_json xs)) (ccf_permission_overwrites x))]"

definition category_channel_fields_to_json :: "category_channel_fields \<Rightarrow> json" where
  "category_channel_fields_to_json x = write_members (category_channel_fields_members x)"

record text_channel_fields =
  tcf_id :: snowflake
  tcf_type :: u8
  tcf_name :: string
  tcf_topic :: "string option"
  tcf_nsfw :: "bool option"
  tcf_rate_limit_per_user :: "u16 option"
  tcf_parent_id :: "snowflake option"

definition text_channel_fields_init :: text_channel_fields where
  "text_channel_fields_init = \<lparr>tcf_id = 0, tcf_type = 0, tcf_name = [], tcf_topic = None, tcf_nsfw = None, tcf_rate_limit_per_user = None,
     tcf_parent_id = None\<rparr>"

definition text_channel_fields_members :: "text_channel_fields \<Rightarrow> (string \<times> json option) list" where
  "text_channel_fields_members x = [
     (''id'', Some (snowflake_to_json (tcf_id x))), (''type'', Some (juint (tcf_type x))),
     (''name'', Some (JStr (tcf_name x))), (''topic'', map_option JStr (tcf_topic x)),
     (''nsfw'', map_option JBool (tcf_nsfw x)),
     (''rate_limit_per_user'', map_option juint (tcf_rate_limit_per_user x)),
     (''parent_id'', map_option snowflake_to_json (tcf_parent_id x))]"

definition text_channel_fields_to_json :: "text_channel_fields \<Rightarrow> json" where
  "text_channel_fields_to_json x = write_members (text_channel_fields_members x)"

record voice_channel_fields =
  vcf_id :: snowflake
  vcf_type :: u8
  vcf_permission_overwrites :: "permission_overwrite list option"
  vcf_name :: string
  vcf_bitrate :: "u32 option"
  vcf_user_limit :: "u16 option"
  vcf_parent_id :: "snowflake option"

definition voice_channel_fields_init :: voice_channel_fields where
  "voice_channel_fields_init = \<lparr>vcf_id = 0, vcf_type = 0, vcf_permission_overwrites = None, vcf_name = [], vcf_bitrate = None,
     vcf_user_limit = None, vcf_parent_id = None\<rparr>"

definition voice_channel_fields_members :: "voice_channel_fields \<Rightarrow> (string \<times> json option) list" where
  "voice_channel_fields_members x = [
     (''id'', Some (snowflake_to_json (vcf_id x))), (''type'', Some (juint (vcf_type x))),
     (''permission_overwrites'', map_option (\<lambda>xs. JArr (map permission_overwrite_to_json xs)) (vcf_permission_overwrites x)),
     (''name'', Some (JStr (vcf_name x))), (''bitrate'', map_option juint (vcf_bitrate x)),
     (''user_limit'', map_option juint (vcf_user_limit x)),
     (''parent_id'', map_option snowflake_to_json (vcf_parent_id x))]"

definition voice_channel_fields_to_json :: "voice_channel_fields \<Rightarrow> json" where
  "voice_channel_fields_to_json x = write_members (voice_channel_fields_members x)"

datatype guild_channel_fields =
    GC_Category category_channel_fields | GC_Text text_channel_fields | GC_Voice voice_channel_fields

fun guild_channel_fields_to_json :: "guild_channel_fields \<Rightarrow> json" where
  "guild_channel_fields_to_json (GC_Category f) = category_channel_fields_to_json f"
| "guild_channel_fields_to_json (GC_Text f) = text_channel_fields_to_json f"
| "guild_channel_fields_to_json (GC_Voice f) = voice_channel_fields_to_json f"

record create_guild_fields =
  cgf_name :: string
  cgf_region :: "string option"
  cgf_icon :: "string option"
  cgf_verification_level :: "u8 option"
  cgf_default_message_notifications :: "u8 option"
  cgf_explicit_content_filter :: "u8 option"
  cgf_roles :: "role_fields list option"
  cgf_channels :: "guild_channel_fields list option"
  cgf_afk_channel_id :: "snowflake option"
  cgf_afk_timeout :: "u16 option"
  cgf_system_channel_id :: "snowflake option"
  cgf_system_channel_flags :: "u8 option"

definition create_guild_fields_init :: create_guild_fields where
  "create_guild_fields_init = \<lparr>cgf_name = [], cgf_region = None, cgf_icon = None, cgf_verification_level = None,
     cgf_default_message_notifications = None, cgf_explicit_content_filter = None, cgf_roles = None,
     cgf_channels = None, cgf_afk_channel_id = None, cgf_afk_timeout = None, cgf_system_channel_id = None,
     cgf_system_channel_flags = None\<rparr>"

definition create_guild_fields_members :: "create_guild_fields \<Rightarrow> (string \<times> json option) list" where
  "create_guild_fields_members x = [
     (''name'', Some (JStr (cgf_name x))), (''region'', map_option JStr (cgf_region x)),
     (''icon'', map_option JStr (cgf_icon x)),
     (''verification_level'', map_option juint (cgf_verification_level x)),
     (''default_message_notifications'', map_option juint (cgf_default_message_notifications x)),
     (''explicit_content_filter'', map_option juint (cgf_explicit_content_filter x)),
     (''roles'', map_option (\<lambda>xs. JArr (map role_fields_to_json xs)) (cgf_roles x)),
     (''channels'', map_option (\<lambda>xs. JArr (map guild_channel_fields_to_json xs)) (cgf_channels x))]"

definition create_guild_fields_to_json :: "create_guild_fields \<Rightarrow> json" where
  "create_guild_fields_to_json x = write_members (create_guild_fields_members x)"

definition create_guild_set_afk_channel_id :: "snowflake \<Rightarrow> create_guild_fields \<Rightarrow> create_guild_fields" where
  "create_guild_set_afk_channel_id v f = f\<lparr>cgf_afk_channel_id := Some v\<rparr>"
definition create_guild_set_afk_timeout :: "u16 \<Rightarrow> create_guild_fields \<Rightarrow> create_guild_fields" where
  "create_guild_set_afk_timeout v f = f\<lparr>cgf_afk_timeout := Some v\<rparr>"
definition create_guild_set_channels :: "(guild_channel_fields list) \<Rightarrow> create_guild_fields \<Rightarrow> create_guild_fields" where
  "create_guild_set_channels v f = f\<lparr>cgf_channels := Some v\<rparr>"
definition create_guild_set_default_message_notifications :: "u8 \<Rightarrow> create_guild_fields \<Rightarrow> create_guild_fields" where
  "create_guild_set_default_message_notifications v f = f\<lparr>cgf_default_message_notifications := Some v\<rparr>"
definition create_guild_set_explicit_content_filter :: "u8 \<Rightarrow> create_guild_fields \<Rightarrow> create_guild_fields" where
  "create_guild_set_explicit_content_filter v f = f\<lparr>cgf_explicit_content_filter := Some v\<rparr>"
definition create_guild_set_icon :: "string \<Rightarrow> create_guild_fields \<Rightarrow> create_guild_fields" where
  "create_guild_set_icon v f = f\<lparr>cgf_icon := Some v\<rparr>"
definition create_guild_set_system_channel_id :: "snowflake \<Rightarrow> create_guild_fields \<Rightarrow> create_guild_fields" where
  "create_guild_set_system_channel_id v f = f\<lparr>cgf_system_channel_id := Some v\<rparr>"
definition create_guild_set_system_channel_flags :: "u8 \<Rightarrow> create_guild_fields \<Rightarrow> create_guild_fields" where
  "create_guild_set_system_channel_flags v f = f\<lparr>cgf_system_channel_flags := Some v\<rparr>"

lemma create_guild_sent:
  "json_at (create_guild_fields_to_json (create_guild_set_channels w0 f)) k = (if k = ''channels'' then Some (JArr (map guild_channel_fields_to_json (w0))) else json_at (create_guild_fields_to_json f) k)"
  "json_at (create_guild_fields_to_json (create_guild_set_default_message_notifications w1 f)) k = (if k = ''default_message_notifications'' then Some (juint (w1)) else json_at (create_guild_fields_to_json f) k)"
  "json_at (create_guild_fields_to_json (create_guild_set_explicit_content_filter w2 f)) k = (if k = ''explicit_content_filter'' then Some (juint (w2)) else json_at (create_guild_fields_to_json f) k)"
  "json_at (create_guild_fields_to_json (create_guild_set_icon w3 f)) k = (if k = ''icon'' then Some (JStr (w3)) else json_at (create_guild_fields_to_json f) k)"
proof -
  have d: "distinct (map fst (create_guild_fields_members g))" for g by (simp add: create_guild_fields_members_def)
  note at = json_at_written [OF one_value_distinct [OF d]]
  show
    "json_at (create_guild_fields_to_json (create_guild_set_channels w0 f)) k = (if k = ''channels'' then Some (JArr (map guild_channel_fields_to_json (w0))) else json_at (create_guild_fields_to_json f) k)"
    "json_at (create_guild_fields_to_json (create_guild_set_default_message_notifications w1 f)) k = (if k = ''default_message_notifications'' then Some (juint (w1)) else json_at (create_guild_fields_to_json f) k)"
    "json_at (create_guild_fields_to_json (create_guild_set_explicit_content_filter w2 f)) k = (if k = ''explicit_content_filter'' then Some (juint (w2)) else json_at (create_guild_fields_to_json f) k)"
    "json_at (create_guild_fields_to_json (create_guild_set_icon w3 f)) k = (if k = ''icon'' then Some (JStr (w3)) else json_at (create_guild_fields_to_json f) k)"
    unfolding create_guild_fields_to_json_def at by (auto simp: create_guild_fields_members_def create_guild_set_channels_def create_guild_set_default_message_notifications_def create_guild_set_explicit_content_filter_def create_guild_set_icon_def)
qed

record create_guild_channel_fields =
  cgcf_name :: string
  cgcf_type :: "u8 option"
  cgcf_topic :: "string option"
  cgcf_bitrate :: "u32 option"
  cgcf_user_limit :: "u16 option"
  cgcf_rate_limit_per_user :: "u16 option"
  cgcf_position :: "u64 option"
  cgcf_permission_overwrites :: "permission_overwrite list option"
  cgcf_parent_id :: "snowflake option"
  cgcf_nsfw :: "bool option"
  cgcf_rtc_region :: "string option"
  cgcf_video_quality_mode :: "u8 option"
  cgcf_default_auto_archive_duration :: "u16 option"
  cgcf_default_reaction_emoji :: "default_reaction option"
  cgcf_available_tags :: "forum_tag list option"
  cgcf_default_sort_order :: "u8 option"
  cgcf_default_forum_layout :: "u8 option"
  cgcf_default_thread_rate_limit_per_user :: "u16 option"

definition create_guild_channel_fields_init :: create_guild_channel_fields where
  "create_guild_channel_fields_init = \<lparr>cgcf_name = [], cgcf_type = None, cgcf_topic = None, cgcf_bitrate = None, cgcf_user_limit = None,
     cgcf_rate_limit_per_user = None, cgcf_position = None, cgcf_permission_overwrites = None,
     cgcf_parent_id = None, cgcf_nsfw = None, cgcf_rtc_region = None, cgcf_video_quality_mode = None,
     cgcf_default_auto_archive_duration = None, cgcf_default_reaction_emoji = None, cgcf_available_tags = None,
     cgcf_default_sort_order = None, cgcf_default_forum_layout = None,
     cgcf_default_thread_rate_limit_per_user = None\<rparr>"

definition create_guild_channel_fields_members :: "create_guild_channel_fields \<Rightarrow> (string \<times> json option) list" where
  "create_guild_channel_fields_members x = [
     (''name'', Some (JStr (cgcf_name x))), (''type'', map_option juint (cgcf_type x)),
     (''topic'', map_option JStr (cgcf_topic x)), (''bitrate'', map_option juint (cgcf_bitrate x)),
     (''user_limit'', map_option juint (cgcf_user_limit x)),
     (''rate_limit_per_user'', map_option juint (cgcf_rate_limit_per_user x)),
     (''position'', map_option juint (cgcf_position x)),
     (''permission_overwrites'', map_option (\<lambda>xs. JArr (map permission_overwrite_to_json xs)) (cgcf_permission_overwrites x)),
     (''parent_id'', map_option snowflake_to_json (cgcf_parent_id x)),
     (''nsfw'', map_option JBool (cgcf_nsfw x)), (''rtc_region'', map_option JStr (cgcf_rtc_region x)),
     (''video_quality_mode'', map_option juint (cgcf_video_quality_mode x)),
     (''default_auto_archive_duration'', map_option juint (cgcf_default_auto_archive_duration x)),
     (''default_reaction_emoji'', map_option default_reaction_to_json (cgcf_default_reaction_emoji x)),
     (''available_tags'', map_option (\<lambda>xs. JArr (map forum_tag_to_json xs)) (cgcf_available_tags x)),
     (''default_sort_order'', map_option juint (cgcf_default_sort_order x)),
     (''default_forum_layout'', map_option juint (cgcf_default_forum_layout x)),
     (''default_thread_rate_limit_per_user'', map_option juint (cgcf_default_thread_rate_limit_per_user x))]"

definition create_guild_channel_fields_to_json :: "create_guild_channel_fields \<Rightarrow> json" where
  "create_guild_channel_fields_to_json x = write_members (create_guild_channel_fields_members x)"

definition create_guild_channel_fields_from_json :: "json \<Rightarrow> create_guild_channel_fields option" where
  "create_guild_channel_fields_from_json j = do {
     v0 \<leftarrow> deserialize to_str j ''name'' [];
     v1 \<leftarrow> deserialize (to_opt get_enum) j ''type'' None;
     v2 \<leftarrow> deserialize (to_opt get_string) j ''topic'' None;
     v3 \<leftarrow> deserialize to_opt_uint j ''bitrate'' None;
     v4 \<leftarrow> deserialize to_opt_uint j ''user_limit'' None;
     v5 \<leftarrow> deserialize to_opt_uint j ''rate_limit_per_user'' None;
     v6 \<leftarrow> deserialize to_opt_u64 j ''position'' None;
     v7 \<leftarrow> deserialize (to_opt (get_vector permission_overwrite_from_json)) j ''permission_overwrites'' None;
     v8 \<leftarrow> deserialize (to_opt get_snowflake) j ''parent_id'' None;
     v9 \<leftarrow> deserialize to_opt_bool j ''nsfw'' None;
     v10 \<leftarrow> deserialize (to_opt get_string) j ''rtc_region'' None;
     v11 \<leftarrow> deserialize (to_opt get_enum) j ''video_quality_mode'' None;
     v12 \<leftarrow> deserialize to_opt_uint j ''default_auto_archive_duration'' None;
     v13 \<leftarrow> deserialize (to_opt default_reaction_from_json) j ''default_reaction_emoji'' None;
     v14 \<leftarrow> deserialize (to_opt (get_vector forum_tag_from_json)) j ''available_tags'' None;
     v15 \<leftarrow> deserialize (to_opt get_enum) j ''default_sort_order'' None;
     v16 \<leftarrow> deserialize (to_opt get_enum) j ''default_forum_layout'' None;
     v17 \<leftarrow> deserialize to_opt_uint j ''default_thread_rate_limit_per_user'' None;
     Some \<lparr>cgcf_name = v0, cgcf_type = v1, cgcf_topic = v2, cgcf_bitrate = v3, cgcf_user_limit = v4,
       cgcf_rate_limit_per_user = v5, cgcf_position = v6, cgcf_permission_overwrites = v7, cgcf_parent_id = v8,
       cgcf_nsfw = v9, cgcf_rtc_region = v10, cgcf_video_quality_mode = v11,
       cgcf_default_auto_archive_duration = v12, cgcf_default_reaction_emoji = v13, cgcf_available_tags = v14,
       cgcf_default_sort_order = v15, cgcf_default_forum_layout = v16,
       cgcf_default_thread_rate_limit_per_user = v17\<rparr>
   }"

lemma create_guild_channel_fields_roundtrip: "create_guild_channel_fields_from_json (create_guild_channel_fields_to_json x) = Some x"
proof -
  have "distinct (map fst (create_guild_channel_fields_members x))" by (simp add: create_guild_channel_fields_members_def)
  note read = read_member [OF this]
  show ?thesis unfolding create_guild_channel_fields_from_json_def create_guild_channel_fields_to_json_def read
    by (simp add: create_guild_channel_fields_members_def)
qed

lemma create_guild_channel_fields_object: "\<not> is_null (create_guild_channel_fields_to_json x)"
  unfolding create_guild_channel_fields_to_json_def by (rule write_members_object [OF one_value_distinct]) (simp_all add: create_guild_channel_fields_members_def)

interpretation create_guild_channel_fields: entity_object create_guild_channel_fields_to_json create_guild_channel_fields_from_json "\<lambda>_. True"
  by unfold_locales (simp_all add: create_guild_channel_fields_roundtrip create_guild_channel_fields_object)

definition create_guild_channel_set_bitrate :: "u32 \<Rightarrow> create_guild_channel_fields \<Rightarrow> create_guild_channel_fields" where
  "create_guild_channel_set_bitrate v f = f\<lparr>cgcf_bitrate := Some v\<rparr>"
definition create_guild_channel_set_default_auto_archive_duration :: "u16 \<Rightarrow> create_guild_channel_fields \<Rightarrow> create_guild_channel_fields" where
  "create_guild_channel_set_default_auto_archive_duration v f = f\<lparr>cgcf_default_auto_archive_duration := Some v\<rparr>"
definition create_guild_channel_set_default_forum_layout :: "u8 \<Rightarrow> create_guild_channel_fields \<Rightarrow> create_guild_channel_fields" where
  "create_guild_channel_set_default_forum_layout v f = f\<lparr>cgcf_default_forum_layout := Some v\<rparr>"
definition create_guild_channel_set_default_reaction_emoji :: "default_reaction \<Rightarrow> create_guild_channel_fields \<Rightarrow> create_guild_channel_fields" where
  "create_guild_channel_set_default_reaction_emoji v f = f\<lparr>cgcf_default_reaction_emoji := Some v\<rparr>"
definition create_guild_channel_set_nsfw :: "bool \<Rightarrow> create_guild_channel_fields \<Rightarrow> create_guild_channel_fields" where
  "create_guild_channel_set_nsfw v f = f\<lparr>cgcf_nsfw := Some v\<rparr>"
definition create_guild_channel_set_parent_id :: "snowflake \<Rightarrow> create_guild_channel_fields \<Rightarrow> create_guild_channel_fields" where
  "create_guild_channel_set_parent_id v f = f\<lparr>cgcf_parent_id := Some v\<rparr>"
definition create_guild_channel_set_permission_overwrites :: "(permission_overwrite list) \<Rightarrow> create_guild_channel_fields \<Rightarrow> create_guild_channel_fields" where
  "create_guild_channel_set_permission_overwrites v f = f\<lparr>cgcf_permission_overwrites := Some v\<rparr>"
definition create_guild_channel_set_position :: "u64 \<Rightarrow> create_guild_channel_fields \<Rightarrow> create_guild_channel_fields" where
  "create_guild_channel_set_position v f = f\<lparr>cgcf_position := Some v\<rparr>"
definition create_guild_channel_set_rate_limit_per_user :: "u16 \<Rightarrow> create_guild_channel_fields \<Rightarrow> create_guild_channel_fields" where
  "create_guild_channel_set_rate_limit_per_user v f = f\<lparr>cgcf_rate_limit_per_user := Some v\<rparr>"
definition create_guild_channel_set_rtc_region :: "string \<Rightarrow> create_guild_channel_fields \<Rightarrow> create_guild_channel_fields" where
  "create_guild_channel_set_rtc_region v f = f\<lparr>cgcf_rtc_region := Some v\<rparr>"
definition create_guild_channel_set_topic :: "string \<Rightarrow> create_guild_channel_fields \<Rightarrow> create_guild_channel_fields" where
  "create_guild_channel_set_topic v f = f\<lparr>cgcf_topic := Some v\<rparr>"
definition create_guild_channel_set_type :: "u8 \<Rightarrow> create_guild_channel_fields \<Rightarrow> create_guild_channel_fields" where
  "create_guild_channel_set_type v f = f\<lparr>cgcf_type := Some v\<rparr>"
definition create_guild_channel_set_user_limit :: "u16 \<Rightarrow> create_guild_channel_fields \<Rightarrow> create_guild_channel_fields" where
  "create_guild_channel_set_user_limit v f = f\<lparr>cgcf_user_limit := Some v\<rparr>"
definition create_guild_channel_set_video_quality_mode :: "u8 \<Rightarrow> create_guild_channel_fields \<Rightarrow> create_guild_channel_fields" where
  "create_guild_channel_set_video_quality_mode v f = f\<lparr>cgcf_video_quality_mode := Some v\<rparr>"

lemma create_guild_channel_sent:
  "json_at (create_guild_channel_fields_to_json (create_guild_channel_set_bitrate w0 f)) k = (if k = ''bitrate'' then Some (juint (w0)) else json_at (create_guild_channel_fields_to_json f) k)"
  "json_at (create_guild_channel_fields_to_json (create_guild_channel_set_default_auto_archive_duration w1 f)) k = (if k = ''default_auto_archive_duration'' then Some (juint (w1)) else json_at (create_guild_channel_fields_to_json f) k)"
  "json_at (create_guild_channel_fields_to_json (create_guild_channel_set_default_forum_layout w2 f)) k = (if k = ''default_forum_layout'' then Some (juint (w2)) else json_at (create_guild_channel_fields_to_json f) k)"
  "json_at (create_guild_channel_fields_to_json (create_guild_channel_set_default_reaction_emoji w3 f)) k = (if k = ''default_reaction_emoji'' then Some (default_reaction_to_json (w3)) else json_at (create_guild_channel_fields_to_json f) k)"
  "json_at (create_guild_channel_fields_to_json (create_guild_channel_set_nsfw w4 f)) k = (if k = ''nsfw'' then Some (JBool (w4)) else json_at (create_guild_channel_fields_to_json f) k)"
  "json_at (create_guild_channel_fields_to_json (create_guild_channel_set_parent_id w5 f)) k = (if k = ''parent_id'' then Some (snowflake_to_json (w5)) else json_at (create_guild_channel_fields_to_json f) k)"
  "json_at (create_guild_channel_fields_to_json (create_guild_channel_set_permission_overwrites w6 f)) k = (if k = ''permission_overwrites'' then Some (JArr (map permission_overwrite_to_json (w6))) else json_at (create_guild_channel_fields_to_json f) k)"
  "json_at (create_guild_channel_fields_to_json (create_guild_channel_set_position w7 f)) k = (if k = ''position'' then Some (juint (w7)) else json_at (create_guild_channel_fields_to_json f) k)"
  "json_at (create_guild_channel_fields_to_json (create_guild_channel_set_rate_limit_per_user w8 f)) k = (if k = ''rate_limit_per_user'' then Some (juint (w8)) else json_at (create_guild_channel_fields_to_json f) k)"
  "json_at (create_guild_channel_fields_to_json (create_guild_channel_set_rtc_region w9 f)) k = (if k = ''rtc_region'' then Some (JStr (w9)) else json_at (create_guild_channel_fields_to_json f) k)"
  "json_at (create_guild_channel_fields_to_json (create_guild_channel_set_topic w10 f)) k = (if k = ''topic'' then Some (JStr (w10)) else json_at (create_guild_channel_fields_to_json f) k)"
  "json_at (create_guild_channel_fields_to_json (create_guild_channel_set_type w11 f)) k = (if k = ''type'' then Some (juint (w11)) else json_at (create_guild_channel_fields_to_json f) k)"
  "json_at (create_guild_channel_fields_to_json (create_guild_channel_set_user_limit w12 f)) k = (if k = ''user_limit'' then Some (juint (w12)) else json_at (create_guild_channel_fields_to_json f) k)"
  "json_at (create_guild_channel_fields_to_json (create_guild_channel_set_video_quality_mode w13 f)) k = (if k = ''video_quality_mode'' then Some (juint (w13)) else json_at (create_guild_channel_fields_to_json f) k)"
proof -
  have d: "distinct (map fst (create_guild_channel_fields_members g))" for g by (simp add: create_guild_channel_fields_members_def)
  note at = json_at_written [OF one_value_distinct [OF d]]
  show
    "json_at (create_guild_channel_fields_to_json (create_guild_channel_set_bitrate w0 f)) k = (if k = ''bitrate'' then Some (juint (w0)) else json_at (create_guild_channel_fields_to_json f) k)"
    "json_at (create_guild_channel_fields_to_json (create_guild_channel_set_default_auto_archive_duration w1 f)) k = (if k = ''default_auto_archive_duration'' then Some (juint (w1)) else json_at (create_guild_channel_fields_to_json f) k)"
    "json_at (create_guild_channel_fields_to_json (create_guild_channel_set_default_forum_layout w2 f)) k = (if k = ''default_forum_layout'' then Some (juint (w2)) else json_at (create_guild_channel_fields_to_json f) k)"
    "json_at (create_guild_channel_fields_to_json (create_guild_channel_set_default_reaction_emoji w3 f)) k = (if k = ''default_reaction_emoji'' then Some (default_reaction_to_json (w3)) else json_at (create_guild_channel_fields_to_json f) k)"
    "json_at (create_guild_channel_fields_to_json (create_guild_channel_set_nsfw w4 f)) k = (if k = ''nsfw'' then Some (JBool (w4)) else json_at (create_guild_channel_fields_to_json f) k)"
    "json_at (create_guild_channel_fields_to_json (create_guild_channel_set_parent_id w5 f)) k = (if k = ''parent_id'' then Some (snowflake_to_json (w5)) else json_at (create_guild_channel_fields_to_json f) k)"
    "json_at (create_guild_channel_fields_to_json (create_guild_channel_set_permission_overwrites w6 f)) k = (if k = ''permission_overwrites'' then Some (JArr (map permission_overwrite_to_json (w6))) else json_at (create_guild_channel_fields_to_json f) k)"
    "json_at (create_guild_channel_fields_to_json (create_guild_channel_set_position w7 f)) k = (if k = ''position'' then Some (juint (w7)) else json_at (create_guild_channel_fields_to_json f) k)"
    "json_at (create_guild_channel_fields_to_json (create_guild_channel_set_rate_limit_per_user w8 f)) k = (if k = ''rate_limit_per_user'' then Some (juint (w8)) else json_at (create_guild_channel_fields_to_json f) k)"
    "json_at (create_guild_channel_fields_to_json (create_guild_channel_set_rtc_region w9 f)) k = (if k = ''rtc_region'' then Some (JStr (w9)) else json_at (create_guild_channel_fields_to_json f) k)"
    "json_at (create_guild_channel_fields_to_json (create_guild_channel_set_topic w10 f)) k = (if k = ''topic'' then Some (JStr (w10)) else json_at (create_guild_channel_fields_to_json f) k)"
    "json_at (create_guild_channel_fields_to_json (create_guild_channel_set_type w11 f)) k = (if k = ''type'' then Some (juint (w11)) else json_at (create_guild_channel_fields_to_json f) k)"
    "json_at (create_guild_channel_fields_to_json (create_guild_channel_set_user_limit w12 f)) k = (if k = ''user_limit'' then Some (juint (w12)) else json_at (create_guild_channel_fields_to_json f) k)"
    "json_at (create_guild_channel_fields_to_json (create_guild_channel_set_video_quality_mode w13 f)) k = (if k = ''video_quality_mode'' then Some (juint (w13)) else json_at (create_guild_channel_fields_to_json f) k)"
    unfolding create_guild_channel_fields_to_json_def at by (auto simp: create_guild_channel_fields_members_def create_guild_channel_set_bitrate_def create_guild_channel_set_default_auto_archive_duration_def create_guild_channel_set_default_forum_layout_def create_guild_channel_set_default_reaction_emoji_def create_guild_channel_set_nsfw_def create_guild_channel_set_parent_id_def create_guild_channel_set_permission_overwrites_def create_guild_channel_set_position_def create_guild_channel_set_rate_limit_per_user_def create_guild_channel_set_rtc_region_def create_guild_channel_set_topic_def create_guild_channel_set_type_def create_guild_channel_set_user_limit_def create_guild_channel_set_video_quality_mode_def)
qed

record create_invite_fields =
  cif_max_age :: "u32 option"
  cif_max_uses :: "u32 option"
  cif_temporary :: "bool option"
  cif_unique :: "bool option"
  cif_target_type :: "u8 option"
  cif_target_user_id :: "snowflake option"
  cif_target_application_id :: "snowflake option"

definition create_invite_fields_init :: create_invite_fields where
  "create_invite_fields_init = \<lparr>cif_max_age = None, cif_max_uses = None, cif_temporary = None, cif_unique = None, cif_target_type = None,
     cif_target_user_id = None, cif_target_application_id = None\<rparr>"

definition create_invite_fields_members :: "create_invite_fields \<Rightarrow> (string \<times> json option) list" where
  "create_invite_fields_members x = []"

definition create_invite_fields_to_json :: "create_invite_fields \<Rightarrow> json" where
  "create_invite_fields_to_json x = write_members (create_invite_fields_members x)"

definition create_invite_fields_from_json :: "json \<Rightarrow> create_invite_fields option" where
  "create_invite_fields_from_json j = do {

     Some \<lparr>cif_max_age = None, cif_max_uses = None, cif_temporary = None, cif_unique = None, cif_target_type = None,
       cif_target_user_id = None, cif_target_application_id = None\<rparr>
   }"

definition create_invite_fields_ok :: "create_invite_fields \<Rightarrow> bool" where
  "create_invite_fields_ok x \<longleftrightarrow> cif_max_age x = None \<and> cif_max_uses x = None \<and> cif_temporary x = None \<and>
     cif_unique x = None \<and> cif_target_type x = None \<and> cif_target_user_id x = None \<and>
     cif_target_application_id x = None"

lemma create_invite_fields_roundtrip: "create_invite_fields_ok x \<Longrightarrow> create_invite_fields_from_json (create_invite_fields_to_json x) = Some x"
proof -
  assume "create_invite_fields_ok x"
  moreover have "distinct (map fst (create_invite_fields_members x))" by (simp add: create_invite_fields_members_def)
  note read = read_member [OF this]
  ultimately show ?thesis unfolding create_invite_fields_from_json_def create_invite_fields_to_json_def read
    by (simp add: create_invite_fields_members_def create_invite_fields_ok_def)
qed

lemma create_invite_fields_null: "create_invite_fields_from_json JNull = Some create_invite_fields_init"
  by (simp add: create_invite_fields_from_json_def create_invite_fields_init_def deserialize_def)

interpretation create_invite_fields: entity_codec create_invite_fields_to_json create_invite_fields_from_json create_invite_fields_ok
  by unfold_locales (simp_all add: create_invite_fields_roundtrip)

definition create_invite_set_max_age :: "u32 \<Rightarrow> create_invite_fields \<Rightarrow> create_invite_fields" where
  "create_invite_set_max_age v f = f\<lparr>cif_max_age := Some v\<rparr>"
definition create_invite_set_max_uses :: "u32 \<Rightarrow> create_invite_fields \<Rightarrow> create_invite_fields" where
  "create_invite_set_max_uses v f = f\<lparr>cif_max_uses := Some v\<rparr>"
definition create_invite_set_temporary :: "bool \<Rightarrow> create_invite_fields \<Rightarrow> create_invite_fields" where
  "create_invite_set_temporary v f = f\<lparr>cif_temporary := Some v\<rparr>"
definition create_invite_set_unique :: "bool \<Rightarrow> create_invite_fields \<Rightarrow> create_invite_fields" where
  "create_invite_set_unique v f = f\<lparr>cif_unique := Some v\<rparr>"
definition create_invite_set_target_type :: "u8 \<Rightarrow> create_invite_fields \<Rightarrow> create_invite_fields" where
  "create_invite_set_target_type v f = f\<lparr>cif_target_type := Some v\<rparr>"
definition create_invite_set_target_user_id :: "snowflake \<Rightarrow> create_invite_fields \<Rightarrow> create_invite_fields" where
  "create_invite_set_target_user_id v f = f\<lparr>cif_target_user_id := Some v\<rparr>"
definition create_invite_set_target_application_id :: "snowflake \<Rightarrow> create_invite_fields \<Rightarrow> create_invite_fields" where
  "create_invite_set_target_application_id v f = f\<lparr>cif_target_application_id := Some v\<rparr>"

record followed_channel =
  fc_channel_id :: snowflake
  fc_webhook_id :: snowflake

definition followed_channel_init :: followed_channel where
  "followed_channel_init = \<lparr>fc_channel_id = 0, fc_webhook_id = 0\<rparr>"

definition followed_channel_members :: "followed_channel \<Rightarrow> (string \<times> json option) list" where
  "followed_channel_members x = [
     (''channel_id'', Some (snowflake_to_json (fc_channel_id x))),
     (''webhook_id'', Some (snowflake_to_json (fc_webhook_id x)))]"

definition followed_channel_to_json :: "followed_channel \<Rightarrow> json" where
  "followed_channel_to_json x = write_members (followed_channel_members x)"

definition followed_channel_from_json :: "json \<Rightarrow> followed_channel option" where
  "followed_channel_from_json j = do {
     v0 \<leftarrow> deserialize (to_value get_snowflake) j ''channel_id'' 0;
     v1 \<leftarrow> deserialize (to_value get_snowflake) j ''webhook_id'' 0;
     Some \<lparr>fc_channel_id = v0, fc_webhook_id = v1\<rparr>
   }"

lemma followed_channel_roundtrip: "followed_channel_from_json (followed_channel_to_json x) = Some x"
proof -
  have "distinct (map fst (followed_channel_members x))" by (simp add: followed_channel_members_def)
  note read = read_member [OF this]
  show ?thesis unfolding followed_channel_from_json_def followed_channel_to_json_def read
    by (simp add: followed_channel_members_def)
qed

lemma followed_channel_object: "\<not> is_null (followed_channel_to_json x)"
  unfolding followed_channel_to_json_def by (rule write_members_object [OF one_value_distinct]) (simp_all add: followed_channel_members_def)

interpretation followed_channel: entity_object followed_channel_to_json followed_channel_from_json "\<lambda>_. True"
  by unfold_locales (simp_all add: followed_channel_roundtrip followed_channel_object)

record list_active_guild_threads_response =
  lagtr_threads :: "channel list"
  lagtr_members :: "thread_member list"

definition list_active_guild_threads_response_init :: list_active_guild_threads_response where
  "list_active_guild_threads_response_init = \<lparr>lagtr_threads = [], lagtr_members = []\<rparr>"

definition list_active_guild_threads_response_members :: "list_active_guild_threads_response \<Rightarrow> (string \<times> json option) list" where
  "list_active_guild_threads_response_members x = [
     (''threads'', Some (JArr (map channel_to_json (lagtr_threads x)))),
     (''members'', Some (JArr (map thread_member_to_json (lagtr_members x))))]"

definition list_active_guild_threads_response_to_json :: "list_active_guild_threads_response \<Rightarrow> json" where
  "list_active_guild_threads_response_to_json x = write_members (list_active_guild_threads_response_members x)"

definition list_active_guild_threads_response_from_json :: "json \<Rightarrow> list_active_guild_threads_response option" where
  "list_active_guild_threads_response_from_json j = do {
     v0 \<leftarrow> deserialize (to_vector channel_from_json) j ''threads'' [];
     v1 \<leftarrow> deserialize (to_vector thread_member_from_json) j ''members'' [];
     Some \<lparr>lagtr_threads = v0, lagtr_members = v1\<rparr>
   }"

definition list_active_guild_threads_response_ok :: "list_active_guild_threads_response \<Rightarrow> bool" where
  "list_active_guild_threads_response_ok x \<longleftrightarrow> list_all channel_ok (lagtr_threads x) \<and> list_all thread_member_ok (lagtr_members x)"

lemma list_active_guild_threads_response_roundtrip: "list_active_guild_threads_response_ok x \<Longrightarrow> list_active_guild_threads_response_from_json (list_active_guild_threads_response_to_json x) = Some x"
proof -
  assume "list_active_guild_threads_response_ok x"
  moreover have "distinct (map fst (list_active_guild_threads_response_members x))" by (simp add: list_active_guild_threads_response_members_def)
  note read = read_member [OF this]
  ultimately show ?thesis unfolding list_active_guild_threads_response_from_json_def list_active_guild_threads_response_to_json_def read
    by (simp add: list_active_guild_threads_response_members_def list_active_guild_threads_response_ok_def)
qed

lemma list_active_guild_threads_response_object: "\<not> is_null (list_active_guild_threads_response_to_json x)"
  unfolding list_active_guild_threads_response_to_json_def by (rule write_members_object [OF one_value_distinct]) (simp_all add: list_active_guild_threads_response_members_def)

interpretation list_active_guild_threads_response: entity_object list_active_guild_threads_response_to_json list_active_guild_threads_response_from_json list_active_guild_threads_response_ok
  by unfold_locales (simp_all add: list_active_guild_threads_response_roundtrip list_active_guild_threads_response_object)

record modify_channel_fields =
  mcf_name :: "string option"
  mcf_type :: "u8 option"
  mcf_position :: "u64 option"
  mcf_topic :: "string option"
  mcf_nsfw :: "bool option"
  mcf_rate_limit_per_user :: "u16 option"
  mcf_bitrate :: "u32 option"
  mcf_user_limit :: "u16 option"
  mcf_permission_overwrites :: "permission_overwrite list option"
  mcf_parent_id :: "snowflake option"
  mcf_rtc_region :: "string option"
  mcf_video_quality_mode :: "u8 option"
  mcf_flags :: "u64 option"
  mcf_available_tags :: "forum_tag list option"
  mcf_default_reaction_emoji :: "default_reaction option"
  mcf_default_thread_rate_limit_per_user :: "u16 option"
  mcf_default_sort_order :: "u8 option"
  mcf_default_forum_layout :: "u8 option"

definition modify_channel_fields_init :: modify_channel_fields where
  "modify_channel_fields_init = \<lparr>mcf_name = None, mcf_type = None, mcf_position = None, mcf_topic = None, mcf_nsfw = None,
     mcf_rate_limit_per_user = None, mcf_bitrate = None, mcf_user_limit = None,
     mcf_permission_overwrites = None, mcf_parent_id = None, mcf_rtc_region = None,
     mcf_video_quality_mode = None, mcf_flags = None, mcf_available_tags = None,
     mcf_default_reaction_emoji = None, mcf_default_thread_rate_limit_per_user = None,
     mcf_default_sort_order = None, mcf_default_forum_layout = None\<rparr>"

definition modify_channel_fields_members :: "modify_channel_fields \<Rightarrow> (string \<times> json option) list" where
  "modify_channel_fields_members x = [
     (''name'', map_option JStr (mcf_name x)), (''type'', map_option juint (mcf_type x)),
     (''position'', map_option juint (mcf_position x)), (''topic'', map_option JStr (mcf_topic x)),
     (''nsfw'', map_option JBool (mcf_nsfw x)),
     (''rate_limit_per_user'', map_option juint (mcf_rate_limit_per_user x)),
     (''bitrate'', map_option juint (mcf_bitrate x)), (''user_limit'', map_option juint (mcf_user_limit x)),
     (''permission_overwrites'', map_option (\<lambda>xs. JArr (map permission_overwrite_to_json xs)) (mcf_permission_overwrites x)),
     (''parent_id'', map_option snowflake_to_json (mcf_parent_id x)),
     (''rtc_region'', map_option JStr (mcf_rtc_region x)),
     (''video_quality_mode'', map_option juint (mcf_video_quality_mode x)),
     (''flags'', map_option juint (mcf_flags x)),
     (''available_tags'', map_option (\<lambda>xs. JArr (map forum_tag_to_json xs)) (mcf_available_tags x)),
     (''default_reaction_emoji'', map_option default_reaction_to_json (mcf_default_reaction_emoji x)),
     (''default_thread_rate_limit_per_user'', map_option juint (mcf_default_thread_rate_limit_per_user x)),
     (''default_sort_order'', map_option juint (mcf_default_sort_order x)),
     (''default_forum_layout'', map_option juint (mcf_default_forum_layout x))]"

definition modify_channel_fields_to_json :: "modify_channel_fields \<Rightarrow> json" where
  "modify_channel_fields_to_json x = write_members (modify_channel_fields_members x)"

definition modify_channel_fields_from_json :: "json \<Rightarrow> modify_channel_fields option" where
  "modify_channel_fields_from_json j = do {
     v0 \<leftarrow> deserialize (to_opt get_string) j ''name'' None;
     v1 \<leftarrow> deserialize (to_opt get_enum) j ''type'' None;
     v2 \<leftarrow> deserialize to_opt_u64 j ''position'' None;
     v3 \<leftarrow> deserialize (to_opt get_string) j ''topic'' None;
     v4 \<leftarrow> deserialize to_opt_bool j ''nsfw'' None;
     v5 \<leftarrow> deserialize to_opt_uint j ''rate_limit_per_user'' None;
     v6 \<leftarrow> deserialize to_opt_uint j ''bitrate'' None;
     v7 \<leftarrow> deserialize to_opt_uint j ''user_limit'' None;
     v8 \<leftarrow> deserialize (to_opt (get_vector permission_overwrite_from_json)) j ''permission_overwrites'' None;
     v9 \<leftarrow> deserialize (to_opt get_snowflake) j ''parent_id'' None;
     v10 \<leftarrow> deserialize (to_opt get_string) j ''rtc_region'' None;
     v11 \<leftarrow> deserialize (to_opt get_enum) j ''video_quality_mode'' None;
     v12 \<leftarrow> deserialize (to_opt get_enum) j ''flags'' None;
     v13 \<leftarrow> deserialize (to_opt (get_vector forum_tag_from_json)) j ''available_tags'' None;
     v14 \<leftarrow> deserialize (to_opt default_reaction_from_json) j ''default_reaction_emoji'' None;
     v15 \<leftarrow> deserialize to_opt_uint j ''default_thread_rate_limit_per_user'' None;
     v16 \<leftarrow> deserialize (to_opt get_enum) j ''default_sort_order'' None;
     v17 \<leftarrow> deserialize (to_opt get_enum) j ''default_forum_layout'' None;
     Some \<lparr>mcf_name = v0, mcf_type = v1, mcf_position = v2, mcf_topic = v3, mcf_nsfw = v4,
       mcf_rate_limit_per_user = v5, mcf_bitrate = v6, mcf_user_limit = v7, mcf_permission_overwrites = v8,
       mcf_parent_id = v9, mcf_rtc_region = v10, mcf_video_quality_mode = v11, mcf_flags = v12,
       mcf_available_tags = v13, mcf_default_reaction_emoji = v14, mcf_default_thread_rate_limit_per_user = v15,
       mcf_default_sort_order = v16, mcf_default_forum_layout = v17\<rparr>
   }"

lemma modify_channel_fields_roundtrip: "modify_channel_fields_from_json (modify_channel_fields_to_json x) = Some x"
proof -
  have "distinct (map fst (modify_channel_fields_members x))" by (simp add: modify_channel_fields_members_def)
  note read = read_member [OF this]
  show ?thesis unfolding modify_channel_fields_from_json_def modify_channel_fields_to_json_def read
    by (simp add: modify_channel_fields_members_def)
qed

lemma modify_channel_fields_null: "modify_channel_fields_from_json JNull = Some modify_channel_fields_init"
  by (simp add: modify_channel_fields_from_json_def modify_channel_fields_init_def deserialize_def)

interpretation modify_channel_fields: entity_codec modify_channel_fields_to_json modify_channel_fields_from_json "\<lambda>_. True"
  by unfold_locales (simp_all add: modify_channel_fields_roundtrip)

definition modify_channel_set_name :: "string \<Rightarrow> modify_channel_fields \<Rightarrow> modify_channel_fields" where
  "modify_channel_set_name v f = f\<lparr>mcf_name := Some v\<rparr>"
definition modify_channel_set_type :: "u8 \<Rightarrow> modify_channel_fields \<Rightarrow> modify_channel_fields" where
  "modify_channel_set_type v f = f\<lparr>mcf_type := Some v\<rparr>"
definition modify_channel_set_position :: "u64 \<Rightarrow> modify_channel_fields \<Rightarrow> modify_channel_fields" where
  "modify_channel_set_position v f = f\<lparr>mcf_position := Some v\<rparr>"
definition modify_channel_set_topic :: "string \<Rightarrow> modify_channel_fields \<Rightarrow> modify_channel_fields" where
  "modify_channel_set_topic v f = f\<lparr>mcf_topic := Some v\<rparr>"
definition modify_channel_set_nsfw :: "bool \<Rightarrow> modify_channel_fields \<Rightarrow> modify_channel_fields" where
  "modify_channel_set_nsfw v f = f\<lparr>mcf_nsfw := Some v\<rparr>"
definition modify_channel_set_rate_limit_per_user :: "u16 \<Rightarrow> modify_channel_fields \<Rightarrow> modify_channel_fields" where
  "modify_channel_set_rate_limit_per_user v f = f\<lparr>mcf_rate_limit_per_user := Some v\<rparr>"
definition modify_channel_set_bitrate :: "u32 \<Rightarrow> modify_channel_fields \<Rightarrow> modify_channel_fields" where
  "modify_channel_set_bitrate v f = f\<lparr>mcf_bitrate := Some v\<rparr>"
definition modify_channel_set_user_limit :: "u16 \<Rightarrow> modify_channel_fields \<Rightarrow> modify_channel_fields" where
  "modify_channel_set_user_limit v f = f\<lparr>mcf_user_limit := Some v\<rparr>"
definition modify_channel_set_permission_overwrites :: "(permission_overwrite list) \<Rightarrow> modify_channel_fields \<Rightarrow> modify_channel_fields" where
  "modify_channel_set_permission_overwrites v f = f\<lparr>mcf_permission_overwrites := Some v\<rparr>"
definition modify_channel_set_parent_id :: "snowflake \<Rightarrow> modify_channel_fields \<Rightarrow> modify_channel_fields" where
  "modify_channel_set_parent_id v f = f\<lparr>mcf_parent_id := Some v\<rparr>"
definition modify_channel_set_rtc_region :: "string \<Rightarrow> modify_channel_fields \<Rightarrow> modify_channel_fields" where
  "modify_channel_set_rtc_region v f = f\<lparr>mcf_rtc_region := Some v\<rparr>"
definition modify_channel_set_video_quality_mode :: "u8 \<Rightarrow> modify_channel_fields \<Rightarrow> modify_channel_fields" where
  "modify_channel_set_video_quality_mode v f = f\<lparr>mcf_video_quality_mode := Some v\<rparr>"
definition modify_channel_set_flags :: "u64 \<Rightarrow> modify_channel_fields \<Rightarrow> modify_channel_fields" where
  "modify_channel_set_flags v f = f\<lparr>mcf_flags := Some v\<rparr>"
definition modify_channel_set_available_tags :: "(forum_tag list) \<Rightarrow> modify_channel_fields \<Rightarrow> modify_channel_fields" where
  "modify_channel_set_available_tags v f = f\<lparr>mcf_available_tags := Some v\<rparr>"
definition modify_channel_set_default_reaction_emoji :: "default_reaction \<Rightarrow> modify_channel_fields \<Rightarrow> modify_channel_fields" where
  "modify_channel_set_default_reaction_emoji v f = f\<lparr>mcf_default_reaction_emoji := Some v\<rparr>"
definition modify_channel_set_default_thread_rate_limit_per_user :: "u16 \<Rightarrow> modify_channel_fields \<Rightarrow> modify_channel_fields" where
  "modify_channel_set_default_thread_rate_limit_per_user v f = f\<lparr>mcf_default_thread_rate_limit_per_user := Some v\<rparr>"
definition modify_channel_set_default_sort_order :: "u8 \<Rightarrow> modify_channel_fields \<Rightarrow> modify_channel_fields" where
  "modify_channel_set_default_sort_order v f = f\<lparr>mcf_default_sort_order := Some v\<rparr>"
definition modify_channel_set_default_forum_layout :: "u8 \<Rightarrow> modify_channel_fields \<Rightarrow> modify_channel_fields" where
  "modify_channel_set_default_forum_layout v f = f\<lparr>mcf_default_forum_layout := Some v\<rparr>"

lemma modify_channel_sent:
  "json_at (modify_channel_fields_to_json (modify_channel_set_name w0 f)) k = (if k = ''name'' then Some (JStr (w0)) else json_at (modify_channel_fields_to_json f) k)"
  "json_at (modify_channel_fields_to_json (modify_channel_set_type w1 f)) k = (if k = ''type'' then Some (juint (w1)) else json_at (modify_channel_fields_to_json f) k)"
  "json_at (modify_channel_fields_to_json (modify_channel_set_position w2 f)) k = (if k = ''position'' then Some (juint (w2)) else json_at (modify_channel_fields_to_json f) k)"
  "json_at (modify_channel_fields_to_json (modify_channel_set_topic w3 f)) k = (if k = ''topic'' then Some (JStr (w3)) else json_at (modify_channel_fields_to_json f) k)"
  "json_at (modify_channel_fields_to_json (modify_channel_set_nsfw w4 f)) k = (if k = ''nsfw'' then Some (JBool (w4)) else json_at (modify_channel_fields_to_json f) k)"
  "json_at (modify_channel_fields_to_json (modify_channel_set_rate_limit_per_user w5 f)) k = (if k = ''rate_limit_per_user'' then Some (juint (w5)) else json_at (modify_channel_fields_to_json f) k)"
  "json_at (modify_channel_fields_to_json (modify_channel_set_bitrate w6 f)) k = (if k = ''bitrate'' then Some (juint (w6)) else json_at (modify_channel_fields_to_json f) k)"
  "json_at (modify_channel_fields_to_json (modify_channel_set_user_limit w7 f)) k = (if k = ''user_limit'' then Some (juint (w7)) else json_at (modify_channel_fields_to_json f) k)"
  "json_at (modify_channel_fields_to_json (modify_channel_set_permission_overwrites w8 f)) k = (if k = ''permission_overwrites'' then Some (JArr (map permission_overwrite_to_json (w8))) else json_at (modify_channel_fields_to_json f) k)"
  "json_at (modify_channel_fields_to_json (modify_channel_set_parent_id w9 f)) k = (if k = ''parent_id'' then Some (snowflake_to_json (w9)) else json_at (modify_channel_fields_to_json f) k)"
  "json_at (modify_channel_fields_to_json (modify_channel_set_rtc_region w10 f)) k = (if k = ''rtc_region'' then Some (JStr (w10)) else json_at (modify_channel_fields_to_json f) k)"
  "json_at (modify_channel_fields_to_json (modify_channel_set_video_quality_mode w11 f)) k = (if k = ''video_quality_mode'' then Some (juint (w11)) else json_at (modify_channel_fields_to_json f) k)"
  "json_at (modify_channel_fields_to_json (modify_channel_set_flags w12 f)) k = (if k = ''flags'' then Some (juint (w12)) else json_at (modify_channel_fields_to_json f) k)"
  "json_at (modify_channel_fields_to_json (modify_channel_set_available_tags w13 f)) k = (if k = ''available_tags'' then Some (JArr (map forum_tag_to_json (w13))) else json_at (modify_channel_fields_to_json f) k)"
  "json_at (modify_channel_fields_to_json (modify_channel_set_default_reaction_emoji w14 f)) k = (if k = ''default_reaction_emoji'' then Some (default_reaction_to_json (w14)) else json_at (modify_channel_fields_to_json f) k)"
  "json_at (modify_channel_fields_to_json (modify_channel_set_default_thread_rate_limit_per_user w15 f)) k = (if k = ''default_thread_rate_limit_per_user'' then Some (juint (w15)) else json_at (modify_channel_fields_to_json f) k)"
  "json_at (modify_channel_fields_to_json (modify_channel_set_default_sort_order w16 f)) k = (if k = ''default_sort_order'' then Some (juint (w16)) else json_at (modify_channel_fields_to_json f) k)"
  "json_at (modify_channel_fields_to_json (modify_channel_set_default_forum_layout w17 f)) k = (if k = ''default_forum_layout'' then Some (juint (w17)) else json_at (modify_channel_fields_to_json f) k)"
proof -
  have d: "distinct (map fst (modify_channel_fields_members g))" for g by (simp add: modify_channel_fields_members_def)
  note at = json_at_written [OF one_value_distinct [OF d]]
  show
    "json_at (modify_channel_fields_to_json (modify_channel_set_name w0 f)) k = (if k = ''name'' then Some (JStr (w0)) else json_at (modify_channel_fields_to_json f) k)"
    "json_at (modify_channel_fields_to_json (modify_channel_set_type w1 f)) k = (if k = ''type'' then Some (juint (w1)) else json_at (modify_channel_fields_to_json f) k)"
    "json_at (modify_channel_fields_to_json (modify_channel_set_position w2 f)) k = (if k = ''position'' then Some (juint (w2)) else json_at (modify_channel_fields_to_json f) k)"
    "json_at (modify_channel_fields_to_json (modify_channel_set_topic w3 f)) k = (if k = ''topic'' then Some (JStr (w3)) else json_at (modify_channel_fields_to_json f) k)"
    "json_at (modify_channel_fields_to_json (modify_channel_set_nsfw w4 f)) k = (if k = ''nsfw'' then Some (JBool (w4)) else json_at (modify_channel_fields_to_json f) k)"
    "json_at (modify_channel_fields_to_json (modify_channel_set_rate_limit_per_user w5 f)) k = (if k = ''rate_limit_per_user'' then Some (juint (w5)) else json_at (modify_channel_fields_to_json f) k)"
    "json_at (modify_channel_fields_to_json (modify_channel_set_bitrate w6 f)) k = (if k = ''bitrate'' then Some (juint (w6)) else json_at (modify_channel_fields_to_json f) k)"
    "json_at (modify_channel_fields_to_json (modify_channel_set_user_limit w7 f)) k = (if k = ''user_limit'' then Some (juint (w7)) else json_at (modify_channel_fields_to_json f) k)"
    "json_at (modify_channel_fields_to_json (modify_channel_set_permission_overwrites w8 f)) k = (if k = ''permission_overwrites'' then Some (JArr (map permission_overwrite_to_json (w8))) else json_at (modify_channel_fields_to_json f) k)"
    "json_at (modify_channel_fields_to_json (modify_channel_set_parent_id w9 f)) k = (if k = ''parent_id'' then Some (snowflake_to_json (w9)) else json_at (modify_channel_fields_to_json f) k)"
    "json_at (modify_channel_fields_to_json (modify_channel_set_rtc_region w10 f)) k = (if k = ''rtc_region'' then Some (JStr (w10)) else json_at (modify_channel_fields_to_json f) k)"
    "json_at (modify_channel_fields_to_json (modify_channel_set_video_quality_mode w11 f)) k = (if k = ''video_quality_mode'' then Some (juint (w11)) else json_at (modify_channel_fields_to_json f) k)"
    "json_at (modify_channel_fields_to_json (modify_channel_set_flags w12 f)) k = (if k = ''flags'' then Some (juint (w12)) else json_at (modify_channel_fields_to_json f) k)"
    "json_at (modify_channel_fields_to_json (modify_channel_set_available_tags w13 f)) k = (if k = ''available_tags'' then Some (JArr (map forum_tag_to_json (w13))) else json_at (modify_channel_fields_to_json f) k)"
    "json_at (modify_channel_fields_to_json (modify_channel_set_default_reaction_emoji w14 f)) k = (if k = ''default_reaction_emoji'' then Some (default_reaction_to_json (w14)) else json_at (modify_channel_fields_to_json f) k)"
    "json_at (modify_channel_fields_to_json (modify_channel_set_default_thread_rate_limit_per_user w15 f)) k = (if k = ''default_thread_rate_limit_per_user'' then Some (juint (w15)) else json_at (modify_channel_fields_to_json f) k)"
    "json_at (modify_channel_fields_to_json (modify_channel_set_default_sort_order w16 f)) k = (if k = ''default_sort_order'' then Some (juint (w16)) else json_at (modify_channel_fields_to_json f) k)"
    "json_at (modify_channel_fields_to_json (modify_channel_set_default_forum_layout w17 f)) k = (if k = ''default_forum_layout'' then Some (juint (w17)) else json_at (modify_channel_fields_to_json f) k)"
    unfolding modify_channel_fields_to_json_def at by (auto simp: modify_channel_fields_members_def modify_channel_set_name_def modify_channel_set_type_def modify_channel_set_position_def modify_channel_set_topic_def modify_channel_set_nsfw_def modify_channel_set_rate_limit_per_user_def modify_channel_set_bitrate_def modify_channel_set_user_limit_def modify_channel_set_permission_overwrites_def modify_channel_set_parent_id_def modify_channel_set_rtc_region_def modify_channel_set_video_quality_mode_def modify_channel_set_flags_def modify_channel_set_available_tags_def modify_channel_set_default_reaction_emoji_def modify_channel_set_default_thread_rate_limit_per_user_def modify_channel_set_default_sort_order_def modify_channel_set_default_forum_layout_def)
qed

record modify_current_member_fields =
  mcmf_nick :: "string option"

definition modify_current_member_fields_init :: modify_current_member_fields where
  "modify_current_member_fields_init = \<lparr>mcmf_nick = None\<rparr>"

definition modify_current_member_fields_members :: "modify_current_member_fields \<Rightarrow> (string \<times> json option) list" where
  "modify_current_member_fields_members x = [
     (''nick'', map_option JStr (mcmf_nick x))]"

definition modify_current_member_fields_to_json :: "modify_current_member_fields \<Rightarrow> json" where
  "modify_current_member_fields_to_json x = write_members (modify_current_member_fields_members x)"

definition modify_current_member_set_nick :: "string \<Rightarrow> modify_current_member_fields \<Rightarrow> modify_current_member_fields" where
  "modify_current_member_set_nick v f = f\<lparr>mcmf_nick := Some v\<rparr>"

lemma modify_current_member_sent:
  "json_at (modify_current_member_fields_to_json (modify_current_member_set_nick w0 f)) k = (if k = ''nick'' then Some (JStr (w0)) else json_at (modify_current_member_fields_to_json f) k)"
proof -
  have d: "distinct (map fst (modify_current_member_fields_members g))" for g by (simp add: modify_current_member_fields_members_def)
  note at = json_at_written [OF one_value_distinct [OF d]]
  show
    "json_at (modify_current_member_fields_to_json (modify_current_member_set_nick w0 f)) k = (if k = ''nick'' then Some (JStr (w0)) else json_at (modify_current_member_fields_to_json f) k)"
    unfolding modify_current_member_fields_to_json_def at by (auto simp: modify_current_member_fields_members_def modify_current_member_set_nick_def)
qed

record modify_current_user_fields =
  mcuf_avatar :: "string option"
  mcuf_username :: "string option"

definition modify_current_user_fields_init :: modify_current_user_fields where
  "modify_current_user_fields_init = \<lparr>mcuf_avatar = None, mcuf_username = None\<rparr>"

definition modify_current_user_fields_members :: "modify_current_user_fields \<Rightarrow> (string \<times> json option) list" where
  "modify_current_user_fields_members x = [
     (''avatar'', map_option JStr (mcuf_avatar x)), (''username'', map_option JStr (mcuf_username x))]"

definition modify_current_user_fields_to_json :: "modify_current_user_fields \<Rightarrow> json" where
  "modify_current_user_fields_to_json x = write_members (modify_current_user_fields_members x)"

definition modify_current_user_fields_from_json :: "json \<Rightarrow> modify_current_user_fields option" where
  "modify_current_user_fields_from_json j = do {
     v0 \<leftarrow> deserialize (to_opt get_string) j ''avatar'' None;
     v1 \<leftarrow> deserialize (to_opt get_string) j ''username'' None;
     Some \<lparr>mcuf_avatar = v0, mcuf_username = v1\<rparr>
   }"

lemma modify_current_user_fields_roundtrip: "modify_current_user_fields_from_json (modify_current_user_fields_to_json x) = Some x"
proof -
  have "distinct (map fst (modify_current_user_fields_members x))" by (simp add: modify_current_user_fields_members_def)
  note read = read_member [OF this]
  show ?thesis unfolding modify_current_user_fields_from_json_def modify_current_user_fields_to_json_def read
    by (simp add: modify_current_user_fields_members_def)
qed

lemma modify_current_user_fields_null: "modify_current_user_fields_from_json JNull = Some modify_current_user_fields_init"
  by (simp add: modify_current_user_fields_from_json_def modify_current_user_fields_init_def deserialize_def)

interpretation modify_current_user_fields: entity_codec modify_current_user_fields_to_json modify_current_user_fields_from_json "\<lambda>_. True"
  by unfold_locales (simp_all add: modify_current_user_fields_roundtrip)

definition modify_current_user_set_avatar :: "string \<Rightarrow> modify_current_user_fields \<Rightarrow> modify_current_user_fields" where
  "modify_current_user_set_avatar v f = f\<lparr>mcuf_avatar := Some v\<rparr>"
definition modify_current_user_set_username :: "string \<Rightarrow> modify_current_user_fields \<Rightarrow> modify_current_user_fields" where
  "modify_current_user_set_username v f = f\<lparr>mcuf_username := Some v\<rparr>"

lemma modify_current_user_sent:
  "json_at (modify_current_user_fields_to_json (modify_current_user_set_avatar w0 f)) k = (if k = ''avatar'' then Some (JStr (w0)) else json_at (modify_current_user_fields_to_json f) k)"
  "json_at (modify_current_user_fields_to_json (modify_current_user_set_username w1 f)) k = (if k = ''username'' then Some (JStr (w1)) else json_at (modify_current_user_fields_to_json f) k)"
proof -
  have d: "distinct (map fst (modify_current_user_fields_members g))" for g by (simp add: modify_current_user_fields_members_def)
  note at = json_at_written [OF one_value_distinct [OF d]]
  show
    "json_at (modify_current_user_fields_to_json (modify_current_user_set_avatar w0 f)) k = (if k = ''avatar'' then Some (JStr (w0)) else json_at (modify_current_user_fields_to_json f) k)"
    "json_at (modify_current_user_fields_to_json (modify_current_user_set_username w1 f)) k = (if k = ''username'' then Some (JStr (w1)) else json_at (modify_current_user_fields_to_json f) k)"
    unfolding modify_current_user_fields_to_json_def at by (auto simp: modify_current_user_fields_members_def modify_current_user_set_avatar_def modify_current_user_set_username_def)
qed

record modify_guild_fields =
  mgf_name :: "string option"
  mgf_region :: "string option"
  mgf_verification_level :: "u8 option"
  mgf_default_message_notifications :: "u8 option"
  mgf_explicit_content_filter :: "u8 option"
  mgf_afk_channel_id :: "snowflake option"
  mgf_afk_timeout :: "u64 option"
  mgf_icon :: "string option"
  mgf_owner_id :: "snowflake option"
  mgf_splash :: "string option"
  mgf_discovery_splash :: "string option"
  mgf_banner :: "string option"
  mgf_system_channel_id :: "snowflake option"
  mgf_system_channel_flags :: "u8 option"
  mgf_rules_channel_id :: "snowflake option"
  mgf_public_updates_channel_id :: "snowflake option"
  mgf_preferred_locale :: "string option"
  mgf_features :: "string list option"
  mgf_description :: "string option"
  mgf_premium_progress_bar_enabled :: "bool option"
  mgf_safety_alerts_channel_id :: "snowflake option"

definition modify_guild_fields_init :: modify_guild_fields where
  "modify_guild_fields_init = \<lparr>mgf_name = None, mgf_region = None, mgf_verification_level = None,
     mgf_default_message_notifications = None, mgf_explicit_content_filter = None, mgf_afk_channel_id = None,
     mgf_afk_timeout = None, mgf_icon = None, mgf_owner_id = None, mgf_splash = None,
     mgf_discovery_splash = None, mgf_banner = None, mgf_system_channel_id = None,
     mgf_system_channel_flags = None, mgf_rules_channel_id = None, mgf_public_updates_channel_id = None,
     mgf_preferred_locale = None, mgf_features = None, mgf_description = None,
     mgf_premium_progress_bar_enabled = None, mgf_safety_alerts_channel_id = None\<rparr>"

definition modify_guild_fields_members :: "modify_guild_fields \<Rightarrow> (string \<times> json option) list" where
  "modify_guild_fields_members x = [
     (''name'', map_option JStr (mgf_name x)), (''region'', map_option JStr (mgf_region x)),
     (''verification_level'', map_option juint (mgf_verification_level x)),
     (''default_message_notifications'', map_option juint (mgf_default_message_notifications x)),
     (''explicit_content_filter'', map_option juint (mgf_explicit_content_filter x)),
     (''afk_channel_id'', map_option snowflake_to_json (mgf_afk_channel_id x)),
     (''afk_timeout'', map_option juint (mgf_afk_timeout x)), (''icon'', map_option JStr (mgf_icon x)),
     (''owner_id'', map_option snowflake_to_json (mgf_owner_id x)),
     (''splash'', map_option JStr (mgf_splash x)),
     (''discovery_splash'', map_option JStr (mgf_discovery_splash x)),
     (''banner'', map_option JStr (mgf_banner x)),
     (''system_channel_id'', map_option snowflake_to_json (mgf_system_channel_id x)),
     (''system_channel_flags'', map_option juint (mgf_system_channel_flags x)),
     (''rules_channel_id'', map_option snowflake_to_json (mgf_rules_channel_id x)),
     (''public_updates_channel_id'', map_option snowflake_to_json (mgf_public_updates_channel_id x)),
     (''preferred_locale'', map_option JStr (mgf_preferred_locale x)),
     (''features'', map_option (\<lambda>xs. JArr (map JStr xs)) (mgf_features x)),
     (''description'', map_option JStr (mgf_description x)),
     (''premium_progress_bar_enabled'', map_option JBool (mgf_premium_progress_bar_enabled x)),
     (''safety_alerts_channel_id'', map_option snowflake_to_json (mgf_safety_alerts_channel_id x))]"

definition modify_guild_fields_to_json :: "modify_guild_fields \<Rightarrow> json" where
  "modify_guild_fields_to_json x = write_members (modify_guild_fields_members x)"

definition modify_guild_fields_from_json :: "json \<Rightarrow> modify_guild_fields option" where
  "modify_guild_fields_from_json j = do {
     v0 \<leftarrow> deserialize (to_opt get_string) j ''name'' None;
     v1 \<leftarrow> deserialize (to_opt get_string) j ''region'' None;
     v2 \<leftarrow> deserialize (to_opt get_enum) j ''verification_level'' None;
     v3 \<leftarrow> deserialize (to_opt get_enum) j ''default_message_notifications'' None;
     v4 \<leftarrow> deserialize (to_opt get_enum) j ''explicit_content_filter'' None;
     v5 \<leftarrow> deserialize (to_opt get_snowflake) j ''afk_channel_id'' None;
     v6 \<leftarrow> deserialize to_opt_u64 j ''afk_timeout'' None;
     v7 \<leftarrow> deserialize (to_opt get_string) j ''icon'' None;
     v8 \<leftarrow> deserialize (to_opt get_snowflake) j ''owner_id'' None;
     v9 \<leftarrow> deserialize (to_opt get_string) j ''splash'' None;
     v10 \<leftarrow> deserialize (to_opt get_string) j ''discovery_splash'' None;
     v11 \<leftarrow> deserialize (to_opt get_string) j ''banner'' None;
     v12 \<leftarrow> deserialize (to_opt get_snowflake) j ''system_channel_id'' None;
     v13 \<leftarrow> deserialize (to_opt get_enum) j ''system_channel_flags'' None;
     v14 \<leftarrow> deserialize (to_opt get_snowflake) j ''rules_channel_id'' None;
     v15 \<leftarrow> deserialize (to_opt get_snowflake) j ''public_updates_channel_id'' None;
     v16 \<leftarrow> deserialize (to_opt get_string) j ''preferred_locale'' None;
     v17 \<leftarrow> deserialize (to_opt (get_vector get_string)) j ''features'' None;
     v18 \<leftarrow> deserialize (to_opt get_string) j ''description'' None;
     v19 \<leftarrow> deserialize to_opt_bool j ''premium_progress_bar_enabled'' None;
     v20 \<leftarrow> deserialize (to_opt get_snowflake) j ''safety_alerts_channel_id'' None;
     Some \<lparr>mgf_name = v0, mgf_region = v1, mgf_verification_level = v2, mgf_default_message_notifications = v3,
       mgf_explicit_content_filter = v4, mgf_afk_channel_id = v5, mgf_afk_timeout = v6, mgf_icon = v7,
       mgf_owner_id = v8, mgf_splash = v9, mgf_discovery_splash = v10, mgf_banner = v11,
       mgf_system_channel_id = v12, mgf_system_channel_flags = v13, mgf_rules_channel_id = v14,
       mgf_public_updates_channel_id = v15, mgf_preferred_locale = v16, mgf_features = v17,
       mgf_description = v18, mgf_premium_progress_bar_enabled = v19, mgf_safety_alerts_channel_id = v20\<rparr>
   }"

lemma modify_guild_fields_roundtrip: "modify_guild_fields_from_json (modify_guild_fields_to_json x) = Some x"
proof -
  have "distinct (map fst (modify_guild_fields_members x))" by (simp add: modify_guild_fields_members_def)
  note read = read_member [OF this]
  show ?thesis unfolding modify_guild_fields_from_json_def modify_guild_fields_to_json_def read
    by (simp add: modify_guild_fields_members_def)
qed

lemma modify_guild_fields_null: "modify_guild_fields_from_json JNull = Some modify_guild_fields_init"
  by (simp add: modify_guild_fields_from_json_def modify_guild_fields_init_def deserialize_def)

interpretation modify_guild_fields: entity_codec modify_guild_fields_to_json modify_guild_fields_from_json "\<lambda>_. True"
  by unfold_locales (simp_all add: modify_guild_fields_roundtrip)

definition modify_guild_set_afk_channel_id :: "snowflake \<Rightarrow> modify_guild_fields \<Rightarrow> modify_guild_fields" where
  "modify_guild_set_afk_channel_id v f = f\<lparr>mgf_afk_channel_id := Some v\<rparr>"
definition modify_guild_set_afk_timeout :: "u64 \<Rightarrow> modify_guild_fields \<Rightarrow> modify_guild_fields" where
  "modify_guild_set_afk_timeout v f = f\<lparr>mgf_afk_timeout := Some v\<rparr>"
definition modify_guild_set_banner :: "string \<Rightarrow> modify_guild_fields \<Rightarrow> modify_guild_fields" where
  "modify_guild_set_banner v f = f\<lparr>mgf_banner := Some v\<rparr>"
definition modify_guild_set_default_message_notifications :: "u8 \<Rightarrow> modify_guild_fields \<Rightarrow> modify_guild_fields" where
  "modify_guild_set_default_message_notifications v f = f\<lparr>mgf_default_message_notifications := Some v\<rparr>"
definition modify_guild_set_description :: "string \<Rightarrow> modify_guild_fields \<Rightarrow> modify_guild_fields" where
  "modify_guild_set_description v f = f\<lparr>mgf_description := Some v\<rparr>"
definition modify_guild_set_discovery_splash :: "string \<Rightarrow> modify_guild_fields \<Rightarrow> modify_guild_fields" where
  "modify_guild_set_discovery_splash v f = f\<lparr>mgf_discovery_splash := Some v\<rparr>"
definition modify_guild_set_explicit_content_filter :: "u8 \<Rightarrow> modify_guild_fields \<Rightarrow> modify_guild_fields" where
  "modify_guild_set_explicit_content_filter v f = f\<lparr>mgf_explicit_content_filter := Some v\<rparr>"
definition modify_guild_set_features :: "(string list) \<Rightarrow> modify_guild_fields \<Rightarrow> modify_guild_fields" where
  "modify_guild_set_features v f = f\<lparr>mgf_features := Some v\<rparr>"
definition modify_guild_set_icon :: "string \<Rightarrow> modify_guild_fields \<Rightarrow> modify_guild_fields" where
  "modify_guild_set_icon v f = f\<lparr>mgf_icon := Some v\<rparr>"
definition modify_guild_set_name :: "string \<Rightarrow> modify_guild_fields \<Rightarrow> modify_guild_fields" where
  "modify_guild_set_name v f = f\<lparr>mgf_name := Some v\<rparr>"
definition modify_guild_set_owner_id :: "snowflake \<Rightarrow> modify_guild_fields \<Rightarrow> modify_guild_fields" where
  "modify_guild_set_owner_id v f = f\<lparr>mgf_owner_id := Some v\<rparr>"
definition modify_guild_set_preferred_locale :: "string \<Rightarrow> modify_guild_fields \<Rightarrow> modify_guild_fields" where
  "modify_guild_set_preferred_locale v f = f\<lparr>mgf_preferred_locale := Some v\<rparr>"
definition modify_guild_set_premium_progress_bar_enabled :: "bool \<Rightarrow> modify_guild_fields \<Rightarrow> modify_guild_fields" where
  "modify_guild_set_premium_progress_bar_enabled v f = f\<lparr>mgf_premium_progress_bar_enabled := Some v\<rparr>"
definition modify_guild_set_public_updates_channel_id :: "snowflake \<Rightarrow> modify_guild_fields \<Rightarrow> modify_guild_fields" where
  "modify_guild_set_public_updates_channel_id v f = f\<lparr>mgf_public_updates_channel_id := Some v\<rparr>"
definition modify_guild_set_region :: "string \<Rightarrow> modify_guild_fields \<Rightarrow> modify_guild_fields" where
  "modify_guild_set_region v f = f\<lparr>mgf_region := Some v\<rparr>"
definition modify_guild_set_rules_channel_id :: "snowflake \<Rightarrow> modify_guild_fields \<Rightarrow> modify_guild_fields" where
  "modify_guild_set_rules_channel_id v f = f\<lparr>mgf_rules_channel_id := Some v\<rparr>"
definition modify_guild_set_safety_alerts_channel_id :: "snowflake \<Rightarrow> modify_guild_fields \<Rightarrow> modify_guild_fields" where
  "modify_guild_set_safety_alerts_channel_id v f = f\<lparr>mgf_safety_alerts_channel_id := Some v\<rparr>"
definition modify_guild_set_splash :: "string \<Rightarrow> modify_guild_fields \<Rightarrow> modify_guild_fields" where
  "modify_guild_set_splash v f = f\<lparr>mgf_splash := Some v\<rparr>"
definition modify_guild_set_system_channel_flags :: "u8 \<Rightarrow> modify_guild_fields \<Rightarrow> modify_guild_fields" where
  "modify_guild_set_system_channel_flags v f = f\<lparr>mgf_system_channel_flags := Some v\<rparr>"
definition modify_guild_set_system_channel_id :: "snowflake \<Rightarrow> modify_guild_fields \<Rightarrow> modify_guild_fields" where
  "modify_guild_set_system_channel_id v f = f\<lparr>mgf_system_channel_id := Some v\<rparr>"
definition modify_guild_set_verification_level :: "u8 \<Rightarrow> modify_guild_fields \<Rightarrow> modify_guild_fields" where
  "modify_guild_set_verification_level v f = f\<lparr>mgf_verification_level := Some v\<rparr>"

lemma modify_guild_sent:
  "json_at (modify_guild_fields_to_json (modify_guild_set_afk_channel_id w0 f)) k = (if k = ''afk_channel_id'' then Some (snowflake_to_json (w0)) else json_at (modify_guild_fields_to_json f) k)"
  "json_at (modify_guild_fields_to_json (modify_guild_set_afk_timeout w1 f)) k = (if k = ''afk_timeout'' then Some (juint (w1)) else json_at (modify_guild_fields_to_json f) k)"
  "json_at (modify_guild_fields_to_json (modify_guild_set_banner w2 f)) k = (if k = ''banner'' then Some (JStr (w2)) else json_at (modify_guild_fields_to_json f) k)"
  "json_at (modify_guild_fields_to_json (modify_guild_set_default_message_notifications w3 f)) k = (if k = ''default_message_notifications'' then Some (juint (w3)) else json_at (modify_guild_fields_to_json f) k)"
  "json_at (modify_guild_fields_to_json (modify_guild_set_description w4 f)) k = (if k = ''description'' then Some (JStr (w4)) else json_at (modify_guild_fields_to_json f) k)"
  "json_at (modify_guild_fields_to_json (modify_guild_set_discovery_splash w5 f)) k = (if k = ''discovery_splash'' then Some (JStr (w5)) else json_at (modify_guild_fields_to_json f) k)"
  "json_at (modify_guild_fields_to_json (modify_guild_set_explicit_content_filter w6 f)) k = (if k = ''explicit_content_filter'' then Some (juint (w6)) else json_at (modify_guild_fields_to_json f) k)"
  "json_at (modify_guild_fields_to_json (modify_guild_set_features w7 f)) k = (if k = ''features'' then Some (JArr (map JStr (w7))) else json_at (modify_guild_fields_to_json f) k)"
  "json_at (modify_guild_fields_to_json (modify_guild_set_icon w8 f)) k = (if k = ''icon'' then Some (JStr (w8)) else json_at (modify_guild_fields_to_json f) k)"
  "json_at (modify_guild_fields_to_json (modify_guild_set_name w9 f)) k = (if k = ''name'' then Some (JStr (w9)) else json_at (modify_guild_fields_to_json f) k)"
  "json_at (modify_guild_fields_to_json (modify_guild_set_owner_id w10 f)) k = (if k = ''owner_id'' then Some (snowflake_to_json (w10)) else json_at (modify_guild_fields_to_json f) k)"
  "json_at (modify_guild_fields_to_json (modify_guild_set_preferred_locale w11 f)) k = (if k = ''preferred_locale'' then Some (JStr (w11)) else json_at (modify_guild_fields_to_json f) k)"
  "json_at (modify_guild_fields_to_json (modify_guild_set_premium_progress_bar_enabled w12 f)) k = (if k = ''premium_progress_bar_enabled'' then Some (JBool (w12)) else json_at (modify_guild_fields_to_json f) k)"
  "json_at (modify_guild_fields_to_json (modify_guild_set_public_updates_channel_id w13 f)) k = (if k = ''public_updates_channel_id'' then Some (snowflake_to_json (w13)) else json_at (modify_guild_fields_to_json f) k)"
  "json_at (modify_guild_fields_to_json (modify_guild_set_region w14 f)) k = (if k = ''region'' then Some (JStr (w14)) else json_at (modify_guild_fields_to_json f) k)"
  "json_at (modify_guild_fields_to_json (modify_guild_set_rules_channel_id w15 f)) k = (if k = ''rules_channel_id'' then Some (snowflake_to_json (w15)) else json_at (modify_guild_fields_to_json f) k)"
  "json_at (modify_guild_fields_to_json (modify_guild_set_safety_alerts_channel_id w16 f)) k = (if k = ''safety_alerts_channel_id'' then Some (snowflake_to_json (w16)) else json_at (modify_guild_fields_to_json f) k)"
  "json_at (modify_guild_fields_to_json (modify_guild_set_splash w17 f)) k = (if k = ''splash'' then Some (JStr (w17)) else json_at (modify_guild_fields_to_json f) k)"
  "json_at (modify_guild_fields_to_json (modify_guild_set_system_channel_flags w18 f)) k = (if k = ''system_channel_flags'' then Some (juint (w18)) else json_at (modify_guild_fields_to_json f) k)"
  "json_at (modify_guild_fields_to_json (modify_guild_set_system_channel_id w19 f)) k = (if k = ''system_channel_id'' then Some (snowflake_to_json (w19)) else json_at (modify_guild_fields_to_json f) k)"
  "json_at (modify_guild_fields_to_json (modify_guild_set_verification_level w20 f)) k = (if k = ''verification_level'' then Some (juint (w20)) else json_at (modify_guild_fields_to_json f) k)"
proof -
  have d: "distinct (map fst (modify_guild_fields_members g))" for g by (simp add: modify_guild_fields_members_def)
  note at = json_at_written [OF one_value_distinct [OF d]]
  show
    "json_at (modify_guild_fields_to_json (modify_guild_set_afk_channel_id w0 f)) k = (if k = ''afk_channel_id'' then Some (snowflake_to_json (w0)) else json_at (modify_guild_fields_to_json f) k)"
    "json_at (modify_guild_fields_to_json (modify_guild_set_afk_timeout w1 f)) k = (if k = ''afk_timeout'' then Some (juint (w1)) else json_at (modify_guild_fields_to_json f) k)"
    "json_at (modify_guild_fields_to_json (modify_guild_set_banner w2 f)) k = (if k = ''banner'' then Some (JStr (w2)) else json_at (modify_guild_fields_to_json f) k)"
    "json_at (modify_guild_fields_to_json (modify_guild_set_default_message_notifications w3 f)) k = (if k = ''default_message_notifications'' then Some (juint (w3)) else json_at (modify_guild_fields_to_json f) k)"
    "json_at (modify_guild_fields_to_json (modify_guild_set_description w4 f)) k = (if k = ''description'' then Some (JStr (w4)) else json_at (modify_guild_fields_to_json f) k)"
    "json_at (modify_guild_fields_to_json (modify_guild_set_discovery_splash w5 f)) k = (if k = ''discovery_splash'' then Some (JStr (w5)) else json_at (modify_guild_fields_to_json f) k)"
    "json_at (modify_guild_fields_to_json (modify_guild_set_explicit_content_filter w6 f)) k = (if k = ''explicit_content_filter'' then Some (juint (w6)) else json_at (modify_guild_fields_to_json f) k)"
    "json_at (modify_guild_fields_to_json (modify_guild_set_features w7 f)) k = (if k = ''features'' then Some (JArr (map JStr (w7))) else json_at (modify_guild_fields_to_json f) k)"
    "json_at (modify_guild_fields_to_json (modify_guild_set_icon w8 f)) k = (if k = ''icon'' then Some (JStr (w8)) else json_at (modify_guild_fields_to_json f) k)"
    "json_at (modify_guild_fields_to_json (modify_guild_set_name w9 f)) k = (if k = ''name'' then Some (JStr (w9)) else json_at (modify_guild_fields_to_json f) k)"
    "json_at (modify_guild_fields_to_json (modify_guild_set_owner_id w10 f)) k = (if k = ''owner_id'' then Some (snowflake_to_json (w10)) else json_at (modify_guild_fields_to_json f) k)"
    "json_at (modify_guild_fields_to_json (modify_guild_set_preferred_locale w11 f)) k = (if k = ''preferred_locale'' then Some (JStr (w11)) else json_at (modify_guild_fields_to_json f) k)"
    "json_at (modify_guild_fields_to_json (modify_guild_set_premium_progress_bar_enabled w12 f)) k = (if k = ''premium_progress_bar_enabled'' then Some (JBool (w12)) else json_at (modify_guild_fields_to_json f) k)"
    "json_at (modify_guild_fields_to_json (modify_guild_set_public_updates_channel_id w13 f)) k = (if k = ''public_updates_channel_id'' then Some (snowflake_to_json (w13)) else json_at (modify_guild_fields_to_json f) k)"
    "json_at (modify_guild_fields_to_json (modify_guild_set_region w14 f)) k = (if k = ''region'' then Some (JStr (w14)) else json_at (modify_guild_fields_to_json f) k)"
    "json_at (modify_guild_fields_to_json (modify_guild_set_rules_channel_id w15 f)) k = (if k = ''rules_channel_id'' then Some (snowflake_to_json (w15)) else json_at (modify_guild_fields_to_json f) k)"
    "json_at (modify_guild_fields_to_json (modify_guild_set_safety_alerts_channel_id w16 f)) k = (if k = ''safety_alerts_channel_id'' then Some (snowflake_to_json (w16)) else json_at (modify_guild_fields_to_json f) k)"
    "json_at (modify_guild_fields_to_json (modify_guild_set_splash w17 f)) k = (if k = ''splash'' then Some (JStr (w17)) else json_at (modify_guild_fields_to_json f) k)"
    "json_at (modify_guild_fields_to_json (modify_guild_set_system_channel_flags w18 f)) k = (if k = ''system_channel_flags'' then Some (juint (w18)) else json_at (modify_guild_fields_to_json f) k)"
    "json_at (modify_guild_fields_to_json (modify_guild_set_system_channel_id w19 f)) k = (if k = ''system_channel_id'' then Some (snowflake_to_json (w19)) else json_at (modify_guild_fields_to_json f) k)"
    "json_at (modify_guild_fields_to_json (modify_guild_set_verification_level w20 f)) k = (if k = ''verification_level'' then Some (juint (w20)) else json_at (modify_guild_fields_to_json f) k)"
    unfolding modify_guild_fields_to_json_def at by (auto simp: modify_guild_fields_members_def modify_guild_set_afk_channel_id_def modify_guild_set_afk_timeout_def modify_guild_set_banner_def modify_guild_set_default_message_notifications_def modify_guild_set_description_def modify_guild_set_discovery_splash_def modify_guild_set_explicit_content_filter_def modify_guild_set_features_def modify_guild_set_icon_def modify_guild_set_name_def modify_guild_set_owner_id_def modify_guild_set_preferred_locale_def modify_guild_set_premium_progress_bar_enabled_def modify_guild_set_public_updates_channel_id_def modify_guild_set_region_def modify_guild_set_rules_channel_id_def modify_guild_set_safety_alerts_channel_id_def modify_guild_set_splash_def modify_guild_set_system_channel_flags_def modify_guild_set_system_channel_id_def modify_guild_set_verification_level_def)
qed

record modify_guild_channel_position =
  mgcp_id :: snowflake
  mgcp_position :: "u64 option"
  mgcp_lock_permissions :: "bool option"
  mgcp_parent_id :: "snowflake option"

definition modify_guild_channel_position_init :: modify_guild_channel_position where
  "modify_guild_channel_position_init = \<lparr>mgcp_id = 0, mgcp_position = None, mgcp_lock_permissions = None, mgcp_parent_id = None\<rparr>"

definition modify_guild_channel_position_members :: "modify_guild_channel_position \<Rightarrow> (string \<times> json option) list" where
  "modify_guild_channel_position_members x = [
     (''id'', Some (snowflake_to_json (mgcp_id x))), (''position'', map_option juint (mgcp_position x)),
     (''lock_permissions'', map_option JBool (mgcp_lock_permissions x)),
     (''parent_id'', map_option snowflake_to_json (mgcp_parent_id x))]"

definition modify_guild_channel_position_to_json :: "modify_guild_channel_position \<Rightarrow> json" where
  "modify_guild_channel_position_to_json x = write_members (modify_guild_channel_position_members x)"

definition modify_guild_channel_position_from_json :: "json \<Rightarrow> modify_guild_channel_position option" where
  "modify_guild_channel_position_from_json j = do {
     v0 \<leftarrow> deserialize (to_value get_snowflake) j ''id'' 0;
     v1 \<leftarrow> deserialize to_opt_u64 j ''position'' None;
     v2 \<leftarrow> deserialize to_opt_bool j ''lock_permissions'' None;
     v3 \<leftarrow> deserialize (to_opt get_snowflake) j ''parent_id'' None;
     Some \<lparr>mgcp_id = v0, mgcp_position = v1, mgcp_lock_permissions = v2, mgcp_parent_id = v3\<rparr>
   }"

lemma modify_guild_channel_position_roundtrip: "modify_guild_channel_position_from_json (modify_guild_channel_position_to_json x) = Some x"
proof -
  have "distinct (map fst (modify_guild_channel_position_members x))" by (simp add: modify_guild_channel_position_members_def)
  note read = read_member [OF this]
  show ?thesis unfolding modify_guild_channel_position_from_json_def modify_guild_channel_position_to_json_def read
    by (simp add: modify_guild_channel_position_members_def)
qed

lemma modify_guild_channel_position_object: "\<not> is_null (modify_guild_channel_position_to_json x)"
  unfolding modify_guild_channel_position_to_json_def by (rule write_members_object [OF one_value_distinct]) (simp_all add: modify_guild_channel_position_members_def)

interpretation modify_guild_channel_position: entity_object modify_guild_channel_position_to_json modify_guild_channel_position_from_json "\<lambda>_. True"
  by unfold_locales (simp_all add: modify_guild_channel_position_roundtrip modify_guild_channel_position_object)

record modify_guild_member_fields =
  mgmf_nick :: "string option"
  mgmf_roles :: "snowflake list option"
  mgmf_mute :: "bool option"
  mgmf_deaf :: "bool option"
  mgmf_channel_id :: "snowflake option"
  mgmf_communication_disabled_until :: "string option"
  mgmf_flags :: "u8 option"

definition modify_guild_member_fields_init :: modify_guild_member_fields where
  "modify_guild_member_fields_init = \<lparr>mgmf_nick = None, mgmf_roles = None, mgmf_mute = None, mgmf_deaf = None, mgmf_channel_id = None,
     mgmf_communication_disabled_until = None, mgmf_flags = None\<rparr>"

definition modify_guild_member_fields_members :: "modify_guild_member_fields \<Rightarrow> (string \<times> json option) list" where
  "modify_guild_member_fields_members x = [
     (''nick'', map_option JStr (mgmf_nick x)),
     (''roles'', map_option (\<lambda>xs. JArr (map snowflake_to_json xs)) (mgmf_roles x)),
     (''mute'', map_option JBool (mgmf_mute x)), (''deaf'', map_option JBool (mgmf_deaf x)),
     (''channel_id'', map_option snowflake_to_json (mgmf_channel_id x)),
     (''communication_disabled_until'', map_option JStr (mgmf_communication_disabled_until x)),
     (''flags'', map_option juint (mgmf_flags x))]"

definition modify_guild_member_fields_to_json :: "modify_guild_member_fields \<Rightarrow> json" where
  "modify_guild_member_fields_to_json x = write_members (modify_guild_member_fields_members x)"

definition modify_guild_member_set_nick :: "string \<Rightarrow> modify_guild_member_fields \<Rightarrow> modify_guild_member_fields" where
  "modify_guild_member_set_nick v f = f\<lparr>mgmf_nick := Some v\<rparr>"
definition modify_guild_member_set_roles :: "(snowflake list) \<Rightarrow> modify_guild_member_fields \<Rightarrow> modify_guild_member_fields" where
  "modify_guild_member_set_roles v f = f\<lparr>mgmf_roles := Some v\<rparr>"
definition modify_guild_member_set_mute :: "bool \<Rightarrow> modify_guild_member_fields \<Rightarrow> modify_guild_member_fields" where
  "modify_guild_member_set_mute v f = f\<lparr>mgmf_mute := Some v\<rparr>"
definition modify_guild_member_set_deaf :: "bool \<Rightarrow> modify_guild_member_fields \<Rightarrow> modify_guild_member_fields" where
  "modify_guild_member_set_deaf v f = f\<lparr>mgmf_deaf := Some v\<rparr>"
definition modify_guild_member_set_channel_id :: "snowflake \<Rightarrow> modify_guild_member_fields \<Rightarrow> modify_guild_member_fields" where
  "modify_guild_member_set_channel_id v f = f\<lparr>mgmf_channel_id := Some v\<rparr>"
definition modify_guild_member_set_communication_disabled_until :: "string \<Rightarrow> modify_guild_member_fields \<Rightarrow> modify_guild_member_fields" where
  "modify_guild_member_set_communication_disabled_until v f = f\<lparr>mgmf_communication_disabled_until := Some v\<rparr>"
definition modify_guild_member_set_flags :: "u8 \<Rightarrow> modify_guild_member_fields \<Rightarrow> modify_guild_member_fields" where
  "modify_guild_member_set_flags v f = f\<lparr>mgmf_flags := Some v\<rparr>"

lemma modify_guild_member_sent:
  "json_at (modify_guild_member_fields_to_json (modify_guild_member_set_nick w0 f)) k = (if k = ''nick'' then Some (JStr (w0)) else json_at (modify_guild_member_fields_to_json f) k)"
  "json_at (modify_guild_member_fields_to_json (modify_guild_member_set_roles w1 f)) k = (if k = ''roles'' then Some (JArr (map snowflake_to_json (w1))) else json_at (modify_guild_member_fields_to_json f) k)"
  "json_at (modify_guild_member_fields_to_json (modify_guild_member_set_mute w2 f)) k = (if k = ''mute'' then Some (JBool (w2)) else json_at (modify_guild_member_fields_to_json f) k)"
  "json_at (modify_guild_member_fields_to_json (modify_guild_member_set_deaf w3 f)) k = (if k = ''deaf'' then Some (JBool (w3)) else json_at (modify_guild_member_fields_to_json f) k)"
  "json_at (modify_guild_member_fields_to_json (modify_guild_member_set_channel_id w4 f)) k = (if k = ''channel_id'' then Some (snowflake_to_json (w4)) else json_at (modify_guild_member_fields_to_json f) k)"
  "json_at (modify_guild_member_fields_to_json (modify_guild_member_set_communication_disabled_until w5 f)) k = (if k = ''communication_disabled_until'' then Some (JStr (w5)) else json_at (modify_guild_member_fields_to_json f) k)"
  "json_at (modify_guild_member_fields_to_json (modify_guild_member_set_flags w6 f)) k = (if k = ''flags'' then Some (juint (w6)) else json_at (modify_guild_member_fields_to_json f) k)"
proof -
  have d: "distinct (map fst (modify_guild_member_fields_members g))" for g by (simp add: modify_guild_member_fields_members_def)
  note at = json_at_written [OF one_value_distinct [OF d]]
  show
    "json_at (modify_guild_member_fields_to_json (modify_guild_member_set_nick w0 f)) k = (if k = ''nick'' then Some (JStr (w0)) else json_at (modify_guild_member_fields_to_json f) k)"
    "json_at (modify_guild_member_fields_to_json (modify_guild_member_set_roles w1 f)) k = (if k = ''roles'' then Some (JArr (map snowflake_to_json (w1))) else json_at (modify_guild_member_fields_to_json f) k)"
    "json_at (modify_guild_member_fields_to_json (modify_guild_member_set_mute w2 f)) k = (if k = ''mute'' then Some (JBool (w2)) else json_at (modify_guild_member_fields_to_json f) k)"
    "json_at (modify_guild_member_fields_to_json (modify_guild_member_set_deaf w3 f)) k = (if k = ''deaf'' then Some (JBool (w3)) else json_at (modify_guild_member_fields_to_json f) k)"
    "json_at (modify_guild_member_fields_to_json (modify_guild_member_set_channel_id w4 f)) k = (if k = ''channel_id'' then Some (snowflake_to_json (w4)) else json_at (modify_guild_member_fields_to_json f) k)"
    "json_at (modify_guild_member_fields_to_json (modify_guild_member_set_communication_disabled_until w5 f)) k = (if k = ''communication_disabled_until'' then Some (JStr (w5)) else json_at (modify_guild_member_fields_to_json f) k)"
    "json_at (modify_guild_member_fields_to_json (modify_guild_member_set_flags w6 f)) k = (if k = ''flags'' then Some (juint (w6)) else json_at (modify_guild_member_fields_to_json f) k)"
    unfolding modify_guild_member_fields_to_json_def at by (auto simp: modify_guild_member_fields_members_def modify_guild_member_set_nick_def modify_guild_member_set_roles_def modify_guild_member_set_mute_def modify_guild_member_set_deaf_def modify_guild_member_set_channel_id_def modify_guild_member_set_communication_disabled_until_def modify_guild_member_set_flags_def)
qed

record get_guild_fields =
  ggf_with_counts :: "bool option"

definition get_guild_fields_init :: get_guild_fields where
  "get_guild_fields_init = \<lparr>ggf_with_counts = None\<rparr>"

definition get_guild_set_with_counts :: "bool \<Rightarrow> get_guild_fields \<Rightarrow> get_guild_fields" where
  "get_guild_set_with_counts v f = f\<lparr>ggf_with_counts := Some v\<rparr>"

record get_guild_bans_fields =
  ggbf_limit :: "u64 option"
  ggbf_before :: "snowflake option"
  ggbf_after :: "snowflake option"

definition get_guild_bans_fields_init :: get_guild_bans_fields where
  "get_guild_bans_fields_init = \<lparr>ggbf_limit = None, ggbf_before = None, ggbf_after = None\<rparr>"

definition get_guild_bans_set_limit :: "u64 \<Rightarrow> get_guild_bans_fields \<Rightarrow> get_guild_bans_fields" where
  "get_guild_bans_set_limit v f = f\<lparr>ggbf_limit := Some v\<rparr>"
definition get_guild_bans_set_before :: "snowflake \<Rightarrow> get_guild_bans_fields \<Rightarrow> get_guild_bans_fields" where
  "get_guild_bans_set_before v f = f\<lparr>ggbf_before := Some v\<rparr>"
definition get_guild_bans_set_after :: "snowflake \<Rightarrow> get_guild_bans_fields \<Rightarrow> get_guild_bans_fields" where
  "get_guild_bans_set_after v f = f\<lparr>ggbf_after := Some v\<rparr>"

record list_guild_members_fields =
  lgmf_limit :: "u16 option"
  lgmf_after :: "snowflake option"

definition list_guild_members_fields_init :: list_guild_members_fields where
  "list_guild_members_fields_init = \<lparr>lgmf_limit = None, lgmf_after = None\<rparr>"

definition list_guild_members_set_after :: "snowflake \<Rightarrow> list_guild_members_fields \<Rightarrow> list_guild_members_fields" where
  "list_guild_members_set_after v f = f\<lparr>lgmf_after := Some v\<rparr>"
definition list_guild_members_set_limit :: "u16 \<Rightarrow> list_guild_members_fields \<Rightarrow> list_guild_members_fields" where
  "list_guild_members_set_limit v f = f\<lparr>lgmf_limit := Some v\<rparr>"

record search_guild_members_fields =
  sgmf_query :: "string option"
  sgmf_limit :: "u16 option"

definition search_guild_members_fields_init :: search_guild_members_fields where
  "search_guild_members_fields_init = \<lparr>sgmf_query = None, sgmf_limit = None\<rparr>"

definition search_guild_members_set_query :: "string \<Rightarrow> search_guild_members_fields \<Rightarrow> search_guild_members_fields" where
  "search_guild_members_set_query v f = f\<lparr>sgmf_query := Some v\<rparr>"
definition search_guild_members_set_limit :: "u16 \<Rightarrow> search_guild_members_fields \<Rightarrow> search_guild_members_fields" where
  "search_guild_members_set_limit v f = f\<lparr>sgmf_limit := Some v\<rparr>"

section \<open>Messages and responses\<close>

record create_message_fields =
  cmf_content :: "string option"
  cmf_nonce :: "u64 option"
  cmf_tts :: "bool option"
  cmf_embeds :: "embed list option"
  cmf_allowed_mentions :: "allowed_mentions option"
  cmf_message_reference :: "message_reference option"
  cmf_components :: "message_component list option"
  cmf_sticker_ids :: "snowflake list option"
  cmf_payload_json :: "string option"
  cmf_attachments :: "partial_attachment list option"
  cmf_flags :: "u32 option"

definition create_message_fields_init :: create_message_fields where
  "create_message_fields_init = \<lparr>cmf_content = None, cmf_nonce = None, cmf_tts = None, cmf_embeds = None, cmf_allowed_mentions = None,
     cmf_message_reference = None, cmf_components = None, cmf_sticker_ids = None, cmf_payload_json = None,
     cmf_attachments = None, cmf_flags = None\<rparr>"

definition create_message_fields_members :: "create_message_fields \<Rightarrow> json list option \<Rightarrow> (string \<times> json option) list" where
  "create_message_fields_members x cs = [
     (''content'', map_option JStr (cmf_content x)), (''nonce'', map_option juint (cmf_nonce x)),
     (''tts'', map_option JBool (cmf_tts x)),
     (''embeds'', map_option (\<lambda>xs. JArr (map embed_to_json xs)) (cmf_embeds x)),
     (''allowed_mentions'', map_option allowed_mentions_to_json (cmf_allowed_mentions x)),
     (''message_reference'', map_option message_reference_to_json (cmf_message_reference x)),
     (''components'', map_option JArr cs),
     (''sticker_ids'', map_option (\<lambda>xs. JArr (map snowflake_to_json xs)) (cmf_sticker_ids x)),
     (''payload_json'', map_option JStr (cmf_payload_json x)),
     (''attachments'', map_option (\<lambda>xs. JArr (map partial_attachment_to_json xs)) (cmf_attachments x)),
     (''flags'', map_option juint (cmf_flags x))]"

definition create_message_fields_to_json :: "create_message_fields \<Rightarrow> json option" where
  "create_message_fields_to_json x = map_option (\<lambda>cs. write_members (create_message_fields_members x cs)) (opt_components_to_json (cmf_components x))"

definition create_message_fields_from_json :: "json \<Rightarrow> create_message_fields option" where
  "create_message_fields_from_json j = do {
     v0 \<leftarrow> deserialize (to_opt get_string) j ''content'' None;
     v1 \<leftarrow> deserialize to_opt_u64 j ''nonce'' None;
     v2 \<leftarrow> deserialize to_opt_bool j ''tts'' None;
     v3 \<leftarrow> deserialize (to_opt (get_vector embed_from_json)) j ''embeds'' None;
     v4 \<leftarrow> deserialize (to_opt allowed_mentions_from_json) j ''allowed_mentions'' None;
     v5 \<leftarrow> deserialize (to_opt message_reference_from_json) j ''message_reference'' None;
     v6 \<leftarrow> deserialize (to_opt (get_vector message_component_from_json)) j ''components'' None;
     v7 \<leftarrow> deserialize (to_opt (get_vector get_snowflake)) j ''sticker_ids'' None;
     v8 \<leftarrow> deserialize (to_opt get_string) j ''payload_json'' None;
     v9 \<leftarrow> deserialize (to_opt (get_vector partial_attachment_from_json)) j ''attachments'' None;
     v10 \<leftarrow> deserialize (to_opt get_enum) j ''flags'' None;
     Some \<lparr>cmf_content = v0, cmf_nonce = v1, cmf_tts = v2, cmf_embeds = v3, cmf_allowed_mentions = v4,
       cmf_message_reference = v5, cmf_components = v6, cmf_sticker_ids = v7, cmf_payload_json = v8,
       cmf_attachments = v9, cmf_flags = v10\<rparr>
   }"

definition create_message_fields_ok :: "create_message_fields \<Rightarrow> bool" where
  "create_message_fields_ok x \<longleftrightarrow> pred_option (list_all embed_ok) (cmf_embeds x) \<and>
     pred_option (\<lambda>v. \<not> is_null (message_reference_to_json v)) (cmf_message_reference x) \<and>
     pred_option (list_all coherent_component) (cmf_components x)"

definition erase_create_message_fields :: "create_message_fields \<Rightarrow> create_message_fields" where
  "erase_create_message_fields x = x\<lparr>cmf_components := map_option (map erase_component) (cmf_components x)\<rparr>"

lemma create_message_fields_written:
  assumes ok: "create_message_fields_ok x"
  shows "\<exists>j y. create_message_fields_to_json x = Some j \<and> create_message_fields_from_json j = Some y \<and> erase_create_message_fields y = erase_create_message_fields x"
proof -
  obtain cs ys where cs: "opt_components_to_json (cmf_components x) = Some cs" "read_value (to_opt (get_vector message_component_from_json)) (Some (map_option JArr cs)) None = Some ys"
    "map_option (map erase_component) ys = map_option (map erase_component) (cmf_components x)"
    using opt_components_written [of "cmf_components x"] ok by (auto simp: create_message_fields_ok_def)
  have d: "distinct (map fst (create_message_fields_members x cs))" by (simp add: create_message_fields_members_def)
  have "create_message_fields_from_json (write_members (create_message_fields_members x cs)) = Some (x\<lparr>cmf_components := ys\<rparr>)"
    using ok cs(2) unfolding create_message_fields_from_json_def read_member [OF d]
    by (simp add: create_message_fields_members_def create_message_fields_ok_def)
  then show ?thesis using cs by (simp add: create_message_fields_to_json_def erase_create_message_fields_def)
qed

definition create_message_set_allowed_mentions :: "allowed_mentions \<Rightarrow> create_message_fields \<Rightarrow> create_message_fields" where
  "create_message_set_allowed_mentions v f = f\<lparr>cmf_allowed_mentions := Some v\<rparr>"
definition create_message_set_components :: "(message_component list) \<Rightarrow> create_message_fields \<Rightarrow> create_message_fields" where
  "create_message_set_components v f = f\<lparr>cmf_components := Some v\<rparr>"
definition create_message_set_content :: "string \<Rightarrow> create_message_fields \<Rightarrow> create_message_fields" where
  "create_message_set_content v f = f\<lparr>cmf_content := Some v\<rparr>"
definition create_message_set_embeds :: "(embed list) \<Rightarrow> create_message_fields \<Rightarrow> create_message_fields" where
  "create_message_set_embeds v f = f\<lparr>cmf_embeds := Some v\<rparr>"
definition create_message_set_flags :: "u32 \<Rightarrow> create_message_fields \<Rightarrow> create_message_fields" where
  "create_message_set_flags v f = f\<lparr>cmf_flags := Some v\<rparr>"
definition create_message_set_nonce :: "u64 \<Rightarrow> create_message_fields \<Rightarrow> create_message_fields" where
  "create_message_set_nonce v f = f\<lparr>cmf_nonce := Some v\<rparr>"
definition create_message_set_payload_json :: "string \<Rightarrow> create_message_fields \<Rightarrow> create_message_fields" where
  "create_message_set_payload_json v f = f\<lparr>cmf_payload_json := Some v\<rparr>"
definition create_message_set_sticker_ids :: "(snowflake list) \<Rightarrow> create_message_fields \<Rightarrow> create_message_fields" where
  "create_message_set_sticker_ids v f = f\<lparr>cmf_sticker_ids := Some v\<rparr>"
definition create_message_set_tts :: "bool \<Rightarrow> create_message_fields \<Rightarrow> create_message_fields" where
  "create_message_set_tts v f = f\<lparr>cmf_tts := Some v\<rparr>"

record edit_message_fields =
  emf_content :: "string option"
  emf_embeds :: "embed list option"
  emf_flags :: "u32 option"
  emf_allowed_mentions :: "allowed_mentions option"
  emf_components :: "message_component list option"
  emf_payload_json :: "string option"
  emf_attachments :: "partial_attachment list option"

definition edit_message_fields_init :: edit_message_fields where
  "edit_message_fields_init = \<lparr>emf_content = None, emf_embeds = None, emf_flags = None, emf_allowed_mentions = None,
     emf_components = None, emf_payload_json = None, emf_attachments = None\<rparr>"

definition edit_message_fields_members :: "edit_message_fields \<Rightarrow> json list option \<Rightarrow> (string \<times> json option) list" where
  "edit_message_fields_members x cs = [
     (''content'', map_option JStr (emf_content x)),
     (''embeds'', map_option (\<lambda>xs. JArr (map embed_to_json xs)) (emf_embeds x)),
     (''flags'', map_option juint (emf_flags x)),
     (''allowed_mentions'', map_option allowed_mentions_to_json (emf_allowed_mentions x)),
     (''components'', map_option JArr cs), (''payload_json'', map_option JStr (emf_payload_json x)),
     (''attachments'', map_option (\<lambda>xs. JArr (map partial_attachment_to_json xs)) (emf_attachments x))]"

definition edit_message_fields_to_json :: "edit_message_fields \<Rightarrow> json option" where
  "edit_message_fields_to_json x = map_option (\<lambda>cs. write_members (edit_message_fields_members x cs)) (opt_components_to_json (emf_components x))"

definition edit_message_fields_from_json :: "json \<Rightarrow> edit_message_fields option" where
  "edit_message_fields_from_json j = do {
     v0 \<leftarrow> deserialize (to_opt get_string) j ''content'' None;
     v1 \<leftarrow> deserialize (to_opt (get_vector embed_from_json)) j ''embeds'' None;
     v2 \<leftarrow> deserialize (to_opt get_enum) j ''flags'' None;
     v3 \<leftarrow> deserialize (to_opt allowed_mentions_from_json) j ''allowed_mentions'' None;
     v4 \<leftarrow> deserialize (to_opt (get_vector message_component_from_json)) j ''components'' None;
     v5 \<leftarrow> deserialize (to_opt get_string) j ''payload_json'' None;
     v6 \<leftarrow> deserialize (to_opt (get_vector partial_attachment_from_json)) j ''attachments'' None;
     Some \<lparr>emf_content = v0, emf_embeds = v1, emf_flags = v2, emf_allowed_mentions = v3, emf_components = v4,
       emf_payload_json = v5, emf_attachments = v6\<rparr>
   }"

definition edit_message_fields_ok :: "edit_message_fields \<Rightarrow> bool" where
  "edit_message_fields_ok x \<longleftrightarrow> pred_option (list_all embed_ok) (emf_embeds x) \<and>
     pred_option (list_all coherent_component) (emf_components x)"

definition erase_edit_message_fields :: "edit_message_fields \<Rightarrow> edit_message_fields" where
  "erase_edit_message_fields x = x\<lparr>emf_components := map_option (map erase_component) (emf_components x)\<rparr>"

lemma edit_message_fields_written:
  assumes ok: "edit_message_fields_ok x"
  shows "\<exists>j y. edit_message_fields_to_json x = Some j \<and> edit_message_fields_from_json j = Some y \<and> erase_edit_message_fields y = erase_edit_message_fields x"
proof -
  obtain cs ys where cs: "opt_components_to_json (emf_components x) = Some cs" "read_value (to_opt (get_vector message_component_from_json)) (Some (map_option JArr cs)) None = Some ys"
    "map_option (map erase_component) ys = map_option (map erase_component) (emf_components x)"
    using opt_components_written [of "emf_components x"] ok by (auto simp: edit_message_fields_ok_def)
  have d: "distinct (map fst (edit_message_fields_members x cs))" by (simp add: edit_message_fields_members_def)
  have "edit_message_fields_from_json (write_members (edit_message_fields_members x cs)) = Some (x\<lparr>emf_components := ys\<rparr>)"
    using ok cs(2) unfolding edit_message_fields_from_json_def read_member [OF d]
    by (simp add: edit_message_fields_members_def edit_message_fields_ok_def)
  then show ?thesis using cs by (simp add: edit_message_fields_to_json_def erase_edit_message_fields_def)
qed

definition edit_message_set_allowed_mentions :: "allowed_mentions \<Rightarrow> edit_message_fields \<Rightarrow> edit_message_fields" where
  "edit_message_set_allowed_mentions v f = f\<lparr>emf_allowed_mentions := Some v\<rparr>"
definition edit_message_set_content :: "string \<Rightarrow> edit_message_fields \<Rightarrow> edit_message_fields" where
  "edit_message_set_content v f = f\<lparr>emf_content := Some v\<rparr>"
definition edit_message_set_components :: "(message_component list) \<Rightarrow> edit_message_fields \<Rightarrow> edit_message_fields" where
  "edit_message_set_components v f = f\<lparr>emf_components := Some v\<rparr>"
definition edit_message_set_embeds :: "(embed list) \<Rightarrow> edit_message_fields \<Rightarrow> edit_message_fields" where
  "edit_message_set_embeds v f = f\<lparr>emf_embeds := Some v\<rparr>"
definition edit_message_set_flags :: "u32 \<Rightarrow> edit_message_fields \<Rightarrow> edit_message_fields" where
  "edit_message_set_flags v f = f\<lparr>emf_flags := Some v\<rparr>"
definition edit_message_set_payload_json :: "string \<Rightarrow> edit_message_fields \<Rightarrow> edit_message_fields" where
  "edit_message_set_payload_json v f = f\<lparr>emf_payload_json := Some v\<rparr>"

record interaction_response_data =
  ird_tts :: "bool option"
  ird_content :: "string option"
  ird_embeds :: "embed list option"
  ird_allowed_mentions :: "allowed_mentions option"
  ird_flags :: "u32 option"
  ird_components :: "message_component list option"
  ird_attachments :: "partial_attachment list option"
  ird_choices :: "option_choice list option"
  ird_custom_id :: "string option"
  ird_title :: "string option"
  ird_poll :: "poll option"

definition interaction_response_data_init :: interaction_response_data where
  "interaction_response_data_init = \<lparr>ird_tts = None, ird_content = None, ird_embeds = None, ird_allowed_mentions = None, ird_flags = None,
     ird_components = None, ird_attachments = None, ird_choices = None, ird_custom_id = None, ird_title = None,
     ird_poll = None\<rparr>"

definition interaction_response_data_members :: "interaction_response_data \<Rightarrow> json list option \<Rightarrow> (string \<times> json option) list" where
  "interaction_response_data_members x cs = [
     (''tts'', map_option JBool (ird_tts x)), (''content'', map_option JStr (ird_content x)),
     (''embeds'', map_option (\<lambda>xs. JArr (map embed_to_json xs)) (ird_embeds x)),
     (''allowed_mentions'', map_option allowed_mentions_to_json (ird_allowed_mentions x)),
     (''flags'', map_option juint (ird_flags x)), (''components'', map_option JArr cs),
     (''attachments'', map_option (\<lambda>xs. JArr (map partial_attachment_to_json xs)) (ird_attachments x)),
     (''choices'', map_option (\<lambda>xs. JArr (map option_choice_to_json xs)) (ird_choices x)),
     (''custom_id'', map_option JStr (ird_custom_id x)), (''title'', map_option JStr (ird_title x)),
     (''poll'', map_option poll_to_json (ird_poll x))]"

definition interaction_response_data_to_json :: "interaction_response_data \<Rightarrow> json option" where
  "interaction_response_data_to_json x = map_option (\<lambda>cs. write_members (interaction_response_data_members x cs)) (opt_components_to_json (ird_components x))"

definition interaction_response_data_from_json :: "json \<Rightarrow> interaction_response_data option" where
  "interaction_response_data_from_json j = do {
     v0 \<leftarrow> deserialize to_opt_bool j ''tts'' None;
     v1 \<leftarrow> deserialize (to_opt get_string) j ''content'' None;
     v2 \<leftarrow> deserialize (to_opt (get_vector embed_from_json)) j ''embeds'' None;
     v3 \<leftarrow> deserialize (to_opt allowed_mentions_from_json) j ''allowed_mentions'' None;
     v4 \<leftarrow> deserialize (to_opt get_enum) j ''flags'' None;
     v5 \<leftarrow> deserialize (to_opt (get_vector message_component_from_json)) j ''components'' None;
     v6 \<leftarrow> deserialize (to_opt (get_vector partial_attachment_from_json)) j ''attachments'' None;
     v7 \<leftarrow> deserialize (to_opt (get_vector option_choice_from_json)) j ''choices'' None;
     v8 \<leftarrow> deserialize (to_opt get_string) j ''custom_id'' None;
     v9 \<leftarrow> deserialize (to_opt get_string) j ''title'' None;
     v10 \<leftarrow> deserialize (to_opt poll_from_json) j ''poll'' None;
     Some \<lparr>ird_tts = v0, ird_content = v1, ird_embeds = v2, ird_allowed_mentions = v3, ird_flags = v4,
       ird_components = v5, ird_attachments = v6, ird_choices = v7, ird_custom_id = v8, ird_title = v9,
       ird_poll = v10\<rparr>
   }"

definition interaction_response_data_ok :: "interaction_response_data \<Rightarrow> bool" where
  "interaction_response_data_ok x \<longleftrightarrow> pred_option (list_all embed_ok) (ird_embeds x) \<and>
     pred_option (list_all coherent_component) (ird_components x) \<and>
     pred_option (list_all is_text) (ird_choices x)"

definition erase_interaction_response_data :: "interaction_response_data \<Rightarrow> interaction_response_data" where
  "erase_interaction_response_data x = x\<lparr>ird_components := map_option (map erase_component) (ird_components x)\<rparr>"

lemma interaction_response_data_written:
  assumes ok: "interaction_response_data_ok x"
  shows "\<exists>j y. interaction_response_data_to_json x = Some j \<and> interaction_response_data_from_json j = Some y \<and> erase_interaction_response_data y = erase_interaction_response_data x"
proof -
  obtain cs ys where cs: "opt_components_to_json (ird_components x) = Some cs" "read_value (to_opt (get_vector message_component_from_json)) (Some (map_option JArr cs)) None = Some ys"
    "map_option (map erase_component) ys = map_option (map erase_component) (ird_components x)"
    using opt_components_written [of "ird_components x"] ok by (auto simp: interaction_response_data_ok_def)
  have d: "distinct (map fst (interaction_response_data_members x cs))" by (simp add: interaction_response_data_members_def)
  have "interaction_response_data_from_json (write_members (interaction_response_data_members x cs)) = Some (x\<lparr>ird_components := ys\<rparr>)"
    using ok cs(2) unfolding interaction_response_data_from_json_def read_member [OF d]
    by (simp add: interaction_response_data_members_def interaction_response_data_ok_def)
  then show ?thesis using cs by (simp add: interaction_response_data_to_json_def erase_interaction_response_data_def)
qed

record interaction_response =
  ir_type :: u8
  ir_data :: "interaction_response_data option"

definition interaction_response_init :: interaction_response where
  "interaction_response_init = \<lparr>ir_type = 0, ir_data = None\<rparr>"

text \<open>Data without any member is written as null.\<close>

definition interaction_response_to_json :: "interaction_response \<Rightarrow> json option" where
  "interaction_response_to_json x = map_option (\<lambda>d. write_members [(''type'', Some (juint (ir_type x))), (''data'', d)])
     (opt_written interaction_response_data_to_json (ir_data x))"

definition interaction_response_from_json :: "json \<Rightarrow> interaction_response option" where
  "interaction_response_from_json j = do {
     t \<leftarrow> deserialize (to_value get_enum) j ''type'' 0;
     d \<leftarrow> deserialize (to_opt interaction_response_data_from_json) j ''data'' None;
     Some \<lparr>ir_type = t, ir_data = d\<rparr>
   }"

text \<open>The builder creates the data when a member of it is set first.\<close>

definition with_data ::
    "(interaction_response_data \<Rightarrow> interaction_response_data) \<Rightarrow> interaction_response \<Rightarrow> interaction_response" where
  "with_data u r = r\<lparr>ir_data := Some (u (case ir_data r of None \<Rightarrow> interaction_response_data_init | Some d \<Rightarrow> d))\<rparr>"

definition response_set_type :: "u8 \<Rightarrow> interaction_response \<Rightarrow> interaction_response" where
  "response_set_type t r = r\<lparr>ir_type := t\<rparr>"

definition response_set_tts :: "bool \<Rightarrow> interaction_response \<Rightarrow> interaction_response" where
  "response_set_tts v = with_data (\<lambda>d. d\<lparr>ird_tts := Some v\<rparr>)"
definition response_set_content :: "string \<Rightarrow> interaction_response \<Rightarrow> interaction_response" where
  "response_set_content v = with_data (\<lambda>d. d\<lparr>ird_content := Some v\<rparr>)"
definition response_set_embeds :: "(embed list) \<Rightarrow> interaction_response \<Rightarrow> interaction_response" where
  "response_set_embeds v = with_data (\<lambda>d. d\<lparr>ird_embeds := Some v\<rparr>)"
definition response_set_allowed_mentions :: "allowed_mentions \<Rightarrow> interaction_response \<Rightarrow> interaction_response" where
  "response_set_allowed_mentions v = with_data (\<lambda>d. d\<lparr>ird_allowed_mentions := Some v\<rparr>)"
definition response_set_flags :: "u32 \<Rightarrow> interaction_response \<Rightarrow> interaction_response" where
  "response_set_flags v = with_data (\<lambda>d. d\<lparr>ird_flags := Some v\<rparr>)"
definition response_set_components :: "(message_component list) \<Rightarrow> interaction_response \<Rightarrow> interaction_response" where
  "response_set_components v = with_data (\<lambda>d. d\<lparr>ird_components := Some v\<rparr>)"
definition response_set_attachments :: "(partial_attachment list) \<Rightarrow> interaction_response \<Rightarrow> interaction_response" where
  "response_set_attachments v = with_data (\<lambda>d. d\<lparr>ird_attachments := Some v\<rparr>)"
definition response_set_choices :: "(option_choice list) \<Rightarrow> interaction_response \<Rightarrow> interaction_response" where
  "response_set_choices v = with_data (\<lambda>d. d\<lparr>ird_choices := Some v\<rparr>)"
definition response_set_custom_id :: "string \<Rightarrow> interaction_response \<Rightarrow> interaction_response" where
  "response_set_custom_id v = with_data (\<lambda>d. d\<lparr>ird_custom_id := Some v\<rparr>)"
definition response_set_title :: "string \<Rightarrow> interaction_response \<Rightarrow> interaction_response" where
  "response_set_title v = with_data (\<lambda>d. d\<lparr>ird_title := Some v\<rparr>)"
definition response_set_poll :: "poll \<Rightarrow> interaction_response \<Rightarrow> interaction_response" where
  "response_set_poll v = with_data (\<lambda>d. d\<lparr>ird_poll := Some v\<rparr>)"

section \<open>Options that are never sent\<close>

text \<open>
  Options that are accepted and never sent. Whatever is set on the creation of an invite, its body is null:
  the conversion of its structure is empty. Of the creation of a guild, the channel and timeout for absent
  members and the channel and flags for system messages do not change what is sent.
\<close>

theorem options_never_sent:
  "create_invite_fields_to_json f = JNull \<and>
   create_guild_fields_to_json (create_guild_set_afk_channel_id a g) = create_guild_fields_to_json g \<and>
   create_guild_fields_to_json (create_guild_set_afk_timeout t g) = create_guild_fields_to_json g \<and>
   create_guild_fields_to_json (create_guild_set_system_channel_id s g) = create_guild_fields_to_json g \<and>
   create_guild_fields_to_json (create_guild_set_system_channel_flags fl g) = create_guild_fields_to_json g"
  by (simp add: create_invite_fields_to_json_def create_invite_fields_members_def write_members_def
      create_guild_fields_to_json_def create_guild_fields_members_def create_guild_set_afk_channel_id_def
      create_guild_set_afk_timeout_def create_guild_set_system_channel_id_def create_guild_set_system_channel_flags_def)

end
