(* ===== verification/Multipart.thy ===== *)
theory Multipart
  imports Json "HOL-Library.Sublist"
begin

text \<open>
  \<^verbatim>\<open>include/ekizu/request/detail/multipart_form_data.hpp\<close>: the body of a request that uploads files, and what a
  receiver makes of it. The receiver (\<open>parse_multipart\<close>) follows RFC 2046: it cuts the body at the delimiter,
  reads header lines up to an empty line, and takes the rest of a part as its content. The encoder
  does not look at what it encodes; the theorem states what has to be absent from file names, content
  types and contents for the receiver to get what was uploaded.
\<close>

section \<open>Encoding\<close>

record upload =
  up_filename :: string
  up_data :: string
  up_content_type :: "string option"
  up_description :: "string option"

abbreviation CR :: char where "CR \<equiv> CHR 0x0D"
abbreviation LF :: char where "LF \<equiv> CHR 0x0A"
abbreviation QUOTE :: char where "QUOTE \<equiv> CHR 0x22"

definition crlf :: string where "crlf = [CR, LF]"

definition make_multipart_boundary :: "u64 \<Rightarrow> u64 \<times> string" where
  "make_multipart_boundary ctr = (let n = ctr + 1 in (n, ''----ekizu-multipart-'' @ to_string n))"

definition payload_part :: "string \<Rightarrow> string \<Rightarrow> string" where
  "payload_part b payload = ''--'' @ b @ crlf @
     ''Content-Disposition: form-data; name='' @ [QUOTE] @ ''payload_json'' @ [QUOTE] @ crlf @
     ''Content-Type: application/json'' @ crlf @ crlf @ payload @ crlf"

definition content_type_of :: "upload \<Rightarrow> string" where
  "content_type_of f = (case up_content_type f of Some t \<Rightarrow> t | None \<Rightarrow> ''application/octet-stream'')"

definition file_part :: "string \<Rightarrow> nat \<Rightarrow> upload \<Rightarrow> string" where
  "file_part b i f = ''--'' @ b @ crlf @
     ''Content-Disposition: form-data; name='' @ [QUOTE] @ ''files['' @ to_decimal i @ '']'' @ [QUOTE] @ ''; '' @
     ''filename='' @ [QUOTE] @ up_filename f @ [QUOTE] @ crlf @
     ''Content-Type: '' @ content_type_of f @ crlf @ crlf @ up_data f @ crlf"

fun file_parts :: "string \<Rightarrow> nat \<Rightarrow> upload list \<Rightarrow> string" where
  "file_parts b i [] = []"
| "file_parts b i (f # fs) = file_part b i f @ file_parts b (Suc i) fs"

definition encode_multipart_form_data :: "string \<Rightarrow> string \<Rightarrow> upload list \<Rightarrow> string" where
  "encode_multipart_form_data b payload files =
     payload_part b payload @ file_parts b 0 files @ ''--'' @ b @ ''--'' @ crlf"

section \<open>The receiver\<close>

fun find_split :: "string \<Rightarrow> string \<Rightarrow> (string \<times> string) option" where
  "find_split d [] = (if d = [] then Some ([], []) else None)"
| "find_split d (x # xs) = (if prefix d (x # xs) then Some ([], drop (length d) (x # xs))
     else map_option (\<lambda>(a, b). (x # a, b)) (find_split d xs))"

lemma find_split_eq: "find_split d xs = Some (a, b) \<Longrightarrow> xs = a @ d @ b"
  by (induction xs arbitrary: a) (auto split: if_splits simp: prefix_def)

lemma find_split_shorter: "find_split d xs = Some (a, b) \<Longrightarrow> d \<noteq> [] \<Longrightarrow> length b < length xs"
  using find_split_eq [of d xs a b] by (cases d) auto

function read_headers :: "string \<Rightarrow> (string list \<times> string) option" where
  "read_headers s = (case find_split crlf s of
     None \<Rightarrow> None
   | Some (l, r) \<Rightarrow> if l = [] then Some ([], r) else map_option (\<lambda>(ls, d). (l # ls, d)) (read_headers r))"
  by pat_completeness auto
termination
  by (relation "measure length") (auto simp: crlf_def dest: find_split_shorter)

declare read_headers.simps [simp del]

definition header_value :: "string \<Rightarrow> string list \<Rightarrow> string option" where
  "header_value k hs = map_option (drop (length k + 2)) (List.find (prefix (k @ '': '')) hs)"

definition quoted_param :: "string \<Rightarrow> string \<Rightarrow> string option" where
  "quoted_param k v = (case find_split (''; '' @ k @ ''='' @ [QUOTE]) v of
     None \<Rightarrow> None | Some (_, r) \<Rightarrow> map_option fst (find_split [QUOTE] r))"

record part =
  pt_name :: string
  pt_filename :: "string option"
  pt_type :: string
  pt_data :: string

definition parse_part :: "string \<Rightarrow> part option" where
  "parse_part s = do {
     (hs, d) \<leftarrow> read_headers s;
     v \<leftarrow> header_value ''Content-Disposition'' hs;
     n \<leftarrow> quoted_param ''name'' v;
     t \<leftarrow> header_value ''Content-Type'' hs;
     Some \<lparr>pt_name = n, pt_filename = quoted_param ''filename'' v, pt_type = t, pt_data = d\<rparr>
   }"

definition delimiter :: "string \<Rightarrow> string" where
  "delimiter b = crlf @ ''--'' @ b"

function parse_rest :: "string \<Rightarrow> string \<Rightarrow> part list option" where
  "parse_rest b s =
     (if prefix ''--'' s then Some []
      else if \<not> prefix crlf s then None
      else (case find_split (delimiter b) (drop 2 s) of
          None \<Rightarrow> None
        | Some (p, r) \<Rightarrow> Option.bind (parse_part p) (\<lambda>x. map_option ((#) x) (parse_rest b r))))"
  by pat_completeness auto
termination
  by (relation "measure (length \<circ> snd)") (auto simp: delimiter_def crlf_def dest!: find_split_shorter)

declare parse_rest.simps [simp del]

definition parse_multipart :: "string \<Rightarrow> string \<Rightarrow> part list option" where
  "parse_multipart b body = (if prefix (''--'' @ b) body then parse_rest b (drop (length b + 2) body) else None)"

section \<open>Finding delimiters\<close>

lemma find_split_here [simp]: "find_split d (d @ ys) = Some ([], ys)"
  by (cases d; cases ys) auto

lemma find_split_skip:
  assumes "d \<noteq> []" "hd d \<notin> set xs"
  shows "find_split d (xs @ ys) = map_option (\<lambda>(a, b). (xs @ a, b)) (find_split d ys)"
  using assms
proof (induction xs)
  case (Cons x xs)
  then have "\<not> prefix d (x # xs @ ys)" by (cases d) auto
  with Cons show ?case by (simp add: option.map_comp o_def split_def)
qed (simp add: option.map_ident split_def)

text \<open>A delimiter whose first character does not come again in it is found where it is, if it is not in what comes before.\<close>

lemma find_split_first:
  assumes "d = c # ds" "c \<notin> set ds" "\<not> sublist d xs"
  shows "find_split d (xs @ d @ ys) = Some (xs, ys)"
  using assms(3)
proof (induction xs)
  case (Cons x xs)
  have "\<not> prefix d (x # xs @ d @ ys)"
  proof
    assume p: "prefix d (x # xs @ d @ ys)"
    show False
    proof (cases "length d \<le> length (x # xs)")
      case True
      with p have "prefix d (x # xs)" by (metis append_Cons prefix_length_prefix prefix_def)
      then show False using Cons.prems prefix_imp_sublist by blast
    next
      case False
      then have n: "length (x # xs) < length d" by simp
      from p have "d ! length (x # xs) = (x # xs @ d @ ys) ! length (x # xs)"
        using n by (metis nth_append prefix_def)
      also have "\<dots> = c" using assms(1) by (simp add: nth_append)
      finally have "ds ! length xs = c" using assms(1) by simp
      moreover have "length xs < length ds" using n assms(1) by simp
      ultimately show False using assms(2) nth_mem by blast
    qed
  qed
  moreover have "\<not> sublist d xs" using Cons.prems by (meson sublist_Cons_right)
  ultimately show ?case using Cons.IH by simp
qed simp

lemma find_line: "CR \<notin> set l \<Longrightarrow> find_split crlf (l @ crlf @ r) = Some (l, r)"
  by (subst find_split_skip) (simp_all add: crlf_def)

lemma read_headers_line: "l \<noteq> [] \<Longrightarrow> CR \<notin> set l \<Longrightarrow>
    read_headers (l @ crlf @ r) = map_option (\<lambda>(ls, d). (l # ls, d)) (read_headers r)"
  by (subst read_headers.simps) (simp add: find_line)

lemma read_headers_end: "read_headers (crlf @ d) = Some ([], d)"
  by (subst read_headers.simps) simp

lemma no_digits [simp]:
  "CR \<notin> set (to_decimal n)" "LF \<notin> set (to_decimal n)" "QUOTE \<notin> set (to_decimal n)" "CHR '';'' \<notin> set (to_decimal n)"
  using to_decimal_digits [of n] by (auto simp: list_all_iff is_digit_def)

section \<open>Parts\<close>

definition payload_content :: "string \<Rightarrow> string" where
  "payload_content payload =
     ''Content-Disposition: form-data; name='' @ [QUOTE] @ ''payload_json'' @ [QUOTE] @ crlf @
     ''Content-Type: application/json'' @ crlf @ crlf @ payload"

definition file_content :: "nat \<Rightarrow> upload \<Rightarrow> string" where
  "file_content i f =
     ''Content-Disposition: form-data; name='' @ [QUOTE] @ ''files['' @ to_decimal i @ '']'' @ [QUOTE] @ ''; '' @
     ''filename='' @ [QUOTE] @ up_filename f @ [QUOTE] @ crlf @
     ''Content-Type: '' @ content_type_of f @ crlf @ crlf @ up_data f"

definition payload_received :: "string \<Rightarrow> part" where
  "payload_received payload = \<lparr>pt_name = ''payload_json'', pt_filename = None, pt_type = ''application/json'', pt_data = payload\<rparr>"

definition file_received :: "nat \<Rightarrow> upload \<Rightarrow> part" where
  "file_received i f = \<lparr>pt_name = ''files['' @ to_decimal i @ '']'', pt_filename = Some (up_filename f),
     pt_type = content_type_of f, pt_data = up_data f\<rparr>"

text \<open>What has to hold of an upload: no line break or quote in its name, none in its type, no delimiter in its content.\<close>

definition safe_content :: "string \<Rightarrow> string \<Rightarrow> bool" where
  "safe_content b d \<longleftrightarrow> \<not> sublist (delimiter b) (crlf @ d)"

definition safe_upload :: "string \<Rightarrow> upload \<Rightarrow> bool" where
  "safe_upload b f \<longleftrightarrow> CR \<notin> set (up_filename f) \<and> QUOTE \<notin> set (up_filename f) \<and> CR \<notin> set (content_type_of f) \<and>
     safe_content b (up_data f)"

lemma two_headers:
  assumes "CR \<notin> set l" "CR \<notin> set m" "l \<noteq> []" "m \<noteq> []"
  shows "read_headers (l @ crlf @ m @ crlf @ crlf @ d) = Some ([l, m], d)"
  using assms by (simp add: read_headers_line read_headers_end)

lemma name_param:
  "quoted_param ''name'' (''form-data; name='' @ QUOTE # n @ QUOTE # r) = Some n" if "QUOTE \<notin> set n"
proof -
  have "find_split [QUOTE] (n @ [QUOTE] @ r) = Some (n, r)" using that by (subst find_split_skip) simp_all
  then show ?thesis by (simp add: quoted_param_def)
qed

lemma filename_param:
  assumes "CHR '';'' \<notin> set n" "QUOTE \<notin> set fn"
  shows "quoted_param ''filename'' (''form-data; name='' @ QUOTE # n @ QUOTE # ''; filename='' @ QUOTE # fn @ [QUOTE]) = Some fn"
proof -
  have "find_split [QUOTE] (fn @ [QUOTE] @ []) = Some (fn, [])" using assms(2) by (subst find_split_skip) simp_all
  moreover have "find_split (''; filename='' @ [QUOTE]) (('' name='' @ QUOTE # n @ [QUOTE]) @ (''; filename='' @ [QUOTE]) @ fn @ [QUOTE])
      = Some ('' name='' @ QUOTE # n @ [QUOTE], fn @ [QUOTE])"
    using assms(1) by (subst find_split_skip) (simp, simp, simp only: find_split_here option.map prod.case append_Nil2)
  ultimately show ?thesis by (simp add: quoted_param_def)
qed

lemma no_filename_param:
  "CHR '';'' \<notin> set n \<Longrightarrow> quoted_param ''filename'' (''form-data; name='' @ QUOTE # n @ [QUOTE]) = None"
  using find_split_skip [of "''; filename='' @ [QUOTE]" "'' name='' @ QUOTE # n @ [QUOTE]" "[]"]
  by (simp add: quoted_param_def)

lemma header_values:
  "header_value ''Content-Disposition'' [''Content-Disposition: '' @ v, ''Content-Type: '' @ t] = Some v"
  "header_value ''Content-Type'' [''Content-Disposition: '' @ v, ''Content-Type: '' @ t] = Some t"
  by (simp_all add: header_value_def)

lemma parse_part_written:
  assumes "CR \<notin> set v" "CR \<notin> set t" "quoted_param ''name'' v = Some n"
  shows "parse_part ((''Content-Disposition: '' @ v) @ crlf @ (''Content-Type: '' @ t) @ crlf @ crlf @ d) =
    Some \<lparr>pt_name = n, pt_filename = quoted_param ''filename'' v, pt_type = t, pt_data = d\<rparr>"
proof -
  have "read_headers ((''Content-Disposition: '' @ v) @ crlf @ (''Content-Type: '' @ t) @ crlf @ crlf @ d) =
      Some ([''Content-Disposition: '' @ v, ''Content-Type: '' @ t], d)"
    using assms(1,2) by (intro two_headers) simp_all
  with assms(3) show ?thesis unfolding parse_part_def by (simp only: bind.bind_lunit prod.case header_values)
qed

lemma parse_payload: "parse_part (payload_content d) = Some (payload_received d)"
proof -
  let ?v = "''form-data; name='' @ QUOTE # ''payload_json'' @ [QUOTE]"
  have "quoted_param ''name'' ?v = Some ''payload_json''" "quoted_param ''filename'' ?v = None"
    using name_param [of "''payload_json''" "[]"] no_filename_param [of "''payload_json''"] by simp_all
  with parse_part_written [of ?v "''application/json''" _ d] show ?thesis
    by (simp add: payload_content_def payload_received_def)
qed

lemma parse_file:
  assumes "safe_upload b f"
  shows "parse_part (file_content i f) = Some (file_received i f)"
proof -
  let ?n = "''files['' @ to_decimal i @ '']''"
  let ?v = "''form-data; name='' @ QUOTE # ?n @ QUOTE # ''; filename='' @ QUOTE # up_filename f @ [QUOTE]"
  have n: "quoted_param ''name'' ?v = Some ?n" by (rule name_param) simp
  have fn: "quoted_param ''filename'' ?v = Some (up_filename f)"
    by (rule filename_param) (use assms in \<open>simp_all add: safe_upload_def\<close>)
  have "CR \<notin> set ?v" "CR \<notin> set (content_type_of f)" using assms by (simp_all add: safe_upload_def)
  from parse_part_written [OF this n, of "up_data f"] show ?thesis
    unfolding fn by (simp add: file_content_def file_received_def)
qed

text \<open>No delimiter in a part: after a header line comes another one, and after the headers the content.\<close>

lemma sublist_skip: "c \<notin> set l \<Longrightarrow> sublist (c # d) (l @ r) \<longleftrightarrow> sublist (c # d) r"
  by (induction l) (auto simp: sublist_Cons_right)

lemma delimiter_Cons: "delimiter b = CR # LF # ''--'' @ b"
  by (simp add: delimiter_def crlf_def)

lemma no_delimiter_in_part:
  assumes "CR \<notin> set l" "CR \<notin> set m" "m \<noteq> []" "hd m \<noteq> CHR ''-''" "safe_content b d"
  shows "\<not> sublist (delimiter b) (l @ crlf @ m @ crlf @ crlf @ d)"
proof -
  obtain x xs where m: "m = x # xs" using assms(3) by (cases m) auto
  have "sublist (delimiter b) (l @ crlf @ m @ crlf @ crlf @ d) \<longleftrightarrow> sublist (delimiter b) (crlf @ m @ crlf @ crlf @ d)"
    using assms(1) by (simp add: delimiter_Cons sublist_skip)
  also have "\<dots> \<longleftrightarrow> sublist (delimiter b) (m @ crlf @ crlf @ d)"
    using assms(4) m by (simp add: delimiter_Cons crlf_def sublist_Cons_right)
  also have "\<dots> \<longleftrightarrow> sublist (delimiter b) (crlf @ crlf @ d)"
    using assms(2) by (simp add: delimiter_Cons sublist_skip)
  also have "\<dots> \<longleftrightarrow> sublist (delimiter b) (crlf @ d)"
    by (simp add: delimiter_Cons crlf_def sublist_Cons_right)
  finally show ?thesis using assms(5) by (simp add: safe_content_def)
qed

lemma no_delimiter_payload: "safe_content b d \<Longrightarrow> \<not> sublist (delimiter b) (payload_content d)"
  using no_delimiter_in_part [of "''Content-Disposition: form-data; name='' @ QUOTE # ''payload_json'' @ [QUOTE]"
      "''Content-Type: application/json''" b d]
  by (simp add: payload_content_def)

lemma no_delimiter_file: "safe_upload b f \<Longrightarrow> \<not> sublist (delimiter b) (file_content i f)"
  using no_delimiter_in_part [of "''Content-Disposition: form-data; name='' @ QUOTE # ''files['' @ to_decimal i @ '']'' @
      QUOTE # ''; filename='' @ QUOTE # up_filename f @ [QUOTE]" "''Content-Type: '' @ content_type_of f" b "up_data f"]
  by (simp add: file_content_def safe_upload_def)

section \<open>Received as sent\<close>

lemma parse_rest_end: "parse_rest b (''--'' @ r) = Some []"
  by (subst parse_rest.simps) simp

lemma parse_rest_part:
  assumes "CR \<notin> set b" "\<not> sublist (delimiter b) p" "parse_part p = Some x"
  shows "parse_rest b (crlf @ p @ delimiter b @ r) = map_option ((#) x) (parse_rest b r)"
proof -
  have "find_split (delimiter b) (p @ delimiter b @ r) = Some (p, r)"
    using assms(1,2) by (intro find_split_first [OF delimiter_Cons]) auto
  with assms(3) show ?thesis by (subst parse_rest.simps) (simp add: crlf_def)
qed

definition after_boundary :: "string \<Rightarrow> string \<Rightarrow> string" where
  "after_boundary b s = drop (length b + 2) s"

lemma after_boundary [simp]: "after_boundary b (CHR ''-'' # CHR ''-'' # b @ r) = r"
  by (simp add: after_boundary_def)

lemma file_parts_start:
  "\<exists>r. file_parts b i fs @ ''--'' @ b @ ''--'' @ crlf = ''--'' @ b @ r"
  by (cases fs) (auto simp: file_part_def)

lemma parse_files:
  assumes "CR \<notin> set b" "list_all (safe_upload b) fs"
  shows "parse_rest b (after_boundary b (file_parts b i fs @ ''--'' @ b @ ''--'' @ crlf)) =
    Some (map (\<lambda>(j, f). file_received j f) (enumerate i fs))"
  using assms(2)
proof (induction fs arbitrary: i)
  case Nil
  then show ?case using parse_rest_end [of b crlf] by simp
next
  case (Cons f fs)
  obtain r where r: "file_parts b (Suc i) fs @ ''--'' @ b @ ''--'' @ crlf = ''--'' @ b @ r"
    using file_parts_start by blast
  have "file_parts b i (f # fs) @ ''--'' @ b @ ''--'' @ crlf =
      ''--'' @ b @ crlf @ file_content i f @ delimiter b @ r"
    using r by (simp add: file_part_def file_content_def delimiter_def)
  moreover have "parse_rest b r = Some (map (\<lambda>(j, f). file_received j f) (enumerate (Suc i) fs))"
    using Cons.IH [of "Suc i"] Cons.prems r by simp
  moreover have "parse_rest b (crlf @ file_content i f @ delimiter b @ r) = map_option ((#) (file_received i f)) (parse_rest b r)"
    using Cons.prems assms(1) by (intro parse_rest_part no_delimiter_file parse_file [of b]) simp_all
  ultimately show ?case by simp
qed

lemma multipart_written:
  assumes "CR \<notin> set b" "safe_content b payload" "list_all (safe_upload b) files"
  shows "parse_multipart b (encode_multipart_form_data b payload files) =
    Some (payload_received payload # map (\<lambda>(i, f). file_received i f) (enumerate 0 files))"
proof -
  obtain r where r: "file_parts b 0 files @ ''--'' @ b @ ''--'' @ crlf = ''--'' @ b @ r"
    using file_parts_start by blast
  have e: "encode_multipart_form_data b payload files = ''--'' @ b @ crlf @ payload_content payload @ delimiter b @ r"
    using r by (simp add: encode_multipart_form_data_def payload_part_def payload_content_def delimiter_def)
  have "parse_rest b r = Some (map (\<lambda>(i, f). file_received i f) (enumerate 0 files))"
    using parse_files [OF assms(1,3), of 0] r by simp
  moreover have "parse_rest b (crlf @ payload_content payload @ delimiter b @ r) =
      map_option ((#) (payload_received payload)) (parse_rest b r)"
    using assms(1,2) by (intro parse_rest_part no_delimiter_payload parse_payload)
  ultimately show ?thesis unfolding e parse_multipart_def by (simp add: after_boundary_def)
qed

text \<open>
  An upload arrives. A receiver that reads the body of a request with the boundary of its header gets the
  message and then every file under its number, with its name, type and exact content, provided that no
  name holds a quote or a carriage return, no content type a carriage return, and no content a line that
  starts with the boundary.
\<close>

theorem multipart_received:
  assumes "CR \<notin> set b" "safe_content b payload" "list_all (safe_upload b) files"
  shows "parse_multipart b (encode_multipart_form_data b payload files) =
    Some (payload_received payload # map (\<lambda>(i, f). file_received i f) (enumerate 0 files))"
  using assms by (rule multipart_written)

definition example_file :: upload where
  "example_file = \<lparr>up_filename = ''a.png'', up_data = ''x'' @ crlf @ ''--y'', up_content_type = Some ''image/png'', up_description = None\<rparr>"

lemma example_boundary: "make_multipart_boundary 0 = (1, ''----ekizu-multipart-1'')"
  by code_simp

theorem multipart_received_witness:
  "parse_multipart ''----ekizu-multipart-1'' (encode_multipart_form_data ''----ekizu-multipart-1'' ''{}'' [example_file]) =
    Some [payload_received ''{}'', file_received 0 example_file]"
proof -
  have "safe_content ''----ekizu-multipart-1'' ''{}''"
    by (simp add: safe_content_def delimiter_Cons crlf_def sublist_Cons_right)
  moreover have "safe_upload ''----ekizu-multipart-1'' example_file"
    by (simp add: safe_upload_def safe_content_def delimiter_Cons crlf_def sublist_Cons_right example_file_def content_type_of_def)
  ultimately show ?thesis using multipart_received [of "''----ekizu-multipart-1''" "''{}''" "[example_file]"] by simp
qed

section \<open>What is not excluded\<close>

text \<open>
  Boundaries are numbered from one, and contents are not searched for them: a file that holds the line which
  ends the body is received without the rest, and no file after it is received.
\<close>

theorem upload_cut_by_boundary:
  assumes "CR \<notin> set b" "safe_content b payload" "safe_upload b (f\<lparr>up_data := d\<rparr>)" "up_data f = d @ delimiter b @ ''--'' @ z"
  shows "parse_multipart b (encode_multipart_form_data b payload (f # fs)) =
    Some [payload_received payload, file_received 0 (f\<lparr>up_data := d\<rparr>)]"
proof -
  let ?g = "f\<lparr>up_data := d\<rparr>"
  obtain r where r: "encode_multipart_form_data b payload (f # fs) =
      ''--'' @ b @ crlf @ payload_content payload @ delimiter b @ crlf @ file_content 0 ?g @ delimiter b @ ''--'' @ r"
    using assms(4) by (simp add: encode_multipart_form_data_def payload_part_def payload_content_def delimiter_def
        file_part_def file_content_def content_type_of_def)
  have "parse_rest b (crlf @ file_content 0 ?g @ delimiter b @ ''--'' @ r) = Some [file_received 0 ?g]"
    using parse_rest_part [OF assms(1) no_delimiter_file [OF assms(3)] parse_file [OF assms(3)]] parse_rest_end by simp
  moreover have "parse_rest b (crlf @ payload_content payload @ delimiter b @ s) =
      map_option ((#) (payload_received payload)) (parse_rest b s)" for s
    using assms(1,2) by (intro parse_rest_part no_delimiter_payload parse_payload)
  ultimately show ?thesis unfolding r parse_multipart_def by simp
qed

text \<open>A content type is not checked either: an empty line in it ends the headers, and what follows becomes content.\<close>

lemma content_type_becomes_content:
  assumes "up_content_type f = Some (t @ crlf @ crlf @ x)" "CR \<notin> set t" "CR \<notin> set (up_filename f)" "QUOTE \<notin> set (up_filename f)"
  shows "parse_part (file_content i f) = Some \<lparr>pt_name = ''files['' @ to_decimal i @ '']'',
    pt_filename = Some (up_filename f), pt_type = t, pt_data = x @ crlf @ crlf @ up_data f\<rparr>"
proof -
  let ?n = "''files['' @ to_decimal i @ '']''"
  let ?v = "''form-data; name='' @ QUOTE # ?n @ QUOTE # ''; filename='' @ QUOTE # up_filename f @ [QUOTE]"
  have n: "quoted_param ''name'' ?v = Some ?n" by (rule name_param) simp
  have fn: "quoted_param ''filename'' ?v = Some (up_filename f)"
    by (rule filename_param) (use assms in simp_all)
  have "CR \<notin> set ?v" using assms by simp
  from parse_part_written [OF this assms(2) n, of "x @ crlf @ crlf @ up_data f"] assms(1) show ?thesis
    unfolding fn by (simp add: file_content_def content_type_of_def)
qed

end
