(* ===== verification/Requests.thy ===== *)
theory Requests
  imports Request_Fields Multipart Http Dave_Types
begin

text \<open>
  The requests of the REST interface: \<^verbatim>\<open>src/request/*.cpp\<close>, the conversion of each request class to an HTTP
  request, and the calls of \<^verbatim>\<open>HttpClient\<close> and \<^verbatim>\<open>InteractionClient\<close> that create them. \<^term>\<open>None\<close> is an exception:
  a format string with more fields than arguments, text that is not UTF-8 where the JSON printer is strict, a
  component that cannot be written, a member removed from null.
\<close>

section \<open>Requests\<close>

text \<open>
  The libraries the requests are built with: the printer of JSON, which either fails on text that is not
  UTF-8 or replaces it, the parser, the percent encoding of Boost.URL, and \<^verbatim>\<open>prepare_payload\<close> of Beast.
\<close>

record req_env =
  rq_dump :: "json \<Rightarrow> string option"
  rq_dump_replace :: "json \<Rightarrow> string"
  rq_parse :: "string \<Rightarrow> json option"
  rq_url_encode :: "string \<Rightarrow> string"
  rq_prepare :: "request_body \<Rightarrow> request_body"

text \<open>
  \<^verbatim>\<open>fmt::format\<close> on format strings whose only fields are \<^verbatim>\<open>{}\<close>: an argument that is not there is an
  exception, one that is not used is ignored.
\<close>

fun fmt :: "string \<Rightarrow> string list \<Rightarrow> string option" where
  "fmt [] xs = Some []"
| "fmt [c] xs = Some [c]"
| "fmt (c # d # f) xs = (if c = CHR ''{'' \<and> d = CHR ''}''
     then (case xs of [] \<Rightarrow> None | x # xs \<Rightarrow> map_option ((@) x) (fmt f xs))
     else map_option ((#) c) (fmt (d # f) xs))"

definition bare_request :: "string \<Rightarrow> string \<Rightarrow> request_body" where
  "bare_request m t = \<lparr>rq_method = m, rq_target = t, rq_headers = [], rq_body = []\<rparr>"

definition typed_request :: "req_env \<Rightarrow> string \<Rightarrow> string \<Rightarrow> string \<Rightarrow> string \<Rightarrow> request_body" where
  "typed_request env m t ct body =
     rq_prepare env \<lparr>rq_method = m, rq_target = t, rq_headers = [(''Content-Type'', ct)], rq_body = body\<rparr>"

definition json_request :: "req_env \<Rightarrow> string \<Rightarrow> string \<Rightarrow> string \<Rightarrow> request_body" where
  "json_request env m t body = typed_request env m t ''application/json'' body"

datatype request_reaction = Custom_emoji (ce_id: snowflake) (ce_name: string) | Unicode_emoji string

definition emoji_path :: "req_env \<Rightarrow> request_reaction \<Rightarrow> string option" where
  "emoji_path env e = (case e of
     Custom_emoji i n \<Rightarrow> map_option (rq_url_encode env) (fmt ''{}:{}'' [n, to_string i])
   | Unicode_emoji s \<Rightarrow> Some (rq_url_encode env s))"

section \<open>Requests without a query\<close>

definition add_guild_member_role_request :: "snowflake \<Rightarrow> snowflake \<Rightarrow> snowflake \<Rightarrow> request_body option" where
  "add_guild_member_role_request g u r = do {
     t \<leftarrow> fmt ''/guilds/{}/members/{}/roles/{}'' [to_string g, to_string u, to_string r];
     Some (bare_request ''PUT'' t)
   }"

definition add_guild_member_request :: "req_env \<Rightarrow> snowflake \<Rightarrow> snowflake \<Rightarrow> add_guild_member_fields \<Rightarrow> request_body option" where
  "add_guild_member_request env g u f = do {
     t \<leftarrow> fmt ''/guilds/{}/members/{}'' [to_string g, to_string u];
     s \<leftarrow> rq_dump env (add_guild_member_fields_to_json f);
     Some (json_request env ''PUT'' t s)
   }"

definition bulk_delete_messages_request :: "req_env \<Rightarrow> snowflake \<Rightarrow> (snowflake list) \<Rightarrow> request_body option" where
  "bulk_delete_messages_request env c f = do {
     t \<leftarrow> fmt ''/channels/{}/messages/bulk-delete'' [to_string c];
     s \<leftarrow> rq_dump env (JObj [(''messages'', JArr (map snowflake_to_json f))]);
     Some (json_request env ''POST'' t s)
   }"

definition bulk_overwrite_global_application_commands_request :: "req_env \<Rightarrow> snowflake \<Rightarrow> (create_fields list) \<Rightarrow> request_body option" where
  "bulk_overwrite_global_application_commands_request env a f = do {
     t \<leftarrow> fmt ''/applications/{}/commands'' [to_string a];
     s \<leftarrow> rq_dump env (JArr (map create_fields_to_json f));
     Some (json_request env ''PUT'' t s)
   }"

definition bulk_overwrite_guild_application_commands_request :: "req_env \<Rightarrow> snowflake \<Rightarrow> snowflake \<Rightarrow> (create_fields list) \<Rightarrow> request_body option" where
  "bulk_overwrite_guild_application_commands_request env a g f = do {
     t \<leftarrow> fmt ''/applications/{}/guilds/{}/commands'' [to_string a, to_string g];
     s \<leftarrow> rq_dump env (JArr (map create_fields_to_json f));
     Some (json_request env ''PUT'' t s)
   }"

definition create_dm_request :: "req_env \<Rightarrow> snowflake \<Rightarrow> request_body option" where
  "create_dm_request env f = do {
     t \<leftarrow> Some ''/users/@me/channels'';
     s \<leftarrow> rq_dump env (JObj [(''recipient_id'', snowflake_to_json f)]);
     Some (json_request env ''POST'' t s)
   }"

definition create_guild_channel_request :: "req_env \<Rightarrow> snowflake \<Rightarrow> create_guild_channel_fields \<Rightarrow> request_body option" where
  "create_guild_channel_request env g f = do {
     t \<leftarrow> fmt ''/guilds/{}/channels'' [to_string g];
     Some (json_request env ''POST'' t (rq_dump_replace env (create_guild_channel_fields_to_json f)))
   }"

definition create_guild_request :: "req_env \<Rightarrow> create_guild_fields \<Rightarrow> request_body option" where
  "create_guild_request env f = do {
     t \<leftarrow> Some ''/guilds'';
     Some (json_request env ''POST'' t (rq_dump_replace env (create_guild_fields_to_json f)))
   }"

definition create_invite_request :: "req_env \<Rightarrow> snowflake \<Rightarrow> create_invite_fields \<Rightarrow> request_body option" where
  "create_invite_request env c f = do {
     t \<leftarrow> fmt ''/channels/{}/invites'' [to_string c];
     s \<leftarrow> rq_dump env (create_invite_fields_to_json f);
     Some (json_request env ''POST'' t s)
   }"

definition create_reaction_request :: "req_env \<Rightarrow> snowflake \<Rightarrow> snowflake \<Rightarrow> request_reaction \<Rightarrow> request_body option" where
  "create_reaction_request env c m e = do {
     x \<leftarrow> emoji_path env e;
     t \<leftarrow> fmt ''/channels/{}/messages/{}/reactions/{}/@me'' [to_string c, to_string m, x];
     Some (rq_prepare env (bare_request ''PUT'' t))
   }"

definition crosspost_message_request :: "snowflake \<Rightarrow> snowflake \<Rightarrow> request_body option" where
  "crosspost_message_request c m = do {
     t \<leftarrow> fmt ''/channels/{}/messages/{}/crosspost'' [to_string c, to_string m];
     Some (bare_request ''POST'' t)
   }"

definition delete_all_reactions_request :: "snowflake \<Rightarrow> snowflake \<Rightarrow> request_body option" where
  "delete_all_reactions_request c m = do {
     t \<leftarrow> fmt ''/channels/{}/messages/{}/reactions/{}'' [to_string c, to_string m];
     Some (bare_request ''DELETE'' t)
   }"

definition delete_all_reactions_for_emoji_request :: "req_env \<Rightarrow> snowflake \<Rightarrow> snowflake \<Rightarrow> request_reaction \<Rightarrow> request_body option" where
  "delete_all_reactions_for_emoji_request env c m e = do {
     x \<leftarrow> emoji_path env e;
     t \<leftarrow> fmt ''/channels/{}/messages/{}/reactions/{}'' [to_string c, to_string m, x];
     Some (bare_request ''DELETE'' t)
   }"

definition delete_channel_request :: "snowflake \<Rightarrow> request_body option" where
  "delete_channel_request c = do {
     t \<leftarrow> fmt ''/channels/{}'' [to_string c];
     Some (bare_request ''DELETE'' t)
   }"

definition delete_channel_permission_request :: "snowflake \<Rightarrow> snowflake \<Rightarrow> request_body option" where
  "delete_channel_permission_request c w = do {
     t \<leftarrow> fmt ''/channels/{}/permissions/{}'' [to_string c, to_string w];
     Some (bare_request ''DELETE'' t)
   }"

definition delete_guild_request :: "snowflake \<Rightarrow> request_body option" where
  "delete_guild_request g = do {
     t \<leftarrow> fmt ''/guilds/{}'' [to_string g];
     Some (bare_request ''DELETE'' t)
   }"

definition delete_message_request :: "snowflake \<Rightarrow> snowflake \<Rightarrow> request_body option" where
  "delete_message_request c m = do {
     t \<leftarrow> fmt ''/channels/{}/messages/{}'' [to_string c, to_string m];
     Some (bare_request ''DELETE'' t)
   }"

definition delete_own_reaction_request :: "req_env \<Rightarrow> snowflake \<Rightarrow> snowflake \<Rightarrow> request_reaction \<Rightarrow> request_body option" where
  "delete_own_reaction_request env c m e = do {
     x \<leftarrow> emoji_path env e;
     t \<leftarrow> fmt ''/channels/{}/messages/{}/reactions/{}/@me'' [to_string c, to_string m, x];
     Some (bare_request ''DELETE'' t)
   }"

definition delete_user_reaction_request :: "req_env \<Rightarrow> snowflake \<Rightarrow> snowflake \<Rightarrow> request_reaction \<Rightarrow> snowflake \<Rightarrow> request_body option" where
  "delete_user_reaction_request env c m e u = do {
     x \<leftarrow> emoji_path env e;
     t \<leftarrow> fmt ''/channels/{}/messages/{}/reactions/{}/{}'' [to_string c, to_string m, x, to_string u];
     Some (bare_request ''DELETE'' t)
   }"

definition follow_announcement_channel_request :: "req_env \<Rightarrow> snowflake \<Rightarrow> snowflake \<Rightarrow> request_body option" where
  "follow_announcement_channel_request env c f = do {
     t \<leftarrow> fmt ''/channels/{}/webhooks'' [to_string c];
     s \<leftarrow> rq_dump env (JObj [(''webhook_channel_id'', snowflake_to_json f)]);
     Some (json_request env ''POST'' t s)
   }"

definition get_channel_request :: "snowflake \<Rightarrow> request_body option" where
  "get_channel_request c = do {
     t \<leftarrow> fmt ''/channels/{}'' [to_string c];
     Some (bare_request ''GET'' t)
   }"

definition get_channel_invites_request :: "snowflake \<Rightarrow> request_body option" where
  "get_channel_invites_request c = do {
     t \<leftarrow> fmt ''/channels/{}/invites'' [to_string c];
     Some (bare_request ''GET'' t)
   }"

definition get_channel_message_request :: "snowflake \<Rightarrow> snowflake \<Rightarrow> request_body option" where
  "get_channel_message_request c m = do {
     t \<leftarrow> fmt ''/channels/{}/messages/{}'' [to_string c, to_string m];
     Some (bare_request ''GET'' t)
   }"

definition get_current_user_request :: "request_body option" where
  "get_current_user_request = do {
     t \<leftarrow> Some ''/users/@me'';
     Some (bare_request ''GET'' t)
   }"

definition get_guild_ban_request :: "snowflake \<Rightarrow> snowflake \<Rightarrow> request_body option" where
  "get_guild_ban_request g u = do {
     t \<leftarrow> fmt ''/guilds/{}/bans/{}'' [to_string g, to_string u];
     Some (bare_request ''GET'' t)
   }"

definition get_guild_channels_request :: "snowflake \<Rightarrow> request_body option" where
  "get_guild_channels_request g = do {
     t \<leftarrow> fmt ''/guilds/{}/channels'' [to_string g];
     Some (bare_request ''GET'' t)
   }"

definition get_guild_invites_request :: "snowflake \<Rightarrow> request_body option" where
  "get_guild_invites_request g = do {
     t \<leftarrow> fmt ''/guilds/{}/invites'' [to_string g];
     Some (bare_request ''GET'' t)
   }"

definition get_guild_member_request :: "snowflake \<Rightarrow> snowflake \<Rightarrow> request_body option" where
  "get_guild_member_request g u = do {
     t \<leftarrow> fmt ''/guilds/{}/members/{}'' [to_string g, to_string u];
     Some (bare_request ''GET'' t)
   }"

definition get_guild_preview_request :: "snowflake \<Rightarrow> request_body option" where
  "get_guild_preview_request g = do {
     t \<leftarrow> fmt ''/guilds/{}/preview'' [to_string g];
     Some (bare_request ''GET'' t)
   }"

definition get_original_response_request :: "snowflake \<Rightarrow> string \<Rightarrow> request_body option" where
  "get_original_response_request a t = do {
     t \<leftarrow> fmt ''/webhooks/{}/{}/messages/@original'' [to_string a, t];
     Some (bare_request ''GET'' t)
   }"

definition get_pinned_messages_request :: "snowflake \<Rightarrow> request_body option" where
  "get_pinned_messages_request c = do {
     t \<leftarrow> fmt ''/channels/{}/pins'' [to_string c];
     Some (bare_request ''GET'' t)
   }"

definition get_user_request :: "snowflake \<Rightarrow> request_body option" where
  "get_user_request u = do {
     t \<leftarrow> fmt ''/users/{}'' [to_string u];
     Some (bare_request ''GET'' t)
   }"

definition list_active_guild_threads_request :: "snowflake \<Rightarrow> request_body option" where
  "list_active_guild_threads_request g = do {
     t \<leftarrow> fmt ''/guilds/{}/threads/active'' [to_string g];
     Some (bare_request ''GET'' t)
   }"

definition modify_channel_request :: "req_env \<Rightarrow> snowflake \<Rightarrow> modify_channel_fields \<Rightarrow> request_body option" where
  "modify_channel_request env c f = do {
     t \<leftarrow> fmt ''/channels/{}'' [to_string c];
     Some (json_request env ''PATCH'' t (rq_dump_replace env (modify_channel_fields_to_json f)))
   }"

definition modify_current_member_request :: "req_env \<Rightarrow> snowflake \<Rightarrow> modify_current_member_fields \<Rightarrow> request_body option" where
  "modify_current_member_request env g f = do {
     t \<leftarrow> fmt ''/guilds/{}/members/@me'' [to_string g];
     Some (json_request env ''PATCH'' t (rq_dump_replace env (modify_current_member_fields_to_json f)))
   }"

definition modify_current_user_request :: "req_env \<Rightarrow> modify_current_user_fields \<Rightarrow> request_body option" where
  "modify_current_user_request env f = do {
     t \<leftarrow> Some ''/users/@me'';
     Some (json_request env ''PATCH'' t (rq_dump_replace env (modify_current_user_fields_to_json f)))
   }"

definition modify_guild_request :: "req_env \<Rightarrow> snowflake \<Rightarrow> modify_guild_fields \<Rightarrow> request_body option" where
  "modify_guild_request env g f = do {
     t \<leftarrow> fmt ''/guilds/{}'' [to_string g];
     Some (json_request env ''PATCH'' t (rq_dump_replace env (modify_guild_fields_to_json f)))
   }"

definition modify_guild_channel_positions_request :: "req_env \<Rightarrow> snowflake \<Rightarrow> (modify_guild_channel_position list) \<Rightarrow> request_body option" where
  "modify_guild_channel_positions_request env g f = do {
     t \<leftarrow> fmt ''/guilds/{}/channels'' [to_string g];
     s \<leftarrow> rq_dump env (JArr (map modify_guild_channel_position_to_json f));
     Some (json_request env ''PATCH'' t s)
   }"

definition modify_guild_member_request :: "req_env \<Rightarrow> snowflake \<Rightarrow> snowflake \<Rightarrow> modify_guild_member_fields \<Rightarrow> request_body option" where
  "modify_guild_member_request env g u f = do {
     t \<leftarrow> fmt ''/guilds/{}/members/{}'' [to_string g, to_string u];
     Some (json_request env ''PATCH'' t (rq_dump_replace env (modify_guild_member_fields_to_json f)))
   }"

definition pin_message_request :: "snowflake \<Rightarrow> snowflake \<Rightarrow> request_body option" where
  "pin_message_request c m = do {
     t \<leftarrow> fmt ''/channels/{}/pins/{}'' [to_string c, to_string m];
     Some (bare_request ''PUT'' t)
   }"

definition remove_guild_member_request :: "snowflake \<Rightarrow> snowflake \<Rightarrow> request_body option" where
  "remove_guild_member_request g u = do {
     t \<leftarrow> fmt ''/guilds/{}/members/{}'' [to_string g, to_string u];
     Some (bare_request ''DELETE'' t)
   }"

definition remove_guild_member_role_request :: "snowflake \<Rightarrow> snowflake \<Rightarrow> snowflake \<Rightarrow> request_body option" where
  "remove_guild_member_role_request g u r = do {
     t \<leftarrow> fmt ''/guilds/{}/members/{}/roles/{}'' [to_string g, to_string u, to_string r];
     Some (bare_request ''DELETE'' t)
   }"

definition trigger_typing_indicator_request :: "snowflake \<Rightarrow> request_body option" where
  "trigger_typing_indicator_request c = do {
     t \<leftarrow> fmt ''/channels/{}/typing'' [to_string c];
     Some (bare_request ''POST'' t)
   }"

definition unpin_message_request :: "snowflake \<Rightarrow> snowflake \<Rightarrow> request_body option" where
  "unpin_message_request c m = do {
     t \<leftarrow> fmt ''/channels/{}/pins/{}'' [to_string c, to_string m];
     Some (bare_request ''DELETE'' t)
   }"

section \<open>Requests with a query\<close>

definition decimal :: "'a::len word \<Rightarrow> string" where
  "decimal w = to_decimal (unat w)"

definition bool_text :: "bool \<Rightarrow> string" where
  "bool_text b = (if b then ''true'' else ''false'')"

definition edit_channel_permissions_request :: "req_env \<Rightarrow> snowflake \<Rightarrow> permission_overwrite \<Rightarrow> request_body option" where
  "edit_channel_permissions_request env c p = do {
     t \<leftarrow> fmt ''/channels/{}/permissions/{}'' [to_string c, to_string (po_id p)];
     s \<leftarrow> rq_dump env (permission_overwrite_to_json p);
     Some (json_request env ''PUT'' t s)
   }"

datatype anchor = Around | Before | After

fun anchor_text :: "anchor \<Rightarrow> string" where
  "anchor_text Around = ''around''" | "anchor_text Before = ''before''" | "anchor_text After = ''after''"

definition get_channel_messages_request :: "snowflake \<Rightarrow> u16 option \<Rightarrow> request_body option" where
  "get_channel_messages_request c limit = do {
     t \<leftarrow> (case limit of
            Some n \<Rightarrow> fmt ''/channels/{}/messages?limit={}'' [to_string c, decimal n]
          | None \<Rightarrow> fmt ''/channels/{}/messages'' [to_string c]);
     Some (bare_request ''GET'' t)
   }"

definition get_channel_messages_configured_request ::
    "snowflake \<Rightarrow> u16 option \<Rightarrow> anchor \<Rightarrow> snowflake \<Rightarrow> request_body option" where
  "get_channel_messages_configured_request c limit a m = do {
     t \<leftarrow> (case limit of
            Some n \<Rightarrow> fmt ''/channels/{}/messages?limit={}&{}={}'' [to_string c, decimal n, anchor_text a, to_string m]
          | None \<Rightarrow> fmt ''/channels/{}/messages?{}={}'' [to_string c, anchor_text a, to_string m]);
     Some (bare_request ''GET'' t)
   }"

definition get_guild_request :: "snowflake \<Rightarrow> get_guild_fields \<Rightarrow> request_body option" where
  "get_guild_request g f = do {
     q \<leftarrow> (case ggf_with_counts f of Some b \<Rightarrow> fmt ''?with_counts={}'' [bool_text b] | None \<Rightarrow> Some []);
     t \<leftarrow> fmt ''/guilds/{}{}'' [to_string g, q];
     Some (bare_request ''GET'' t)
   }"

text \<open>The separator before a parameter.\<close>

definition separator :: "bool \<Rightarrow> string" where
  "separator first = (if first then ''?'' else ''&'')"

definition get_guild_bans_request :: "snowflake \<Rightarrow> get_guild_bans_fields \<Rightarrow> request_body option" where
  "get_guild_bans_request g f = do {
     url \<leftarrow> fmt ''/guilds/{}/bans'' [to_string g];
     p1 \<leftarrow> (case ggbf_limit f of
             Some n \<Rightarrow> map_option ((@) ''?'') (fmt ''{}limit={}'' [decimal n])
           | None \<Rightarrow> Some []);
     p2 \<leftarrow> (case ggbf_before f of
             Some k \<Rightarrow> map_option ((@) p1) (fmt ''{}before={}'' [separator (p1 = []), to_string k])
           | None \<Rightarrow> Some p1);
     p3 \<leftarrow> (case ggbf_after f of
             Some k \<Rightarrow> map_option ((@) p2) (fmt ''{}after={}'' [separator (p2 = []), to_string k])
           | None \<Rightarrow> Some p2);
     t \<leftarrow> fmt ''{}{}'' [url, p3];
     Some (bare_request ''GET'' t)
   }"

definition get_reactions_request ::
    "req_env \<Rightarrow> snowflake \<Rightarrow> snowflake \<Rightarrow> request_reaction \<Rightarrow> snowflake option \<Rightarrow> u8 option \<Rightarrow> request_body option" where
  "get_reactions_request env c m e after limit = do {
     q1 \<leftarrow> (case after of Some k \<Rightarrow> fmt ''?after={}'' [to_string k] | None \<Rightarrow> Some []);
     q2 \<leftarrow> (case limit of
             Some n \<Rightarrow> map_option ((@) q1) (fmt ''{}limit={}'' [separator (q1 = []), decimal n])
           | None \<Rightarrow> Some q1);
     x \<leftarrow> emoji_path env e;
     path \<leftarrow> fmt ''/channels/{}/messages/{}/reactions/{}'' [to_string c, to_string m, x];
     t \<leftarrow> fmt ''{}{}'' [path, q2];
     Some (bare_request ''GET'' t)
   }"

definition list_guild_members_request :: "snowflake \<Rightarrow> list_guild_members_fields \<Rightarrow> request_body option" where
  "list_guild_members_request g f = do {
     url \<leftarrow> fmt ''/guilds/{}/members'' [to_string g];
     q1 \<leftarrow> (case lgmf_limit f of Some n \<Rightarrow> fmt ''?limit={}'' [decimal n] | None \<Rightarrow> Some []);
     q2 \<leftarrow> (case lgmf_after f of
             Some k \<Rightarrow> fmt ''{}after={}'' [separator (lgmf_limit f = None), to_string k]
           | None \<Rightarrow> Some []);
     Some (bare_request ''GET'' (url @ q1 @ q2))
   }"

definition search_guild_members_request :: "snowflake \<Rightarrow> search_guild_members_fields \<Rightarrow> request_body option" where
  "search_guild_members_request g f = do {
     url \<leftarrow> fmt ''/guilds/{}/members/search'' [to_string g];
     q1 \<leftarrow> (case sgmf_query f of Some s \<Rightarrow> fmt ''?query={}'' [s] | None \<Rightarrow> Some []);
     q2 \<leftarrow> (case sgmf_limit f of
             Some n \<Rightarrow> fmt ''{}limit={}'' [separator (sgmf_query f = None), decimal n]
           | None \<Rightarrow> Some []);
     Some (bare_request ''GET'' (url @ q1 @ q2))
   }"

section \<open>Messages\<close>

text \<open>
  Removing a member from a value that is no object is an exception, and so is writing one into a value that is
  neither an object nor null. A message none of whose members is set is converted to null.
\<close>

definition erase_member :: "string \<Rightarrow> json \<Rightarrow> json option" where
  "erase_member k j = (case j of JObj kvs \<Rightarrow> Some (JObj (AList.delete k kvs)) | _ \<Rightarrow> None)"

definition put_into :: "string \<Rightarrow> json \<Rightarrow> json \<Rightarrow> json option" where
  "put_into k v j = (case j of
     JObj kvs \<Rightarrow> Some (JObj (put_member k v kvs)) | JNull \<Rightarrow> Some (JObj [(k, v)]) | _ \<Rightarrow> None)"

definition upload_json :: "nat \<Rightarrow> upload \<Rightarrow> json" where
  "upload_json i u = write_object [(''id'', Some (snowflake_to_json (of_nat i))), (''filename'', Some (JStr (up_filename u))),
     (''description'', map_option JStr (up_description u))]"

definition attachments_json_from_uploads :: "upload list \<Rightarrow> json list" where
  "attachments_json_from_uploads us = map (\<lambda>(i, u). upload_json i u) (enumerate 0 us)"

definition attachments_json_from_keep_ids :: "snowflake list \<Rightarrow> json list" where
  "attachments_json_from_keep_ids ids = map (\<lambda>i. JObj [(''id'', snowflake_to_json i)]) ids"

definition upload_request :: "req_env \<Rightarrow> u64 \<Rightarrow> string \<Rightarrow> string \<Rightarrow> json \<Rightarrow> upload list \<Rightarrow> u64 \<times> request_body" where
  "upload_request env ctr m t payload us = (let (n, b) = make_multipart_boundary ctr in
     (n, typed_request env m t (''multipart/form-data; boundary='' @ b)
        (encode_multipart_form_data b (rq_dump_replace env payload) us)))"

record create_message =
  cm_channel_id :: snowflake
  cm_fields :: create_message_fields
  cm_uploads :: "upload list"

definition create_message_reply :: "snowflake \<Rightarrow> create_message \<Rightarrow> create_message" where
  "create_message_reply m x = x\<lparr>cm_fields := (cm_fields x)\<lparr>cmf_message_reference :=
     Some (message_reference_init\<lparr>mr_message_id := Some m, mr_channel_id := Some (cm_channel_id x)\<rparr>)\<rparr>\<rparr>"

definition create_message_attachments :: "upload list \<Rightarrow> create_message \<Rightarrow> create_message" where
  "create_message_attachments us x = x\<lparr>cm_uploads := us\<rparr>"

definition create_message_request :: "req_env \<Rightarrow> u64 \<Rightarrow> create_message \<Rightarrow> (u64 \<times> request_body) option" where
  "create_message_request env ctr x = do {
     t \<leftarrow> fmt ''/channels/{}/messages'' [to_string (cm_channel_id x)];
     (if cm_uploads x = [] then do {
        body \<leftarrow> (case cmf_payload_json (cm_fields x) of
                   Some p \<Rightarrow> Some p
                 | None \<Rightarrow> do {
                     j \<leftarrow> create_message_fields_to_json (cm_fields x);
                     j \<leftarrow> erase_member ''payload_json'' j;
                     Some (rq_dump_replace env j)
                   });
        Some (ctr, json_request env ''POST'' t body)
      } else do {
        payload \<leftarrow> (case cmf_payload_json (cm_fields x) of
                      Some p \<Rightarrow> Some (case rq_parse env p of Some j \<Rightarrow> j | None \<Rightarrow> JObj [])
                    | None \<Rightarrow> do {
                        j \<leftarrow> create_message_fields_to_json (cm_fields x);
                        erase_member ''payload_json'' j
                      });
        payload \<leftarrow> put_into ''attachments'' (JArr (attachments_json_from_uploads (cm_uploads x))) payload;
        Some (upload_request env ctr ''POST'' t payload (cm_uploads x))
      })
   }"

record edit_message =
  ed_channel_id :: snowflake
  ed_message_id :: snowflake
  ed_fields :: edit_message_fields
  ed_uploads :: "upload list"
  ed_keep_ids :: "snowflake list option"

definition edit_message_attachments :: "upload list \<Rightarrow> edit_message \<Rightarrow> edit_message" where
  "edit_message_attachments us x = x\<lparr>ed_uploads := us\<rparr>"

definition edit_message_keep_attachment_ids :: "snowflake list \<Rightarrow> edit_message \<Rightarrow> edit_message" where
  "edit_message_keep_attachment_ids ids x = x\<lparr>ed_keep_ids := Some ids\<rparr>"

definition edit_message_request :: "req_env \<Rightarrow> u64 \<Rightarrow> edit_message \<Rightarrow> (u64 \<times> request_body) option" where
  "edit_message_request env ctr x = do {
     t \<leftarrow> fmt ''/channels/{}/messages/{}'' [to_string (ed_channel_id x), to_string (ed_message_id x)];
     (if ed_uploads x = [] then do {
        body \<leftarrow> (case emf_payload_json (ed_fields x) of
                   Some p \<Rightarrow> Some p
                 | None \<Rightarrow> do {
                     j \<leftarrow> edit_message_fields_to_json (ed_fields x);
                     j \<leftarrow> erase_member ''payload_json'' j;
                     j \<leftarrow> (case ed_keep_ids x of
                            Some ids \<Rightarrow> put_into ''attachments'' (JArr (attachments_json_from_keep_ids ids)) j
                          | None \<Rightarrow> erase_member ''attachments'' j);
                     Some (rq_dump_replace env j)
                   });
        Some (ctr, json_request env ''PATCH'' t body)
      } else do {
        payload \<leftarrow> (case emf_payload_json (ed_fields x) of
                      Some p \<Rightarrow> put_into ''attachments'' (JArr (attachments_json_from_uploads (ed_uploads x)))
                          (case rq_parse env p of Some j \<Rightarrow> j | None \<Rightarrow> JObj [])
                    | None \<Rightarrow> do {
                        j \<leftarrow> edit_message_fields_to_json (ed_fields x);
                        j \<leftarrow> erase_member ''payload_json'' j;
                        put_into ''attachments'' (JArr ((case ed_keep_ids x of
                            Some ids \<Rightarrow> attachments_json_from_keep_ids ids | None \<Rightarrow> []) @
                          attachments_json_from_uploads (ed_uploads x))) j
                      });
        Some (upload_request env ctr ''PATCH'' t payload (ed_uploads x))
      })
   }"

text \<open>\<^verbatim>\<open>send\<close> checks the uploads first, and that a payload given as text can be parsed.\<close>

definition valid_upload :: "upload \<Rightarrow> bool" where
  "valid_upload u \<longleftrightarrow> up_filename u \<noteq> [] \<and> CR \<notin> set (up_filename u) \<and> LF \<notin> set (up_filename u) \<and>
     pred_option (\<lambda>d. length d \<le> 1024) (up_description u)"

definition valid_uploads :: "req_env \<Rightarrow> upload list \<Rightarrow> string option \<Rightarrow> bool" where
  "valid_uploads env us payload_json \<longleftrightarrow> length us \<le> 10 \<and> list_all valid_upload us \<and>
     (us \<noteq> [] \<longrightarrow> pred_option (\<lambda>p. rq_parse env p \<noteq> None) payload_json)"

text \<open>The outer option is an exception that leaves the call, the sum the answer without a request or the request.\<close>

definition create_message_send :: "req_env \<Rightarrow> u64 \<Rightarrow> create_message \<Rightarrow> (errc + u64 \<times> request_body) option" where
  "create_message_send env ctr x =
     (if \<not> valid_uploads env (cm_uploads x) (cmf_payload_json (cm_fields x)) then Some (Inl invalid_argument)
      else map_option Inr (create_message_request env ctr x))"

definition edit_message_send :: "req_env \<Rightarrow> u64 \<Rightarrow> edit_message \<Rightarrow> (errc + u64 \<times> request_body) option" where
  "edit_message_send env ctr x =
     (if \<not> valid_uploads env (ed_uploads x) (emf_payload_json (ed_fields x)) then Some (Inl invalid_argument)
      else map_option Inr (edit_message_request env ctr x))"

section \<open>Interactions\<close>

definition create_response_request :: "req_env \<Rightarrow> snowflake \<Rightarrow> string \<Rightarrow> interaction_response \<Rightarrow> request_body option" where
  "create_response_request env i token r = do {
     t \<leftarrow> fmt ''/interactions/{}/{}/callback'' [to_string i, token];
     j \<leftarrow> interaction_response_to_json r;
     Some (json_request env ''POST'' t (rq_dump_replace env j))
   }"

definition create_response_with_response_request ::
    "req_env \<Rightarrow> snowflake \<Rightarrow> string \<Rightarrow> interaction_response \<Rightarrow> request_body option" where
  "create_response_with_response_request env i token r = do {
     t \<leftarrow> fmt ''/interactions/{}/{}/callback?with_response=true'' [to_string i, token];
     j \<leftarrow> interaction_response_to_json r;
     Some (json_request env ''POST'' t (rq_dump_replace env j))
   }"

record edit_original_response =
  eo_content :: "string option"
  eo_embeds :: "embed list option"
  eo_flags :: "u32 option"
  eo_allowed_mentions :: "allowed_mentions option"
  eo_components :: "message_component list option"

definition edit_original_set_allowed_mentions :: "allowed_mentions \<Rightarrow> edit_original_response \<Rightarrow> edit_original_response" where
  "edit_original_set_allowed_mentions v x = x\<lparr>eo_allowed_mentions := Some v\<rparr>"
definition edit_original_set_content :: "string \<Rightarrow> edit_original_response \<Rightarrow> edit_original_response" where
  "edit_original_set_content v x = x\<lparr>eo_content := Some v\<rparr>"
definition edit_original_set_components :: "message_component list \<Rightarrow> edit_original_response \<Rightarrow> edit_original_response" where
  "edit_original_set_components v x = x\<lparr>eo_components := Some v\<rparr>"
definition edit_original_set_embeds :: "embed list \<Rightarrow> edit_original_response \<Rightarrow> edit_original_response" where
  "edit_original_set_embeds v x = x\<lparr>eo_embeds := Some v\<rparr>"
definition edit_original_set_flags :: "u32 \<Rightarrow> edit_original_response \<Rightarrow> edit_original_response" where
  "edit_original_set_flags v x = x\<lparr>eo_flags := Some v\<rparr>"

definition edit_original_response_request ::
    "req_env \<Rightarrow> snowflake \<Rightarrow> string \<Rightarrow> edit_original_response \<Rightarrow> request_body option" where
  "edit_original_response_request env a token x = do {
     cs \<leftarrow> opt_components_to_json (eo_components x);
     t \<leftarrow> fmt ''/webhooks/{}/{}/messages/@original'' [to_string a, token];
     Some (json_request env ''PATCH'' t (rq_dump_replace env (write_object [
       (''content'', map_option JStr (eo_content x)),
       (''embeds'', map_option (\<lambda>es. JArr (map embed_to_json es)) (eo_embeds x)),
       (''allowed_mentions'', map_option allowed_mentions_to_json (eo_allowed_mentions x)),
       (''components'', map_option JArr cs), (''flags'', map_option juint (eo_flags x))])))
   }"

section \<open>The calls of the client\<close>

text \<open>A call of \<^verbatim>\<open>HttpClient\<close> or \<^verbatim>\<open>InteractionClient\<close> with what was set on the request it returns.\<close>

datatype (plugins only: code) api_call =
    Add_guild_member_role snowflake snowflake snowflake 
  | Add_guild_member snowflake snowflake add_guild_member_fields 
  | Bulk_delete_messages snowflake "snowflake list" 
  | Bulk_overwrite_global_application_commands snowflake "create_fields list" 
  | Bulk_overwrite_guild_application_commands snowflake snowflake "create_fields list" | Create_dm snowflake 
  | Create_guild_channel snowflake create_guild_channel_fields | Create_guild create_guild_fields 
  | Create_invite snowflake create_invite_fields | Create_reaction snowflake snowflake request_reaction 
  | Crosspost_message snowflake snowflake | Delete_all_reactions snowflake snowflake 
  | Delete_all_reactions_for_emoji snowflake snowflake request_reaction | Delete_channel snowflake 
  | Delete_channel_permission snowflake snowflake | Delete_guild snowflake 
  | Delete_message snowflake snowflake | Delete_own_reaction snowflake snowflake request_reaction 
  | Delete_user_reaction snowflake snowflake request_reaction snowflake 
  | Follow_announcement_channel snowflake snowflake | Get_channel snowflake | Get_channel_invites snowflake 
  | Get_channel_message snowflake snowflake | Get_current_user | Get_guild_ban snowflake snowflake 
  | Get_guild_channels snowflake | Get_guild_invites snowflake | Get_guild_member snowflake snowflake 
  | Get_guild_preview snowflake | Get_original_response snowflake string | Get_pinned_messages snowflake 
  | Get_user snowflake | List_active_guild_threads snowflake | Modify_channel snowflake modify_channel_fields 
  | Modify_current_member snowflake modify_current_member_fields 
  | Modify_current_user modify_current_user_fields | Modify_guild snowflake modify_guild_fields 
  | Modify_guild_channel_positions snowflake "modify_guild_channel_position list" 
  | Modify_guild_member snowflake snowflake modify_guild_member_fields | Pin_message snowflake snowflake 
  | Remove_guild_member snowflake snowflake | Remove_guild_member_role snowflake snowflake snowflake 
  | Trigger_typing_indicator snowflake | Unpin_message snowflake snowflake 
  | Edit_channel_permissions snowflake permission_overwrite | Get_channel_messages snowflake "u16 option" 
  | Get_channel_messages_configured snowflake "u16 option" anchor snowflake 
  | Get_guild snowflake get_guild_fields | Get_guild_bans snowflake get_guild_bans_fields 
  | Get_reactions snowflake snowflake request_reaction "snowflake option" "u8 option" 
  | List_guild_members snowflake list_guild_members_fields 
  | Search_guild_members snowflake search_guild_members_fields | Create_message create_message 
  | Edit_message edit_message | Create_response snowflake string interaction_response 
  | Create_response_with_response snowflake string interaction_response 
  | Edit_original_response snowflake string edit_original_response

primrec api_request :: "req_env \<Rightarrow> u64 \<Rightarrow> api_call \<Rightarrow> request_body option" where
  "api_request env ctr (Add_guild_member_role g u r) = add_guild_member_role_request g u r"
| "api_request env ctr (Add_guild_member g u f) = add_guild_member_request env g u f"
| "api_request env ctr (Bulk_delete_messages c f) = bulk_delete_messages_request env c f"
| "api_request env ctr (Bulk_overwrite_global_application_commands a f) = bulk_overwrite_global_application_commands_request env a f"
| "api_request env ctr (Bulk_overwrite_guild_application_commands a g f) = bulk_overwrite_guild_application_commands_request env a g f"
| "api_request env ctr (Create_dm f) = create_dm_request env f"
| "api_request env ctr (Create_guild_channel g f) = create_guild_channel_request env g f"
| "api_request env ctr (Create_guild f) = create_guild_request env f"
| "api_request env ctr (Create_invite c f) = create_invite_request env c f"
| "api_request env ctr (Create_reaction c m e) = create_reaction_request env c m e"
| "api_request env ctr (Crosspost_message c m) = crosspost_message_request c m"
| "api_request env ctr (Delete_all_reactions c m) = delete_all_reactions_request c m"
| "api_request env ctr (Delete_all_reactions_for_emoji c m e) = delete_all_reactions_for_emoji_request env c m e"
| "api_request env ctr (Delete_channel c) = delete_channel_request c"
| "api_request env ctr (Delete_channel_permission c w) = delete_channel_permission_request c w"
| "api_request env ctr (Delete_guild g) = delete_guild_request g"
| "api_request env ctr (Delete_message c m) = delete_message_request c m"
| "api_request env ctr (Delete_own_reaction c m e) = delete_own_reaction_request env c m e"
| "api_request env ctr (Delete_user_reaction c m e u) = delete_user_reaction_request env c m e u"
| "api_request env ctr (Follow_announcement_channel c f) = follow_announcement_channel_request env c f"
| "api_request env ctr (Get_channel c) = get_channel_request c"
| "api_request env ctr (Get_channel_invites c) = get_channel_invites_request c"
| "api_request env ctr (Get_channel_message c m) = get_channel_message_request c m"
| "api_request env ctr Get_current_user = get_current_user_request"
| "api_request env ctr (Get_guild_ban g u) = get_guild_ban_request g u"
| "api_request env ctr (Get_guild_channels g) = get_guild_channels_request g"
| "api_request env ctr (Get_guild_invites g) = get_guild_invites_request g"
| "api_request env ctr (Get_guild_member g u) = get_guild_member_request g u"
| "api_request env ctr (Get_guild_preview g) = get_guild_preview_request g"
| "api_request env ctr (Get_original_response a t) = get_original_response_request a t"
| "api_request env ctr (Get_pinned_messages c) = get_pinned_messages_request c"
| "api_request env ctr (Get_user u) = get_user_request u"
| "api_request env ctr (List_active_guild_threads g) = list_active_guild_threads_request g"
| "api_request env ctr (Modify_channel c f) = modify_channel_request env c f"
| "api_request env ctr (Modify_current_member g f) = modify_current_member_request env g f"
| "api_request env ctr (Modify_current_user f) = modify_current_user_request env f"
| "api_request env ctr (Modify_guild g f) = modify_guild_request env g f"
| "api_request env ctr (Modify_guild_channel_positions g f) = modify_guild_channel_positions_request env g f"
| "api_request env ctr (Modify_guild_member g u f) = modify_guild_member_request env g u f"
| "api_request env ctr (Pin_message c m) = pin_message_request c m"
| "api_request env ctr (Remove_guild_member g u) = remove_guild_member_request g u"
| "api_request env ctr (Remove_guild_member_role g u r) = remove_guild_member_role_request g u r"
| "api_request env ctr (Trigger_typing_indicator c) = trigger_typing_indicator_request c"
| "api_request env ctr (Unpin_message c m) = unpin_message_request c m"
| "api_request env ctr (Edit_channel_permissions c p) = edit_channel_permissions_request env c p"
| "api_request env ctr (Get_channel_messages c n) = get_channel_messages_request c n"
| "api_request env ctr (Get_channel_messages_configured c n a m) = get_channel_messages_configured_request c n a m"
| "api_request env ctr (Get_guild g f) = get_guild_request g f"
| "api_request env ctr (Get_guild_bans g f) = get_guild_bans_request g f"
| "api_request env ctr (Get_reactions c m e a n) = get_reactions_request env c m e a n"
| "api_request env ctr (List_guild_members g f) = list_guild_members_request g f"
| "api_request env ctr (Search_guild_members g f) = search_guild_members_request g f"
| "api_request env ctr (Create_message x) = map_option snd (create_message_request env ctr x)"
| "api_request env ctr (Edit_message x) = map_option snd (edit_message_request env ctr x)"
| "api_request env ctr (Create_response i t r) = create_response_request env i t r"
| "api_request env ctr (Create_response_with_response i t r) = create_response_with_response_request env i t r"
| "api_request env ctr (Edit_original_response a t x) = edit_original_response_request env a t x"

section \<open>Routes\<close>

text \<open>
  What a call addresses, independently of how its target is printed: segments of the path, which are fixed, an
  id, or a word (an encoded emoji or the token of an interaction), and a query.
\<close>

datatype segment = Lit string | Id | Word

datatype segment_value = VId snowflake | VWord string

fun value_text :: "segment_value \<Rightarrow> string" where
  "value_text (VId k) = to_string k"
| "value_text (VWord s) = s"

fun fill :: "segment list \<Rightarrow> segment_value list \<Rightarrow> string list" where
  "fill (Lit s # p) vs = s # fill p vs"
| "fill (_ # p) (v # vs) = value_text v # fill p vs"
| "fill _ _ = []"

definition path_text :: "string list \<Rightarrow> string" where
  "path_text ss = concat (map ((#) (CHR ''/'')) ss)"

fun query_string :: "string option list \<Rightarrow> string" where
  "query_string [] = []"
| "query_string (None # ps) = query_string ps"
| "query_string (Some p # ps) = ''?'' @ p @ concat (map (\<lambda>x. case x of None \<Rightarrow> [] | Some s \<Rightarrow> ''&'' @ s) ps)"

definition emoji_text :: "request_reaction \<Rightarrow> string" where
  "emoji_text e = (case e of Custom_emoji i n \<Rightarrow> n @ '':'' @ to_string i | Unicode_emoji s \<Rightarrow> s)"

definition ROUTES :: "(string \<times> segment list) list" where
  "ROUTES = [
     (''PUT'', [Lit ''guilds'', Id, Lit ''members'', Id, Lit ''roles'', Id]),
     (''PUT'', [Lit ''guilds'', Id, Lit ''members'', Id]),
     (''POST'', [Lit ''channels'', Id, Lit ''messages'', Lit ''bulk-delete'']),
     (''PUT'', [Lit ''applications'', Id, Lit ''commands'']),
     (''PUT'', [Lit ''applications'', Id, Lit ''guilds'', Id, Lit ''commands'']),
     (''POST'', [Lit ''users'', Lit ''@me'', Lit ''channels'']),
     (''POST'', [Lit ''guilds'', Id, Lit ''channels'']), (''POST'', [Lit ''guilds'']),
     (''POST'', [Lit ''channels'', Id, Lit ''invites'']),
     (''PUT'', [Lit ''channels'', Id, Lit ''messages'', Id, Lit ''reactions'', Word, Lit ''@me'']),
     (''POST'', [Lit ''channels'', Id, Lit ''messages'', Id, Lit ''crosspost'']),
     (''DELETE'', [Lit ''channels'', Id, Lit ''messages'', Id, Lit ''reactions'', Word]),
     (''DELETE'', [Lit ''channels'', Id]), (''DELETE'', [Lit ''channels'', Id, Lit ''permissions'', Id]),
     (''DELETE'', [Lit ''guilds'', Id]), (''DELETE'', [Lit ''channels'', Id, Lit ''messages'', Id]),
     (''DELETE'', [Lit ''channels'', Id, Lit ''messages'', Id, Lit ''reactions'', Word, Lit ''@me'']),
     (''DELETE'', [Lit ''channels'', Id, Lit ''messages'', Id, Lit ''reactions'', Word, Id]),
     (''POST'', [Lit ''channels'', Id, Lit ''webhooks'']), (''GET'', [Lit ''channels'', Id]),
     (''GET'', [Lit ''channels'', Id, Lit ''invites'']),
     (''GET'', [Lit ''channels'', Id, Lit ''messages'', Id]), (''GET'', [Lit ''users'', Lit ''@me'']),
     (''GET'', [Lit ''guilds'', Id, Lit ''bans'', Id]), (''GET'', [Lit ''guilds'', Id, Lit ''channels'']),
     (''GET'', [Lit ''guilds'', Id, Lit ''invites'']), (''GET'', [Lit ''guilds'', Id, Lit ''members'', Id]),
     (''GET'', [Lit ''guilds'', Id, Lit ''preview'']),
     (''GET'', [Lit ''webhooks'', Id, Word, Lit ''messages'', Lit ''@original'']),
     (''GET'', [Lit ''channels'', Id, Lit ''pins'']), (''GET'', [Lit ''users'', Id]),
     (''GET'', [Lit ''guilds'', Id, Lit ''threads'', Lit ''active'']), (''PATCH'', [Lit ''channels'', Id]),
     (''PATCH'', [Lit ''guilds'', Id, Lit ''members'', Lit ''@me'']), (''PATCH'', [Lit ''users'', Lit ''@me'']),
     (''PATCH'', [Lit ''guilds'', Id]), (''PATCH'', [Lit ''guilds'', Id, Lit ''channels'']),
     (''PATCH'', [Lit ''guilds'', Id, Lit ''members'', Id]),
     (''PUT'', [Lit ''channels'', Id, Lit ''pins'', Id]),
     (''DELETE'', [Lit ''guilds'', Id, Lit ''members'', Id]),
     (''DELETE'', [Lit ''guilds'', Id, Lit ''members'', Id, Lit ''roles'', Id]),
     (''POST'', [Lit ''channels'', Id, Lit ''typing'']), (''DELETE'', [Lit ''channels'', Id, Lit ''pins'', Id]),
     (''PUT'', [Lit ''channels'', Id, Lit ''permissions'', Id]),
     (''GET'', [Lit ''channels'', Id, Lit ''messages'']), (''GET'', [Lit ''guilds'', Id]),
     (''GET'', [Lit ''guilds'', Id, Lit ''bans'']),
     (''GET'', [Lit ''channels'', Id, Lit ''messages'', Id, Lit ''reactions'', Word]),
     (''GET'', [Lit ''guilds'', Id, Lit ''members'']),
     (''GET'', [Lit ''guilds'', Id, Lit ''members'', Lit ''search'']),
     (''POST'', [Lit ''channels'', Id, Lit ''messages'']),
     (''PATCH'', [Lit ''channels'', Id, Lit ''messages'', Id]),
     (''POST'', [Lit ''interactions'', Id, Word, Lit ''callback'']),
     (''PATCH'', [Lit ''webhooks'', Id, Word, Lit ''messages'', Lit ''@original''])]"

text \<open>The method and the path of a call, the values of the variable segments, and the query.\<close>

primrec api_route :: "api_call \<Rightarrow> string \<times> segment list" where
  "api_route (Add_guild_member_role g u r) = (''PUT'', [Lit ''guilds'', Id, Lit ''members'', Id, Lit ''roles'', Id])"
| "api_route (Add_guild_member g u f) = (''PUT'', [Lit ''guilds'', Id, Lit ''members'', Id])"
| "api_route (Bulk_delete_messages c f) = (''POST'', [Lit ''channels'', Id, Lit ''messages'', Lit ''bulk-delete''])"
| "api_route (Bulk_overwrite_global_application_commands a f) = (''PUT'', [Lit ''applications'', Id, Lit ''commands''])"
| "api_route (Bulk_overwrite_guild_application_commands a g f) = (''PUT'', [Lit ''applications'', Id, Lit ''guilds'', Id, Lit ''commands''])"
| "api_route (Create_dm f) = (''POST'', [Lit ''users'', Lit ''@me'', Lit ''channels''])"
| "api_route (Create_guild_channel g f) = (''POST'', [Lit ''guilds'', Id, Lit ''channels''])"
| "api_route (Create_guild f) = (''POST'', [Lit ''guilds''])"
| "api_route (Create_invite c f) = (''POST'', [Lit ''channels'', Id, Lit ''invites''])"
| "api_route (Create_reaction c m e) = (''PUT'', [Lit ''channels'', Id, Lit ''messages'', Id, Lit ''reactions'', Word, Lit ''@me''])"
| "api_route (Crosspost_message c m) = (''POST'', [Lit ''channels'', Id, Lit ''messages'', Id, Lit ''crosspost''])"
| "api_route (Delete_all_reactions c m) = (''DELETE'', [Lit ''channels'', Id, Lit ''messages'', Id, Lit ''reactions'', Word])"
| "api_route (Delete_all_reactions_for_emoji c m e) = (''DELETE'', [Lit ''channels'', Id, Lit ''messages'', Id, Lit ''reactions'', Word])"
| "api_route (Delete_channel c) = (''DELETE'', [Lit ''channels'', Id])"
| "api_route (Delete_channel_permission c w) = (''DELETE'', [Lit ''channels'', Id, Lit ''permissions'', Id])"
| "api_route (Delete_guild g) = (''DELETE'', [Lit ''guilds'', Id])"
| "api_route (Delete_message c m) = (''DELETE'', [Lit ''channels'', Id, Lit ''messages'', Id])"
| "api_route (Delete_own_reaction c m e) = (''DELETE'', [Lit ''channels'', Id, Lit ''messages'', Id, Lit ''reactions'', Word, Lit ''@me''])"
| "api_route (Delete_user_reaction c m e u) = (''DELETE'', [Lit ''channels'', Id, Lit ''messages'', Id, Lit ''reactions'', Word, Id])"
| "api_route (Follow_announcement_channel c f) = (''POST'', [Lit ''channels'', Id, Lit ''webhooks''])"
| "api_route (Get_channel c) = (''GET'', [Lit ''channels'', Id])"
| "api_route (Get_channel_invites c) = (''GET'', [Lit ''channels'', Id, Lit ''invites''])"
| "api_route (Get_channel_message c m) = (''GET'', [Lit ''channels'', Id, Lit ''messages'', Id])"
| "api_route Get_current_user = (''GET'', [Lit ''users'', Lit ''@me''])"
| "api_route (Get_guild_ban g u) = (''GET'', [Lit ''guilds'', Id, Lit ''bans'', Id])"
| "api_route (Get_guild_channels g) = (''GET'', [Lit ''guilds'', Id, Lit ''channels''])"
| "api_route (Get_guild_invites g) = (''GET'', [Lit ''guilds'', Id, Lit ''invites''])"
| "api_route (Get_guild_member g u) = (''GET'', [Lit ''guilds'', Id, Lit ''members'', Id])"
| "api_route (Get_guild_preview g) = (''GET'', [Lit ''guilds'', Id, Lit ''preview''])"
| "api_route (Get_original_response a t) = (''GET'', [Lit ''webhooks'', Id, Word, Lit ''messages'', Lit ''@original''])"
| "api_route (Get_pinned_messages c) = (''GET'', [Lit ''channels'', Id, Lit ''pins''])"
| "api_route (Get_user u) = (''GET'', [Lit ''users'', Id])"
| "api_route (List_active_guild_threads g) = (''GET'', [Lit ''guilds'', Id, Lit ''threads'', Lit ''active''])"
| "api_route (Modify_channel c f) = (''PATCH'', [Lit ''channels'', Id])"
| "api_route (Modify_current_member g f) = (''PATCH'', [Lit ''guilds'', Id, Lit ''members'', Lit ''@me''])"
| "api_route (Modify_current_user f) = (''PATCH'', [Lit ''users'', Lit ''@me''])"
| "api_route (Modify_guild g f) = (''PATCH'', [Lit ''guilds'', Id])"
| "api_route (Modify_guild_channel_positions g f) = (''PATCH'', [Lit ''guilds'', Id, Lit ''channels''])"
| "api_route (Modify_guild_member g u f) = (''PATCH'', [Lit ''guilds'', Id, Lit ''members'', Id])"
| "api_route (Pin_message c m) = (''PUT'', [Lit ''channels'', Id, Lit ''pins'', Id])"
| "api_route (Remove_guild_member g u) = (''DELETE'', [Lit ''guilds'', Id, Lit ''members'', Id])"
| "api_route (Remove_guild_member_role g u r) = (''DELETE'', [Lit ''guilds'', Id, Lit ''members'', Id, Lit ''roles'', Id])"
| "api_route (Trigger_typing_indicator c) = (''POST'', [Lit ''channels'', Id, Lit ''typing''])"
| "api_route (Unpin_message c m) = (''DELETE'', [Lit ''channels'', Id, Lit ''pins'', Id])"
| "api_route (Edit_channel_permissions c p) = (''PUT'', [Lit ''channels'', Id, Lit ''permissions'', Id])"
| "api_route (Get_channel_messages c n) = (''GET'', [Lit ''channels'', Id, Lit ''messages''])"
| "api_route (Get_channel_messages_configured c n a m) = (''GET'', [Lit ''channels'', Id, Lit ''messages''])"
| "api_route (Get_guild g f) = (''GET'', [Lit ''guilds'', Id])"
| "api_route (Get_guild_bans g f) = (''GET'', [Lit ''guilds'', Id, Lit ''bans''])"
| "api_route (Get_reactions c m e a n) = (''GET'', [Lit ''channels'', Id, Lit ''messages'', Id, Lit ''reactions'', Word])"
| "api_route (List_guild_members g f) = (''GET'', [Lit ''guilds'', Id, Lit ''members''])"
| "api_route (Search_guild_members g f) = (''GET'', [Lit ''guilds'', Id, Lit ''members'', Lit ''search''])"
| "api_route (Create_message x) = (''POST'', [Lit ''channels'', Id, Lit ''messages''])"
| "api_route (Edit_message x) = (''PATCH'', [Lit ''channels'', Id, Lit ''messages'', Id])"
| "api_route (Create_response i t r) = (''POST'', [Lit ''interactions'', Id, Word, Lit ''callback''])"
| "api_route (Create_response_with_response i t r) = (''POST'', [Lit ''interactions'', Id, Word, Lit ''callback''])"
| "api_route (Edit_original_response a t x) = (''PATCH'', [Lit ''webhooks'', Id, Word, Lit ''messages'', Lit ''@original''])"

primrec api_values :: "req_env \<Rightarrow> api_call \<Rightarrow> segment_value list" where
  "api_values env (Add_guild_member_role g u r) = [VId g, VId u, VId r]"
| "api_values env (Add_guild_member g u f) = [VId g, VId u]"
| "api_values env (Bulk_delete_messages c f) = [VId c]"
| "api_values env (Bulk_overwrite_global_application_commands a f) = [VId a]"
| "api_values env (Bulk_overwrite_guild_application_commands a g f) = [VId a, VId g]"
| "api_values env (Create_dm f) = []"
| "api_values env (Create_guild_channel g f) = [VId g]"
| "api_values env (Create_guild f) = []"
| "api_values env (Create_invite c f) = [VId c]"
| "api_values env (Create_reaction c m e) = [VId c, VId m, VWord (rq_url_encode env (emoji_text e))]"
| "api_values env (Crosspost_message c m) = [VId c, VId m]"
| "api_values env (Delete_all_reactions c m) = [VId c, VId m]"
| "api_values env (Delete_all_reactions_for_emoji c m e) = [VId c, VId m, VWord (rq_url_encode env (emoji_text e))]"
| "api_values env (Delete_channel c) = [VId c]"
| "api_values env (Delete_channel_permission c w) = [VId c, VId w]"
| "api_values env (Delete_guild g) = [VId g]"
| "api_values env (Delete_message c m) = [VId c, VId m]"
| "api_values env (Delete_own_reaction c m e) = [VId c, VId m, VWord (rq_url_encode env (emoji_text e))]"
| "api_values env (Delete_user_reaction c m e u) = [VId c, VId m, VWord (rq_url_encode env (emoji_text e)), VId u]"
| "api_values env (Follow_announcement_channel c f) = [VId c]"
| "api_values env (Get_channel c) = [VId c]"
| "api_values env (Get_channel_invites c) = [VId c]"
| "api_values env (Get_channel_message c m) = [VId c, VId m]"
| "api_values env Get_current_user = []"
| "api_values env (Get_guild_ban g u) = [VId g, VId u]"
| "api_values env (Get_guild_channels g) = [VId g]"
| "api_values env (Get_guild_invites g) = [VId g]"
| "api_values env (Get_guild_member g u) = [VId g, VId u]"
| "api_values env (Get_guild_preview g) = [VId g]"
| "api_values env (Get_original_response a t) = [VId a, VWord t]"
| "api_values env (Get_pinned_messages c) = [VId c]"
| "api_values env (Get_user u) = [VId u]"
| "api_values env (List_active_guild_threads g) = [VId g]"
| "api_values env (Modify_channel c f) = [VId c]"
| "api_values env (Modify_current_member g f) = [VId g]"
| "api_values env (Modify_current_user f) = []"
| "api_values env (Modify_guild g f) = [VId g]"
| "api_values env (Modify_guild_channel_positions g f) = [VId g]"
| "api_values env (Modify_guild_member g u f) = [VId g, VId u]"
| "api_values env (Pin_message c m) = [VId c, VId m]"
| "api_values env (Remove_guild_member g u) = [VId g, VId u]"
| "api_values env (Remove_guild_member_role g u r) = [VId g, VId u, VId r]"
| "api_values env (Trigger_typing_indicator c) = [VId c]"
| "api_values env (Unpin_message c m) = [VId c, VId m]"
| "api_values env (Edit_channel_permissions c p) = [VId c, VId (po_id p)]"
| "api_values env (Get_channel_messages c n) = [VId c]"
| "api_values env (Get_channel_messages_configured c n a m) = [VId c]"
| "api_values env (Get_guild g f) = [VId g]"
| "api_values env (Get_guild_bans g f) = [VId g]"
| "api_values env (Get_reactions c m e a n) = [VId c, VId m, VWord (rq_url_encode env (emoji_text e))]"
| "api_values env (List_guild_members g f) = [VId g]"
| "api_values env (Search_guild_members g f) = [VId g]"
| "api_values env (Create_message x) = [VId (cm_channel_id x)]"
| "api_values env (Edit_message x) = [VId (ed_channel_id x), VId (ed_message_id x)]"
| "api_values env (Create_response i t r) = [VId i, VWord t]"
| "api_values env (Create_response_with_response i t r) = [VId i, VWord t]"
| "api_values env (Edit_original_response a t x) = [VId a, VWord t]"

definition api_query :: "api_call \<Rightarrow> string" where
  "api_query c = (case c of
     Get_channel_messages _ n \<Rightarrow> (case n of Some k \<Rightarrow> ''?limit='' @ decimal k | None \<Rightarrow> [])
   | Get_channel_messages_configured _ n a m \<Rightarrow> ''?'' @ (case n of Some k \<Rightarrow> ''limit='' @ decimal k @ ''&'' | None \<Rightarrow> []) @ anchor_text a @ ''='' @ to_string m
   | Get_guild _ f \<Rightarrow> (case ggf_with_counts f of Some b \<Rightarrow> ''?with_counts='' @ bool_text b | None \<Rightarrow> [])
   | Get_guild_bans _ f \<Rightarrow> query_string [map_option (\<lambda>k. ''before='' @ to_string k) (ggbf_before f), map_option (\<lambda>k. ''after='' @ to_string k) (ggbf_after f)]
   | Get_reactions _ _ _ a n \<Rightarrow> query_string [map_option (\<lambda>k. ''after='' @ to_string k) a, map_option (\<lambda>k. ''limit='' @ decimal k) n]
   | List_guild_members _ f \<Rightarrow> query_string [map_option (\<lambda>k. ''limit='' @ decimal k) (lgmf_limit f), map_option (\<lambda>k. ''after='' @ to_string k) (lgmf_after f)]
   | Search_guild_members _ f \<Rightarrow> query_string [map_option (\<lambda>s. ''query='' @ s) (sgmf_query f), map_option (\<lambda>k. ''limit='' @ decimal k) (sgmf_limit f)]
   | Create_response_with_response _ _ _ \<Rightarrow> ''?with_response=true''
   | _ \<Rightarrow> [])"

text \<open>What is relied on of the libraries.\<close>

definition clean :: "string \<Rightarrow> bool" where
  "clean s \<longleftrightarrow> CHR ''/'' \<notin> set s \<and> CHR ''?'' \<notin> set s"

definition env_ok :: "req_env \<Rightarrow> bool" where
  "env_ok env \<longleftrightarrow> (\<forall>r. rq_method (rq_prepare env r) = rq_method r \<and> rq_target (rq_prepare env r) = rq_target r \<and>
     rq_body (rq_prepare env r) = rq_body r) \<and> (\<forall>s. clean (rq_url_encode env s))"

lemma prepared [simp]:
  assumes "env_ok env"
  shows "rq_method (typed_request env m t ct b) = m" "rq_target (typed_request env m t ct b) = t"
    "rq_body (typed_request env m t ct b) = b" "rq_method (json_request env m t b) = m" "rq_target (json_request env m t b) = t"
    "rq_method (rq_prepare env r) = rq_method r" "rq_target (rq_prepare env r) = rq_target r"
  using assms by (simp_all add: env_ok_def typed_request_def json_request_def)

lemma bare_simps [simp]: "rq_method (bare_request m t) = m" "rq_target (bare_request m t) = t"
  by (simp_all add: bare_request_def)

lemma emoji_path_eq: "emoji_path env e = Some (rq_url_encode env (emoji_text e))"
  by (cases e) (simp_all add: emoji_path_def emoji_text_def)

lemma upload_request_pair:
  assumes "upload_request env ctr m t p us = (n, r)" "env_ok env"
  shows "rq_method r = m \<and> rq_target r = t"
  using assms by (auto simp: upload_request_def make_multipart_boundary_def Let_def)

lemmas plain_request_defs =
  add_guild_member_role_request_def add_guild_member_request_def bulk_delete_messages_request_def
  bulk_overwrite_global_application_commands_request_def bulk_overwrite_guild_application_commands_request_def
  create_dm_request_def create_guild_channel_request_def create_guild_request_def create_invite_request_def
  create_reaction_request_def crosspost_message_request_def delete_all_reactions_request_def
  delete_all_reactions_for_emoji_request_def delete_channel_request_def delete_channel_permission_request_def
  delete_guild_request_def delete_message_request_def delete_own_reaction_request_def
  delete_user_reaction_request_def follow_announcement_channel_request_def get_channel_request_def
  get_channel_invites_request_def get_channel_message_request_def get_current_user_request_def
  get_guild_ban_request_def get_guild_channels_request_def get_guild_invites_request_def
  get_guild_member_request_def get_guild_preview_request_def get_original_response_request_def
  get_pinned_messages_request_def get_user_request_def list_active_guild_threads_request_def
  modify_channel_request_def modify_current_member_request_def modify_current_user_request_def
  modify_guild_request_def modify_guild_channel_positions_request_def modify_guild_member_request_def
  pin_message_request_def remove_guild_member_request_def remove_guild_member_role_request_def
  trigger_typing_indicator_request_def unpin_message_request_def

lemmas query_request_defs = get_channel_messages_request_def get_channel_messages_configured_request_def get_guild_request_def
  get_guild_bans_request_def get_reactions_request_def list_guild_members_request_def search_guild_members_request_def

lemmas message_request_defs = edit_channel_permissions_request_def create_message_request_def edit_message_request_def
  create_response_request_def create_response_with_response_request_def edit_original_response_request_def

section \<open>The target of a request\<close>

text \<open>Formats evaluate to the path of the route, whatever the arguments.\<close>

lemma query_target:
  "get_channel_messages_request c n = Some (bare_request ''GET'' (path_text [''channels'', to_string c, ''messages''] @
     api_query (Get_channel_messages c n)))"
  "get_channel_messages_configured_request c n a m = Some (bare_request ''GET'' (path_text [''channels'', to_string c, ''messages''] @
     api_query (Get_channel_messages_configured c n a m)))"
  "get_guild_request g fg = Some (bare_request ''GET'' (path_text [''guilds'', to_string g] @ api_query (Get_guild g fg)))"
  "get_reactions_request env c m e k u = Some (bare_request ''GET'' (path_text [''channels'', to_string c, ''messages'', to_string m,
     ''reactions'', rq_url_encode env (emoji_text e)] @ api_query (Get_reactions c m e k u)))"
  "list_guild_members_request g fl = Some (bare_request ''GET'' (path_text [''guilds'', to_string g, ''members''] @
     api_query (List_guild_members g fl)))"
  "search_guild_members_request g fs = Some (bare_request ''GET'' (path_text [''guilds'', to_string g, ''members'', ''search''] @
     api_query (Search_guild_members g fs)))"
       apply (cases n; simp add: query_request_defs path_text_def api_query_def)
      apply (cases n; cases a; simp add: query_request_defs path_text_def api_query_def)
     apply (cases "ggf_with_counts fg"; simp add: query_request_defs path_text_def api_query_def)
    apply (cases k; cases u; simp add: query_request_defs path_text_def api_query_def emoji_path_eq separator_def)
   apply (cases "lgmf_limit fl"; cases "lgmf_after fl"; simp add: query_request_defs path_text_def api_query_def separator_def)
  apply (cases "sgmf_query fs"; cases "sgmf_limit fs"; simp add: query_request_defs path_text_def api_query_def separator_def)
  done

lemma bans_target:
  "get_guild_bans_request g f = (if ggbf_limit f \<noteq> None then None else
     Some (bare_request ''GET'' (path_text [''guilds'', to_string g, ''bans''] @ api_query (Get_guild_bans g f))))"
  by (cases "ggbf_limit f"; cases "ggbf_before f"; cases "ggbf_after f")
    (simp_all add: query_request_defs path_text_def api_query_def separator_def)

definition targets :: "req_env \<Rightarrow> api_call \<Rightarrow> request_body \<Rightarrow> bool" where
  "targets env c r \<longleftrightarrow> rq_method r = fst (api_route c) \<and>
     rq_target r = path_text (fill (snd (api_route c)) (api_values env c)) @ api_query c"

lemma message_targets:
  assumes "env_ok env"
  shows "map_option snd (create_message_request env ctr x) = Some r \<Longrightarrow> targets env (Create_message x) r"
    and "map_option snd (edit_message_request env ctr y) = Some r \<Longrightarrow> targets env (Edit_message y) r"
  using assms
  by (auto simp: targets_def create_message_request_def edit_message_request_def path_text_def api_query_def bind_Some_iff
      split: if_splits dest: upload_request_pair)

lemma api_targets:
  assumes env: "env_ok env" and r: "api_request env ctr c = Some r"
  shows "targets env c r"
proof (cases c)
  case (Create_message x)
  with r show ?thesis using message_targets(1) [OF env] by simp
next
  case (Edit_message x)
  with r show ?thesis using message_targets(2) [OF env] by simp
qed (use assms in \<open>auto simp: targets_def plain_request_defs message_request_defs query_target bans_target emoji_path_eq
    path_text_def api_query_def bind_Some_iff split: if_splits\<close>)

section \<open>Targets identify what they address\<close>

text \<open>Two segments that can have the same text.\<close>

fun overlap :: "segment \<Rightarrow> segment \<Rightarrow> bool" where
  "overlap (Lit a) (Lit b) = (a = b)"
| "overlap (Lit a) Id = (a \<noteq> [] \<and> list_all is_digit a)"
| "overlap Id (Lit b) = (b \<noteq> [] \<and> list_all is_digit b)"
| "overlap _ _ = True"

definition overlapping :: "segment list \<Rightarrow> segment list \<Rightarrow> bool" where
  "overlapping = list_all2 overlap"

fun typed :: "segment list \<Rightarrow> segment_value list \<Rightarrow> bool" where
  "typed [] [] = True"
| "typed (Lit s # p) vs = typed p vs"
| "typed (Id # p) (VId k # vs) = typed p vs"
| "typed (Word # p) (VWord s # vs) = typed p vs"
| "typed _ _ = False"

lemma routes_separate:
  "list_all (\<lambda>(m, p). list_all (\<lambda>(m', p'). m = m' \<longrightarrow> p = p' \<or> \<not> overlapping p p') ROUTES) ROUTES"
  by code_simp

lemma route_listed: "api_route c \<in> set ROUTES" if "\<forall>x y. c \<noteq> Delete_all_reactions x y"
  using that by (cases c) (simp_all add: ROUTES_def)

lemma values_typed: "typed (snd (api_route c)) (api_values env c)" if "\<forall>x y. c \<noteq> Delete_all_reactions x y"
  using that by (cases c) simp_all

lemma id_digits: "to_string k \<noteq> [] \<and> list_all is_digit (to_string k)"
  by (simp add: to_string_def to_decimal_digits)

lemma overlap_text:
  "typed p vs \<Longrightarrow> typed q ws \<Longrightarrow> fill p vs = fill q ws \<Longrightarrow> overlapping p q"
proof (induction p vs arbitrary: q ws rule: typed.induct)
  case 1
  then show ?case by (cases "(q, ws)" rule: typed.cases) (auto simp: overlapping_def)
next
  case (2 s p vs)
  then show ?case by (cases "(q, ws)" rule: typed.cases) (auto simp: overlapping_def id_digits)
next
  case (3 p k vs)
  then show ?case by (cases "(q, ws)" rule: typed.cases) (auto simp: overlapping_def id_digits)
next
  case (4 p s vs)
  then show ?case by (cases "(q, ws)" rule: typed.cases) (auto simp: overlapping_def)
qed auto

lemma typed_Cons:
  "typed (Id # p) vs \<longleftrightarrow> (\<exists>k ws. vs = VId k # ws \<and> typed p ws)"
  "typed (Word # p) vs \<longleftrightarrow> (\<exists>s ws. vs = VWord s # ws \<and> typed p ws)"
  by (cases vs; cases "hd vs"; simp)+

lemma fill_inj: "typed p vs \<Longrightarrow> typed p ws \<Longrightarrow> fill p vs = fill p ws \<Longrightarrow> vs = ws"
proof (induction p arbitrary: vs ws)
  case Nil
  then show ?case by (cases vs; cases ws) simp_all
next
  case (Cons x p)
  then show ?case by (cases x) (auto simp: typed_Cons to_string_inj)
qed

text \<open>The segments can be read off a path.\<close>

lemma append_unique:
  "x \<notin> set xs \<Longrightarrow> x \<notin> set ys \<Longrightarrow> us = [] \<or> hd us = x \<Longrightarrow> vs = [] \<or> hd vs = x \<Longrightarrow> xs @ us = ys @ vs \<Longrightarrow> xs = ys \<and> us = vs"
proof (induction xs arbitrary: ys)
  case Nil
  then show ?case by (cases ys) auto
next
  case (Cons a xs)
  show ?case
  proof (cases ys)
    case Nil
    with Cons.prems have "vs = a # xs @ us" by simp
    with Cons.prems show ?thesis by simp
  next
    case (Cons b ys')
    with Cons.prems Cons.IH [of ys'] show ?thesis by simp
  qed
qed

lemma path_text_start: "path_text ss = [] \<or> hd (path_text ss) = CHR ''/''"
  by (cases ss) (simp_all add: path_text_def)

lemma path_text_inj: "list_all clean ss \<Longrightarrow> list_all clean ts \<Longrightarrow> path_text ss = path_text ts \<Longrightarrow> ss = ts"
proof (induction ss arbitrary: ts)
  case Nil
  then show ?case by (cases ts) (simp_all add: path_text_def)
next
  case (Cons s ss)
  then obtain t ts' where ts: "ts = t # ts'" by (cases ts) (auto simp: path_text_def)
  with Cons.prems have "s @ path_text ss = t @ path_text ts'" by (simp add: path_text_def)
  then have "s = t \<and> path_text ss = path_text ts'"
    using Cons.prems ts by (intro append_unique [of "CHR ''/''"] path_text_start) (auto simp: clean_def)
  with Cons ts show ?case by simp
qed

lemma no_query_in_path: "list_all clean ss \<Longrightarrow> CHR ''?'' \<notin> set (path_text ss)"
  by (induction ss) (auto simp: path_text_def clean_def)

definition call_ok :: "api_call \<Rightarrow> bool" where
  "call_ok c \<longleftrightarrow> (case c of
     Get_original_response a t \<Rightarrow> clean t | Create_response i t r \<Rightarrow> clean t
   | Create_response_with_response i t r \<Rightarrow> clean t | Edit_original_response a t x \<Rightarrow> clean t
   | Delete_all_reactions x y \<Rightarrow> False | _ \<Rightarrow> True)"

lemma call_ok_produces: "call_ok c \<Longrightarrow> c \<noteq> Delete_all_reactions x y"
  by (cases "c = Delete_all_reactions x y") (simp_all add: call_ok_def)

lemma clean_id [simp]: "clean (to_string k)"
  using id_digits [of k] by (auto simp: clean_def list_all_iff is_digit_def)

definition fixed_clean :: "segment list \<Rightarrow> bool" where
  "fixed_clean = list_all (\<lambda>x. case x of Lit s \<Rightarrow> clean s | _ \<Rightarrow> True)"

lemma routes_clean: "list_all (\<lambda>(m, p). fixed_clean p) ROUTES"
  by code_simp

lemma fill_clean: "fixed_clean p \<Longrightarrow> list_all (\<lambda>v. clean (value_text v)) vs \<Longrightarrow> list_all clean (fill p vs)"
  by (induction p vs rule: fill.induct) (simp_all add: fixed_clean_def)

lemma values_clean:
  assumes "env_ok env" "call_ok c"
  shows "list_all (\<lambda>v. clean (value_text v)) (api_values env c)"
proof -
  have [simp]: "clean (rq_url_encode env s)" for s using assms(1) unfolding env_ok_def by blast
  show ?thesis
  proof (cases c)
    case (Get_original_response a t)
    with assms(2) show ?thesis by (simp add: call_ok_def)
  next
    case (Create_response i t r)
    with assms(2) show ?thesis by (simp add: call_ok_def)
  next
    case (Create_response_with_response i t r)
    with assms(2) show ?thesis by (simp add: call_ok_def)
  next
    case (Edit_original_response a t x)
    with assms(2) show ?thesis by (simp add: call_ok_def)
  qed simp_all
qed

lemma segments_clean:
  assumes "env_ok env" "call_ok c"
  shows "list_all clean (fill (snd (api_route c)) (api_values env c))"
proof (rule fill_clean [OF _ values_clean [OF assms]])
  have "\<forall>x y. c \<noteq> Delete_all_reactions x y" using assms(2) call_ok_produces by blast
  then have "api_route c \<in> set ROUTES" by (rule route_listed)
  then show "fixed_clean (snd (api_route c))" using routes_clean by (auto simp: list_all_iff)
qed

lemma query_start: "api_query c = [] \<or> hd (api_query c) = CHR ''?''"
proof -
  have "query_string ps = [] \<or> hd (query_string ps) = CHR ''?''" for ps
    by (induction ps rule: query_string.induct) simp_all
  then show ?thesis by (cases c) (auto simp: api_query_def split: option.splits)
qed

text \<open>
  C35. The method and the target of a request determine what it addresses: two calls of the client whose requests
  have the same method and target have the same route, the same ids and words in it, and the same query. The
  rate limiter, which keeps its limits by method and target, therefore never applies the limits
  of one endpoint to another. The token of an interaction must not hold a slash or a question mark.
\<close>

theorem targets_identify_calls:
  assumes "env_ok env" "call_ok c" "call_ok d"
    and "api_request env ctr c = Some r" "api_request env ctr' d = Some s"
    and "rq_method r = rq_method s" "rq_target r = rq_target s"
  shows "api_route c = api_route d \<and> api_values env c = api_values env d \<and> api_query c = api_query d"
proof -
  let ?p = "fill (snd (api_route c)) (api_values env c)" and ?q = "fill (snd (api_route d)) (api_values env d)"
  have t: "targets env c r" "targets env d s" using api_targets assms(1,4,5) by blast+
  have cl: "list_all clean ?p" "list_all clean ?q" using segments_clean assms(1-3) by blast+
  have "path_text ?p @ api_query c = path_text ?q @ api_query d" using t assms(7) by (simp add: targets_def)
  then have eq: "path_text ?p = path_text ?q" "api_query c = api_query d"
    using append_unique [OF no_query_in_path [OF cl(1)] no_query_in_path [OF cl(2)] query_start query_start] by blast+
  have f: "?p = ?q" by (rule path_text_inj [OF cl eq(1)])
  have nd: "\<forall>x y. c \<noteq> Delete_all_reactions x y" "\<forall>x y. d \<noteq> Delete_all_reactions x y"
    using assms(2,3) call_ok_produces by blast+
  have "overlapping (snd (api_route c)) (snd (api_route d))" by (rule overlap_text [OF values_typed values_typed f]) (use nd in auto)
  moreover have "fst (api_route c) = fst (api_route d)" using t assms(6) by (simp add: targets_def)
  ultimately have r: "api_route c = api_route d"
    using routes_separate route_listed [OF nd(1)] route_listed [OF nd(2)]
    by (cases "api_route c"; cases "api_route d") (fastforce simp: list_all_iff)
  with f have "api_values env c = api_values env d" using fill_inj values_typed nd by metis
  with r eq(2) show ?thesis by simp
qed

definition example_req_env :: req_env where
  "example_req_env = \<lparr>rq_dump = (\<lambda>_. Some ''{}''), rq_dump_replace = (\<lambda>_. ''{}''), rq_parse = (\<lambda>_. None),
     rq_url_encode = filter (\<lambda>c. c \<noteq> CHR ''/'' \<and> c \<noteq> CHR ''?''), rq_prepare = id\<rparr>"

lemma example_env_ok: "env_ok example_req_env"
  by (simp add: env_ok_def example_req_env_def clean_def)

theorem targets_identify_calls_witness:
  "let c = Pin_message 7 8; d = Pin_message 7 8 in
   \<exists>r. api_request example_req_env 0 c = Some r \<and> rq_target r = ''/channels/7/pins/8'' \<and>
     api_route c = api_route d \<and> api_values example_req_env c = api_values example_req_env d \<and> api_query c = api_query d"
proof -
  let ?r = "bare_request ''PUT'' ''/channels/7/pins/8''"
  have "to_string 7 = ''7''" "to_string 8 = ''8''" by code_simp+
  then have "api_request example_req_env ctr (Pin_message 7 8) = Some ?r" for ctr by (simp add: pin_message_request_def)
  moreover have "call_ok (Pin_message 7 8)" by (simp add: call_ok_def)
  ultimately have "api_route (Pin_message 7 8) = api_route (Pin_message 7 8) \<and>
      api_values example_req_env (Pin_message 7 8) = api_values example_req_env (Pin_message 7 8) \<and>
      api_query (Pin_message 7 8) = api_query (Pin_message 7 8)"
    using targets_identify_calls [OF example_env_ok, of "Pin_message 7 8" "Pin_message 7 8" 0 ?r 1 ?r] by blast
  with \<open>\<And>ctr. api_request example_req_env ctr (Pin_message 7 8) = Some ?r\<close> show ?thesis by simp
qed

section \<open>Requests that cannot be made\<close>

text \<open>
  Two requests of the interface can never be sent. Removing all reactions of a message has a format with three
  fields for two arguments, and the limit of a list of bans one with two fields for one: converting either to a
  request throws, whatever its arguments.
\<close>

theorem requests_that_throw:
  "api_request env ctr (Delete_all_reactions c m) = None \<and>
   api_request env ctr (Get_guild_bans g (get_guild_bans_set_limit n f)) = None"
  by (simp add: delete_all_reactions_request_def bans_target get_guild_bans_set_limit_def)

text \<open>
  A message that only uploads files cannot be sent. When nothing else is set the fields are converted to
  null, and removing a member from null throws: the call of \<^verbatim>\<open>send\<close> is left by an exception, with uploads and
  without. The same holds for editing a message to keep or to add attachments only.
\<close>

theorem uploads_alone_throw:
  "create_message_send env ctr \<lparr>cm_channel_id = c, cm_fields = create_message_fields_init, cm_uploads = us\<rparr> \<in> {None, Some (Inl invalid_argument)} \<and>
   edit_message_send env ctr \<lparr>ed_channel_id = c, ed_message_id = m, ed_fields = edit_message_fields_init, ed_uploads = us,
     ed_keep_ids = ids\<rparr> \<in> {None, Some (Inl invalid_argument)}"
proof -
  have c: "create_message_fields_to_json create_message_fields_init = Some JNull"
    by (simp add: create_message_fields_to_json_def create_message_fields_init_def opt_components_to_json_def
        create_message_fields_members_def write_members_def put_optional_def)
  have e: "edit_message_fields_to_json edit_message_fields_init = Some JNull"
    by (simp add: edit_message_fields_to_json_def edit_message_fields_init_def opt_components_to_json_def
        edit_message_fields_members_def write_members_def put_optional_def)
  have p: "cmf_payload_json create_message_fields_init = None" "emf_payload_json edit_message_fields_init = None"
    by (simp_all add: create_message_fields_init_def edit_message_fields_init_def)
  show ?thesis
    by (simp add: create_message_send_def edit_message_send_def create_message_request_def edit_message_request_def c e p
        erase_member_def)
qed

text \<open>The text of a search is not encoded: it can hold further parameters.\<close>

lemma search_query_not_encoded:
  "api_query (Search_guild_members g \<lparr>sgmf_query = Some (q @ ''&limit='' @ decimal n), sgmf_limit = None\<rparr>) =
   api_query (Search_guild_members g \<lparr>sgmf_query = Some q, sgmf_limit = Some n\<rparr>)"
  by (simp add: api_query_def)

section \<open>Uploads\<close>

text \<open>
  What is relied on of the JSON printer: control characters are escaped, so that what it prints of an object starts
  with a brace and holds no carriage return.
\<close>

definition printer_ok :: "req_env \<Rightarrow> bool" where
  "printer_ok env \<longleftrightarrow> (\<forall>kvs. CR \<notin> set (rq_dump_replace env (JObj kvs)) \<and> prefix ''{'' (rq_dump_replace env (JObj kvs)))"

definition plain_upload :: "string \<Rightarrow> upload \<Rightarrow> bool" where
  "plain_upload b u \<longleftrightarrow> QUOTE \<notin> set (up_filename u) \<and> CR \<notin> set (content_type_of u) \<and> safe_content b (up_data u)"

lemma boundary_text: "CR \<notin> set (snd (make_multipart_boundary ctr))"
  by (simp add: make_multipart_boundary_def Let_def to_string_def)

lemma printed_safe: "CR \<notin> set d \<Longrightarrow> prefix ''{'' d \<Longrightarrow> safe_content b d"
proof -
  assume d: "CR \<notin> set d" "prefix ''{'' d"
  then have "\<not> sublist (CR # LF # ''--'' @ b) d" by (meson list.set_intros(1) set_mono_sublist subsetD)
  with d show ?thesis by (auto simp: safe_content_def delimiter_Cons crlf_def sublist_Cons_right prefix_def)
qed

text \<open>
  C36. What is uploaded with a message is received: if \<^verbatim>\<open>send\<close> accepts a message with files, the receiver of its
  request, reading the body with the boundary, gets an object whose member \<open>attachments\<close> numbers and describes the
  files in order, and then each file under its number with its name, type and content. The file names must not
  hold a quote, the content types no carriage return, the contents no line that starts with the boundary.
\<close>

theorem uploaded_message_received:
  assumes "env_ok env" "printer_ok env" "create_message_send env ctr x = Some (Inr (n, r))" "cm_uploads x \<noteq> []"
    and "b = snd (make_multipart_boundary ctr)" "list_all (plain_upload b) (cm_uploads x)"
  shows "\<exists>kvs. map_of kvs ''attachments'' = Some (JArr (map (\<lambda>(i, u). upload_json i u) (enumerate 0 (cm_uploads x)))) \<and>
    parse_multipart b (rq_body r) = Some (payload_received (rq_dump_replace env (JObj kvs)) #
      map (\<lambda>(i, f). file_received i f) (enumerate 0 (cm_uploads x)))"
proof -
  let ?as = "JArr (attachments_json_from_uploads (cm_uploads x))"
  have v: "list_all valid_upload (cm_uploads x)" and q: "create_message_request env ctr x = Some (n, r)"
    using assms(3) by (auto simp: create_message_send_def valid_uploads_def split: if_splits)
  obtain p payload t where p: "put_into ''attachments'' ?as p = Some payload"
    "upload_request env ctr ''POST'' t payload (cm_uploads x) = (n, r)"
    using q assms(4) that by (auto simp: create_message_request_def bind_Some_iff)
  obtain kvs where kvs: "payload = JObj kvs" "map_of kvs ''attachments'' = Some ?as"
    using p(1) by (auto simp: put_into_def split: json.splits)
  have "rq_body r = encode_multipart_form_data b (rq_dump_replace env payload) (cm_uploads x)"
    using p(2) assms(1,5) by (auto simp: upload_request_def split_def Let_def)
  moreover have "list_all (safe_upload b) (cm_uploads x)"
    using v assms(6) by (auto simp: list_all_iff valid_upload_def plain_upload_def safe_upload_def)
  moreover have "safe_content b (rq_dump_replace env payload)"
    using assms(2) kvs(1) printed_safe unfolding printer_ok_def by blast
  moreover have "CR \<notin> set b" using boundary_text assms(5) by simp
  ultimately show ?thesis using multipart_written kvs
    by (intro exI [of _ kvs]) (simp add: attachments_json_from_uploads_def)
qed

theorem uploaded_message_received_witness:
  "\<exists>n r kvs. create_message_send example_req_env 0 \<lparr>cm_channel_id = 7,
       cm_fields = create_message_set_content ''hi'' create_message_fields_init, cm_uploads = [example_file]\<rparr> = Some (Inr (n, r)) \<and>
     map_of kvs ''attachments'' = Some (JArr [upload_json 0 example_file]) \<and>
     parse_multipart ''----ekizu-multipart-1'' (rq_body r) = Some [payload_received ''{}'', file_received 0 example_file]"
proof -
  let ?x = "\<lparr>cm_channel_id = 7, cm_fields = create_message_set_content ''hi'' create_message_fields_init, cm_uploads = [example_file]\<rparr>"
  have "\<exists>q. create_message_send example_req_env 0 ?x = Some (Inr q)"
    by (simp add: create_message_send_def valid_uploads_def valid_upload_def example_file_def create_message_request_def
        create_message_set_content_def create_message_fields_init_def create_message_fields_to_json_def
        opt_components_to_json_def create_message_fields_members_def write_members_def put_optional_def put_member_def
        erase_member_def put_into_def)
  then obtain n r where r: "create_message_send example_req_env 0 ?x = Some (Inr (n, r))" by auto
  have "printer_ok example_req_env" by (simp add: printer_ok_def example_req_env_def)
  moreover have "plain_upload ''----ekizu-multipart-1'' example_file"
    by (simp add: plain_upload_def safe_content_def delimiter_Cons crlf_def sublist_Cons_right example_file_def content_type_of_def)
  ultimately show ?thesis
    using uploaded_message_received [OF example_env_ok _ r, of "''----ekizu-multipart-1''"] r example_boundary
    by (simp add: example_req_env_def)
qed

section \<open>Sending\<close>

text \<open>Every target is a path of the interface, so that the client puts the version in front of it.\<close>

definition api_roots :: "string list" where
  "api_roots = [''guilds'', ''channels'', ''applications'', ''users'', ''webhooks'', ''interactions'']"

lemma routes_rooted: "list_all (\<lambda>(m, p). case p of Lit s # _ \<Rightarrow> s \<in> set api_roots | _ \<Rightarrow> False) ROUTES"
  by code_simp

lemma target_rooted:
  assumes "env_ok env" "call_ok c" "api_request env ctr c = Some r"
  shows "\<exists>s t. s \<in> set api_roots \<and> rq_target r = CHR ''/'' # s @ t"
proof -
  have "\<forall>x y. c \<noteq> Delete_all_reactions x y" using assms(2) call_ok_produces by blast
  then have "api_route c \<in> set ROUTES" by (rule route_listed)
  then have "case snd (api_route c) of Lit s # _ \<Rightarrow> s \<in> set api_roots | _ \<Rightarrow> False"
    using routes_rooted unfolding list_all_iff split_def by blast
  then obtain s p where "snd (api_route c) = Lit s # p" "s \<in> set api_roots"
    by (metis (no_types, lifting) list.case segment.case(2,3) list.exhaust segment.exhaust segment.case(1))
  moreover have "targets env c r" using assms api_targets by blast
  ultimately show ?thesis by (auto simp: targets_def path_text_def)
qed

text \<open>
  Every request the client makes goes to the host, with the token, below the version of the interface: the path
  it is sent to is the prefix followed by the target of the request, however often it is retried.
\<close>

theorem requests_sent_below_version:
  assumes "env_ok env" "call_ok c" "api_request env ctr c = Some r"
  shows "rq_target (normalize_request token r) = ''/api/v10'' @ rq_target r \<and>
    rq_target (normalize_request token (normalize_request token r)) = ''/api/v10'' @ rq_target r"
proof -
  obtain s t where s: "s \<in> set api_roots" "rq_target r = CHR ''/'' # s @ t" using target_rooted [OF assms] by blast
  have "normalize_target (rq_target r) = ''/api/v10'' @ rq_target r"
    using s by (auto simp: normalize_target_def api_roots_def)
  moreover have "normalize_target (''/api/v10'' @ u) = ''/api/v10'' @ u" for u
    by (simp add: normalize_target_def)
  ultimately show ?thesis by (simp add: normalize_request_def)
qed

theorem requests_sent_below_version_witness:
  "\<exists>r. api_request example_req_env 0 (Get_channel 7) = Some r \<and>
     rq_target (normalize_request ''t'' r) = ''/api/v10/channels/7''"
proof -
  have s: "to_string 7 = ''7''" by code_simp
  then have r: "api_request example_req_env 0 (Get_channel 7) = Some (bare_request ''GET'' ''/channels/7'')"
    by (simp add: get_channel_request_def)
  moreover have "call_ok (Get_channel 7)" by (simp add: call_ok_def)
  ultimately show ?thesis using requests_sent_below_version [OF example_env_ok _ r, of "''t''"] by simp
qed

text \<open>
  \<^verbatim>\<open>RequestSender::send\<close>: the answer of the rate limiter, or the value read from the body of the response.
\<close>

datatype send_error = Transport rl_error | Json_parse_failed | Json_deserialize_failed

definition parse_text :: "req_env \<Rightarrow> (json \<Rightarrow> 'a option) \<Rightarrow> string \<Rightarrow> send_error + 'a" where
  "parse_text env get s = (case rq_parse env s of
     None \<Rightarrow> Inl Json_parse_failed
   | Some j \<Rightarrow> (case get j of None \<Rightarrow> Inl Json_deserialize_failed | Some v \<Rightarrow> Inr v))"

definition request_sender_answer :: "req_env \<Rightarrow> (json \<Rightarrow> 'a option) \<Rightarrow> rl_error + http_response \<Rightarrow> send_error + 'a" where
  "request_sender_answer env get res = (case res of
     Inl e \<Rightarrow> Inl (Transport e)
   | Inr r \<Rightarrow> parse_text env get (rs_body r))"

text \<open>\<^verbatim>\<open>CreateResponse::send\<close> looks at the status only.\<close>

definition create_response_answer :: "rl_error + http_response \<Rightarrow> (rl_error + errc) + unit" where
  "create_response_answer res = (case res of
     Inl e \<Rightarrow> Inl (Inl e)
   | Inr r \<Rightarrow> if rs_status r \<noteq> 204 \<and> rs_status r \<noteq> 200 then Inl (Inr operation_not_permitted) else Inr ())"

text \<open>A registration that the service confirms is reported as a failure if a choice of a command is a number.\<close>

lemma numeric_choice_reported_as_failure:
  assumes "rq_parse env (rs_body r) = Some (JArr (map application_command_to_json cs))"
    and "\<not> list_all (\<lambda>c. pred_option (list_all all_text) (ac_options c)) cs"
  shows "request_sender_answer env (get_vector application_command_from_json) (Inr r) = Inl Json_deserialize_failed"
proof -
  have "get_vector application_command_from_json (JArr (map application_command_to_json cs)) = None"
    using assms(2) get_vector_if [of cs application_command_from_json application_command_to_json
        "\<lambda>c. pred_option (list_all all_text) (ac_options c)" kept_command]
    by (simp add: command_read)
  then show ?thesis using assms(1) by (simp add: request_sender_answer_def parse_text_def)
qed

text \<open>The client for interactions. Reading the original response ignores the application it is given.\<close>

record interaction_client =
  icl_application_id :: snowflake

definition interaction_create_response :: "interaction_client \<Rightarrow> snowflake \<Rightarrow> string \<Rightarrow> interaction_response \<Rightarrow> api_call" where
  "interaction_create_response k i t r = Create_response i t r"

definition interaction_get_original_response :: "interaction_client \<Rightarrow> snowflake \<Rightarrow> string \<Rightarrow> api_call" where
  "interaction_get_original_response k a t = Get_original_response (icl_application_id k) t"

definition interaction_edit_original_response :: "interaction_client \<Rightarrow> string \<Rightarrow> edit_original_response \<Rightarrow> api_call" where
  "interaction_edit_original_response k t x = Edit_original_response (icl_application_id k) t x"

end
