(* ===== verification/Embed_Builder.thy ===== *)
theory Embed_Builder
  imports Entity_Message
begin

text \<open>
  \<^verbatim>\<open>EmbedBuilder\<close> of \<^verbatim>\<open>include/ekizu/embed.hpp\<close>, which holds the embed it builds.
\<close>

definition embed_add_field :: "embed_field \<Rightarrow> embed \<Rightarrow> embed" where
  "embed_add_field f e = e\<lparr>em_fields := Some ((case em_fields e of None \<Rightarrow> [] | Some fs \<Rightarrow> fs) @ [f])\<rparr>"

definition embed_add_fields :: "embed_field list \<Rightarrow> embed \<Rightarrow> embed" where
  "embed_add_fields fs' e = e\<lparr>em_fields := Some ((case em_fields e of None \<Rightarrow> [] | Some fs \<Rightarrow> fs) @ fs')\<rparr>"

definition embed_set_author :: "embed_author \<Rightarrow> embed \<Rightarrow> embed" where
  "embed_set_author x e = e\<lparr>em_author := Some x\<rparr>"

text \<open>The parameter has 16 bits, and a number that is passed to it is converted.\<close>

definition embed_set_color :: "u32 \<Rightarrow> embed \<Rightarrow> embed" where
  "embed_set_color x e = e\<lparr>em_color := Some (ucast x)\<rparr>"

definition embed_set_description :: "string \<Rightarrow> embed \<Rightarrow> embed" where
  "embed_set_description x e = e\<lparr>em_description := Some x\<rparr>"

definition embed_set_fields :: "embed_field list \<Rightarrow> embed \<Rightarrow> embed" where
  "embed_set_fields x e = e\<lparr>em_fields := Some x\<rparr>"

definition embed_set_footer :: "embed_footer \<Rightarrow> embed \<Rightarrow> embed" where
  "embed_set_footer x e = e\<lparr>em_footer := Some x\<rparr>"

definition embed_set_image :: "embed_image \<Rightarrow> embed \<Rightarrow> embed" where
  "embed_set_image x e = e\<lparr>em_image := Some x\<rparr>"

definition embed_set_provider :: "embed_provider \<Rightarrow> embed \<Rightarrow> embed" where
  "embed_set_provider x e = e\<lparr>em_provider := Some x\<rparr>"

definition embed_set_thumbnail :: "embed_image \<Rightarrow> embed \<Rightarrow> embed" where
  "embed_set_thumbnail x e = e\<lparr>em_thumbnail := Some x\<rparr>"

definition embed_set_title :: "string \<Rightarrow> embed \<Rightarrow> embed" where
  "embed_set_title x e = e\<lparr>em_title := Some x\<rparr>"

definition embed_set_url :: "string \<Rightarrow> embed \<Rightarrow> embed" where
  "embed_set_url x e = e\<lparr>em_url := Some x\<rparr>"

definition embed_set_video :: "embed_image \<Rightarrow> embed \<Rightarrow> embed" where
  "embed_set_video x e = e\<lparr>em_video := Some x\<rparr>"

text \<open>The calls a builder can get.\<close>

datatype embed_call =
    AddField embed_field | AddFields "embed_field list" | SetAuthor embed_author | SetColor u32 | SetDescription string
  | SetFields "embed_field list" | SetFooter embed_footer | SetImage embed_image | SetProvider embed_provider
  | SetThumbnail embed_image | SetTitle string | SetUrl string | SetVideo embed_image

fun apply_call :: "embed_call \<Rightarrow> embed \<Rightarrow> embed" where
  "apply_call (AddField x) = embed_add_field x"
| "apply_call (AddFields x) = embed_add_fields x"
| "apply_call (SetAuthor x) = embed_set_author x"
| "apply_call (SetColor x) = embed_set_color x"
| "apply_call (SetDescription x) = embed_set_description x"
| "apply_call (SetFields x) = embed_set_fields x"
| "apply_call (SetFooter x) = embed_set_footer x"
| "apply_call (SetImage x) = embed_set_image x"
| "apply_call (SetProvider x) = embed_set_provider x"
| "apply_call (SetThumbnail x) = embed_set_thumbnail x"
| "apply_call (SetTitle x) = embed_set_title x"
| "apply_call (SetUrl x) = embed_set_url x"
| "apply_call (SetVideo x) = embed_set_video x"

definition build_embed :: "embed_call list \<Rightarrow> embed" where
  "build_embed calls = fold apply_call calls embed_init"

lemmas embed_setters =
  embed_add_field_def embed_add_fields_def embed_set_author_def embed_set_color_def embed_set_description_def
  embed_set_fields_def embed_set_footer_def embed_set_image_def embed_set_provider_def embed_set_thumbnail_def
  embed_set_title_def embed_set_url_def embed_set_video_def

text \<open>The fields of an embed are those added since the list was last set, in the order of the calls.\<close>

fun fields_of :: "embed_field list option \<Rightarrow> embed_call list \<Rightarrow> embed_field list option" where
  "fields_of fs [] = fs"
| "fields_of fs (AddField x # cs) = fields_of (Some ((case fs of None \<Rightarrow> [] | Some ys \<Rightarrow> ys) @ [x])) cs"
| "fields_of fs (AddFields xs # cs) = fields_of (Some ((case fs of None \<Rightarrow> [] | Some ys \<Rightarrow> ys) @ xs)) cs"
| "fields_of fs (SetFields xs # cs) = fields_of (Some xs) cs"
| "fields_of fs (c # cs) = fields_of fs cs"

lemma built_fields: "em_fields (build_embed calls) = fields_of None calls"
proof -
  have "em_fields (fold apply_call calls e) = fields_of (em_fields e) calls" for e
    by (induction "em_fields e" calls arbitrary: e rule: fields_of.induct) (simp_all add: embed_setters)
  then show ?thesis by (simp add: build_embed_def embed_init_def)
qed

text \<open>
  What was built is what the receiver reads, if every image, video and provider has a member: one without any is
  written as null, which is read as nothing.
\<close>

fun call_written :: "embed_call \<Rightarrow> bool" where
  "call_written (SetImage x) = (\<not> is_null (embed_image_to_json x))"
| "call_written (SetThumbnail x) = (\<not> is_null (embed_image_to_json x))"
| "call_written (SetVideo x) = (\<not> is_null (embed_image_to_json x))"
| "call_written (SetProvider x) = (\<not> is_null (embed_provider_to_json x))"
| "call_written _ = True"

lemma built_embed_received:
  assumes "list_all call_written calls"
  shows "embed_from_json (embed_to_json (build_embed calls)) = Some (build_embed calls)"
proof (rule embed_roundtrip)
  have "embed_ok e \<Longrightarrow> call_written c \<Longrightarrow> embed_ok (apply_call c e)" for c e
    by (cases c) (simp_all add: embed_ok_def embed_setters)
  then have "embed_ok e \<Longrightarrow> embed_ok (fold apply_call calls e)" for e
    using assms by (induction calls arbitrary: e) auto
  then show "embed_ok (build_embed calls)" by (simp add: build_embed_def embed_ok_def embed_init_def)
qed

text \<open>A color has 24 bits; what arrives has lost the upper eight: blue and green stay, red is gone.\<close>

lemma color_loses_red:
  "em_color (build_embed [SetColor rgb]) = Some (ucast rgb)"
  "em_color (build_embed [SetColor 0xFF0000]) = Some 0"
  by (simp_all add: build_embed_def embed_setters)

end
