(* ===== verification/Json_Helpers.thy ===== *)
theory Json_Helpers
  imports Json_Util
begin

text \<open>
  The rest of \<^verbatim>\<open>include/ekizu/json_util.hpp\<close>, with the errors it reports: \<^verbatim>\<open>include/ekizu/error.hpp\<close> and the
  context of the last error of a thread, \<^verbatim>\<open>src/error_context.cpp\<close>. The parser of the JSON library and the text of its
  exceptions are parameters.
\<close>

section \<open>Errors\<close>

datatype ekizu_errc =
    json_parse_failed | json_deserialize_failed | json_schema_mismatch | invalid_outgoing_payload
  | http_unsupported_scheme | http_not_connected | http_not_authenticated
  | http_redirection | http_client_error | http_rate_limited | http_server_error
  | rate_limiter_stopped | rate_limiter_send_disabled
  | udp_invalid_address | udp_not_initialized | udp_not_connected | udp_closed | http_error

fun errc_number :: "ekizu_errc \<Rightarrow> int" where
  "errc_number json_parse_failed = 1"
| "errc_number json_deserialize_failed = 2"
| "errc_number json_schema_mismatch = 3"
| "errc_number invalid_outgoing_payload = 4"
| "errc_number http_unsupported_scheme = 100"
| "errc_number http_not_connected = 101"
| "errc_number http_not_authenticated = 120"
| "errc_number http_redirection = 130"
| "errc_number http_client_error = 131"
| "errc_number http_rate_limited = 132"
| "errc_number http_server_error = 133"
| "errc_number rate_limiter_stopped = 140"
| "errc_number rate_limiter_send_disabled = 141"
| "errc_number udp_invalid_address = 160"
| "errc_number udp_not_initialized = 161"
| "errc_number udp_not_connected = 162"
| "errc_number udp_closed = 163"
| "errc_number http_error = 200"

definition error_messages :: "(int \<times> string) list" where
  "error_messages = map (\<lambda>(e, m). (errc_number e, m))
     [(json_parse_failed, ''JSON parse failed''), (json_deserialize_failed, ''JSON deserialize failed''),
      (json_schema_mismatch, ''JSON schema mismatch''), (invalid_outgoing_payload, ''Invalid outgoing payload''),
      (http_unsupported_scheme, ''HTTP unsupported scheme''), (http_not_connected, ''HTTP not connected''),
      (http_not_authenticated, ''HTTP not authenticated''), (http_redirection, ''HTTP redirection''),
      (http_client_error, ''HTTP client error''), (http_rate_limited, ''HTTP rate limited''),
      (http_server_error, ''HTTP server error''), (rate_limiter_stopped, ''Rate limiter stopped''),
      (rate_limiter_send_disabled, ''Rate limiter send disabled''), (udp_invalid_address, ''UDP invalid address''),
      (udp_not_initialized, ''UDP not initialized''), (udp_not_connected, ''UDP not connected''),
      (udp_closed, ''UDP closed''), (http_error, ''HTTP error'')]"

definition error_message :: "int \<Rightarrow> string" where
  "error_message ev = (case map_of error_messages ev of Some m \<Rightarrow> m | None \<Rightarrow> ''Unknown ekizu error'')"

text \<open>Every error has a number and a message of its own.\<close>

lemma errors_distinct: "errc_number e = errc_number e' \<longleftrightarrow> e = e'"
  by (cases e; cases e') simp_all

lemma messages_distinct: "error_message (errc_number e) = error_message (errc_number e') \<longleftrightarrow> e = e'"
proof -
  have "error_message (errc_number e) \<in> snd ` set error_messages" for e
    by (cases e) (simp_all add: error_message_def error_messages_def)
  have d: "distinct (map snd error_messages)" "distinct (map fst error_messages)" by code_simp+
  have m: "map_of error_messages (errc_number e) = Some (error_message (errc_number e))" for e
    by (cases e) (simp_all add: error_message_def error_messages_def)
  show ?thesis
    using d m [THEN map_of_SomeD, of e] m [THEN map_of_SomeD, of e'] errors_distinct
    by (metis (no_types, lifting) distinct_map inj_onD prod.inject snd_conv)
qed

section \<open>Presence\<close>

definition not_null :: "json \<Rightarrow> string \<Rightarrow> bool" where
  "not_null data key = (case json_at data key of Some v \<Rightarrow> \<not> is_null v | None \<Rightarrow> False)"

definition not_null_all :: "json \<Rightarrow> string list \<Rightarrow> bool" where
  "not_null_all data keys = list_all (not_null data) keys"

fun not_null_recursive :: "json \<Rightarrow> string list \<Rightarrow> bool" where
  "not_null_recursive data [] = True"
| "not_null_recursive data (k # ks) =
     (not_null_all data [k] \<and> (case json_at data k of Some v \<Rightarrow> not_null_recursive v ks | None \<Rightarrow> False))"

definition get_or_default :: "(json \<Rightarrow> 'a option) \<Rightarrow> 'a \<Rightarrow> json \<Rightarrow> string \<Rightarrow> 'a option" where
  "get_or_default get dflt data key =
     (case json_at data key of Some v \<Rightarrow> if is_null v then Some dflt else get v | None \<Rightarrow> Some dflt)"

text \<open>The path exists, and its end is not null.\<close>

fun json_path :: "json \<Rightarrow> string list \<Rightarrow> json option" where
  "json_path j [] = Some j"
| "json_path j (k # ks) = Option.bind (json_at j k) (\<lambda>v. json_path v ks)"

lemma json_at_null: "is_null j \<Longrightarrow> json_at j k = None"
  by (cases j) simp_all

lemma not_null_recursive_iff:
  "ks \<noteq> [] \<Longrightarrow> not_null_recursive data ks \<longleftrightarrow> (\<exists>v. json_path data ks = Some v \<and> \<not> is_null v)"
proof (induction ks arbitrary: data)
  case (Cons k ks)
  show ?case
  proof (cases "json_at data k")
    case (Some v)
    have "is_null v \<Longrightarrow> ks \<noteq> [] \<Longrightarrow> json_path v ks = None" by (cases ks) (simp_all add: json_at_null)
    with Some Cons.IH [of v] show ?thesis by (cases ks) (auto simp: not_null_all_def not_null_def)
  qed (simp add: not_null_all_def not_null_def)
qed simp

lemma get_or_default_deserialize: "get_or_default get dflt data key = deserialize (to_value get) data key dflt"
  by (simp add: get_or_default_def deserialize_def to_value_def split: option.splits)

section \<open>Variants\<close>

text \<open>
  The alternatives are tried in order. The target holds the first alternative, and the value that was read is assigned
  with \<^verbatim>\<open>std::get\<close> of its type: for any other alternative that throws an exception which is not one of the JSON library and
  is not caught, \<^term>\<open>None\<close>. The inner option is the result.
\<close>

fun variant_attempts :: "nat \<Rightarrow> (json \<Rightarrow> 'v option) list \<Rightarrow> json \<Rightarrow> 'v option option" where
  "variant_attempts i [] j = Some None"
| "variant_attempts i (get # gets) j =
     (case get j of
        None \<Rightarrow> variant_attempts (Suc i) gets j
      | Some v \<Rightarrow> if i = 0 then Some (Some v) else None)"

definition variant_from_json :: "(json \<Rightarrow> 'v option) list \<Rightarrow> json \<Rightarrow> 'v option option" where
  "variant_from_json gets j = variant_attempts 0 gets j"

definition read_variant :: "(json \<Rightarrow> 'v option) list \<Rightarrow> json \<Rightarrow> 'v \<Rightarrow> 'v option" where
  "read_variant gets j old = map_option (\<lambda>r. case r of Some v \<Rightarrow> v | None \<Rightarrow> old) (variant_from_json gets j)"

text \<open>Only the first alternative can be read; a value of any other one is an exception.\<close>

lemma variant_first_only:
  "read_variant (get # gets) j old =
     (case get j of
        Some v \<Rightarrow> Some v
      | None \<Rightarrow> if list_ex (\<lambda>g. g j \<noteq> None) gets then None else Some old)"
proof -
  have "variant_attempts (Suc i) gs j = (if list_ex (\<lambda>g. g j \<noteq> None) gs then None else Some None)" for i gs
    by (induction gs arbitrary: i) (auto split: option.splits)
  from this [of 0 gets] show ?thesis
    by (auto simp: read_variant_def variant_from_json_def simp del: variant_attempts.simps(1) split: option.splits)
qed

section \<open>Texts\<close>

definition parse_context :: "string \<Rightarrow> string" where
  "parse_context str = ''JSON parse failed; input preview: '' @ take 256 str"

text \<open>The first component of a result is the context afterwards; both functions clear it first.\<close>

definition try_parse :: "(string \<Rightarrow> json option) \<Rightarrow> string \<Rightarrow> string \<times> (ekizu_errc + json)" where
  "try_parse parse str = (case parse str of
     None \<Rightarrow> (parse_context str, Inl json_parse_failed)
   | Some j \<Rightarrow> ([], Inr j))"

definition deserialize_text ::
    "(string \<Rightarrow> json option) \<Rightarrow> (json \<Rightarrow> string + 'a) \<Rightarrow> string \<Rightarrow> string \<times> (ekizu_errc + 'a)" where
  "deserialize_text parse get str = (case try_parse parse str of
     (ctx, Inl e) \<Rightarrow> (ctx, Inl e)
   | (ctx, Inr j) \<Rightarrow> (case get j of
       Inl what \<Rightarrow> (what, Inl json_deserialize_failed)
     | Inr v \<Rightarrow> (ctx, Inr v)))"

text \<open>A success leaves no context of an earlier error, and a failure to parse one of bounded length.\<close>

lemma text_contexts:
  "deserialize_text parse get str = (ctx, Inr v) \<Longrightarrow> ctx = []"
  "deserialize_text parse get str = (ctx, Inl json_parse_failed) \<Longrightarrow> length ctx \<le> 290 \<and> parse str = None"
  by (auto simp: deserialize_text_def try_parse_def parse_context_def split: option.splits sum.splits)

end
