(* ===== verification/Client_Options.thy ===== *)
theory Client_Options
  imports Prelude
begin

text \<open>
  \<^verbatim>\<open>include/ekizu/intents.hpp\<close>, \<^verbatim>\<open>permissions.hpp\<close> and \<^verbatim>\<open>client_options.hpp\<close>: the flags of the gateway and of
  members with their operators, and the options of a client.
\<close>

unbundle bit_operations_syntax

section \<open>Intents\<close>

type_synonym intents = u32

datatype intent =
    Guilds | GuildMembers | GuildBans | GuildEmojis | GuildIntegrations | GuildWebhooks | GuildInvites
  | GuildVoiceStates | GuildPresences | GuildMessages | GuildMessageReactions | GuildMessageTyping
  | DirectMessages | DirectMessageReactions | DirectMessageTyping | MessageContent | GuildScheduledEvents

fun intent_shift :: "intent \<Rightarrow> nat" where
  "intent_shift Guilds = 0"
| "intent_shift GuildMembers = 1"
| "intent_shift GuildBans = 2"
| "intent_shift GuildEmojis = 3"
| "intent_shift GuildIntegrations = 4"
| "intent_shift GuildWebhooks = 5"
| "intent_shift GuildInvites = 6"
| "intent_shift GuildVoiceStates = 7"
| "intent_shift GuildPresences = 8"
| "intent_shift GuildMessages = 9"
| "intent_shift GuildMessageReactions = 10"
| "intent_shift GuildMessageTyping = 11"
| "intent_shift DirectMessages = 12"
| "intent_shift DirectMessageReactions = 13"
| "intent_shift DirectMessageTyping = 14"
| "intent_shift MessageContent = 15"
| "intent_shift GuildScheduledEvents = 16"

definition intent_value :: "intent \<Rightarrow> intents" where
  "intent_value i = push_bit (intent_shift i) 1"

definition intents_or :: "intents \<Rightarrow> intents \<Rightarrow> intents" where
  "intents_or a b = a OR b"

definition intents_and :: "intents \<Rightarrow> intents \<Rightarrow> intents" where
  "intents_and a b = a AND b"

definition intents_of :: "intent list \<Rightarrow> intents" where
  "intents_of is = foldr (\<lambda>i. intents_or (intent_value i)) is 0"

definition default_list :: "intent list" where
  "default_list = [Guilds, GuildBans, GuildEmojis, GuildIntegrations, GuildWebhooks, GuildInvites, GuildVoiceStates,
     GuildMessages, GuildMessageReactions, GuildMessageTyping, DirectMessages, DirectMessageReactions,
     DirectMessageTyping, GuildScheduledEvents]"

definition DefaultIntents :: intents where "DefaultIntents = intents_of default_list"
definition PrivilegedIntents :: intents where
  "PrivilegedIntents = intents_of [GuildMembers, GuildPresences, MessageContent]"
definition AllIntents :: intents where "AllIntents = intents_or DefaultIntents PrivilegedIntents"

text \<open>A set of intents says which intents are in it, and combining sets is union and intersection.\<close>

lemma intent_in_list: "intents_and (intents_of is) (intent_value i) \<noteq> 0 \<longleftrightarrow> i \<in> set is"
proof -
  have s: "intent_shift i < 32" for i by (cases i) simp_all
  have inj: "intent_shift i = intent_shift j \<longleftrightarrow> i = j" for i j by (cases i; cases j) simp_all
  have v: "bit (intent_value i) n \<longleftrightarrow> n = intent_shift i" for i n
    using s [of i] by (auto simp: intent_value_def push_bit_eq_mult bit_exp_iff)
  have "bit (intents_of is) n \<longleftrightarrow> (\<exists>j \<in> set is. n = intent_shift j)" for n
    unfolding intents_of_def by (induction "is") (auto simp: intents_or_def bit_or_iff v)
  then show ?thesis
    by (auto simp: intents_and_def bit_eq_iff [of _ 0] bit_and_iff v inj s)
qed

lemma intents_or_of: "intents_or (intents_of is) (intents_of js) = intents_of (is @ js)"
  unfolding intents_of_def by (induction "is") (simp_all add: intents_or_def or.assoc)

text \<open>The default intents are exactly those that are not privileged, and together they are all.\<close>

lemma default_intents:
  "intents_and DefaultIntents (intent_value i) \<noteq> 0 \<longleftrightarrow> intents_and PrivilegedIntents (intent_value i) = 0"
  "intents_and AllIntents (intent_value i) \<noteq> 0"
proof -
  show "intents_and DefaultIntents (intent_value i) \<noteq> 0 \<longleftrightarrow> intents_and PrivilegedIntents (intent_value i) = 0"
    using intent_in_list [of default_list i] intent_in_list [of "[GuildMembers, GuildPresences, MessageContent]" i]
    unfolding DefaultIntents_def PrivilegedIntents_def by (cases i) (simp_all add: default_list_def)
  show "intents_and AllIntents (intent_value i) \<noteq> 0"
    unfolding AllIntents_def DefaultIntents_def PrivilegedIntents_def intents_or_of intent_in_list
    by (cases i) (simp_all add: default_list_def)
qed

section \<open>Permissions\<close>

type_synonym permissions = u64

definition permissions_or :: "permissions \<Rightarrow> permissions \<Rightarrow> permissions" where
  "permissions_or a b = a OR b"

definition permissions_and :: "permissions \<Rightarrow> permissions \<Rightarrow> permissions" where
  "permissions_and a b = a AND b"

text \<open>The named permissions by their bit; two numbers, 43 and 44, have no name.\<close>

definition permission_bits :: "(string \<times> nat) list" where
  "permission_bits = zip [''CreateInstantInvite'', ''KickMembers'', ''BanMembers'', ''Administrator'', ''ManageChannels'',
     ''ManageGuild'', ''AddReactions'', ''ViewAuditLog'', ''PrioritySpeaker'', ''Stream'', ''ViewChannel'', ''SendMessages'',
     ''SendTTSMessages'', ''ManageMessages'', ''EmbedLinks'', ''AttachFiles'', ''ReadMessageHistory'', ''MentionEveryone'',
     ''UseExternalEmojis'', ''ViewGuildInsights'', ''Connect'', ''Speak'', ''MuteMembers'', ''DeafenMembers'', ''MoveMembers'',
     ''UseVAD'', ''ChangeNickname'', ''ManageNicknames'', ''ManageRoles'', ''ManageWebhooks'', ''ManageGuildExpressions'',
     ''UseApplicationCommands'', ''RequestToSpeak'', ''ManageEvents'', ''ManageThreads'', ''CreatePublicThreads'',
     ''CreatePrivateThreads'', ''UseExternalStickers'', ''SendMessagesInThreads'', ''UseEmbeddedActivities'',
     ''ModerateMembers'', ''ViewCreatorMonetizationAnalytics'', ''UseSoundboard''] [0..<43] @
     [(''UseExternalSounds'', 45), (''SendVoiceMessages'', 46)]"

definition permission_value :: "string \<Rightarrow> permissions option" where
  "permission_value name = map_option (\<lambda>n. push_bit n 1) (map_of permission_bits name)"

text \<open>Adding a permission gives that one and takes none.\<close>

lemma permission_added:
  "permissions_and (permissions_or ps v) v = v" "permissions_and (permissions_or ps v) ps = ps"
  by (auto simp: permissions_and_def permissions_or_def bit_eq_iff bit_and_iff bit_or_iff)

section \<open>Options\<close>

record cache_options =
  aggressive :: bool
  bans_capacity :: nat
  channels_capacity :: nat
  emojis_capacity :: nat
  guilds_capacity :: nat
  invites_capacity :: nat
  messages_capacity :: nat
  reactions_capacity :: nat
  roles_capacity :: nat
  stickers_capacity :: nat
  users_capacity :: nat
  voice_states_capacity :: nat
  sweep_interval :: u32

definition DEFAULT_CAPACITY :: nat where "DEFAULT_CAPACITY = 300"

definition cache_options_init :: cache_options where
  "cache_options_init = \<lparr>aggressive = False, bans_capacity = DEFAULT_CAPACITY, channels_capacity = DEFAULT_CAPACITY,
     emojis_capacity = DEFAULT_CAPACITY, guilds_capacity = DEFAULT_CAPACITY, invites_capacity = DEFAULT_CAPACITY,
     messages_capacity = DEFAULT_CAPACITY, reactions_capacity = DEFAULT_CAPACITY, roles_capacity = DEFAULT_CAPACITY,
     stickers_capacity = DEFAULT_CAPACITY, users_capacity = DEFAULT_CAPACITY, voice_states_capacity = DEFAULT_CAPACITY,
     sweep_interval = 0\<rparr>"

definition set_aggressive :: "bool \<Rightarrow> cache_options \<Rightarrow> cache_options" where "set_aggressive x o' = o'\<lparr>aggressive := x\<rparr>"
definition set_bans_capacity :: "nat \<Rightarrow> cache_options \<Rightarrow> cache_options" where "set_bans_capacity x o' = o'\<lparr>bans_capacity := x\<rparr>"
definition set_channels_capacity :: "nat \<Rightarrow> cache_options \<Rightarrow> cache_options" where "set_channels_capacity x o' = o'\<lparr>channels_capacity := x\<rparr>"
definition set_emojis_capacity :: "nat \<Rightarrow> cache_options \<Rightarrow> cache_options" where "set_emojis_capacity x o' = o'\<lparr>emojis_capacity := x\<rparr>"
definition set_guilds_capacity :: "nat \<Rightarrow> cache_options \<Rightarrow> cache_options" where "set_guilds_capacity x o' = o'\<lparr>guilds_capacity := x\<rparr>"
definition set_invites_capacity :: "nat \<Rightarrow> cache_options \<Rightarrow> cache_options" where "set_invites_capacity x o' = o'\<lparr>invites_capacity := x\<rparr>"
definition set_messages_capacity :: "nat \<Rightarrow> cache_options \<Rightarrow> cache_options" where "set_messages_capacity x o' = o'\<lparr>messages_capacity := x\<rparr>"
definition set_reactions_capacity :: "nat \<Rightarrow> cache_options \<Rightarrow> cache_options" where "set_reactions_capacity x o' = o'\<lparr>reactions_capacity := x\<rparr>"
definition set_roles_capacity :: "nat \<Rightarrow> cache_options \<Rightarrow> cache_options" where "set_roles_capacity x o' = o'\<lparr>roles_capacity := x\<rparr>"
definition set_stickers_capacity :: "nat \<Rightarrow> cache_options \<Rightarrow> cache_options" where "set_stickers_capacity x o' = o'\<lparr>stickers_capacity := x\<rparr>"
definition set_users_capacity :: "nat \<Rightarrow> cache_options \<Rightarrow> cache_options" where "set_users_capacity x o' = o'\<lparr>users_capacity := x\<rparr>"
definition set_voice_states_capacity :: "nat \<Rightarrow> cache_options \<Rightarrow> cache_options" where "set_voice_states_capacity x o' = o'\<lparr>voice_states_capacity := x\<rparr>"
definition set_sweep_interval :: "u32 \<Rightarrow> cache_options \<Rightarrow> cache_options" where "set_sweep_interval x o' = o'\<lparr>sweep_interval := x\<rparr>"

text \<open>What partial data is accepted for, by its bit.\<close>

datatype partial_support =
  PartialGuilds | PartialMembers | PartialChannels | PartialMessages | PartialReactions | PartialPresences | PartialEmojis

fun partial_value :: "partial_support \<Rightarrow> u8" where
  "partial_value PartialGuilds = 1"
| "partial_value PartialMembers = 2"
| "partial_value PartialChannels = 4"
| "partial_value PartialMessages = 8"
| "partial_value PartialReactions = 16"
| "partial_value PartialPresences = 32"
| "partial_value PartialEmojis = 64"

definition PartialAll :: u8 where
  "PartialAll = foldr (\<lambda>p w. partial_value p OR w) [PartialGuilds, PartialMembers, PartialChannels, PartialMessages, PartialReactions,
     PartialPresences, PartialEmojis] 0"

record client_options =
  opt_cache :: "cache_options option"
  opt_compression :: bool
  opt_intents :: intents
  opt_partial_support :: u8
  opt_is_bot :: bool

definition client_options_init :: client_options where
  "client_options_init = \<lparr>opt_cache = None, opt_compression = True, opt_intents = DefaultIntents, opt_partial_support = 0, opt_is_bot = True\<rparr>"

definition with_cache_options :: "cache_options \<Rightarrow> client_options \<Rightarrow> client_options" where
  "with_cache_options c o' = o'\<lparr>opt_cache := Some c\<rparr>"
definition with_compression :: "bool \<Rightarrow> client_options \<Rightarrow> client_options" where
  "with_compression c o' = o'\<lparr>opt_compression := c\<rparr>"
definition with_intents :: "intents \<Rightarrow> client_options \<Rightarrow> client_options" where
  "with_intents i o' = o'\<lparr>opt_intents := i\<rparr>"
definition with_partial_support :: "u8 \<Rightarrow> client_options \<Rightarrow> client_options" where
  "with_partial_support p o' = o'\<lparr>opt_partial_support := p\<rparr>"

text \<open>All kinds of partial data are the low seven bits.\<close>

lemma partial_all: "PartialAll = 127" "PartialAll AND partial_value p = partial_value p"
proof -
  show all: "PartialAll = 127" by code_simp
  show "PartialAll AND partial_value p = partial_value p" unfolding all by (cases p) simp_all
qed

end
