(* ===== verification/Event_Emitter.thy ===== *)
theory Event_Emitter
  imports Prelude
begin

text \<open>
  \<^verbatim>\<open>include/ekizu/event_emitter.hpp\<close>. A listener is a value; what calling it does to the emitter and to the rest of the
  program is a parameter, since a listener may add or remove listeners itself: \<^verbatim>\<open>emit\<close> calls them without
  holding the mutex. Removing from an empty list is undefined, \<^term>\<open>None\<close>. An argument that is passed as an
  rvalue is moved into the first listener that takes it by value; \<open>moved\<close> is what is left of it.
\<close>

record ('c, 'w) emitter =
  em_callbacks :: "'c list"
  em_world :: 'w

definition add_listener :: "'c \<Rightarrow> ('c, 'w) emitter \<Rightarrow> ('c, 'w) emitter" where
  "add_listener c e = e\<lparr>em_callbacks := em_callbacks e @ [c]\<rparr>"

definition emitter_pop :: "('c, 'w) emitter \<Rightarrow> ('c, 'w) emitter option" where
  "emitter_pop e = (if em_callbacks e = [] then None else Some (e\<lparr>em_callbacks := butlast (em_callbacks e)\<rparr>))"

definition emitter_clear :: "('c, 'w) emitter \<Rightarrow> ('c, 'w) emitter" where
  "emitter_clear e = e\<lparr>em_callbacks := []\<rparr>"

fun emit_loop ::
    "('c \<Rightarrow> 'a \<Rightarrow> ('c, 'w) emitter \<Rightarrow> ('c, 'w) emitter) \<Rightarrow> ('a \<Rightarrow> 'a) \<Rightarrow> 'c list \<Rightarrow> 'a \<Rightarrow> ('c, 'w) emitter \<Rightarrow> ('c, 'w) emitter" where
  "emit_loop call moved [] a e = e"
| "emit_loop call moved (c # cs) a e = emit_loop call moved cs (moved a) (call c a e)"

definition emit ::
    "('c \<Rightarrow> 'a \<Rightarrow> ('c, 'w) emitter \<Rightarrow> ('c, 'w) emitter) \<Rightarrow> ('a \<Rightarrow> 'a) \<Rightarrow> 'a \<Rightarrow> ('c, 'w) emitter \<Rightarrow> ('c, 'w) emitter" where
  "emit call moved a e = emit_loop call moved (em_callbacks e) a e"

text \<open>
  The listeners that are called are those that were registered when the emission began, each once and in the order
  of registration, whatever they do to the emitter meanwhile: a log that no listener but through being
  called changes grows by exactly these calls.
\<close>

lemma emit_calls:
  assumes "\<And>c a e. seen (em_world (call c a e)) = seen (em_world e) @ [(c, a)]"
  shows "seen (em_world (emit call id a e)) = seen (em_world e) @ map (\<lambda>c. (c, a)) (em_callbacks e)"
proof -
  have "seen (em_world (emit_loop call id cs a e)) = seen (em_world e) @ map (\<lambda>c. (c, a)) cs" for cs
    by (induction cs arbitrary: e) (simp_all add: assms)
  then show ?thesis by (simp add: emit_def)
qed

text \<open>An rvalue reaches the first listener only; the others get what moving left.\<close>

lemma emit_rvalue:
  assumes "\<And>c a e. seen (em_world (call c a e)) = seen (em_world e) @ [(c, a)]" "\<And>x. moved (moved x) = moved x"
  shows "seen (em_world (emit call moved a e)) =
    (case em_callbacks e of [] \<Rightarrow> seen (em_world e) | c # cs \<Rightarrow> seen (em_world e) @ (c, a) # map (\<lambda>c. (c, moved a)) cs)"
proof -
  have "seen (em_world (emit_loop call moved cs (moved a) e)) = seen (em_world e) @ map (\<lambda>c. (c, moved a)) cs" for cs e
    by (induction cs arbitrary: e) (simp_all add: assms)
  then show ?thesis by (simp add: emit_def assms split: list.splits)
qed

text \<open>The last listener that was added is the one removed.\<close>

lemma pop_add: "emitter_pop (add_listener c e) = Some e"
  by (simp add: emitter_pop_def add_listener_def)

end
