(* ===== verification/Log_Filter.thy ===== *)
theory Log_Filter
  imports Prelude
begin

text \<open>
  \<^verbatim>\<open>src/logger.cpp\<close>: which components may log. \<open>log_filter\<close> is \<^verbatim>\<open>LogFilter\<close>, whose operations hold its
  mutex throughout; \<open>init_log_filter_from_env\<close> reads the variable \<^verbatim>\<open>EKIZU_LOG_FILTER\<close>, given as an argument.
  \<open>log_line\<close> is what \<^verbatim>\<open>PrefixedLogger\<close> and \<^verbatim>\<open>ContextLogger\<close> hand to the global logger. The sinks of
  the logger are spdlog's.
\<close>

record log_filter =
  lf_disabled :: "string set"
  lf_whitelist :: "string set"
  lf_whitelist_mode :: bool

definition log_filter_init :: log_filter where
  "log_filter_init = \<lparr>lf_disabled = {}, lf_whitelist = {}, lf_whitelist_mode = False\<rparr>"

definition disable_component :: "string \<Rightarrow> log_filter \<Rightarrow> log_filter" where
  "disable_component c f = f\<lparr>lf_whitelist_mode := False, lf_disabled := insert c (lf_disabled f)\<rparr>"

definition enable_component :: "string \<Rightarrow> log_filter \<Rightarrow> log_filter" where
  "enable_component c f =
     (if lf_whitelist_mode f then f\<lparr>lf_whitelist := insert c (lf_whitelist f)\<rparr>
      else f\<lparr>lf_disabled := lf_disabled f - {c}\<rparr>)"

definition component_of :: "string \<Rightarrow> string" where
  "component_of tag = takeWhile (\<lambda>c. c \<notin> {CHR ''['', CHR ''{''}) tag"

definition is_enabled :: "string \<Rightarrow> log_filter \<Rightarrow> bool" where
  "is_enabled tag f =
     (if lf_whitelist_mode f then component_of tag \<in> lf_whitelist f
      else component_of tag \<notin> lf_disabled f)"

definition filter_clear :: "log_filter \<Rightarrow> log_filter" where
  "filter_clear f = f\<lparr>lf_disabled := {}, lf_whitelist := {}, lf_whitelist_mode := False\<rparr>"

definition set_whitelist :: "string list \<Rightarrow> log_filter \<Rightarrow> log_filter" where
  "set_whitelist cs f = f\<lparr>lf_whitelist_mode := True, lf_whitelist := set cs, lf_disabled := {}\<rparr>"

section \<open>The environment\<close>

definition blank :: "char \<Rightarrow> bool" where
  "blank c \<longleftrightarrow> c = CHR '' '' \<or> c = CHR 0x09"

definition trim :: "string \<Rightarrow> string" where
  "trim s = rev (dropWhile blank (rev (dropWhile blank s)))"

text \<open>One entry: the second component is the local variable \<^verbatim>\<open>whitelist_mode\<close>.\<close>

definition apply_entry :: "string \<Rightarrow> bool \<times> log_filter \<Rightarrow> bool \<times> log_filter" where
  "apply_entry entry = (\<lambda>(whitelist_mode, f).
     (case entry of
        [] \<Rightarrow> (whitelist_mode, f)
      | c # name \<Rightarrow>
          if c = CHR ''-'' then (whitelist_mode, disable_component name f)
          else if c = CHR ''+'' then
            (True, enable_component name (if whitelist_mode then f else filter_clear f))
          else (whitelist_mode, disable_component entry f)))"

definition comma :: char where "comma = CHR '',''"

function env_loop :: "string \<Rightarrow> bool \<times> log_filter \<Rightarrow> bool \<times> log_filter" where
  "env_loop [] p = p"
| "env_loop (c # cs) p =
     env_loop (drop 1 (dropWhile (\<lambda>x. x \<noteq> comma) (c # cs)))
       (apply_entry (trim (takeWhile (\<lambda>x. x \<noteq> comma) (c # cs))) p)"
  by pat_completeness auto

termination
proof (relation "measure (length \<circ> fst)", goal_cases)
  case (2 c cs p)
  have "length (dropWhile (\<lambda>x. x \<noteq> comma) (c # cs)) \<le> length (c # cs)" by (rule length_dropWhile_le)
  then show ?case by (simp del: dropWhile.simps)
qed simp

definition init_log_filter_from_env :: "string option \<Rightarrow> log_filter \<Rightarrow> log_filter" where
  "init_log_filter_from_env env f = (case env of
     None \<Rightarrow> f
   | Some s \<Rightarrow> if s = [] then f else snd (env_loop s (hd s = CHR ''+'', f)))"

section \<open>Loggers\<close>

datatype log_level = Trace | Debug | Info | Warn | Err | Critical | Off

definition level_named :: "string \<Rightarrow> log_level option" where
  "level_named = map_of [(''info'', Info), (''warn'', Warn), (''error'', Err), (''debug'', Debug), (''trace'', Trace),
     (''critical'', Critical), (''off'', Off)]"

text \<open>The level \<^verbatim>\<open>init_logger\<close> sets; \<open>debug_build\<close> is \<^verbatim>\<open>_DEBUG\<close>.\<close>

definition initial_level :: "bool \<Rightarrow> string \<Rightarrow> string option \<Rightarrow> log_level" where
  "initial_level debug_build override env =
     (let s = (if override = [] then (case env of Some e \<Rightarrow> e | None \<Rightarrow> []) else override)
      in case level_named s of Some l \<Rightarrow> l | None \<Rightarrow> if debug_build then Debug else Info)"

definition log_line :: "bool \<Rightarrow> log_filter \<Rightarrow> string \<Rightarrow> string \<Rightarrow> string option" where
  "log_line has_logger f tag message =
     (if has_logger \<and> is_enabled tag f then Some (tag @ '': '' @ message) else None)"

definition context_prefix :: "string \<Rightarrow> string \<Rightarrow> string" where
  "context_prefix name context = name @ ''{'' @ context @ ''}''"

section \<open>Properties\<close>

text \<open>The context of a logger does not matter to the filter.\<close>

lemma context_ignored: "component_of (context_prefix name ctx) = component_of name"
  unfolding component_of_def context_prefix_def by (induction name) simp_all

lemma whitelist_exact: "is_enabled tag (set_whitelist cs f) \<longleftrightarrow> component_of tag \<in> set cs"
  by (simp add: is_enabled_def set_whitelist_def)

lemma unknown_level_is_default: "level_named s = None \<Longrightarrow> s \<noteq> [] \<Longrightarrow> initial_level d s env = (if d then Debug else Info)"
  by (simp add: initial_level_def)

text \<open>The loop handles the entries between the commas in their order.\<close>

lemma env_loop_entry:
  assumes "comma \<notin> set e" "e \<noteq> []"
  shows "env_loop e p = apply_entry (trim e) p"
    and "env_loop (e @ comma # rest) p = env_loop rest (apply_entry (trim e) p)"
proof -
  obtain c cs where e: "e = c # cs" using assms(2) by (cases e) auto
  have t: "takeWhile (\<lambda>x. x \<noteq> comma) e = e" "dropWhile (\<lambda>x. x \<noteq> comma) e = []"
    using assms(1) by (auto simp: takeWhile_eq_all_conv)
  show "env_loop e p = apply_entry (trim e) p" using t unfolding e by simp
  have "takeWhile (\<lambda>x. x \<noteq> comma) (e @ comma # rest) = e" "dropWhile (\<lambda>x. x \<noteq> comma) (e @ comma # rest) = comma # rest"
    using assms(1) by (auto simp: takeWhile_append dropWhile_append t)
  then show "env_loop (e @ comma # rest) p = env_loop rest (apply_entry (trim e) p)" unfolding e by simp
qed

fun join_entries :: "string list \<Rightarrow> string" where
  "join_entries [] = []"
| "join_entries [e] = e"
| "join_entries (e # es) = e @ comma # join_entries es"

lemma env_loop_join:
  assumes "list_all (\<lambda>e. comma \<notin> set e \<and> e \<noteq> []) es"
  shows "env_loop (join_entries es) p = fold (\<lambda>e. apply_entry (trim e)) es p"
  using assms by (induction es arbitrary: p rule: join_entries.induct) (simp_all add: env_loop_entry)

text \<open>A name with no comma and no blank at its end stays as it is behind a sign.\<close>

definition plain_name :: "string \<Rightarrow> bool" where
  "plain_name n \<longleftrightarrow> n \<noteq> [] \<and> list_all (\<lambda>c. c \<noteq> comma \<and> \<not> blank c) n"

lemma trim_plain: "plain_name n \<Longrightarrow> \<not> blank c \<Longrightarrow> trim (c # n) = c # n"
proof -
  assume n: "plain_name n" "\<not> blank c"
  then have "\<forall>x \<in> set (rev (c # n)). \<not> blank x" by (auto simp: plain_name_def list_all_iff)
  then have "dropWhile blank (rev (c # n)) = rev (c # n)" by (metis dropWhile_eq_self_iff hd_in_set)
  then show ?thesis using n(2) by (simp add: trim_def)
qed

lemma disabled_by_entries:
  assumes "list_all plain_name ns"
  shows "snd (fold (\<lambda>e. apply_entry (trim e)) (map (Cons (CHR ''-'')) ns) (w, f)) =
    (if ns = [] then f else f\<lparr>lf_whitelist_mode := False, lf_disabled := lf_disabled f \<union> set ns\<rparr>)"
  using assms
proof (induction ns arbitrary: w f)
  case (Cons n ns)
  then have "apply_entry (trim (CHR ''-'' # n)) (w, f) = (w, disable_component n f)"
    by (simp add: trim_plain blank_def apply_entry_def)
  with Cons show ?case by (auto simp: disable_component_def)
qed simp

text \<open>
  The first documented form works: a list of names behind a minus disables exactly these components.
\<close>

theorem environment_disables:
  assumes "list_all plain_name ns" "ns \<noteq> []"
  shows "is_enabled tag (init_log_filter_from_env (Some (join_entries (map (Cons (CHR ''-'')) ns))) log_filter_init) \<longleftrightarrow>
    component_of tag \<notin> set ns"
proof -
  let ?es = "map (Cons (CHR ''-'')) ns"
  have es: "list_all (\<lambda>e. comma \<notin> set e \<and> e \<noteq> []) ?es"
    using assms(1) by (auto simp: list_all_iff plain_name_def comma_def)
  have "join_entries ?es \<noteq> []" using assms(2) by (cases ns rule: join_entries.cases) auto
  then show ?thesis using assms
    by (simp add: init_log_filter_from_env_def env_loop_join [OF es] disabled_by_entries log_filter_init_def is_enabled_def)
qed

text \<open>
  The second one does not: nothing that is read from the environment switches the filter to a white list, and a list
  of names behind a plus leaves every component enabled.
\<close>

lemma entry_keeps_mode: "\<not> lf_whitelist_mode (snd p) \<Longrightarrow> \<not> lf_whitelist_mode (snd (apply_entry e p))"
  by (auto simp: apply_entry_def disable_component_def enable_component_def filter_clear_def split: prod.splits list.splits)

lemma loop_keeps_mode: "\<not> lf_whitelist_mode (snd p) \<Longrightarrow> \<not> lf_whitelist_mode (snd (env_loop s p))"
proof (induction s p rule: env_loop.induct)
  case (2 c cs p)
  then show ?case unfolding env_loop.simps by (intro "2.IH" entry_keeps_mode)
qed simp

lemma plus_entries: "snd (fold (\<lambda>e. apply_entry (trim e)) (map (Cons (CHR ''+'')) ns) (True, log_filter_init)) = log_filter_init"
  if "list_all plain_name ns"
  using that
proof (induction ns)
  case (Cons n ns)
  then have "apply_entry (trim (CHR ''+'' # n)) (True, log_filter_init) = (True, log_filter_init)"
    by (simp add: trim_plain blank_def apply_entry_def enable_component_def log_filter_init_def)
  with Cons show ?case by simp
qed simp

theorem environment_never_whitelists:
  assumes "list_all plain_name ns"
  shows "is_enabled tag (init_log_filter_from_env (Some (join_entries (map (Cons (CHR ''+'')) ns))) log_filter_init)"
    and "\<not> lf_whitelist_mode (init_log_filter_from_env env log_filter_init)"
proof -
  let ?es = "map (Cons (CHR ''+'')) ns"
  have es: "list_all (\<lambda>e. comma \<notin> set e \<and> e \<noteq> []) ?es"
    using assms by (auto simp: list_all_iff plain_name_def comma_def)
  have "join_entries ?es = [] \<or> hd (join_entries ?es) = CHR ''+''" by (cases ns rule: join_entries.cases) auto
  then have "init_log_filter_from_env (Some (join_entries ?es)) log_filter_init = log_filter_init"
    using plus_entries [OF assms] by (auto simp: init_log_filter_from_env_def env_loop_join [OF es])
  then show "is_enabled tag (init_log_filter_from_env (Some (join_entries ?es)) log_filter_init)"
    by (simp add: is_enabled_def log_filter_init_def)
  show "\<not> lf_whitelist_mode (init_log_filter_from_env env log_filter_init)"
    by (auto simp: init_log_filter_from_env_def log_filter_init_def intro!: loop_keeps_mode split: option.splits)
qed

end
