(* ===== verification/Opus_Codec.thy ===== *)
theory Opus_Codec
  imports Voice_Gateway
begin

text \<open>
  \<^verbatim>\<open>src/opus_codec.cpp\<close> and \<^verbatim>\<open>VoiceConnectionConfig::connect\<close> of \<^verbatim>\<open>src/voice/voice_connection.cpp\<close>. libopus is
  a parameter. Its repacketizer does not copy: it keeps the pointers it is given until its output is made, so the
  objects that pointers lead to are modelled. An object is a number, the memory maps the live ones to their
  content, and what is read through a pointer to an object that is gone is undefined, \<^term>\<open>None\<close>.
\<close>

section \<open>Encoding\<close>

definition FRAME_COUNT :: nat where "FRAME_COUNT = 960"
definition CHANNEL_COUNT :: nat where "CHANNEL_COUNT = 2"
definition OPUS_MAX_PACKET_SIZE :: nat where "OPUS_MAX_PACKET_SIZE = 1275"
definition OPUS_BAD_ARG :: int where "OPUS_BAD_ARG = -1"
definition OPUS_ALLOC_FAIL :: int where "OPUS_ALLOC_FAIL = -7"
definition OPUS_OK :: int where "OPUS_OK = 0"

text \<open>
  What libopus documents: \<open>op_encode\<close> writes a packet of at most the given size or returns an error; \<open>op_cat\<close> looks at a packet when it is
  added behind others and accepts or refuses it; \<open>op_out\<close> joins the packets its pointers lead to.
\<close>

record 'e opus_lib =
  op_encode :: "'e \<Rightarrow> 16 word list \<Rightarrow> nat \<Rightarrow> 'e \<times> (int + bytes)"
  op_cat :: "bytes list \<Rightarrow> bytes \<Rightarrow> int"
  op_out :: "bytes list \<Rightarrow> nat \<Rightarrow> int + bytes"

record 'e codec_state =
  cs_encoder :: 'e
  cs_memory :: "nat \<rightharpoonup> bytes"
  cs_seen :: "bytes list"
  cs_pointers :: "(nat \<times> nat) list"

text \<open>
  The three functions of the repacketizer are not code of the library; they state what libopus documents of them:
  the pointers it is given stay in use until the output is made or the repacketizer is initialised again.
\<close>

definition repacketizer_init :: "'e codec_state \<Rightarrow> 'e codec_state" where
  "repacketizer_init s = s\<lparr>cs_seen := [], cs_pointers := []\<rparr>"

definition repacketizer_cat :: "'e opus_lib \<Rightarrow> nat \<Rightarrow> bytes \<Rightarrow> 'e codec_state \<Rightarrow> 'e codec_state \<times> int" where
  "repacketizer_cat lib obj packet s =
     (let ret = op_cat lib (cs_seen s) packet
      in (if ret = OPUS_OK
          then s\<lparr>cs_seen := cs_seen s @ [packet], cs_pointers := cs_pointers s @ [(obj, length packet)]\<rparr>
          else s, ret))"

definition read_pointer :: "'e codec_state \<Rightarrow> nat \<times> nat \<Rightarrow> bytes option" where
  "read_pointer s = (\<lambda>(obj, n). map_option (take n) (cs_memory s obj))"

definition repacketizer_out :: "'e opus_lib \<Rightarrow> nat \<Rightarrow> 'e codec_state \<Rightarrow> (int + bytes) option" where
  "repacketizer_out lib out_size s =
     map_option (\<lambda>packets. op_out lib packets out_size) (sequence_options (map (read_pointer s) (cs_pointers s)))"

text \<open>One round of the loop: the array \<open>frame_buf\<close> is a new object, and gone at the end of the round.\<close>

definition encode_round :: "'e opus_lib \<Rightarrow> nat \<Rightarrow> 16 word list \<Rightarrow> 'e codec_state \<Rightarrow> 'e codec_state \<times> int option" where
  "encode_round lib i pcm s =
     (let (e, r) = op_encode lib (cs_encoder s) pcm OPUS_MAX_PACKET_SIZE;
          s1 = s\<lparr>cs_encoder := e\<rparr>;
          leave = (\<lambda>t. t\<lparr>cs_memory := (cs_memory t)(i := None)\<rparr>)
      in case r of
           Inl err \<Rightarrow> (leave s1, Some err)
         | Inr packet \<Rightarrow>
             (let frame_buf = packet @ replicate (OPUS_MAX_PACKET_SIZE - length packet) 0;
                  (s2, ret) = repacketizer_cat lib i packet (s1\<lparr>cs_memory := (cs_memory s1)(i \<mapsto> frame_buf)\<rparr>)
              in (leave s2, if ret \<noteq> OPUS_OK then Some ret else None)))"

fun encode_loop :: "'e opus_lib \<Rightarrow> nat \<Rightarrow> 16 word list list \<Rightarrow> 'e codec_state \<Rightarrow> 'e codec_state \<times> int option" where
  "encode_loop lib i [] s = (s, None)"
| "encode_loop lib i (pcm # rest) s =
     (case encode_round lib i pcm s of
        (t, Some err) \<Rightarrow> (t, Some err)
      | (t, None) \<Rightarrow> encode_loop lib (Suc i) rest t)"

definition pcm_frames :: "16 word list \<Rightarrow> 16 word list list" where
  "pcm_frames pcm = map (\<lambda>i. take (FRAME_COUNT * CHANNEL_COUNT) (drop (i * FRAME_COUNT * CHANNEL_COUNT) pcm))
     [0..<length pcm div (FRAME_COUNT * CHANNEL_COUNT)]"

definition codec_encode :: "'e opus_lib \<Rightarrow> 'e \<Rightarrow> 16 word list \<Rightarrow> nat \<Rightarrow> ('e \<times> (int + bytes)) option" where
  "codec_encode lib e pcm out_size =
     (if length pcm mod (FRAME_COUNT * CHANNEL_COUNT) \<noteq> 0 then Some (e, Inl OPUS_BAD_ARG)
      else (let s0 = repacketizer_init \<lparr>cs_encoder = e, cs_memory = Map.empty, cs_seen = [], cs_pointers = []\<rparr>
            in case encode_loop lib 0 (pcm_frames pcm) s0 of
                 (s, Some err) \<Rightarrow> Some (cs_encoder s, Inl err)
               | (s, None) \<Rightarrow> map_option (\<lambda>r. (cs_encoder s, r)) (repacketizer_out lib out_size s)))"

section \<open>Connecting\<close>

record connect_config =
  vc_state :: "voice_state option"
  vc_endpoint :: "string option"
  vc_token :: "string option"

text \<open>
  What the libraries answer: \<open>sodium_init\<close>, the three constructors of libopus, each with its error code, where the
  repacketizer can be null, and the connection of the WebSocket client.
\<close>

record connect_libs =
  cl_sodium :: int
  cl_decoder :: int
  cl_encoder :: int
  cl_repacketizer :: bool
  cl_connect :: "string \<Rightarrow> reply"

datatype connect_error = ConnectErrc errc | System int | Connect reply

definition create_decoder :: "connect_libs \<Rightarrow> int option" where
  "create_decoder l = (if cl_decoder l \<noteq> OPUS_OK then Some (cl_decoder l) else None)"

definition create_encoder :: "connect_libs \<Rightarrow> int option" where
  "create_encoder l = (if cl_encoder l \<noteq> OPUS_OK then Some (cl_encoder l) else None)"

definition create_repacketizer :: "connect_libs \<Rightarrow> int option" where
  "create_repacketizer l = (if cl_repacketizer l then None else Some OPUS_ALLOC_FAIL)"

definition voice_url :: "string \<Rightarrow> string" where
  "voice_url endpoint = ''wss://'' @ endpoint @ ''/?v=8''"

definition voice_connect :: "connect_libs \<Rightarrow> connect_config \<Rightarrow> connect_error + ('h, 'st, 'x) gateway" where
  "voice_connect l c = (case (vc_state c, vc_endpoint c, vc_token c) of
     (Some st, Some endpoint, Some tok) \<Rightarrow>
       if vs_guild_id st = None then Inl (ConnectErrc invalid_argument)
       else if cl_sodium l < 0 then Inl (ConnectErrc io_error)
       else (case (create_decoder l, create_encoder l, create_repacketizer l) of
         (Some ec, _, _) \<Rightarrow> Inl (System ec)
       | (None, Some ec, _) \<Rightarrow> Inl (System ec)
       | (None, None, Some ec) \<Rightarrow> Inl (System ec)
       | (None, None, None) \<Rightarrow>
           (let r = cl_connect l (voice_url endpoint)
            in if is_ok r then Inr (gateway_init st tok) else Inl (Connect r)))
   | _ \<Rightarrow> Inl (ConnectErrc invalid_argument))"

section \<open>Properties\<close>

text \<open>
  The packets of the frames as they would be without the pointers: a library run over the frames, which
  stops at the first error.
\<close>

fun encode_frames :: "'e opus_lib \<Rightarrow> 'e \<Rightarrow> bytes list \<Rightarrow> 16 word list list \<Rightarrow> 'e \<times> (int + bytes list)" where
  "encode_frames lib e ps [] = (e, Inr ps)"
| "encode_frames lib e ps (pcm # rest) =
     (case op_encode lib e pcm OPUS_MAX_PACKET_SIZE of
        (e1, Inl err) \<Rightarrow> (e1, Inl err)
      | (e1, Inr p) \<Rightarrow>
          if op_cat lib ps p = OPUS_OK then encode_frames lib e1 (ps @ [p]) rest else (e1, Inl (op_cat lib ps p)))"

text \<open>The loop does that, and when it ends none of its pointers leads anywhere.\<close>

definition all_dangling :: "'e codec_state \<Rightarrow> bool" where
  "all_dangling s \<longleftrightarrow> cs_memory s = Map.empty \<and> length (cs_pointers s) = length (cs_seen s)"

lemma encode_loop_eq:
  assumes "all_dangling s"
  shows "case encode_frames lib (cs_encoder s) (cs_seen s) fs of
      (e, Inl err) \<Rightarrow> \<exists>t. encode_loop lib i fs s = (t, Some err) \<and> cs_encoder t = e
    | (e, Inr ps) \<Rightarrow> \<exists>t. encode_loop lib i fs s = (t, None) \<and> cs_encoder t = e \<and> cs_seen t = ps \<and> all_dangling t"
  using assms
proof (induction fs arbitrary: i s)
  case (Cons pcm fs)
  obtain e r where r: "op_encode lib (cs_encoder s) pcm OPUS_MAX_PACKET_SIZE = (e, r)" by fastforce
  show ?case
  proof (cases r)
    case (Inr p)
    show ?thesis
    proof (cases "op_cat lib (cs_seen s) p = OPUS_OK")
      case True
      let ?t = "s\<lparr>cs_encoder := e, cs_seen := cs_seen s @ [p], cs_pointers := cs_pointers s @ [(i, length p)]\<rparr>"
      have round: "encode_round lib i pcm s = (?t, None)"
        using Cons.prems r Inr True
        by (simp add: encode_round_def repacketizer_cat_def Let_def all_dangling_def)
      have "all_dangling ?t" using Cons.prems by (simp add: all_dangling_def)
      from Cons.IH [OF this, of "Suc i"] show ?thesis
        using r Inr True by (simp add: round split: prod.splits sum.splits)
    qed (use r Inr in \<open>simp add: encode_round_def repacketizer_cat_def Let_def\<close>)
  qed (use r in \<open>simp add: encode_round_def\<close>)
qed simp

lemma dangling_out: "all_dangling s \<Longrightarrow> cs_seen s \<noteq> [] \<Longrightarrow> repacketizer_out lib out_size s = None"
  by (cases "cs_pointers s") (auto simp: repacketizer_out_def all_dangling_def read_pointer_def split_def)

lemma frames_seen: "encode_frames lib e ps fs = (e', Inr qs) \<Longrightarrow> ps \<noteq> [] \<or> fs \<noteq> [] \<longleftrightarrow> qs \<noteq> []"
  by (induction fs arbitrary: e ps) (auto split: prod.splits sum.splits if_splits)

lemma codec_encode_eq:
  "codec_encode lib e pcm out_size =
     (if length pcm mod (FRAME_COUNT * CHANNEL_COUNT) \<noteq> 0 then Some (e, Inl OPUS_BAD_ARG)
      else (case encode_frames lib e [] (pcm_frames pcm) of
              (e', Inl err) \<Rightarrow> Some (e', Inl err)
            | (e', Inr ps) \<Rightarrow> if pcm_frames pcm = [] then Some (e', op_out lib [] out_size) else None))"
proof -
  let ?s = "\<lparr>cs_encoder = e, cs_memory = Map.empty, cs_seen = [], cs_pointers = []\<rparr>"
  have d: "all_dangling ?s" by (simp add: all_dangling_def)
  obtain e' r where r: "encode_frames lib e [] (pcm_frames pcm) = (e', r)" by fastforce
  show ?thesis
  proof (cases r)
    case (Inl err)
    then show ?thesis using encode_loop_eq [OF d, where lib = lib and fs = "pcm_frames pcm" and i = 0] r
      by (auto simp: codec_encode_def repacketizer_init_def)
  next
    case (Inr ps)
    then obtain t where t: "encode_loop lib 0 (pcm_frames pcm) ?s = (t, None)" "cs_encoder t = e'" "cs_seen t = ps" "all_dangling t"
      using encode_loop_eq [OF d, where lib = lib and fs = "pcm_frames pcm" and i = 0] r by auto
    show ?thesis
    proof (cases "pcm_frames pcm = []")
      case True
      then show ?thesis using r t by (auto simp: codec_encode_def repacketizer_init_def repacketizer_out_def)
    next
      case False
      then have "repacketizer_out lib out_size t = None" using frames_seen [OF r [unfolded Inr]] t dangling_out by metis
      then show ?thesis using r Inr t False by (simp add: codec_encode_def repacketizer_init_def)
    qed
  qed
qed

text \<open>
  C40. What encoding does, on every input and with every library: an error for samples that do not fill whole frames, the first
  error of the library, and for every input with a frame on which the library reports no error, undefined
  behaviour: the output is made from pointers to arrays that no longer exist.
\<close>

theorem encode_reads_dead_buffers:
  "codec_encode lib e pcm out_size =
     (if length pcm mod (FRAME_COUNT * CHANNEL_COUNT) \<noteq> 0 then Some (e, Inl OPUS_BAD_ARG)
      else (case encode_frames lib e [] (pcm_frames pcm) of
              (e', Inl err) \<Rightarrow> Some (e', Inl err)
            | (e', Inr ps) \<Rightarrow> if pcm_frames pcm = [] then Some (e', op_out lib [] out_size) else None))"
  by (rule codec_encode_eq)

text \<open>Hence nothing that was encoded ever reaches a caller, as the repacketizer has no output for no packets.\<close>

lemma encode_never_returns_audio:
  assumes "\<And>n. isl (op_out lib [] n)"
  shows "codec_encode lib e pcm out_size \<noteq> Some (e', Inr opus)"
  using assms [of out_size] by (auto simp: codec_encode_eq split: prod.splits sum.splits)

text \<open>
  A connection is made exactly when the configuration is complete, with a guild, and every library agrees; it is
  the connection of the state and the token that were given, on the address of the endpoint.
\<close>

lemma voice_connect_iff:
  "voice_connect l c = Inr g \<longleftrightarrow>
     (\<exists>st ep tok. c = \<lparr>vc_state = Some st, vc_endpoint = Some ep, vc_token = Some tok\<rparr> \<and> vs_guild_id st \<noteq> None \<and>
       0 \<le> cl_sodium l \<and> cl_decoder l = OPUS_OK \<and> cl_encoder l = OPUS_OK \<and> cl_repacketizer l \<and>
       is_ok (cl_connect l (''wss://'' @ ep @ ''/?v=8'')) \<and> g = gateway_init st tok)"
  by (cases c) (auto simp: voice_connect_def voice_url_def create_decoder_def create_encoder_def create_repacketizer_def Let_def
      split: option.splits if_splits)

end
