(* ===== verification/Persisted_Key.thy ===== *)
theory Persisted_Key
  imports Json
begin

text \<open>
  \<^verbatim>\<open>src/dave/persisted_key_pair.cpp\<close> on a POSIX system: the signature keys of a user, kept in a map for the process and in
  files between processes. The file system is a map from paths to contents together with what its operations
  answer (\<open>key_io\<close>); the keys are those of the MLS library (\<open>key_lib\<close>), whose functions may throw, \<^term>\<open>None\<close>. Every
  public function holds the mutex of the map throughout.
\<close>

record 'k key_lib =
  kl_suite :: u16
  kl_from_jwk :: "string \<Rightarrow> 'k option"
  kl_generate :: "nat \<Rightarrow> 'k option"
  kl_to_jwk :: "'k \<Rightarrow> string option"
  kl_public :: "'k \<Rightarrow> bytes"
  kl_sign :: "'k \<Rightarrow> string \<Rightarrow> bytes \<Rightarrow> bytes option"

text \<open>
  The environment of the process, and for each path whether an operation on it succeeds; \<open>io_written\<close> is what of a
  text is in a file after it was written, as the stream is not checked. A failing \<open>io_stat\<close> throws.
\<close>

record key_io =
  io_env :: "string \<rightharpoonup> string"
  io_create_dirs :: "string \<Rightarrow> bool"
  io_stat :: "string \<Rightarrow> bool"
  io_read :: "string \<Rightarrow> bool"
  io_write :: "string \<Rightarrow> bool"
  io_written :: "string \<Rightarrow> string \<Rightarrow> string"
  io_rename :: "string \<Rightarrow> bool"
  io_remove :: "string \<Rightarrow> bool"

record 'k key_store =
  ks_keys :: "string \<rightharpoonup> 'k"
  ks_files :: "string \<rightharpoonup> string"
  ks_generated :: nat

section \<open>Operations\<close>

definition slash :: char where "slash = CHR ''/''"

text \<open>The operator \<^verbatim>\<open>/\<close> of paths: an absolute path on the right replaces the one on the left.\<close>

definition path_append :: "string \<Rightarrow> string \<Rightarrow> string" where
  "path_append p q =
     (if q \<noteq> [] \<and> hd q = slash then q
      else if p = [] \<or> last p = slash then p @ q
      else p @ slash # q)"

definition KEY_STORAGE_DIR :: string where "KEY_STORAGE_DIR = ''Discord Key Storage''"

definition get_key_storage_directory :: "key_io \<Rightarrow> string" where
  "get_key_storage_directory io = (case io_env io ''XDG_CONFIG_HOME'' of
     Some xdg \<Rightarrow> path_append xdg KEY_STORAGE_DIR
   | None \<Rightarrow> (case io_env io ''HOME'' of
       Some home \<Rightarrow> path_append (path_append home ''.config'') KEY_STORAGE_DIR
     | None \<Rightarrow> []))"

definition KEY_VERSION :: nat where "KEY_VERSION = 1"

definition make_key_id :: "'k key_lib \<Rightarrow> string \<Rightarrow> string" where
  "make_key_id lib session_id = session_id @ ''-'' @ to_decimal (unat (kl_suite lib)) @ ''-'' @ to_decimal KEY_VERSION"

definition key_file :: "key_io \<Rightarrow> string \<Rightarrow> string" where
  "key_file io i = path_append (get_key_storage_directory io) (i @ ''.key'')"

text \<open>A new key is written beside the file and moved into its place; what fails after generating it gives it up.\<close>

definition store_new_key :: "'k key_lib \<Rightarrow> key_io \<Rightarrow> string \<Rightarrow> 'k key_store \<Rightarrow> 'k key_store \<times> 'k option" where
  "store_new_key lib io file st =
     (let st1 = st\<lparr>ks_generated := Suc (ks_generated st)\<rparr>; tmpfile = file @ ''.tmp''
      in case kl_generate lib (ks_generated st) of
           None \<Rightarrow> (st1, None)
         | Some k \<Rightarrow> (case kl_to_jwk lib k of
             None \<Rightarrow> (st1, None)
           | Some newstr \<Rightarrow>
               if \<not> io_write io tmpfile then (st1, None)
               else (let text = io_written io tmpfile newstr
                     in if io_rename io file
                        then (st1\<lparr>ks_files := (ks_files st)(tmpfile := None, file \<mapsto> text)\<rparr>, Some k)
                        else (st1\<lparr>ks_files := (ks_files st)(tmpfile \<mapsto> text)\<rparr>, None))))"

definition get_generic_persisted_key_pair ::
    "'k key_lib \<Rightarrow> key_io \<Rightarrow> string \<Rightarrow> 'k key_store \<Rightarrow> ('k key_store \<times> 'k option) option" where
  "get_generic_persisted_key_pair lib io i st =
     (let dir = get_key_storage_directory io; file = key_file io i;
          usable = (\<lambda>(s, r). (s, case r of Some k \<Rightarrow> if kl_public lib k \<noteq> [] then Some k else None | None \<Rightarrow> None))
      in if dir = [] then Some (st, None)
         else if \<not> io_create_dirs io dir then Some (st, None)
         else if \<not> io_stat io file then None
         else (case ks_files st file of
           Some curstr \<Rightarrow> Some (if \<not> io_read io file then (st, None) else usable (st, kl_from_jwk lib curstr))
         | None \<Rightarrow> Some (usable (store_new_key lib io file st))))"

definition get_persisted_key_pair ::
    "'k key_lib \<Rightarrow> key_io \<Rightarrow> string \<Rightarrow> 'k key_store \<Rightarrow> ('k key_store \<times> 'k option) option" where
  "get_persisted_key_pair lib io session_id st =
     (let i = make_key_id lib session_id
      in case ks_keys st i of
           Some k \<Rightarrow> Some (st, Some k)
         | None \<Rightarrow> map_option (\<lambda>(s, r). (case r of Some k \<Rightarrow> s\<lparr>ks_keys := (ks_keys s)(i \<mapsto> k)\<rparr> | None \<Rightarrow> s, r))
                     (get_generic_persisted_key_pair lib io i st))"

definition SELF_SIGNATURE_LABEL :: string where "SELF_SIGNATURE_LABEL = ''DiscordSelfSignature''"

text \<open>The last component is \<^term>\<open>None\<close> when the call is left by an exception.\<close>

definition get_persisted_public_key ::
    "'k key_lib \<Rightarrow> key_io \<Rightarrow> string \<Rightarrow> 'k key_store \<Rightarrow> 'k key_store \<times> (bytes \<times> bytes) option" where
  "get_persisted_public_key lib io session_id st = (case get_persisted_key_pair lib io session_id st of
     None \<Rightarrow> (st, None)
   | Some (s, None) \<Rightarrow> (s, Some ([], []))
   | Some (s, Some k) \<Rightarrow> (s, map_option (Pair (kl_public lib k))
       (kl_sign lib k SELF_SIGNATURE_LABEL (map of_char (session_id @ '':'') @ kl_public lib k))))"

definition delete_persisted_key_pair :: "'k key_lib \<Rightarrow> key_io \<Rightarrow> string \<Rightarrow> 'k key_store \<Rightarrow> 'k key_store \<times> bool" where
  "delete_persisted_key_pair lib io session_id st =
     (let i = make_key_id lib session_id; st1 = st\<lparr>ks_keys := (ks_keys st)(i := None)\<rparr>; file = key_file io i
      in if get_key_storage_directory io = [] then (st1, False)
         else if ks_files st file \<noteq> None \<and> io_remove io file
         then (st1\<lparr>ks_files := (ks_files st)(file := None)\<rparr>, True)
         else (st1, False))"

text \<open>What can happen to the keys: the three functions, and the end of the process.\<close>

datatype key_op = Get string | Sign string | Delete string | Restart

fun key_step :: "'k key_lib \<Rightarrow> key_io \<Rightarrow> key_op \<Rightarrow> 'k key_store \<Rightarrow> 'k key_store" where
  "key_step lib io (Get s) st = (case get_persisted_key_pair lib io s st of Some (t, _) \<Rightarrow> t | None \<Rightarrow> st)"
| "key_step lib io (Sign s) st = fst (get_persisted_public_key lib io s st)"
| "key_step lib io (Delete s) st = fst (delete_persisted_key_pair lib io s st)"
| "key_step lib io Restart st = st\<lparr>ks_keys := Map.empty\<rparr>"





section \<open>Paths\<close>



lemma make_key_id_inj [simp]: "make_key_id lib s = make_key_id lib s' \<longleftrightarrow> s = s'"
  by (simp add: make_key_id_def)




text \<open>The id of a session is not checked: an absolute path leads out of the directory.\<close>

lemma session_escapes_directory:
  "key_file io (make_key_id lib (slash # s)) = slash # s @ ''-'' @ to_decimal (unat (kl_suite lib)) @ ''-1.key''"
proof -
  have "to_decimal KEY_VERSION = ''1''" by code_simp
  then show ?thesis by (simp add: key_file_def path_append_def make_key_id_def)
qed

section \<open>Keys stay\<close>

text \<open>A file system that works, and a library that reads back the keys it writes.\<close>

definition reliable :: "'k key_lib \<Rightarrow> key_io \<Rightarrow> bool" where
  "reliable lib io \<longleftrightarrow> get_key_storage_directory io \<noteq> [] \<and>
     (\<forall>p. io_create_dirs io p \<and> io_stat io p \<and> io_read io p \<and> io_write io p \<and> io_rename io p \<and> io_remove io p) \<and>
     (\<forall>p t. io_written io p t = t) \<and> (\<forall>k j. kl_to_jwk lib k = Some j \<longrightarrow> kl_from_jwk lib j = Some k)"



text \<open>What asking for a key does when it is not in the map.\<close>

lemma get_eq:
  assumes "reliable lib io"
  shows "get_persisted_key_pair lib io s st = Some (
    let i = make_key_id lib s; file = key_file io i; st1 = st\<lparr>ks_generated := Suc (ks_generated st)\<rparr>;
        made = (\<lambda>j. st1\<lparr>ks_files := (ks_files st)(file @ ''.tmp'' := None, file \<mapsto> j)\<rparr>);
        keep = (\<lambda>t k. if kl_public lib k \<noteq> [] then (t\<lparr>ks_keys := (ks_keys st)(i \<mapsto> k)\<rparr>, Some k) else (t, None))
    in case ks_keys st i of
         Some k \<Rightarrow> (st, Some k)
       | None \<Rightarrow> (case ks_files st file of
           Some j \<Rightarrow> (case kl_from_jwk lib j of Some k \<Rightarrow> keep st k | None \<Rightarrow> (st, None))
         | None \<Rightarrow> (case kl_generate lib (ks_generated st) of
             None \<Rightarrow> (st1, None)
           | Some k \<Rightarrow> (case kl_to_jwk lib k of None \<Rightarrow> (st1, None) | Some j \<Rightarrow> keep (made j) k))))"
  using assms
  by (simp add: get_persisted_key_pair_def get_generic_persisted_key_pair_def store_new_key_def reliable_def Let_def
      split: option.splits)

















text \<open>
  The stream a key is written to is not checked. When only a part arrives the call succeeds, but the file cannot be read
  by the next process, which gets no key, and no call but deleting changes that.
\<close>

lemma short_write_sticks:
  assumes "io_written io (key_file io i @ ''.tmp'') j = t" "kl_from_jwk lib t = None" "ks_files st (key_file io i) = None"
    and "kl_generate lib (ks_generated st) = Some k" "kl_to_jwk lib k = Some j" "kl_public lib k \<noteq> []"
    and "get_key_storage_directory io \<noteq> []" "i = make_key_id lib s" "ks_keys st i = None"
    and "\<forall>p. io_create_dirs io p \<and> io_stat io p \<and> io_read io p \<and> io_write io p \<and> io_rename io p"
  shows "\<exists>st1. get_persisted_key_pair lib io s st = Some (st1, Some k) \<and>
    get_persisted_key_pair lib io s (key_step lib io Restart st1) = Some (key_step lib io Restart st1, None)"
  using assms by (simp add: get_persisted_key_pair_def get_generic_persisted_key_pair_def store_new_key_def Let_def)

text \<open>Deleting reports whether there was a file, and the next key is a new one.\<close>

lemma deleted_key_is_new:
  assumes "reliable lib io" "kl_generate lib (ks_generated st) = Some k" "kl_to_jwk lib k = Some j" "kl_public lib k \<noteq> []"
  shows "snd (delete_persisted_key_pair lib io s st) \<longleftrightarrow> ks_files st (key_file io (make_key_id lib s)) \<noteq> None"
    and "\<exists>t. get_persisted_key_pair lib io s (fst (delete_persisted_key_pair lib io s st)) = Some (t, Some k)"
  using assms unfolding reliable_def
  by (auto simp: get_eq [OF assms(1)] delete_persisted_key_pair_def Let_def split: option.splits)

end
