(* ===== verification/Recording.thy ===== *)
theory Recording
  imports Voice_State Json "HOL-Library.AList"
begin

text \<open>
  \<^verbatim>\<open>examples/voice_recorder.cpp\<close> and \<^verbatim>\<open>examples/recording_to_wav.cpp\<close>: a bot that writes the packets it receives to a
  file, and the tool that turns such a file into a WAV file. Files are lists of bytes; whether one can be opened or
  written is given with the input, and what a failing \<^verbatim>\<open>main\<close> leaves behind is part of its result, a failed write leaving nothing. The host is
  little-endian. libopus is a parameter.
\<close>

section \<open>The recorder\<close>

record recorder =
  rc_open :: bool
  rc_file :: bytes
  rc_total :: nat
  rc_by_ssrc :: "u32 \<Rightarrow> nat"
  rc_by_user :: "snowflake \<Rightarrow> nat"

definition recorder_init :: recorder where
  "recorder_init = \<lparr>rc_open = False, rc_file = [], rc_total = 0, rc_by_ssrc = \<lambda>_. 0, rc_by_user = \<lambda>_. 0\<rparr>"

definition record_bytes :: "packet \<Rightarrow> bytes" where
  "record_bytes p = be_bytes (pk_ssrc p) @ be_bytes (pk_sequence p) @ be_bytes (pk_timestamp p) @
     be_bytes (of_nat (length (pk_opus p)) :: u32) @ pk_opus p"

definition save_packet :: "bool \<Rightarrow> packet \<Rightarrow> recorder \<Rightarrow> recorder \<times> errc option" where
  "save_packet can_open p r =
     (if pk_opus p = [] then (r, None)
      else if \<not> rc_open r \<and> \<not> can_open then (r, Some io_error)
      else (let r1 = (if rc_open r then r else r\<lparr>rc_open := True, rc_file := []\<rparr>)
            in (r1\<lparr>rc_file := rc_file r1 @ record_bytes p,
                  rc_by_ssrc := (rc_by_ssrc r1)(pk_ssrc p := Suc (rc_by_ssrc r1 (pk_ssrc p))),
                  rc_by_user := (rc_by_user r1)(pk_user_id p := Suc (rc_by_user r1 (pk_user_id p))),
                  rc_total := Suc (rc_total r1)\<rparr>, None)))"

text \<open>The loop of \<^verbatim>\<open>start_recording\<close>, over what the connection answers: a packet or an error.\<close>

fun record_loop :: "bool \<Rightarrow> nat \<Rightarrow> (errc + packet) list \<Rightarrow> recorder \<Rightarrow> recorder \<times> errc option" where
  "record_loop can_open (Suc n) (Inr p # rs) r =
     (case save_packet can_open p r of
        (r1, Some e) \<Rightarrow> (r1, Some e)
      | (r1, None) \<Rightarrow> record_loop can_open n rs r1)"
| "record_loop can_open _ _ r = (r, None)"

definition start_recording :: "bool \<Rightarrow> (errc + packet) list \<Rightarrow> recorder \<Rightarrow> recorder \<times> errc option" where
  "start_recording can_open rs r =
     (case record_loop can_open 1500 rs r of
        (r1, Some e) \<Rightarrow> (r1, Some e)
      | (r1, None) \<Rightarrow> (r1\<lparr>rc_open := False\<rparr>, None))"

section \<open>Arguments\<close>

record args =
  ar_input :: string
  ar_output :: string
  ar_ssrc :: "u32 option"
  ar_list_only :: bool
  ar_sample_rate :: int
  ar_channels :: int

definition args_init :: args where
  "args_init = \<lparr>ar_input = ''recording.opus'', ar_output = ''out.wav'', ar_ssrc = None, ar_list_only = False,
     ar_sample_rate = 48000, ar_channels = 2\<rparr>"

text \<open>
  \<^verbatim>\<open>std::stoul\<close> and \<^verbatim>\<open>std::stol\<close> with base 0 on a text that they must consume to its end: a sign and a number in base 16, 8
  or 10 by its prefix.
\<close>

fun digit_of :: "nat \<Rightarrow> char \<Rightarrow> nat option" where
  "digit_of base c =
     (let n = (of_char c :: nat);
          d = (if 48 \<le> n \<and> n \<le> 57 then n - 48 else if 97 \<le> n \<and> n \<le> 122 then n - 87
               else if 65 \<le> n \<and> n \<le> 90 then n - 55 else base)
      in if d < base then Some d else None)"

definition digits_value :: "nat \<Rightarrow> string \<Rightarrow> nat option" where
  "digits_value base s = (if s = [] then None
     else map_option (foldl (\<lambda>v d. v * base + d) 0) (sequence_options (map (digit_of base) s)))"

definition c_space :: "char \<Rightarrow> bool" where
  "c_space c = (c = CHR '' '' \<or> 9 \<le> (of_char c :: nat) \<and> (of_char c :: nat) \<le> 13)"

definition number0 :: "string \<Rightarrow> (bool \<times> nat) option" where
  "number0 s =
     (let t = dropWhile c_space s;
          neg = (t \<noteq> [] \<and> hd t = CHR ''-'');
          u = (if t \<noteq> [] \<and> (hd t = CHR ''-'' \<or> hd t = CHR ''+'') then tl t else t)
      in map_option (Pair neg)
           (if take 2 u = ''0x'' \<or> take 2 u = ''0X'' then digits_value 16 (drop 2 u)
            else if take 1 u = ''0'' then digits_value 8 u
            else digits_value 10 u))"

definition parse_u32 :: "string \<Rightarrow> u32 option" where
  "parse_u32 s = (case number0 s of
     None \<Rightarrow> None
   | Some (neg, n) \<Rightarrow>
       if n > SIZE_MAX then None
       else (let v = (if neg then nat ((- int n) mod 2 ^ 64) else n)
             in if v > 4294967295 then None else Some (of_nat v)))"

definition parse_i32 :: "string \<Rightarrow> int option" where
  "parse_i32 s = (case number0 s of
     None \<Rightarrow> None
   | Some (neg, n) \<Rightarrow>
       (let v = (if neg then - int n else int n)
        in if v < - (2 ^ 63) \<or> v > 2 ^ 63 - 1 then None
           else if v < - (2 ^ 31) \<or> v > 2 ^ 31 - 1 then None else Some v))"

fun parse_args :: "string list \<Rightarrow> args \<Rightarrow> args option" where
  "parse_args [] a = Some a"
| "parse_args (arg # rest) a =
     (let need = (\<lambda>f. case rest of [] \<Rightarrow> None | v # vs \<Rightarrow> Option.bind (f v) (parse_args vs))
      in if arg = ''--help'' \<or> arg = ''-h'' then None
         else if arg = ''--list'' then parse_args rest (a\<lparr>ar_list_only := True\<rparr>)
         else if arg = ''--input'' \<or> arg = ''-i'' then need (\<lambda>v. Some (a\<lparr>ar_input := v\<rparr>))
         else if arg = ''--output'' \<or> arg = ''-o'' then need (\<lambda>v. Some (a\<lparr>ar_output := v\<rparr>))
         else if arg = ''--ssrc'' then need (\<lambda>v. map_option (\<lambda>n. a\<lparr>ar_ssrc := Some n\<rparr>) (parse_u32 v))
         else if arg = ''--rate'' then
           need (\<lambda>v. case parse_i32 v of Some n \<Rightarrow> if n \<le> 0 then None else Some (a\<lparr>ar_sample_rate := n\<rparr>) | None \<Rightarrow> None)
         else if arg = ''--channels'' then
           need (\<lambda>v. case parse_i32 v of Some n \<Rightarrow> if n \<noteq> 1 \<and> n \<noteq> 2 then None else Some (a\<lparr>ar_channels := n\<rparr>) | None \<Rightarrow> None)
         else None)"

section \<open>Reading a recording\<close>

definition read_exact :: "bytes \<Rightarrow> nat \<Rightarrow> (bytes \<times> bytes) option" where
  "read_exact bs n = (if n \<le> length bs then Some (take n bs, drop n bs) else None)"

definition read_record_header :: "bytes \<Rightarrow> (u32 \<times> u16 \<times> u32 \<times> u32 \<times> bytes) option" where
  "read_record_header bs = do {
     (src, bs1) \<leftarrow> read_exact bs 4;
     (seq, bs2) \<leftarrow> read_exact bs1 2;
     (ts, bs3) \<leftarrow> read_exact bs2 4;
     (n, bs4) \<leftarrow> read_exact bs3 4;
     Some (read_u32be src, read_u16be seq, read_u32be ts, read_u32be n, bs4)
   }"

lemma header_shorter: "read_record_header bs = Some (src, seq, ts, n, rest) \<Longrightarrow> length rest < length bs"
  by (auto simp: read_record_header_def read_exact_def bind_Some_iff split: if_splits)

definition count_ssrc :: "u32 \<Rightarrow> (u32 \<times> nat) list \<Rightarrow> (u32 \<times> nat) list" where
  "count_ssrc s counts = AList.update s (case map_of counts s of None \<Rightarrow> 1 | Some n \<Rightarrow> Suc n) counts"

text \<open>Seeking behind the end of a file is no error.\<close>

function collect_ssrcs :: "bytes \<Rightarrow> (u32 \<times> nat) list \<Rightarrow> (u32 \<times> nat) list" where
  "collect_ssrcs bs counts = (case read_record_header bs of
     None \<Rightarrow> counts
   | Some (src, seq, ts, n, rest) \<Rightarrow> collect_ssrcs (drop (unat n) rest) (count_ssrc src counts))"
  by pat_completeness auto

termination
  by (relation "measure (length \<circ> fst)") (auto dest: header_shorter)

declare collect_ssrcs.simps [simp del]

definition choose_ssrc :: "u32 option \<Rightarrow> (u32 \<times> nat) list \<Rightarrow> nat + u32" where
  "choose_ssrc wanted counts = (case wanted of
     Some s \<Rightarrow> if map_of counts s = None then Inl 1 else Inr s
   | None \<Rightarrow> if length counts = 1 then Inr (fst (hd counts)) else Inl 2)"

section \<open>Writing a WAV file\<close>

definition ascii :: "string \<Rightarrow> bytes" where "ascii s = map of_char s"

text \<open>The multiplication of the rate is on signed integers, and undefined when it overflows.\<close>

definition wav_header :: "int \<Rightarrow> int \<Rightarrow> u32 \<Rightarrow> bytes option" where
  "wav_header rate channels n =
     (let block_align = channels * 2
      in if rate * block_align > 2 ^ 31 - 1 then None
         else Some (ascii ''RIFF'' @ le_bytes (36 + n) @ ascii ''WAVE'' @ ascii ''fmt '' @ le_bytes (16 :: u32) @
           le_bytes (1 :: u16) @ le_bytes (of_int channels :: u16) @ le_bytes (of_int rate :: u32) @
           le_bytes (of_int (rate * block_align) :: u32) @ le_bytes (of_int block_align :: u16) @
           le_bytes (16 :: u16) @ ascii ''data'' @ le_bytes n))"

definition overwrite :: "bytes \<Rightarrow> nat \<Rightarrow> bytes \<Rightarrow> bytes" where
  "overwrite buf off bs = take off buf @ bs @ drop (off + length bs) buf"

definition patch_wav_sizes :: "bytes \<Rightarrow> u32 \<Rightarrow> bytes" where
  "patch_wav_sizes out n = overwrite (overwrite out 4 (le_bytes (36 + n))) 40 (le_bytes n)"

record 'd wav_lib =
  wl_create :: "int \<Rightarrow> int \<Rightarrow> int + 'd"
  wl_decode :: "'d \<Rightarrow> bytes \<Rightarrow> nat \<Rightarrow> 'd \<times> (int + 16 word list)"

text \<open>The content of the input if it can be opened, whether it can be opened again, and which writes succeed.\<close>

record wav_io =
  wi_input :: "bytes option"
  wi_reopen :: bool
  wi_output :: bool
  wi_header :: bool
  wi_write :: "nat \<Rightarrow> bool"
  wi_patch :: bool

record 'd wav_state =
  wv_decoder :: 'd
  wv_out :: bytes
  wv_total :: u32
  wv_decoded :: nat
  wv_skipped :: nat
  wv_errors :: nat

definition max_frame_samples :: nat where "max_frame_samples = 5760"

definition samples_bytes :: "16 word list \<Rightarrow> bytes" where
  "samples_bytes xs = concat (map le_bytes xs)"

definition wav_packet :: "'d wav_lib \<Rightarrow> wav_io \<Rightarrow> u32 \<Rightarrow> u32 \<Rightarrow> bytes \<Rightarrow> 'd wav_state \<Rightarrow> 'd wav_state \<times> nat option" where
  "wav_packet lib io chosen src opus s =
     (if src \<noteq> chosen then (s\<lparr>wv_skipped := Suc (wv_skipped s)\<rparr>, None)
      else if opus = [] then (s, None)
      else (case wl_decode lib (wv_decoder s) opus max_frame_samples of
        (d, Inl err) \<Rightarrow> (s\<lparr>wv_decoder := d, wv_errors := Suc (wv_errors s)\<rparr>, None)
      | (d, Inr pcm) \<Rightarrow>
          (let bytes_to_write = length pcm * 2;
               s1 = s\<lparr>wv_decoder := d, wv_out := wv_out s @ samples_bytes pcm\<rparr>
           in if \<not> wi_write io (wv_decoded s) then (s\<lparr>wv_decoder := d\<rparr>, Some 1)
              else if unat (wv_total s) > size_sub 4294967295 bytes_to_write then (s1, Some 1)
              else (s1\<lparr>wv_total := wv_total s + of_nat bytes_to_write, wv_decoded := Suc (wv_decoded s)\<rparr>, None))))"

function wav_loop :: "'d wav_lib \<Rightarrow> wav_io \<Rightarrow> u32 \<Rightarrow> bytes \<Rightarrow> 'd wav_state \<Rightarrow> 'd wav_state \<times> nat option" where
  "wav_loop lib io chosen bs s = (case read_record_header bs of
     None \<Rightarrow> (s, None)
   | Some (src, seq, ts, n, rest) \<Rightarrow> (case read_exact rest (unat n) of
       None \<Rightarrow> (s, Some 1)
     | Some (opus, rest') \<Rightarrow> (case wav_packet lib io chosen src opus s of
         (t, Some code) \<Rightarrow> (t, Some code)
       | (t, None) \<Rightarrow> wav_loop lib io chosen rest' t)))"
  by pat_completeness auto

termination
  by (relation "measure (\<lambda>(lib, io, chosen, bs, s). length bs)") (auto simp: read_exact_def dest!: header_shorter split: if_splits)

declare wav_loop.simps [simp del]

text \<open>\<^verbatim>\<open>main\<close>: the exit code and the content of the output, if it was opened.\<close>

definition wav_convert :: "'d wav_lib \<Rightarrow> wav_io \<Rightarrow> args \<Rightarrow> bytes \<Rightarrow> u32 \<Rightarrow> (nat \<times> bytes option) option" where
  "wav_convert lib io a input chosen =
     (if \<not> wi_reopen io \<or> \<not> wi_output io then Some (1, None)
      else (case wav_header (ar_sample_rate a) (ar_channels a) 0 of
        None \<Rightarrow> None
      | Some h \<Rightarrow> Some (
          if \<not> wi_header io then (1, Some [])
          else (case wl_create lib (ar_sample_rate a) (ar_channels a) of
            Inl err \<Rightarrow> (1, Some h)
          | Inr d \<Rightarrow>
              (case wav_loop lib io chosen input \<lparr>wv_decoder = d, wv_out = h, wv_total = 0, wv_decoded = 0, wv_skipped = 0, wv_errors = 0\<rparr> of
                 (s, Some code) \<Rightarrow> (code, Some (wv_out s))
               | (s, None) \<Rightarrow>
                   if wi_patch io then (0, Some (patch_wav_sizes (wv_out s) (wv_total s)))
                   else (1, Some (wv_out s)))))))"

definition wav_main :: "'d wav_lib \<Rightarrow> wav_io \<Rightarrow> string list \<Rightarrow> (nat \<times> bytes option) option" where
  "wav_main lib io argv = (case parse_args argv args_init of
     None \<Rightarrow> Some (2, None)
   | Some a \<Rightarrow> (case wi_input io of
       None \<Rightarrow> Some (1, None)
     | Some input \<Rightarrow>
         (let counts = collect_ssrcs input []
          in if counts = [] then Some (1, None)
             else if ar_list_only a then Some (0, None)
             else (case choose_ssrc (ar_ssrc a) counts of
               Inl code \<Rightarrow> Some (code, None)
             | Inr chosen \<Rightarrow> wav_convert lib io a input chosen))))"

section \<open>Properties\<close>

text \<open>Everything a packet of the receiver has, up to its size, is in its record.\<close>

definition recordable :: "packet \<Rightarrow> bool" where
  "recordable p \<longleftrightarrow> pk_opus p \<noteq> [] \<and> length (pk_opus p) < 2 ^ 32"

lemma unat_size: "recordable p \<Longrightarrow> unat (of_nat (length (pk_opus p)) :: u32) = length (pk_opus p)"
  by (simp add: recordable_def unat_of_nat)

lemma header_of_record:
  "read_record_header (record_bytes p @ rest) =
     Some (pk_ssrc p, pk_sequence p, pk_timestamp p, of_nat (length (pk_opus p)), pk_opus p @ rest)"
  by (simp add: read_record_header_def read_exact_def record_bytes_def)

lemma no_header [simp]: "read_record_header [] = None"
  by (simp add: read_record_header_def read_exact_def)

definition records :: "packet list \<Rightarrow> bytes" where
  "records ps = concat (map record_bytes ps)"

lemma records_simps [simp]: "records [] = []" "records (p # ps) = record_bytes p @ records ps"
  by (simp_all add: records_def)

lemma record_loop_file:
  assumes "rc_open r" "list_all recordable ps" "length ps \<le> n"
  shows "\<exists>r'. record_loop True n (map Inr ps) r = (r', None) \<and> rc_file r' = rc_file r @ records ps"
  using assms
proof (induction ps arbitrary: n r)
  case (Cons p ps)
  then obtain m where n: "n = Suc m" by (cases n) auto
  obtain r1 where r1: "save_packet True p r = (r1, None)" "rc_open r1" "rc_file r1 = rc_file r @ record_bytes p"
    using Cons.prems by (auto simp: save_packet_def recordable_def)
  show ?case using Cons.IH [of r1 m] Cons.prems r1 n by auto
qed simp

text \<open>The bot writes the records of the packets, in the order it received them.\<close>

lemma recording_file:
  assumes "list_all recordable ps" "length ps \<le> 1500"
  shows "\<exists>r. start_recording True (map Inr ps) recorder_init = (r, None) \<and> rc_file r = records ps"
proof (cases ps)
  case Nil
  then show ?thesis by (simp add: start_recording_def recorder_init_def)
next
  case (Cons p qs)
  then obtain r1 where r1: "save_packet True p recorder_init = (r1, None)" "rc_open r1" "rc_file r1 = record_bytes p"
    using assms by (auto simp: save_packet_def recordable_def recorder_init_def)
  have "length qs \<le> 1499" using assms(2) Cons by simp
  then obtain r where "record_loop True 1499 (map Inr qs) r1 = (r, None)" "rc_file r = record_bytes p @ records qs"
    using record_loop_file [OF r1(2), of qs 1499] assms(1) Cons r1(3) by auto
  moreover have "record_loop True 1500 (map Inr ps) recorder_init = record_loop True 1499 (map Inr qs) r1"
    using r1(1) Cons record_loop.simps(1) [of True 1499 p "map Inr qs" recorder_init] by simp
  ultimately show ?thesis using Cons by (simp add: start_recording_def)
qed

lemma collect_records:
  "list_all recordable ps \<Longrightarrow> collect_ssrcs (records ps) counts = fold (count_ssrc \<circ> pk_ssrc) ps counts"
  by (induction ps arbitrary: counts) (simp_all add: collect_ssrcs.simps header_of_record unat_size)

lemma count_keys:
  "set (map fst (count_ssrc s c)) = insert s (set (map fst c))" "distinct (map fst c) \<Longrightarrow> distinct (map fst (count_ssrc s c))"
  unfolding count_ssrc_def AList.update_keys by auto

lemma counted_ssrcs:
  shows "set (map fst (fold (count_ssrc \<circ> pk_ssrc) ps counts)) = set (map fst counts) \<union> pk_ssrc ` set ps"
    and "distinct (map fst counts) \<Longrightarrow> distinct (map fst (fold (count_ssrc \<circ> pk_ssrc) ps counts))"
proof (induction ps arbitrary: counts)
  case (Cons p ps)
  { case 1 show ?case using Cons.IH(1) [of "count_ssrc (pk_ssrc p) counts"] count_keys(1) by (simp del: set_map) next
    case 2 then show ?case using Cons.IH(2) [of "count_ssrc (pk_ssrc p) counts"] count_keys(2) by simp }
qed simp_all

text \<open>A source is chosen when it is asked for and present, or the only one.\<close>

definition selects :: "args \<Rightarrow> packet list \<Rightarrow> u32 \<Rightarrow> bool" where
  "selects a ps s \<longleftrightarrow> s \<in> pk_ssrc ` set ps \<and> (ar_ssrc a = Some s \<or> ar_ssrc a = None \<and> pk_ssrc ` set ps = {s})"

lemma selected:
  assumes "selects a ps s" "list_all recordable ps"
  shows "choose_ssrc (ar_ssrc a) (collect_ssrcs (records ps) []) = Inr s" "collect_ssrcs (records ps) [] \<noteq> []"
proof -
  let ?c = "collect_ssrcs (records ps) []"
  have c: "set (map fst ?c) = pk_ssrc ` set ps" "distinct (map fst ?c)"
    using counted_ssrcs(1) [of ps "[]"] counted_ssrcs(2) [of "[]" ps] collect_records [OF assms(2)] by auto
  have "length ?c = 1 \<and> fst (hd ?c) = s" if "pk_ssrc ` set ps = {s}"
  proof -
    have "length (map fst ?c) = card {s}" using c that by (metis distinct_card)
    then show ?thesis using c(1) that by (cases ?c) auto
  qed
  moreover have "map_of ?c s \<noteq> None" if "s \<in> pk_ssrc ` set ps" using that c(1) by (simp add: map_of_eq_None_iff)
  ultimately show "choose_ssrc (ar_ssrc a) ?c = Inr s" using assms(1) by (auto simp: choose_ssrc_def selects_def)
  show "?c \<noteq> []" using c(1) assms(1) by (auto simp: selects_def)
qed

text \<open>The audio of a list of packets: what the decoder makes of each, where it does not fail.\<close>

fun decoded :: "'d wav_lib \<Rightarrow> 'd \<Rightarrow> packet list \<Rightarrow> 16 word list list" where
  "decoded lib d [] = []"
| "decoded lib d (p # ps) = (case wl_decode lib d (pk_opus p) max_frame_samples of
     (d', Inl err) \<Rightarrow> decoded lib d' ps
   | (d', Inr pcm) \<Rightarrow> pcm # decoded lib d' ps)"

definition audio :: "'d wav_lib \<Rightarrow> 'd \<Rightarrow> u32 \<Rightarrow> packet list \<Rightarrow> bytes" where
  "audio lib d s ps = concat (map samples_bytes (decoded lib d (filter (\<lambda>p. pk_ssrc p = s) ps)))"

lemma length_samples_bytes [simp]: "length (samples_bytes xs) = 2 * length xs"
  by (induction xs) (simp_all add: samples_bytes_def)

lemma audio_Nil [simp]: "audio lib d s [] = []"
  by (simp add: audio_def)

lemma audio_Cons:
  "audio lib d s (p # ps) =
     (if pk_ssrc p \<noteq> s then audio lib d s ps
      else (case wl_decode lib d (pk_opus p) max_frame_samples of
        (d', Inl err) \<Rightarrow> audio lib d' s ps
      | (d', Inr pcm) \<Rightarrow> samples_bytes pcm @ audio lib d' s ps))"
  by (simp add: audio_def split: prod.splits sum.splits)

lemma wav_loop_records:
  assumes "list_all recordable ps" "\<And>n. wi_write io n"
    and "unat (wv_total st) + length (audio lib (wv_decoder st) s ps) < 2 ^ 32"
  shows "\<exists>t. wav_loop lib io s (records ps) st = (t, None) \<and> wv_out t = wv_out st @ audio lib (wv_decoder st) s ps \<and>
    wv_total t = wv_total st + of_nat (length (audio lib (wv_decoder st) s ps))"
  using assms(1,3)
proof (induction ps arbitrary: st)
  case Nil
  then show ?case by (simp add: wav_loop.simps)
next
  case (Cons p ps)
  have p: "recordable p" "pk_opus p \<noteq> []" using Cons.prems(1) by (simp_all add: recordable_def)
  have loop: "wav_loop lib io s (record_bytes p @ records ps) st = (case wav_packet lib io s (pk_ssrc p) (pk_opus p) st of
      (t, Some code) \<Rightarrow> (t, Some code) | (t, None) \<Rightarrow> wav_loop lib io s (records ps) t)"
    using unat_size [OF p(1)] by (subst wav_loop.simps) (simp add: header_of_record read_exact_def)
  show ?case
  proof (cases "pk_ssrc p = s")
    case False
    then show ?thesis using Cons.IH [of "st\<lparr>wv_skipped := Suc (wv_skipped st)\<rparr>"] Cons.prems
      by (simp add: loop wav_packet_def audio_Cons)
  next
    case True
    obtain d r where r: "wl_decode lib (wv_decoder st) (pk_opus p) max_frame_samples = (d, r)" by fastforce
    show ?thesis
    proof (cases r)
      case (Inl err)
      then show ?thesis using Cons.IH [of "st\<lparr>wv_decoder := d, wv_errors := Suc (wv_errors st)\<rparr>"] Cons.prems True r p(2)
        by (simp add: loop wav_packet_def audio_Cons)
    next
      case (Inr pcm)
      let ?n = "length pcm * 2"
      let ?t = "st\<lparr>wv_decoder := d, wv_out := wv_out st @ samples_bytes pcm, wv_total := wv_total st + of_nat ?n,
          wv_decoded := Suc (wv_decoded st)\<rparr>"
      have a: "audio lib (wv_decoder st) s (p # ps) = samples_bytes pcm @ audio lib d s ps"
        using True r Inr by (simp add: audio_Cons)
      have b: "unat (wv_total st) + ?n + length (audio lib d s ps) < 2 ^ 32" using Cons.prems(2) a by simp
      then have tot: "unat (wv_total st + of_nat ?n) = unat (wv_total st) + ?n"
        by (simp add: unat_word_ariths unat_of_nat)
      have "size_sub 4294967295 ?n = 4294967295 - ?n" using b by (intro size_sub_id) simp
      then have "wav_packet lib io s (pk_ssrc p) (pk_opus p) st = (?t, None)"
        using True r Inr p(2) assms(2) b by (simp add: wav_packet_def Let_def)
      then show ?thesis using Cons.IH [of ?t] Cons.prems(1) b tot a by (simp add: loop ac_simps)
    qed
  qed
qed

lemma overwrite_part: "length a = off \<Longrightarrow> length x = length y \<Longrightarrow> overwrite (a @ x @ b) off y = a @ y @ b"
  by (simp add: overwrite_def)

lemma patched_header:
  assumes "wav_header rate ch 0 = Some h"
  shows "\<exists>h'. wav_header rate ch n = Some h' \<and> patch_wav_sizes (h @ data) n = h' @ data \<and> length h' = 44"
proof -
  obtain mid where mid: "length mid = 32" "\<And>k. wav_header rate ch k = Some (ascii ''RIFF'' @ le_bytes (36 + k) @ mid @ le_bytes k)"
  proof
    let ?mid = "ascii ''WAVE'' @ ascii ''fmt '' @ le_bytes (16 :: u32) @ le_bytes (1 :: u16) @ le_bytes (of_int ch :: u16) @
      le_bytes (of_int rate :: u32) @ le_bytes (of_int (rate * (ch * 2)) :: u32) @ le_bytes (of_int (ch * 2) :: u16) @
      le_bytes (16 :: u16) @ ascii ''data''"
    show "length ?mid = 32" by (simp add: ascii_def)
    show "wav_header rate ch k = Some (ascii ''RIFF'' @ le_bytes (36 + k) @ ?mid @ le_bytes k)" for k
      using assms by (auto simp: wav_header_def Let_def split: if_splits)
  qed
  have h: "h = ascii ''RIFF'' @ le_bytes (36 :: u32) @ mid @ le_bytes (0 :: u32)" using assms mid(2) [of 0] by simp
  have "overwrite (h @ data) 4 (le_bytes (36 + n)) = (ascii ''RIFF'' @ le_bytes (36 + n) @ mid) @ le_bytes (0 :: u32) @ data"
    using overwrite_part [of "ascii ''RIFF''" 4 "le_bytes (36 :: u32)" "le_bytes (36 + n)" "mid @ le_bytes (0 :: u32) @ data"]
    by (simp add: h ascii_def)
  moreover have "overwrite ((ascii ''RIFF'' @ le_bytes (36 + n) @ mid) @ le_bytes (0 :: u32) @ data) 40 (le_bytes n) =
      (ascii ''RIFF'' @ le_bytes (36 + n) @ mid) @ le_bytes n @ data"
    by (rule overwrite_part) (simp_all add: mid(1) ascii_def)
  ultimately show ?thesis using mid by (simp add: patch_wav_sizes_def ascii_def)
qed

text \<open>An environment in which nothing fails.\<close>

definition working_io :: "bytes \<Rightarrow> wav_io" where
  "working_io input = \<lparr>wi_input = Some input, wi_reopen = True, wi_output = True, wi_header = True, wi_write = \<lambda>_. True, wi_patch = True\<rparr>"

text \<open>
  C39. What was recorded is what is played. The file that the bot writes for the packets it received is converted, for a source that
  is asked for or the only one, to a WAV file with the samples that the decoder makes of the packets of that source, in
  the order of their arrival, and nothing else, behind a header with their size; packets of other sources and
  packets that cannot be decoded are left out.
\<close>

theorem recording_converted:
  assumes "list_all recordable ps" "length ps \<le> 1500" "parse_args argv args_init = Some a" "\<not> ar_list_only a"
    and "selects a ps s" "wl_create lib (ar_sample_rate a) (ar_channels a) = Inr d"
    and "ar_sample_rate a * (ar_channels a * 2) \<le> 2 ^ 31 - 1" "length (audio lib d s ps) < 2 ^ 32 - 36"
  shows "\<exists>r h. start_recording True (map Inr ps) recorder_init = (r, None) \<and>
    wav_header (ar_sample_rate a) (ar_channels a) (of_nat (length (audio lib d s ps))) = Some h \<and> length h = 44 \<and>
    wav_main lib (working_io (rc_file r)) argv = Some (0, Some (h @ audio lib d s ps))"
proof -
  let ?io = "working_io (records ps)"
  obtain r where r: "start_recording True (map Inr ps) recorder_init = (r, None)" "rc_file r = records ps"
    using recording_file [OF assms(1,2)] by blast
  obtain h where h: "wav_header (ar_sample_rate a) (ar_channels a) 0 = Some h"
    using assms(7) unfolding wav_header_def Let_def not_less [symmetric] by simp
  let ?s = "\<lparr>wv_decoder = d, wv_out = h, wv_total = 0, wv_decoded = 0, wv_skipped = 0, wv_errors = 0\<rparr>"
  obtain t where t: "wav_loop lib ?io s (records ps) ?s = (t, None)" "wv_out t = h @ audio lib d s ps"
      "wv_total t = of_nat (length (audio lib d s ps))"
    using wav_loop_records [OF assms(1), of ?io ?s lib s] assms(8) by (auto simp: working_io_def)
  obtain h' where h': "wav_header (ar_sample_rate a) (ar_channels a) (wv_total t) = Some h'" "length h' = 44"
      "patch_wav_sizes (wv_out t) (wv_total t) = h' @ audio lib d s ps"
    using patched_header [OF h] t(2) by metis
  have "wav_convert lib ?io a (records ps) s = Some (0, Some (h' @ audio lib d s ps))"
    using h h'(3) t(1) assms(6) by (simp add: wav_convert_def working_io_def)
  then have "wav_main lib ?io argv = Some (0, Some (h' @ audio lib d s ps))"
    using assms(3,4) selected [OF assms(5,1)] by (simp add: wav_main_def working_io_def Let_def)
  then show ?thesis using r h' t(3) by auto
qed

definition example_wav_lib :: "unit wav_lib" where
  "example_wav_lib = \<lparr>wl_create = \<lambda>_ _. Inr (), wl_decode = \<lambda>d bs _. (d, if hd bs = 0 then Inl (-4) else Inr (map ucast bs))\<rparr>"

definition example_packets :: "packet list" where
  "example_packets = map (\<lambda>(s, bs). \<lparr>pk_sequence = 1, pk_timestamp = 960, pk_ssrc = s, pk_opus = bs, pk_user_id = 5\<rparr>)
     [(7, [1, 2]), (8, [3]), (7, [0]), (7, [4])]"

theorem recording_converted_witness:
  "\<exists>r h. start_recording True (map Inr example_packets) recorder_init = (r, None) \<and>
    wav_header 48000 2 6 = Some h \<and> length h = 44 \<and>
    wav_main example_wav_lib (working_io (rc_file r)) [''--ssrc'', ''0x7''] = Some (0, Some (h @ [1, 0, 2, 0, 4, 0]))"
proof -
  have a: "audio example_wav_lib () 7 example_packets = [1, 0, 2, 0, 4, 0]"
    by (simp add: audio_def example_packets_def example_wav_lib_def samples_bytes_def le_bytes_def upt_rec)
  have p: "parse_args [''--ssrc'', ''0x7''] args_init = Some (args_init\<lparr>ar_ssrc := Some 7\<rparr>)"
    by (simp add: parse_u32_def number0_def c_space_def digits_value_def SIZE_MAX_def)
  have r: "list_all recordable example_packets" "length example_packets \<le> 1500"
    by (simp_all add: example_packets_def recordable_def)
  have s: "selects (args_init\<lparr>ar_ssrc := Some 7\<rparr>) example_packets 7" by (simp add: selects_def example_packets_def)
  show ?thesis
    using recording_converted [OF r p _ s, of example_wav_lib "()"] a
    by (simp add: args_init_def) (simp add: example_wav_lib_def)
qed

text \<open>
  A file that ends within a record: the first pass does not notice, and the second stops with an error if the header of the
  record is whole, and converts what is before it otherwise.
\<close>

lemma truncated_header:
  assumes "list_all recordable ps" "k < 14"
  shows "wav_loop lib io s (records ps @ take k (record_bytes p)) st = wav_loop lib io s (records ps) st"
proof -
  have short: "read_record_header (take k (record_bytes p)) = None"
    using assms(2) by (auto simp: read_record_header_def read_exact_def bind_eq_None_conv split: if_splits)
  show ?thesis using assms(1)
  proof (induction ps arbitrary: st)
    case Nil
    then show ?case by (simp add: wav_loop.simps short)
  next
    case (Cons q qs)
    then show ?case
      by (subst (1 2) wav_loop.simps) (simp add: header_of_record read_exact_def unat_size split: prod.split option.split)
  qed
qed

text \<open>The check on the size admits sizes with which the size of the outer chunk wraps around.\<close>

lemma chunk_size_wraps:
  "\<exists>h. wav_header 48000 2 4294967290 = Some h \<and> take 4 (drop 4 h) = le_bytes (30 :: u32) \<and>
    unat (4294967290 :: u32) \<le> size_sub 4294967295 4"
proof -
  have e: "(4294967326 :: u32) = 30" by code_simp
  show ?thesis by (simp add: wav_header_def ascii_def size_sub_def SIZE_MAX_def) (simp only: e)
qed

end
