(* ===== verification/Dca_File.thy ===== *)
theory Dca_File
  imports Buffer_Utils
begin

text \<open>
  \<^verbatim>\<open>load_sound\<close> of \<^verbatim>\<open>examples/airhorn.cpp\<close>: a file of Opus frames, each behind its size in two bytes, is read into
  a list of buffers. A size is signed; a negative one asks for a buffer that cannot be made, which throws, \<^term>\<open>None\<close>. Reading
  less than was asked for is no error but at the end of the file, where the rest of the target keeps what it held: the upper byte
  of the last size (\<open>prev\<close>), or the zeros of a new buffer.
\<close>

function load_loop :: "u16 \<Rightarrow> bytes \<Rightarrow> bytes list \<Rightarrow> bytes list option" where
  "load_loop prev [] samples = Some samples"
| "load_loop prev (b # bs) samples =
     (let hi = (case bs of [] \<Rightarrow> ucast (drop_bit 8 prev) | h # _ \<Rightarrow> h);
          opuslen = le_value [b, hi] :: u16;
          rest = drop 1 bs;
          got = take (unat opuslen) rest
      in if bit opuslen 15 then None
         else if got = [] then Some samples
         else load_loop opuslen (drop (unat opuslen) rest)
                (samples @ [got @ replicate (unat opuslen - length got) 0]))"
  by pat_completeness auto

termination
  by (relation "measure (\<lambda>(prev, bs, samples). length bs)") auto

declare load_loop.simps [simp del]

definition load_sound :: "bytes \<Rightarrow> bytes list option" where
  "load_sound file = load_loop 0 file []"

definition dca_bytes :: "bytes list \<Rightarrow> bytes" where
  "dca_bytes fs = concat (map (\<lambda>f. le_bytes (of_nat (length f) :: u16) @ f) fs)"

definition dca_frame :: "bytes \<Rightarrow> bool" where
  "dca_frame f \<longleftrightarrow> f \<noteq> [] \<and> length f < 2 ^ 15"

lemma frame_size:
  assumes "dca_frame f"
  shows "unat (of_nat (length f) :: u16) = length f" "\<not> bit (of_nat (length f) :: u16) 15"
proof -
  have l: "length f < 2 ^ 15" using assms by (simp add: dca_frame_def)
  then show u: "unat (of_nat (length f) :: u16) = length f" by (simp add: unat_of_nat)
  show "\<not> bit (of_nat (length f) :: u16) 15" unfolding bit_of_nat_iff using l by (simp add: bit_iff_odd [of "length f"])
qed

lemma load_frame:
  assumes "dca_frame f"
  shows "load_loop prev (le_bytes (of_nat (length f) :: u16) @ f @ rest) acc = load_loop (of_nat (length f)) rest (acc @ [f])"
    and "0 < k \<Longrightarrow> k < length f \<Longrightarrow> load_loop prev (le_bytes (of_nat (length f) :: u16) @ take k f) acc =
      Some (acc @ [take k f @ replicate (length f - k) 0])"
proof -
  let ?n = "of_nat (length f) :: u16"
  obtain x y where b: "le_bytes ?n = [x, y]" by (auto simp: le_bytes_def upt_rec)
  have v: "le_value [x, y] = ?n" using le_value_le_bytes [of ?n] b by simp
  note step = load_loop.simps(2) [of prev x "y # ws" acc for ws]
  show "load_loop prev (le_bytes ?n @ f @ rest) acc = load_loop ?n rest (acc @ [f])"
    using frame_size [OF assms] assms by (simp add: b v step Let_def dca_frame_def del: le_value.simps)
  show "0 < k \<Longrightarrow> k < length f \<Longrightarrow> load_loop prev (le_bytes ?n @ take k f) acc = Some (acc @ [take k f @ replicate (length f - k) 0])"
    using frame_size [OF assms] assms
    by (simp add: b v step load_loop.simps(1) Let_def dca_frame_def min_def del: le_value.simps)
qed

text \<open>Every frame of a file is loaded, in order.\<close>

lemma sounds_loaded:
  assumes "list_all dca_frame fs"
  shows "load_sound (dca_bytes fs) = Some fs"
proof -
  have "load_loop prev (dca_bytes fs) acc = Some (acc @ fs)" for prev acc
    using assms
  proof (induction fs arbitrary: prev acc)
    case (Cons f fs)
    then show ?case using load_frame(1) [of f prev "dca_bytes fs" acc] by (simp add: dca_bytes_def)
  qed (simp add: dca_bytes_def load_loop.simps)
  then show ?thesis by (simp add: load_sound_def)
qed

text \<open>An empty frame ends the sound, whatever follows, and a size with the sign bit is an exception.\<close>

lemma empty_frame_ends: "load_sound (0 # 0 # []) = Some []" "load_sound (0 # 0 # 1 # 0 # 9 # rest) = Some []"
  by (simp_all add: load_sound_def load_loop.simps)

lemma negative_size_throws: "load_sound (0xFF # 0xFF # rest) = None"
proof -
  have "bit (le_value [0xFF, 0xFF] :: u16) 15" by code_simp
  then show ?thesis by (simp add: load_sound_def load_loop.simps(2) Let_def del: le_value.simps)
qed

end
