(* ===== verification/Spec2Isabelle.thy ===== *)
theory Spec2Isabelle
  imports Dave_Properties Lru_Cache Rate_Limiter Voice_Link Gateway_Properties Shard Component_Builders
    Websocket Udp Http Timer_Queue Entity_Guild Entity_Post Modal_Response Gateway_Event Requests
    Embed_Builder Json_Helpers Client_Options Event_Emitter Log_Filter Opus_Codec Persisted_Key Recording Dca_File
begin

text \<open>
  A verification library for ekizu, a C++ client library for the Discord API. All paths below are
  relative to the repository (\<^verbatim>\<open>src/\<close> and \<^verbatim>\<open>include/ekizu/\<close> are its two source directories).

  \<^bold>\<open>The program.\<close> A bot talks to Discord over three channels. Requests go through an HTTP client
  (\<^verbatim>\<open>src/http_client.cpp\<close>, on connections of \<^verbatim>\<open>src/http.cpp\<close>) behind a rate limiter
  (\<^verbatim>\<open>src/rate_limiter.cpp\<close>). Events arrive on a shard (\<^verbatim>\<open>src/shard.cpp\<close>), a WebSocket connection
  (\<^verbatim>\<open>src/ws.cpp\<close>) that carries a zlib stream (\<^verbatim>\<open>src/inflater.cpp\<close>). Voice has a WebSocket of its own for
  control (\<^verbatim>\<open>src/voice/voice_websocket.cpp\<close>, \<^verbatim>\<open>voice_heartbeat.cpp\<close>, \<^verbatim>\<open>voice_reconnect.cpp\<close>,
  \<^verbatim>\<open>voice_connection_impl.cpp\<close>) and a UDP socket (\<^verbatim>\<open>src/udp.cpp\<close>) for media: \<^verbatim>\<open>voice_sender.cpp\<close> and
  \<^verbatim>\<open>voice_receiver.cpp\<close> move Opus frames in RTP packets sealed by \<^verbatim>\<open>voice_crypto.cpp\<close>. Under the
  transport seal there is a second, end-to-end layer, DAVE (\<^verbatim>\<open>src/dave/\<close>): an MLS session
  (\<^verbatim>\<open>session.cpp\<close>) agrees on keys, \<^verbatim>\<open>voice_dave_handler.cpp\<close> turns its epochs into key ratchets, and
  \<^verbatim>\<open>encryptor.cpp\<close> and \<^verbatim>\<open>decryptor.cpp\<close> seal and open frames codec by codec. What a bot sends and
  receives are JSON documents: the entities of the API (\<^verbatim>\<open>src/*.cpp\<close>), the events of the gateway
  (\<^verbatim>\<open>src/gateway/\<close>), the requests (\<^verbatim>\<open>src/request/\<close>) and the message components
  (\<^verbatim>\<open>src/message_component.cpp\<close>).

  \<^bold>\<open>Conventions.\<close> A class is a record with the fields of the source, a tagged union a datatype, an
  operation a function from the old state to the new one. A read or write behind the end of a
  buffer, the use of a dangling iterator and every exception that leaves a function are values of
  the result (theory \<open>Prelude\<close>: a span operation returns \<open>None\<close>), so that safety theorems say that
  these values do not occur. Machine integers are words where they can wrap; sizes are naturals with
  the bound written out where the source computes with them. Code that is not in the repository
  (OpenSSL, libsodium, mlspp, zlib, Asio, Beast) enters as an argument, with its documented
  behaviour as a named predicate among the hypotheses of the theorem that needs it; every such
  theorem has a witness with a concrete instance. Event-driven components are step functions: one
  event is one handler run to its next suspension, and a theorem about a component speaks of all
  sequences of events, so of every order in which calls, completions and failures can arrive.

  \<^bold>\<open>Theories.\<close>

  \<^item> \<open>Prelude\<close>, \<open>Event_Runs\<close>: the shared vocabulary; runs of step functions, and the contracts
    \<open>event_invariant\<close> and \<open>call_system\<close> that all event-driven components are instances of.
  \<^item> \<open>Leb128\<close> (\<^verbatim>\<open>leb128.cpp\<close>), \<open>Buffer_Utils\<close> (\<^verbatim>\<open>buffer_utils.hpp\<close>), \<open>Dave_Types\<close>,
    \<open>Frame_Processors\<close> (\<^verbatim>\<open>frame_processors.cpp\<close>) and \<open>Codec_Utils\<close> (\<^verbatim>\<open>codec_utils.cpp\<close>): how a media
    frame is taken apart into clear and encrypted ranges and put together again. \<open>Frame_Format\<close>
    states the same without indices and shows the two agree; \<open>Outbound_Body\<close> and \<open>Codec_Bodies\<close>
    show what each codec does with a well-formed frame and on which input it misbehaves;
    \<open>H264_Stream\<close> says what an H264 frame is without the code (start codes, Exp-Golomb numbers) and
    connects this to what the code finds in one.
  \<^item> \<open>Aead_Cipher\<close>, \<open>Cipher_Manager\<close>, \<open>Encryptor\<close>, \<open>Decryptor\<close>: ratchets, the window of accepted
    nonces, sealing and opening. \<open>Dave_Properties\<close> has the theorems of the media layer: round trip of
    a stream, memory safety on arbitrary bytes, nonces accepted once, refinement of the nonce window.
  \<^item> \<open>Roster\<close>, \<open>Dave_Session\<close>: \<^verbatim>\<open>session.cpp\<close>; the session stays well-formed, never dereferences a
    null pointer (a ghost field records one), and answers proposals with the commit it should.
  \<^item> \<open>Voice_Rtp\<close>, \<open>Voice_State\<close>, \<open>Voice_Receiver\<close>, \<open>Voice_Sender\<close>: packets, transport encryption,
    the receive loop and the send loop; \<open>Voice_Link\<close> joins both ends with DAVE between them
    (locale \<open>media_link\<close>, met with and without end-to-end encryption).
  \<^item> \<open>Voice_Dave\<close>, \<open>Voice_Gateway\<close>, \<open>Gateway_Properties\<close>: the control side of a voice connection as
    one machine, its invariant, resuming and the fate of heartbeats.
  \<^item> \<open>Inflater\<close>, \<open>Shard\<close>: the gateway connection; every call is answered once, sessions resume.
  \<^item> \<open>Websocket\<close>, \<open>Udp\<close>, \<open>Http\<close>: the transport layer; who is answered when, in which order, and
    what is lost. \<open>Rate_Limiter\<close>: serial, in order, within the limits, one answer for each request.
  \<^item> \<open>Lru_Cache\<close>: the cache refines a bounded list by recency and its iterators never dangle.
  \<^item> \<open>Json\<close>, \<open>Json_Util\<close> (\<^verbatim>\<open>json_util.hpp\<close>), \<open>Message_Component\<close>, \<open>Component_Codec\<close>,
    \<open>Component_Leaves\<close>, \<open>Component_Tree\<close>, \<open>Component_Properties\<close>, \<open>Component_Builders\<close>: reading,
    writing and building of message components (locales \<open>json_codec\<close>, \<open>component_codec\<close>,
    \<open>builder\<close>).

  \<^item> \<open>Json_Helpers\<close>: presence tests, defaults, variants, parsing with error contexts (\<^verbatim>\<open>error.hpp\<close>,
    \<^verbatim>\<open>error_context.cpp\<close>).
  \<^item> \<open>Entity_Codec\<close>: reading and writing of records member by member, with the lemmas that carry the
    round trips of \<open>Entity_User\<close>, \<open>Entity_Channel\<close>, \<open>Entity_Message\<close>, \<open>Entity_Guild\<close>,
    \<open>Entity_Post\<close> (the message itself), \<open>Modal_Response\<close> and \<open>Entity_Interaction\<close>. For each record:
    which values are read back as written, and which members are lost. \<open>Embed_Builder\<close> builds embeds.
  \<^item> \<open>Gateway_Event\<close>: all events, the table of \<^verbatim>\<open>event_from_str\<close>, and the theorem that a dispatched
    event reaches the call of the shard that waits for it (locale \<open>event_conversion\<close>).
  \<^item> \<open>Application_Command\<close>, \<open>Request_Fields\<close>, \<open>Multipart\<close>, \<open>Requests\<close>: what is sent for every call of
    the HTTP client. \<open>api_call\<close> has one constructor for each factory of \<^verbatim>\<open>http_client.cpp\<close> and
    \<open>api_request\<close> the request it converts to; targets identify what they address, uploads arrive.
    \<open>Multipart\<close> reads what was encoded with a reader of the standard (RFC 2046).
  \<^item> \<open>Timer_Queue\<close> (\<^verbatim>\<open>timer_queue.hpp\<close>), \<open>Event_Emitter\<close> (\<^verbatim>\<open>event_emitter.hpp\<close>), \<open>Log_Filter\<close>
    (\<^verbatim>\<open>logger.cpp\<close>), \<open>Client_Options\<close> (\<^verbatim>\<open>client_options.hpp\<close>, \<^verbatim>\<open>intents.hpp\<close>, \<^verbatim>\<open>permissions.hpp\<close>).
  \<^item> \<open>Opus_Codec\<close>: encoding with the lifetime of its buffers (\<^verbatim>\<open>opus_codec.cpp\<close>), and connecting a voice
    connection (\<^verbatim>\<open>voice_connection.cpp\<close>). \<open>Persisted_Key\<close>: the key files of \<^verbatim>\<open>persisted_key_pair.cpp\<close>.
  \<^item> \<open>Recording\<close>, \<open>Dca_File\<close>: the file formats of the example programs (\<^verbatim>\<open>examples/\<close>), from the packets of
    the voice receiver to a WAV file.

  \<^bold>\<open>Bounds and fuel.\<close> Loops are structural recursions or have a measure. The loops that need not end are
  \<open>partial_function (option)\<close>: \<open>av1_loop\<close>, for which both the frames on which it returns and frames
  on which it does not are theorems; \<open>inflate_loop\<close>, which returns for every library that meets the
  contract of zlib; and \<open>code_groups\<close>, which returns for groups of a positive size. Fuel occurs
  once, in \<open>fail_queued\<close> of the rate limiter's shutdown: every round pops one request and nothing
  is queued meanwhile, so the length of the queue is enough.

  \<^bold>\<open>Not modelled.\<close> The executors and strands of Asio are represented by their guarantee (handlers of
  one strand do not overlap); the wrappers that only post a result to an executor are left out. TLS, name
  resolution, the cryptographic primitives, zlib, Opus, the MLS library, the JSON parser and the sinks of
  the logger are parameters. \<^verbatim>\<open>shard_manager.hpp\<close> declares a class without an implementation. Of the
  request classes the templates that only hand a request to the rate limiter are represented by
  \<open>request_sender_answer\<close>. The tests, and the examples but for their file formats, are left out.
\<close>

end
